(* ===== verification/CRF_Prelude.thy ===== *)
theory CRF_Prelude
  imports Main "HOL-Library.Word" "HOL-Library.AList" "HOL-Library.List_Lexorder"
    "HOL-Library.Char_ord" "HOL-Library.Multiset"
begin

text \<open>
  Shared vocabulary of the Compiler Runtime Fabric development: machine integers at their
  width, the hash tables of the C++ registries as association lists behind the interface
  \<open>keyed_store\<close>, and the generic list, option and word facts the components use.

  An \<open>std::unordered_map<std::uint64_t, V>\<close> is modelled as an association list with
  distinct keys. The list order stands for the unspecified iteration order of the container:
  every theorem that mentions an iteration is stated for an arbitrary list.
\<close>

unbundle bit_operations_syntax

section \<open>Collections of facts\<close>

named_theorems crf_defs \<open>unfolding rules of operations\<close>
named_theorems crf_inv \<open>preservation of component invariants\<close>

section \<open>Machine integers\<close>

type_synonym u8 = "8 word"
type_synonym u16 = "16 word"
type_synonym u32 = "32 word"
type_synonym u64 = "64 word"

section \<open>Hash tables\<close>

type_synonym ('k, 'v) umap = "('k \<times> 'v) list"

definition um_find :: "('k, 'v) umap \<Rightarrow> 'k \<Rightarrow> 'v option" where
  "um_find m k = map_of m k"

text \<open>\<open>operator[] =\<close>: replace the value in place, or append a new entry.\<close>

definition um_set :: "'k \<Rightarrow> 'v \<Rightarrow> ('k, 'v) umap \<Rightarrow> ('k, 'v) umap" where
  "um_set k v m = AList.update k v m"

text \<open>\<open>emplace\<close>: no effect when the key is present.\<close>

definition um_emplace :: "'k \<Rightarrow> 'v \<Rightarrow> ('k, 'v) umap \<Rightarrow> ('k, 'v) umap" where
  "um_emplace k v m = (case map_of m k of None \<Rightarrow> m @ [(k, v)] | Some _ \<Rightarrow> m)"

text \<open>A write through the pointer that \<open>find\<close> returned.\<close>

definition um_modify :: "'k \<Rightarrow> ('v \<Rightarrow> 'v) \<Rightarrow> ('k, 'v) umap \<Rightarrow> ('k, 'v) umap" where
  "um_modify k f m = map (\<lambda>(k', v). (k', if k' = k then f v else v)) m"

definition um_ok :: "('k, 'v) umap \<Rightarrow> bool" where
  "um_ok m = distinct (map fst m)"

subsection \<open>The interface every registry relies on\<close>

locale keyed_store =
  fixes find :: "'m \<Rightarrow> 'k \<Rightarrow> 'v option"
    and set_at :: "'k \<Rightarrow> 'v \<Rightarrow> 'm \<Rightarrow> 'm"
    and emplace :: "'k \<Rightarrow> 'v \<Rightarrow> 'm \<Rightarrow> 'm"
    and modify :: "'k \<Rightarrow> ('v \<Rightarrow> 'v) \<Rightarrow> 'm \<Rightarrow> 'm"
    and invar :: "'m \<Rightarrow> bool"
  assumes find_set: "find (set_at k v m) = (find m)(k \<mapsto> v)"
    and find_emplace: "find (emplace k v m) =
      (case find m k of None \<Rightarrow> (find m)(k \<mapsto> v) | Some _ \<Rightarrow> find m)"
    and find_modify: "find (modify k f m) = (find m)(k := map_option f (find m k))"
    and invar_set: "invar m \<Longrightarrow> invar (set_at k v m)"
    and invar_emplace: "invar m \<Longrightarrow> invar (emplace k v m)"
    and invar_modify: "invar m \<Longrightarrow> invar (modify k f m)"
begin

lemma find_set_same: "find (set_at k v m) k = Some v"
  by (simp add: find_set)

lemma find_set_other: "k' \<noteq> k \<Longrightarrow> find (set_at k v m) k' = find m k'"
  by (simp add: find_set)

lemma find_emplace_fresh: "find m k = None \<Longrightarrow> find (emplace k v m) k = Some v"
  by (simp add: find_emplace)

lemma find_emplace_keeps: "find m k' = Some w \<Longrightarrow> find (emplace k v m) k' = Some w"
  by (auto simp: find_emplace split: option.splits)

lemma find_modify_other: "k' \<noteq> k \<Longrightarrow> find (modify k f m) k' = find m k'"
  by (simp add: find_modify)

lemma find_modify_dom: "(find (modify k f m) k' = None) = (find m k' = None)"
  by (simp add: find_modify)

text \<open>A predicate that every stored value satisfies.\<close>

definition all_values :: "('v \<Rightarrow> bool) \<Rightarrow> 'm \<Rightarrow> bool" where
  "all_values P m = (\<forall>k v. find m k = Some v \<longrightarrow> P v)"

lemma all_values_set: "all_values P m \<Longrightarrow> P v \<Longrightarrow> all_values P (set_at k v m)"
  by (auto simp: all_values_def find_set)

lemma all_values_emplace: "all_values P m \<Longrightarrow> P v \<Longrightarrow> all_values P (emplace k v m)"
  by (auto simp: all_values_def find_emplace split: option.splits if_splits)

lemma all_values_modify:
  "all_values P m \<Longrightarrow> (\<And>v. find m k = Some v \<Longrightarrow> P v \<Longrightarrow> P (f v)) \<Longrightarrow> all_values P (modify k f m)"
  by (auto simp: all_values_def find_modify split: if_splits)

lemma all_valuesD: "all_values P m \<Longrightarrow> find m k = Some v \<Longrightarrow> P v"
  by (auto simp: all_values_def)

end

lemma map_of_modify:
  "map_of (map (\<lambda>(k', v). (k', if k' = k then f v else v)) m) =
    (map_of m)(k := map_option f (map_of m k))"
  by (induction m) (auto simp: fun_eq_iff)

lemma fst_modify: "map fst (um_modify k f m) = map fst m"
  by (simp add: um_modify_def comp_def case_prod_beta)

lemma um_ok_emplace: "um_ok m \<Longrightarrow> um_ok (um_emplace k v m)"
  by (auto simp: um_ok_def um_emplace_def map_of_eq_None_iff split: option.splits)

interpretation um: keyed_store um_find um_set um_emplace um_modify um_ok
proof unfold_locales
  show "um_find (um_set k v m) = (um_find m)(k \<mapsto> v)" for k v and m :: "('a, 'b) umap"
    by (simp add: um_find_def um_set_def update_conv' fun_eq_iff)
  show "um_find (um_emplace k v m) =
      (case um_find m k of None \<Rightarrow> (um_find m)(k \<mapsto> v) | Some _ \<Rightarrow> um_find m)"
    for k v and m :: "('a, 'b) umap"
    by (auto simp: um_find_def um_emplace_def fun_eq_iff map_add_def split: option.splits)
  show "um_find (um_modify k f m) = (um_find m)(k := map_option f (um_find m k))"
    for k f and m :: "('a, 'b) umap"
    by (simp add: um_find_def um_modify_def map_of_modify fun_eq_iff)
  show "um_ok (um_set k v m)" if "um_ok m" for k v and m :: "('a, 'b) umap"
    using that by (simp add: um_ok_def um_set_def distinct_update)
  show "um_ok (um_emplace k v m)" if "um_ok m" for k v and m :: "('a, 'b) umap"
    using that by (rule um_ok_emplace)
  show "um_ok (um_modify k f m)" if "um_ok m" for k f and m :: "('a, 'b) umap"
    using that by (simp add: um_ok_def fst_modify)
qed

lemmas um_lookups = um.find_set um.find_emplace um.find_modify

lemma um_find_Nil [simp]: "um_find [] k = None"
  by (simp add: um_find_def)

lemma um_find_mem: "um_find m k = Some v \<Longrightarrow> (k, v) \<in> set m"
  by (simp add: um_find_def map_of_SomeD)

lemma um_ok_mem: "um_ok m \<Longrightarrow> (k, v) \<in> set m \<Longrightarrow> um_find m k = Some v"
  by (simp add: um_find_def um_ok_def)

lemma um_modify_length [simp]: "length (um_modify k f m) = length m"
  by (simp add: um_modify_def)

text \<open>A relation between keys and values that every entry satisfies.\<close>

definition um_all :: "('k \<Rightarrow> 'v \<Rightarrow> bool) \<Rightarrow> ('k, 'v) umap \<Rightarrow> bool" where
  "um_all P m = (\<forall>(k, v) \<in> set m. P k v)"

lemma um_all_Nil [simp]: "um_all P []"
  by (simp add: um_all_def)

lemma um_all_emplace: "um_all P m \<Longrightarrow> P k v \<Longrightarrow> um_all P (um_emplace k v m)"
  by (auto simp: um_all_def um_emplace_def split: option.splits)

lemma um_all_set: "um_all P m \<Longrightarrow> P k v \<Longrightarrow> um_all P (um_set k v m)"
  unfolding um_all_def um_set_def by (induction m) auto

lemma um_all_modify:
  "um_all P m \<Longrightarrow> (\<And>v. (k, v) \<in> set m \<Longrightarrow> P k v \<Longrightarrow> P k (f v)) \<Longrightarrow> um_all P (um_modify k f m)"
  by (fastforce simp: um_all_def um_modify_def)

lemma um_all_find: "um_all P m \<Longrightarrow> um_find m k = Some v \<Longrightarrow> P k v"
  by (auto simp: um_all_def dest: um_find_mem)

lemma um_all_map: "um_all P m \<Longrightarrow> (\<And>k v. P k v \<Longrightarrow> P k (f k v)) \<Longrightarrow> um_all P (map (\<lambda>(k, v). (k, f k v)) m)"
  by (auto simp: um_all_def)

lemmas um_alls = um_all_emplace um_all_set um_all_modify

lemma um_find_map: "um_find (map (\<lambda>(k, v). (k, f k v)) m) k = map_option (f k) (um_find m k)"
  unfolding um_find_def by (induction m) auto

section \<open>Decimal rendering (\<open>std::to_string\<close>)\<close>

fun dec_string :: "nat \<Rightarrow> string" where
  "dec_string n = (if n < 10 then [char_of (48 + n)]
     else dec_string (n div 10) @ [char_of (48 + n mod 10)])"

declare dec_string.simps [simp del]

section \<open>Lists\<close>

lemma find_Some_in: "List.find P xs = Some x \<Longrightarrow> x \<in> set xs \<and> P x"
  by (auto simp: find_Some_iff)

lemma if_chain: "x \<noteq> v \<Longrightarrow> ((if c then x else y) = v) = (\<not> c \<and> y = v)"
  by simp

lemma foldl_option_None: "foldl (\<lambda>acc x. case acc of None \<Rightarrow> None | Some a \<Rightarrow> f a x) None xs = None"
  by (induction xs) auto

lemma drop_oldest_length: "length xs \<le> n \<Longrightarrow> 0 < n \<Longrightarrow>
    length ((if n \<le> length xs then tl xs else xs) @ [x]) \<le> n"
  by auto

end
