(* ===== verification/Strong_Id.thy ===== *)
theory Strong_Id
  imports CRF_Prelude
begin

text \<open>
  \<open>include/crf/strong_id.hpp\<close>: strongly typed identities, generations, references and the
  per-domain identity allocator. The C++ template parameter \<open>Tag\<close> is a phantom type
  parameter, so that an identity of one authority domain cannot be used for another one; the
  static member \<open>Tag::id_name\<close> is the explicit argument \<open>name\<close> of the rendering functions.
\<close>

section \<open>Definitions\<close>

datatype 'tag strong_id = StrongId (id_value: u64)

definition id_absent :: "'tag strong_id" where
  "id_absent = StrongId 0"

definition id_present :: "'tag strong_id \<Rightarrow> bool" where
  "id_present i = (id_value i \<noteq> 0)"

instantiation strong_id :: (type) linorder
begin

definition less_eq_strong_id :: "'a strong_id \<Rightarrow> 'a strong_id \<Rightarrow> bool" where
  "less_eq_strong_id a b = (id_value a \<le> id_value b)"

definition less_strong_id :: "'a strong_id \<Rightarrow> 'a strong_id \<Rightarrow> bool" where
  "less_strong_id a b = (id_value a < id_value b)"

instance
  by standard (auto simp: less_eq_strong_id_def less_strong_id_def strong_id.expand)

end

definition kHex :: string where
  "kHex = ''0123456789abcdef''"

text \<open>The loop \<open>for (shift = 60; shift >= 0; shift -= 4)\<close> writes one digit per shift.\<close>

definition id_shifts :: "nat list" where
  "id_shifts = [60, 56, 52, 48, 44, 40, 36, 32, 28, 24, 20, 16, 12, 8, 4, 0]"

definition id_to_string :: "string \<Rightarrow> 'tag strong_id \<Rightarrow> string" where
  "id_to_string name i =
     name @ ''-'' @ map (\<lambda>shift. kHex ! unat (drop_bit shift (id_value i) AND 0xF)) id_shifts"

definition hex_digit_value :: "char \<Rightarrow> u64 option" where
  "hex_digit_value c =
     (let n = (of_char c :: nat) in
      if of_char CHR ''0'' \<le> n \<and> n \<le> of_char CHR ''9'' then Some (of_nat (n - of_char CHR ''0''))
      else if of_char CHR ''a'' \<le> n \<and> n \<le> of_char CHR ''f''
        then Some (of_nat (n - of_char CHR ''a'' + 10))
      else if of_char CHR ''A'' \<le> n \<and> n \<le> of_char CHR ''F''
        then Some (of_nat (n - of_char CHR ''A'' + 10))
      else None)"

fun parse_hex_digits :: "u64 \<Rightarrow> string \<Rightarrow> u64 option" where
  "parse_hex_digits v [] = Some v"
| "parse_hex_digits v (c # cs) =
     (case hex_digit_value c of None \<Rightarrow> None | Some d \<Rightarrow> parse_hex_digits (push_bit 4 v OR d) cs)"

definition id_try_parse :: "string \<Rightarrow> string \<Rightarrow> 'tag strong_id option" where
  "id_try_parse name text =
     (if length text \<noteq> length name + 1 + 16 then None
      else if take (length name) text \<noteq> name then None
      else if text ! length name \<noteq> CHR ''-'' then None
      else map_option StrongId (parse_hex_digits 0 (drop (length name + 1) text)))"

definition id_parse :: "string \<Rightarrow> string \<Rightarrow> 'tag strong_id" where
  "id_parse name text = (case id_try_parse name text of None \<Rightarrow> StrongId 0 | Some i \<Rightarrow> i)"

subsection \<open>Generations\<close>

datatype 'tag generation = Generation (gen_value: u64)

definition kMax :: u64 where
  "kMax = 0xFFFFFFFFFFFFFFFF"

definition gen_initial :: "'tag generation" where
  "gen_initial = Generation 1"

definition gen_absent :: "'tag generation" where
  "gen_absent = Generation 0"

definition gen_present :: "'tag generation \<Rightarrow> bool" where
  "gen_present g = (gen_value g \<noteq> 0)"

definition gen_next :: "'tag generation \<Rightarrow> 'tag generation" where
  "gen_next g = (if gen_value g = kMax then g else Generation (gen_value g + 1))"

definition gen_advance :: "'tag generation \<Rightarrow> u64 \<Rightarrow> 'tag generation" where
  "gen_advance g delta =
     (if delta = 0 then g
      else if gen_value g > kMax - delta then Generation kMax
      else Generation (gen_value g + delta))"

definition gen_to_string :: "'tag generation \<Rightarrow> string" where
  "gen_to_string g = dec_string (unat (gen_value g))"

instantiation generation :: (type) linorder
begin

definition less_eq_generation :: "'a generation \<Rightarrow> 'a generation \<Rightarrow> bool" where
  "less_eq_generation a b = (gen_value a \<le> gen_value b)"

definition less_generation :: "'a generation \<Rightarrow> 'a generation \<Rightarrow> bool" where
  "less_generation a b = (gen_value a < gen_value b)"

instance
  by standard (auto simp: less_eq_generation_def less_generation_def generation.expand)

end

subsection \<open>References\<close>

datatype 'tag referenced = Ref (ref_id: "'tag strong_id") (ref_gen: "'tag generation")

definition ref_absent :: "'tag referenced" where
  "ref_absent = Ref id_absent gen_absent"

definition ref_present :: "'tag referenced \<Rightarrow> bool" where
  "ref_present r = id_present (ref_id r)"

definition ref_to_string :: "string \<Rightarrow> 'tag referenced \<Rightarrow> string" where
  "ref_to_string name r = id_to_string name (ref_id r) @ ''@'' @ gen_to_string (ref_gen r)"

subsection \<open>Identity allocation\<close>

datatype 'tag id_allocator = IdAllocator (counter: u64)

definition allocator_init :: "'tag id_allocator" where
  "allocator_init = IdAllocator 1"

definition alloc_next :: "'tag id_allocator \<Rightarrow> 'tag strong_id \<times> 'tag id_allocator" where
  "alloc_next a =
     (let c = (if counter a = 0 then 1 else counter a)
      in (StrongId c, IdAllocator (if c \<noteq> kMax then c + 1 else c)))"

definition alloc_observe :: "'tag strong_id \<Rightarrow> 'tag id_allocator \<Rightarrow> 'tag id_allocator" where
  "alloc_observe i a =
     (if id_value i \<ge> counter a
      then IdAllocator (if id_value i = kMax then kMax else id_value i + 1)
      else a)"

text \<open>A run of \<open>n\<close> allocations, as a registry performs them over its lifetime.\<close>

fun alloc_many :: "nat \<Rightarrow> 'tag id_allocator \<Rightarrow> 'tag strong_id list \<times> 'tag id_allocator" where
  "alloc_many 0 a = ([], a)"
| "alloc_many (Suc n) a =
     (case alloc_next a of (i, a') \<Rightarrow> (case alloc_many n a' of (is, a'') \<Rightarrow> (i # is, a'')))"

subsection \<open>Authority domains\<close>

datatype session_tag = SessionTag
datatype compilation_tag = CompilationTag
datatype attempt_tag = AttemptTag
datatype phase_tag = PhaseTag
datatype toolchain_tag = ToolchainTag
datatype component_tag = ComponentTag
datatype target_tag = TargetTag
datatype source_tag = SourceTag
datatype ir_tag = IRTag
datatype intermediate_tag = IntermediateTag
datatype final_tag = FinalTag
datatype environment_tag = EnvironmentTag
datatype diagnostics_tag = DiagnosticsTag
datatype invocation_tag = InvocationTag
datatype process_tag = ProcessTag
datatype lease_tag = LeaseTag
datatype policy_tag = PolicyTag
datatype request_tag = RequestTag
datatype commit_tag = CommitTag
datatype evidence_tag = EvidenceTag
datatype provenance_tag = ProvenanceTag
datatype recovery_tag = RecoveryTag
datatype worker_tag = WorkerTag
datatype epoch_tag = EpochTag

text \<open>The stable lowercase names of the tags, in declaration order.\<close>

definition id_names :: "string list" where
  "id_names = [''session'', ''compilation'', ''attempt'', ''phase'', ''toolchain'', ''component'',
     ''target'', ''source'', ''ir'', ''intermediate'', ''artifact'', ''environment'',
     ''diagnostics'', ''invocation'', ''process'', ''lease'', ''policy'', ''request'', ''commit'',
     ''evidence'', ''provenance'', ''recovery'', ''worker'', ''epoch'']"

type_synonym session_id = "session_tag strong_id"
type_synonym compilation_id = "compilation_tag strong_id"
type_synonym attempt_id = "attempt_tag strong_id"
type_synonym phase_id = "phase_tag strong_id"
type_synonym toolchain_id = "toolchain_tag strong_id"
type_synonym target_id = "target_tag strong_id"
type_synonym source_id = "source_tag strong_id"
type_synonym artifact_id = "intermediate_tag strong_id"
type_synonym final_artifact_id = "final_tag strong_id"
type_synonym environment_id = "environment_tag strong_id"
type_synonym diagnostic_set_id = "diagnostics_tag strong_id"
type_synonym invocation_id = "invocation_tag strong_id"
type_synonym process_id = "process_tag strong_id"
type_synonym lease_id = "lease_tag strong_id"
type_synonym policy_id = "policy_tag strong_id"
type_synonym request_id = "request_tag strong_id"
type_synonym commit_id = "commit_tag strong_id"
type_synonym evidence_id = "evidence_tag strong_id"
type_synonym provenance_id = "provenance_tag strong_id"
type_synonym recovery_id = "recovery_tag strong_id"
type_synonym epoch_id = "epoch_tag strong_id"

section \<open>Generations are monotone and saturate\<close>

lemma unat_u64: "unat (x :: u64) < 2 ^ 64"
  using unsigned_less [of x] by simp

lemma kMax_minus_1: "kMax = - 1"
  by (simp add: kMax_def)

lemma kMax_max [simp]: "x \<le> kMax"
  by (simp add: kMax_minus_1)

lemma unat_kMax: "unat kMax = 2 ^ 64 - 1"
  by (simp add: kMax_def)

lemma less_kMax: "x \<noteq> kMax \<Longrightarrow> x < kMax"
  by (simp add: order.not_eq_order_implies_strict)

lemma unat_less_kMax: "x \<noteq> kMax \<Longrightarrow> unat x < 2 ^ 64 - 1"
  using less_kMax [of x] by (simp add: word_less_nat_alt unat_kMax)

lemma unat_plus_one: "x \<noteq> kMax \<Longrightarrow> unat (x + 1) = unat x + 1"
  using unat_less_kMax [of x] by (subst unat_add_lem [THEN iffD1]) auto

lemma unat_gen_next: "unat (gen_value (gen_next g)) = min (unat (gen_value g) + 1) (2 ^ 64 - 1)"
  using unat_less_kMax [of "gen_value g"] by (auto simp: gen_next_def unat_plus_one unat_kMax)

lemma unat_gen_advance:
  "unat (gen_value (gen_advance g d)) = min (unat (gen_value g) + unat d) (2 ^ 64 - 1)"
proof -
  have sub: "unat (kMax - d) = unat kMax - unat d"
    by (rule unat_sub) simp
  have bound: "unat d \<le> unat kMax"
    using kMax_max [of d] by (simp add: word_le_nat_alt)
  show ?thesis
  proof (cases "gen_value g > kMax - d")
    case True
    then have "unat kMax - unat d < unat (gen_value g)"
      by (simp add: word_less_nat_alt sub)
    with True show ?thesis
      using unat_u64 [of "gen_value g"]
      by (auto simp: gen_advance_def unat_kMax)
  next
    case False
    then have "unat (gen_value g) + unat d \<le> 2 ^ 64 - 1"
      using bound by (simp add: word_less_nat_alt sub unat_kMax)
    then show ?thesis
      using False by (auto simp: gen_advance_def unat_word_ariths)
  qed
qed

lemma generation_eq_iff: "(g = h) = (unat (gen_value g) = unat (gen_value h))"
  by (cases g; cases h) (auto simp: word_unat_eq_iff)

lemma gen_next_le: "g \<le> gen_next g"
  by (simp add: less_eq_generation_def word_le_nat_alt unat_gen_next) (use unat_u64 [of "gen_value g"] in simp)

lemma gen_next_less: "gen_value g \<noteq> kMax \<Longrightarrow> g < gen_next g"
  using unat_less_kMax [of "gen_value g"]
  by (simp add: less_generation_def word_less_nat_alt unat_gen_next)

lemma gen_next_neq: "gen_value g \<noteq> kMax \<Longrightarrow> gen_next g \<noteq> g"
  using gen_next_less [of g] by auto

lemma gen_next_present [simp]: "gen_present (gen_next g)"
  by (auto simp: gen_present_def gen_next_def kMax_def unat_plus_one word_unat_eq_iff
      dest: unat_plus_one)

lemma gen_initial_present [simp]: "gen_present gen_initial"
  by (simp add: gen_present_def gen_initial_def)

section \<open>Rendering and parsing\<close>

lemma kHex_value: "d < 16 \<Longrightarrow> hex_digit_value (kHex ! d) = Some (of_nat d)"
proof -
  assume "d < 16"
  moreover have "list_all (\<lambda>d. hex_digit_value (kHex ! d) = Some (of_nat d)) [0..<16]"
    by (simp add: upt_rec [of _ 16] kHex_def hex_digit_value_def)
  ultimately show ?thesis by (simp add: list_all_iff)
qed

lemma and_15_less: "unat (x AND (15 :: u64)) < 16"
proof -
  have "x AND 15 \<le> (15 :: u64)" by (rule word_and_le1)
  then show ?thesis by (simp add: word_le_nat_alt)
qed

lemma and_15_take_bit: "x AND (15 :: u64) = take_bit 4 x"
  by (simp add: take_bit_eq_mask mask_eq_exp_minus_1)

lemma nibble_split: "push_bit 4 (drop_bit 4 x) OR (x AND 15) = (x :: u64)"
  unfolding and_15_take_bit by (rule bit_word_eqI) (auto simp: bit_simps)

lemma parse_hex_shift:
  "parse_hex_digits (drop_bit (n + 4) v) ((kHex ! unat (drop_bit n v AND 15)) # cs) =
   parse_hex_digits (drop_bit n v) cs"
  using nibble_split [of "drop_bit n v"]
  by (simp add: kHex_value and_15_less add.commute [of n])

text \<open>A descending run of shifts, written digit by digit, is read back digit by digit.\<close>

lemma parse_hex_run:
  "parse_hex_digits (drop_bit (4 * n) v)
     (map (\<lambda>shift. kHex ! unat (drop_bit shift v AND 15)) (map (\<lambda>k. 4 * k) (rev [0..<n]))) = Some v"
proof (induction n)
  case (Suc n)
  then show ?case
    using parse_hex_shift [of "4 * n" v] by (simp add: algebra_simps)
qed simp

lemma id_shifts_run: "id_shifts = map (\<lambda>k. 4 * k) (rev [0..<16])"
  by (simp add: id_shifts_def upt_rec)

lemma drop_bit_64 [simp]: "drop_bit 64 (v :: u64) = 0"
  by (rule bit_word_eqI) (simp add: bit_simps)

lemma length_id_shifts [simp]: "length id_shifts = 16"
  by (simp add: id_shifts_def)

lemma id_round_trip: "id_try_parse name (id_to_string name i) = Some i"
  using parse_hex_run [of 16 "id_value i"]
  by (simp add: id_try_parse_def id_to_string_def nth_append flip: id_shifts_run)

text \<open>
  The rendered name is part of the text, so an identity of one domain never parses as one of
  another domain: no two domain names agree once the dash is appended.
\<close>

lemma id_try_parse_name:
  assumes "id_try_parse name text = Some i"
  shows "\<exists>digits. text = name @ CHR ''-'' # digits \<and> length digits = 16"
proof -
  let ?n = "length name"
  have len: "length text = ?n + 17" and pre: "take ?n text = name" and dash: "text ! ?n = CHR ''-''"
    using assms by (auto simp: id_try_parse_def split: if_splits)
  have "text = take ?n text @ drop ?n text" by simp
  also have "drop ?n text = text ! ?n # drop (Suc ?n) text"
    using len by (simp add: Cons_nth_drop_Suc)
  finally have "text = name @ CHR ''-'' # drop (Suc ?n) text"
    using pre dash by simp
  moreover have "length (drop (Suc ?n) text) = 16"
    using len by simp
  ultimately show ?thesis by blast
qed

lemma id_parse_other_domain:
  assumes "name \<noteq> name'"
  shows "(id_try_parse name' (id_to_string name i) :: 'b strong_id option) = None"
proof (rule ccontr)
  assume "(id_try_parse name' (id_to_string name i) :: 'b strong_id option) \<noteq> None"
  then obtain j where "id_try_parse name' (id_to_string name i) = Some (j :: 'b strong_id)" by auto
  from id_try_parse_name [OF this] obtain digits
    where eq: "id_to_string name i = name' @ CHR ''-'' # digits" and len: "length digits = 16"
    by blast
  have "length name = length name'"
    using arg_cong [OF eq, of length] len by (simp add: id_to_string_def)
  then have "name = name'"
    using eq by (simp add: id_to_string_def)
  with assms show False by simp
qed

lemma id_names_distinct: "distinct id_names"
  by (simp add: id_names_def)

section \<open>The allocator never repeats an identity before it is exhausted\<close>

definition alloc_ok :: "'tag id_allocator \<Rightarrow> bool" where
  "alloc_ok a = (counter a \<noteq> 0)"

lemma alloc_next_value: "alloc_ok a \<Longrightarrow> id_value (fst (alloc_next a)) = counter a"
  by (simp add: alloc_next_def alloc_ok_def Let_def)

lemma alloc_next_ok [simp]: "alloc_ok (snd (alloc_next a))"
  using gen_next_present [of "Generation (counter a)"]
  by (auto simp: alloc_ok_def alloc_next_def Let_def gen_next_def gen_present_def kMax_def
      split: if_splits)

lemma alloc_next_present [simp]: "id_present (fst (alloc_next a))"
  by (simp add: id_present_def alloc_next_def Let_def)

lemma alloc_next_less:
  "counter a \<noteq> kMax \<Longrightarrow> fst (alloc_next a) < StrongId (counter (snd (alloc_next a)))"
  using unat_plus_one [of "counter a"]
  by (auto simp: alloc_next_def Let_def less_strong_id_def word_less_nat_alt kMax_def)

lemma alloc_observe_above:
  "id_value i \<noteq> kMax \<Longrightarrow> id_value i < counter (alloc_observe i a)"
  using unat_plus_one [of "id_value i"]
  by (auto simp: alloc_observe_def word_less_nat_alt word_le_nat_alt)

lemma alloc_observe_mono: "counter a \<le> counter (alloc_observe i a)"
  using unat_plus_one [of "id_value i"]
  by (auto simp: alloc_observe_def word_le_nat_alt)

lemma alloc_many_values:
  assumes "alloc_ok a" "unat (counter a) + n \<le> 2 ^ 64 - 1"
  shows "map (\<lambda>i. unat (id_value i)) (fst (alloc_many n a)) = [unat (counter a) ..< unat (counter a) + n]"
  using assms
proof (induction n arbitrary: a)
  case (Suc n)
  have ne: "counter a \<noteq> kMax"
    using Suc.prems(2) by (auto simp: unat_kMax)
  have c: "counter (snd (alloc_next a)) = counter a + 1"
    using Suc.prems(1) ne by (simp add: alloc_next_def Let_def alloc_ok_def)
  have "map (\<lambda>i. unat (id_value i)) (fst (alloc_many n (snd (alloc_next a)))) =
      [unat (counter a + 1) ..< unat (counter a + 1) + n]"
    using Suc.IH [of "snd (alloc_next a)"] Suc.prems(2) unat_plus_one [OF ne] by (simp add: c comp_def)
  then show ?case
    using alloc_next_value [OF Suc.prems(1)] unat_plus_one [OF ne]
    by (simp add: case_prod_beta upt_conv_Cons del: upt_Suc)
qed simp

lemma alloc_many_distinct:
  assumes "alloc_ok a" "unat (counter a) + n \<le> 2 ^ 64 - 1"
  shows "distinct (fst (alloc_many n a)) \<and> sorted (fst (alloc_many n a))"
proof -
  let ?is = "fst (alloc_many n a)"
  have "map (\<lambda>i. unat (id_value i)) ?is = [unat (counter a) ..< unat (counter a) + n]"
    by (rule alloc_many_values [OF assms])
  then have d: "distinct (map (\<lambda>i. unat (id_value i)) ?is)" and s: "sorted (map (\<lambda>i. unat (id_value i)) ?is)"
    by simp_all
  from s have "sorted_wrt (\<lambda>x y. unat (id_value x) \<le> unat (id_value y)) ?is"
    by (simp add: sorted_map comp_def)
  then have "sorted ?is"
    by (rule sorted_wrt_mono_rel [rotated]) (simp add: less_eq_strong_id_def word_le_nat_alt)
  with d show ?thesis by (simp add: distinct_map)
qed

section \<open>Tables keyed by allocated identities\<close>

text \<open>
  The registries keep an \<open>unordered_map\<close> keyed by identity values beside the allocator of the
  domain. Until the counter is exhausted every key is below it, so the next identity is fresh.
\<close>

definition id_table_ok :: "(u64, 'v) umap \<Rightarrow> 'tag id_allocator \<Rightarrow> bool" where
  "id_table_ok m a =
     (um_ok m \<and> alloc_ok a \<and> (\<forall>k \<in> set (map fst m). k < counter a \<or> counter a = kMax))"

lemma id_table_empty [simp]: "id_table_ok [] allocator_init"
  by (simp add: id_table_ok_def um_ok_def alloc_ok_def allocator_init_def)

lemma id_table_fresh:
  assumes "id_table_ok m a" "counter a \<noteq> kMax"
  shows "um_find m (id_value (fst (alloc_next a))) = None"
  using assms by (auto simp: id_table_ok_def um_find_def alloc_next_value map_of_eq_None_iff)

lemma fst_set_emplace: "fst ` set (um_emplace k v m) = insert k (fst ` set m)"
proof (cases "map_of m k")
  case (Some w)
  then have "k \<in> fst ` set m" by (force dest: map_of_SomeD)
  with Some show ?thesis by (simp add: um_emplace_def insert_absorb)
qed (auto simp: um_emplace_def)

lemma fst_set_update: "fst ` set (um_set k v m) = insert k (fst ` set m)"
  unfolding um_set_def dom_map_of_conv_image_fst [symmetric] update_conv' by simp

lemma counter_alloc_next:
  "alloc_ok a \<Longrightarrow> counter (snd (alloc_next a)) = (if counter a = kMax then kMax else counter a + 1)"
  by (auto simp: alloc_next_def alloc_ok_def Let_def)

lemma below_next:
  assumes "k < counter a \<or> k = counter a \<or> counter a = kMax" "alloc_ok a"
  shows "k < counter (snd (alloc_next a)) \<or> counter (snd (alloc_next a)) = kMax"
  using assms unat_plus_one [of "counter a"]
  by (auto simp: counter_alloc_next word_less_nat_alt)

lemma id_table_emplace:
  assumes "id_table_ok m a"
  shows "id_table_ok (um_emplace (id_value (fst (alloc_next a))) v m) (snd (alloc_next a))"
proof -
  have ok: "alloc_ok a" using assms by (simp add: id_table_ok_def)
  have "k < counter (snd (alloc_next a)) \<or> counter (snd (alloc_next a)) = kMax"
    if "k = counter a \<or> k \<in> fst ` set m" for k
    using that assms by (intro below_next) (auto simp: id_table_ok_def)
  with assms show ?thesis
    by (simp add: id_table_ok_def fst_set_emplace alloc_next_value [OF ok] um_ok_emplace)
qed

lemma id_table_modify: "id_table_ok m a \<Longrightarrow> id_table_ok (um_modify k f m) a"
  by (simp add: id_table_ok_def um.invar_modify fst_modify)

lemma id_table_map: "map fst m' = map fst m \<Longrightarrow> id_table_ok m a \<Longrightarrow> id_table_ok m' a"
  by (simp add: id_table_ok_def um_ok_def)

lemma id_table_set_known:
  "id_table_ok m a \<Longrightarrow> um_find m k \<noteq> None \<Longrightarrow> id_table_ok (um_set k v m) a"
proof -
  assume a: "id_table_ok m a" and "um_find m k \<noteq> None"
  then have "k \<in> fst ` set m" by (simp add: um_find_def map_of_eq_None_iff)
  then show ?thesis
    using a um.invar_set [of m k v] by (auto simp: id_table_ok_def fst_set_update insert_absorb)
qed

lemma id_table_observe:
  assumes "id_table_ok m a"
  shows "id_table_ok (um_set (id_value i) v m) (alloc_observe i a)"
proof -
  have mono: "counter a \<le> counter (alloc_observe i a)" by (rule alloc_observe_mono)
  have ok: "alloc_ok (alloc_observe i a)"
    using assms mono by (auto simp: id_table_ok_def alloc_ok_def word_le_nat_alt word_unat_eq_iff)
  have new: "id_value i < counter (alloc_observe i a) \<or> counter (alloc_observe i a) = kMax"
    using alloc_observe_above [of i a] kMax_max [of "counter a"]
    by (cases "id_value i = kMax") (auto simp: alloc_observe_def)
  have old: "k < counter (alloc_observe i a) \<or> counter (alloc_observe i a) = kMax"
    if "k \<in> fst ` set m" for k
    using that assms mono antisym [OF kMax_max [of "counter (alloc_observe i a)"]]
    by (auto simp: id_table_ok_def)
  show ?thesis
    using assms ok new old um.invar_set [of m "id_value i" v]
    by (auto simp: id_table_ok_def fst_set_update)
qed

end
