(* ===== verification/Status_Codes.thy ===== *)
theory Status_Codes
  imports Strong_Id
begin

text \<open>
  \<open>include/crf/status.hpp\<close> and \<open>src/core/status.cpp\<close>: the refusal codes, the \<open>Status\<close>
  value and the result type. \<open>enum class StatusCode : std::uint16_t\<close> is kept at its width,
  because the decoders of the journal and of the protocol cast a raw \<open>u16\<close> to it; the named
  codes are abbreviations. A \<open>Result<T>\<close> is \<open>status + 'a\<close> with the refusal on the left.
\<close>

section \<open>Codes\<close>

datatype status_code = StatusCode (status_value: u16)

abbreviation SC_ok :: status_code where "SC_ok \<equiv> StatusCode 0"
abbreviation SC_invalid_argument :: status_code where "SC_invalid_argument \<equiv> StatusCode 1"
abbreviation SC_invalid_identity :: status_code where "SC_invalid_identity \<equiv> StatusCode 2"
abbreviation SC_invalid_enum :: status_code where "SC_invalid_enum \<equiv> StatusCode 3"
abbreviation SC_capacity_exceeded :: status_code where "SC_capacity_exceeded \<equiv> StatusCode 4"
abbreviation SC_not_found :: status_code where "SC_not_found \<equiv> StatusCode 5"
abbreviation SC_already_exists :: status_code where "SC_already_exists \<equiv> StatusCode 6"
abbreviation SC_permission_denied :: status_code where "SC_permission_denied \<equiv> StatusCode 7"
abbreviation SC_path_traversal :: status_code where "SC_path_traversal \<equiv> StatusCode 8"
abbreviation SC_workspace_escape :: status_code where "SC_workspace_escape \<equiv> StatusCode 9"
abbreviation SC_path_not_absolute :: status_code where "SC_path_not_absolute \<equiv> StatusCode 10"
abbreviation SC_reparse_point_rejected :: status_code where "SC_reparse_point_rejected \<equiv> StatusCode 11"
abbreviation SC_unsupported :: status_code where "SC_unsupported \<equiv> StatusCode 12"
abbreviation SC_not_implemented :: status_code where "SC_not_implemented \<equiv> StatusCode 13"
abbreviation SC_policy_refused :: status_code where "SC_policy_refused \<equiv> StatusCode 14"
abbreviation SC_stale_session_generation :: status_code where "SC_stale_session_generation \<equiv> StatusCode 20"
abbreviation SC_stale_compilation_generation :: status_code where "SC_stale_compilation_generation \<equiv> StatusCode 21"
abbreviation SC_stale_attempt_generation :: status_code where "SC_stale_attempt_generation \<equiv> StatusCode 22"
abbreviation SC_stale_phase_generation :: status_code where "SC_stale_phase_generation \<equiv> StatusCode 23"
abbreviation SC_stale_invocation :: status_code where "SC_stale_invocation \<equiv> StatusCode 24"
abbreviation SC_stale_toolchain_generation :: status_code where "SC_stale_toolchain_generation \<equiv> StatusCode 25"
abbreviation SC_stale_component_generation :: status_code where "SC_stale_component_generation \<equiv> StatusCode 26"
abbreviation SC_stale_target_generation :: status_code where "SC_stale_target_generation \<equiv> StatusCode 27"
abbreviation SC_stale_source_generation :: status_code where "SC_stale_source_generation \<equiv> StatusCode 28"
abbreviation SC_stale_ir_generation :: status_code where "SC_stale_ir_generation \<equiv> StatusCode 29"
abbreviation SC_stale_environment_generation :: status_code where "SC_stale_environment_generation \<equiv> StatusCode 30"
abbreviation SC_stale_policy_generation :: status_code where "SC_stale_policy_generation \<equiv> StatusCode 31"
abbreviation SC_stale_lease_generation :: status_code where "SC_stale_lease_generation \<equiv> StatusCode 32"
abbreviation SC_stale_artifact_generation :: status_code where "SC_stale_artifact_generation \<equiv> StatusCode 33"
abbreviation SC_stale_epoch :: status_code where "SC_stale_epoch \<equiv> StatusCode 34"
abbreviation SC_stale_worker_generation :: status_code where "SC_stale_worker_generation \<equiv> StatusCode 35"
abbreviation SC_illegal_transition :: status_code where "SC_illegal_transition \<equiv> StatusCode 40"
abbreviation SC_phase_not_ready :: status_code where "SC_phase_not_ready \<equiv> StatusCode 41"
abbreviation SC_phase_already_running :: status_code where "SC_phase_already_running \<equiv> StatusCode 42"
abbreviation SC_phase_retired :: status_code where "SC_phase_retired \<equiv> StatusCode 43"
abbreviation SC_duplicate_completion :: status_code where "SC_duplicate_completion \<equiv> StatusCode 44"
abbreviation SC_divergent_completion :: status_code where "SC_divergent_completion \<equiv> StatusCode 45"
abbreviation SC_not_authoritative :: status_code where "SC_not_authoritative \<equiv> StatusCode 46"
abbreviation SC_session_not_active :: status_code where "SC_session_not_active \<equiv> StatusCode 47"
abbreviation SC_session_retired :: status_code where "SC_session_retired \<equiv> StatusCode 48"
abbreviation SC_fan_in_incomplete :: status_code where "SC_fan_in_incomplete \<equiv> StatusCode 49"
abbreviation SC_fan_in_inconsistent :: status_code where "SC_fan_in_inconsistent \<equiv> StatusCode 50"
abbreviation SC_cancelled :: status_code where "SC_cancelled \<equiv> StatusCode 51"
abbreviation SC_shutting_down :: status_code where "SC_shutting_down \<equiv> StatusCode 52"
abbreviation SC_output_missing :: status_code where "SC_output_missing \<equiv> StatusCode 60"
abbreviation SC_output_empty :: status_code where "SC_output_empty \<equiv> StatusCode 61"
abbreviation SC_output_corrupt :: status_code where "SC_output_corrupt \<equiv> StatusCode 62"
abbreviation SC_output_unexpected_format :: status_code where "SC_output_unexpected_format \<equiv> StatusCode 63"
abbreviation SC_output_wrong_target :: status_code where "SC_output_wrong_target \<equiv> StatusCode 64"
abbreviation SC_output_incompatible :: status_code where "SC_output_incompatible \<equiv> StatusCode 65"
abbreviation SC_output_validation_failed :: status_code where "SC_output_validation_failed \<equiv> StatusCode 66"
abbreviation SC_smoke_test_failed :: status_code where "SC_smoke_test_failed \<equiv> StatusCode 67"
abbreviation SC_process_launch_failed :: status_code where "SC_process_launch_failed \<equiv> StatusCode 70"
abbreviation SC_process_exited_nonzero :: status_code where "SC_process_exited_nonzero \<equiv> StatusCode 71"
abbreviation SC_process_crashed :: status_code where "SC_process_crashed \<equiv> StatusCode 72"
abbreviation SC_process_cancelled :: status_code where "SC_process_cancelled \<equiv> StatusCode 73"
abbreviation SC_process_capture_truncated :: status_code where "SC_process_capture_truncated \<equiv> StatusCode 74"
abbreviation SC_process_orphaned :: status_code where "SC_process_orphaned \<equiv> StatusCode 75"
abbreviation SC_retry_not_permitted :: status_code where "SC_retry_not_permitted \<equiv> StatusCode 80"
abbreviation SC_retry_exhausted :: status_code where "SC_retry_exhausted \<equiv> StatusCode 81"
abbreviation SC_recovery_unsupported :: status_code where "SC_recovery_unsupported \<equiv> StatusCode 82"
abbreviation SC_manual_resolution_required :: status_code where "SC_manual_resolution_required \<equiv> StatusCode 83"
abbreviation SC_integrity_unproven :: status_code where "SC_integrity_unproven \<equiv> StatusCode 84"
abbreviation SC_unknown_outcome :: status_code where "SC_unknown_outcome \<equiv> StatusCode 85"
abbreviation SC_persistence_io :: status_code where "SC_persistence_io \<equiv> StatusCode 90"
abbreviation SC_persistence_corrupt :: status_code where "SC_persistence_corrupt \<equiv> StatusCode 91"
abbreviation SC_persistence_truncated :: status_code where "SC_persistence_truncated \<equiv> StatusCode 92"
abbreviation SC_persistence_schema_mismatch :: status_code where "SC_persistence_schema_mismatch \<equiv> StatusCode 93"
abbreviation SC_persistence_bounds_exceeded :: status_code where "SC_persistence_bounds_exceeded \<equiv> StatusCode 94"
abbreviation SC_protocol_malformed :: status_code where "SC_protocol_malformed \<equiv> StatusCode 100"
abbreviation SC_protocol_frame_too_large :: status_code where "SC_protocol_frame_too_large \<equiv> StatusCode 101"
abbreviation SC_protocol_frame_truncated :: status_code where "SC_protocol_frame_truncated \<equiv> StatusCode 102"
abbreviation SC_protocol_version_mismatch :: status_code where "SC_protocol_version_mismatch \<equiv> StatusCode 103"
abbreviation SC_protocol_duplicate_request :: status_code where "SC_protocol_duplicate_request \<equiv> StatusCode 104"
abbreviation SC_protocol_unknown_operation :: status_code where "SC_protocol_unknown_operation \<equiv> StatusCode 105"
abbreviation SC_protocol_peer_closed :: status_code where "SC_protocol_peer_closed \<equiv> StatusCode 106"
abbreviation SC_protocol_io :: status_code where "SC_protocol_io \<equiv> StatusCode 107"
abbreviation SC_protocol_replay_rejected :: status_code where "SC_protocol_replay_rejected \<equiv> StatusCode 108"
abbreviation SC_toolchain_not_found :: status_code where "SC_toolchain_not_found \<equiv> StatusCode 110"
abbreviation SC_toolchain_ambiguous :: status_code where "SC_toolchain_ambiguous \<equiv> StatusCode 111"
abbreviation SC_component_not_found :: status_code where "SC_component_not_found \<equiv> StatusCode 112"
abbreviation SC_component_mutated :: status_code where "SC_component_mutated \<equiv> StatusCode 113"
abbreviation SC_probe_failed :: status_code where "SC_probe_failed \<equiv> StatusCode 114"
abbreviation SC_target_unsupported :: status_code where "SC_target_unsupported \<equiv> StatusCode 115"
abbreviation SC_internal_error :: status_code where "SC_internal_error \<equiv> StatusCode 200"

definition status_code_names :: "(status_code \<times> string) list" where
  "status_code_names = [
    (SC_ok, ''ok''),
    (SC_invalid_argument, ''invalid-argument''),
    (SC_invalid_identity, ''invalid-identity''),
    (SC_invalid_enum, ''invalid-enum''),
    (SC_capacity_exceeded, ''capacity-exceeded''),
    (SC_not_found, ''not-found''),
    (SC_already_exists, ''already-exists''),
    (SC_permission_denied, ''permission-denied''),
    (SC_path_traversal, ''path-traversal''),
    (SC_workspace_escape, ''workspace-escape''),
    (SC_path_not_absolute, ''path-not-absolute''),
    (SC_reparse_point_rejected, ''reparse-point-rejected''),
    (SC_unsupported, ''unsupported''),
    (SC_not_implemented, ''not-implemented''),
    (SC_policy_refused, ''policy-refused''),
    (SC_stale_session_generation, ''stale-session-generation''),
    (SC_stale_compilation_generation, ''stale-compilation-generation''),
    (SC_stale_attempt_generation, ''stale-attempt-generation''),
    (SC_stale_phase_generation, ''stale-phase-generation''),
    (SC_stale_invocation, ''stale-invocation''),
    (SC_stale_toolchain_generation, ''stale-toolchain-generation''),
    (SC_stale_component_generation, ''stale-component-generation''),
    (SC_stale_target_generation, ''stale-target-generation''),
    (SC_stale_source_generation, ''stale-source-generation''),
    (SC_stale_ir_generation, ''stale-ir-generation''),
    (SC_stale_environment_generation, ''stale-environment-generation''),
    (SC_stale_policy_generation, ''stale-policy-generation''),
    (SC_stale_lease_generation, ''stale-lease-generation''),
    (SC_stale_artifact_generation, ''stale-artifact-generation''),
    (SC_stale_epoch, ''stale-epoch''),
    (SC_stale_worker_generation, ''stale-worker-generation''),
    (SC_illegal_transition, ''illegal-transition''),
    (SC_phase_not_ready, ''phase-not-ready''),
    (SC_phase_already_running, ''phase-already-running''),
    (SC_phase_retired, ''phase-retired''),
    (SC_duplicate_completion, ''duplicate-completion''),
    (SC_divergent_completion, ''divergent-completion''),
    (SC_not_authoritative, ''not-authoritative''),
    (SC_session_not_active, ''session-not-active''),
    (SC_session_retired, ''session-retired''),
    (SC_fan_in_incomplete, ''fan-in-incomplete''),
    (SC_fan_in_inconsistent, ''fan-in-inconsistent''),
    (SC_cancelled, ''cancelled''),
    (SC_shutting_down, ''shutting-down''),
    (SC_output_missing, ''output-missing''),
    (SC_output_empty, ''output-empty''),
    (SC_output_corrupt, ''output-corrupt''),
    (SC_output_unexpected_format, ''output-unexpected-format''),
    (SC_output_wrong_target, ''output-wrong-target''),
    (SC_output_incompatible, ''output-incompatible''),
    (SC_output_validation_failed, ''output-validation-failed''),
    (SC_smoke_test_failed, ''smoke-test-failed''),
    (SC_process_launch_failed, ''process-launch-failed''),
    (SC_process_exited_nonzero, ''process-exited-nonzero''),
    (SC_process_crashed, ''process-crashed''),
    (SC_process_cancelled, ''process-cancelled''),
    (SC_process_capture_truncated, ''process-capture-truncated''),
    (SC_process_orphaned, ''process-orphaned''),
    (SC_retry_not_permitted, ''retry-not-permitted''),
    (SC_retry_exhausted, ''retry-exhausted''),
    (SC_recovery_unsupported, ''recovery-unsupported''),
    (SC_manual_resolution_required, ''manual-resolution-required''),
    (SC_integrity_unproven, ''integrity-unproven''),
    (SC_unknown_outcome, ''unknown-outcome''),
    (SC_persistence_io, ''persistence-io''),
    (SC_persistence_corrupt, ''persistence-corrupt''),
    (SC_persistence_truncated, ''persistence-truncated''),
    (SC_persistence_schema_mismatch, ''persistence-schema-mismatch''),
    (SC_persistence_bounds_exceeded, ''persistence-bounds-exceeded''),
    (SC_protocol_malformed, ''protocol-malformed''),
    (SC_protocol_frame_too_large, ''protocol-frame-too-large''),
    (SC_protocol_frame_truncated, ''protocol-frame-truncated''),
    (SC_protocol_version_mismatch, ''protocol-version-mismatch''),
    (SC_protocol_duplicate_request, ''protocol-duplicate-request''),
    (SC_protocol_unknown_operation, ''protocol-unknown-operation''),
    (SC_protocol_peer_closed, ''protocol-peer-closed''),
    (SC_protocol_io, ''protocol-io''),
    (SC_protocol_replay_rejected, ''protocol-replay-rejected''),
    (SC_toolchain_not_found, ''toolchain-not-found''),
    (SC_toolchain_ambiguous, ''toolchain-ambiguous''),
    (SC_component_not_found, ''component-not-found''),
    (SC_component_mutated, ''component-mutated''),
    (SC_probe_failed, ''probe-failed''),
    (SC_target_unsupported, ''target-unsupported''),
    (SC_internal_error, ''internal-error'')]"

definition to_string_status_code :: "status_code \<Rightarrow> string" where
  "to_string_status_code c =
     (case map_of status_code_names c of Some s \<Rightarrow> s | None \<Rightarrow> ''unknown-status'')"

definition is_transient :: "status_code \<Rightarrow> bool" where
  "is_transient c = (c \<in> set [SC_process_crashed, SC_process_cancelled, SC_process_orphaned,
     SC_persistence_io, SC_protocol_io, SC_protocol_peer_closed,
     SC_probe_failed, SC_component_mutated])"

section \<open>Refusals and results\<close>

datatype status = Status (status_code: status_code) (status_message: string)

type_synonym 'a result = "status + 'a"

definition status_success :: status where
  "status_success = Status SC_ok []"

definition status_ok :: "status \<Rightarrow> bool" where
  "status_ok s = (status_code s = SC_ok)"

definition status_to_string :: "status \<Rightarrow> string" where
  "status_to_string s =
     (let out = to_string_status_code (status_code s) in
      if status_message s \<noteq> [] then out @ '': '' @ status_message s else out)"

definition has_value :: "'a result \<Rightarrow> bool" where
  "has_value r = (case r of Inl _ \<Rightarrow> False | Inr _ \<Rightarrow> True)"

definition result_status :: "'a result \<Rightarrow> status" where
  "result_status r = (case r of Inl s \<Rightarrow> s | Inr _ \<Rightarrow> status_success)"

definition result_code :: "'a result \<Rightarrow> status_code" where
  "result_code r = status_code (result_status r)"

definition value_or :: "'a result \<Rightarrow> 'a \<Rightarrow> 'a" where
  "value_or r fallback = (case r of Inl _ \<Rightarrow> fallback | Inr v \<Rightarrow> v)"

text \<open>\<open>CRF_TRY_ASSIGN\<close>: the refusal of the inner call, or the rest of the body on its value.\<close>

definition crf_try :: "'a result \<Rightarrow> ('a \<Rightarrow> 'b result) \<Rightarrow> 'b result" where
  "crf_try r k = (case r of Inl s \<Rightarrow> Inl s | Inr v \<Rightarrow> k v)"

section \<open>Facts\<close>

lemma has_value_simps [simp]: "has_value (Inr v)" "\<not> has_value (Inl s)"
  by (simp_all add: has_value_def)

lemma result_status_simps [simp]: "result_status (Inl s) = s" "result_status (Inr v) = status_success"
  by (simp_all add: result_status_def)

lemma crf_try_simps [simp]: "crf_try (Inl s) k = Inl s" "crf_try (Inr v) k = k v"
  by (simp_all add: crf_try_def)

lemma crf_try_Inr: "(crf_try r k = Inr w) = (\<exists>v. r = Inr v \<and> k v = Inr w)"
  by (cases r) auto

lemma crf_try_Inl: "(crf_try r k = Inl s) = (r = Inl s \<or> (\<exists>v. r = Inr v \<and> k v = Inl s))"
  by (cases r) auto

lemma map_of_inj_on:
  assumes "distinct (map snd xs)" "map_of xs a = Some v" "map_of xs b = Some v"
  shows "a = b"
  using assms by (metis distinct_map inj_on_eq_iff map_of_SomeD prod.inject snd_conv)

lemma status_names_distinct: "distinct (map snd status_code_names)"
  by (simp add: status_code_names_def)

lemma to_string_status_code_inj:
  "map_of status_code_names a = Some s \<Longrightarrow> map_of status_code_names b = Some s \<Longrightarrow> a = b"
  by (rule map_of_inj_on [OF status_names_distinct])

end
