(* ===== verification/Canonical.thy ===== *)
theory Canonical
  imports Status_Codes
begin

text \<open>
  \<open>src/core/canonical.cpp\<close>: the ASCII helpers, the lexical path identity, the canonical
  encoder and decoder every digest and every durable record goes through, and the
  deterministic generator.

  A \<open>char\<close> is a byte; where the code compares two of them with \<open><\<close> it compares them as
  signed values (\<open>signed_char\<close>). The append-only buffer of \<open>CanonicalWriter\<close> is the
  concatenation of the chunks the calls append, so a sequence of writer calls is a
  concatenation of \<open>enc_\<close> chunks. A \<open>CanonicalReader\<close> is the suffix of its bytes from the
  cursor on; a refused read is \<open>None\<close>, after which no caller reads again.
\<close>

section \<open>ASCII helpers\<close>

definition ascii_is_space :: "char \<Rightarrow> bool" where
  "ascii_is_space c = (c \<in> set [CHR '' '', CHR 0x09, CHR 0x0A, CHR 0x0D, CHR 0x0C, CHR 0x0B])"

definition ascii_lower :: "char \<Rightarrow> char" where
  "ascii_lower c =
     (if (65 :: nat) \<le> of_char c \<and> of_char c \<le> (90 :: nat) then char_of (of_char c - 65 + 97 :: nat) else c)"

definition ascii_upper :: "char \<Rightarrow> char" where
  "ascii_upper c =
     (if (97 :: nat) \<le> of_char c \<and> of_char c \<le> (122 :: nat) then char_of (of_char c - 97 + 65 :: nat) else c)"

definition to_lower_ascii :: "string \<Rightarrow> string" where
  "to_lower_ascii text = map ascii_lower text"

definition to_upper_ascii :: "string \<Rightarrow> string" where
  "to_upper_ascii text = map ascii_upper text"

text \<open>The two index loops of \<open>trim_ascii\<close> drop the leading and the trailing run of spaces.\<close>

definition trim_ascii :: "string \<Rightarrow> string" where
  "trim_ascii text = rev (dropWhile ascii_is_space (rev (dropWhile ascii_is_space text)))"

definition equals_ascii_ci :: "string \<Rightarrow> string \<Rightarrow> bool" where
  "equals_ascii_ci a b =
     (length a = length b \<and> list_all2 (\<lambda>x y. ascii_lower x = ascii_lower y) a b)"

definition signed_char :: "char \<Rightarrow> int" where
  "signed_char c = (let n = of_char c :: int in if n < 128 then n else n - 256)"

fun less_ascii_ci :: "string \<Rightarrow> string \<Rightarrow> bool" where
  "less_ascii_ci (a # as) (b # bs) =
     (if ascii_lower a \<noteq> ascii_lower b then signed_char (ascii_lower a) < signed_char (ascii_lower b)
      else less_ascii_ci as bs)"
| "less_ascii_ci as bs = (length as < length bs)"

definition starts_with_ci :: "string \<Rightarrow> string \<Rightarrow> bool" where
  "starts_with_ci text prefix =
     (if length text < length prefix then False
      else equals_ascii_ci (take (length prefix) text) prefix)"

text \<open>\<open>std::isdigit\<close>, \<open>isalpha\<close> and \<open>isalnum\<close> in the C locale, and the value of a run of digits.\<close>

definition is_digit :: "char \<Rightarrow> bool" where
  "is_digit c = ((48 :: nat) \<le> of_char c \<and> of_char c \<le> (57 :: nat))"

definition is_alpha :: "char \<Rightarrow> bool" where
  "is_alpha c = (((65 :: nat) \<le> of_char c \<and> of_char c \<le> (90 :: nat)) \<or> ((97 :: nat) \<le> of_char c \<and> of_char c \<le> (122 :: nat)))"

definition is_alnum :: "char \<Rightarrow> bool" where
  "is_alnum c = (is_alpha c \<or> is_digit c)"

definition digits_value :: "string \<Rightarrow> nat" where
  "digits_value ds = foldl (\<lambda>acc c. acc * 10 + (of_char c - 48)) 0 ds"

text \<open>\<open>text.find(separator, start)\<close> on the suffix from \<open>start\<close>.\<close>

definition find_char :: "char \<Rightarrow> string \<Rightarrow> nat option" where
  "find_char sep text =
     (let position = length (takeWhile (\<lambda>c. c \<noteq> sep) text) in
      if position < length text then Some position else None)"

function split_ascii :: "string \<Rightarrow> char \<Rightarrow> string list" where
  "split_ascii text sep =
     (case find_char sep text of
        None \<Rightarrow> [text]
      | Some position \<Rightarrow> take position text # split_ascii (drop (position + 1) text) sep)"
  by pat_completeness auto

termination split_ascii
  by (relation "measure (length \<circ> fst)") (auto simp: find_char_def Let_def split: if_splits)

declare split_ascii.simps [simp del]

fun join_ascii :: "string list \<Rightarrow> string \<Rightarrow> string" where
  "join_ascii [] sep = []"
| "join_ascii [p] sep = p"
| "join_ascii (p # q # ps) sep = p @ sep @ join_ascii (q # ps) sep"

section \<open>Lexical path identity\<close>

text \<open>
  \<open>std::filesystem::path::lexically_normal\<close> is a parameter: its result depends on the
  platform's path grammar.
\<close>

fun strip_trailing_separators :: "string \<Rightarrow> string" where
  "strip_trailing_separators text =
     (if length text > 3 \<and> (last text = CHR 0x5C \<or> last text = CHR ''/'')
      then let prefix = butlast text in
           if length prefix = 2 \<and> prefix ! 1 = CHR '':'' then text
           else strip_trailing_separators prefix
      else text)"

declare strip_trailing_separators.simps [simp del]

definition normalize_path_string :: "(string \<Rightarrow> string) \<Rightarrow> string \<Rightarrow> string" where
  "normalize_path_string lexically_normal path = strip_trailing_separators (lexically_normal path)"

definition canonical_path_key :: "(string \<Rightarrow> string) \<Rightarrow> string \<Rightarrow> string" where
  "canonical_path_key lexically_normal path =
     map (\<lambda>c. if c = CHR ''/'' then CHR 0x5C else ascii_lower c)
       (normalize_path_string lexically_normal path)"

definition path_is_within :: "(string \<Rightarrow> string) \<Rightarrow> string \<Rightarrow> string \<Rightarrow> bool" where
  "path_is_within lexically_normal candidate root =
     (let child = canonical_path_key lexically_normal candidate;
          parent = canonical_path_key lexically_normal root in
      if child = [] \<or> parent = [] then False
      else if child = parent then True
      else let parent = (if last parent \<noteq> CHR 0x5C then parent @ [CHR 0x5C] else parent) in
           length child > length parent \<and> take (length parent) child = parent)"

section \<open>Canonical encoding\<close>

definition le_bytes :: "nat \<Rightarrow> 'w::len word \<Rightarrow> string" where
  "le_bytes n v = map (\<lambda>i. char_of (unat (drop_bit (8 * i) v AND 0xFF))) [0..<n]"

definition enc_u8 :: "u8 \<Rightarrow> string" where
  "enc_u8 v = [char_of (unat v)]"

definition enc_u16 :: "u16 \<Rightarrow> string" where
  "enc_u16 v = [char_of (unat (v AND 0xFF)), char_of (unat (drop_bit 8 v AND 0xFF))]"

definition enc_u32 :: "u32 \<Rightarrow> string" where
  "enc_u32 v = le_bytes 4 v"

definition enc_u64 :: "u64 \<Rightarrow> string" where
  "enc_u64 v = le_bytes 8 v"

text \<open>An \<open>std::int32_t\<close> is an \<open>int\<close> in range; the cast to unsigned is \<open>of_int\<close>.\<close>

definition enc_i32 :: "int \<Rightarrow> string" where
  "enc_i32 v = enc_u32 (of_int v)"

definition enc_boolean :: "bool \<Rightarrow> string" where
  "enc_boolean b = enc_u8 (if b then 1 else 0)"

definition enc_text :: "string \<Rightarrow> string" where
  "enc_text s = enc_u32 (of_nat (length s)) @ s"

definition reader_take :: "nat \<Rightarrow> string \<Rightarrow> (string \<times> string) option" where
  "reader_take cnt bytes = (if cnt > length bytes then None else Some (take cnt bytes, drop cnt bytes))"

definition byte_value :: "char \<Rightarrow> 'w::len word" where
  "byte_value c = of_nat (of_char c)"

definition le_word :: "string \<Rightarrow> 'w::len word" where
  "le_word bs = foldl (\<lambda>value (i, c). value OR push_bit (i * 8) (byte_value c)) 0 (enumerate 0 bs)"

definition dec_u8 :: "string \<Rightarrow> (u8 \<times> string) option" where
  "dec_u8 bytes = (case reader_take 1 bytes of None \<Rightarrow> None | Some (bs, rest) \<Rightarrow> Some (byte_value (bs ! 0), rest))"

definition dec_u16 :: "string \<Rightarrow> (u16 \<times> string) option" where
  "dec_u16 bytes = (case reader_take 2 bytes of None \<Rightarrow> None
     | Some (bs, rest) \<Rightarrow> Some (byte_value (bs ! 0) OR push_bit 8 (byte_value (bs ! 1)), rest))"

definition dec_u32 :: "string \<Rightarrow> (u32 \<times> string) option" where
  "dec_u32 bytes = (case reader_take 4 bytes of None \<Rightarrow> None | Some (bs, rest) \<Rightarrow> Some (le_word bs, rest))"

definition dec_u64 :: "string \<Rightarrow> (u64 \<times> string) option" where
  "dec_u64 bytes = (case reader_take 8 bytes of None \<Rightarrow> None | Some (bs, rest) \<Rightarrow> Some (le_word bs, rest))"

definition dec_i32 :: "string \<Rightarrow> (int \<times> string) option" where
  "dec_i32 bytes = (case dec_u32 bytes of None \<Rightarrow> None | Some (raw, rest) \<Rightarrow> Some (sint raw, rest))"

definition dec_boolean :: "string \<Rightarrow> (bool \<times> string) option" where
  "dec_boolean bytes = (case dec_u8 bytes of None \<Rightarrow> None | Some (raw, rest) \<Rightarrow> Some (raw \<noteq> 0, rest))"

definition dec_text :: "nat \<Rightarrow> string \<Rightarrow> (string \<times> string) option" where
  "dec_text max_length bytes = (case dec_u32 bytes of None \<Rightarrow> None
     | Some (len, rest) \<Rightarrow> if unat len > max_length then None else reader_take (unat len) rest)"

section \<open>Deterministic generator\<close>

record deterministic_rng =
  rng_seed :: u64
  rng_state :: u64

definition rng_init :: "u64 \<Rightarrow> deterministic_rng" where
  "rng_init seed = \<lparr>rng_seed = seed, rng_state = (if seed = 0 then 0x9E3779B97F4A7C15 else seed)\<rparr>"

definition next_u64 :: "deterministic_rng \<Rightarrow> u64 \<times> deterministic_rng" where
  "next_u64 r =
     (let st = rng_state r + 0x9E3779B97F4A7C15;
          z = st;
          z = (z XOR drop_bit 30 z) * 0xBF58476D1CE4E5B9;
          z = (z XOR drop_bit 27 z) * 0x94D049BB133111EB
      in (z XOR drop_bit 31 z, r\<lparr>rng_state := st\<rparr>))"

definition next_u32 :: "deterministic_rng \<Rightarrow> u32 \<times> deterministic_rng" where
  "next_u32 r = (case next_u64 r of (z, r') \<Rightarrow> (ucast (drop_bit 32 z), r'))"

definition next_below :: "u64 \<Rightarrow> deterministic_rng \<Rightarrow> u64 \<times> deterministic_rng" where
  "next_below bound r =
     (if bound = 0 then (0, r) else (case next_u64 r of (z, r') \<Rightarrow> (z mod bound, r')))"

definition next_bool :: "deterministic_rng \<Rightarrow> bool \<times> deterministic_rng" where
  "next_bool r = (case next_u64 r of (z, r') \<Rightarrow> ((z AND 1) \<noteq> 0, r'))"

section \<open>Splitting and joining\<close>

lemma find_char_None: "find_char sep str = None \<longleftrightarrow> sep \<notin> set str"
proof -
  have "(length (takeWhile (\<lambda>c. c \<noteq> sep) str) < length str) = (sep \<in> set str)"
    by (induction str) auto
  then show ?thesis by (auto simp: find_char_def Let_def)
qed

lemma find_char_Some:
  "find_char sep str = Some n \<Longrightarrow> str = take n str @ sep # drop (n + 1) str \<and> sep \<notin> set (take n str)"
proof -
  assume a: "find_char sep str = Some n"
  then have n: "n = length (takeWhile (\<lambda>c. c \<noteq> sep) str)" and l: "n < length str"
    by (auto simp: find_char_def Let_def split: if_splits)
  have tk: "take n str = takeWhile (\<lambda>c. c \<noteq> sep) str"
    unfolding n by (metis append_eq_conv_conj takeWhile_dropWhile_id)
  have "str ! n = sep"
    using nth_length_takeWhile [of "\<lambda>c. c \<noteq> sep" str] l n by auto
  then have "drop n str = sep # drop (n + 1) str"
    using Cons_nth_drop_Suc [OF l] by simp
  then have "str = take n str @ sep # drop (n + 1) str"
    by (metis append_take_drop_id)
  moreover have "sep \<notin> set (take n str)"
    unfolding tk by (auto dest: set_takeWhileD)
  ultimately show ?thesis by blast
qed

lemma find_char_append: "sep \<notin> set p \<Longrightarrow> find_char sep (p @ sep # q) = Some (length p)"
  by (induction p) (auto simp: find_char_def Let_def split: if_splits)

lemma split_ascii_nonempty: "split_ascii str sep \<noteq> []"
  by (subst split_ascii.simps) (simp split: option.split)

lemma join_ascii_Cons: "ps \<noteq> [] \<Longrightarrow> join_ascii (p # ps) sep = p @ sep @ join_ascii ps sep"
  by (cases ps) auto

lemma join_split: "join_ascii (split_ascii str sep) [sep] = str"
proof (induction str sep rule: split_ascii.induct)
  case (1 str sep)
  show ?case
  proof (cases "find_char sep str")
    case None
    then show ?thesis by (simp add: split_ascii.simps)
  next
    case (Some n)
    then show ?thesis
      using 1 [OF Some] find_char_Some [OF Some]
      by (simp add: split_ascii.simps [of str] join_ascii_Cons split_ascii_nonempty)
  qed
qed

lemma split_parts: "p \<in> set (split_ascii str sep) \<Longrightarrow> sep \<notin> set p"
proof (induction str sep rule: split_ascii.induct)
  case (1 str sep)
  show ?case
  proof (cases "find_char sep str")
    case None
    then show ?thesis
      using "1.prems" find_char_None [of sep str] by (simp add: split_ascii.simps)
  next
    case (Some n)
    then show ?thesis
      using "1.IH" [OF Some] "1.prems" find_char_Some [OF Some]
      by (auto simp: split_ascii.simps [of str])
  qed
qed

lemma split_join:
  "ps \<noteq> [] \<Longrightarrow> \<forall>p \<in> set ps. sep \<notin> set p \<Longrightarrow> split_ascii (join_ascii ps [sep]) sep = ps"
proof (induction ps)
  case (Cons p ps)
  show ?case
  proof (cases ps)
    case Nil
    then show ?thesis
      using Cons.prems find_char_None [of sep p] by (simp add: split_ascii.simps)
  next
    case (Cons q qs)
    have "sep \<notin> set p" using Cons.prems by simp
    then have "find_char sep (p @ sep # join_ascii ps [sep]) = Some (length p)"
      by (rule find_char_append)
    with Cons show ?thesis
      using Cons.IH Cons.prems by (simp add: split_ascii.simps [of "p @ _"])
  qed
qed simp

section \<open>The codec interface\<close>

text \<open>
  What a decoder promises of the encoder it is paired with: on a value in range, followed by
  anything at all, it returns the value and leaves exactly the rest.
\<close>

locale codec =
  fixes enc :: "'a \<Rightarrow> string"
    and dec :: "string \<Rightarrow> ('a \<times> string) option"
    and valid :: "'a \<Rightarrow> bool"
  assumes decode_encode: "valid x \<Longrightarrow> dec (enc x @ rest) = Some (x, rest)"
begin

lemma prefix_free:
  assumes "valid x" "valid y" "enc x @ r = enc y @ s"
  shows "x = y \<and> r = s"
proof -
  have "dec (enc x @ r) = Some (x, r)" by (rule decode_encode [OF assms(1)])
  moreover have "dec (enc x @ r) = Some (y, s)" unfolding assms(3) by (rule decode_encode [OF assms(2)])
  ultimately show ?thesis by simp
qed

lemma encode_inject: "valid x \<Longrightarrow> valid y \<Longrightarrow> (enc x @ r = enc y @ s) = (x = y \<and> r = s)"
  using prefix_free by blast

lemma encode_inject_end: "valid x \<Longrightarrow> valid y \<Longrightarrow> (enc x = enc y) = (x = y)"
  using encode_inject [of x y "[]" "[]"] by simp

lemma decode_encode_end: "valid x \<Longrightarrow> dec (enc x) = Some (x, [])"
  using decode_encode [of x "[]"] by simp

end

subsection \<open>Little-endian words\<close>

lemma and_255_take_bit: "x AND (0xFF :: 'w::len word) = take_bit 8 x"
  by (simp add: take_bit_eq_mask mask_eq_exp_minus_1)

lemma of_char_byte: "of_char (char_of (n :: nat)) = take_bit 8 n"
  by (simp add: take_bit_eq_mod)

lemma length_le_bytes [simp]: "length (le_bytes n v) = n"
  by (simp add: le_bytes_def)

lemma foldl_or_bits:
  "bit (foldl (\<lambda>value (i, c). value OR push_bit (i * 8) (byte_value c)) (a :: 'w::len word) xs) k =
    (bit a k \<or> (\<exists>(i, c) \<in> set xs. bit (push_bit (i * 8) (byte_value c) :: 'w word) k))"
  by (induction xs arbitrary: a) (auto simp: bit_or_iff)

lemma bit_of_nat_iff_word: "bit (of_nat n :: 'w::len word) k = (k < LENGTH('w) \<and> bit n k)"
  by transfer (simp add: bit_take_bit_iff bit_of_nat_iff_bit)

lemma bit_byte_value: "bit (byte_value c :: 'w::len word) k = (k < LENGTH('w) \<and> bit (of_char c :: nat) k)"
  by (simp add: byte_value_def bit_of_nat_iff_word)

lemma bit_of_char: "bit (of_char c :: nat) k \<Longrightarrow> k < 8"
proof (rule ccontr)
  assume b: "bit (of_char c :: nat) k" and "\<not> k < 8"
  have "(of_char c :: nat) = take_bit 8 (of_char c)"
    using of_char_byte [of "of_char c"] by simp
  with b have "bit (take_bit 8 (of_char c :: nat)) k" by simp
  with \<open>\<not> k < 8\<close> show False by (simp add: bit_take_bit_iff)
qed

lemma bit_le_word:
  "bit (le_word bs :: 'w::len word) k =
    (k < LENGTH('w) \<and> k div 8 < length bs \<and> bit (of_char (bs ! (k div 8)) :: nat) (k mod 8))"
proof -
  have "bit (le_word bs :: 'w word) k =
      (\<exists>i < length bs. k < LENGTH('w) \<and> i * 8 \<le> k \<and> bit (of_char (bs ! i) :: nat) (k - i * 8))"
    by (auto simp: le_word_def foldl_or_bits in_set_enumerate_eq bit_push_bit_iff bit_byte_value)
  also have "\<dots> = (k < LENGTH('w) \<and> k div 8 < length bs \<and> bit (of_char (bs ! (k div 8)) :: nat) (k mod 8))"
  proof -
    have "i = k div 8" if "i * 8 \<le> k" "bit (of_char (bs ! i) :: nat) (k - i * 8)" for i
      using that bit_of_char [of "bs ! i" "k - i * 8"] by (intro sym [OF div_nat_eqI]) auto
    then show ?thesis
      by (metis minus_div_mult_eq_mod div_times_less_eq_dividend)
  qed
  finally show ?thesis .
qed

lemma bit_le_bytes:
  "i < n \<Longrightarrow> bit (of_char (le_bytes n (v :: 'w::len word) ! i) :: nat) k = (k < 8 \<and> bit v (8 * i + k))"
  by (auto simp: le_bytes_def of_char_byte and_255_take_bit unsigned_take_bit_eq bit_take_bit_iff
      bit_unsigned_iff bit_drop_bit_eq simp del: of_char_of dest: bit_imp_le_length)

lemma le_word_bytes: "LENGTH('w) \<le> 8 * n \<Longrightarrow> le_word (le_bytes n v) = (v :: 'w::len word)"
  by (rule bit_word_eqI) (simp add: bit_le_word bit_le_bytes less_mult_imp_div_less)

lemma reader_take_append: "n = length bs \<Longrightarrow> reader_take n (bs @ rest) = Some (bs, rest)"
  by (simp add: reader_take_def)

lemma enc_u16_bytes: "enc_u16 v = le_bytes 2 v"
  by (simp add: enc_u16_def le_bytes_def upt_rec)

lemma dec_u16_word: "dec_u16 bytes = (case reader_take 2 bytes of None \<Rightarrow> None
    | Some (bs, rest) \<Rightarrow> Some (le_word bs, rest))"
proof (cases bytes)
  case (Cons a as)
  then show ?thesis
    by (cases as) (auto simp: dec_u16_def reader_take_def le_word_def)
qed (simp add: dec_u16_def reader_take_def)

interpretation c_u16: codec enc_u16 dec_u16 "\<lambda>_. True"
  by unfold_locales (simp add: enc_u16_bytes dec_u16_word reader_take_append le_word_bytes)

lemma unat_byte: "unat (x :: u8) mod 256 = unat x"
  by (rule mod_less) (use unsigned_less [of x] in simp)

interpretation c_u8: codec enc_u8 dec_u8 "\<lambda>_. True"
  by unfold_locales (simp add: enc_u8_def dec_u8_def reader_take_def byte_value_def unat_byte)

interpretation c_u32: codec enc_u32 dec_u32 "\<lambda>_. True"
  by unfold_locales (simp add: enc_u32_def dec_u32_def reader_take_append le_word_bytes)

interpretation c_u64: codec enc_u64 dec_u64 "\<lambda>_. True"
  by unfold_locales (simp add: enc_u64_def dec_u64_def reader_take_append le_word_bytes)

interpretation c_boolean: codec enc_boolean dec_boolean "\<lambda>_. True"
  by unfold_locales (simp add: enc_boolean_def dec_boolean_def c_u8.decode_encode)

interpretation c_i32: codec enc_i32 dec_i32 "\<lambda>v. - (2 ^ 31) \<le> v \<and> v < 2 ^ 31"
  by unfold_locales (simp add: enc_i32_def dec_i32_def c_u32.decode_encode signed_of_int signed_take_bit_int_eq_self)

lemma unat_of_nat_len: "n < 2 ^ 32 \<Longrightarrow> unat (of_nat n :: u32) = n"
  by (simp add: unsigned_of_nat take_bit_nat_eq_self)

interpretation c_text: codec enc_text "dec_text max_length"
    "\<lambda>s. length s \<le> max_length \<and> length s < 2 ^ 32" for max_length
  by unfold_locales
    (simp add: enc_text_def dec_text_def c_u32.decode_encode reader_take_append unat_of_nat_len)

subsection \<open>What a refused read says\<close>

lemma reader_take_Some:
  "reader_take n bytes = Some (bs, rest) \<longleftrightarrow> bytes = bs @ rest \<and> length bs = n"
  by (auto simp: reader_take_def)

lemma dec_text_bound: "dec_text max_length bytes = Some (s, rest) \<Longrightarrow> length s \<le> max_length"
  by (auto simp: dec_text_def reader_take_Some split: option.splits prod.splits if_splits)

lemma dec_text_suffix:
  assumes "dec_text max_length bytes = Some (s, rest)"
  shows "\<exists>hd4. length hd4 = 4 \<and> bytes = hd4 @ s @ rest"
  using assms
  by (auto simp: dec_text_def dec_u32_def reader_take_Some split: option.splits prod.splits if_splits)

section \<open>Case-insensitive order\<close>

definition ci_key :: "string \<Rightarrow> int list" where
  "ci_key s = map (\<lambda>c. signed_char (ascii_lower c)) s"

lemma of_char_int: "of_char c = int (of_char c)"
  by (metis of_nat_of_char)

lemma signed_byte_inject:
  fixes m n :: nat
  assumes "m < 256" "n < 256"
  shows "((if int m < 128 then int m else int m - 256) = (if int n < 128 then int n else int n - 256)) = (m = n)"
  using assms by auto

lemma signed_char_inject: "(signed_char a = signed_char b) = (a = b)"
  using signed_byte_inject [of "of_char a" "of_char b"]
  by (simp only: signed_char_def Let_def of_char_int of_char_eq_iff) simp

lemma Nil_less_iff: "([] < xs) = (xs \<noteq> [])" for xs :: "'a::order list"
  by (cases xs) auto

lemma less_ascii_ci_key: "less_ascii_ci a b = (ci_key a < ci_key b)"
  by (induction a b rule: less_ascii_ci.induct)
    (auto simp: ci_key_def signed_char_inject Nil_less_iff)

lemma equals_ascii_ci_key: "equals_ascii_ci a b = (ci_key a = ci_key b)"
  by (auto simp: equals_ascii_ci_def ci_key_def signed_char_inject list_all2_conv_all_nth list_eq_iff_nth_eq)

lemma less_ascii_ci_trans: "less_ascii_ci a b \<Longrightarrow> less_ascii_ci b c \<Longrightarrow> less_ascii_ci a c"
  by (simp add: less_ascii_ci_key)

lemma less_ascii_ci_total: "\<not> less_ascii_ci a b \<Longrightarrow> \<not> less_ascii_ci b a \<Longrightarrow> equals_ascii_ci a b"
  by (simp add: less_ascii_ci_key equals_ascii_ci_key)

lemma ascii_lower_idem [simp]: "ascii_lower (ascii_lower c) = ascii_lower c"
  by (simp add: ascii_lower_def)

lemma to_lower_ascii_idem: "to_lower_ascii (to_lower_ascii s) = to_lower_ascii s"
  by (simp add: to_lower_ascii_def)

lemma equals_ascii_ci_lower: "equals_ascii_ci a b = (to_lower_ascii a = to_lower_ascii b)"
  by (auto simp: equals_ascii_ci_def to_lower_ascii_def list_all2_conv_all_nth list_eq_iff_nth_eq)

section \<open>Paths\<close>

lemma strip_keeps_prefix:
  "\<exists>seps. t = strip_trailing_separators t @ seps \<and> set seps \<subseteq> {CHR ''/'', CHR 0x5C}"
proof (induction t rule: strip_trailing_separators.induct)
  case (1 t)
  show ?case
  proof (cases "length t > 3 \<and> (last t = CHR 0x5C \<or> last t = CHR ''/'')")
    case False
    then show ?thesis
      by (intro exI [of _ "[]"]) (auto simp: strip_trailing_separators.simps [of t])
  next
    case True
    then have "strip_trailing_separators t = strip_trailing_separators (butlast t)"
      by (auto simp: strip_trailing_separators.simps [of t] Let_def)
    moreover have "\<not> (length (butlast t) = 2 \<and> butlast t ! 1 = CHR '':'')"
      using True by auto
    from 1 [OF True refl this] obtain seps where seps: "butlast t = strip_trailing_separators (butlast t) @ seps"
        "set seps \<subseteq> {CHR ''/'', CHR 0x5C}"
      by blast
    moreover have "t = butlast t @ [last t]"
      using True by (intro sym [OF append_butlast_last_id]) auto
    ultimately show ?thesis
      using True by (intro exI [of _ "seps @ [last t]"]) (auto simp flip: append_assoc)
  qed
qed

text \<open>The guard for a drive root never fires: the loop stops at three characters before it.\<close>

lemma strip_stops: "length t \<le> 3 \<Longrightarrow> strip_trailing_separators t = t"
  by (subst strip_trailing_separators.simps) simp

definition with_separator :: "string \<Rightarrow> string" where
  "with_separator key = (if last key \<noteq> CHR 0x5C then key @ [CHR 0x5C] else key)"

lemma take_prefix_iff: "(length r < length c \<and> take (length r) c = r) = (\<exists>t. t \<noteq> [] \<and> c = r @ t)"
proof
  assume a: "length r < length c \<and> take (length r) c = r"
  then have "c = r @ drop (length r) c" "drop (length r) c \<noteq> []"
    by (metis append_take_drop_id) (use a in simp)
  then show "\<exists>t. t \<noteq> [] \<and> c = r @ t" by blast
qed auto

lemma path_is_within_iff:
  "path_is_within ln c r =
    (let ck = canonical_path_key ln c; rk = canonical_path_key ln r in
     rk \<noteq> [] \<and> (ck = rk \<or> (\<exists>t. t \<noteq> [] \<and> ck = with_separator rk @ t)))"
  unfolding path_is_within_def Let_def with_separator_def [symmetric] take_prefix_iff
  by (auto simp: with_separator_def split: if_splits)

lemma path_is_within_trans:
  assumes "path_is_within ln a b" "path_is_within ln b c"
  shows "path_is_within ln a c"
proof -
  let ?a = "canonical_path_key ln a" and ?b = "canonical_path_key ln b" and ?c = "canonical_path_key ln c"
  have c: "?c \<noteq> []" using assms(2) by (simp add: path_is_within_iff Let_def)
  have bc: "?b = ?c \<or> (\<exists>t. t \<noteq> [] \<and> ?b = with_separator ?c @ t)"
    using assms(2) by (simp add: path_is_within_iff Let_def)
  have ab: "?a = ?b \<or> (\<exists>t. t \<noteq> [] \<and> ?a = with_separator ?b @ t)"
    using assms(1) by (simp add: path_is_within_iff Let_def)
  obtain u where u: "with_separator ?b = ?b @ u"
    by (cases "last ?b = CHR 0x5C") (simp_all add: with_separator_def)
  have "?a = ?c \<or> (\<exists>t. t \<noteq> [] \<and> ?a = with_separator ?c @ t)"
  proof (cases "?b = ?c")
    case False
    then obtain t where t: "t \<noteq> []" "?b = with_separator ?c @ t" using bc by blast
    have below: "with_separator ?b @ s = with_separator ?c @ (t @ u @ s)" for s
      unfolding u using t(2) by (metis append_assoc)
    from ab show ?thesis
    proof
      assume "?a = ?b"
      then have "?a = with_separator ?c @ t" using t(2) by (rule trans)
      with t(1) show ?thesis by blast
    next
      assume "\<exists>s. s \<noteq> [] \<and> ?a = with_separator ?b @ s"
      then obtain s where "?a = with_separator ?b @ s" by blast
      then have "?a = with_separator ?c @ (t @ u @ s)" unfolding below .
      moreover have "t @ u @ s \<noteq> []" using t(1) by simp
      ultimately have "\<exists>t. t \<noteq> [] \<and> ?a = with_separator ?c @ t" by (intro exI [of _ "t @ u @ s"] conjI)
      then show ?thesis ..
    qed
  next
    case True
    with ab show ?thesis by simp
  qed
  with c show ?thesis by (simp add: path_is_within_iff Let_def)
qed

text \<open>A sibling whose name merely extends the root's name is outside the root.\<close>

lemma path_sibling_outside:
  assumes "canonical_path_key ln c = canonical_path_key ln r @ x # t"
    and "x \<noteq> CHR 0x5C" "last (canonical_path_key ln r) \<noteq> CHR 0x5C"
  shows "\<not> path_is_within ln c r"
  using assms by (auto simp: path_is_within_iff Let_def with_separator_def)

section \<open>Decimal numbers\<close>

lemma of_char_digit: "d < 10 \<Longrightarrow> of_char (char_of (48 + d)) = (48 + d :: nat)"
  by simp

lemma is_digit_char_of: "d < 10 \<Longrightarrow> is_digit (char_of (48 + d :: nat))"
  by (simp add: is_digit_def)

lemma digits_dec_string: "list_all is_digit (dec_string n)"
proof (induction n rule: dec_string.induct)
  case (1 n)
  then show ?case by (subst dec_string.simps) (auto simp: is_digit_char_of)
qed

lemma digits_value_snoc: "digits_value (ds @ [c]) = digits_value ds * 10 + (of_char c - 48)"
  by (simp add: digits_value_def)

lemma digits_value_dec_string: "digits_value (dec_string n) = n"
proof (induction n rule: dec_string.induct)
  case (1 n)
  show ?case
  proof (cases "n < 10")
    case True
    then show ?thesis by (subst dec_string.simps) (simp add: digits_value_def of_char_digit)
  next
    case False
    then show ?thesis
      using 1 by (subst dec_string.simps) (simp add: digits_value_snoc of_char_digit)
  qed
qed

lemma dec_string_nonempty [simp]: "dec_string n \<noteq> []"
  by (subst dec_string.simps) simp

section \<open>Generator\<close>

lemma next_below_bound: "bound \<noteq> 0 \<Longrightarrow> fst (next_below bound r) < bound"
  by (simp add: next_below_def case_prod_beta word_mod_less_divisor word_neq_0_conv)

end
