(* ===== verification/Digests.thy ===== *)
theory Digests
  imports Canonical
begin

text \<open>
  \<open>src/core/digest.cpp\<close>: SHA-256 with its streaming buffer, the 256-bit \<open>Digest\<close> value and
  its hexadecimal form, the streaming \<open>Hasher\<close> and the table-driven CRC-32C. The fixed buffer
  \<open>block[64]\<close> with its fill count \<open>block_bytes\<close> is the list of the buffered bytes.
\<close>

section \<open>SHA-256\<close>

definition kRoundConstants :: "u32 list" where
  "kRoundConstants = concat
    [[0x428a2f98, 0x71374491, 0xb5c0fbcf, 0xe9b5dba5, 0x3956c25b, 0x59f111f1, 0x923f82a4],
     [0xab1c5ed5, 0xd807aa98, 0x12835b01, 0x243185be, 0x550c7dc3, 0x72be5d74, 0x80deb1fe],
     [0x9bdc06a7, 0xc19bf174, 0xe49b69c1, 0xefbe4786, 0x0fc19dc6, 0x240ca1cc, 0x2de92c6f],
     [0x4a7484aa, 0x5cb0a9dc, 0x76f988da, 0x983e5152, 0xa831c66d, 0xb00327c8, 0xbf597fc7],
     [0xc6e00bf3, 0xd5a79147, 0x06ca6351, 0x14292967, 0x27b70a85, 0x2e1b2138, 0x4d2c6dfc],
     [0x53380d13, 0x650a7354, 0x766a0abb, 0x81c2c92e, 0x92722c85, 0xa2bfe8a1, 0xa81a664b],
     [0xc24b8b70, 0xc76c51a3, 0xd192e819, 0xd6990624, 0xf40e3585, 0x106aa070, 0x19a4c116],
     [0x1e376c08, 0x2748774c, 0x34b0bcb5, 0x391c0cb3, 0x4ed8aa4a, 0x5b9cca4f, 0x682e6ff3],
     [0x748f82ee, 0x78a5636f, 0x84c87814, 0x8cc70208, 0x90befffa, 0xa4506ceb, 0xbef9a3f7],
     [0xc67178f2]]"

definition kInitialState :: "u32 list" where
  "kInitialState =
    [0x6a09e667, 0xbb67ae85, 0x3c6ef372, 0xa54ff53a,
     0x510e527f, 0x9b05688c, 0x1f83d9ab, 0x5be0cd19]"

definition rotr :: "u32 \<Rightarrow> nat \<Rightarrow> u32" where
  "rotr value cnt = drop_bit cnt value OR push_bit (32 - cnt) value"

record sha256_state =
  h :: "u32 list"
  total_bytes :: u64
  block :: "u8 list"

definition sha256_init :: sha256_state where
  "sha256_init = \<lparr>h = kInitialState, total_bytes = 0, block = []\<rparr>"

definition block_word :: "u8 list \<Rightarrow> nat \<Rightarrow> u32" where
  "block_word data i =
     push_bit 24 (ucast (data ! (i * 4))) OR push_bit 16 (ucast (data ! (i * 4 + 1))) OR
     push_bit 8 (ucast (data ! (i * 4 + 2))) OR ucast (data ! (i * 4 + 3))"

definition schedule_word :: "u32 list \<Rightarrow> nat \<Rightarrow> u32" where
  "schedule_word w i =
     (let s0 = rotr (w ! (i - 15)) 7 XOR rotr (w ! (i - 15)) 18 XOR drop_bit 3 (w ! (i - 15));
          s1 = rotr (w ! (i - 2)) 17 XOR rotr (w ! (i - 2)) 19 XOR drop_bit 10 (w ! (i - 2))
      in w ! (i - 16) + s0 + w ! (i - 7) + s1)"

definition message_schedule :: "u8 list \<Rightarrow> u32 list" where
  "message_schedule data =
     foldl (\<lambda>w i. w @ [schedule_word w i]) (map (block_word data) [0..<16]) [16..<64]"

type_synonym sha_regs = "u32 \<times> u32 \<times> u32 \<times> u32 \<times> u32 \<times> u32 \<times> u32 \<times> u32"

definition sha_round :: "u32 list \<Rightarrow> sha_regs \<Rightarrow> nat \<Rightarrow> sha_regs" where
  "sha_round w = (\<lambda>(a, b, c, d, e, f, g, hh) i.
     let s1 = rotr e 6 XOR rotr e 11 XOR rotr e 25;
         ch = (e AND f) XOR ((NOT e) AND g);
         temp1 = hh + s1 + ch + kRoundConstants ! i + w ! i;
         s0 = rotr a 2 XOR rotr a 13 XOR rotr a 22;
         maj = (a AND b) XOR (a AND c) XOR (b AND c);
         temp2 = s0 + maj
     in (temp1 + temp2, a, b, c, d + temp1, e, f, g))"

definition sha_compress :: "u8 list \<Rightarrow> u32 list \<Rightarrow> u32 list" where
  "sha_compress data hs =
     (case foldl (sha_round (message_schedule data))
        (hs ! 0, hs ! 1, hs ! 2, hs ! 3, hs ! 4, hs ! 5, hs ! 6, hs ! 7) [0..<64]
      of (a, b, c, d, e, f, g, hh) \<Rightarrow>
        [hs ! 0 + a, hs ! 1 + b, hs ! 2 + c, hs ! 3 + d, hs ! 4 + e, hs ! 5 + f, hs ! 6 + g, hs ! 7 + hh])"

text \<open>The loop \<open>while (size >= 64) compress(data)\<close>: the new state words and the unread tail.\<close>

function compress_blocks :: "u8 list \<Rightarrow> u32 list \<Rightarrow> u32 list \<times> u8 list" where
  "compress_blocks data hs =
     (if length data \<ge> 64 then compress_blocks (drop 64 data) (sha_compress (take 64 data) hs)
      else (hs, data))"
  by pat_completeness auto

termination compress_blocks
  by (relation "measure (length \<circ> fst)") auto

declare compress_blocks.simps [simp del]

definition sha256_update :: "u8 list \<Rightarrow> sha256_state \<Rightarrow> sha256_state" where
  "sha256_update data st =
     (let st = st\<lparr>total_bytes := total_bytes st + of_nat (length data)\<rparr>;
          (st, data) =
            (if block st \<noteq> [] then
               let need = 64 - length (block st);
                   n = (if length data < need then length data else need);
                   blk = block st @ take n data;
                   data = drop n data
               in if length blk = 64 then (st\<lparr>h := sha_compress blk (h st), block := []\<rparr>, data)
                  else (st\<lparr>block := blk\<rparr>, data)
             else (st, data));
          (hs, tail) = compress_blocks data (h st);
          st = st\<lparr>h := hs\<rparr>
      in if tail \<noteq> [] then st\<lparr>block := tail\<rparr> else st)"

definition be_bytes_u64 :: "u64 \<Rightarrow> u8 list" where
  "be_bytes_u64 v = map (\<lambda>i. ucast (drop_bit (i * 8) v AND 0xFF)) [7, 6, 5, 4, 3, 2, 1, 0]"

definition be_bytes_u32 :: "u32 \<Rightarrow> u8 list" where
  "be_bytes_u32 v = [ucast (drop_bit 24 v AND 0xFF), ucast (drop_bit 16 v AND 0xFF),
     ucast (drop_bit 8 v AND 0xFF), ucast (v AND 0xFF)]"

definition sha_padding :: "u64 \<Rightarrow> u8 list" where
  "sha_padding total_len =
     (let bit_length = total_len * 8;
          rem = unat ((total_len + 1) mod 64);
          zeros = (if rem \<le> 56 then 56 - rem else 120 - rem)
      in [0x80] @ replicate zeros 0 @ be_bytes_u64 bit_length)"

definition sha256_finish :: "sha256_state \<Rightarrow> u8 list" where
  "sha256_finish st =
     (let st = sha256_update (sha_padding (total_bytes st)) st
      in concat (map (\<lambda>i. be_bytes_u32 (h st ! i)) [0..<8]))"

section \<open>Digest values\<close>

datatype digest = Digest (raw: "u8 list")

definition kBytes :: nat where
  "kBytes = 32"

definition digest_default :: digest where
  "digest_default = Digest (replicate kBytes 0)"

definition bytes_of :: "string \<Rightarrow> u8 list" where
  "bytes_of s = map byte_value s"

definition digest_of_bytes :: "u8 list \<Rightarrow> digest" where
  "digest_of_bytes data = Digest (sha256_finish (sha256_update data sha256_init))"

definition digest_of :: "string \<Rightarrow> digest" where
  "digest_of s = digest_of_bytes (bytes_of s)"

definition hex_value :: "char \<Rightarrow> int" where
  "hex_value c =
     (let n = of_char c :: int in
      if 48 \<le> n \<and> n \<le> 57 then n - 48
      else if 97 \<le> n \<and> n \<le> 102 then n - 97 + 10
      else if 65 \<le> n \<and> n \<le> 70 then n - 65 + 10
      else -1)"

fun from_hex_pairs :: "string \<Rightarrow> u8 list option" where
  "from_hex_pairs (c # d # cs) =
     (let hi = hex_value c; lo = hex_value d in
      if hi < 0 \<or> lo < 0 then None
      else map_option (\<lambda>bs. of_int ((push_bit 4 hi) OR lo) # bs) (from_hex_pairs cs))"
| "from_hex_pairs _ = Some []"

definition digest_from_hex :: "string \<Rightarrow> digest option" where
  "digest_from_hex hex = (if length hex \<noteq> kBytes * 2 then None else map_option Digest (from_hex_pairs hex))"

definition byte_to_hex :: "u8 \<Rightarrow> string" where
  "byte_to_hex b = [kHex ! unat (drop_bit 4 b), kHex ! unat (b AND 0x0F)]"

definition to_hex :: "digest \<Rightarrow> string" where
  "to_hex d = concat (map byte_to_hex (raw d))"

definition to_short_hex :: "digest \<Rightarrow> string" where
  "to_short_hex d = take 16 (to_hex d)"

definition digest_zero :: "digest \<Rightarrow> bool" where
  "digest_zero d = list_all (\<lambda>b. b = 0) (raw d)"

section \<open>Hashing a file\<close>

text \<open>
  The file system is a parameter of \<open>Digest::of_file\<close>: the reported size (or an error), whether
  the file opens, the successive non-empty reads of at most 64 KiB, and the final \<open>bad\<close> flag.
\<close>

record file_view =
  fv_size :: "u64 option"
  fv_opens :: bool
  fv_reads :: "u8 list list"
  fv_bad :: bool

definition kDefaultFileBound :: u64 where
  "kDefaultFileBound = 512 * 1024 * 1024"

fun hash_reads :: "u64 \<Rightarrow> u64 \<Rightarrow> sha256_state \<Rightarrow> u8 list list \<Rightarrow> (u64 \<times> sha256_state) option" where
  "hash_reads max_bytes consumed st [] = Some (consumed, st)"
| "hash_reads max_bytes consumed st (got # reads) =
     (if got = [] then Some (consumed, st)
      else let consumed = consumed + of_nat (length got) in
        if consumed > max_bytes then None
        else hash_reads max_bytes consumed (sha256_update got st) reads)"

definition digest_of_file :: "file_view \<Rightarrow> u64 \<Rightarrow> digest option" where
  "digest_of_file f max_bytes =
     (case fv_size f of
        None \<Rightarrow> None
      | Some file_size \<Rightarrow>
          if file_size > max_bytes then None
          else if \<not> fv_opens f then None
          else case hash_reads max_bytes 0 sha256_init (fv_reads f) of
              None \<Rightarrow> None
            | Some (consumed, st) \<Rightarrow>
                if fv_bad f then None
                else if consumed \<noteq> file_size then None
                else Some (Digest (sha256_finish st)))"

section \<open>Streaming hasher\<close>

definition hasher_update_u32 :: "u32 \<Rightarrow> sha256_state \<Rightarrow> sha256_state" where
  "hasher_update_u32 v = sha256_update
     [ucast (v AND 0xFF), ucast (drop_bit 8 v AND 0xFF), ucast (drop_bit 16 v AND 0xFF), ucast (drop_bit 24 v AND 0xFF)]"

definition hasher_update_u64 :: "u64 \<Rightarrow> sha256_state \<Rightarrow> sha256_state" where
  "hasher_update_u64 v st = hasher_update_u32 (ucast (drop_bit 32 v)) (hasher_update_u32 (ucast (v AND 0xFFFFFFFF)) st)"

definition hasher_update_length_prefixed :: "string \<Rightarrow> sha256_state \<Rightarrow> sha256_state" where
  "hasher_update_length_prefixed s st = sha256_update (bytes_of s) (hasher_update_u64 (of_nat (length s)) st)"

definition hasher_finish :: "sha256_state \<Rightarrow> digest" where
  "hasher_finish st = Digest (sha256_finish st)"

section \<open>CRC-32C\<close>

definition crc_bit_step :: "u32 \<Rightarrow> u32" where
  "crc_bit_step crc = (if crc AND 1 \<noteq> 0 then drop_bit 1 crc XOR 0x82F63B78 else drop_bit 1 crc)"

definition kCrc32cTable :: "u32 list" where
  "kCrc32cTable = map (\<lambda>i. (crc_bit_step ^^ 8) (of_nat i)) [0..<256]"

definition crc_byte_step :: "u32 \<Rightarrow> u8 \<Rightarrow> u32" where
  "crc_byte_step crc v = kCrc32cTable ! unat ((crc XOR ucast v) AND 0xFF) XOR drop_bit 8 crc"

definition crc32c_bytes :: "u8 list \<Rightarrow> u32" where
  "crc32c_bytes bytes = foldl crc_byte_step 0xFFFFFFFF bytes XOR 0xFFFFFFFF"

definition crc32c :: "string \<Rightarrow> u32" where
  "crc32c s = crc32c_bytes (bytes_of s)"

section \<open>Streaming equals one shot\<close>

lemma compress_blocks_tail: "length (snd (compress_blocks data hs)) < 64"
  by (induction data hs rule: compress_blocks.induct)
    (subst compress_blocks.simps, auto)

lemma compress_blocks_short: "length data < 64 \<Longrightarrow> compress_blocks data hs = (hs, data)"
  by (subst compress_blocks.simps) simp

lemma compress_blocks_one:
  "length blk = 64 \<Longrightarrow> compress_blocks (blk @ data) hs = compress_blocks data (sha_compress blk hs)"
  by (subst compress_blocks.simps) simp

lemma compress_blocks_append:
  "compress_blocks (xs @ ys) hs =
    compress_blocks (snd (compress_blocks xs hs) @ ys) (fst (compress_blocks xs hs))"
proof (induction xs hs rule: compress_blocks.induct)
  case (1 xs hs)
  show ?case
  proof (cases "length xs \<ge> 64")
    case True
    then have "compress_blocks (xs @ ys) hs = compress_blocks (drop 64 xs @ ys) (sha_compress (take 64 xs) hs)"
      by (subst compress_blocks.simps) simp
    also have "\<dots> = compress_blocks (snd (compress_blocks xs hs) @ ys) (fst (compress_blocks xs hs))"
      using 1 [OF True] True by (simp add: compress_blocks.simps [of xs hs])
    finally show ?thesis .
  qed (simp add: compress_blocks_short)
qed

text \<open>The state after absorbing a message from the initial state.\<close>

definition sha_absorb :: "u8 list \<Rightarrow> sha256_state" where
  "sha_absorb m = \<lparr>h = fst (compress_blocks m kInitialState), total_bytes = of_nat (length m),
     block = snd (compress_blocks m kInitialState)\<rparr>"

lemma sha_absorb_Nil: "sha_absorb [] = sha256_init"
  by (simp add: sha_absorb_def sha256_init_def compress_blocks_short)

lemma sha256_update_fields:
  assumes "length (block st) < 64"
  shows "sha256_update data st =
    (case compress_blocks (block st @ data) (h st) of (hs, tail) \<Rightarrow>
      st\<lparr>h := hs, total_bytes := total_bytes st + of_nat (length data), block := tail\<rparr>)"
proof (cases "block st = []")
  case True
  then show ?thesis
    by (cases st) (auto simp: sha256_update_def Let_def split: prod.split)
next
  case False
  show ?thesis
  proof (cases "length data < 64 - length (block st)")
    case True
    then have "length (block st @ data) < 64" by simp
    then show ?thesis
      using False True
      by (cases st) (simp add: sha256_update_def Let_def compress_blocks_short)
  next
    case False': False
    let ?n = "64 - length (block st)"
    have "block st @ data = (block st @ take ?n data) @ drop ?n data" by simp
    moreover have "length (block st @ take ?n data) = 64" using False' assms by simp
    ultimately have "compress_blocks (block st @ data) (h st) =
        compress_blocks (drop ?n data) (sha_compress (block st @ take ?n data) (h st))"
      by (metis compress_blocks_one)
    then show ?thesis
      using False False' assms
      by (cases st) (auto simp: sha256_update_def Let_def split: prod.split)
  qed
qed

lemma sha_absorb_update: "sha256_update d (sha_absorb m) = sha_absorb (m @ d)"
proof -
  have "length (block (sha_absorb m)) < 64"
    by (simp add: sha_absorb_def compress_blocks_tail)
  from sha256_update_fields [OF this, of d] show ?thesis
    by (simp add: sha_absorb_def compress_blocks_append [of m d] split: prod.split)
qed

lemma sha_absorb_updates: "foldl (\<lambda>st d. sha256_update d st) (sha_absorb m) ds = sha_absorb (m @ concat ds)"
  by (induction ds arbitrary: m) (simp_all add: sha_absorb_update)

lemma hasher_streaming: "hasher_finish (foldl (\<lambda>st d. sha256_update d st) sha256_init ds) = digest_of_bytes (concat ds)"
  using sha_absorb_updates [of "[]" ds] sha_absorb_update [of "concat ds" "[]"]
  by (simp add: hasher_finish_def digest_of_bytes_def sha_absorb_Nil)

section \<open>Padding\<close>

lemma length_be_bytes [simp]: "length (be_bytes_u64 v) = 8" "length (be_bytes_u32 w) = 4"
  by (simp_all add: be_bytes_u64_def be_bytes_u32_def)

lemma rem_64: "unat ((of_nat n + 1 :: u64) mod 64) = (n + 1) mod 64"
proof -
  have "(of_nat n + 1 :: u64) = of_nat (n + 1)" by simp
  then have "unat ((of_nat n + 1 :: u64) mod 64) = (n + 1) mod 2 ^ 64 mod 64"
    by (simp only: unat_mod_distrib unsigned_of_nat take_bit_eq_mod) simp
  also have "\<dots> = (n + 1) mod 64" by (simp add: mod_mod_cancel)
  finally show ?thesis .
qed

text \<open>The local buffer \<open>pad[72]\<close> is never overrun, and the padded message is whole blocks.\<close>

lemma sha_padding_length: "length (sha_padding t) \<le> 72"
proof -
  have "unat ((t + 1) mod 64) < 64"
    by (simp add: unat_mod_distrib)
  then show ?thesis by (auto simp: sha_padding_def Let_def)
qed

lemma sha_padding_blocks: "(n + length (sha_padding (of_nat n))) mod 64 = 0"
proof -
  define r where "r = (n + 1) mod 64"
  have r: "r < 64" "(n + 1) mod 64 = r" by (simp_all add: r_def)
  have "n + length (sha_padding (of_nat n)) = (n + 1) + ((if r \<le> 56 then 56 - r else 120 - r) + 8)"
    by (simp add: sha_padding_def Let_def rem_64 r_def)
  also have "\<dots> mod 64 = (r + ((if r \<le> 56 then 56 - r else 120 - r) + 8)) mod 64"
    using mod_add_left_eq [of "n + 1" 64] by (metis r(2))
  also have "\<dots> = 0"
    using r(1) by auto
  finally show ?thesis .
qed

text \<open>Hence finishing leaves no buffered byte behind: every byte of the message and of its
  padding has been compressed.\<close>

lemma compress_blocks_whole: "length m mod 64 = 0 \<Longrightarrow> snd (compress_blocks m hs) = []"
proof (induction m hs rule: compress_blocks.induct)
  case (1 m hs)
  show ?case
  proof (cases "length m \<ge> 64")
    case True
    then have "length (drop 64 m) mod 64 = 0"
      using 1(2) by (simp add: mod_if)
    with True 1(1) show ?thesis by (subst compress_blocks.simps) simp
  next
    case False
    with 1(2) show ?thesis by (simp add: compress_blocks_short)
  qed
qed

lemma sha256_finish_absorb:
  "sha256_finish (sha_absorb m) =
    concat (map be_bytes_u32 (map (\<lambda>i. fst (compress_blocks (m @ sha_padding (of_nat (length m))) kInitialState) ! i) [0..<8]))
   \<and> snd (compress_blocks (m @ sha_padding (of_nat (length m))) kInitialState) = []"
proof -
  have t: "total_bytes (sha_absorb m) = of_nat (length m)" by (simp add: sha_absorb_def)
  show ?thesis
    using compress_blocks_whole [of "m @ sha_padding (of_nat (length m))"] sha_padding_blocks [of "length m"]
    by (simp add: sha256_finish_def t sha_absorb_update Let_def) (simp add: sha_absorb_def comp_def)
qed

lemma length_digest_of: "length (raw (digest_of_bytes m)) = kBytes"
  by (simp add: digest_of_bytes_def sha256_finish_def Let_def length_concat comp_def kBytes_def
      interv_sum_list_conv_sum_set_nat)

section \<open>Hexadecimal round trip\<close>

lemma kHex_hex_value: "d < 16 \<Longrightarrow> hex_value (kHex ! d) = int d"
proof -
  assume "d < 16"
  moreover have "list_all (\<lambda>d. hex_value (kHex ! d) = int d) [0..<16]"
    by (simp add: upt_rec [of _ 16] kHex_def hex_value_def)
  ultimately show ?thesis by (simp add: list_all_iff)
qed

lemma and_low_nibble: "b AND (0x0F :: u8) = take_bit 4 b"
  by (simp add: take_bit_eq_mask mask_eq_exp_minus_1)

lemma byte_nibbles:
  "unat (drop_bit 4 (b :: u8)) < 16" "unat (b AND 0x0F) < 16"
  "of_int (push_bit 4 (uint (drop_bit 4 b)) OR uint (b AND 0x0F)) = b"
proof -
  have "unat b < 256" using unsigned_less [of b] by simp
  then show "unat (drop_bit 4 b) < 16"
    by (simp only: unsigned_drop_bit_eq) (simp add: drop_bit_eq_div take_bit_nat_eq_self)
  have "b AND 0x0F \<le> (0x0F :: u8)" by (rule word_and_le1)
  then show "unat (b AND 0x0F) < 16" by (simp add: word_le_nat_alt)
  show "of_int (push_bit 4 (uint (drop_bit 4 b)) OR uint (b AND 0x0F)) = b"
    unfolding and_low_nibble
    by (rule bit_word_eqI) (auto simp: bit_word_of_int_iff bit_simps)
qed

lemma from_hex_to_hex: "from_hex_pairs (concat (map byte_to_hex bs)) = Some bs"
  by (induction bs) (simp_all add: byte_to_hex_def kHex_hex_value byte_nibbles Let_def)

lemma digest_hex_round_trip: "length (raw d) = kBytes \<Longrightarrow> digest_from_hex (to_hex d) = Some d"
  by (simp add: digest_from_hex_def to_hex_def from_hex_to_hex length_concat comp_def byte_to_hex_def sum_list_triv)

section \<open>The CRC table is the bitwise division\<close>

lemma xor_cancel: "(a XOR c = b XOR c) = (a = (b :: u32))" "(c XOR a = c XOR b) = (a = b)"
proof -
  have "(a XOR c) XOR c = a" "(b XOR c) XOR c = b" by (simp_all add: xor.assoc)
  then show first: "(a XOR c = b XOR c) = (a = b)" by metis
  show "(c XOR a = c XOR b) = (a = b)"
    using first by (simp only: xor.commute [of c])
qed

lemma crc_bit_step_alt: "crc_bit_step c = drop_bit 1 c XOR (if bit c 0 then 0x82F63B78 else 0)"
  by (simp add: crc_bit_step_def and_one_eq odd_iff_mod_2_eq_one bit_0)

lemma crc_bit_step_xor: "crc_bit_step (a XOR b) = crc_bit_step a XOR crc_bit_step b"
  by (simp add: crc_bit_step_alt bit_xor_iff drop_bit_xor ac_simps)

lemma crc_steps_xor: "(crc_bit_step ^^ n) (a XOR b) = (crc_bit_step ^^ n) a XOR (crc_bit_step ^^ n) b"
  by (induction n) (simp_all add: crc_bit_step_xor)

lemma drop_push_bit:
  "0 < m \<Longrightarrow> drop_bit 1 (push_bit m (drop_bit m x)) = push_bit (m - 1) (drop_bit (m - 1) (drop_bit 1 (x :: u32)))"
  by (rule bit_word_eqI) (auto simp: bit_simps Suc_diff_Suc dest: bit_imp_le_length)

lemma push_bit_bit0: "\<not> bit (push_bit (Suc n) x :: u32) 0"
  by (simp only: bit_push_bit_iff) simp

lemma crc_steps_shift: "(crc_bit_step ^^ n) (push_bit n (drop_bit n x)) = drop_bit n x"
proof (induction n arbitrary: x)
  case (Suc n)
  have "crc_bit_step (push_bit (Suc n) (drop_bit (Suc n) x)) = drop_bit 1 (push_bit (Suc n) (drop_bit (Suc n) x))"
    using push_bit_bit0 [of n "drop_bit (Suc n) x"] by (simp only: crc_bit_step_alt) simp
  also have "\<dots> = push_bit n (drop_bit n (drop_bit 1 x))"
    using drop_push_bit [of "Suc n" x] by simp
  finally show ?case
    using Suc.IH [of "drop_bit 1 x"] by (simp only: funpow_Suc_right o_apply) simp
qed simp

lemma nth_kCrc32cTable: "n < 256 \<Longrightarrow> kCrc32cTable ! n = (crc_bit_step ^^ 8) (of_nat n)"
  by (simp add: kCrc32cTable_def)

lemma low_high_split: "x = take_bit 8 x XOR push_bit 8 (drop_bit 8 (x :: u32))"
  by (rule bit_word_eqI) (auto simp: bit_simps)

lemma crc_byte_step_bits: "crc_byte_step crc v = (crc_bit_step ^^ 8) (crc XOR ucast v)"
proof -
  let ?x = "crc XOR ucast v :: u32"
  have "?x AND 0xFF \<le> (0xFF :: u32)" by (rule word_and_le1)
  then have low: "unat (?x AND 0xFF) < 256" by (simp add: word_le_nat_alt)
  have high: "drop_bit 8 ?x = drop_bit 8 crc"
    by (rule bit_word_eqI) (auto simp: bit_simps dest: bit_imp_le_length)
  have "?x = (?x AND 0xFF) XOR push_bit 8 (drop_bit 8 ?x)"
    unfolding and_255_take_bit by (rule low_high_split)
  then have "(crc_bit_step ^^ 8) ?x = (crc_bit_step ^^ 8) (?x AND 0xFF) XOR drop_bit 8 ?x"
    by (metis crc_steps_xor crc_steps_shift)
  then show ?thesis
    unfolding crc_byte_step_def nth_kCrc32cTable [OF low] high by simp
qed

lemma crc_bit_step_inj: "crc_bit_step a = crc_bit_step b \<Longrightarrow> a = b"
proof -
  assume eq: "crc_bit_step a = crc_bit_step b"
  have top: "bit (crc_bit_step c) 31 = bit c 0" for c
    by (auto simp: crc_bit_step_alt bit_xor_iff bit_drop_bit_eq dest: bit_imp_le_length)
  then have zero: "bit a 0 = bit b 0" using eq by metis
  then have "drop_bit 1 a = drop_bit 1 b"
    using eq by (auto simp: crc_bit_step_alt xor_cancel split: if_splits)
  then have "bit a (Suc n) = bit b (Suc n)" for n
    by (metis bit_drop_bit_eq comp_apply plus_1_eq_Suc)
  with zero show ?thesis
    by (intro bit_word_eqI) (metis not0_implies_Suc)
qed

lemma crc_steps_inj: "(crc_bit_step ^^ n) a = (crc_bit_step ^^ n) b \<Longrightarrow> a = b"
  by (induction n) (auto dest: crc_bit_step_inj)

lemma crc_byte_step_inj_crc: "crc_byte_step a v = crc_byte_step b v \<Longrightarrow> a = b"
  by (auto simp: crc_byte_step_bits xor_cancel dest: crc_steps_inj)

lemma ucast_u8_inj: "(ucast v :: u32) = ucast w \<Longrightarrow> v = (w :: u8)"
proof (rule bit_word_eqI)
  fix n assume eq: "(ucast v :: u32) = ucast w" and "n < LENGTH(8)"
  then have "n < 32" by simp
  have "bit (ucast v :: u32) n = bit (ucast w :: u32) n" using eq by simp
  with \<open>n < 32\<close> show "bit v n = bit w n" by (simp add: bit_ucast_iff)
qed

lemma crc_byte_step_inj_byte: "crc_byte_step c v = crc_byte_step c w \<Longrightarrow> v = w"
  by (auto simp: crc_byte_step_bits xor_cancel dest!: crc_steps_inj intro: ucast_u8_inj)

lemma crc_fold_inj: "foldl crc_byte_step a bs = foldl crc_byte_step b bs \<Longrightarrow> a = b"
  by (induction bs arbitrary: a b) (auto dest: crc_byte_step_inj_crc)

text \<open>A corruption confined to one byte always changes the checksum.\<close>

lemma crc32c_bytes_single_byte:
  "v \<noteq> w \<Longrightarrow> crc32c_bytes (pre @ v # post) \<noteq> crc32c_bytes (pre @ w # post)"
  by (auto simp: crc32c_bytes_def xor_cancel dest!: crc_fold_inj crc_byte_step_inj_byte)

lemma crc32c_bytes_bits:
  "crc32c_bytes bs = foldl (\<lambda>c v. (crc_bit_step ^^ 8) (c XOR ucast v)) 0xFFFFFFFF bs XOR 0xFFFFFFFF"
  by (simp add: crc32c_bytes_def crc_byte_step_bits [abs_def])

section \<open>A file hashes to its bytes or not at all\<close>

lemma hash_reads_result:
  assumes "hash_reads mx c (sha_absorb m) rs = Some (c', st)" "[] \<notin> set rs"
  shows "c' = c + of_nat (length (concat rs)) \<and> st = sha_absorb (m @ concat rs)"
  using assms
proof (induction rs arbitrary: c m)
  case (Cons r rs)
  have "hash_reads mx (c + of_nat (length r)) (sha_absorb (m @ r)) rs = Some (c', st)"
    using Cons.prems by (simp add: sha_absorb_update Let_def split: if_splits)
  from Cons.IH [OF this] Cons.prems(2) show ?case
    by (simp add: add.assoc)
qed simp

lemma digest_of_file_result:
  assumes "digest_of_file f mx = Some d" "[] \<notin> set (fv_reads f)"
  shows "d = digest_of_bytes (concat (fv_reads f)) \<and>
    fv_size f = Some (of_nat (length (concat (fv_reads f)))) \<and> the (fv_size f) \<le> mx"
proof -
  obtain c st where "hash_reads mx 0 (sha_absorb []) (fv_reads f) = Some (c, st)" "fv_size f = Some c"
      "c \<le> mx" "d = Digest (sha256_finish st)"
    using assms(1)
    by (auto simp: digest_of_file_def sha_absorb_Nil not_less split: option.splits prod.splits if_splits)
  with hash_reads_result [OF this(1) assms(2)] show ?thesis
    using sha_absorb_update [of "concat (fv_reads f)" "[]"]
    by (simp add: digest_of_bytes_def sha_absorb_Nil)
qed

section \<open>Claims\<close>

text \<open>
  The streaming hasher is the one-shot digest: however the data is cut into updates, with or
  without partly filled blocks, the result is the digest of the whole.
\<close>

lemma streaming_hash_is_digest:
  "hasher_finish (foldl (\<lambda>st d. sha256_update d st) sha256_init ds) = digest_of_bytes (concat ds)"
  by (rule hasher_streaming)

end
