(* ===== verification/Phase.thy ===== *)
theory Phase
  imports Digests
begin

text \<open>
  \<open>include/crf/phase.hpp\<close> and \<open>src/core/phase.cpp\<close>: the phase vocabulary, the explicit
  phase lifecycle, the failure classification, and the record of one phase of one session with
  its attempts and its bounded transition history.
\<close>

section \<open>Vocabulary\<close>

datatype phase_kind =
    PK_unknown | PK_input_validate | PK_preprocess | PK_frontend | PK_parse
  | PK_semantic_analysis | PK_ir_generate | PK_ir_optimize | PK_codegen | PK_assemble
  | PK_device_compile | PK_device_link | PK_link | PK_postprocess | PK_validate
  | PK_finalize | PK_custom

fun to_string_phase_kind :: "phase_kind \<Rightarrow> string" where
  "to_string_phase_kind PK_unknown = ''UNKNOWN''"
| "to_string_phase_kind PK_input_validate = ''INPUT_VALIDATE''"
| "to_string_phase_kind PK_preprocess = ''PREPROCESS''"
| "to_string_phase_kind PK_frontend = ''FRONTEND''"
| "to_string_phase_kind PK_parse = ''PARSE''"
| "to_string_phase_kind PK_semantic_analysis = ''SEMANTIC_ANALYSIS''"
| "to_string_phase_kind PK_ir_generate = ''IR_GENERATE''"
| "to_string_phase_kind PK_ir_optimize = ''IR_OPTIMIZE''"
| "to_string_phase_kind PK_codegen = ''CODEGEN''"
| "to_string_phase_kind PK_assemble = ''ASSEMBLE''"
| "to_string_phase_kind PK_device_compile = ''DEVICE_COMPILE''"
| "to_string_phase_kind PK_device_link = ''DEVICE_LINK''"
| "to_string_phase_kind PK_link = ''LINK''"
| "to_string_phase_kind PK_postprocess = ''POSTPROCESS''"
| "to_string_phase_kind PK_validate = ''VALIDATE''"
| "to_string_phase_kind PK_finalize = ''FINALIZE''"
| "to_string_phase_kind PK_custom = ''CUSTOM''"

definition kPhaseKinds :: "phase_kind list" where
  "kPhaseKinds =
    [PK_unknown, PK_input_validate, PK_preprocess, PK_frontend, PK_parse,
     PK_semantic_analysis, PK_ir_generate, PK_ir_optimize, PK_codegen, PK_assemble,
     PK_device_compile, PK_device_link, PK_link, PK_postprocess, PK_validate, PK_finalize,
     PK_custom]"

definition parse_phase_kind :: "string \<Rightarrow> phase_kind option" where
  "parse_phase_kind t = List.find (\<lambda>value. equals_ascii_ci t (to_string_phase_kind value)) kPhaseKinds"

datatype phase_state =
    PS_pending | PS_ready | PS_preparing | PS_running | PS_produced | PS_validating
  | PS_commit_ready | PS_committed | PS_failed | PS_cancelled | PS_fenced
  | PS_recovery_required | PS_retired

fun to_string_phase_state :: "phase_state \<Rightarrow> string" where
  "to_string_phase_state PS_pending = ''PENDING''"
| "to_string_phase_state PS_ready = ''READY''"
| "to_string_phase_state PS_preparing = ''PREPARING''"
| "to_string_phase_state PS_running = ''RUNNING''"
| "to_string_phase_state PS_produced = ''PRODUCED''"
| "to_string_phase_state PS_validating = ''VALIDATING''"
| "to_string_phase_state PS_commit_ready = ''COMMIT_READY''"
| "to_string_phase_state PS_committed = ''COMMITTED''"
| "to_string_phase_state PS_failed = ''FAILED''"
| "to_string_phase_state PS_cancelled = ''CANCELLED''"
| "to_string_phase_state PS_fenced = ''FENCED''"
| "to_string_phase_state PS_recovery_required = ''RECOVERY_REQUIRED''"
| "to_string_phase_state PS_retired = ''RETIRED''"

definition kPhaseStates :: "phase_state list" where
  "kPhaseStates =
    [PS_pending, PS_ready, PS_preparing, PS_running, PS_produced, PS_validating,
     PS_commit_ready, PS_committed, PS_failed, PS_cancelled, PS_fenced,
     PS_recovery_required, PS_retired]"

definition parse_phase_state :: "string \<Rightarrow> phase_state option" where
  "parse_phase_state t = List.find (\<lambda>value. equals_ascii_ci t (to_string_phase_state value)) kPhaseStates"

section \<open>Lifecycle\<close>

definition is_legal_phase_transition :: "phase_state \<Rightarrow> phase_state \<Rightarrow> bool" where
  "is_legal_phase_transition from to =
     (if from = to then False
      else case from of
        PS_pending \<Rightarrow> to = PS_ready \<or> to = PS_cancelled \<or> to = PS_retired
      | PS_ready \<Rightarrow> to = PS_preparing \<or> to = PS_cancelled \<or> to = PS_retired \<or>
          to = PS_recovery_required \<or> to = PS_failed
      | PS_preparing \<Rightarrow> to = PS_running \<or> to = PS_failed \<or> to = PS_cancelled \<or> to = PS_fenced \<or>
          to = PS_recovery_required
      | PS_running \<Rightarrow> to = PS_produced \<or> to = PS_failed \<or> to = PS_cancelled \<or> to = PS_fenced \<or>
          to = PS_recovery_required
      | PS_produced \<Rightarrow> to = PS_validating \<or> to = PS_failed \<or> to = PS_cancelled \<or> to = PS_fenced \<or>
          to = PS_recovery_required
      | PS_validating \<Rightarrow> to = PS_commit_ready \<or> to = PS_failed \<or> to = PS_cancelled \<or> to = PS_fenced \<or>
          to = PS_recovery_required
      | PS_commit_ready \<Rightarrow> to = PS_committed \<or> to = PS_failed \<or> to = PS_cancelled \<or> to = PS_fenced \<or>
          to = PS_recovery_required
      | PS_committed \<Rightarrow> to = PS_fenced \<or> to = PS_retired
      | PS_failed \<Rightarrow> to = PS_ready \<or> to = PS_cancelled \<or> to = PS_retired \<or>
          to = PS_recovery_required \<or> to = PS_fenced
      | PS_cancelled \<Rightarrow> to = PS_retired
      | PS_fenced \<Rightarrow> to = PS_retired
      | PS_recovery_required \<Rightarrow> to = PS_ready \<or> to = PS_failed \<or> to = PS_cancelled \<or> to = PS_retired
      | PS_retired \<Rightarrow> False)"

definition phase_state_is_terminal :: "phase_state \<Rightarrow> bool" where
  "phase_state_is_terminal state =
     (state = PS_committed \<or> state = PS_cancelled \<or> state = PS_retired \<or> state = PS_fenced)"

definition phase_state_retains_commit_authority :: "phase_state \<Rightarrow> bool" where
  "phase_state_retains_commit_authority state =
     (state \<in> set [PS_pending, PS_ready, PS_preparing, PS_running, PS_produced, PS_validating, PS_commit_ready])"

definition phase_state_may_hold_process :: "phase_state \<Rightarrow> bool" where
  "phase_state_may_hold_process state = (state = PS_preparing \<or> state = PS_running)"

section \<open>Failure classification\<close>

datatype failure_class =
    FC_none | FC_process_crash | FC_process_interrupted | FC_transient_workspace_failure
  | FC_transient_storage_failure | FC_retry_safe_tool_invocation_failure
  | FC_external_cancellation | FC_invalid_source | FC_deterministic_compiler_error
  | FC_unsupported_target | FC_unsupported_option | FC_invalid_toolchain
  | FC_policy_refusal | FC_output_invalid | FC_authority_invalidated | FC_unknown_outcome

fun to_string_failure_class :: "failure_class \<Rightarrow> string" where
  "to_string_failure_class FC_none = ''NONE''"
| "to_string_failure_class FC_process_crash = ''PROCESS_CRASH''"
| "to_string_failure_class FC_process_interrupted = ''PROCESS_INTERRUPTED''"
| "to_string_failure_class FC_transient_workspace_failure = ''TRANSIENT_WORKSPACE_FAILURE''"
| "to_string_failure_class FC_transient_storage_failure = ''TRANSIENT_STORAGE_FAILURE''"
| "to_string_failure_class FC_retry_safe_tool_invocation_failure = ''RETRY_SAFE_TOOL_INVOCATION_FAILURE''"
| "to_string_failure_class FC_external_cancellation = ''EXTERNAL_CANCELLATION''"
| "to_string_failure_class FC_invalid_source = ''INVALID_SOURCE''"
| "to_string_failure_class FC_deterministic_compiler_error = ''DETERMINISTIC_COMPILER_ERROR''"
| "to_string_failure_class FC_unsupported_target = ''UNSUPPORTED_TARGET''"
| "to_string_failure_class FC_unsupported_option = ''UNSUPPORTED_OPTION''"
| "to_string_failure_class FC_invalid_toolchain = ''INVALID_TOOLCHAIN''"
| "to_string_failure_class FC_policy_refusal = ''POLICY_REFUSAL''"
| "to_string_failure_class FC_output_invalid = ''OUTPUT_INVALID''"
| "to_string_failure_class FC_authority_invalidated = ''AUTHORITY_INVALIDATED''"
| "to_string_failure_class FC_unknown_outcome = ''UNKNOWN_OUTCOME''"

definition kFailureClasses :: "failure_class list" where
  "kFailureClasses =
    [FC_none, FC_process_crash, FC_process_interrupted, FC_transient_workspace_failure,
     FC_transient_storage_failure, FC_retry_safe_tool_invocation_failure,
     FC_external_cancellation, FC_invalid_source, FC_deterministic_compiler_error,
     FC_unsupported_target, FC_unsupported_option, FC_invalid_toolchain,
     FC_policy_refusal, FC_output_invalid, FC_authority_invalidated, FC_unknown_outcome]"

definition parse_failure_class :: "string \<Rightarrow> failure_class option" where
  "parse_failure_class t = List.find (\<lambda>value. equals_ascii_ci t (to_string_failure_class value)) kFailureClasses"

definition is_retryable :: "failure_class \<Rightarrow> bool" where
  "is_retryable value =
     (value \<in> set [FC_process_crash, FC_process_interrupted, FC_transient_workspace_failure,
        FC_transient_storage_failure, FC_retry_safe_tool_invocation_failure, FC_external_cancellation])"

definition classify_status :: "status_code \<Rightarrow> failure_class" where
  "classify_status code =
     (if code \<in> set [SC_ok] then FC_none
      else if code \<in> set [SC_process_crashed] then FC_process_crash
      else if code \<in> set [SC_process_cancelled, SC_cancelled, SC_shutting_down] then FC_external_cancellation
      else if code \<in> set [SC_process_launch_failed, SC_process_orphaned] then FC_transient_workspace_failure
      else if code \<in> set [SC_persistence_io, SC_persistence_truncated] then FC_transient_storage_failure
      else if code \<in> set [SC_stale_session_generation, SC_stale_compilation_generation,
          SC_stale_attempt_generation, SC_stale_phase_generation, SC_stale_invocation,
          SC_stale_toolchain_generation, SC_stale_component_generation,
          SC_stale_target_generation, SC_stale_source_generation, SC_stale_ir_generation,
          SC_stale_environment_generation, SC_stale_policy_generation,
          SC_stale_lease_generation, SC_stale_artifact_generation, SC_stale_epoch,
          SC_stale_worker_generation] then FC_authority_invalidated
      else if code \<in> set [SC_output_missing, SC_output_empty, SC_output_corrupt,
          SC_output_unexpected_format, SC_output_wrong_target, SC_output_incompatible,
          SC_output_validation_failed, SC_smoke_test_failed] then FC_output_invalid
      else if code \<in> set [SC_toolchain_not_found, SC_component_not_found, SC_component_mutated,
          SC_toolchain_ambiguous] then FC_invalid_toolchain
      else if code \<in> set [SC_target_unsupported, SC_unsupported, SC_not_implemented] then FC_unsupported_target
      else if code \<in> set [SC_policy_refused, SC_invalid_argument, SC_invalid_identity, SC_invalid_enum,
          SC_path_traversal, SC_workspace_escape, SC_path_not_absolute,
          SC_reparse_point_rejected, SC_permission_denied, SC_retry_not_permitted,
          SC_retry_exhausted] then FC_policy_refusal
      else if code \<in> set [SC_process_exited_nonzero, SC_not_found] then FC_deterministic_compiler_error
      else FC_unknown_outcome)"

section \<open>Records\<close>

record phase_attempt =
  pa_id :: attempt_id
  pa_generation :: "attempt_tag generation"
  pa_invocation :: "invocation_tag referenced"
  pa_process_generation :: "process_tag generation"
  pa_os_process_id :: u32
  pa_terminal_state :: phase_state
  pa_failure :: failure_class
  pa_status :: status_code
  pa_exit_code :: int
  pa_started_at_nanos :: u64
  pa_finished_at_nanos :: u64
  pa_observed_output_digest :: digest
  pa_detail :: string

record phase_transition =
  pt_from :: phase_state
  pt_to :: phase_state
  pt_at_nanos :: u64
  pt_reason :: string

record phase_record =
  pr_id :: phase_id
  pr_generation :: "phase_tag generation"
  pr_kind :: phase_kind
  pr_adapter_phase :: string
  pr_state :: phase_state
  pr_mandatory :: bool
  pr_depends_on :: "phase_id list"
  pr_session_generation :: "session_tag generation"
  pr_compilation_generation :: "compilation_tag generation"
  pr_attempt_generation :: "attempt_tag generation"
  pr_toolchain :: "toolchain_tag referenced"
  pr_target :: "target_tag referenced"
  pr_environment :: "environment_tag referenced"
  pr_policy :: "policy_tag referenced"
  pr_source :: "source_tag referenced"
  pr_ir_generation :: "ir_tag generation"
  pr_lease :: "lease_tag referenced"
  pr_active_invocation :: "invocation_tag referenced"
  pr_active_process :: process_id
  pr_active_process_generation :: "process_tag generation"
  pr_inputs :: "intermediate_tag referenced list"
  pr_outputs :: "intermediate_tag referenced list"
  pr_diagnostics :: "diagnostics_tag referenced"
  pr_commit :: commit_id
  pr_committed_output_digest :: digest
  pr_committed_at_nanos :: u64
  pr_attempts :: "phase_attempt list"
  pr_history :: "phase_transition list"
  pr_failure :: failure_class
  pr_last_status :: status_code
  pr_last_detail :: string
  pr_recovery :: recovery_id
  pr_recovery_generation :: "recovery_tag generation"

definition phase_record_default :: phase_record where
  "phase_record_default = \<lparr>pr_id = id_absent, pr_generation = gen_absent, pr_kind = PK_unknown,
     pr_adapter_phase = [], pr_state = PS_pending, pr_mandatory = True, pr_depends_on = [],
     pr_session_generation = gen_absent, pr_compilation_generation = gen_absent,
     pr_attempt_generation = gen_absent, pr_toolchain = ref_absent, pr_target = ref_absent,
     pr_environment = ref_absent, pr_policy = ref_absent, pr_source = ref_absent,
     pr_ir_generation = gen_absent, pr_lease = ref_absent, pr_active_invocation = ref_absent,
     pr_active_process = id_absent, pr_active_process_generation = gen_absent, pr_inputs = [],
     pr_outputs = [], pr_diagnostics = ref_absent, pr_commit = id_absent,
     pr_committed_output_digest = digest_default, pr_committed_at_nanos = 0, pr_attempts = [],
     pr_history = [], pr_failure = FC_none, pr_last_status = SC_ok, pr_last_detail = [],
     pr_recovery = id_absent, pr_recovery_generation = gen_absent\<rparr>"

definition phase_attempt_default :: phase_attempt where
  "phase_attempt_default = \<lparr>pa_id = id_absent, pa_generation = gen_absent, pa_invocation = ref_absent,
     pa_process_generation = gen_absent, pa_os_process_id = 0, pa_terminal_state = PS_pending,
     pa_failure = FC_none, pa_status = SC_ok, pa_exit_code = 0, pa_started_at_nanos = 0,
     pa_finished_at_nanos = 0, pa_observed_output_digest = digest_default, pa_detail = []\<rparr>"

definition attempt_retryable :: "phase_attempt \<Rightarrow> bool" where
  "attempt_retryable a = is_retryable (pa_failure a)"

definition attempt_count :: "phase_record \<Rightarrow> u32" where
  "attempt_count p = of_nat (length (pr_attempts p))"

definition phase_committed :: "phase_record \<Rightarrow> bool" where
  "phase_committed p = (pr_state p = PS_committed)"

definition produced_pending_commit :: "phase_record \<Rightarrow> bool" where
  "produced_pending_commit p =
     (pr_state p = PS_produced \<or> pr_state p = PS_validating \<or> pr_state p = PS_commit_ready)"

definition find_attempt :: "attempt_id \<Rightarrow> phase_record \<Rightarrow> phase_attempt option" where
  "find_attempt attempt p = List.find (\<lambda>entry. pa_id entry = attempt) (pr_attempts p)"

definition kMaxPhaseAttempts :: nat where
  "kMaxPhaseAttempts = 64"

definition kMaxPhaseTransitions :: nat where
  "kMaxPhaseTransitions = 256"

definition attempt_canonical_bytes :: "phase_attempt \<Rightarrow> string" where
  "attempt_canonical_bytes a =
     enc_text (id_to_string ''attempt'' (pa_id a)) @ enc_u64 (gen_value (pa_generation a)) @
     enc_text (ref_to_string ''invocation'' (pa_invocation a)) @
     enc_text (to_string_failure_class (pa_failure a)) @
     enc_text (to_string_status_code (pa_status a)) @ enc_i32 (pa_exit_code a) @
     enc_text (to_hex (pa_observed_output_digest a))"

definition phase_canonical_bytes :: "phase_record \<Rightarrow> string" where
  "phase_canonical_bytes p =
     enc_text (id_to_string ''phase'' (pr_id p)) @ enc_u64 (gen_value (pr_generation p)) @
     enc_text (to_string_phase_kind (pr_kind p)) @ enc_text (pr_adapter_phase p) @
     enc_text (to_string_phase_state (pr_state p)) @ enc_boolean (pr_mandatory p) @
     enc_u64 (gen_value (pr_session_generation p)) @
     enc_u64 (gen_value (pr_compilation_generation p)) @
     enc_u64 (gen_value (pr_attempt_generation p)) @
     enc_text (ref_to_string ''toolchain'' (pr_toolchain p)) @
     enc_text (ref_to_string ''target'' (pr_target p)) @
     enc_text (ref_to_string ''environment'' (pr_environment p)) @
     enc_text (ref_to_string ''policy'' (pr_policy p)) @
     enc_text (ref_to_string ''source'' (pr_source p)) @
     enc_u64 (gen_value (pr_ir_generation p)) @
     enc_text (ref_to_string ''lease'' (pr_lease p)) @
     enc_text (ref_to_string ''invocation'' (pr_active_invocation p)) @
     enc_u64 (id_value (pr_active_process p)) @
     enc_u64 (gen_value (pr_active_process_generation p)) @
     enc_text (id_to_string ''commit'' (pr_commit p)) @
     enc_text (to_hex (pr_committed_output_digest p)) @
     enc_u64 (pr_committed_at_nanos p) @
     enc_text (to_string_failure_class (pr_failure p)) @
     enc_text (to_string_status_code (pr_last_status p)) @ enc_text (pr_last_detail p) @
     concat (map (\<lambda>i. enc_text (ref_to_string ''intermediate'' i)) (pr_inputs p)) @
     concat (map (\<lambda>i. enc_text (ref_to_string ''intermediate'' i)) (pr_outputs p)) @
     concat (map attempt_canonical_bytes (pr_attempts p))"

definition phase_canonical_digest :: "phase_record \<Rightarrow> digest" where
  "phase_canonical_digest p = digest_of (phase_canonical_bytes p)"

section \<open>The lifecycle graph\<close>

lemma legal_into_committed: "is_legal_phase_transition s PS_committed = (s = PS_commit_ready)"
  by (cases s) (simp_all add: is_legal_phase_transition_def)

lemma legal_into_commit_ready: "is_legal_phase_transition s PS_commit_ready = (s = PS_validating)"
  by (cases s) (simp_all add: is_legal_phase_transition_def)

lemma legal_into_validating: "is_legal_phase_transition s PS_validating = (s = PS_produced)"
  by (cases s) (simp_all add: is_legal_phase_transition_def)

lemma legal_into_produced: "is_legal_phase_transition s PS_produced = (s = PS_running)"
  by (cases s) (simp_all add: is_legal_phase_transition_def)

lemma legal_into_running: "is_legal_phase_transition s PS_running = (s = PS_preparing)"
  by (cases s) (simp_all add: is_legal_phase_transition_def)

lemma legal_into_preparing: "is_legal_phase_transition s PS_preparing = (s = PS_ready)"
  by (cases s) (simp_all add: is_legal_phase_transition_def)

lemmas legal_into = legal_into_committed legal_into_commit_ready legal_into_validating
  legal_into_produced legal_into_running legal_into_preparing

lemma legal_from_cancelled: "is_legal_phase_transition PS_cancelled s = (s = PS_retired)"
  by (cases s) (simp_all add: is_legal_phase_transition_def)

lemma legal_from_fenced: "is_legal_phase_transition PS_fenced s = (s = PS_retired)"
  by (cases s) (simp_all add: is_legal_phase_transition_def)

lemma legal_from_retired: "\<not> is_legal_phase_transition PS_retired s"
  by (simp add: is_legal_phase_transition_def)

lemma legal_from_committed: "is_legal_phase_transition PS_committed s = (s = PS_fenced \<or> s = PS_retired)"
  by (cases s) (simp_all add: is_legal_phase_transition_def)

lemma legal_irrefl: "\<not> is_legal_phase_transition s s"
  by (simp add: is_legal_phase_transition_def)

text \<open>States a phase may be found in after any number of legal transitions.\<close>

inductive phase_reach :: "phase_state \<Rightarrow> phase_state \<Rightarrow> bool" where
  here: "phase_reach s s"
| step: "phase_reach s t \<Longrightarrow> is_legal_phase_transition t u \<Longrightarrow> phase_reach s u"

lemma dead_states_closed:
  "phase_reach s t \<Longrightarrow> s \<in> {PS_cancelled, PS_fenced, PS_retired} \<Longrightarrow> t \<in> {s, PS_retired}"
  by (induction rule: phase_reach.induct)
    (auto simp: legal_from_cancelled legal_from_fenced legal_from_retired)

lemma committed_closed:
  "phase_reach s t \<Longrightarrow> s = PS_committed \<Longrightarrow> t \<in> {PS_committed, PS_fenced, PS_retired}"
  by (induction rule: phase_reach.induct)
    (auto simp: legal_from_committed legal_from_fenced legal_from_retired)

text \<open>A run of the lifecycle as the list of the states it visits.\<close>

definition lifecycle_run :: "phase_state list \<Rightarrow> bool" where
  "lifecycle_run ss = successively is_legal_phase_transition ss"

lemma lifecycle_run_pred:
  assumes "lifecycle_run (xs @ t # ys)" "xs \<noteq> []"
  shows "is_legal_phase_transition (last xs) t"
  using assms by (simp add: lifecycle_run_def successively_append_iff)

lemma lifecycle_back:
  assumes "lifecycle_run (xs @ t # ys)" "hd (xs @ t # ys) = s0" "s0 \<noteq> t"
    and "\<And>s. is_legal_phase_transition s t = (s = p)"
  shows "\<exists>zs. xs = zs @ [p]"
proof -
  have "xs \<noteq> []" using assms(2,3) by auto
  moreover have "last xs = p" using lifecycle_run_pred [OF assms(1) \<open>xs \<noteq> []\<close>] assms(4) by simp
  ultimately show ?thesis by (metis append_butlast_last_id)
qed

text \<open>
  The commit path is forced: a run that starts before \<open>READY\<close> and ends in \<open>COMMITTED\<close> ends
  with the whole forward path, every state of it in order.
\<close>

lemma commit_path_forced:
  assumes run: "lifecycle_run ss" and start: "hd ss = PS_pending" and "ss \<noteq> []" "last ss = PS_committed"
  shows "\<exists>zs. zs \<noteq> [] \<and> ss = zs @ [PS_ready, PS_preparing, PS_running, PS_produced, PS_validating,
    PS_commit_ready, PS_committed]"
proof -
  obtain a where a: "ss = a @ [PS_committed]" using assms by (metis append_butlast_last_id)
  obtain b where b: "a = b @ [PS_commit_ready]"
    using lifecycle_back [of a PS_committed "[]"] run start a legal_into_committed by auto
  obtain c where c: "b = c @ [PS_validating]"
    using lifecycle_back [of b PS_commit_ready "[PS_committed]"] run start a b legal_into_commit_ready by auto
  obtain d where d: "c = d @ [PS_produced]"
    using lifecycle_back [of c PS_validating "[PS_commit_ready, PS_committed]"] run start a b c
      legal_into_validating by auto
  obtain e where e: "d = e @ [PS_running]"
    using lifecycle_back [of d PS_produced "[PS_validating, PS_commit_ready, PS_committed]"] run start
      a b c d legal_into_produced by auto
  obtain f where f: "e = f @ [PS_preparing]"
    using lifecycle_back [of e PS_running "[PS_produced, PS_validating, PS_commit_ready, PS_committed]"]
      run start a b c d e legal_into_running by auto
  obtain g where g: "f = g @ [PS_ready]"
    using lifecycle_back [of f PS_preparing "[PS_running, PS_produced, PS_validating, PS_commit_ready, PS_committed]"]
      run start a b c d e f legal_into_preparing by auto
  have "g \<noteq> []" using start a b c d e f g by auto
  then show ?thesis using a b c d e f g by auto
qed

section \<open>Names\<close>

lemma find_ci_name:
  assumes "distinct (map (\<lambda>v. to_lower_ascii (name v)) vs)" "v \<in> set vs"
  shows "(List.find (\<lambda>x. equals_ascii_ci t (name x)) vs = Some v) = equals_ascii_ci t (name v)"
  using assms
proof (induction vs)
  case (Cons x vs)
  then show ?case by (auto simp: equals_ascii_ci_lower image_iff dest: find_Some_in)
qed simp

lemma phase_kinds_distinct: "distinct (map (\<lambda>v. to_lower_ascii (to_string_phase_kind v)) kPhaseKinds)"
  by (simp add: kPhaseKinds_def to_lower_ascii_def ascii_lower_def)

lemma phase_states_distinct: "distinct (map (\<lambda>v. to_lower_ascii (to_string_phase_state v)) kPhaseStates)"
  by (simp add: kPhaseStates_def to_lower_ascii_def ascii_lower_def)

lemma failure_classes_distinct:
  "distinct (map (\<lambda>v. to_lower_ascii (to_string_failure_class v)) kFailureClasses)"
  by (simp add: kFailureClasses_def to_lower_ascii_def ascii_lower_def)

lemma parse_phase_kind_iff: "parse_phase_kind t = Some k \<longleftrightarrow> equals_ascii_ci t (to_string_phase_kind k)"
  unfolding parse_phase_kind_def
  by (rule find_ci_name [OF phase_kinds_distinct]) (cases k; simp add: kPhaseKinds_def)

lemma parse_phase_state_iff: "parse_phase_state t = Some k \<longleftrightarrow> equals_ascii_ci t (to_string_phase_state k)"
  unfolding parse_phase_state_def
  by (rule find_ci_name [OF phase_states_distinct]) (cases k; simp add: kPhaseStates_def)

lemma parse_failure_class_iff:
  "parse_failure_class t = Some k \<longleftrightarrow> equals_ascii_ci t (to_string_failure_class k)"
  unfolding parse_failure_class_def
  by (rule find_ci_name [OF failure_classes_distinct]) (cases k; simp add: kFailureClasses_def)

section \<open>Classification\<close>

lemma classify_ok: "classify_status c = FC_none \<longleftrightarrow> c = SC_ok"
  by (simp add: classify_status_def)

text \<open>What a status may be retried on: exactly the crash, cancellation, launch and storage codes.\<close>

lemma retryable_codes:
  "is_retryable (classify_status c) \<longleftrightarrow>
    c \<in> set [SC_process_crashed, SC_process_cancelled, SC_cancelled, SC_shutting_down,
      SC_process_launch_failed, SC_process_orphaned, SC_persistence_io, SC_persistence_truncated]"
  by (simp add: classify_status_def is_retryable_def)

lemma unnamed_code_fails_closed:
  assumes "map_of status_code_names c = None"
  shows "classify_status c = FC_unknown_outcome"
proof -
  have "c \<notin> set (map fst status_code_names)"
    using assms by (simp add: map_of_eq_None_iff)
  then show ?thesis
    by (simp add: status_code_names_def classify_status_def)
qed

section \<open>Canonical bytes\<close>

text \<open>
  The two reference lists are written one after the other without their lengths, so moving the
  boundary between them leaves the canonical bytes unchanged.
\<close>

lemma phase_bytes_boundary:
  "phase_canonical_bytes (p\<lparr>pr_inputs := xs @ ys, pr_outputs := zs\<rparr>) =
   phase_canonical_bytes (p\<lparr>pr_inputs := xs, pr_outputs := ys @ zs\<rparr>)"
  by (simp add: phase_canonical_bytes_def)

section \<open>Claims\<close>

text \<open>
  A phase commits only along the whole forward path. Every legal run that starts in
  \<open>PENDING\<close> and ends in \<open>COMMITTED\<close> ends with \<open>READY\<close>, \<open>PREPARING\<close>, \<open>RUNNING\<close>, \<open>PRODUCED\<close>,
  \<open>VALIDATING\<close>, \<open>COMMIT_READY\<close>, \<open>COMMITTED\<close>, whatever failures and retries came before.
\<close>

lemma phase_commit_path:
  assumes "lifecycle_run ss" "ss \<noteq> []" "hd ss = PS_pending" "last ss = PS_committed"
  shows "\<exists>zs. zs \<noteq> [] \<and> ss = zs @ [PS_ready, PS_preparing, PS_running, PS_produced, PS_validating,
    PS_commit_ready, PS_committed]"
  using commit_path_forced assms by blast

end
