(* ===== verification/Authority.thy ===== *)
theory Authority
  imports Phase
begin

text \<open>
  \<open>include/crf/authority.hpp\<close> and \<open>src/core/authority.cpp\<close>: the generation binding under
  which a phase executes, the runtime's current observation, the fixed-order comparison between
  the two, and the lease table. \<open>monotonic_nanos()\<close> is the argument \<open>now\<close>.
\<close>

section \<open>Bindings and observations\<close>

record phase_authority =
  au_session_generation :: "session_tag generation"
  au_compilation_generation :: "compilation_tag generation"
  au_attempt_generation :: "attempt_tag generation"
  au_phase_generation :: "phase_tag generation"
  au_toolchain :: "toolchain_tag referenced"
  au_cooperating_toolchains :: "toolchain_tag referenced list"
  au_target :: "target_tag referenced"
  au_environment :: "environment_tag referenced"
  au_policy :: "policy_tag referenced"
  au_source :: "source_tag referenced"
  au_ir_generation :: "ir_tag generation"
  au_lease :: "lease_tag referenced"

definition phase_authority_default :: phase_authority where
  "phase_authority_default = \<lparr>au_session_generation = gen_absent, au_compilation_generation = gen_absent,
     au_attempt_generation = gen_absent, au_phase_generation = gen_absent, au_toolchain = ref_absent,
     au_cooperating_toolchains = [], au_target = ref_absent, au_environment = ref_absent,
     au_policy = ref_absent, au_source = ref_absent, au_ir_generation = gen_absent, au_lease = ref_absent\<rparr>"

definition authority_canonical_bytes :: "phase_authority \<Rightarrow> string" where
  "authority_canonical_bytes a =
     enc_u64 (gen_value (au_session_generation a)) @
     enc_u64 (gen_value (au_compilation_generation a)) @
     enc_u64 (gen_value (au_attempt_generation a)) @
     enc_u64 (gen_value (au_phase_generation a)) @
     enc_text (ref_to_string ''toolchain'' (au_toolchain a)) @
     concat (map enc_text (sort (map (ref_to_string ''toolchain'') (au_cooperating_toolchains a)))) @
     enc_text (ref_to_string ''target'' (au_target a)) @
     enc_text (ref_to_string ''environment'' (au_environment a)) @
     enc_text (ref_to_string ''policy'' (au_policy a)) @
     enc_text (ref_to_string ''source'' (au_source a)) @
     enc_u64 (gen_value (au_ir_generation a)) @
     enc_text (ref_to_string ''lease'' (au_lease a))"

definition authority_canonical_digest :: "phase_authority \<Rightarrow> digest" where
  "authority_canonical_digest a = digest_of (authority_canonical_bytes a)"

definition authority_describe :: "phase_authority \<Rightarrow> string" where
  "authority_describe a =
     ''session='' @ gen_to_string (au_session_generation a) @
     '' compilation='' @ gen_to_string (au_compilation_generation a) @
     '' attempt='' @ gen_to_string (au_attempt_generation a) @
     '' phase='' @ gen_to_string (au_phase_generation a) @
     '' toolchain='' @ ref_to_string ''toolchain'' (au_toolchain a) @
     '' target='' @ ref_to_string ''target'' (au_target a) @
     '' environment='' @ ref_to_string ''environment'' (au_environment a) @
     '' policy='' @ ref_to_string ''policy'' (au_policy a) @
     '' source='' @ ref_to_string ''source'' (au_source a) @
     '' ir='' @ gen_to_string (au_ir_generation a) @
     '' lease='' @ ref_to_string ''lease'' (au_lease a)"

datatype authority_verdict =
    AV_valid | AV_stale_session | AV_stale_compilation | AV_stale_attempt | AV_stale_phase
  | AV_stale_toolchain | AV_stale_target | AV_stale_environment | AV_stale_policy
  | AV_stale_source | AV_stale_ir | AV_stale_lease | AV_stale_component
  | AV_toolchain_retired | AV_target_retired | AV_environment_retired | AV_policy_retired
  | AV_unknown

fun to_string_verdict :: "authority_verdict \<Rightarrow> string" where
  "to_string_verdict AV_valid = ''VALID''"
| "to_string_verdict AV_stale_session = ''STALE_SESSION''"
| "to_string_verdict AV_stale_compilation = ''STALE_COMPILATION''"
| "to_string_verdict AV_stale_attempt = ''STALE_ATTEMPT''"
| "to_string_verdict AV_stale_phase = ''STALE_PHASE''"
| "to_string_verdict AV_stale_toolchain = ''STALE_TOOLCHAIN''"
| "to_string_verdict AV_stale_target = ''STALE_TARGET''"
| "to_string_verdict AV_stale_environment = ''STALE_ENVIRONMENT''"
| "to_string_verdict AV_stale_policy = ''STALE_POLICY''"
| "to_string_verdict AV_stale_source = ''STALE_SOURCE''"
| "to_string_verdict AV_stale_ir = ''STALE_IR''"
| "to_string_verdict AV_stale_lease = ''STALE_LEASE''"
| "to_string_verdict AV_stale_component = ''STALE_COMPONENT''"
| "to_string_verdict AV_toolchain_retired = ''TOOLCHAIN_RETIRED''"
| "to_string_verdict AV_target_retired = ''TARGET_RETIRED''"
| "to_string_verdict AV_environment_retired = ''ENVIRONMENT_RETIRED''"
| "to_string_verdict AV_policy_retired = ''POLICY_RETIRED''"
| "to_string_verdict AV_unknown = ''UNKNOWN''"

definition authority_verdict_is_current :: "authority_verdict \<Rightarrow> bool" where
  "authority_verdict_is_current v = (v = AV_valid)"

fun to_status_code :: "authority_verdict \<Rightarrow> status_code" where
  "to_status_code AV_valid = SC_ok"
| "to_status_code AV_stale_session = SC_stale_session_generation"
| "to_status_code AV_stale_compilation = SC_stale_compilation_generation"
| "to_status_code AV_stale_attempt = SC_stale_attempt_generation"
| "to_status_code AV_stale_phase = SC_stale_phase_generation"
| "to_status_code AV_stale_toolchain = SC_stale_toolchain_generation"
| "to_status_code AV_stale_target = SC_stale_target_generation"
| "to_status_code AV_stale_environment = SC_stale_environment_generation"
| "to_status_code AV_stale_policy = SC_stale_policy_generation"
| "to_status_code AV_stale_source = SC_stale_source_generation"
| "to_status_code AV_stale_ir = SC_stale_ir_generation"
| "to_status_code AV_stale_lease = SC_stale_lease_generation"
| "to_status_code AV_stale_component = SC_stale_component_generation"
| "to_status_code AV_toolchain_retired = SC_toolchain_not_found"
| "to_status_code AV_target_retired = SC_target_unsupported"
| "to_status_code AV_environment_retired = SC_stale_environment_generation"
| "to_status_code AV_policy_retired = SC_stale_policy_generation"
| "to_status_code AV_unknown = SC_integrity_unproven"

record authority_observation =
  ob_session_generation :: "session_tag generation"
  ob_compilation_generation :: "compilation_tag generation"
  ob_attempt_generation :: "attempt_tag generation"
  ob_phase_generation :: "phase_tag generation"
  ob_toolchain :: "toolchain_tag referenced"
  ob_cooperating_toolchains :: "toolchain_tag referenced list"
  ob_target :: "target_tag referenced"
  ob_environment :: "environment_tag referenced"
  ob_policy :: "policy_tag referenced"
  ob_source :: "source_tag referenced"
  ob_ir_generation :: "ir_tag generation"
  ob_lease :: "lease_tag referenced"
  ob_session_active :: bool
  ob_toolchain_current :: bool
  ob_target_current :: bool
  ob_environment_current :: bool
  ob_policy_current :: bool
  ob_source_current :: bool
  ob_lease_held :: bool
  ob_component_current :: bool

definition observation_default :: authority_observation where
  "observation_default = \<lparr>ob_session_generation = gen_absent, ob_compilation_generation = gen_absent,
     ob_attempt_generation = gen_absent, ob_phase_generation = gen_absent, ob_toolchain = ref_absent,
     ob_cooperating_toolchains = [], ob_target = ref_absent, ob_environment = ref_absent,
     ob_policy = ref_absent, ob_source = ref_absent, ob_ir_generation = gen_absent, ob_lease = ref_absent,
     ob_session_active = True, ob_toolchain_current = True, ob_target_current = True,
     ob_environment_current = True, ob_policy_current = True, ob_source_current = True,
     ob_lease_held = True, ob_component_current = True\<rparr>"

definition ref_differs :: "'tag referenced \<Rightarrow> 'tag referenced \<Rightarrow> bool" where
  "ref_differs bound current =
     (ref_present bound \<and> (ref_id bound \<noteq> ref_id current \<or> ref_gen bound \<noteq> ref_gen current))"

definition compare_authority :: "phase_authority \<Rightarrow> authority_observation \<Rightarrow> authority_verdict" where
  "compare_authority bound current =
     (if \<not> ob_session_active current then AV_stale_session
      else if au_session_generation bound \<noteq> ob_session_generation current then AV_stale_session
      else if au_compilation_generation bound \<noteq> ob_compilation_generation current then AV_stale_compilation
      else if au_attempt_generation bound \<noteq> ob_attempt_generation current then AV_stale_attempt
      else if au_phase_generation bound \<noteq> ob_phase_generation current then AV_stale_phase
      else if \<not> ob_toolchain_current current then AV_toolchain_retired
      else if ref_differs (au_toolchain bound) (ob_toolchain current) then AV_stale_toolchain
      else if length (au_cooperating_toolchains bound) \<noteq> length (ob_cooperating_toolchains current)
        then AV_stale_toolchain
      else if \<not> list_all2 (=) (au_cooperating_toolchains bound) (ob_cooperating_toolchains current)
        then AV_stale_toolchain
      else if \<not> ob_component_current current then AV_stale_component
      else if \<not> ob_target_current current then AV_target_retired
      else if ref_differs (au_target bound) (ob_target current) then AV_stale_target
      else if \<not> ob_environment_current current then AV_environment_retired
      else if ref_differs (au_environment bound) (ob_environment current) then AV_stale_environment
      else if \<not> ob_policy_current current then AV_policy_retired
      else if ref_differs (au_policy bound) (ob_policy current) then AV_stale_policy
      else if \<not> ob_source_current current then AV_stale_source
      else if ref_differs (au_source bound) (ob_source current) then AV_stale_source
      else if gen_present (au_ir_generation bound) \<and> au_ir_generation bound \<noteq> ob_ir_generation current
        then AV_stale_ir
      else if ref_present (au_lease bound) \<and> \<not> ob_lease_held current then AV_stale_lease
      else if ref_differs (au_lease bound) (ob_lease current) then AV_stale_lease
      else AV_valid)"

section \<open>Leases\<close>

record lease =
  le_id :: lease_id
  le_generation :: "lease_tag generation"
  le_session :: "session_tag referenced"
  le_phase :: "phase_tag referenced"
  le_granted_at_nanos :: u64
  le_expires_at_nanos :: u64
  le_held :: bool
  le_reason :: string

definition held_at :: "lease \<Rightarrow> u64 \<Rightarrow> bool" where
  "held_at l now = (if \<not> le_held l then False else le_expires_at_nanos l = 0 \<or> now \<le> le_expires_at_nanos l)"

record lease_table =
  lt_entries :: "(u64, lease) umap"
  lt_allocator :: "lease_tag id_allocator"

definition lease_table_init :: lease_table where
  "lease_table_init = \<lparr>lt_entries = [], lt_allocator = allocator_init\<rparr>"

definition lease_grant ::
  "u64 \<Rightarrow> session_tag referenced \<Rightarrow> phase_tag referenced \<Rightarrow> u64 \<Rightarrow> string \<Rightarrow> lease_table \<Rightarrow>
   lease_table \<times> lease_tag referenced" where
  "lease_grant now session phase ttl_nanos reason t =
     (case alloc_next (lt_allocator t) of (i, a) \<Rightarrow>
       let entry = \<lparr>le_id = i, le_generation = gen_initial, le_session = session, le_phase = phase,
             le_granted_at_nanos = now, le_expires_at_nanos = (if ttl_nanos = 0 then 0 else now + ttl_nanos),
             le_held = True, le_reason = reason\<rparr>
       in (t\<lparr>lt_entries := um_emplace (id_value i) entry (lt_entries t), lt_allocator := a\<rparr>,
           Ref i gen_initial))"

definition lease_withdraw :: "string \<Rightarrow> lease \<Rightarrow> lease" where
  "lease_withdraw reason l = l\<lparr>le_held := False, le_generation := gen_next (le_generation l), le_reason := reason\<rparr>"

definition lease_revoke :: "lease_id \<Rightarrow> string \<Rightarrow> lease_table \<Rightarrow> lease_table \<times> unit result" where
  "lease_revoke i reason t =
     (case um_find (lt_entries t) (id_value i) of
        None \<Rightarrow> (t, Inl (Status SC_not_found (''lease is not registered: '' @ id_to_string ''lease'' i)))
      | Some l \<Rightarrow>
          if \<not> le_held l then (t, Inr ())
          else (t\<lparr>lt_entries := um_modify (id_value i) (lease_withdraw reason) (lt_entries t)\<rparr>, Inr ()))"

definition lease_revoke_phase :: "phase_id \<Rightarrow> string \<Rightarrow> lease_table \<Rightarrow> lease_table \<times> nat" where
  "lease_revoke_phase phase reason t =
     (let hit = (\<lambda>l. ref_id (le_phase l) = phase \<and> le_held l)
      in (t\<lparr>lt_entries := map (\<lambda>(k, l). (k, if hit l then lease_withdraw reason l else l)) (lt_entries t)\<rparr>,
          length (filter (\<lambda>(k, l). hit l) (lt_entries t))))"

definition lease_find :: "lease_id \<Rightarrow> lease_table \<Rightarrow> lease option" where
  "lease_find i t = um_find (lt_entries t) (id_value i)"

definition lease_is_held :: "u64 \<Rightarrow> lease_tag referenced \<Rightarrow> lease_table \<Rightarrow> bool" where
  "lease_is_held now reference t =
     (case lease_find (ref_id reference) t of
        None \<Rightarrow> False
      | Some l \<Rightarrow> if le_generation l \<noteq> ref_gen reference then False else held_at l now)"

definition lease_list :: "lease_table \<Rightarrow> lease list" where
  "lease_list t = sort_key le_id (map snd (lt_entries t))"

section \<open>The verdict names the first mismatch and is valid only when there is none\<close>

text \<open>What a current binding means, stated without the order of the checks.\<close>

definition authority_current :: "phase_authority \<Rightarrow> authority_observation \<Rightarrow> bool" where
  "authority_current bound current =
     (ob_session_active current \<and> ob_toolchain_current current \<and> ob_component_current current \<and>
      ob_target_current current \<and> ob_environment_current current \<and> ob_policy_current current \<and>
      ob_source_current current \<and>
      au_session_generation bound = ob_session_generation current \<and>
      au_compilation_generation bound = ob_compilation_generation current \<and>
      au_attempt_generation bound = ob_attempt_generation current \<and>
      au_phase_generation bound = ob_phase_generation current \<and>
      au_cooperating_toolchains bound = ob_cooperating_toolchains current \<and>
      (ref_present (au_toolchain bound) \<longrightarrow> au_toolchain bound = ob_toolchain current) \<and>
      (ref_present (au_target bound) \<longrightarrow> au_target bound = ob_target current) \<and>
      (ref_present (au_environment bound) \<longrightarrow> au_environment bound = ob_environment current) \<and>
      (ref_present (au_policy bound) \<longrightarrow> au_policy bound = ob_policy current) \<and>
      (ref_present (au_source bound) \<longrightarrow> au_source bound = ob_source current) \<and>
      (gen_present (au_ir_generation bound) \<longrightarrow> au_ir_generation bound = ob_ir_generation current) \<and>
      (ref_present (au_lease bound) \<longrightarrow> ob_lease_held current \<and> au_lease bound = ob_lease current))"

lemma ref_differs_iff: "ref_differs b c \<longleftrightarrow> ref_present b \<and> b \<noteq> c"
  by (cases b; cases c) (auto simp: ref_differs_def)

lemma compare_authority_valid: "compare_authority bound current = AV_valid \<longleftrightarrow> authority_current bound current"
  unfolding compare_authority_def authority_current_def ref_differs_iff list.rel_eq
  by (simp add: if_chain split del: if_split) (rule iffI; simp)

lemma compare_authority_unknown_unused: "compare_authority bound current \<noteq> AV_unknown"
  by (simp add: compare_authority_def)

lemma verdict_refuses:
  "v \<noteq> AV_valid \<Longrightarrow> to_status_code v \<noteq> SC_ok \<and> \<not> is_retryable (classify_status (to_status_code v))"
  by (cases v) (simp_all add: classify_status_def is_retryable_def)

text \<open>The digest of a binding is independent of the order of the cooperating toolchains.\<close>

lemma authority_bytes_permuted:
  assumes "mset ts = mset ts'"
  shows "authority_canonical_bytes (a\<lparr>au_cooperating_toolchains := ts\<rparr>) =
    authority_canonical_bytes (a\<lparr>au_cooperating_toolchains := ts'\<rparr>)"
proof -
  have "sort (map f ts) = sort (map f ts')" for f :: "toolchain_tag referenced \<Rightarrow> string"
  proof (rule properties_for_sort)
    show "mset (sort (map f ts')) = mset (map f ts)"
      by (simp only: mset_sort mset_map assms)
  qed simp
  then show ?thesis by (simp add: authority_canonical_bytes_def)
qed

section \<open>Leases: granted once, withdrawn for good\<close>

definition lease_table_ok :: "lease_table \<Rightarrow> bool" where
  "lease_table_ok t = (id_table_ok (lt_entries t) (lt_allocator t) \<and>
     um_all (\<lambda>k l. id_value (le_id l) = k) (lt_entries t))"

lemma lease_grant_ok [crf_inv]: "lease_table_ok t \<Longrightarrow> lease_table_ok (fst (lease_grant now s p ttl r t))"
  by (simp add: lease_table_ok_def lease_grant_def Let_def case_prod_beta id_table_emplace um_all_emplace)

lemma lease_withdraw_id [simp]: "le_id (lease_withdraw r l) = le_id l"
  by (simp add: lease_withdraw_def)

lemma lease_revoke_ok [crf_inv]: "lease_table_ok t \<Longrightarrow> lease_table_ok (fst (lease_revoke i r t))"
  by (simp add: lease_table_ok_def lease_revoke_def id_table_modify um_all_modify split: option.split)

lemma lease_revoke_phase_ok [crf_inv]:
  "lease_table_ok t \<Longrightarrow> lease_table_ok (fst (lease_revoke_phase p r t))"
  unfolding lease_table_ok_def lease_revoke_phase_def Let_def
  by (auto intro: id_table_map [rotated] intro!: um_all_map simp: case_prod_beta comp_def)

lemma lease_find_grant:
  assumes "lease_table_ok t" "counter (lt_allocator t) \<noteq> kMax"
  shows "lease_find (ref_id (snd (lease_grant now s p ttl r t))) (fst (lease_grant now s p ttl r t)) =
    Some \<lparr>le_id = fst (alloc_next (lt_allocator t)), le_generation = gen_initial, le_session = s,
      le_phase = p, le_granted_at_nanos = now,
      le_expires_at_nanos = (if ttl = 0 then 0 else now + ttl), le_held = True, le_reason = r\<rparr>"
  using id_table_fresh [of "lt_entries t" "lt_allocator t"] assms
  by (simp add: lease_grant_def lease_find_def Let_def case_prod_beta um.find_emplace lease_table_ok_def)

lemma lease_find_grant_old:
  "lease_find i t = Some l \<Longrightarrow> lease_find i (fst (lease_grant now s p ttl r t)) = Some l"
  by (simp add: lease_find_def lease_grant_def Let_def case_prod_beta um.find_emplace_keeps)

lemma lease_find_revoke:
  "lease_find j (fst (lease_revoke i r t)) =
    map_option (\<lambda>l. if j = i \<and> le_held l then lease_withdraw r l else l) (lease_find j t)"
  by (cases i; cases j)
    (auto simp: lease_find_def lease_revoke_def um.find_modify option.map_ident
      split: option.splits intro!: option.map_ident_strong [symmetric])

lemma lease_find_revoke_phase:
  "lease_find j (fst (lease_revoke_phase p r t)) =
    map_option (\<lambda>l. if ref_id (le_phase l) = p \<and> le_held l then lease_withdraw r l else l) (lease_find j t)"
  by (simp add: lease_find_def lease_revoke_phase_def Let_def um_find_map)

lemmas lease_finds = lease_find_revoke lease_find_revoke_phase

text \<open>The operations of the table as a step relation, at an arbitrary time each.\<close>

inductive lease_step :: "lease_table \<Rightarrow> lease_table \<Rightarrow> bool" where
  grant: "lease_step t (fst (lease_grant now s p ttl r t))"
| revoke: "lease_step t (fst (lease_revoke i r t))"
| revoke_phase: "lease_step t (fst (lease_revoke_phase p r t))"

lemma lease_step_withdrawn:
  "lease_step t t' \<Longrightarrow> lease_find i t = Some l \<Longrightarrow> \<not> le_held l \<Longrightarrow>
    \<exists>l'. lease_find i t' = Some l' \<and> \<not> le_held l'"
  by (induction rule: lease_step.induct) (auto simp: lease_finds lease_find_grant_old)

lemma lease_steps_withdrawn:
  assumes "lease_step\<^sup>*\<^sup>* t t'" "lease_find i t = Some l" "\<not> le_held l"
  shows "\<exists>l'. lease_find i t' = Some l' \<and> \<not> le_held l'"
  using assms(1)
proof (induction rule: rtranclp_induct)
  case (step u v)
  then show ?case using lease_step_withdrawn by blast
qed (use assms in blast)

lemma lease_withdrawn_not_held:
  "lease_find (ref_id ref) t = Some l \<Longrightarrow> \<not> le_held l \<Longrightarrow> \<not> lease_is_held now ref t"
  by (simp add: lease_is_held_def held_at_def)

lemma lease_steps_ok: "lease_step\<^sup>*\<^sup>* t t' \<Longrightarrow> lease_table_ok t \<Longrightarrow> lease_table_ok t'"
  by (induction rule: rtranclp_induct) (auto elim!: lease_step.cases intro: crf_inv)

section \<open>Claims\<close>

text \<open>
  C33: the chain of comparisons in \<open>compare_authority\<close> decides the declarative condition
  \<open>authority_current\<close>: the verdict is \<open>valid\<close> exactly when every generation, every bound
  reference, the cooperating toolchains and the lease still hold.
\<close>

theorem compare_authority_decides:
  "authority_verdict_is_current (compare_authority bound current) \<longleftrightarrow> authority_current bound current"
  by (simp add: authority_verdict_is_current_def compare_authority_valid)

end
