(* ===== verification/Registry.thy ===== *)
theory Registry
  imports Authority
begin

text \<open>
  The shape shared by \<open>TargetRegistry\<close> (\<open>src/core/target.cpp\<close>) and \<open>PolicyRegistry\<close>
  (\<open>src/core/policy.cpp\<close>): an interning table of validated specifications whose generation
  advances when a specification is revised. The two classes have the same four bodies; here they
  are written once, over the specification's \<open>validate\<close> and \<open>canonical_digest\<close>, and
  instantiated in the theories of the two components.

  The interface \<open>monotone_generations\<close> is what the authority comparison relies on: a domain
  whose generations only grow, so that a reference that has become stale stays stale.
\<close>

section \<open>Monotone generation domains\<close>

locale monotone_generations =
  fixes generation_of :: "'r \<Rightarrow> 'tag strong_id \<Rightarrow> 'tag generation option"
    and step :: "'r \<Rightarrow> 'r \<Rightarrow> bool"
    and invar :: "'r \<Rightarrow> bool"
  assumes step_invar: "step r r' \<Longrightarrow> invar r \<Longrightarrow> invar r'"
    and step_mono: "step r r' \<Longrightarrow> invar r \<Longrightarrow> generation_of r i = Some g \<Longrightarrow>
      \<exists>g'. generation_of r' i = Some g' \<and> g \<le> g'"
begin

lemma steps_invar: "step\<^sup>*\<^sup>* r r' \<Longrightarrow> invar r \<Longrightarrow> invar r'"
  by (induction rule: rtranclp_induct) (auto intro: step_invar)

lemma steps_mono:
  assumes "step\<^sup>*\<^sup>* r r'" "invar r" "generation_of r i = Some g"
  shows "\<exists>g'. generation_of r' i = Some g' \<and> g \<le> g'"
  using assms(1)
proof (induction rule: rtranclp_induct)
  case (step u v)
  have "invar u" by (rule steps_invar [OF step(1) assms(2)])
  from step(3) obtain g1 where "generation_of u i = Some g1" "g \<le> g1" by blast
  moreover from step_mono [OF step(2) \<open>invar u\<close> this(1)] obtain g2
    where "generation_of v i = Some g2" "g1 \<le> g2" by blast
  ultimately show ?case by (meson order_trans)
qed (use assms(3) in auto)

text \<open>A reference is current when the domain still holds its generation.\<close>

definition ref_current :: "'r \<Rightarrow> 'tag referenced \<Rightarrow> bool" where
  "ref_current r ref = (generation_of r (ref_id ref) = Some (ref_gen ref))"

lemma stale_forever:
  assumes "step\<^sup>*\<^sup>* r r'" "invar r" "generation_of r (ref_id ref) = Some g" "ref_gen ref < g"
  shows "\<not> ref_current r' ref"
  using steps_mono [OF assms(1-3)] assms(4) by (auto simp: ref_current_def)

text \<open>A reference that was current once and is not any more is never current again.\<close>

lemma never_current_again:
  assumes "invar r" "ref_current r ref" "step\<^sup>*\<^sup>* r r'" "\<not> ref_current r' ref" "step\<^sup>*\<^sup>* r' r''"
  shows "\<not> ref_current r'' ref"
proof -
  obtain g where "generation_of r' (ref_id ref) = Some g" "ref_gen ref \<le> g"
    using steps_mono [OF assms(3,1)] assms(2) by (auto simp: ref_current_def)
  moreover from this assms(4) have "ref_gen ref < g" by (auto simp: ref_current_def order.not_eq_order_implies_strict)
  ultimately show ?thesis
    using stale_forever [OF assms(5) steps_invar [OF assms(3,1)]] by blast
qed

end

section \<open>Interning registries\<close>

record ('tag, 'spec) reg_identity =
  ri_id :: "'tag strong_id"
  ri_generation :: "'tag generation"
  ri_digest :: digest
  ri_spec :: 'spec

record ('tag, 'spec) reg_entry =
  re_identity :: "('tag, 'spec) reg_identity"
  re_current :: bool

record ('tag, 'spec) registry =
  rg_entries :: "(u64, ('tag, 'spec) reg_entry) umap"
  rg_allocator :: "'tag id_allocator"

definition registry_init :: "('tag, 'spec) registry" where
  "registry_init = \<lparr>rg_entries = [], rg_allocator = allocator_init\<rparr>"

definition reg_intern ::
  "('spec \<Rightarrow> unit result) \<Rightarrow> ('spec \<Rightarrow> digest) \<Rightarrow> 'spec \<Rightarrow> ('tag, 'spec) registry \<Rightarrow>
   ('tag, 'spec) registry \<times> 'tag referenced result" where
  "reg_intern validate canonical_digest spec r =
     (case validate spec of
        Inl s \<Rightarrow> (r, Inl s)
      | Inr _ \<Rightarrow>
          let d = canonical_digest spec in
          case List.find (\<lambda>(key, entry). re_current entry \<and> ri_digest (re_identity entry) = d) (rg_entries r) of
            Some (key, entry) \<Rightarrow> (r, Inr (Ref (ri_id (re_identity entry)) (ri_generation (re_identity entry))))
          | None \<Rightarrow>
              (case alloc_next (rg_allocator r) of (i, a) \<Rightarrow>
                let entry = \<lparr>re_identity = \<lparr>ri_id = i, ri_generation = gen_initial, ri_digest = d, ri_spec = spec\<rparr>,
                      re_current = True\<rparr>
                in (r\<lparr>rg_entries := um_emplace (id_value i) entry (rg_entries r), rg_allocator := a\<rparr>,
                    Inr (Ref i gen_initial))))"

definition reg_intern_as ::
  "string \<Rightarrow> ('spec \<Rightarrow> unit result) \<Rightarrow> ('spec \<Rightarrow> digest) \<Rightarrow> 'tag strong_id \<Rightarrow> 'spec \<Rightarrow> ('tag, 'spec) registry \<Rightarrow>
   ('tag, 'spec) registry \<times> 'tag referenced result" where
  "reg_intern_as name validate canonical_digest i spec r =
     (if \<not> id_present i then (r, Inl (Status SC_invalid_identity (name @ '' identity is absent'')))
      else case validate spec of
        Inl s \<Rightarrow> (r, Inl s)
      | Inr _ \<Rightarrow>
          let entry = \<lparr>re_identity = \<lparr>ri_id = i, ri_generation = gen_initial,
                ri_digest = canonical_digest spec, ri_spec = spec\<rparr>, re_current = True\<rparr>
          in (r\<lparr>rg_allocator := alloc_observe i (rg_allocator r),
                rg_entries := um_set (id_value i) entry (rg_entries r)\<rparr>, Inr (Ref i gen_initial)))"

definition reg_revise ::
  "string \<Rightarrow> ('spec \<Rightarrow> unit result) \<Rightarrow> ('spec \<Rightarrow> digest) \<Rightarrow> 'tag strong_id \<Rightarrow> 'spec \<Rightarrow> ('tag, 'spec) registry \<Rightarrow>
   ('tag, 'spec) registry \<times> 'tag referenced result" where
  "reg_revise name validate canonical_digest i spec r =
     (case um_find (rg_entries r) (id_value i) of
        None \<Rightarrow> (r, Inl (Status SC_not_found (name @ '' identity is not registered: '' @ id_to_string name i)))
      | Some found \<Rightarrow>
          case validate spec of
            Inl s \<Rightarrow> (r, Inl s)
          | Inr _ \<Rightarrow>
              let d = canonical_digest spec; g = ri_generation (re_identity found) in
              if ri_digest (re_identity found) = d \<and> re_current found then (r, Inr (Ref i g))
              else (r\<lparr>rg_entries := um_modify (id_value i)
                       (\<lambda>e. e\<lparr>re_identity := (re_identity e)\<lparr>ri_generation := gen_next (ri_generation (re_identity e)),
                                ri_digest := d, ri_spec := spec\<rparr>, re_current := True\<rparr>) (rg_entries r)\<rparr>,
                    Inr (Ref i (gen_next g))))"

definition reg_find :: "'tag strong_id \<Rightarrow> ('tag, 'spec) registry \<Rightarrow> ('tag, 'spec) reg_identity option" where
  "reg_find i r = map_option re_identity (um_find (rg_entries r) (id_value i))"

definition reg_list :: "('tag, 'spec) registry \<Rightarrow> ('tag, 'spec) reg_identity list" where
  "reg_list r = sort_key ri_id (map (\<lambda>(key, entry). re_identity entry) (rg_entries r))"

section \<open>Invariant\<close>

definition reg_ok :: "('spec \<Rightarrow> unit result) \<Rightarrow> ('spec \<Rightarrow> digest) \<Rightarrow> ('tag, 'spec) registry \<Rightarrow> bool" where
  "reg_ok validate canonical_digest r =
     (id_table_ok (rg_entries r) (rg_allocator r) \<and>
      um_all (\<lambda>k e. id_value (ri_id (re_identity e)) = k \<and> re_current e \<and>
        gen_present (ri_generation (re_identity e)) \<and>
        ri_digest (re_identity e) = canonical_digest (ri_spec (re_identity e)) \<and>
        has_value (validate (ri_spec (re_identity e)))) (rg_entries r))"

lemma registry_init_ok [simp]: "reg_ok v d registry_init"
  by (simp add: reg_ok_def registry_init_def)

lemma has_value_iff: "has_value r \<longleftrightarrow> (\<exists>v. r = Inr v)"
  by (cases r) simp_all

lemma reg_intern_ok [crf_inv]: "reg_ok v d r \<Longrightarrow> reg_ok v d (fst (reg_intern v d spec r))"
  by (auto simp: reg_intern_def reg_ok_def Let_def case_prod_beta id_table_emplace has_value_iff
      intro!: um_all_emplace split: sum.split option.split)

lemma reg_intern_as_ok [crf_inv]: "reg_ok v d r \<Longrightarrow> reg_ok v d (fst (reg_intern_as n v d i spec r))"
  by (auto simp: reg_intern_as_def reg_ok_def Let_def id_table_observe has_value_iff
      intro!: um_all_set split: sum.split)

lemma reg_revise_ok [crf_inv]: "reg_ok v d r \<Longrightarrow> reg_ok v d (fst (reg_revise n v d i spec r))"
  by (auto simp: reg_revise_def reg_ok_def Let_def id_table_modify has_value_iff
      intro!: um_all_modify split: sum.split option.split)

section \<open>What the operations do\<close>

definition reg_generation :: "('tag, 'spec) registry \<Rightarrow> 'tag strong_id \<Rightarrow> 'tag generation option" where
  "reg_generation r i = map_option ri_generation (reg_find i r)"

lemma reg_ok_entry:
  assumes "reg_ok v d r" "reg_find i r = Some e"
  shows "ri_id e = i" "ri_digest e = d (ri_spec e)" "gen_present (ri_generation e)" "has_value (v (ri_spec e))"
proof -
  obtain en where en: "um_find (rg_entries r) (id_value i) = Some en" "e = re_identity en"
    using assms(2) by (auto simp: reg_find_def)
  have "um_all (\<lambda>k e. id_value (ri_id (re_identity e)) = k \<and> re_current e \<and>
        gen_present (ri_generation (re_identity e)) \<and>
        ri_digest (re_identity e) = d (ri_spec (re_identity e)) \<and>
        has_value (v (ri_spec (re_identity e)))) (rg_entries r)"
    using assms(1) by (simp add: reg_ok_def)
  from um_all_find [OF this en(1)] show "ri_id e = i" "ri_digest e = d (ri_spec e)"
    "gen_present (ri_generation e)" "has_value (v (ri_spec e))"
    using en(2) by (simp_all add: strong_id.expand)
qed

text \<open>Interning an identical specification again changes nothing and returns the same reference.\<close>

lemma reg_intern_hit:
  assumes "List.find (\<lambda>(key, entry). re_current entry \<and> ri_digest (re_identity entry) = d spec) (rg_entries r) = Some (k, e)"
    and "v spec = Inr u"
  shows "reg_intern v d spec r = (r, Inr (Ref (ri_id (re_identity e)) (ri_generation (re_identity e))))"
  using assms by (simp add: reg_intern_def Let_def)

lemma find_append_None: "List.find P xs = None \<Longrightarrow> List.find P (xs @ ys) = List.find P ys"
  by (induction xs) (auto split: if_splits)

lemma reg_intern_stable:
  assumes ok: "reg_ok v d r" and room: "counter (rg_allocator r) \<noteq> kMax"
    and res: "reg_intern v d spec r = (r', Inr ref)"
  shows "reg_intern v d spec r' = (r', Inr ref)"
proof -
  let ?P = "\<lambda>(key :: u64, entry). re_current entry \<and> ri_digest (re_identity entry) = d spec"
  obtain u where v: "v spec = Inr u"
    using res by (auto simp: reg_intern_def split: sum.splits)
  show ?thesis
  proof (cases "List.find ?P (rg_entries r)")
    case (Some x)
    obtain k e where x: "x = (k, e)" by (cases x)
    then show ?thesis
      using reg_intern_hit [of d spec r k e v u] Some v res by simp
  next
    case None
    have "map_of (rg_entries r) (id_value (fst (alloc_next (rg_allocator r)))) = None"
      using id_table_fresh [of "rg_entries r" "rg_allocator r"] ok room by (simp add: reg_ok_def um_find_def)
    with None v res show ?thesis
      by (auto simp: reg_intern_def Let_def case_prod_beta um_emplace_def find_append_None)
  qed
qed

lemma reg_find_in:
  assumes "reg_ok v d r" "(k, e) \<in> set (rg_entries r)"
  shows "reg_find (ri_id (re_identity e)) r = Some (re_identity e)"
proof -
  have "um_find (rg_entries r) k = Some e"
    using assms by (intro um_ok_mem) (auto simp: reg_ok_def id_table_ok_def)
  moreover have "id_value (ri_id (re_identity e)) = k"
    using assms by (auto simp: reg_ok_def um_all_def)
  ultimately show ?thesis by (simp add: reg_find_def)
qed

lemma reg_intern_result:
  assumes ok: "reg_ok v d r" and room: "counter (rg_allocator r) \<noteq> kMax"
    and res: "reg_intern v d spec r = (r', Inr ref)"
  shows "\<exists>e. reg_find (ref_id ref) r' = Some e \<and> ri_generation e = ref_gen ref \<and> ri_digest e = d spec"
proof -
  let ?P = "\<lambda>(key :: u64, entry). re_current entry \<and> ri_digest (re_identity entry) = d spec"
  obtain u where v: "v spec = Inr u"
    using res by (auto simp: reg_intern_def split: sum.splits)
  show ?thesis
  proof (cases "List.find ?P (rg_entries r)")
    case (Some x)
    obtain k e where x: "x = (k, e)" by (cases x)
    have "r' = r" "ref = Ref (ri_id (re_identity e)) (ri_generation (re_identity e))"
      using reg_intern_hit [of d spec r k e v u] Some x v res by simp_all
    then show ?thesis
      using find_Some_in [OF Some] reg_find_in [OF ok] by (auto simp: x)
  next
    case None
    have "um_find (rg_entries r) (id_value (fst (alloc_next (rg_allocator r)))) = None"
      using id_table_fresh [of "rg_entries r" "rg_allocator r"] ok room by (simp add: reg_ok_def)
    with None v res show ?thesis
      by (auto simp: reg_intern_def Let_def case_prod_beta reg_find_def um.find_emplace)
  qed
qed

text \<open>Revision: the same content keeps the generation, any other content advances it.\<close>

lemma reg_find_revise:
  assumes "reg_ok v d r" "reg_find i r = Some e" "v spec = Inr u"
  shows "reg_revise n v d i spec r =
    (if ri_digest e = d spec then (r, Inr (Ref i (ri_generation e)))
     else (fst (reg_revise n v d i spec r), Inr (Ref i (gen_next (ri_generation e)))))"
    and "ri_digest e \<noteq> d spec \<Longrightarrow> reg_find i (fst (reg_revise n v d i spec r)) =
      Some (e\<lparr>ri_generation := gen_next (ri_generation e), ri_digest := d spec, ri_spec := spec\<rparr>)"
proof -
  obtain en where en: "um_find (rg_entries r) (id_value i) = Some en" "e = re_identity en"
    using assms(2) by (auto simp: reg_find_def)
  have cur: "re_current en"
    using um_all_find [OF _ en(1)] assms(1) by (fastforce simp: reg_ok_def)
  show "reg_revise n v d i spec r =
    (if ri_digest e = d spec then (r, Inr (Ref i (ri_generation e)))
     else (fst (reg_revise n v d i spec r), Inr (Ref i (gen_next (ri_generation e)))))"
    using assms(3) en cur by (simp add: reg_revise_def Let_def)
  show "ri_digest e \<noteq> d spec \<Longrightarrow> reg_find i (fst (reg_revise n v d i spec r)) =
      Some (e\<lparr>ri_generation := gen_next (ri_generation e), ri_digest := d spec, ri_spec := spec\<rparr>)"
    using assms(3) en by (simp add: reg_revise_def Let_def reg_find_def um.find_modify)
qed

section \<open>Generations of a registry only grow\<close>

inductive reg_step ::
  "string \<Rightarrow> ('spec \<Rightarrow> unit result) \<Rightarrow> ('spec \<Rightarrow> digest) \<Rightarrow> ('tag, 'spec) registry \<Rightarrow> ('tag, 'spec) registry \<Rightarrow> bool"
  for n v d where
  intern: "reg_step n v d r (fst (reg_intern v d spec r))"
| revise: "reg_step n v d r (fst (reg_revise n v d i spec r))"

lemma reg_find_intern_keeps: "reg_find i r = Some e \<Longrightarrow> reg_find i (fst (reg_intern v d spec r)) = Some e"
  by (auto simp: reg_intern_def reg_find_def Let_def case_prod_beta um.find_emplace split: sum.split option.split)

lemma reg_step_mono:
  assumes "reg_step n v d r r'" "reg_generation r i = Some g"
  shows "\<exists>g'. reg_generation r' i = Some g' \<and> g \<le> g'"
  using assms
proof (induction rule: reg_step.induct)
  case (intern r spec)
  then show ?case by (auto simp: reg_generation_def reg_find_intern_keeps)
next
  case (revise r j spec)
  then show ?case
    by (auto simp: reg_generation_def reg_find_def reg_revise_def Let_def um.find_modify gen_next_le
        split: sum.split option.splits)
qed

lemma reg_step_ok: "reg_step n v d r r' \<Longrightarrow> reg_ok v d r \<Longrightarrow> reg_ok v d r'"
  by (induction rule: reg_step.induct) (auto intro: crf_inv)

interpretation reg: monotone_generations reg_generation "reg_step n v d" "reg_ok v d" for n v d
  by unfold_locales (auto intro: reg_step_ok dest: reg_step_mono)

text \<open>
  \<open>intern_as\<close> is not such a step: it puts the identity back at its initial generation, whatever
  generation it had reached.
\<close>

lemma reg_intern_as_resets:
  assumes "id_present i" "v spec = Inr u"
  shows "reg_generation (fst (reg_intern_as n v d i spec r)) i = Some gen_initial"
  using assms by (simp add: reg_intern_as_def reg_generation_def reg_find_def Let_def um.find_set)

end
