(* ===== verification/Policy.thy ===== *)
theory Policy
  imports Registry
begin

text \<open>
  \<open>src/core/policy.cpp\<close> and \<open>src/core/retry.cpp\<close>: the compile policy of a session, its
  registry, and the retry decision over a phase record and a policy.
\<close>

section \<open>Policy specifications\<close>

datatype reproducibility_policy = RP_required | RP_preferred | RP_not_required

fun to_string_reproducibility :: "reproducibility_policy \<Rightarrow> string" where
  "to_string_reproducibility RP_required = ''REQUIRED''"
| "to_string_reproducibility RP_preferred = ''PREFERRED''"
| "to_string_reproducibility RP_not_required = ''NOT_REQUIRED''"

definition parse_reproducibility_policy :: "string \<Rightarrow> reproducibility_policy option" where
  "parse_reproducibility_policy t =
     (if equals_ascii_ci t ''REQUIRED'' then Some RP_required
      else if equals_ascii_ci t ''PREFERRED'' then Some RP_preferred
      else if equals_ascii_ci t ''NOT_REQUIRED'' \<or> equals_ascii_ci t ''NOT-REQUIRED'' then Some RP_not_required
      else None)"

record policy_spec =
  po_reproducibility :: reproducibility_policy
  po_max_retries_per_phase :: u32
  po_max_retries_per_session :: u32
  po_retryable_classes :: "failure_class list"
  po_forbidden_options :: "string list"
  po_allow_parallel_phases :: bool
  po_max_parallel_phases :: u64
  po_phase_timeout_millis :: u32
  po_validation_timeout_millis :: u32
  po_run_smoke_test :: bool
  po_require_content_digest :: bool
  po_max_diagnostic_entries :: u64
  po_max_diagnostic_bytes_per_stream :: u64
  po_allow_local_cache :: bool

definition policy_spec_default :: policy_spec where
  "policy_spec_default = \<lparr>po_reproducibility = RP_preferred, po_max_retries_per_phase = 2,
     po_max_retries_per_session = 8, po_retryable_classes = [], po_forbidden_options = [],
     po_allow_parallel_phases = True, po_max_parallel_phases = 4, po_phase_timeout_millis = 0,
     po_validation_timeout_millis = 0, po_run_smoke_test = True, po_require_content_digest = True,
     po_max_diagnostic_entries = 4096, po_max_diagnostic_bytes_per_stream = 1048576,
     po_allow_local_cache = False\<rparr>"

definition kMaxForbiddenOptions :: nat where
  "kMaxForbiddenOptions = 256"

definition kMaxRetriesCeiling :: u32 where
  "kMaxRetriesCeiling = 32"

definition policy_validate :: "policy_spec \<Rightarrow> unit result" where
  "policy_validate p =
     (if po_max_retries_per_phase p > kMaxRetriesCeiling
        then Inl (Status SC_invalid_argument ''per-phase retry ceiling is out of range'')
      else if po_max_retries_per_session p > kMaxRetriesCeiling * 4
        then Inl (Status SC_invalid_argument ''per-session retry ceiling is out of range'')
      else if length (po_forbidden_options p) > kMaxForbiddenOptions
        then Inl (Status SC_capacity_exceeded ''forbidden option list is too large'')
      else if list_ex (\<lambda>option. option = [] \<or> length option > 4096) (po_forbidden_options p)
        then Inl (Status SC_invalid_argument ''forbidden option entry has an invalid length'')
      else if po_max_parallel_phases p = 0 \<and> po_allow_parallel_phases p
        then Inl (Status SC_invalid_argument ''parallel phases are enabled with a zero concurrency ceiling'')
      else if po_max_parallel_phases p > 256
        then Inl (Status SC_invalid_argument ''parallel phase ceiling is out of range'')
      else Inr ())"

definition policy_canonical_bytes :: "policy_spec \<Rightarrow> string" where
  "policy_canonical_bytes p =
     enc_text (to_string_reproducibility (po_reproducibility p)) @
     enc_u32 (po_max_retries_per_phase p) @ enc_u32 (po_max_retries_per_session p) @
     concat (map enc_text (sort (map to_string_failure_class (po_retryable_classes p)))) @
     concat (map (\<lambda>option. enc_text (to_lower_ascii option)) (sort (po_forbidden_options p))) @
     enc_boolean (po_allow_parallel_phases p) @ enc_u64 (po_max_parallel_phases p) @
     enc_u32 (po_phase_timeout_millis p) @ enc_u32 (po_validation_timeout_millis p) @
     enc_boolean (po_run_smoke_test p) @ enc_boolean (po_require_content_digest p) @
     enc_u64 (po_max_diagnostic_entries p) @ enc_u64 (po_max_diagnostic_bytes_per_stream p) @
     enc_boolean (po_allow_local_cache p)"

definition policy_canonical_digest :: "policy_spec \<Rightarrow> digest" where
  "policy_canonical_digest p = digest_of (policy_canonical_bytes p)"

definition permits_retry :: "policy_spec \<Rightarrow> failure_class \<Rightarrow> bool" where
  "permits_retry p failure =
     (if po_retryable_classes p = [] then is_retryable failure else failure \<in> set (po_retryable_classes p))"

definition forbids_option :: "policy_spec \<Rightarrow> string \<Rightarrow> bool" where
  "forbids_option p argument =
     list_ex (\<lambda>option. equals_ascii_ci argument option \<or>
         (length argument > length option \<and> starts_with_ci argument option \<and>
          (argument ! length option = CHR '':'' \<or> argument ! length option = CHR ''='')))
       (po_forbidden_options p)"

section \<open>Policy registry\<close>

type_synonym policy_identity = "(policy_tag, policy_spec) reg_identity"
type_synonym policy_registry = "(policy_tag, policy_spec) registry"

definition policy_intern :: "policy_spec \<Rightarrow> policy_registry \<Rightarrow> policy_registry \<times> policy_tag referenced result" where
  "policy_intern = reg_intern policy_validate policy_canonical_digest"

definition policy_intern_as ::
  "policy_id \<Rightarrow> policy_spec \<Rightarrow> policy_registry \<Rightarrow> policy_registry \<times> policy_tag referenced result" where
  "policy_intern_as = reg_intern_as ''policy'' policy_validate policy_canonical_digest"

definition policy_revise ::
  "policy_id \<Rightarrow> policy_spec \<Rightarrow> policy_registry \<Rightarrow> policy_registry \<times> policy_tag referenced result" where
  "policy_revise = reg_revise ''policy'' policy_validate policy_canonical_digest"

definition policy_find :: "policy_id \<Rightarrow> policy_registry \<Rightarrow> policy_identity option" where
  "policy_find = reg_find"

definition policy_list :: "policy_registry \<Rightarrow> policy_identity list" where
  "policy_list = reg_list"

section \<open>Retry decisions\<close>

datatype retry_decision_kind =
    RD_permitted | RD_classification_refuses | RD_exhausted | RD_already_committed
  | RD_authority_withdrawn | RD_manual_resolution_required | RD_session_not_active

fun to_string_retry_kind :: "retry_decision_kind \<Rightarrow> string" where
  "to_string_retry_kind RD_permitted = ''PERMITTED''"
| "to_string_retry_kind RD_classification_refuses = ''CLASSIFICATION_REFUSES''"
| "to_string_retry_kind RD_exhausted = ''EXHAUSTED''"
| "to_string_retry_kind RD_already_committed = ''ALREADY_COMMITTED''"
| "to_string_retry_kind RD_authority_withdrawn = ''AUTHORITY_WITHDRAWN''"
| "to_string_retry_kind RD_manual_resolution_required = ''MANUAL_RESOLUTION_REQUIRED''"
| "to_string_retry_kind RD_session_not_active = ''SESSION_NOT_ACTIVE''"

record retry_decision =
  rd_kind :: retry_decision_kind
  rd_legal :: bool
  rd_failure :: failure_class
  rd_attempts_used :: u32
  rd_session_retries_used :: u32
  rd_next_attempt_generation :: "attempt_tag generation"
  rd_creates_new_invocation :: bool
  rd_refusal :: status_code
  rd_reason :: string

definition retry_describe :: "retry_decision \<Rightarrow> string" where
  "retry_describe d =
     to_string_retry_kind (rd_kind d) @ '' failure='' @ to_string_failure_class (rd_failure d) @
     '' attempts='' @ dec_string (unat (rd_attempts_used d)) @
     (if rd_legal d then '' next-attempt-generation='' @ gen_to_string (rd_next_attempt_generation d) else []) @
     (if rd_reason d \<noteq> [] then '' reason='' @ rd_reason d else [])"

definition evaluate_retry :: "phase_record \<Rightarrow> policy_spec \<Rightarrow> u32 \<Rightarrow> retry_decision" where
  "evaluate_retry phase policy session_retries_used =
     (let decision = \<lparr>rd_kind = RD_classification_refuses, rd_legal = False, rd_failure = pr_failure phase,
            rd_attempts_used = attempt_count phase, rd_session_retries_used = session_retries_used,
            rd_next_attempt_generation = pr_attempt_generation phase, rd_creates_new_invocation = True,
            rd_refusal = SC_ok, rd_reason = []\<rparr>;
          st = pr_state phase
      in if st = PS_committed then
           decision\<lparr>rd_kind := RD_already_committed, rd_creates_new_invocation := False,
             rd_refusal := SC_duplicate_completion,
             rd_reason := ''the phase already committed an authoritative result''\<rparr>
         else if st = PS_fenced \<or> st = PS_cancelled \<or> st = PS_retired then
           decision\<lparr>rd_kind := RD_authority_withdrawn, rd_creates_new_invocation := False,
             rd_refusal := SC_phase_retired,
             rd_reason := ''the phase is '' @ to_string_phase_state st @ '' and no longer retains commit authority''\<rparr>
         else if st = PS_running \<or> st = PS_preparing \<or> st = PS_produced \<or> st = PS_validating \<or> st = PS_commit_ready then
           decision\<lparr>rd_kind := RD_authority_withdrawn, rd_creates_new_invocation := False,
             rd_refusal := SC_phase_already_running,
             rd_reason := ''the phase is still in flight; retry requires the current attempt to conclude''\<rparr>
         else if st \<noteq> PS_failed \<and> st \<noteq> PS_recovery_required \<and> st \<noteq> PS_ready \<and> st \<noteq> PS_pending then
           decision\<lparr>rd_kind := RD_authority_withdrawn, rd_refusal := SC_illegal_transition,
             rd_reason := ''the phase state does not admit a retry''\<rparr>
         else if pr_failure phase = FC_unknown_outcome then
           decision\<lparr>rd_kind := RD_manual_resolution_required, rd_refusal := SC_manual_resolution_required,
             rd_reason := ''the outcome of the previous attempt is UNKNOWN; the runtime fails closed rather than '' @
               ''retrying an unproven failure''\<rparr>
         else if pr_failure phase = FC_authority_invalidated then
           decision\<lparr>rd_kind := RD_permitted, rd_legal := True,
             rd_next_attempt_generation := gen_next (pr_attempt_generation phase),
             rd_reason := ''authority moved while the phase was executing; a fresh invocation under current authority '' @
               ''is permitted''\<rparr>
         else if \<not> permits_retry policy (pr_failure phase) then
           decision\<lparr>rd_kind := RD_classification_refuses, rd_refusal := SC_retry_not_permitted,
             rd_reason := ''failure class '' @ to_string_failure_class (pr_failure phase) @ '' is not retryable''\<rparr>
         else if attempt_count phase > po_max_retries_per_phase policy then
           decision\<lparr>rd_kind := RD_exhausted, rd_refusal := SC_retry_exhausted,
             rd_reason := ''the per-phase retry ceiling has been reached''\<rparr>
         else if session_retries_used \<ge> po_max_retries_per_session policy then
           decision\<lparr>rd_kind := RD_exhausted, rd_refusal := SC_retry_exhausted,
             rd_reason := ''the per-session retry ceiling has been reached''\<rparr>
         else
           decision\<lparr>rd_kind := RD_permitted, rd_legal := True,
             rd_next_attempt_generation := gen_next (pr_attempt_generation phase),
             rd_reason := ''failure class is retryable and both retry ceilings permit another attempt''\<rparr>)"

section \<open>Facts about policies\<close>

lemma policy_validate_bounds:
  assumes "policy_validate p = Inr ()"
  shows "unat (po_max_retries_per_phase p) \<le> 32" "unat (po_max_retries_per_session p) \<le> 128"
    "po_allow_parallel_phases p \<Longrightarrow> 1 \<le> unat (po_max_parallel_phases p) \<and> unat (po_max_parallel_phases p) \<le> 256"
  using assms
  by (auto simp: policy_validate_def kMaxRetriesCeiling_def word_less_nat_alt not_less unat_gt_0
      Suc_le_eq split: if_splits)

lemma ascii_lower_punctuation:
  "ascii_lower c = CHR '':'' \<longleftrightarrow> c = CHR '':''" "ascii_lower c = CHR ''='' \<longleftrightarrow> c = CHR ''=''"
  by (cases "65 \<le> (of_char c :: nat) \<and> of_char c \<le> (90 :: nat)";
      auto simp: ascii_lower_def dest!: arg_cong [of _ _ "of_char :: char \<Rightarrow> nat"])+

lemma prefix_separator:
  assumes "\<And>x. ascii_lower x = sep \<longleftrightarrow> x = sep"
  shows "(length opt < length a \<and> starts_with_ci a opt \<and> a ! length opt = sep) =
    (\<exists>rest. to_lower_ascii a = to_lower_ascii opt @ sep # rest)"
proof
  assume l: "length opt < length a \<and> starts_with_ci a opt \<and> a ! length opt = sep"
  have "a = take (length opt) a @ a ! length opt # drop (Suc (length opt)) a"
    using l id_take_nth_drop by blast
  then have "to_lower_ascii a = to_lower_ascii (take (length opt) a) @
      ascii_lower (a ! length opt) # to_lower_ascii (drop (Suc (length opt)) a)"
    unfolding to_lower_ascii_def by (metis map_append list.simps(9))
  moreover have "ascii_lower (a ! length opt) = sep" using l assms by blast
  ultimately show "\<exists>rest. to_lower_ascii a = to_lower_ascii opt @ sep # rest"
    using l by (auto simp: starts_with_ci_def equals_ascii_ci_lower split: if_splits)
next
  assume "\<exists>rest. to_lower_ascii a = to_lower_ascii opt @ sep # rest"
  then obtain rest where r: "to_lower_ascii a = to_lower_ascii opt @ sep # rest" by blast
  have n: "length opt < length a"
    using arg_cong [OF r, of length] by (simp add: to_lower_ascii_def)
  have "ascii_lower (a ! length opt) = sep"
    using arg_cong [OF r, of "\<lambda>s. s ! length opt"] n by (simp add: to_lower_ascii_def nth_append)
  moreover have "to_lower_ascii (take (length opt) a) = to_lower_ascii opt"
    using arg_cong [OF r, of "take (length opt)"] by (simp add: to_lower_ascii_def take_map)
  ultimately show "length opt < length a \<and> starts_with_ci a opt \<and> a ! length opt = sep"
    using n assms by (auto simp: starts_with_ci_def equals_ascii_ci_lower)
qed

lemma forbids_option_lower:
  "forbids_option p a = list_ex (\<lambda>option. to_lower_ascii a = to_lower_ascii option \<or>
     (\<exists>rest. to_lower_ascii a = to_lower_ascii option @ CHR '':'' # rest) \<or>
     (\<exists>rest. to_lower_ascii a = to_lower_ascii option @ CHR ''='' # rest)) (po_forbidden_options p)"
  using prefix_separator [OF ascii_lower_punctuation(1)] prefix_separator [OF ascii_lower_punctuation(2)]
  unfolding forbids_option_def equals_ascii_ci_lower
  by (intro arg_cong2 [of _ _ _ _ list_ex] ext refl) blast

text \<open>A forbidden option stays forbidden under any change of letter case.\<close>

lemma forbids_option_ci: "equals_ascii_ci a b \<Longrightarrow> forbids_option p a = forbids_option p b"
  by (simp add: forbids_option_lower equals_ascii_ci_lower)

section \<open>Facts about the retry decision\<close>

text \<open>Exactly when a retry is legal.\<close>

lemma evaluate_retry_legal:
  "rd_legal (evaluate_retry phase policy used) \<longleftrightarrow>
    pr_state phase \<in> {PS_failed, PS_recovery_required, PS_ready, PS_pending} \<and>
    pr_failure phase \<noteq> FC_unknown_outcome \<and>
    (pr_failure phase = FC_authority_invalidated \<or>
     (permits_retry policy (pr_failure phase) \<and> attempt_count phase \<le> po_max_retries_per_phase policy \<and>
      used < po_max_retries_per_session policy))"
  by (cases "pr_state phase") (auto simp: evaluate_retry_def Let_def not_less not_le)

lemma evaluate_retry_refusal:
  "\<not> rd_legal (evaluate_retry phase policy used) \<Longrightarrow> rd_refusal (evaluate_retry phase policy used) \<noteq> SC_ok"
  by (auto simp: evaluate_retry_def Let_def split: if_splits)

lemma evaluate_retry_generation:
  "rd_next_attempt_generation (evaluate_retry phase policy used) =
    (if rd_legal (evaluate_retry phase policy used) then gen_next (pr_attempt_generation phase)
     else pr_attempt_generation phase)"
  by (auto simp: evaluate_retry_def Let_def)

end
