(* ===== verification/Target.thy ===== *)
theory Target
  imports Registry
begin

text \<open>
  \<open>src/core/target.cpp\<close> and \<open>src/core/source.cpp\<close>: compilation targets and their registry,
  and the source registry whose entries are content-addressed at admission.
\<close>

section \<open>Targets\<close>

datatype architecture =
    AR_unknown | AR_x86 | AR_x64 | AR_arm | AR_arm64

fun to_string_architecture :: "architecture \<Rightarrow> string" where
  "to_string_architecture AR_unknown = ''unknown''"
| "to_string_architecture AR_x86 = ''x86''"
| "to_string_architecture AR_x64 = ''x64''"
| "to_string_architecture AR_arm = ''arm''"
| "to_string_architecture AR_arm64 = ''arm64''"

definition architecture_pairs :: "(string \<times> architecture) list" where
  "architecture_pairs =
     [(''unknown'', AR_unknown), (''x86'', AR_x86), (''i386'', AR_x86), (''x64'', AR_x64), (''amd64'', AR_x64),
      (''x86_64'', AR_x64), (''arm'', AR_arm), (''arm64'', AR_arm64), (''aarch64'', AR_arm64)]"

definition parse_architecture :: "string \<Rightarrow> architecture option" where
  "parse_architecture t =
     map_option snd (List.find (\<lambda>(name, value). equals_ascii_ci t name) architecture_pairs)"

fun pointer_bits :: "architecture \<Rightarrow> u32" where
  "pointer_bits AR_x86 = 32"
| "pointer_bits AR_arm = 32"
| "pointer_bits AR_x64 = 64"
| "pointer_bits AR_arm64 = 64"
| "pointer_bits AR_unknown = 0"

datatype operating_system =
    OS_unknown | OS_windows | OS_linux_kernel | OS_macos | OS_bare_metal

fun to_string_os :: "operating_system \<Rightarrow> string" where
  "to_string_os OS_unknown = ''unknown''"
| "to_string_os OS_windows = ''windows''"
| "to_string_os OS_linux_kernel = ''linux''"
| "to_string_os OS_macos = ''macos''"
| "to_string_os OS_bare_metal = ''bare-metal''"

datatype object_format =
    OF_unknown | OF_coff_object | OF_coff_image | OF_ptx | OF_cubin | OF_fatbin | OF_elf
  | OF_archive | OF_preprocessed_source | OF_assembly_source | OF_linker_map
  | OF_debug_info | OF_metadata

fun to_string_object_format :: "object_format \<Rightarrow> string" where
  "to_string_object_format OF_unknown = ''unknown''"
| "to_string_object_format OF_coff_object = ''coff-object''"
| "to_string_object_format OF_coff_image = ''coff-image''"
| "to_string_object_format OF_ptx = ''ptx''"
| "to_string_object_format OF_cubin = ''cubin''"
| "to_string_object_format OF_fatbin = ''fatbin''"
| "to_string_object_format OF_elf = ''elf''"
| "to_string_object_format OF_archive = ''archive''"
| "to_string_object_format OF_preprocessed_source = ''preprocessed-source''"
| "to_string_object_format OF_assembly_source = ''assembly-source''"
| "to_string_object_format OF_linker_map = ''linker-map''"
| "to_string_object_format OF_debug_info = ''debug-info''"
| "to_string_object_format OF_metadata = ''metadata''"

definition kObjectFormats :: "object_format list" where
  "kObjectFormats =
    [OF_unknown, OF_coff_object, OF_coff_image, OF_ptx, OF_cubin, OF_fatbin, OF_elf,
     OF_archive, OF_preprocessed_source, OF_assembly_source, OF_linker_map, OF_debug_info,
     OF_metadata]"

definition parse_object_format :: "string \<Rightarrow> object_format option" where
  "parse_object_format t = List.find (\<lambda>value. equals_ascii_ci t (to_string_object_format value)) kObjectFormats"

record target_spec =
  ts_architecture :: architecture
  ts_os :: operating_system
  ts_triple :: string
  ts_cpu :: string
  ts_device_arch :: string
  ts_device_virtual_arch :: string
  ts_abi :: string
  ts_pointer_width_bits :: u32

definition target_validate :: "target_spec \<Rightarrow> unit result" where
  "target_validate t =
     (if ts_architecture t = AR_unknown then Inl (Status SC_invalid_argument ''target architecture is unknown'')
      else if ts_os t = OS_unknown then Inl (Status SC_invalid_argument ''target operating system is unknown'')
      else if ts_triple t = [] then Inl (Status SC_invalid_argument ''target triple is empty'')
      else if length (ts_triple t) > 256 then Inl (Status SC_invalid_argument ''target triple is unreasonably long'')
      else if ts_pointer_width_bits t \<noteq> 0 \<and> ts_pointer_width_bits t \<noteq> pointer_bits (ts_architecture t)
        then Inl (Status SC_invalid_argument ''target pointer width disagrees with the declared architecture'')
      else Inr ())"

definition target_canonical_bytes :: "target_spec \<Rightarrow> string" where
  "target_canonical_bytes t =
     enc_text (to_string_architecture (ts_architecture t)) @ enc_text (to_string_os (ts_os t)) @
     enc_text (ts_triple t) @ enc_text (ts_cpu t) @ enc_text (ts_device_arch t) @
     enc_text (ts_device_virtual_arch t) @ enc_text (ts_abi t) @ enc_u32 (ts_pointer_width_bits t)"

definition target_canonical_digest :: "target_spec \<Rightarrow> digest" where
  "target_canonical_digest t = digest_of (target_canonical_bytes t)"

type_synonym target_identity = "(target_tag, target_spec) reg_identity"
type_synonym target_registry = "(target_tag, target_spec) registry"

definition target_intern :: "target_spec \<Rightarrow> target_registry \<Rightarrow> target_registry \<times> target_tag referenced result" where
  "target_intern = reg_intern target_validate target_canonical_digest"

definition target_intern_as ::
  "target_id \<Rightarrow> target_spec \<Rightarrow> target_registry \<Rightarrow> target_registry \<times> target_tag referenced result" where
  "target_intern_as = reg_intern_as ''target'' target_validate target_canonical_digest"

definition target_revise ::
  "target_id \<Rightarrow> target_spec \<Rightarrow> target_registry \<Rightarrow> target_registry \<times> target_tag referenced result" where
  "target_revise = reg_revise ''target'' target_validate target_canonical_digest"

definition target_find :: "target_id \<Rightarrow> target_registry \<Rightarrow> target_identity option" where
  "target_find = reg_find"

definition target_list :: "target_registry \<Rightarrow> target_identity list" where
  "target_list = reg_list"

fun coff_machine_for :: "architecture \<Rightarrow> u16" where
  "coff_machine_for AR_x86 = 0x014C"
| "coff_machine_for AR_x64 = 0x8664"
| "coff_machine_for AR_arm = 0x01C0"
| "coff_machine_for AR_arm64 = 0xAA64"
| "coff_machine_for AR_unknown = 0"

section \<open>Sources\<close>

datatype source_language =
    SL_unknown | SL_c | SL_cxx | SL_cuda | SL_assembly | SL_ptx | SL_other

fun to_string_language :: "source_language \<Rightarrow> string" where
  "to_string_language SL_unknown = ''unknown''"
| "to_string_language SL_c = ''c''"
| "to_string_language SL_cxx = ''c++''"
| "to_string_language SL_cuda = ''cuda''"
| "to_string_language SL_assembly = ''assembly''"
| "to_string_language SL_ptx = ''ptx''"
| "to_string_language SL_other = ''other''"

definition parse_source_language :: "string \<Rightarrow> source_language option" where
  "parse_source_language t =
     (if equals_ascii_ci t ''c'' then Some SL_c
      else if equals_ascii_ci t ''c++'' \<or> equals_ascii_ci t ''cpp'' \<or> equals_ascii_ci t ''cxx'' then Some SL_cxx
      else if equals_ascii_ci t ''cuda'' \<or> equals_ascii_ci t ''cu'' then Some SL_cuda
      else if equals_ascii_ci t ''assembly'' \<or> equals_ascii_ci t ''asm'' then Some SL_assembly
      else if equals_ascii_ci t ''ptx'' then Some SL_ptx
      else if equals_ascii_ci t ''other'' then Some SL_other
      else None)"

definition source_language_from_extension :: "string \<Rightarrow> source_language" where
  "source_language_from_extension extension =
     (let lowered = to_lower_ascii extension in
      if lowered = ''.c'' then SL_c
      else if lowered \<in> set [''.cc'', ''.cpp'', ''.cxx'', ''.c++'', ''.hpp'', ''.hxx'', ''.ixx''] then SL_cxx
      else if lowered = ''.cu'' then SL_cuda
      else if lowered = ''.asm'' \<or> lowered = ''.s'' then SL_assembly
      else if lowered = ''.ptx'' then SL_ptx
      else SL_unknown)"

record source_unit =
  su_id :: source_id
  su_generation :: "source_tag generation"
  su_path :: string
  su_language :: source_language
  su_dialect :: string
  su_content :: digest
  su_size_bytes :: u64
  su_redact_diagnostics :: bool

definition source_canonical_bytes :: "(string \<Rightarrow> string) \<Rightarrow> source_unit \<Rightarrow> string" where
  "source_canonical_bytes lexically_normal u =
     enc_text (id_to_string ''source'' (su_id u)) @ enc_u64 (gen_value (su_generation u)) @
     enc_text (canonical_path_key lexically_normal (su_path u)) @
     enc_text (to_string_language (su_language u)) @ enc_text (su_dialect u) @
     enc_text (to_hex (su_content u)) @ enc_u64 (su_size_bytes u) @ enc_boolean (su_redact_diagnostics u)"

definition source_canonical_digest :: "(string \<Rightarrow> string) \<Rightarrow> source_unit \<Rightarrow> digest" where
  "source_canonical_digest lexically_normal u = digest_of (source_canonical_bytes lexically_normal u)"

record source_registry =
  sr_entries :: "(u64, source_unit) umap"
  sr_allocator :: "source_tag id_allocator"

definition source_registry_init :: source_registry where
  "source_registry_init = \<lparr>sr_entries = [], sr_allocator = allocator_init\<rparr>"

definition kMaxSources :: nat where
  "kMaxSources = 4096"

text \<open>
  The file system queries of \<open>SourceRegistry::add\<close>: the file's view for hashing, the size that
  is read again afterwards, and the lexical path functions of the standard library.
\<close>

record path_ops =
  px_lexically_normal :: "string \<Rightarrow> string"
  px_extension :: "string \<Rightarrow> string"
  px_view :: "string \<Rightarrow> file_view"
  px_file_size :: "string \<Rightarrow> u64 option"

definition source_add ::
  "path_ops \<Rightarrow> string \<Rightarrow> source_language \<Rightarrow> string \<Rightarrow> source_registry \<Rightarrow> source_registry \<times> source_tag referenced result" where
  "source_add px path language dialect r =
     (if length (sr_entries r) \<ge> kMaxSources then (r, Inl (Status SC_capacity_exceeded ''source registry is full''))
      else case digest_of_file (px_view px path) kDefaultFileBound of
        None \<Rightarrow> (r, Inl (Status SC_not_found (''source file could not be hashed: '' @ path)))
      | Some content \<Rightarrow>
          (case px_file_size px path of
             None \<Rightarrow> (r, Inl (Status SC_not_found (''source file size is unavailable: '' @ path)))
           | Some bytes \<Rightarrow>
               (case alloc_next (sr_allocator r) of (i, a) \<Rightarrow>
                 let unit = \<lparr>su_id = i, su_generation = gen_initial,
                       su_path = normalize_path_string (px_lexically_normal px) path,
                       su_language = (if language = SL_unknown
                         then source_language_from_extension (px_extension px path) else language),
                       su_dialect = dialect, su_content = content, su_size_bytes = bytes,
                       su_redact_diagnostics = False\<rparr>
                 in (r\<lparr>sr_entries := um_emplace (id_value i) unit (sr_entries r), sr_allocator := a\<rparr>,
                     Inr (Ref i gen_initial)))))"

definition source_add_from_bytes ::
  "path_ops \<Rightarrow> string \<Rightarrow> string \<Rightarrow> source_language \<Rightarrow> string \<Rightarrow> source_registry \<Rightarrow> source_registry \<times> source_tag referenced result" where
  "source_add_from_bytes px name bytes language dialect r =
     (if length (sr_entries r) \<ge> kMaxSources then (r, Inl (Status SC_capacity_exceeded ''source registry is full''))
      else (case alloc_next (sr_allocator r) of (i, a) \<Rightarrow>
        let unit = \<lparr>su_id = i, su_generation = gen_initial, su_path = name,
              su_language = (if language = SL_unknown
                then source_language_from_extension (px_extension px name) else language),
              su_dialect = dialect, su_content = digest_of bytes, su_size_bytes = of_nat (length bytes),
              su_redact_diagnostics = False\<rparr>
        in (r\<lparr>sr_entries := um_emplace (id_value i) unit (sr_entries r), sr_allocator := a\<rparr>,
            Inr (Ref i gen_initial))))"

definition source_add_as ::
  "source_id \<Rightarrow> source_unit \<Rightarrow> source_registry \<Rightarrow> source_registry \<times> source_tag referenced result" where
  "source_add_as i unit r =
     (if \<not> id_present i then (r, Inl (Status SC_invalid_identity ''source identity is absent''))
      else let g = (if gen_present (su_generation unit) then su_generation unit else gen_initial);
               copy = unit\<lparr>su_id := i, su_generation := g\<rparr>
           in (r\<lparr>sr_allocator := alloc_observe i (sr_allocator r),
                 sr_entries := um_set (id_value i) copy (sr_entries r)\<rparr>, Inr (Ref i g)))"

definition source_find :: "source_id \<Rightarrow> source_registry \<Rightarrow> source_unit option" where
  "source_find i r = um_find (sr_entries r) (id_value i)"

definition source_list :: "source_registry \<Rightarrow> source_unit list" where
  "source_list r = sort_key su_id (map snd (sr_entries r))"

definition verify_unchanged :: "path_ops \<Rightarrow> source_unit \<Rightarrow> bool" where
  "verify_unchanged px unit =
     (if su_path unit = [] then False
      else case digest_of_file (px_view px (su_path unit)) kDefaultFileBound of
        None \<Rightarrow> False
      | Some observed \<Rightarrow> observed = su_content unit)"

section \<open>Target identity is injective\<close>

lemma to_string_architecture_inject: "to_string_architecture a = to_string_architecture b \<longleftrightarrow> a = b"
  by (cases a; cases b) simp_all

lemma to_string_os_inject: "to_string_os a = to_string_os b \<longleftrightarrow> a = b"
  by (cases a; cases b) simp_all

lemma short_names: "length (to_string_architecture a) < 2 ^ 32" "length (to_string_os o') < 2 ^ 32"
  by (cases a; simp) (cases o'; simp)

text \<open>Strings whose length fits the 32-bit prefix.\<close>

definition target_fits :: "target_spec \<Rightarrow> bool" where
  "target_fits t = (\<forall>s \<in> {ts_triple t, ts_cpu t, ts_device_arch t, ts_device_virtual_arch t, ts_abi t}.
     length s < 2 ^ 32)"

lemma enc_text_inject:
  "length a < 2 ^ 32 \<Longrightarrow> length b < 2 ^ 32 \<Longrightarrow> (enc_text a @ r = enc_text b @ s) = (a = b \<and> r = s)"
  using c_text.encode_inject [of a "max (length a) (length b)" b r s] by simp

lemma enc_u32_inject: "(enc_u32 a = enc_u32 b) = (a = b)"
  using c_u32.encode_inject_end by simp

lemma target_bytes_inject:
  assumes "target_fits s" "target_fits t" "target_canonical_bytes s = target_canonical_bytes t"
  shows "s = t"
  using assms
  by (simp add: target_canonical_bytes_def target_fits_def enc_text_inject [simplified] short_names [simplified] enc_u32_inject
      to_string_architecture_inject to_string_os_inject target_spec.equality)

section \<open>Registry facts for targets\<close>

abbreviation target_ok :: "target_registry \<Rightarrow> bool" where
  "target_ok \<equiv> reg_ok target_validate target_canonical_digest"

abbreviation target_step :: "target_registry \<Rightarrow> target_registry \<Rightarrow> bool" where
  "target_step \<equiv> reg_step ''target'' target_validate target_canonical_digest"

lemma target_intern_step: "target_step r (fst (target_intern spec r))"
  by (simp add: target_intern_def reg_step.intern)

lemma target_revise_step: "target_step r (fst (target_revise i spec r))"
  by (simp add: target_revise_def reg_step.revise)

lemma parse_architecture_to_string: "parse_architecture (to_string_architecture a) = Some a"
  by (cases a) (simp_all add: parse_architecture_def architecture_pairs_def equals_ascii_ci_def ascii_lower_def)

lemma object_formats_distinct: "distinct (map (\<lambda>v. to_lower_ascii (to_string_object_format v)) kObjectFormats)"
  by (simp add: kObjectFormats_def to_lower_ascii_def ascii_lower_def)

lemma parse_object_format_iff: "parse_object_format t = Some k \<longleftrightarrow> equals_ascii_ci t (to_string_object_format k)"
  unfolding parse_object_format_def
  by (rule find_ci_name [OF object_formats_distinct]) (cases k; simp add: kObjectFormats_def)

section \<open>Source registry\<close>

definition source_ok :: "source_registry \<Rightarrow> bool" where
  "source_ok r = (id_table_ok (sr_entries r) (sr_allocator r) \<and>
     um_all (\<lambda>k u. id_value (su_id u) = k \<and> gen_present (su_generation u)) (sr_entries r))"

lemma source_add_ok [crf_inv]: "source_ok r \<Longrightarrow> source_ok (fst (source_add px p l d r))"
  by (simp add: source_ok_def source_add_def Let_def case_prod_beta id_table_emplace um_all_emplace
      split: option.split)

lemma source_add_from_bytes_ok [crf_inv]: "source_ok r \<Longrightarrow> source_ok (fst (source_add_from_bytes px n b l d r))"
  by (simp add: source_ok_def source_add_from_bytes_def Let_def case_prod_beta id_table_emplace um_all_emplace)

lemma source_add_as_ok [crf_inv]: "source_ok r \<Longrightarrow> source_ok (fst (source_add_as i u r))"
  by (simp add: source_ok_def source_add_as_def Let_def id_table_observe um_all_set)

lemma length_um_emplace: "length (um_emplace k v m) \<le> Suc (length m)"
  by (simp add: um_emplace_def split: option.split)

lemma source_add_bounded:
  "length (sr_entries r) \<le> kMaxSources \<Longrightarrow> length (sr_entries (fst (source_add px p l d r))) \<le> kMaxSources"
  "length (sr_entries r) \<le> kMaxSources \<Longrightarrow> length (sr_entries (fst (source_add_from_bytes px n b l d r))) \<le> kMaxSources"
  using length_um_emplace by (fastforce simp: source_add_def source_add_from_bytes_def Let_def case_prod_beta
      not_le Suc_le_eq intro: le_trans split: option.split)+

lemma source_admitted_content:
  assumes "source_ok r" "counter (sr_allocator r) \<noteq> kMax"
    and "source_add px p l d r = (r', Inr ref)" "[] \<notin> set (fv_reads (px_view px p))"
  shows "\<exists>u. source_find (ref_id ref) r' = Some u \<and> su_generation u = ref_gen ref \<and>
    su_content u = digest_of_bytes (concat (fv_reads (px_view px p)))"
proof -
  have fresh: "um_find (sr_entries r) (id_value (fst (alloc_next (sr_allocator r)))) = None"
    using id_table_fresh [of "sr_entries r" "sr_allocator r"] assms by (simp add: source_ok_def)
  obtain c b where c: "digest_of_file (px_view px p) kDefaultFileBound = Some c" "px_file_size px p = Some b"
    using assms(3) by (auto simp: source_add_def split: if_splits option.splits)
  have "c = digest_of_bytes (concat (fv_reads (px_view px p)))"
    using digest_of_file_result [OF c(1) assms(4)] by simp
  with assms(3) c fresh show ?thesis
    by (auto simp: source_add_def Let_def case_prod_beta source_find_def um.find_emplace split: if_splits)
qed

end
