(* ===== verification/Phase_Plan.thy ===== *)
theory Phase_Plan
  imports Target
begin

text \<open>
  \<open>src/core/phase_plan.cpp\<close>: construction of a validated phase plan. The checks run in the
  order of \<open>PhasePlan::build\<close>: size, identities and index, dependencies and reverse edges,
  fan-in arity, the deterministic Kahn sort, the mandatory sink and the orphan check. The sort's
  \<open>while\<close> loop runs on fuel; the number of nodes is enough, because every iteration appends a
  node to the order and no node is appended twice (\<open>kahn_result\<close>).
\<close>

section \<open>Nodes and plans\<close>

record phase_node =
  pn_id :: phase_id
  pn_kind :: phase_kind
  pn_adapter_phase :: string
  pn_depends_on :: "phase_id list"
  pn_mandatory :: bool
  pn_expected_outputs :: "object_format list"
  pn_fan_in :: bool
  pn_required_inputs :: u64

definition node_canonical_bytes :: "phase_node \<Rightarrow> string" where
  "node_canonical_bytes nd =
     enc_text (id_to_string ''phase'' (pn_id nd)) @ enc_text (to_string_phase_kind (pn_kind nd)) @
     enc_text (pn_adapter_phase nd) @ enc_boolean (pn_mandatory nd) @ enc_boolean (pn_fan_in nd) @
     enc_u64 (pn_required_inputs nd) @
     concat (map enc_text (sort (map (id_to_string ''phase'') (pn_depends_on nd)))) @
     concat (map enc_text (sort (map to_string_object_format (pn_expected_outputs nd))))"

definition node_canonical_digest :: "phase_node \<Rightarrow> digest" where
  "node_canonical_digest nd = digest_of (node_canonical_bytes nd)"

record phase_plan =
  pp_nodes :: "phase_node list"
  pp_index :: "(u64, nat) umap"
  pp_dependents :: "phase_id list list"
  pp_order :: "phase_id list"

definition kMaxPhases :: nat where
  "kMaxPhases = 4096"

section \<open>Construction\<close>

fun build_index :: "nat \<Rightarrow> phase_node list \<Rightarrow> (u64, nat) umap \<Rightarrow> (u64, nat) umap result" where
  "build_index i [] index = Inr index"
| "build_index i (nd # nds) index =
     (if \<not> id_present (pn_id nd)
        then Inl (Status SC_invalid_identity ''phase plan contains an absent phase identity'')
      else if um_find index (id_value (pn_id nd)) \<noteq> None
        then Inl (Status SC_already_exists
          (''duplicate phase identity in phase plan: '' @ id_to_string ''phase'' (pn_id nd)))
      else build_index (Suc i) nds (um_emplace (id_value (pn_id nd)) i index))"

fun link_dependencies ::
  "(u64, nat) umap \<Rightarrow> phase_id \<Rightarrow> phase_id list \<Rightarrow> phase_id list list \<Rightarrow> phase_id list list result" where
  "link_dependencies index self [] dependents = Inr dependents"
| "link_dependencies index self (dependency # ds) dependents =
     (if dependency = self
        then Inl (Status SC_invalid_argument (''phase depends on itself: '' @ id_to_string ''phase'' dependency))
      else case um_find index (id_value dependency) of
        None \<Rightarrow> Inl (Status SC_not_found
          (''phase dependency is not part of the plan: '' @ id_to_string ''phase'' dependency))
      | Some found \<Rightarrow> link_dependencies index self ds (dependents[found := (dependents ! found) @ [self]]))"

fun link_nodes ::
  "(u64, nat) umap \<Rightarrow> phase_node list \<Rightarrow> phase_id list list \<Rightarrow> phase_id list list result" where
  "link_nodes index [] dependents = Inr dependents"
| "link_nodes index (nd # nds) dependents =
     crf_try (link_dependencies index (pn_id nd) (pn_depends_on nd) dependents)
       (\<lambda>dependents. link_nodes index nds dependents)"

definition fan_in_defect :: "phase_node list \<Rightarrow> phase_node option" where
  "fan_in_defect nodes = List.find (\<lambda>nd. pn_fan_in nd \<and>
     (pn_required_inputs nd = 0 \<or> unat (pn_required_inputs nd) > length (pn_depends_on nd))) nodes"

text \<open>\<open>--indegree[index]\<close> on a \<open>std::size_t\<close>.\<close>

definition size_dec :: "nat \<Rightarrow> nat" where
  "size_dec d = (if d = 0 then 2 ^ 64 - 1 else d - 1)"

fun release_dependents ::
  "(u64, nat) umap \<Rightarrow> phase_id list \<Rightarrow> nat list \<Rightarrow> nat list \<Rightarrow> nat list \<times> nat list" where
  "release_dependents index [] indegree released = (indegree, released)"
| "release_dependents index (dependent # ds) indegree released =
     (let j = the (um_find index (id_value dependent));
          d = size_dec (indegree ! j)
      in release_dependents index ds (indegree[j := d]) (if d = 0 then released @ [j] else released))"

fun kahn_loop ::
  "nat \<Rightarrow> phase_node list \<Rightarrow> (u64, nat) umap \<Rightarrow> phase_id list list \<Rightarrow> nat list \<Rightarrow> nat list \<Rightarrow> phase_id list \<Rightarrow>
   nat list \<times> phase_id list" where
  "kahn_loop 0 nodes index dependents indegree ready order = (ready, order)"
| "kahn_loop (Suc fuel) nodes index dependents indegree ready order =
     (case ready of
        [] \<Rightarrow> ([], order)
      | current # rest \<Rightarrow>
          (case release_dependents index (dependents ! current) indegree [] of (indegree, released) \<Rightarrow>
            kahn_loop fuel nodes index dependents indegree (rest @ sort released)
              (order @ [pn_id (nodes ! current)])))"

definition kahn_order :: "phase_node list \<Rightarrow> (u64, nat) umap \<Rightarrow> phase_id list list \<Rightarrow> phase_id list" where
  "kahn_order nodes index dependents =
     (let indegree = map (\<lambda>nd. length (pn_depends_on nd)) nodes;
          ready = filter (\<lambda>i. indegree ! i = 0) [0..<length nodes]
      in snd (kahn_loop (length nodes) nodes index dependents indegree ready []))"

definition any_sink_mandatory :: "phase_node list \<Rightarrow> phase_id list list \<Rightarrow> bool" where
  "any_sink_mandatory nodes dependents =
     list_ex (\<lambda>i. dependents ! i = [] \<and> pn_mandatory (nodes ! i)) [0..<length nodes]"

text \<open>The reverse pass over the order that collects the nodes reaching the last one.\<close>

definition reaches_primary :: "(u64, nat) umap \<Rightarrow> phase_id list list \<Rightarrow> phase_id \<Rightarrow> phase_id list \<Rightarrow> u64 list" where
  "reaches_primary index dependents primary order =
     foldr (\<lambda>it acc.
       if it = primary \<or> list_ex (\<lambda>dependent. id_value dependent \<in> set acc)
            (dependents ! the (um_find index (id_value it)))
       then id_value it # acc else acc) order []"

definition plan_build :: "phase_node list \<Rightarrow> phase_plan result" where
  "plan_build nodes =
     (if nodes = [] then Inl (Status SC_invalid_argument ''phase plan is empty'')
      else if length nodes > kMaxPhases
        then Inl (Status SC_capacity_exceeded ''phase plan exceeds the phase ceiling'')
      else
        crf_try (build_index 0 nodes []) (\<lambda>index.
        crf_try (link_nodes index nodes (replicate (length nodes) [])) (\<lambda>dependents.
        case fan_in_defect nodes of
          Some nd \<Rightarrow> Inl (Status SC_invalid_argument
            (''fan-in phase declares an impossible input arity: '' @ id_to_string ''phase'' (pn_id nd)))
        | None \<Rightarrow>
            let order = kahn_order nodes index dependents in
            if length order \<noteq> length nodes
              then Inl (Status SC_invalid_argument ''phase plan contains a dependency cycle'')
            else if \<not> any_sink_mandatory nodes dependents
              then Inl (Status SC_invalid_argument
                ''phase plan has no mandatory sink phase to produce the final artifact'')
            else
              let reached = reaches_primary index dependents (last order) order in
              case List.find (\<lambda>nd. id_value (pn_id nd) \<notin> set reached) nodes of
                Some nd \<Rightarrow> Inl (Status SC_invalid_argument
                  (''phase contributes to no final artifact: '' @ id_to_string ''phase'' (pn_id nd)))
              | None \<Rightarrow> Inr \<lparr>pp_nodes = nodes, pp_index = index, pp_dependents = dependents, pp_order = order\<rparr>)))"

section \<open>Queries\<close>

definition plan_find :: "phase_id \<Rightarrow> phase_plan \<Rightarrow> phase_node option" where
  "plan_find i p = map_option (\<lambda>k. pp_nodes p ! k) (um_find (pp_index p) (id_value i))"

definition plan_find_by_kind :: "phase_kind \<Rightarrow> phase_plan \<Rightarrow> phase_node option" where
  "plan_find_by_kind kind p = List.find (\<lambda>nd. pn_kind nd = kind) (pp_nodes p)"

definition plan_roots :: "phase_plan \<Rightarrow> phase_id list" where
  "plan_roots p = map pn_id (filter (\<lambda>nd. pn_depends_on nd = []) (pp_nodes p))"

definition plan_dependents :: "phase_id \<Rightarrow> phase_plan \<Rightarrow> phase_id list" where
  "plan_dependents i p = (case um_find (pp_index p) (id_value i) of None \<Rightarrow> [] | Some k \<Rightarrow> sort (pp_dependents p ! k))"

definition plan_dependencies :: "phase_id \<Rightarrow> phase_plan \<Rightarrow> phase_id list" where
  "plan_dependencies i p = (case plan_find i p of Some nd \<Rightarrow> pn_depends_on nd | None \<Rightarrow> [])"

text \<open>
  The worklist of \<open>transitive_dependencies\<close>. Each iteration either skips a visited identity or
  visits a new one of the plan, so the fuel counts one round per queued occurrence.
\<close>

fun transitive_loop :: "nat \<Rightarrow> phase_plan \<Rightarrow> phase_id list \<Rightarrow> phase_id list \<Rightarrow> phase_id list option" where
  "transitive_loop 0 p pending out = None"
| "transitive_loop (Suc fuel) p pending out =
     (case pending of
        [] \<Rightarrow> Some out
      | current # rest \<Rightarrow>
          if current \<in> set out then transitive_loop fuel p rest out
          else transitive_loop fuel p (rest @ plan_dependencies current p) (out @ [current]))"

definition transitive_fuel :: "phase_plan \<Rightarrow> nat" where
  "transitive_fuel p = 2 + sum_list (map (\<lambda>nd. length (pn_depends_on nd)) (pp_nodes p)) * 2"

definition transitive_dependencies :: "phase_id \<Rightarrow> phase_plan \<Rightarrow> phase_id list option" where
  "transitive_dependencies i p = map_option sort (transitive_loop (transitive_fuel p) p (plan_dependencies i p) [])"

definition mandatory_ancestors :: "phase_id \<Rightarrow> phase_plan \<Rightarrow> phase_id list option" where
  "mandatory_ancestors i p =
     map_option (filter (\<lambda>c. case plan_find c p of Some nd \<Rightarrow> pn_mandatory nd | None \<Rightarrow> False))
       (transitive_dependencies i p)"

definition plan_is_ready :: "phase_id \<Rightarrow> phase_id list \<Rightarrow> phase_plan \<Rightarrow> bool" where
  "plan_is_ready i committed p =
     (case plan_find i p of None \<Rightarrow> False | Some nd \<Rightarrow> list_all (\<lambda>d. d \<in> set committed) (pn_depends_on nd))"

definition plan_canonical_digest :: "phase_plan \<Rightarrow> digest" where
  "plan_canonical_digest p =
     digest_of (enc_u64 (of_nat (length (pp_nodes p))) @
       concat (map (\<lambda>nd. enc_text (to_hex (node_canonical_digest nd))) (pp_nodes p)))"

section \<open>The index\<close>

text \<open>The index is the inverse of the identity of a node.\<close>

definition index_ok :: "phase_node list \<Rightarrow> (u64, nat) umap \<Rightarrow> bool" where
  "index_ok nodes index =
     (\<forall>v i. um_find index v = Some i \<longleftrightarrow> i < length nodes \<and> id_value (pn_id (nodes ! i)) = v)"

lemma index_ok_find: "index_ok nodes index \<Longrightarrow>
    um_find index v = Some i \<longleftrightarrow> i < length nodes \<and> id_value (pn_id (nodes ! i)) = v"
  unfolding index_ok_def by blast

lemma index_ok_snoc:
  assumes ok: "index_ok pre index" and fresh: "um_find index (id_value (pn_id nd)) = None"
  shows "index_ok (pre @ [nd]) (um_emplace (id_value (pn_id nd)) (length pre) index)"
proof -
  have ne: "id_value (pn_id (pre ! i)) \<noteq> id_value (pn_id nd)" if "i < length pre" for i
    using index_ok_find [OF ok, of "id_value (pn_id (pre ! i))" i] that fresh by auto
  show ?thesis
    unfolding index_ok_def
    using ne fresh
    by (auto simp: um.find_emplace nth_append less_Suc_eq index_ok_find [OF ok] split: if_splits)
qed

lemma build_index_extends:
  assumes "build_index (length pre) nds index = Inr index'" "index_ok pre index"
  shows "index_ok (pre @ nds) index' \<and> list_all (\<lambda>nd. id_present (pn_id nd)) nds"
  using assms
proof (induction nds arbitrary: pre index)
  case (Cons nd nds)
  let ?v = "id_value (pn_id nd)"
  have fresh: "um_find index ?v = None" and present: "id_present (pn_id nd)"
    and rest: "build_index (Suc (length pre)) nds (um_emplace ?v (length pre) index) = Inr index'"
    using Cons.prems(1) by (auto split: if_splits)
  from Cons.IH [of "pre @ [nd]"] index_ok_snoc [OF Cons.prems(2) fresh] rest present show ?case by simp
qed simp

lemma build_index_ok:
  assumes "build_index 0 nodes [] = Inr index"
  shows "index_ok nodes index" "\<forall>nd \<in> set nodes. id_present (pn_id nd)"
  using build_index_extends [of "[]" nodes "[]" index] assms
  by (simp_all add: index_ok_def list_all_iff)

lemma index_ok_nth: "index_ok nodes index \<Longrightarrow> i < length nodes \<Longrightarrow> um_find index (id_value (pn_id (nodes ! i))) = Some i"
  by (simp add: index_ok_def)

lemma index_ok_inj:
  assumes "index_ok nodes index" "i < length nodes" "j < length nodes" "pn_id (nodes ! i) = pn_id (nodes ! j)"
  shows "i = j"
  using index_ok_nth [OF assms(1,2)] index_ok_nth [OF assms(1,3)] unfolding assms(4) by simp

lemma index_ok_distinct: "index_ok nodes index \<Longrightarrow> distinct (map pn_id nodes)"
  unfolding distinct_conv_nth using index_ok_inj by (metis length_map nth_map)

lemma index_ok_None:
  assumes "index_ok nodes index"
  shows "um_find index (id_value d) = None \<longleftrightarrow> d \<notin> pn_id ` set nodes"
proof -
  have "(\<exists>i. um_find index (id_value d) = Some i) \<longleftrightarrow> (\<exists>i < length nodes. pn_id (nodes ! i) = d)"
    unfolding index_ok_find [OF assms] by (metis strong_id.expand)
  also have "\<dots> \<longleftrightarrow> d \<in> pn_id ` set nodes"
    by (metis imageE imageI in_set_conv_nth)
  finally show ?thesis by (metis not_None_eq)
qed

section \<open>The reverse edges\<close>

lemma link_dependencies_ok:
  assumes "link_dependencies index self ds deps = Inr deps'" "\<forall>d i. um_find index d = Some i \<longrightarrow> i < length deps"
  shows "length deps' = length deps \<and> self \<notin> set ds \<and> (\<forall>d \<in> set ds. um_find index (id_value d) \<noteq> None) \<and>
    (\<forall>k < length deps. deps' ! k =
       deps ! k @ replicate (length (filter (\<lambda>d. um_find index (id_value d) = Some k) ds)) self)"
  using assms
proof (induction ds arbitrary: deps)
  case (Cons d ds)
  obtain f where f: "um_find index (id_value d) = Some f" and ne: "d \<noteq> self"
    and rest: "link_dependencies index self ds (deps[f := (deps ! f) @ [self]]) = Inr deps'"
    using Cons.prems(1) by (auto split: if_splits option.splits)
  have fl: "f < length deps" using Cons.prems(2) f by blast
  from Cons.IH [OF rest] Cons.prems(2)
  have IH: "length deps' = length deps" "self \<notin> set ds" "\<forall>d \<in> set ds. um_find index (id_value d) \<noteq> None"
    "\<forall>k < length deps. deps' ! k = deps[f := (deps ! f) @ [self]] ! k @
       replicate (length (filter (\<lambda>d. um_find index (id_value d) = Some k) ds)) self"
    by auto
  then show ?case
    using f ne fl by (auto simp: nth_list_update)
qed simp

lemma link_nodes_ok:
  assumes "link_nodes index nds deps = Inr deps'" "\<forall>d i. um_find index d = Some i \<longrightarrow> i < length deps"
  shows "length deps' = length deps \<and>
    (\<forall>nd \<in> set nds. pn_id nd \<notin> set (pn_depends_on nd) \<and>
       (\<forall>d \<in> set (pn_depends_on nd). um_find index (id_value d) \<noteq> None)) \<and>
    (\<forall>k < length deps. deps' ! k = deps ! k @ concat (map (\<lambda>nd. replicate
       (length (filter (\<lambda>d. um_find index (id_value d) = Some k) (pn_depends_on nd))) (pn_id nd)) nds))"
  using assms
proof (induction nds arbitrary: deps)
  case (Cons nd nds)
  obtain deps1 where first: "link_dependencies index (pn_id nd) (pn_depends_on nd) deps = Inr deps1"
    and rest: "link_nodes index nds deps1 = Inr deps'"
    using Cons.prems(1) by (auto simp: crf_try_Inr)
  note A = link_dependencies_ok [OF first Cons.prems(2)]
  note B = Cons.IH [OF rest]
  show ?case
    using A B Cons.prems(2) by auto
qed simp

text \<open>What the two passes establish: reverse edges with the multiplicity of the forward ones.\<close>

definition edges_ok :: "phase_node list \<Rightarrow> (u64, nat) umap \<Rightarrow> phase_id list list \<Rightarrow> bool" where
  "edges_ok nodes index deps = (index_ok nodes index \<and> length deps = length nodes \<and>
     (\<forall>nd \<in> set nodes. set (pn_depends_on nd) \<subseteq> pn_id ` set nodes \<and> pn_id nd \<notin> set (pn_depends_on nd)) \<and>
     (\<forall>k < length nodes. set (deps ! k) \<subseteq> pn_id ` set nodes \<and> (\<forall>j < length nodes.
        count_list (deps ! k) (pn_id (nodes ! j)) = count_list (pn_depends_on (nodes ! j)) (pn_id (nodes ! k)))))"

lemma count_list_replicate: "count_list (replicate n x) y = (if x = y then n else 0)"
  by (induction n) auto

lemma count_list_concat: "count_list (concat xss) y = sum_list (map (\<lambda>xs. count_list xs y) xss)"
  by (induction xss) auto

lemma count_list_filter_length: "count_list xs y = length (filter (\<lambda>x. x = y) xs)"
  by (induction xs) auto

lemma sum_list_single:
  "distinct (map f xs) \<Longrightarrow> j < length xs \<Longrightarrow>
    sum_list (map (\<lambda>x. if f x = f (xs ! j) then g x else (0 :: nat)) xs) = g (xs ! j)"
proof (induction xs arbitrary: j)
  case (Cons x xs)
  show ?case
  proof (cases j)
    case 0
    have "sum_list (map (\<lambda>y. if f y = f x then g y else 0) xs) = 0"
      using Cons.prems by (auto simp: image_iff intro!: sum_list_0)
    with 0 show ?thesis by simp
  next
    case (Suc i)
    then have "f x \<noteq> f (xs ! i)" using Cons.prems by auto
    with Suc Cons show ?thesis by simp
  qed
qed simp

lemma link_nodes_edges:
  assumes idx: "index_ok nodes index" and link: "link_nodes index nodes (replicate (length nodes) []) = Inr deps"
  shows "edges_ok nodes index deps"
proof -
  have bound: "\<forall>d i. um_find index d = Some i \<longrightarrow> i < length (replicate (length nodes) ([] :: phase_id list))"
    using index_ok_find [OF idx] by simp
  note L = link_nodes_ok [OF link bound]
  have dep: "deps ! k = concat (map (\<lambda>nd. replicate (count_list (pn_depends_on nd) (pn_id (nodes ! k))) (pn_id nd)) nodes)"
    if k: "k < length nodes" for k
  proof -
    have "(\<lambda>d. um_find index (id_value d) = Some k) = (\<lambda>d. d = pn_id (nodes ! k))"
      using k index_ok_find [OF idx] by (metis strong_id.expand)
    then show ?thesis using L k by (simp add: count_list_filter_length)
  qed
  have cnt: "count_list (deps ! k) (pn_id (nodes ! j)) = count_list (pn_depends_on (nodes ! j)) (pn_id (nodes ! k))"
    if "k < length nodes" "j < length nodes" for k j
    using sum_list_single [OF index_ok_distinct [OF idx] that(2),
        of "\<lambda>nd. count_list (pn_depends_on nd) (pn_id (nodes ! k))"] that
    by (simp add: dep count_list_concat comp_def count_list_replicate)
  have "set (pn_depends_on nd) \<subseteq> pn_id ` set nodes \<and> pn_id nd \<notin> set (pn_depends_on nd)" if nd: "nd \<in> set nodes" for nd
  proof -
    have "d \<in> pn_id ` set nodes" if "d \<in> set (pn_depends_on nd)" for d
    proof -
      have "um_find index (id_value d) \<noteq> None" using L nd that by blast
      then show ?thesis by (simp add: index_ok_None [OF idx])
    qed
    then show ?thesis using L nd by auto
  qed
  moreover have "set (deps ! k) \<subseteq> pn_id ` set nodes" if "k < length nodes" for k
    by (auto simp: dep [OF that] set_replicate_conv_if split: if_splits)
  ultimately show ?thesis
    using idx L cnt unfolding edges_ok_def by simp
qed

section \<open>Releasing the dependents of a node\<close>

lemma release_dependents_result:
  assumes "\<And>d. d \<in> set ds \<Longrightarrow> \<exists>j. um_find index (id_value d) = Some j \<and> j < length ind"
    and "\<And>j. j < length ind \<Longrightarrow> count_list (map (\<lambda>d. the (um_find index (id_value d))) ds) j \<le> ind ! j"
  shows "\<exists>ind' r. release_dependents index ds ind rel = (ind', rel @ r) \<and> length ind' = length ind \<and> distinct r \<and>
    (\<forall>j < length ind. ind' ! j = ind ! j - count_list (map (\<lambda>d. the (um_find index (id_value d))) ds) j) \<and>
    set r = {j. j < length ind \<and> 0 < ind ! j \<and>
      ind ! j = count_list (map (\<lambda>d. the (um_find index (id_value d))) ds) j}"
  using assms
proof (induction ds arbitrary: ind rel)
  case (Cons d ds)
  let ?js = "map (\<lambda>d. the (um_find index (id_value d))) ds"
  obtain j where j: "um_find index (id_value d) = Some j" "j < length ind"
    using Cons.prems(1) [of d] by auto
  have pos: "0 < ind ! j" and le: "Suc (count_list ?js j) \<le> ind ! j"
    using Cons.prems(2) [OF j(2)] j(1) by auto
  let ?ind = "ind[j := ind ! j - 1]"
  let ?rel = "if ind ! j - 1 = 0 then rel @ [j] else rel"
  have dec: "size_dec (ind ! j) = ind ! j - 1" using pos by (simp add: size_dec_def)
  have step: "release_dependents index (d # ds) ind rel = release_dependents index ds ?ind ?rel"
    using j(1) by (simp add: dec Let_def)
  have c: "count_list ?js i \<le> ?ind ! i" if "i < length ?ind" for i
    using Cons.prems(2) [of i] that j le by (cases "i = j") auto
  obtain ind' r where IH: "release_dependents index ds ?ind ?rel = (ind', ?rel @ r)" "length ind' = length ind"
      "distinct r" "\<forall>i < length ind. ind' ! i = ?ind ! i - count_list ?js i"
      "set r = {i. i < length ind \<and> 0 < ?ind ! i \<and> ?ind ! i = count_list ?js i}"
    using Cons.IH [of ?ind ?rel] Cons.prems(1) c by auto
  let ?r = "if ind ! j - 1 = 0 then j # r else r"
  have "release_dependents index (d # ds) ind rel = (ind', rel @ ?r)"
    unfolding step IH(1) by simp
  moreover have "distinct ?r" using IH(3,5) by auto
  moreover have "\<forall>i < length ind. ind' ! i = ind ! i - count_list (j # ?js) i"
    using IH(4) j(2) by (auto simp: nth_list_update)
  moreover have "set ?r = {i. i < length ind \<and> 0 < ind ! i \<and> ind ! i = count_list (j # ?js) i}"
  proof (rule set_eqI)
    fix i
    show "i \<in> set ?r \<longleftrightarrow> i \<in> {i. i < length ind \<and> 0 < ind ! i \<and> ind ! i = count_list (j # ?js) i}"
      using j(2) pos le by (cases "i = j"; cases "ind ! j - 1 = 0") (simp_all add: IH(5), arith?)
  qed
  ultimately show ?case
    using IH(2) j(1) by auto
qed auto

section \<open>The sort\<close>

text \<open>
  The invariant of the sort, with the processed indices \<open>ds\<close>: a node's counter is the number of
  its dependencies still unprocessed; the nodes at zero are exactly the processed and the ready
  ones; every processed node comes after all of its dependencies.
\<close>

definition unmet :: "phase_node list \<Rightarrow> nat list \<Rightarrow> nat \<Rightarrow> nat" where
  "unmet nodes ds j = length (filter (\<lambda>d. d \<notin> (\<lambda>i. pn_id (nodes ! i)) ` set ds) (pn_depends_on (nodes ! j)))"

definition topo_sorted :: "phase_node list \<Rightarrow> nat list \<Rightarrow> bool" where
  "topo_sorted nodes ds = (\<forall>xs j ys. ds = xs @ j # ys \<longrightarrow> unmet nodes xs j = 0)"

definition kahn_inv :: "phase_node list \<Rightarrow> nat list \<Rightarrow> nat list \<Rightarrow> nat list \<Rightarrow> bool" where
  "kahn_inv nodes ds ind ready =
     (distinct (ds @ ready) \<and> set (ds @ ready) \<subseteq> {..<length nodes} \<and> length ind = length nodes \<and>
      (\<forall>j < length nodes. ind ! j = unmet nodes ds j) \<and>
      (\<forall>j < length nodes. j \<in> set ds \<union> set ready \<longleftrightarrow> ind ! j = 0) \<and> topo_sorted nodes ds)"

lemma unmet_snoc:
  assumes "index_ok nodes index" "set ds \<subseteq> {..<length nodes}" "c < length nodes" "c \<notin> set ds"
  shows "unmet nodes ds j = unmet nodes (ds @ [c]) j + count_list (pn_depends_on (nodes ! j)) (pn_id (nodes ! c))"
proof -
  have new: "pn_id (nodes ! c) \<notin> (\<lambda>i. pn_id (nodes ! i)) ` set ds"
  proof
    assume "pn_id (nodes ! c) \<in> (\<lambda>i. pn_id (nodes ! i)) ` set ds"
    then obtain i where i: "i \<in> set ds" "pn_id (nodes ! c) = pn_id (nodes ! i)" by blast
    have "c = i" using index_ok_inj [OF assms(1,3) _ i(2)] i(1) assms(2) by blast
    with i(1) assms(4) show False by simp
  qed
  have "length (filter (\<lambda>d. d \<notin> A) xs) = length (filter (\<lambda>d. d \<notin> insert x A) xs) + count_list xs x"
    if "x \<notin> A" for A x and xs :: "phase_id list"
    using that by (induction xs) auto
  from this [OF new] show ?thesis by (simp add: unmet_def)
qed

lemma topo_sorted_snoc: "topo_sorted nodes (ds @ [c]) \<longleftrightarrow> topo_sorted nodes ds \<and> unmet nodes ds c = 0"
proof
  assume l: "topo_sorted nodes (ds @ [c])"
  show "topo_sorted nodes ds \<and> unmet nodes ds c = 0"
  proof
    show "topo_sorted nodes ds"
      unfolding topo_sorted_def
    proof (intro allI impI)
      fix xs j ys assume "ds = xs @ j # ys"
      then have "ds @ [c] = xs @ j # (ys @ [c])" by simp
      with l show "unmet nodes xs j = 0" unfolding topo_sorted_def by blast
    qed
    show "unmet nodes ds c = 0"
      using l unfolding topo_sorted_def by blast
  qed
next
  assume r: "topo_sorted nodes ds \<and> unmet nodes ds c = 0"
  show "topo_sorted nodes (ds @ [c])"
    unfolding topo_sorted_def
  proof (intro allI impI)
    fix xs j ys assume eq: "ds @ [c] = xs @ j # ys"
    show "unmet nodes xs j = 0"
      using eq r by (cases ys rule: rev_cases) (auto simp: topo_sorted_def)
  qed
qed

lemma index_known:
  assumes "index_ok nodes index" "d \<in> pn_id ` set nodes"
  shows "\<exists>j. um_find index (id_value d) = Some j \<and> j < length nodes"
  using index_ok_None [OF assms(1), of d] assms(2) index_ok_find [OF assms(1)] by (metis not_None_eq)

lemma index_the:
  assumes "index_ok nodes index" "d \<in> pn_id ` set nodes" "j < length nodes"
  shows "the (um_find index (id_value d)) = j \<longleftrightarrow> d = pn_id (nodes ! j)"
  using index_known [OF assms(1,2)] index_ok_find [OF assms(1)] assms(3)
  by (metis option.sel strong_id.expand)

lemma count_list_map_iff:
  "(\<And>x. x \<in> set xs \<Longrightarrow> (f x = j) = (x = y)) \<Longrightarrow> count_list (map f xs) j = count_list xs y"
  by (induction xs) auto

lemma kahn_step:
  assumes E: "edges_ok nodes index deps" and K: "kahn_inv nodes ds ind (c # rest)"
  shows "\<exists>ind' r. release_dependents index (deps ! c) ind [] = (ind', r) \<and>
    kahn_inv nodes (ds @ [c]) ind' (rest @ sort r)"
proof -
  let ?ix = "\<lambda>d. the (um_find index (id_value d))"
  have idx: "index_ok nodes index" and c: "c < length nodes" "c \<notin> set ds" and len: "length ind = length nodes"
    and sub: "set ds \<subseteq> {..<length nodes}"
    using E K by (auto simp: edges_ok_def kahn_inv_def)
  have ids: "set (deps ! c) \<subseteq> pn_id ` set nodes"
    using E c by (simp add: edges_ok_def)
  have known: "\<exists>j. um_find index (id_value d) = Some j \<and> j < length ind" if "d \<in> set (deps ! c)" for d
    using index_known [OF idx] ids that len by (metis subsetD)
  have cnt: "count_list (map ?ix (deps ! c)) j = count_list (pn_depends_on (nodes ! j)) (pn_id (nodes ! c))"
    if j: "j < length nodes" for j
  proof -
    have "(?ix d = j) = (d = pn_id (nodes ! j))" if "d \<in> set (deps ! c)" for d
      using index_the [OF idx _ j] ids that by blast
    then have "count_list (map ?ix (deps ! c)) j = count_list (deps ! c) (pn_id (nodes ! j))"
      by (rule count_list_map_iff)
    then show ?thesis using E c j by (simp add: edges_ok_def)
  qed
  have drop: "ind ! j = unmet nodes (ds @ [c]) j + count_list (map ?ix (deps ! c)) j" if "j < length nodes" for j
    using unmet_snoc [OF idx sub c] K that by (simp add: kahn_inv_def cnt)
  obtain ind' r where R: "release_dependents index (deps ! c) ind [] = (ind', r)" "length ind' = length ind"
      "distinct r" "\<forall>j < length ind. ind' ! j = ind ! j - count_list (map ?ix (deps ! c)) j"
      "set r = {j. j < length ind \<and> 0 < ind ! j \<and> ind ! j = count_list (map ?ix (deps ! c)) j}"
    using release_dependents_result [of "deps ! c" index ind "[]"] known drop len by auto
  have now: "ind' ! j = unmet nodes (ds @ [c]) j" if "j < length nodes" for j
    using R(4) drop that len by simp
  have zero: "j \<in> set (c # ds) \<union> set rest \<longleftrightarrow> ind ! j = 0" if "j < length nodes" for j
    using K that by (auto simp: kahn_inv_def)
  have "distinct ((ds @ [c]) @ rest @ sort r)" "set ((ds @ [c]) @ rest @ sort r) \<subseteq> {..<length nodes}"
    using K R(3,5) zero len by (auto simp: kahn_inv_def)
  moreover have "j \<in> set (ds @ [c]) \<union> set (rest @ sort r) \<longleftrightarrow> ind' ! j = 0" if j: "j < length nodes" for j
    using zero [OF j] drop [OF j] now [OF j] R(5) j len by auto
  moreover have "topo_sorted nodes (ds @ [c])"
    using K zero [OF c(1)] by (auto simp: topo_sorted_snoc kahn_inv_def)
  ultimately have "kahn_inv nodes (ds @ [c]) ind' (rest @ sort r)"
    using R(2) now len unfolding kahn_inv_def by simp
  with R(1) show ?thesis by blast
qed

lemma kahn_loop_result:
  assumes E: "edges_ok nodes index deps" and "kahn_inv nodes ds ind ready" "length nodes \<le> length ds + fuel"
  shows "\<exists>ds' ind'. kahn_inv nodes ds' ind' [] \<and>
    kahn_loop fuel nodes index deps ind ready (map (\<lambda>i. pn_id (nodes ! i)) ds) =
      ([], map (\<lambda>i. pn_id (nodes ! i)) ds')"
  using assms(2,3)
proof (induction fuel arbitrary: ds ind ready)
  case 0
  have "length (ds @ ready) \<le> length nodes"
    using 0(1) by (metis card_lessThan card_mono distinct_card finite_lessThan kahn_inv_def)
  then have "length ready = 0" using 0(2) by (simp only: length_append)
  with 0 show ?case by auto
next
  case (Suc fuel)
  show ?case
  proof (cases ready)
    case Nil
    with Suc show ?thesis by auto
  next
    case (Cons c rest)
    obtain ind' r where R: "release_dependents index (deps ! c) ind [] = (ind', r)"
        "kahn_inv nodes (ds @ [c]) ind' (rest @ sort r)"
      using kahn_step [OF E] Suc.prems(1) Cons by blast
    with Suc.IH [OF R(2)] Suc.prems(2) Cons show ?thesis by simp
  qed
qed

lemma kahn_init:
  "kahn_inv nodes [] (map (\<lambda>nd. length (pn_depends_on nd)) nodes)
     (filter (\<lambda>i. map (\<lambda>nd. length (pn_depends_on nd)) nodes ! i = 0) [0..<length nodes])"
  by (auto simp: kahn_inv_def unmet_def topo_sorted_def)

lemma kahn_result:
  assumes "edges_ok nodes index deps"
  shows "\<exists>ds ind. kahn_inv nodes ds ind [] \<and> kahn_order nodes index deps = map (\<lambda>i. pn_id (nodes ! i)) ds"
  using kahn_loop_result [OF assms kahn_init, of "length nodes"]
  by (auto simp: kahn_order_def Let_def)

text \<open>
  The sort is complete: it falls short of the node list only when no ranking of the phases
  puts every dependency below its dependent, that is, when the dependencies are cyclic.
\<close>

lemma kahn_complete:
  assumes E: "edges_ok nodes index deps"
    and rank: "\<And>nd d. nd \<in> set nodes \<Longrightarrow> d \<in> set (pn_depends_on nd) \<Longrightarrow> rank d < (rank (pn_id nd) :: nat)"
  shows "length (kahn_order nodes index deps) = length nodes"
proof -
  obtain ds ind where K: "kahn_inv nodes ds ind []" and o: "kahn_order nodes index deps = map (\<lambda>i. pn_id (nodes ! i)) ds"
    using kahn_result [OF E] by blast
  have "j \<in> set ds" if "j < length nodes" for j
    using that
  proof (induction "rank (pn_id (nodes ! j))" arbitrary: j rule: less_induct)
    case less
    have "d \<in> (\<lambda>i. pn_id (nodes ! i)) ` set ds" if d: "d \<in> set (pn_depends_on (nodes ! j))" for d
    proof -
      have "d \<in> pn_id ` set nodes"
        using E less.prems d unfolding edges_ok_def by (metis nth_mem subsetD)
      then obtain i where i: "i < length nodes" "d = pn_id (nodes ! i)"
        by (metis imageE in_set_conv_nth)
      then have "rank (pn_id (nodes ! i)) < rank (pn_id (nodes ! j))"
        using rank [OF nth_mem [OF less.prems]] d by simp
      from less.hyps [OF this i(1)] i(2) show ?thesis by blast
    qed
    then have "unmet nodes ds j = 0" by (simp add: unmet_def filter_empty_conv)
    with K less.prems show ?case by (simp add: kahn_inv_def)
  qed
  then have "{..<length nodes} \<subseteq> set ds" by blast
  moreover have "distinct ds" "set ds \<subseteq> {..<length nodes}" using K by (simp_all add: kahn_inv_def)
  ultimately have "set ds = {..<length nodes}" "card (set ds) = length ds"
    by (auto simp: distinct_card)
  then show ?thesis using o by simp
qed

section \<open>Accepted plans\<close>

text \<open>\<open>dep_edge nodes a b\<close>: the phase \<open>b\<close> declares a dependency on \<open>a\<close>.\<close>

definition dep_edge :: "phase_node list \<Rightarrow> phase_id \<Rightarrow> phase_id \<Rightarrow> bool" where
  "dep_edge nodes a b = (\<exists>nd \<in> set nodes. pn_id nd = b \<and> a \<in> set (pn_depends_on nd))"

lemma dependents_edge:
  assumes E: "edges_ok nodes index deps" and k: "k < length nodes"
  shows "d \<in> set (deps ! k) \<longleftrightarrow> dep_edge nodes (pn_id (nodes ! k)) d"
proof -
  have cnt: "pn_id (nodes ! j) \<in> set (deps ! k) \<longleftrightarrow> pn_id (nodes ! k) \<in> set (pn_depends_on (nodes ! j))"
    if "j < length nodes" for j
    using E k that unfolding edges_ok_def by (metis count_list_0_iff)
  have sub: "set (deps ! k) \<subseteq> pn_id ` set nodes" using E k by (simp add: edges_ok_def)
  show ?thesis
  proof
    assume d: "d \<in> set (deps ! k)"
    then obtain j where "j < length nodes" "d = pn_id (nodes ! j)"
      using sub by (metis imageE in_set_conv_nth subsetD)
    with d cnt show "dep_edge nodes (pn_id (nodes ! k)) d" unfolding dep_edge_def by (metis nth_mem)
  next
    assume "dep_edge nodes (pn_id (nodes ! k)) d"
    with cnt show "d \<in> set (deps ! k)" unfolding dep_edge_def by (metis in_set_conv_nth)
  qed
qed

lemma reaches_primary_sound:
  assumes E: "edges_ok nodes index deps" and "set order \<subseteq> pn_id ` set nodes"
  shows "id_value x \<in> set (reaches_primary index deps primary order) \<Longrightarrow> (dep_edge nodes)\<^sup>*\<^sup>* x primary"
  using assms(2)
proof (induction order arbitrary: x)
  case (Cons it order)
  let ?acc = "reaches_primary index deps primary order"
  obtain k where k: "um_find index (id_value it) = Some k" "k < length nodes"
    using index_known [of nodes index it] E Cons.prems(2) by (auto simp: edges_ok_def)
  have it: "it = pn_id (nodes ! k)"
    using k index_ok_find [of nodes index] E by (simp add: edges_ok_def strong_id.expand)
  show ?case
  proof (cases "id_value x \<in> set ?acc")
    case True
    then show ?thesis using Cons by simp
  next
    case False
    then have x: "x = it" and hit: "it = primary \<or> (\<exists>d \<in> set (deps ! k). id_value d \<in> set ?acc)"
      using Cons.prems(1) k(1)
      by (auto simp: reaches_primary_def list_ex_iff strong_id.expand split: if_splits)
    from hit show ?thesis
    proof
      assume "\<exists>d \<in> set (deps ! k). id_value d \<in> set ?acc"
      then obtain d where d: "d \<in> set (deps ! k)" "id_value d \<in> set ?acc" by blast
      have "dep_edge nodes it d" using d(1) dependents_edge [OF E k(2)] it by simp
      moreover have "(dep_edge nodes)\<^sup>*\<^sup>* d primary" using Cons d(2) by simp
      ultimately show ?thesis unfolding x by (rule converse_rtranclp_into_rtranclp)
    qed (simp add: x)
  qed
qed (simp add: reaches_primary_def)

text \<open>The structural promise of an accepted plan.\<close>

definition plan_ok :: "phase_plan \<Rightarrow> bool" where
  "plan_ok p =
     (edges_ok (pp_nodes p) (pp_index p) (pp_dependents p) \<and>
      (\<forall>nd \<in> set (pp_nodes p). id_present (pn_id nd)) \<and> pp_order p \<noteq> [] \<and>
      distinct (pp_order p) \<and> set (pp_order p) = pn_id ` set (pp_nodes p) \<and>
      (\<forall>xs x ys. pp_order p = xs @ x # ys \<longrightarrow> (\<forall>d. dep_edge (pp_nodes p) d x \<longrightarrow> d \<in> set xs)))"

lemma plan_build_parts:
  assumes "plan_build nodes = Inr p"
  shows "pp_nodes p = nodes" "nodes \<noteq> []" "length nodes \<le> kMaxPhases"
    "build_index 0 nodes [] = Inr (pp_index p)"
    "link_nodes (pp_index p) nodes (replicate (length nodes) []) = Inr (pp_dependents p)"
    "fan_in_defect nodes = None" "pp_order p = kahn_order nodes (pp_index p) (pp_dependents p)"
    "length (pp_order p) = length nodes" "any_sink_mandatory nodes (pp_dependents p)"
    "\<forall>nd \<in> set nodes. id_value (pn_id nd) \<in>
       set (reaches_primary (pp_index p) (pp_dependents p) (last (pp_order p)) (pp_order p))"
  using assms
  by (auto simp: plan_build_def crf_try_Inr Let_def find_None_iff split: if_splits option.splits)

lemma plan_build_edges:
  assumes "plan_build nodes = Inr p"
  shows "edges_ok nodes (pp_index p) (pp_dependents p)" "\<forall>nd \<in> set nodes. id_present (pn_id nd)"
proof -
  note P = plan_build_parts [OF assms]
  show "edges_ok nodes (pp_index p) (pp_dependents p)"
    by (rule link_nodes_edges [OF build_index_ok(1) [OF P(4)] P(5)])
  show "\<forall>nd \<in> set nodes. id_present (pn_id nd)"
    by (rule build_index_ok(2) [OF P(4)])
qed

text \<open>The order of the sort, once it is complete, lists every phase once and each after its dependencies.\<close>

lemma kahn_order_ok:
  assumes E: "edges_ok nodes index deps" and full: "length (kahn_order nodes index deps) = length nodes"
  shows "distinct (kahn_order nodes index deps) \<and> set (kahn_order nodes index deps) = pn_id ` set nodes \<and>
    (\<forall>xs x ys. kahn_order nodes index deps = xs @ x # ys \<longrightarrow> (\<forall>d. dep_edge nodes d x \<longrightarrow> d \<in> set xs))"
proof -
  let ?id = "\<lambda>i. pn_id (nodes ! i)"
  obtain ds ind where K: "kahn_inv nodes ds ind []" and o: "kahn_order nodes index deps = map ?id ds"
    using kahn_result [OF E] by auto
  have ds: "distinct ds" "set ds \<subseteq> {..<length nodes}" and topo: "topo_sorted nodes ds"
    using K by (simp_all add: kahn_inv_def)
  have "length ds = length nodes" using full o by simp
  then have all: "set ds = {..<length nodes}"
    using ds by (metis card_lessThan card_subset_eq distinct_card finite_lessThan)
  have "distinct (map ?id ds)"
  proof -
    have "index_ok nodes index" using E by (simp add: edges_ok_def)
    then have "inj_on ?id (set ds)"
      using ds(2) by (intro inj_onI) (metis index_ok_inj lessThan_iff subsetD)
    with ds(1) show ?thesis by (simp add: distinct_map)
  qed
  moreover have "set (map ?id ds) = pn_id ` set nodes"
  proof -
    have "set nodes = (!) nodes ` {..<length nodes}" by (auto simp: set_conv_nth)
    then show ?thesis by (simp add: all image_image)
  qed
  moreover have "\<forall>d. dep_edge nodes d x \<longrightarrow> d \<in> set xs" if split: "map ?id ds = xs @ x # ys" for xs x ys
  proof -
    obtain us j vs where u: "ds = us @ j # vs" "map ?id us = xs" "?id j = x"
      using split by (auto simp: map_eq_append_conv map_eq_Cons_conv)
    have "unmet nodes us j = 0" using topo u(1) by (auto simp: topo_sorted_def)
    then have deps: "set (pn_depends_on (nodes ! j)) \<subseteq> set xs"
      using u(2) by (auto simp: unmet_def filter_empty_conv)
    have j: "j < length nodes" using ds(2) u(1) by auto
    have "nd = nodes ! j" if "nd \<in> set nodes" "pn_id nd = x" for nd
      using that u(3) j index_ok_inj [of nodes index] E
      by (metis edges_ok_def in_set_conv_nth)
    then show ?thesis using deps by (auto simp: dep_edge_def)
  qed
  ultimately show ?thesis by (simp add: o)
qed

lemma plan_build_ok:
  assumes "plan_build nodes = Inr p"
  shows "plan_ok p"
proof -
  note P = plan_build_parts [OF assms]
  have E: "edges_ok nodes (pp_index p) (pp_dependents p)" by (rule plan_build_edges(1) [OF assms])
  have "pp_order p \<noteq> []" using P(2,8) by auto
  then show ?thesis
    using kahn_order_ok [OF E] E P(1,7,8) plan_build_edges(2) [OF assms] by (simp add: plan_ok_def)
qed

text \<open>An accepted plan has exactly one sink; it is mandatory and every phase leads to it.\<close>

lemma plan_single_sink:
  assumes "plan_build nodes = Inr p"
  shows "\<exists>nd \<in> set nodes. pn_mandatory nd \<and> pn_id nd = last (pp_order p) \<and>
    (\<forall>x. \<not> dep_edge nodes (pn_id nd) x) \<and> (\<forall>x \<in> set nodes. (dep_edge nodes)\<^sup>*\<^sup>* (pn_id x) (pn_id nd))"
proof -
  note P = plan_build_parts [OF assms]
  have E: "edges_ok nodes (pp_index p) (pp_dependents p)" by (rule plan_build_edges(1) [OF assms])
  have ord: "set (pp_order p) \<subseteq> pn_id ` set nodes"
    using plan_build_ok [OF assms] P(1) by (simp add: plan_ok_def)
  have reach: "(dep_edge nodes)\<^sup>*\<^sup>* (pn_id x) (last (pp_order p))" if "x \<in> set nodes" for x
    using reaches_primary_sound [OF E ord] P(10) that by blast
  obtain i where i: "i < length nodes" "pp_dependents p ! i = []" "pn_mandatory (nodes ! i)"
    using P(9) by (auto simp: any_sink_mandatory_def list_ex_iff)
  have sink: "\<not> dep_edge nodes (pn_id (nodes ! i)) x" for x
    using dependents_edge [OF E i(1)] i(2) by simp
  have "pn_id (nodes ! i) = last (pp_order p)"
    using reach [OF nth_mem [OF i(1)]] sink by (auto elim: converse_rtranclpE)
  with i sink reach show ?thesis by (intro bexI [of _ "nodes ! i"]) auto
qed

section \<open>The queries of an accepted plan\<close>

lemma plan_find_iff:
  assumes "plan_ok p"
  shows "plan_find i p = Some nd \<longleftrightarrow> nd \<in> set (pp_nodes p) \<and> pn_id nd = i"
proof -
  have idx: "index_ok (pp_nodes p) (pp_index p)" using assms by (simp add: plan_ok_def edges_ok_def)
  have "plan_find i p = Some nd \<longleftrightarrow>
      (\<exists>k. k < length (pp_nodes p) \<and> id_value (pn_id (pp_nodes p ! k)) = id_value i \<and> pp_nodes p ! k = nd)"
    by (auto simp: plan_find_def index_ok_find [OF idx])
  also have "\<dots> \<longleftrightarrow> nd \<in> set (pp_nodes p) \<and> pn_id nd = i"
    by (metis in_set_conv_nth strong_id.expand)
  finally show ?thesis .
qed

lemma dep_edge_find:
  "plan_ok p \<Longrightarrow> dep_edge (pp_nodes p) d i \<longleftrightarrow> (\<exists>nd. plan_find i p = Some nd \<and> d \<in> set (pn_depends_on nd))"
  by (auto simp: plan_find_iff dep_edge_def)

lemma plan_dependencies_edge: "plan_ok p \<Longrightarrow> d \<in> set (plan_dependencies i p) \<longleftrightarrow> dep_edge (pp_nodes p) d i"
  by (cases "plan_find i p") (simp_all add: plan_dependencies_def dep_edge_find)

lemma plan_is_ready_iff:
  "plan_ok p \<Longrightarrow> plan_is_ready i committed p \<longleftrightarrow>
    plan_find i p \<noteq> None \<and> (\<forall>d. dep_edge (pp_nodes p) d i \<longrightarrow> d \<in> set committed)"
  by (cases "plan_find i p") (auto simp: plan_is_ready_def dep_edge_find list_all_iff)

text \<open>Executing the phases in the plan's order, each one is ready when its turn comes.\<close>

lemma plan_order_ready:
  assumes "plan_ok p" "pp_order p = xs @ x # ys"
  shows "plan_is_ready x xs p"
proof -
  have "x \<in> pn_id ` set (pp_nodes p)" using assms by (auto simp: plan_ok_def)
  then have "plan_find x p \<noteq> None" using plan_find_iff [OF assms(1), of x] by (metis imageE option.distinct(1))
  then show ?thesis
    using assms by (simp add: plan_is_ready_iff [OF assms(1)]) (simp add: plan_ok_def)
qed

section \<open>Transitive dependencies\<close>

definition pending_work :: "phase_plan \<Rightarrow> phase_id list \<Rightarrow> nat" where
  "pending_work p out = sum_list (map (\<lambda>nd. if pn_id nd \<in> set out then 0 else length (pn_depends_on nd)) (pp_nodes p))"

lemma sum_list_out:
  assumes "distinct (map pn_id nds)" "c \<notin> set out"
  shows "sum_list (map (\<lambda>nd. if pn_id nd \<in> set out then 0 else length (pn_depends_on nd)) nds) =
    sum_list (map (\<lambda>nd. if pn_id nd \<in> set (out @ [c]) then 0 else length (pn_depends_on nd)) nds) +
    (case List.find (\<lambda>nd. pn_id nd = c) nds of Some nd \<Rightarrow> length (pn_depends_on nd) | None \<Rightarrow> 0)"
  using assms
proof (induction nds)
  case (Cons nd nds)
  then have IH: "sum_list (map (\<lambda>nd. if pn_id nd \<in> set out then 0 else length (pn_depends_on nd)) nds) =
      sum_list (map (\<lambda>nd. if pn_id nd \<in> set (out @ [c]) then 0 else length (pn_depends_on nd)) nds) +
      (case List.find (\<lambda>nd. pn_id nd = c) nds of Some nd \<Rightarrow> length (pn_depends_on nd) | None \<Rightarrow> 0)"
    by simp
  show ?case
  proof (cases "pn_id nd = c")
    case True
    then have "List.find (\<lambda>nd. pn_id nd = c) nds = None"
      using Cons.prems(1) by (auto simp: find_None_iff) (metis image_eqI)
    with True IH Cons.prems(2) show ?thesis by simp
  next
    case False
    with IH show ?thesis by simp
  qed
qed simp

lemma plan_find_find:
  assumes "plan_ok p"
  shows "plan_find c p = List.find (\<lambda>nd. pn_id nd = c) (pp_nodes p)"
proof (cases "List.find (\<lambda>nd. pn_id nd = c) (pp_nodes p)")
  case None
  then have "plan_find c p \<noteq> Some nd" for nd
    by (auto simp: plan_find_iff [OF assms] find_None_iff)
  with None show ?thesis by (cases "plan_find c p") auto
next
  case (Some nd)
  with find_Some_in [OF Some] show ?thesis by (simp add: plan_find_iff [OF assms])
qed

lemma pending_work_visit:
  assumes "plan_ok p" "c \<notin> set out"
  shows "pending_work p out = pending_work p (out @ [c]) + length (plan_dependencies c p)"
proof -
  have "distinct (map pn_id (pp_nodes p))"
    using assms(1) index_ok_distinct by (auto simp: plan_ok_def edges_ok_def)
  from sum_list_out [OF this assms(2)] show ?thesis
    by (simp add: pending_work_def plan_dependencies_def plan_find_find [OF assms(1)] split: option.split)
qed

text \<open>
  The worklist invariant: everything queued or visited is a proper ancestor of \<open>i\<close>, and the
  direct dependencies of \<open>i\<close> and of every visited phase are queued or visited.
\<close>

definition closing :: "phase_plan \<Rightarrow> phase_id \<Rightarrow> phase_id list \<Rightarrow> phase_id list \<Rightarrow> bool" where
  "closing p i pending out =
     (distinct out \<and> (\<forall>x \<in> set pending \<union> set out. (dep_edge (pp_nodes p))\<^sup>+\<^sup>+ x i) \<and>
      (\<forall>x y. (x = i \<or> x \<in> set out) \<longrightarrow> dep_edge (pp_nodes p) y x \<longrightarrow> y \<in> set out \<union> set pending))"

lemma closing_final:
  assumes "closing p i [] out"
  shows "set out = {x. (dep_edge (pp_nodes p))\<^sup>+\<^sup>+ x i}"
proof -
  have "x \<in> set out" if "(dep_edge (pp_nodes p))\<^sup>+\<^sup>+ x i" for x
    using that
  proof (induction rule: converse_tranclp_induct)
    case (base y)
    with assms show ?case by (auto simp: closing_def)
  next
    case (step y z)
    with assms show ?case by (auto simp: closing_def)
  qed
  moreover have "\<forall>x \<in> set out. (dep_edge (pp_nodes p))\<^sup>+\<^sup>+ x i" using assms by (simp add: closing_def)
  ultimately show ?thesis by blast
qed

lemma closing_visit:
  assumes "plan_ok p" "closing p i (c # rest) out" "c \<notin> set out"
  shows "closing p i (rest @ plan_dependencies c p) (out @ [c])"
proof -
  have c: "(dep_edge (pp_nodes p))\<^sup>+\<^sup>+ c i" using assms(2) by (simp add: closing_def)
  have "(dep_edge (pp_nodes p))\<^sup>+\<^sup>+ d i" if "d \<in> set (plan_dependencies c p)" for d
    using that c by (metis plan_dependencies_edge [OF assms(1)] tranclp_into_tranclp2)
  then show ?thesis
    using assms(2,3) unfolding closing_def
    by (auto simp: plan_dependencies_edge [OF assms(1)])
qed

lemma transitive_loop_result:
  assumes ok: "plan_ok p" and "length pending + pending_work p out < fuel" "closing p i pending out"
  shows "\<exists>res. transitive_loop fuel p pending out = Some res \<and> distinct res \<and>
    set res = {x. (dep_edge (pp_nodes p))\<^sup>+\<^sup>+ x i}"
  using assms(2,3)
proof (induction fuel arbitrary: pending out)
  case (Suc fuel)
  show ?case
  proof (cases pending)
    case Nil
    then have "closing p i [] out" using Suc.prems(2) by simp
    with Nil closing_final [OF this] show ?thesis by (simp add: closing_def)
  next
    case (Cons c rest)
    show ?thesis
    proof (cases "c \<in> set out")
      case True
      with Cons Suc.prems(2) have "closing p i rest out" by (auto simp: closing_def)
      with Suc.IH [of rest out] Suc.prems(1) Cons True show ?thesis by simp
    next
      case False
      with Suc.IH [OF _ closing_visit [OF ok]] Suc.prems Cons pending_work_visit [OF ok False]
      show ?thesis by simp
    qed
  qed
qed simp

lemma transitive_dependencies_spec:
  assumes "plan_ok p"
  shows "\<exists>res. transitive_dependencies i p = Some res \<and> sorted res \<and> distinct res \<and>
    set res = {x. (dep_edge (pp_nodes p))\<^sup>+\<^sup>+ x i}"
proof -
  have init: "closing p i (plan_dependencies i p) []"
    by (auto simp: closing_def plan_dependencies_edge [OF assms])
  have "length (plan_dependencies i p) \<le> pending_work p []"
    using pending_work_visit [OF assms, of i "[]"] by simp
  then have "length (plan_dependencies i p) + pending_work p [] < transitive_fuel p"
    by (simp add: transitive_fuel_def pending_work_def)
  from transitive_loop_result [OF assms this init] show ?thesis
    by (auto simp: transitive_dependencies_def)
qed

section \<open>Which plans are accepted\<close>

text \<open>
  What the checks of \<open>build\<close> amount to: known, distinct identities, possible fan-in arities, no cycle
  and one mandatory phase that all others lead to.
\<close>

definition well_planned :: "phase_node list \<Rightarrow> bool" where
  "well_planned nodes \<longleftrightarrow> length nodes \<le> kMaxPhases \<and> (\<forall>nd \<in> set nodes. id_present (pn_id nd)) \<and> distinct (map pn_id nodes) \<and>
     (\<forall>nd \<in> set nodes. set (pn_depends_on nd) \<subseteq> pn_id ` set nodes) \<and>
     (\<forall>nd \<in> set nodes. pn_fan_in nd \<longrightarrow> pn_required_inputs nd \<noteq> 0 \<and> unat (pn_required_inputs nd) \<le> length (pn_depends_on nd)) \<and>
     acyclicP (dep_edge nodes) \<and>
     (\<exists>t \<in> set nodes. pn_mandatory t \<and> (\<forall>nd \<in> set nodes. (dep_edge nodes)\<^sup>*\<^sup>* (pn_id nd) (pn_id t)))"

lemma build_index_total:
  assumes "\<forall>nd \<in> set nds. id_present (pn_id nd)" "distinct (map pn_id (pre @ nds))" "index_ok pre index"
  shows "\<exists>index'. build_index (length pre) nds index = Inr index'"
  using assms
proof (induction nds arbitrary: pre index)
  case (Cons nd nds)
  have fresh: "um_find index (id_value (pn_id nd)) = None"
    using Cons.prems(2,3) by (auto simp: index_ok_None)
  with index_ok_snoc [OF Cons.prems(3)] Cons.IH [of "pre @ [nd]"] Cons.prems(1,2) show ?case by simp
qed simp

lemma link_dependencies_total:
  assumes "self \<notin> set ds" "\<forall>d \<in> set ds. um_find index (id_value d) \<noteq> None"
  shows "\<exists>deps'. link_dependencies index self ds deps = Inr deps'"
  using assms by (induction ds arbitrary: deps) auto

lemma link_nodes_total:
  assumes "\<forall>nd \<in> set nds. pn_id nd \<notin> set (pn_depends_on nd) \<and> (\<forall>d \<in> set (pn_depends_on nd). um_find index (id_value d) \<noteq> None)"
  shows "\<exists>deps'. link_nodes index nds deps = Inr deps'"
  using assms
proof (induction nds arbitrary: deps)
  case (Cons nd nds)
  obtain deps1 where "link_dependencies index (pn_id nd) (pn_depends_on nd) deps = Inr deps1"
    using link_dependencies_total [of "pn_id nd" "pn_depends_on nd" index deps] Cons.prems by auto
  with Cons show ?case by simp
qed simp

lemma later_occurrence:
  assumes "distinct (xs @ x # ys)" "xs @ x # ys = us @ d # vs" "x \<in> set us"
  shows "d \<in> set ys"
proof -
  have len: "length xs < length us"
  proof (rule ccontr)
    assume "\<not> length xs < length us"
    then have "us = take (length us) xs" using arg_cong [OF assms(2), of "take (length us)"] by simp
    then have "x \<in> set xs" using assms(3) by (metis in_set_takeD)
    with assms(1) show False by simp
  qed
  have "length us < length (xs @ x # ys)" by (simp add: assms(2))
  moreover have "d = (xs @ x # ys) ! length us" by (simp add: assms(2))
  ultimately show ?thesis using len by (auto simp: nth_append nth_Cons')
qed

text \<open>The reverse pass finds every phase that leads to the last one, because dependents come later in the order.\<close>

lemma reaches_primary_complete:
  assumes E: "edges_ok nodes index deps" and "set order \<subseteq> pn_id ` set nodes" "primary \<in> set order"
    and later: "\<And>xs x ys d. order = xs @ x # ys \<Longrightarrow> dep_edge nodes x d \<Longrightarrow> d \<in> set ys"
  shows "x \<in> set order \<Longrightarrow> (dep_edge nodes)\<^sup>*\<^sup>* x primary \<Longrightarrow> id_value x \<in> set (reaches_primary index deps primary order)"
  using assms(2-)
proof (induction order arbitrary: x)
  case (Cons it order)
  let ?acc = "reaches_primary index deps primary order"
  obtain k where k: "um_find index (id_value it) = Some k" "k < length nodes"
    using index_known [of nodes index it] E Cons.prems(3) by (auto simp: edges_ok_def)
  have it: "it = pn_id (nodes ! k)"
    using k index_ok_find [of nodes index] E by (simp add: edges_ok_def strong_id.expand)
  have step: "set (reaches_primary index deps primary (it # order)) =
      (if it = primary \<or> (\<exists>d \<in> set (deps ! k). id_value d \<in> set ?acc) then insert (id_value it) (set ?acc) else set ?acc)"
    using k(1) by (simp add: reaches_primary_def list_ex_iff)
  have later: "d \<in> set ys" if "order = xs @ y # ys" "dep_edge nodes y d" for xs y ys d
    using Cons.prems(5) [of "it # xs" y ys d] that by simp
  have IH: "id_value y \<in> set ?acc" if "y \<in> set order" "(dep_edge nodes)\<^sup>*\<^sup>* y primary" "primary \<in> set order" for y
    using Cons.IH [OF that(1,2)] Cons.prems(3) that(3) later by auto
  show ?case
  proof (cases "x = primary")
    case True
    show ?thesis
    proof (cases "it = primary")
      case False
      then show ?thesis using IH [of primary] Cons.prems(4) True step by auto
    qed (use step True in simp)
  next
    case False
    then obtain d where d: "dep_edge nodes x d" "(dep_edge nodes)\<^sup>*\<^sup>* d primary"
      using Cons.prems(2) by (metis converse_rtranclpE)
    have "primary \<in> set order" if "y \<in> set order" "(dep_edge nodes)\<^sup>*\<^sup>* y primary" for y
      using that(2,1)
    proof (induction rule: converse_rtranclp_induct)
      case (step y z)
      obtain xs ys where "order = xs @ y # ys" using step.prems by (meson split_list)
      with step later show ?case by auto
    qed
    note acc = IH [OF _ _ this]
    show ?thesis
    proof (cases "x = it")
      case True
      then have "d \<in> set order" using Cons.prems(5) [of "[]" it order d] d(1) by simp
      moreover have "d \<in> set (deps ! k)" using dependents_edge [OF E k(2)] it d(1) True by simp
      ultimately show ?thesis using acc d(2) True step by auto
    next
      case False
      then show ?thesis using acc [of x x] Cons.prems(1,2) step by auto
    qed
  qed
qed simp

lemma acyclic_rank:
  assumes "acyclicP (dep_edge nodes)" "dep_edge nodes d x"
  shows "card {y. (dep_edge nodes)\<^sup>+\<^sup>+ y d} < card {y. (dep_edge nodes)\<^sup>+\<^sup>+ y x}"
proof (rule psubset_card_mono)
  have "y \<in> (\<Union>nd \<in> set nodes. set (pn_depends_on nd))" if "(dep_edge nodes)\<^sup>+\<^sup>+ y z" for y z
    using that by (induction rule: tranclp_induct) (auto simp: dep_edge_def)
  then have "{y. (dep_edge nodes)\<^sup>+\<^sup>+ y x} \<subseteq> (\<Union>nd \<in> set nodes. set (pn_depends_on nd))" by blast
  then show "finite {y. (dep_edge nodes)\<^sup>+\<^sup>+ y x}" by (rule finite_subset) simp
  have "\<not> (dep_edge nodes)\<^sup>+\<^sup>+ d d" using assms(1) by (auto simp: acyclic_def tranclp_unfold)
  moreover have "(dep_edge nodes)\<^sup>+\<^sup>+ d x" using assms(2) by (rule tranclp.r_into_trancl)
  ultimately show "{y. (dep_edge nodes)\<^sup>+\<^sup>+ y d} \<subset> {y. (dep_edge nodes)\<^sup>+\<^sup>+ y x}"
    using tranclp_trans [of "dep_edge nodes" _ d x] by blast
qed

lemma well_planned_accepted:
  assumes "well_planned nodes"
  shows "\<exists>p. plan_build nodes = Inr p"
proof -
  obtain t where t: "t \<in> set nodes" "pn_mandatory t" and sink: "\<forall>nd \<in> set nodes. (dep_edge nodes)\<^sup>*\<^sup>* (pn_id nd) (pn_id t)"
    using assms by (auto simp: well_planned_def)
  have acyclic: "acyclicP (dep_edge nodes)" using assms by (simp add: well_planned_def)
  have irrefl: "\<not> dep_edge nodes x x" for x using acyclic by (auto simp: acyclic_def)
  obtain index where index: "build_index 0 nodes [] = Inr index"
    using build_index_total [of nodes "[]" "[]"] assms by (auto simp: well_planned_def index_ok_def)
  have ok: "index_ok nodes index" by (rule build_index_ok(1) [OF index])
  have known: "\<forall>nd \<in> set nodes. pn_id nd \<notin> set (pn_depends_on nd) \<and> (\<forall>d \<in> set (pn_depends_on nd). um_find index (id_value d) \<noteq> None)"
    unfolding index_ok_None [OF ok] using assms irrefl by (auto simp: well_planned_def dep_edge_def)
  obtain deps where deps: "link_nodes index nodes (replicate (length nodes) []) = Inr deps"
    using link_nodes_total [of nodes index] known by blast
  note E = link_nodes_edges [OF ok deps]
  let ?order = "kahn_order nodes index deps"
  have full: "length ?order = length nodes"
    by (rule kahn_complete [OF E, where rank = "\<lambda>d. card {y. (dep_edge nodes)\<^sup>+\<^sup>+ y d}"], rule acyclic_rank [OF acyclic])
      (auto simp: dep_edge_def)
  note order = kahn_order_ok [OF E full]
  have later: "d \<in> set ys" if split: "?order = xs @ x # ys" and edge: "dep_edge nodes x d" for xs x ys d
  proof -
    have "d \<in> set ?order" using edge order by (auto simp: dep_edge_def)
    then obtain us vs where us: "?order = us @ d # vs" by (meson split_list)
    then have "x \<in> set us" using order edge by blast
    moreover have "distinct (xs @ x # ys)" using conjunct1 [OF order] unfolding split .
    moreover have "xs @ x # ys = us @ d # vs" using us unfolding split .
    ultimately show ?thesis using later_occurrence by metis
  qed
  have ne: "?order \<noteq> []" using full t(1) by auto
  have no_edge: "\<not> dep_edge nodes (last ?order) d" for d
    using later [of "butlast ?order" "last ?order" "[]" d] ne by auto
  have last: "last ?order = pn_id t"
  proof -
    have "last ?order \<in> pn_id ` set nodes" using order ne last_in_set by blast
    then have "(dep_edge nodes)\<^sup>*\<^sup>* (last ?order) (pn_id t)" using sink by auto
    then show ?thesis using no_edge by (metis converse_rtranclpE)
  qed
  obtain k where k: "k < length nodes" "nodes ! k = t" using t(1) by (meson in_set_conv_nth)
  have "any_sink_mandatory nodes deps"
  proof -
    have "d \<notin> set (deps ! k)" for d using dependents_edge [OF E k(1)] no_edge last k(2) by simp
    then have "deps ! k = []" by (metis last_in_set)
    then show ?thesis using k t(2) by (auto simp: any_sink_mandatory_def list_ex_iff intro!: bexI [of _ k])
  qed
  moreover have "id_value (pn_id nd) \<in> set (reaches_primary index deps (last ?order) ?order)" if "nd \<in> set nodes" for nd
    using reaches_primary_complete [OF E, of ?order "last ?order" "pn_id nd"] order later that sink last t(1) by auto
  moreover have "fan_in_defect nodes = None"
    using assms by (auto simp: well_planned_def fan_in_defect_def find_None_iff not_less)
  moreover have "List.find (\<lambda>nd. id_value (pn_id nd) \<notin> set (reaches_primary index deps (last ?order) ?order)) nodes = None"
    using calculation(2) by (simp add: find_None_iff)
  moreover have "nodes \<noteq> []" "length nodes \<le> kMaxPhases" using t(1) assms by (auto simp: well_planned_def)
  ultimately show ?thesis
    using index deps full by (simp add: plan_build_def Let_def)
qed


lemma accepted_well_planned:
  assumes "plan_build nodes = Inr p"
  shows "well_planned nodes"
proof -
  note P = plan_build_parts [OF assms]
  have E: "edges_ok nodes (pp_index p) (pp_dependents p)" by (rule plan_build_edges(1) [OF assms])
  have order: "distinct (pp_order p)" "set (pp_order p) = pn_id ` set nodes"
      "pp_order p = xs @ x # ys \<Longrightarrow> dep_edge nodes d x \<Longrightarrow> d \<in> set xs" for xs x ys d
    using plan_build_ok [OF assms] P(1) by (auto simp: plan_ok_def)
  let ?pos = "\<lambda>x. length (takeWhile (\<lambda>y. y \<noteq> x) (pp_order p))"
  have "?pos d < ?pos x" if edge: "dep_edge nodes d x" for d x
  proof -
    obtain xs ys where split: "pp_order p = xs @ x # ys"
      using edge order(2) by (metis dep_edge_def imageI split_list)
    then have "takeWhile (\<lambda>y. y \<noteq> x) (pp_order p) = xs" using order(1) by (auto simp: takeWhile_append)
    moreover have "d \<in> set xs" by (rule order(3) [OF split edge])
    then obtain us vs where "xs = us @ d # vs" by (meson split_list)
    then have "?pos d < length xs" unfolding split
      using length_takeWhile_le [of "\<lambda>y. y \<noteq> d" us] by (simp add: takeWhile_append)
    ultimately show ?thesis by simp
  qed
  then have "{(d, x). dep_edge nodes d x} \<subseteq> measure ?pos" by auto
  then have "acyclicP (dep_edge nodes)" by (rule wf_acyclic [OF wf_subset [OF wf_measure]])
  then show ?thesis
    using P E plan_single_sink [OF assms] plan_build_edges(2) [OF assms] index_ok_distinct
    by (auto simp: well_planned_def edges_ok_def fan_in_defect_def find_None_iff not_less)
qed

section \<open>Claims\<close>

lemma build_index_code: "build_index k nds m \<noteq> Inl (Status SC_invalid_argument s)"
  by (induction k nds m rule: build_index.induct) (simp_all add: Let_def split: prod.split)

lemma link_dependencies_message:
  "link_dependencies index i ds deps \<noteq> Inl (Status SC_invalid_argument ''phase plan contains a dependency cycle'')"
  by (induction ds arbitrary: deps) (auto simp: crf_try_def split: option.split)

lemma link_nodes_message:
  "link_nodes index nds deps \<noteq> Inl (Status SC_invalid_argument ''phase plan contains a dependency cycle'')"
  by (induction nds arbitrary: deps) (auto simp: crf_try_def link_dependencies_message split: sum.split)

text \<open>
  C35: an accepted plan is a directed acyclic graph with one mandatory sink. Its order lists every
  node once, each after all its dependencies, and every node leads to the last one, which nothing
  depends on.
\<close>

theorem plan_build_sound:
  assumes "plan_build nodes = Inr p"
  shows "distinct (pp_order p) \<and> set (pp_order p) = pn_id ` set nodes \<and>
    (\<forall>xs x ys. pp_order p = xs @ x # ys \<longrightarrow> (\<forall>d. dep_edge nodes d x \<longrightarrow> d \<in> set xs)) \<and>
    (\<exists>nd \<in> set nodes. pn_mandatory nd \<and> pn_id nd = last (pp_order p) \<and> (\<forall>x. \<not> dep_edge nodes (pn_id nd) x) \<and>
      (\<forall>x \<in> set nodes. (dep_edge nodes)\<^sup>*\<^sup>* (pn_id x) (pn_id nd)))"
  using plan_build_ok [OF assms] plan_build_parts(1) [OF assms] plan_single_sink [OF assms]
  by (simp add: plan_ok_def)

text \<open>
  C34: the checks of \<open>build\<close> accept exactly the well-formed plans: at most 4096 phases with present and
  distinct identities, dependencies inside the plan without a cycle, fan-in arities that can be met, and
  one mandatory phase that every phase leads to.
\<close>

theorem plan_build_exact: "(\<exists>p. plan_build nodes = Inr p) \<longleftrightarrow> well_planned nodes"
  using well_planned_accepted accepted_well_planned by blast

text \<open>
  Running the phases in the plan's order never stalls: when all phases before one are
  committed, the plan calls it ready.
\<close>

lemma plan_order_never_stalls:
  assumes "plan_build nodes = Inr p" "pp_order p = xs @ x # ys"
  shows "plan_is_ready x xs p"
  by (rule plan_order_ready [OF plan_build_ok [OF assms(1)] assms(2)])

text \<open>
  The worklist of \<open>transitive_dependencies\<close> always ends, and what it returns is the
  transitive closure of the dependency relation, in ascending order and without repetition.
\<close>

lemma transitive_dependencies_closure:
  assumes "plan_build nodes = Inr p"
  shows "\<exists>res. transitive_dependencies i p = Some res \<and> sorted res \<and> distinct res \<and>
    set res = {x. (dep_edge nodes)\<^sup>+\<^sup>+ x i}"
  using transitive_dependencies_spec [OF plan_build_ok [OF assms]] plan_build_parts(1) [OF assms] by simp

text \<open>
  A plan is refused as cyclic only when it is: if the identities can be ranked so that every
  dependency ranks lower, the sort releases every node and the cycle error is not reported.
\<close>

lemma acyclic_plan_not_refused:
  assumes "\<forall>nd \<in> set nodes. \<forall>d \<in> set (pn_depends_on nd). rank d < (rank (pn_id nd) :: nat)"
  shows "plan_build nodes \<noteq> Inl (Status SC_invalid_argument ''phase plan contains a dependency cycle'')"
proof
  assume cycle: "plan_build nodes = Inl (Status SC_invalid_argument ''phase plan contains a dependency cycle'')"
  then obtain index deps where "build_index 0 nodes [] = Inr index"
      "link_nodes index nodes (replicate (length nodes) []) = Inr deps"
      "length (kahn_order nodes index deps) \<noteq> length nodes"
    by (auto simp: plan_build_def Let_def crf_try_def build_index_code link_nodes_message
        split: if_splits option.splits sum.splits)
  then show False
    using kahn_complete [OF link_nodes_edges [OF build_index_ok(1)]] assms by blast
qed

text \<open>Three phases, the second and third depending on the first and on both.\<close>

definition sample_nodes :: "phase_node list" where
  "sample_nodes =
    (let node = (\<lambda>i ds m. \<lparr>pn_id = StrongId i, pn_kind = PK_unknown, pn_adapter_phase = [], pn_depends_on = ds,
        pn_mandatory = m, pn_expected_outputs = [], pn_fan_in = False, pn_required_inputs = 0\<rparr>)
     in [node 1 [] True, node 2 [StrongId 1] False, node 3 [StrongId 1, StrongId 2] True])"

lemma sample_nodes_build:
  "plan_build sample_nodes = Inr \<lparr>pp_nodes = sample_nodes, pp_index = [(1, 0), (2, 1), (3, 2)],
     pp_dependents = [[StrongId 2, StrongId 3], [StrongId 3], []], pp_order = [StrongId 1, StrongId 2, StrongId 3]\<rparr>"
  by code_simp

theorem plan_build_sound_witness:
  "\<exists>p. plan_build sample_nodes = Inr p \<and> distinct (pp_order p) \<and> set (pp_order p) = pn_id ` set sample_nodes"
  using plan_build_sound [OF sample_nodes_build] sample_nodes_build by blast

end
