(* ===== verification/Artifact.thy ===== *)
theory Artifact
  imports Phase_Plan
begin

text \<open>
  \<open>src/core/artifact.cpp\<close>: intermediate artifacts, their validity and authority, and the
  registry with its index by producing phase; the final candidate record.
\<close>

section \<open>States\<close>

datatype artifact_state =
    AS_unknown | AS_valid | AS_stale | AS_incompatible | AS_corrupt | AS_superseded
  | AS_unsupported

fun to_string_artifact_state :: "artifact_state \<Rightarrow> string" where
  "to_string_artifact_state AS_unknown = ''UNKNOWN''"
| "to_string_artifact_state AS_valid = ''VALID''"
| "to_string_artifact_state AS_stale = ''STALE''"
| "to_string_artifact_state AS_incompatible = ''INCOMPATIBLE''"
| "to_string_artifact_state AS_corrupt = ''CORRUPT''"
| "to_string_artifact_state AS_superseded = ''SUPERSEDED''"
| "to_string_artifact_state AS_unsupported = ''UNSUPPORTED''"

definition kArtifactStates :: "artifact_state list" where
  "kArtifactStates =
    [AS_unknown, AS_valid, AS_stale, AS_incompatible, AS_corrupt, AS_superseded,
     AS_unsupported]"

definition parse_artifact_state :: "string \<Rightarrow> artifact_state option" where
  "parse_artifact_state t = List.find (\<lambda>value. equals_ascii_ci t (to_string_artifact_state value)) kArtifactStates"

definition artifact_state_is_consumable :: "artifact_state \<Rightarrow> bool" where
  "artifact_state_is_consumable value = (value = AS_valid)"

datatype authority_state =
    AU_candidate | AU_authoritative | AU_revoked | AU_none

fun to_string_authority_state :: "authority_state \<Rightarrow> string" where
  "to_string_authority_state AU_candidate = ''CANDIDATE''"
| "to_string_authority_state AU_authoritative = ''AUTHORITATIVE''"
| "to_string_authority_state AU_revoked = ''REVOKED''"
| "to_string_authority_state AU_none = ''NONE''"

section \<open>Artifacts\<close>

record intermediate_artifact =
  ia_id :: artifact_id
  ia_generation :: "intermediate_tag generation"
  ia_format :: object_format
  ia_path :: string
  ia_content :: digest
  ia_size_bytes :: u64
  ia_producer_phase :: "phase_tag referenced"
  ia_producer_invocation :: "invocation_tag referenced"
  ia_toolchain :: "toolchain_tag referenced"
  ia_target :: "target_tag referenced"
  ia_source :: "source_tag referenced"
  ia_ir_generation :: "ir_tag generation"
  ia_environment :: "environment_tag referenced"
  ia_policy :: "policy_tag referenced"
  ia_lineage_inputs :: "intermediate_tag referenced list"
  ia_state :: artifact_state
  ia_authority :: authority_state
  ia_provenance :: provenance_id
  ia_validation_detail :: string
  ia_declared_digest :: digest
  ia_current :: bool

definition artifact_default :: intermediate_artifact where
  "artifact_default = \<lparr>ia_id = id_absent, ia_generation = gen_absent, ia_format = OF_unknown, ia_path = [],
     ia_content = digest_default, ia_size_bytes = 0, ia_producer_phase = ref_absent,
     ia_producer_invocation = ref_absent, ia_toolchain = ref_absent, ia_target = ref_absent,
     ia_source = ref_absent, ia_ir_generation = gen_absent, ia_environment = ref_absent,
     ia_policy = ref_absent, ia_lineage_inputs = [], ia_state = AS_unknown, ia_authority = AU_none,
     ia_provenance = id_absent, ia_validation_detail = [], ia_declared_digest = digest_default,
     ia_current = False\<rparr>"

definition consumable :: "intermediate_artifact \<Rightarrow> bool" where
  "consumable a = (artifact_state_is_consumable (ia_state a) \<and> ia_authority a = AU_authoritative)"

definition artifact_canonical_bytes :: "(string \<Rightarrow> string) \<Rightarrow> intermediate_artifact \<Rightarrow> string" where
  "artifact_canonical_bytes lexically_normal a =
     enc_text (id_to_string ''intermediate'' (ia_id a)) @ enc_u64 (gen_value (ia_generation a)) @
     enc_text (to_string_object_format (ia_format a)) @
     enc_text (canonical_path_key lexically_normal (ia_path a)) @ enc_text (to_hex (ia_content a)) @
     enc_u64 (ia_size_bytes a) @ enc_text (ref_to_string ''phase'' (ia_producer_phase a)) @
     enc_text (ref_to_string ''invocation'' (ia_producer_invocation a)) @
     enc_text (ref_to_string ''toolchain'' (ia_toolchain a)) @
     enc_text (ref_to_string ''target'' (ia_target a)) @
     enc_text (ref_to_string ''source'' (ia_source a)) @ enc_u64 (gen_value (ia_ir_generation a)) @
     enc_text (ref_to_string ''environment'' (ia_environment a)) @
     enc_text (ref_to_string ''policy'' (ia_policy a)) @
     concat (map enc_text (sort (map (ref_to_string ''intermediate'') (ia_lineage_inputs a)))) @
     enc_text (to_string_artifact_state (ia_state a)) @
     enc_text (to_string_authority_state (ia_authority a)) @
     enc_text (id_to_string ''provenance'' (ia_provenance a)) @ enc_text (to_hex (ia_declared_digest a))"

definition artifact_canonical_digest :: "(string \<Rightarrow> string) \<Rightarrow> intermediate_artifact \<Rightarrow> digest" where
  "artifact_canonical_digest lexically_normal a = digest_of (artifact_canonical_bytes lexically_normal a)"

section \<open>Registry\<close>

record artifact_registry =
  ar_entries :: "(u64, intermediate_artifact) umap"
  ar_by_phase :: "(u64, artifact_id list) umap"
  ar_allocator :: "intermediate_tag id_allocator"

definition artifact_registry_init :: artifact_registry where
  "artifact_registry_init = \<lparr>ar_entries = [], ar_by_phase = [], ar_allocator = allocator_init\<rparr>"

definition kMaxArtifacts :: nat where
  "kMaxArtifacts = 65536"

text \<open>\<open>by_phase_[key].push_back(id)\<close>: \<open>operator[]\<close> creates an empty list when the key is new.\<close>

definition by_phase_push :: "u64 \<Rightarrow> artifact_id \<Rightarrow> (u64, artifact_id list) umap \<Rightarrow> (u64, artifact_id list) umap" where
  "by_phase_push key i m = um_set key ((case um_find m key of Some ids \<Rightarrow> ids | None \<Rightarrow> []) @ [i]) m"

definition register_artifact ::
  "intermediate_artifact \<Rightarrow> artifact_registry \<Rightarrow> artifact_registry \<times> intermediate_tag referenced result" where
  "register_artifact artifact r =
     (if length (ar_entries r) \<ge> kMaxArtifacts
        then (r, Inl (Status SC_capacity_exceeded ''artifact registry is full''))
      else (case alloc_next (ar_allocator r) of (i, a) \<Rightarrow>
        let artifact = artifact\<lparr>ia_id := i, ia_generation := gen_initial\<rparr>
        in (r\<lparr>ar_by_phase := by_phase_push (id_value (ref_id (ia_producer_phase artifact))) i (ar_by_phase r),
              ar_entries := um_emplace (id_value i) artifact (ar_entries r), ar_allocator := a\<rparr>,
            Inr (Ref i gen_initial))))"

definition register_artifact_as ::
  "artifact_id \<Rightarrow> intermediate_artifact \<Rightarrow> artifact_registry \<Rightarrow> artifact_registry \<times> intermediate_tag referenced result" where
  "register_artifact_as i artifact r =
     (if \<not> id_present i then (r, Inl (Status SC_invalid_identity ''artifact identity is absent''))
      else let artifact = artifact\<lparr>ia_id := i, ia_generation :=
                 (if gen_present (ia_generation artifact) then ia_generation artifact else gen_initial)\<rparr>
           in (r\<lparr>ar_allocator := alloc_observe i (ar_allocator r),
                 ar_by_phase := by_phase_push (id_value (ref_id (ia_producer_phase artifact))) i (ar_by_phase r),
                 ar_entries := um_set (id_value i) artifact (ar_entries r)\<rparr>,
               Inr (Ref i (ia_generation artifact))))"

definition artifact_find :: "artifact_id \<Rightarrow> artifact_registry \<Rightarrow> intermediate_artifact option" where
  "artifact_find i r = um_find (ar_entries r) (id_value i)"

definition all_produced_by :: "phase_id \<Rightarrow> artifact_registry \<Rightarrow> intermediate_artifact list" where
  "all_produced_by phase r =
     (case um_find (ar_by_phase r) (id_value phase) of
        None \<Rightarrow> []
      | Some ids \<Rightarrow> sort_key ia_id (List.map_filter (\<lambda>i. artifact_find i r) ids))"

definition produced_by :: "phase_id \<Rightarrow> phase_tag generation \<Rightarrow> artifact_registry \<Rightarrow> intermediate_artifact list" where
  "produced_by phase generation r =
     (case um_find (ar_by_phase r) (id_value phase) of
        None \<Rightarrow> []
      | Some ids \<Rightarrow> sort_key ia_id
          (filter (\<lambda>a. ref_gen (ia_producer_phase a) = generation) (List.map_filter (\<lambda>i. artifact_find i r) ids)))"

definition set_state ::
  "artifact_id \<Rightarrow> artifact_state \<Rightarrow> string \<Rightarrow> artifact_registry \<Rightarrow> artifact_registry \<times> unit result" where
  "set_state i state detail r =
     (case artifact_find i r of
        None \<Rightarrow> (r, Inl (Status SC_not_found (''artifact is not registered: '' @ id_to_string ''intermediate'' i)))
      | Some _ \<Rightarrow>
          (r\<lparr>ar_entries := um_modify (id_value i)
              (\<lambda>a. let a = a\<lparr>ia_state := state, ia_validation_detail := detail\<rparr>
                    in if \<not> artifact_state_is_consumable state \<and> ia_authority a = AU_authoritative
                       then a\<lparr>ia_authority := AU_revoked, ia_current := False\<rparr> else a) (ar_entries r)\<rparr>, Inr ()))"

definition set_authority ::
  "artifact_id \<Rightarrow> authority_state \<Rightarrow> artifact_registry \<Rightarrow> artifact_registry \<times> unit result" where
  "set_authority i authority r =
     (case artifact_find i r of
        None \<Rightarrow> (r, Inl (Status SC_not_found (''artifact is not registered: '' @ id_to_string ''intermediate'' i)))
      | Some found \<Rightarrow>
          if authority = AU_authoritative \<and> \<not> artifact_state_is_consumable (ia_state found)
          then (r, Inl (Status SC_not_authoritative
            (''artifact cannot be authoritative while its state is '' @ to_string_artifact_state (ia_state found))))
          else (r\<lparr>ar_entries := um_modify (id_value i)
              (\<lambda>a. a\<lparr>ia_authority := authority, ia_current := (authority = AU_authoritative)\<rparr>) (ar_entries r)\<rparr>, Inr ()))"

definition revoke_artifact :: "string \<Rightarrow> intermediate_artifact \<Rightarrow> intermediate_artifact" where
  "revoke_artifact detail a =
     a\<lparr>ia_authority := AU_revoked, ia_current := False,
       ia_state := (if ia_state a = AS_valid then AS_superseded else ia_state a),
       ia_validation_detail := (if detail \<noteq> [] then detail else ia_validation_detail a)\<rparr>"

fun revoke_ids ::
  "phase_tag generation \<Rightarrow> string \<Rightarrow> artifact_id list \<Rightarrow> (u64, intermediate_artifact) umap \<Rightarrow> nat \<Rightarrow>
   (u64, intermediate_artifact) umap \<times> nat" where
  "revoke_ids generation detail [] entries revoked = (entries, revoked)"
| "revoke_ids generation detail (i # is) entries revoked =
     (case um_find entries (id_value i) of
        None \<Rightarrow> revoke_ids generation detail is entries revoked
      | Some a \<Rightarrow>
          if ref_gen (ia_producer_phase a) \<noteq> generation then revoke_ids generation detail is entries revoked
          else revoke_ids generation detail is (um_modify (id_value i) (revoke_artifact detail) entries)
                 (if ia_authority a = AU_authoritative then Suc revoked else revoked))"

definition revoke_phase_outputs ::
  "phase_id \<Rightarrow> phase_tag generation \<Rightarrow> string \<Rightarrow> artifact_registry \<Rightarrow> artifact_registry \<times> nat" where
  "revoke_phase_outputs phase generation detail r =
     (case um_find (ar_by_phase r) (id_value phase) of
        None \<Rightarrow> (r, 0)
      | Some ids \<Rightarrow>
          (case revoke_ids generation detail ids (ar_entries r) 0 of
             (entries, revoked) \<Rightarrow> (r\<lparr>ar_entries := entries\<rparr>, revoked)))"

definition artifact_list :: "artifact_registry \<Rightarrow> intermediate_artifact list" where
  "artifact_list r = sort_key ia_id (map snd (ar_entries r))"

text \<open>\<open>revalidate\<close>: \<open>exists\<close> is the file system's answer, \<open>hash\<close> what \<open>Digest::of_file\<close> returns.\<close>

definition revalidate ::
  "(string \<Rightarrow> bool) \<Rightarrow> (string \<Rightarrow> digest option) \<Rightarrow> artifact_id \<Rightarrow> artifact_registry \<Rightarrow>
   artifact_registry \<times> artifact_state result" where
  "revalidate exists hash i r =
     (case artifact_find i r of
        None \<Rightarrow> (r, Inl (Status SC_not_found (''artifact is not registered: '' @ id_to_string ''intermediate'' i)))
      | Some a \<Rightarrow>
          let withdraw = (\<lambda>st detail. (r\<lparr>ar_entries := um_modify (id_value i)
                (\<lambda>a. a\<lparr>ia_state := st, ia_authority := AU_revoked, ia_current := False,
                       ia_validation_detail := detail\<rparr>) (ar_entries r)\<rparr>, Inr st)) in
          if ia_path a = [] then (r, Inl (Status SC_invalid_argument ''artifact has no path to revalidate''))
          else if \<not> exists (ia_path a) then withdraw AS_stale ''artifact file is missing at its recorded path''
          else case hash (ia_path a) of
              None \<Rightarrow> withdraw AS_unknown ''artifact content could not be hashed''
            | Some observed \<Rightarrow>
                if observed \<noteq> ia_content a
                then withdraw AS_corrupt ''artifact content no longer matches its recorded digest''
                else (r\<lparr>ar_entries := um_modify (id_value i)
                      (\<lambda>a. a\<lparr>ia_validation_detail := ''artifact content matches its recorded digest''\<rparr>) (ar_entries r)\<rparr>,
                    Inr (ia_state a)))"

section \<open>Final candidates\<close>

record final_candidate =
  fc_id :: final_artifact_id
  fc_generation :: "final_tag generation"
  fc_compilation :: compilation_id
  fc_compilation_generation :: "compilation_tag generation"
  fc_attempt_generation :: "attempt_tag generation"
  fc_session :: "session_tag referenced"
  fc_toolchain :: "toolchain_tag referenced"
  fc_target :: "target_tag referenced"
  fc_environment :: "environment_tag referenced"
  fc_policy :: "policy_tag referenced"
  fc_source :: "source_tag referenced"
  fc_ir_generation :: "ir_tag generation"
  fc_format :: object_format
  fc_path :: string
  fc_content :: digest
  fc_size_bytes :: u64
  fc_lineage :: "intermediate_tag referenced list"
  fc_validation_evidence :: "evidence_id list"
  fc_provenance :: provenance_id
  fc_lineage_digest :: digest
  fc_complete_lineage :: bool
  fc_registered_at_nanos :: u64
  fc_handed_off :: bool

definition candidate_default :: final_candidate where
  "candidate_default = \<lparr>fc_id = id_absent, fc_generation = gen_absent, fc_compilation = id_absent,
     fc_compilation_generation = gen_absent, fc_attempt_generation = gen_absent, fc_session = ref_absent,
     fc_toolchain = ref_absent, fc_target = ref_absent, fc_environment = ref_absent, fc_policy = ref_absent,
     fc_source = ref_absent, fc_ir_generation = gen_absent, fc_format = OF_unknown, fc_path = [],
     fc_content = digest_default, fc_size_bytes = 0, fc_lineage = [], fc_validation_evidence = [],
     fc_provenance = id_absent, fc_lineage_digest = digest_default, fc_complete_lineage = False,
     fc_registered_at_nanos = 0, fc_handed_off = False\<rparr>"

definition candidate_canonical_bytes :: "(string \<Rightarrow> string) \<Rightarrow> final_candidate \<Rightarrow> string" where
  "candidate_canonical_bytes lexically_normal c =
     enc_text (id_to_string ''artifact'' (fc_id c)) @ enc_u64 (gen_value (fc_generation c)) @
     enc_text (id_to_string ''compilation'' (fc_compilation c)) @
     enc_u64 (gen_value (fc_compilation_generation c)) @ enc_u64 (gen_value (fc_attempt_generation c)) @
     enc_text (ref_to_string ''session'' (fc_session c)) @
     enc_text (ref_to_string ''toolchain'' (fc_toolchain c)) @
     enc_text (ref_to_string ''target'' (fc_target c)) @
     enc_text (ref_to_string ''environment'' (fc_environment c)) @
     enc_text (ref_to_string ''policy'' (fc_policy c)) @
     enc_text (ref_to_string ''source'' (fc_source c)) @ enc_u64 (gen_value (fc_ir_generation c)) @
     enc_text (to_string_object_format (fc_format c)) @
     enc_text (canonical_path_key lexically_normal (fc_path c)) @ enc_text (to_hex (fc_content c)) @
     enc_u64 (fc_size_bytes c) @
     concat (map enc_text (sort (map (ref_to_string ''intermediate'') (fc_lineage c)))) @
     enc_text (id_to_string ''provenance'' (fc_provenance c)) @
     enc_text (to_hex (fc_lineage_digest c)) @ enc_boolean (fc_complete_lineage c)"

definition candidate_canonical_digest :: "(string \<Rightarrow> string) \<Rightarrow> final_candidate \<Rightarrow> digest" where
  "candidate_canonical_digest lexically_normal c = digest_of (candidate_canonical_bytes lexically_normal c)"

section \<open>Authority implies validity\<close>

definition artifact_sound :: "intermediate_artifact \<Rightarrow> bool" where
  "artifact_sound a = (ia_authority a = AU_authoritative \<longrightarrow> ia_state a = AS_valid)"

definition artifact_ok :: "artifact_registry \<Rightarrow> bool" where
  "artifact_ok r = (id_table_ok (ar_entries r) (ar_allocator r) \<and>
     um_all (\<lambda>k a. id_value (ia_id a) = k \<and> artifact_sound a) (ar_entries r))"

lemma artifact_registry_init_ok [simp]: "artifact_ok artifact_registry_init"
  by (simp add: artifact_ok_def artifact_registry_init_def)

lemma register_artifact_ok [crf_inv]:
  "artifact_ok r \<Longrightarrow> artifact_sound a \<Longrightarrow> artifact_ok (fst (register_artifact a r))"
  by (auto simp: artifact_ok_def register_artifact_def Let_def case_prod_beta id_table_emplace artifact_sound_def
      intro!: um_all_emplace)

lemma register_artifact_as_ok [crf_inv]:
  "artifact_ok r \<Longrightarrow> artifact_sound a \<Longrightarrow> artifact_ok (fst (register_artifact_as i a r))"
  by (auto simp: artifact_ok_def register_artifact_as_def Let_def id_table_observe artifact_sound_def
      intro!: um_all_set)

lemma id_table_um_ok: "id_table_ok m a \<Longrightarrow> um_ok m"
  by (simp add: id_table_ok_def)

lemma artifact_modify_ok:
  "artifact_ok r \<Longrightarrow> (\<And>a. artifact_find i r = Some a \<Longrightarrow> artifact_sound a \<Longrightarrow> artifact_sound (f a)) \<Longrightarrow>
    (\<And>a. ia_id (f a) = ia_id a) \<Longrightarrow> artifact_ok (r\<lparr>ar_entries := um_modify (id_value i) f (ar_entries r)\<rparr>)"
  by (auto simp: artifact_ok_def id_table_modify artifact_find_def um_ok_mem id_table_um_ok intro!: um_all_modify)

lemma set_state_ok [crf_inv]: "artifact_ok r \<Longrightarrow> artifact_ok (fst (set_state i st d r))"
  by (auto simp: set_state_def Let_def artifact_sound_def artifact_state_is_consumable_def
      intro!: artifact_modify_ok split: option.split)

lemma set_authority_ok [crf_inv]: "artifact_ok r \<Longrightarrow> artifact_ok (fst (set_authority i au r))"
  by (auto simp: set_authority_def artifact_sound_def artifact_state_is_consumable_def
      intro!: artifact_modify_ok split: option.split)

lemma revalidate_ok [crf_inv]: "artifact_ok r \<Longrightarrow> artifact_ok (fst (revalidate ex hs i r))"
  by (auto simp: revalidate_def Let_def artifact_sound_def intro!: artifact_modify_ok split: option.split)

section \<open>Revoking the outputs of a phase generation\<close>

lemma revoke_artifact_fields [simp]:
  "ia_id (revoke_artifact d a) = ia_id a" "ia_authority (revoke_artifact d a) = AU_revoked"
  "ia_producer_phase (revoke_artifact d a) = ia_producer_phase a" "\<not> ia_current (revoke_artifact d a)"
  "ia_state (revoke_artifact d a) \<noteq> AS_valid" "ia_content (revoke_artifact d a) = ia_content a"
  by (simp_all add: revoke_artifact_def)

lemma revoke_artifact_idem: "revoke_artifact d (revoke_artifact d a) = revoke_artifact d a"
  by (simp add: revoke_artifact_def)

lemma revoke_ids_find:
  "um_find (fst (revoke_ids g d is m n)) k =
    map_option (\<lambda>a. if k \<in> id_value ` set is \<and> ref_gen (ia_producer_phase a) = g then revoke_artifact d a else a)
      (um_find m k)"
proof (induction "is" arbitrary: m n k)
  case (Cons i "is")
  show ?case
  proof (cases "um_find m (id_value i)")
    case None
    then show ?thesis
      by (cases "k = id_value i") (auto simp: None Cons.IH)
  next
    case (Some a)
    then show ?thesis
      by (cases "k = id_value i"; cases "um_find m k")
        (auto simp: Cons.IH um.find_modify revoke_artifact_idem)
  qed
qed (simp add: option.map_ident)

lemma revoke_ids_keys: "map fst (fst (revoke_ids g d is m n)) = map fst m"
  by (induction "is" arbitrary: m n) (auto simp: fst_modify split: option.split)

lemma revoke_ids_um_all:
  "um_all P m \<Longrightarrow> (\<And>k a. P k a \<Longrightarrow> P k (revoke_artifact d a)) \<Longrightarrow> um_all P (fst (revoke_ids g d is m n))"
proof (induction "is" arbitrary: m n)
  case (Cons i "is")
  have "um_all P (um_modify (id_value i) (revoke_artifact d) m)"
    using Cons.prems by (intro um_all_modify)
  with Cons show ?case by (simp split: option.split)
qed simp

lemma revoke_phase_outputs_ok [crf_inv]:
  "artifact_ok r \<Longrightarrow> artifact_ok (fst (revoke_phase_outputs p g d r))"
proof -
  assume ok: "artifact_ok r"
  have "artifact_ok (r\<lparr>ar_entries := fst (revoke_ids g d is (ar_entries r) 0)\<rparr>)" for "is"
    using ok id_table_map [OF revoke_ids_keys]
    by (auto simp: artifact_ok_def artifact_sound_def intro!: revoke_ids_um_all)
  with ok show ?thesis
    by (auto simp: revoke_phase_outputs_def case_prod_beta split: option.split)
qed

text \<open>The index by phase lists every artifact under the phase that produced it.\<close>

definition by_phase_ok :: "artifact_registry \<Rightarrow> bool" where
  "by_phase_ok r = (\<forall>i a. artifact_find i r = Some a \<longrightarrow>
     (\<exists>ids. um_find (ar_by_phase r) (id_value (ref_id (ia_producer_phase a))) = Some ids \<and> i \<in> set ids))"

lemma by_phase_push_find:
  "um_find (by_phase_push key i m) k =
    (if k = key then Some ((case um_find m key of Some ids \<Rightarrow> ids | None \<Rightarrow> []) @ [i]) else um_find m k)"
  by (simp add: by_phase_push_def um.find_set)

lemma by_phase_push_mem:
  "um_find m k = Some ids \<and> j \<in> set ids \<or> k = key \<and> j = i \<Longrightarrow>
    \<exists>ids. um_find (by_phase_push key i m) k = Some ids \<and> j \<in> set ids"
  by (cases "k = key"; cases "um_find m key") (auto simp: by_phase_push_find)

lemma register_by_phase_ok:
  assumes "by_phase_ok r"
  shows "by_phase_ok (fst (register_artifact a r))"
proof (cases "kMaxArtifacts \<le> length (ar_entries r)")
  case True
  then show ?thesis using assms by (simp add: register_artifact_def)
next
  case False
  let ?i = "fst (alloc_next (ar_allocator r))"
  show ?thesis
    unfolding by_phase_ok_def
  proof (intro allI impI)
    fix j b
    assume "artifact_find j (fst (register_artifact a r)) = Some b"
    then consider "artifact_find j r = Some b"
      | "j = ?i" "ref_id (ia_producer_phase b) = ref_id (ia_producer_phase a)"
      using False
      by (auto simp: register_artifact_def Let_def case_prod_beta artifact_find_def um.find_emplace
          strong_id.expand split: option.splits if_splits)
    then show "\<exists>ids. um_find (ar_by_phase (fst (register_artifact a r)))
        (id_value (ref_id (ia_producer_phase b))) = Some ids \<and> j \<in> set ids"
    proof cases
      case 1
      with assms obtain ids where "um_find (ar_by_phase r) (id_value (ref_id (ia_producer_phase b))) = Some ids \<and> j \<in> set ids"
        by (auto simp: by_phase_ok_def)
      then show ?thesis using False
        by (simp add: register_artifact_def Let_def case_prod_beta) (blast intro: by_phase_push_mem)
    next
      case 2
      then show ?thesis using False
        by (simp add: register_artifact_def Let_def case_prod_beta by_phase_push_mem)
    qed
  qed
qed

lemma modify_by_phase_ok:
  assumes "by_phase_ok r" "\<And>a. ia_producer_phase (f a) = ia_producer_phase a"
  shows "by_phase_ok (r\<lparr>ar_entries := um_modify k f (ar_entries r)\<rparr>)"
  using assms by (auto simp: by_phase_ok_def artifact_find_def um.find_modify split: if_splits)

lemma revoke_phase_outputs_find:
  "artifact_find i (fst (revoke_phase_outputs p g d r)) =
    map_option (\<lambda>a. if (case um_find (ar_by_phase r) (id_value p) of Some ids \<Rightarrow> i \<in> set ids | None \<Rightarrow> False) \<and>
        ref_gen (ia_producer_phase a) = g then revoke_artifact d a else a) (artifact_find i r)"
proof -
  have "id_value i \<in> id_value ` set ids \<longleftrightarrow> i \<in> set ids" for ids
    by (metis imageE image_eqI strong_id.expand)
  then show ?thesis
    by (auto simp: revoke_phase_outputs_def artifact_find_def revoke_ids_find case_prod_beta option.map_ident
        split: option.split)
qed

lemma revoke_phase_outputs_all:
  assumes "by_phase_ok r" "artifact_find i r = Some a" "ia_producer_phase a = Ref p g"
  shows "artifact_find i (fst (revoke_phase_outputs p g d r)) = Some (revoke_artifact d a)"
proof -
  obtain ids where "um_find (ar_by_phase r) (id_value p) = Some ids" "i \<in> set ids"
    using assms unfolding by_phase_ok_def by (metis referenced.sel(1))
  then show ?thesis
    using assms(2,3) revoke_phase_outputs_find [of i p g d r] by simp
qed

section \<open>Claims\<close>

text \<open>The operations the runtime applies to the registry.\<close>

inductive artifact_step :: "artifact_registry \<Rightarrow> artifact_registry \<Rightarrow> bool" where
  register: "artifact_sound a \<Longrightarrow> artifact_step r (fst (register_artifact a r))"
| state: "artifact_step r (fst (set_state i st d r))"
| authority: "artifact_step r (fst (set_authority i au r))"
| revoke: "artifact_step r (fst (revoke_phase_outputs p g d r))"
| revalidate: "artifact_step r (fst (revalidate ex hs i r))"

lemma by_phase_ok_init: "by_phase_ok artifact_registry_init"
  by (simp add: by_phase_ok_def artifact_find_def artifact_registry_init_def um_find_def)

lemma revoke_phase_outputs_by_phase:
  assumes "by_phase_ok r"
  shows "by_phase_ok (fst (revoke_phase_outputs p g d r))"
proof -
  have "ar_by_phase (fst (revoke_phase_outputs p g d r)) = ar_by_phase r"
    by (simp add: revoke_phase_outputs_def case_prod_beta split: option.split)
  moreover have "\<exists>a. artifact_find i r = Some a \<and> ia_producer_phase b = ia_producer_phase a"
    if "artifact_find i (fst (revoke_phase_outputs p g d r)) = Some b" for i b
    using that unfolding revoke_phase_outputs_find
    by (cases "artifact_find i r") (auto simp: revoke_artifact_def split: if_splits)
  ultimately show ?thesis
    using assms unfolding by_phase_ok_def by metis
qed

lemma artifact_step_ok:
  "artifact_step r r' \<Longrightarrow> artifact_ok r \<and> by_phase_ok r \<Longrightarrow> artifact_ok r' \<and> by_phase_ok r'"
proof (induction rule: artifact_step.induct)
  case (state r i st d)
  then show ?case
    by (auto simp: set_state_ok) (auto simp: set_state_def Let_def intro!: modify_by_phase_ok split: option.split)
next
  case (authority r i au)
  then show ?case
    by (auto simp: set_authority_ok) (auto simp: set_authority_def intro!: modify_by_phase_ok split: option.split)
next
  case (revalidate r ex hs i)
  then show ?case
    by (auto simp: revalidate_ok) (auto simp: revalidate_def Let_def intro!: modify_by_phase_ok split: option.split)
qed (auto intro: crf_inv register_by_phase_ok revoke_phase_outputs_by_phase)

lemma artifact_steps_ok: "artifact_step\<^sup>*\<^sup>* r r' \<Longrightarrow> artifact_ok r \<and> by_phase_ok r \<Longrightarrow> artifact_ok r' \<and> by_phase_ok r'"
  by (induction rule: rtranclp_induct) (auto dest: artifact_step_ok)


text \<open>
  Revoking a phase generation leaves no authority behind: every artifact that generation
  produced is revoked, found as before, and no longer consumable.
\<close>

lemma revocation_is_complete:
  assumes "artifact_step\<^sup>*\<^sup>* artifact_registry_init r" "artifact_find i r = Some a" "ia_producer_phase a = Ref p g"
  shows "artifact_find i (fst (revoke_phase_outputs p g d r)) = Some (revoke_artifact d a) \<and>
    \<not> consumable (revoke_artifact d a)"
  using revoke_phase_outputs_all [OF _ assms(2,3)] artifact_steps_ok [OF assms(1)] by_phase_ok_init
  by (simp add: consumable_def)

definition sample_registry :: artifact_registry where
  "sample_registry = fst (set_authority (StrongId 1) AU_authoritative (fst (register_artifact
     (artifact_default\<lparr>ia_producer_phase := Ref (StrongId 4) (Generation 2), ia_state := AS_valid\<rparr>) artifact_registry_init)))"

definition sample_artifact :: intermediate_artifact where
  "sample_artifact = artifact_default\<lparr>ia_id := StrongId 1, ia_generation := gen_initial,
     ia_producer_phase := Ref (StrongId 4) (Generation 2), ia_state := AS_valid, ia_authority := AU_authoritative,
     ia_current := True\<rparr>"

lemma sample_registry_steps: "artifact_step\<^sup>*\<^sup>* artifact_registry_init sample_registry"
proof -
  have "artifact_step artifact_registry_init (fst (register_artifact
     (artifact_default\<lparr>ia_producer_phase := Ref (StrongId 4) (Generation 2), ia_state := AS_valid\<rparr>) artifact_registry_init))"
    by (rule artifact_step.register) (simp add: artifact_sound_def)
  then show ?thesis
    unfolding sample_registry_def by (meson artifact_step.authority converse_rtranclp_into_rtranclp r_into_rtranclp)
qed

lemma sample_registry_find: "artifact_find (StrongId 1) sample_registry = Some sample_artifact"
  by (simp add: sample_registry_def sample_artifact_def set_authority_def register_artifact_def artifact_registry_init_def
      kMaxArtifacts_def alloc_next_def allocator_init_def artifact_find_def um_find_def um_emplace_def um_modify_def
      artifact_state_is_consumable_def Let_def)


end
