(* ===== verification/Provenance.thy ===== *)
theory Provenance
  imports Artifact
begin

text \<open>
  \<open>src/core/evidence.cpp\<close> and \<open>src/core/provenance.cpp\<close>: the two bounded logs, and the walk
  of an artifact's lineage through the artifact registry. Both logs drop their oldest record when
  they are full; the interface \<open>bounded_log\<close> states what their clients rely on.
\<close>

section \<open>Bounded logs\<close>

locale bounded_log =
  fixes records :: "'l \<Rightarrow> 'r list"
    and truncated :: "'l \<Rightarrow> bool"
    and append :: "'r \<Rightarrow> 'l \<Rightarrow> 'l"
    and stored :: "'r \<Rightarrow> 'l \<Rightarrow> 'r"
    and cap :: nat
  assumes cap_pos: "0 < cap"
    and append_records: "records (append x l) =
      (if length (records l) \<ge> cap then tl (records l) else records l) @ [stored x l]"
    and append_truncated: "truncated (append x l) = (truncated l \<or> length (records l) \<ge> cap)"
begin

lemma append_bounded: "length (records l) \<le> cap \<Longrightarrow> length (records (append x l)) \<le> cap"
  using cap_pos by (auto simp: append_records)

lemma append_last: "last (records (append x l)) = stored x l"
  by (simp add: append_records)

text \<open>Nothing is lost before the bound is reached, and a loss is always flagged.\<close>

lemma append_keeps:
  "\<not> truncated (append x l) \<Longrightarrow> records (append x l) = records l @ [stored x l]"
  by (auto simp: append_records append_truncated)

fun append_all :: "'r list \<Rightarrow> 'l \<Rightarrow> 'l" where
  "append_all [] l = l"
| "append_all (x # xs) l = append_all xs (append x l)"

lemma append_all_bounded: "length (records l) \<le> cap \<Longrightarrow> length (records (append_all xs l)) \<le> cap"
  by (induction xs arbitrary: l) (auto simp: append_bounded)

lemma append_all_flag: "truncated l \<Longrightarrow> truncated (append_all xs l)"
  by (induction xs arbitrary: l) (auto simp: append_truncated)

lemma append_all_complete:
  "\<not> truncated (append_all xs l) \<Longrightarrow> length (records (append_all xs l)) = length (records l) + length xs"
proof (induction xs arbitrary: l)
  case (Cons x xs)
  then have "\<not> truncated (append x l)" using append_all_flag by auto
  with Cons append_keeps [OF this] show ?case by simp
qed simp

end

section \<open>Evidence\<close>

datatype evidence_class = EC_unknown | EC_real | EC_synthetic | EC_unsupported

fun to_string_evidence_class :: "evidence_class \<Rightarrow> string" where
  "to_string_evidence_class EC_unknown = ''UNKNOWN''"
| "to_string_evidence_class EC_real = ''REAL''"
| "to_string_evidence_class EC_synthetic = ''SYNTHETIC''"
| "to_string_evidence_class EC_unsupported = ''UNSUPPORTED''"

fun evidence_class_value :: "evidence_class \<Rightarrow> u8" where
  "evidence_class_value EC_unknown = 0"
| "evidence_class_value EC_real = 1"
| "evidence_class_value EC_synthetic = 2"
| "evidence_class_value EC_unsupported = 3"

definition parse_evidence_class :: "string \<Rightarrow> evidence_class option" where
  "parse_evidence_class t =
     (if equals_ascii_ci t ''REAL'' then Some EC_real
      else if equals_ascii_ci t ''SYNTHETIC'' then Some EC_synthetic
      else if equals_ascii_ci t ''UNSUPPORTED'' then Some EC_unsupported
      else if equals_ascii_ci t ''UNKNOWN'' then Some EC_unknown
      else None)"

record evidence_record =
  ev_id :: evidence_id
  ev_generation :: "evidence_tag generation"
  ev_class :: evidence_class
  ev_kind :: string
  ev_detail :: string
  ev_payload :: digest
  ev_observed_at_nanos :: u64

definition evidence_canonical_digest :: "evidence_record \<Rightarrow> digest" where
  "evidence_canonical_digest e =
     digest_of (enc_text (id_to_string ''evidence'' (ev_id e)) @ enc_u64 (gen_value (ev_generation e)) @
       enc_u8 (evidence_class_value (ev_class e)) @ enc_text (ev_kind e) @ enc_text (ev_detail e) @
       enc_text (to_hex (ev_payload e)))"

record evidence_log =
  el_records :: "evidence_record list"
  el_allocator :: "evidence_tag id_allocator"
  el_truncated :: bool

definition evidence_log_init :: evidence_log where
  "evidence_log_init = \<lparr>el_records = [], el_allocator = allocator_init, el_truncated = False\<rparr>"

definition kMaxEvidenceRecords :: nat where
  "kMaxEvidenceRecords = 4096"

definition kMaxEvidenceDetailBytes :: nat where
  "kMaxEvidenceDetailBytes = 4096"

definition evidence_append_entry :: "evidence_record \<Rightarrow> evidence_log \<Rightarrow> evidence_log" where
  "evidence_append_entry entry l =
     (let l = (if length (el_records l) \<ge> kMaxEvidenceRecords
               then l\<lparr>el_truncated := True, el_records := tl (el_records l)\<rparr> else l)
      in l\<lparr>el_records := el_records l @ [entry]\<rparr>)"

definition record_ref ::
  "u64 \<Rightarrow> evidence_class \<Rightarrow> string \<Rightarrow> string \<Rightarrow> digest \<Rightarrow> evidence_log \<Rightarrow> evidence_log \<times> evidence_record" where
  "record_ref now cls kind detail payload l =
     (case alloc_next (el_allocator l) of (i, a) \<Rightarrow>
       let entry = \<lparr>ev_id = i, ev_generation = Generation (id_value i), ev_class = cls, ev_kind = kind,
             ev_detail = (if length detail > kMaxEvidenceDetailBytes
               then take kMaxEvidenceDetailBytes detail @ ''...[truncated]'' else detail),
             ev_payload = payload, ev_observed_at_nanos = now\<rparr>
       in (evidence_append_entry entry (l\<lparr>el_allocator := a\<rparr>), entry))"

definition evidence_record_op ::
  "u64 \<Rightarrow> evidence_class \<Rightarrow> string \<Rightarrow> string \<Rightarrow> digest \<Rightarrow> evidence_log \<Rightarrow> evidence_log" where
  "evidence_record_op now cls kind detail payload l = fst (record_ref now cls kind detail payload l)"

definition evidence_observe :: "evidence_record \<Rightarrow> evidence_log \<Rightarrow> evidence_log" where
  "evidence_observe rec l =
     (let (i, a) = (if \<not> id_present (ev_id rec) then alloc_next (el_allocator l)
                    else (ev_id rec, alloc_observe (ev_id rec) (el_allocator l)));
          copy = rec\<lparr>ev_id := i,
            ev_generation := (if \<not> gen_present (ev_generation rec) then Generation (id_value i) else ev_generation rec),
            ev_detail := take kMaxEvidenceDetailBytes (ev_detail rec)\<rparr>
      in evidence_append_entry copy (l\<lparr>el_allocator := a\<rparr>))"

definition evidence_find :: "evidence_id \<Rightarrow> evidence_log \<Rightarrow> evidence_record option" where
  "evidence_find i l = List.find (\<lambda>e. ev_id e = i) (el_records l)"

section \<open>Provenance\<close>

record provenance_record =
  pv_id :: provenance_id
  pv_generation :: "evidence_tag generation"
  pv_kind :: string
  pv_session :: "session_tag referenced"
  pv_compilation :: "compilation_tag referenced"
  pv_phase :: "phase_tag referenced"
  pv_invocation :: "invocation_tag referenced"
  pv_toolchain :: "toolchain_tag referenced"
  pv_target :: "target_tag referenced"
  pv_environment :: "environment_tag referenced"
  pv_policy :: "policy_tag referenced"
  pv_source :: "source_tag referenced"
  pv_inputs :: "intermediate_tag referenced list"
  pv_outputs :: "intermediate_tag referenced list"
  pv_adapter :: string
  pv_verdict :: authority_verdict
  pv_detail :: string
  pv_at_nanos :: u64

definition provenance_default :: provenance_record where
  "provenance_default = \<lparr>pv_id = id_absent, pv_generation = gen_absent, pv_kind = [], pv_session = ref_absent,
     pv_compilation = ref_absent, pv_phase = ref_absent, pv_invocation = ref_absent, pv_toolchain = ref_absent,
     pv_target = ref_absent, pv_environment = ref_absent, pv_policy = ref_absent, pv_source = ref_absent,
     pv_inputs = [], pv_outputs = [], pv_adapter = [], pv_verdict = AV_valid, pv_detail = [], pv_at_nanos = 0\<rparr>"

definition provenance_canonical_bytes :: "provenance_record \<Rightarrow> string" where
  "provenance_canonical_bytes v =
     enc_text (id_to_string ''provenance'' (pv_id v)) @ enc_u64 (gen_value (pv_generation v)) @
     enc_text (pv_kind v) @ enc_text (ref_to_string ''session'' (pv_session v)) @
     enc_text (ref_to_string ''compilation'' (pv_compilation v)) @
     enc_text (ref_to_string ''phase'' (pv_phase v)) @
     enc_text (ref_to_string ''invocation'' (pv_invocation v)) @
     enc_text (ref_to_string ''toolchain'' (pv_toolchain v)) @
     enc_text (ref_to_string ''target'' (pv_target v)) @
     enc_text (ref_to_string ''environment'' (pv_environment v)) @
     enc_text (ref_to_string ''policy'' (pv_policy v)) @
     enc_text (ref_to_string ''source'' (pv_source v)) @
     concat (map enc_text (sort (map (ref_to_string ''intermediate'') (pv_inputs v)))) @
     concat (map enc_text (sort (map (ref_to_string ''intermediate'') (pv_outputs v)))) @
     enc_text (pv_adapter v) @ enc_text (to_string_verdict (pv_verdict v)) @ enc_text (pv_detail v)"

definition provenance_canonical_digest :: "provenance_record \<Rightarrow> digest" where
  "provenance_canonical_digest v = digest_of (provenance_canonical_bytes v)"

record provenance_log =
  pl_records :: "provenance_record list"
  pl_allocator :: "provenance_tag id_allocator"
  pl_truncated :: bool

definition provenance_log_init :: provenance_log where
  "provenance_log_init = \<lparr>pl_records = [], pl_allocator = allocator_init, pl_truncated = False\<rparr>"

definition kMaxProvenanceRecords :: nat where
  "kMaxProvenanceRecords = 65536"

definition kMaxProvenanceDetailBytes :: nat where
  "kMaxProvenanceDetailBytes = 2048"

definition provenance_push :: "provenance_record \<Rightarrow> provenance_log \<Rightarrow> provenance_log" where
  "provenance_push rec l =
     (let l = (if length (pl_records l) \<ge> kMaxProvenanceRecords
               then l\<lparr>pl_truncated := True, pl_records := tl (pl_records l)\<rparr> else l)
      in l\<lparr>pl_records := pl_records l @ [rec]\<rparr>)"

definition provenance_append :: "u64 \<Rightarrow> provenance_record \<Rightarrow> provenance_log \<Rightarrow> provenance_log \<times> provenance_record" where
  "provenance_append now rec l =
     (case alloc_next (pl_allocator l) of (i, a) \<Rightarrow>
       let rec = rec\<lparr>pv_id := i, pv_generation := Generation (id_value i),
             pv_detail := take kMaxProvenanceDetailBytes (pv_detail rec),
             pv_at_nanos := (if pv_at_nanos rec = 0 then now else pv_at_nanos rec)\<rparr>
       in (provenance_push rec (l\<lparr>pl_allocator := a\<rparr>), rec))"

definition provenance_append_as :: "provenance_record \<Rightarrow> provenance_log \<Rightarrow> provenance_log" where
  "provenance_append_as rec l =
     provenance_push (rec\<lparr>pv_detail := take kMaxProvenanceDetailBytes (pv_detail rec)\<rparr>)
       (l\<lparr>pl_allocator := alloc_observe (pv_id rec) (pl_allocator l)\<rparr>)"

definition provenance_find :: "provenance_id \<Rightarrow> provenance_log \<Rightarrow> provenance_record option" where
  "provenance_find i l = List.find (\<lambda>v. pv_id v = i) (pl_records l)"

section \<open>Lineage\<close>

text \<open>
  The breadth-first walk. Every iteration returns or adds a registered artifact to the visited
  set, so one more than the number of registered artifacts is enough fuel; \<open>None\<close> would mean
  that it was not (\<open>trace_terminates\<close>).
\<close>

fun trace_loop ::
  "nat \<Rightarrow> artifact_registry \<Rightarrow> u64 list \<Rightarrow> artifact_id list \<Rightarrow> intermediate_tag referenced list \<Rightarrow>
   intermediate_tag referenced list result option" where
  "trace_loop 0 artifacts visited pending out = None"
| "trace_loop (Suc fuel) artifacts visited pending out =
     (case pending of
        [] \<Rightarrow> Some (Inr out)
      | current # rest \<Rightarrow>
          if id_value current \<in> set visited
          then Some (Inl (Status SC_invalid_argument
            (''artifact lineage contains a cycle at '' @ id_to_string ''intermediate'' current)))
          else (case artifact_find current artifacts of
              None \<Rightarrow> Some (Inl (Status SC_not_found
                (''artifact lineage references an unregistered artifact: '' @ id_to_string ''intermediate'' current)))
            | Some a \<Rightarrow>
                trace_loop fuel artifacts (id_value current # visited)
                  (rest @ map ref_id (ia_lineage_inputs a)) (out @ [Ref (ia_id a) (ia_generation a)])))"

definition trace_lineage ::
  "artifact_registry \<Rightarrow> artifact_id \<Rightarrow> intermediate_tag referenced list result option" where
  "trace_lineage artifacts root =
     map_option (\<lambda>r. case r of Inl s \<Rightarrow> Inl s | Inr out \<Rightarrow> Inr (sort_key ref_id out))
       (trace_loop (length (ar_entries artifacts) + 2) artifacts [] [root] [])"

definition lineage_is_authoritative :: "artifact_registry \<Rightarrow> artifact_id \<Rightarrow> bool" where
  "lineage_is_authoritative artifacts root =
     (case trace_lineage artifacts root of
        Some (Inr refs) \<Rightarrow>
          list_all (\<lambda>reference. case artifact_find (ref_id reference) artifacts of
              None \<Rightarrow> False
            | Some a \<Rightarrow> ia_authority a = AU_authoritative \<and> artifact_state_is_consumable (ia_state a)) refs
      | _ \<Rightarrow> False)"

section \<open>The logs implement the interface\<close>

interpretation evlog: bounded_log el_records el_truncated evidence_append_entry "\<lambda>e _. e" kMaxEvidenceRecords
  by unfold_locales (simp_all add: evidence_append_entry_def Let_def kMaxEvidenceRecords_def)

interpretation pvlog: bounded_log pl_records pl_truncated "\<lambda>v l. fst (provenance_append now v l)"
    "\<lambda>v l. snd (provenance_append now v l)" kMaxProvenanceRecords for now
  by unfold_locales
    (simp_all add: provenance_append_def provenance_push_def Let_def kMaxProvenanceRecords_def case_prod_beta)

section \<open>The walk terminates\<close>

lemma visited_bounded:
  assumes "distinct vs" "set vs \<subseteq> fst ` set m"
  shows "length vs \<le> length m"
proof -
  have "card (set vs) \<le> card (fst ` set m)" using assms(2) by (intro card_mono) auto
  also have "\<dots> \<le> length m" by (metis card_length length_map list.set_map)
  finally show ?thesis using assms(1) by (simp add: distinct_card)
qed

lemma trace_loop_total:
  assumes "distinct vs" "set vs \<subseteq> fst ` set (ar_entries r)" "length (ar_entries r) + 2 \<le> fuel + length vs"
  shows "\<exists>res. trace_loop fuel r vs pending out = Some res"
  using assms
proof (induction fuel arbitrary: vs pending out)
  case 0
  then show ?case using visited_bounded [of vs "ar_entries r"] by simp
next
  case (Suc fuel)
  show ?case
  proof (cases pending)
    case (Cons c rest)
    show ?thesis
    proof (cases "id_value c \<in> set vs \<or> artifact_find c r = None")
      case False
      then obtain a where a: "artifact_find c r = Some a" "id_value c \<notin> set vs" by auto
      have "(id_value c, a) \<in> set (ar_entries r)"
        using a(1) by (auto simp: artifact_find_def dest: um_find_mem)
      then have "id_value c \<in> fst ` set (ar_entries r)" by force
      with Suc.IH [of "id_value c # vs"] Suc.prems a Cons show ?thesis by simp
    qed (auto simp: Cons)
  qed simp
qed

lemma trace_terminates: "trace_lineage r root \<noteq> None"
  using trace_loop_total [of "[]" r "length (ar_entries r) + 2" "[root]" "[]"]
  by (auto simp: trace_lineage_def)

section \<open>The walk is the closure\<close>

definition lineage_edge :: "artifact_registry \<Rightarrow> artifact_id \<Rightarrow> artifact_id \<Rightarrow> bool" where
  "lineage_edge r a b = (\<exists>x. artifact_find a r = Some x \<and> b \<in> ref_id ` set (ia_lineage_inputs x))"

definition trace_inv ::
  "artifact_registry \<Rightarrow> artifact_id \<Rightarrow> u64 list \<Rightarrow> artifact_id list \<Rightarrow> intermediate_tag referenced list \<Rightarrow> bool" where
  "trace_inv r root visited pending out =
     (set visited = id_value ` ref_id ` set out \<and> distinct (map ref_id out) \<and>
      root \<in> ref_id ` set out \<union> set pending \<and>
      (\<forall>x \<in> ref_id ` set out \<union> set pending. (lineage_edge r)\<^sup>*\<^sup>* root x) \<and>
      (\<forall>x \<in> ref_id ` set out. artifact_find x r \<noteq> None \<and>
         (\<forall>y. lineage_edge r x y \<longrightarrow> y \<in> ref_id ` set out \<union> set pending)))"

lemma artifact_find_id: "artifact_ok r \<Longrightarrow> artifact_find i r = Some a \<Longrightarrow> ia_id a = i"
  by (auto simp: artifact_ok_def artifact_find_def strong_id.expand dest: um_all_find)

lemma trace_inv_step:
  assumes ok: "artifact_ok r" and inv: "trace_inv r root vs (c # rest) out"
    and new: "id_value c \<notin> set vs" and a: "artifact_find c r = Some a"
  shows "trace_inv r root (id_value c # vs) (rest @ map ref_id (ia_lineage_inputs a))
    (out @ [Ref (ia_id a) (ia_generation a)])"
proof -
  have c: "ia_id a = c" by (rule artifact_find_id [OF ok a])
  have reach: "(lineage_edge r)\<^sup>*\<^sup>* root c" using inv by (simp add: trace_inv_def)
  have edge: "lineage_edge r c y \<longleftrightarrow> y \<in> ref_id ` set (ia_lineage_inputs a)" for y
    using a by (simp add: lineage_edge_def)
  have below: "(lineage_edge r)\<^sup>*\<^sup>* root y" if "y \<in> ref_id ` set (ia_lineage_inputs a)" for y
    using reach edge that by (meson rtranclp.rtrancl_into_rtrancl)
  have fresh: "c \<notin> ref_id ` set out" using new inv by (auto simp: trace_inv_def)
  show ?thesis
    using inv a edge below fresh unfolding trace_inv_def by (auto simp: c)
qed

lemma trace_loop_closure:
  assumes "artifact_ok r" "trace_inv r root vs pending out" "trace_loop fuel r vs pending out = Some (Inr res)"
  shows "trace_inv r root (map (\<lambda>x. id_value (ref_id x)) res) [] res"
  using assms(2,3)
proof (induction fuel arbitrary: vs pending out)
  case (Suc fuel)
  show ?case
  proof (cases pending)
    case Nil
    with Suc.prems show ?thesis by (auto simp: trace_inv_def image_image)
  next
    case (Cons c rest)
    obtain a where "id_value c \<notin> set vs" "artifact_find c r = Some a"
      using Suc.prems(2) Cons by (auto split: if_splits option.splits)
    with Suc.IH [OF trace_inv_step [OF assms(1)]] Suc.prems Cons show ?thesis by auto
  qed
qed simp

lemma trace_inv_final:
  assumes "trace_inv r root vs [] out"
  shows "ref_id ` set out = {x. (lineage_edge r)\<^sup>*\<^sup>* root x}"
proof -
  have "x \<in> ref_id ` set out" if "(lineage_edge r)\<^sup>*\<^sup>* root x" for x
    using that
  proof (induction rule: rtranclp_induct)
    case base
    then show ?case using assms by (simp add: trace_inv_def)
  next
    case (step y z)
    then show ?case using assms by (auto simp: trace_inv_def)
  qed
  moreover have "\<forall>x \<in> ref_id ` set out. (lineage_edge r)\<^sup>*\<^sup>* root x"
    using assms by (simp add: trace_inv_def)
  ultimately show ?thesis by blast
qed

lemma trace_lineage_closure:
  assumes ok: "artifact_ok r" and res: "trace_lineage r root = Some (Inr refs)"
  shows "ref_id ` set refs = {x. (lineage_edge r)\<^sup>*\<^sup>* root x}" "distinct (map ref_id refs)"
    "sorted (map ref_id refs)" "\<forall>x. (lineage_edge r)\<^sup>*\<^sup>* root x \<longrightarrow> artifact_find x r \<noteq> None"
proof -
  obtain out where out: "trace_loop (length (ar_entries r) + 2) r [] [root] [] = Some (Inr out)"
      "refs = sort_key ref_id out"
  proof -
    obtain z where "trace_loop (length (ar_entries r) + 2) r [] [root] [] = Some z"
      and "(case z of Inl s \<Rightarrow> Inl s | Inr out \<Rightarrow> Inr (sort_key ref_id out)) = Inr refs"
      using res unfolding trace_lineage_def by blast
    then show thesis using that by (cases z) simp_all
  qed
  have "trace_inv r root [] [root] []" by (simp add: trace_inv_def)
  from trace_loop_closure [OF ok this out(1)]
  have inv: "trace_inv r root (map (\<lambda>x. id_value (ref_id x)) out) [] out" .
  show "ref_id ` set refs = {x. (lineage_edge r)\<^sup>*\<^sup>* root x}"
    using trace_inv_final [OF inv] out(2) by simp
  show "distinct (map ref_id refs)"
    using inv out(2) by (simp add: trace_inv_def distinct_map)
  show "sorted (map ref_id refs)" using out(2) by simp
  show "\<forall>x. (lineage_edge r)\<^sup>*\<^sup>* root x \<longrightarrow> artifact_find x r \<noteq> None"
    using inv trace_inv_final [OF inv] by (auto simp: trace_inv_def)
qed

lemma lineage_is_authoritative_all:
  assumes ok: "artifact_ok r" and auth: "lineage_is_authoritative r root" and x: "(lineage_edge r)\<^sup>*\<^sup>* root x"
  shows "\<exists>a. artifact_find x r = Some a \<and> consumable a"
proof -
  obtain refs where refs: "trace_lineage r root = Some (Inr refs)"
    and all: "\<forall>reference \<in> set refs. case artifact_find (ref_id reference) r of None \<Rightarrow> False
      | Some a \<Rightarrow> ia_authority a = AU_authoritative \<and> artifact_state_is_consumable (ia_state a)"
    using auth by (auto simp: lineage_is_authoritative_def list_all_iff split: option.splits sum.splits)
  have "x \<in> ref_id ` set refs" using trace_lineage_closure(1) [OF ok refs] x by simp
  with all show ?thesis by (auto simp: consumable_def split: option.splits)
qed

section \<open>Claims\<close>

text \<open>
  C39: tracing lineage always ends, also on a cyclic registry, and a trace that succeeds returns
  exactly the artifacts reachable over lineage edges, each once, in ascending identity order.
\<close>

theorem lineage_trace_is_closure:
  assumes "artifact_ok r"
  shows "\<exists>res. trace_lineage r root = Some res \<and>
    (\<forall>refs. res = Inr refs \<longrightarrow> ref_id ` set refs = {x. (lineage_edge r)\<^sup>*\<^sup>* root x} \<and>
      distinct (map ref_id refs) \<and> sorted (map ref_id refs))"
proof -
  obtain res where res: "trace_lineage r root = Some res" using trace_terminates by blast
  have "\<forall>refs. res = Inr refs \<longrightarrow> ref_id ` set refs = {x. (lineage_edge r)\<^sup>*\<^sup>* root x} \<and>
      distinct (map ref_id refs) \<and> sorted (map ref_id refs)"
  proof (intro allI impI)
    fix refs
    assume "res = Inr refs"
    with res have "trace_lineage r root = Some (Inr refs)" by simp
    from trace_lineage_closure [OF assms this]
    show "ref_id ` set refs = {x. (lineage_edge r)\<^sup>*\<^sup>* root x} \<and> distinct (map ref_id refs) \<and> sorted (map ref_id refs)"
      by (intro conjI)
  qed
  with res show ?thesis by (intro exI conjI)
qed

lemma sample_registry_ok: "artifact_ok sample_registry"
  using artifact_steps_ok [OF sample_registry_steps] by_phase_ok_init by simp

lemma sample_trace: "trace_lineage sample_registry (StrongId 1) = Some (Inr [Ref (StrongId 1) gen_initial])"
  using sample_registry_find
  by (simp add: trace_lineage_def numeral_2_eq_2 sample_artifact_def artifact_default_def)

theorem lineage_trace_is_closure_witness:
  "\<exists>refs. trace_lineage sample_registry (StrongId 1) = Some (Inr refs) \<and>
    ref_id ` set refs = {x. (lineage_edge sample_registry)\<^sup>*\<^sup>* (StrongId 1) x}"
  using lineage_trace_is_closure [OF sample_registry_ok, of "StrongId 1"] sample_trace by auto

text \<open>
  A lineage that is reported authoritative has no weak link: every artifact reachable from the
  root is registered, valid and authoritative.
\<close>

lemma authoritative_lineage_has_no_gap:
  assumes "artifact_ok r" "lineage_is_authoritative r root" "(lineage_edge r)\<^sup>*\<^sup>* root x"
  shows "\<exists>a. artifact_find x r = Some a \<and> consumable a"
  by (rule lineage_is_authoritative_all [OF assms])

end
