(* ===== verification/Environment.thy ===== *)
theory Environment
  imports Registry "HOL-Library.Product_Lexorder"
begin

text \<open>
  \<open>src/core/environment.cpp\<close>: the explicit environment a compiler phase runs in. A
  specification is canonicalised (bounds, canonical variable order, duplicate names refused, paths
  normalised), its digest is its identity, and the registry interns canonical specifications.
  \<open>build_process_environment\<close> derives the variable block of a child process; the ambient
  process environment it may read is the parameter \<open>ambient\<close>.
\<close>

section \<open>Specifications\<close>

record environment_variable =
  ev_name :: string
  ev_value :: string

datatype locale_policy = LP_c_locale | LP_explicit_name | LP_user_default

fun to_string_locale_policy :: "locale_policy \<Rightarrow> string" where
  "to_string_locale_policy LP_c_locale = ''c-locale''"
| "to_string_locale_policy LP_explicit_name = ''explicit-name''"
| "to_string_locale_policy LP_user_default = ''user-default''"

definition parse_locale_policy :: "string \<Rightarrow> locale_policy option" where
  "parse_locale_policy t =
     (if equals_ascii_ci t ''c-locale'' \<or> equals_ascii_ci t ''c'' then Some LP_c_locale
      else if equals_ascii_ci t ''explicit-name'' \<or> equals_ascii_ci t ''explicit'' then Some LP_explicit_name
      else if equals_ascii_ci t ''user-default'' \<or> equals_ascii_ci t ''user'' then Some LP_user_default
      else None)"

record environment_spec =
  es_working_directory :: string
  es_temp_directory :: string
  es_variables :: "environment_variable list"
  es_include_paths :: "string list"
  es_library_paths :: "string list"
  es_sdk_roots :: "string list"
  es_toolkit_roots :: "string list"
  es_inherited_variables :: "string list"
  es_locale_policy :: locale_policy
  es_locale_name :: string
  es_deterministic_controls :: bool

definition environment_spec_init :: environment_spec where
  "environment_spec_init = \<lparr>es_working_directory = [], es_temp_directory = [], es_variables = [],
     es_include_paths = [], es_library_paths = [], es_sdk_roots = [], es_toolkit_roots = [],
     es_inherited_variables = [], es_locale_policy = LP_c_locale, es_locale_name = [],
     es_deterministic_controls = True\<rparr>"

definition kMaxVariables :: nat where "kMaxVariables = 4096"
definition kMaxVariableNameBytes :: nat where "kMaxVariableNameBytes = 1024"
definition kMaxVariableValueBytes :: nat where "kMaxVariableValueBytes = 32768"
definition kMaxSearchPaths :: nat where "kMaxSearchPaths = 1024"
definition kMaxTotalValueBytes :: nat where "kMaxTotalValueBytes = 1048576"

section \<open>Canonicalisation\<close>

text \<open>The body of the loop over the variables, and the loop.\<close>

definition check_variable :: "environment_variable \<Rightarrow> unit result" where
  "check_variable v =
     (if ev_name v = [] then Inl (Status SC_invalid_argument ''environment variable name is empty'')
      else if length (ev_name v) > kMaxVariableNameBytes
        then Inl (Status SC_invalid_argument ''environment variable name is too long'')
      else if length (ev_value v) > kMaxVariableValueBytes
        then Inl (Status SC_invalid_argument (''environment variable value is too long: '' @ ev_name v))
      else if CHR ''='' \<in> set (ev_name v) \<or> CHR 0x00 \<in> set (ev_name v)
        then Inl (Status SC_invalid_argument (''environment variable name contains an illegal character: '' @ ev_name v))
      else Inr ())"

fun check_variables :: "environment_variable list \<Rightarrow> unit result" where
  "check_variables [] = Inr ()"
| "check_variables (v # vs) = crf_try (check_variable v) (\<lambda>_. check_variables vs)"

definition total_value_bytes :: "environment_variable list \<Rightarrow> nat" where
  "total_value_bytes vs = sum_list (map (\<lambda>v. length (ev_value v)) vs)"

definition variable_key :: "environment_variable \<Rightarrow> string \<times> string" where
  "variable_key v = (to_upper_ascii (ev_name v), ev_name v)"

text \<open>The first adjacent pair of names that agree up to case: the later name is reported.\<close>

fun adjacent_duplicate :: "environment_variable list \<Rightarrow> string option" where
  "adjacent_duplicate (a # b # vs) =
     (if equals_ascii_ci (ev_name a) (ev_name b) then Some (ev_name b) else adjacent_duplicate (b # vs))"
| "adjacent_duplicate _ = None"

text \<open>
  \<open>std::unique\<close> on normalised paths compares them with the path equality, which on normalised
  paths is equality of the path strings.
\<close>

definition normalize_list :: "(string \<Rightarrow> string) \<Rightarrow> string list \<Rightarrow> string list" where
  "normalize_list lexically_normal paths =
     remdups_adj (sort_key (canonical_path_key lexically_normal)
       (map (normalize_path_string lexically_normal) paths))"

definition environment_canonicalize :: "(string \<Rightarrow> string) \<Rightarrow> environment_spec \<Rightarrow> environment_spec result" where
  "environment_canonicalize lexically_normal s =
     (if length (es_variables s) > kMaxVariables
        then Inl (Status SC_capacity_exceeded ''environment variable count exceeds the ceiling'')
      else if length (es_include_paths s) > kMaxSearchPaths \<or> length (es_library_paths s) > kMaxSearchPaths \<or>
          length (es_sdk_roots s) > kMaxSearchPaths \<or> length (es_toolkit_roots s) > kMaxSearchPaths
        then Inl (Status SC_capacity_exceeded ''environment search path count exceeds the ceiling'')
      else if length (es_inherited_variables s) > 256
        then Inl (Status SC_capacity_exceeded ''inherited variable allowlist is too large'')
      else crf_try (check_variables (es_variables s)) (\<lambda>_.
        if total_value_bytes (es_variables s) > kMaxTotalValueBytes
          then Inl (Status SC_capacity_exceeded ''environment variable bytes exceed the ceiling'')
        else let variables = sort_key variable_key (es_variables s) in
        case adjacent_duplicate variables of
          Some name \<Rightarrow> Inl (Status SC_invalid_argument (''duplicate environment variable name: '' @ name))
        | None \<Rightarrow>
            let inherited = remdups_adj (sort (es_inherited_variables s)) in
            if list_ex (\<lambda>name. name = [] \<or> CHR ''='' \<in> set name) inherited
              then Inl (Status SC_invalid_argument ''invalid inherited variable name'')
            else if es_locale_policy s = LP_explicit_name \<and> es_locale_name s = []
              then Inl (Status SC_invalid_argument ''explicit locale policy requires a locale name'')
            else Inr (s\<lparr>es_variables := variables, es_inherited_variables := inherited,
              es_working_directory := (if es_working_directory s = [] then []
                else normalize_path_string lexically_normal (es_working_directory s)),
              es_temp_directory := (if es_temp_directory s = [] then []
                else normalize_path_string lexically_normal (es_temp_directory s)),
              es_include_paths := normalize_list lexically_normal (es_include_paths s),
              es_library_paths := normalize_list lexically_normal (es_library_paths s),
              es_sdk_roots := normalize_list lexically_normal (es_sdk_roots s),
              es_toolkit_roots := normalize_list lexically_normal (es_toolkit_roots s)\<rparr>)))"

definition environment_canonical_bytes :: "(string \<Rightarrow> string) \<Rightarrow> environment_spec \<Rightarrow> string" where
  "environment_canonical_bytes lexically_normal s =
     (let key = canonical_path_key lexically_normal; paths = (\<lambda>ps. concat (map (\<lambda>p. enc_text (key p)) ps)) in
      enc_text (key (es_working_directory s)) @ enc_text (key (es_temp_directory s)) @
      concat (map (\<lambda>v. enc_text (to_upper_ascii (ev_name v)) @ enc_text (ev_value v)) (es_variables s)) @
      paths (es_include_paths s) @ paths (es_library_paths s) @ paths (es_sdk_roots s) @ paths (es_toolkit_roots s) @
      concat (map (\<lambda>name. enc_text (to_upper_ascii name)) (es_inherited_variables s)) @
      enc_text (to_string_locale_policy (es_locale_policy s)) @ enc_text (es_locale_name s) @
      enc_boolean (es_deterministic_controls s))"

definition environment_canonical_digest :: "(string \<Rightarrow> string) \<Rightarrow> environment_spec \<Rightarrow> digest" where
  "environment_canonical_digest lexically_normal s = digest_of (environment_canonical_bytes lexically_normal s)"

section \<open>Variables of a specification\<close>

definition find_variable_in :: "environment_variable list \<Rightarrow> string \<Rightarrow> string option" where
  "find_variable_in vs name = map_option ev_value (List.find (\<lambda>v. equals_ascii_ci (ev_name v) name) vs)"

definition find_variable :: "environment_spec \<Rightarrow> string \<Rightarrow> string option" where
  "find_variable s name = find_variable_in (es_variables s) name"

fun set_variable_in :: "string \<Rightarrow> string \<Rightarrow> environment_variable list \<Rightarrow> environment_variable list" where
  "set_variable_in name val [] = [\<lparr>ev_name = name, ev_value = val\<rparr>]"
| "set_variable_in name val (v # vs) =
     (if equals_ascii_ci (ev_name v) name then \<lparr>ev_name = name, ev_value = val\<rparr> # vs
      else v # set_variable_in name val vs)"

definition set_variable :: "string \<Rightarrow> string \<Rightarrow> environment_spec \<Rightarrow> environment_spec" where
  "set_variable name val s = s\<lparr>es_variables := set_variable_in name val (es_variables s)\<rparr>"

fun erase_first :: "string \<Rightarrow> environment_variable list \<Rightarrow> environment_variable list" where
  "erase_first name [] = []"
| "erase_first name (v # vs) = (if equals_ascii_ci (ev_name v) name then vs else v # erase_first name vs)"

definition erase_variable :: "string \<Rightarrow> environment_spec \<Rightarrow> environment_spec \<times> bool" where
  "erase_variable name s =
     (case find_variable s name of None \<Rightarrow> (s, False)
      | Some _ \<Rightarrow> (s\<lparr>es_variables := erase_first name (es_variables s)\<rparr>, True))"

definition join_paths :: "string list \<Rightarrow> string" where
  "join_paths paths = foldl (\<lambda>out path. (if out \<noteq> [] then out @ '';'' else out) @ path) [] paths"

section \<open>Registry\<close>

type_synonym environment_identity = "(environment_tag, environment_spec) reg_identity"
type_synonym environment_registry = "(environment_tag, environment_spec) registry"

text \<open>
  The registry canonicalises first and then runs the interning bodies, whose own validation step
  has nothing left to refuse. \<open>revise\<close> looks the identity up before it canonicalises.
\<close>

definition accept_spec :: "environment_spec \<Rightarrow> unit result" where
  "accept_spec s = Inr ()"

definition environment_intern :: "(string \<Rightarrow> string) \<Rightarrow> environment_spec \<Rightarrow> environment_registry \<Rightarrow>
    environment_registry \<times> environment_tag referenced result" where
  "environment_intern lexically_normal s r =
     (case environment_canonicalize lexically_normal s of
        Inl e \<Rightarrow> (r, Inl e)
      | Inr c \<Rightarrow> reg_intern accept_spec (environment_canonical_digest lexically_normal) c r)"

definition environment_intern_as :: "(string \<Rightarrow> string) \<Rightarrow> environment_id \<Rightarrow> environment_spec \<Rightarrow> environment_registry \<Rightarrow>
    environment_registry \<times> environment_tag referenced result" where
  "environment_intern_as lexically_normal i s r =
     (if \<not> id_present i then (r, Inl (Status SC_invalid_identity ''environment identity is absent''))
      else case environment_canonicalize lexically_normal s of
        Inl e \<Rightarrow> (r, Inl e)
      | Inr c \<Rightarrow> reg_intern_as ''environment'' accept_spec (environment_canonical_digest lexically_normal) i c r)"

definition environment_revise :: "(string \<Rightarrow> string) \<Rightarrow> environment_id \<Rightarrow> environment_spec \<Rightarrow> environment_registry \<Rightarrow>
    environment_registry \<times> environment_tag referenced result" where
  "environment_revise lexically_normal i s r =
     (case um_find (rg_entries r) (id_value i) of
        None \<Rightarrow> (r, Inl (Status SC_not_found
          (''environment identity is not registered: '' @ id_to_string ''environment'' i)))
      | Some _ \<Rightarrow>
          (case environment_canonicalize lexically_normal s of
             Inl e \<Rightarrow> (r, Inl e)
           | Inr c \<Rightarrow> reg_revise ''environment'' accept_spec (environment_canonical_digest lexically_normal) i c r))"

definition environment_find :: "environment_id \<Rightarrow> environment_registry \<Rightarrow> environment_identity option" where
  "environment_find = reg_find"

definition environment_list :: "environment_registry \<Rightarrow> environment_identity list" where
  "environment_list = reg_list"

section \<open>The block handed to a child process\<close>

definition kLoaderVariables :: "string list" where
  "kLoaderVariables = [''SystemRoot'', ''windir'', ''SystemDrive'']"

definition has_variable :: "string \<Rightarrow> environment_variable list \<Rightarrow> bool" where
  "has_variable name vs = list_ex (\<lambda>v. equals_ascii_ci (ev_name v) name) vs"

definition add_loader_variable ::
  "(string \<Rightarrow> string) \<Rightarrow> environment_variable list \<Rightarrow> string \<Rightarrow> environment_variable list" where
  "add_loader_variable ambient out name =
     (if has_variable name out then out
      else if ambient name = [] then out
      else out @ [\<lparr>ev_name = name, ev_value = ambient name\<rparr>])"

fun contains_text :: "string \<Rightarrow> string \<Rightarrow> bool" where
  "contains_text needle [] = (needle = [])"
| "contains_text needle (c # cs) = (take (length needle) (c # cs) = needle \<or> contains_text needle cs)"

definition extend_path :: "string \<Rightarrow> string \<Rightarrow> string" where
  "extend_path system_root path =
     (let system32 = system_root @ [CHR 0x5C] @ ''System32'';
          p1 = (if \<not> starts_with_ci path system32 \<and> \<not> contains_text system32 path
            then path @ '';'' @ system32 else path)
      in if \<not> contains_text system_root p1 then p1 @ '';'' @ system_root else p1)"

text \<open>Change the value of the first variable with the name, keeping its spelling.\<close>

fun update_first :: "string \<Rightarrow> (string \<Rightarrow> string) \<Rightarrow> environment_variable list \<Rightarrow> environment_variable list" where
  "update_first name f [] = []"
| "update_first name f (v # vs) =
     (if equals_ascii_ci (ev_name v) name then v\<lparr>ev_value := f (ev_value v)\<rparr> # vs else v # update_first name f vs)"

definition ensure_system_path :: "(string \<Rightarrow> string) \<Rightarrow> environment_variable list \<Rightarrow> environment_variable list" where
  "ensure_system_path ambient out =
     (let system_root = ambient ''SystemRoot'' in
      if system_root = [] then out
      else if has_variable ''PATH'' out then update_first ''PATH'' (extend_path system_root) out
      else out @ [\<lparr>ev_name = ''PATH'',
        ev_value = (system_root @ [CHR 0x5C] @ ''System32'') @ '';'' @ system_root\<rparr>])"

definition default_temp ::
  "(string \<Rightarrow> string) \<Rightarrow> environment_spec \<Rightarrow> environment_variable list \<Rightarrow> environment_variable list" where
  "default_temp ambient s out =
     (if es_temp_directory s = [] \<and> \<not> has_variable ''TEMP'' out
      then let temporary = (if ambient ''TEMP'' = [] then ambient ''SystemRoot'' else ambient ''TEMP'') in
        if temporary = [] then out else out @ [\<lparr>ev_name = ''TEMP'', ev_value = temporary\<rparr>]
      else out)"

definition set_or_add :: "string \<Rightarrow> string \<Rightarrow> environment_variable list \<Rightarrow> environment_variable list" where
  "set_or_add name val out =
     (if has_variable name out then update_first name (\<lambda>_. val) out
      else out @ [\<lparr>ev_name = name, ev_value = val\<rparr>])"

definition redirect_temp :: "environment_spec \<Rightarrow> environment_variable list \<Rightarrow> environment_variable list" where
  "redirect_temp s out =
     (if es_temp_directory s = [] then out
      else set_or_add ''TMP'' (es_temp_directory s) (set_or_add ''TEMP'' (es_temp_directory s) out))"

text \<open>The final loop: a later variable of the same name replaces the one before it.\<close>

definition unique_last :: "environment_variable list \<Rightarrow> environment_variable list" where
  "unique_last vs = foldl (\<lambda>acc v. if acc \<noteq> [] \<and> equals_ascii_ci (ev_name (last acc)) (ev_name v)
     then butlast acc @ [v] else acc @ [v]) [] vs"

text \<open>
  \<open>less_ascii_ci\<close> orders by \<open>ci_key\<close>; the code's \<open>std::sort\<close> may leave names that agree
  up to case in either order, the model keeps the order they have.
\<close>

definition build_process_environment ::
  "(string \<Rightarrow> string) \<Rightarrow> environment_spec \<Rightarrow> bool \<Rightarrow> environment_variable list" where
  "build_process_environment ambient s include_loader_variables =
     (let out1 = (if include_loader_variables
            then foldl (add_loader_variable ambient) (es_variables s) kLoaderVariables else es_variables s);
          out2 = ensure_system_path ambient out1;
          out3 = default_temp ambient s out2;
          out4 = redirect_temp s out3
      in unique_last (sort_key (\<lambda>v. ci_key (ev_name v)) out4))"

definition environment_is_hermetic :: "environment_spec \<Rightarrow> bool" where
  "environment_is_hermetic s =
     (es_deterministic_controls s \<and> es_locale_policy s \<noteq> LP_user_default \<and>
      \<not> (es_locale_policy s = LP_explicit_name \<and> es_locale_name s = []))"

section \<open>Canonical form\<close>

lemma ascii_upper_lower: "(ascii_upper a = ascii_upper b) = (ascii_lower a = ascii_lower b)"
proof -
  have "ascii_upper c = ascii_upper (ascii_lower c)" "ascii_lower c = ascii_lower (ascii_upper c)" for c
    by (auto simp: ascii_upper_def ascii_lower_def)
  then show ?thesis by metis
qed

lemma equals_ascii_ci_upper: "equals_ascii_ci a b = (to_upper_ascii a = to_upper_ascii b)"
  by (auto simp: equals_ascii_ci_def to_upper_ascii_def list_all2_conv_all_nth list_eq_iff_nth_eq ascii_upper_lower)

lemma check_variables_iff: "check_variables vs = Inr u \<longleftrightarrow> (\<forall>v \<in> set vs. check_variable v = Inr ())"
proof (induction vs)
  case (Cons v vs)
  then show ?case by (cases "check_variable v") (simp_all add: crf_try_def)
qed simp

text \<open>Without adjacent duplicates a list sorted by its canonical key is strictly sorted by upper-case name.\<close>

lemma adjacent_none_strict:
  assumes "sorted (map variable_key vs)" "adjacent_duplicate vs = None"
  shows "sorted_wrt (<) (map (\<lambda>v. to_upper_ascii (ev_name v)) vs)"
  using assms
proof (induction vs rule: adjacent_duplicate.induct)
  case (1 a b vs)
  have "\<not> equals_ascii_ci (ev_name a) (ev_name b)" and rest: "adjacent_duplicate (b # vs) = None"
    using 1(3) by (auto split: if_splits)
  moreover have "variable_key a \<le> variable_key b" using 1(2) by simp
  ultimately have lt: "to_upper_ascii (ev_name a) < to_upper_ascii (ev_name b)"
    by (auto simp: equals_ascii_ci_upper variable_key_def)
  have "sorted_wrt (<) (map (\<lambda>v. to_upper_ascii (ev_name v)) (b # vs))"
    using 1 rest by (auto split: if_splits)
  with lt show ?case by (auto dest: less_trans)
qed auto

lemma strict_distinct:
  fixes f :: "'a \<Rightarrow> 'b::linorder"
  assumes "sorted_wrt (<) (map f vs)"
  shows "distinct (map f vs)"
  using assms by (simp add: strict_sorted_iff)

lemma distinct_remdups_adj_sorted: "sorted xs \<Longrightarrow> distinct (remdups_adj xs)" for xs :: "'a::linorder list"
proof (induction xs rule: remdups_adj.induct)
  case (3 x y xs)
  then show ?case by (auto simp: antisym)
qed auto

lemma canonicalize_ok:
  assumes "environment_canonicalize ln s = Inr c"
  shows "sorted_wrt (<) (map (\<lambda>v. to_upper_ascii (ev_name v)) (es_variables c))"
    and "mset (es_variables c) = mset (es_variables s)"
    and "\<forall>v \<in> set (es_variables c). check_variable v = Inr ()"
    and "sorted (es_inherited_variables c)" "distinct (es_inherited_variables c)"
    and "\<not> (es_locale_policy c = LP_explicit_name \<and> es_locale_name c = [])"
proof -
  let ?vs = "sort_key variable_key (es_variables s)"
  have dup: "adjacent_duplicate ?vs = None"
    and chk: "check_variables (es_variables s) = Inr ()"
    and vs: "es_variables c = ?vs"
    and inh: "es_inherited_variables c = remdups_adj (sort (es_inherited_variables s))"
    and loc: "\<not> (es_locale_policy c = LP_explicit_name \<and> es_locale_name c = [])"
    using assms by (auto simp: environment_canonicalize_def crf_try_def Let_def split: if_splits sum.splits option.splits)
  show "sorted_wrt (<) (map (\<lambda>v. to_upper_ascii (ev_name v)) (es_variables c))"
    unfolding vs by (rule adjacent_none_strict [OF _ dup]) simp
  show "mset (es_variables c) = mset (es_variables s)" by (simp add: vs)
  show "\<forall>v \<in> set (es_variables c). check_variable v = Inr ()"
    using chk by (simp add: vs check_variables_iff)
  show "sorted (es_inherited_variables c)" "distinct (es_inherited_variables c)"
    by (simp_all add: inh distinct_remdups_adj_sorted)
  show "\<not> (es_locale_policy c = LP_explicit_name \<and> es_locale_name c = [])" by (rule loc)
qed

text \<open>
  Insertion order does not matter: permuting the variables of an accepted specification gives the
  same canonical specification, hence the same digest and the same identity.
\<close>

lemma canonicalize_permuted:
  assumes ok: "environment_canonicalize ln s = Inr c"
    and perm: "mset vs = mset (es_variables s)"
  shows "environment_canonicalize ln (s\<lparr>es_variables := vs\<rparr>) = Inr c"
proof -
  have vs: "es_variables c = sort_key variable_key (es_variables s)"
    using ok by (auto simp: environment_canonicalize_def crf_try_def Let_def split: if_splits sum.splits option.splits)
  have "inj_on (\<lambda>v. to_upper_ascii (ev_name v)) (set (es_variables c))"
    using strict_distinct [OF canonicalize_ok(1) [OF ok]] by (simp add: distinct_map)
  then have "inj_on variable_key (set vs)"
    using mset_eq_setD [OF perm] by (auto simp: vs variable_key_def inj_on_def)
  then have sort: "sort_key variable_key vs = sort_key variable_key (es_variables s)"
    by (rule sort_key_eq_sort_key [OF perm])
  have "total_value_bytes vs = total_value_bytes (es_variables s)"
    unfolding total_value_bytes_def sum_mset_sum_list [symmetric] mset_map perm ..
  moreover have "check_variables vs = check_variables (es_variables s)"
  proof -
    have "check_variables (es_variables s) = Inr ()"
      using ok by (auto simp: environment_canonicalize_def crf_try_def split: if_splits sum.splits)
    then show ?thesis using mset_eq_setD [OF perm] by (metis check_variables_iff)
  qed
  moreover have "length vs = length (es_variables s)" using perm by (rule mset_eq_length)
  ultimately show ?thesis
    using ok by (simp add: environment_canonicalize_def sort crf_try_def Let_def split: if_splits sum.splits option.splits)
qed

text \<open>Interning: the reference that comes back names the canonical specification's digest, and interning
  any permutation of the same variables returns the same reference without touching the registry.\<close>

definition environment_registry_ok :: "(string \<Rightarrow> string) \<Rightarrow> environment_registry \<Rightarrow> bool" where
  "environment_registry_ok ln r = reg_ok accept_spec (environment_canonical_digest ln) r"

lemma environment_ops_ok [crf_inv]:
  assumes "environment_registry_ok ln r"
  shows "environment_registry_ok ln (fst (environment_intern ln s r))"
    and "environment_registry_ok ln (fst (environment_intern_as ln i s r))"
    and "environment_registry_ok ln (fst (environment_revise ln i s r))"
  using assms
  by (auto simp: environment_registry_ok_def environment_intern_def environment_intern_as_def environment_revise_def
      intro: reg_intern_ok reg_intern_as_ok reg_revise_ok split: sum.split option.split)

lemma environment_intern_permuted:
  assumes ok: "environment_registry_ok ln r" and room: "counter (rg_allocator r) \<noteq> kMax"
    and res: "environment_intern ln s r = (r', Inr ref)"
    and perm: "mset vs = mset (es_variables s)"
  shows "environment_intern ln (s\<lparr>es_variables := vs\<rparr>) r' = (r', Inr ref)"
proof -
  from res obtain c where c: "environment_canonicalize ln s = Inr c"
    and i: "reg_intern accept_spec (environment_canonical_digest ln) c r = (r', Inr ref)"
    by (auto simp: environment_intern_def split: sum.splits)
  have "reg_intern accept_spec (environment_canonical_digest ln) c r' = (r', Inr ref)"
    using reg_intern_stable [OF _ room i] ok by (simp add: environment_registry_ok_def)
  then show ?thesis
    by (simp add: environment_intern_def canonicalize_permuted [OF c perm])
qed

text \<open>Revising moves generations forward only.\<close>

inductive environment_step :: "(string \<Rightarrow> string) \<Rightarrow> environment_registry \<Rightarrow> environment_registry \<Rightarrow> bool" for ln where
  intern: "environment_step ln r (fst (environment_intern ln s r))"
| revise: "environment_step ln r (fst (environment_revise ln i s r))"

lemma environment_step_reg:
  "environment_step ln r r' \<Longrightarrow>
    r' = r \<or> reg_step ''environment'' accept_spec (environment_canonical_digest ln) r r'"
  by (induction rule: environment_step.induct)
    (auto simp: environment_intern_def environment_revise_def intro: reg_step.intros split: sum.split option.split)

interpretation env: monotone_generations reg_generation "environment_step ln" "environment_registry_ok ln" for ln
  by unfold_locales
    (auto simp: environment_registry_ok_def dest!: environment_step_reg intro: reg_step_ok dest: reg_step_mono)

section \<open>Variables\<close>

lemma find_set_variable:
  "find_variable (set_variable name val s) n =
     (if equals_ascii_ci name n then Some val else find_variable s n)"
proof -
  have "find_variable_in (set_variable_in name val vs) n =
     (if equals_ascii_ci name n then Some val else find_variable_in vs n)" for vs
    by (induction vs) (auto simp: find_variable_in_def equals_ascii_ci_lower)
  then show ?thesis by (simp add: find_variable_def set_variable_def)
qed

definition variables_distinct :: "environment_variable list \<Rightarrow> bool" where
  "variables_distinct vs = distinct (map (\<lambda>v. to_upper_ascii (ev_name v)) vs)"

lemma find_variable_in_None: "(find_variable_in vs n = None) = (\<not> has_variable n vs)"
  by (induction vs) (auto simp: find_variable_in_def has_variable_def)

lemma erase_variable_absent:
  assumes "variables_distinct (es_variables s)"
  shows "find_variable (fst (erase_variable name s)) n =
     (if equals_ascii_ci name n then None else find_variable s n)"
proof -
  have "find_variable_in (erase_first name vs) n =
     (if equals_ascii_ci name n then None else find_variable_in vs n)" if "variables_distinct vs" for vs
    using that
  proof (induction vs)
    case (Cons v vs)
    show ?case
    proof (cases "equals_ascii_ci (ev_name v) name")
      case True
      then have "equals_ascii_ci name n \<Longrightarrow> \<not> has_variable n vs"
        using Cons.prems by (auto simp: variables_distinct_def has_variable_def list_ex_iff equals_ascii_ci_upper image_iff)
      with True show ?thesis
        by (auto simp: find_variable_in_None [symmetric]) (auto simp: find_variable_in_def equals_ascii_ci_upper)
    next
      case False
      with Cons show ?thesis
        by (auto simp: find_variable_in_def equals_ascii_ci_upper variables_distinct_def)
    qed
  qed (simp add: find_variable_in_def)
  then show ?thesis
    using assms find_variable_in_None [of "es_variables s" n]
    by (auto simp: erase_variable_def find_variable_def find_variable_in_None has_variable_def list_ex_iff
        equals_ascii_ci_upper split: option.split)
qed

section \<open>Process environments\<close>

lemma names_update_first [simp]: "map ev_name (update_first n f vs) = map ev_name vs"
  by (induction vs) auto

lemma distinct_iff_names: "variables_distinct vs = distinct (map to_upper_ascii (map ev_name vs))"
  by (simp add: variables_distinct_def comp_def)

lemma distinct_snoc:
  "variables_distinct vs \<Longrightarrow> \<not> has_variable (ev_name v) vs \<Longrightarrow> variables_distinct (vs @ [v])"
  by (auto simp: variables_distinct_def has_variable_def list_ex_iff equals_ascii_ci_upper)

lemma add_loader_distinct: "variables_distinct out \<Longrightarrow> variables_distinct (add_loader_variable ambient out n)"
  by (simp add: add_loader_variable_def distinct_snoc)

lemma loaders_distinct:
  "variables_distinct out \<Longrightarrow> variables_distinct (foldl (add_loader_variable ambient) out ns)"
  by (induction ns arbitrary: out) (simp_all add: add_loader_distinct)

lemma ensure_path_distinct: "variables_distinct out \<Longrightarrow> variables_distinct (ensure_system_path ambient out)"
  by (simp add: ensure_system_path_def Let_def distinct_snoc) (simp add: distinct_iff_names)

lemma default_temp_distinct: "variables_distinct out \<Longrightarrow> variables_distinct (default_temp ambient s out)"
  by (simp add: default_temp_def Let_def distinct_snoc)

lemma set_or_add_distinct: "variables_distinct out \<Longrightarrow> variables_distinct (set_or_add n v out)"
  by (simp add: set_or_add_def distinct_snoc) (simp add: distinct_iff_names)

lemma redirect_temp_distinct: "variables_distinct out \<Longrightarrow> variables_distinct (redirect_temp s out)"
  by (simp add: redirect_temp_def set_or_add_distinct)

text \<open>The block before it is sorted.\<close>

definition process_variables ::
  "(string \<Rightarrow> string) \<Rightarrow> environment_spec \<Rightarrow> bool \<Rightarrow> environment_variable list" where
  "process_variables ambient s loaders =
     redirect_temp s (default_temp ambient s (ensure_system_path ambient
       (if loaders then foldl (add_loader_variable ambient) (es_variables s) kLoaderVariables else es_variables s)))"

lemma build_process_variables:
  "build_process_environment ambient s loaders =
    unique_last (sort_key (\<lambda>v. ci_key (ev_name v)) (process_variables ambient s loaders))"
  by (simp add: build_process_environment_def process_variables_def Let_def)

lemma process_variables_distinct:
  "variables_distinct (es_variables s) \<Longrightarrow> variables_distinct (process_variables ambient s loaders)"
  by (simp add: process_variables_def redirect_temp_distinct default_temp_distinct ensure_path_distinct loaders_distinct)

text \<open>The final loop leaves one variable per name, in order, for any input.\<close>

lemma unique_last_snoc:
  "unique_last (vs @ [v]) = (if unique_last vs \<noteq> [] \<and> equals_ascii_ci (ev_name (last (unique_last vs))) (ev_name v)
     then butlast (unique_last vs) @ [v] else unique_last vs @ [v])"
  by (simp add: unique_last_def)

lemma unique_last_subset: "set (unique_last vs) \<subseteq> set vs"
  by (induction vs rule: rev_induct) (auto simp: unique_last_snoc dest: in_set_butlastD, simp add: unique_last_def)

abbreviation var_ci :: "environment_variable \<Rightarrow> int list" where
  "var_ci v \<equiv> ci_key (ev_name v)"

lemma strict_butlast_snoc:
  fixes ks :: "'a::linorder list"
  assumes "sorted_wrt (<) ks" "\<forall>k \<in> set ks. k \<le> x"
  shows "sorted_wrt (<) ((if ks \<noteq> [] \<and> last ks = x then butlast ks else ks) @ [x])"
proof (cases ks rule: rev_cases)
  case (snoc ys y)
  with assms show ?thesis by (auto simp: sorted_wrt_append dest: less_le_trans)
qed simp

lemma unique_last_strict:
  assumes "sorted (map var_ci vs)"
  shows "sorted_wrt (<) (map var_ci (unique_last vs))"
  using assms
proof (induction vs rule: rev_induct)
  case Nil
  show ?case by (simp add: unique_last_def)
next
  case (snoc v vs)
  let ?u = "unique_last vs"
  have "sorted_wrt (<) (map var_ci ?u)" "\<forall>k \<in> set (map var_ci ?u). k \<le> var_ci v"
    using snoc unique_last_subset [of vs] by (auto simp: sorted_append)
  note strict_butlast_snoc [OF this]
  moreover have "map var_ci (unique_last (vs @ [v])) =
    (if map var_ci ?u \<noteq> [] \<and> last (map var_ci ?u) = var_ci v
       then butlast (map var_ci ?u) else map var_ci ?u) @ [var_ci v]"
    by (auto simp: unique_last_snoc equals_ascii_ci_key last_map map_butlast)
  ultimately show ?case by presburger
qed

lemma build_sorted: "sorted_wrt (<) (map var_ci (build_process_environment ambient s loaders))"
  unfolding build_process_variables by (rule unique_last_strict) simp

text \<open>No variable comes from the ambient environment except under the loader's names, \<open>PATH\<close> and \<open>TEMP\<close>.\<close>

lemma add_loader_names:
  "ev_name ` set (foldl (add_loader_variable ambient) out ns) \<subseteq> ev_name ` set out \<union> set ns"
proof (induction ns arbitrary: out)
  case (Cons n ns)
  have "ev_name ` set (add_loader_variable ambient out n) \<subseteq> insert n (ev_name ` set out)"
    by (auto simp: add_loader_variable_def)
  with Cons [of "add_loader_variable ambient out n"] show ?case by auto
qed simp

lemma update_first_names: "ev_name ` set (update_first n f vs) = ev_name ` set vs"
  by (metis names_update_first set_map)

lemma process_names:
  "ev_name ` set (build_process_environment ambient s loaders) \<subseteq>
    ev_name ` set (es_variables s) \<union> set kLoaderVariables \<union> {''PATH'', ''TEMP'', ''TMP''}"
proof -
  define B where "B = ev_name ` set (es_variables s) \<union> set kLoaderVariables \<union> {''PATH'', ''TEMP'', ''TMP''}"
  have mem: "''PATH'' \<in> B" "''TEMP'' \<in> B" "''TMP'' \<in> B" by (simp_all add: B_def)
  define out1 where "out1 = (if loaders
    then foldl (add_loader_variable ambient) (es_variables s) kLoaderVariables else es_variables s)"
  have s1: "ev_name ` set out1 \<subseteq> B"
    using add_loader_names [of ambient "es_variables s" kLoaderVariables] by (auto simp: out1_def B_def)
  have s2: "ev_name ` set (ensure_system_path ambient out) \<subseteq> B" if "ev_name ` set out \<subseteq> B" for out
    using that mem by (simp add: ensure_system_path_def Let_def update_first_names)
  have s3: "ev_name ` set (default_temp ambient s out) \<subseteq> B" if "ev_name ` set out \<subseteq> B" for out
    using that mem by (simp add: default_temp_def Let_def)
  have s4: "ev_name ` set (set_or_add n v out) \<subseteq> B" if "ev_name ` set out \<subseteq> B" "n \<in> B" for n v out
    using that by (simp add: set_or_add_def update_first_names)
  have s5: "ev_name ` set (redirect_temp s out) \<subseteq> B" if "ev_name ` set out \<subseteq> B" for out
    using that mem by (simp add: redirect_temp_def s4)
  have "ev_name ` set (process_variables ambient s loaders) \<subseteq> B"
    unfolding process_variables_def out1_def [symmetric] by (intro s5 s3 s2 s1)
  moreover have "set (build_process_environment ambient s loaders) \<subseteq> set (process_variables ambient s loaders)"
    unfolding build_process_variables
    using unique_last_subset [of "sort_key var_ci (process_variables ambient s loaders)"] by simp
  ultimately show ?thesis unfolding B_def by blast
qed

text \<open>The child's temporary directory is the specification's.\<close>

lemma find_variable_in_set:
  assumes "variables_distinct vs"
  shows "find_variable_in vs n = Some x \<longleftrightarrow> (\<exists>v \<in> set vs. equals_ascii_ci (ev_name v) n \<and> ev_value v = x)"
  using assms
proof (induction vs)
  case (Cons v vs)
  have "equals_ascii_ci (ev_name v) n \<Longrightarrow> u \<in> set vs \<Longrightarrow> \<not> equals_ascii_ci (ev_name u) n" for u
    using Cons.prems by (auto simp: variables_distinct_def equals_ascii_ci_upper) (metis imageI)
  with Cons show ?case by (auto simp: find_variable_in_def variables_distinct_def)
qed (simp add: find_variable_in_def)

lemma unique_last_distinct: "variables_distinct vs \<Longrightarrow> unique_last vs = vs"
proof (induction vs rule: rev_induct)
  case (snoc v vs)
  moreover have "vs \<noteq> [] \<Longrightarrow> \<not> equals_ascii_ci (ev_name (last vs)) (ev_name v)"
    using snoc.prems by (auto simp: variables_distinct_def equals_ascii_ci_upper) (metis imageI last_in_set)
  ultimately show ?case by (auto simp: unique_last_snoc variables_distinct_def)
qed (simp add: unique_last_def)

lemma distinct_mset: "mset vs = mset ws \<Longrightarrow> variables_distinct vs \<Longrightarrow> variables_distinct ws"
  unfolding variables_distinct_def by (metis mset_eq_imp_distinct_iff mset_map)

lemma find_build:
  assumes "variables_distinct (es_variables s)"
  shows "find_variable_in (build_process_environment ambient s loaders) n =
    find_variable_in (process_variables ambient s loaders) n"
proof -
  let ?p = "process_variables ambient s loaders" and ?q = "sort_key var_ci (process_variables ambient s loaders)"
  have p: "variables_distinct ?p" by (rule process_variables_distinct [OF assms])
  have q: "variables_distinct ?q" by (rule distinct_mset [OF _ p]) simp
  have "find_variable_in ?q n = find_variable_in ?p n"
    using find_variable_in_set [OF p, of n] find_variable_in_set [OF q, of n]
    by (cases "find_variable_in ?q n"; cases "find_variable_in ?p n") auto
  then show ?thesis by (simp add: build_process_variables unique_last_distinct [OF q])
qed

lemma find_set_or_add:
  "find_variable_in (set_or_add n v out) m = (if equals_ascii_ci n m then Some v else find_variable_in out m)"
proof -
  have "has_variable n out \<Longrightarrow> find_variable_in (update_first n (\<lambda>_. v) out) m =
      (if equals_ascii_ci n m then Some v else find_variable_in out m)"
    by (induction out) (auto simp: find_variable_in_def has_variable_def equals_ascii_ci_upper)
  moreover have "\<not> has_variable n out \<Longrightarrow> find_variable_in (out @ [\<lparr>ev_name = n, ev_value = v\<rparr>]) m =
      (if equals_ascii_ci n m then Some v else find_variable_in out m)"
    by (induction out) (auto simp: find_variable_in_def has_variable_def equals_ascii_ci_upper)
  ultimately show ?thesis by (simp add: set_or_add_def)
qed

lemma build_redirects_temp:
  assumes "variables_distinct (es_variables s)" "es_temp_directory s \<noteq> []" "n = ''TEMP'' \<or> n = ''TMP''"
  shows "find_variable_in (build_process_environment ambient s loaders) n = Some (es_temp_directory s)"
proof -
  have "find_variable_in (redirect_temp s out) n = Some (es_temp_directory s)" for out
    using assms(2,3) by (auto simp: redirect_temp_def find_set_or_add equals_ascii_ci_def)
  then show ?thesis by (simp add: find_build [OF assms(1)] process_variables_def)
qed

section \<open>Claims\<close>

text \<open>
  The environment block handed to a child process names each variable once, in
  case-insensitive order, and no variable comes from the ambient environment but the loader's
  three, \<open>PATH\<close>, \<open>TEMP\<close> and \<open>TMP\<close>.
\<close>

lemma process_environment_closed:
  "sorted_wrt (<) (map var_ci (build_process_environment ambient s loaders)) \<and>
   ev_name ` set (build_process_environment ambient s loaders) \<subseteq>
     ev_name ` set (es_variables s) \<union> set kLoaderVariables \<union> {''PATH'', ''TEMP'', ''TMP''}"
  by (intro conjI build_sorted process_names)

end
