(* ===== verification/Toolchain.thy ===== *)
theory Toolchain
  imports Environment Target Provenance
begin

text \<open>
  \<open>src/core/component.cpp\<close> and \<open>src/core/toolchain.cpp\<close>: the identity of the executables a
  toolchain is made of, the comparison of freshly probed evidence with what is registered, and the
  toolchain registry whose generations the commit check relies on. The operating system's answers
  to a probe are the parameter \<open>file_queries\<close>.
\<close>

section \<open>File identity\<close>

datatype component_kind =
    CK_unknown | CK_host_c_compiler | CK_host_cxx_compiler | CK_device_compiler
  | CK_device_assembler | CK_assembler | CK_linker | CK_librarian | CK_optimizer
  | CK_plugin | CK_sdk_header_set | CK_runtime_library | CK_standard_library
  | CK_target_library | CK_other

fun to_string_component_kind :: "component_kind \<Rightarrow> string" where
  "to_string_component_kind CK_unknown = ''unknown''"
| "to_string_component_kind CK_host_c_compiler = ''host-c-compiler''"
| "to_string_component_kind CK_host_cxx_compiler = ''host-cxx-compiler''"
| "to_string_component_kind CK_device_compiler = ''device-compiler''"
| "to_string_component_kind CK_device_assembler = ''device-assembler''"
| "to_string_component_kind CK_assembler = ''assembler''"
| "to_string_component_kind CK_linker = ''linker''"
| "to_string_component_kind CK_librarian = ''librarian''"
| "to_string_component_kind CK_optimizer = ''optimizer''"
| "to_string_component_kind CK_plugin = ''plugin''"
| "to_string_component_kind CK_sdk_header_set = ''sdk-header-set''"
| "to_string_component_kind CK_runtime_library = ''runtime-library''"
| "to_string_component_kind CK_standard_library = ''standard-library''"
| "to_string_component_kind CK_target_library = ''target-library''"
| "to_string_component_kind CK_other = ''other''"

definition kComponentKinds :: "component_kind list" where
  "kComponentKinds =
    [CK_unknown, CK_host_c_compiler, CK_host_cxx_compiler, CK_device_compiler,
     CK_device_assembler, CK_assembler, CK_linker, CK_librarian, CK_optimizer, CK_plugin,
     CK_sdk_header_set, CK_runtime_library, CK_standard_library, CK_target_library,
     CK_other]"

definition parse_component_kind :: "string \<Rightarrow> component_kind option" where
  "parse_component_kind t = List.find (\<lambda>value. equals_ascii_ci t (to_string_component_kind value)) kComponentKinds"

definition hex_u64 :: "u64 \<Rightarrow> string" where
  "hex_u64 v = map (\<lambda>i. kHex ! unat (drop_bit (4 * i) v AND 0xF)) (rev [0..<16])"

definition hex_u32 :: "u32 \<Rightarrow> string" where
  "hex_u32 v = map (\<lambda>i. kHex ! unat (drop_bit (4 * i) v AND 0xF)) (rev [0..<8])"

definition kFiletimeEpochDelta :: u64 where
  "kFiletimeEpochDelta = 116444736000000000"

definition filetime_to_unix_nanos :: "u32 \<Rightarrow> u32 \<Rightarrow> u64" where
  "filetime_to_unix_nanos high low =
     (let ticks = push_bit 32 (ucast high) OR ucast low in
      if ticks < kFiletimeEpochDelta then 0 else (ticks - kFiletimeEpochDelta) * 100)"

record file_identity =
  fi_canonical_path :: string
  fi_volume_serial_hex :: string
  fi_file_index_hex :: string
  fi_size_bytes :: u64
  fi_last_write_nanos :: u64
  fi_content :: digest
  fi_content_hashed :: bool

definition file_identity_init :: file_identity where
  "file_identity_init = \<lparr>fi_canonical_path = [], fi_volume_serial_hex = [], fi_file_index_hex = [],
     fi_size_bytes = 0, fi_last_write_nanos = 0, fi_content = digest_default, fi_content_hashed = False\<rparr>"

definition same_file_as :: "(string \<Rightarrow> string) \<Rightarrow> file_identity \<Rightarrow> file_identity \<Rightarrow> bool" where
  "same_file_as ln a b =
     (if fi_volume_serial_hex a = [] \<or> fi_volume_serial_hex b = []
      then canonical_path_key ln (fi_canonical_path a) = canonical_path_key ln (fi_canonical_path b)
      else fi_volume_serial_hex a = fi_volume_serial_hex b \<and> fi_file_index_hex a = fi_file_index_hex b)"

definition same_binary_as :: "(string \<Rightarrow> string) \<Rightarrow> file_identity \<Rightarrow> file_identity \<Rightarrow> bool" where
  "same_binary_as ln a b =
     (if \<not> same_file_as ln a b then False
      else if fi_content_hashed a \<and> fi_content_hashed b then fi_content a = fi_content b
      else fi_size_bytes a = fi_size_bytes b \<and> fi_last_write_nanos a = fi_last_write_nanos b \<and>
           fi_content_hashed a = fi_content_hashed b)"

definition file_canonical_digest :: "(string \<Rightarrow> string) \<Rightarrow> file_identity \<Rightarrow> digest" where
  "file_canonical_digest ln f =
     digest_of (enc_text (canonical_path_key ln (fi_canonical_path f)) @ enc_text (fi_volume_serial_hex f) @
       enc_text (fi_file_index_hex f) @ enc_u64 (fi_size_bytes f) @ enc_u64 (fi_last_write_nanos f) @
       enc_text (to_hex (fi_content f)) @ enc_boolean (fi_content_hashed f))"

definition file_describe :: "file_identity \<Rightarrow> string" where
  "file_describe f =
     (if fi_canonical_path f = [] then ''<none>'' else fi_canonical_path f) @ '' size='' @
     dec_string (unat (fi_size_bytes f)) @
     (if fi_content_hashed f then '' sha256='' @ to_short_hex (fi_content f) else '' sha256=<unhashed>'') @
     (if fi_volume_serial_hex f \<noteq> []
      then '' fileid='' @ fi_volume_serial_hex f @ '':'' @ fi_file_index_hex f else [])"

text \<open>
  What the operating system answers for one path: existence, directory, size (\<open>None\<close> when the query
  fails), and the attributes read through a handle.
\<close>

record handle_information =
  hi_volume_serial :: u32
  hi_index_high :: u32
  hi_index_low :: u32
  hi_size_high :: u32
  hi_size_low :: u32
  hi_write_high :: u32
  hi_write_low :: u32

datatype handle_answer = HandleRefused | InformationFailed | Information handle_information

record file_queries =
  fq_lexically_normal :: "string \<Rightarrow> string"
  fq_exists :: "string \<Rightarrow> bool"
  fq_is_directory :: "string \<Rightarrow> bool"
  fq_file_size :: "string \<Rightarrow> u64 option"
  fq_handle :: "string \<Rightarrow> handle_answer"
  fq_view :: "string \<Rightarrow> file_view"

text \<open>
  The Windows build: the handle's attributes overwrite the size and the time the portable queries
  gave. \<open>is_directory\<close> stands for the code's disjunction with a failed query.
\<close>

definition probe_file_identity :: "file_queries \<Rightarrow> string \<Rightarrow> bool \<Rightarrow> file_identity result" where
  "probe_file_identity fq path hash_content =
     (if \<not> fq_exists fq path then Inl (Status SC_not_found (''file does not exist: '' @ path))
      else if fq_is_directory fq path
        then Inl (Status SC_invalid_argument (''path is a directory, not a file: '' @ path))
      else if fq_file_size fq path = None then Inl (Status SC_not_found (''file size is unavailable: '' @ path))
      else case fq_handle fq path of
        HandleRefused \<Rightarrow> Inl (Status SC_permission_denied (''file attributes are unavailable: '' @ path))
      | InformationFailed \<Rightarrow> Inl (Status SC_probe_failed (''GetFileInformationByHandle failed: '' @ path))
      | Information info \<Rightarrow>
          let canonical = normalize_path_string (fq_lexically_normal fq) path;
              identity = file_identity_init\<lparr>
                fi_canonical_path := canonical,
                fi_volume_serial_hex := hex_u32 (hi_volume_serial info),
                fi_file_index_hex := hex_u64 (push_bit 32 (ucast (hi_index_high info)) OR ucast (hi_index_low info)),
                fi_size_bytes := push_bit 32 (ucast (hi_size_high info)) OR ucast (hi_size_low info),
                fi_last_write_nanos := filetime_to_unix_nanos (hi_write_high info) (hi_write_low info)\<rparr>
          in if hash_content
             then (case digest_of_file (fq_view fq canonical) kDefaultFileBound of
                     None \<Rightarrow> Inl (Status SC_probe_failed (''file content could not be hashed: '' @ path))
                   | Some content \<Rightarrow> Inr (identity\<lparr>fi_content := content, fi_content_hashed := True\<rparr>))
             else Inr identity)"

section \<open>Components\<close>

record component_identity =
  ci_id :: "component_tag strong_id"
  ci_generation :: "component_tag generation"
  ci_kind :: component_kind
  ci_name :: string
  ci_version :: string
  ci_file :: file_identity
  ci_command_capabilities :: "string list"
  ci_target_support :: "architecture list"
  ci_object_formats :: "object_format list"
  ci_environment_requirements :: "environment_variable list"
  ci_evidence_class :: evidence_class

text \<open>Variables written in case-insensitive name order, as three canonical encodings do.\<close>

definition enc_sorted_variables :: "environment_variable list \<Rightarrow> string" where
  "enc_sorted_variables vs =
     concat (map (\<lambda>v. enc_text (to_upper_ascii (ev_name v)) @ enc_text (ev_value v)) (sort_key var_ci vs))"

definition enc_sorted_texts :: "string list \<Rightarrow> string" where
  "enc_sorted_texts ts = concat (map enc_text (sort ts))"

definition component_canonical_digest :: "(string \<Rightarrow> string) \<Rightarrow> component_identity \<Rightarrow> digest" where
  "component_canonical_digest ln c =
     digest_of (enc_text (id_to_string ''component'' (ci_id c)) @ enc_u64 (gen_value (ci_generation c)) @
       enc_text (to_string_component_kind (ci_kind c)) @ enc_text (ci_name c) @ enc_text (ci_version c) @
       enc_text (to_hex (file_canonical_digest ln (ci_file c))) @
       enc_sorted_texts (ci_command_capabilities c) @
       enc_sorted_texts (map to_string_architecture (ci_target_support c)) @
       enc_sorted_texts (map to_string_object_format (ci_object_formats c)) @
       enc_sorted_variables (ci_environment_requirements c) @
       enc_text (to_string_evidence_class (ci_evidence_class c)))"

definition component_requirement :: "component_identity \<Rightarrow> string \<Rightarrow> environment_variable option" where
  "component_requirement c name =
     List.find (\<lambda>entry. equals_ascii_ci (ev_name entry) name) (ci_environment_requirements c)"

record component_revalidation =
  cr_current :: bool
  cr_path_missing :: bool
  cr_content_changed :: bool
  cr_replaced_at_same_path :: bool
  cr_observed :: file_identity
  cr_detail :: string

definition revalidate_component :: "file_queries \<Rightarrow> component_identity \<Rightarrow> bool \<Rightarrow> component_revalidation" where
  "revalidate_component fq recorded hash_content =
     (let path = fi_canonical_path (ci_file recorded);
          blank = \<lparr>cr_current = False, cr_path_missing = False, cr_content_changed = False,
            cr_replaced_at_same_path = False, cr_observed = file_identity_init, cr_detail = []\<rparr> in
      if \<not> fq_exists fq path
        then blank\<lparr>cr_path_missing := True,
          cr_detail := ''component is missing at its recorded path: '' @ path\<rparr>
      else case probe_file_identity fq path hash_content of
        Inl e \<Rightarrow> blank\<lparr>cr_detail := ''component re-probe failed: '' @ status_to_string e\<rparr>
      | Inr observed \<Rightarrow>
          let replaced = \<not> same_file_as (fq_lexically_normal fq) (ci_file recorded) observed;
              changed = \<not> same_binary_as (fq_lexically_normal fq) (ci_file recorded) observed
          in blank\<lparr>cr_observed := observed, cr_replaced_at_same_path := replaced, cr_content_changed := changed,
               cr_current := \<not> changed,
               cr_detail := (if changed
                 then (if replaced then ''component was replaced by a different file at the same path''
                       else ''component content changed in place'')
                 else ''component identity is current'')\<rparr>)"

section \<open>Toolchains\<close>

datatype toolchain_family =
    TF_unknown | TF_msvc | TF_clang_cl | TF_clang | TF_gcc | TF_nvcc | TF_hipcc
  | TF_intel_icx | TF_synthetic

fun to_string_toolchain_family :: "toolchain_family \<Rightarrow> string" where
  "to_string_toolchain_family TF_unknown = ''unknown''"
| "to_string_toolchain_family TF_msvc = ''msvc''"
| "to_string_toolchain_family TF_clang_cl = ''clang-cl''"
| "to_string_toolchain_family TF_clang = ''clang''"
| "to_string_toolchain_family TF_gcc = ''gcc''"
| "to_string_toolchain_family TF_nvcc = ''nvcc''"
| "to_string_toolchain_family TF_hipcc = ''hipcc''"
| "to_string_toolchain_family TF_intel_icx = ''intel-icx''"
| "to_string_toolchain_family TF_synthetic = ''synthetic''"

definition kToolchainFamilies :: "toolchain_family list" where
  "kToolchainFamilies =
    [TF_unknown, TF_msvc, TF_clang_cl, TF_clang, TF_gcc, TF_nvcc, TF_hipcc, TF_intel_icx,
     TF_synthetic]"

definition parse_toolchain_family :: "string \<Rightarrow> toolchain_family option" where
  "parse_toolchain_family t =
     List.find (\<lambda>value. equals_ascii_ci t (to_string_toolchain_family value)) kToolchainFamilies"

record toolchain_identity =
  ti_id :: toolchain_id
  ti_generation :: "toolchain_tag generation"
  ti_family :: toolchain_family
  ti_display_name :: string
  ti_version :: string
  ti_components :: "component_identity list"
  ti_target_support :: "architecture list"
  ti_object_formats :: "object_format list"
  ti_environment_contract :: "environment_variable list"
  ti_toolkit_root :: string
  ti_sdk_root :: string
  ti_attributes :: "environment_variable list"
  ti_standard_library_identity :: string
  ti_evidence_class :: evidence_class
  ti_evidence_digest :: digest

definition toolchain_canonical_digest :: "(string \<Rightarrow> string) \<Rightarrow> toolchain_identity \<Rightarrow> digest" where
  "toolchain_canonical_digest ln t =
     digest_of (enc_text (to_string_toolchain_family (ti_family t)) @ enc_text (ti_display_name t) @
       enc_text (ti_version t) @ enc_u64 (of_nat (length (ti_components t))) @
       enc_sorted_texts (map (\<lambda>c. ci_name c @ ''='' @ to_hex (component_canonical_digest ln c)) (ti_components t)) @
       enc_sorted_texts (map to_string_architecture (ti_target_support t)) @
       enc_sorted_texts (map to_string_object_format (ti_object_formats t)) @
       enc_sorted_variables (ti_environment_contract t) @
       enc_text (canonical_path_key ln (ti_toolkit_root t)) @ enc_text (canonical_path_key ln (ti_sdk_root t)) @
       enc_sorted_variables (ti_attributes t) @
       enc_text (ti_standard_library_identity t) @ enc_text (to_string_evidence_class (ti_evidence_class t)) @
       enc_text (to_hex (ti_evidence_digest t)))"

definition find_component_kind :: "toolchain_identity \<Rightarrow> component_kind \<Rightarrow> component_identity option" where
  "find_component_kind t kind = List.find (\<lambda>c. ci_kind c = kind) (ti_components t)"

definition find_component :: "toolchain_identity \<Rightarrow> string \<Rightarrow> component_identity option" where
  "find_component t name = List.find (\<lambda>c. equals_ascii_ci (ci_name c) name) (ti_components t)"

definition toolchain_supports :: "toolchain_identity \<Rightarrow> architecture \<Rightarrow> bool" where
  "toolchain_supports t arch = (arch \<in> set (ti_target_support t))"

definition toolchain_describe :: "toolchain_identity \<Rightarrow> string" where
  "toolchain_describe t =
     (if ti_display_name t = [] then to_string_toolchain_family (ti_family t) else ti_display_name t) @ '' '' @
     (if ti_version t = [] then ''<unknown-version>'' else ti_version t) @ '' gen='' @
     gen_to_string (ti_generation t) @ '' evidence='' @ to_string_evidence_class (ti_evidence_class t)"

record toolchain_mutation =
  tm_mutated :: bool
  tm_previous_generation :: "toolchain_tag generation"
  tm_current_generation :: "toolchain_tag generation"
  tm_changed_components :: "string list"
  tm_removed_components :: "string list"
  tm_added_components :: "string list"
  tm_detail :: string

definition generation_advanced :: "toolchain_mutation \<Rightarrow> bool" where
  "generation_advanced m = (gen_value (tm_previous_generation m) < gen_value (tm_current_generation m))"

definition describe_component :: "component_identity \<Rightarrow> string" where
  "describe_component c = ci_name c @ '' ('' @ file_describe (ci_file c) @ '')''"

definition removed_components :: "toolchain_identity \<Rightarrow> toolchain_identity \<Rightarrow> string list" where
  "removed_components previous observed =
     map describe_component (filter (\<lambda>c. find_component observed (ci_name c) = None) (ti_components previous))"

definition added_components :: "toolchain_identity \<Rightarrow> toolchain_identity \<Rightarrow> string list" where
  "added_components previous observed =
     map describe_component (filter (\<lambda>c. find_component previous (ci_name c) = None) (ti_components observed))"

definition changed_component :: "(string \<Rightarrow> string) \<Rightarrow> component_identity \<Rightarrow> component_identity \<Rightarrow> string option" where
  "changed_component ln c match =
     (if same_binary_as ln (ci_file c) (ci_file match) then None
      else Some (describe_component match @
        (if \<not> same_file_as ln (ci_file c) (ci_file match) then '' [replaced at same path]''
         else if \<not> fi_content_hashed (ci_file c) \<or> \<not> fi_content_hashed (ci_file match)
           then '' [identity unprovable without content digest]''
         else '' [content changed in place]'')))"

definition changed_components :: "(string \<Rightarrow> string) \<Rightarrow> toolchain_identity \<Rightarrow> toolchain_identity \<Rightarrow> string list" where
  "changed_components ln previous observed =
     List.map_filter (\<lambda>c. case find_component observed (ci_name c) of None \<Rightarrow> None
       | Some match \<Rightarrow> changed_component ln c match) (ti_components previous)"

definition metadata_changed :: "(string \<Rightarrow> string) \<Rightarrow> toolchain_identity \<Rightarrow> toolchain_identity \<Rightarrow> bool" where
  "metadata_changed ln previous observed =
     (ti_attributes previous \<noteq> ti_attributes observed \<or> ti_version previous \<noteq> ti_version observed \<or>
      ti_standard_library_identity previous \<noteq> ti_standard_library_identity observed \<or>
      canonical_path_key ln (ti_toolkit_root previous) \<noteq> canonical_path_key ln (ti_toolkit_root observed) \<or>
      ti_evidence_digest previous \<noteq> ti_evidence_digest observed \<or>
      length (ti_environment_contract previous) \<noteq> length (ti_environment_contract observed))"

definition diff_toolchains ::
  "(string \<Rightarrow> string) \<Rightarrow> toolchain_identity \<Rightarrow> toolchain_identity \<Rightarrow> toolchain_mutation" where
  "diff_toolchains ln previous observed =
     (let m = \<lparr>tm_mutated = False, tm_previous_generation = ti_generation previous,
            tm_current_generation = ti_generation previous, tm_changed_components = [],
            tm_removed_components = [], tm_added_components = [], tm_detail = []\<rparr> in
      if \<not> id_present (ti_id previous) \<or> ti_id previous \<noteq> ti_id observed
        then m\<lparr>tm_detail := ''toolchain identity changed'', tm_mutated := True\<rparr>
      else if toolchain_canonical_digest ln previous = toolchain_canonical_digest ln observed
        then m\<lparr>tm_detail := ''toolchain evidence is unchanged''\<rparr>
      else
        let changed = changed_components ln previous observed;
            removed = removed_components previous observed;
            added = added_components previous observed;
            m' = m\<lparr>tm_changed_components := changed, tm_removed_components := removed, tm_added_components := added\<rparr>
        in if \<not> (changed \<noteq> [] \<or> removed \<noteq> [] \<or> added \<noteq> [] \<or> metadata_changed ln previous observed)
           then m'\<lparr>tm_detail := ''no authority-relevant toolchain change detected''\<rparr>
           else m'\<lparr>tm_mutated := True, tm_current_generation := gen_next (ti_generation previous),
                  tm_detail := ''toolchain generation advanced: '' @ dec_string (length changed) @ '' changed, '' @
                    dec_string (length removed) @ '' removed, '' @ dec_string (length added) @ '' added''\<rparr>)"

section \<open>Registry\<close>

record toolchain_entry =
  te_identity :: toolchain_identity
  te_current :: bool

record toolchain_registry =
  tr_entries :: "(u64, toolchain_entry) umap"
  tr_allocator :: "toolchain_tag id_allocator"

definition toolchain_registry_init :: toolchain_registry where
  "toolchain_registry_init = \<lparr>tr_entries = [], tr_allocator = allocator_init\<rparr>"

definition register_toolchain ::
  "toolchain_identity \<Rightarrow> toolchain_registry \<Rightarrow> toolchain_registry \<times> toolchain_tag referenced result" where
  "register_toolchain identity r =
     (if ti_family identity = TF_unknown
        then (r, Inl (Status SC_invalid_argument ''toolchain family is unknown''))
      else if ti_components identity = [] \<and> ti_evidence_class identity \<noteq> EC_synthetic
        then (r, Inl (Status SC_invalid_argument ''toolchain has no probed components and is not declared synthetic''))
      else case alloc_next (tr_allocator r) of (i, a) \<Rightarrow>
        (r\<lparr>tr_entries := um_emplace (id_value i)
             \<lparr>te_identity = identity\<lparr>ti_id := i, ti_generation := gen_initial\<rparr>, te_current = True\<rparr> (tr_entries r),
           tr_allocator := a\<rparr>, Inr (Ref i gen_initial)))"

definition register_toolchain_as ::
  "toolchain_id \<Rightarrow> toolchain_identity \<Rightarrow> toolchain_registry \<Rightarrow> toolchain_registry \<times> toolchain_tag referenced result" where
  "register_toolchain_as i identity r =
     (if \<not> id_present i then (r, Inl (Status SC_invalid_identity ''toolchain identity is absent''))
      else let g = (if gen_present (ti_generation identity) then ti_generation identity else gen_initial)
        in (r\<lparr>tr_allocator := alloc_observe i (tr_allocator r),
              tr_entries := um_set (id_value i)
                \<lparr>te_identity = identity\<lparr>ti_id := i, ti_generation := g\<rparr>, te_current = True\<rparr> (tr_entries r)\<rparr>,
            Inr (Ref i g)))"

definition apply_observed ::
  "(string \<Rightarrow> string) \<Rightarrow> toolchain_identity \<Rightarrow> bool \<Rightarrow> toolchain_registry \<Rightarrow>
   toolchain_registry \<times> toolchain_mutation result" where
  "apply_observed ln observed allow_generation_advance r =
     (case um_find (tr_entries r) (id_value (ti_id observed)) of
        None \<Rightarrow> (r, Inl (Status SC_not_found
          (''toolchain identity is not registered: '' @ id_to_string ''toolchain'' (ti_id observed))))
      | Some found \<Rightarrow>
          let mutation = diff_toolchains ln (te_identity found) observed in
          if \<not> tm_mutated mutation \<or> \<not> allow_generation_advance then (r, Inr mutation)
          else
            let previous = ti_generation (te_identity found); next = gen_next previous
            in (r\<lparr>tr_entries := um_modify (id_value (ti_id observed))
                    (\<lambda>e. \<lparr>te_identity = observed\<lparr>ti_generation := next\<rparr>, te_current = True\<rparr>) (tr_entries r)\<rparr>,
                Inr (mutation\<lparr>tm_previous_generation := previous, tm_current_generation := next\<rparr>)))"

definition toolchain_refresh ::
  "(string \<Rightarrow> string) \<Rightarrow> toolchain_identity \<Rightarrow> toolchain_registry \<Rightarrow> toolchain_registry \<times> toolchain_mutation result" where
  "toolchain_refresh ln observed r = apply_observed ln observed True r"

definition toolchain_invalidate ::
  "toolchain_id \<Rightarrow> string \<Rightarrow> toolchain_registry \<Rightarrow> toolchain_registry \<times> toolchain_mutation result" where
  "toolchain_invalidate i reason r =
     (case um_find (tr_entries r) (id_value i) of
        None \<Rightarrow> (r, Inl (Status SC_not_found (''toolchain identity is not registered: '' @ id_to_string ''toolchain'' i)))
      | Some found \<Rightarrow>
          let g = ti_generation (te_identity found) in
          (r\<lparr>tr_entries := um_modify (id_value i)
               (\<lambda>e. e\<lparr>te_identity := (te_identity e)\<lparr>ti_generation := gen_next g\<rparr>, te_current := True\<rparr>) (tr_entries r)\<rparr>,
           Inr \<lparr>tm_mutated = True, tm_previous_generation = g, tm_current_generation = gen_next g,
             tm_changed_components = [], tm_removed_components = [], tm_added_components = [], tm_detail = reason\<rparr>))"

definition toolchain_find :: "toolchain_id \<Rightarrow> toolchain_registry \<Rightarrow> toolchain_identity option" where
  "toolchain_find i r = map_option te_identity (um_find (tr_entries r) (id_value i))"

definition toolchain_find_latest :: "toolchain_family \<Rightarrow> toolchain_registry \<Rightarrow> toolchain_identity option" where
  "toolchain_find_latest family r =
     foldl (\<lambda>best (key, entry). if ti_family (te_identity entry) \<noteq> family then best
       else case best of None \<Rightarrow> Some (te_identity entry)
         | Some b \<Rightarrow> if ti_id b < ti_id (te_identity entry) then Some (te_identity entry) else best)
       None (tr_entries r)"

definition toolchain_list :: "toolchain_registry \<Rightarrow> toolchain_identity list" where
  "toolchain_list r = sort_key ti_id (map (\<lambda>(key, entry). te_identity entry) (tr_entries r))"

definition toolchain_history :: "toolchain_family \<Rightarrow> toolchain_registry \<Rightarrow> toolchain_identity list" where
  "toolchain_history family r =
     rev (sort_key ti_id (filter (\<lambda>t. ti_family t = family) (map (\<lambda>(key, entry). te_identity entry) (tr_entries r))))"

definition toolchain_is_current :: "toolchain_registry \<Rightarrow> toolchain_tag referenced \<Rightarrow> bool" where
  "toolchain_is_current r reference =
     (case um_find (tr_entries r) (id_value (ref_id reference)) of
        None \<Rightarrow> False
      | Some found \<Rightarrow> te_current found \<and> ti_generation (te_identity found) = ref_gen reference)"

section \<open>Components: when a recorded binary counts as current\<close>

lemma same_file_refl [simp]: "same_file_as ln f f"
  by (simp add: same_file_as_def)

lemma same_binary_refl [simp]: "same_binary_as ln f f"
  by (simp add: same_binary_as_def)

lemma same_file_sym: "same_file_as ln a b = same_file_as ln b a"
  by (auto simp: same_file_as_def)

lemma same_binary_sym: "same_binary_as ln a b = same_binary_as ln b a"
  by (auto simp: same_binary_as_def same_file_sym)

lemma probe_hashed:
  assumes "probe_file_identity fq path True = Inr f"
  shows "fi_content_hashed f \<and> digest_of_file (fq_view fq (fi_canonical_path f)) kDefaultFileBound = Some (fi_content f)"
  using assms
  by (auto simp: probe_file_identity_def Let_def split: if_splits handle_answer.splits option.splits)

lemma revalidate_current_iff:
  "cr_current (revalidate_component fq c hashing) =
    (\<exists>f. fq_exists fq (fi_canonical_path (ci_file c)) \<and>
      probe_file_identity fq (fi_canonical_path (ci_file c)) hashing = Inr f \<and>
      same_binary_as (fq_lexically_normal fq) (ci_file c) f)"
  by (auto simp: revalidate_component_def Let_def split: sum.split)

text \<open>
  With a content digest on both sides, a component is current only when the bytes now at its path
  hash to the recorded digest: replacing the file at the same path is always noticed.
\<close>

lemma revalidate_current_content:
  assumes "cr_current (revalidate_component fq c True)" "fi_content_hashed (ci_file c)"
  shows "\<exists>f. digest_of_file (fq_view fq (fi_canonical_path f)) kDefaultFileBound = Some (fi_content (ci_file c)) \<and>
    same_file_as (fq_lexically_normal fq) (ci_file c) f \<and>
    probe_file_identity fq (fi_canonical_path (ci_file c)) True = Inr f"
proof -
  from assms(1) obtain f where f: "probe_file_identity fq (fi_canonical_path (ci_file c)) True = Inr f"
      "same_binary_as (fq_lexically_normal fq) (ci_file c) f"
    by (auto simp: revalidate_current_iff)
  from probe_hashed [OF f(1)] f assms(2) show ?thesis
    by (intro exI [of _ f]) (auto simp: same_binary_as_def split: if_splits)
qed

section \<open>What a re-probe must agree on\<close>

lemma changed_components_empty:
  assumes "changed_components ln p obs = []" "c \<in> set (ti_components p)" "find_component obs (ci_name c) = Some d"
  shows "same_binary_as ln (ci_file c) (ci_file d)"
proof (rule ccontr)
  assume "\<not> ?thesis"
  with assms(2,3) have "changed_components ln p obs \<noteq> []"
    by (auto simp: changed_components_def List.map_filter_def changed_component_def filter_empty_conv intro!: bexI [of _ c])
  with assms(1) show False by simp
qed

lemma removed_empty: "removed_components p obs = [] \<Longrightarrow> c \<in> set (ti_components p) \<Longrightarrow> find_component obs (ci_name c) \<noteq> None"
  by (auto simp: removed_components_def filter_empty_conv)

lemma added_empty: "added_components p obs = [] \<Longrightarrow> c \<in> set (ti_components obs) \<Longrightarrow> find_component p (ci_name c) \<noteq> None"
  by (auto simp: added_components_def filter_empty_conv)

lemma diff_unmutated:
  assumes "\<not> tm_mutated (diff_toolchains ln p obs)"
    and "toolchain_canonical_digest ln p \<noteq> toolchain_canonical_digest ln obs"
  shows "ti_id p = ti_id obs" "\<not> metadata_changed ln p obs"
    and "\<And>c. c \<in> set (ti_components p) \<Longrightarrow>
      \<exists>d. find_component obs (ci_name c) = Some d \<and> same_binary_as ln (ci_file c) (ci_file d)"
    and "\<And>d. d \<in> set (ti_components obs) \<Longrightarrow> find_component p (ci_name d) \<noteq> None"
proof -
  have "ti_id p = ti_id obs \<and> \<not> metadata_changed ln p obs \<and> changed_components ln p obs = [] \<and>
      removed_components p obs = [] \<and> added_components p obs = []"
    using assms by (auto simp: diff_toolchains_def Let_def split: if_splits)
  then have m: "ti_id p = ti_id obs" "\<not> metadata_changed ln p obs" "changed_components ln p obs = []"
    "removed_components p obs = []" "added_components p obs = []" by simp_all
  show "ti_id p = ti_id obs" "\<not> metadata_changed ln p obs" by fact+
  show "\<exists>d. find_component obs (ci_name c) = Some d \<and> same_binary_as ln (ci_file c) (ci_file d)"
    if "c \<in> set (ti_components p)" for c
    using removed_empty [OF m(4) that] changed_components_empty [OF m(3) that] by auto
  show "find_component p (ci_name d) \<noteq> None" if "d \<in> set (ti_components obs)" for d
    by (rule added_empty [OF m(5) that])
qed

text \<open>
  The comparison looks only at the length of the environment contract: evidence that changes a
  contract variable's value is reported as no authority-relevant change.
\<close>

lemma find_component_self:
  assumes "distinct (map (\<lambda>c. to_lower_ascii (ci_name c)) (ti_components t))" "c \<in> set (ti_components t)"
  shows "find_component t (ci_name c) = Some c"
proof -
  have "List.find (\<lambda>c'. equals_ascii_ci (ci_name c') (ci_name c)) cs = Some c"
    if "distinct (map (\<lambda>c. to_lower_ascii (ci_name c)) cs)" "c \<in> set cs" for cs
    using that
  proof (induction cs)
    case (Cons a cs)
    then show ?case by (cases "c = a") (auto simp: equals_ascii_ci_lower)
  qed simp
  with assms show ?thesis by (simp add: find_component_def)
qed

lemma find_component_contract [simp]:
  "find_component (t\<lparr>ti_environment_contract := cs\<rparr>) n = find_component t n"
  by (simp add: find_component_def)

lemma diff_ignores_contract_values:
  assumes "id_present (ti_id t)" "length cs = length (ti_environment_contract t)"
    and "distinct (map (\<lambda>c. to_lower_ascii (ci_name c)) (ti_components t))"
  shows "\<not> tm_mutated (diff_toolchains ln t (t\<lparr>ti_environment_contract := cs\<rparr>))"
proof -
  let ?o = "t\<lparr>ti_environment_contract := cs\<rparr>"
  have "changed_components ln t ?o = []"
    using find_component_self [OF assms(3)]
    by (auto simp: changed_components_def List.map_filter_def filter_empty_conv changed_component_def)
  moreover have "removed_components t ?o = []" "added_components t ?o = []"
    using find_component_self [OF assms(3)] by (auto simp: removed_components_def added_components_def filter_empty_conv)
  moreover have "\<not> metadata_changed ln t ?o"
    using assms(2) by (simp add: metadata_changed_def)
  ultimately show ?thesis
    using assms(1) by (simp add: diff_toolchains_def Let_def)
qed

section \<open>Registry invariant and generations\<close>

definition toolchain_ok :: "toolchain_registry \<Rightarrow> bool" where
  "toolchain_ok r = (id_table_ok (tr_entries r) (tr_allocator r) \<and>
     um_all (\<lambda>k e. id_value (ti_id (te_identity e)) = k \<and> te_current e \<and>
       gen_present (ti_generation (te_identity e))) (tr_entries r))"

lemma toolchain_init_ok [simp]: "toolchain_ok toolchain_registry_init"
  by (simp add: toolchain_ok_def toolchain_registry_init_def)

lemma register_toolchain_ok [crf_inv]: "toolchain_ok r \<Longrightarrow> toolchain_ok (fst (register_toolchain t r))"
  by (auto simp: register_toolchain_def toolchain_ok_def case_prod_beta id_table_emplace intro!: um_all_emplace)

lemma register_toolchain_as_ok [crf_inv]: "toolchain_ok r \<Longrightarrow> toolchain_ok (fst (register_toolchain_as i t r))"
  by (auto simp: register_toolchain_as_def toolchain_ok_def Let_def id_table_observe intro!: um_all_set)

lemma toolchain_refresh_ok [crf_inv]: "toolchain_ok r \<Longrightarrow> toolchain_ok (fst (toolchain_refresh ln t r))"
  by (auto simp: toolchain_refresh_def apply_observed_def toolchain_ok_def Let_def id_table_modify
      intro!: um_all_modify split: option.split)

lemma toolchain_invalidate_ok [crf_inv]: "toolchain_ok r \<Longrightarrow> toolchain_ok (fst (toolchain_invalidate i s r))"
  by (auto simp: toolchain_invalidate_def toolchain_ok_def Let_def id_table_modify
      intro!: um_all_modify split: option.split)

definition toolchain_generation :: "toolchain_registry \<Rightarrow> toolchain_id \<Rightarrow> toolchain_tag generation option" where
  "toolchain_generation r i = map_option ti_generation (toolchain_find i r)"

inductive toolchain_step :: "(string \<Rightarrow> string) \<Rightarrow> toolchain_registry \<Rightarrow> toolchain_registry \<Rightarrow> bool" for ln where
  register: "toolchain_step ln r (fst (register_toolchain t r))"
| refresh: "toolchain_step ln r (fst (toolchain_refresh ln t r))"
| invalidate: "toolchain_step ln r (fst (toolchain_invalidate i reason r))"

lemma toolchain_step_ok: "toolchain_step ln r r' \<Longrightarrow> toolchain_ok r \<Longrightarrow> toolchain_ok r'"
  by (induction rule: toolchain_step.induct) (auto intro: crf_inv)

lemma toolchain_step_mono:
  assumes "toolchain_step ln r r'" "toolchain_generation r i = Some g"
  shows "\<exists>g'. toolchain_generation r' i = Some g' \<and> g \<le> g'"
  using assms
proof (induction rule: toolchain_step.induct)
  case (register r t)
  then show ?case
    by (auto simp: toolchain_generation_def toolchain_find_def register_toolchain_def case_prod_beta
        um.find_emplace split: option.split)
next
  case (refresh r t)
  then show ?case
    by (auto simp: toolchain_generation_def toolchain_find_def toolchain_refresh_def apply_observed_def Let_def
        um.find_modify gen_next_le split: option.split)
next
  case (invalidate r j reason)
  then show ?case
    by (auto simp: toolchain_generation_def toolchain_find_def toolchain_invalidate_def Let_def
        um.find_modify gen_next_le split: option.split)
qed

interpretation tc: monotone_generations toolchain_generation "toolchain_step ln" toolchain_ok for ln
  by unfold_locales (auto intro: toolchain_step_ok dest: toolchain_step_mono)

lemma toolchain_is_current_iff:
  "toolchain_ok r \<Longrightarrow> toolchain_is_current r ref = tc.ref_current r ref"
proof -
  assume ok: "toolchain_ok r"
  have "um_find (tr_entries r) k = Some e \<Longrightarrow> te_current e" for k e
    using um_all_find ok by (fastforce simp: toolchain_ok_def)
  then show ?thesis
    by (auto simp: toolchain_is_current_def tc.ref_current_def toolchain_generation_def toolchain_find_def
        split: option.split)
qed

lemma refresh_mutated_generation:
  assumes "toolchain_refresh ln obs r = (r', Inr m)" "tm_mutated m"
  shows "\<exists>g. toolchain_generation r (ti_id obs) = Some g \<and> toolchain_generation r' (ti_id obs) = Some (gen_next g) \<and>
    toolchain_find (ti_id obs) r' = Some (obs\<lparr>ti_generation := gen_next g\<rparr>)"
  using assms
  by (auto simp: toolchain_refresh_def apply_observed_def Let_def toolchain_generation_def toolchain_find_def
      um.find_modify split: option.splits if_splits)

text \<open>Once evidence has changed, a reference taken before is stale in every later registry.\<close>

lemma refresh_stales_forever:
  assumes ok: "toolchain_ok r" and cur: "toolchain_is_current r ref" and id: "ref_id ref = ti_id obs"
    and res: "toolchain_refresh ln obs r = (r', Inr m)" "tm_mutated m"
    and room: "gen_value (ref_gen ref) \<noteq> kMax"
    and later: "(toolchain_step ln)\<^sup>*\<^sup>* r' r''"
  shows "\<not> toolchain_is_current r'' ref"
proof -
  have ok': "toolchain_ok r'" using toolchain_refresh_ok [OF ok, of ln obs] res(1) by simp
  have ok'': "toolchain_ok r''" by (rule tc.steps_invar [OF later ok'])
  obtain g where g: "toolchain_generation r (ti_id obs) = Some g" "toolchain_generation r' (ti_id obs) = Some (gen_next g)"
    using refresh_mutated_generation [OF res] by blast
  have "g = ref_gen ref"
    using cur g(1) id by (simp add: toolchain_is_current_iff [OF ok] tc.ref_current_def)
  then have "ref_gen ref < gen_next g" using gen_next_less [OF room] by simp
  with tc.stale_forever [OF later ok', of ref] g(2) id show ?thesis
    by (simp add: toolchain_is_current_iff [OF ok''])
qed

lemma register_then_current:
  assumes "toolchain_ok r" "counter (tr_allocator r) \<noteq> kMax" "register_toolchain t r = (r', Inr ref)"
  shows "toolchain_is_current r' ref" "toolchain_find (ref_id ref) r' = Some (t\<lparr>ti_id := ref_id ref, ti_generation := gen_initial\<rparr>)"
proof -
  have "um_find (tr_entries r) (id_value (fst (alloc_next (tr_allocator r)))) = None"
    using id_table_fresh [of "tr_entries r" "tr_allocator r"] assms(1,2) by (simp add: toolchain_ok_def)
  with assms(3) show "toolchain_is_current r' ref"
      "toolchain_find (ref_id ref) r' = Some (t\<lparr>ti_id := ref_id ref, ti_generation := gen_initial\<rparr>)"
    by (auto simp: register_toolchain_def case_prod_beta toolchain_is_current_def toolchain_find_def um.find_emplace
        split: if_splits)
qed

text \<open>\<open>find_latest\<close> returns the greatest identity of the family.\<close>

lemma find_latest_fold:
  defines "f \<equiv> \<lambda>family best (key :: u64, entry). if ti_family (te_identity entry) \<noteq> family then best
       else case best of None \<Rightarrow> Some (te_identity entry)
         | Some b \<Rightarrow> if ti_id b < ti_id (te_identity entry) then Some (te_identity entry) else best"
  shows "foldl (f family) best es = Some t \<Longrightarrow>
      (best = Some t \<or> (\<exists>(k, e) \<in> set es. te_identity e = t \<and> ti_family t = family)) \<and>
      (\<forall>b. best = Some b \<longrightarrow> ti_id b \<le> ti_id t) \<and>
      (\<forall>(k, e) \<in> set es. ti_family (te_identity e) = family \<longrightarrow> ti_id (te_identity e) \<le> ti_id t)"
proof (induction es arbitrary: best)
  case (Cons x es)
  obtain k e where x: "x = (k, e)" by (cases x)
  from Cons.IH [of "f family best x"] Cons.prems have ih:
    "(f family best x = Some t \<or> (\<exists>(k, e) \<in> set es. te_identity e = t \<and> ti_family t = family)) \<and>
      (\<forall>b. f family best x = Some b \<longrightarrow> ti_id b \<le> ti_id t) \<and>
      (\<forall>(k, e) \<in> set es. ti_family (te_identity e) = family \<longrightarrow> ti_id (te_identity e) \<le> ti_id t)"
    by simp
  have mono: "best = Some b \<Longrightarrow> \<exists>b'. f family best x = Some b' \<and> ti_id b \<le> ti_id b'" for b
    by (auto simp: f_def x)
  have new: "ti_family (te_identity e) = family \<Longrightarrow> \<exists>b'. f family best x = Some b' \<and> ti_id (te_identity e) \<le> ti_id b'"
    by (auto simp: f_def x split: option.split)
  have val: "f family best x = Some t \<Longrightarrow> best = Some t \<or> (te_identity e = t \<and> ti_family t = family)"
    by (auto simp: f_def x split: if_splits option.splits)
  show ?case using ih mono new val by (auto simp: x)
qed (simp add: f_def)

lemma find_latest_greatest:
  assumes "toolchain_find_latest family r = Some t"
  shows "ti_family t = family" "\<exists>(k, e) \<in> set (tr_entries r). te_identity e = t"
    and "\<forall>(k, e) \<in> set (tr_entries r). ti_family (te_identity e) = family \<longrightarrow> ti_id (te_identity e) \<le> ti_id t"
  using find_latest_fold [of family None "tr_entries r" t] assms
  unfolding toolchain_find_latest_def by auto

section \<open>Claims\<close>



definition sample_toolchain :: toolchain_identity where
  "sample_toolchain = \<lparr>ti_id = id_absent, ti_generation = gen_absent, ti_family = TF_msvc, ti_display_name = [],
    ti_version = [], ti_components = [], ti_target_support = [], ti_object_formats = [], ti_environment_contract = [],
    ti_toolkit_root = [], ti_sdk_root = [], ti_attributes = [], ti_standard_library_identity = [],
    ti_evidence_class = EC_synthetic, ti_evidence_digest = digest_default\<rparr>"


definition sample_queries :: file_queries where
  "sample_queries = \<lparr>fq_lexically_normal = id, fq_exists = (\<lambda>_. True), fq_is_directory = (\<lambda>_. False),
    fq_file_size = (\<lambda>_. Some 1),
    fq_handle = (\<lambda>_. Information \<lparr>hi_volume_serial = 1, hi_index_high = 0, hi_index_low = 2, hi_size_high = 0,
      hi_size_low = 1, hi_write_high = 0, hi_write_low = 0\<rparr>),
    fq_view = (\<lambda>_. \<lparr>fv_size = Some 1, fv_opens = True, fv_reads = [[7]], fv_bad = False\<rparr>)\<rparr>"

definition sample_file :: file_identity where
  "sample_file = file_identity_init\<lparr>fi_canonical_path := ''a'', fi_volume_serial_hex := hex_u32 1,
    fi_file_index_hex := hex_u64 2, fi_size_bytes := 1, fi_last_write_nanos := 0,
    fi_content := Digest (sha256_finish (sha256_update [7] sha256_init)), fi_content_hashed := True\<rparr>"

lemma sample_probe: "probe_file_identity sample_queries ''a'' True = Inr sample_file"
proof -
  have "normalize_path_string id ''a'' = ''a''" by code_simp
  then show ?thesis
    by (simp add: probe_file_identity_def sample_queries_def sample_file_def digest_of_file_def kDefaultFileBound_def
        filetime_to_unix_nanos_def kFiletimeEpochDelta_def id_def)
qed

end
