(* ===== verification/Session.thy ===== *)
theory Session
  imports Toolchain Policy Phase_Plan
begin

text \<open>
  \<open>src/core/session.cpp\<close>: compile requests, the governed state of one compilation attempt and
  the queries the runtime asks of it.
\<close>

section \<open>States\<close>

datatype session_state =
    SS_created | SS_active | SS_recovering | SS_committed | SS_failed | SS_cancelled
  | SS_retired

fun to_string_session_state :: "session_state \<Rightarrow> string" where
  "to_string_session_state SS_created = ''CREATED''"
| "to_string_session_state SS_active = ''ACTIVE''"
| "to_string_session_state SS_recovering = ''RECOVERING''"
| "to_string_session_state SS_committed = ''COMMITTED''"
| "to_string_session_state SS_failed = ''FAILED''"
| "to_string_session_state SS_cancelled = ''CANCELLED''"
| "to_string_session_state SS_retired = ''RETIRED''"

definition kSessionStates :: "session_state list" where
  "kSessionStates =
    [SS_created, SS_active, SS_recovering, SS_committed, SS_failed, SS_cancelled,
     SS_retired]"

definition parse_session_state :: "string \<Rightarrow> session_state option" where
  "parse_session_state t = List.find (\<lambda>value. equals_ascii_ci t (to_string_session_state value)) kSessionStates"

definition session_state_admits_new_authority :: "session_state \<Rightarrow> bool" where
  "session_state_admits_new_authority s = (s = SS_created \<or> s = SS_active)"

datatype recovery_state =
    RS_none | RS_required | RS_planned | RS_in_progress | RS_resolved | RS_manual_required
  | RS_unsupported

fun to_string_recovery_state :: "recovery_state \<Rightarrow> string" where
  "to_string_recovery_state RS_none = ''NONE''"
| "to_string_recovery_state RS_required = ''REQUIRED''"
| "to_string_recovery_state RS_planned = ''PLANNED''"
| "to_string_recovery_state RS_in_progress = ''IN_PROGRESS''"
| "to_string_recovery_state RS_resolved = ''RESOLVED''"
| "to_string_recovery_state RS_manual_required = ''MANUAL_REQUIRED''"
| "to_string_recovery_state RS_unsupported = ''UNSUPPORTED''"

section \<open>Requests\<close>

record compile_request =
  cq_request :: request_id
  cq_compilation :: compilation_id
  cq_compilation_generation :: "compilation_tag generation"
  cq_attempt :: attempt_id
  cq_attempt_generation :: "attempt_tag generation"
  cq_toolchain_family :: toolchain_family
  cq_toolchain :: toolchain_id
  cq_target :: target_spec
  cq_sources :: "string list"
  cq_inline_sources :: "(string \<times> string) list"
  cq_output_directory :: string
  cq_final_artifact_name :: string
  cq_policy :: policy_spec
  cq_environment :: environment_spec
  cq_stage_inputs :: bool
  cq_run_smoke_test :: bool
  cq_adapter_options :: "environment_variable list"

text \<open>
  The key of an inline source is its name followed by the digest of its contents: the separator in
  the source, \<open>"\u0000"\<close>, is a string literal whose first character is NUL, so appending it as
  a C string appends nothing.
\<close>

definition request_canonical_bytes :: "(string \<Rightarrow> string) \<Rightarrow> compile_request \<Rightarrow> string" where
  "request_canonical_bytes ln q =
     enc_text (id_to_string ''request'' (cq_request q)) @ enc_text (id_to_string ''compilation'' (cq_compilation q)) @
     enc_u64 (gen_value (cq_compilation_generation q)) @ enc_text (id_to_string ''attempt'' (cq_attempt q)) @
     enc_u64 (gen_value (cq_attempt_generation q)) @
     enc_text (to_string_toolchain_family (cq_toolchain_family q)) @
     enc_text (id_to_string ''toolchain'' (cq_toolchain q)) @
     enc_text (to_hex (target_canonical_digest (cq_target q))) @
     enc_sorted_texts (map (canonical_path_key ln) (cq_sources q)) @
     enc_sorted_texts (map (\<lambda>(name, contents). name @ to_hex (digest_of contents)) (cq_inline_sources q)) @
     enc_text (canonical_path_key ln (cq_output_directory q)) @ enc_text (cq_final_artifact_name q) @
     enc_text (to_hex (policy_canonical_digest (cq_policy q))) @
     enc_text (to_hex (environment_canonical_digest ln (cq_environment q))) @
     enc_boolean (cq_stage_inputs q) @ enc_boolean (cq_run_smoke_test q) @
     enc_sorted_variables (cq_adapter_options q)"

definition request_canonical_digest :: "(string \<Rightarrow> string) \<Rightarrow> compile_request \<Rightarrow> digest" where
  "request_canonical_digest ln q = digest_of (request_canonical_bytes ln q)"

definition request_describe :: "compile_request \<Rightarrow> string" where
  "request_describe q =
     ''request='' @ id_to_string ''request'' (cq_request q) @
     '' compilation='' @ id_to_string ''compilation'' (cq_compilation q) @ ''@'' @
     gen_to_string (cq_compilation_generation q) @
     '' attempt='' @ id_to_string ''attempt'' (cq_attempt q) @ ''@'' @ gen_to_string (cq_attempt_generation q) @
     '' toolchain-family='' @ to_string_toolchain_family (cq_toolchain_family q) @
     '' sources='' @ dec_string (length (cq_sources q) + length (cq_inline_sources q)) @
     '' target='' @ ts_triple (cq_target q)"

section \<open>Sessions\<close>

record compiler_session =
  cs_id :: session_id
  cs_generation :: "session_tag generation"
  cs_state :: session_state
  cs_recovery_state :: recovery_state
  cs_request :: request_id
  cs_compilation :: compilation_id
  cs_compilation_generation :: "compilation_tag generation"
  cs_attempt :: attempt_id
  cs_attempt_generation :: "attempt_tag generation"
  cs_toolchain :: "toolchain_tag referenced"
  cs_cooperating_toolchains :: "toolchain_tag referenced list"
  cs_target :: "target_tag referenced"
  cs_environment :: "environment_tag referenced"
  cs_policy :: "policy_tag referenced"
  cs_source :: "source_tag referenced"
  cs_sources :: "source_tag referenced list"
  cs_ir_generation :: "ir_tag generation"
  cs_adapter_name :: string
  cs_final_artifact_name :: string
  cs_adapter_options :: "environment_variable list"
  cs_plan :: phase_plan
  cs_phases :: "(u64, phase_record) umap"
  cs_current_phase :: phase_id
  cs_intermediates :: "intermediate_tag referenced list"
  cs_candidate :: final_candidate
  cs_candidate_present :: bool
  cs_recovery :: recovery_id
  cs_recovery_generation :: "recovery_tag generation"
  cs_evidence_generation :: "evidence_tag generation"
  cs_epoch :: epoch_id
  cs_failure_detail :: string
  cs_created_at_nanos :: u64
  cs_updated_at_nanos :: u64
  cs_session_retries_used :: u32
  cs_request_digest :: digest

definition plan_empty :: phase_plan where
  "plan_empty = \<lparr>pp_nodes = [], pp_index = [], pp_dependents = [], pp_order = []\<rparr>"

definition session_default :: compiler_session where
  "session_default = \<lparr>cs_id = id_absent, cs_generation = gen_initial, cs_state = SS_created,
     cs_recovery_state = RS_none, cs_request = id_absent, cs_compilation = id_absent,
     cs_compilation_generation = gen_absent, cs_attempt = id_absent, cs_attempt_generation = gen_absent,
     cs_toolchain = ref_absent, cs_cooperating_toolchains = [], cs_target = ref_absent,
     cs_environment = ref_absent, cs_policy = ref_absent, cs_source = ref_absent, cs_sources = [],
     cs_ir_generation = gen_absent, cs_adapter_name = [], cs_final_artifact_name = [], cs_adapter_options = [],
     cs_plan = plan_empty, cs_phases = [], cs_current_phase = id_absent, cs_intermediates = [],
     cs_candidate = candidate_default, cs_candidate_present = False, cs_recovery = id_absent,
     cs_recovery_generation = gen_absent, cs_evidence_generation = gen_absent, cs_epoch = id_absent,
     cs_failure_detail = [], cs_created_at_nanos = 0, cs_updated_at_nanos = 0, cs_session_retries_used = 0,
     cs_request_digest = digest_default\<rparr>"

definition find_phase :: "phase_id \<Rightarrow> compiler_session \<Rightarrow> phase_record option" where
  "find_phase i s = um_find (cs_phases s) (id_value i)"

definition has_committed :: "phase_id \<Rightarrow> compiler_session \<Rightarrow> bool" where
  "has_committed i s = (case find_phase i s of None \<Rightarrow> False | Some phase \<Rightarrow> pr_state phase = PS_committed)"

definition committed_phases :: "compiler_session \<Rightarrow> phase_id list" where
  "committed_phases s = filter (\<lambda>i. case find_phase i s of None \<Rightarrow> False | Some phase \<Rightarrow> pr_state phase = PS_committed)
     (pp_order (cs_plan s))"

definition all_mandatory_committed :: "compiler_session \<Rightarrow> bool" where
  "all_mandatory_committed s = list_all (\<lambda>nd. pn_mandatory nd \<longrightarrow> has_committed (pn_id nd) s) (pp_nodes (cs_plan s))"

definition final_phase :: "compiler_session \<Rightarrow> phase_record option" where
  "final_phase s = (if length (pp_nodes (cs_plan s)) = 0 then None else find_phase (last (pp_order (cs_plan s))) s)"

definition session_canonical_bytes :: "(string \<Rightarrow> string) \<Rightarrow> compiler_session \<Rightarrow> string" where
  "session_canonical_bytes ln s =
     enc_text (id_to_string ''session'' (cs_id s)) @ enc_u64 (gen_value (cs_generation s)) @
     enc_text (to_string_session_state (cs_state s)) @ enc_text (to_string_recovery_state (cs_recovery_state s)) @
     enc_text (id_to_string ''request'' (cs_request s)) @ enc_text (id_to_string ''compilation'' (cs_compilation s)) @
     enc_u64 (gen_value (cs_compilation_generation s)) @ enc_text (id_to_string ''attempt'' (cs_attempt s)) @
     enc_u64 (gen_value (cs_attempt_generation s)) @ enc_text (ref_to_string ''toolchain'' (cs_toolchain s)) @
     enc_sorted_texts (map (ref_to_string ''toolchain'') (cs_cooperating_toolchains s)) @
     enc_text (ref_to_string ''target'' (cs_target s)) @ enc_text (ref_to_string ''environment'' (cs_environment s)) @
     enc_text (ref_to_string ''policy'' (cs_policy s)) @ enc_text (ref_to_string ''source'' (cs_source s)) @
     concat (map (\<lambda>r. enc_text (ref_to_string ''source'' r)) (cs_sources s)) @
     enc_u64 (gen_value (cs_ir_generation s)) @ enc_text (cs_adapter_name s) @
     enc_text (to_hex (plan_canonical_digest (cs_plan s))) @
     concat (map (\<lambda>i. case find_phase i s of None \<Rightarrow> [] | Some phase \<Rightarrow> enc_text (to_hex (phase_canonical_digest phase)))
       (pp_order (cs_plan s))) @
     concat (map (\<lambda>r. enc_text (ref_to_string ''intermediate'' r)) (cs_intermediates s)) @
     enc_boolean (cs_candidate_present s) @
     (if cs_candidate_present s then enc_text (to_hex (candidate_canonical_digest ln (cs_candidate s))) else []) @
     enc_u32 (cs_session_retries_used s) @ enc_text (to_hex (cs_request_digest s)) @
     enc_text (id_to_string ''epoch'' (cs_epoch s))"

definition session_canonical_digest :: "(string \<Rightarrow> string) \<Rightarrow> compiler_session \<Rightarrow> digest" where
  "session_canonical_digest ln s = digest_of (session_canonical_bytes ln s)"

section \<open>Queries\<close>

lemma in_committed_phases: "i \<in> set (committed_phases s) \<longleftrightarrow> i \<in> set (pp_order (cs_plan s)) \<and> has_committed i s"
  by (auto simp: committed_phases_def has_committed_def)

lemma all_mandatory_committed_iff:
  "all_mandatory_committed s \<longleftrightarrow> (\<forall>nd \<in> set (pp_nodes (cs_plan s)). pn_mandatory nd \<longrightarrow> has_committed (pn_id nd) s)"
  by (simp add: all_mandatory_committed_def list_all_iff)

text \<open>A phase whose prerequisites are all committed is ready, for the plan's own test.\<close>

lemma ready_iff_prerequisites:
  assumes "plan_ok (cs_plan s)" "plan_find i (cs_plan s) = Some nd"
  shows "plan_is_ready i (committed_phases s) (cs_plan s) \<longleftrightarrow> (\<forall>d \<in> set (pn_depends_on nd). has_committed d s)"
proof -
  have "i \<in> set (pp_order (cs_plan s))"
    using assms plan_find_iff [OF assms(1), of i nd] by (auto simp: plan_ok_def)
  then obtain xs ys where "pp_order (cs_plan s) = xs @ i # ys" by (meson split_list)
  then have "\<forall>d. dep_edge (pp_nodes (cs_plan s)) d i \<longrightarrow> d \<in> set (pp_order (cs_plan s))"
    using assms(1) by (auto simp: plan_ok_def)
  then have "\<forall>d \<in> set (pn_depends_on nd). d \<in> set (pp_order (cs_plan s))"
    using assms by (auto simp: dep_edge_find)
  then show ?thesis
    using assms(2) by (auto simp: plan_is_ready_def list_all_iff in_committed_phases)
qed

end
