(* ===== verification/Recovery.thy ===== *)
theory Recovery
  imports Session
begin

text \<open>
  \<open>src/core/recovery.cpp\<close>: where a recovered session restarts, and the plan that gets it there.
  A committed phase is a legal boundary only while the authority it was bound to is unchanged.
\<close>

section \<open>Plans\<close>

datatype recovery_outcome =
    RO_none | RO_restart_phase | RO_resume_from_committed_phase | RO_revalidate_intermediate
  | RO_rebuild_intermediate | RO_restart_session | RO_cancel | RO_terminal_failure
  | RO_manual_resolution_required | RO_unsupported

fun to_string_recovery_outcome :: "recovery_outcome \<Rightarrow> string" where
  "to_string_recovery_outcome RO_none = ''NONE''"
| "to_string_recovery_outcome RO_restart_phase = ''RESTART_PHASE''"
| "to_string_recovery_outcome RO_resume_from_committed_phase = ''RESUME_FROM_COMMITTED_PHASE''"
| "to_string_recovery_outcome RO_revalidate_intermediate = ''REVALIDATE_INTERMEDIATE''"
| "to_string_recovery_outcome RO_rebuild_intermediate = ''REBUILD_INTERMEDIATE''"
| "to_string_recovery_outcome RO_restart_session = ''RESTART_SESSION''"
| "to_string_recovery_outcome RO_cancel = ''CANCEL''"
| "to_string_recovery_outcome RO_terminal_failure = ''TERMINAL_FAILURE''"
| "to_string_recovery_outcome RO_manual_resolution_required = ''MANUAL_RESOLUTION_REQUIRED''"
| "to_string_recovery_outcome RO_unsupported = ''UNSUPPORTED''"

definition kRecoveryOutcomes :: "recovery_outcome list" where
  "kRecoveryOutcomes =
    [RO_none, RO_restart_phase, RO_resume_from_committed_phase,
     RO_revalidate_intermediate, RO_rebuild_intermediate, RO_restart_session, RO_cancel,
     RO_terminal_failure, RO_manual_resolution_required, RO_unsupported]"

definition parse_recovery_outcome :: "string \<Rightarrow> recovery_outcome option" where
  "parse_recovery_outcome t =
     List.find (\<lambda>value. equals_ascii_ci t (to_string_recovery_outcome value)) kRecoveryOutcomes"

record recovery_step =
  st_outcome :: recovery_outcome
  st_phase :: phase_id
  st_reason :: string
  st_requires_toolchain_revalidation :: bool
  st_requires_environment_revalidation :: bool
  st_requires_intermediate_revalidation :: bool
  st_affected_artifacts :: "intermediate_tag referenced list"

definition recovery_step_default :: recovery_step where
  "recovery_step_default = \<lparr>st_outcome = RO_none, st_phase = id_absent, st_reason = [],
     st_requires_toolchain_revalidation = False, st_requires_environment_revalidation = False,
     st_requires_intermediate_revalidation = False, st_affected_artifacts = []\<rparr>"

record recovery_plan =
  rp_id :: recovery_id
  rp_generation :: "recovery_tag generation"
  rp_session :: "session_tag referenced"
  rp_headline :: recovery_outcome
  rp_steps :: "recovery_step list"
  rp_legal :: bool
  rp_requires_operator :: bool
  rp_rationale :: string

definition recovery_plan_default :: recovery_plan where
  "recovery_plan_default = \<lparr>rp_id = id_absent, rp_generation = gen_absent, rp_session = ref_absent,
     rp_headline = RO_none, rp_steps = [], rp_legal = False, rp_requires_operator = False, rp_rationale = []\<rparr>"

definition step_canonical_bytes :: "recovery_step \<Rightarrow> string" where
  "step_canonical_bytes s =
     enc_text (to_string_recovery_outcome (st_outcome s)) @ enc_text (id_to_string ''phase'' (st_phase s)) @
     enc_text (st_reason s) @ enc_boolean (st_requires_toolchain_revalidation s) @
     enc_boolean (st_requires_environment_revalidation s) @ enc_boolean (st_requires_intermediate_revalidation s) @
     enc_sorted_texts (map (ref_to_string ''intermediate'') (st_affected_artifacts s))"

definition recovery_plan_digest :: "recovery_plan \<Rightarrow> digest" where
  "recovery_plan_digest p =
     digest_of (enc_text (id_to_string ''recovery'' (rp_id p)) @ enc_u64 (gen_value (rp_generation p)) @
       enc_text (ref_to_string ''session'' (rp_session p)) @ enc_text (to_string_recovery_outcome (rp_headline p)) @
       enc_boolean (rp_legal p) @ enc_boolean (rp_requires_operator p) @ enc_text (rp_rationale p) @
       concat (map step_canonical_bytes (rp_steps p)))"

definition recovery_plan_describe :: "recovery_plan \<Rightarrow> string" where
  "recovery_plan_describe p =
     to_string_recovery_outcome (rp_headline p) @ '' legal='' @ (if rp_legal p then ''yes'' else ''no'') @
     '' steps='' @ dec_string (length (rp_steps p)) @
     (if rp_rationale p \<noteq> [] then '' rationale='' @ rp_rationale p else [])"

section \<open>The restart boundary\<close>

text \<open>The authority a committed record was bound to, as the boundary test rebuilds it.\<close>

definition boundary_authority :: "phase_record \<Rightarrow> phase_authority" where
  "boundary_authority ph = phase_authority_default\<lparr>
     au_session_generation := pr_session_generation ph,
     au_compilation_generation := pr_compilation_generation ph,
     au_attempt_generation := pr_attempt_generation ph,
     au_phase_generation := pr_generation ph,
     au_toolchain := pr_toolchain ph,
     au_target := pr_target ph,
     au_environment := pr_environment ph,
     au_policy := pr_policy ph,
     au_source := pr_source ph,
     au_ir_generation := pr_ir_generation ph,
     au_lease := pr_lease ph\<rparr>"

definition boundary_observation :: "authority_observation \<Rightarrow> phase_record \<Rightarrow> authority_observation" where
  "boundary_observation authority ph = authority\<lparr>
     ob_phase_generation := pr_generation ph,
     ob_attempt_generation := pr_attempt_generation ph,
     ob_session_generation := pr_session_generation ph\<rparr>"

definition find_record :: "phase_id \<Rightarrow> phase_record list \<Rightarrow> phase_record option" where
  "find_record i phases = List.find (\<lambda>ph. pr_id ph = i) phases"

text \<open>The loop: one call per phase of the topological order.\<close>

fun restart_scan ::
  "phase_plan \<Rightarrow> phase_record list \<Rightarrow> authority_observation \<Rightarrow> phase_id list \<Rightarrow> phase_id result" where
  "restart_scan plan phases authority [] =
     Inl (Status SC_not_found ''every mandatory phase is already committed'')"
| "restart_scan plan phases authority (i # ids) =
     (case plan_find i plan of
        None \<Rightarrow> restart_scan plan phases authority ids
      | Some node \<Rightarrow>
          if \<not> pn_mandatory node then restart_scan plan phases authority ids
          else (case find_record i phases of
              None \<Rightarrow> Inr i
            | Some found \<Rightarrow>
                if pr_state found \<noteq> PS_committed then Inr i
                else if \<not> authority_verdict_is_current
                    (compare_authority (boundary_authority found) (boundary_observation authority found))
                  then Inr i
                else restart_scan plan phases authority ids))"

definition recovery_restart_phase ::
  "phase_plan \<Rightarrow> phase_record list \<Rightarrow> authority_observation \<Rightarrow> phase_id result" where
  "recovery_restart_phase plan phases authority = restart_scan plan phases authority (pp_order plan)"

section \<open>The planner\<close>

record recovery_inputs =
  rin_plan :: "phase_plan option"
  rin_phases :: "phase_record list option"
  rin_artifacts :: "artifact_registry option"
  rin_authority :: authority_observation
  rin_after_runtime_restart :: bool
  rin_epoch_advanced :: bool

definition suspect_outputs ::
  "artifact_registry \<Rightarrow> phase_record list \<Rightarrow> intermediate_tag referenced list" where
  "suspect_outputs artifacts phases =
     concat (map (\<lambda>ph. if pr_state ph \<noteq> PS_committed then []
       else filter (\<lambda>out. case artifact_find (ref_id out) artifacts of
         None \<Rightarrow> True | Some a \<Rightarrow> ia_authority a \<noteq> AU_authoritative) (pr_outputs ph)) phases)"

definition restart_step_for :: "bool \<Rightarrow> phase_record list \<Rightarrow> phase_id \<Rightarrow> recovery_step" where
  "restart_step_for after_restart phases phase =
     (let base = recovery_step_default\<lparr>st_phase := phase,
            st_reason := (if after_restart
              then ''runtime restart: in-flight process state is not resumable, so the phase restarts from the last authoritative boundary''
              else ''phase is not committed under current authority'')\<rparr>
      in case find_record phase phases of
           None \<Rightarrow> base\<lparr>st_outcome := RO_restart_phase\<rparr>
         | Some found \<Rightarrow>
             if pr_state found = PS_committed
               then base\<lparr>st_outcome := RO_rebuild_intermediate, st_affected_artifacts := pr_outputs found,
                 st_reason := ''phase committed under an authority generation that has since moved; its outputs are revoked and must be rebuilt''\<rparr>
             else if pr_state found = PS_failed \<and> pr_failure found = FC_unknown_outcome
               then base\<lparr>st_outcome := RO_manual_resolution_required,
                 st_reason := ''previous attempt outcome is UNKNOWN; a human must decide''\<rparr>
             else base\<lparr>st_outcome := RO_restart_phase\<rparr>)"

definition recovery_planner_plan :: "recovery_inputs \<Rightarrow> recovery_plan" where
  "recovery_planner_plan inputs =
     (case (rin_plan inputs, rin_phases inputs, rin_artifacts inputs) of
        (Some pplan, Some phases, Some artifacts) \<Rightarrow>
          (let suspect = suspect_outputs artifacts phases;
               restart = recovery_restart_phase pplan phases (rin_authority inputs);
               step = recovery_step_default\<lparr>
                 st_requires_toolchain_revalidation := rin_after_runtime_restart inputs,
                 st_requires_environment_revalidation := rin_after_runtime_restart inputs,
                 st_outcome := RO_revalidate_intermediate,
                 st_requires_intermediate_revalidation := True,
                 st_affected_artifacts := suspect,
                 st_reason := ''committed intermediates must be re-hashed before they may feed a later phase''\<rparr>;
               p = (if suspect \<noteq> []
                 then recovery_plan_default\<lparr>rp_steps := [step], rp_headline := RO_revalidate_intermediate, rp_legal := True\<rparr>
                 else recovery_plan_default)
           in case restart of
                Inl _ \<Rightarrow>
                  if rp_steps p = []
                  then p\<lparr>rp_headline := RO_none, rp_legal := True,
                         rp_rationale := ''every mandatory phase is committed under current authority''\<rparr>
                  else p\<lparr>rp_rationale := ''revalidation is required before the session can be considered complete''\<rparr>
              | Inr phase \<Rightarrow>
                  let restart_step = restart_step_for (rin_after_runtime_restart inputs) phases phase;
                      p1 = p\<lparr>rp_steps := rp_steps p @ [restart_step],
                        rp_requires_operator := (st_outcome restart_step = RO_manual_resolution_required)\<rparr>;
                      p2 = (if \<not> rp_legal p1
                        then p1\<lparr>rp_headline := st_outcome restart_step,
                               rp_legal := (st_outcome restart_step \<noteq> RO_manual_resolution_required \<and>
                                 st_outcome restart_step \<noteq> RO_unsupported)\<rparr>
                        else p1)
                  in p2\<lparr>rp_rationale := ''restart boundary determined by the first non-committed mandatory phase''\<rparr>)
      | _ \<Rightarrow> recovery_plan_default\<lparr>rp_headline := RO_manual_resolution_required,
               rp_rationale := ''recovery inputs are incomplete'', rp_requires_operator := True\<rparr>)"

fun revalidate_refs ::
  "(string \<Rightarrow> bool) \<Rightarrow> (string \<Rightarrow> digest option) \<Rightarrow> intermediate_tag referenced list \<Rightarrow> artifact_registry \<Rightarrow> nat \<Rightarrow>
   artifact_registry \<times> nat result" where
  "revalidate_refs exists hash [] artifacts changed = (artifacts, Inr changed)"
| "revalidate_refs exists hash (reference # refs) artifacts changed =
     (case revalidate exists hash (ref_id reference) artifacts of
        (artifacts', Inl e) \<Rightarrow> (artifacts', Inl e)
      | (artifacts', Inr outcome) \<Rightarrow>
          revalidate_refs exists hash refs artifacts' (if outcome \<noteq> AS_valid then Suc changed else changed))"

fun revalidate_steps ::
  "(string \<Rightarrow> bool) \<Rightarrow> (string \<Rightarrow> digest option) \<Rightarrow> recovery_step list \<Rightarrow> artifact_registry \<Rightarrow> nat \<Rightarrow>
   artifact_registry \<times> nat result" where
  "revalidate_steps exists hash [] artifacts changed = (artifacts, Inr changed)"
| "revalidate_steps exists hash (step # steps) artifacts changed =
     (if \<not> st_requires_intermediate_revalidation step then revalidate_steps exists hash steps artifacts changed
      else case revalidate_refs exists hash (st_affected_artifacts step) artifacts changed of
        (artifacts', Inl e) \<Rightarrow> (artifacts', Inl e)
      | (artifacts', Inr changed') \<Rightarrow> revalidate_steps exists hash steps artifacts' changed')"

definition apply_revalidation ::
  "(string \<Rightarrow> bool) \<Rightarrow> (string \<Rightarrow> digest option) \<Rightarrow> recovery_plan \<Rightarrow> artifact_registry \<Rightarrow> artifact_registry \<times> nat result" where
  "apply_revalidation exists hash p artifacts = revalidate_steps exists hash (rp_steps p) artifacts 0"

section \<open>The boundary is the first phase that is not safely committed\<close>

text \<open>A legal boundary: optional, or committed under authority that still holds.\<close>

definition legal_boundary :: "phase_plan \<Rightarrow> phase_record list \<Rightarrow> authority_observation \<Rightarrow> phase_id \<Rightarrow> bool" where
  "legal_boundary plan phases authority i =
     (\<forall>node. plan_find i plan = Some node \<longrightarrow> pn_mandatory node \<longrightarrow>
       (\<exists>ph. find_record i phases = Some ph \<and> pr_state ph = PS_committed \<and>
         authority_current (boundary_authority ph) (boundary_observation authority ph)))"

lemma restart_scan_Cons:
  "restart_scan plan phases authority (x # ids) =
    (if legal_boundary plan phases authority x then restart_scan plan phases authority ids else Inr x)"
  by (auto simp: legal_boundary_def authority_verdict_is_current_def compare_authority_valid split: option.split)

declare restart_scan.simps(2) [simp del]

lemma restart_scan_Inr:
  "restart_scan plan phases authority ids = Inr i \<longleftrightarrow>
    (\<exists>xs ys. ids = xs @ i # ys \<and> (\<forall>x \<in> set xs. legal_boundary plan phases authority x) \<and>
      \<not> legal_boundary plan phases authority i)"
proof (induction ids)
  case (Cons x ids)
  let ?L = "legal_boundary plan phases authority"
  have split: "(\<exists>xs ys. x # ids = xs @ i # ys \<and> (\<forall>x \<in> set xs. ?L x) \<and> \<not> ?L i) \<longleftrightarrow>
      (if ?L x then \<exists>xs ys. ids = xs @ i # ys \<and> (\<forall>x \<in> set xs. ?L x) \<and> \<not> ?L i else x = i)"
    by (auto simp: Cons_eq_append_conv) (metis set_ConsD)+
  show ?case unfolding split restart_scan_Cons using Cons by simp
qed simp

lemma restart_scan_Inl:
  "(\<exists>e. restart_scan plan phases authority ids = Inl e) \<longleftrightarrow> (\<forall>x \<in> set ids. legal_boundary plan phases authority x)"
  by (induction ids) (simp_all add: restart_scan_Cons)

text \<open>What the plan says is what the state is.\<close>

lemma planner_none_iff:
  assumes "rin_plan inputs = Some pplan" "rin_phases inputs = Some phases" "rin_artifacts inputs = Some artifacts"
  shows "rp_headline (recovery_planner_plan inputs) = RO_none \<longleftrightarrow>
    suspect_outputs artifacts phases = [] \<and>
    (\<forall>i \<in> set (pp_order pplan). legal_boundary pplan phases (rin_authority inputs) i)"
proof -
  have "st_outcome (restart_step_for b phases i) \<noteq> RO_none" for b i
    by (simp add: restart_step_for_def Let_def split: option.split)
  then show ?thesis
    unfolding restart_scan_Inl [of pplan phases "rin_authority inputs" "pp_order pplan", symmetric]
    by (auto simp: recovery_planner_plan_def assms Let_def recovery_restart_phase_def recovery_plan_default_def
        split: sum.split)
qed

lemma suspect_outputs_iff:
  "out \<in> set (suspect_outputs artifacts phases) \<longleftrightarrow>
    (\<exists>ph \<in> set phases. pr_state ph = PS_committed \<and> out \<in> set (pr_outputs ph) \<and>
      (\<forall>a. artifact_find (ref_id out) artifacts = Some a \<longrightarrow> ia_authority a \<noteq> AU_authoritative))"
  by (auto simp: suspect_outputs_def split: option.splits)

text \<open>Every restart step names the first phase that is not a legal boundary, and a phase whose
  process was in flight when the runtime stopped is restarted, never resumed.\<close>

lemma planner_restart_step:
  assumes "rin_plan inputs = Some pplan" "rin_phases inputs = Some phases" "rin_artifacts inputs = Some artifacts"
    and "step \<in> set (rp_steps (recovery_planner_plan inputs))" "\<not> st_requires_intermediate_revalidation step"
  shows "recovery_restart_phase pplan phases (rin_authority inputs) = Inr (st_phase step)"
    and "st_outcome step \<in> {RO_restart_phase, RO_rebuild_intermediate, RO_manual_resolution_required}"
    and "st_outcome step = RO_rebuild_intermediate \<longleftrightarrow>
      (\<exists>ph. find_record (st_phase step) phases = Some ph \<and> pr_state ph = PS_committed)"
proof -
  have rs: "st_phase (restart_step_for b phases i) = i"
    "st_outcome (restart_step_for b phases i) \<in> {RO_restart_phase, RO_rebuild_intermediate, RO_manual_resolution_required}"
    "st_outcome (restart_step_for b phases i) = RO_rebuild_intermediate \<longleftrightarrow>
      (\<exists>ph. find_record i phases = Some ph \<and> pr_state ph = PS_committed)" for b i
    by (auto simp: restart_step_for_def Let_def split: option.split)
  have "\<exists>i. recovery_restart_phase pplan phases (rin_authority inputs) = Inr i \<and>
      step = restart_step_for (rin_after_runtime_restart inputs) phases i"
    using assms(4,5)
    by (auto simp: recovery_planner_plan_def assms(1-3) Let_def recovery_plan_default_def split: sum.splits if_splits)
  then obtain i where i: "recovery_restart_phase pplan phases (rin_authority inputs) = Inr i"
    "step = restart_step_for (rin_after_runtime_restart inputs) phases i" by blast
  show "recovery_restart_phase pplan phases (rin_authority inputs) = Inr (st_phase step)"
    "st_outcome step \<in> {RO_restart_phase, RO_rebuild_intermediate, RO_manual_resolution_required}"
    "st_outcome step = RO_rebuild_intermediate \<longleftrightarrow>
      (\<exists>ph. find_record (st_phase step) phases = Some ph \<and> pr_state ph = PS_committed)"
    unfolding i(2) rs(1) by (rule i(1), rule rs(2), rule rs(3))
qed

text \<open>
  A phase committed under a session with cooperating toolchains is never a legal boundary: the
  binding the test rebuilds leaves the cooperating toolchains out.
\<close>

lemma cooperating_never_boundary:
  assumes "ob_cooperating_toolchains authority \<noteq> []" "plan_find i plan = Some node" "pn_mandatory node"
  shows "\<not> legal_boundary plan phases authority i"
  using assms
  by (auto simp: legal_boundary_def authority_current_def boundary_authority_def boundary_observation_def
      phase_authority_default_def)

text \<open>When both a suspect output and an unknown outcome exist, the plan is marked legal although it
  also requires an operator.\<close>

lemma planner_legal_with_operator:
  assumes "rin_plan inputs = Some pplan" "rin_phases inputs = Some phases" "rin_artifacts inputs = Some artifacts"
    and "suspect_outputs artifacts phases \<noteq> []"
    and "recovery_restart_phase pplan phases (rin_authority inputs) = Inr i"
    and "find_record i phases = Some ph" "pr_state ph = PS_failed" "pr_failure ph = FC_unknown_outcome"
  shows "rp_legal (recovery_planner_plan inputs)" "rp_requires_operator (recovery_planner_plan inputs)"
  using assms by (simp_all add: recovery_planner_plan_def restart_step_for_def Let_def recovery_plan_default_def)

section \<open>Revalidation keeps the artifact invariant\<close>

lemma revalidate_refs_ok:
  "artifact_ok r \<Longrightarrow> artifact_ok (fst (revalidate_refs ex hs refs r n))"
proof (induction refs arbitrary: r n)
  case (Cons ref refs)
  have "artifact_ok (fst (revalidate ex hs (ref_id ref) r))" using Cons.prems by (rule revalidate_ok)
  then show ?case
    by (cases "revalidate ex hs (ref_id ref) r"; cases "snd (revalidate ex hs (ref_id ref) r)")
      (auto simp: Cons.IH)
qed simp

lemma apply_revalidation_ok:
  "artifact_ok r \<Longrightarrow> artifact_ok (fst (apply_revalidation ex hs p r))"
proof -
  have "artifact_ok r \<Longrightarrow> artifact_ok (fst (revalidate_steps ex hs steps r n))" for steps n
  proof (induction steps arbitrary: r n)
    case (Cons step steps)
    have "artifact_ok (fst (revalidate_refs ex hs (st_affected_artifacts step) r n))"
      using Cons.prems by (rule revalidate_refs_ok)
    with Cons show ?case
      by (cases "revalidate_refs ex hs (st_affected_artifacts step) r n";
          cases "snd (revalidate_refs ex hs (st_affected_artifacts step) r n)") auto
  qed simp
  then show "artifact_ok r \<Longrightarrow> artifact_ok (fst (apply_revalidation ex hs p r))"
    by (simp add: apply_revalidation_def)
qed

section \<open>Claims\<close>

text \<open>
  Recovery restarts at the first phase of the plan's order that is not a legal boundary:
  everything before it is optional, or committed under authority that still holds; and it finds no
  restart exactly when every phase is such a boundary.
\<close>

lemma restart_at_first_broken_boundary:
  "(recovery_restart_phase plan phases authority = Inr i \<longleftrightarrow>
    (\<exists>xs ys. pp_order plan = xs @ i # ys \<and> list_all (legal_boundary plan phases authority) xs \<and>
      \<not> legal_boundary plan phases authority i)) \<and>
   ((\<exists>e. recovery_restart_phase plan phases authority = Inl e) \<longleftrightarrow>
     list_all (legal_boundary plan phases authority) (pp_order plan))"
  unfolding recovery_restart_phase_def restart_scan_Inr restart_scan_Inl list_all_iff by simp

text \<open>
  With complete inputs the planner reports that nothing is to be done exactly when no
  committed output has lost its authority and every phase of the order is a legal boundary.
\<close>

lemma recovery_none_iff:
  assumes "rin_plan inputs = Some pplan" "rin_phases inputs = Some phases" "rin_artifacts inputs = Some artifacts"
  shows "rp_headline (recovery_planner_plan inputs) = RO_none \<longleftrightarrow>
    suspect_outputs artifacts phases = [] \<and>
    list_all (legal_boundary pplan phases (rin_authority inputs)) (pp_order pplan)"
  using planner_none_iff [OF assms] by (simp add: list_all_iff)

definition sample_inputs :: recovery_inputs where
  "sample_inputs = \<lparr>rin_plan = Some \<lparr>pp_nodes = sample_nodes, pp_index = [(1, 0), (2, 1), (3, 2)],
     pp_dependents = [[StrongId 2, StrongId 3], [StrongId 3], []], pp_order = [StrongId 1, StrongId 2, StrongId 3]\<rparr>,
     rin_phases = Some [], rin_artifacts = Some artifact_registry_init, rin_authority = observation_default,
     rin_after_runtime_restart = True, rin_epoch_advanced = False\<rparr>"

end
