(* ===== verification/Diagnostics.thy ===== *)
theory Diagnostics
  imports Target
begin

text \<open>
  \<open>src/core/diagnostics.cpp\<close>: normalisation of compiler output into diagnostics, the severity
  tally, and the store of diagnostic sets.
\<close>

section \<open>Diagnostics\<close>

datatype diagnostic_severity =
    DS_info | DS_warning | DS_error | DS_fatal | DS_internal | DS_unknown

fun to_string_severity :: "diagnostic_severity \<Rightarrow> string" where
  "to_string_severity DS_info = ''INFO''"
| "to_string_severity DS_warning = ''WARNING''"
| "to_string_severity DS_error = ''ERROR''"
| "to_string_severity DS_fatal = ''FATAL''"
| "to_string_severity DS_internal = ''INTERNAL''"
| "to_string_severity DS_unknown = ''UNKNOWN''"

definition kSeverities :: "diagnostic_severity list" where
  "kSeverities =
    [DS_info, DS_warning, DS_error, DS_fatal, DS_internal, DS_unknown]"

definition parse_diagnostic_severity :: "string \<Rightarrow> diagnostic_severity option" where
  "parse_diagnostic_severity t = List.find (\<lambda>value. equals_ascii_ci t (to_string_severity value)) kSeverities"

record diagnostic =
  dg_severity :: diagnostic_severity
  dg_code :: string
  dg_message :: string
  dg_file :: string
  dg_line :: u32
  dg_column :: u32
  dg_origin :: string
  dg_raw :: string

definition diagnostic_default :: diagnostic where
  "diagnostic_default = \<lparr>dg_severity = DS_unknown, dg_code = [], dg_message = [], dg_file = [], dg_line = 0,
     dg_column = 0, dg_origin = [], dg_raw = []\<rparr>"

definition diagnostic_canonical_digest :: "diagnostic \<Rightarrow> digest" where
  "diagnostic_canonical_digest d =
     digest_of (enc_text (to_string_severity (dg_severity d)) @ enc_text (dg_code d) @ enc_text (dg_message d) @
       enc_text (dg_file d) @ enc_u32 (dg_line d) @ enc_u32 (dg_column d) @ enc_text (dg_origin d))"

record diagnostic_set =
  dx_id :: diagnostic_set_id
  dx_generation :: "diagnostics_tag generation"
  dx_invocation :: "invocation_tag referenced"
  dx_phase :: "phase_tag referenced"
  dx_toolchain :: "toolchain_tag referenced"
  dx_target :: "target_tag referenced"
  dx_entries :: "diagnostic list"
  dx_normalized :: bool
  dx_truncated :: bool
  dx_raw_stdout_bytes :: u64
  dx_raw_stderr_bytes :: u64
  dx_dropped_stdout_bytes :: u64
  dx_dropped_stderr_bytes :: u64
  dx_raw_stdout_tail :: string
  dx_raw_stderr_tail :: string
  dx_exit_code :: int
  dx_process_crashed :: bool
  dx_error_count :: u32
  dx_warning_count :: u32

definition kMaxEntries :: nat where "kMaxEntries = 4096"
definition kMaxMessageBytes :: nat where "kMaxMessageBytes = 8192"
definition kMaxRawTailBytes :: nat where "kMaxRawTailBytes = 16384"
definition kMaxSets :: nat where "kMaxSets = 16384"

definition diagnostic_set_digest :: "diagnostic_set \<Rightarrow> digest" where
  "diagnostic_set_digest s =
     digest_of (enc_text (id_to_string ''diagnostics'' (dx_id s)) @ enc_u64 (gen_value (dx_generation s)) @
       enc_text (ref_to_string ''invocation'' (dx_invocation s)) @ enc_text (ref_to_string ''phase'' (dx_phase s)) @
       enc_text (ref_to_string ''toolchain'' (dx_toolchain s)) @ enc_text (ref_to_string ''target'' (dx_target s)) @
       enc_boolean (dx_normalized s) @ enc_boolean (dx_truncated s) @ enc_u64 (dx_raw_stdout_bytes s) @
       enc_u64 (dx_raw_stderr_bytes s) @ enc_u64 (dx_dropped_stdout_bytes s) @ enc_u64 (dx_dropped_stderr_bytes s) @
       enc_i32 (dx_exit_code s) @ enc_boolean (dx_process_crashed s) @ enc_u32 (dx_error_count s) @
       enc_u32 (dx_warning_count s) @
       concat (map (\<lambda>d. enc_text (to_hex (diagnostic_canonical_digest d))) (dx_entries s)) @
       enc_text (dx_raw_stdout_tail s) @ enc_text (dx_raw_stderr_tail s))"

definition normalized_bytes :: "diagnostic list \<Rightarrow> string" where
  "normalized_bytes entries =
     enc_u64 (of_nat (length entries)) @
     concat (map enc_text (sort (map (\<lambda>d. to_hex (diagnostic_canonical_digest d)) entries)))"

definition normalized_digest :: "diagnostic_set \<Rightarrow> digest" where
  "normalized_digest s = digest_of (normalized_bytes (dx_entries s))"

section \<open>Parsing compiler output\<close>

datatype dialect = Dialect_msvc | Dialect_nvcc

definition kSeverityWords :: "(string \<times> diagnostic_severity) list" where
  "kSeverityWords =
     [(''fatal error'', DS_fatal), (''internal error'', DS_internal), (''fatal'', DS_fatal), (''error'', DS_error),
      (''warning'', DS_warning), (''note'', DS_info), (''info'', DS_info), (''remark'', DS_info)]"

definition severity_word_at :: "string \<Rightarrow> nat \<Rightarrow> string \<Rightarrow> bool" where
  "severity_word_at line position word =
     (let end = position + length word in
      \<not> end > length line \<and> equals_ascii_ci (take (length word) (drop position line)) word \<and>
      \<not> (end < length line \<and> (is_alnum (line ! end) \<or> line ! end = CHR ''_'')))"

definition is_severity_word :: "string \<Rightarrow> nat \<Rightarrow> (nat \<times> diagnostic_severity) option" where
  "is_severity_word line position =
     map_option (\<lambda>(word, severity). (length word, severity))
       (List.find (\<lambda>(word, severity). severity_word_at line position word) kSeverityWords)"

text \<open>The first cursor position that starts a severity word at the line's start or after a separator.\<close>

definition severity_cursor :: "string \<Rightarrow> nat \<Rightarrow> bool" where
  "severity_cursor line cursor =
     (is_severity_word line cursor \<noteq> None \<and>
      (cursor = 0 \<or> line ! (cursor - 1) = CHR '' '' \<or> line ! (cursor - 1) = CHR '':''))"

definition locate_severity :: "string \<Rightarrow> (nat \<times> nat \<times> diagnostic_severity) option" where
  "locate_severity line =
     (case List.find (severity_cursor line) [0..<length line] of
        None \<Rightarrow> None
      | Some cursor \<Rightarrow> map_option (\<lambda>(len, severity). (cursor, len, severity)) (is_severity_word line cursor))"

text \<open>
  \<open>strtoul\<close> on a part that consists of digits between blanks; \<open>unsigned long\<close> has 32 bits in the
  Windows builds and the conversion saturates.
\<close>

definition strtoul :: "string \<Rightarrow> u32" where
  "strtoul t = of_nat (min (2 ^ 32 - 1) (digits_value (takeWhile is_digit (dropWhile ascii_is_space t))))"

definition find_last_char :: "char \<Rightarrow> string \<Rightarrow> nat option" where
  "find_last_char c t =
     (let k = length (takeWhile (\<lambda>x. x \<noteq> c) (rev t)) in if k < length t then Some (length t - 1 - k) else None)"

definition location_numeric :: "string \<Rightarrow> bool" where
  "location_numeric inner =
     (inner \<noteq> [] \<and> list_all (\<lambda>part. trim_ascii part \<noteq> [] \<and> list_all is_digit (trim_ascii part))
       (split_ascii inner CHR '',''))"

definition location_plain :: "string \<Rightarrow> diagnostic \<Rightarrow> diagnostic" where
  "location_plain head d = (if length head > 512 then d else d\<lparr>dg_file := head\<rparr>)"

definition parse_location :: "string \<Rightarrow> diagnostic \<Rightarrow> diagnostic" where
  "parse_location t d =
     (let head = rev (dropWhile (\<lambda>c. c = CHR '' '' \<or> c = CHR '':'') (rev (trim_ascii t))) in
      if head = [] then d
      else if last head = CHR '')'' then
        (case find_last_char CHR ''('' head of
           None \<Rightarrow> location_plain head d
         | Some open_at \<Rightarrow>
             let inner = take (length head - open_at - 2) (drop (open_at + 1) head);
                 parts = split_ascii inner CHR '','' in
             if location_numeric inner
             then d\<lparr>dg_file := take open_at head, dg_line := strtoul (parts ! 0),
                    dg_column := (if length parts > 1 then strtoul (parts ! 1) else dg_column d)\<rparr>
             else location_plain head d)
      else location_plain head d)"

definition parse_code :: "string \<Rightarrow> string" where
  "parse_code t =
     (let token = takeWhile is_alnum (trim_ascii t) in
      if token = [] \<or> length token > 16 then []
      else if \<not> list_ex is_digit token then []
      else if \<not> list_ex is_alpha token \<and> length token < 4 then []
      else token)"

text \<open>\<open>if\<close> and \<open>while\<close> a colon is in front, drop it and trim.\<close>

definition skip_colon :: "string \<Rightarrow> string" where
  "skip_colon t = (if t \<noteq> [] \<and> hd t = CHR '':'' then trim_ascii (tl t) else t)"

lemma length_trim_ascii: "length (trim_ascii t) \<le> length t"
  unfolding trim_ascii_def by (metis length_dropWhile_le length_rev order_trans)

function skip_colons :: "string \<Rightarrow> string" where
  "skip_colons t = (if t \<noteq> [] \<and> hd t = CHR '':'' then skip_colons (trim_ascii (tl t)) else t)"
  by auto
termination
proof (relation "measure length")
  show "(trim_ascii (tl t), t) \<in> measure length" if "t \<noteq> [] \<and> hd t = CHR '':''" for t
    using that length_trim_ascii [of "tl t"] by (cases t) auto
qed simp

declare skip_colons.simps [simp del]

definition parse_message :: "dialect \<Rightarrow> string \<Rightarrow> diagnostic \<Rightarrow> diagnostic" where
  "parse_message dialect rest d =
     (case dialect of
        Dialect_msvc \<Rightarrow>
          (let trimmed = skip_colon (trim_ascii rest); code = parse_code trimmed in
           if code \<noteq> [] then d\<lparr>dg_code := code, dg_message := skip_colon (trim_ascii (drop (length code) trimmed))\<rparr>
           else d\<lparr>dg_message := trimmed\<rparr>)
      | Dialect_nvcc \<Rightarrow>
          (let trimmed = skip_colons (trim_ascii rest); code = parse_code trimmed in
           if code \<noteq> [] \<and> length code > 4
           then d\<lparr>dg_code := code, dg_message := skip_colons (trim_ascii (drop (length code) trimmed))\<rparr>
           else d\<lparr>dg_message := trimmed\<rparr>))"

definition strip_cr :: "string \<Rightarrow> string" where
  "strip_cr line = (if line \<noteq> [] \<and> last line = CHR 0x0D then butlast line else line)"

definition parse_line :: "dialect \<Rightarrow> string \<Rightarrow> string \<Rightarrow> diagnostic" where
  "parse_line dialect origin full =
     (let line = (if length full > kMaxMessageBytes then take kMaxMessageBytes full else full);
          d = diagnostic_default\<lparr>dg_origin := origin, dg_raw := line\<rparr> in
      case locate_severity line of
        None \<Rightarrow> d\<lparr>dg_severity := DS_unknown, dg_message := trim_ascii line\<rparr>
      | Some (severity_at, severity_length, severity) \<Rightarrow>
          parse_message dialect (drop (severity_at + severity_length) line)
            (parse_location (take severity_at line) (d\<lparr>dg_severity := severity\<rparr>)))"

text \<open>The lines of an output that are not blank, each without its carriage return.\<close>

definition output_lines :: "string \<Rightarrow> string list" where
  "output_lines output = filter (\<lambda>line. trim_ascii line \<noteq> []) (map strip_cr (split_ascii output CHR 0x0A))"

definition parse_lines :: "string \<Rightarrow> string \<Rightarrow> dialect \<Rightarrow> diagnostic list" where
  "parse_lines output origin dialect = map (parse_line dialect origin) (output_lines output)"

definition normalize_msvc_output :: "string \<Rightarrow> string \<Rightarrow> diagnostic list" where
  "normalize_msvc_output output origin = parse_lines output origin Dialect_msvc"

definition normalize_nvcc_output :: "string \<Rightarrow> string \<Rightarrow> diagnostic list" where
  "normalize_nvcc_output output origin = parse_lines output origin Dialect_nvcc"

definition normalize_generic_output :: "string \<Rightarrow> string \<Rightarrow> diagnostic list" where
  "normalize_generic_output output origin =
     map (\<lambda>full. let line = (if length full > kMaxMessageBytes then take kMaxMessageBytes full else full) in
       diagnostic_default\<lparr>dg_severity := DS_unknown, dg_origin := origin, dg_raw := line, dg_message := line\<rparr>)
       (output_lines output)"

definition counts_as_error :: "diagnostic_severity \<Rightarrow> bool" where
  "counts_as_error s = (s = DS_error \<or> s = DS_fatal \<or> s = DS_internal)"

definition count_severities :: "diagnostic list \<Rightarrow> u32 \<times> u32" where
  "count_severities entries =
     foldl (\<lambda>(errors, warnings) d.
       if counts_as_error (dg_severity d) then (errors + 1, warnings)
       else if dg_severity d = DS_warning then (errors, warnings + 1) else (errors, warnings)) (0, 0) entries"

section \<open>Store\<close>

record diagnostic_store =
  dst_entries :: "(u64, diagnostic_set) umap"
  dst_allocator :: "diagnostics_tag id_allocator"

definition diagnostic_store_init :: diagnostic_store where
  "diagnostic_store_init = \<lparr>dst_entries = [], dst_allocator = allocator_init\<rparr>"

definition diagnostics_add ::
  "diagnostic_set \<Rightarrow> diagnostic_store \<Rightarrow> diagnostic_store \<times> diagnostics_tag referenced result" where
  "diagnostics_add s t =
     (if length (dst_entries t) \<ge> kMaxSets then (t, Inl (Status SC_capacity_exceeded ''diagnostic store is full''))
      else case alloc_next (dst_allocator t) of (i, a) \<Rightarrow>
        (t\<lparr>dst_entries := um_emplace (id_value i) (s\<lparr>dx_id := i, dx_generation := gen_initial\<rparr>) (dst_entries t),
           dst_allocator := a\<rparr>, Inr (Ref i gen_initial)))"

definition diagnostics_add_as ::
  "diagnostic_set_id \<Rightarrow> diagnostic_set \<Rightarrow> diagnostic_store \<Rightarrow> diagnostic_store \<times> diagnostics_tag referenced result" where
  "diagnostics_add_as i s t =
     (if \<not> id_present i then (t, Inl (Status SC_invalid_identity ''diagnostic set identity is absent''))
      else let g = (if gen_present (dx_generation s) then dx_generation s else gen_initial) in
        (t\<lparr>dst_allocator := alloc_observe i (dst_allocator t),
           dst_entries := um_set (id_value i) (s\<lparr>dx_id := i, dx_generation := g\<rparr>) (dst_entries t)\<rparr>, Inr (Ref i g)))"

definition diagnostics_find :: "diagnostic_set_id \<Rightarrow> diagnostic_store \<Rightarrow> diagnostic_set option" where
  "diagnostics_find i t = um_find (dst_entries t) (id_value i)"

definition diagnostics_list :: "diagnostic_store \<Rightarrow> diagnostic_set list" where
  "diagnostics_list t = sort_key dx_id (map snd (dst_entries t))"

section \<open>Normalisation keeps the evidence\<close>

lemma raw_parse_location [simp]: "dg_raw (parse_location t d) = dg_raw d"
  "dg_severity (parse_location t d) = dg_severity d" "dg_origin (parse_location t d) = dg_origin d"
  by (simp_all add: parse_location_def location_plain_def Let_def split: option.split)

lemma raw_parse_message [simp]: "dg_raw (parse_message di t d) = dg_raw d"
  "dg_severity (parse_message di t d) = dg_severity d" "dg_origin (parse_message di t d) = dg_origin d"
  by (simp_all add: parse_message_def Let_def split: dialect.split)

lemma raw_parse_line: "dg_raw (parse_line di origin full) = take kMaxMessageBytes full"
  by (simp add: parse_line_def Let_def diagnostic_default_def split: option.split)

lemma parse_lines_raw: "map dg_raw (parse_lines output origin di) = map (take kMaxMessageBytes) (output_lines output)"
  by (simp add: parse_lines_def raw_parse_line)

lemma generic_lines_raw:
  "map dg_raw (normalize_generic_output output origin) = map (take kMaxMessageBytes) (output_lines output)"
  by (simp add: normalize_generic_output_def Let_def)

text \<open>A code is an alphanumeric token of at most sixteen characters that carries a digit.\<close>

lemma parse_code_shape:
  assumes "parse_code t \<noteq> []"
  shows "length (parse_code t) \<le> 16" "list_all is_alnum (parse_code t)" "list_ex is_digit (parse_code t)"
  using assms by (auto simp: parse_code_def Let_def list_all_iff dest: set_takeWhileD split: if_splits)

lemma severity_line_located:
  "dg_severity (parse_line di origin full) =
    (case locate_severity (take kMaxMessageBytes full) of None \<Rightarrow> DS_unknown | Some (a, l, s) \<Rightarrow> s)"
  by (simp add: parse_line_def Let_def diagnostic_default_def split: option.split)

section \<open>Tally\<close>

lemma count_severities_foldl:
  "foldl (\<lambda>(errors, warnings) d.
       if counts_as_error (dg_severity d) then (errors + 1, warnings)
       else if dg_severity d = DS_warning then (errors, warnings + 1) else (errors, warnings)) (e, w) ds =
    (e + of_nat (length (filter (\<lambda>d. counts_as_error (dg_severity d)) ds)),
     w + of_nat (length (filter (\<lambda>d. dg_severity d = DS_warning) ds)))" for e w :: u32
  by (induction ds arbitrary: e w) (auto simp: counts_as_error_def)

lemma count_severities_exact:
  assumes "length ds \<le> kMaxEntries"
  shows "unat (fst (count_severities ds)) = length (filter (\<lambda>d. counts_as_error (dg_severity d)) ds)"
    and "unat (snd (count_severities ds)) = length (filter (\<lambda>d. dg_severity d = DS_warning) ds)"
proof -
  have "length (filter P ds) < 2 ^ 32" for P
    using assms by (intro le_less_trans [OF length_filter_le]) (simp add: kMaxEntries_def)
  then show "unat (fst (count_severities ds)) = length (filter (\<lambda>d. counts_as_error (dg_severity d)) ds)"
    "unat (snd (count_severities ds)) = length (filter (\<lambda>d. dg_severity d = DS_warning) ds)"
    by (simp_all add: count_severities_def count_severities_foldl unat_of_nat_len)
qed

text \<open>The normalised digest does not depend on the order of the entries.\<close>

lemma normalized_permuted: "mset ds = mset es \<Longrightarrow> normalized_bytes ds = normalized_bytes es"
proof -
  assume perm: "mset ds = mset es"
  have "sort (map f ds) = sort (map f es)" for f :: "diagnostic \<Rightarrow> string"
    by (rule properties_for_sort) (simp_all add: perm)
  moreover have "length ds = length es" using perm by (rule mset_eq_length)
  ultimately show ?thesis by (simp add: normalized_bytes_def)
qed

section \<open>Store invariant\<close>

definition diagnostics_ok :: "diagnostic_store \<Rightarrow> bool" where
  "diagnostics_ok t = (id_table_ok (dst_entries t) (dst_allocator t) \<and>
     um_all (\<lambda>k s. id_value (dx_id s) = k \<and> gen_present (dx_generation s)) (dst_entries t))"

lemma diagnostics_init_ok [simp]: "diagnostics_ok diagnostic_store_init"
  by (simp add: diagnostics_ok_def diagnostic_store_init_def)

lemma diagnostics_add_ok [crf_inv]: "diagnostics_ok t \<Longrightarrow> diagnostics_ok (fst (diagnostics_add s t))"
  by (auto simp: diagnostics_add_def diagnostics_ok_def case_prod_beta id_table_emplace intro!: um_all_emplace)

lemma diagnostics_add_as_ok [crf_inv]: "diagnostics_ok t \<Longrightarrow> diagnostics_ok (fst (diagnostics_add_as i s t))"
  by (auto simp: diagnostics_add_as_def diagnostics_ok_def Let_def id_table_observe intro!: um_all_set)

lemma diagnostics_add_find:
  assumes "diagnostics_ok t" "counter (dst_allocator t) \<noteq> kMax" "diagnostics_add s t = (t', Inr ref)"
  shows "diagnostics_find (ref_id ref) t' = Some (s\<lparr>dx_id := ref_id ref, dx_generation := gen_initial\<rparr>)"
    and "diagnostics_find i t = Some x \<Longrightarrow> diagnostics_find i t' = Some x"
proof -
  have "um_find (dst_entries t) (id_value (fst (alloc_next (dst_allocator t)))) = None"
    using id_table_fresh [of "dst_entries t" "dst_allocator t"] assms(1,2) by (simp add: diagnostics_ok_def)
  with assms(3) show "diagnostics_find (ref_id ref) t' = Some (s\<lparr>dx_id := ref_id ref, dx_generation := gen_initial\<rparr>)"
    by (auto simp: diagnostics_add_def diagnostics_find_def case_prod_beta um.find_emplace split: if_splits)
  show "diagnostics_find i t = Some x \<Longrightarrow> diagnostics_find i t' = Some x"
    using assms(3) by (auto simp: diagnostics_add_def diagnostics_find_def case_prod_beta um.find_emplace_keeps split: if_splits)
qed

section \<open>Claims\<close>

text \<open>
  No compiler output is lost or invented by normalisation: there is one diagnostic per
  non-blank line, in order, and each keeps its line verbatim up to the message bound, whatever was
  recognised in it.
\<close>

lemma diagnostics_keep_raw_lines:
  "map dg_raw (normalize_msvc_output output origin) = map (take kMaxMessageBytes) (output_lines output) \<and>
   map dg_raw (normalize_nvcc_output output origin) = map (take kMaxMessageBytes) (output_lines output)"
  by (simp add: normalize_msvc_output_def normalize_nvcc_output_def parse_lines_raw)

end
