(* ===== verification/Workspace.thy ===== *)
theory Workspace
  imports Toolchain
begin

text \<open>
  \<open>src/core/workspace.cpp\<close>: generation-bound workspace directories. The path grammar of the
  platform (\<open>std::filesystem::path\<close>) is the parameter \<open>host_paths\<close>, the answers of the file
  system the parameter \<open>host_fs\<close>; the decisions taken on them are the model.
\<close>

section \<open>The host\<close>

record host_paths =
  hp_lexically_normal :: "string \<Rightarrow> string"
  hp_is_absolute :: "string \<Rightarrow> bool"
  hp_has_root_name :: "string \<Rightarrow> bool"
  hp_has_root_directory :: "string \<Rightarrow> bool"
  hp_components :: "string \<Rightarrow> string list"
  hp_join :: "string \<Rightarrow> string \<Rightarrow> string"
  hp_relative :: "string \<Rightarrow> string \<Rightarrow> string"
  hp_generic_string :: "string \<Rightarrow> string"
  hp_filename :: "string \<Rightarrow> string"

text \<open>
  File system answers and the outcomes of its effects: \<open>create_directories\<close>, \<open>rename\<close>,
  \<open>remove_all\<close>, \<open>copy_file\<close> and the atomic write give \<open>None\<close> on success and the error text
  otherwise; \<open>hf_read\<close> is \<open>read_file\<close> with its bound, empty when unreadable.
\<close>

record host_fs =
  hf_exists :: "string \<Rightarrow> bool"
  hf_is_directory :: "string \<Rightarrow> bool"
  hf_is_reparse_point :: "string \<Rightarrow> bool"
  hf_create_directories :: "string \<Rightarrow> string option"
  hf_rename :: "string \<Rightarrow> string \<Rightarrow> string option"
  hf_remove_all :: "string \<Rightarrow> string option"
  hf_copy_file :: "string \<Rightarrow> string \<Rightarrow> string option"
  hf_write_atomic :: "string \<Rightarrow> string \<Rightarrow> bool"
  hf_read :: "string \<Rightarrow> nat \<Rightarrow> string"
  hf_digest :: "string \<Rightarrow> digest option"

abbreviation hp_normalize :: "host_paths \<Rightarrow> string \<Rightarrow> string" where
  "hp_normalize hp \<equiv> normalize_path_string (hp_lexically_normal hp)"

abbreviation hp_within :: "host_paths \<Rightarrow> string \<Rightarrow> string \<Rightarrow> bool" where
  "hp_within hp \<equiv> path_is_within (hp_lexically_normal hp)"

definition path_has_traversal :: "host_paths \<Rightarrow> string \<Rightarrow> bool" where
  "path_has_traversal hp path = (CHR 0x00 \<in> set path \<or> ''..'' \<in> set (hp_components hp path))"

section \<open>Workspaces\<close>

record workspace =
  wk_root :: string
  wk_session :: session_id
  wk_session_generation :: "session_tag generation"
  wk_phase :: phase_id
  wk_phase_generation :: "phase_tag generation"
  wk_marker_digest :: digest
  wk_valid :: bool

definition workspace_default :: workspace where
  "workspace_default = \<lparr>wk_root = [], wk_session = id_absent, wk_session_generation = gen_absent,
     wk_phase = id_absent, wk_phase_generation = gen_absent, wk_marker_digest = digest_default, wk_valid = False\<rparr>"

definition inputs_directory :: "host_paths \<Rightarrow> workspace \<Rightarrow> string" where
  "inputs_directory hp w = hp_join hp (wk_root w) ''inputs''"

definition outputs_directory :: "host_paths \<Rightarrow> workspace \<Rightarrow> string" where
  "outputs_directory hp w = hp_join hp (wk_root w) ''outputs''"

definition temp_directory :: "host_paths \<Rightarrow> workspace \<Rightarrow> string" where
  "temp_directory hp w = hp_join hp (wk_root w) ''temp''"

definition logs_directory :: "host_paths \<Rightarrow> workspace \<Rightarrow> string" where
  "logs_directory hp w = hp_join hp (wk_root w) ''logs''"

text \<open>The walk over the components: the first existing prefix that is a reparse point, if any; a prefix
  that does not exist ends the walk.\<close>

fun reparse_walk :: "host_paths \<Rightarrow> host_fs \<Rightarrow> string \<Rightarrow> string list \<Rightarrow> string option" where
  "reparse_walk hp fs walk [] = None"
| "reparse_walk hp fs walk (component # components) =
     (let walk' = hp_join hp walk component in
      if \<not> hf_exists fs walk' then None
      else if hf_is_reparse_point fs walk' then Some walk'
      else reparse_walk hp fs walk' components)"

definition workspace_resolve :: "host_paths \<Rightarrow> host_fs \<Rightarrow> workspace \<Rightarrow> string \<Rightarrow> string result" where
  "workspace_resolve hp fs w relative =
     (if \<not> wk_valid w then Inl (Status SC_invalid_argument ''workspace is not valid'')
      else if relative = [] then Inl (Status SC_invalid_argument ''workspace-relative path is empty'')
      else if length relative > 4096 then Inl (Status SC_invalid_argument ''workspace-relative path is too long'')
      else if CHR 0x00 \<in> set relative
        then Inl (Status SC_path_traversal ''workspace-relative path contains a NUL byte'')
      else if hp_is_absolute hp relative \<or> hp_has_root_name hp relative \<or> hp_has_root_directory hp relative
        then Inl (Status SC_path_traversal ''workspace-relative path must not be absolute or drive-relative'')
      else if path_has_traversal hp relative
        then Inl (Status SC_path_traversal (''workspace-relative path escapes with a parent component: '' @ relative))
      else let resolved = hp_normalize hp (hp_join hp (wk_root w) relative) in
        if \<not> hp_within hp resolved (wk_root w)
          then Inl (Status SC_workspace_escape (''resolved path escapes the workspace: '' @ resolved))
        else case reparse_walk hp fs (wk_root w) (hp_components hp relative) of
          Some walk \<Rightarrow> Inl (Status SC_reparse_point_rejected (''workspace path crosses a reparse point: '' @ walk))
        | None \<Rightarrow> Inr resolved)"

definition workspace_contains :: "host_paths \<Rightarrow> workspace \<Rightarrow> string \<Rightarrow> bool" where
  "workspace_contains hp w candidate = (wk_valid w \<and> hp_within hp (hp_normalize hp candidate) (wk_root w))"

section \<open>Markers\<close>

definition kMarkerName :: string where "kMarkerName = ''.crf-workspace.marker''"
definition kMarkerMagic :: string where "kMarkerMagic = ''crf-workspace/1''"

definition newline :: string where "newline = [CHR 0x0A]"

definition marker_body ::
  "session_id \<Rightarrow> session_tag generation \<Rightarrow> phase_id \<Rightarrow> phase_tag generation \<Rightarrow> u64 \<Rightarrow> string" where
  "marker_body session session_generation phase phase_generation created_at_nanos =
     kMarkerMagic @ newline @
     ''session='' @ id_to_string ''session'' session @ newline @
     ''session-generation='' @ gen_to_string session_generation @ newline @
     ''phase='' @ id_to_string ''phase'' phase @ newline @
     ''phase-generation='' @ gen_to_string phase_generation @ newline @
     ''created='' @ dec_string (unat created_at_nanos) @ newline"

definition marker_contents :: "string \<Rightarrow> string" where
  "marker_contents body = body @ ''digest='' @ to_hex (digest_of body) @ newline"

text \<open>The lines of \<open>marker_field\<close>: unlike \<open>split_ascii\<close>, no empty line after a final newline; an
  empty line never matches, so the difference is not visible.\<close>

definition marker_field :: "string \<Rightarrow> string \<Rightarrow> string" where
  "marker_field contents key =
     (let needle = key @ ''='' in
      case List.find (\<lambda>line. length line > length needle \<and> take (length needle) line = needle)
        (split_ascii contents CHR 0x0A) of
        None \<Rightarrow> [] | Some line \<Rightarrow> drop (length needle) line)"

text \<open>\<open>strtoull\<close> in base ten: blanks, an optional sign, digits, saturating.\<close>

definition strtoull :: "string \<Rightarrow> u64" where
  "strtoull t =
     (let body = dropWhile ascii_is_space t;
          neg = (body \<noteq> [] \<and> hd body = CHR ''-'');
          ds = takeWhile is_digit (if body \<noteq> [] \<and> (hd body = CHR ''-'' \<or> hd body = CHR ''+'') then tl body else body);
          n = digits_value ds
      in if n > 2 ^ 64 - 1 then kMax else if neg then - of_nat n else of_nat n)"

datatype workspace_defect =
    WD_none | WD_missing | WD_marker_missing | WD_marker_corrupt | WD_session_mismatch
  | WD_generation_mismatch | WD_phase_mismatch | WD_reparse_point | WD_escape | WD_too_deep

fun to_string_workspace_defect :: "workspace_defect \<Rightarrow> string" where
  "to_string_workspace_defect WD_none = ''none''"
| "to_string_workspace_defect WD_missing = ''missing''"
| "to_string_workspace_defect WD_marker_missing = ''marker-missing''"
| "to_string_workspace_defect WD_marker_corrupt = ''marker-corrupt''"
| "to_string_workspace_defect WD_session_mismatch = ''session-mismatch''"
| "to_string_workspace_defect WD_generation_mismatch = ''generation-mismatch''"
| "to_string_workspace_defect WD_phase_mismatch = ''phase-mismatch''"
| "to_string_workspace_defect WD_reparse_point = ''reparse-point''"
| "to_string_workspace_defect WD_escape = ''escape''"
| "to_string_workspace_defect WD_too_deep = ''too-deep''"

record workspace_inspection =
  wi_defect :: workspace_defect
  wi_root :: string
  wi_session :: session_id
  wi_session_generation :: "session_tag generation"
  wi_phase :: phase_id
  wi_phase_generation :: "phase_tag generation"
  wi_created_at_nanos :: u64
  wi_marker_digest :: digest
  wi_stale :: bool
  wi_detail :: string

definition inspection_default :: workspace_inspection where
  "inspection_default = \<lparr>wi_defect = WD_none, wi_root = [], wi_session = id_absent,
     wi_session_generation = gen_absent, wi_phase = id_absent, wi_phase_generation = gen_absent,
     wi_created_at_nanos = 0, wi_marker_digest = digest_default, wi_stale = False, wi_detail = []\<rparr>"

definition acceptable :: "workspace_inspection \<Rightarrow> bool" where
  "acceptable i = (wi_defect i = WD_none)"

text \<open>\<open>std::string::find\<close>: the first position of a needle.\<close>

fun find_text :: "string \<Rightarrow> string \<Rightarrow> nat option" where
  "find_text needle [] = (if needle = [] then Some 0 else None)"
| "find_text needle (c # cs) =
     (if take (length needle) (c # cs) = needle then Some 0 else map_option Suc (find_text needle cs))"

definition inspect_contents :: "workspace_inspection \<Rightarrow> string \<Rightarrow> workspace_inspection" where
  "inspect_contents i contents =
     (let corrupt = (\<lambda>detail. i\<lparr>wi_defect := WD_marker_corrupt, wi_detail := detail, wi_stale := True\<rparr>) in
      if contents = [] then corrupt ''workspace marker is empty or unreadable''
      else case find_text ''digest='' contents of
        None \<Rightarrow> corrupt ''workspace marker has no digest''
      | Some digest_at \<Rightarrow>
          let body = take digest_at contents in
          if \<not> starts_with_ci body kMarkerMagic then corrupt ''workspace marker has an unknown schema''
          else case digest_from_hex (trim_ascii (marker_field contents ''digest'')) of
            None \<Rightarrow> corrupt ''workspace marker digest does not match its contents''
          | Some recorded \<Rightarrow>
              if recorded \<noteq> digest_of body then corrupt ''workspace marker digest does not match its contents''
              else
                let j = i\<lparr>wi_session := id_parse ''session'' (marker_field contents ''session''),
                       wi_session_generation := Generation (strtoull (marker_field contents ''session-generation'')),
                       wi_phase := id_parse ''phase'' (marker_field contents ''phase''),
                       wi_phase_generation := Generation (strtoull (marker_field contents ''phase-generation'')),
                       wi_created_at_nanos := strtoull (marker_field contents ''created'')\<rparr>
                in if \<not> id_present (wi_session j) \<or> \<not> id_present (wi_phase j)
                   then j\<lparr>wi_defect := WD_marker_corrupt, wi_detail := ''workspace marker carries absent identities'',
                          wi_stale := True\<rparr>
                   else j\<lparr>wi_marker_digest := recorded, wi_defect := WD_none, wi_detail := ''workspace marker verified''\<rparr>)"

definition workspace_inspect :: "host_paths \<Rightarrow> host_fs \<Rightarrow> string \<Rightarrow> workspace_inspection" where
  "workspace_inspect hp fs root =
     (let i = inspection_default\<lparr>wi_root := hp_normalize hp root\<rparr>;
          marker = hp_join hp (wi_root i) kMarkerName in
      if \<not> hf_exists fs (wi_root i)
        then i\<lparr>wi_defect := WD_missing, wi_detail := ''workspace directory does not exist''\<rparr>
      else if hf_is_reparse_point fs (wi_root i)
        then i\<lparr>wi_defect := WD_reparse_point, wi_detail := ''workspace root is a reparse point''\<rparr>
      else if \<not> hf_exists fs marker
        then i\<lparr>wi_defect := WD_marker_missing, wi_detail := ''workspace marker is missing'', wi_stale := True\<rparr>
      else inspect_contents i (hf_read fs marker 4096))"

section \<open>The manager\<close>

record workspace_manager =
  wm_base_directory :: string
  wm_live :: "string list"

definition kept_in_label :: "char \<Rightarrow> bool" where
  "kept_in_label c = (is_alnum c \<or> c = CHR ''-'' \<or> c = CHR ''_'')"

definition workspace_root_path ::
  "host_paths \<Rightarrow> string \<Rightarrow> session_id \<Rightarrow> phase_id \<Rightarrow> phase_tag generation \<Rightarrow> string \<Rightarrow> string" where
  "workspace_root_path hp base session phase phase_generation label =
     (let root = hp_join hp (hp_join hp base (id_to_string ''session'' session))
            (id_to_string ''phase'' phase @ ''-g'' @ gen_to_string phase_generation);
          suffix = take 64 (filter kept_in_label label)
      in hp_normalize hp (if label \<noteq> [] \<and> suffix \<noteq> [] then root @ ''-'' @ suffix else root))"

text \<open>The name a stale directory is moved to: the first of the thousand and one candidates that is free.\<close>

fun stale_name :: "host_fs \<Rightarrow> string \<Rightarrow> nat \<Rightarrow> nat \<Rightarrow> string \<Rightarrow> string" where
  "stale_name fs root 0 attempt stale = stale"
| "stale_name fs root (Suc left) attempt stale =
     (if hf_exists fs stale
      then stale_name fs root left (Suc attempt) (root @ ''.stale-'' @ dec_string (Suc attempt))
      else stale)"

fun create_all :: "host_fs \<Rightarrow> string list \<Rightarrow> string option" where
  "create_all fs [] = None"
| "create_all fs (d # ds) = (case hf_create_directories fs d of Some e \<Rightarrow> Some e | None \<Rightarrow> create_all fs ds)"

definition workspace_create ::
  "host_paths \<Rightarrow> host_fs \<Rightarrow> u64 \<Rightarrow> session_id \<Rightarrow> session_tag generation \<Rightarrow> phase_id \<Rightarrow> phase_tag generation \<Rightarrow> string \<Rightarrow>
   workspace_manager \<Rightarrow> workspace_manager \<times> workspace result" where
  "workspace_create hp fs now session session_generation phase phase_generation label m =
     (if \<not> id_present session \<or> \<not> id_present phase
        then (m, Inl (Status SC_invalid_identity ''workspace requires a session and phase identity''))
      else if wm_base_directory m = []
        then (m, Inl (Status SC_invalid_argument ''workspace base directory is not configured''))
      else
        let root = workspace_root_path hp (wm_base_directory m) session phase phase_generation label in
        if \<not> hp_within hp root (wm_base_directory m)
          then (m, Inl (Status SC_workspace_escape ''workspace root escapes the configured base''))
        else case hf_create_directories fs (wm_base_directory m) of
          Some e \<Rightarrow> (m, Inl (Status SC_permission_denied (''workspace base directory could not be created: '' @ e)))
        | None \<Rightarrow>
          (case (if hf_exists fs root then hf_rename fs root (stale_name fs root 1000 0 (root @ ''.stale'')) else None) of
             Some e \<Rightarrow> (m, Inl (Status SC_already_exists (''a stale workspace exists and could not be moved aside: '' @ e)))
           | None \<Rightarrow>
             (case hf_create_directories fs root of
                Some e \<Rightarrow> (m, Inl (Status SC_permission_denied (''workspace could not be created: '' @ e)))
              | None \<Rightarrow>
                let w = workspace_default\<lparr>wk_root := root, wk_session := session,
                      wk_session_generation := session_generation, wk_phase := phase,
                      wk_phase_generation := phase_generation\<rparr> in
                (case create_all fs [inputs_directory hp w, outputs_directory hp w, temp_directory hp w, logs_directory hp w] of
                   Some e \<Rightarrow> (m, Inl (Status SC_permission_denied (''workspace subdirectory could not be created: '' @ e)))
                 | None \<Rightarrow>
                   let body = marker_body session session_generation phase phase_generation now in
                   if \<not> hf_write_atomic fs (hp_join hp root kMarkerName) (marker_contents body)
                     then (m, Inl (Status SC_persistence_io ''workspace marker could not be written''))
                   else (m\<lparr>wm_live := wm_live m @ [root]\<rparr>,
                         Inr (w\<lparr>wk_marker_digest := digest_of body, wk_valid := True\<rparr>))))))"

definition workspace_open ::
  "host_paths \<Rightarrow> host_fs \<Rightarrow> string \<Rightarrow> session_id \<Rightarrow> session_tag generation \<Rightarrow> phase_id \<Rightarrow> phase_tag generation \<Rightarrow>
   workspace result" where
  "workspace_open hp fs root session session_generation phase phase_generation =
     (let i = workspace_inspect hp fs root in
      if \<not> acceptable i
        then Inl (Status SC_invalid_argument
          (''workspace rejected: '' @ to_string_workspace_defect (wi_defect i) @ '' '' @ wi_detail i))
      else if wi_session i \<noteq> session \<or> wi_session_generation i \<noteq> session_generation
        then Inl (Status SC_stale_session_generation ''workspace belongs to a different session generation'')
      else if wi_phase i \<noteq> phase \<or> wi_phase_generation i \<noteq> phase_generation
        then Inl (Status SC_stale_phase_generation ''workspace belongs to a different phase generation'')
      else Inr \<lparr>wk_root = hp_normalize hp root, wk_session = wi_session i,
        wk_session_generation = wi_session_generation i, wk_phase = wi_phase i,
        wk_phase_generation = wi_phase_generation i, wk_marker_digest = wi_marker_digest i, wk_valid = True\<rparr>)"

definition workspace_cleanup ::
  "host_paths \<Rightarrow> host_fs \<Rightarrow> workspace \<Rightarrow> workspace_manager \<Rightarrow> workspace_manager \<times> unit result" where
  "workspace_cleanup hp fs w m =
     (if wm_base_directory m = []
        then (m, Inl (Status SC_invalid_argument ''workspace base directory is not configured''))
      else if \<not> hp_within hp (wk_root w) (wm_base_directory m)
        then (m, Inl (Status SC_workspace_escape ''refusing to remove a directory outside the workspace base''))
      else if hp_normalize hp (wk_root w) = hp_normalize hp (wm_base_directory m)
        then (m, Inl (Status SC_workspace_escape ''refusing to remove the workspace base itself''))
      else case hf_remove_all fs (wk_root w) of
        Some e \<Rightarrow> (m, Inl (Status SC_permission_denied (''workspace removal failed: '' @ e)))
      | None \<Rightarrow> (m\<lparr>wm_live := remove1 (hp_normalize hp (wk_root w)) (wm_live m)\<rparr>, Inr ()))"

definition workspace_stage_input ::
  "host_paths \<Rightarrow> host_fs \<Rightarrow> workspace \<Rightarrow> string \<Rightarrow> string \<Rightarrow> (string \<Rightarrow> digest option) \<Rightarrow> string result" where
  "workspace_stage_input hp fs w source logical_name digest_after =
     (if \<not> wk_valid w then Inl (Status SC_invalid_argument ''workspace is not valid'')
      else case hf_digest fs source of
        None \<Rightarrow> Inl (Status SC_not_found (''input could not be hashed: '' @ source))
      | Some content \<Rightarrow>
          let name = (if logical_name = [] then hp_filename hp source else logical_name) in
          if list_ex (\<lambda>c. c = CHR ''/'' \<or> c = CHR 0x5C \<or> c = CHR '':'' \<or> c = CHR 0x00) name
            then Inl (Status SC_path_traversal ''staged input name contains a path separator'')
          else if name = [] \<or> name = ''.'' \<or> name = ''..''
            then Inl (Status SC_invalid_argument ''staged input name is invalid'')
          else crf_try (workspace_resolve hp fs w (''inputs/'' @ name)) (\<lambda>destination.
            case hf_copy_file fs source destination of
              Some e \<Rightarrow> Inl (Status SC_permission_denied (''input staging failed: '' @ e))
            | None \<Rightarrow>
                (case digest_after destination of
                   None \<Rightarrow> Inl (Status SC_output_corrupt ''staged input digest does not match the source'')
                 | Some staged \<Rightarrow> if staged \<noteq> content
                     then Inl (Status SC_output_corrupt ''staged input digest does not match the source'')
                     else Inr destination)))"

text \<open>The directories \<open>cleanup_all\<close> removes, and how many removals succeed.\<close>

definition cleanup_all_roots :: "host_paths \<Rightarrow> workspace_manager \<Rightarrow> string list" where
  "cleanup_all_roots hp m = filter (\<lambda>root. hp_within hp root (wm_base_directory m)) (wm_live m)"

definition workspace_cleanup_all ::
  "host_paths \<Rightarrow> host_fs \<Rightarrow> workspace_manager \<Rightarrow> workspace_manager \<times> nat" where
  "workspace_cleanup_all hp fs m =
     (m\<lparr>wm_live := []\<rparr>, length (filter (\<lambda>root. hf_remove_all fs root = None) (cleanup_all_roots hp m)))"

section \<open>Containment\<close>

lemma resolve_within:
  assumes "workspace_resolve hp fs w relative = Inr resolved"
  shows "wk_valid w" "hp_within hp resolved (wk_root w)" "\<not> path_has_traversal hp relative"
    "\<not> hp_is_absolute hp relative" "reparse_walk hp fs (wk_root w) (hp_components hp relative) = None"
    "resolved = hp_normalize hp (hp_join hp (wk_root w) relative)"
  using assms by (auto simp: workspace_resolve_def Let_def split: if_splits option.splits)

lemma reparse_walk_None:
  "reparse_walk hp fs walk cs = None \<Longrightarrow>
    \<forall>n \<le> length cs. (\<forall>m \<le> n. 0 < m \<longrightarrow> hf_exists fs (foldl (hp_join hp) walk (take m cs))) \<longrightarrow>
      (0 < n \<longrightarrow> \<not> hf_is_reparse_point fs (foldl (hp_join hp) walk (take n cs)))"
proof (induction cs arbitrary: walk)
  case (Cons c cs)
  show ?case
  proof (intro allI impI)
    fix n assume n: "n \<le> length (c # cs)"
      and ex: "\<forall>m \<le> n. 0 < m \<longrightarrow> hf_exists fs (foldl (hp_join hp) walk (take m (c # cs)))" and pos: "0 < n"
    let ?w = "hp_join hp walk c"
    have "hf_exists fs ?w" using ex pos by (auto dest: spec [of _ 1])
    then have w: "\<not> hf_is_reparse_point fs ?w" "reparse_walk hp fs ?w cs = None"
      using Cons.prems by (auto simp: Let_def split: if_splits)
    obtain k where k: "n = Suc k" using pos by (cases n) auto
    have "hf_exists fs (foldl (hp_join hp) ?w (take m cs))" if "m \<le> k" "0 < m" for m
      using ex that by (auto simp: k dest: spec [of _ "Suc m"])
    with Cons.IH [OF w(2)] n w(1) show "\<not> hf_is_reparse_point fs (foldl (hp_join hp) walk (take n (c # cs)))"
      by (cases "k = 0") (auto simp: k)
  qed
qed simp

lemma create_result:
  assumes "workspace_create hp fs now session sg phase pg label m = (m', Inr w)"
  shows "hp_within hp (wk_root w) (wm_base_directory m)" "wk_valid w"
    "wk_session w = session" "wk_session_generation w = sg" "wk_phase w = phase" "wk_phase_generation w = pg"
    "wk_marker_digest w = digest_of (marker_body session sg phase pg now)"
    "hf_write_atomic fs (hp_join hp (wk_root w) kMarkerName) (marker_contents (marker_body session sg phase pg now))"
    "m' = m\<lparr>wm_live := wm_live m @ [wk_root w]\<rparr>" "id_present session" "id_present phase"
  using assms
  by (auto simp: workspace_create_def Let_def split: if_splits option.splits)

lemma create_error_keeps: "workspace_create hp fs now session sg phase pg label m = (m', Inl e) \<Longrightarrow> m' = m"
  by (auto simp: workspace_create_def Let_def split: if_splits option.splits)

lemma cleanup_guard:
  assumes "workspace_cleanup hp fs w m = (m', Inr ())"
  shows "hp_within hp (wk_root w) (wm_base_directory m)"
    "hp_normalize hp (wk_root w) \<noteq> hp_normalize hp (wm_base_directory m)" "hf_remove_all fs (wk_root w) = None"
  using assms by (auto simp: workspace_cleanup_def split: if_splits option.splits)

lemma stage_input_verified:
  assumes "workspace_stage_input hp fs w source name after = Inr destination"
  shows "hp_within hp destination (wk_root w)" "after destination = hf_digest fs source" "hf_digest fs source \<noteq> None"
proof -
  obtain n where "workspace_resolve hp fs w n = Inr destination"
    and d: "after destination = hf_digest fs source" "hf_digest fs source \<noteq> None"
    using assms by (auto simp: workspace_stage_input_def Let_def crf_try_def split: if_splits option.splits sum.splits)
  from resolve_within(2) [OF this(1)] show "hp_within hp destination (wk_root w)" .
  show "after destination = hf_digest fs source" "hf_digest fs source \<noteq> None" by fact+
qed

section \<open>Markers round trip\<close>

lemma find_text_skip:
  assumes "needle = a # b # rest" "b \<notin> set p" "q \<noteq> []" "hd q \<noteq> b"
  shows "find_text needle (p @ q) = map_option (\<lambda>k. length p + k) (find_text needle q)"
  using assms(2)
proof (induction p)
  case Nil
  then show ?case by (simp add: option.map_ident)
next
  case (Cons c p)
  have "take (length needle) (c # p @ q) \<noteq> needle"
    using assms Cons.prems by (cases p; cases q) auto
  with Cons show ?case by (simp add: option.map_comp comp_def)
qed

definition hex_text :: "string \<Rightarrow> bool" where
  "hex_text t = (set t \<subseteq> set kHex)"

lemma set_kHex: "set kHex = set ''0123456789abcdef''"
  by (simp only: kHex_def)

lemma nth_kHex: "d < 16 \<Longrightarrow> kHex ! d \<in> set kHex"
  by (rule nth_mem) (simp add: kHex_def)

definition id_digits :: "'tag strong_id \<Rightarrow> string" where
  "id_digits i = map (\<lambda>shift. kHex ! unat (drop_bit shift (id_value i) AND 0xF)) id_shifts"

lemma id_digits_hex: "hex_text (id_digits i)"
  by (auto simp: hex_text_def id_digits_def intro!: nth_kHex and_15_less)

lemma id_to_string_digits: "id_to_string name i = name @ CHR ''-'' # id_digits i"
  by (simp add: id_to_string_def id_digits_def)

lemma id_digits_nonempty [simp]: "id_digits i \<noteq> []"
  by (simp add: id_digits_def id_shifts_def)

lemma len8: "LENGTH(8) = 8"
  by simp

lemma to_hex_hex: "hex_text (to_hex d)"
proof -
  have "unat (drop_bit 4 b) < 16" "unat (b AND 0x0F) < 16" for b :: u8
  proof -
    have "unat b < 256" using unsigned_less [of b] by simp
    then have "take_bit 8 (unat b) = unat b" "drop_bit 4 (unat b) < 16"
      by (simp_all add: take_bit_nat_eq_self drop_bit_eq_div)
    then show "unat (drop_bit 4 b) < 16" by (simp only: unsigned_drop_bit_eq len8)
    show "unat (b AND 0x0F) < 16"
      using take_bit_nat_less_exp [of 4 "unat b"] by (simp add: and_low_nibble unsigned_take_bit_eq)
  qed
  then show ?thesis by (auto simp: hex_text_def to_hex_def byte_to_hex_def intro!: nth_kHex)
qed

lemma hex_text_avoids:
  assumes "hex_text t"
  shows "CHR 0x0A \<notin> set t" "CHR ''i'' \<notin> set t" "c \<in> set t \<Longrightarrow> \<not> ascii_is_space c"
  using assms by (auto simp: hex_text_def set_kHex ascii_is_space_def)

lemma digits_avoid:
  shows "CHR 0x0A \<notin> set (dec_string n)" "CHR ''i'' \<notin> set (dec_string n)"
    "c \<in> set (dec_string n) \<Longrightarrow> is_digit c"
  using digits_dec_string [of n] by (auto simp: list_all_iff is_digit_def)

lemma trim_hex: "hex_text t \<Longrightarrow> trim_ascii t = t"
proof -
  assume h: "hex_text t"
  have "dropWhile ascii_is_space xs = xs" if "set xs = set t" for xs
    using that hex_text_avoids(3) [OF h] by (cases xs) auto
  then show ?thesis by (simp add: trim_ascii_def)
qed

lemma strtoull_gen: "strtoull (dec_string (unat v)) = v"
proof -
  let ?d = "dec_string (unat v)"
  obtain c cs where d: "?d = c # cs" by (cases ?d) auto
  have c: "is_digit c" using digits_avoid(3) [of c "unat v"] d by simp
  then have "\<not> ascii_is_space c" "c \<noteq> CHR ''-''" "c \<noteq> CHR ''+''"
    by (auto simp: is_digit_def ascii_is_space_def)
  moreover have "takeWhile is_digit ?d = ?d"
    using digits_dec_string [of "unat v"] by (simp add: takeWhile_eq_all_conv list_all_iff)
  moreover have "\<not> 2 ^ 64 - 1 < unat v" using unat_u64 [of v] by linarith
  ultimately show ?thesis
    using digits_value_dec_string [of "unat v"] by (simp add: strtoull_def d Let_def)
qed

lemma marker_lines:
  "split_ascii (marker_contents (marker_body s sg p pg t)) CHR 0x0A =
    [kMarkerMagic, ''session='' @ id_to_string ''session'' s, ''session-generation='' @ gen_to_string sg,
     ''phase='' @ id_to_string ''phase'' p, ''phase-generation='' @ gen_to_string pg,
     ''created='' @ dec_string (unat t),
     ''digest='' @ to_hex (digest_of (marker_body s sg p pg t)), []]" (is "_ = ?lines")
proof -
  have "marker_contents (marker_body s sg p pg t) = join_ascii ?lines [CHR 0x0A]"
    by (simp add: marker_contents_def marker_body_def newline_def)
  moreover have "\<forall>l \<in> set ?lines. CHR 0x0A \<notin> set l"
    by (simp add: id_to_string_digits gen_to_string_def digits_avoid hex_text_avoids(1) [OF id_digits_hex]
        hex_text_avoids(1) [OF to_hex_hex] kMarkerMagic_def)
  ultimately show ?thesis using split_join [of ?lines "CHR 0x0A"] by simp
qed

lemma marker_fields:
  assumes "c = marker_contents (marker_body s sg p pg t)"
  shows "marker_field c ''session'' = id_to_string ''session'' s"
    "marker_field c ''session-generation'' = gen_to_string sg"
    "marker_field c ''phase'' = id_to_string ''phase'' p"
    "marker_field c ''phase-generation'' = gen_to_string pg"
    "marker_field c ''created'' = dec_string (unat t)"
    "marker_field c ''digest'' = to_hex (digest_of (marker_body s sg p pg t))"
proof -
  have hex: "to_hex (digest_of (marker_body s sg p pg t)) \<noteq> []"
    using length_digest_of [of "bytes_of (marker_body s sg p pg t)"]
    by (cases "raw (digest_of (marker_body s sg p pg t))") (auto simp: to_hex_def byte_to_hex_def digest_of_def kBytes_def)
  note rules = marker_field_def assms marker_lines Let_def kMarkerMagic_def id_to_string_digits gen_to_string_def
  show "marker_field c ''session'' = id_to_string ''session'' s" by (simp add: rules)
  show "marker_field c ''session-generation'' = gen_to_string sg" by (simp add: rules)
  show "marker_field c ''phase'' = id_to_string ''phase'' p" by (simp add: rules)
  show "marker_field c ''phase-generation'' = gen_to_string pg" by (simp add: rules)
  show "marker_field c ''created'' = dec_string (unat t)" by (simp add: rules)
  show "marker_field c ''digest'' = to_hex (digest_of (marker_body s sg p pg t))" using hex by (simp add: rules)
qed

lemma find_digest:
  "find_text ''digest='' (marker_contents (marker_body s sg p pg t)) = Some (length (marker_body s sg p pg t))"
proof -
  note skip = find_text_skip [where needle = "''digest=''", OF refl]
  have hex: "find_text ''digest='' (id_digits i @ CHR 0x0A # q) =
      map_option (\<lambda>k. length (id_digits i) + k) (find_text ''digest='' (CHR 0x0A # q))" for i :: "'x strong_id" and q
    by (rule skip) (simp_all add: hex_text_avoids [OF id_digits_hex])
  have num: "find_text ''digest='' (dec_string n @ CHR 0x0A # q) =
      map_option (\<lambda>k. length (dec_string n) + k) (find_text ''digest='' (CHR 0x0A # q))" for n q
    by (rule skip) (simp_all add: digits_avoid)
  show ?thesis
    by (simp add: marker_contents_def marker_body_def newline_def kMarkerMagic_def id_to_string_digits gen_to_string_def
        hex num option.map_comp comp_def)
qed

lemma starts_with_ci_self: "starts_with_ci (t @ u) t"
  by (simp add: starts_with_ci_def equals_ascii_ci_def list_all2_refl)

lemma id_parse_to_string: "id_parse name (id_to_string name i) = i"
  by (simp add: id_parse_def id_round_trip)

lemma inspect_marker:
  assumes "id_present s" "id_present p"
  shows "inspect_contents i (marker_contents (marker_body s sg p pg t)) =
    i\<lparr>wi_session := s, wi_session_generation := sg, wi_phase := p, wi_phase_generation := pg,
      wi_created_at_nanos := t, wi_marker_digest := digest_of (marker_body s sg p pg t),
      wi_defect := WD_none, wi_detail := ''workspace marker verified''\<rparr>"
proof -
  let ?b = "marker_body s sg p pg t"
  have ne: "marker_contents ?b \<noteq> []" by (simp add: marker_contents_def)
  have body: "take (length ?b) (marker_contents ?b) = ?b" by (simp add: marker_contents_def)
  have magic: "starts_with_ci ?b kMarkerMagic"
    unfolding marker_body_def by (rule starts_with_ci_self)
  have dig: "digest_from_hex (trim_ascii (to_hex (digest_of ?b))) = Some (digest_of ?b)"
    by (simp add: trim_hex [OF to_hex_hex] digest_hex_round_trip digest_of_def length_digest_of)
  show ?thesis
    using assms
    by (simp add: inspect_contents_def Let_def ne find_digest body magic marker_fields [OF refl] dig
        id_parse_to_string gen_to_string_def strtoull_gen del: find_text.simps)
qed

text \<open>
  A workspace that was created can be opened again under exactly the identities it was created with:
  the marker that was written is what \<open>read_file\<close> gives back.
\<close>

lemma create_then_open:
  assumes created: "workspace_create hp fs now s sg p pg label m = (m', Inr w)"
    and root: "hp_normalize hp (wk_root w) = wk_root w"
    and after: "hf_exists fs' (wk_root w)" "\<not> hf_is_reparse_point fs' (wk_root w)"
      "hf_exists fs' (hp_join hp (wk_root w) kMarkerName)"
      "hf_read fs' (hp_join hp (wk_root w) kMarkerName) 4096 = marker_contents (marker_body s sg p pg now)"
  shows "workspace_open hp fs' (wk_root w) s sg p pg = Inr w"
    and "(s', sg', p', pg') \<noteq> (s, sg, p, pg) \<Longrightarrow> \<exists>e. workspace_open hp fs' (wk_root w) s' sg' p' pg' = Inl e"
proof -
  note w = create_result [OF created]
  have i: "workspace_inspect hp fs' (wk_root w) =
    inspection_default\<lparr>wi_root := wk_root w, wi_session := s, wi_session_generation := sg, wi_phase := p,
      wi_phase_generation := pg, wi_created_at_nanos := now, wi_marker_digest := wk_marker_digest w,
      wi_defect := WD_none, wi_detail := ''workspace marker verified''\<rparr>"
    by (simp add: workspace_inspect_def Let_def root after inspect_marker [OF w(10,11)] w(7) inspection_default_def)
  show "workspace_open hp fs' (wk_root w) s sg p pg = Inr w"
    using w by (simp add: workspace_open_def i Let_def acceptable_def inspection_default_def root)
  show "\<exists>e. workspace_open hp fs' (wk_root w) s' sg' p' pg' = Inl e" if "(s', sg', p', pg') \<noteq> (s, sg, p, pg)"
    using that by (auto simp: workspace_open_def i Let_def acceptable_def inspection_default_def)
qed

section \<open>Claims\<close>

text \<open>
  A path resolved inside a workspace stays inside: the result is under the workspace root, the
  relative path had no parent component, NUL byte or root of its own, and no existing component on
  the way is a reparse point.
\<close>

lemma resolve_stays_inside:
  assumes "workspace_resolve hp fs w relative = Inr resolved"
  shows "hp_within hp resolved (wk_root w) \<and> \<not> path_has_traversal hp relative \<and> \<not> hp_is_absolute hp relative \<and>
    reparse_walk hp fs (wk_root w) (hp_components hp relative) = None"
  using resolve_within [OF assms] by blast

text \<open>
  A workspace belongs to the generations it was created for. Once the marker that \<open>create\<close>
  wrote is read back, opening it for the same session, phase and generations returns the same
  workspace, and opening it for any other is refused.
\<close>

lemma workspace_bound_to_generation:
  assumes "workspace_create hp fs now s sg p pg label m = (m', Inr w)"
    and "hp_normalize hp (wk_root w) = wk_root w" "hf_exists fs' (wk_root w)"
    and "\<not> hf_is_reparse_point fs' (wk_root w)" "hf_exists fs' (hp_join hp (wk_root w) kMarkerName)"
    and "hf_read fs' (hp_join hp (wk_root w) kMarkerName) 4096 = marker_contents (marker_body s sg p pg now)"
  shows "workspace_open hp fs' (wk_root w) s sg p pg = Inr w \<and>
    ((s', sg', p', pg') = (s, sg, p, pg) \<or> (\<exists>e. workspace_open hp fs' (wk_root w) s' sg' p' pg' = Inl e))"
  using create_then_open [OF assms] by blast

text \<open>A host with slash-separated paths, no reparse points, and one file: the marker.\<close>

definition sample_host :: host_paths where
  "sample_host = \<lparr>hp_lexically_normal = id, hp_is_absolute = (\<lambda>p. take 2 p = ''c:''), hp_has_root_name = (\<lambda>p. False),
    hp_has_root_directory = (\<lambda>p. False), hp_components = (\<lambda>p. split_ascii p CHR ''/''),
    hp_join = (\<lambda>a b. a @ ''/'' @ b), hp_relative = (\<lambda>a b. a), hp_generic_string = id, hp_filename = id\<rparr>"

definition sample_fs :: "string \<Rightarrow> host_fs" where
  "sample_fs contents = \<lparr>hf_exists = (\<lambda>_. True), hf_is_directory = (\<lambda>_. True), hf_is_reparse_point = (\<lambda>_. False),
    hf_create_directories = (\<lambda>_. None), hf_rename = (\<lambda>_ _. None), hf_remove_all = (\<lambda>_. None),
    hf_copy_file = (\<lambda>_ _. None), hf_write_atomic = (\<lambda>_ _. True), hf_read = (\<lambda>_ _. contents),
    hf_digest = (\<lambda>_. None)\<rparr>"

definition sample_workspace :: workspace where
  "sample_workspace = workspace_default\<lparr>wk_root := ''c:/ws'', wk_valid := True\<rparr>"

lemma sample_resolve:
  "workspace_resolve sample_host (sample_fs []) sample_workspace ''outputs/a.obj'' = Inr ''c:/ws/outputs/a.obj''"
  by code_simp

definition sample_root :: string where
  "sample_root = ''c:/ws/session-0000000000000001/phase-0000000000000002-g1''"

lemma sample_root_path:
  "workspace_root_path sample_host ''c:/ws'' (StrongId 1) (StrongId 2) gen_initial [] = sample_root"
  "hp_within sample_host sample_root ''c:/ws''" "hp_normalize sample_host sample_root = sample_root"
  by code_simp+

lemma sample_create:
  "workspace_create sample_host (sample_fs c) 5 (StrongId 1) (Generation 3) (StrongId 2) gen_initial []
      \<lparr>wm_base_directory = ''c:/ws'', wm_live = []\<rparr> =
    (\<lparr>wm_base_directory = ''c:/ws'', wm_live = [sample_root]\<rparr>,
     Inr (workspace_default\<lparr>wk_root := sample_root, wk_session := StrongId 1, wk_session_generation := Generation 3,
       wk_phase := StrongId 2, wk_phase_generation := gen_initial,
       wk_marker_digest := digest_of (marker_body (StrongId 1) (Generation 3) (StrongId 2) gen_initial 5),
       wk_valid := True\<rparr>))"
  by (simp add: workspace_create_def sample_root_path id_present_def Let_def) (simp add: sample_fs_def)

end
