(* ===== verification/Invocation.thy ===== *)
theory Invocation
  imports Workspace Policy
begin

text \<open>
  \<open>src/core/invocation.cpp\<close>: command-line quoting, process specifications and the validation every
  invocation passes before it is launched.
\<close>

section \<open>Command lines\<close>

datatype argument_style = Style_msvc | Style_posix

definition kBackslash :: char where "kBackslash = CHR 0x5C"
definition kQuote :: char where "kQuote = CHR 0x22"
definition kTab :: char where "kTab = CHR 0x09"

text \<open>The loop of \<open>quote_windows_argument\<close> with its count of pending backslashes.\<close>

fun quote_chars :: "nat \<Rightarrow> string \<Rightarrow> string" where
  "quote_chars backslashes [] = replicate (backslashes * 2) kBackslash"
| "quote_chars backslashes (c # cs) =
     (if c = kBackslash then quote_chars (Suc backslashes) cs
      else if c = kQuote then replicate (backslashes * 2 + 1) kBackslash @ kQuote # quote_chars 0 cs
      else replicate backslashes kBackslash @ c # quote_chars 0 cs)"

definition needs_quoting :: "string \<Rightarrow> bool" where
  "needs_quoting argument =
     (argument = [] \<or> CHR '' '' \<in> set argument \<or> kTab \<in> set argument \<or> kQuote \<in> set argument)"

definition quote_windows_argument :: "string \<Rightarrow> string" where
  "quote_windows_argument argument =
     (if \<not> needs_quoting argument then argument else kQuote # quote_chars 0 argument @ [kQuote])"

definition render_argument :: "argument_style \<Rightarrow> string \<Rightarrow> string" where
  "render_argument style argument =
     (case style of
        Style_msvc \<Rightarrow> quote_windows_argument argument
      | Style_posix \<Rightarrow>
          if \<not> (needs_quoting argument \<or> CHR 0x27 \<in> set argument) then argument
          else kQuote # argument @ [kQuote])"

definition render_command_line :: "string list \<Rightarrow> argument_style \<Rightarrow> string" where
  "render_command_line argv style = join_ascii (map (render_argument style) argv) '' ''"

section \<open>Process specifications\<close>

definition kDefaultCaptureBytes :: nat where "kDefaultCaptureBytes = 1048576"
definition kMaxCaptureBytes :: nat where "kMaxCaptureBytes = 67108864"
definition kMaxArguments :: nat where "kMaxArguments = 65536"
definition kMaxArgumentBytes :: nat where "kMaxArgumentBytes = 1048576"
definition kMaxCommandLineBytes :: nat where "kMaxCommandLineBytes = 33554432"
definition kMaxEnvironmentBytes :: nat where "kMaxEnvironmentBytes = 1048576"

record process_spec =
  sp_executable :: string
  sp_arguments :: "string list"
  sp_environment :: "environment_variable list"
  sp_working_directory :: string
  sp_standard_input :: string
  sp_timeout_millis :: u32
  sp_max_capture_bytes :: nat
  sp_inherit_ambient_environment :: bool

definition process_spec_default :: process_spec where
  "process_spec_default = \<lparr>sp_executable = [], sp_arguments = [], sp_environment = [], sp_working_directory = [],
     sp_standard_input = [], sp_timeout_millis = 0, sp_max_capture_bytes = kDefaultCaptureBytes,
     sp_inherit_ambient_environment = False\<rparr>"

fun check_arguments :: "string list \<Rightarrow> unit result" where
  "check_arguments [] = Inr ()"
| "check_arguments (a # as) =
     (if length a > kMaxArgumentBytes
        then Inl (Status SC_capacity_exceeded ''a single argument exceeds the byte ceiling'')
      else if CHR 0x00 \<in> set a then Inl (Status SC_invalid_argument ''an argument contains a NUL byte'')
      else check_arguments as)"

definition bad_variable_name :: "environment_variable \<Rightarrow> bool" where
  "bad_variable_name v = (ev_name v = [] \<or> CHR ''='' \<in> set (ev_name v))"

definition environment_bytes :: "environment_variable list \<Rightarrow> nat" where
  "environment_bytes vs = sum_list (map (\<lambda>v. length (ev_name v) + length (ev_value v) + 2) vs)"

text \<open>\<open>is_dir\<close> is the file system's answer for the working directory.\<close>

definition process_validate :: "host_paths \<Rightarrow> (string \<Rightarrow> bool) \<Rightarrow> process_spec \<Rightarrow> unit result" where
  "process_validate hp is_dir s =
     (if sp_executable s = [] then Inl (Status SC_invalid_argument ''process executable is empty'')
      else if \<not> hp_is_absolute hp (sp_executable s)
        then Inl (Status SC_path_not_absolute (''process executable must be an absolute path: '' @ sp_executable s))
      else if CHR 0x00 \<in> set (sp_executable s)
        then Inl (Status SC_invalid_argument ''process executable contains a NUL byte'')
      else if hp_normalize hp (sp_executable s) \<noteq> sp_executable s
        then Inl (Status SC_invalid_argument (''process executable path is not canonical: '' @ sp_executable s))
      else if length (sp_arguments s) > kMaxArguments
        then Inl (Status SC_capacity_exceeded ''argument count exceeds the ceiling'')
      else crf_try (check_arguments (sp_arguments s)) (\<lambda>_.
        if length (sp_executable s) + sum_list (map length (sp_arguments s)) + length (sp_arguments s) > kMaxCommandLineBytes
          then Inl (Status SC_capacity_exceeded ''the rendered command line exceeds the ceiling'')
        else if sp_working_directory s \<noteq> [] \<and> \<not> hp_is_absolute hp (sp_working_directory s)
          then Inl (Status SC_path_not_absolute ''process working directory must be absolute'')
        else if sp_working_directory s \<noteq> [] \<and> \<not> is_dir (sp_working_directory s)
          then Inl (Status SC_not_found (''process working directory does not exist: '' @ sp_working_directory s))
        else if list_ex bad_variable_name (sp_environment s)
          then Inl (Status SC_invalid_argument ''process environment contains an invalid name'')
        else if environment_bytes (sp_environment s) > kMaxEnvironmentBytes
          then Inl (Status SC_capacity_exceeded ''the environment block exceeds the byte ceiling'')
        else if sp_max_capture_bytes s = 0 \<or> sp_max_capture_bytes s > kMaxCaptureBytes
          then Inl (Status SC_invalid_argument ''capture ceiling is out of range'')
        else Inr ()))"

definition process_canonical_digest :: "host_paths \<Rightarrow> process_spec \<Rightarrow> digest" where
  "process_canonical_digest hp s =
     digest_of (enc_text (canonical_path_key (hp_lexically_normal hp) (sp_executable s)) @
       enc_u64 (of_nat (length (sp_arguments s))) @ concat (map enc_text (sp_arguments s)) @
       enc_sorted_variables (sp_environment s) @
       enc_text (canonical_path_key (hp_lexically_normal hp) (sp_working_directory s)) @
       enc_text (sp_standard_input s) @ enc_u32 (sp_timeout_millis s) @ enc_u64 (of_nat (sp_max_capture_bytes s)))"

definition process_render_command_line :: "process_spec \<Rightarrow> string" where
  "process_render_command_line s = render_command_line (sp_executable s # sp_arguments s) Style_msvc"

section \<open>Invocations\<close>

record input_binding =
  ib_source :: source_id
  ib_generation :: "source_tag generation"
  ib_path :: string
  ib_content :: digest
  ib_staged :: bool
  ib_read_only :: bool

record output_binding =
  out_logical_name :: string
  out_path :: string
  out_expected_format :: object_format
  out_required :: bool
  out_allow_empty :: bool

record invocation_spec =
  is_id :: invocation_id
  is_generation :: "invocation_tag generation"
  is_session :: "session_tag referenced"
  is_phase :: "phase_tag referenced"
  is_attempt_generation :: "attempt_tag generation"
  is_component :: "component_tag strong_id"
  is_component_generation :: "component_tag generation"
  is_toolchain :: "toolchain_tag referenced"
  is_target :: "target_tag referenced"
  is_environment :: "environment_tag referenced"
  is_policy :: "policy_tag referenced"
  is_executable :: string
  is_executable_identity :: file_identity
  is_arguments :: "string list"
  is_environment_variables :: "environment_variable list"
  is_working_directory :: string
  is_inputs :: "input_binding list"
  is_expected_outputs :: "output_binding list"
  is_style :: argument_style
  is_adapter_name :: string
  is_produced_executable :: bool

fun style_value :: "argument_style \<Rightarrow> u8" where
  "style_value Style_msvc = 0"
| "style_value Style_posix = 1"

definition input_text :: "host_paths \<Rightarrow> input_binding \<Rightarrow> string" where
  "input_text hp b = id_to_string ''source'' (ib_source b) @ ''|'' @
     canonical_path_key (hp_lexically_normal hp) (ib_path b) @ ''|'' @ to_hex (ib_content b) @ ''|'' @
     (if ib_staged b then ''staged'' else ''in-place'')"

definition output_text :: "host_paths \<Rightarrow> output_binding \<Rightarrow> string" where
  "output_text hp b = out_logical_name b @ ''|'' @ canonical_path_key (hp_lexically_normal hp) (out_path b) @ ''|'' @
     to_string_object_format (out_expected_format b) @ ''|'' @ (if out_required b then ''required'' else ''optional'')"

definition invocation_canonical_digest :: "host_paths \<Rightarrow> invocation_spec \<Rightarrow> digest" where
  "invocation_canonical_digest hp s =
     (let key = canonical_path_key (hp_lexically_normal hp) in
      digest_of (enc_text (id_to_string ''invocation'' (is_id s)) @ enc_u64 (gen_value (is_generation s)) @
       enc_text (ref_to_string ''session'' (is_session s)) @ enc_text (ref_to_string ''phase'' (is_phase s)) @
       enc_u64 (gen_value (is_attempt_generation s)) @ enc_text (id_to_string ''component'' (is_component s)) @
       enc_u64 (gen_value (is_component_generation s)) @ enc_text (ref_to_string ''toolchain'' (is_toolchain s)) @
       enc_text (ref_to_string ''target'' (is_target s)) @ enc_text (ref_to_string ''environment'' (is_environment s)) @
       enc_text (ref_to_string ''policy'' (is_policy s)) @ enc_text (key (is_executable s)) @
       enc_text (to_hex (file_canonical_digest (hp_lexically_normal hp) (is_executable_identity s))) @
       concat (map enc_text (is_arguments s)) @ enc_sorted_variables (is_environment_variables s) @
       enc_text (key (is_working_directory s)) @ enc_sorted_texts (map (input_text hp) (is_inputs s)) @
       enc_sorted_texts (map (output_text hp) (is_expected_outputs s)) @ enc_text (is_adapter_name s) @
       enc_u8 (style_value (is_style s)) @ enc_boolean (is_produced_executable s)))"

definition invocation_render :: "invocation_spec \<Rightarrow> string" where
  "invocation_render s = render_command_line (is_executable s # is_arguments s) (is_style s)"

definition to_process_spec :: "host_paths \<Rightarrow> (string \<Rightarrow> bool) \<Rightarrow> invocation_spec \<Rightarrow> process_spec result" where
  "to_process_spec hp is_dir s =
     (let p = process_spec_default\<lparr>sp_executable := is_executable s, sp_arguments := is_arguments s,
            sp_environment := is_environment_variables s, sp_working_directory := is_working_directory s\<rparr>
      in crf_try (process_validate hp is_dir p) (\<lambda>_. Inr p))"

section \<open>Validation\<close>

record invocation_limits =
  il_max_arguments :: nat
  il_max_argument_bytes :: nat
  il_max_command_line_bytes :: nat
  il_max_environment_variables :: nat
  il_max_environment_bytes :: nat
  il_max_outputs :: nat
  il_max_inputs :: nat

definition invocation_limits_default :: invocation_limits where
  "invocation_limits_default = \<lparr>il_max_arguments = 4096, il_max_argument_bytes = 32768,
     il_max_command_line_bytes = 1048576, il_max_environment_variables = 1024,
     il_max_environment_bytes = 1048576, il_max_outputs = 256, il_max_inputs = 256\<rparr>"

record validation_context =
  vc_workspace :: "workspace option"
  vc_family :: toolchain_family
  vc_target_architecture :: architecture
  vc_forbidden_options :: "string list"
  vc_limits :: invocation_limits
  vc_require_component_identity :: bool
  vc_allowed_executable_roots :: "string list"

definition argument_is_hostile :: "string \<Rightarrow> bool" where
  "argument_is_hostile argument =
     list_ex (\<lambda>c. let b = of_char c :: nat in b = 0 \<or> (b < 0x20 \<and> b \<noteq> 9) \<or> b = 0x7F) argument"

definition argument_looks_like_switch :: "string \<Rightarrow> bool" where
  "argument_looks_like_switch argument = (argument \<noteq> [] \<and> (hd argument = CHR ''/'' \<or> hd argument = CHR ''-''))"

fun check_invocation_arguments :: "nat \<Rightarrow> string list \<Rightarrow> unit result" where
  "check_invocation_arguments limit [] = Inr ()"
| "check_invocation_arguments limit (a # as) =
     (if length a > limit then Inl (Status SC_capacity_exceeded ''invocation argument exceeds the byte ceiling'')
      else if argument_is_hostile a
        then Inl (Status SC_invalid_argument ''invocation argument contains a forbidden control character'')
      else check_invocation_arguments limit as)"

definition option_matches :: "string \<Rightarrow> string \<Rightarrow> bool" where
  "option_matches argument forbidden =
     (equals_ascii_ci argument forbidden \<or>
      (length argument > length forbidden \<and> starts_with_ci argument forbidden \<and>
       (argument ! length forbidden = CHR '':'' \<or> argument ! length forbidden = CHR ''='')))"

definition forbidden_argument :: "string list \<Rightarrow> string \<Rightarrow> bool" where
  "forbidden_argument forbidden argument =
     (argument_looks_like_switch argument \<and> list_ex (option_matches argument) forbidden)"

fun check_inputs :: "host_paths \<Rightarrow> workspace option \<Rightarrow> input_binding list \<Rightarrow> unit result" where
  "check_inputs hp ws [] = Inr ()"
| "check_inputs hp ws (b # bs) =
     (if ib_path b = [] then Inl (Status SC_invalid_argument ''invocation input has an empty path'')
      else if path_has_traversal hp (ib_path b)
        then Inl (Status SC_path_traversal ''invocation input path contains a parent component'')
      else if (case ws of None \<Rightarrow> False | Some w \<Rightarrow> ib_staged b \<and> \<not> workspace_contains hp w (ib_path b))
        then Inl (Status SC_workspace_escape ''staged input is outside the workspace'')
      else check_inputs hp ws bs)"

definition check_output :: "host_paths \<Rightarrow> host_fs \<Rightarrow> workspace option \<Rightarrow> output_binding \<Rightarrow> unit result" where
  "check_output hp fs ws b =
     (if out_path b = [] then Inl (Status SC_invalid_argument ''invocation output has an empty path'')
      else if \<not> hp_is_absolute hp (out_path b)
        then Inl (Status SC_path_not_absolute (''invocation output must be absolute: '' @ out_path b))
      else if path_has_traversal hp (out_path b)
        then Inl (Status SC_path_traversal ''invocation output path contains a parent component'')
      else if out_logical_name b = [] then Inl (Status SC_invalid_argument ''invocation output has no logical name'')
      else case ws of
        None \<Rightarrow> Inr ()
      | Some w \<Rightarrow>
          if \<not> workspace_contains hp w (out_path b)
            then Inl (Status SC_workspace_escape (''invocation output escapes the workspace: '' @ out_path b))
          else
            let relative = hp_relative hp (hp_normalize hp (out_path b)) (hp_normalize hp (wk_root w)) in
            if relative = [] \<or> take 2 (hp_generic_string hp relative) = ''..''
              then Inl (Status SC_workspace_escape
                (''invocation output is not addressable inside the workspace: '' @ out_path b))
            else crf_try (workspace_resolve hp fs w relative) (\<lambda>_. Inr ()))"

fun check_outputs :: "host_paths \<Rightarrow> host_fs \<Rightarrow> workspace option \<Rightarrow> output_binding list \<Rightarrow> unit result" where
  "check_outputs hp fs ws [] = Inr ()"
| "check_outputs hp fs ws (b # bs) = crf_try (check_output hp fs ws b) (\<lambda>_. check_outputs hp fs ws bs)"

text \<open>The executable must still be the bound component's binary.\<close>

definition check_executable_identity :: "file_queries \<Rightarrow> validation_context \<Rightarrow> invocation_spec \<Rightarrow> unit result" where
  "check_executable_identity fq ctx s =
     (if vc_require_component_identity ctx \<and> \<not> is_produced_executable s then
        (if \<not> fi_content_hashed (is_executable_identity s)
           then Inl (Status SC_integrity_unproven ''invocation executable identity was never content-verified'')
         else crf_try (probe_file_identity fq (is_executable s) True) (\<lambda>observed.
           if \<not> same_binary_as (fq_lexically_normal fq) (is_executable_identity s) observed
             then Inl (Status SC_component_mutated
               ''invocation executable no longer matches the bound component identity'')
           else Inr ()))
      else Inr ())"

definition check_working_directory ::
  "host_paths \<Rightarrow> validation_context \<Rightarrow> invocation_spec \<Rightarrow> invocation_spec result" where
  "check_working_directory hp ctx s0 =
     (let s = (case vc_workspace ctx of
            Some w \<Rightarrow> if is_working_directory s0 = [] then s0\<lparr>is_working_directory := wk_root w\<rparr> else s0
          | None \<Rightarrow> s0) in
      if is_working_directory s = [] then Inr s
      else if \<not> hp_is_absolute hp (is_working_directory s)
        then Inl (Status SC_path_not_absolute ''invocation working directory must be absolute'')
      else if (case vc_workspace ctx of None \<Rightarrow> False | Some w \<Rightarrow> \<not> workspace_contains hp w (is_working_directory s))
        then Inl (Status SC_workspace_escape ''invocation working directory is outside the workspace'')
      else Inr s)"

definition validate_invocation ::
  "host_paths \<Rightarrow> host_fs \<Rightarrow> file_queries \<Rightarrow> invocation_spec \<Rightarrow> validation_context \<Rightarrow> invocation_spec result" where
  "validate_invocation hp fs fq s ctx =
     (let lim = vc_limits ctx in
      if is_executable s = [] then Inl (Status SC_invalid_argument ''invocation has no executable'')
      else if \<not> hp_is_absolute hp (is_executable s)
        then Inl (Status SC_path_not_absolute (''invocation executable must be absolute: '' @ is_executable s))
      else if length (is_arguments s) > il_max_arguments lim
        then Inl (Status SC_capacity_exceeded ''invocation argument count exceeds the ceiling'')
      else crf_try (check_invocation_arguments (il_max_argument_bytes lim) (is_arguments s)) (\<lambda>_.
      if length (invocation_render s) > il_max_command_line_bytes lim
        then Inl (Status SC_capacity_exceeded ''invocation command line exceeds the ceiling'')
      else if length (is_environment_variables s) > il_max_environment_variables lim
        then Inl (Status SC_capacity_exceeded ''invocation environment exceeds the entry ceiling'')
      else if list_ex bad_variable_name (is_environment_variables s)
        then Inl (Status SC_invalid_argument ''invocation environment has an invalid name'')
      else if environment_bytes (is_environment_variables s) > il_max_environment_bytes lim
        then Inl (Status SC_capacity_exceeded ''invocation environment exceeds the byte ceiling'')
      else if length (is_inputs s) > il_max_inputs lim
        then Inl (Status SC_capacity_exceeded ''invocation input count exceeds the ceiling'')
      else if length (is_expected_outputs s) > il_max_outputs lim
        then Inl (Status SC_capacity_exceeded ''invocation output count exceeds the ceiling'')
      else if \<not> fq_exists fq (is_executable s)
        then Inl (Status SC_not_found (''invocation executable does not exist: '' @ is_executable s))
      else crf_try (check_executable_identity fq ctx s) (\<lambda>_.
      if vc_allowed_executable_roots ctx \<noteq> [] \<and>
          \<not> list_ex (hp_within hp (is_executable s)) (vc_allowed_executable_roots ctx)
        then Inl (Status SC_policy_refused ''invocation executable is outside every permitted root'')
      else case List.find (forbidden_argument (vc_forbidden_options ctx)) (is_arguments s) of
        Some argument \<Rightarrow> Inl (Status SC_policy_refused (''forbidden option: '' @ argument))
      | None \<Rightarrow>
        if vc_target_architecture ctx = AR_unknown
          then Inl (Status SC_target_unsupported ''invocation has no resolved target architecture'')
        else crf_try (check_inputs hp (vc_workspace ctx) (is_inputs s)) (\<lambda>_.
          crf_try (check_outputs hp fs (vc_workspace ctx) (is_expected_outputs s)) (\<lambda>_.
          crf_try (check_working_directory hp ctx s) (\<lambda>s'.
          crf_try (to_process_spec hp (hf_is_directory fs) s') (\<lambda>_. Inr s')))))))"

section \<open>Quoting is undone by the receiving process\<close>

text \<open>
  The documented rules by which a Windows program splits its command line into arguments: blanks
  outside quotes separate, \<open>2n\<close> backslashes before a quote stand for \<open>n\<close> and the quote toggles,
  \<open>2n + 1\<close> stand for \<open>n\<close> and a literal quote, other backslashes are literal.
\<close>

fun split_windows :: "bool \<Rightarrow> bool \<Rightarrow> nat \<Rightarrow> string \<Rightarrow> string \<Rightarrow> string list" where
  "split_windows started quoted n acc [] = (if started then [acc @ replicate n kBackslash] else [])"
| "split_windows started quoted n acc (c # cs) =
     (if c = kBackslash then split_windows True quoted (Suc n) acc cs
      else if c = kQuote then
        (if even n then split_windows True (\<not> quoted) 0 (acc @ replicate (n div 2) kBackslash) cs
         else split_windows True quoted 0 (acc @ replicate (n div 2) kBackslash @ [kQuote]) cs)
      else if (c = CHR '' '' \<or> c = kTab) \<and> \<not> quoted then
        (if started then (acc @ replicate n kBackslash) # split_windows False False 0 [] cs
         else split_windows False False 0 [] cs)
      else split_windows True quoted 0 (acc @ replicate n kBackslash @ [c]) cs)"

definition parse_command_line :: "string \<Rightarrow> string list" where
  "parse_command_line line = split_windows False False 0 [] line"

lemma char_facts [simp]: "kBackslash \<noteq> kQuote" "kQuote \<noteq> kBackslash" "CHR '' '' \<noteq> kBackslash" "CHR '' '' \<noteq> kQuote"
  by (simp_all add: kBackslash_def kQuote_def)

lemma split_backslashes:
  "split_windows True quoted n acc (replicate k kBackslash @ rest) = split_windows True quoted (n + k) acc rest"
  by (induction k arbitrary: n) simp_all

lemma split_quoted:
  "split_windows True True 0 acc (quote_chars n arg @ kQuote # rest) =
    split_windows True False 0 (acc @ replicate n kBackslash @ arg) rest"
proof (induction arg arbitrary: n acc)
  case Nil
  then show ?case by (simp add: split_backslashes)
next
  case (Cons c cs)
  show ?case
  proof (cases "c = kBackslash")
    case True
    then show ?thesis using Cons [of acc "Suc n"] by (simp add: replicate_app_Cons_same)
  next
    case False
    then show ?thesis
      using Cons [of "acc @ replicate n kBackslash @ [c]" 0] by (auto simp: split_backslashes)
  qed
qed

text \<open>An argument written without quotes, up to the separator or the end.\<close>

lemma split_plain:
  assumes "CHR '' '' \<notin> set a" "kTab \<notin> set a" "kQuote \<notin> set a" "a \<noteq> [] \<or> started"
    and "rest = [] \<or> (\<exists>r. rest = CHR '' '' # r)"
  shows "split_windows started False n acc (a @ rest) =
    (acc @ replicate n kBackslash @ a) # (if rest = [] then [] else split_windows False False 0 [] (tl rest))"
  using assms
proof (induction a arbitrary: started n acc)
  case Nil
  then show ?case by auto
next
  case (Cons c cs)
  show ?case
  proof (cases "c = kBackslash")
    case True
    then show ?thesis using Cons.IH [of True "Suc n" acc] Cons.prems by (simp add: replicate_app_Cons_same)
  next
    case False
    moreover have "c \<noteq> CHR '' ''" "c \<noteq> kTab" "c \<noteq> kQuote" using Cons.prems(1-3) by auto
    ultimately show ?thesis using Cons.IH [of True 0 "acc @ replicate n kBackslash @ [c]"] Cons.prems by simp
  qed
qed

lemma split_argument:
  assumes "rest = [] \<or> (\<exists>r. rest = CHR '' '' # r)"
  shows "split_windows False False 0 [] (quote_windows_argument a @ rest) =
    a # (if rest = [] then [] else split_windows False False 0 [] (tl rest))"
proof (cases "needs_quoting a")
  case True
  then show ?thesis
    using split_quoted [of "[]" 0 a rest] assms by (auto simp: quote_windows_argument_def)
next
  case False
  then show ?thesis
    using split_plain [of a False rest 0 "[]"] assms by (auto simp: quote_windows_argument_def needs_quoting_def)
qed

lemma render_parse: "parse_command_line (render_command_line argv Style_msvc) = argv"
proof (induction argv)
  case Nil
  then show ?case by (simp add: parse_command_line_def render_command_line_def)
next
  case (Cons a argv)
  show ?case
  proof (cases argv)
    case Nil
    then show ?thesis
      using split_argument [of "[]" a] by (simp add: parse_command_line_def render_command_line_def render_argument_def)
  next
    case (Cons b bs)
    then show ?thesis
      using split_argument [of "'' '' @ render_command_line argv Style_msvc" a] Cons.IH
      by (simp add: parse_command_line_def render_command_line_def render_argument_def)
  qed
qed

section \<open>What an accepted invocation guarantees\<close>

lemma check_outputs_all: "check_outputs hp fs ws bs = Inr () \<longleftrightarrow> (\<forall>b \<in> set bs. check_output hp fs ws b = Inr ())"
proof (induction bs)
  case (Cons b bs)
  then show ?case by (cases "check_output hp fs ws b") (simp_all add: crf_try_def)
qed simp

lemma check_arguments_all:
  "check_invocation_arguments lim as = Inr () \<longleftrightarrow> (\<forall>a \<in> set as. length a \<le> lim \<and> \<not> argument_is_hostile a)"
  by (induction as) auto

lemma guard_Inr: "(if c then Inl e else r) = Inr y \<longleftrightarrow> \<not> c \<and> r = Inr y"
  by simp

lemma refusal_Inr: "(case o' of Some a \<Rightarrow> Inl (e a) | None \<Rightarrow> r) = Inr y \<longleftrightarrow> o' = None \<and> r = Inr y"
  by (cases o') simp_all

lemma validate_parts:
  assumes "validate_invocation hp fs fq s ctx = Inr s'"
  shows "hp_is_absolute hp (is_executable s)" "length (is_arguments s) \<le> il_max_arguments (vc_limits ctx)"
    "check_invocation_arguments (il_max_argument_bytes (vc_limits ctx)) (is_arguments s) = Inr ()"
    "check_executable_identity fq ctx s = Inr ()"
    "List.find (forbidden_argument (vc_forbidden_options ctx)) (is_arguments s) = None"
    "check_outputs hp fs (vc_workspace ctx) (is_expected_outputs s) = Inr ()"
    "check_working_directory hp ctx s = Inr s'" "\<exists>p. to_process_spec hp (hf_is_directory fs) s' = Inr p"
  using assms unfolding validate_invocation_def Let_def guard_Inr crf_try_Inr refusal_Inr
  by auto

lemma validate_changes_directory_only:
  assumes "validate_invocation hp fs fq s ctx = Inr s'"
  shows "s' = s\<lparr>is_working_directory := is_working_directory s'\<rparr>"
  using validate_parts(7) [OF assms]
  by (auto simp: check_working_directory_def Let_def split: if_splits option.splits)

lemma validate_outputs_inside:
  assumes "validate_invocation hp fs fq s ctx = Inr s'" "vc_workspace ctx = Some w" "b \<in> set (is_expected_outputs s)"
  shows "workspace_contains hp w (out_path b)" "\<not> path_has_traversal hp (out_path b)" "out_logical_name b \<noteq> []"
proof -
  have "check_output hp fs (Some w) b = Inr ()"
    using validate_parts(6) [OF assms(1)] assms(2,3) by (simp add: check_outputs_all)
  then show "workspace_contains hp w (out_path b)" "\<not> path_has_traversal hp (out_path b)" "out_logical_name b \<noteq> []"
    by (auto simp: check_output_def split: if_splits)
qed

lemma validate_runs_inside:
  assumes "validate_invocation hp fs fq s ctx = Inr s'" "vc_workspace ctx = Some w" "wk_root w \<noteq> []"
  shows "workspace_contains hp w (is_working_directory s')"
  using validate_parts(7) [OF assms(1)] assms(2,3)
  by (auto simp: check_working_directory_def Let_def split: if_splits)

lemma validate_no_forbidden_option:
  assumes "validate_invocation hp fs fq s ctx = Inr s'" "a \<in> set (is_arguments s)" "f \<in> set (vc_forbidden_options ctx)"
    and "argument_looks_like_switch a"
  shows "\<not> option_matches a f"
  using validate_parts(5) [OF assms(1)] assms(2-4) by (auto simp: find_None_iff forbidden_argument_def list_ex_iff)

lemma validate_binary_bound:
  assumes "validate_invocation hp fs fq s ctx = Inr s'"
    and "vc_require_component_identity ctx" "\<not> is_produced_executable s"
  shows "\<exists>f. probe_file_identity fq (is_executable s) True = Inr f \<and>
    digest_of_file (fq_view fq (fi_canonical_path f)) kDefaultFileBound = Some (fi_content (is_executable_identity s))"
proof -
  have "fi_content_hashed (is_executable_identity s)" and
    "\<exists>f. probe_file_identity fq (is_executable s) True = Inr f \<and>
      same_binary_as (fq_lexically_normal fq) (is_executable_identity s) f"
    using validate_parts(4) [OF assms(1)] assms(2,3)
    by (auto simp: check_executable_identity_def crf_try_Inr split: if_splits)
  then obtain f where f: "probe_file_identity fq (is_executable s) True = Inr f"
      "same_binary_as (fq_lexically_normal fq) (is_executable_identity s) f" "fi_content_hashed (is_executable_identity s)"
    by blast
  from probe_hashed [OF f(1)] f show ?thesis
    by (intro exI [of _ f]) (auto simp: same_binary_as_def split: if_splits)
qed

section \<open>Claims\<close>

text \<open>
  A rendered command line is split back into the arguments it was built from: under the
  documented rules of the receiving runtime, blanks, tabs, quotes and runs of backslashes in any
  argument, and empty arguments, survive.
\<close>

lemma command_line_round_trip: "parse_command_line (render_command_line argv Style_msvc) = argv"
  by (rule render_parse)

text \<open>
  C38: an invocation that passes validation within a workspace writes and runs inside it: every
  declared output and the working directory are contained in the workspace, no argument is a
  forbidden option, and nothing of the request but an empty working directory was changed.
\<close>

theorem validated_invocation_contained:
  assumes "validate_invocation hp fs fq s ctx = Inr s'" "vc_workspace ctx = Some w" "wk_root w \<noteq> []"
  shows "list_all (\<lambda>b. workspace_contains hp w (out_path b)) (is_expected_outputs s) \<and>
    workspace_contains hp w (is_working_directory s') \<and>
    list_all (\<lambda>a. \<not> forbidden_argument (vc_forbidden_options ctx) a) (is_arguments s) \<and>
    s' = s\<lparr>is_working_directory := is_working_directory s'\<rparr>"
  using validate_outputs_inside(1) [OF assms(1,2)] validate_runs_inside [OF assms] validate_parts(5) [OF assms(1)]
    validate_changes_directory_only [OF assms(1)]
  by (simp add: list_all_iff find_None_iff)

text \<open>
  A validated invocation of a toolchain component runs the bytes that were bound: the
  executable, read at validation, has the content digest recorded when the component was probed.
\<close>

lemma validated_binary_is_bound:
  assumes "validate_invocation hp fs fq s ctx = Inr s'" "vc_require_component_identity ctx" "\<not> is_produced_executable s"
  shows "\<exists>f. probe_file_identity fq (is_executable s) True = Inr f \<and>
    digest_of_file (fq_view fq (fi_canonical_path f)) kDefaultFileBound = Some (fi_content (is_executable_identity s))"
  by (rule validate_binary_bound [OF assms])

definition sample_invocation :: invocation_spec where
  "sample_invocation = \<lparr>is_id = StrongId 1, is_generation = gen_initial, is_session = ref_absent, is_phase = ref_absent,
    is_attempt_generation = gen_initial, is_component = StrongId 1, is_component_generation = gen_initial,
    is_toolchain = ref_absent, is_target = ref_absent, is_environment = ref_absent, is_policy = ref_absent,
    is_executable = ''c:/cl'', is_executable_identity = sample_file, is_arguments = [''/c'', ''a b''],
    is_environment_variables = [], is_working_directory = [], is_inputs = [], is_expected_outputs = [],
    is_style = Style_msvc, is_adapter_name = ''msvc'', is_produced_executable = False\<rparr>"

definition sample_context :: validation_context where
  "sample_context = \<lparr>vc_workspace = Some sample_workspace, vc_family = TF_msvc, vc_target_architecture = AR_x64,
    vc_forbidden_options = [''/MP''], vc_limits = invocation_limits_default, vc_require_component_identity = True,
    vc_allowed_executable_roots = []\<rparr>"

lemma sample_normal: "normalize_path_string id ''c:/cl'' = ''c:/cl''" "normalize_path_string (\<lambda>a. a) ''c:/cl'' = ''c:/cl''"
  by code_simp+

lemma sample_identity_checked: "check_executable_identity sample_queries sample_context sample_invocation = Inr ()"
proof -
  have "probe_file_identity sample_queries ''c:/cl'' True = Inr (sample_file\<lparr>fi_canonical_path := ''c:/cl''\<rparr>)"
    by (simp add: probe_file_identity_def sample_queries_def sample_file_def digest_of_file_def kDefaultFileBound_def
        filetime_to_unix_nanos_def kFiletimeEpochDelta_def sample_normal id_def)
  moreover have "same_binary_as ln sample_file (sample_file\<lparr>fi_canonical_path := p\<rparr>)" for ln p
    by (simp add: same_binary_as_def same_file_as_def sample_file_def hex_u32_def)
  ultimately show ?thesis
    by (simp add: check_executable_identity_def crf_try_def sample_context_def sample_invocation_def)
      (simp add: sample_file_def)
qed

lemma sample_directory_checked:
  "check_working_directory sample_host sample_context sample_invocation =
    Inr (sample_invocation\<lparr>is_working_directory := ''c:/ws''\<rparr>)"
proof -
  have "workspace_contains sample_host sample_workspace ''c:/ws''" by code_simp
  then show ?thesis
    by (simp add: check_working_directory_def sample_context_def sample_invocation_def sample_workspace_def Let_def)
      (simp add: sample_host_def)
qed

lemma sample_arguments_checked:
  "\<not> forbidden_argument [''/MP''] ''/c''" "\<not> forbidden_argument [''/MP''] ''a b''"
  "length (render_command_line [''c:/cl'', ''/c'', ''a b''] Style_msvc) \<le> 1048576"
  "\<not> argument_is_hostile ''/c''" "\<not> argument_is_hostile ''a b''"
proof -
  have "length (render_command_line [''c:/cl'', ''/c'', ''a b''] Style_msvc) = 14" by code_simp
  then show "length (render_command_line [''c:/cl'', ''/c'', ''a b''] Style_msvc) \<le> 1048576" by simp
qed code_simp+

lemma sample_validated:
  "validate_invocation sample_host (sample_fs []) sample_queries sample_invocation sample_context =
    Inr (sample_invocation\<lparr>is_working_directory := ''c:/ws''\<rparr>)"
proof -
  have "to_process_spec sample_host (hf_is_directory (sample_fs [])) (sample_invocation\<lparr>is_working_directory := ''c:/ws''\<rparr>)
      \<noteq> Inl e" for e
    by (simp add: to_process_spec_def process_validate_def Let_def crf_try_def process_spec_default_def
        sample_invocation_def sample_fs_def kMaxArguments_def kMaxArgumentBytes_def kMaxCommandLineBytes_def
        kMaxEnvironmentBytes_def kMaxCaptureBytes_def kDefaultCaptureBytes_def environment_bytes_def)
      (simp add: sample_host_def sample_normal)
  then obtain p where p: "to_process_spec sample_host (hf_is_directory (sample_fs []))
      (sample_invocation\<lparr>is_working_directory := ''c:/ws''\<rparr>) = Inr p"
    by (metis sum.exhaust_sel)
  have f: "is_executable sample_invocation = ''c:/cl''" "is_arguments sample_invocation = [''/c'', ''a b'']"
      "is_environment_variables sample_invocation = []" "is_inputs sample_invocation = []"
      "is_expected_outputs sample_invocation = []" "vc_limits sample_context = invocation_limits_default"
      "vc_allowed_executable_roots sample_context = []" "vc_forbidden_options sample_context = [''/MP'']"
      "vc_target_architecture sample_context = AR_x64" "hp_is_absolute sample_host ''c:/cl''"
      "fq_exists sample_queries ''c:/cl''" "invocation_render sample_invocation = render_command_line [''c:/cl'', ''/c'', ''a b''] Style_msvc"
    by (simp_all add: sample_invocation_def sample_context_def sample_host_def sample_queries_def invocation_render_def)
  show ?thesis
    unfolding validate_invocation_def Let_def f
    by (simp add: crf_try_def invocation_limits_default_def sample_arguments_checked not_less environment_bytes_def
        sample_identity_checked sample_directory_checked p f(10,11))
qed

theorem validated_invocation_contained_witness:
  "list_all (\<lambda>b. workspace_contains sample_host sample_workspace (out_path b)) (is_expected_outputs sample_invocation) \<and>
    workspace_contains sample_host sample_workspace ''c:/ws'' \<and>
    list_all (\<lambda>a. \<not> forbidden_argument [''/MP''] a) [''/c'', ''a b'']"
  using validated_invocation_contained [OF sample_validated, of sample_workspace]
  by (simp add: sample_context_def sample_workspace_def sample_invocation_def)

end
