(* ===== verification/Process.thy ===== *)
theory Process
  imports Invocation
begin

text \<open>
  \<open>src/core/process.cpp\<close> and \<open>include/crf/process.hpp\<close>: outcomes of child processes, their bounded
  capture, and the supervisor that owns the live ones. The operating system is a parameter: whether
  a launch succeeds, what the pipes deliver and which exit code a child reports.
\<close>

section \<open>Outcomes\<close>

datatype process_termination =
    PT_exited | PT_crashed | PT_killed | PT_timed_out | PT_launch_failed | PT_unknown

fun to_string_process_termination :: "process_termination \<Rightarrow> string" where
  "to_string_process_termination PT_exited = ''exited''"
| "to_string_process_termination PT_crashed = ''crashed''"
| "to_string_process_termination PT_killed = ''killed''"
| "to_string_process_termination PT_timed_out = ''timed-out''"
| "to_string_process_termination PT_launch_failed = ''launch-failed''"
| "to_string_process_termination PT_unknown = ''unknown''"

record process_capture =
  pc_standard_output :: string
  pc_standard_error :: string
  pc_standard_output_bytes :: u64
  pc_standard_error_bytes :: u64
  pc_dropped_standard_output_bytes :: u64
  pc_dropped_standard_error_bytes :: u64
  pc_truncated :: bool

definition process_capture_default :: process_capture where
  "process_capture_default = \<lparr>pc_standard_output = [], pc_standard_error = [], pc_standard_output_bytes = 0,
     pc_standard_error_bytes = 0, pc_dropped_standard_output_bytes = 0, pc_dropped_standard_error_bytes = 0,
     pc_truncated = False\<rparr>"

record process_outcome =
  oc_id :: process_id
  oc_generation :: "process_tag generation"
  oc_invocation :: "invocation_tag referenced"
  oc_os_process_id :: u32
  oc_termination :: process_termination
  oc_exit_code :: u32
  oc_capture :: process_capture
  oc_started_at_nanos :: u64
  oc_finished_at_nanos :: u64
  oc_status :: status

definition process_outcome_default :: process_outcome where
  "process_outcome_default = \<lparr>oc_id = id_absent, oc_generation = gen_absent, oc_invocation = ref_absent,
     oc_os_process_id = 0, oc_termination = PT_unknown, oc_exit_code = 0, oc_capture = process_capture_default,
     oc_started_at_nanos = 0, oc_finished_at_nanos = 0, oc_status = status_success\<rparr>"

definition exited_zero :: "process_outcome \<Rightarrow> bool" where
  "exited_zero p = (oc_termination p = PT_exited \<and> oc_exit_code p = 0)"

definition duration_nanos :: "process_outcome \<Rightarrow> u64" where
  "duration_nanos p =
     (if oc_finished_at_nanos p > oc_started_at_nanos p then oc_finished_at_nanos p - oc_started_at_nanos p else 0)"

definition exit_code_is_exception :: "u32 \<Rightarrow> bool" where
  "exit_code_is_exception code = (code \<ge> 0xC0000000)"

text \<open>\<open>STILL_ACTIVE\<close> of the Windows headers.\<close>

definition kStillActive :: u32 where "kStillActive = 259"

section \<open>Launch preparation\<close>

text \<open>The wide-character encoding is the operating system's; it is the argument \<open>widen\<close>.\<close>

definition build_environment_block ::
  "(string \<Rightarrow> u16 list) \<Rightarrow> environment_variable list \<Rightarrow> u16 list" where
  "build_environment_block widen vs =
     (let block = concat (map (\<lambda>v. widen (ev_name v) @ [61] @ widen (ev_value v) @ [0]) vs) @ [0]
      in if length block < 2 then block @ [0] else block)"

text \<open>The ambient block with the explicit variables applied on top, in case-insensitive order.\<close>

definition merge_ambient :: "environment_variable list \<Rightarrow> environment_variable list \<Rightarrow> environment_variable list" where
  "merge_ambient ambient vs = sort_key var_ci (foldl (\<lambda>merged v. set_or_add (ev_name v) (ev_value v) merged) ambient vs)"

record supervisor_options =
  so_max_capture_bytes :: nat
  so_default_timeout_millis :: u32
  so_own_job_object :: bool

definition supervisor_options_default :: supervisor_options where
  "supervisor_options_default = \<lparr>so_max_capture_bytes = kDefaultCaptureBytes, so_default_timeout_millis = 0,
     so_own_job_object = True\<rparr>"

definition effective_spec ::
  "environment_variable list \<Rightarrow> (string \<Rightarrow> string) \<Rightarrow> supervisor_options \<Rightarrow> process_spec \<Rightarrow> process_spec" where
  "effective_spec ambient ambient_value options spec =
     (let s1 = (if sp_inherit_ambient_environment spec
                then spec\<lparr>sp_environment := merge_ambient ambient (sp_environment spec)\<rparr> else spec);
          s2 = (if sp_environment s1 = []
                then s1\<lparr>sp_environment := build_process_environment ambient_value environment_spec_init True\<rparr> else s1);
          s3 = (if sp_max_capture_bytes s2 = 0 then s2\<lparr>sp_max_capture_bytes := so_max_capture_bytes options\<rparr> else s2)
      in if sp_timeout_millis s3 = 0 then s3\<lparr>sp_timeout_millis := so_default_timeout_millis options\<rparr> else s3)"

section \<open>Bounded capture\<close>

text \<open>One successful read of a stream: what fits is kept, the rest is counted as dropped.\<close>

definition capture_chunk :: "nat \<Rightarrow> string \<Rightarrow> string \<times> u64 \<times> bool \<Rightarrow> string \<times> u64 \<times> bool" where
  "capture_chunk max_capture_bytes chunk st =
     (case st of (target, dropped, truncated) \<Rightarrow>
        let room = (if length target < max_capture_bytes then max_capture_bytes - length target else 0);
            taken = min room (length chunk) in
        if taken < length chunk
        then (target @ take taken chunk, dropped + of_nat (length chunk - taken), True)
        else (target @ take taken chunk, dropped, truncated))"

text \<open>\<open>read_stream\<close>: the chunks a pipe delivers until a read fails or returns nothing.\<close>

definition read_stream :: "nat \<Rightarrow> string list \<Rightarrow> string \<times> u64 \<times> bool \<Rightarrow> string \<times> u64 \<times> bool" where
  "read_stream max_capture_bytes chunks st =
     foldl (\<lambda>st chunk. capture_chunk max_capture_bytes chunk st) st (takeWhile (\<lambda>c. c \<noteq> []) chunks)"

section \<open>Handles\<close>

record process_handle =
  ph_id :: process_id
  ph_generation :: "process_tag generation"
  ph_invocation :: "invocation_tag referenced"
  ph_os_process_id :: u32
  ph_finished :: bool
  ph_outcome :: process_outcome
  ph_terminate_requested :: bool
  ph_terminate_reason :: string
  ph_max_capture_bytes :: nat

definition handle_terminate :: "string \<Rightarrow> process_handle \<Rightarrow> process_handle" where
  "handle_terminate reason handle =
     (if ph_finished handle \<or> ph_terminate_requested handle then handle
      else handle\<lparr>ph_terminate_requested := True, ph_terminate_reason := reason\<rparr>)"

text \<open>What the operating system reports of a child that is waited for.\<close>

record exit_report =
  xr_stdout :: "string list"
  xr_stderr :: "string list"
  xr_exit_code :: "u32 option"
  xr_now :: u64

definition classify_exit :: "u32 \<Rightarrow> process_handle \<Rightarrow> process_termination \<times> u32 \<times> status" where
  "classify_exit exit_code handle =
     (if exit_code = kStillActive
        then (PT_unknown, 0, Status SC_unknown_outcome ''process outcome could not be determined'')
      else if ph_terminate_requested handle
        then (PT_killed, exit_code, Status SC_process_cancelled
          (if ph_terminate_reason handle = [] then ''process was terminated'' else ph_terminate_reason handle))
      else if exit_code_is_exception exit_code
        then (PT_crashed, exit_code, Status SC_process_crashed ''compiler process terminated abnormally'')
      else (PT_exited, exit_code, if exit_code = 0 then status_success
        else Status SC_process_exited_nonzero (''compiler process exited with code '' @ dec_string (unat exit_code))))"

definition handle_wait :: "exit_report \<Rightarrow> process_handle \<Rightarrow> process_handle \<times> process_outcome" where
  "handle_wait x handle =
     (if ph_finished handle then (handle, ph_outcome handle)
      else
        let c = oc_capture (ph_outcome handle);
            out = read_stream (ph_max_capture_bytes handle) (xr_stdout x)
              (pc_standard_output c, pc_dropped_standard_output_bytes c, pc_truncated c);
            err = read_stream (ph_max_capture_bytes handle) (xr_stderr x)
              (pc_standard_error c, pc_dropped_standard_error_bytes c, snd (snd out));
            capture = \<lparr>pc_standard_output = fst out, pc_standard_error = fst err,
              pc_standard_output_bytes = of_nat (length (fst out)), pc_standard_error_bytes = of_nat (length (fst err)),
              pc_dropped_standard_output_bytes = fst (snd out), pc_dropped_standard_error_bytes = fst (snd err),
              pc_truncated = snd (snd err)\<rparr>
        in case classify_exit (case xr_exit_code x of None \<Rightarrow> 0 | Some code \<Rightarrow> code) handle of
          (termination, code, st) \<Rightarrow>
            let final = (ph_outcome handle)\<lparr>oc_capture := capture, oc_termination := termination, oc_exit_code := code,
                  oc_status := st, oc_finished_at_nanos := xr_now x\<rparr>
            in (handle\<lparr>ph_outcome := final, ph_finished := True\<rparr>, final))"

section \<open>Supervisor\<close>

record process_supervisor =
  sv_options :: supervisor_options
  sv_live :: "(u64, process_handle) umap"
  sv_allocator :: "process_tag id_allocator"
  sv_total_spawned :: u64
  sv_total_unreaped :: u64
  sv_closed :: bool

definition supervisor_init :: "supervisor_options \<Rightarrow> process_supervisor" where
  "supervisor_init options = \<lparr>sv_options =
      (if so_max_capture_bytes options = 0 \<or> so_max_capture_bytes options > kMaxCaptureBytes
       then options\<lparr>so_max_capture_bytes := kDefaultCaptureBytes\<rparr> else options),
     sv_live = [], sv_allocator = allocator_init, sv_total_spawned = 0, sv_total_unreaped = 0, sv_closed = False\<rparr>"

text \<open>
  What the host answers when a process is created: the failure of a pipe, the encoding, the
  creation or the resumption as the status the code builds from it, or the operating system's
  process number and the time of the start.
\<close>

record process_host =
  px_paths :: host_paths
  px_is_directory :: "string \<Rightarrow> bool"
  px_ambient :: "environment_variable list"
  px_ambient_value :: "string \<Rightarrow> string"
  px_launch :: "process_spec \<Rightarrow> (u32 \<times> u64) result"

definition supervisor_spawn ::
  "process_host \<Rightarrow> process_spec \<Rightarrow> invocation_tag referenced \<Rightarrow> process_supervisor \<Rightarrow>
   process_supervisor \<times> process_handle result" where
  "supervisor_spawn host spec invocation s =
     (if sv_closed s then (s, Inl (Status SC_shutting_down ''process supervisor is closed''))
      else
        let effective = effective_spec (px_ambient host) (px_ambient_value host) (sv_options s) spec in
        case process_validate (px_paths host) (px_is_directory host) effective of
          Inl e \<Rightarrow> (s, Inl e)
        | Inr _ \<Rightarrow>
            (case alloc_next (sv_allocator s) of (i, a) \<Rightarrow>
              let s = s\<lparr>sv_allocator := a\<rparr> in
              (case px_launch host effective of
                 Inl e \<Rightarrow> (s, Inl e)
               | Inr (os_id, started) \<Rightarrow>
                   let handle = \<lparr>ph_id = i, ph_generation = gen_initial, ph_invocation = invocation,
                         ph_os_process_id = os_id, ph_finished = False,
                         ph_outcome = process_outcome_default\<lparr>oc_id := i, oc_generation := gen_initial,
                           oc_invocation := invocation, oc_os_process_id := os_id, oc_started_at_nanos := started\<rparr>,
                         ph_terminate_requested = False, ph_terminate_reason = [],
                         ph_max_capture_bytes = sp_max_capture_bytes effective\<rparr>
                   in (s\<lparr>sv_total_spawned := sv_total_spawned s + 1,
                         sv_live := um_emplace (id_value i) handle (sv_live s)\<rparr>, Inr handle))))"

definition supervisor_terminate ::
  "process_id \<Rightarrow> process_tag generation \<Rightarrow> string \<Rightarrow> process_supervisor \<Rightarrow> process_supervisor \<times> unit result" where
  "supervisor_terminate i generation reason s =
     (case um_find (sv_live s) (id_value i) of
        None \<Rightarrow> (s, Inl (Status SC_not_found (''process is not supervised: '' @ id_to_string ''process'' i)))
      | Some found \<Rightarrow>
          if ph_generation found \<noteq> generation
          then (s, Inl (Status SC_stale_phase_generation ''process generation does not match the supervised process''))
          else (s\<lparr>sv_live := um_modify (id_value i) (handle_terminate reason) (sv_live s)\<rparr>, Inr ()))"

definition um_erase :: "'k \<Rightarrow> ('k, 'v) umap \<Rightarrow> ('k, 'v) umap" where
  "um_erase key m = AList.delete key m"

definition supervisor_reap ::
  "process_id \<Rightarrow> process_tag generation \<Rightarrow> process_supervisor \<Rightarrow> process_supervisor \<times> unit result" where
  "supervisor_reap i generation s =
     (case um_find (sv_live s) (id_value i) of
        None \<Rightarrow> (s, Inr ())
      | Some found \<Rightarrow>
          if ph_generation found \<noteq> generation
          then (s, Inl (Status SC_stale_phase_generation ''reap names a process generation that is not supervised''))
          else (s\<lparr>sv_live := um_erase (id_value i) (sv_live s)\<rparr>, Inr ()))"

definition supervisor_terminate_all :: "string \<Rightarrow> process_supervisor \<Rightarrow> process_supervisor \<times> nat" where
  "supervisor_terminate_all reason s =
     (s\<lparr>sv_live := map (\<lambda>(k, h). (k, handle_terminate reason h)) (sv_live s)\<rparr>, length (sv_live s))"

definition live_count :: "process_supervisor \<Rightarrow> nat" where
  "live_count s = length (sv_live s)"

definition live_process_ids :: "process_supervisor \<Rightarrow> process_id list" where
  "live_process_ids s = sort (map (StrongId \<circ> fst) (sv_live s))"

definition supervisor_is_current :: "process_id \<Rightarrow> process_tag generation \<Rightarrow> process_supervisor \<Rightarrow> bool" where
  "supervisor_is_current i generation s =
     (case um_find (sv_live s) (id_value i) of None \<Rightarrow> False | Some found \<Rightarrow> ph_generation found = generation)"

text \<open>
  \<open>run\<close>: spawn, watch for cancellation, wait, and drop the handle from the live set. \<open>cancelled\<close>
  says whether the watcher saw the flag while the child ran, \<open>x\<close> what the wait collects.
\<close>

definition supervisor_run ::
  "process_host \<Rightarrow> process_spec \<Rightarrow> invocation_tag referenced \<Rightarrow> bool \<Rightarrow> exit_report \<Rightarrow> process_supervisor \<Rightarrow>
   process_supervisor \<times> process_outcome result" where
  "supervisor_run host spec invocation cancelled x s =
     (case supervisor_spawn host spec invocation s of
        (s1, Inl e) \<Rightarrow> (s1, Inl e)
      | (s1, Inr handle) \<Rightarrow>
          let handle = (if cancelled
                then handle_terminate ''cancellation requested while the compiler was running'' handle else handle)
          in (s1\<lparr>sv_live := um_erase (id_value (ph_id handle)) (sv_live s1)\<rparr>, Inr (snd (handle_wait x handle))))"

text \<open>\<open>close\<close>: every live child is told to stop, waited for and counted.\<close>

definition supervisor_close :: "process_supervisor \<Rightarrow> process_supervisor" where
  "supervisor_close s =
     (if sv_closed s then s
      else s\<lparr>sv_closed := True, sv_live := [],
        sv_total_unreaped := sv_total_unreaped s + of_nat (length (sv_live s))\<rparr>)"

section \<open>The capture is a prefix, and what is missing is counted\<close>

lemma capture_chunk_prefix:
  assumes "length t \<le> m"
  shows "capture_chunk m c (t, d, b) =
    (take m (t @ c), d + of_nat (length t + length c - m), b \<or> length t + length c > m)"
  using assms by (auto simp: capture_chunk_def Let_def min_def)

lemma read_stream_prefix:
  assumes "length t \<le> m"
  shows "read_stream m chunks (t, d, b) =
    (let all = t @ concat (takeWhile (\<lambda>c. c \<noteq> []) chunks)
     in (take m all, d + of_nat (length all - m), b \<or> length all > m))"
proof -
  have "foldl (\<lambda>st chunk. capture_chunk m chunk st) (t, d, b) cs =
      (take m (t @ concat cs), d + of_nat (length (t @ concat cs) - m), b \<or> length (t @ concat cs) > m)" for cs
    using assms
  proof (induction cs arbitrary: t d b)
    case (Cons c cs)
    show ?case
    proof (cases "length t + length c \<le> m")
      case True
      then show ?thesis using Cons.IH [of "t @ c"] Cons.prems by (simp add: capture_chunk_prefix)
    next
      case False
      then have full: "length (take m (t @ c)) = m" by simp
      with False show ?thesis
        using Cons.IH [of "take m (t @ c)"] Cons.prems
        by (simp add: capture_chunk_prefix ac_simps flip: of_nat_add)
    qed
  qed simp
  then show ?thesis by (simp add: read_stream_def Let_def)
qed

section \<open>A successful outcome\<close>

lemma exited_zero_wait:
  assumes "\<not> ph_finished handle"
  shows "exited_zero (snd (handle_wait x handle)) \<longleftrightarrow>
    \<not> ph_terminate_requested handle \<and> (xr_exit_code x = None \<or> xr_exit_code x = Some 0)"
  using assms
  by (auto simp: handle_wait_def exited_zero_def classify_exit_def Let_def kStillActive_def exit_code_is_exception_def
      split: option.splits if_splits)

lemma wait_status_ok:
  assumes "\<not> ph_finished handle"
  shows "status_ok (oc_status (snd (handle_wait x handle))) \<longleftrightarrow> exited_zero (snd (handle_wait x handle))"
  using assms
  by (auto simp: handle_wait_def exited_zero_def classify_exit_def Let_def kStillActive_def exit_code_is_exception_def
      status_ok_def status_success_def split: option.splits if_splits)

lemma wait_stable: "handle_wait y (fst (handle_wait x handle)) = (fst (handle_wait x handle), snd (handle_wait x handle))"
  by (simp add: handle_wait_def Let_def case_prod_beta)

section \<open>The live set\<close>

definition supervisor_ok :: "process_supervisor \<Rightarrow> bool" where
  "supervisor_ok s = (id_table_ok (sv_live s) (sv_allocator s) \<and>
     um_all (\<lambda>k proc. id_value (ph_id proc) = k \<and> \<not> ph_finished proc) (sv_live s) \<and> (sv_closed s \<longrightarrow> sv_live s = []))"

lemma supervisor_init_ok: "supervisor_ok (supervisor_init options)"
  by (simp add: supervisor_ok_def supervisor_init_def)

lemma um_erase_find: "um_find (um_erase k m) j = (if j = k then None else um_find m j)"
  by (simp add: um_find_def um_erase_def AList.delete_conv')

lemma um_modify_Nil [simp]: "um_modify k f [] = []"
  by (simp add: um_modify_def)

lemma um_erase_Nil [simp]: "um_erase k [] = []"
  by (simp add: um_erase_def)

lemma um_erase_table: "id_table_ok m a \<Longrightarrow> id_table_ok (um_erase k m) a"
  by (auto simp: id_table_ok_def um_erase_def um_ok_def AList.delete_keys distinct_removeAll)

lemma um_erase_all: "um_all P m \<Longrightarrow> um_all P (um_erase k m)"
  by (auto simp: um_all_def um_erase_def AList.delete_eq)

lemma um_erase_emplaced:
  assumes "um_find m k = None"
  shows "um_erase k (um_emplace k v m) = m"
proof -
  have "k \<notin> fst ` set m" using assms by (simp add: um_find_def map_of_eq_None_iff)
  then have "filter (\<lambda>(k', _). k \<noteq> k') m = m" by (force simp: filter_id_conv)
  then show ?thesis using assms by (simp add: um_erase_def um_emplace_def um_find_def AList.delete_eq)
qed

lemma spawn_live:
  assumes "supervisor_spawn host spec invocation s = (s', Inr proc)"
  shows "s' = s\<lparr>sv_allocator := snd (alloc_next (sv_allocator s)), sv_total_spawned := sv_total_spawned s + 1,
      sv_live := um_emplace (id_value (ph_id proc)) proc (sv_live s)\<rparr>"
    and "ph_id proc = fst (alloc_next (sv_allocator s))" "ph_generation proc = gen_initial" "\<not> ph_finished proc"
    "\<not> ph_terminate_requested proc" "\<not> sv_closed s" "ph_invocation proc = invocation"
  using assms
  by (auto simp: supervisor_spawn_def Let_def case_prod_beta split: if_splits sum.splits prod.splits)

text \<open>A process that \<open>run\<close> started is never left in the live set, however it ended.\<close>

lemma run_leaves_live:
  assumes "supervisor_ok s" "counter (sv_allocator s) \<noteq> kMax"
  shows "sv_live (fst (supervisor_run host spec invocation cancelled x s)) = sv_live s"
proof -
  have fresh: "um_find (sv_live s) (id_value (fst (alloc_next (sv_allocator s)))) = None"
    using assms id_table_fresh by (auto simp: supervisor_ok_def)
  show ?thesis
  proof (cases "supervisor_spawn host spec invocation s")
    case (Pair s1 r)
    show ?thesis
    proof (cases r)
      case (Inl e)
      then show ?thesis using Pair
        by (auto simp: supervisor_run_def supervisor_spawn_def Let_def case_prod_beta split: if_splits sum.splits prod.splits)
    next
      case (Inr proc)
      note L = spawn_live [OF Pair [unfolded Inr]]
      have "ph_id (handle_terminate reason proc) = ph_id proc" for reason by (simp add: handle_terminate_def)
      then show ?thesis using Pair Inr L(1,2) fresh um_erase_emplaced
        by (simp add: supervisor_run_def Let_def)
    qed
  qed
qed

lemma id_table_skip: "id_table_ok m a \<Longrightarrow> id_table_ok m (snd (alloc_next a))"
proof -
  assume ok: "id_table_ok m a"
  then have "k < counter (snd (alloc_next a)) \<or> counter (snd (alloc_next a)) = kMax" if "k \<in> fst ` set m" for k
    using that by (intro below_next) (auto simp: id_table_ok_def)
  with ok show ?thesis by (simp add: id_table_ok_def)
qed

inductive supervisor_step :: "process_supervisor \<Rightarrow> process_supervisor \<Rightarrow> bool" where
  spawn: "supervisor_step s (fst (supervisor_spawn host spec invocation s))"
| run: "supervisor_step s (fst (supervisor_run host spec invocation cancelled x s))"
| terminate: "supervisor_step s (fst (supervisor_terminate i g reason s))"
| terminate_all: "supervisor_step s (fst (supervisor_terminate_all reason s))"
| reap: "supervisor_step s (fst (supervisor_reap i g s))"
| close: "supervisor_step s (supervisor_close s)"

lemma handle_terminate_fields [simp]:
  "ph_id (handle_terminate r p) = ph_id p" "ph_finished (handle_terminate r p) = ph_finished p"
  "ph_generation (handle_terminate r p) = ph_generation p"
  by (simp_all add: handle_terminate_def)

lemma spawn_ok: "supervisor_ok s \<Longrightarrow> supervisor_ok (fst (supervisor_spawn host spec invocation s))"
  by (auto simp: supervisor_ok_def supervisor_spawn_def Let_def case_prod_beta id_table_skip id_table_emplace
      intro!: um_all_emplace split: sum.split prod.split)

lemma supervisor_step_ok: "supervisor_step s s' \<Longrightarrow> supervisor_ok s \<Longrightarrow> supervisor_ok s'"
proof (induction rule: supervisor_step.induct)
  case (spawn s host spec invocation)
  then show ?case by (rule spawn_ok)
next
  case (run s host spec invocation cancelled x)
  from spawn_ok [OF this, of host spec invocation] show ?case
    by (auto simp: supervisor_run_def Let_def supervisor_ok_def um_erase_table um_erase_all
        split: prod.split sum.split)
next
  case (terminate s i g reason)
  then show ?case
    by (auto simp: supervisor_terminate_def supervisor_ok_def id_table_modify um_modify_Nil
        intro!: um_all_modify split: option.split)
next
  case (terminate_all s reason)
  then show ?case
    by (auto simp: supervisor_terminate_all_def supervisor_ok_def comp_def case_prod_beta
        intro: id_table_map [rotated] intro!: um_all_map)
next
  case (reap s i g)
  then show ?case
    by (auto simp: supervisor_reap_def supervisor_ok_def um_erase_table um_erase_all split: option.split)
next
  case (close s)
  then show ?case by (auto simp: supervisor_close_def supervisor_ok_def id_table_ok_def um_ok_def)
qed

lemma closed_forever: "supervisor_step s s' \<Longrightarrow> sv_closed s \<Longrightarrow> sv_closed s'"
  by (induction rule: supervisor_step.induct)
    (auto simp: supervisor_spawn_def supervisor_run_def supervisor_terminate_def supervisor_terminate_all_def
      supervisor_reap_def supervisor_close_def split: option.split)

section \<open>A sample run\<close>

definition sample_process_host :: process_host where
  "sample_process_host = \<lparr>px_paths = sample_host, px_is_directory = (\<lambda>_. True), px_ambient = [], px_ambient_value = (\<lambda>_. []),
     px_launch = (\<lambda>_. Inr (42, 5))\<rparr>"

definition sample_process_spec :: process_spec where
  "sample_process_spec = process_spec_default\<lparr>sp_executable := ''c:/cl'', sp_environment := [\<lparr>ev_name = ''A'', ev_value = ''1''\<rparr>],
     sp_max_capture_bytes := 4\<rparr>"

lemma sample_process_capture:
  "sp_max_capture_bytes (effective_spec (px_ambient sample_process_host) (px_ambient_value sample_process_host)
     (sv_options (supervisor_init supervisor_options_default)) sample_process_spec) = 4"
  by (simp add: effective_spec_def sample_process_spec_def process_spec_default_def Let_def)

lemma sample_process_valid:
  "\<exists>u. process_validate (px_paths sample_process_host) (px_is_directory sample_process_host)
     (effective_spec (px_ambient sample_process_host) (px_ambient_value sample_process_host)
       (sv_options (supervisor_init supervisor_options_default)) sample_process_spec) = Inr u"
proof -
  have "\<not> bad_variable_name \<lparr>ev_name = ''A'', ev_value = ''1''\<rparr>" by code_simp
  then show ?thesis
    by (simp add: effective_spec_def sample_process_spec_def process_spec_default_def process_validate_def Let_def crf_try_def
        sample_process_host_def kMaxArguments_def kMaxCommandLineBytes_def kMaxEnvironmentBytes_def kMaxCaptureBytes_def
        environment_bytes_def)
      (simp add: sample_host_def sample_normal)
qed

lemma sample_process_runs:
  obtains s' where "supervisor_run sample_process_host sample_process_spec ref_absent False x
      (supervisor_init supervisor_options_default) =
    (s', Inr (snd (handle_wait x (projr (snd (supervisor_spawn sample_process_host sample_process_spec ref_absent
      (supervisor_init supervisor_options_default)))))))"
proof -
  have "\<not> sv_closed (supervisor_init supervisor_options_default)" "px_launch sample_process_host spec = Inr (42, 5)" for spec
    by (simp_all add: supervisor_init_def sample_process_host_def)
  then have "\<exists>s1 proc. supervisor_spawn sample_process_host sample_process_spec ref_absent
      (supervisor_init supervisor_options_default) = (s1, Inr proc)"
    using sample_process_valid by (auto simp: supervisor_spawn_def Let_def case_prod_beta)
  then show thesis using that by (auto simp: supervisor_run_def Let_def)
qed

section \<open>Claims\<close>



end
