(* ===== verification/Adapter.thy ===== *)
theory Adapter
  imports Process Session Diagnostics
begin

text \<open>
  \<open>src/core/adapter.cpp\<close> and \<open>include/crf/adapter.hpp\<close>: the contract between the runtime and a
  compiler adapter, the default implementations of the contract, and the adapter registry. An
  adapter is a record of the virtual methods; the runtime is modelled for every such record.
\<close>

section \<open>Capabilities\<close>

datatype adapter_capability =
    AC_none | AC_preprocess | AC_compile | AC_assemble | AC_link | AC_device_compile | AC_device_link
  | AC_static_library | AC_structured_diagnostics | AC_object_validation | AC_executable_validation
  | AC_smoke_test | AC_reproducible | AC_parallel_translation_units

fun capability_value :: "adapter_capability \<Rightarrow> u32" where
  "capability_value AC_none = 0"
| "capability_value AC_preprocess = 1"
| "capability_value AC_compile = 2"
| "capability_value AC_assemble = 4"
| "capability_value AC_link = 8"
| "capability_value AC_device_compile = 16"
| "capability_value AC_device_link = 32"
| "capability_value AC_static_library = 64"
| "capability_value AC_structured_diagnostics = 128"
| "capability_value AC_object_validation = 256"
| "capability_value AC_executable_validation = 512"
| "capability_value AC_smoke_test = 1024"
| "capability_value AC_reproducible = 2048"
| "capability_value AC_parallel_translation_units = 4096"

definition has_capability :: "u32 \<Rightarrow> adapter_capability \<Rightarrow> bool" where
  "has_capability flags c = (and flags (capability_value c) \<noteq> 0)"

definition capability_names :: "(adapter_capability \<times> string) list" where
  "capability_names =
     [(AC_preprocess, ''preprocess''), (AC_compile, ''compile''), (AC_assemble, ''assemble''), (AC_link, ''link''),
      (AC_device_compile, ''device-compile''), (AC_device_link, ''device-link''), (AC_static_library, ''static-library''),
      (AC_structured_diagnostics, ''structured-diagnostics''), (AC_object_validation, ''object-validation''),
      (AC_executable_validation, ''executable-validation''), (AC_smoke_test, ''smoke-test''),
      (AC_reproducible, ''reproducible''), (AC_parallel_translation_units, ''parallel-translation-units'')]"

definition describe_capabilities :: "u32 \<Rightarrow> string" where
  "describe_capabilities flags =
     (let out = foldl (\<lambda>out (c, name). if \<not> has_capability flags c then out
            else (if out \<noteq> [] then out @ '','' else out) @ name) [] capability_names
      in if out = [] then ''none'' else out)"

section \<open>Requests and evidence\<close>

record adapter_descriptor =
  dsc_name :: string
  dsc_display_name :: string
  dsc_version :: string
  dsc_family :: toolchain_family
  dsc_capabilities :: u32
  dsc_implemented_phases :: "phase_kind list"
  dsc_produced_formats :: "object_format list"
  dsc_evidence_class :: evidence_class

record probe_request =
  pb_family :: toolchain_family
  pb_explicit_root :: string
  pb_target :: target_spec
  pb_hash_components :: bool
  pb_toolkit_preference :: string

record plan_request =
  pq_family :: toolchain_family
  pq_toolchain :: toolchain_identity
  pq_target :: target_spec
  pq_language :: source_language
  pq_translation_unit_count :: nat
  pq_want_link :: bool
  pq_want_smoke_test :: bool
  pq_want_parallel_translation_units :: bool
  pq_policy :: policy_spec

text \<open>
  \<open>PhaseExecutionRequest\<close>. Its pointers refer to the runtime's tables; a null pointer is \<open>None\<close>.
\<close>

record execution_request =
  xq_session :: "session_tag referenced"
  xq_compilation_generation :: "compilation_tag generation"
  xq_attempt_generation :: "attempt_tag generation"
  xq_phase :: "phase_tag referenced"
  xq_kind :: phase_kind
  xq_adapter_phase :: string
  xq_toolchain :: "toolchain_identity option"
  xq_target :: "target_identity option"
  xq_environment :: "environment_spec option"
  xq_policy :: "policy_spec option"
  xq_sources :: "source_unit list"
  xq_resolved_inputs :: "intermediate_tag referenced list"
  xq_artifacts :: "artifact_registry"
  xq_workspace :: "workspace option"
  xq_output_directory :: string
  xq_final_artifact_name :: string
  xq_reproducibility_second_run :: bool
  xq_adapter_options :: "environment_variable list"

definition execution_option :: "execution_request \<Rightarrow> string \<Rightarrow> environment_variable option" where
  "execution_option q name = List.find (\<lambda>entry. equals_ascii_ci (ev_name entry) name) (xq_adapter_options q)"

definition option_or :: "execution_request \<Rightarrow> string \<Rightarrow> string \<Rightarrow> string" where
  "option_or q name fallback = (case execution_option q name of Some found \<Rightarrow> ev_value found | None \<Rightarrow> fallback)"

record output_validation_request =
  ov_context :: execution_request
  ov_process :: "process_outcome option"
  ov_artifacts :: artifact_registry
  ov_candidate_outputs :: "intermediate_tag referenced list"
  ov_declared_outputs :: "output_binding list"

record validation_evidence =
  ve_accepted :: bool
  ve_state :: artifact_state
  ve_format :: object_format
  ve_refusal :: status_code
  ve_checks :: "string list"
  ve_detail :: string

record smoke_test_evidence =
  se_executed :: bool
  se_passed :: bool
  se_exit_code :: int
  se_expected_stdout :: string
  se_observed_stdout_tail :: string
  se_detail :: string
  se_refusal :: status_code

section \<open>The contract\<close>

record compiler_adapter =
  ad_describe :: adapter_descriptor
  ad_probe_toolchain :: "probe_request \<Rightarrow> toolchain_identity result"
  ad_reprobe_toolchain :: "toolchain_identity \<Rightarrow> probe_request \<Rightarrow> toolchain_identity result"
  ad_resolve_target :: "toolchain_identity \<Rightarrow> target_spec \<Rightarrow> target_spec result"
  ad_build_plan :: "plan_request \<Rightarrow> phase_plan result"
  ad_build_invocation :: "execution_request \<Rightarrow> invocation_spec result"
  ad_parse_diagnostics :: "process_outcome \<Rightarrow> execution_request \<Rightarrow> diagnostic list result"
  ad_validate_outputs :: "output_validation_request \<Rightarrow> validation_evidence result"
  ad_run_smoke_test :: "final_candidate \<Rightarrow> execution_request \<Rightarrow> smoke_test_evidence result"
  ad_is_deterministic_phase :: "phase_kind \<Rightarrow> bool"
  ad_compose_environment :: "toolchain_identity \<Rightarrow> target_spec \<Rightarrow> environment_spec \<Rightarrow> environment_spec result"

section \<open>Default implementations\<close>

definition default_reprobe_toolchain ::
  "(probe_request \<Rightarrow> toolchain_identity result) \<Rightarrow> toolchain_identity \<Rightarrow> probe_request \<Rightarrow> toolchain_identity result" where
  "default_reprobe_toolchain probe previous request =
     crf_try (probe request) (\<lambda>identity.
       Inr (identity\<lparr>ti_id := ti_id previous, ti_generation := ti_generation previous\<rparr>))"

fun default_triple :: "architecture \<Rightarrow> string" where
  "default_triple AR_x64 = ''x86_64-pc-windows-msvc''"
| "default_triple AR_x86 = ''i686-pc-windows-msvc''"
| "default_triple AR_arm64 = ''aarch64-pc-windows-msvc''"
| "default_triple AR_arm = ''armv7-pc-windows-msvc''"
| "default_triple AR_unknown = []"

definition default_resolve_target :: "toolchain_identity \<Rightarrow> target_spec \<Rightarrow> target_spec result" where
  "default_resolve_target toolchain requested =
     (if ts_architecture requested = AR_unknown \<and> ti_target_support toolchain = []
        then Inl (Status SC_target_unsupported ''the toolchain declares no supported architecture'')
      else
        let t1 = (if ts_architecture requested = AR_unknown
              then requested\<lparr>ts_architecture := hd (ti_target_support toolchain)\<rparr> else requested) in
        if ti_target_support toolchain \<noteq> [] \<and> \<not> toolchain_supports toolchain (ts_architecture t1)
          then Inl (Status SC_target_unsupported
            ''the toolchain does not claim support for the requested architecture'')
        else
          let t2 = (if ts_os t1 = OS_unknown then t1\<lparr>ts_os := OS_windows\<rparr> else t1);
              t3 = (if ts_pointer_width_bits t2 = 0
                then t2\<lparr>ts_pointer_width_bits := pointer_bits (ts_architecture t2)\<rparr> else t2);
              t4 = (if ts_abi t3 = [] then t3\<lparr>ts_abi := ''msvc''\<rparr> else t3);
              t5 = (if ts_triple t4 = [] then t4\<lparr>ts_triple := default_triple (ts_architecture t4)\<rparr> else t4)
          in crf_try (target_validate t5) (\<lambda>_. Inr t5))"

definition default_parse_diagnostics :: "process_outcome \<Rightarrow> execution_request \<Rightarrow> diagnostic list result" where
  "default_parse_diagnostics outcome request =
     Inr (normalize_generic_output (pc_standard_output (oc_capture outcome)) ''stdout'' @
          normalize_generic_output (pc_standard_error (oc_capture outcome)) ''stderr'')"

definition default_run_smoke_test :: "final_candidate \<Rightarrow> execution_request \<Rightarrow> smoke_test_evidence result" where
  "default_run_smoke_test candidate request =
     Inr \<lparr>se_executed = False, se_passed = False, se_exit_code = 0, se_expected_stdout = [],
       se_observed_stdout_tail = [], se_detail = ''this adapter does not implement an execution smoke test'',
       se_refusal = SC_unsupported\<rparr>"

definition default_is_deterministic_phase :: "phase_kind \<Rightarrow> bool" where
  "default_is_deterministic_phase kind =
     (kind \<in> {PK_input_validate, PK_preprocess, PK_frontend, PK_parse, PK_semantic_analysis, PK_ir_generate,
        PK_codegen, PK_assemble, PK_device_compile, PK_link, PK_device_link})"

definition default_compose_environment ::
  "(string \<Rightarrow> string) \<Rightarrow> toolchain_identity \<Rightarrow> target_spec \<Rightarrow> environment_spec \<Rightarrow> environment_spec result" where
  "default_compose_environment lexically_normal toolchain target caller =
     environment_canonicalize lexically_normal
       (foldl (\<lambda>spec v. set_variable (ev_name v) (ev_value v) spec) caller (ti_environment_contract toolchain))"

section \<open>Registry\<close>

type_synonym adapter_registry = "compiler_adapter list"

text \<open>A null pointer is not added.\<close>

definition adapter_add :: "compiler_adapter option \<Rightarrow> adapter_registry \<Rightarrow> adapter_registry" where
  "adapter_add adapter r = (case adapter of None \<Rightarrow> r | Some a \<Rightarrow> r @ [a])"

definition adapter_find :: "toolchain_family \<Rightarrow> adapter_registry \<Rightarrow> compiler_adapter option" where
  "adapter_find family r = List.find (\<lambda>a. dsc_family (ad_describe a) = family) r"

definition adapter_find_by_name :: "string \<Rightarrow> adapter_registry \<Rightarrow> compiler_adapter option" where
  "adapter_find_by_name name r = List.find (\<lambda>a. equals_ascii_ci (dsc_name (ad_describe a)) name) r"

definition adapter_list :: "adapter_registry \<Rightarrow> adapter_descriptor list" where
  "adapter_list r = sort_key dsc_name (map ad_describe r)"

section \<open>What the defaults promise\<close>

lemma default_target_supported:
  assumes "default_resolve_target toolchain requested = Inr t"
  shows "target_validate t = Inr ()" "ts_os t \<noteq> OS_unknown" "ts_pointer_width_bits t \<noteq> 0 \<or> pointer_bits (ts_architecture t) = 0"
    "ti_target_support toolchain \<noteq> [] \<Longrightarrow> toolchain_supports toolchain (ts_architecture t)"
    "ts_architecture requested \<noteq> AR_unknown \<Longrightarrow> ts_architecture t = ts_architecture requested"
  using assms
  by (auto simp: default_resolve_target_def Let_def crf_try_Inr split: if_splits)

text \<open>
  The contract of the toolchain wins over the caller: after composition every name the contract
  sets, compared without case, has the value of its last entry.
\<close>

lemma foldl_set_variable:
  "find_variable (foldl (\<lambda>spec v. set_variable (ev_name v) (ev_value v) spec) caller vs) n =
    (case List.find (\<lambda>v. equals_ascii_ci (ev_name v) n) (rev vs) of
       Some v \<Rightarrow> Some (ev_value v) | None \<Rightarrow> find_variable caller n)"
  by (induction vs rule: rev_induct) (simp_all add: find_set_variable)

end
