(* ===== verification/Runtime_State.thy ===== *)
theory Runtime_State
  imports Adapter Recovery
begin

text \<open>
  \<open>src/core/runtime.cpp\<close> and \<open>include/crf/runtime.hpp\<close>, first part: the state of one runtime, the
  reports it exchanges with executors, and the helpers every operation uses: the authority a
  session binds and the observation it is compared with, persistence, lifecycle transitions and the
  resolution of a phase's inputs.

  A critical section under the runtime's mutex is one function of the state. A pointer into a table
  is a lookup followed by a write of the changed record under the same key (\<open>put_session\<close>,
  \<open>put_phase\<close>). The clock is read once per critical section.
\<close>

section \<open>Reports\<close>

record output_descriptor =
  od_logical_name :: string
  od_path :: string
  od_format :: object_format
  od_content :: digest
  od_size_bytes :: u64
  od_exists :: bool

definition descriptor_canonical_digest :: "(string \<Rightarrow> string) \<Rightarrow> output_descriptor \<Rightarrow> digest" where
  "descriptor_canonical_digest ln d =
     digest_of (enc_text (od_logical_name d) @ enc_text (canonical_path_key ln (od_path d)) @
       enc_text (to_string_object_format (od_format d)) @ enc_text (to_hex (od_content d)) @
       enc_u64 (od_size_bytes d) @ enc_boolean (od_exists d))"

record execution_report =
  er_executed :: bool
  er_process :: process_outcome
  er_outputs :: "output_descriptor list"
  er_diagnostics :: "diagnostic list"
  er_workspace_root :: string
  er_workspace_marker :: digest
  er_status :: status_code
  er_detail :: string

definition execution_report_default :: execution_report where
  "execution_report_default = \<lparr>er_executed = False, er_process = process_outcome_default, er_outputs = [],
     er_diagnostics = [], er_workspace_root = [], er_workspace_marker = digest_default, er_status = SC_ok,
     er_detail = []\<rparr>"

fun termination_value :: "process_termination \<Rightarrow> u8" where
  "termination_value PT_exited = 0"
| "termination_value PT_crashed = 1"
| "termination_value PT_killed = 2"
| "termination_value PT_timed_out = 3"
| "termination_value PT_launch_failed = 4"
| "termination_value PT_unknown = 5"

definition evidence_digest :: "(string \<Rightarrow> string) \<Rightarrow> execution_report \<Rightarrow> digest" where
  "evidence_digest ln e =
     (let p = er_process e in
      digest_of (enc_boolean (er_executed e) @ enc_text (pc_standard_output (oc_capture p)) @
        enc_text (pc_standard_error (oc_capture p)) @ enc_u32 (oc_exit_code p) @
        enc_u8 (termination_value (oc_termination p)) @ enc_u64 (oc_started_at_nanos p) @
        enc_u64 (oc_finished_at_nanos p) @
        concat (map (\<lambda>d. enc_text (to_hex (descriptor_canonical_digest ln d))) (er_outputs e)) @
        concat (map (\<lambda>d. enc_text (to_hex (diagnostic_canonical_digest d))) (er_diagnostics e))))"

text \<open>The execution backend: a record of the virtual methods.\<close>

record phase_executor =
  pe_execute :: "invocation_spec \<Rightarrow> process_spec \<Rightarrow> workspace \<Rightarrow> string \<Rightarrow> execution_report result"
  pe_cancel :: "invocation_tag referenced \<Rightarrow> string \<Rightarrow> unit result"
  pe_describe :: string
  pe_remote :: bool

definition output_entries_digest :: "string list \<Rightarrow> digest" where
  "output_entries_digest entries =
     digest_of (enc_u64 (of_nat (length entries)) @ concat (map enc_text (sort entries)))"

definition output_set_digest :: "output_descriptor list \<Rightarrow> digest" where
  "output_set_digest outputs =
     output_entries_digest (map (\<lambda>d. od_logical_name d @ ''|'' @ to_hex (od_content d)) outputs)"

definition output_set_digest_from_artifacts :: "artifact_registry \<Rightarrow> intermediate_tag referenced list \<Rightarrow> digest" where
  "output_set_digest_from_artifacts artifacts outputs =
     output_entries_digest (List.map_filter (\<lambda>reference.
       map_option (\<lambda>a. id_to_string ''intermediate'' (ref_id reference) @ ''|'' @ to_hex (ia_content a))
         (artifact_find (ref_id reference) artifacts)) outputs)"

record phase_run_report =
  rr_phase :: "phase_tag referenced"
  rr_state :: phase_state
  rr_status :: status_code
  rr_failure :: failure_class
  rr_retry :: retry_decision
  rr_diagnostics :: "diagnostics_tag referenced"
  rr_invocation :: "invocation_tag referenced"
  rr_process :: process_id
  rr_outputs :: "intermediate_tag referenced list"
  rr_compiler_nanos :: u64
  rr_governance_nanos :: u64
  rr_authority :: authority_verdict
  rr_detail :: string

definition retry_decision_default :: retry_decision where
  "retry_decision_default = \<lparr>rd_kind = RD_classification_refuses, rd_legal = False, rd_failure = FC_none,
     rd_attempts_used = 0, rd_session_retries_used = 0, rd_next_attempt_generation = gen_absent,
     rd_creates_new_invocation = True, rd_refusal = SC_ok, rd_reason = []\<rparr>"

definition phase_run_report_default :: phase_run_report where
  "phase_run_report_default = \<lparr>rr_phase = ref_absent, rr_state = PS_pending, rr_status = SC_ok, rr_failure = FC_none,
     rr_retry = retry_decision_default, rr_diagnostics = ref_absent, rr_invocation = ref_absent, rr_process = id_absent,
     rr_outputs = [], rr_compiler_nanos = 0, rr_governance_nanos = 0, rr_authority = AV_valid, rr_detail = []\<rparr>"

definition report_committed :: "phase_run_report \<Rightarrow> bool" where
  "report_committed report = (rr_state report = PS_committed)"

record compile_outcome =
  co_session :: "session_tag referenced"
  co_candidate :: final_candidate
  co_diagnostics :: "diagnostics_tag referenced"
  co_intermediates :: "intermediate_tag referenced list"
  co_lineage_digest :: digest
  co_compiler_nanos :: u64
  co_governance_nanos :: u64
  co_smoke_test_passed :: bool
  co_evidence :: evidence_class
  co_phases :: "phase_run_report list"
  co_status :: status_code
  co_detail :: string

definition compile_outcome_default :: compile_outcome where
  "compile_outcome_default = \<lparr>co_session = ref_absent, co_candidate = candidate_default, co_diagnostics = ref_absent,
     co_intermediates = [], co_lineage_digest = digest_default, co_compiler_nanos = 0, co_governance_nanos = 0,
     co_smoke_test_passed = False, co_evidence = EC_unknown, co_phases = [], co_status = SC_ok, co_detail = []\<rparr>"

section \<open>State\<close>

definition invocation_spec_default :: invocation_spec where
  "invocation_spec_default = \<lparr>is_id = id_absent, is_generation = gen_absent, is_session = ref_absent,
     is_phase = ref_absent, is_attempt_generation = gen_absent, is_component = id_absent,
     is_component_generation = gen_absent, is_toolchain = ref_absent, is_target = ref_absent,
     is_environment = ref_absent, is_policy = ref_absent, is_executable = [],
     is_executable_identity = file_identity_init, is_arguments = [], is_environment_variables = [],
     is_working_directory = [], is_inputs = [], is_expected_outputs = [], is_style = Style_msvc,
     is_adapter_name = [], is_produced_executable = False\<rparr>"

record reservation =
  rv_session :: session_id
  rv_phase :: phase_id
  rv_phase_generation :: "phase_tag generation"
  rv_invocation :: "invocation_tag referenced"
  rv_attempt :: attempt_id
  rv_attempt_generation :: "attempt_tag generation"
  rv_lease :: "lease_tag referenced"
  rv_kind :: phase_kind
  rv_authority :: phase_authority
  rv_workspace :: workspace
  rv_invocation_spec :: invocation_spec
  rv_process_spec :: process_spec
  rv_remote :: bool

definition reservation_default :: reservation where
  "reservation_default = \<lparr>rv_session = id_absent, rv_phase = id_absent, rv_phase_generation = gen_absent,
     rv_invocation = ref_absent, rv_attempt = id_absent, rv_attempt_generation = gen_absent, rv_lease = ref_absent,
     rv_kind = PK_unknown, rv_authority = phase_authority_default, rv_workspace = workspace_default,
     rv_invocation_spec = invocation_spec_default, rv_process_spec = process_spec_default, rv_remote = False\<rparr>"

text \<open>
  \<open>Runtime::Impl\<close>. \<open>rt_persistent\<close> is whether a store is configured and \<open>rt_journal\<close> the
  sessions whose bundle the store has accepted, oldest first.
\<close>

record runtime =
  rt_runtime_name :: string
  rt_max_sessions :: nat
  rt_ephemeral_state :: bool
  rt_epoch :: u64
  rt_persistent :: bool
  rt_journal :: "compiler_session list"
  rt_toolchains :: toolchain_registry
  rt_targets :: target_registry
  rt_environments :: environment_registry
  rt_policies :: policy_registry
  rt_sources :: source_registry
  rt_artifacts :: artifact_registry
  rt_diagnostics :: diagnostic_store
  rt_provenance :: provenance_log
  rt_leases :: lease_table
  rt_evidence :: evidence_log
  rt_adapters :: adapter_registry
  rt_processes :: process_supervisor
  rt_workspaces :: workspace_manager
  rt_sessions :: "(u64, compiler_session) umap"
  rt_cancel_flags :: "(u64, bool) umap"
  rt_last_outcomes :: "(u64, process_outcome) umap"
  rt_last_validation :: "(u64, validation_evidence) umap"
  rt_executor :: "phase_executor option"
  rt_session_ids :: "session_tag id_allocator"
  rt_invocation_ids :: "invocation_tag id_allocator"
  rt_commit_ids :: "commit_tag id_allocator"
  rt_phase_ids :: "phase_tag id_allocator"
  rt_recovery_ids :: "recovery_tag id_allocator"
  rt_final_ids :: "final_tag id_allocator"
  rt_attempt_ids :: "attempt_tag id_allocator"
  rt_shutting_down :: bool
  rt_commit_total :: u64
  rt_stale_commit_total :: u64

text \<open>
  The host during one critical section: path grammar, file system, the queries behind a file
  identity, the clock, the system's temporary directory, the ambient environment and what the
  durable store answers to an append of a session (\<open>None\<close> when it is accepted).
\<close>

record runtime_host =
  rh_paths :: host_paths
  rh_fs :: host_fs
  rh_queries :: file_queries
  rh_now :: u64
  rh_system_temp :: "string option"
  rh_ambient :: "string \<Rightarrow> string"
  rh_append :: "compiler_session \<Rightarrow> status option"

abbreviation rh_normal :: "runtime_host \<Rightarrow> string \<Rightarrow> string" where
  "rh_normal host \<equiv> hp_lexically_normal (rh_paths host)"

definition rt_find :: "session_id \<Rightarrow> runtime \<Rightarrow> compiler_session option" where
  "rt_find i r = um_find (rt_sessions r) (id_value i)"

definition put_session :: "session_id \<Rightarrow> compiler_session \<Rightarrow> runtime \<Rightarrow> runtime" where
  "put_session i s r = r\<lparr>rt_sessions := um_modify (id_value i) (\<lambda>_. s) (rt_sessions r)\<rparr>"

definition put_phase :: "phase_id \<Rightarrow> phase_record \<Rightarrow> compiler_session \<Rightarrow> compiler_session" where
  "put_phase i p s = s\<lparr>cs_phases := um_modify (id_value i) (\<lambda>_. p) (cs_phases s)\<rparr>"

text \<open>The flag of a session, created unset on first use.\<close>

definition cancel_flag :: "session_id \<Rightarrow> runtime \<Rightarrow> runtime \<times> bool" where
  "cancel_flag i r =
     (case um_find (rt_cancel_flags r) (id_value i) of
        Some flag \<Rightarrow> (r, flag)
      | None \<Rightarrow> (r\<lparr>rt_cancel_flags := um_emplace (id_value i) False (rt_cancel_flags r)\<rparr>, False))"

definition raise_cancel_flag :: "session_id \<Rightarrow> runtime \<Rightarrow> runtime" where
  "raise_cancel_flag i r =
     (let r' = fst (cancel_flag i r)
      in r'\<lparr>rt_cancel_flags := um_modify (id_value i) (\<lambda>_. True) (rt_cancel_flags r')\<rparr>)"

definition persist :: "runtime_host \<Rightarrow> compiler_session \<Rightarrow> runtime \<Rightarrow> runtime \<times> unit result" where
  "persist host s r =
     (if \<not> rt_persistent r then (r, Inr ())
      else case rh_append host s of
        Some e \<Rightarrow> (r, Inl e)
      | None \<Rightarrow> (r\<lparr>rt_journal := rt_journal r @ [s]\<rparr>, Inr ()))"

text \<open>\<open>if (!persisted) return persisted.status(); return v;\<close>\<close>

definition persist_then :: "runtime_host \<Rightarrow> compiler_session \<Rightarrow> 'a \<Rightarrow> runtime \<Rightarrow> runtime \<times> 'a result" where
  "persist_then host s v r =
     (case persist host s r of (r', Inl e) \<Rightarrow> (r', Inl e) | (r', Inr _) \<Rightarrow> (r', Inr v))"

definition note_evidence :: "runtime_host \<Rightarrow> string \<Rightarrow> string \<Rightarrow> digest \<Rightarrow> runtime \<Rightarrow> runtime" where
  "note_evidence host kind detail payload r =
     r\<lparr>rt_evidence := evidence_record_op (rh_now host) EC_real kind detail payload (rt_evidence r)\<rparr>"

section \<open>Authority\<close>

definition authority_from_session :: "compiler_session \<Rightarrow> phase_record \<Rightarrow> phase_authority" where
  "authority_from_session s p = \<lparr>au_session_generation = cs_generation s,
     au_compilation_generation = cs_compilation_generation s, au_attempt_generation = pr_attempt_generation p,
     au_phase_generation = pr_generation p, au_toolchain = cs_toolchain s,
     au_cooperating_toolchains = cs_cooperating_toolchains s, au_target = cs_target s,
     au_environment = cs_environment s, au_policy = cs_policy s, au_source = cs_source s,
     au_ir_generation = cs_ir_generation s, au_lease = pr_lease p\<rparr>"

definition toolchain_ref :: "runtime \<Rightarrow> toolchain_tag referenced \<Rightarrow> toolchain_tag referenced" where
  "toolchain_ref r reference =
     (case toolchain_find (ref_id reference) (rt_toolchains r) of
        Some t \<Rightarrow> Ref (ti_id t) (ti_generation t) | None \<Rightarrow> reference)"

definition registry_ref :: "('tag, 'spec) registry \<Rightarrow> 'tag referenced \<Rightarrow> 'tag referenced" where
  "registry_ref reg reference =
     (case reg_find (ref_id reference) reg of Some e \<Rightarrow> Ref (ri_id e) (ri_generation e) | None \<Rightarrow> reference)"

definition source_ref :: "runtime \<Rightarrow> source_tag referenced \<Rightarrow> source_tag referenced" where
  "source_ref r reference =
     (case source_find (ref_id reference) (rt_sources r) of
        Some u \<Rightarrow> Ref (su_id u) (su_generation u) | None \<Rightarrow> reference)"

definition observe :: "runtime \<Rightarrow> compiler_session \<Rightarrow> authority_observation" where
  "observe r s = observation_default\<lparr>ob_session_generation := cs_generation s,
     ob_compilation_generation := cs_compilation_generation s, ob_attempt_generation := cs_attempt_generation s,
     ob_toolchain := toolchain_ref r (cs_toolchain s),
     ob_toolchain_current := (toolchain_find (ref_id (cs_toolchain s)) (rt_toolchains r) \<noteq> None),
     ob_cooperating_toolchains := map (toolchain_ref r) (cs_cooperating_toolchains s),
     ob_target := registry_ref (rt_targets r) (cs_target s),
     ob_target_current := (target_find (ref_id (cs_target s)) (rt_targets r) \<noteq> None),
     ob_environment := registry_ref (rt_environments r) (cs_environment s),
     ob_environment_current := (environment_find (ref_id (cs_environment s)) (rt_environments r) \<noteq> None),
     ob_policy := registry_ref (rt_policies r) (cs_policy s),
     ob_policy_current := (policy_find (ref_id (cs_policy s)) (rt_policies r) \<noteq> None),
     ob_source := source_ref r (cs_source s),
     ob_source_current := (source_find (ref_id (cs_source s)) (rt_sources r) \<noteq> None),
     ob_ir_generation := cs_ir_generation s,
     ob_session_active := (session_state_admits_new_authority (cs_state s) \<or> cs_state s = SS_recovering),
     ob_component_current := True, ob_lease_held := True\<rparr>"

text \<open>What a commit compares the binding with.\<close>

definition observe_phase :: "runtime_host \<Rightarrow> runtime \<Rightarrow> compiler_session \<Rightarrow> phase_record \<Rightarrow> authority_observation" where
  "observe_phase host r s p = (observe r s)\<lparr>ob_phase_generation := pr_generation p,
     ob_attempt_generation := pr_attempt_generation p, ob_lease := pr_lease p,
     ob_lease_held := lease_is_held (rh_now host) (pr_lease p) (rt_leases r)\<rparr>"

definition policy_spec_of :: "compiler_session \<Rightarrow> runtime \<Rightarrow> policy_spec option" where
  "policy_spec_of s r = map_option ri_spec (policy_find (ref_id (cs_policy s)) (rt_policies r))"

section \<open>Lifecycle transitions\<close>

definition append_transition :: "u64 \<Rightarrow> phase_state \<Rightarrow> string \<Rightarrow> phase_record \<Rightarrow> phase_record" where
  "append_transition now next reason p =
     p\<lparr>pr_history := (if length (pr_history p) \<ge> kMaxPhaseTransitions then tl (pr_history p) else pr_history p) @
         [\<lparr>pt_from = pr_state p, pt_to = next, pt_at_nanos = now, pt_reason = reason\<rparr>],
       pr_state := next\<rparr>"

definition kRoutes :: "phase_state list" where
  "kRoutes = [PS_ready, PS_failed, PS_fenced]"

definition transition_route :: "phase_state \<Rightarrow> phase_state \<Rightarrow> phase_state option" where
  "transition_route from next =
     List.find (\<lambda>i. is_legal_phase_transition from i \<and> is_legal_phase_transition i next) kRoutes"

definition record_transition :: "u64 \<Rightarrow> phase_state \<Rightarrow> string \<Rightarrow> phase_record \<Rightarrow> phase_record" where
  "record_transition now next reason p =
     (if pr_state p = next then p
      else if is_legal_phase_transition (pr_state p) next then append_transition now next reason p
      else case transition_route (pr_state p) next of
        None \<Rightarrow> p
      | Some i \<Rightarrow> append_transition now next reason
          (append_transition now i
            (''phase passed through '' @ to_string_phase_state i @ '' before '' @ reason) p))"

section \<open>Inputs of a phase\<close>

fun collect_outputs ::
  "artifact_registry \<Rightarrow> intermediate_tag referenced list \<Rightarrow> intermediate_tag referenced list result" where
  "collect_outputs artifacts [] = Inr []"
| "collect_outputs artifacts (output # outputs) =
     (case artifact_find (ref_id output) artifacts of
        None \<Rightarrow> Inl (Status SC_not_found
          (''producer output is not registered: '' @ id_to_string ''intermediate'' (ref_id output)))
      | Some a \<Rightarrow>
          if ia_authority a \<noteq> AU_authoritative \<or> \<not> artifact_state_is_consumable (ia_state a)
            then Inl (Status SC_fan_in_inconsistent
              (''producer output is not authoritative: '' @ id_to_string ''intermediate'' (ref_id output)))
          else crf_try (collect_outputs artifacts outputs) (\<lambda>rest. Inr (Ref (ia_id a) (ia_generation a) # rest)))"

fun collect_inputs ::
  "artifact_registry \<Rightarrow> compiler_session \<Rightarrow> phase_id list \<Rightarrow> intermediate_tag referenced list result" where
  "collect_inputs artifacts s [] = Inr []"
| "collect_inputs artifacts s (dependency # dependencies) =
     (case find_phase dependency s of
        None \<Rightarrow> Inl (Status SC_fan_in_incomplete
          (''a required producer phase is not committed: '' @ id_to_string ''phase'' dependency))
      | Some producer \<Rightarrow>
          if pr_state producer \<noteq> PS_committed
            then Inl (Status SC_fan_in_incomplete
              (''a required producer phase is not committed: '' @ id_to_string ''phase'' dependency))
          else crf_try (collect_outputs artifacts (pr_outputs producer)) (\<lambda>found.
            crf_try (collect_inputs artifacts s dependencies) (\<lambda>rest. Inr (found @ rest))))"

text \<open>\<open>std::unique\<close> on identities: the first of each run is kept.\<close>

fun unique_refs :: "'tag referenced list \<Rightarrow> 'tag referenced list" where
  "unique_refs (a # b # refs) = (if ref_id a = ref_id b then unique_refs (a # refs) else a # unique_refs (b # refs))"
| "unique_refs refs = refs"

definition resolve_inputs ::
  "artifact_registry \<Rightarrow> compiler_session \<Rightarrow> phase_record \<Rightarrow> intermediate_tag referenced list result" where
  "resolve_inputs artifacts s p =
     (case plan_find (pr_id p) (cs_plan s) of
        None \<Rightarrow> Inl (Status SC_not_found ''phase is not part of the session plan'')
      | Some node \<Rightarrow>
          crf_try (collect_inputs artifacts s (pn_depends_on node)) (\<lambda>found.
            let inputs = unique_refs (sort_key ref_id found) in
            if pn_fan_in node \<and> length inputs < unat (pn_required_inputs node)
              then Inl (Status SC_fan_in_incomplete
                ''fan-in phase received fewer authoritative inputs than it declared'')
            else Inr inputs))"

section \<open>Status of a phase\<close>

definition report_of :: "phase_record \<Rightarrow> phase_run_report" where
  "report_of p = phase_run_report_default\<lparr>rr_phase := Ref (pr_id p) (pr_generation p), rr_state := pr_state p,
     rr_status := pr_last_status p, rr_failure := pr_failure p, rr_diagnostics := pr_diagnostics p,
     rr_invocation := pr_active_invocation p, rr_process := pr_active_process p, rr_outputs := pr_outputs p,
     rr_detail := pr_last_detail p\<rparr>"

definition phase_status_report :: "session_id \<Rightarrow> phase_id \<Rightarrow> runtime \<Rightarrow> phase_run_report" where
  "phase_status_report sid pid r =
     (case rt_find sid r of
        None \<Rightarrow> phase_run_report_default\<lparr>rr_status := SC_not_found, rr_detail := ''session is not registered''\<rparr>
      | Some s \<Rightarrow>
          (case find_phase pid s of
             None \<Rightarrow> phase_run_report_default\<lparr>rr_status := SC_not_found, rr_detail := ''phase is not registered''\<rparr>
           | Some p \<Rightarrow> report_of p))"

definition classify_execution_failure :: "execution_report \<Rightarrow> failure_class" where
  "classify_execution_failure report =
     (if er_executed report then
        (case oc_termination (er_process report) of
           PT_crashed \<Rightarrow> FC_process_crash
         | PT_killed \<Rightarrow> FC_external_cancellation
         | PT_timed_out \<Rightarrow> FC_external_cancellation
         | PT_launch_failed \<Rightarrow> FC_transient_workspace_failure
         | PT_unknown \<Rightarrow> FC_unknown_outcome
         | PT_exited \<Rightarrow> classify_status (er_status report))
      else if er_status report = SC_protocol_peer_closed \<or> er_status report = SC_protocol_io
        then FC_process_interrupted
      else if er_status report = SC_unknown_outcome \<or> er_status report = SC_integrity_unproven
        then FC_unknown_outcome
      else classify_status (er_status report))"

end
