(* ===== verification/Runtime_Evolution.thy ===== *)
theory Runtime_Evolution
  imports Runtime_State
begin

text \<open>
  How the state of a runtime may change: the interface \<open>evolution\<close> of a preorder that a sequence
  of operations respects, its instances for a phase, a session and a whole runtime, and the
  well-formedness invariants. The operations of \<open>runtime.cpp\<close> are shown in later theories to be
  evolutions.
\<close>

section \<open>Preorders respected by operations\<close>

locale evolution =
  fixes evolves :: "'s \<Rightarrow> 's \<Rightarrow> bool"
  assumes evolves_refl: "evolves s s"
    and evolves_trans: "evolves s t \<Longrightarrow> evolves t u \<Longrightarrow> evolves s u"
begin

lemma evolves_foldl:
  assumes "\<And>s x. evolves s (f s x)"
  shows "evolves s (foldl f s xs)"
  by (induction xs arbitrary: s) (auto intro: evolves_refl evolves_trans assms)

lemma evolves_rtranclp:
  assumes "step\<^sup>*\<^sup>* s t" "\<And>s t. step s t \<Longrightarrow> evolves s t"
  shows "evolves s t"
  using assms by (induction rule: rtranclp_induct) (auto intro: evolves_refl evolves_trans)

lemma evolves_option:
  assumes "\<And>v. x = Some v \<Longrightarrow> evolves s (f v)"
  shows "evolves s (case x of None \<Rightarrow> s | Some v \<Rightarrow> f v)"
  using assms by (cases x) (auto intro: evolves_refl)

end

section \<open>Transitions\<close>

definition transition_target :: "phase_state \<Rightarrow> phase_state \<Rightarrow> phase_state" where
  "transition_target from next =
     (if from = next \<or> is_legal_phase_transition from next \<or> transition_route from next \<noteq> None then next else from)"

lemma append_transition_state [simp]: "pr_state (append_transition now next reason p) = next"
  by (simp add: append_transition_def)

lemma record_transition_state [simp]:
  "pr_state (record_transition now next reason p) = transition_target (pr_state p) next"
  by (simp add: record_transition_def transition_target_def split: option.split)

lemma record_transition_cases [case_names same direct routed refused]:
  obtains "pr_state p = next" "record_transition now next reason p = p"
  | "is_legal_phase_transition (pr_state p) next"
    "record_transition now next reason p = append_transition now next reason p"
  | i reason' where "is_legal_phase_transition (pr_state p) i" "is_legal_phase_transition i next"
    "record_transition now next reason p = append_transition now next reason (append_transition now i reason' p)"
  | "record_transition now next reason p = p"
proof (cases "transition_route (pr_state p) next")
  case None
  then show thesis using that(1,2,4)
    by (cases "pr_state p = next"; cases "is_legal_phase_transition (pr_state p) next"; simp add: record_transition_def)
next
  case (Some i)
  then have i: "is_legal_phase_transition (pr_state p) i" "is_legal_phase_transition i next"
    by (auto simp: transition_route_def dest: find_Some_in)
  show thesis
  proof (cases "pr_state p = next \<or> is_legal_phase_transition (pr_state p) next")
    case True
    then show thesis using that(1,2) by (cases "pr_state p = next"; simp add: record_transition_def)
  next
    case False
    then show thesis using that(3) [OF i] Some by (simp add: record_transition_def)
  qed
qed

lemma record_transition_fields [simp]:
  "pr_id (record_transition now next reason p) = pr_id p"
  "pr_generation (record_transition now next reason p) = pr_generation p"
  "pr_kind (record_transition now next reason p) = pr_kind p"
  "pr_attempt_generation (record_transition now next reason p) = pr_attempt_generation p"
  "pr_attempts (record_transition now next reason p) = pr_attempts p"
  "pr_lease (record_transition now next reason p) = pr_lease p"
  "pr_active_invocation (record_transition now next reason p) = pr_active_invocation p"
  "pr_commit (record_transition now next reason p) = pr_commit p"
  "pr_outputs (record_transition now next reason p) = pr_outputs p"
  "pr_inputs (record_transition now next reason p) = pr_inputs p"
  "pr_diagnostics (record_transition now next reason p) = pr_diagnostics p"
  "pr_committed_output_digest (record_transition now next reason p) = pr_committed_output_digest p"
  "pr_failure (record_transition now next reason p) = pr_failure p"
  "pr_last_status (record_transition now next reason p) = pr_last_status p"
  "pr_last_detail (record_transition now next reason p) = pr_last_detail p"
  by (cases now "next" reason p rule: record_transition_cases; simp add: append_transition_def)+

text \<open>States that keep no execution authority.\<close>

definition withdrawn :: "phase_state \<Rightarrow> bool" where
  "withdrawn state = (state = PS_cancelled \<or> state = PS_fenced \<or> state = PS_retired)"

lemma withdrawn_simps [simp]: "withdrawn PS_retired" "\<not> withdrawn PS_committed" "withdrawn PS_fenced" "withdrawn PS_cancelled"
  by (simp_all add: withdrawn_def)

lemma withdrawn_target: "withdrawn from \<Longrightarrow> withdrawn (transition_target from next)"
  by (cases "next")
    (auto simp: withdrawn_def transition_target_def transition_route_def kRoutes_def is_legal_phase_transition_def)

lemma committed_target: "next \<noteq> PS_fenced \<Longrightarrow>
    transition_target PS_committed next = PS_committed \<or> transition_target PS_committed next = PS_retired"
  by (cases "next") (auto simp: transition_target_def transition_route_def kRoutes_def is_legal_phase_transition_def)

lemma retired_target [simp]: "transition_target PS_retired next = PS_retired"
  by (cases "next") (auto simp: transition_target_def transition_route_def kRoutes_def is_legal_phase_transition_def)

lemma reach_committed: "transition_target from next = PS_committed \<Longrightarrow> from \<noteq> PS_committed \<Longrightarrow>
    next = PS_committed \<and> from = PS_commit_ready"
  by (cases "from"; cases "next")
    (auto simp: transition_target_def transition_route_def kRoutes_def is_legal_phase_transition_def split: if_splits)

lemma fence_target: "phase_state_retains_commit_authority from \<Longrightarrow> from \<noteq> PS_pending \<Longrightarrow>
    transition_target from PS_fenced = PS_fenced"
  by (cases "from")
    (auto simp: transition_target_def transition_route_def kRoutes_def is_legal_phase_transition_def
      phase_state_retains_commit_authority_def)

lemma cancel_target: "phase_state_retains_commit_authority from \<Longrightarrow> transition_target from PS_cancelled = PS_cancelled"
  by (cases "from")
    (auto simp: transition_target_def transition_route_def kRoutes_def is_legal_phase_transition_def
      phase_state_retains_commit_authority_def)

lemma retire_target: "transition_target from PS_retired = PS_retired"
  by (cases "from")
    (auto simp: transition_target_def transition_route_def kRoutes_def is_legal_phase_transition_def)

section \<open>Phases\<close>

text \<open>The recorded history is a run of legal edges that ends in the current state.\<close>

definition history_ok :: "phase_record \<Rightarrow> bool" where
  "history_ok p =
     (length (pr_history p) \<le> kMaxPhaseTransitions \<and>
      list_all (\<lambda>t. is_legal_phase_transition (pt_from t) (pt_to t)) (pr_history p) \<and>
      successively (\<lambda>a b. pt_to a = pt_from b) (pr_history p) \<and>
      (pr_history p \<noteq> [] \<longrightarrow> pt_to (last (pr_history p)) = pr_state p))"

definition phase_ok :: "phase_record \<Rightarrow> bool" where
  "phase_ok p = (history_ok p \<and> length (pr_attempts p) \<le> kMaxPhaseAttempts)"

lemma history_tl: "history_ok p \<Longrightarrow>
    list_all (\<lambda>t. is_legal_phase_transition (pt_from t) (pt_to t)) (tl (pr_history p)) \<and>
    successively (\<lambda>a b. pt_to a = pt_from b) (tl (pr_history p)) \<and>
    (tl (pr_history p) \<noteq> [] \<longrightarrow> pt_to (last (tl (pr_history p))) = pr_state p)"
  by (cases "pr_history p") (auto simp: history_ok_def successively_Cons split: if_splits)

lemma append_transition_ok:
  assumes "history_ok p" "is_legal_phase_transition (pr_state p) next"
  shows "history_ok (append_transition now next reason p)"
  using assms history_tl [OF assms(1)]
  by (auto simp: history_ok_def append_transition_def successively_append_iff kMaxPhaseTransitions_def)

lemma record_transition_ok [crf_inv]: "history_ok p \<Longrightarrow> history_ok (record_transition now next reason p)"
  by (cases now "next" reason p rule: record_transition_cases) (simp_all add: append_transition_ok)

lemma phase_ok_transition [crf_inv]: "phase_ok p \<Longrightarrow> phase_ok (record_transition now next reason p)"
  by (simp add: phase_ok_def record_transition_ok)

text \<open>
  A change that grants no commit: identity and kind stay, the generation does not go back, a
  committed phase stays committed under the same commit or is retired, a phase without authority
  regains none, and no phase becomes committed.
\<close>

definition settled :: "phase_record \<Rightarrow> bool" where
  "settled p = (pr_state p = PS_committed \<or> withdrawn (pr_state p))"

definition phase_keeps :: "bool \<Rightarrow> phase_record \<Rightarrow> phase_record \<Rightarrow> bool" where
  "phase_keeps g p p' =
     (pr_id p' = pr_id p \<and> pr_kind p' = pr_kind p \<and> pr_generation p \<le> pr_generation p' \<and>
      (settled p \<longrightarrow> settled p' \<and> pr_generation p' = pr_generation p \<and> pr_commit p' = pr_commit p \<and>
         set (pr_outputs p) \<subseteq> set (pr_outputs p')) \<and>
      (pr_state p = PS_committed \<longrightarrow> pr_state p' = PS_committed \<or> pr_state p' = PS_retired) \<and>
      (withdrawn (pr_state p) \<longrightarrow> withdrawn (pr_state p')) \<and>
      (pr_state p = PS_retired \<longrightarrow> pr_state p' = PS_retired) \<and>
      (pr_state p' = PS_committed \<longrightarrow> pr_state p = PS_committed \<or> g) \<and>
      (phase_ok p \<longrightarrow> phase_ok p'))"

interpretation phase_evolution: evolution "phase_keeps g" for g
proof unfold_locales
  fix a b c
  assume ab: "phase_keeps g a b" and bc: "phase_keeps g b c"
  have "pr_state c = PS_committed \<or> pr_state c = PS_retired" if "pr_state a = PS_committed"
  proof -
    have "pr_state b = PS_committed \<or> pr_state b = PS_retired" using that ab by (simp add: phase_keeps_def)
    then show ?thesis using bc by (elim disjE) (simp_all add: phase_keeps_def)
  qed
  with ab bc show "phase_keeps g a c"
    unfolding phase_keeps_def by (elim conjE, intro conjI impI) (metis order_trans subset_trans)+
qed (simp add: phase_keeps_def)

text \<open>Bookkeeping changes, after or before a transition.\<close>

lemma phase_keeps_transition:
  assumes "next \<noteq> PS_fenced \<or> pr_state p \<noteq> PS_committed" "next \<noteq> PS_committed"
  shows "phase_keeps g p (record_transition now next reason p)"
  using assms committed_target [of "next"] withdrawn_target [of "pr_state p" "next"]
    reach_committed [of "pr_state p" "next"]
  by (auto simp: phase_keeps_def settled_def phase_ok_transition)

definition same_lifecycle :: "phase_record \<Rightarrow> phase_record \<Rightarrow> bool" where
  "same_lifecycle p p' =
     (pr_id p' = pr_id p \<and> pr_kind p' = pr_kind p \<and> pr_generation p' = pr_generation p \<and>
      pr_state p' = pr_state p \<and> pr_commit p' = pr_commit p \<and> pr_history p' = pr_history p \<and>
      set (pr_outputs p) \<subseteq> set (pr_outputs p') \<and> length (pr_attempts p') = length (pr_attempts p))"

lemma same_lifecycle_keeps: "same_lifecycle p p' \<Longrightarrow> phase_keeps g p p'"
  by (simp add: same_lifecycle_def phase_keeps_def settled_def phase_ok_def history_ok_def)

lemma phase_keeps_transition_after:
  assumes "same_lifecycle p p1" "next \<noteq> PS_fenced \<or> pr_state p \<noteq> PS_committed" "next \<noteq> PS_committed"
  shows "phase_keeps g p (record_transition now next reason p1)"
proof (rule phase_evolution.evolves_trans)
  show "phase_keeps g p p1" using assms(1) by (rule same_lifecycle_keeps)
  show "phase_keeps g p1 (record_transition now next reason p1)"
    using assms by (intro phase_keeps_transition) (auto simp: same_lifecycle_def)
qed

lemma phase_keeps_then_same: "phase_keeps g p p1 \<Longrightarrow> same_lifecycle p1 p2 \<Longrightarrow> phase_keeps g p p2"
  by (blast intro: phase_evolution.evolves_trans same_lifecycle_keeps)

text \<open>The one change that commits.\<close>

definition phase_commits :: "phase_record \<Rightarrow> phase_record \<Rightarrow> bool" where
  "phase_commits p p' =
     (pr_id p' = pr_id p \<and> pr_kind p' = pr_kind p \<and> pr_generation p' = pr_generation p \<and>
      pr_state p = PS_commit_ready \<and> pr_state p' = PS_committed \<and> (phase_ok p \<longrightarrow> phase_ok p'))"

section \<open>Sessions\<close>

definition session_ok :: "compiler_session \<Rightarrow> bool" where
  "session_ok s = (um_ok (cs_phases s) \<and> um_all (\<lambda>k p. id_value (pr_id p) = k \<and> phase_ok p) (cs_phases s))"

definition session_keeps :: "bool \<Rightarrow> compiler_session \<Rightarrow> compiler_session \<Rightarrow> bool" where
  "session_keeps g s s' =
     (cs_id s' = cs_id s \<and> cs_plan s' = cs_plan s \<and> cs_generation s \<le> cs_generation s' \<and>
      map fst (cs_phases s') = map fst (cs_phases s) \<and>
      (\<forall>k. rel_option (phase_keeps g) (um_find (cs_phases s) k) (um_find (cs_phases s') k)))"

interpretation session_evolution: evolution "session_keeps g" for g
proof unfold_locales
  show "session_keeps g a a" for a
    by (auto simp: session_keeps_def phase_evolution.evolves_refl intro: rel_option_reflI)
  fix a b c
  assume ab: "session_keeps g a b" and bc: "session_keeps g b c"
  have "rel_option (phase_keeps g) (um_find (cs_phases a) k) (um_find (cs_phases c) k)" for k
  proof -
    have "rel_option (phase_keeps g) (um_find (cs_phases a) k) (um_find (cs_phases b) k)"
      "rel_option (phase_keeps g) (um_find (cs_phases b) k) (um_find (cs_phases c) k)"
      using ab bc by (simp_all add: session_keeps_def)
    then show ?thesis
      by (auto elim!: option.rel_cases intro: phase_evolution.evolves_trans)
  qed
  then show "session_keeps g a c" using ab bc by (auto simp: session_keeps_def)
qed

lemma session_keeps_ok:
  assumes "session_keeps g s s'" "session_ok s"
  shows "session_ok s'"
proof -
  have ok': "um_ok (cs_phases s')" using assms by (simp add: session_keeps_def session_ok_def um_ok_def)
  have "id_value (pr_id p') = k \<and> phase_ok p'" if "(k, p') \<in> set (cs_phases s')" for k p'
  proof -
    have "rel_option (phase_keeps g) (um_find (cs_phases s) k) (um_find (cs_phases s') k)"
      using assms(1) by (simp add: session_keeps_def)
    moreover have "um_find (cs_phases s') k = Some p'" using ok' that by (rule um_ok_mem)
    ultimately obtain p where "um_find (cs_phases s) k = Some p" "phase_keeps g p p'"
      by (cases "um_find (cs_phases s) k") auto
    with assms(2) show ?thesis
      by (auto simp: session_ok_def phase_keeps_def dest: um_all_find)
  qed
  with ok' show ?thesis by (auto simp: session_ok_def um_all_def)
qed

lemma find_put_phase [simp]:
  "find_phase j (put_phase i p s) = (if j = i then map_option (\<lambda>_. p) (find_phase i s) else find_phase j s)"
  by (cases i; cases j) (simp add: find_phase_def put_phase_def um.find_modify)

lemma put_phase_fields [simp]:
  "cs_id (put_phase i p s) = cs_id s" "cs_plan (put_phase i p s) = cs_plan s"
  "cs_generation (put_phase i p s) = cs_generation s" "cs_state (put_phase i p s) = cs_state s"
  "map fst (cs_phases (put_phase i p s)) = map fst (cs_phases s)"
  by (simp_all add: put_phase_def fst_modify)

lemma um_modify_absent: "um_find m k = None \<Longrightarrow> um_modify k f m = m"
  unfolding um_find_def um_modify_def by (induction m) (auto split: if_splits)

lemma put_phase_keeps:
  assumes "\<And>p. find_phase i s = Some p \<Longrightarrow> phase_keeps g p p'"
  shows "session_keeps g s (put_phase i p' s)"
proof (cases "find_phase i s")
  case None
  then show ?thesis
    by (simp add: put_phase_def find_phase_def um_modify_absent session_evolution.evolves_refl)
next
  case (Some p)
  with assms show ?thesis
    by (auto simp: session_keeps_def put_phase_def find_phase_def fst_modify um.find_modify
        phase_evolution.evolves_refl intro: rel_option_reflI)
qed

text \<open>Changes of a session outside its phases.\<close>

lemma session_keeps_fields:
  assumes "session_keeps g s s1" "cs_id s2 = cs_id s1" "cs_plan s2 = cs_plan s1" "cs_phases s2 = cs_phases s1"
    "cs_generation s1 \<le> cs_generation s2"
  shows "session_keeps g s s2"
  using assms by (auto simp: session_keeps_def)

section \<open>Runtimes\<close>

definition sessions_keep :: "bool \<Rightarrow> (u64, compiler_session) umap \<Rightarrow> (u64, compiler_session) umap \<Rightarrow> bool" where
  "sessions_keep g m m' = (\<forall>k s. um_find m k = Some s \<longrightarrow> (\<exists>s'. um_find m' k = Some s' \<and> session_keeps g s s'))"

interpretation sessions_evolution: evolution "sessions_keep g" for g
proof unfold_locales
  show "sessions_keep g m m" for m by (simp add: sessions_keep_def session_evolution.evolves_refl)
  show "sessions_keep g m m''" if "sessions_keep g m m'" "sessions_keep g m' m''" for m m' m''
    using that unfolding sessions_keep_def by (meson session_evolution.evolves_trans)
qed

definition sessions_ok :: "(u64, compiler_session) umap \<Rightarrow> session_tag id_allocator \<Rightarrow> bool" where
  "sessions_ok m a = (id_table_ok m a \<and> um_all (\<lambda>k s. id_value (cs_id s) = k \<and> session_ok s) m)"

definition tables_ok :: "runtime \<Rightarrow> bool" where
  "tables_ok r = (artifact_ok (rt_artifacts r) \<and> lease_table_ok (rt_leases r) \<and> diagnostics_ok (rt_diagnostics r) \<and>
     toolchain_ok (rt_toolchains r) \<and> source_ok (rt_sources r) \<and>
     reg_ok target_validate target_canonical_digest (rt_targets r) \<and>
     reg_ok policy_validate policy_canonical_digest (rt_policies r))"

text \<open>No artifact gains authority.\<close>

definition authoritative :: "artifact_registry \<Rightarrow> artifact_id \<Rightarrow> bool" where
  "authoritative m i = (case artifact_find i m of None \<Rightarrow> False | Some a \<Rightarrow> ia_authority a = AU_authoritative)"

definition no_new_authority :: "artifact_registry \<Rightarrow> artifact_registry \<Rightarrow> bool" where
  "no_new_authority m m' = (\<forall>i. authoritative m' i \<longrightarrow> authoritative m i)"

interpretation authority_evolution: evolution no_new_authority
  by unfold_locales (auto simp: no_new_authority_def)

lemma no_new_authority_modify:
  assumes "\<And>a. ia_authority (f a) = AU_authoritative \<Longrightarrow> ia_authority a = AU_authoritative"
  shows "no_new_authority m (m\<lparr>ar_entries := um_modify k f (ar_entries m)\<rparr>)"
  using assms
  by (auto simp: no_new_authority_def authoritative_def artifact_find_def um.find_modify split: if_splits option.splits)

lemma no_new_authority_register:
  "ia_authority a \<noteq> AU_authoritative \<Longrightarrow> no_new_authority m (fst (register_artifact a m))"
  by (auto simp: no_new_authority_def authoritative_def register_artifact_def artifact_find_def Let_def case_prod_beta
      um.find_emplace split: if_splits option.splits)

lemma no_new_authority_set_state: "no_new_authority m (fst (set_state i st d m))"
  by (auto simp: set_state_def Let_def authority_evolution.evolves_refl split: option.split if_splits
      intro!: no_new_authority_modify)

lemma no_new_authority_revoke: "no_new_authority m (fst (revoke_phase_outputs p g d m))"
  by (auto simp: no_new_authority_def authoritative_def revoke_phase_outputs_find split: if_splits option.splits)

lemma no_new_authority_revalidate: "no_new_authority m (fst (revalidate ex hs i m))"
  by (auto simp: revalidate_def Let_def authority_evolution.evolves_refl split: option.split
      intro!: no_new_authority_modify)

lemmas no_new_authority_ops [intro] = authority_evolution.evolves_refl no_new_authority_register
  no_new_authority_set_state no_new_authority_revoke no_new_authority_revalidate

text \<open>
  A change of the runtime, with \<open>g\<close> whether it may commit. One that may not, a quiet change, also
  gives no artifact authority.
\<close>

definition runtime_keeps :: "bool \<Rightarrow> runtime \<Rightarrow> runtime \<Rightarrow> bool" where
  "runtime_keeps g r r' =
     (sessions_keep g (rt_sessions r) (rt_sessions r') \<and>
      (sessions_ok (rt_sessions r) (rt_session_ids r) \<longrightarrow> sessions_ok (rt_sessions r') (rt_session_ids r')) \<and>
      (tables_ok r \<longrightarrow> tables_ok r') \<and>
      (no_new_authority (rt_artifacts r) (rt_artifacts r') \<or> g))"

abbreviation quiet :: "runtime \<Rightarrow> runtime \<Rightarrow> bool" where
  "quiet \<equiv> runtime_keeps False"

interpretation runtime_evolution: evolution "runtime_keeps g" for g
  by unfold_locales
    (auto simp: runtime_keeps_def intro: sessions_evolution.evolves_refl sessions_evolution.evolves_trans
      authority_evolution.evolves_refl authority_evolution.evolves_trans)

lemma keeps_weaken:
  "phase_keeps False p p' \<Longrightarrow> phase_keeps g p p'" "session_keeps False s s' \<Longrightarrow> session_keeps g s s'"
  "sessions_keep False m m' \<Longrightarrow> sessions_keep g m m'" "quiet r r' \<Longrightarrow> runtime_keeps g r r'"
proof -
  show phase: "phase_keeps False p p' \<Longrightarrow> phase_keeps g p p'" for p p'
    by (simp add: phase_keeps_def)
  show session: "session_keeps False s s' \<Longrightarrow> session_keeps g s s'" for s s'
    using option.rel_mono [of "phase_keeps False" "phase_keeps g"] phase
    by (auto simp: session_keeps_def le_fun_def)
  show sessions: "sessions_keep False m m' \<Longrightarrow> sessions_keep g m m'" for m m'
    using session by (auto simp: sessions_keep_def) blast
  show "quiet r r' \<Longrightarrow> runtime_keeps g r r'"
    using sessions by (auto simp: runtime_keeps_def)
qed

lemma sessions_keep_modify:
  assumes "\<And>s. um_find m k = Some s \<Longrightarrow> session_keeps g s s'"
  shows "sessions_keep g m (um_modify k (\<lambda>_. s') m)"
  using assms by (auto simp: sessions_keep_def um.find_modify session_evolution.evolves_refl)

lemma sessions_ok_modify:
  assumes "sessions_ok m a" "\<And>s. um_find m k = Some s \<Longrightarrow> session_keeps g s s'"
  shows "sessions_ok (um_modify k (\<lambda>_. s') m) a"
proof (cases "um_find m k")
  case None
  then show ?thesis using assms(1) by (simp add: um_modify_absent)
next
  case (Some s)
  have "id_value (cs_id s) = k" "session_ok s"
    using assms(1) Some by (auto simp: sessions_ok_def dest: um_all_find)
  then have "id_value (cs_id s') = k" "session_ok s'"
    using assms(2) [OF Some] session_keeps_ok by (auto simp: session_keeps_def)
  then show ?thesis using assms(1) by (auto simp: sessions_ok_def id_table_modify intro: um_all_modify)
qed

text \<open>The shape of most operations: one session is rewritten, other tables change on the side.\<close>

lemma quietI:
  assumes "\<And>s. rt_find i r = Some s \<Longrightarrow> session_keeps False s s'"
    and "rt_sessions r' = um_modify (id_value i) (\<lambda>_. s') (rt_sessions r)" "rt_session_ids r' = rt_session_ids r"
    and "tables_ok r \<Longrightarrow> tables_ok r'" "no_new_authority (rt_artifacts r) (rt_artifacts r')"
  shows "quiet r r'"
  using assms sessions_keep_modify [of "rt_sessions r" "id_value i" False s']
    sessions_ok_modify [of "rt_sessions r" "rt_session_ids r" "id_value i" False s']
  by (auto simp: runtime_keeps_def rt_find_def)

lemma quiet_tables:
  assumes "rt_sessions r' = rt_sessions r" "rt_session_ids r' = rt_session_ids r"
    and "tables_ok r \<Longrightarrow> tables_ok r'" "no_new_authority (rt_artifacts r) (rt_artifacts r')"
  shows "quiet r r'"
  using assms by (simp add: runtime_keeps_def sessions_evolution.evolves_refl)

lemma put_session_fields [simp]:
  "rt_sessions (put_session i s r) = um_modify (id_value i) (\<lambda>_. s) (rt_sessions r)"
  "rt_session_ids (put_session i s r) = rt_session_ids r" "rt_artifacts (put_session i s r) = rt_artifacts r"
  "rt_leases (put_session i s r) = rt_leases r" "rt_toolchains (put_session i s r) = rt_toolchains r"
  "rt_policies (put_session i s r) = rt_policies r" "rt_targets (put_session i s r) = rt_targets r"
  "rt_sources (put_session i s r) = rt_sources r" "rt_diagnostics (put_session i s r) = rt_diagnostics r" "rt_persistent (put_session i s r) = rt_persistent r"
  "rt_commit_total (put_session i s r) = rt_commit_total r"
  "rt_journal (put_session i s r) = rt_journal r" "tables_ok (put_session i s r) = tables_ok r"
  by (simp_all add: put_session_def tables_ok_def)

lemma rt_find_put [simp]:
  "rt_find j (put_session i s r) = (if j = i then map_option (\<lambda>_. s) (rt_find i r) else rt_find j r)"
  by (cases i; cases j) (simp add: rt_find_def um.find_modify)

lemma persist_cases [case_names off refused stored]:
  obtains "\<not> rt_persistent r" "persist host s r = (r, Inr ())"
  | e where "rt_persistent r" "rh_append host s = Some e" "persist host s r = (r, Inl e)"
  | "rt_persistent r" "rh_append host s = None" "persist host s r = (r\<lparr>rt_journal := rt_journal r @ [s]\<rparr>, Inr ())"
  by (cases "rt_persistent r"; cases "rh_append host s") (auto simp: persist_def)

lemma persist_quiet: "quiet r (fst (persist host s r))"
  by (cases rule: persist_cases [of r host s])
    (auto intro: runtime_evolution.evolves_refl authority_evolution.evolves_refl
      intro!: quiet_tables simp: tables_ok_def)

lemma fst_persist_then: "fst (persist_then host s v r) = fst (persist host s r)"
  by (simp add: persist_then_def split: prod.split sum.split)

lemma quiet_persist: "quiet r r1 \<Longrightarrow> quiet r (fst (persist_then host s v r1))"
  by (metis runtime_evolution.evolves_trans persist_quiet fst_persist_then)

lemma quiet_put:
  assumes "\<And>s. rt_find i r = Some s \<Longrightarrow> session_keeps False s s'" "rt_sessions r1 = rt_sessions r"
    "rt_session_ids r1 = rt_session_ids r" "tables_ok r \<Longrightarrow> tables_ok r1"
    "no_new_authority (rt_artifacts r) (rt_artifacts r1)"
  shows "quiet r (put_session i s' r1)"
  using assms by (intro quietI) simp_all

text \<open>A rewritten phase, with the session's bookkeeping.\<close>

lemma put_phase_touched:
  assumes "\<And>p. find_phase j s = Some p \<Longrightarrow> phase_keeps g p p'"
  shows "session_keeps g s ((put_phase j p' s)\<lparr>cs_updated_at_nanos := t\<rparr>)"
    "session_keeps g s ((put_phase j p' s)\<lparr>cs_generation := gen_next (cs_generation s)\<rparr>)"
    "session_keeps g s ((put_phase j p' s)\<lparr>cs_generation := gen_next (cs_generation s), cs_updated_at_nanos := t\<rparr>)"
  by (rule session_keeps_fields [OF put_phase_keeps [OF assms]]; simp add: gen_next_le)+

lemma put_phase_table [simp]: "cs_phases (put_phase j p s) = um_modify (id_value j) (\<lambda>_. p) (cs_phases s)"
  by (simp add: put_phase_def)

lemma session_keeps_same:
  assumes "cs_id s' = cs_id s" "cs_plan s' = cs_plan s" "cs_phases s' = cs_phases s"
    "cs_generation s \<le> cs_generation s'"
  shows "session_keeps g s s'"
  using assms by (intro session_keeps_fields [OF session_evolution.evolves_refl])

end
