(* ===== verification/Runtime_Execute.thy ===== *)
theory Runtime_Execute
  imports Runtime_Evolution
begin

text \<open>
  \<open>src/core/runtime.cpp\<close>, the execution of one phase: the reservation that grants authority
  (\<open>reserve\<close>), the request handed to the adapter (\<open>build_request\<close>), the preparation and launch of
  the invocation (\<open>execute_reserved\<close>), the record of what was executed (\<open>record_execution\<close>) and
  the validation of its outputs (\<open>validate_phase_outputs\<close>).
\<close>

section \<open>Reservation\<close>

text \<open>The state of the phase decides first: \<open>None\<close> when a reservation may go on.\<close>

definition reserve_refusal :: "bool \<Rightarrow> phase_state \<Rightarrow> status option" where
  "reserve_refusal is_retry state =
     (if state = PS_committed
        then Some (Status SC_duplicate_completion ''phase already committed an authoritative result'')
      else if state = PS_retired \<or> state = PS_fenced \<or> state = PS_cancelled
        then Some (Status SC_phase_retired
          (''phase is '' @ to_string_phase_state state @ '' and retains no execution authority''))
      else if state = PS_running \<or> state = PS_preparing \<or> state = PS_produced \<or> state = PS_validating \<or>
          state = PS_commit_ready
        then Some (Status SC_phase_already_running ''phase is still in flight'')
      else if is_retry \<and> state \<noteq> PS_failed \<and> state \<noteq> PS_recovery_required
        then Some (Status SC_illegal_transition ''phase is not in a retryable state'')
      else if \<not> is_retry \<and> state = PS_failed
        then Some (Status SC_illegal_transition ''a failed phase may only be restarted through an explicit retry'')
      else None)"

definition reserve_verdict :: "runtime \<Rightarrow> compiler_session \<Rightarrow> phase_record \<Rightarrow> authority_verdict" where
  "reserve_verdict r s p =
     (let probe = p\<lparr>pr_lease := ref_absent\<rparr>; bound = authority_from_session s probe
      in compare_authority bound ((observe r s)\<lparr>ob_phase_generation := pr_generation probe,
           ob_attempt_generation := (if gen_present (pr_attempt_generation probe) then pr_attempt_generation probe
             else cs_attempt_generation s),
           ob_session_generation := au_session_generation bound\<rparr>))"

definition next_phase_generation :: "phase_record \<Rightarrow> phase_tag generation" where
  "next_phase_generation p = (if gen_present (pr_generation p) then gen_next (pr_generation p) else gen_initial)"

definition next_attempt_generation :: "bool \<Rightarrow> phase_record \<Rightarrow> attempt_tag generation" where
  "next_attempt_generation is_retry p =
     (if is_retry \<or> \<not> gen_present (pr_attempt_generation p)
      then (if gen_present (pr_attempt_generation p) then gen_next (pr_attempt_generation p) else gen_initial)
      else pr_attempt_generation p)"

text \<open>The phase record bound to the authority it is reserved under.\<close>

definition reserved_phase ::
  "u64 \<Rightarrow> compiler_session \<Rightarrow> phase_tag generation \<Rightarrow> attempt_tag generation \<Rightarrow> attempt_id \<Rightarrow>
   invocation_tag referenced \<Rightarrow> lease_tag referenced \<Rightarrow> intermediate_tag referenced list \<Rightarrow> phase_record \<Rightarrow> phase_record" where
  "reserved_phase now s phase_generation attempt_generation attempt invocation lease inputs p =
     p\<lparr>pr_session_generation := cs_generation s, pr_compilation_generation := cs_compilation_generation s,
       pr_toolchain := cs_toolchain s, pr_target := cs_target s, pr_environment := cs_environment s,
       pr_policy := cs_policy s, pr_source := cs_source s, pr_ir_generation := cs_ir_generation s,
       pr_generation := phase_generation, pr_attempt_generation := attempt_generation,
       pr_attempts := pr_attempts p @ [phase_attempt_default\<lparr>pa_id := attempt, pa_generation := attempt_generation,
         pa_invocation := invocation, pa_terminal_state := PS_pending, pa_started_at_nanos := now\<rparr>],
       pr_active_invocation := invocation, pr_active_process := id_absent,
       pr_active_process_generation := gen_absent, pr_lease := lease, pr_inputs := inputs, pr_outputs := [],
       pr_diagnostics := ref_absent, pr_commit := id_absent, pr_committed_output_digest := digest_default,
       pr_failure := FC_none, pr_last_status := SC_ok, pr_last_detail := []\<rparr>"

definition preparing_phase ::
  "runtime_host \<Rightarrow> bool \<Rightarrow> compiler_session \<Rightarrow> attempt_id \<Rightarrow> invocation_tag referenced \<Rightarrow> lease_tag referenced \<Rightarrow>
   intermediate_tag referenced list \<Rightarrow> phase_record \<Rightarrow> phase_record" where
  "preparing_phase host is_retry s attempt invocation lease inputs p =
     record_transition (rh_now host) PS_preparing ''workspace and environment prepared''
       (record_transition (rh_now host) PS_ready
         (if is_retry then ''retry authority reserved'' else ''phase authority reserved'')
         (reserved_phase (rh_now host) s (next_phase_generation p) (next_attempt_generation is_retry p) attempt
           invocation lease inputs p))"

definition reserved_session ::
  "runtime_host \<Rightarrow> bool \<Rightarrow> phase_id \<Rightarrow> phase_record \<Rightarrow> phase_record \<Rightarrow> compiler_session \<Rightarrow> compiler_session" where
  "reserved_session host is_retry pid p p' s = (put_phase pid p' s)\<lparr>
     cs_attempt_generation := next_attempt_generation is_retry p, cs_current_phase := pid,
     cs_generation := gen_next (cs_generation s), cs_updated_at_nanos := rh_now host\<rparr>"

text \<open>From the allocation of identities to the record of the reservation.\<close>

definition reserve_record ::
  "runtime_host \<Rightarrow> session_id \<Rightarrow> phase_id \<Rightarrow> bool \<Rightarrow> compiler_session \<Rightarrow> phase_record \<Rightarrow>
   intermediate_tag referenced list \<Rightarrow> runtime \<Rightarrow> runtime \<times> reservation result" where
  "reserve_record host sid pid is_retry s p inputs r =
     (let (attempt, attempts) = alloc_next (rt_attempt_ids r);
          (inv, invs) = alloc_next (rt_invocation_ids r);
          invocation = Ref inv gen_initial;
          r1 = r\<lparr>rt_attempt_ids := attempts, rt_invocation_ids := invs\<rparr>
      in case workspace_create (rh_paths host) (rh_fs host) (rh_now host) (cs_id s) (cs_generation s) pid
             (next_phase_generation p) (if is_retry then ''retry'' else []) (rt_workspaces r1) of
        (wm, Inl e) \<Rightarrow> (r1\<lparr>rt_workspaces := wm\<rparr>, Inl e)
      | (wm, Inr w) \<Rightarrow>
        (case lease_grant (rh_now host) (Ref (cs_id s) (cs_generation s)) (Ref pid (next_phase_generation p)) 0
             (if is_retry then ''retry of a failed phase'' else ''phase execution'') (rt_leases r1) of
           (lt, lease) \<Rightarrow>
             let p' = preparing_phase host is_retry s attempt invocation lease inputs p;
                 s' = reserved_session host is_retry pid p p' s;
                 reservation = reservation_default\<lparr>rv_session := sid, rv_phase := pid,
                   rv_phase_generation := next_phase_generation p, rv_invocation := invocation,
                   rv_attempt := attempt, rv_attempt_generation := next_attempt_generation is_retry p,
                   rv_lease := lease, rv_kind := pr_kind p, rv_authority := authority_from_session s' p',
                   rv_workspace := w\<rparr>
             in persist_then host s' reservation
                  (put_session sid s' (r1\<lparr>rt_workspaces := wm, rt_leases := lt\<rparr>))))"

definition reserve ::
  "runtime_host \<Rightarrow> session_id \<Rightarrow> phase_id \<Rightarrow> bool \<Rightarrow> runtime \<Rightarrow> runtime \<times> reservation result" where
  "reserve host sid pid is_retry r =
     (if rt_shutting_down r then (r, Inl (Status SC_shutting_down ''runtime is shutting down''))
      else case rt_find sid r of
        None \<Rightarrow> (r, Inl (Status SC_not_found (''session is not registered: '' @ id_to_string ''session'' sid)))
      | Some s \<Rightarrow>
        if cs_state s = SS_recovering
          then (r, Inl (Status SC_session_not_active ''session requires recovery before new authority is granted''))
        else if \<not> session_state_admits_new_authority (cs_state s)
          then (r, Inl (Status SC_session_not_active
            (''session state '' @ to_string_session_state (cs_state s) @ '' does not admit new authority'')))
        else case find_phase pid s of
          None \<Rightarrow> (r, Inl (Status SC_not_found (''phase is not part of the session: '' @ id_to_string ''phase'' pid)))
        | Some p \<Rightarrow>
          (case reserve_refusal is_retry (pr_state p) of
             Some e \<Rightarrow> (r, Inl e)
           | None \<Rightarrow>
             if \<not> plan_is_ready pid (committed_phases s) (cs_plan s)
               then (r, Inl (Status SC_phase_not_ready ''a dependency of this phase is not committed yet''))
             else if \<not> authority_verdict_is_current (reserve_verdict r s p)
               then (r, Inl (Status (to_status_code (reserve_verdict r s p))
                 (''session authority is not current: '' @ to_string_verdict (reserve_verdict r s p))))
             else case resolve_inputs (rt_artifacts r) s p of
               Inl e \<Rightarrow> (r, Inl e)
             | Inr inputs \<Rightarrow>
               if length (pr_attempts p) \<ge> kMaxPhaseAttempts
                 then (r, Inl (Status SC_capacity_exceeded ''phase attempt history is full''))
               else reserve_record host sid pid is_retry s p inputs r))"

section \<open>The adapter's request\<close>

definition build_request ::
  "runtime_host \<Rightarrow> runtime \<Rightarrow> compiler_session \<Rightarrow> phase_record \<Rightarrow> reservation \<Rightarrow> execution_request result" where
  "build_request host r s p rv =
     (let request = \<lparr>xq_session = Ref (cs_id s) (cs_generation s),
            xq_compilation_generation = cs_compilation_generation s, xq_attempt_generation = pr_attempt_generation p,
            xq_phase = Ref (pr_id p) (pr_generation p), xq_kind = pr_kind p, xq_adapter_phase = pr_adapter_phase p,
            xq_toolchain = toolchain_find (ref_id (cs_toolchain s)) (rt_toolchains r),
            xq_target = target_find (ref_id (cs_target s)) (rt_targets r),
            xq_environment = map_option ri_spec (environment_find (ref_id (cs_environment s)) (rt_environments r)),
            xq_policy = policy_spec_of s r,
            xq_sources = List.map_filter (\<lambda>reference. source_find (ref_id reference) (rt_sources r)) (cs_sources s),
            xq_resolved_inputs = pr_inputs p, xq_artifacts = rt_artifacts r, xq_workspace = Some (rv_workspace rv),
            xq_output_directory = outputs_directory (rh_paths host) (rv_workspace rv),
            xq_final_artifact_name = cs_final_artifact_name s, xq_reproducibility_second_run = False,
            xq_adapter_options = cs_adapter_options s\<rparr>
      in if xq_toolchain request = None \<or> xq_target request = None \<or> xq_environment request = None \<or>
            xq_policy request = None
         then Inl (Status SC_integrity_unproven ''phase execution context is missing an authority component'')
         else Inr request)"

section \<open>Preparation and launch\<close>

text \<open>
  The scratch directory of the child: the workspace's, or one below the system's temporary
  directory when the workspace's path has a space and the system's has none.
\<close>

definition child_temp :: "runtime_host \<Rightarrow> compiler_session \<Rightarrow> reservation \<Rightarrow> string" where
  "child_temp host s rv =
     (let own = temp_directory (rh_paths host) (rv_workspace rv) in
      if CHR '' '' \<in> set own then
        (case rh_system_temp host of
           Some system \<Rightarrow>
             if CHR '' '' \<notin> set system then
               (let scratch = hp_join (rh_paths host) (hp_join (rh_paths host) system ''compiler-runtime-fabric'')
                      (id_to_string ''session'' (cs_id s) @ ''-'' @ id_to_string ''phase'' (rv_phase rv) @ ''-g'' @
                       gen_to_string (rv_phase_generation rv))
                in if hf_create_directories (rh_fs host) scratch = None then scratch else own)
             else own
         | None \<Rightarrow> own)
      else own)"

definition bind_invocation ::
  "compiler_session \<Rightarrow> phase_record \<Rightarrow> reservation \<Rightarrow> environment_variable list \<Rightarrow> string \<Rightarrow> invocation_spec \<Rightarrow> invocation_spec" where
  "bind_invocation s p rv vars directory spec =
     spec\<lparr>is_id := ref_id (rv_invocation rv), is_generation := ref_gen (rv_invocation rv),
       is_session := Ref (cs_id s) (wk_session_generation (rv_workspace rv)),
       is_phase := Ref (pr_id p) (pr_generation p), is_attempt_generation := pr_attempt_generation p,
       is_toolchain := cs_toolchain s, is_target := cs_target s, is_environment := cs_environment s,
       is_policy := cs_policy s, is_environment_variables := vars, is_working_directory := directory,
       is_adapter_name := cs_adapter_name s\<rparr>"

definition find_executable_component ::
  "(string \<Rightarrow> string) \<Rightarrow> toolchain_identity option \<Rightarrow> string \<Rightarrow> component_identity option" where
  "find_executable_component ln toolchain executable =
     (case toolchain of None \<Rightarrow> None
      | Some t \<Rightarrow> List.find (\<lambda>c. canonical_path_key ln (fi_canonical_path (ci_file c)) = canonical_path_key ln executable)
          (ti_components t))"

definition bind_component :: "component_identity \<Rightarrow> invocation_spec \<Rightarrow> invocation_spec" where
  "bind_component c spec = spec\<lparr>is_component := ci_id c, is_component_generation := ci_generation c,
     is_executable_identity := ci_file c\<rparr>"

definition produced_is_authoritative ::
  "(string \<Rightarrow> string) \<Rightarrow> artifact_registry \<Rightarrow> intermediate_tag referenced list \<Rightarrow> string \<Rightarrow> bool" where
  "produced_is_authoritative ln artifacts inputs executable =
     list_ex (\<lambda>reference. case artifact_find (ref_id reference) artifacts of
         None \<Rightarrow> False
       | Some a \<Rightarrow> ia_authority a = AU_authoritative \<and>
           canonical_path_key ln (ia_path a) = canonical_path_key ln executable) inputs"

text \<open>
  The executable must be a probed component of the toolchain, or an authoritative input of this
  phase when the invocation declares a produced executable.
\<close>

definition bind_executable ::
  "runtime_host \<Rightarrow> runtime \<Rightarrow> compiler_session \<Rightarrow> phase_record \<Rightarrow> invocation_spec \<Rightarrow> invocation_spec result" where
  "bind_executable host r s p spec =
     (case find_executable_component (rh_normal host) (toolchain_find (ref_id (cs_toolchain s)) (rt_toolchains r))
          (is_executable spec) of
        Some c \<Rightarrow> Inr (bind_component c spec)
      | None \<Rightarrow>
          if \<not> is_produced_executable spec
            then Inl (Status SC_component_not_found
              (''invocation executable is not a probed toolchain component: '' @ is_executable spec))
          else if \<not> produced_is_authoritative (rh_normal host) (rt_artifacts r) (pr_inputs p) (is_executable spec)
            then Inl (Status SC_not_authoritative
              (''produced executable is not an authoritative artifact of this session: '' @ is_executable spec))
          else crf_try (probe_file_identity (rh_queries host) (is_executable spec) True) (\<lambda>observed.
            Inr (spec\<lparr>is_executable_identity := observed\<rparr>)))"

definition validation_context_for ::
  "runtime \<Rightarrow> compiler_session \<Rightarrow> compiler_adapter \<Rightarrow> workspace \<Rightarrow> bool \<Rightarrow> validation_context" where
  "validation_context_for r s adapter w require = \<lparr>vc_workspace = Some w, vc_family = dsc_family (ad_describe adapter),
     vc_target_architecture = (case target_find (ref_id (cs_target s)) (rt_targets r) of
       Some t \<Rightarrow> ts_architecture (ri_spec t) | None \<Rightarrow> AR_unknown),
     vc_forbidden_options = (case policy_spec_of s r of Some spec \<Rightarrow> po_forbidden_options spec | None \<Rightarrow> []),
     vc_limits = invocation_limits_default, vc_require_component_identity = require, vc_allowed_executable_roots = []\<rparr>"

definition capture_ceiling :: "policy_spec \<Rightarrow> nat" where
  "capture_ceiling spec = max 4096 (min (unat (po_max_diagnostic_bytes_per_stream spec)) kMaxCaptureBytes)"

text \<open>Everything up to the validated invocation, without a change of the runtime.\<close>

definition plan_invocation ::
  "runtime_host \<Rightarrow> runtime \<Rightarrow> compiler_session \<Rightarrow> phase_record \<Rightarrow> compiler_adapter \<Rightarrow> reservation \<Rightarrow> invocation_spec result" where
  "plan_invocation host r s p adapter rv =
     crf_try (build_request host r s p rv) (\<lambda>request.
       case xq_environment request of
         None \<Rightarrow> Inl (Status SC_integrity_unproven ''phase execution context is missing an authority component'')
       | Some spec \<Rightarrow>
           crf_try (environment_canonicalize (rh_normal host) (spec\<lparr>es_temp_directory := child_temp host s rv\<rparr>))
             (\<lambda>environment.
               let vars = build_process_environment (rh_ambient host) environment True in
               crf_try (ad_build_invocation adapter request) (\<lambda>built.
                 bind_executable host r s p
                   (bind_invocation s p rv vars (wk_root (rv_workspace rv)) built))))"

definition process_for ::
  "runtime_host \<Rightarrow> policy_spec option \<Rightarrow> invocation_spec \<Rightarrow> process_spec result" where
  "process_for host policy spec =
     crf_try (to_process_spec (rh_paths host) (hf_is_directory (rh_fs host)) spec) (\<lambda>process.
       Inr (case policy of None \<Rightarrow> process
         | Some ps \<Rightarrow> process\<lparr>sp_timeout_millis := po_phase_timeout_millis ps,
             sp_max_capture_bytes := capture_ceiling ps\<rparr>))"

text \<open>The critical section of \<open>execute_reserved\<close> before the launch.\<close>

definition prepare_execution :: "runtime_host \<Rightarrow> reservation \<Rightarrow> runtime \<Rightarrow> runtime \<times> reservation result" where
  "prepare_execution host rv r =
     (case rt_find (rv_session rv) r of
        None \<Rightarrow> (r, Inl (Status SC_not_found ''session disappeared during execution''))
      | Some s \<Rightarrow>
        (case find_phase (rv_phase rv) s of
           None \<Rightarrow> (r, Inl (Status SC_not_found ''phase disappeared during execution''))
         | Some p \<Rightarrow>
           if pr_generation p \<noteq> rv_phase_generation rv \<or> pr_active_invocation p \<noteq> rv_invocation rv
             then (r, Inl (Status SC_stale_invocation ''phase invocation is no longer the current one''))
           else case adapter_find_by_name (cs_adapter_name s) (rt_adapters r) of
             None \<Rightarrow> (r, Inl (Status SC_unsupported (''no adapter is registered for '' @ cs_adapter_name s)))
           | Some adapter \<Rightarrow>
             (case plan_invocation host r s p adapter rv of
                Inl e \<Rightarrow> (r, Inl e)
              | Inr spec \<Rightarrow>
                (case validate_invocation (rh_paths host) (rh_fs host) (rh_queries host) spec
                     (validation_context_for r s adapter (rv_workspace rv) (\<not> is_produced_executable spec)) of
                   Inl e \<Rightarrow>
                     (put_session (rv_session rv) (put_phase (rv_phase rv) (p\<lparr>pr_last_status := status_code e,
                        pr_failure := classify_status (status_code e), pr_last_detail := status_message e\<rparr>) s) r, Inl e)
                 | Inr valid \<Rightarrow>
                   (case process_for host (policy_spec_of s r) valid of
                      Inl e \<Rightarrow> (r, Inl e)
                    | Inr process \<Rightarrow>
                      let p1 = record_transition (rh_now host) PS_running ''compiler process launched'' p;
                          s1 = (put_phase (rv_phase rv) p1 s)\<lparr>cs_updated_at_nanos := rh_now host\<rparr>
                      in persist_then host s1 (rv\<lparr>rv_invocation_spec := valid, rv_process_spec := process\<rparr>)
                           (put_session (rv_session rv) s1 r))))))"

text \<open>The critical section after the launch: the phase notes which process ran.\<close>

definition note_process :: "reservation \<Rightarrow> execution_report \<Rightarrow> runtime \<Rightarrow> runtime" where
  "note_process rv report r =
     (if \<not> id_present (oc_id (er_process report)) then r
      else case rt_find (rv_session rv) r of
        None \<Rightarrow> r
      | Some s \<Rightarrow>
        (case find_phase (rv_phase rv) s of
           None \<Rightarrow> r
         | Some p \<Rightarrow> put_session (rv_session rv) (put_phase (rv_phase rv)
             (p\<lparr>pr_active_process := oc_id (er_process report),
                pr_active_process_generation := oc_generation (er_process report)\<rparr>) s) r))"

definition execute_reserved ::
  "runtime_host \<Rightarrow> reservation \<Rightarrow> runtime \<Rightarrow> runtime \<times> reservation \<times> execution_report result" where
  "execute_reserved host rv r =
     (case prepare_execution host rv r of
        (r1, Inl e) \<Rightarrow> (r1, rv, Inl e)
      | (r1, Inr rv1) \<Rightarrow>
        (case rt_executor r1 of
           None \<Rightarrow> (r1, rv1, Inl (Status SC_internal_error ''runtime has no executor configured''))
         | Some executor \<Rightarrow>
           (case pe_execute executor (rv_invocation_spec rv1) (rv_process_spec rv1) (rv_workspace rv1)
                (to_string_phase_kind (rv_kind rv1)) of
              Inl e \<Rightarrow> (r1, rv1, Inr (execution_report_default\<lparr>er_status := status_code e,
                er_detail := status_message e, er_workspace_root := wk_root (rv_workspace rv1),
                er_workspace_marker := wk_marker_digest (rv_workspace rv1)\<rparr>))
            | Inr report \<Rightarrow> (note_process rv1 report r1, rv1, Inr report))))"

section \<open>The record of an execution\<close>

fun update_first_where :: "('a \<Rightarrow> bool) \<Rightarrow> ('a \<Rightarrow> 'a) \<Rightarrow> 'a list \<Rightarrow> 'a list" where
  "update_first_where P f [] = []"
| "update_first_where P f (x # xs) = (if P x then f x # xs else x # update_first_where P f xs)"

definition update_back :: "('a \<Rightarrow> 'a) \<Rightarrow> 'a list \<Rightarrow> 'a list" where
  "update_back f xs = (if xs = [] then [] else butlast xs @ [f (last xs)])"

definition on_attempt :: "attempt_id \<Rightarrow> (phase_attempt \<Rightarrow> phase_attempt) \<Rightarrow> phase_record \<Rightarrow> phase_record" where
  "on_attempt i f p = p\<lparr>pr_attempts := update_first_where (\<lambda>a. pa_id a = i) f (pr_attempts p)\<rparr>"

definition on_last_attempt :: "(phase_attempt \<Rightarrow> phase_attempt) \<Rightarrow> phase_record \<Rightarrow> phase_record" where
  "on_last_attempt f p = p\<lparr>pr_attempts := update_back f (pr_attempts p)\<rparr>"

definition executed_attempt :: "reservation \<Rightarrow> execution_report \<Rightarrow> phase_attempt \<Rightarrow> phase_attempt" where
  "executed_attempt rv report a = a\<lparr>pa_invocation := rv_invocation rv,
     pa_process_generation := oc_generation (er_process report),
     pa_os_process_id := oc_os_process_id (er_process report), pa_exit_code := sint (oc_exit_code (er_process report)),
     pa_started_at_nanos := oc_started_at_nanos (er_process report),
     pa_finished_at_nanos := oc_finished_at_nanos (er_process report), pa_status := er_status report,
     pa_detail := er_detail report\<rparr>"

definition raw_tail :: "string \<Rightarrow> string" where
  "raw_tail t = (if length t > kMaxRawTailBytes then drop (length t - kMaxRawTailBytes) t else t)"

definition diagnostics_of ::
  "runtime \<Rightarrow> compiler_session \<Rightarrow> phase_record \<Rightarrow> reservation \<Rightarrow> execution_report \<Rightarrow> diagnostic_set" where
  "diagnostics_of r s p rv report =
     (let capture = oc_capture (er_process report);
          adapter = adapter_find_by_name (cs_adapter_name s) (rt_adapters r);
          ceiling = (case policy_spec_of s r of Some spec \<Rightarrow> unat (po_max_diagnostic_entries spec) | None \<Rightarrow> kMaxEntries);
          entries = take ceiling (er_diagnostics report);
          (errors, warnings) = count_severities entries
      in \<lparr>dx_id = id_absent, dx_generation = gen_absent, dx_invocation = rv_invocation rv,
           dx_phase = Ref (pr_id p) (pr_generation p), dx_toolchain = cs_toolchain s, dx_target = cs_target s,
           dx_entries = entries,
           dx_normalized = (case adapter of None \<Rightarrow> False
             | Some a \<Rightarrow> has_capability (dsc_capabilities (ad_describe a)) AC_structured_diagnostics),
           dx_truncated = (pc_truncated capture \<or> length (er_diagnostics report) > ceiling),
           dx_raw_stdout_bytes = pc_standard_output_bytes capture, dx_raw_stderr_bytes = pc_standard_error_bytes capture,
           dx_dropped_stdout_bytes = pc_dropped_standard_output_bytes capture,
           dx_dropped_stderr_bytes = pc_dropped_standard_error_bytes capture,
           dx_raw_stdout_tail = raw_tail (pc_standard_output capture),
           dx_raw_stderr_tail = raw_tail (pc_standard_error capture),
           dx_exit_code = sint (oc_exit_code (er_process report)),
           dx_process_crashed = (oc_termination (er_process report) = PT_crashed),
           dx_error_count = errors, dx_warning_count = warnings\<rparr>)"

definition candidate_artifact ::
  "compiler_session \<Rightarrow> phase_record \<Rightarrow> reservation \<Rightarrow> output_descriptor \<Rightarrow> intermediate_artifact" where
  "candidate_artifact s p rv d = artifact_default\<lparr>ia_format := od_format d, ia_path := od_path d,
     ia_content := od_content d, ia_size_bytes := od_size_bytes d,
     ia_producer_phase := Ref (pr_id p) (pr_generation p), ia_producer_invocation := rv_invocation rv,
     ia_toolchain := cs_toolchain s, ia_target := cs_target s, ia_source := cs_source s,
     ia_ir_generation := cs_ir_generation s, ia_environment := cs_environment s, ia_policy := cs_policy s,
     ia_lineage_inputs := pr_inputs p, ia_state := (if od_exists d then AS_unknown else AS_stale),
     ia_authority := AU_none, ia_declared_digest := od_content d, ia_current := False,
     ia_validation_detail := ''registered as a candidate; not yet validated''\<rparr>"

text \<open>The references registered so far, and the refusal that stopped the loop if any.\<close>

fun register_outputs ::
  "(output_descriptor \<Rightarrow> intermediate_artifact) \<Rightarrow> output_descriptor list \<Rightarrow> artifact_registry \<Rightarrow>
   artifact_registry \<times> intermediate_tag referenced list \<times> status option" where
  "register_outputs f [] artifacts = (artifacts, [], None)"
| "register_outputs f (d # ds) artifacts =
     (case register_artifact (f d) artifacts of
        (artifacts', Inl e) \<Rightarrow> (artifacts', [], Some e)
      | (artifacts', Inr reference) \<Rightarrow>
          (case register_outputs f ds artifacts' of (artifacts'', refs, e) \<Rightarrow> (artifacts'', reference # refs, e)))"

definition failed_execution :: "u64 \<Rightarrow> reservation \<Rightarrow> execution_report \<Rightarrow> phase_record \<Rightarrow> phase_record" where
  "failed_execution now rv report p =
     (let failure = classify_execution_failure report;
          detail = (if er_detail report = [] then ''compiler execution did not succeed'' else er_detail report)
      in record_transition now PS_failed detail
           (on_attempt (rv_attempt rv) (\<lambda>a. a\<lparr>pa_terminal_state := PS_failed, pa_failure := failure\<rparr>)
             (p\<lparr>pr_failure := failure,
                pr_last_status := (if er_status report = SC_ok then SC_process_exited_nonzero else er_status report),
                pr_last_detail := detail\<rparr>)))"

definition produced_phase :: "u64 \<Rightarrow> reservation \<Rightarrow> phase_record \<Rightarrow> phase_record" where
  "produced_phase now rv p =
     on_attempt (rv_attempt rv) (\<lambda>a. a\<lparr>pa_terminal_state := PS_produced\<rparr>)
       (record_transition now PS_produced ''compiler process exited 0; output is not yet authoritative'' p)"

definition validating_phase ::
  "u64 \<Rightarrow> artifact_registry \<Rightarrow> intermediate_tag referenced list \<Rightarrow> phase_record \<Rightarrow> phase_record" where
  "validating_phase now artifacts refs p =
     record_transition now PS_validating ''candidate outputs registered for validation''
       (p\<lparr>pr_outputs := pr_outputs p @ refs,
          pr_committed_output_digest := output_set_digest_from_artifacts artifacts (pr_outputs p @ refs)\<rparr>)"

text \<open>The outputs are registered as candidates; only a commit makes them authoritative.\<close>

definition record_outputs ::
  "runtime_host \<Rightarrow> reservation \<Rightarrow> execution_report \<Rightarrow> compiler_session \<Rightarrow> phase_record \<Rightarrow> runtime \<Rightarrow> runtime \<times> unit result" where
  "record_outputs host rv report s p r =
     (case register_outputs (candidate_artifact s p rv) (er_outputs report) (rt_artifacts r) of
        (artifacts, refs, refused) \<Rightarrow>
          let s1 = s\<lparr>cs_intermediates := cs_intermediates s @ refs\<rparr>; r1 = r\<lparr>rt_artifacts := artifacts\<rparr>
          in (case refused of
                Some e \<Rightarrow>
                  (put_session (rv_session rv) (put_phase (rv_phase rv) (p\<lparr>pr_outputs := pr_outputs p @ refs\<rparr>) s1) r1, Inl e)
              | None \<Rightarrow>
                  let s2 = (put_phase (rv_phase rv) (validating_phase (rh_now host) artifacts refs p) s1)
                        \<lparr>cs_updated_at_nanos := rh_now host\<rparr>
                  in persist_then host s2 () (put_session (rv_session rv) s2 r1)))"

definition record_execution ::
  "runtime_host \<Rightarrow> reservation \<Rightarrow> execution_report \<Rightarrow> runtime \<Rightarrow> runtime \<times> unit result" where
  "record_execution host rv report r =
     (case rt_find (rv_session rv) r of
        None \<Rightarrow> (r, Inl (Status SC_not_found ''session disappeared''))
      | Some s \<Rightarrow>
        (case find_phase (rv_phase rv) s of
           None \<Rightarrow> (r, Inl (Status SC_not_found ''phase disappeared''))
         | Some p \<Rightarrow>
           if pr_generation p \<noteq> rv_phase_generation rv
             then (r, Inl (Status SC_stale_phase_generation ''phase generation moved while the execution was in flight''))
           else if pr_active_invocation p \<noteq> rv_invocation rv
             then (r, Inl (Status SC_stale_invocation ''invocation is no longer current for this phase generation''))
           else if find_attempt (rv_attempt rv) p = None
             then (r, Inl (Status SC_not_found ''attempt record is missing''))
           else
             let p1 = on_attempt (rv_attempt rv) (executed_attempt rv report) p
             in case diagnostics_add (diagnostics_of r s p rv report) (rt_diagnostics r) of
               (ds, Inl e) \<Rightarrow>
                 (put_session (rv_session rv) (put_phase (rv_phase rv) p1 s) (r\<lparr>rt_diagnostics := ds\<rparr>), Inl e)
             | (ds, Inr stored) \<Rightarrow>
                 let p2 = p1\<lparr>pr_diagnostics := stored\<rparr>;
                     r2 = r\<lparr>rt_diagnostics := ds,
                       rt_last_outcomes := um_set (id_value (pr_id p)) (er_process report) (rt_last_outcomes r)\<rparr>
                 in if \<not> (er_executed report \<and> exited_zero (er_process report))
                    then
                      let s1 = (put_phase (rv_phase rv) (failed_execution (rh_now host) rv report p2) s)
                            \<lparr>cs_updated_at_nanos := rh_now host\<rparr>
                      in persist_then host s1 () (put_session (rv_session rv) s1 r2)
                    else
                      record_outputs host rv report s (produced_phase (rh_now host) rv p2) r2))"

section \<open>Validation of outputs\<close>

definition validation_request ::
  "runtime_host \<Rightarrow> reservation \<Rightarrow> runtime \<Rightarrow> (compiler_adapter \<times> output_validation_request) result" where
  "validation_request host rv r =
     (case rt_find (rv_session rv) r of
        None \<Rightarrow> Inl (Status SC_not_found ''session disappeared'')
      | Some s \<Rightarrow>
        (case find_phase (rv_phase rv) s of
           None \<Rightarrow> Inl (Status SC_not_found ''phase disappeared'')
         | Some p \<Rightarrow>
           (case adapter_find_by_name (cs_adapter_name s) (rt_adapters r) of
              None \<Rightarrow> Inl (Status SC_unsupported ''no adapter is registered for this session'')
            | Some adapter \<Rightarrow>
              crf_try (build_request host r s p rv) (\<lambda>request.
                let recorded = (case um_find (rt_last_outcomes r) (id_value (pr_id p)) of
                      Some outcome \<Rightarrow> outcome | None \<Rightarrow> process_outcome_default)
                in Inr (adapter, \<lparr>ov_context = request,
                     ov_process = Some (recorded\<lparr>oc_id := pr_active_process p,
                       oc_generation := pr_active_process_generation p, oc_invocation := rv_invocation rv\<rparr>),
                     ov_artifacts = rt_artifacts r, ov_candidate_outputs = pr_outputs p,
                     ov_declared_outputs = is_expected_outputs (rv_invocation_spec rv)\<rparr>)))))"

definition evidence_state :: "validation_evidence \<Rightarrow> artifact_state" where
  "evidence_state evidence =
     (if ve_accepted evidence then AS_valid
      else if ve_state evidence = AS_unknown then AS_corrupt else ve_state evidence)"

definition mark_outputs ::
  "validation_evidence \<Rightarrow> intermediate_tag referenced list \<Rightarrow> artifact_registry \<Rightarrow> artifact_registry" where
  "mark_outputs evidence outputs artifacts =
     foldl (\<lambda>m reference. fst (set_state (ref_id reference) (evidence_state evidence) (ve_detail evidence) m))
       artifacts outputs"

text \<open>
  The critical section after the adapter's answer. \<open>set_state\<close> returns \<open>VoidResult\<close>, which the code
  wraps in a \<open>Result<VoidResult>\<close> that always has a value: a refusal does not stop the loop.
\<close>

definition apply_validation ::
  "runtime_host \<Rightarrow> reservation \<Rightarrow> validation_evidence \<Rightarrow> runtime \<Rightarrow> runtime \<times> validation_evidence result" where
  "apply_validation host rv evidence r =
     (case rt_find (rv_session rv) r of
        None \<Rightarrow> (r, Inl (Status SC_not_found ''session disappeared''))
      | Some s \<Rightarrow>
        (case find_phase (rv_phase rv) s of
           None \<Rightarrow> (r, Inl (Status SC_not_found ''phase disappeared''))
         | Some p \<Rightarrow>
           let r1 = r\<lparr>rt_artifacts := mark_outputs evidence (pr_outputs p) (rt_artifacts r)\<rparr>;
               failure = classify_status (ve_refusal evidence);
               p1 = (if \<not> ve_accepted evidence
                 then record_transition (rh_now host) PS_failed (ve_detail evidence)
                   (on_last_attempt (\<lambda>a. a\<lparr>pa_terminal_state := PS_failed, pa_failure := failure\<rparr>)
                     (p\<lparr>pr_failure := failure, pr_last_status := ve_refusal evidence,
                        pr_last_detail := ve_detail evidence\<rparr>))
                 else record_transition (rh_now host) PS_commit_ready ''output validation accepted'' p);
               r2 = (if ve_accepted evidence
                 then r1\<lparr>rt_last_validation := um_set (id_value (pr_id p)) evidence (rt_last_validation r1)\<rparr> else r1);
               s1 = (put_phase (rv_phase rv) p1 s)\<lparr>cs_updated_at_nanos := rh_now host\<rparr>
           in persist_then host s1 evidence (put_session (rv_session rv) s1 r2)))"

definition validate_phase_outputs ::
  "runtime_host \<Rightarrow> reservation \<Rightarrow> runtime \<Rightarrow> runtime \<times> validation_evidence result" where
  "validate_phase_outputs host rv r =
     (case validation_request host rv r of
        Inl e \<Rightarrow> (r, Inl e)
      | Inr (adapter, request) \<Rightarrow>
        (case ad_validate_outputs adapter request of
           Inl e \<Rightarrow> (r, Inl e)
         | Inr evidence \<Rightarrow> apply_validation host rv evidence r))"

section \<open>Reservation grants authority, and commits nothing\<close>

lemma next_phase_generation_le: "pr_generation p \<le> next_phase_generation p"
  using gen_next_le [of "pr_generation p"]
  by (cases "pr_generation p") (auto simp: next_phase_generation_def gen_present_def gen_initial_def less_eq_generation_def)

lemma reserve_refusal_None:
  "reserve_refusal is_retry state = None \<longleftrightarrow>
    (if is_retry then state = PS_failed \<or> state = PS_recovery_required
     else state = PS_pending \<or> state = PS_ready \<or> state = PS_recovery_required)"
  by (cases state) (auto simp: reserve_refusal_def)

lemma reserved_phase_fields [simp]:
  "pr_state (reserved_phase now s pg ag a i l ins p) = pr_state p"
  "pr_id (reserved_phase now s pg ag a i l ins p) = pr_id p"
  "pr_kind (reserved_phase now s pg ag a i l ins p) = pr_kind p"
  "pr_history (reserved_phase now s pg ag a i l ins p) = pr_history p"
  "pr_generation (reserved_phase now s pg ag a i l ins p) = pg"
  "pr_attempt_generation (reserved_phase now s pg ag a i l ins p) = ag"
  "pr_lease (reserved_phase now s pg ag a i l ins p) = l"
  "pr_active_invocation (reserved_phase now s pg ag a i l ins p) = i"
  "pr_inputs (reserved_phase now s pg ag a i l ins p) = ins"
  "pr_outputs (reserved_phase now s pg ag a i l ins p) = []"
  "length (pr_attempts (reserved_phase now s pg ag a i l ins p)) = Suc (length (pr_attempts p))"
  by (simp_all add: reserved_phase_def)

lemma preparing_state:
  "reserve_refusal is_retry (pr_state p) = None \<Longrightarrow> pr_state (preparing_phase host is_retry s a i l ins p) = PS_preparing"
  by (cases "pr_state p")
    (auto simp: preparing_phase_def reserve_refusal_None transition_target_def is_legal_phase_transition_def
      split: if_splits)

lemma preparing_keeps:
  assumes "reserve_refusal is_retry (pr_state p) = None" "length (pr_attempts p) < kMaxPhaseAttempts"
  shows "phase_keeps g p (preparing_phase host is_retry s a i l ins p)"
proof -
  let ?q = "preparing_phase host is_retry s a i l ins p"
  have st: "pr_state p \<in> {PS_pending, PS_ready, PS_failed, PS_recovery_required}"
    using assms(1) by (auto simp: reserve_refusal_None split: if_splits)
  have "phase_ok ?q" if "phase_ok p"
  proof -
    have "history_ok (reserved_phase (rh_now host) s pg ag a i l ins p)" for pg ag
      using that by (simp add: phase_ok_def history_ok_def)
    then show ?thesis
      using assms(2) by (simp add: preparing_phase_def phase_ok_def record_transition_ok)
  qed
  moreover have "pr_generation p \<le> pr_generation ?q"
    by (simp add: preparing_phase_def next_phase_generation_le)
  ultimately show ?thesis
    using st preparing_state [OF assms(1), of host s a i l ins]
    by (auto simp: phase_keeps_def settled_def withdrawn_def) (simp_all add: preparing_phase_def)
qed

lemma reserved_session_keeps:
  assumes "find_phase pid s = Some p" "phase_keeps g p p'"
  shows "session_keeps g s (reserved_session host is_retry pid p p' s)"
  using assms
  by (intro session_keeps_fields [OF put_phase_keeps, of pid s g p'])
    (simp_all add: reserved_session_def gen_next_le)

lemma reserve_record_quiet:
  assumes "rt_find sid r = Some s" "find_phase pid s = Some p" "reserve_refusal is_retry (pr_state p) = None"
    "length (pr_attempts p) < kMaxPhaseAttempts"
  shows "quiet r (fst (reserve_record host sid pid is_retry s p inputs r))"
proof -
  note keeps = reserved_session_keeps [OF assms(2) preparing_keeps [OF assms(3,4)]]
  show ?thesis
    unfolding reserve_record_def Let_def case_prod_beta
    by (split sum.split, intro conjI allI impI, simp_all only: fst_conv)
      ((rule quiet_tables; auto simp: tables_ok_def),
       (intro quiet_persist quiet_put; auto simp: assms(1) keeps tables_ok_def lease_grant_ok split del: if_split))
qed

text \<open>A reservation passes every guard or leaves the runtime as it was.\<close>

lemma reserve_cases [case_names refused granted]:
  obtains e where "reserve host sid pid is_retry r = (r, Inl e)"
  | s p inputs where
      "\<not> rt_shutting_down r" "rt_find sid r = Some s" "session_state_admits_new_authority (cs_state s)"
      "find_phase pid s = Some p" "reserve_refusal is_retry (pr_state p) = None"
      "plan_is_ready pid (committed_phases s) (cs_plan s)" "reserve_verdict r s p = AV_valid"
      "resolve_inputs (rt_artifacts r) s p = Inr inputs" "length (pr_attempts p) < kMaxPhaseAttempts"
      "reserve host sid pid is_retry r = reserve_record host sid pid is_retry s p inputs r"
proof -
  have "(\<exists>e. reserve host sid pid is_retry r = (r, Inl e)) \<or>
    (\<exists>s p inputs. \<not> rt_shutting_down r \<and> rt_find sid r = Some s \<and> session_state_admits_new_authority (cs_state s) \<and>
      find_phase pid s = Some p \<and> reserve_refusal is_retry (pr_state p) = None \<and>
      plan_is_ready pid (committed_phases s) (cs_plan s) \<and> reserve_verdict r s p = AV_valid \<and>
      resolve_inputs (rt_artifacts r) s p = Inr inputs \<and> length (pr_attempts p) < kMaxPhaseAttempts \<and>
      reserve host sid pid is_retry r = reserve_record host sid pid is_retry s p inputs r)"
    by (simp add: reserve_def authority_verdict_is_current_def split: option.split sum.split)
  then show thesis using that by blast
qed

lemma reserve_quiet: "quiet r (fst (reserve host sid pid is_retry r))"
  by (cases rule: reserve_cases [of host sid pid is_retry r])
    (simp_all add: runtime_evolution.evolves_refl reserve_record_quiet)

section \<open>Execution and validation commit nothing\<close>

lemmas quiet_puts = quiet_persist quiet_put put_phase_keeps put_phase_touched

lemma prepare_quiet: "quiet r (fst (prepare_execution host rv r))"
  unfolding prepare_execution_def Let_def
  by (auto split: option.split sum.split intro!: quiet_puts simp: runtime_evolution.evolves_refl)
    (rule same_lifecycle_keeps, simp add: same_lifecycle_def, simp add: phase_keeps_transition)

lemma note_process_quiet: "quiet r (note_process rv report r)"
  unfolding note_process_def
  by (auto split: option.split intro!: quiet_puts same_lifecycle_keeps
      simp: runtime_evolution.evolves_refl same_lifecycle_def)

lemma execute_quiet: "quiet r (fst (execute_reserved host rv r))"
proof -
  note prepared = prepare_quiet [of r host rv]
  have "quiet r (note_process rv1 report r1)" if "prepare_execution host rv r = (r1, Inr rv1)" for r1 rv1 report
    using prepared note_process_quiet [of r1 rv1 report] that runtime_evolution.evolves_trans by simp
  then show ?thesis
    using prepared by (auto simp: execute_reserved_def split: prod.split sum.split option.split)
qed

lemma update_first_length [simp]: "length (update_first_where P f xs) = length xs"
  by (induction xs) auto

lemma update_back_length [simp]: "length (update_back f xs) = length xs"
  by (cases xs rule: rev_cases) (auto simp: update_back_def)

lemma on_attempt_same: "same_lifecycle p (on_attempt i f p)" "same_lifecycle p (on_last_attempt f p)"
  by (simp_all add: same_lifecycle_def on_attempt_def on_last_attempt_def)

lemma same_lifecycle_trans: "same_lifecycle p q \<Longrightarrow> same_lifecycle q u \<Longrightarrow> same_lifecycle p u"
  by (auto simp: same_lifecycle_def)

lemma register_outputs_new:
  assumes "\<And>d. ia_authority (f d) = AU_none"
  shows "no_new_authority m (fst (register_outputs f ds m))" "artifact_ok m \<Longrightarrow> artifact_ok (fst (register_outputs f ds m))"
proof -
  have sound: "artifact_sound (f d)" for d using assms by (simp add: artifact_sound_def)
  have "no_new_authority m (fst (register_outputs f ds m)) \<and> (artifact_ok m \<longrightarrow> artifact_ok (fst (register_outputs f ds m)))"
  proof (induction ds arbitrary: m)
    case Nil
    show ?case by (simp add: authority_evolution.evolves_refl)
  next
    case (Cons d ds)
    have reg: "no_new_authority m (fst (register_artifact (f d) m))" "artifact_ok m \<longrightarrow> artifact_ok (fst (register_artifact (f d) m))"
      by (simp_all add: assms no_new_authority_register register_artifact_ok sound)
    note next_ok = Cons.IH [of "fst (register_artifact (f d) m)"]
    have "no_new_authority m (fst (register_outputs f ds (fst (register_artifact (f d) m))))"
      using reg(1) next_ok by (blast intro: authority_evolution.evolves_trans)
    then show ?case
      using reg next_ok by (auto simp: case_prod_beta split: sum.split)
  qed
  then show "no_new_authority m (fst (register_outputs f ds m))" "artifact_ok m \<Longrightarrow> artifact_ok (fst (register_outputs f ds m))"
    by auto
qed

lemma mark_outputs_ok:
  "no_new_authority m (mark_outputs evidence outs m)" "artifact_ok m \<Longrightarrow> artifact_ok (mark_outputs evidence outs m)"
  unfolding mark_outputs_def
  by (rule authority_evolution.evolves_foldl, rule no_new_authority_set_state)
    (induction outs arbitrary: m; simp add: set_state_ok)

lemma validation_quiet: "quiet r (fst (apply_validation host rv evidence r))"
  unfolding apply_validation_def Let_def
  by (auto split: option.split intro!: quiet_puts mark_outputs_ok phase_keeps_transition_after
      simp: runtime_evolution.evolves_refl same_lifecycle_def on_last_attempt_def tables_ok_def)

lemma validate_quiet: "quiet r (fst (validate_phase_outputs host rv r))"
  unfolding validate_phase_outputs_def
  by (auto split: sum.split simp: runtime_evolution.evolves_refl validation_quiet)

lemma failed_execution_keeps: "same_lifecycle p q \<Longrightarrow> phase_keeps g p (failed_execution now rv report q)"
  unfolding failed_execution_def Let_def
  by (rule phase_keeps_transition_after)
    (auto simp: on_attempt_def same_lifecycle_def)

lemma recorded_same: "same_lifecycle p (on_attempt i f p\<lparr>pr_diagnostics := d\<rparr>)"
  by (simp add: same_lifecycle_def on_attempt_def)

lemma record_keeps:
  "phase_keeps g p (on_attempt i f p)"
  "phase_keeps g p (failed_execution now rv report (on_attempt i f p\<lparr>pr_diagnostics := d\<rparr>))"
  by (auto intro!: same_lifecycle_keeps failed_execution_keeps simp: on_attempt_same recorded_same)

lemma produced_keeps:
  assumes "same_lifecycle p q"
  shows "phase_keeps g p (produced_phase now rv q\<lparr>pr_outputs := pr_outputs (produced_phase now rv q) @ refs\<rparr>)"
    "phase_keeps g p (validating_phase now' artifacts refs (produced_phase now rv q))"
proof -
  let ?q = "produced_phase now rv q"
  have q: "phase_keeps g p ?q"
    unfolding produced_phase_def
    by (rule phase_keeps_then_same [OF phase_keeps_transition_after [OF assms] on_attempt_same(1)]) simp_all
  then show "phase_keeps g p (?q\<lparr>pr_outputs := pr_outputs ?q @ refs\<rparr>)"
    by (rule phase_keeps_then_same) (simp add: same_lifecycle_def)
  have "same_lifecycle ?q (?q\<lparr>pr_outputs := pr_outputs ?q @ refs, pr_committed_output_digest := d\<rparr>)" for d
    by (simp add: same_lifecycle_def)
  then show "phase_keeps g p (validating_phase now' artifacts refs ?q)"
    unfolding validating_phase_def
    by (intro phase_evolution.evolves_trans [OF q phase_keeps_transition_after]) simp_all
qed

lemma candidate_not_authoritative [simp]: "ia_authority (candidate_artifact s p rv d) = AU_none"
  by (simp add: candidate_artifact_def)

lemma session_keeps_intermediates:
  assumes "\<And>p. find_phase j s = Some p \<Longrightarrow> phase_keeps g p p'"
  shows "session_keeps g s (put_phase j p' (s\<lparr>cs_intermediates := x\<rparr>))"
    "session_keeps g s ((put_phase j p' (s\<lparr>cs_intermediates := x\<rparr>))\<lparr>cs_updated_at_nanos := t\<rparr>)"
  by (rule session_keeps_fields [OF put_phase_keeps, OF assms]; simp)+

lemma record_outputs_quiet:
  assumes "rt_find (rv_session rv) r = Some s" "find_phase (rv_phase rv) s = Some p" "same_lifecycle p q"
  shows "quiet r (fst (record_outputs host rv report s (produced_phase now rv q) r))"
  unfolding record_outputs_def Let_def case_prod_beta
  by (auto split: option.split intro!: quiet_persist quiet_put session_keeps_intermediates
      register_outputs_new produced_keeps [OF assms(3)] simp: assms(1,2) tables_ok_def)

lemma record_execution_quiet: "quiet r (fst (record_execution host rv report r))"
proof -
  have "quiet r (fst (record_outputs host rv report s (produced_phase now rv q) r2))"
    if "rt_find (rv_session rv) r = Some s" "find_phase (rv_phase rv) s = Some p" "same_lifecycle p q" "quiet r r2"
      "rt_sessions r2 = rt_sessions r" for s p q r2 now
    using that record_outputs_quiet [of rv r2 s p q host report now] runtime_evolution.evolves_trans
    by (simp add: rt_find_def)
  moreover have "quiet r (r\<lparr>rt_diagnostics := fst (diagnostics_add d (rt_diagnostics r)), rt_last_outcomes := x\<rparr>)" for d x
    by (rule quiet_tables) (auto simp: tables_ok_def diagnostics_add_ok)
  ultimately show ?thesis
    unfolding record_execution_def Let_def case_prod_beta
    by (auto split: option.split sum.split intro!: quiet_puts simp: runtime_evolution.evolves_refl tables_ok_def
        diagnostics_add_ok record_keeps recorded_same)
qed

end
