(* ===== verification/Runtime_Commit.thy ===== *)
theory Runtime_Commit
  imports Runtime_Execute
begin

text \<open>
  \<open>src/core/runtime.cpp\<close>, the commit of a phase (\<open>commit_reserved\<close>) and the operations a worker or
  an operator calls on one phase: \<open>report_output\<close>, \<open>commit_phase\<close>, \<open>fail_phase\<close>,
  \<open>cancel_phase\<close>, \<open>check_authority\<close>. The commit is the only operation that makes an output
  authoritative: it re-probes the toolchain, compares the binding of the reservation with the
  present authority, and publishes the committed session only after it has been persisted.
\<close>

section \<open>Revalidation at commit\<close>

definition target_spec_default :: target_spec where
  "target_spec_default = \<lparr>ts_architecture = AR_unknown, ts_os = OS_unknown, ts_triple = [], ts_cpu = [],
     ts_device_arch = [], ts_device_virtual_arch = [], ts_abi = [], ts_pointer_width_bits = 0\<rparr>"

definition commit_probe_request :: "runtime \<Rightarrow> compiler_session \<Rightarrow> toolchain_identity \<Rightarrow> probe_request" where
  "commit_probe_request r s recorded = \<lparr>pb_family = ti_family recorded, pb_explicit_root = [],
     pb_target = (case target_find (ref_id (cs_target s)) (rt_targets r) of
       Some t \<Rightarrow> ri_spec t | None \<Rightarrow> target_spec_default),
     pb_hash_components = True, pb_toolkit_preference = []\<rparr>"

text \<open>The commit is refused and the phase fenced: the toolchain could not be re-probed.\<close>

definition fence_unprobed ::
  "runtime_host \<Rightarrow> reservation \<Rightarrow> compiler_session \<Rightarrow> phase_record \<Rightarrow> string \<Rightarrow> runtime \<Rightarrow> runtime \<times> phase_run_report result" where
  "fence_unprobed host rv s p message r =
     (let detail = ''toolchain could not be re-probed at commit: '' @ message;
          p1 = record_transition (rh_now host) PS_fenced detail
            (p\<lparr>pr_failure := FC_invalid_toolchain, pr_last_status := SC_integrity_unproven, pr_last_detail := detail\<rparr>);
          s1 = (put_phase (rv_phase rv) p1 s)\<lparr>cs_generation := gen_next (cs_generation s)\<rparr>;
          r1 = put_session (rv_session rv) s1 (r\<lparr>rt_stale_commit_total := rt_stale_commit_total r + 1,
            rt_artifacts := fst (revoke_phase_outputs (pr_id p) (pr_generation p) detail (rt_artifacts r))\<rparr>)
      in case persist host s1 r1 of
           (r2, Inl e) \<Rightarrow> (r2, Inl e)
         | (r2, Inr _) \<Rightarrow> (r2, Inl (Status SC_stale_toolchain_generation detail)))"

definition commit_record ::
  "string \<Rightarrow> authority_verdict \<Rightarrow> string \<Rightarrow> reservation \<Rightarrow> compiler_session \<Rightarrow> phase_record \<Rightarrow> provenance_record" where
  "commit_record kind verdict detail rv s p = provenance_default\<lparr>pv_kind := kind,
     pv_session := Ref (cs_id s) (cs_generation s), pv_phase := Ref (pr_id p) (pr_generation p),
     pv_invocation := rv_invocation rv, pv_toolchain := cs_toolchain s, pv_target := cs_target s,
     pv_environment := cs_environment s, pv_policy := cs_policy s, pv_source := cs_source s,
     pv_inputs := pr_inputs p, pv_outputs := pr_outputs p, pv_adapter := cs_adapter_name s,
     pv_verdict := verdict, pv_detail := detail\<rparr>"

text \<open>The authority moved while the phase ran: its output may not become current.\<close>

definition fence_stale ::
  "runtime_host \<Rightarrow> reservation \<Rightarrow> execution_report \<Rightarrow> authority_verdict \<Rightarrow> compiler_session \<Rightarrow> phase_record \<Rightarrow> runtime \<Rightarrow>
   runtime \<times> phase_run_report result" where
  "fence_stale host rv report verdict s p r =
     (let detail = ''commit refused: '' @ to_string_verdict verdict;
          p1 = record_transition (rh_now host) PS_fenced detail
            (on_last_attempt (\<lambda>a. a\<lparr>pa_terminal_state := PS_fenced, pa_failure := FC_authority_invalidated\<rparr>)
              (p\<lparr>pr_failure := FC_authority_invalidated, pr_last_status := to_status_code verdict,
                 pr_last_detail := detail\<rparr>));
          s1 = (put_phase (rv_phase rv) p1 s)\<lparr>cs_generation := gen_next (cs_generation s),
            cs_updated_at_nanos := rh_now host\<rparr>;
          r1 = r\<lparr>rt_stale_commit_total := rt_stale_commit_total r + 1,
            rt_artifacts := fst (revoke_phase_outputs (pr_id p) (pr_generation p) detail (rt_artifacts r)),
            rt_leases := fst (lease_revoke (ref_id (pr_lease p)) detail (rt_leases r)),
            rt_provenance := fst (provenance_append (rh_now host)
              (commit_record ''phase-commit-refused'' verdict detail rv s1 p1) (rt_provenance r))\<rparr>
      in persist_then host s1 (phase_run_report_default\<lparr>rr_phase := Ref (pr_id p1) (pr_generation p1),
           rr_state := PS_fenced, rr_status := to_status_code verdict, rr_failure := FC_authority_invalidated,
           rr_authority := verdict, rr_detail := detail, rr_diagnostics := pr_diagnostics p1,
           rr_invocation := rv_invocation rv, rr_outputs := pr_outputs p1,
           rr_compiler_nanos := duration_nanos (er_process report)\<rparr>)
           (put_session (rv_session rv) s1 r1))"

section \<open>Publication\<close>

definition on_outputs ::
  "(intermediate_artifact \<Rightarrow> intermediate_artifact) \<Rightarrow> intermediate_tag referenced list \<Rightarrow> artifact_registry \<Rightarrow> artifact_registry" where
  "on_outputs f refs m =
     foldl (\<lambda>m reference. m\<lparr>ar_entries := um_modify (id_value (ref_id reference)) f (ar_entries m)\<rparr>) m refs"

text \<open>
  \<open>set_authority\<close> is wrapped in a \<open>Result<VoidResult>\<close> that always has a value: an output that may
  not become authoritative is passed over.
\<close>

definition grant_outputs :: "intermediate_tag referenced list \<Rightarrow> artifact_registry \<Rightarrow> artifact_registry" where
  "grant_outputs refs m = foldl (\<lambda>m reference. fst (set_authority (ref_id reference) AU_authoritative m)) m refs"

fun record_checks :: "u64 \<Rightarrow> string list \<Rightarrow> evidence_log \<Rightarrow> evidence_log \<times> evidence_id list" where
  "record_checks now [] l = (l, [])"
| "record_checks now (check # checks) l =
     (case record_ref now EC_real ''candidate-validation-check'' check (digest_of check) l of
        (l', e) \<Rightarrow> (case record_checks now checks l' of (l'', ids) \<Rightarrow> (l'', ev_id e # ids)))"

definition cite_validation ::
  "u64 \<Rightarrow> validation_evidence option \<Rightarrow> evidence_log \<Rightarrow> evidence_log \<times> evidence_id list" where
  "cite_validation now validation l =
     (case validation of
        None \<Rightarrow> (l, [])
      | Some v \<Rightarrow>
          (case record_checks now (ve_checks v) l of
             (l', ids) \<Rightarrow>
               if ve_detail v = [] then (l', ids)
               else (case record_ref now EC_real ''candidate-validation-detail'' (ve_detail v) (digest_of (ve_detail v)) l' of
                 (l'', e) \<Rightarrow> (l'', ids @ [ev_id e]))))"

text \<open>
  The final candidate of a committing phase: the first image among its outputs, when the phase may
  produce one. A session whose phase commits has a plan with that phase, so the order is not empty.
\<close>

definition candidate_source ::
  "artifact_registry \<Rightarrow> compiler_session \<Rightarrow> phase_record \<Rightarrow> intermediate_artifact option" where
  "candidate_source artifacts s p =
     (if pr_kind p = PK_finalize \<or> pr_kind p = PK_link \<or> pr_id p = last (pp_order (cs_plan s))
      then List.find (\<lambda>a. ia_format a = OF_coff_image \<or> ia_format a = OF_elf)
        (List.map_filter (\<lambda>reference. artifact_find (ref_id reference) artifacts) (pr_outputs p))
      else None)"

definition lineage_bytes :: "(string \<Rightarrow> string) \<Rightarrow> artifact_registry \<Rightarrow> intermediate_tag referenced list \<Rightarrow> string" where
  "lineage_bytes ln artifacts lineage =
     concat (List.map_filter (\<lambda>reference. map_option (\<lambda>a. enc_text (to_hex (artifact_canonical_digest ln a)))
       (artifact_find (ref_id reference) artifacts)) lineage)"

definition make_candidate ::
  "runtime_host \<Rightarrow> final_artifact_id \<Rightarrow> evidence_id list \<Rightarrow> artifact_registry \<Rightarrow> intermediate_artifact \<Rightarrow> compiler_session \<Rightarrow> final_candidate" where
  "make_candidate host i evidence artifacts a s =
     (let lineage = sort_key ref_id (cs_intermediates s) in
      candidate_default\<lparr>fc_id := i, fc_generation := gen_initial, fc_compilation := cs_compilation s,
        fc_compilation_generation := cs_compilation_generation s, fc_attempt_generation := cs_attempt_generation s,
        fc_session := Ref (cs_id s) (cs_generation s), fc_toolchain := cs_toolchain s, fc_target := cs_target s,
        fc_environment := cs_environment s, fc_policy := cs_policy s, fc_source := cs_source s,
        fc_ir_generation := cs_ir_generation s, fc_format := ia_format a, fc_path := ia_path a,
        fc_content := ia_content a, fc_size_bytes := ia_size_bytes a, fc_lineage := lineage,
        fc_complete_lineage := True, fc_registered_at_nanos := rh_now host, fc_validation_evidence := evidence,
        fc_lineage_digest := digest_of (lineage_bytes (rh_normal host) artifacts lineage)\<rparr>)"

definition committed_phase :: "u64 \<Rightarrow> commit_id \<Rightarrow> phase_record \<Rightarrow> phase_record" where
  "committed_phase now i p =
     record_transition now PS_committed ''authority revalidated and outputs committed''
       (on_last_attempt (\<lambda>a. a\<lparr>pa_terminal_state := PS_committed\<rparr>)
         (p\<lparr>pr_commit := i, pr_committed_at_nanos := now\<rparr>))"

definition complete_session :: "compiler_session \<Rightarrow> compiler_session" where
  "complete_session s = (if all_mandatory_committed s then s\<lparr>cs_state := SS_committed\<rparr> else s)"

definition committed_session ::
  "u64 \<Rightarrow> phase_id \<Rightarrow> phase_record \<Rightarrow> compiler_session \<Rightarrow> compiler_session" where
  "committed_session now pid p' s =
     (let s1 = (put_phase pid p' s)\<lparr>cs_generation := gen_next (cs_generation s), cs_updated_at_nanos := now\<rparr>
      in if cs_candidate_present s1 then complete_session s1 else s1)"

text \<open>The provenance record, the authority of the outputs and the committed projection of the session.\<close>

definition stage_commit ::
  "runtime_host \<Rightarrow> reservation \<Rightarrow> compiler_session \<Rightarrow> phase_record \<Rightarrow> runtime \<Rightarrow> provenance_id \<times> phase_record \<times> compiler_session \<times> bool \<times> runtime" where
  "stage_commit host rv s p r =
     (let (provenance, stored) = provenance_append (rh_now host)
            (commit_record ''phase-committed'' AV_valid ''phase committed with current authority'' rv s p) (rt_provenance r);
          cited = on_outputs (\<lambda>a. a\<lparr>ia_provenance := pv_id stored\<rparr>) (pr_outputs p) (rt_artifacts r);
          (commit, commits) = alloc_next (rt_commit_ids r);
          p1 = committed_phase (rh_now host) commit p;
          granted = grant_outputs (pr_outputs p1) cited;
          s1 = committed_session (rh_now host) (rv_phase rv) p1 s;
          r1 = r\<lparr>rt_provenance := provenance, rt_commit_ids := commits, rt_artifacts := granted\<rparr>
      in case candidate_source granted s1 p1 of
           None \<Rightarrow> (pv_id stored, p1, s1, False, r1)
         | Some a \<Rightarrow>
             let (final, finals) = alloc_next (rt_final_ids r1);
                 (evidence, ids) = cite_validation (rh_now host)
                   (um_find (rt_last_validation r1) (id_value (pr_id p1))) (rt_evidence r1)
             in (pv_id stored, p1, complete_session (s1\<lparr>cs_candidate := make_candidate host final ids granted a s1,
                   cs_candidate_present := True\<rparr>), True, r1\<lparr>rt_final_ids := finals, rt_evidence := evidence\<rparr>))"

text \<open>
  The projection is persisted, and only then made visible. The outputs are authoritative before the
  store answers.
\<close>

definition publish_commit ::
  "runtime_host \<Rightarrow> reservation \<Rightarrow> execution_report \<Rightarrow> compiler_session \<Rightarrow> phase_record \<Rightarrow> runtime \<Rightarrow> runtime \<times> phase_run_report result" where
  "publish_commit host rv report s p r =
     (case stage_commit host rv s p r of (provenance, p1, s1, ready, r1) \<Rightarrow>
        case persist host s1 r1 of
           (r2, Inl e) \<Rightarrow> (r2, Inl e)
         | (r2, Inr _) \<Rightarrow>
             ((put_session (rv_session rv) s1 r2)\<lparr>
                rt_artifacts := on_outputs (\<lambda>a. a\<lparr>ia_provenance := provenance, ia_generation := gen_next (ia_generation a)\<rparr>)
                  (pr_outputs p1) (rt_artifacts r2),
                rt_leases := fst (lease_revoke (ref_id (pr_lease p1)) ''phase committed'' (rt_leases r2)),
                rt_commit_total := rt_commit_total r2 + 1\<rparr>,
              Inr (phase_run_report_default\<lparr>rr_phase := Ref (pr_id p1) (pr_generation p1), rr_state := PS_committed,
                rr_status := SC_ok, rr_failure := FC_none, rr_authority := AV_valid, rr_diagnostics := pr_diagnostics p1,
                rr_invocation := rv_invocation rv, rr_process := oc_id (er_process report), rr_outputs := pr_outputs p1,
                rr_compiler_nanos := duration_nanos (er_process report),
                rr_detail := (if ready then ''phase committed and final candidate registered'' else ''phase committed'')\<rparr>)))"

section \<open>Commit\<close>

definition commit_verdict ::
  "runtime_host \<Rightarrow> reservation \<Rightarrow> compiler_session \<Rightarrow> phase_record \<Rightarrow> runtime \<Rightarrow> authority_verdict" where
  "commit_verdict host rv s p r =
     compare_authority (rv_authority rv)
       ((observe_phase host r s p)\<lparr>ob_session_generation := au_session_generation (rv_authority rv)\<rparr>)"

definition commit_decide ::
  "runtime_host \<Rightarrow> reservation \<Rightarrow> execution_report \<Rightarrow> compiler_session \<Rightarrow> phase_record \<Rightarrow> runtime \<Rightarrow> runtime \<times> phase_run_report result" where
  "commit_decide host rv report s p r =
     (let verdict = commit_verdict host rv s p r in
      if \<not> authority_verdict_is_current verdict then fence_stale host rv report verdict s p r
      else publish_commit host rv report s p r)"

text \<open>The toolchain recorded for the session is probed again from disk.\<close>

definition commit_reprobe ::
  "runtime_host \<Rightarrow> reservation \<Rightarrow> execution_report \<Rightarrow> compiler_session \<Rightarrow> phase_record \<Rightarrow> runtime \<Rightarrow> runtime \<times> phase_run_report result" where
  "commit_reprobe host rv report s p r =
     (case (adapter_find_by_name (cs_adapter_name s) (rt_adapters r), toolchain_find (ref_id (cs_toolchain s)) (rt_toolchains r)) of
        (Some adapter, Some recorded) \<Rightarrow>
          (case ad_reprobe_toolchain adapter recorded (commit_probe_request r s recorded) of
             Inl e \<Rightarrow> fence_unprobed host rv s p (status_message e) r
           | Inr observed \<Rightarrow>
               (case toolchain_refresh (rh_normal host) observed (rt_toolchains r) of
                  (ts, Inl e) \<Rightarrow> (r\<lparr>rt_toolchains := ts\<rparr>, Inl e)
                | (ts, Inr mutation) \<Rightarrow>
                    let r1 = r\<lparr>rt_toolchains := ts\<rparr>;
                        r2 = (if tm_mutated mutation
                          then note_evidence host ''toolchain-mutation-at-commit'' (tm_detail mutation)
                            (toolchain_canonical_digest (rh_normal host) observed) r1
                          else r1)
                    in commit_decide host rv report s p r2))
      | _ \<Rightarrow> commit_decide host rv report s p r)"

definition commit_reserved ::
  "runtime_host \<Rightarrow> reservation \<Rightarrow> execution_report \<Rightarrow> runtime \<Rightarrow> runtime \<times> phase_run_report result" where
  "commit_reserved host rv report r =
     (case rt_find (rv_session rv) r of
        None \<Rightarrow> (r, Inl (Status SC_not_found ''session disappeared before commit''))
      | Some s \<Rightarrow>
        (case find_phase (rv_phase rv) s of
           None \<Rightarrow> (r, Inl (Status SC_not_found ''phase disappeared before commit''))
         | Some p \<Rightarrow>
           if pr_generation p \<noteq> rv_phase_generation rv
             then (r, Inl (Status SC_stale_phase_generation ''phase generation moved before commit''))
           else if pr_active_invocation p \<noteq> rv_invocation rv
             then (r, Inl (Status SC_stale_invocation ''invocation is no longer current''))
           else if pr_state p \<noteq> PS_commit_ready
             then (r, Inl (Status SC_illegal_transition
               (''phase is '' @ to_string_phase_state (pr_state p) @ '', not COMMIT_READY'')))
           else commit_reprobe host rv report s p r))"

section \<open>A refused commit\<close>

lemma fence_unprobed_quiet: "pr_state p \<noteq> PS_committed \<Longrightarrow> find_phase (rv_phase rv) s = Some p \<Longrightarrow>
    rt_find (rv_session rv) r = Some s \<Longrightarrow> quiet r (fst (fence_unprobed host rv s p message r))"
proof -
  assume p: "pr_state p \<noteq> PS_committed" "find_phase (rv_phase rv) s = Some p" "rt_find (rv_session rv) r = Some s"
  have "fst (fence_unprobed host rv s p message r) =
    fst (persist_then host s1 () (put_session (rv_session rv) s1 r1))"
    if "s1 = (put_phase (rv_phase rv) (record_transition (rh_now host) PS_fenced
          (''toolchain could not be re-probed at commit: '' @ message)
          (p\<lparr>pr_failure := FC_invalid_toolchain, pr_last_status := SC_integrity_unproven,
             pr_last_detail := ''toolchain could not be re-probed at commit: '' @ message\<rparr>)) s)
          \<lparr>cs_generation := gen_next (cs_generation s)\<rparr>"
      "r1 = r\<lparr>rt_stale_commit_total := rt_stale_commit_total r + 1, rt_artifacts := fst (revoke_phase_outputs (pr_id p)
          (pr_generation p) (''toolchain could not be re-probed at commit: '' @ message) (rt_artifacts r))\<rparr>" for s1 r1
    unfolding that fence_unprobed_def Let_def persist_then_def
    by (split prod.split, split prod.split, split sum.split) auto
  then show ?thesis
    using p by (auto intro!: quiet_puts phase_keeps_transition_after
        simp: same_lifecycle_def tables_ok_def revoke_phase_outputs_ok)
qed

lemma fence_stale_quiet: "pr_state p \<noteq> PS_committed \<Longrightarrow> find_phase (rv_phase rv) s = Some p \<Longrightarrow>
    rt_find (rv_session rv) r = Some s \<Longrightarrow> quiet r (fst (fence_stale host rv report verdict s p r))"
  unfolding fence_stale_def Let_def
  by (auto intro!: quiet_puts phase_keeps_transition_after
      simp: same_lifecycle_def on_last_attempt_def tables_ok_def revoke_phase_outputs_ok lease_revoke_ok)

section \<open>A commit\<close>

lemma on_outputs_ok:
  assumes "\<And>a. ia_id (f a) = ia_id a" "\<And>a. ia_state (f a) = ia_state a" "\<And>a. ia_authority (f a) = ia_authority a"
  shows "artifact_ok m \<Longrightarrow> artifact_ok (on_outputs f refs m)"
  unfolding on_outputs_def
proof (induction refs arbitrary: m)
  case (Cons x refs)
  have "artifact_ok (m\<lparr>ar_entries := um_modify (id_value (ref_id x)) f (ar_entries m)\<rparr>)"
    using Cons.prems assms by (intro artifact_modify_ok) (auto simp: artifact_sound_def)
  with Cons.IH show ?case by simp
qed simp

lemma on_outputs_authoritative:
  assumes "\<And>a. ia_authority (f a) = ia_authority a"
  shows "authoritative (on_outputs f refs m) i = authoritative m i"
  unfolding on_outputs_def
  using assms
  by (induction refs arbitrary: m)
    (auto simp: authoritative_def artifact_find_def um.find_modify option.case_eq_if)

lemma grant_outputs_ok: "artifact_ok m \<Longrightarrow> artifact_ok (grant_outputs refs m)"
  unfolding grant_outputs_def by (induction refs arbitrary: m) (auto simp: set_authority_ok)

lemma grant_outputs_new:
  "authoritative (grant_outputs refs m) i \<Longrightarrow> authoritative m i \<or> i \<in> ref_id ` set refs"
  unfolding grant_outputs_def
proof (induction refs arbitrary: m)
  case (Cons x refs)
  have "authoritative m i \<or> i = ref_id x" if "authoritative (fst (set_authority (ref_id x) AU_authoritative m)) i"
    using that by (auto simp: authoritative_def set_authority_def artifact_find_def um.find_modify strong_id.expand
        split: option.splits if_splits)
  with Cons show ?case by auto
qed simp

lemma complete_session_fields [simp]:
  "cs_id (complete_session s) = cs_id s" "cs_plan (complete_session s) = cs_plan s"
  "cs_phases (complete_session s) = cs_phases s" "cs_generation (complete_session s) = cs_generation s"
  by (simp_all add: complete_session_def)

lemma committed_session_fields [simp]:
  "cs_id (committed_session now pid p s) = cs_id s" "cs_plan (committed_session now pid p s) = cs_plan s"
  "cs_phases (committed_session now pid p s) = um_modify (id_value pid) (\<lambda>_. p) (cs_phases s)"
  "cs_generation (committed_session now pid p s) = gen_next (cs_generation s)"
  by (simp_all add: committed_session_def Let_def)

lemma committed_phase_fields [simp]:
  "pr_id (committed_phase now i p) = pr_id p" "pr_generation (committed_phase now i p) = pr_generation p"
  "pr_kind (committed_phase now i p) = pr_kind p" "pr_outputs (committed_phase now i p) = pr_outputs p"
  "pr_commit (committed_phase now i p) = i" "pr_lease (committed_phase now i p) = pr_lease p"
  "pr_committed_output_digest (committed_phase now i p) = pr_committed_output_digest p"
  by (simp_all add: committed_phase_def on_last_attempt_def)

lemma committed_phase_state [simp]:
  "pr_state p = PS_commit_ready \<Longrightarrow> pr_state (committed_phase now i p) = PS_committed"
  by (simp add: committed_phase_def on_last_attempt_def transition_target_def is_legal_phase_transition_def)

lemma committed_phase_keeps:
  assumes "pr_state p = PS_commit_ready"
  shows "phase_keeps True p (committed_phase now i p)"
proof -
  have "phase_ok (committed_phase now i p)" if "phase_ok p"
    using that unfolding committed_phase_def
    by (intro phase_ok_transition) (simp add: phase_ok_def history_ok_def on_last_attempt_def)
  then show ?thesis
    using assms by (simp add: phase_keeps_def settled_def withdrawn_def)
qed

text \<open>The session that a commit publishes, with or without a final candidate.\<close>

definition commit_projection :: "compiler_session \<Rightarrow> phase_id \<Rightarrow> phase_record \<Rightarrow> compiler_session \<Rightarrow> bool" where
  "commit_projection s pid p' s' =
     (cs_id s' = cs_id s \<and> cs_plan s' = cs_plan s \<and> cs_generation s' = gen_next (cs_generation s) \<and>
      cs_phases s' = um_modify (id_value pid) (\<lambda>_. p') (cs_phases s))"

lemma commit_projection_keeps:
  assumes "commit_projection s pid p' s'" "find_phase pid s = Some p" "phase_keeps g p p'"
  shows "session_keeps g s s'"
proof -
  have "session_keeps g s (put_phase pid p' s)"
    using assms(2,3) by (intro put_phase_keeps) simp
  then show ?thesis
    using assms(1) by (auto simp: commit_projection_def gen_next_le intro: session_keeps_fields)
qed

lemma commit_projection_find:
  assumes "commit_projection s pid p' s'" "find_phase pid s = Some p"
  shows "find_phase pid s' = Some p'"
  using assms by (simp add: commit_projection_def find_phase_def um.find_modify)

text \<open>What is staged before the store answers.\<close>

lemma stage_commit_spec:
  assumes "stage_commit host rv s p r = (provenance, p1, s1, ready, r1)"
  shows "p1 = committed_phase (rh_now host) (fst (alloc_next (rt_commit_ids r))) p"
    "commit_projection s (rv_phase rv) p1 s1"
    "rt_sessions r1 = rt_sessions r" "rt_session_ids r1 = rt_session_ids r" "rt_leases r1 = rt_leases r"
    "rt_persistent r1 = rt_persistent r" "rt_journal r1 = rt_journal r" "rt_commit_total r1 = rt_commit_total r"
    "tables_ok r \<Longrightarrow> tables_ok r1"
    "rt_artifacts r1 = grant_outputs (pr_outputs p)
      (on_outputs (\<lambda>a. a\<lparr>ia_provenance := provenance\<rparr>) (pr_outputs p) (rt_artifacts r))"
  using assms
  by (auto simp: stage_commit_def Let_def case_prod_beta commit_projection_def tables_ok_def grant_outputs_ok
      on_outputs_ok split: option.splits)

text \<open>A publication fails to persist and leaves every session as it was, or is complete.\<close>

definition published ::
  "reservation \<Rightarrow> phase_record \<Rightarrow> compiler_session \<Rightarrow> runtime \<Rightarrow> runtime \<Rightarrow> phase_run_report \<Rightarrow> runtime \<Rightarrow> bool" where
  "published rv p s1 r1 r rep r2 =
     (report_committed rep \<and> rr_outputs rep = pr_outputs p \<and> rr_phase rep = Ref (pr_id p) (pr_generation p) \<and>
      rt_sessions r2 = um_modify (id_value (rv_session rv)) (\<lambda>_. s1) (rt_sessions r) \<and>
      rt_session_ids r2 = rt_session_ids r \<and> (tables_ok r1 \<longrightarrow> tables_ok r2) \<and>
      rt_leases r2 = fst (lease_revoke (ref_id (pr_lease p)) ''phase committed'' (rt_leases r)) \<and>
      rt_commit_total r2 = rt_commit_total r + 1 \<and> (rt_persistent r \<longrightarrow> rt_journal r2 = rt_journal r @ [s1]) \<and>
      (\<forall>i. authoritative (rt_artifacts r2) i = authoritative (rt_artifacts r1) i))"

lemma publish_cases [consumes 1, case_names unpersisted published]:
  assumes "stage_commit host rv s p r = (provenance, p1, s1, ready, r1)"
  obtains e where "rt_persistent r" "rh_append host s1 = Some e" "publish_commit host rv report s p r = (r1, Inl e)"
  | r2 rep where "rt_persistent r \<longrightarrow> rh_append host s1 = None" "publish_commit host rv report s p r = (r2, Inr rep)"
      "published rv p s1 r1 r rep r2"
proof -
  note spec = stage_commit_spec [OF assms]
  have tables: "tables_ok ((put_session i s r)\<lparr>rt_artifacts := on_outputs (\<lambda>a. a\<lparr>ia_provenance := x, ia_generation := gen_next (ia_generation a)\<rparr>)
      refs (rt_artifacts r), rt_leases := fst (lease_revoke l d (rt_leases r)), rt_commit_total := n\<rparr>)"
    if "tables_ok r" for i s r x refs l d n
    using that by (simp add: tables_ok_def on_outputs_ok lease_revoke_ok)
  have "(\<exists>e. rt_persistent r \<and> rh_append host s1 = Some e \<and> publish_commit host rv report s p r = (r1, Inl e)) \<or>
    (rt_persistent r \<longrightarrow> rh_append host s1 = None) \<and>
    (\<exists>r2 rep. publish_commit host rv report s p r = (r2, Inr rep) \<and> published rv p s1 r1 r rep r2)"
  proof (cases rule: persist_cases [of r1 host s1])
    case (refused e)
    then show ?thesis using spec assms by (simp add: publish_commit_def)
  next
    case off
    then show ?thesis
      using spec(1-8) assms tables [of r1]
      by (simp add: publish_commit_def published_def report_committed_def on_outputs_authoritative)
  next
    case stored
    have "tables_ok (r1\<lparr>rt_journal := x\<rparr>) = tables_ok r1" for x by (simp add: tables_ok_def)
    with stored show ?thesis
      using spec(1-8) assms tables [of "r1\<lparr>rt_journal := rt_journal r1 @ [s1]\<rparr>"]
      by (simp add: publish_commit_def published_def report_committed_def on_outputs_authoritative)
  qed
  then show thesis using that by blast
qed

lemma publish_keeps:
  assumes "rt_find (rv_session rv) r = Some s" "find_phase (rv_phase rv) s = Some p" "pr_state p = PS_commit_ready"
  shows "runtime_keeps True r (fst (publish_commit host rv report s p r))"
proof -
  obtain provenance p1 s1 ready r1 where staged: "stage_commit host rv s p r = (provenance, p1, s1, ready, r1)"
    by (metis prod_cases5)
  note spec = stage_commit_spec [OF staged]
  have keeps: "session_keeps True s s1"
    using commit_projection_keeps [OF spec(2) assms(2)] committed_phase_keeps [OF assms(3)] spec(1) by simp
  from staged show ?thesis
  proof (cases rule: publish_cases [where report = report])
    case (unpersisted e)
    then show ?thesis using spec by (simp add: runtime_keeps_def sessions_evolution.evolves_refl)
  next
    case (published r2 rep)
    then show ?thesis
      using assms(1) keeps sessions_keep_modify [of "rt_sessions r" "id_value (rv_session rv)" True s1]
        sessions_ok_modify [of "rt_sessions r" "rt_session_ids r" "id_value (rv_session rv)" True s1]
      by (auto simp: runtime_keeps_def rt_find_def published_def spec(9))
  qed
qed

lemma commit_decide_keeps:
  assumes "rt_find (rv_session rv) r = Some s" "find_phase (rv_phase rv) s = Some p" "pr_state p = PS_commit_ready"
  shows "runtime_keeps True r (fst (commit_decide host rv report s p r))"
  using assms publish_keeps keeps_weaken(4) [OF fence_stale_quiet]
  by (simp add: commit_decide_def Let_def)

lemma note_evidence_quiet: "quiet r (note_evidence host kind detail payload r)"
  by (rule quiet_tables) (auto simp: note_evidence_def tables_ok_def)

lemma commit_reprobe_keeps:
  assumes "rt_find (rv_session rv) r = Some s" "find_phase (rv_phase rv) s = Some p" "pr_state p = PS_commit_ready"
  shows "runtime_keeps True r (fst (commit_reprobe host rv report s p r))"
proof -
  have refreshed: "quiet r (r\<lparr>rt_toolchains := fst (toolchain_refresh ln observed (rt_toolchains r))\<rparr>)" for ln observed
    by (rule quiet_tables) (auto simp: tables_ok_def toolchain_refresh_ok)
  have "runtime_keeps True r (fst (commit_decide host rv report s p r2))"
    if "quiet r r2" "rt_sessions r2 = rt_sessions r" for r2
    using commit_decide_keeps [of rv r2 s p host report] assms that keeps_weaken(4) [OF that(1)]
    by (auto simp: rt_find_def intro: runtime_evolution.evolves_trans)
  moreover have "rt_sessions (note_evidence host k d x r2) = rt_sessions r2" for k d x r2
    by (simp add: note_evidence_def)
  moreover note note_evidence_quiet runtime_evolution.evolves_trans [OF refreshed note_evidence_quiet] refreshed
    runtime_evolution.evolves_refl keeps_weaken(4) [OF refreshed] keeps_weaken(4) [OF fence_unprobed_quiet]
  ultimately show ?thesis
    using assms by (simp add: commit_reprobe_def Let_def case_prod_beta split: option.split sum.split)
qed

lemma commit_reserved_keeps: "runtime_keeps True r (fst (commit_reserved host rv report r))"
  by (auto simp: commit_reserved_def runtime_evolution.evolves_refl commit_reprobe_keeps split: option.split)

end
