(* ===== verification/Runtime_Control.thy ===== *)
theory Runtime_Control
  imports Runtime_Commit
begin

text \<open>
  \<open>src/core/runtime.cpp\<close>, the operations on one phase that a worker or an operator calls
  (\<open>report_output\<close>, \<open>commit_phase\<close>, \<open>fail_phase\<close>, \<open>cancel_phase\<close>, \<open>check_authority\<close>), the
  operations that end or resume a session (\<open>cancel_session\<close>, \<open>retire_session\<close>,
  \<open>adopt_session\<close>, \<open>apply_recovery\<close>, \<open>shutdown\<close>) and the toolchain operations.
\<close>

section \<open>Worker-reported completion\<close>

definition reported_reservation ::
  "session_id \<Rightarrow> phase_id \<Rightarrow> phase_tag generation \<Rightarrow> invocation_tag referenced \<Rightarrow> compiler_session \<Rightarrow> phase_record \<Rightarrow> reservation" where
  "reported_reservation sid pid generation invocation s p = reservation_default\<lparr>rv_session := sid, rv_phase := pid,
     rv_phase_generation := generation, rv_invocation := invocation,
     rv_attempt := (if pr_attempts p = [] then id_absent else pa_id (last (pr_attempts p))),
     rv_kind := pr_kind p, rv_authority := authority_from_session s p\<rparr>"

definition report_output ::
  "runtime_host \<Rightarrow> session_id \<Rightarrow> phase_id \<Rightarrow> phase_tag generation \<Rightarrow> invocation_tag referenced \<Rightarrow>
   output_descriptor list \<Rightarrow> process_outcome \<Rightarrow> runtime \<Rightarrow> runtime \<times> phase_run_report result" where
  "report_output host sid pid generation invocation outputs process r =
     (case rt_find sid r of
        None \<Rightarrow> (r, Inl (Status SC_not_found ''session is not registered''))
      | Some s \<Rightarrow>
        (case find_phase pid s of
           None \<Rightarrow> (r, Inl (Status SC_not_found ''phase is not registered''))
         | Some p \<Rightarrow>
           if pr_generation p \<noteq> generation
             then (r, Inl (Status SC_stale_phase_generation ''reported phase generation is not the current one''))
           else if pr_active_invocation p \<noteq> invocation
             then (r, Inl (Status SC_stale_invocation
               ''reported invocation is not the current one for this phase generation''))
           else
             let report = execution_report_default\<lparr>
                   er_executed := (oc_termination process = PT_exited \<or> oc_termination process = PT_crashed),
                   er_process := process\<lparr>oc_invocation := invocation\<rparr>, er_outputs := outputs,
                   er_status := status_code (oc_status process), er_detail := status_message (oc_status process)\<rparr>
             in case record_execution host (reported_reservation sid pid generation invocation s p) report r of
               (r1, Inl e) \<Rightarrow> (r1, Inl e)
             | (r1, Inr _) \<Rightarrow> (r1, Inr (phase_status_report sid pid r1))))"

text \<open>
  The first critical section of \<open>commit_phase\<close>: a reply of its own, or the reservation to validate
  and commit under. The binding is taken from the session as it is now.
\<close>

definition commit_admission ::
  "session_id \<Rightarrow> phase_id \<Rightarrow> phase_tag generation \<Rightarrow> invocation_tag referenced \<Rightarrow> runtime \<Rightarrow>
   (phase_run_report result + reservation)" where
  "commit_admission sid pid generation invocation r =
     (case rt_find sid r of
        None \<Rightarrow> Inl (Inl (Status SC_not_found ''session is not registered''))
      | Some s \<Rightarrow>
        (case find_phase pid s of
           None \<Rightarrow> Inl (Inl (Status SC_not_found ''phase is not registered''))
         | Some p \<Rightarrow>
           if pr_generation p \<noteq> generation
             then Inl (Inl (Status SC_stale_phase_generation
               ''commit request names a phase generation that is not current''))
           else if pr_active_invocation p \<noteq> invocation
             then Inl (Inl (Status SC_stale_invocation ''commit request names an invocation that is not current''))
           else if pr_state p = PS_committed then
             (if \<not> digest_zero (pr_committed_output_digest p) \<and>
                 pr_committed_output_digest p = output_set_digest_from_artifacts (rt_artifacts r) (pr_outputs p)
              then Inl (Inr ((report_of p)\<lparr>rr_status := SC_duplicate_completion,
                rr_detail := ''an equivalent completion already committed this phase generation; the existing '' @
                  ''authoritative result is returned''\<rparr>))
              else Inl (Inl (Status SC_divergent_completion
                ''a different completion already committed this phase generation'')))
           else if pr_state p \<noteq> PS_validating \<and> pr_state p \<noteq> PS_commit_ready
             then Inl (Inl (Status SC_illegal_transition
               (''phase is '' @ to_string_phase_state (pr_state p) @ '' and cannot commit'')))
           else Inr (reported_reservation sid pid generation invocation s p)))"

definition commit_phase ::
  "runtime_host \<Rightarrow> session_id \<Rightarrow> phase_id \<Rightarrow> phase_tag generation \<Rightarrow> invocation_tag referenced \<Rightarrow> runtime \<Rightarrow>
   runtime \<times> phase_run_report result" where
  "commit_phase host sid pid generation invocation r =
     (case commit_admission sid pid generation invocation r of
        Inl answer \<Rightarrow> (r, answer)
      | Inr rv \<Rightarrow>
        let report = execution_report_default\<lparr>er_process := process_outcome_default\<lparr>oc_invocation := invocation,
              oc_termination := PT_exited, oc_exit_code := 0\<rparr>\<rparr>
        in case validate_phase_outputs host rv r of
             (r1, Inl e) \<Rightarrow> (r1, Inl e)
           | (r1, Inr evidence) \<Rightarrow>
               if \<not> ve_accepted evidence then (r1, Inr (phase_status_report sid pid r1))
               else commit_reserved host rv report r1)"

definition reported_failed :: "u64 \<Rightarrow> failure_class \<Rightarrow> status_code \<Rightarrow> string \<Rightarrow> phase_record \<Rightarrow> phase_record" where
  "reported_failed now failure code detail p =
     (let p1 = on_last_attempt (\<lambda>a. a\<lparr>pa_terminal_state := PS_failed, pa_failure := failure, pa_status := code\<rparr>)
            (p\<lparr>pr_failure := failure, pr_last_status := code, pr_last_detail := detail\<rparr>)
      in if phase_state_retains_commit_authority (pr_state p) then record_transition now PS_failed detail p1 else p1)"

definition fail_phase ::
  "runtime_host \<Rightarrow> session_id \<Rightarrow> phase_id \<Rightarrow> phase_tag generation \<Rightarrow> failure_class \<Rightarrow> status_code \<Rightarrow> string \<Rightarrow>
   runtime \<Rightarrow> runtime \<times> phase_run_report result" where
  "fail_phase host sid pid generation failure code detail r =
     (case rt_find sid r of
        None \<Rightarrow> (r, Inl (Status SC_not_found ''session is not registered''))
      | Some s \<Rightarrow>
        (case find_phase pid s of
           None \<Rightarrow> (r, Inl (Status SC_not_found ''phase is not registered''))
         | Some p \<Rightarrow>
           if pr_generation p \<noteq> generation
             then (r, Inl (Status SC_stale_phase_generation ''failed outcome names a stale phase generation''))
           else if pr_state p = PS_committed
             then (r, Inl (Status SC_duplicate_completion ''a committed phase cannot be failed''))
           else
             let s1 = (put_phase pid (reported_failed (rh_now host) failure code detail p) s)
                   \<lparr>cs_generation := gen_next (cs_generation s), cs_updated_at_nanos := rh_now host\<rparr>;
                 r1 = put_session sid s1 (r\<lparr>
                   rt_artifacts := fst (revoke_phase_outputs (pr_id p) (pr_generation p) detail (rt_artifacts r)),
                   rt_leases := fst (lease_revoke (ref_id (pr_lease p)) detail (rt_leases r))\<rparr>)
             in case persist host s1 r1 of
                  (r2, Inl e) \<Rightarrow> (r2, Inl e)
                | (r2, Inr _) \<Rightarrow> (r2, Inr (phase_status_report sid pid r2))))"

definition check_authority :: "runtime_host \<Rightarrow> session_id \<Rightarrow> phase_id \<Rightarrow> runtime \<Rightarrow> authority_verdict result" where
  "check_authority host sid pid r =
     (case rt_find sid r of
        None \<Rightarrow> Inl (Status SC_not_found ''session is not registered'')
      | Some s \<Rightarrow>
        (case find_phase pid s of
           None \<Rightarrow> Inl (Status SC_not_found ''phase is not registered'')
         | Some p \<Rightarrow> Inr (compare_authority (authority_from_session s p) (observe_phase host r s p))))"

section \<open>Cancellation and retirement\<close>

text \<open>
  \<open>cancel_phase\<close> also asks the execution backend to cancel the invocation: the answer is ignored
  and the backend keeps its own table, so the request does not appear in the state.
\<close>

definition stop_process :: "phase_record \<Rightarrow> string \<Rightarrow> runtime \<Rightarrow> runtime" where
  "stop_process p reason r =
     (if id_present (pr_active_process p)
      then r\<lparr>rt_processes := fst (supervisor_terminate (pr_active_process p) (pr_active_process_generation p) reason (rt_processes r))\<rparr>
      else r)"

definition cancelled_phase :: "u64 \<Rightarrow> string \<Rightarrow> phase_record \<Rightarrow> phase_record" where
  "cancelled_phase now reason p =
     (if phase_state_retains_commit_authority (pr_state p)
      then record_transition now PS_cancelled reason
        (on_last_attempt (\<lambda>a. a\<lparr>pa_terminal_state := PS_cancelled, pa_failure := FC_external_cancellation\<rparr>)
          (p\<lparr>pr_failure := FC_external_cancellation, pr_last_status := SC_cancelled, pr_last_detail := reason\<rparr>))
      else p)\<lparr>pr_active_invocation := ref_absent\<rparr>"

definition cancel_phase ::
  "runtime_host \<Rightarrow> session_id \<Rightarrow> phase_id \<Rightarrow> string \<Rightarrow> runtime \<Rightarrow> runtime \<times> unit result" where
  "cancel_phase host sid pid reason r =
     (case rt_find sid r of
        None \<Rightarrow> (r, Inl (Status SC_not_found ''session is not registered''))
      | Some s \<Rightarrow>
        (case find_phase pid s of
           None \<Rightarrow> (r, Inl (Status SC_not_found ''phase is not registered''))
         | Some p \<Rightarrow>
           if pr_state p = PS_committed
             then (r, Inl (Status SC_duplicate_completion
               ''a committed phase cannot be cancelled; retire the session instead''))
           else
             let r1 = stop_process p reason r;
                 r2 = r1\<lparr>rt_leases := fst (lease_revoke (ref_id (pr_lease p)) reason (rt_leases r1)),
                   rt_artifacts := fst (revoke_phase_outputs (pr_id p) (pr_generation p) reason (rt_artifacts r1))\<rparr>;
                 s1 = (put_phase pid (cancelled_phase (rh_now host) reason p) s)
                   \<lparr>cs_generation := gen_next (cs_generation s), cs_updated_at_nanos := rh_now host\<rparr>
             in case persist host s1 (put_session sid s1 r2) of
                  (r3, Inl e) \<Rightarrow> (r3, Inl e)
                | (r3, Inr _) \<Rightarrow> (note_evidence host ''phase-cancelled''
                    (''phase '' @ id_to_string ''phase'' pid @ '' cancelled: '' @ reason) digest_default r3, Inr ())))"

definition end_session :: "runtime_host \<Rightarrow> session_id \<Rightarrow> session_state \<Rightarrow> string \<Rightarrow> runtime \<Rightarrow> runtime \<times> unit result" where
  "end_session host sid state reason r =
     (case rt_find sid r of
        None \<Rightarrow> (r, Inl (Status SC_not_found ''session is not registered''))
      | Some s \<Rightarrow>
        let s1 = s\<lparr>cs_state := state, cs_failure_detail := reason, cs_generation := gen_next (cs_generation s),
              cs_updated_at_nanos := rh_now host\<rparr>
        in persist_then host s1 () (put_session sid s1 r))"

definition cancel_session :: "runtime_host \<Rightarrow> session_id \<Rightarrow> string \<Rightarrow> runtime \<Rightarrow> runtime \<times> unit result" where
  "cancel_session host sid reason r =
     (let r1 = raise_cancel_flag sid r in
      case rt_find sid r1 of
        None \<Rightarrow> (r1, Inl (Status SC_not_found ''session is not registered''))
      | Some s \<Rightarrow>
          end_session host sid SS_cancelled reason
            (foldl (\<lambda>r pid. fst (cancel_phase host sid pid reason r)) r1 (pp_order (cs_plan s))))"

text \<open>
  One phase of \<open>retire_session\<close>: its lease is withdrawn, its process stopped and the phase retired.
\<close>

definition retire_phase ::
  "runtime_host \<Rightarrow> string \<Rightarrow> runtime \<times> compiler_session \<Rightarrow> phase_id \<Rightarrow> runtime \<times> compiler_session" where
  "retire_phase host reason st pid =
     (case st of (r, s) \<Rightarrow>
       case find_phase pid s of
         None \<Rightarrow> (r, s)
       | Some p \<Rightarrow>
           (stop_process p reason (r\<lparr>rt_leases := fst (lease_revoke (ref_id (pr_lease p)) reason (rt_leases r))\<rparr>),
            if pr_state p \<noteq> PS_retired then put_phase pid (record_transition (rh_now host) PS_retired reason p) s else s))"

definition retire_session :: "runtime_host \<Rightarrow> session_id \<Rightarrow> string \<Rightarrow> runtime \<Rightarrow> runtime \<times> unit result" where
  "retire_session host sid reason r =
     (case rt_find sid r of
        None \<Rightarrow> (r, Inl (Status SC_not_found ''session is not registered''))
      | Some s \<Rightarrow>
        (case foldl (retire_phase host reason) (raise_cancel_flag sid r, s) (pp_order (cs_plan s)) of
           (r1, s1) \<Rightarrow>
             let s2 = s1\<lparr>cs_state := SS_retired, cs_failure_detail := reason, cs_generation := gen_next (cs_generation s1),
                   cs_updated_at_nanos := rh_now host\<rparr>
             in case persist host s2 (put_session sid s2 r1) of
                  (r2, Inl e) \<Rightarrow> (r2, Inl e)
                | (r2, Inr _) \<Rightarrow>
                    (r2\<lparr>rt_workspaces := fst (workspace_cleanup_all (rh_paths host) (rh_fs host) (rt_workspaces r2))\<rparr>, Inr ())))"

section \<open>Fencing and adoption\<close>

definition fenced_phase :: "u64 \<Rightarrow> string \<Rightarrow> phase_record \<Rightarrow> phase_record" where
  "fenced_phase now reason p =
     (on_last_attempt (\<lambda>a. a\<lparr>pa_terminal_state := PS_fenced, pa_failure := FC_authority_invalidated\<rparr>)
       (record_transition now PS_fenced reason
         (p\<lparr>pr_failure := FC_authority_invalidated, pr_last_status := SC_stale_epoch, pr_last_detail := reason\<rparr>)))
       \<lparr>pr_active_invocation := ref_absent, pr_active_process := id_absent, pr_active_process_generation := gen_absent\<rparr>"

definition fence_phase ::
  "runtime_host \<Rightarrow> string \<Rightarrow> runtime \<times> compiler_session \<Rightarrow> phase_id \<Rightarrow> runtime \<times> compiler_session" where
  "fence_phase host reason st pid =
     (case st of (r, s) \<Rightarrow>
       case find_phase pid s of
         None \<Rightarrow> (r, s)
       | Some p \<Rightarrow>
           if \<not> phase_state_retains_commit_authority (pr_state p) \<or> pr_state p = PS_pending \<or> pr_state p = PS_ready
           then (r, s)
           else (r\<lparr>rt_artifacts := fst (revoke_phase_outputs (pr_id p) (pr_generation p) reason (rt_artifacts r)),
                   rt_leases := fst (lease_revoke (ref_id (pr_lease p)) reason (rt_leases r))\<rparr>,
                 put_phase pid (fenced_phase (rh_now host) reason p) s))"

text \<open>The session may not be in the table yet; only the other tables of the runtime change.\<close>

definition fence_all_in_flight ::
  "runtime_host \<Rightarrow> string \<Rightarrow> compiler_session \<Rightarrow> runtime \<Rightarrow> runtime \<times> compiler_session" where
  "fence_all_in_flight host reason s r = foldl (fence_phase host reason) (r, s) (pp_order (cs_plan s))"

definition adopt_session ::
  "runtime_host \<Rightarrow> compiler_session \<Rightarrow> runtime \<Rightarrow> runtime \<times> session_tag referenced result" where
  "adopt_session host s r =
     (if \<not> id_present (cs_id s) then (r, Inl (Status SC_invalid_identity ''adopted session has no identity''))
      else if rt_find (cs_id s) r \<noteq> None
        then (r, Inl (Status SC_already_exists ''session identity is already registered''))
      else
        case fence_all_in_flight host ''session adoption fenced in-flight authority'' s
          (r\<lparr>rt_session_ids := alloc_observe (cs_id s) (rt_session_ids r)\<rparr>) of
          (r1, s1) \<Rightarrow>
            let s2 = s1\<lparr>cs_epoch := StrongId (rt_epoch r1), cs_generation := gen_next (cs_generation s1),
                  cs_updated_at_nanos := rh_now host\<rparr>;
                s3 = (if cs_state s2 \<noteq> SS_committed \<and> cs_state s2 \<noteq> SS_retired
                  then s2\<lparr>cs_state := SS_recovering, cs_recovery_state := RS_required\<rparr> else s2)
            in case persist host s3 (fst (cancel_flag (cs_id s3) r1)) of
                 (r2, Inl e) \<Rightarrow> (r2, Inl e)
               | (r2, Inr _) \<Rightarrow>
                   (r2\<lparr>rt_sessions := um_emplace (id_value (cs_id s3)) s3 (rt_sessions r2)\<rparr>, Inr (Ref (cs_id s3) gen_absent)))"

section \<open>Recovery\<close>

definition plan_recovery :: "session_id \<Rightarrow> runtime \<Rightarrow> runtime \<times> recovery_plan result" where
  "plan_recovery sid r =
     (case rt_find sid r of
        None \<Rightarrow> (r, Inl (Status SC_not_found (''session is not registered: '' @ id_to_string ''session'' sid)))
      | Some s \<Rightarrow>
        let plan = recovery_planner_plan \<lparr>rin_plan = Some (cs_plan s),
              rin_phases = Some (List.map_filter (\<lambda>i. find_phase i s) (pp_order (cs_plan s))),
              rin_artifacts = Some (rt_artifacts r), rin_authority = observe r s,
              rin_after_runtime_restart = (cs_state s = SS_recovering \<or> cs_recovery_state s = RS_required),
              rin_epoch_advanced = (id_present (cs_epoch s) \<and> id_value (cs_epoch s) \<noteq> rt_epoch r)\<rparr>;
            (i, ids) = alloc_next (rt_recovery_ids r)
        in (r\<lparr>rt_recovery_ids := ids\<rparr>,
            Inr (plan\<lparr>rp_id := i, rp_generation := gen_initial, rp_session := Ref sid gen_absent\<rparr>)))"

definition resumed_phase :: "u64 \<Rightarrow> phase_record \<Rightarrow> phase_record" where
  "resumed_phase now p =
     (if pr_state p = PS_committed \<or> pr_state p = PS_failed \<or> pr_state p = PS_cancelled \<or> pr_state p = PS_retired then p
      else (if phase_state_retains_commit_authority (pr_state p)
              then record_transition now PS_ready ''recovery resumed from the last authoritative boundary'' p
            else if pr_state p = PS_fenced
              then record_transition now PS_retired ''recovery retired a fenced phase generation'' p
            else p)\<lparr>pr_failure := FC_none, pr_last_status := SC_ok, pr_last_detail := []\<rparr>)"

definition resume_phases :: "u64 \<Rightarrow> compiler_session \<Rightarrow> compiler_session" where
  "resume_phases now s =
     foldl (\<lambda>s i. case find_phase i s of None \<Rightarrow> s | Some p \<Rightarrow> put_phase i (resumed_phase now p) s) s (pp_order (cs_plan s))"

definition recovered_session :: "u64 \<Rightarrow> recovery_plan \<Rightarrow> compiler_session \<Rightarrow> compiler_session" where
  "recovered_session now plan s =
     (let s1 = s\<lparr>cs_recovery := rp_id plan, cs_recovery_generation := rp_generation plan,
            cs_recovery_state := (if rp_requires_operator plan then RS_manual_required else RS_resolved)\<rparr>;
          s2 = (if cs_state s1 = SS_recovering \<and> \<not> rp_requires_operator plan
              then resume_phases now (s1\<lparr>cs_state := SS_active\<rparr>)
            else if rp_requires_operator plan then s1\<lparr>cs_state := SS_recovering\<rparr>
            else s1)
      in s2\<lparr>cs_generation := gen_next (cs_generation s2), cs_updated_at_nanos := now\<rparr>)"

text \<open>The critical section after the plan.\<close>

definition execute_recovery ::
  "runtime_host \<Rightarrow> session_id \<Rightarrow> recovery_plan \<Rightarrow> runtime \<Rightarrow> runtime \<times> recovery_plan result" where
  "execute_recovery host sid plan r =
     (case rt_find sid r of
        None \<Rightarrow> (r, Inl (Status SC_not_found ''session is not registered''))
      | Some s \<Rightarrow>
        (case apply_revalidation (hf_exists (rh_fs host)) (hf_digest (rh_fs host)) plan (rt_artifacts r) of
           (artifacts, Inl e) \<Rightarrow> (r\<lparr>rt_artifacts := artifacts\<rparr>, Inl e)
         | (artifacts, Inr _) \<Rightarrow>
             let s1 = recovered_session (rh_now host) plan s
             in case persist host s1 (put_session sid s1 (r\<lparr>rt_artifacts := artifacts\<rparr>)) of
                  (r1, Inl e) \<Rightarrow> (r1, Inl e)
                | (r1, Inr _) \<Rightarrow>
                    (note_evidence host ''recovery-applied'' (recovery_plan_describe plan) digest_default r1, Inr plan)))"

definition apply_recovery :: "runtime_host \<Rightarrow> session_id \<Rightarrow> runtime \<Rightarrow> runtime \<times> recovery_plan result" where
  "apply_recovery host sid r =
     (case plan_recovery sid r of
        (r1, Inl e) \<Rightarrow> (r1, Inl e)
      | (r1, Inr plan) \<Rightarrow> execute_recovery host sid plan r1)"

section \<open>Shutdown\<close>

definition session_is_closed :: "compiler_session \<Rightarrow> bool" where
  "session_is_closed s = (cs_state s = SS_retired \<or> cs_state s = SS_committed)"

definition fence_session :: "runtime_host \<Rightarrow> runtime \<Rightarrow> u64 \<Rightarrow> runtime" where
  "fence_session host r k =
     (case um_find (rt_sessions r) k of
        None \<Rightarrow> r
      | Some s \<Rightarrow>
          if session_is_closed s then r
          else (case fence_all_in_flight host ''runtime shutdown fenced in-flight authority'' s r of
            (r1, s1) \<Rightarrow> r1\<lparr>rt_sessions := um_modify k (\<lambda>_. s1) (rt_sessions r1)\<rparr>))"

definition shutdown_fence :: "runtime_host \<Rightarrow> runtime \<Rightarrow> runtime" where
  "shutdown_fence host r =
     foldl (fence_session host)
       (r\<lparr>rt_shutting_down := True, rt_cancel_flags := map (\<lambda>(k, flag). (k, True)) (rt_cancel_flags r)\<rparr>)
       (map fst (rt_sessions r))"

definition stop_session :: "runtime_host \<Rightarrow> runtime \<Rightarrow> u64 \<Rightarrow> runtime" where
  "stop_session host r k =
     (case um_find (rt_sessions r) k of
        None \<Rightarrow> r
      | Some s \<Rightarrow>
          if session_is_closed s then r
          else
            let s1 = (if cs_state s = SS_active \<or> cs_state s = SS_created
                  then s\<lparr>cs_state := SS_failed, cs_failure_detail := ''runtime shutdown while the session was in progress''\<rparr>
                  else s);
                s2 = s1\<lparr>cs_updated_at_nanos := rh_now host\<rparr>
            in fst (persist host s2 (r\<lparr>rt_sessions := um_modify k (\<lambda>_. s2) (rt_sessions r)\<rparr>)))"

definition shutdown_sessions :: "runtime_host \<Rightarrow> runtime \<Rightarrow> runtime" where
  "shutdown_sessions host r = foldl (stop_session host) r (map fst (rt_sessions r))"

definition shutdown_processes :: "runtime \<Rightarrow> runtime" where
  "shutdown_processes r =
     r\<lparr>rt_processes := supervisor_close (fst (supervisor_terminate_all ''runtime shutdown'' (rt_processes r)))\<rparr>"

definition shutdown_cleanup :: "runtime_host \<Rightarrow> runtime \<Rightarrow> runtime" where
  "shutdown_cleanup host r =
     (let r1 = r\<lparr>rt_workspaces := fst (workspace_cleanup_all (rh_paths host) (rh_fs host) (rt_workspaces r))\<rparr>;
          r2 = (if rt_persistent r1 \<and> rt_ephemeral_state r1 then r1\<lparr>rt_journal := []\<rparr> else r1)
      in note_evidence host ''runtime-shutdown''
           (''runtime stopped at epoch '' @ dec_string (unat (rt_epoch r2))) digest_default r2)"

definition shutdown :: "runtime_host \<Rightarrow> runtime \<Rightarrow> runtime" where
  "shutdown host r =
     (if rt_shutting_down r then r\<lparr>rt_processes := supervisor_close (rt_processes r)\<rparr>
      else shutdown_cleanup host (shutdown_sessions host (shutdown_processes (shutdown_fence host r))))"

definition reopen :: "runtime \<Rightarrow> runtime" where
  "reopen r = r\<lparr>rt_shutting_down := False\<rparr>"

section \<open>Toolchains\<close>

definition probe_toolchain :: "toolchain_family \<Rightarrow> probe_request \<Rightarrow> runtime \<Rightarrow> toolchain_identity result" where
  "probe_toolchain family request r =
     (case adapter_find family (rt_adapters r) of
        None \<Rightarrow> Inl (Status SC_unsupported
          (''no adapter is registered for toolchain family '' @ to_string_toolchain_family family))
      | Some adapter \<Rightarrow> ad_probe_toolchain adapter
          (if pb_family request = TF_unknown then request\<lparr>pb_family := family\<rparr> else request))"

definition discover_toolchain ::
  "runtime_host \<Rightarrow> toolchain_family \<Rightarrow> probe_request \<Rightarrow> runtime \<Rightarrow> runtime \<times> toolchain_tag referenced result" where
  "discover_toolchain host family request r =
     (case probe_toolchain family request r of
        Inl e \<Rightarrow> (r, Inl e)
      | Inr probed \<Rightarrow>
        (case register_toolchain probed (rt_toolchains r) of
           (ts, Inl e) \<Rightarrow> (r\<lparr>rt_toolchains := ts\<rparr>, Inl e)
         | (ts, Inr reference) \<Rightarrow>
             (r\<lparr>rt_toolchains := ts, rt_evidence := evidence_record_op (rh_now host) (ti_evidence_class probed)
                ''toolchain-discovered'' (toolchain_describe probed) (ti_evidence_digest probed) (rt_evidence r)\<rparr>,
              Inr reference)))"

text \<open>A new observation, with the evidence that names how it was obtained.\<close>

definition observe_toolchain ::
  "runtime_host \<Rightarrow> string \<Rightarrow> toolchain_identity \<Rightarrow> runtime \<Rightarrow> runtime \<times> toolchain_mutation result" where
  "observe_toolchain host kind observed r =
     (case toolchain_refresh (rh_normal host) observed (rt_toolchains r) of
        (ts, Inl e) \<Rightarrow> (r\<lparr>rt_toolchains := ts\<rparr>, Inl e)
      | (ts, Inr mutation) \<Rightarrow>
          (if tm_mutated mutation
             then note_evidence host kind (tm_detail mutation) (ti_evidence_digest observed) (r\<lparr>rt_toolchains := ts\<rparr>)
             else r\<lparr>rt_toolchains := ts\<rparr>, Inr mutation))"

definition apply_toolchain_observation ::
  "runtime_host \<Rightarrow> toolchain_identity \<Rightarrow> runtime \<Rightarrow> runtime \<times> toolchain_mutation result" where
  "apply_toolchain_observation host observed r = observe_toolchain host ''toolchain-observed-changed'' observed r"

definition refresh_toolchain :: "runtime_host \<Rightarrow> toolchain_id \<Rightarrow> runtime \<Rightarrow> runtime \<times> toolchain_mutation result" where
  "refresh_toolchain host i r =
     (case toolchain_find i (rt_toolchains r) of
        None \<Rightarrow> (r, Inl (Status SC_toolchain_not_found (''toolchain is not registered: '' @ id_to_string ''toolchain'' i)))
      | Some recorded \<Rightarrow>
        (case adapter_find (ti_family recorded) (rt_adapters r) of
           None \<Rightarrow> (r, Inl (Status SC_unsupported ''no adapter is registered for this toolchain family''))
         | Some adapter \<Rightarrow>
           (case ad_reprobe_toolchain adapter recorded \<lparr>pb_family = ti_family recorded, pb_explicit_root = [],
                pb_target = target_spec_default, pb_hash_components = True, pb_toolkit_preference = []\<rparr> of
              Inl e \<Rightarrow> (r, Inl e)
            | Inr observed \<Rightarrow> observe_toolchain host ''toolchain-mutated'' observed r)))"

definition invalidate_toolchain ::
  "runtime_host \<Rightarrow> toolchain_id \<Rightarrow> string \<Rightarrow> runtime \<Rightarrow> runtime \<times> toolchain_mutation result" where
  "invalidate_toolchain host i reason r =
     (case toolchain_invalidate i reason (rt_toolchains r) of
        (ts, Inl e) \<Rightarrow> (r\<lparr>rt_toolchains := ts\<rparr>, Inl e)
      | (ts, Inr mutation) \<Rightarrow>
          (note_evidence host ''toolchain-invalidated'' (tm_detail mutation) digest_default (r\<lparr>rt_toolchains := ts\<rparr>),
           Inr mutation))"

text \<open>\<open>synthetic\<close> is \<open>make_synthetic_adapter\<close>, the constructor of the adapter for tests.\<close>

definition register_synthetic_toolchain ::
  "(toolchain_family \<Rightarrow> string \<Rightarrow> compiler_adapter option) \<Rightarrow> toolchain_family \<Rightarrow> string \<Rightarrow> target_spec \<Rightarrow> runtime \<Rightarrow>
   runtime \<times> toolchain_tag referenced result" where
  "register_synthetic_toolchain synthetic family display_name target r =
     (let r1 = (if adapter_find family (rt_adapters r) = None
            then r\<lparr>rt_adapters := adapter_add (synthetic family display_name) (rt_adapters r)\<rparr> else r)
      in case adapter_find family (rt_adapters r1) of
           None \<Rightarrow> (r1, Inl (Status SC_unsupported ''no synthetic adapter could be constructed''))
         | Some adapter \<Rightarrow>
           (case ad_probe_toolchain adapter \<lparr>pb_family = family, pb_explicit_root = [], pb_target = target,
                pb_hash_components = True, pb_toolkit_preference = []\<rparr> of
              Inl e \<Rightarrow> (r1, Inl e)
            | Inr probed \<Rightarrow>
                (case register_toolchain probed (rt_toolchains r1) of
                   (ts, res) \<Rightarrow> (r1\<lparr>rt_toolchains := ts\<rparr>, res))))"

section \<open>Queries\<close>

definition find_session :: "session_id \<Rightarrow> runtime \<Rightarrow> compiler_session option" where
  "find_session sid r = rt_find sid r"

definition require_session :: "session_id \<Rightarrow> runtime \<Rightarrow> compiler_session result" where
  "require_session sid r =
     (case find_session sid r of
        None \<Rightarrow> Inl (Status SC_not_found (''session is not registered: '' @ id_to_string ''session'' sid))
      | Some s \<Rightarrow> Inr s)"

definition list_sessions :: "runtime \<Rightarrow> compiler_session list" where
  "list_sessions r = sort_key cs_id (map snd (rt_sessions r))"

definition find_candidate :: "session_id \<Rightarrow> runtime \<Rightarrow> final_candidate option" where
  "find_candidate sid r =
     (case rt_find sid r of
        None \<Rightarrow> None
      | Some s \<Rightarrow> if \<not> cs_candidate_present s then None else Some (cs_candidate s))"

section \<open>The operations on a phase\<close>

lemma report_output_quiet: "quiet r (fst (report_output host sid pid g i outs process r))"
proof -
  have "quiet r r1" if "record_execution host rv report r = (r1, res)" for rv report r1 res
    using record_execution_quiet [of r host rv report] that by simp
  then show ?thesis
    unfolding report_output_def Let_def
    by (auto simp: runtime_evolution.evolves_refl split: option.split prod.split sum.split)
qed

lemma commit_phase_keeps: "runtime_keeps True r (fst (commit_phase host sid pid g i r))"
proof -
  have "runtime_keeps True r r1" "runtime_keeps True r (fst (commit_reserved host rv report r1))"
    if "validate_phase_outputs host rv r = (r1, res)" for rv report r1 res
  proof -
    show keeps: "runtime_keeps True r r1"
      using keeps_weaken(4) [OF validate_quiet [of r host rv]] that by simp
    show "runtime_keeps True r (fst (commit_reserved host rv report r1))"
      using keeps commit_reserved_keeps by (rule runtime_evolution.evolves_trans)
  qed
  then show ?thesis
    unfolding commit_phase_def Let_def
    by (auto simp: runtime_evolution.evolves_refl split: prod.split sum.split)
qed

text \<open>Operations that persist and then answer.\<close>

lemma quiet_persisted:
  assumes "quiet r r1" "\<And>r2. quiet r2 (f r2)"
  shows "quiet r (fst (case persist host s r1 of (r2, Inl e) \<Rightarrow> (r2, Inl e) | (r2, Inr u) \<Rightarrow> (f r2, v r2)))"
proof -
  have "quiet r (fst (persist host s r1))"
    using assms(1) persist_quiet by (rule runtime_evolution.evolves_trans)
  then show ?thesis
    using assms(2) by (auto split: prod.split sum.split intro: runtime_evolution.evolves_trans)
qed

lemma reported_failed_keeps: "phase_keeps g p (reported_failed now failure code detail p)"
proof -
  let ?q = "on_last_attempt (\<lambda>a. a\<lparr>pa_terminal_state := PS_failed, pa_failure := failure, pa_status := code\<rparr>)
    (p\<lparr>pr_failure := failure, pr_last_status := code, pr_last_detail := detail\<rparr>)"
  have "same_lifecycle p ?q" by (simp add: same_lifecycle_def on_last_attempt_def)
  then show ?thesis
    by (simp add: reported_failed_def Let_def phase_keeps_transition_after same_lifecycle_keeps)
qed

lemma fail_phase_quiet: "quiet r (fst (fail_phase host sid pid g failure code detail r))"
  unfolding fail_phase_def Let_def
  by (auto split: option.split intro!: quiet_persisted [where f = "\<lambda>r. r"] quiet_puts
      simp: runtime_evolution.evolves_refl tables_ok_def reported_failed_keeps revoke_phase_outputs_ok lease_revoke_ok)

lemma cancelled_phase_keeps:
  assumes "pr_state p \<noteq> PS_committed"
  shows "phase_keeps g p (cancelled_phase now reason p)"
proof -
  let ?q = "on_last_attempt (\<lambda>a. a\<lparr>pa_terminal_state := PS_cancelled, pa_failure := FC_external_cancellation\<rparr>)
    (p\<lparr>pr_failure := FC_external_cancellation, pr_last_status := SC_cancelled, pr_last_detail := reason\<rparr>)"
  have "same_lifecycle p ?q" by (simp add: same_lifecycle_def on_last_attempt_def)
  then have "phase_keeps g p (if phase_state_retains_commit_authority (pr_state p)
      then record_transition now PS_cancelled reason ?q else p)"
    by (simp add: phase_keeps_transition_after phase_evolution.evolves_refl)
  then show ?thesis
    unfolding cancelled_phase_def by (rule phase_keeps_then_same) (simp add: same_lifecycle_def)
qed

lemma cancel_phase_quiet: "quiet r (fst (cancel_phase host sid pid reason r))"
  unfolding cancel_phase_def Let_def
  by (auto split: option.split intro!: quiet_persisted note_evidence_quiet quiet_puts cancelled_phase_keeps
      simp: runtime_evolution.evolves_refl stop_process_def tables_ok_def revoke_phase_outputs_ok lease_revoke_ok)

section \<open>The operations on a session\<close>

lemma raise_cancel_flag_quiet: "quiet r (raise_cancel_flag sid r)"
  by (rule quiet_tables) (auto simp: raise_cancel_flag_def cancel_flag_def Let_def tables_ok_def split: option.split)

lemma end_session_quiet: "quiet r (fst (end_session host sid state reason r))"
  unfolding end_session_def Let_def
  by (auto split: option.split intro!: quiet_persist quiet_put session_keeps_same
      simp: runtime_evolution.evolves_refl gen_next_le)

lemma cancel_session_quiet: "quiet r (fst (cancel_session host sid reason r))"
proof -
  have "quiet r (foldl (\<lambda>r pid. fst (cancel_phase host sid pid reason r)) (raise_cancel_flag sid r) pids)" for pids
    by (rule runtime_evolution.evolves_trans [OF raise_cancel_flag_quiet runtime_evolution.evolves_foldl [OF cancel_phase_quiet]])
  then show ?thesis
    unfolding cancel_session_def Let_def
    by (auto split: option.split intro: raise_cancel_flag_quiet runtime_evolution.evolves_trans [OF _ end_session_quiet])
qed

text \<open>
  The loops over the phases of a session: the table of sessions is untouched, the session evolves
  quietly, and the other tables stay well-formed without new authority.
\<close>

definition loop_keeps :: "runtime \<times> compiler_session \<Rightarrow> runtime \<times> compiler_session \<Rightarrow> bool" where
  "loop_keeps st st' =
     (quiet (fst st) (fst st') \<and> rt_sessions (fst st') = rt_sessions (fst st) \<and>
      rt_session_ids (fst st') = rt_session_ids (fst st) \<and> session_keeps False (snd st) (snd st'))"

interpretation loop_evolution: evolution loop_keeps
  by unfold_locales
    (auto simp: loop_keeps_def runtime_evolution.evolves_refl session_evolution.evolves_refl
      intro: runtime_evolution.evolves_trans session_evolution.evolves_trans)

lemma retire_phase_keeps: "loop_keeps st (retire_phase host reason st pid)"
proof -
  have "phase_keeps g p (record_transition now PS_retired reason p)" for g p now
    by (rule phase_keeps_transition) simp_all
  then show ?thesis
    by (auto simp: retire_phase_def loop_keeps_def runtime_evolution.evolves_refl session_evolution.evolves_refl
        stop_process_def tables_ok_def lease_revoke_ok split: prod.split option.split intro!: quiet_tables put_phase_keeps)
qed

lemma retire_session_quiet: "quiet r (fst (retire_session host sid reason r))"
proof (cases "rt_find sid r")
  case None
  then show ?thesis by (simp add: retire_session_def runtime_evolution.evolves_refl)
next
  case (Some s)
  obtain r1 s1 where loop: "foldl (retire_phase host reason) (raise_cancel_flag sid r, s) (pp_order (cs_plan s)) = (r1, s1)"
    by fastforce
  have "loop_keeps (raise_cancel_flag sid r, s) (r1, s1)"
    unfolding loop [symmetric] by (rule loop_evolution.evolves_foldl [OF retire_phase_keeps])
  moreover have "rt_sessions (raise_cancel_flag sid r) = rt_sessions r"
    by (simp add: raise_cancel_flag_def cancel_flag_def Let_def split: option.split)
  ultimately have r1: "quiet r r1" "rt_sessions r1 = rt_sessions r" and s1: "session_keeps False s s1"
    using raise_cancel_flag_quiet [of r sid] runtime_evolution.evolves_trans by (auto simp: loop_keeps_def)
  let ?s2 = "s1\<lparr>cs_state := SS_retired, cs_failure_detail := reason, cs_generation := gen_next (cs_generation s1),
    cs_updated_at_nanos := rh_now host\<rparr>"
  have "session_keeps False s ?s2"
    by (rule session_keeps_fields [OF s1]) (simp_all add: gen_next_le)
  moreover have "rt_find sid r1 = Some s" using Some r1(2) by (simp add: rt_find_def)
  ultimately have "quiet r1 (put_session sid ?s2 r1)"
    by (intro quiet_put) (auto simp: authority_evolution.evolves_refl)
  with r1(1) have "quiet r (put_session sid ?s2 r1)" by (rule runtime_evolution.evolves_trans)
  then show ?thesis
    using Some loop
    by (auto simp: retire_session_def Let_def tables_ok_def intro!: quiet_persisted quiet_tables)
qed

lemma fenced_phase_keeps:
  assumes "pr_state p \<noteq> PS_committed"
  shows "phase_keeps g p (fenced_phase now reason p)"
proof -
  let ?q = "p\<lparr>pr_failure := FC_authority_invalidated, pr_last_status := SC_stale_epoch, pr_last_detail := reason\<rparr>"
  have "same_lifecycle p ?q" by (simp add: same_lifecycle_def)
  then have "phase_keeps g p (record_transition now PS_fenced reason ?q)"
    using assms by (intro phase_keeps_transition_after) auto
  moreover have "same_lifecycle q ((on_last_attempt f q)\<lparr>pr_active_invocation := ref_absent,
      pr_active_process := id_absent, pr_active_process_generation := gen_absent\<rparr>)" for f q
    by (simp add: same_lifecycle_def on_last_attempt_def)
  ultimately show ?thesis
    unfolding fenced_phase_def by (rule phase_keeps_then_same)
qed

lemma fence_phase_keeps: "loop_keeps st (fence_phase host reason st pid)"
  by (auto simp: fence_phase_def loop_keeps_def runtime_evolution.evolves_refl session_evolution.evolves_refl
      tables_ok_def lease_revoke_ok revoke_phase_outputs_ok phase_state_retains_commit_authority_def
      split: prod.split option.split intro!: quiet_tables put_phase_keeps fenced_phase_keeps)

lemma fence_all_keeps: "loop_keeps (r, s) (fence_all_in_flight host reason s r)"
  unfolding fence_all_in_flight_def by (rule loop_evolution.evolves_foldl [OF fence_phase_keeps])

lemma resumed_phase_keeps: "phase_keeps g p (resumed_phase now p)"
proof -
  let ?q = "if phase_state_retains_commit_authority (pr_state p)
      then record_transition now PS_ready ''recovery resumed from the last authoritative boundary'' p
    else if pr_state p = PS_fenced then record_transition now PS_retired ''recovery retired a fenced phase generation'' p
    else p"
  have "phase_keeps g p ?q" by (auto intro: phase_keeps_transition phase_evolution.evolves_refl)
  moreover have "same_lifecycle q (q\<lparr>pr_failure := FC_none, pr_last_status := SC_ok, pr_last_detail := []\<rparr>)" for q
    by (simp add: same_lifecycle_def)
  ultimately have "phase_keeps g p (?q\<lparr>pr_failure := FC_none, pr_last_status := SC_ok, pr_last_detail := []\<rparr>)"
    by (rule phase_keeps_then_same)
  then show ?thesis
    unfolding resumed_phase_def by (auto simp: phase_evolution.evolves_refl)
qed

lemma resume_phases_keeps: "session_keeps g s (resume_phases now s)"
  unfolding resume_phases_def
  by (rule session_evolution.evolves_foldl)
    (auto split: option.split intro: put_phase_keeps session_evolution.evolves_refl simp: resumed_phase_keeps)

lemma recovered_session_keeps: "session_keeps g s (recovered_session now plan s)"
proof -
  let ?s1 = "s\<lparr>cs_recovery := rp_id plan, cs_recovery_generation := rp_generation plan,
    cs_recovery_state := (if rp_requires_operator plan then RS_manual_required else RS_resolved)\<rparr>"
  let ?s2 = "if cs_state ?s1 = SS_recovering \<and> \<not> rp_requires_operator plan
      then resume_phases now (?s1\<lparr>cs_state := SS_active\<rparr>)
    else if rp_requires_operator plan then ?s1\<lparr>cs_state := SS_recovering\<rparr> else ?s1"
  have "session_keeps g s (?s1\<lparr>cs_state := x\<rparr>)" "session_keeps g s ?s1" for x
    by (rule session_keeps_same; simp)+
  then have "session_keeps g s ?s2"
    by (auto intro: session_evolution.evolves_trans [OF _ resume_phases_keeps])
  then show ?thesis
    unfolding recovered_session_def Let_def
    by (rule session_keeps_fields) (simp_all add: gen_next_le)
qed

lemma recovery_revalidate_keeps:
  "no_new_authority m (fst (revalidate_refs ex hs refs m n)) \<and>
   (artifact_ok m \<longrightarrow> artifact_ok (fst (revalidate_refs ex hs refs m n)))"
proof (induction refs arbitrary: m n)
  case (Cons x refs)
  let ?m = "fst (revalidate ex hs (ref_id x) m)"
  have "no_new_authority m (fst (revalidate_refs ex hs refs ?m k))" for k
    using Cons.IH [of ?m k] no_new_authority_revalidate by (blast intro: authority_evolution.evolves_trans)
  then show ?case
    using Cons.IH [of ?m] no_new_authority_revalidate [of m] revalidate_ok [of m]
    by (simp add: case_prod_beta split: sum.split)
qed (simp add: authority_evolution.evolves_refl)

lemma revalidate_steps_ok:
  "no_new_authority m (fst (revalidate_steps ex hs steps m n)) \<and>
   (artifact_ok m \<longrightarrow> artifact_ok (fst (revalidate_steps ex hs steps m n)))"
proof (induction steps arbitrary: m n)
  case (Cons x steps)
  let ?m = "fst (revalidate_refs ex hs (st_affected_artifacts x) m n)"
  have "no_new_authority m (fst (revalidate_steps ex hs steps ?m k))" for k
    using Cons.IH [of ?m k] recovery_revalidate_keeps [of m] by (blast intro: authority_evolution.evolves_trans)
  then show ?case
    using Cons.IH [of ?m] Cons.IH [of m] recovery_revalidate_keeps [of m]
    by (simp add: case_prod_beta split: sum.split)
qed (simp add: authority_evolution.evolves_refl)

lemma plan_recovery_quiet: "quiet r (fst (plan_recovery sid r))"
  by (auto simp: plan_recovery_def Let_def case_prod_beta runtime_evolution.evolves_refl tables_ok_def
      split: option.split intro!: quiet_tables)

lemma execute_recovery_quiet: "quiet r (fst (execute_recovery host sid plan r))"
proof -
  obtain m res where m: "apply_revalidation (hf_exists (rh_fs host)) (hf_digest (rh_fs host)) plan (rt_artifacts r) = (m, res)"
    by fastforce
  then have tables: "no_new_authority (rt_artifacts r) m" "tables_ok r \<Longrightarrow> tables_ok (r\<lparr>rt_artifacts := m\<rparr>)"
    using revalidate_steps_ok [of "rt_artifacts r" "hf_exists (rh_fs host)" "hf_digest (rh_fs host)" "rp_steps plan" 0]
    by (auto simp: apply_revalidation_def tables_ok_def)
  then have "quiet r (r\<lparr>rt_artifacts := m\<rparr>)" by (intro quiet_tables) simp_all
  moreover have "quiet r (put_session sid (recovered_session (rh_now host) plan s) (r\<lparr>rt_artifacts := m\<rparr>))"
    if "rt_find sid r = Some s" for s
    using that tables by (intro quiet_put) (auto simp: recovered_session_keeps)
  ultimately show ?thesis
    by (auto simp: execute_recovery_def Let_def m runtime_evolution.evolves_refl split: option.split sum.split
        intro!: quiet_persisted note_evidence_quiet)
qed

lemma apply_recovery_quiet: "quiet r (fst (apply_recovery host sid r))"
proof -
  have "quiet r r1" if "plan_recovery sid r = (r1, res)" for r1 res
    using plan_recovery_quiet [of r sid] that by simp
  then show ?thesis
    by (auto simp: apply_recovery_def split: prod.split sum.split
        intro: runtime_evolution.evolves_trans [OF _ execute_recovery_quiet])
qed

text \<open>An adopted session must be well-formed itself.\<close>

lemma sessions_emplace:
  assumes "um_find m (id_value (cs_id s)) = None"
  shows "sessions_keep g m (um_emplace (id_value (cs_id s)) s m)"
    "sessions_ok m a \<Longrightarrow> session_ok s \<Longrightarrow>
      sessions_ok (um_emplace (id_value (cs_id s)) s m) (alloc_observe (cs_id s) a)"
proof -
  show "sessions_keep g m (um_emplace (id_value (cs_id s)) s m)"
    by (auto simp: sessions_keep_def session_evolution.evolves_refl dest: um.find_emplace_keeps)
  assume "sessions_ok m a" "session_ok s"
  moreover have "um_emplace (id_value (cs_id s)) s m = um_set (id_value (cs_id s)) s m"
    using assms unfolding um_find_def um_emplace_def um_set_def by (induction m) (auto split: if_splits)
  ultimately show "sessions_ok (um_emplace (id_value (cs_id s)) s m) (alloc_observe (cs_id s) a)"
    by (auto simp: sessions_ok_def id_table_observe intro: um_all_set)
qed

lemma cancel_flag_fields [simp]:
  "rt_sessions (fst (cancel_flag i r)) = rt_sessions r" "rt_session_ids (fst (cancel_flag i r)) = rt_session_ids r"
  "rt_artifacts (fst (cancel_flag i r)) = rt_artifacts r" "tables_ok (fst (cancel_flag i r)) = tables_ok r"
  by (simp_all add: cancel_flag_def tables_ok_def split: option.split)

lemma sessions_ok_observe:
  assumes "sessions_ok m a"
  shows "sessions_ok m (alloc_observe i a)"
proof -
  have "counter a \<le> counter (alloc_observe i a)" by (rule alloc_observe_mono)
  then have "alloc_ok (alloc_observe i a)"
    "k < counter a \<or> counter a = kMax \<Longrightarrow> k < counter (alloc_observe i a) \<or> counter (alloc_observe i a) = kMax" for k
    using assms kMax_max [of "counter (alloc_observe i a)"]
    by (auto simp: sessions_ok_def id_table_ok_def alloc_ok_def word_le_nat_alt word_unat_eq_iff word_less_nat_alt)
  with assms show ?thesis by (auto simp: sessions_ok_def id_table_ok_def)
qed

lemma observe_quiet: "quiet r (r\<lparr>rt_session_ids := alloc_observe i (rt_session_ids r)\<rparr>)"
  by (simp add: runtime_keeps_def sessions_evolution.evolves_refl authority_evolution.evolves_refl sessions_ok_observe tables_ok_def)

text \<open>A new session enters the table: its identity has been observed by the allocator.\<close>

lemma emplace_quiet:
  assumes "um_find (rt_sessions r) (id_value (cs_id s)) = None" "session_ok s"
    and "rt_session_ids r = alloc_observe (cs_id s) a"
  shows "quiet r (r\<lparr>rt_sessions := um_emplace (id_value (cs_id s)) s (rt_sessions r)\<rparr>)"
proof -
  have "alloc_observe (cs_id s) (rt_session_ids r) = rt_session_ids r"
    using assms(3) unat_plus_one [of "id_value (cs_id s)"]
    by (auto simp: alloc_observe_def word_le_nat_alt word_less_nat_alt)
  then show ?thesis
    using sessions_emplace [of "rt_sessions r" s, OF assms(1)] assms(2)
    by (auto simp: runtime_keeps_def authority_evolution.evolves_refl tables_ok_def) metis
qed

lemma persist_fields:
  "rt_sessions (fst (persist host s r)) = rt_sessions r" "rt_session_ids (fst (persist host s r)) = rt_session_ids r"
  by (cases rule: persist_cases [of r host s]; simp)+

lemma cancel_flag_quiet: "quiet r (fst (cancel_flag i r))"
  by (rule quiet_tables) (simp_all add: authority_evolution.evolves_refl)

lemma adopt_session_quiet:
  assumes "session_ok s"
  shows "quiet r (fst (adopt_session host s r))"
proof (cases "id_present (cs_id s) \<and> rt_find (cs_id s) r = None")
  case False
  then show ?thesis by (auto simp: adopt_session_def runtime_evolution.evolves_refl)
next
  case True
  let ?r0 = "r\<lparr>rt_session_ids := alloc_observe (cs_id s) (rt_session_ids r)\<rparr>"
  obtain r1 s1 where fenced: "fence_all_in_flight host ''session adoption fenced in-flight authority'' s ?r0 = (r1, s1)"
    by fastforce
  have loop: "loop_keeps (?r0, s) (r1, s1)"
    unfolding fenced [symmetric] by (rule fence_all_keeps)
  let ?s2 = "s1\<lparr>cs_epoch := StrongId (rt_epoch r1), cs_generation := gen_next (cs_generation s1), cs_updated_at_nanos := rh_now host\<rparr>"
  let ?s3 = "if cs_state ?s2 \<noteq> SS_committed \<and> cs_state ?s2 \<noteq> SS_retired
    then ?s2\<lparr>cs_state := SS_recovering, cs_recovery_state := RS_required\<rparr> else ?s2"
  have "session_keeps False s ?s3"
    using loop by (auto simp: loop_keeps_def gen_next_le intro: session_keeps_fields)
  then have s3: "session_ok ?s3" "cs_id ?s3 = cs_id s"
    using assms session_keeps_ok by (blast, simp add: session_keeps_def)
  obtain r2 res where stored: "persist host ?s3 (fst (cancel_flag (cs_id ?s3) r1)) = (r2, res)" by fastforce
  have "quiet r ?r0" by (rule observe_quiet)
  also have "quiet ?r0 r1" using loop by (simp add: loop_keeps_def)
  also (runtime_evolution.evolves_trans) have "quiet r1 (fst (cancel_flag (cs_id ?s3) r1))" by (rule cancel_flag_quiet)
  also (runtime_evolution.evolves_trans) have "quiet (fst (cancel_flag (cs_id ?s3) r1)) r2"
    using persist_quiet [of "fst (cancel_flag (cs_id ?s3) r1)" host ?s3] by (simp only: stored fst_conv)
  finally (runtime_evolution.evolves_trans) have r2: "quiet r r2" .
  have "rt_sessions r2 = rt_sessions r" "rt_session_ids r2 = alloc_observe (cs_id s) (rt_session_ids r)"
    using loop persist_fields [of host ?s3 "fst (cancel_flag (cs_id ?s3) r1)"]
    by (simp_all only: stored fst_conv cancel_flag_fields) (simp_all add: loop_keeps_def)
  then have "quiet r2 (r2\<lparr>rt_sessions := um_emplace (id_value (cs_id ?s3)) ?s3 (rt_sessions r2)\<rparr>)"
    using True s3 by (intro emplace_quiet) (simp_all add: rt_find_def split del: if_split)
  with r2 have emplaced: "quiet r (r2\<lparr>rt_sessions := um_emplace (id_value (cs_id ?s3)) ?s3 (rt_sessions r2)\<rparr>)"
    by (rule runtime_evolution.evolves_trans)
  have "fst (adopt_session host s r) =
      (case res of Inl e \<Rightarrow> r2 | Inr _ \<Rightarrow> r2\<lparr>rt_sessions := um_emplace (id_value (cs_id ?s3)) ?s3 (rt_sessions r2)\<rparr>)"
    using True unfolding adopt_session_def Let_def
    by (simp only: fenced prod.case if_False if_True not_not refl simp_thms stored) (simp split: sum.split)
  with r2 emplaced show ?thesis by (simp only: split: sum.split) blast
qed

text \<open>The sections of \<open>shutdown\<close>.\<close>

lemma session_modified_quiet:
  assumes "um_find (rt_sessions r) k = Some s" "session_keeps False s s'"
  shows "quiet r (r\<lparr>rt_sessions := um_modify k (\<lambda>_. s') (rt_sessions r)\<rparr>)"
  using assms
  by (intro quietI [where i = "StrongId k" and s' = s'])
    (auto simp: rt_find_def tables_ok_def authority_evolution.evolves_refl)

lemma fence_session_quiet: "quiet r (fence_session host r k)"
proof (cases "um_find (rt_sessions r) k")
  case (Some s)
  obtain r1 s1 where fenced: "fence_all_in_flight host ''runtime shutdown fenced in-flight authority'' s r = (r1, s1)"
    by fastforce
  have loop: "loop_keeps (r, s) (r1, s1)" unfolding fenced [symmetric] by (rule fence_all_keeps)
  have "quiet r1 (r1\<lparr>rt_sessions := um_modify k (\<lambda>_. s1) (rt_sessions r1)\<rparr>)"
    by (rule session_modified_quiet [where s = s]) (use loop Some in \<open>simp_all add: loop_keeps_def\<close>)
  then have "quiet r (r1\<lparr>rt_sessions := um_modify k (\<lambda>_. s1) (rt_sessions r1)\<rparr>)"
    using loop by (auto simp: loop_keeps_def intro: runtime_evolution.evolves_trans)
  then show ?thesis using Some fenced by (simp add: fence_session_def runtime_evolution.evolves_refl)
qed (simp add: fence_session_def runtime_evolution.evolves_refl)

lemma shutdown_fence_quiet: "quiet r (shutdown_fence host r)"
  unfolding shutdown_fence_def
  by (rule runtime_evolution.evolves_trans [OF _ runtime_evolution.evolves_foldl [OF fence_session_quiet]])
    (rule quiet_tables, simp_all add: tables_ok_def authority_evolution.evolves_refl)

lemma stop_session_quiet: "quiet r (stop_session host r k)"
proof (cases "um_find (rt_sessions r) k")
  case (Some s)
  have keeps: "session_keeps False s (s\<lparr>cs_updated_at_nanos := t\<rparr>)"
    "session_keeps False s (s\<lparr>cs_state := x, cs_failure_detail := d, cs_updated_at_nanos := t\<rparr>)" for x d t
    by (rule session_keeps_same; simp)+
  show ?thesis
    using Some keeps
    by (auto simp: stop_session_def Let_def runtime_evolution.evolves_refl
        intro!: runtime_evolution.evolves_trans [OF session_modified_quiet persist_quiet])
qed (simp add: stop_session_def runtime_evolution.evolves_refl)

lemma shutdown_sessions_quiet: "quiet r (shutdown_sessions host r)"
  unfolding shutdown_sessions_def by (rule runtime_evolution.evolves_foldl [OF stop_session_quiet])

lemma shutdown_processes_quiet: "quiet r (shutdown_processes r)"
  by (rule quiet_tables) (simp_all add: shutdown_processes_def tables_ok_def authority_evolution.evolves_refl)

lemma shutdown_cleanup_quiet: "quiet r (shutdown_cleanup host r)"
  unfolding shutdown_cleanup_def Let_def
  by (intro runtime_evolution.evolves_trans [OF _ note_evidence_quiet] quiet_tables)
    (simp_all add: tables_ok_def authority_evolution.evolves_refl)

lemma shutdown_quiet: "quiet r (shutdown host r)"
proof -
  have "quiet r (r\<lparr>rt_processes := supervisor_close (rt_processes r)\<rparr>)"
    by (rule quiet_tables) (simp_all add: tables_ok_def authority_evolution.evolves_refl)
  then show ?thesis
    unfolding shutdown_def
    by (auto intro: runtime_evolution.evolves_trans [OF shutdown_fence_quiet runtime_evolution.evolves_trans
        [OF shutdown_processes_quiet runtime_evolution.evolves_trans [OF shutdown_sessions_quiet shutdown_cleanup_quiet]]])
qed

lemma reopen_quiet: "quiet r (reopen r)"
  by (rule quiet_tables) (simp_all add: reopen_def tables_ok_def authority_evolution.evolves_refl)

text \<open>The toolchain operations keep the registry well-formed; no session and no artifact changes.\<close>

lemma toolchains_quiet:
  assumes "toolchain_ok (rt_toolchains r) \<Longrightarrow> toolchain_ok ts"
  shows "quiet r (r\<lparr>rt_toolchains := ts\<rparr>)"
  using assms by (intro quiet_tables) (simp_all add: tables_ok_def authority_evolution.evolves_refl)

lemma discover_toolchain_quiet: "quiet r (fst (discover_toolchain host family request r))"
proof -
  have "quiet r (r\<lparr>rt_toolchains := ts\<rparr>)" "quiet r (r\<lparr>rt_toolchains := ts, rt_evidence := ev\<rparr>)"
    if "register_toolchain probed (rt_toolchains r) = (ts, res)" for probed ts res ev
    using register_toolchain_ok [of "rt_toolchains r" probed] that
    by (auto intro!: quiet_tables simp: tables_ok_def authority_evolution.evolves_refl)
  then show ?thesis
    by (auto simp: discover_toolchain_def runtime_evolution.evolves_refl split: sum.split prod.split)
qed

lemma observe_toolchain_quiet: "quiet r (fst (observe_toolchain host kind observed r))"
proof -
  obtain ts res where "toolchain_refresh (rh_normal host) observed (rt_toolchains r) = (ts, res)" by fastforce
  moreover from this have "quiet r (r\<lparr>rt_toolchains := ts\<rparr>)"
    using toolchain_refresh_ok [of "rt_toolchains r" "rh_normal host" observed] by (intro toolchains_quiet) simp
  ultimately show ?thesis
    by (auto simp: observe_toolchain_def split: sum.split intro: runtime_evolution.evolves_trans [OF _ note_evidence_quiet])
qed

lemma refresh_toolchain_quiet: "quiet r (fst (refresh_toolchain host i r))"
  by (auto simp: refresh_toolchain_def runtime_evolution.evolves_refl observe_toolchain_quiet split: option.split sum.split)

lemma invalidate_toolchain_quiet: "quiet r (fst (invalidate_toolchain host i reason r))"
proof -
  obtain ts res where "toolchain_invalidate i reason (rt_toolchains r) = (ts, res)" by fastforce
  moreover from this have "quiet r (r\<lparr>rt_toolchains := ts\<rparr>)"
    using toolchain_invalidate_ok [of "rt_toolchains r" i reason] by (intro toolchains_quiet) simp
  ultimately show ?thesis
    by (auto simp: invalidate_toolchain_def split: sum.split intro: runtime_evolution.evolves_trans [OF _ note_evidence_quiet])
qed

lemma register_synthetic_quiet: "quiet r (fst (register_synthetic_toolchain synthetic family name target r))"
proof -
  have "quiet r (r\<lparr>rt_adapters := ads\<rparr>)" "quiet r (r\<lparr>rt_toolchains := ts\<rparr>)"
    "quiet r (r\<lparr>rt_adapters := ads, rt_toolchains := ts\<rparr>)"
    if "register_toolchain probed (rt_toolchains r) = (ts, res)" for ads probed ts res
    using register_toolchain_ok [of "rt_toolchains r" probed] that
    by (auto intro!: quiet_tables simp: tables_ok_def authority_evolution.evolves_refl)
  moreover have "quiet r (r\<lparr>rt_adapters := ads\<rparr>)" for ads
    by (rule quiet_tables) (simp_all add: tables_ok_def authority_evolution.evolves_refl)
  ultimately show ?thesis
    by (auto simp: register_synthetic_toolchain_def Let_def runtime_evolution.evolves_refl
        split: option.split sum.split prod.split)
qed

end
