(* ===== verification/Runtime_Session.thy ===== *)
theory Runtime_Session
  imports Runtime_Control
begin

text \<open>
  \<open>src/core/runtime.cpp\<close>, the operations that span critical sections: \<open>create_session\<close>, the run
  of one phase from its reservation to its commit (\<open>run_phase\<close>, \<open>retry_phase\<close>, the second
  execution that a policy may require), and the loop that drives a session to its final artifact
  (\<open>run_session\<close>).
\<close>

section \<open>Sequencing\<close>

text \<open>\<open>if (!x) return x.status();\<close> with the state threaded through.\<close>

definition rt_try :: "runtime \<times> 'a result \<Rightarrow> (runtime \<Rightarrow> 'a \<Rightarrow> runtime \<times> 'b result) \<Rightarrow> runtime \<times> 'b result" where
  "rt_try m k = (case m of (r, Inl e) \<Rightarrow> (r, Inl e) | (r, Inr v) \<Rightarrow> k r v)"

text \<open>A result that does not touch the state.\<close>

definition rt_pure :: "runtime \<Rightarrow> 'a result \<Rightarrow> runtime \<times> 'a result" where
  "rt_pure r x = (r, x)"

definition intern_target :: "target_spec \<Rightarrow> runtime \<Rightarrow> runtime \<times> target_tag referenced result" where
  "intern_target spec r = (case target_intern spec (rt_targets r) of (ts, x) \<Rightarrow> (r\<lparr>rt_targets := ts\<rparr>, x))"

definition intern_environment :: "runtime_host \<Rightarrow> environment_spec \<Rightarrow> runtime \<Rightarrow> runtime \<times> environment_tag referenced result" where
  "intern_environment host spec r =
     (case environment_intern (rh_normal host) spec (rt_environments r) of (es, x) \<Rightarrow> (r\<lparr>rt_environments := es\<rparr>, x))"

definition intern_policy :: "policy_spec \<Rightarrow> runtime \<Rightarrow> runtime \<times> policy_tag referenced result" where
  "intern_policy spec r = (case policy_intern spec (rt_policies r) of (ps, x) \<Rightarrow> (r\<lparr>rt_policies := ps\<rparr>, x))"

section \<open>Sources\<close>

text \<open>
  The file system while sources are admitted: its view before anything is staged, its view after
  the staging of the inline source with a given index, and whether the staged file can be opened
  and written.
\<close>

record staging_host =
  sh_files :: path_ops
  sh_staged :: "nat \<Rightarrow> path_ops"
  sh_open :: "string \<Rightarrow> bool"
  sh_write :: "string \<Rightarrow> string \<Rightarrow> bool"

definition add_source :: "path_ops \<Rightarrow> string \<Rightarrow> runtime \<Rightarrow> runtime \<times> source_tag referenced result" where
  "add_source px path r =
     (case source_add px path (source_language_from_extension (px_extension px path)) [] (rt_sources r) of
        (ss, x) \<Rightarrow> (r\<lparr>rt_sources := ss\<rparr>, x))"

definition sources_add_inline :: "path_ops \<Rightarrow> string \<Rightarrow> string \<Rightarrow> runtime \<Rightarrow> runtime \<times> source_tag referenced result" where
  "sources_add_inline px name contents r =
     (case source_add_from_bytes px name contents SL_unknown [] (rt_sources r) of (ss, x) \<Rightarrow> (r\<lparr>rt_sources := ss\<rparr>, x))"

fun admit_paths :: "path_ops \<Rightarrow> string list \<Rightarrow> runtime \<Rightarrow> runtime \<times> source_tag referenced list result" where
  "admit_paths px [] r = (r, Inr [])"
| "admit_paths px (path # paths) r =
     rt_try (add_source px path r) (\<lambda>r added. rt_try (admit_paths px paths r) (\<lambda>r rest. (r, Inr (added # rest))))"

fun admit_inline :: "path_ops \<Rightarrow> (string \<times> string) list \<Rightarrow> runtime \<Rightarrow> runtime \<times> source_tag referenced list result" where
  "admit_inline px [] r = (r, Inr [])"
| "admit_inline px ((name, contents) # inline) r =
     rt_try (sources_add_inline px name contents r) (\<lambda>r added.
       rt_try (admit_inline px inline r) (\<lambda>r rest. (r, Inr (added # rest))))"

definition staged_sources_root :: "runtime_host \<Rightarrow> runtime \<Rightarrow> string" where
  "staged_sources_root host r =
     hp_normalize (rh_paths host) (hp_join (rh_paths host) (wm_base_directory (rt_workspaces r)) ''_staged-sources'')"

definition staged_leaf :: "runtime_host \<Rightarrow> string \<Rightarrow> string" where
  "staged_leaf host name =
     (let leaf = hp_filename (rh_paths host) name;
          leaf = (if leaf = [] then ''translation-unit.cpp'' else leaf)
      in map (\<lambda>c. if c = CHR 0x5C \<or> c = CHR ''/'' \<or> c = CHR '':'' \<or> c = CHR 0x00 then CHR ''_'' else c) leaf)"

definition stage_inline_source ::
  "runtime_host \<Rightarrow> staging_host \<Rightarrow> runtime \<Rightarrow> session_id \<Rightarrow> string \<Rightarrow> string \<Rightarrow> string result" where
  "stage_inline_source host sh r sid name contents =
     (let directory = hp_join (rh_paths host) (staged_sources_root host r) (id_to_string ''session'' sid);
          path = hp_normalize (rh_paths host) (hp_join (rh_paths host) directory (staged_leaf host name))
      in case hf_create_directories (rh_fs host) directory of
           Some e \<Rightarrow> Inl (Status SC_permission_denied (''staged source directory could not be created: '' @ e))
         | None \<Rightarrow>
             if \<not> sh_open sh path
               then Inl (Status SC_permission_denied (''staged source could not be written: '' @ path))
             else if \<not> sh_write sh path contents
               then Inl (Status SC_persistence_io (''staged source write failed: '' @ path))
             else Inr path)"

text \<open>
  Inline source \<open>i\<close> is staged, admitted again as a file, and replaces the entry at
  \<open>offset + i\<close> of the admitted sources; an index out of range ends the loop.
\<close>

fun stage_sources ::
  "runtime_host \<Rightarrow> staging_host \<Rightarrow> session_id \<Rightarrow> nat \<Rightarrow> nat \<Rightarrow> (string \<times> string) list \<Rightarrow> source_tag referenced list \<Rightarrow>
   runtime \<Rightarrow> runtime \<times> source_tag referenced list result" where
  "stage_sources host sh sid offset i [] admitted r = (r, Inr admitted)"
| "stage_sources host sh sid offset i ((name, contents) # inline) admitted r =
     rt_try (rt_pure r (stage_inline_source host sh r sid name contents)) (\<lambda>r path.
       if offset + i \<ge> length admitted then (r, Inr admitted)
       else rt_try (add_source (sh_staged sh i) path r) (\<lambda>r replaced.
         stage_sources host sh sid offset (Suc i) inline (admitted[offset + i := replaced]) r))"

section \<open>Phase identities\<close>

text \<open>
  The plan of the adapter is renumbered into the runtime's domain. A \<open>PhasePlan\<close> is only obtained
  from \<open>PhasePlan::build\<close>, so every dependency is the identity of a node and \<open>remap.at\<close> finds it.
\<close>

fun remap_ids :: "phase_node list \<Rightarrow> (u64, phase_id) umap \<Rightarrow> phase_tag id_allocator \<Rightarrow> (u64, phase_id) umap \<times> phase_tag id_allocator" where
  "remap_ids [] remap ids = (remap, ids)"
| "remap_ids (nd # nds) remap ids =
     (case alloc_next ids of (i, ids') \<Rightarrow> remap_ids nds (um_emplace (id_value (pn_id nd)) i remap) ids')"

definition remap_at :: "(u64, phase_id) umap \<Rightarrow> phase_id \<Rightarrow> phase_id" where
  "remap_at remap i = (case um_find remap (id_value i) of Some j \<Rightarrow> j | None \<Rightarrow> i)"

definition remap_node :: "(u64, phase_id) umap \<Rightarrow> phase_node \<Rightarrow> phase_node" where
  "remap_node remap nd = nd\<lparr>pn_id := remap_at remap (pn_id nd), pn_depends_on := map (remap_at remap) (pn_depends_on nd)\<rparr>"

definition remap_plan :: "phase_plan \<Rightarrow> runtime \<Rightarrow> runtime \<times> phase_plan result" where
  "remap_plan local r =
     (case remap_ids (pp_nodes local) [] (rt_phase_ids r) of
        (remap, ids) \<Rightarrow> (r\<lparr>rt_phase_ids := ids\<rparr>, plan_build (map (remap_node remap) (pp_nodes local))))"

definition pending_record :: "attempt_tag generation \<Rightarrow> phase_node \<Rightarrow> phase_record" where
  "pending_record attempt_generation nd = phase_record_default\<lparr>pr_id := pn_id nd, pr_generation := gen_initial,
     pr_attempt_generation := attempt_generation, pr_kind := pn_kind nd, pr_adapter_phase := pn_adapter_phase nd,
     pr_mandatory := pn_mandatory nd, pr_depends_on := pn_depends_on nd, pr_state := PS_pending\<rparr>"

definition pending_phases :: "attempt_tag generation \<Rightarrow> phase_node list \<Rightarrow> (u64, phase_record) umap" where
  "pending_phases attempt_generation nodes =
     foldl (\<lambda>m nd. um_emplace (id_value (pn_id nd)) (pending_record attempt_generation nd) m) [] nodes"

section \<open>Session creation\<close>

definition find_toolchain_for :: "compile_request \<Rightarrow> runtime \<Rightarrow> toolchain_identity result" where
  "find_toolchain_for q r =
     (if id_present (cq_toolchain q) then
        (case toolchain_find (cq_toolchain q) (rt_toolchains r) of
           Some t \<Rightarrow> Inr t
         | None \<Rightarrow> Inl (Status SC_toolchain_not_found
             (''requested toolchain is not registered: '' @ id_to_string ''toolchain'' (cq_toolchain q))))
      else
        (case toolchain_find_latest (cq_toolchain_family q) (rt_toolchains r) of
           Some t \<Rightarrow> Inr t
         | None \<Rightarrow> Inl (Status SC_toolchain_not_found
             ''no toolchain of the requested family has been discovered yet'')))"

definition session_environment :: "compile_request \<Rightarrow> environment_spec \<Rightarrow> environment_spec" where
  "session_environment q e =
     (if po_reproducibility (cq_policy q) \<noteq> RP_not_required \<and> es_deterministic_controls e \<and>
         es_locale_policy e = LP_user_default
      then e\<lparr>es_locale_policy := LP_c_locale\<rparr> else e)"

definition plan_request_for ::
  "compile_request \<Rightarrow> toolchain_identity \<Rightarrow> target_spec \<Rightarrow> source_tag referenced list \<Rightarrow> runtime \<Rightarrow> plan_request" where
  "plan_request_for q t target admitted r = \<lparr>pq_family = cq_toolchain_family q, pq_toolchain = t, pq_target = target,
     pq_language = (case admitted of [] \<Rightarrow> SL_unknown
       | first # _ \<Rightarrow> (case source_find (ref_id first) (rt_sources r) of Some u \<Rightarrow> su_language u | None \<Rightarrow> SL_unknown)),
     pq_translation_unit_count = length admitted, pq_want_link = True, pq_want_smoke_test = cq_run_smoke_test q,
     pq_want_parallel_translation_units = False, pq_policy = cq_policy q\<rparr>"

text \<open>What the request resolves to before a session exists.\<close>

record session_basis =
  sb_adapter :: compiler_adapter
  sb_toolchain :: toolchain_identity
  sb_target :: "target_tag referenced"
  sb_sources :: "source_tag referenced list"
  sb_environment :: "environment_tag referenced"
  sb_policy :: "policy_tag referenced"
  sb_plan :: phase_plan

definition resolve_request ::
  "runtime_host \<Rightarrow> staging_host \<Rightarrow> compile_request \<Rightarrow> runtime \<Rightarrow> runtime \<times> session_basis result" where
  "resolve_request host sh q r =
     (case adapter_find (cq_toolchain_family q) (rt_adapters r) of
        None \<Rightarrow> (r, Inl (Status SC_unsupported
          (''no adapter is registered for toolchain family '' @ to_string_toolchain_family (cq_toolchain_family q))))
      | Some adapter \<Rightarrow>
        rt_try (rt_pure r (find_toolchain_for q r)) (\<lambda>r toolchain.
        rt_try (rt_pure r (ad_resolve_target adapter toolchain (cq_target q))) (\<lambda>r resolved.
        rt_try (intern_target resolved r) (\<lambda>r target.
        rt_try (admit_paths (sh_files sh) (cq_sources q) r) (\<lambda>r files.
        rt_try (admit_inline (sh_files sh) (cq_inline_sources q) r) (\<lambda>r inline.
        if files @ inline = [] then (r, Inl (Status SC_invalid_argument ''no source could be admitted''))
        else
        rt_try (rt_pure r (ad_compose_environment adapter toolchain resolved (cq_environment q))) (\<lambda>r composed.
        rt_try (intern_environment host (session_environment q composed) r) (\<lambda>r environment.
        rt_try (intern_policy (cq_policy q) r) (\<lambda>r policy.
        rt_try (rt_pure r (ad_build_plan adapter (plan_request_for q toolchain resolved (files @ inline) r))) (\<lambda>r local.
        rt_try (remap_plan local r) (\<lambda>r plan.
          (r, Inr \<lparr>sb_adapter = adapter, sb_toolchain = toolchain, sb_target = target, sb_sources = files @ inline,
             sb_environment = environment, sb_policy = policy, sb_plan = plan\<rparr>))))))))))))"

definition new_session ::
  "runtime_host \<Rightarrow> compile_request \<Rightarrow> session_basis \<Rightarrow> session_id \<Rightarrow> attempt_id \<Rightarrow> source_tag referenced list \<Rightarrow> runtime \<Rightarrow>
   compiler_session" where
  "new_session host q basis sid attempt sources r =
     (let attempt_generation = (if gen_present (cq_attempt_generation q) then cq_attempt_generation q else gen_initial)
      in session_default\<lparr>cs_id := sid, cs_generation := gen_initial, cs_state := SS_active,
           cs_recovery_state := RS_none,
           cs_request := (if id_present (cq_request q) then cq_request q else StrongId (id_value sid)),
           cs_compilation := (if id_present (cq_compilation q) then cq_compilation q else StrongId (id_value sid)),
           cs_compilation_generation := (if gen_present (cq_compilation_generation q)
             then cq_compilation_generation q else gen_initial),
           cs_attempt := attempt, cs_attempt_generation := attempt_generation,
           cs_toolchain := Ref (ti_id (sb_toolchain basis)) (ti_generation (sb_toolchain basis)),
           cs_target := sb_target basis, cs_environment := sb_environment basis, cs_policy := sb_policy basis,
           cs_source := (case sources of first # _ \<Rightarrow> first | [] \<Rightarrow> ref_absent), cs_sources := sources,
           cs_ir_generation := gen_initial, cs_adapter_name := dsc_name (ad_describe (sb_adapter basis)),
           cs_final_artifact_name := cq_final_artifact_name q, cs_adapter_options := cq_adapter_options q,
           cs_plan := sb_plan basis, cs_epoch := StrongId (rt_epoch r), cs_created_at_nanos := rh_now host,
           cs_updated_at_nanos := rh_now host, cs_request_digest := request_canonical_digest (rh_normal host) q,
           cs_phases := pending_phases attempt_generation (pp_nodes (sb_plan basis))\<rparr>)"

text \<open>From the identities of the new session to its place in the table.\<close>

definition register_session ::
  "runtime_host \<Rightarrow> compiler_session \<Rightarrow> session_basis \<Rightarrow> runtime \<Rightarrow> runtime \<times> session_tag referenced result" where
  "register_session host s basis r =
     (let r1 = fst (cancel_flag (cs_id s) (r\<lparr>rt_session_ids := alloc_observe (cs_id s) (rt_session_ids r)\<rparr>))
      in rt_try (persist host s r1) (\<lambda>r2 _.
           (note_evidence host ''session-created''
              (''session '' @ id_to_string ''session'' (cs_id s) @ '' created for adapter '' @
               dsc_name (ad_describe (sb_adapter basis))) digest_default
              (r2\<lparr>rt_sessions := um_emplace (id_value (cs_id s)) s (rt_sessions r2)\<rparr>),
            Inr (Ref (cs_id s) gen_initial))))"

definition draw_attempt :: "compile_request \<Rightarrow> runtime \<Rightarrow> attempt_id \<times> runtime" where
  "draw_attempt q r =
     (if id_present (cq_attempt q) then (cq_attempt q, r)
      else case alloc_next (rt_attempt_ids r) of (i, ids) \<Rightarrow> (i, r\<lparr>rt_attempt_ids := ids\<rparr>))"

definition create_session ::
  "runtime_host \<Rightarrow> staging_host \<Rightarrow> compile_request \<Rightarrow> runtime \<Rightarrow> runtime \<times> session_tag referenced result" where
  "create_session host sh q r =
     (if rt_shutting_down r then (r, Inl (Status SC_shutting_down ''runtime is shutting down''))
      else if length (rt_sessions r) \<ge> rt_max_sessions r
        then (r, Inl (Status SC_capacity_exceeded ''session ceiling reached''))
      else if cq_sources q = [] \<and> cq_inline_sources q = []
        then (r, Inl (Status SC_invalid_argument ''a compile request must carry at least one source''))
      else
        rt_try (resolve_request host sh q r) (\<lambda>r1 basis.
          case alloc_next (rt_session_ids r1) of (sid, ids) \<Rightarrow>
            (case draw_attempt q (r1\<lparr>rt_session_ids := ids\<rparr>) of (attempt, r2) \<Rightarrow>
              rt_try (stage_sources host sh sid (length (cq_sources q)) 0 (cq_inline_sources q) (sb_sources basis) r2)
                (\<lambda>r3 sources. register_session host (new_session host q basis sid attempt sources r3) basis r3))))"

section \<open>The second execution\<close>

text \<open>
  The invocation of the second run: its own workspace, the same inputs. Its executable is bound to
  a component when one matches; the validation requires one.
\<close>

definition second_invocation ::
  "runtime_host \<Rightarrow> runtime \<Rightarrow> reservation \<Rightarrow> workspace \<Rightarrow> compiler_adapter \<Rightarrow> (invocation_spec \<times> process_spec) result" where
  "second_invocation host r rv w adapter =
     (case rt_find (rv_session rv) r of
        None \<Rightarrow> Inl (Status SC_not_found ''session disappeared'')
      | Some s \<Rightarrow>
        (case find_phase (rv_phase rv) s of
           None \<Rightarrow> Inl (Status SC_not_found ''phase disappeared'')
         | Some p \<Rightarrow>
           crf_try (build_request host r s p rv) (\<lambda>request.
           case xq_environment request of
             None \<Rightarrow> Inl (Status SC_integrity_unproven ''phase execution context is missing an authority component'')
           | Some es \<Rightarrow>
             crf_try (environment_canonicalize (rh_normal host) (es\<lparr>es_temp_directory := temp_directory (rh_paths host) w\<rparr>))
               (\<lambda>environment.
             crf_try (ad_build_invocation adapter (request\<lparr>xq_workspace := Some w,
                 xq_output_directory := outputs_directory (rh_paths host) w, xq_reproducibility_second_run := True\<rparr>))
               (\<lambda>built.
             let bound = bind_invocation s p rv (build_process_environment (rh_ambient host) environment True) (wk_root w) built;
                 spec = (case find_executable_component (rh_normal host)
                     (toolchain_find (ref_id (cs_toolchain s)) (rt_toolchains r)) (is_executable bound) of
                   Some c \<Rightarrow> bind_component c bound | None \<Rightarrow> bound)
             in crf_try (validate_invocation (rh_paths host) (rh_fs host) (rh_queries host) spec
                    (validation_context_for r s adapter w True)) (\<lambda>valid.
                crf_try (to_process_spec (rh_paths host) (hf_is_directory (rh_fs host)) valid) (\<lambda>process.
                  Inr (valid, process))))))))"

definition compare_second_run :: "output_descriptor list \<Rightarrow> execution_report \<Rightarrow> bool result" where
  "compare_second_run primary second =
     (if \<not> er_executed second \<or> \<not> exited_zero (er_process second)
        then Inl (Status SC_unknown_outcome ''the reproducibility verification run did not complete successfully'')
      else if output_set_digest (er_outputs second) \<noteq> output_set_digest primary
        then Inl (Status SC_divergent_completion
          (''reproducibility is REQUIRED but two executions of a deterministic phase produced '' @
           ''different output; the runtime refuses to choose a winner''))
      else Inr True)"

definition execute_second_run ::
  "runtime_host \<Rightarrow> reservation \<Rightarrow> output_descriptor list \<Rightarrow> workspace \<Rightarrow> compiler_adapter \<Rightarrow> runtime \<Rightarrow> runtime \<times> bool result" where
  "execute_second_run host rv primary w adapter r =
     rt_try (rt_pure r (second_invocation host r rv w adapter)) (\<lambda>r planned.
       case rt_executor r of
         None \<Rightarrow> (r, Inl (Status SC_internal_error ''no executor configured''))
       | Some executor \<Rightarrow>
         (case pe_execute executor (fst planned) (snd planned) w ''reproducibility-verify'' of
            Inl e \<Rightarrow> (note_evidence host ''reproducibility-second-run'' (status_message e) digest_default r, Inl e)
          | Inr second \<Rightarrow>
              (note_evidence host ''reproducibility-second-run'' ''second execution completed''
                 (evidence_digest (rh_normal host) second) r, compare_second_run primary second)))"

definition reproducibility_verify ::
  "runtime_host \<Rightarrow> reservation \<Rightarrow> output_descriptor list \<Rightarrow> runtime \<Rightarrow> runtime \<times> bool result" where
  "reproducibility_verify host rv primary r =
     (case rt_find (rv_session rv) r of
        None \<Rightarrow> (r, Inl (Status SC_not_found ''session disappeared''))
      | Some s \<Rightarrow>
        (case adapter_find_by_name (cs_adapter_name s) (rt_adapters r) of
           None \<Rightarrow> (r, Inl (Status SC_unsupported ''no adapter registered''))
         | Some adapter \<Rightarrow>
           if \<not> ad_is_deterministic_phase adapter (rv_kind rv) then (r, Inr True)
           else
             case workspace_create (rh_paths host) (rh_fs host) (rh_now host) (rv_session rv) gen_absent (rv_phase rv)
               (rv_phase_generation rv) ''repro'' (rt_workspaces r) of
               (wm, Inl e) \<Rightarrow> (r\<lparr>rt_workspaces := wm\<rparr>, Inl e)
             | (wm, Inr w) \<Rightarrow> execute_second_run host rv primary (w\<lparr>wk_valid := True\<rparr>) adapter (r\<lparr>rt_workspaces := wm\<rparr>)))"

section \<open>The run of a phase\<close>

text \<open>
  The critical sections of a run are separated by the work of the compiler, so each has a host of
  its own: the clock and the file system have moved on.
\<close>

record run_hosts =
  ho_reserve :: runtime_host
  ho_execute :: runtime_host
  ho_record :: runtime_host
  ho_verify :: runtime_host
  ho_validate :: runtime_host
  ho_commit :: runtime_host
  ho_schedule :: runtime_host

definition elapsed :: "run_hosts \<Rightarrow> runtime_host \<Rightarrow> u64" where
  "elapsed hosts host = rh_now host - rh_now (ho_reserve hosts)"

text \<open>An execution that failed before it had a report of its own.\<close>

definition execution_of :: "reservation \<Rightarrow> execution_report result \<Rightarrow> execution_report" where
  "execution_of rv executed =
     (case executed of
        Inr report \<Rightarrow> report
      | Inl e \<Rightarrow> execution_report_default\<lparr>er_status := status_code e, er_detail := status_message e,
          er_workspace_root := wk_root (rv_workspace rv), er_workspace_marker := wk_marker_digest (rv_workspace rv),
          er_process := process_outcome_default\<lparr>oc_invocation := rv_invocation rv, oc_termination := PT_launch_failed\<rparr>\<rparr>)"

definition with_diagnostics ::
  "runtime_host \<Rightarrow> runtime \<Rightarrow> session_id \<Rightarrow> phase_id \<Rightarrow> reservation \<Rightarrow> execution_report \<Rightarrow> execution_report" where
  "with_diagnostics host r sid pid rv report =
     (if er_diagnostics report \<noteq> [] \<or> \<not> er_executed report then report
      else case rt_find sid r of
        None \<Rightarrow> report
      | Some s \<Rightarrow>
        (case (adapter_find_by_name (cs_adapter_name s) (rt_adapters r), find_phase pid s) of
           (Some adapter, Some p) \<Rightarrow>
             (case build_request host r s p rv of
                Inl _ \<Rightarrow> report
              | Inr request \<Rightarrow>
                (case ad_parse_diagnostics adapter (er_process report) request of
                   Inl _ \<Rightarrow> report
                 | Inr parsed \<Rightarrow> report\<lparr>er_diagnostics := parsed\<rparr>))
         | _ \<Rightarrow> report))"

definition failed_report :: "run_hosts \<Rightarrow> session_id \<Rightarrow> phase_id \<Rightarrow> execution_report \<Rightarrow> runtime \<Rightarrow> phase_run_report option" where
  "failed_report hosts sid pid execution r =
     (case rt_find sid r of
        None \<Rightarrow> None
      | Some s \<Rightarrow>
        (case find_phase pid s of
           None \<Rightarrow> None
         | Some p \<Rightarrow>
           if pr_state p \<noteq> PS_failed then None
           else Some ((phase_status_report sid pid r)\<lparr>
             rr_retry := evaluate_retry p (case policy_spec_of s r of Some spec \<Rightarrow> spec | None \<Rightarrow> policy_spec_default)
               (cs_session_retries_used s),
             rr_governance_nanos := elapsed hosts (ho_record hosts),
             rr_compiler_nanos := duration_nanos (er_process execution)\<rparr>)))"

definition verification_required :: "session_id \<Rightarrow> runtime \<Rightarrow> bool" where
  "verification_required sid r =
     (case rt_find sid r of
        None \<Rightarrow> False
      | Some s \<Rightarrow> (case policy_spec_of s r of None \<Rightarrow> False | Some spec \<Rightarrow> po_reproducibility spec = RP_required))"

definition divergent_phase :: "u64 \<Rightarrow> status \<Rightarrow> phase_record \<Rightarrow> phase_record" where
  "divergent_phase now e p =
     record_transition now PS_failed (status_message e)
       (p\<lparr>pr_failure := FC_output_invalid, pr_last_status := status_code e, pr_last_detail := status_message e\<rparr>)"

definition reject_divergent :: "runtime_host \<Rightarrow> session_id \<Rightarrow> phase_id \<Rightarrow> status \<Rightarrow> runtime \<Rightarrow> runtime \<times> unit result" where
  "reject_divergent host sid pid e r =
     (case rt_find sid r of
        None \<Rightarrow> (r, Inr ())
      | Some s \<Rightarrow>
        (case find_phase pid s of
           None \<Rightarrow> (r, Inr ())
         | Some p \<Rightarrow>
           let s1 = (put_phase pid (divergent_phase (rh_now host) e p) s)\<lparr>cs_generation := gen_next (cs_generation s)\<rparr>
           in persist_then host s1 () (put_session sid s1 (r\<lparr>
                rt_artifacts := fst (revoke_phase_outputs (pr_id p) (pr_generation p) (status_message e) (rt_artifacts r))\<rparr>))))"

text \<open>The reproducibility contract; \<open>None\<close> when the run may go on to validation.\<close>

definition verify_outputs ::
  "run_hosts \<Rightarrow> session_id \<Rightarrow> phase_id \<Rightarrow> reservation \<Rightarrow> execution_report \<Rightarrow> runtime \<Rightarrow> runtime \<times> phase_run_report option result" where
  "verify_outputs hosts sid pid rv execution r =
     (if \<not> verification_required sid r then (r, Inr None)
      else case reproducibility_verify (ho_verify hosts) rv (er_outputs execution) r of
        (r1, Inr _) \<Rightarrow> (r1, Inr None)
      | (r1, Inl e) \<Rightarrow>
          rt_try (reject_divergent (ho_verify hosts) sid pid e r1) (\<lambda>r2 _.
            (r2, Inr (Some ((phase_status_report sid pid r2)\<lparr>rr_status := status_code e, rr_detail := status_message e,
               rr_governance_nanos := elapsed hosts (ho_verify hosts)\<rparr>)))))"

definition validate_and_commit ::
  "run_hosts \<Rightarrow> session_id \<Rightarrow> phase_id \<Rightarrow> reservation \<Rightarrow> execution_report \<Rightarrow> runtime \<Rightarrow> runtime \<times> phase_run_report result" where
  "validate_and_commit hosts sid pid rv execution r =
     rt_try (validate_phase_outputs (ho_validate hosts) rv r) (\<lambda>r1 evidence.
       if \<not> ve_accepted evidence
       then (r1, Inr ((phase_status_report sid pid r1)\<lparr>rr_status := ve_refusal evidence, rr_detail := ve_detail evidence,
               rr_governance_nanos := elapsed hosts (ho_validate hosts)\<rparr>))
       else rt_try (commit_reserved (ho_commit hosts) rv execution r1) (\<lambda>r2 report.
         (r2, Inr (report\<lparr>rr_governance_nanos := elapsed hosts (ho_commit hosts),
            rr_compiler_nanos := duration_nanos (er_process execution)\<rparr>))))"

definition finish_phase ::
  "run_hosts \<Rightarrow> session_id \<Rightarrow> phase_id \<Rightarrow> reservation \<Rightarrow> execution_report \<Rightarrow> runtime \<Rightarrow> runtime \<times> phase_run_report result" where
  "finish_phase hosts sid pid rv execution r =
     rt_try (record_execution (ho_record hosts) rv execution r) (\<lambda>r1 _.
       case failed_report hosts sid pid execution r1 of
         Some report \<Rightarrow> (r1, Inr report)
       | None \<Rightarrow>
           rt_try (verify_outputs hosts sid pid rv execution r1) (\<lambda>r2 stopped.
             case stopped of
               Some report \<Rightarrow> (r2, Inr report)
             | None \<Rightarrow> validate_and_commit hosts sid pid rv execution r2))"

definition run_phase ::
  "run_hosts \<Rightarrow> session_id \<Rightarrow> phase_id \<Rightarrow> bool \<Rightarrow> runtime \<Rightarrow> runtime \<times> phase_run_report result" where
  "run_phase hosts sid pid is_retry r =
     (case reserve (ho_reserve hosts) sid pid is_retry r of
        (r1, Inl e) \<Rightarrow>
          (r1, Inr ((phase_status_report sid pid r1)\<lparr>rr_status := status_code e, rr_detail := status_message e\<rparr>))
      | (r1, Inr rv) \<Rightarrow>
          (case execute_reserved (ho_execute hosts) rv r1 of
             (r2, rv2, executed) \<Rightarrow>
               finish_phase hosts sid pid rv2
                 (with_diagnostics (ho_execute hosts) r2 sid pid rv2 (execution_of rv2 executed)) r2))"

definition admit_retry :: "session_id \<Rightarrow> phase_id \<Rightarrow> runtime \<Rightarrow> runtime \<times> (phase_run_report result + retry_decision)" where
  "admit_retry sid pid r =
     (case rt_find sid r of
        None \<Rightarrow> (r, Inl (Inl (Status SC_not_found ''session is not registered'')))
      | Some s \<Rightarrow>
        (case find_phase pid s of
           None \<Rightarrow> (r, Inl (Inl (Status SC_not_found ''phase is not registered'')))
         | Some p \<Rightarrow>
           let decision = evaluate_retry p (case policy_spec_of s r of Some spec \<Rightarrow> spec | None \<Rightarrow> policy_spec_default)
                 (cs_session_retries_used s)
           in if \<not> rd_legal decision
              then (r, Inl (Inr ((phase_status_report sid pid r)\<lparr>rr_retry := decision,
                rr_status := (if rd_refusal decision = SC_ok then SC_retry_not_permitted else rd_refusal decision),
                rr_detail := rd_reason decision\<rparr>)))
              else (put_session sid (s\<lparr>cs_session_retries_used := cs_session_retries_used s + 1\<rparr>) r, Inr decision)))"

definition retry_phase :: "run_hosts \<Rightarrow> session_id \<Rightarrow> phase_id \<Rightarrow> runtime \<Rightarrow> runtime \<times> phase_run_report result" where
  "retry_phase hosts sid pid r =
     (case admit_retry sid pid r of
        (r1, Inl answer) \<Rightarrow> (r1, answer)
      | (r1, Inr decision) \<Rightarrow>
          rt_try (run_phase hosts sid pid True r1) (\<lambda>r2 report. (r2, Inr (report\<lparr>rr_retry := decision\<rparr>))))"

section \<open>The run of a session\<close>

definition parallel_limit :: "session_id \<Rightarrow> runtime \<Rightarrow> nat" where
  "parallel_limit sid r =
     (case rt_find sid r of
        None \<Rightarrow> 1
      | Some s \<Rightarrow>
        (case policy_spec_of s r of
           None \<Rightarrow> 1
         | Some spec \<Rightarrow> if po_allow_parallel_phases spec then max 1 (unat (po_max_parallel_phases spec)) else 1))"

definition iteration_ceiling :: "compiler_session \<Rightarrow> runtime \<Rightarrow> nat" where
  "iteration_ceiling s r =
     length (pp_nodes (cs_plan s)) *
       ((case policy_spec_of s r of Some spec \<Rightarrow> unat (po_max_retries_per_phase spec) | None \<Rightarrow> 2) + 2) + 16"

definition runnable :: "compiler_session \<Rightarrow> phase_id \<Rightarrow> bool" where
  "runnable s i =
     (case find_phase i s of
        None \<Rightarrow> False
      | Some p \<Rightarrow> pr_state p \<noteq> PS_committed \<and> pr_state p \<noteq> PS_failed \<and> pr_state p \<noteq> PS_fenced \<and>
          pr_state p \<noteq> PS_cancelled \<and> pr_state p \<noteq> PS_retired \<and> plan_is_ready i (committed_phases s) (cs_plan s))"

definition ready_phases :: "compiler_session \<Rightarrow> phase_id list" where
  "ready_phases s = filter (runnable s) (pp_order (cs_plan s))"

definition blocked_phase :: "compiler_session \<Rightarrow> phase_record option" where
  "blocked_phase s = List.find (\<lambda>p. pr_state p \<noteq> PS_committed) (List.map_filter (\<lambda>i. find_phase i s) (pp_order (cs_plan s)))"

datatype schedule = Sched_stop "compile_outcome result" | Sched_complete | Sched_run "phase_id list"

definition stuck_outcome :: "compiler_session \<Rightarrow> compile_outcome \<Rightarrow> compile_outcome" where
  "stuck_outcome s outcome =
     (case blocked_phase s of
        Some p \<Rightarrow> outcome\<lparr>co_status := pr_last_status p, co_detail := ''session cannot progress: phase '' @
          id_to_string ''phase'' (pr_id p) @ '' is '' @ to_string_phase_state (pr_state p)\<rparr>
      | None \<Rightarrow> outcome\<lparr>co_status := SC_phase_not_ready, co_detail := ''session cannot progress''\<rparr>)"

text \<open>One scheduling section. The session is marked active whatever its state was.\<close>

definition schedule_round ::
  "runtime_host \<Rightarrow> session_id \<Rightarrow> compile_outcome \<Rightarrow> runtime \<Rightarrow> runtime \<times> schedule" where
  "schedule_round host sid outcome r =
     (case rt_find sid r of
        None \<Rightarrow> (r, Sched_stop (Inl (Status SC_not_found ''session disappeared during execution'')))
      | Some s \<Rightarrow>
        let s1 = s\<lparr>cs_state := SS_active\<rparr>; r1 = put_session sid s1 r in
        if ready_phases s1 \<noteq> [] then (r1, Sched_run (ready_phases s1))
        else if all_mandatory_committed s1 then (r1, Sched_complete)
        else
          let stuck = stuck_outcome s1 outcome;
              s2 = s1\<lparr>cs_state := SS_failed, cs_failure_detail := co_detail stuck\<rparr>
          in case persist host s2 (put_session sid s2 r1) of
               (r2, Inl e) \<Rightarrow> (r2, Sched_stop (Inl e))
             | (r2, Inr _) \<Rightarrow> (r2, Sched_stop (Inr (stuck\<lparr>co_phases := []\<rparr>))))"

text \<open>The session fails when a phase did not commit; a refused append is ignored here.\<close>

definition fail_active_session :: "runtime_host \<Rightarrow> session_id \<Rightarrow> string \<Rightarrow> runtime \<Rightarrow> runtime" where
  "fail_active_session host sid detail r =
     (case rt_find sid r of
        None \<Rightarrow> r
      | Some s \<Rightarrow>
          if cs_state s \<noteq> SS_active then r
          else let s1 = s\<lparr>cs_state := SS_failed, cs_failure_detail := detail\<rparr>
               in fst (persist host s1 (put_session sid s1 r)))"

definition no_progress_detail :: "nat \<Rightarrow> session_id \<Rightarrow> runtime \<Rightarrow> string" where
  "no_progress_detail ceiling sid r =
     ''session made no progress after '' @ dec_string (Suc ceiling) @ '' scheduling rounds'' @
     (case rt_find sid r of
        None \<Rightarrow> []
      | Some s \<Rightarrow> concat (map (\<lambda>i. case find_phase i s of
            None \<Rightarrow> []
          | Some p \<Rightarrow> '' | '' @ id_to_string ''phase'' i @ ''='' @ to_string_phase_state (pr_state p) @ ''/'' @
              to_string_status_code (pr_last_status p)) (pp_order (cs_plan s))))"

definition no_progress ::
  "runtime_host \<Rightarrow> nat \<Rightarrow> session_id \<Rightarrow> runtime \<Rightarrow> runtime \<times> compile_outcome result" where
  "no_progress host ceiling sid r =
     (let detail = no_progress_detail ceiling sid r;
          r1 = (case rt_find sid r of
              None \<Rightarrow> r
            | Some s \<Rightarrow>
                let s1 = s\<lparr>cs_state := SS_failed, cs_failure_detail := detail\<rparr>
                in fst (persist host s1 (put_session sid s1 r)))
      in (r1, Inl (Status SC_internal_error detail)))"

definition complete_outcome :: "session_id \<Rightarrow> compile_outcome \<Rightarrow> runtime \<Rightarrow> compile_outcome result" where
  "complete_outcome sid outcome r =
     (case rt_find sid r of
        None \<Rightarrow> Inl (Status SC_not_found ''session disappeared at completion'')
      | Some s \<Rightarrow>
        let o1 = (if cs_candidate_present s
              then outcome\<lparr>co_candidate := cs_candidate s, co_intermediates := cs_intermediates s,
                co_lineage_digest := fc_lineage_digest (cs_candidate s)\<rparr> else outcome)
        in Inr (o1\<lparr>co_diagnostics := (case final_phase s of Some p \<Rightarrow> pr_diagnostics p | None \<Rightarrow> ref_absent),
             co_compiler_nanos := foldl (\<lambda>n report. n + rr_compiler_nanos report) (co_compiler_nanos o1) (co_phases o1),
             co_governance_nanos := foldl (\<lambda>n report. n + rr_governance_nanos report) (co_governance_nanos o1) (co_phases o1),
             co_evidence := (case adapter_find_by_name (cs_adapter_name s) (rt_adapters r) of
               Some adapter \<Rightarrow> dsc_evidence_class (ad_describe adapter) | None \<Rightarrow> EC_unknown)\<rparr>))"

text \<open>
  The results of a batch, in the order of the batch: the first that is an error ends the run;
  otherwise the outcome, and whether some phase did not commit.
\<close>

fun batch_outcome :: "phase_run_report result list \<Rightarrow> compile_outcome \<Rightarrow> bool \<Rightarrow> (compile_outcome \<times> bool) result" where
  "batch_outcome [] outcome stalled = Inr (outcome, stalled)"
| "batch_outcome (Inl e # results) outcome stalled = Inl e"
| "batch_outcome (Inr report # results) outcome stalled =
     (let o1 = outcome\<lparr>co_phases := co_phases outcome @ [report]\<rparr>
      in if report_committed report then batch_outcome results o1 stalled
         else batch_outcome results (o1\<lparr>co_status := rr_status report, co_detail := rr_detail report\<rparr>) True)"

text \<open>
  \<open>workers round batch r\<close> is what the threads of a round leave behind and report: how the runs of
  the phases interleave is the scheduler's. With one phase in the batch there is one thread, which
  is the run of the phase itself.
\<close>

definition run_batch ::
  "run_hosts \<Rightarrow> (phase_id list \<Rightarrow> runtime \<Rightarrow> runtime \<times> phase_run_report result list) \<Rightarrow> session_id \<Rightarrow> phase_id list \<Rightarrow>
   runtime \<Rightarrow> runtime \<times> phase_run_report result list" where
  "run_batch hosts workers sid batch r =
     (case batch of
        [pid] \<Rightarrow> (case run_phase hosts sid pid False r of (r1, x) \<Rightarrow> (r1, [x]))
      | _ \<Rightarrow> workers batch r)"

text \<open>
  The loop, with the number of scheduling rounds left before the ceiling; no outcome when the
  ceiling is reached.
\<close>

fun session_rounds ::
  "(nat \<Rightarrow> run_hosts) \<Rightarrow> (nat \<Rightarrow> phase_id list \<Rightarrow> runtime \<Rightarrow> runtime \<times> phase_run_report result list) \<Rightarrow> session_id \<Rightarrow>
   nat \<Rightarrow> nat \<Rightarrow> nat \<Rightarrow> compile_outcome \<Rightarrow> runtime \<Rightarrow> runtime \<times> compile_outcome result option" where
  "session_rounds hosts workers sid limit ceiling 0 outcome r = (r, None)"
| "session_rounds hosts workers sid limit ceiling (Suc n) outcome r =
     (let host = ho_schedule (hosts (ceiling - n)) in
      case schedule_round host sid outcome r of
        (r1, Sched_stop answer) \<Rightarrow> (r1, Some answer)
      | (r1, Sched_complete) \<Rightarrow> (r1, Some (complete_outcome sid outcome r1))
      | (r1, Sched_run ready) \<Rightarrow>
          (case run_batch (hosts (ceiling - n)) (workers (ceiling - n)) sid (take (min limit (length ready)) ready) r1 of
             (r2, results) \<Rightarrow>
               (case batch_outcome results outcome False of
                  Inl e \<Rightarrow> (r2, Some (Inl e))
                | Inr (o1, stalled) \<Rightarrow>
                    if stalled then (fail_active_session host sid (co_detail o1) r2, Some (Inr o1))
                    else session_rounds hosts workers sid limit ceiling n o1 r2)))"

definition run_session ::
  "(nat \<Rightarrow> run_hosts) \<Rightarrow> (nat \<Rightarrow> phase_id list \<Rightarrow> runtime \<Rightarrow> runtime \<times> phase_run_report result list) \<Rightarrow> session_id \<Rightarrow>
   runtime \<Rightarrow> runtime \<times> compile_outcome result" where
  "run_session hosts workers sid r =
     (case rt_find sid r of
        None \<Rightarrow> (r, Inl (Status SC_not_found (''session is not registered: '' @ id_to_string ''session'' sid)))
      | Some s \<Rightarrow>
          let ceiling = iteration_ceiling s r in
          (case session_rounds hosts workers sid (parallel_limit sid r) ceiling ceiling
              (compile_outcome_default\<lparr>co_session := Ref sid gen_absent\<rparr>) r of
             (r1, Some answer) \<Rightarrow> (r1, answer)
           | (r1, None) \<Rightarrow> no_progress (ho_schedule (hosts (Suc ceiling))) ceiling sid r1))"

definition set_executor :: "phase_executor option \<Rightarrow> runtime \<Rightarrow> runtime" where
  "set_executor executor r = r\<lparr>rt_executor := executor\<rparr>"

section \<open>Sequences of sections evolve like their parts\<close>

lemma rt_try_keeps:
  assumes "runtime_keeps g r (fst m)" "\<And>r' v. m = (r', Inr v) \<Longrightarrow> runtime_keeps g r' (fst (k r' v))"
  shows "runtime_keeps g r (fst (rt_try m k))"
  using assms by (auto simp: rt_try_def split: prod.split sum.split intro: runtime_evolution.evolves_trans)

lemma rt_pure_keeps [simp, intro]: "runtime_keeps g r (fst (rt_pure r x))"
  by (simp add: rt_pure_def runtime_evolution.evolves_refl)

lemma rt_pure_state [simp]: "fst (rt_pure r x) = r"
  by (simp add: rt_pure_def)

lemma intern_quiet [intro]:
  "quiet r (fst (intern_target spec r))" "quiet r (fst (intern_policy pol r))" "quiet r (fst (intern_environment host env r))"
  using reg_intern_ok [of target_validate target_canonical_digest "rt_targets r" spec]
    reg_intern_ok [of policy_validate policy_canonical_digest "rt_policies r" pol]
  by (auto simp: intern_target_def intern_policy_def intern_environment_def target_intern_def policy_intern_def
      case_prod_beta tables_ok_def authority_evolution.evolves_refl intro!: quiet_tables)

lemma add_source_quiet [intro]:
  "quiet r (fst (add_source px path r))" "quiet r (fst (sources_add_inline px name contents r))"
  using source_add_ok [of "rt_sources r"] source_add_from_bytes_ok [of "rt_sources r"]
  by (auto simp: add_source_def sources_add_inline_def case_prod_beta tables_ok_def authority_evolution.evolves_refl
      intro!: quiet_tables)

lemma admit_paths_quiet [intro]: "quiet r (fst (admit_paths px paths r))"
  by (induction px paths r rule: admit_paths.induct)
    (auto intro!: rt_try_keeps simp: runtime_evolution.evolves_refl)

lemma admit_inline_quiet [intro]: "quiet r (fst (admit_inline px inline r))"
  by (induction px inline r rule: admit_inline.induct)
    (auto intro!: rt_try_keeps simp: runtime_evolution.evolves_refl)

lemma stage_sources_quiet [intro]: "quiet r (fst (stage_sources host sh sid offset i inline admitted r))"
  by (induction host sh sid offset i inline admitted r rule: stage_sources.induct)
    (auto intro!: rt_try_keeps simp: runtime_evolution.evolves_refl)

lemma remap_plan_quiet [intro]: "quiet r (fst (remap_plan local r))"
  by (auto simp: remap_plan_def case_prod_beta tables_ok_def authority_evolution.evolves_refl intro!: quiet_tables)

lemma resolve_request_quiet: "quiet r (fst (resolve_request host sh q r))"
  unfolding resolve_request_def
  by (auto split: option.split intro!: rt_try_keeps simp: runtime_evolution.evolves_refl)

text \<open>A new session is well-formed: its phases are pending under the identities of the plan.\<close>

lemma um_all_foldl_emplace:
  assumes "\<And>x. P (f x) (g x)" "um_ok m" "um_all P m"
  shows "um_ok (foldl (\<lambda>m x. um_emplace (f x) (g x) m) m xs) \<and> um_all P (foldl (\<lambda>m x. um_emplace (f x) (g x) m) m xs)"
  using assms(2,3)
proof (induction xs arbitrary: m)
  case (Cons x xs)
  then show ?case using assms(1) by (simp add: um_ok_emplace um_all_emplace)
qed simp

lemma pending_phase_ok: "phase_ok (pending_record ag nd)"
  by (simp add: phase_ok_def history_ok_def pending_record_def phase_record_default_def kMaxPhaseTransitions_def
      kMaxPhaseAttempts_def)

lemma new_session_ok: "session_ok (new_session host q basis sid attempt sources r)"
proof -
  have "um_ok (pending_phases ag nodes) \<and> um_all (\<lambda>k p. id_value (pr_id p) = k \<and> phase_ok p) (pending_phases ag nodes)"
    for ag nodes
    unfolding pending_phases_def
    by (rule um_all_foldl_emplace) (simp_all add: pending_phase_ok um_ok_def um_all_def, simp add: pending_record_def)
  then show ?thesis by (simp add: session_ok_def new_session_def Let_def)
qed

lemma sessions_ok_next: "sessions_ok m a \<Longrightarrow> sessions_ok m (snd (alloc_next a))"
  using below_next [of _ a] by (fastforce simp: sessions_ok_def id_table_ok_def)

lemma register_session_quiet:
  assumes "session_ok s"
  shows "quiet r (fst (register_session host s basis r))"
proof -
  let ?r0 = "r\<lparr>rt_session_ids := alloc_observe (cs_id s) (rt_session_ids r)\<rparr>"
  let ?r1 = "fst (cancel_flag (cs_id s) ?r0)"
  let ?emplace = "\<lambda>r2. r2\<lparr>rt_sessions := um_emplace (id_value (cs_id s)) s (rt_sessions r2)\<rparr>"
  have r1: "quiet r ?r1" by (rule runtime_evolution.evolves_trans [OF observe_quiet cancel_flag_quiet])
  have "quiet r2 (?emplace r2)" if "persist host s ?r1 = (r2, x)" for r2 x
  proof (cases "um_find (rt_sessions r2) (id_value (cs_id s))")
    case None
    have "rt_session_ids r2 = alloc_observe (cs_id s) (rt_session_ids r)"
      using persist_fields(2) [of host s ?r1] that by simp
    with None assms show ?thesis by (intro emplace_quiet)
  next
    case (Some old)
    then have "?emplace r2 = r2" by (simp add: um_emplace_def um_find_def)
    then show ?thesis by (simp add: runtime_evolution.evolves_refl)
  qed
  then show ?thesis
    unfolding register_session_def Let_def
    by (intro rt_try_keeps) (auto intro: runtime_evolution.evolves_trans [OF r1 persist_quiet]
        runtime_evolution.evolves_trans [OF _ note_evidence_quiet])
qed

lemma create_session_quiet: "quiet r (fst (create_session host sh q r))"
proof -
  have ids: "quiet r1 (r1\<lparr>rt_session_ids := snd (alloc_next (rt_session_ids r1))\<rparr>)" for r1
    by (simp add: runtime_keeps_def sessions_evolution.evolves_refl authority_evolution.evolves_refl
        sessions_ok_next tables_ok_def)
  have draw: "quiet r1 (snd (draw_attempt q (r1\<lparr>rt_session_ids := snd (alloc_next (rt_session_ids r1))\<rparr>)))" for r1
    by (rule runtime_evolution.evolves_trans [OF ids])
      (auto simp: draw_attempt_def case_prod_beta runtime_evolution.evolves_refl tables_ok_def
        authority_evolution.evolves_refl intro!: quiet_tables)
  have "quiet r1 (fst (stage_sources host sh sid n 0 inline admitted
      (snd (draw_attempt q (r1\<lparr>rt_session_ids := snd (alloc_next (rt_session_ids r1))\<rparr>)))))" for r1 sid n inline admitted
    by (rule runtime_evolution.evolves_trans [OF draw stage_sources_quiet])
  then show ?thesis
    unfolding create_session_def
    by (auto simp: runtime_evolution.evolves_refl case_prod_beta intro!: rt_try_keeps resolve_request_quiet
        register_session_quiet new_session_ok)
qed

text \<open>The run of a phase.\<close>

lemma reproducibility_verify_quiet: "quiet r (fst (reproducibility_verify host rv primary r))"
proof -
  have ws: "quiet r (r\<lparr>rt_workspaces := wm\<rparr>)" for wm
    by (rule quiet_tables) (simp_all add: tables_ok_def authority_evolution.evolves_refl)
  have "quiet r1 (fst (execute_second_run host rv primary w adapter r1))" for r1 w adapter
    unfolding execute_second_run_def
    by (intro rt_try_keeps) (auto simp: runtime_evolution.evolves_refl split: option.split sum.split intro: note_evidence_quiet)
  then show ?thesis
    by (auto simp: reproducibility_verify_def runtime_evolution.evolves_refl ws split: option.split prod.split sum.split
        intro: runtime_evolution.evolves_trans [OF ws])
qed

lemma reject_divergent_quiet: "quiet r (fst (reject_divergent host sid pid e r))"
proof -
  have "phase_keeps False p (divergent_phase now e p)" for p now
    unfolding divergent_phase_def by (rule phase_keeps_transition_after) (simp_all add: same_lifecycle_def)
  then show ?thesis
    unfolding reject_divergent_def Let_def
    by (auto split: option.split intro!: quiet_persist quiet_puts
        simp: runtime_evolution.evolves_refl tables_ok_def revoke_phase_outputs_ok)
qed

lemma verify_outputs_quiet: "quiet r (fst (verify_outputs hosts sid pid rv execution r))"
proof -
  have "quiet r r1" if "reproducibility_verify host rv outs r = (r1, x)" for host outs r1 x
    using reproducibility_verify_quiet [of r host rv outs] that by simp
  then show ?thesis
    by (auto simp: verify_outputs_def runtime_evolution.evolves_refl split: prod.split sum.split
        intro!: rt_try_keeps runtime_evolution.evolves_trans [OF _ reject_divergent_quiet])
qed

lemma finish_phase_keeps: "runtime_keeps True r (fst (finish_phase hosts sid pid rv execution r))"
  unfolding finish_phase_def validate_and_commit_def
  by (intro rt_try_keeps keeps_weaken(4) [OF record_execution_quiet])
    (auto split: option.split simp: runtime_evolution.evolves_refl
      intro!: rt_try_keeps keeps_weaken(4) [OF verify_outputs_quiet] keeps_weaken(4) [OF validate_quiet] commit_reserved_keeps)

lemma run_phase_keeps: "runtime_keeps True r (fst (run_phase hosts sid pid is_retry r))"
proof -
  have "runtime_keeps True r r1" if "reserve host sid pid is_retry r = (r1, x)" for host r1 x
    using keeps_weaken(4) [OF reserve_quiet [of r host sid pid is_retry]] that by simp
  moreover have "runtime_keeps True r1 r2" if "execute_reserved host rv r1 = (r2, y)" for host rv r1 r2 y
    using keeps_weaken(4) [OF execute_quiet [of r1 host rv]] that by simp
  ultimately show ?thesis
    unfolding run_phase_def
    by (fastforce split: prod.split sum.split
        intro: runtime_evolution.evolves_trans [OF _ finish_phase_keeps] runtime_evolution.evolves_trans)
qed

lemma admit_retry_quiet: "quiet r (fst (admit_retry sid pid r))"
  unfolding admit_retry_def Let_def
  by (auto split: option.split intro!: quiet_put session_keeps_same
      simp: runtime_evolution.evolves_refl authority_evolution.evolves_refl)

lemma retry_phase_keeps: "runtime_keeps True r (fst (retry_phase hosts sid pid r))"
proof -
  have "runtime_keeps True r r1" if "admit_retry sid pid r = (r1, x)" for r1 x
    using keeps_weaken(4) [OF admit_retry_quiet [of r sid pid]] that by simp
  then show ?thesis
    unfolding retry_phase_def
    by (auto split: prod.split sum.split simp: runtime_evolution.evolves_refl
        intro!: rt_try_keeps runtime_evolution.evolves_trans [OF _ run_phase_keeps])
qed

text \<open>The run of a session, for workers that evolve the runtime.\<close>

lemma schedule_round_quiet: "quiet r (fst (schedule_round host sid outcome r))"
proof -
  have put: "quiet r (put_session sid (s\<lparr>cs_state := SS_active\<rparr>) r)"
    "quiet r (put_session sid (s\<lparr>cs_state := SS_failed, cs_failure_detail := d\<rparr>) (put_session sid (s\<lparr>cs_state := SS_active\<rparr>) r))"
    if "rt_find sid r = Some s" for s d
  proof -
    have one: "quiet r (put_session sid (s\<lparr>cs_state := SS_active\<rparr>) r)"
      using that by (intro quiet_put session_keeps_same) (auto simp: authority_evolution.evolves_refl)
    then show "quiet r (put_session sid (s\<lparr>cs_state := SS_active\<rparr>) r)" .
    have "quiet (put_session sid (s\<lparr>cs_state := SS_active\<rparr>) r)
        (put_session sid (s\<lparr>cs_state := SS_failed, cs_failure_detail := d\<rparr>) (put_session sid (s\<lparr>cs_state := SS_active\<rparr>) r))"
      using that by (intro quiet_put session_keeps_same) (auto simp: authority_evolution.evolves_refl)
    with one show "quiet r (put_session sid (s\<lparr>cs_state := SS_failed, cs_failure_detail := d\<rparr>)
        (put_session sid (s\<lparr>cs_state := SS_active\<rparr>) r))" by (rule runtime_evolution.evolves_trans)
  qed
  have stored: "fst (case persist host s r1 of (r2, Inl e) \<Rightarrow> (r2, Sched_stop (Inl e)) | (r2, Inr u) \<Rightarrow> (r2, v)) =
      fst (persist host s r1)" for s r1 v
    by (simp split: prod.split sum.split)
  from put show ?thesis
    unfolding schedule_round_def Let_def
    by (auto split: option.split simp: stored runtime_evolution.evolves_refl
        intro!: runtime_evolution.evolves_trans [OF _ persist_quiet])
qed

lemma fail_session_quiet:
  assumes "rt_find sid r = Some s"
  shows "quiet r (fst (persist host s' (put_session sid (s\<lparr>cs_state := x, cs_failure_detail := d\<rparr>) r)))"
  using assms
  by (intro runtime_evolution.evolves_trans [OF quiet_put persist_quiet] session_keeps_same)
    (auto simp: authority_evolution.evolves_refl)

lemma fail_active_session_quiet: "quiet r (fail_active_session host sid detail r)"
  by (auto simp: fail_active_session_def Let_def runtime_evolution.evolves_refl fail_session_quiet split: option.split)

lemma no_progress_quiet: "quiet r (fst (no_progress host ceiling sid r))"
  by (auto simp: no_progress_def Let_def runtime_evolution.evolves_refl fail_session_quiet split: option.split)

lemma run_batch_keeps:
  assumes "\<And>batch r. runtime_keeps True r (fst (workers batch r))"
  shows "runtime_keeps True r (fst (run_batch hosts workers sid batch r))"
  using assms run_phase_keeps [of r hosts sid] by (auto simp: run_batch_def case_prod_beta split: list.split)

lemma session_rounds_keeps:
  assumes "\<And>i batch r. runtime_keeps True r (fst (workers i batch r))"
  shows "runtime_keeps True r (fst (session_rounds hosts workers sid limit ceiling n outcome r))"
proof (induction n arbitrary: outcome r)
  case (Suc n)
  let ?host = "ho_schedule (hosts (ceiling - n))"
  obtain r1 what where round: "schedule_round ?host sid outcome r = (r1, what)" by fastforce
  have r1: "runtime_keeps True r r1"
    using keeps_weaken(4) [OF schedule_round_quiet [of r ?host sid outcome]] round by simp
  show ?case
  proof (cases what)
    case (Sched_run ready)
    obtain r2 results where batch: "run_batch (hosts (ceiling - n)) (workers (ceiling - n)) sid
        (take (min limit (length ready)) ready) r1 = (r2, results)" by fastforce
    have r2: "runtime_keeps True r r2"
      using r1 run_batch_keeps [of "workers (ceiling - n)" r1] assms batch runtime_evolution.evolves_trans
      by (metis fst_conv)
    then show ?thesis
      using Suc.IH round batch Sched_run r2 keeps_weaken(4) [OF fail_active_session_quiet]
      by (auto simp: Let_def split: sum.split intro: runtime_evolution.evolves_trans)
  qed (use round r1 in \<open>simp_all add: Let_def\<close>)
qed (simp add: runtime_evolution.evolves_refl)

lemma run_session_keeps:
  assumes "\<And>i batch r. runtime_keeps True r (fst (workers i batch r))"
  shows "runtime_keeps True r (fst (run_session hosts workers sid r))"
proof -
  have "runtime_keeps True r r1" if "session_rounds hosts workers sid l c n o1 r = (r1, x)" for l c n o1 r1 x
    using session_rounds_keeps [of workers, OF assms, of r hosts sid l c n o1] that by simp
  then show ?thesis
    unfolding run_session_def Let_def
    by (auto split: option.split prod.split simp: runtime_evolution.evolves_refl
        intro: runtime_evolution.evolves_trans [OF _ keeps_weaken(4) [OF no_progress_quiet]])
qed

end
