(* ===== verification/Runtime_Safety.thy ===== *)
theory Runtime_Safety
  imports Runtime_Session
begin

text \<open>
  What the operations of \<open>runtime.cpp\<close> guarantee together: the conditions under which a commit goes
  through and what it leaves behind, and the step relation of a runtime, whose steps are the
  critical sections in any order and from any thread.
\<close>

section \<open>What a commit needs\<close>

text \<open>The registry after the re-probe of the session's toolchain.\<close>

definition reprobed_toolchains :: "runtime_host \<Rightarrow> compiler_session \<Rightarrow> runtime \<Rightarrow> toolchain_registry" where
  "reprobed_toolchains host s r =
     (case (adapter_find_by_name (cs_adapter_name s) (rt_adapters r), toolchain_find (ref_id (cs_toolchain s)) (rt_toolchains r)) of
        (Some adapter, Some recorded) \<Rightarrow>
          (case ad_reprobe_toolchain adapter recorded (commit_probe_request r s recorded) of
             Inl _ \<Rightarrow> rt_toolchains r
           | Inr observed \<Rightarrow> fst (toolchain_refresh (rh_normal host) observed (rt_toolchains r)))
      | _ \<Rightarrow> rt_toolchains r)"

abbreviation reprobed :: "runtime_host \<Rightarrow> compiler_session \<Rightarrow> runtime \<Rightarrow> runtime" where
  "reprobed host s r \<equiv> r\<lparr>rt_toolchains := reprobed_toolchains host s r\<rparr>"

lemma observe_evidence [simp]:
  "toolchain_ref (r\<lparr>rt_evidence := ev\<rparr>) = toolchain_ref r" "source_ref (r\<lparr>rt_evidence := ev\<rparr>) = source_ref r"
  "observe (r\<lparr>rt_evidence := ev\<rparr>) s = observe r s"
proof -
  show refs: "toolchain_ref (r\<lparr>rt_evidence := ev\<rparr>) = toolchain_ref r" "source_ref (r\<lparr>rt_evidence := ev\<rparr>) = source_ref r"
    by (simp_all add: fun_eq_iff toolchain_ref_def source_ref_def)
  show "observe (r\<lparr>rt_evidence := ev\<rparr>) s = observe r s" by (simp add: observe_def refs)
qed

text \<open>The state a decision is taken in: the toolchains are re-probed, evidence may be noted.\<close>

definition decided_in :: "runtime \<Rightarrow> toolchain_registry \<Rightarrow> runtime \<Rightarrow> bool" where
  "decided_in r ts r1 = (\<exists>ev. r1 = r\<lparr>rt_toolchains := ts, rt_evidence := ev\<rparr>)"

lemma decided_in_same: "decided_in r (rt_toolchains r) r"
  unfolding decided_in_def by (rule exI [of _ "rt_evidence r"]) simp

lemma decided_in_refreshed: "decided_in r ts (r\<lparr>rt_toolchains := ts\<rparr>)"
  unfolding decided_in_def by (rule exI [of _ "rt_evidence r"]) simp

lemma decided_in_noted: "decided_in r ts (note_evidence host k d x (r\<lparr>rt_toolchains := ts\<rparr>))"
  unfolding decided_in_def note_evidence_def by auto

lemma decided_in_verdict:
  "decided_in r ts r1 \<Longrightarrow> commit_verdict host rv s p r1 = commit_verdict host rv s p (r\<lparr>rt_toolchains := ts\<rparr>)"
  by (auto simp: decided_in_def commit_verdict_def observe_phase_def)

lemma commit_reprobe_decides:
  "(\<exists>message. commit_reprobe host rv report s p r = fence_unprobed host rv s p message r) \<or>
   (\<exists>e. commit_reprobe host rv report s p r = (reprobed host s r, Inl e)) \<or>
   (\<exists>r1. decided_in r (reprobed_toolchains host s r) r1 \<and>
      commit_reprobe host rv report s p r = commit_decide host rv report s p r1)"
proof (cases "adapter_find_by_name (cs_adapter_name s) (rt_adapters r)")
  case None
  then show ?thesis
    using decided_in_same [of r] by (auto simp: commit_reprobe_def reprobed_toolchains_def)
next
  case (Some adapter)
  note adapter = this
  show ?thesis
  proof (cases "toolchain_find (ref_id (cs_toolchain s)) (rt_toolchains r)")
    case None
    then show ?thesis
      using adapter decided_in_same [of r] by (auto simp: commit_reprobe_def reprobed_toolchains_def)
  next
    case (Some recorded)
    show ?thesis
    proof (cases "ad_reprobe_toolchain adapter recorded (commit_probe_request r s recorded)")
      case (Inl e)
      then show ?thesis using adapter Some by (auto simp: commit_reprobe_def)
    next
      case (Inr observed)
      then show ?thesis
        using adapter Some decided_in_refreshed [of r] decided_in_noted [of r]
        by (fastforce simp: commit_reprobe_def reprobed_toolchains_def Let_def case_prod_beta split: sum.split prod.split)
    qed
  qed
qed

lemma fence_not_committed:
  "fence_unprobed host rv s p message r = (r', Inr rep) \<Longrightarrow> \<not> report_committed rep"
  "fence_stale host rv report verdict s p r = (r', Inr rep) \<Longrightarrow> \<not> report_committed rep"
  by (auto simp: fence_unprobed_def fence_stale_def Let_def persist_then_def report_committed_def
      phase_run_report_default_def split: prod.splits sum.splits)

text \<open>A committed answer comes from a publication, under a valid verdict.\<close>

lemma commit_reserved_published:
  assumes "commit_reserved host rv report r = (r', Inr rep)" "report_committed rep"
  obtains s p r1 where "rt_find (rv_session rv) r = Some s" "find_phase (rv_phase rv) s = Some p"
    "pr_state p = PS_commit_ready" "pr_generation p = rv_phase_generation rv" "pr_active_invocation p = rv_invocation rv"
    "commit_verdict host rv s p (reprobed host s r) = AV_valid"
    "decided_in r (reprobed_toolchains host s r) r1" "publish_commit host rv report s p r1 = (r', Inr rep)"
proof -
  obtain s p where s: "rt_find (rv_session rv) r = Some s" "find_phase (rv_phase rv) s = Some p"
    "pr_state p = PS_commit_ready" "pr_generation p = rv_phase_generation rv" "pr_active_invocation p = rv_invocation rv"
    and reprobe: "commit_reprobe host rv report s p r = (r', Inr rep)"
    using assms(1) by (auto simp: commit_reserved_def split: option.splits if_splits)
  obtain r1 where r1: "decided_in r (reprobed_toolchains host s r) r1"
    and decide: "commit_decide host rv report s p r1 = (r', Inr rep)"
    using commit_reprobe_decides [of host rv report s p r]
  proof (elim disjE exE conjE)
    fix message
    assume "commit_reprobe host rv report s p r = fence_unprobed host rv s p message r"
    then show thesis using reprobe assms(2) fence_not_committed(1) [of host rv s p message r r' rep] by simp
  next
    fix e
    assume "commit_reprobe host rv report s p r = (reprobed host s r, Inl e)"
    then show thesis using reprobe by simp
  next
    fix r1
    assume "decided_in r (reprobed_toolchains host s r) r1" "commit_reprobe host rv report s p r = commit_decide host rv report s p r1"
    then show thesis using reprobe that by simp
  qed
  have "commit_verdict host rv s p r1 = AV_valid"
    using decide assms(2) fence_not_committed(2)
    by (auto simp: commit_decide_def Let_def authority_verdict_is_current_def split: if_splits)
  moreover have "publish_commit host rv report s p r1 = (r', Inr rep)"
    using decide assms(2) fence_not_committed(2) by (auto simp: commit_decide_def Let_def split: if_splits)
  ultimately show thesis
    using s r1 decided_in_verdict [OF r1] by (intro that) auto
qed

text \<open>The bound authority matches what is current, the lease included.\<close>

lemma commit_verdict_valid:
  assumes "commit_verdict host rv s p r = AV_valid"
  shows "ref_present (au_lease (rv_authority rv)) \<Longrightarrow>
      pr_lease p = au_lease (rv_authority rv) \<and> lease_is_held (rh_now host) (pr_lease p) (rt_leases r)"
    "ref_present (au_toolchain (rv_authority rv)) \<Longrightarrow> toolchain_ref r (cs_toolchain s) = au_toolchain (rv_authority rv)"
    "session_state_admits_new_authority (cs_state s) \<or> cs_state s = SS_recovering"
proof -
  have "authority_current (rv_authority rv) ((observe_phase host r s p)\<lparr>ob_session_generation := au_session_generation (rv_authority rv)\<rparr>)"
    using assms by (simp add: commit_verdict_def compare_authority_valid)
  then show "ref_present (au_lease (rv_authority rv)) \<Longrightarrow>
      pr_lease p = au_lease (rv_authority rv) \<and> lease_is_held (rh_now host) (pr_lease p) (rt_leases r)"
    "ref_present (au_toolchain (rv_authority rv)) \<Longrightarrow> toolchain_ref r (cs_toolchain s) = au_toolchain (rv_authority rv)"
    "session_state_admits_new_authority (cs_state s) \<or> cs_state s = SS_recovering"
    by (auto simp: authority_current_def observe_phase_def observe_def ref_differs_iff)
qed

section \<open>What a commit leaves behind\<close>

lemma decided_in_fields:
  assumes "decided_in r ts r1"
  shows "rt_sessions r1 = rt_sessions r" "rt_session_ids r1 = rt_session_ids r" "rt_artifacts r1 = rt_artifacts r"
    "rt_leases r1 = rt_leases r" "rt_persistent r1 = rt_persistent r" "rt_journal r1 = rt_journal r"
    "rt_commit_total r1 = rt_commit_total r" "rt_commit_ids r1 = rt_commit_ids r"
  using assms by (auto simp: decided_in_def)

definition commit_done :: "reservation \<Rightarrow> runtime \<Rightarrow> phase_record \<Rightarrow> runtime \<Rightarrow> compiler_session \<Rightarrow> phase_record \<Rightarrow> bool" where
  "commit_done rv r p r' s' p' =
     (rt_find (rv_session rv) r' = Some s' \<and> find_phase (rv_phase rv) s' = Some p' \<and>
      pr_state p' = PS_committed \<and> pr_generation p' = pr_generation p \<and>
      pr_commit p' = fst (alloc_next (rt_commit_ids r)) \<and> pr_outputs p' = pr_outputs p \<and>
      rt_commit_total r' = rt_commit_total r + 1 \<and>
      (rt_persistent r \<longrightarrow> rt_journal r' = rt_journal r @ [s']) \<and>
      rt_leases r' = fst (lease_revoke (ref_id (pr_lease p)) ''phase committed'' (rt_leases r)))"

lemma publish_done:
  assumes "publish_commit host rv report s p r = (r', Inr rep)" "rt_find (rv_session rv) r = Some s"
    "find_phase (rv_phase rv) s = Some p" "pr_state p = PS_commit_ready"
  shows "\<exists>s' p'. commit_done rv r p r' s' p'"
proof -
  obtain provenance p1 s1 ready r1 where staged: "stage_commit host rv s p r = (provenance, p1, s1, ready, r1)"
    by (metis prod_cases5)
  note spec = stage_commit_spec [OF staged]
  have p1: "find_phase (rv_phase rv) s1 = Some p1" "pr_state p1 = PS_committed"
    using commit_projection_find [OF spec(2) assms(3)] spec(1) assms(4) by simp_all
  from staged show ?thesis
  proof (cases rule: publish_cases [where report = report])
    case (unpersisted e)
    then show ?thesis using assms(1) by simp
  next
    case (published r2 rep2)
    then have "published rv p s1 r1 r rep r'" using assms(1) by simp
    then have "commit_done rv r p r' s1 p1"
      using assms(2) p1 spec(1)
      by (auto simp: commit_done_def published_def rt_find_def um.find_modify)
    then show ?thesis by blast
  qed
qed

lemma commit_reserved_done:
  assumes "commit_reserved host rv report r = (r', Inr rep)" "report_committed rep"
  shows "\<exists>s p s' p'. rt_find (rv_session rv) r = Some s \<and> find_phase (rv_phase rv) s = Some p \<and>
    pr_state p = PS_commit_ready \<and> pr_generation p = rv_phase_generation rv \<and> pr_active_invocation p = rv_invocation rv \<and>
    commit_verdict host rv s p (reprobed host s r) = AV_valid \<and> commit_done rv r p r' s' p'"
proof -
  obtain s p r1 where s: "rt_find (rv_session rv) r = Some s" "find_phase (rv_phase rv) s = Some p"
    "pr_state p = PS_commit_ready" "pr_generation p = rv_phase_generation rv" "pr_active_invocation p = rv_invocation rv"
    "commit_verdict host rv s p (reprobed host s r) = AV_valid"
    and r1: "decided_in r (reprobed_toolchains host s r) r1" and pub: "publish_commit host rv report s p r1 = (r', Inr rep)"
    by (rule commit_reserved_published [OF assms])
  have "rt_find (rv_session rv) r1 = Some s" using s(1) decided_in_fields(1) [OF r1] by (simp add: rt_find_def)
  then obtain s' p' where "commit_done rv r1 p r' s' p'"
    using publish_done [OF pub] s by blast
  then have "commit_done rv r p r' s' p'" using decided_in_fields [OF r1] by (simp add: commit_done_def)
  with s show ?thesis by blast
qed

section \<open>Steps\<close>

text \<open>
  A step is one critical section, run by any thread at any time on any host of \<open>H\<close>; reservations,
  reports and evidence are whatever earlier sections, backends and adapters hand over. An adopted
  session has a well-formed phase table.
\<close>

inductive runtime_step :: "runtime_host set \<Rightarrow> runtime \<Rightarrow> runtime \<Rightarrow> bool" for H where
  create: "host \<in> H \<Longrightarrow> runtime_step H r (fst (create_session host sh q r))"
| adopt: "host \<in> H \<Longrightarrow> session_ok s \<Longrightarrow> runtime_step H r (fst (adopt_session host s r))"
| reserve: "host \<in> H \<Longrightarrow> runtime_step H r (fst (reserve host sid pid is_retry r))"
| prepare: "host \<in> H \<Longrightarrow> runtime_step H r (fst (prepare_execution host rv r))"
| note_process: "runtime_step H r (note_process rv report r)"
| record_report: "host \<in> H \<Longrightarrow> runtime_step H r (fst (record_execution host rv report r))"
| verify: "host \<in> H \<Longrightarrow> runtime_step H r (fst (reproducibility_verify host rv primary r))"
| reject: "host \<in> H \<Longrightarrow> runtime_step H r (fst (reject_divergent host sid pid e r))"
| validate: "host \<in> H \<Longrightarrow> runtime_step H r (fst (apply_validation host rv evidence r))"
| commit: "host \<in> H \<Longrightarrow> runtime_step H r (fst (commit_reserved host rv report r))"
| report: "host \<in> H \<Longrightarrow> runtime_step H r (fst (report_output host sid pid g i outputs process r))"
| fail: "host \<in> H \<Longrightarrow> runtime_step H r (fst (fail_phase host sid pid g failure code detail r))"
| retry: "runtime_step H r (fst (admit_retry sid pid r))"
| cancel: "host \<in> H \<Longrightarrow> runtime_step H r (fst (cancel_phase host sid pid reason r))"
| raise_flag: "runtime_step H r (raise_cancel_flag sid r)"
| end_session: "host \<in> H \<Longrightarrow> runtime_step H r (fst (end_session host sid state reason r))"
| retire: "host \<in> H \<Longrightarrow> runtime_step H r (fst (retire_session host sid reason r))"
| schedule: "host \<in> H \<Longrightarrow> runtime_step H r (fst (schedule_round host sid outcome r))"
| fail_session: "host \<in> H \<Longrightarrow> runtime_step H r (fail_active_session host sid detail r)"
| no_progress: "host \<in> H \<Longrightarrow> runtime_step H r (fst (no_progress host ceiling sid r))"
| plan_recovery: "runtime_step H r (fst (plan_recovery sid r))"
| recover: "host \<in> H \<Longrightarrow> runtime_step H r (fst (execute_recovery host sid plan r))"
| discover: "host \<in> H \<Longrightarrow> runtime_step H r (fst (discover_toolchain host family request r))"
| observe: "host \<in> H \<Longrightarrow> runtime_step H r (fst (observe_toolchain host kind observed r))"
| invalidate: "host \<in> H \<Longrightarrow> runtime_step H r (fst (invalidate_toolchain host tid reason r))"
| synthetic: "runtime_step H r (fst (register_synthetic_toolchain synthetic family name target r))"
| executor: "runtime_step H r (set_executor executor r)"
| close: "runtime_step H r (r\<lparr>rt_processes := supervisor_close (rt_processes r)\<rparr>)"
| fence_all: "host \<in> H \<Longrightarrow> runtime_step H r (shutdown_fence host r)"
| stop_processes: "runtime_step H r (shutdown_processes r)"
| stop_sessions: "host \<in> H \<Longrightarrow> runtime_step H r (shutdown_sessions host r)"
| cleanup: "host \<in> H \<Longrightarrow> runtime_step H r (shutdown_cleanup host r)"
| reopen: "runtime_step H r (reopen r)"

inductive_cases runtime_stepE: "runtime_step H r r'"

abbreviation runtime_steps :: "runtime_host set \<Rightarrow> runtime \<Rightarrow> runtime \<Rightarrow> bool" where
  "runtime_steps H \<equiv> (runtime_step H)\<^sup>*\<^sup>*"

lemma set_executor_quiet: "quiet r (set_executor executor r)"
  by (rule quiet_tables) (simp_all add: set_executor_def tables_ok_def authority_evolution.evolves_refl)

lemma close_quiet: "quiet r (r\<lparr>rt_processes := supervisor_close (rt_processes r)\<rparr>)"
  by (rule quiet_tables) (simp_all add: tables_ok_def authority_evolution.evolves_refl)

lemmas quiet_sections = create_session_quiet adopt_session_quiet reserve_quiet prepare_quiet note_process_quiet
  record_execution_quiet reproducibility_verify_quiet reject_divergent_quiet validation_quiet report_output_quiet
  fail_phase_quiet admit_retry_quiet cancel_phase_quiet raise_cancel_flag_quiet end_session_quiet retire_session_quiet
  schedule_round_quiet fail_active_session_quiet no_progress_quiet plan_recovery_quiet execute_recovery_quiet
  discover_toolchain_quiet observe_toolchain_quiet invalidate_toolchain_quiet register_synthetic_quiet
  set_executor_quiet close_quiet shutdown_fence_quiet shutdown_processes_quiet shutdown_sessions_quiet
  shutdown_cleanup_quiet reopen_quiet

text \<open>Every section but the commit is quiet.\<close>

lemma runtime_step_cases [consumes 1, case_names quiet commit]:
  assumes "runtime_step H r r'"
  obtains "quiet r r'"
  | host rv report where "host \<in> H" "r' = fst (commit_reserved host rv report r)"
  using assms by (cases rule: runtime_step.cases) (auto intro: quiet_sections)

lemma runtime_step_keeps: "runtime_step H r r' \<Longrightarrow> runtime_keeps True r r'"
  by (cases rule: runtime_step_cases) (auto intro: keeps_weaken(4) commit_reserved_keeps)

lemma runtime_steps_keeps: "runtime_steps H r r' \<Longrightarrow> runtime_keeps True r r'"
  by (rule runtime_evolution.evolves_rtranclp [OF _ runtime_step_keeps])

section \<open>The operations are sequences of steps\<close>

text \<open>An operation that spans several sections refines the step relation.\<close>

definition hosts_in :: "runtime_host set \<Rightarrow> run_hosts \<Rightarrow> bool" where
  "hosts_in H hosts =
     ({ho_reserve hosts, ho_execute hosts, ho_record hosts, ho_verify hosts, ho_validate hosts, ho_commit hosts,
       ho_schedule hosts} \<subseteq> H)"

lemma hosts_inD: "hosts_in H hosts \<Longrightarrow> ho_reserve hosts \<in> H \<and> ho_execute hosts \<in> H \<and> ho_record hosts \<in> H \<and>
    ho_verify hosts \<in> H \<and> ho_validate hosts \<in> H \<and> ho_commit hosts \<in> H \<and> ho_schedule hosts \<in> H"
  by (simp add: hosts_in_def)

lemma rt_try_steps:
  assumes "runtime_steps H r (fst m)" "\<And>r' v. m = (r', Inr v) \<Longrightarrow> runtime_steps H r' (fst (k r' v))"
  shows "runtime_steps H r (fst (rt_try m k))"
  using assms by (auto simp: rt_try_def split: prod.split sum.split intro: rtranclp_trans)

lemmas step_intros = runtime_step.intros [THEN r_into_rtranclp [where r = "runtime_step H" for H]]

lemma execute_reserved_steps:
  assumes "host \<in> H"
  shows "runtime_steps H r (fst (execute_reserved host rv r))"
proof -
  obtain r1 x where prepared: "prepare_execution host rv r = (r1, x)" by fastforce
  have "runtime_steps H r r1" using step_intros(4) [OF assms, of r rv] prepared by simp
  then show ?thesis
    using rtranclp_trans [OF _ step_intros(5)]
    by (auto simp: execute_reserved_def prepared split: sum.split option.split)
qed

lemma validate_steps:
  assumes "host \<in> H"
  shows "runtime_steps H r (fst (validate_phase_outputs host rv r))"
  using assms by (auto simp: validate_phase_outputs_def split: sum.split prod.split intro: step_intros)

lemma verify_outputs_steps:
  assumes "hosts_in H hosts"
  shows "runtime_steps H r (fst (verify_outputs hosts sid pid rv execution r))"
proof -
  obtain r1 x where verified: "reproducibility_verify (ho_verify hosts) rv (er_outputs execution) r = (r1, x)" by fastforce
  have r1: "runtime_steps H r r1" using step_intros(7) [of "ho_verify hosts" H r rv] hosts_inD [OF assms] verified
    by (metis fst_conv)
  have "runtime_steps H r (fst (reject_divergent (ho_verify hosts) sid pid e r1))" for e
    using rtranclp_trans [OF r1 step_intros(8)] hosts_inD [OF assms] by blast
  with r1 show ?thesis
    by (auto simp: verify_outputs_def verified split: sum.split intro!: rt_try_steps)
qed

lemma finish_phase_steps:
  assumes "hosts_in H hosts"
  shows "runtime_steps H r (fst (finish_phase hosts sid pid rv execution r))"
  using hosts_inD [OF assms]
  unfolding finish_phase_def validate_and_commit_def
  by (auto split: option.split intro!: rt_try_steps validate_steps verify_outputs_steps [OF assms] step_intros(6,10))

lemma run_phase_steps:
  assumes "hosts_in H hosts"
  shows "runtime_steps H r (fst (run_phase hosts sid pid is_retry r))"
proof -
  obtain r1 x where reserved: "reserve (ho_reserve hosts) sid pid is_retry r = (r1, x)" by fastforce
  have r1: "runtime_steps H r r1"
    using step_intros(3) [of "ho_reserve hosts" H r sid pid is_retry] hosts_inD [OF assms] reserved by simp
  show ?thesis
  proof (cases x)
    case (Inr rv)
    obtain r2 rv2 y where executed: "execute_reserved (ho_execute hosts) rv r1 = (r2, rv2, y)" by (metis prod_cases3)
    have "runtime_steps H r1 r2"
      using execute_reserved_steps [of "ho_execute hosts" H r1 rv] hosts_inD [OF assms] executed by simp
    with r1 show ?thesis
      using finish_phase_steps [OF assms] reserved Inr executed by (auto simp: run_phase_def intro: rtranclp_trans)
  qed (use r1 reserved in \<open>simp add: run_phase_def\<close>)
qed

lemma retry_phase_steps:
  assumes "hosts_in H hosts"
  shows "runtime_steps H r (fst (retry_phase hosts sid pid r))"
proof -
  obtain r1 x where admitted: "admit_retry sid pid r = (r1, x)" by fastforce
  have "runtime_steps H r r1" using step_intros(13) [of H r sid pid] admitted by simp
  then show ?thesis
    using run_phase_steps [OF assms]
    by (auto simp: retry_phase_def admitted split: sum.split intro!: rt_try_steps intro: rtranclp_trans)
qed

lemma commit_phase_steps:
  assumes "host \<in> H"
  shows "runtime_steps H r (fst (commit_phase host sid pid g i r))"
proof -
  have "runtime_steps H r r1" "runtime_steps H r (fst (commit_reserved host rv report r1))"
    if "validate_phase_outputs host rv r = (r1, x)" for rv report r1 x
    using validate_steps [OF assms, of r rv] that rtranclp_trans [OF _ step_intros(10) [OF assms]] by auto
  then show ?thesis
    unfolding commit_phase_def Let_def by (auto split: sum.split prod.split)
qed

lemma foldl_steps:
  assumes "\<And>r x. runtime_steps H r (f r x)"
  shows "runtime_steps H r (foldl f r xs)"
proof (induction xs arbitrary: r)
  case (Cons x xs)
  then show ?case using assms [of r x] by (auto intro: rtranclp_trans)
qed simp

lemma cancel_session_steps:
  assumes "host \<in> H"
  shows "runtime_steps H r (fst (cancel_session host sid reason r))"
proof -
  have "runtime_steps H r (foldl (\<lambda>r pid. fst (cancel_phase host sid pid reason r)) (raise_cancel_flag sid r) pids)" for pids
    using assms by (intro rtranclp_trans [OF step_intros(15) foldl_steps] step_intros(14))
  then show ?thesis
    unfolding cancel_session_def Let_def
    by (auto split: option.split intro: step_intros(15) rtranclp_trans [OF _ step_intros(16) [OF assms]])
qed

lemma apply_recovery_steps:
  assumes "host \<in> H"
  shows "runtime_steps H r (fst (apply_recovery host sid r))"
proof -
  obtain r1 x where planned: "plan_recovery sid r = (r1, x)" by fastforce
  have "runtime_steps H r r1" using step_intros(21) [of H r sid] planned by simp
  then show ?thesis
    using rtranclp_trans [OF _ step_intros(22) [OF assms]] by (auto simp: apply_recovery_def planned split: sum.split)
qed

lemma shutdown_steps:
  assumes "host \<in> H"
  shows "runtime_steps H r (shutdown host r)"
  unfolding shutdown_def
  using assms by (auto intro!: step_intros(28) rtranclp_trans [OF step_intros(29) rtranclp_trans
      [OF step_intros(30) rtranclp_trans [OF step_intros(31) step_intros(32)]]])

lemma run_session_steps:
  assumes "\<And>i. hosts_in H (hosts i)" "\<And>i batch r. runtime_steps H r (fst (workers i batch r))"
  shows "runtime_steps H r (fst (run_session hosts workers sid r))"
proof -
  have host: "ho_schedule (hosts i) \<in> H" for i using hosts_inD [OF assms(1)] by simp
  have batches: "runtime_steps H r (fst (run_batch (hosts i) (workers i) sid batch r))" for i batch r
    using assms(2) run_phase_steps [OF assms(1)] by (auto simp: run_batch_def case_prod_beta split: list.split)
  have rounds: "runtime_steps H r (fst (session_rounds hosts workers sid limit ceiling n outcome r))" for limit ceiling n outcome r
  proof (induction n arbitrary: outcome r)
    case (Suc n)
    let ?host = "ho_schedule (hosts (ceiling - n))"
    obtain r1 what where round: "schedule_round ?host sid outcome r = (r1, what)" by fastforce
    have r1: "runtime_steps H r r1" using step_intros(18) [OF host, of r "ceiling - n" sid outcome] round by simp
    show ?case
    proof (cases what)
      case (Sched_run ready)
      obtain r2 results where batch: "run_batch (hosts (ceiling - n)) (workers (ceiling - n)) sid
          (take (min limit (length ready)) ready) r1 = (r2, results)" by fastforce
      have "runtime_steps H r r2" using r1 batches [of r1 "ceiling - n"] batch by (metis fst_conv rtranclp_trans)
      then show ?thesis
        using Suc.IH round batch Sched_run step_intros(19) [OF host]
        by (auto simp: Let_def split: sum.split intro: rtranclp_trans)
    qed (use round r1 in \<open>simp_all add: Let_def\<close>)
  qed simp
  then have "runtime_steps H r r1" if "session_rounds hosts workers sid l c n o1 r = (r1, x)" for l c n o1 r1 x
    using that by (metis fst_conv)
  then show ?thesis
    unfolding run_session_def Let_def
    by (auto split: option.split prod.split intro: rtranclp_trans [OF _ step_intros(20) [OF host]])
qed

section \<open>Every authoritative artifact has a commit\<close>

text \<open>An artifact is granted by a phase that committed it; the session may have been retired since.\<close>

definition granted :: "runtime \<Rightarrow> artifact_id \<Rightarrow> bool" where
  "granted r i =
     (\<exists>sid s pid p. rt_find sid r = Some s \<and> find_phase pid s = Some p \<and>
        (pr_state p = PS_committed \<or> pr_state p = PS_retired) \<and> i \<in> ref_id ` set (pr_outputs p))"

definition grounded :: "runtime \<Rightarrow> bool" where
  "grounded r = (\<forall>i. authoritative (rt_artifacts r) i \<longrightarrow> granted r i)"

text \<open>What happens to a phase when the runtime evolves.\<close>

lemma runtime_keeps_phase:
  assumes "runtime_keeps g r r'" "rt_find sid r = Some s" "find_phase pid s = Some p"
  shows "\<exists>s' p'. rt_find sid r' = Some s' \<and> find_phase pid s' = Some p' \<and> phase_keeps g p p'"
proof -
  obtain s' where s': "rt_find sid r' = Some s'" "session_keeps g s s'"
    using assms(1,2) by (auto simp: runtime_keeps_def sessions_keep_def rt_find_def)
  then have "rel_option (phase_keeps g) (find_phase pid s) (find_phase pid s')"
    by (simp add: session_keeps_def find_phase_def)
  with assms(3) obtain p' where "find_phase pid s' = Some p'" "phase_keeps g p p'"
    by (cases "find_phase pid s'") auto
  with s' show ?thesis by blast
qed

lemma granted_kept:
  assumes "runtime_keeps g r r'" "granted r i"
  shows "granted r' i"
proof -
  obtain sid s pid p where p: "rt_find sid r = Some s" "find_phase pid s = Some p"
    "pr_state p = PS_committed \<or> pr_state p = PS_retired" "i \<in> ref_id ` set (pr_outputs p)"
    using assms(2) by (auto simp: granted_def)
  obtain s' p' where p': "rt_find sid r' = Some s'" "find_phase pid s' = Some p'" "phase_keeps g p p'"
    using runtime_keeps_phase [OF assms(1) p(1,2)] by blast
  have "pr_state p' = PS_committed \<or> pr_state p' = PS_retired"
    using p(3) by (rule disjE) (use p'(3) in \<open>simp_all add: phase_keeps_def\<close>)
  moreover have "settled p" using p(3) by (auto simp: settled_def withdrawn_def)
  then have "set (pr_outputs p) \<subseteq> set (pr_outputs p')" using p'(3) by (simp add: phase_keeps_def)
  ultimately show ?thesis using p(4) p'(1,2) unfolding granted_def by blast
qed

lemma grounded_quiet:
  assumes "quiet r r'" "grounded r"
  shows "grounded r'"
  using assms granted_kept [OF assms(1)] by (auto simp: grounded_def runtime_keeps_def no_new_authority_def)

lemma reprobed_toolchains_ok: "toolchain_ok (rt_toolchains r) \<Longrightarrow> toolchain_ok (reprobed_toolchains host s r)"
  by (simp add: reprobed_toolchains_def toolchain_refresh_ok split: option.split sum.split)

lemma commit_reserved_reaches:
  "fst (commit_reserved host rv report r) = r \<or>
   (\<exists>s p. rt_find (rv_session rv) r = Some s \<and> find_phase (rv_phase rv) s = Some p \<and>
      pr_state p = PS_commit_ready \<and> commit_reserved host rv report r = commit_reprobe host rv report s p r)"
  by (simp add: commit_reserved_def split: option.split)

text \<open>A commit that does not publish is quiet.\<close>

lemma commit_reserved_cases [case_names quiet published]:
  obtains "quiet r (fst (commit_reserved host rv report r))"
  | s p r1 where "rt_find (rv_session rv) r = Some s" "find_phase (rv_phase rv) s = Some p" "pr_state p = PS_commit_ready"
    "decided_in r (reprobed_toolchains host s r) r1"
    "commit_reserved host rv report r = publish_commit host rv report s p r1"
proof (cases "fst (commit_reserved host rv report r) = r")
  case True
  then show thesis using that(1) by (simp add: runtime_evolution.evolves_refl)
next
  case False
  then obtain s p where s: "rt_find (rv_session rv) r = Some s" "find_phase (rv_phase rv) s = Some p"
    "pr_state p = PS_commit_ready" and reprobe: "commit_reserved host rv report r = commit_reprobe host rv report s p r"
    using commit_reserved_reaches [of host rv report r] by blast
  have toolchains: "quiet r (reprobed host s r)"
    by (rule toolchains_quiet) (rule reprobed_toolchains_ok)
  show thesis
    using commit_reprobe_decides [of host rv report s p r]
  proof (elim disjE exE conjE)
    fix message
    assume "commit_reprobe host rv report s p r = fence_unprobed host rv s p message r"
    then show thesis using that(1) reprobe fence_unprobed_quiet [OF _ s(2,1), of host message] s(3) by simp
  next
    fix e
    assume "commit_reprobe host rv report s p r = (reprobed host s r, Inl e)"
    then show thesis using that(1) reprobe toolchains by simp
  next
    fix r1
    assume r1: "decided_in r (reprobed_toolchains host s r) r1" and
      decide: "commit_reprobe host rv report s p r = commit_decide host rv report s p r1"
    show thesis
    proof (cases "authority_verdict_is_current (commit_verdict host rv s p r1)")
      case True
      then show thesis using that(2) [OF s r1] reprobe decide by (simp add: commit_decide_def Let_def)
    next
      case False
      have "rt_find (rv_session rv) r1 = Some s" using s(1) decided_in_fields(1) [OF r1] by (simp add: rt_find_def)
      then have "quiet r1 (fst (commit_decide host rv report s p r1))"
        using False s fence_stale_quiet by (simp add: commit_decide_def Let_def)
      moreover have "quiet r r1"
        using r1 reprobed_toolchains_ok [of r host s]
        by (auto simp: decided_in_def tables_ok_def authority_evolution.evolves_refl intro!: quiet_tables)
      ultimately show thesis
        using that(1) reprobe decide runtime_evolution.evolves_trans by metis
    qed
  qed
qed

lemma grounded_commit:
  assumes "\<And>s. rh_append host s = None" "grounded r"
  shows "grounded (fst (commit_reserved host rv report r))"
proof (cases rule: commit_reserved_cases [of r host rv report])
  case quiet
  then show ?thesis using assms(2) by (rule grounded_quiet)
next
  case (published s p r1)
  let ?r' = "fst (publish_commit host rv report s p r1)"
  note same = decided_in_fields [OF published(4)]
  have find: "rt_find (rv_session rv) r1 = Some s" using published(1) same(1) by (simp add: rt_find_def)
  obtain provenance p1 s1 ready r2 where staged: "stage_commit host rv s p r1 = (provenance, p1, s1, ready, r2)"
    by (metis prod_cases5)
  from staged have "(\<exists>s' p'. commit_done rv r1 p ?r' s' p') \<and>
    (\<forall>i. authoritative (rt_artifacts ?r') i \<longrightarrow> authoritative (rt_artifacts r2) i)"
  proof (cases rule: publish_cases [where report = report])
    case (published r3 rep)
    then show ?thesis
      using publish_done [of host rv report s p r1 r3 rep] find \<open>find_phase (rv_phase rv) s = Some p\<close> \<open>pr_state p = PS_commit_ready\<close>
      by (auto simp: published_def)
  qed (simp add: assms(1))
  then obtain s' p' where fin: "commit_done rv r1 p ?r' s' p'" and
    auth: "\<And>i. authoritative (rt_artifacts ?r') i \<Longrightarrow> authoritative (rt_artifacts r2) i" by blast
  have keeps: "runtime_keeps True r1 ?r'" using publish_keeps [OF find published(2,3)] .
  have "granted ?r' i" if "authoritative (rt_artifacts ?r') i" for i
  proof -
    have "authoritative (rt_artifacts r1) i \<or> i \<in> ref_id ` set (pr_outputs p)"
      using auth [OF that] stage_commit_spec(10) [OF staged] grant_outputs_new [of "pr_outputs p"]
      by (force simp: on_outputs_authoritative)
    then show ?thesis
    proof
      assume "authoritative (rt_artifacts r1) i"
      then have "granted r i" using assms(2) same(3) by (simp add: grounded_def)
      then have "granted r1 i" using same(1) by (simp add: granted_def rt_find_def)
      then show ?thesis by (rule granted_kept [OF keeps])
    next
      assume "i \<in> ref_id ` set (pr_outputs p)"
      then show ?thesis using fin unfolding granted_def commit_done_def by metis
    qed
  qed
  then show ?thesis using published(5) by (simp add: grounded_def)
qed

lemma grounded_steps:
  assumes "runtime_steps H r r'" "\<And>host s. host \<in> H \<Longrightarrow> rh_append host s = None" "grounded r"
  shows "grounded r'"
  using assms(1)
proof (induction rule: rtranclp_induct)
  case (step r1 r2)
  from step(2) show ?case
  proof (cases rule: runtime_step_cases)
    case quiet
    then show ?thesis using step.IH by (rule grounded_quiet)
  next
    case (commit host rv report)
    then show ?thesis using grounded_commit [OF assms(2) step.IH] by simp
  qed
qed (rule assms(3))

end
