(* ===== verification/Runtime_Progress.thy ===== *)
theory Runtime_Progress
  imports Runtime_Safety
begin

text \<open>
  The driver of \<open>src/core/runtime.cpp\<close> makes progress: a phase that is reported committed is
  committed in the state, every scheduling round settles a phase, and so \<open>run_session\<close> gives an
  outcome before its progress guard fires.
\<close>

section \<open>Reports are truthful\<close>

definition phase_is :: "(phase_record \<Rightarrow> bool) \<Rightarrow> session_id \<Rightarrow> phase_id \<Rightarrow> runtime \<Rightarrow> bool" where
  "phase_is P sid pid r =
     (case rt_find sid r of None \<Rightarrow> False
      | Some s \<Rightarrow> (case find_phase pid s of None \<Rightarrow> False | Some p \<Rightarrow> P p))"

lemma phase_is_mono: "phase_is P sid pid r \<Longrightarrow> (\<And>p. P p \<Longrightarrow> Q p) \<Longrightarrow> phase_is Q sid pid r"
  by (auto simp: phase_is_def split: option.splits)

lemma phase_status_committed:
  "rr_state (phase_status_report sid pid r) = PS_committed \<Longrightarrow> phase_is phase_committed sid pid r"
  by (auto simp: phase_status_report_def phase_is_def report_of_def phase_run_report_default_def phase_committed_def
      split: option.splits)

lemma reserve_names:
  assumes "reserve host sid pid is_retry r = (r1, Inr rv)"
  shows "rv_session rv = sid \<and> rv_phase rv = pid"
  using assms
  by (auto simp: reserve_def reserve_record_def persist_then_def Let_def case_prod_beta reservation_default_def
      split: if_splits option.splits sum.splits prod.splits)

lemma execute_reserved_names:
  assumes "execute_reserved host rv r = (r1, rv1, x)"
  shows "rv_session rv1 = rv_session rv \<and> rv_phase rv1 = rv_phase rv"
proof -
  have "rv_session rv2 = rv_session rv \<and> rv_phase rv2 = rv_phase rv" if "prepare_execution host rv r = (r2, Inr rv2)" for r2 rv2
    using that
    by (auto simp: prepare_execution_def persist_then_def Let_def split: if_splits option.splits sum.splits prod.splits)
  then show ?thesis
    using assms by (auto simp: execute_reserved_def split: prod.splits sum.splits option.splits)
qed

lemma rt_try_Inr:
  assumes "rt_try m k = (r', Inr v)"
  obtains r1 w where "m = (r1, Inr w)" "k r1 w = (r', Inr v)"
  using assms by (auto simp: rt_try_def split: prod.splits sum.splits)

lemma validate_and_commit_truthful:
  assumes "validate_and_commit hosts sid pid rv execution r = (r', Inr rep)" "report_committed rep"
    "rv_session rv = sid" "rv_phase rv = pid"
  shows "phase_is phase_committed sid pid r'"
proof -
  obtain r1 evidence where "validate_phase_outputs (ho_validate hosts) rv r = (r1, Inr evidence)" and
    next1: "(if \<not> ve_accepted evidence
       then (r1, Inr ((phase_status_report sid pid r1)\<lparr>rr_status := ve_refusal evidence, rr_detail := ve_detail evidence,
               rr_governance_nanos := elapsed hosts (ho_validate hosts)\<rparr>))
       else rt_try (commit_reserved (ho_commit hosts) rv execution r1) (\<lambda>r2 report.
         (r2, Inr (report\<lparr>rr_governance_nanos := elapsed hosts (ho_commit hosts),
            rr_compiler_nanos := duration_nanos (er_process execution)\<rparr>)))) = (r', Inr rep)"
    using assms(1) unfolding validate_and_commit_def by (rule rt_try_Inr)
  show ?thesis
  proof (cases "ve_accepted evidence")
    case False
    then show ?thesis
      using next1 assms(2) by (auto simp: report_committed_def dest!: phase_status_committed)
  next
    case True
    then obtain report where "commit_reserved (ho_commit hosts) rv execution r1 = (r', Inr report)" "report_committed report"
      using next1 assms(2) by (auto simp: rt_try_def report_committed_def split: prod.splits sum.splits)
    then show ?thesis
      using commit_reserved_done [of "ho_commit hosts" rv execution r1 r' report] assms(3,4)
      by (auto simp: phase_is_def commit_done_def phase_committed_def)
  qed
qed

lemma finish_phase_truthful:
  assumes "finish_phase hosts sid pid rv execution r = (r', Inr rep)" "report_committed rep"
    "rv_session rv = sid" "rv_phase rv = pid"
  shows "phase_is phase_committed sid pid r'"
proof -
  obtain r1 where next1: "(case failed_report hosts sid pid execution r1 of
         Some report \<Rightarrow> (r1, Inr report)
       | None \<Rightarrow>
           rt_try (verify_outputs hosts sid pid rv execution r1) (\<lambda>r2 stopped.
             case stopped of
               Some report \<Rightarrow> (r2, Inr report)
             | None \<Rightarrow> validate_and_commit hosts sid pid rv execution r2)) = (r', Inr rep)"
    using assms(1) unfolding finish_phase_def by (rule rt_try_Inr)
  have failed: "rr_state report = rr_state (phase_status_report sid pid r1)"
    if "failed_report hosts sid pid execution r1 = Some report" for report
    using that by (auto simp: failed_report_def split: option.splits if_splits)
  have stopped: "rr_state report = rr_state (phase_status_report sid pid r2)"
    if "verify_outputs hosts sid pid rv execution r1 = (r2, Inr (Some report))" for r2 report
    using that by (auto simp: verify_outputs_def rt_try_def split: if_splits prod.splits sum.splits)
  show ?thesis
  proof (cases "failed_report hosts sid pid execution r1")
    case (Some report)
    then show ?thesis
      using next1 assms(2) failed [OF Some] by (auto simp: report_committed_def intro!: phase_status_committed)
  next
    case None
    then obtain r2 w where "verify_outputs hosts sid pid rv execution r1 = (r2, Inr w)" "(case w of
        Some report \<Rightarrow> (r2, Inr report) | None \<Rightarrow> validate_and_commit hosts sid pid rv execution r2) = (r', Inr rep)"
      using next1 by (auto elim: rt_try_Inr)
    then show ?thesis
      using stopped validate_and_commit_truthful [OF _ assms(2-4)] assms(2)
      by (cases w) (auto simp: report_committed_def phase_status_committed)
  qed
qed

lemma run_phase_truthful:
  assumes "run_phase hosts sid pid is_retry r = (r', Inr rep)" "report_committed rep"
  shows "phase_is phase_committed sid pid r'"
proof (cases "reserve (ho_reserve hosts) sid pid is_retry r")
  case (Pair r1 x)
  show ?thesis
  proof (cases x)
    case (Inl e)
    then show ?thesis
      using assms Pair by (auto simp: run_phase_def report_committed_def dest!: phase_status_committed)
  next
    case (Inr rv)
    obtain r2 rv2 y where executed: "execute_reserved (ho_execute hosts) rv r1 = (r2, rv2, y)" by (metis prod_cases3)
    have "rv_session rv2 = sid" "rv_phase rv2 = pid"
      using reserve_names execute_reserved_names [OF executed] Pair Inr by auto
    then show ?thesis
      using finish_phase_truthful assms Pair Inr executed by (auto simp: run_phase_def)
  qed
qed

section \<open>Every round settles a phase\<close>

lemma phase_is_settled_kept:
  assumes "runtime_keeps g r r'" "phase_is settled sid pid r"
  shows "phase_is settled sid pid r'"
proof -
  obtain s p where p: "rt_find sid r = Some s" "find_phase pid s = Some p" "settled p"
    using assms(2) by (auto simp: phase_is_def split: option.splits)
  then obtain s' p' where "rt_find sid r' = Some s'" "find_phase pid s' = Some p'" "phase_keeps g p p'"
    using runtime_keeps_phase [OF assms(1)] by blast
  with p(3) show ?thesis by (simp add: phase_is_def phase_keeps_def)
qed

text \<open>
  The threads of a round evolve the runtime, and when all report a commit then every phase of the
  batch is settled. Running the phases of the batch one after the other is such a schedule.
\<close>

definition workers_ok ::
  "session_id \<Rightarrow> (phase_id list \<Rightarrow> runtime \<Rightarrow> runtime \<times> phase_run_report result list) \<Rightarrow> bool" where
  "workers_ok sid workers =
     (\<forall>batch r. runtime_keeps True r (fst (workers batch r)) \<and>
        (\<forall>reports. snd (workers batch r) = map Inr reports \<longrightarrow> list_all report_committed reports \<longrightarrow>
           (\<forall>pid \<in> set batch. phase_is settled sid pid (fst (workers batch r)))))"

fun sequential_workers ::
  "run_hosts \<Rightarrow> session_id \<Rightarrow> phase_id list \<Rightarrow> runtime \<Rightarrow> runtime \<times> phase_run_report result list" where
  "sequential_workers hosts sid [] r = (r, [])"
| "sequential_workers hosts sid (pid # pids) r =
     (case run_phase hosts sid pid False r of (r1, x) \<Rightarrow>
        (case sequential_workers hosts sid pids r1 of (r2, xs) \<Rightarrow> (r2, x # xs)))"

lemma committed_settled: "phase_committed p \<Longrightarrow> settled p"
  by (simp add: phase_committed_def settled_def)

lemma run_phase_settles:
  "run_phase hosts sid pid is_retry r = (r', Inr rep) \<Longrightarrow> report_committed rep \<Longrightarrow> phase_is settled sid pid r'"
  by (rule phase_is_mono [OF run_phase_truthful committed_settled])

lemma sequential_workers_keeps: "runtime_keeps True r (fst (sequential_workers hosts sid batch r))"
proof (induction batch arbitrary: r)
  case (Cons pid pids)
  then show ?case
    using run_phase_keeps [of r hosts sid pid False]
    by (auto simp: case_prod_beta intro: runtime_evolution.evolves_trans)
qed (simp add: runtime_evolution.evolves_refl)

lemma sequential_workers_settle:
  "snd (sequential_workers hosts sid batch r) = map Inr reports \<Longrightarrow> list_all report_committed reports \<Longrightarrow>
    \<forall>pid \<in> set batch. phase_is settled sid pid (fst (sequential_workers hosts sid batch r))"
proof (induction batch arbitrary: r reports)
  case (Cons pid pids)
  obtain r1 x where run: "run_phase hosts sid pid False r = (r1, x)" by fastforce
  obtain report rest where reports: "reports = report # rest" "x = Inr report"
    "snd (sequential_workers hosts sid pids r1) = map Inr rest"
    using Cons.prems(1) run by (cases reports) (auto simp: case_prod_beta)
  have "phase_is settled sid pid r1"
    using run_phase_settles run reports Cons.prems(2) by auto
  then have "phase_is settled sid pid (fst (sequential_workers hosts sid pids r1))"
    by (rule phase_is_settled_kept [OF sequential_workers_keeps])
  with Cons.IH [OF reports(3)] Cons.prems(2) reports(1) run show ?case
    by (simp add: case_prod_beta)
qed simp

lemma sequential_workers_ok: "workers_ok sid (sequential_workers hosts sid)"
  using sequential_workers_keeps sequential_workers_settle by (simp add: workers_ok_def)

lemma batch_outcome_progress:
  assumes "batch_outcome results outcome stalled = Inr (o1, False)"
  shows "\<not> stalled \<and> (\<exists>reports. results = map Inr reports \<and> list_all report_committed reports)"
  using assms
proof (induction results outcome stalled rule: batch_outcome.induct)
  case (1 outcome stalled)
  then show ?case by simp
next
  case (3 report results outcome stalled)
  then obtain reports where "results = map Inr reports" "list_all report_committed reports" "report_committed report" "\<not> stalled"
    by (auto simp: Let_def split: if_splits)
  then have "Inr report # results = map Inr (report # reports)" "list_all report_committed (report # reports)" by simp_all
  with \<open>\<not> stalled\<close> show ?case by (intro conjI exI [of _ "report # reports"])
qed simp

lemma run_batch_settles:
  assumes "workers_ok sid workers" "run_batch hosts workers sid batch r = (r', map Inr reports)"
    "list_all report_committed reports" "pid \<in> set batch"
  shows "phase_is settled sid pid r'"
proof (cases "\<exists>x. batch = [x]")
  case True
  then show ?thesis
    using assms(2-4) run_phase_settles [of hosts sid pid False r r']
    by (auto simp: run_batch_def split: prod.splits)
next
  case False
  then have "run_batch hosts workers sid batch r = workers batch r"
    by (auto simp: run_batch_def split: list.split)
  then show ?thesis
    using assms by (auto simp: workers_ok_def) (metis fst_conv snd_conv)
qed

definition unsettled :: "compiler_session \<Rightarrow> nat" where
  "unsettled s = length (filter (\<lambda>i. case find_phase i s of None \<Rightarrow> False | Some p \<Rightarrow> \<not> settled p) (pp_order (cs_plan s)))"

lemma runnable_unsettled:
  assumes "i \<in> set (ready_phases s)"
  shows "i \<in> set (pp_order (cs_plan s)) \<and> (\<exists>p. find_phase i s = Some p \<and> \<not> settled p)"
  using assms by (auto simp: ready_phases_def runnable_def settled_def withdrawn_def split: option.splits)

lemma filter_shrinks:
  assumes "\<And>x. x \<in> set xs \<Longrightarrow> Q x \<Longrightarrow> P x" "y \<in> set xs" "P y" "\<not> Q y"
  shows "length (filter Q xs) < length (filter P xs)"
proof -
  have "filter Q xs = filter Q (filter P xs)" using assms(1) by (auto simp: filter_filter intro!: filter_cong)
  moreover have "length (filter Q (filter P xs)) < length (filter P xs)"
    using assms by (intro List.length_filter_less [of y]) auto
  ultimately show ?thesis by simp
qed

lemma unsettled_decreases:
  assumes "session_keeps True s s'" "i \<in> set (pp_order (cs_plan s))" "find_phase i s = Some p" "\<not> settled p"
    "find_phase i s' = Some p'" "settled p'"
  shows "unsettled s' < unsettled s"
proof -
  have "\<not> settled q" if "find_phase j s = Some q" "find_phase j s' = Some q'" "\<not> settled q'" for j q q'
  proof -
    have "rel_option (phase_keeps True) (find_phase j s) (find_phase j s')"
      using assms(1) by (simp add: session_keeps_def find_phase_def)
    then show ?thesis using that by (auto simp: phase_keeps_def)
  qed
  moreover have "find_phase j s = None \<longleftrightarrow> find_phase j s' = None" for j
    using assms(1) by (metis find_phase_def option.rel_distinct(1,2) option.exhaust session_keeps_def)
  ultimately have "case find_phase j s of None \<Rightarrow> False | Some q \<Rightarrow> \<not> settled q"
    if "case find_phase j s' of None \<Rightarrow> False | Some q \<Rightarrow> \<not> settled q" for j
    using that by (auto split: option.splits)
  moreover have "cs_plan s' = cs_plan s" using assms(1) by (simp add: session_keeps_def)
  ultimately show ?thesis
    unfolding unsettled_def using assms(2-6) by (auto intro!: filter_shrinks)
qed

lemma round_progress:
  assumes "schedule_round host sid outcome r = (r1, Sched_run ready)" "rt_find sid r = Some s" "workers_ok sid workers"
    "run_batch hosts workers sid (take (min limit (length ready)) ready) r1 = (r2, results)" "0 < limit"
    "batch_outcome results outcome False = Inr (o1, False)"
  shows "\<exists>s2. rt_find sid r2 = Some s2 \<and> unsettled s2 < unsettled s"
proof -
  let ?s1 = "s\<lparr>cs_state := SS_active\<rparr>" and ?batch = "take (min limit (length ready)) ready"
  have ready: "ready = ready_phases ?s1" "ready \<noteq> []" and r1: "r1 = put_session sid ?s1 r"
    using assms(1,2) by (auto simp: schedule_round_def Let_def split: if_splits prod.splits sum.splits)
  have s1: "rt_find sid r1 = Some ?s1" "unsettled ?s1 = unsettled s"
    using assms(2) r1 by (simp_all add: unsettled_def find_phase_def)
  obtain i where i: "i \<in> set ?batch" "i \<in> set ready"
    using ready(2) assms(5) by (cases ready; cases limit) auto
  obtain p where p: "i \<in> set (pp_order (cs_plan ?s1))" "find_phase i ?s1 = Some p" "\<not> settled p"
    using runnable_unsettled i(2) ready(1) by blast
  obtain reports where reports: "results = map Inr reports" "list_all report_committed reports"
    using batch_outcome_progress [OF assms(6)] by blast
  have "phase_is settled sid i r2"
    using run_batch_settles [OF assms(3) _ reports(2) i(1)] assms(4) reports(1) by simp
  then obtain s2 p2 where s2: "rt_find sid r2 = Some s2" "find_phase i s2 = Some p2" "settled p2"
    by (auto simp: phase_is_def split: option.splits)
  have "runtime_keeps True r1 r2"
    using run_batch_keeps [of workers r1 hosts sid ?batch] assms(3,4) by (auto simp: workers_ok_def)
  then have "session_keeps True ?s1 s2"
    using s1(1) s2(1) by (fastforce simp: runtime_keeps_def sessions_keep_def rt_find_def)
  then have "unsettled s2 < unsettled ?s1" using p s2 by (intro unsettled_decreases)
  with s2(1) s1(2) show ?thesis by auto
qed

lemma session_rounds_finish:
  assumes "\<And>i. workers_ok sid (workers i)" "0 < limit"
  shows "rt_find sid r = Some s \<Longrightarrow> unsettled s < n \<Longrightarrow>
    snd (session_rounds hosts workers sid limit ceiling n outcome r) \<noteq> None"
proof (induction n arbitrary: r s outcome)
  case (Suc n)
  let ?host = "ho_schedule (hosts (ceiling - n))"
  obtain r1 what where round: "schedule_round ?host sid outcome r = (r1, what)" by fastforce
  show ?case
  proof (cases what)
    case (Sched_run ready)
    obtain r2 results where batch: "run_batch (hosts (ceiling - n)) (workers (ceiling - n)) sid
        (take (min limit (length ready)) ready) r1 = (r2, results)" by fastforce
    show ?thesis
    proof (cases "\<exists>o1. batch_outcome results outcome False = Inr (o1, False)")
      case True
      then obtain o1 where o1: "batch_outcome results outcome False = Inr (o1, False)" by blast
      obtain s2 where "rt_find sid r2 = Some s2" "unsettled s2 < unsettled s"
        using round_progress [OF round [unfolded Sched_run] Suc.prems(1) assms(1) batch assms(2) o1] by blast
      then have "snd (session_rounds hosts workers sid limit ceiling n o1 r2) \<noteq> None"
        using Suc.IH Suc.prems(2) by simp
      then show ?thesis using round Sched_run batch o1 by (simp add: Let_def)
    next
      case False
      then show ?thesis using round Sched_run batch by (auto simp: Let_def split: sum.split)
    qed
  qed (use round in \<open>simp_all add: Let_def\<close>)
qed simp

lemma unsettled_below_ceiling:
  assumes "plan_ok (cs_plan s)"
  shows "unsettled s < iteration_ceiling s r"
proof -
  have "length (pp_order (cs_plan s)) = card (pn_id ` set (pp_nodes (cs_plan s)))"
    using assms distinct_card [of "pp_order (cs_plan s)"] by (simp add: plan_ok_def)
  also have "\<dots> \<le> length (pp_nodes (cs_plan s))"
    using card_image_le [of "set (pp_nodes (cs_plan s))" pn_id] card_length [of "pp_nodes (cs_plan s)"] by simp
  finally have "unsettled s \<le> length (pp_nodes (cs_plan s))"
    unfolding unsettled_def using length_filter_le order_trans by blast
  moreover have "length (pp_nodes (cs_plan s)) \<le> length (pp_nodes (cs_plan s)) * (m + 2)" for m by simp
  ultimately show ?thesis unfolding iteration_ceiling_def by (meson add_increasing2 le_less_trans less_add_same_cancel1 order_trans zero_less_numeral)
qed

lemma parallel_limit_pos: "0 < parallel_limit sid r"
  by (auto simp: parallel_limit_def max_def split: option.split)

lemma run_session_answers:
  assumes "\<And>i. workers_ok sid (workers i)" "rt_find sid r = Some s" "plan_ok (cs_plan s)"
  shows "\<exists>answer. session_rounds hosts workers sid (parallel_limit sid r) (iteration_ceiling s r) (iteration_ceiling s r)
      (compile_outcome_default\<lparr>co_session := Ref sid gen_absent\<rparr>) r =
    (fst (run_session hosts workers sid r), Some answer) \<and> snd (run_session hosts workers sid r) = answer"
proof -
  let ?rounds = "session_rounds hosts workers sid (parallel_limit sid r) (iteration_ceiling s r)
    (iteration_ceiling s r) (compile_outcome_default\<lparr>co_session := Ref sid gen_absent\<rparr>) r"
  have "snd ?rounds \<noteq> None"
    by (rule session_rounds_finish [OF assms(1) parallel_limit_pos assms(2) unsettled_below_ceiling [OF assms(3)]])
  then obtain answer where "?rounds = (fst ?rounds, Some answer)" by (cases ?rounds) auto
  moreover from this have "run_session hosts workers sid r = (fst ?rounds, answer)"
    unfolding run_session_def Let_def by (subst assms(2), simp only: option.case) (metis (no_types, lifting) case_prod_conv option.simps(5))
  ultimately show ?thesis by (metis fst_conv snd_conv)
qed

end
