(* ===== verification/Runtime_Claims.thy ===== *)
theory Runtime_Claims
  imports Runtime_Progress
begin

text \<open>
  The claims on the runtime as a whole (\<open>src/core/runtime.cpp\<close>), over any interleaving of its
  critical sections, with a concrete runtime for their witnesses.
\<close>

section \<open>A runtime with no session\<close>

definition runtime_fresh :: "string \<Rightarrow> nat \<Rightarrow> bool \<Rightarrow> runtime" where
  "runtime_fresh base max_sessions persistent = \<lparr>rt_runtime_name = [], rt_max_sessions = max_sessions,
     rt_ephemeral_state = False, rt_epoch = 1, rt_persistent = persistent, rt_journal = [],
     rt_toolchains = toolchain_registry_init, rt_targets = registry_init, rt_environments = registry_init,
     rt_policies = registry_init, rt_sources = source_registry_init, rt_artifacts = artifact_registry_init,
     rt_diagnostics = diagnostic_store_init, rt_provenance = provenance_log_init, rt_leases = lease_table_init,
     rt_evidence = evidence_log_init, rt_adapters = [], rt_processes = supervisor_init supervisor_options_default,
     rt_workspaces = \<lparr>wm_base_directory = base, wm_live = []\<rparr>, rt_sessions = [], rt_cancel_flags = [],
     rt_last_outcomes = [], rt_last_validation = [], rt_executor = None, rt_session_ids = allocator_init,
     rt_invocation_ids = allocator_init, rt_commit_ids = allocator_init, rt_phase_ids = allocator_init,
     rt_recovery_ids = allocator_init, rt_final_ids = allocator_init, rt_attempt_ids = allocator_init,
     rt_shutting_down = False, rt_commit_total = 0, rt_stale_commit_total = 0\<rparr>"

section \<open>A session whose only phase is about to commit\<close>

definition sample_runtime_host :: "status option \<Rightarrow> runtime_host" where
  "sample_runtime_host answer = \<lparr>rh_paths = sample_host, rh_fs = sample_fs [], rh_queries = sample_queries, rh_now = 7,
     rh_system_temp = None, rh_ambient = (\<lambda>_. []), rh_append = (\<lambda>_. answer)\<rparr>"

definition sample_phase :: phase_record where
  "sample_phase = phase_record_default\<lparr>pr_id := StrongId 1, pr_generation := Generation 2, pr_state := PS_commit_ready,
     pr_active_invocation := Ref (StrongId 1) gen_initial, pr_lease := Ref (StrongId 1) gen_initial,
     pr_outputs := [Ref (StrongId 1) gen_initial]\<rparr>"

definition sample_node :: phase_node where
  "sample_node = \<lparr>pn_id = StrongId 1, pn_kind = PK_unknown, pn_adapter_phase = [], pn_depends_on = [], pn_mandatory = True,
     pn_expected_outputs = [], pn_fan_in = False, pn_required_inputs = 0\<rparr>"

definition sample_plan :: phase_plan where
  "sample_plan = \<lparr>pp_nodes = [sample_node], pp_index = [(1, 0)], pp_dependents = [[]], pp_order = [StrongId 1]\<rparr>"

definition sample_session :: compiler_session where
  "sample_session = session_default\<lparr>cs_id := StrongId 1, cs_state := SS_active, cs_plan := sample_plan,
     cs_phases := [(1, sample_phase)], cs_toolchain := Ref (StrongId 1) gen_initial,
     cs_target := Ref (StrongId 1) gen_initial, cs_environment := Ref (StrongId 1) gen_initial,
     cs_policy := Ref (StrongId 1) gen_initial, cs_source := Ref (StrongId 1) gen_initial\<rparr>"

definition sample_entry :: "'spec \<Rightarrow> ('tag, 'spec) registry" where
  "sample_entry spec = \<lparr>rg_entries = [(1, \<lparr>re_identity = \<lparr>ri_id = StrongId 1, ri_generation = gen_initial,
     ri_digest = digest_default, ri_spec = spec\<rparr>, re_current = True\<rparr>)], rg_allocator = IdAllocator 2\<rparr>"

definition sample_runtime :: "bool \<Rightarrow> runtime" where
  "sample_runtime persistent = (runtime_fresh ''c:/base'' 8 persistent)\<lparr>
     rt_toolchains := \<lparr>tr_entries = [(1, \<lparr>te_identity = sample_toolchain\<lparr>ti_id := StrongId 1, ti_generation := gen_initial\<rparr>,
       te_current = True\<rparr>)], tr_allocator = IdAllocator 2\<rparr>,
     rt_targets := sample_entry target_spec_default, rt_environments := sample_entry environment_spec_init,
     rt_policies := sample_entry policy_spec_default,
     rt_sources := \<lparr>sr_entries = [(1, \<lparr>su_id = StrongId 1, su_generation = gen_initial, su_path = [],
       su_language = SL_unknown, su_dialect = [], su_content = digest_default, su_size_bytes = 0,
       su_redact_diagnostics = False\<rparr>)], sr_allocator = IdAllocator 2\<rparr>,
     rt_artifacts := \<lparr>ar_entries = [(1, artifact_default\<lparr>ia_id := StrongId 1, ia_state := AS_valid,
       ia_producer_phase := Ref (StrongId 1) (Generation 2)\<rparr>)], ar_by_phase = [], ar_allocator = IdAllocator 2\<rparr>,
     rt_leases := fst (lease_grant 5 ref_absent ref_absent 0 ''sample'' lease_table_init),
     rt_sessions := [(1, sample_session)], rt_session_ids := IdAllocator 2\<rparr>"

definition sample_reservation :: reservation where
  "sample_reservation = reservation_default\<lparr>rv_session := StrongId 1, rv_phase := StrongId 1,
     rv_phase_generation := Generation 2, rv_invocation := Ref (StrongId 1) gen_initial,
     rv_authority := authority_from_session sample_session sample_phase\<rparr>"

lemma sample_finds:
  "rt_find (StrongId 1) (sample_runtime b) = Some sample_session" "find_phase (StrongId 1) sample_session = Some sample_phase"
  by (simp_all add: rt_find_def sample_runtime_def find_phase_def sample_session_def um_find_def)

lemma sample_verdict: "commit_verdict (sample_runtime_host a) sample_reservation sample_session sample_phase (sample_runtime b) = AV_valid"
  by (simp add: commit_verdict_def sample_reservation_def observe_phase_def observe_def sample_runtime_def sample_session_def
      sample_phase_def authority_from_session_def compare_authority_valid authority_current_def toolchain_ref_def registry_ref_def
      source_ref_def toolchain_find_def target_find_def environment_find_def policy_find_def reg_find_def source_find_def
      um_find_def sample_entry_def sample_runtime_host_def lease_is_held_def lease_find_def lease_grant_def lease_table_init_def
      Let_def alloc_next_def allocator_init_def um_emplace_def held_at_def session_state_admits_new_authority_def
      session_default_def phase_record_default_def gen_initial_def runtime_fresh_def observation_default_def)

section \<open>The sample commits\<close>

lemma revoked_not_held: "\<not> lease_is_held now ref (fst (lease_revoke (ref_id ref) reason t))"
  by (auto simp: lease_is_held_def lease_find_revoke held_at_def lease_withdraw_def split: option.split)

definition sample_commit :: "status option \<Rightarrow> runtime \<times> phase_run_report result" where
  "sample_commit answer =
     commit_reserved (sample_runtime_host answer) sample_reservation execution_report_default (sample_runtime True)"

lemma sample_fields:
  "rv_session sample_reservation = StrongId 1" "rv_phase sample_reservation = StrongId 1"
  "rt_persistent (sample_runtime b) = b" "pr_state sample_phase = PS_commit_ready"
  "pr_outputs sample_phase = [Ref (StrongId 1) gen_initial]"
  by (simp_all add: sample_reservation_def sample_runtime_def sample_phase_def runtime_fresh_def)

lemma sample_commit_publishes:
  "sample_commit answer = publish_commit (sample_runtime_host answer) sample_reservation execution_report_default
     sample_session sample_phase (sample_runtime True)"
proof -
  have "pr_generation sample_phase = rv_phase_generation sample_reservation"
    "pr_active_invocation sample_phase = rv_invocation sample_reservation"
    "adapter_find_by_name x (rt_adapters (sample_runtime True)) = None" for x
    by (simp_all add: sample_phase_def sample_reservation_def sample_runtime_def runtime_fresh_def adapter_find_by_name_def)
  then show ?thesis
    by (simp add: sample_commit_def commit_reserved_def sample_fields sample_finds commit_reprobe_def commit_decide_def
        sample_verdict authority_verdict_is_current_def)
qed

lemma sample_commit_accepted:
  "sample_commit None = (fst (sample_commit None), Inr (projr (snd (sample_commit None))))"
  "report_committed (projr (snd (sample_commit None)))"
proof -
  obtain provenance p1 s1 ready r1 where staged:
    "stage_commit (sample_runtime_host None) sample_reservation sample_session sample_phase (sample_runtime True) =
      (provenance, p1, s1, ready, r1)" by (metis prod_cases5)
  then have "\<exists>r2 rep. sample_commit None = (r2, Inr rep) \<and> report_committed rep"
    by (cases rule: publish_cases [where report = execution_report_default])
      (auto simp: sample_commit_publishes published_def sample_runtime_host_def)
  then show "sample_commit None = (fst (sample_commit None), Inr (projr (snd (sample_commit None))))"
    "report_committed (projr (snd (sample_commit None)))" by auto
qed

lemma sample_committed:
  obtains s p where "rt_find (StrongId 1) (fst (sample_commit None)) = Some s" "find_phase (StrongId 1) s = Some p"
    "pr_state p = PS_committed"
  using commit_reserved_done [OF sample_commit_accepted(1) [unfolded sample_commit_def]] sample_commit_accepted(2)
  by (auto simp: sample_commit_def commit_done_def sample_fields)

lemma sample_grounded: "grounded (sample_runtime b)"
proof -
  have "\<not> authoritative (rt_artifacts (sample_runtime b)) i" for i
    by (simp add: authoritative_def sample_runtime_def runtime_fresh_def artifact_find_def um_find_def artifact_default_def)
  then show ?thesis by (simp add: grounded_def)
qed

lemma sample_commit_refused:
  "snd (sample_commit (Some e)) = Inl e \<and> rt_find (StrongId 1) (fst (sample_commit (Some e))) = Some sample_session"
proof -
  obtain provenance p1 s1 ready r1 where staged:
    "stage_commit (sample_runtime_host (Some e)) sample_reservation sample_session sample_phase (sample_runtime True) =
      (provenance, p1, s1, ready, r1)" by (metis prod_cases5)
  then show ?thesis
    using stage_commit_spec(3) [OF staged] sample_finds(1) [of True]
    by (cases rule: publish_cases [where report = execution_report_default])
      (auto simp: sample_commit_publishes sample_runtime_host_def rt_find_def sample_fields)
qed

lemma sample_commit_authoritative: "authoritative (rt_artifacts (fst (sample_commit answer))) (StrongId 1)"
proof -
  let ?host = "sample_runtime_host answer"
  obtain provenance p1 s1 ready r1 where staged:
    "stage_commit ?host sample_reservation sample_session sample_phase (sample_runtime True) =
      (provenance, p1, s1, ready, r1)" by (metis prod_cases5)
  have r1: "authoritative (rt_artifacts r1) (StrongId 1)"
    unfolding stage_commit_spec(10) [OF staged]
    by (simp add: sample_fields grant_outputs_def on_outputs_def set_authority_def artifact_find_def sample_runtime_def
        um_find_def um_modify_def artifact_state_is_consumable_def authoritative_def)
  from staged show ?thesis
  proof (cases rule: publish_cases [where report = execution_report_default])
    case (unpersisted e)
    then show ?thesis using r1 by (simp add: sample_commit_publishes)
  next
    case (published r2 rep)
    then show ?thesis using r1 by (simp add: sample_commit_publishes published_def)
  qed
qed

section \<open>A stale commit\<close>

text \<open>The toolchain of the session, when it can be probed, is probed again with success.\<close>

definition reprobe_answers :: "runtime_host \<Rightarrow> compiler_session \<Rightarrow> runtime \<Rightarrow> bool" where
  "reprobe_answers host s r =
     (case (adapter_find_by_name (cs_adapter_name s) (rt_adapters r), toolchain_find (ref_id (cs_toolchain s)) (rt_toolchains r)) of
        (Some adapter, Some recorded) \<Rightarrow>
          (case ad_reprobe_toolchain adapter recorded (commit_probe_request r s recorded) of
             Inl _ \<Rightarrow> False
           | Inr observed \<Rightarrow> has_value (snd (toolchain_refresh (rh_normal host) observed (rt_toolchains r))))
      | _ \<Rightarrow> True)"

lemma reprobe_answers_decides:
  assumes "reprobe_answers host s r"
  shows "\<exists>r1. decided_in r (reprobed_toolchains host s r) r1 \<and>
    commit_reprobe host rv report s p r = commit_decide host rv report s p r1"
proof (cases "adapter_find_by_name (cs_adapter_name s) (rt_adapters r)")
  case None
  then show ?thesis using decided_in_same [of r] by (auto simp: commit_reprobe_def reprobed_toolchains_def)
next
  case (Some adapter)
  note adapter = this
  show ?thesis
  proof (cases "toolchain_find (ref_id (cs_toolchain s)) (rt_toolchains r)")
    case None
    then show ?thesis using adapter decided_in_same [of r] by (auto simp: commit_reprobe_def reprobed_toolchains_def)
  next
    case (Some recorded)
    then obtain observed where observed: "ad_reprobe_toolchain adapter recorded (commit_probe_request r s recorded) = Inr observed"
      "has_value (snd (toolchain_refresh (rh_normal host) observed (rt_toolchains r)))"
      using assms adapter by (auto simp: reprobe_answers_def split: sum.splits)
    obtain ts x where ts: "toolchain_refresh (rh_normal host) observed (rt_toolchains r) = (ts, x)" by fastforce
    then obtain mutation where "x = Inr mutation" using observed(2) by (cases x) (auto simp: has_value_def)
    then show ?thesis
      using adapter Some observed(1) ts decided_in_refreshed [of r ts] decided_in_noted [of r ts]
      by (fastforce simp: commit_reprobe_def reprobed_toolchains_def Let_def)
  qed
qed

lemma commit_reserved_decides:
  assumes "rt_find (rv_session rv) r = Some s" "find_phase (rv_phase rv) s = Some p" "pr_state p = PS_commit_ready"
    "pr_generation p = rv_phase_generation rv" "pr_active_invocation p = rv_invocation rv"
  shows "commit_reserved host rv report r = commit_reprobe host rv report s p r"
  using assms by (simp add: commit_reserved_def)

lemma fence_stale_result:
  assumes "rt_find (rv_session rv) r = Some s" "find_phase (rv_phase rv) s = Some p" "pr_state p = PS_commit_ready"
    "fence_stale host rv report verdict s p r = (r', x)"
  shows "\<exists>s' p'. rt_find (rv_session rv) r' = Some s' \<and> find_phase (rv_phase rv) s' = Some p' \<and> pr_state p' = PS_fenced \<and>
    pr_last_status p' = to_status_code verdict \<and> rt_commit_total r' = rt_commit_total r \<and>
    rt_leases r' = fst (lease_revoke (ref_id (pr_lease p)) (''commit refused: '' @ to_string_verdict verdict) (rt_leases r)) \<and>
    (\<forall>rep. x = Inr rep \<longrightarrow> rr_state rep = PS_fenced \<and> rr_authority rep = verdict)"
proof -
  have state: "transition_target PS_commit_ready PS_fenced = PS_fenced"
    by (rule fence_target) (simp_all add: phase_state_retains_commit_authority_def)
  show ?thesis
    using assms persist_fields(1)
    by (auto simp: fence_stale_def Let_def persist_then_def persist_def rt_find_def put_session_def um.find_modify
        find_phase_def put_phase_def on_last_attempt_def state split: if_splits option.splits prod.splits sum.splits)
qed

section \<open>Reachable runtimes\<close>

lemma runtime_fresh_ok:
  "sessions_ok (rt_sessions (runtime_fresh base n persistent)) (rt_session_ids (runtime_fresh base n persistent))"
  "tables_ok (runtime_fresh base n persistent)"
  by (simp_all add: sessions_ok_def tables_ok_def runtime_fresh_def lease_table_ok_def lease_table_init_def
      source_ok_def source_registry_init_def)

definition sample_adopted :: runtime where
  "sample_adopted = fst (adopt_session (sample_runtime_host None) sample_session (runtime_fresh ''c:/base'' 8 False))"

lemma sample_adopted_reachable: "runtime_steps {sample_runtime_host None} (runtime_fresh ''c:/base'' 8 False) sample_adopted"
proof -
  have "session_ok sample_session"
    by (simp add: session_ok_def sample_session_def um_ok_def um_all_def sample_phase_def phase_ok_def history_ok_def
        phase_record_default_def kMaxPhaseAttempts_def kMaxPhaseTransitions_def)
  then show ?thesis unfolding sample_adopted_def by (intro r_into_rtranclp runtime_step.adopt) simp_all
qed

lemma sample_fenced:
  "\<exists>r1. fence_all_in_flight host reason sample_session r =
     (r1, put_phase (StrongId 1) (fenced_phase (rh_now host) reason sample_phase) sample_session) \<and> rt_sessions r1 = rt_sessions r \<and>
     rt_persistent r1 = rt_persistent r"
proof -
  have "pp_order (cs_plan sample_session) = [StrongId 1]" by (simp add: sample_session_def sample_plan_def)
  then show ?thesis
    by (simp add: fence_all_in_flight_def fence_phase_def sample_finds(2) phase_state_retains_commit_authority_def sample_fields)
qed

lemma sample_adopted_finds:
  obtains s p where "rt_find (StrongId 1) sample_adopted = Some s" "find_phase (StrongId 1) s = Some p"
proof -
  let ?p = "fenced_phase 7 ''session adoption fenced in-flight authority'' sample_phase"
  let ?r = "runtime_fresh ''c:/base'' 8 False"
  have clock: "rh_now (sample_runtime_host None) = 7" by (simp add: sample_runtime_host_def)
  have fresh: "rt_sessions ?r = []" "rt_persistent ?r = False" by (simp_all add: runtime_fresh_def)
  obtain r1 where fenced: "fence_all_in_flight (sample_runtime_host None) ''session adoption fenced in-flight authority''
      sample_session (?r\<lparr>rt_session_ids := alloc_observe (StrongId 1) (rt_session_ids ?r)\<rparr>) =
      (r1, put_phase (StrongId 1) ?p sample_session)" and r1: "rt_sessions r1 = []" "\<not> rt_persistent r1"
    using sample_fenced [of "sample_runtime_host None" "''session adoption fenced in-flight authority''"
      "?r\<lparr>rt_session_ids := alloc_observe (StrongId 1) (rt_session_ids ?r)\<rparr>"] clock by (auto simp: fresh)
  have s: "cs_id sample_session = StrongId 1" "cs_state sample_session = SS_active" "rt_find (StrongId 1) ?r = None"
    by (simp_all add: sample_session_def rt_find_def runtime_fresh_def um_find_def)
  have flag: "rt_persistent (fst (cancel_flag i r)) = rt_persistent r" for i r
    by (simp add: cancel_flag_def split: option.split)
  have find_set: "rt_find i (r\<lparr>rt_sessions := m\<rparr>) = um_find m (id_value i)" for i r m by (simp add: rt_find_def)
  have "rt_find (StrongId 1) sample_adopted = Some (put_phase (StrongId 1) ?p sample_session\<lparr>
      cs_epoch := StrongId (rt_epoch r1), cs_generation := gen_next (cs_generation sample_session), cs_updated_at_nanos := 7,
      cs_state := SS_recovering, cs_recovery_state := RS_required\<rparr>)"
    using r1 flag
    by (simp add: sample_adopted_def adopt_session_def s fenced clock id_present_def Let_def persist_def find_set um_emplace_def)
      (simp add: um_find_def put_phase_def)
  moreover have "find_phase (StrongId 1) (put_phase (StrongId 1) ?p sample_session\<lparr>
      cs_epoch := StrongId (rt_epoch r1), cs_generation := gen_next (cs_generation sample_session), cs_updated_at_nanos := 7,
      cs_state := SS_recovering, cs_recovery_state := RS_required\<rparr>) = Some ?p"
    using sample_finds(2) by (simp add: find_phase_def put_phase_def um.find_modify)
  ultimately show thesis by (rule that)
qed

section \<open>Runs\<close>

definition sample_hosts :: "nat \<Rightarrow> run_hosts" where
  "sample_hosts i = \<lparr>ho_reserve = sample_runtime_host None, ho_execute = sample_runtime_host None,
     ho_record = sample_runtime_host None, ho_verify = sample_runtime_host None, ho_validate = sample_runtime_host None,
     ho_commit = sample_runtime_host None, ho_schedule = sample_runtime_host None\<rparr>"

lemma sample_plan_ok: "plan_ok sample_plan"
proof (rule plan_build_ok)
  show "plan_build [sample_node] = Inr sample_plan" by code_simp
qed

lemma sequential_workers_steps:
  assumes "hosts_in H hosts"
  shows "runtime_steps H r (fst (sequential_workers hosts sid batch r))"
proof (induction batch arbitrary: r)
  case (Cons pid pids)
  then show ?case
    using run_phase_steps [OF assms, of r sid pid False] by (auto simp: case_prod_beta intro: rtranclp_trans)
qed simp

section \<open>Reservations\<close>

lemma reserve_steps:
  assumes "reserve host sid pid is_retry r = (r', Inr rv)"
  obtains s p inputs where "rt_find sid r = Some s" "find_phase pid s = Some p" "session_state_admits_new_authority (cs_state s)"
    "reserve_refusal is_retry (pr_state p) = None" "plan_is_ready pid (committed_phases s) (cs_plan s)"
    "reserve_record host sid pid is_retry s p inputs r = (r', Inr rv)"
  using assms that by (auto simp: reserve_def split: if_splits option.splits sum.splits)

lemma preparing_phase_state:
  assumes "reserve_refusal is_retry (pr_state p) = None"
  shows "pr_state (preparing_phase host is_retry s attempt invocation lease inputs p) = PS_preparing"
proof -
  have "transition_target (transition_target st PS_ready) PS_preparing = PS_preparing" if "reserve_refusal is_retry st = None" for st
    using that
    by (cases st) (auto simp: reserve_refusal_def transition_target_def transition_route_def kRoutes_def
        is_legal_phase_transition_def split: if_splits)
  with assms show ?thesis by (simp add: preparing_phase_def reserved_phase_def)
qed

lemma preparing_phase_fields:
  "pr_generation (preparing_phase host is_retry s attempt invocation lease inputs p) = next_phase_generation p"
  "pr_outputs (preparing_phase host is_retry s attempt invocation lease inputs p) = []"
  "pr_active_invocation (preparing_phase host is_retry s attempt invocation lease inputs p) = invocation"
  "pr_lease (preparing_phase host is_retry s attempt invocation lease inputs p) = lease"
  by (simp_all add: preparing_phase_def reserved_phase_def)

text \<open>What a granted reservation leaves in the tables.\<close>

definition reservation_stored ::
  "runtime_host \<Rightarrow> session_id \<Rightarrow> phase_id \<Rightarrow> bool \<Rightarrow> compiler_session \<Rightarrow> phase_record \<Rightarrow> runtime \<Rightarrow> runtime \<Rightarrow> reservation \<Rightarrow> bool" where
  "reservation_stored host sid pid is_retry s p r r' rv =
     (\<exists>p' s' inputs attempt grant reason. p' = preparing_phase host is_retry s attempt (rv_invocation rv) (rv_lease rv) inputs p \<and>
        s' = reserved_session host is_retry pid p p' s \<and> rt_sessions r' = um_modify (id_value sid) (\<lambda>_. s') (rt_sessions r) \<and>
        rv_authority rv = authority_from_session s' p' \<and> rv_phase_generation rv = next_phase_generation p \<and>
        grant = lease_grant (rh_now host) (Ref (cs_id s) (cs_generation s)) (Ref pid (next_phase_generation p)) 0 reason (rt_leases r) \<and>
        rt_leases r' = fst grant \<and> rv_lease rv = snd grant)"

lemma reserve_record_stored:
  assumes "reserve_record host sid pid is_retry s p inputs r = (r', Inr rv)"
  shows "reservation_stored host sid pid is_retry s p r r' rv"
  using assms unfolding reservation_stored_def
  by (fastforce simp: reserve_record_def persist_then_def persist_def Let_def case_prod_beta put_session_def
      split: if_splits option.splits sum.splits prod.splits)

lemma granted_lease_held:
  assumes "lease_table_ok t" "counter (lt_allocator t) \<noteq> kMax"
  shows "lease_is_held now (snd (lease_grant now s p 0 reason t)) (fst (lease_grant now s p 0 reason t))"
proof -
  have "ref_gen (snd (lease_grant now s p 0 reason t)) = gen_initial"
    by (simp add: lease_grant_def Let_def case_prod_beta)
  with lease_find_grant [OF assms, of now s p 0 reason] show ?thesis by (simp add: lease_is_held_def held_at_def)
qed

lemma reserve_granted:
  assumes "reserve host sid pid is_retry r = (r', Inr rv)" "lease_table_ok (rt_leases r)"
    "counter (lt_allocator (rt_leases r)) \<noteq> kMax"
  shows "\<exists>s p s' p'. rt_find sid r = Some s \<and> find_phase pid s = Some p \<and>
    session_state_admits_new_authority (cs_state s) \<and> plan_is_ready pid (committed_phases s) (cs_plan s) \<and>
    rt_find sid r' = Some s' \<and> find_phase pid s' = Some p' \<and> pr_state p' = PS_preparing \<and>
    pr_generation p' = rv_phase_generation rv \<and> pr_generation p \<le> pr_generation p' \<and> pr_outputs p' = [] \<and>
    pr_active_invocation p' = rv_invocation rv \<and> pr_lease p' = rv_lease rv \<and>
    rv_authority rv = authority_from_session s' p' \<and> lease_is_held (rh_now host) (rv_lease rv) (rt_leases r')"
proof -
  obtain s p inputs where s: "rt_find sid r = Some s" "find_phase pid s = Some p"
    "session_state_admits_new_authority (cs_state s)" "reserve_refusal is_retry (pr_state p) = None"
    "plan_is_ready pid (committed_phases s) (cs_plan s)" "reserve_record host sid pid is_retry s p inputs r = (r', Inr rv)"
    using reserve_steps [OF assms(1)] by metis
  obtain p' s' inputs attempt reason where
    p': "p' = preparing_phase host is_retry s attempt (rv_invocation rv) (rv_lease rv) inputs p" and
    s': "s' = reserved_session host is_retry pid p p' s" "rt_sessions r' = um_modify (id_value sid) (\<lambda>_. s') (rt_sessions r)"
      "rv_authority rv = authority_from_session s' p'" "rv_phase_generation rv = next_phase_generation p" and
    lease: "rt_leases r' = fst (lease_grant (rh_now host) (Ref (cs_id s) (cs_generation s)) (Ref pid (next_phase_generation p)) 0
        reason (rt_leases r))"
      "rv_lease rv = snd (lease_grant (rh_now host) (Ref (cs_id s) (cs_generation s)) (Ref pid (next_phase_generation p)) 0
        reason (rt_leases r))"
    using reserve_record_stored [OF s(6)] unfolding reservation_stored_def by blast
  have "rt_find sid r' = Some s'" using s(1) s'(2) by (simp add: rt_find_def um.find_modify)
  moreover have "find_phase pid s' = Some p'"
    using s(2) unfolding s'(1) reserved_session_def by (simp add: find_phase_def put_phase_def um.find_modify)
  moreover have "lease_is_held (rh_now host) (rv_lease rv) (rt_leases r')"
    unfolding lease by (rule granted_lease_held [OF assms(2,3)])
  ultimately show ?thesis
    using s(1-3,5) s'(3,4) preparing_phase_state [OF s(4)] next_phase_generation_le [of p]
    unfolding p' by (auto simp: preparing_phase_fields)
qed

section \<open>The run of a finished session\<close>

lemma run_session_complete:
  assumes "rt_find sid r = Some s" "ready_phases s = []" "all_mandatory_committed s"
  shows "fst (run_session hosts workers sid r) = put_session sid (s\<lparr>cs_state := SS_active\<rparr>) r"
proof -
  let ?s = "s\<lparr>cs_state := SS_active\<rparr>"
  have same: "find_phase i ?s = find_phase i s" "committed_phases ?s = committed_phases s" for i
    by (simp_all add: find_phase_def committed_phases_def)
  have "runnable ?s = runnable s" by (auto simp: runnable_def same fun_eq_iff split: option.split)
  then have "ready_phases ?s = []" "all_mandatory_committed ?s"
    using assms(2,3) by (simp_all add: ready_phases_def all_mandatory_committed_def has_committed_def same)
  then have "schedule_round host sid outcome r = (put_session sid ?s r, Sched_complete)" for host outcome
    using assms(1) by (simp add: schedule_round_def Let_def)
  then have "\<exists>answer. session_rounds hosts workers sid l c (Suc n) outcome r = (put_session sid ?s r, Some answer)" for l c n outcome
    by (simp add: Let_def)
  moreover have "iteration_ceiling s r = Suc (iteration_ceiling s r - 1)" by (simp add: iteration_ceiling_def)
  ultimately have "\<exists>answer. session_rounds hosts workers sid l c (iteration_ceiling s r) outcome r =
      (put_session sid ?s r, Some answer)" for l c outcome by metis
  then obtain answer where "session_rounds hosts workers sid (parallel_limit sid r) (iteration_ceiling s r) (iteration_ceiling s r)
      (compile_outcome_default\<lparr>co_session := Ref sid gen_absent\<rparr>) r = (put_session sid ?s r, Some answer)" by blast
  then show ?thesis using assms(1) by (simp add: run_session_def Let_def)
qed

lemma stop_session_fails:
  assumes "rt_find sid r = Some s" "cs_state s = SS_active"
  shows "\<exists>s'. rt_find sid (stop_session host r (id_value sid)) = Some s' \<and> cs_state s' = SS_failed"
  using assms
  by (simp add: stop_session_def rt_find_def session_is_closed_def Let_def persist_fields um.find_modify)

text \<open>The sample before its phase has run.\<close>

definition sample_pending :: runtime where
  "sample_pending = put_session (StrongId 1)
     (put_phase (StrongId 1) (sample_phase\<lparr>pr_state := PS_pending\<rparr>) sample_session) (sample_runtime True)"

definition sample_reserve :: "runtime \<times> reservation result" where
  "sample_reserve = reserve (sample_runtime_host None) (StrongId 1) (StrongId 1) False sample_pending"

lemma sample_pending_workspace:
  "\<exists>wm w. workspace_create sample_host (sample_fs []) 7 (StrongId 1) g (StrongId 1) (Generation 3) []
      \<lparr>wm_base_directory = ''c:/base'', wm_live = []\<rparr> = (wm, Inr w)"
proof -
  have "workspace_root_path sample_host ''c:/base'' (StrongId 1) (StrongId 1) (Generation 3) [] =
      ''c:/base/session-0000000000000001/phase-0000000000000001-g3''"
    "hp_within sample_host ''c:/base/session-0000000000000001/phase-0000000000000001-g3'' ''c:/base''" by code_simp+
  then show ?thesis by (simp add: workspace_create_def id_present_def Let_def) (simp add: sample_fs_def)
qed

lemma sample_pending_verdict:
  "reserve_verdict sample_pending (put_phase (StrongId 1) (sample_phase\<lparr>pr_state := PS_pending\<rparr>) sample_session)
     (sample_phase\<lparr>pr_state := PS_pending\<rparr>) = AV_valid"
  by (simp add: reserve_verdict_def observe_def sample_pending_def put_session_def put_phase_def sample_runtime_def
      sample_session_def sample_phase_def authority_from_session_def compare_authority_valid authority_current_def
      toolchain_ref_def registry_ref_def source_ref_def toolchain_find_def target_find_def environment_find_def
      policy_find_def reg_find_def source_find_def um_find_def sample_entry_def Let_def
      session_state_admits_new_authority_def session_default_def phase_record_default_def gen_initial_def gen_present_def
      runtime_fresh_def observation_default_def ref_absent_def)

lemma sample_reserve_granted:
  "sample_reserve = (fst sample_reserve, Inr (projr (snd sample_reserve)))"
  "lease_table_ok (rt_leases sample_pending)" "counter (lt_allocator (rt_leases sample_pending)) \<noteq> kMax"
proof -
  let ?p = "sample_phase\<lparr>pr_state := PS_pending\<rparr>" and ?host = "sample_runtime_host None"
  let ?s = "put_phase (StrongId 1) ?p sample_session"
  have finds: "rt_find (StrongId 1) sample_pending = Some ?s" "find_phase (StrongId 1) ?s = Some ?p"
    using sample_finds by (simp_all add: sample_pending_def)
  have plan: "cs_plan sample_session = sample_plan" "cs_id sample_session = StrongId 1" "cs_state sample_session = SS_active"
    "pr_id sample_phase = StrongId 1" "pr_attempts sample_phase = []" "pr_generation sample_phase = Generation 2"
    by (simp_all add: sample_session_def sample_phase_def phase_record_default_def)
  have node: "plan_find (StrongId 1) sample_plan = Some sample_node" "plan_is_ready (StrongId 1) committed sample_plan"
    for committed by (simp_all add: plan_find_def plan_is_ready_def sample_plan_def sample_node_def um_find_def)
  have inputs: "resolve_inputs artifacts ?s ?p = Inr []" for artifacts
    by (simp add: resolve_inputs_def plan node sample_node_def Let_def)
  have tables: "rt_workspaces sample_pending = \<lparr>wm_base_directory = ''c:/base'', wm_live = []\<rparr>"
    "\<not> rt_shutting_down sample_pending"
    by (simp_all add: sample_pending_def put_session_def sample_runtime_def runtime_fresh_def)
  have clock: "rh_now ?host = 7" "rh_paths ?host = sample_host" "rh_fs ?host = sample_fs []" "rh_append ?host = (\<lambda>_. None)"
    by (simp_all add: sample_runtime_host_def)
  have generation: "next_phase_generation ?p = Generation 3"
    by (simp add: next_phase_generation_def plan gen_present_def gen_next_def kMax_def)
  obtain wm w where workspace: "workspace_create sample_host (sample_fs []) 7 (StrongId 1) (cs_generation sample_session)
      (StrongId 1) (Generation 3) [] \<lparr>wm_base_directory = ''c:/base'', wm_live = []\<rparr> = (wm, Inr w)"
    using sample_pending_workspace by blast
  have "sample_reserve = reserve_record ?host (StrongId 1) (StrongId 1) False ?s ?p [] sample_pending"
    by (simp add: sample_reserve_def reserve_def tables finds sample_finds(2) plan session_state_admits_new_authority_def reserve_refusal_def
        node sample_pending_verdict authority_verdict_is_current_def inputs kMaxPhaseAttempts_def)
  also have "\<exists>r' rv. \<dots> = (r', Inr rv)"
    by (simp add: reserve_record_def Let_def case_prod_beta clock generation plan tables workspace persist_then_def persist_def)
  finally show "sample_reserve = (fst sample_reserve, Inr (projr (snd sample_reserve)))" by (metis fst_conv snd_conv sum.sel(2))
  have "rt_leases sample_pending = fst (lease_grant 5 ref_absent ref_absent 0 ''sample'' lease_table_init)"
    by (simp add: sample_pending_def put_session_def sample_runtime_def)
  moreover have "lease_table_ok lease_table_init" by (simp add: lease_table_ok_def lease_table_init_def)
  ultimately show "lease_table_ok (rt_leases sample_pending)" "counter (lt_allocator (rt_leases sample_pending)) \<noteq> kMax"
    by (simp_all only: lease_grant_ok)
      (simp add: lease_grant_def lease_table_init_def Let_def alloc_next_def allocator_init_def kMax_def)
qed

definition sample_finished :: runtime where
  "sample_finished = put_session (StrongId 1) (put_phase (StrongId 1) (sample_phase\<lparr>pr_state := PS_committed\<rparr>) sample_session)
     (sample_runtime False)"

lemma sample_finished_finds:
  "rt_find (StrongId 1) sample_finished =
     Some (put_phase (StrongId 1) (sample_phase\<lparr>pr_state := PS_committed\<rparr>) sample_session)"
  "ready_phases (put_phase (StrongId 1) (sample_phase\<lparr>pr_state := PS_committed\<rparr>) sample_session) = []"
  "all_mandatory_committed (put_phase (StrongId 1) (sample_phase\<lparr>pr_state := PS_committed\<rparr>) sample_session)"
  "\<not> rt_persistent sample_finished"
proof -
  have plan: "cs_plan sample_session = sample_plan" by (simp add: sample_session_def)
  show "rt_find (StrongId 1) sample_finished =
      Some (put_phase (StrongId 1) (sample_phase\<lparr>pr_state := PS_committed\<rparr>) sample_session)"
    using sample_finds(1) [of False] by (simp add: sample_finished_def)
  show "ready_phases (put_phase (StrongId 1) (sample_phase\<lparr>pr_state := PS_committed\<rparr>) sample_session) = []"
    "all_mandatory_committed (put_phase (StrongId 1) (sample_phase\<lparr>pr_state := PS_committed\<rparr>) sample_session)"
    by (simp_all add: ready_phases_def runnable_def all_mandatory_committed_def has_committed_def plan sample_plan_def
        sample_node_def sample_finds)
  show "\<not> rt_persistent sample_finished" by (simp add: sample_finished_def put_session_def sample_fields)
qed

text \<open>A reservation whose toolchain has been replaced since.\<close>

definition sample_stale :: reservation where
  "sample_stale = sample_reservation\<lparr>rv_authority := (rv_authority sample_reservation)\<lparr>
     au_toolchain := Ref (StrongId 1) (Generation 9)\<rparr>\<rparr>"

lemma sample_stale_facts:
  "rv_session sample_stale = StrongId 1" "rv_phase sample_stale = StrongId 1"
  "pr_generation sample_phase = rv_phase_generation sample_stale" "pr_active_invocation sample_phase = rv_invocation sample_stale"
  "reprobe_answers (sample_runtime_host None) sample_session (sample_runtime True)"
  "commit_verdict (sample_runtime_host None) sample_stale sample_session sample_phase
     (reprobed (sample_runtime_host None) sample_session (sample_runtime True)) = AV_stale_toolchain"
proof -
  show "rv_session sample_stale = StrongId 1" "rv_phase sample_stale = StrongId 1"
    "pr_generation sample_phase = rv_phase_generation sample_stale" "pr_active_invocation sample_phase = rv_invocation sample_stale"
    by (simp_all add: sample_stale_def sample_reservation_def sample_phase_def)
  have none: "adapter_find_by_name x (rt_adapters (sample_runtime True)) = None" for x
    by (simp add: sample_runtime_def runtime_fresh_def adapter_find_by_name_def)
  then show "reprobe_answers (sample_runtime_host None) sample_session (sample_runtime True)"
    by (simp add: reprobe_answers_def)
  have "reprobed_toolchains (sample_runtime_host None) sample_session (sample_runtime True) = rt_toolchains (sample_runtime True)"
    by (simp add: reprobed_toolchains_def none)
  then show "commit_verdict (sample_runtime_host None) sample_stale sample_session sample_phase
      (reprobed (sample_runtime_host None) sample_session (sample_runtime True)) = AV_stale_toolchain"
    by (simp add: commit_verdict_def compare_authority_def observe_phase_def observe_def sample_runtime_def sample_session_def
        sample_phase_def sample_stale_def sample_reservation_def authority_from_session_def toolchain_ref_def toolchain_find_def
        um_find_def session_state_admits_new_authority_def session_default_def phase_record_default_def gen_initial_def
        ref_differs_def ref_present_def id_present_def gen_present_def runtime_fresh_def observation_default_def)
qed

section \<open>Claims\<close>

text \<open>
  C1: a commit is reported only for a phase that is COMMIT_READY, under its current generation and
  invocation, when the authority bound at the reservation is valid against the toolchain as it was
  probed again from disk. The phase is then COMMITTED in the published session, which a configured
  store has accepted, and its lease is withdrawn.
\<close>

theorem commit_needs_current_authority:
  assumes "commit_reserved host rv report r = (r', Inr rep)" "report_committed rep"
  shows "\<exists>s p s' p'. rt_find (rv_session rv) r = Some s \<and> find_phase (rv_phase rv) s = Some p \<and>
    pr_state p = PS_commit_ready \<and> pr_generation p = rv_phase_generation rv \<and> pr_active_invocation p = rv_invocation rv \<and>
    commit_verdict host rv s p (reprobed host s r) = AV_valid \<and>
    rt_find (rv_session rv) r' = Some s' \<and> find_phase (rv_phase rv) s' = Some p' \<and> pr_state p' = PS_committed \<and>
    pr_commit p' = fst (alloc_next (rt_commit_ids r)) \<and> pr_generation p' = pr_generation p \<and>
    (rt_persistent r \<longrightarrow> rt_journal r' = rt_journal r @ [s']) \<and> \<not> lease_is_held now (pr_lease p) (rt_leases r')"
proof -
  obtain s p s' p' where s: "rt_find (rv_session rv) r = Some s" "find_phase (rv_phase rv) s = Some p"
    "pr_state p = PS_commit_ready" "pr_generation p = rv_phase_generation rv" "pr_active_invocation p = rv_invocation rv"
    "commit_verdict host rv s p (reprobed host s r) = AV_valid" and fin: "commit_done rv r p r' s' p'"
    using commit_reserved_done [OF assms] by blast
  have "\<not> lease_is_held now (pr_lease p) (rt_leases r')"
    using fin revoked_not_held [of now "pr_lease p"] by (simp add: commit_done_def)
  with s fin show ?thesis unfolding commit_done_def by blast
qed

theorem commit_needs_current_authority_witness:
  "\<exists>s p s' p'. rt_find (StrongId 1) (sample_runtime True) = Some s \<and> find_phase (StrongId 1) s = Some p \<and>
    rt_find (StrongId 1) (fst (sample_commit None)) = Some s' \<and> find_phase (StrongId 1) s' = Some p' \<and>
    pr_state p' = PS_committed \<and> pr_generation p' = pr_generation p"
  using commit_needs_current_authority [OF sample_commit_accepted(1,2) [unfolded sample_commit_def], of 7]
  by (auto simp: sample_commit_def sample_reservation_def)

text \<open>
  C2: what a phase has settled stays settled, whatever critical sections run afterwards, in any
  order: a committed phase keeps its generation, its commit and its outputs and is at most retired,
  and a cancelled, fenced or retired phase regains no authority.
\<close>

theorem settled_phase_is_final:
  assumes "runtime_steps H r r'" "rt_find sid r = Some s" "find_phase pid s = Some p"
    "pr_state p = PS_committed \<or> withdrawn (pr_state p)"
  shows "\<exists>s' p'. rt_find sid r' = Some s' \<and> find_phase pid s' = Some p' \<and>
    pr_generation p' = pr_generation p \<and> pr_commit p' = pr_commit p \<and> set (pr_outputs p) \<subseteq> set (pr_outputs p') \<and>
    (if pr_state p = PS_committed then pr_state p' = PS_committed \<or> pr_state p' = PS_retired else withdrawn (pr_state p'))"
proof -
  obtain s' p' where p': "rt_find sid r' = Some s'" "find_phase pid s' = Some p'" "phase_keeps True p p'"
    using runtime_keeps_phase [OF runtime_steps_keeps [OF assms(1)] assms(2,3)] by blast
  have "settled p" using assms(4) by (simp add: settled_def)
  with p' assms(4) show ?thesis by (auto simp: phase_keeps_def)
qed

theorem settled_phase_is_final_witness:
  "\<exists>s' p'. rt_find (StrongId 1) (reopen (fst (sample_commit None))) = Some s' \<and> find_phase (StrongId 1) s' = Some p' \<and>
    (pr_state p' = PS_committed \<or> pr_state p' = PS_retired)"
proof -
  obtain s p where "rt_find (StrongId 1) (fst (sample_commit None)) = Some s" "find_phase (StrongId 1) s = Some p"
    "pr_state p = PS_committed" by (rule sample_committed)
  then show ?thesis
    using settled_phase_is_final [of "{}" "fst (sample_commit None)" "reopen (fst (sample_commit None))" "StrongId 1" s "StrongId 1" p]
    by (auto intro: r_into_rtranclp runtime_step.reopen)
qed






text \<open>
  C7: the driver of a session gives an answer before its progress guard fires: with workers that
  report truthfully every scheduling round but the last settles a phase, and the ceiling exceeds the
  number of phases.
\<close>

theorem run_session_progresses:
  assumes "\<And>i. workers_ok sid (workers i)" "rt_find sid r = Some s" "plan_ok (cs_plan s)"
  shows "\<exists>answer. session_rounds hosts workers sid (parallel_limit sid r) (iteration_ceiling s r) (iteration_ceiling s r)
      (compile_outcome_default\<lparr>co_session := Ref sid gen_absent\<rparr>) r =
    (fst (run_session hosts workers sid r), Some answer) \<and> snd (run_session hosts workers sid r) = answer"
  by (rule run_session_answers [OF assms])

theorem run_session_progresses_witness:
  "\<exists>answer. snd (session_rounds sample_hosts (\<lambda>i. sequential_workers (sample_hosts i) (StrongId 1)) (StrongId 1)
      (parallel_limit (StrongId 1) (sample_runtime True)) (iteration_ceiling sample_session (sample_runtime True))
      (iteration_ceiling sample_session (sample_runtime True))
      (compile_outcome_default\<lparr>co_session := Ref (StrongId 1) gen_absent\<rparr>) (sample_runtime True)) = Some answer"
  using run_session_progresses [of "StrongId 1" "\<lambda>i. sequential_workers (sample_hosts i) (StrongId 1)" "sample_runtime True"
      sample_session sample_hosts, OF sequential_workers_ok sample_finds(1)] sample_plan_ok
  by (auto simp: sample_session_def)







text \<open>
  C9: a commit whose binding is not current when the toolchain has been probed again is refused:
  the phase is FENCED under the status of the verdict, its lease is withdrawn, no artifact gains
  authority and the commit is not counted.
\<close>

theorem stale_commit_is_fenced:
  assumes "rt_find (rv_session rv) r = Some s" "find_phase (rv_phase rv) s = Some p" "pr_state p = PS_commit_ready"
    "pr_generation p = rv_phase_generation rv" "pr_active_invocation p = rv_invocation rv" "reprobe_answers host s r"
    "commit_verdict host rv s p (reprobed host s r) = verdict" "verdict \<noteq> AV_valid"
    "commit_reserved host rv report r = (r', x)"
  shows "\<exists>s' p'. rt_find (rv_session rv) r' = Some s' \<and> find_phase (rv_phase rv) s' = Some p' \<and> pr_state p' = PS_fenced \<and>
    pr_last_status p' = to_status_code verdict \<and> rt_commit_total r' = rt_commit_total r \<and>
    \<not> lease_is_held now (pr_lease p) (rt_leases r') \<and> no_new_authority (rt_artifacts r) (rt_artifacts r') \<and>
    (case x of Inl _ \<Rightarrow> True | Inr rep \<Rightarrow> rr_state rep = PS_fenced \<and> rr_authority rep = verdict)"
proof -
  obtain r1 where r1: "decided_in r (reprobed_toolchains host s r) r1" "commit_reprobe host rv report s p r = commit_decide host rv report s p r1"
    using reprobe_answers_decides [OF assms(6)] by blast
  have fence: "fence_stale host rv report verdict s p r1 = (r', x)"
    using r1 assms(7-9) commit_reserved_decides [OF assms(1-5)] decided_in_verdict [OF r1(1)]
    by (simp add: commit_decide_def Let_def authority_verdict_is_current_def)
  have find: "rt_find (rv_session rv) r1 = Some s" using assms(1) decided_in_fields(1) [OF r1(1)] by (simp add: rt_find_def)
  have "quiet r1 r'" using fence_stale_quiet [OF _ assms(2) find] assms(3) fence by (metis fst_conv phase_state.distinct)
  then have "no_new_authority (rt_artifacts r) (rt_artifacts r')"
    using decided_in_fields(3) [OF r1(1)] by (simp add: runtime_keeps_def)
  then show ?thesis
    using fence_stale_result [OF find assms(2,3) fence] decided_in_fields(7) [OF r1(1)]
      revoked_not_held [of now "pr_lease p" "''commit refused: '' @ to_string_verdict verdict" "rt_leases r1"]
    by (cases x) auto
qed

theorem stale_commit_is_fenced_witness:
  "\<exists>s' p'. rt_find (StrongId 1) (fst (commit_reserved (sample_runtime_host None) sample_stale execution_report_default
      (sample_runtime True))) = Some s' \<and> find_phase (StrongId 1) s' = Some p' \<and> pr_state p' = PS_fenced \<and>
    pr_last_status p' = SC_stale_toolchain_generation"
  using stale_commit_is_fenced [of sample_stale "sample_runtime True" sample_session sample_phase "sample_runtime_host None"
      AV_stale_toolchain execution_report_default _ _ 7, OF _ _ _ _ _ _ _ _ surjective_pairing] sample_stale_facts sample_finds
  by (auto simp: sample_fields)

end
