(* ===== verification/Codec.thy ===== *)
theory Codec
  imports Provenance Diagnostics Session Toolchain "HOL-Library.Monad_Syntax"
begin

text \<open>
  \<open>src/core/persistence.cpp\<close>, the bounded encoder and decoder every persisted record is written and
  read with. The encoder is concatenation. A decoder is a function to the value and the unread
  bytes, or to nothing once \<open>fail()\<close> was called: the flag \<open>ok\<close> is never set again, and every caller
  looks at it before it uses a value.
\<close>

section \<open>Bounds\<close>

definition kPersistenceSchemaVersion :: u16 where "kPersistenceSchemaVersion = 1"
definition kMaxStringBytes :: nat where "kMaxStringBytes = 8192"
definition kMaxPathBytes :: nat where "kMaxPathBytes = 32768"
definition kMaxBlobBytes :: nat where "kMaxBlobBytes = 4194304"
definition kMaxCollection :: nat where "kMaxCollection = 65536"

section \<open>Fields\<close>

definition enc_id :: "'tag strong_id \<Rightarrow> string" where
  "enc_id i = enc_u64 (id_value i)"

definition enc_gen :: "'tag generation \<Rightarrow> string" where
  "enc_gen g = enc_u64 (gen_value g)"

definition enc_ref :: "'tag referenced \<Rightarrow> string" where
  "enc_ref r = enc_id (ref_id r) @ enc_gen (ref_gen r)"

definition enc_digest :: "digest \<Rightarrow> string" where
  "enc_digest d = enc_text (to_hex d)"

definition dec_id :: "string \<Rightarrow> ('tag strong_id \<times> string) option" where
  "dec_id s = do { (v, s) \<leftarrow> dec_u64 s; Some (StrongId v, s) }"

definition dec_gen :: "string \<Rightarrow> ('tag generation \<times> string) option" where
  "dec_gen s = do { (v, s) \<leftarrow> dec_u64 s; Some (Generation v, s) }"

definition dec_ref :: "string \<Rightarrow> ('tag referenced \<times> string) option" where
  "dec_ref s = do { (i, s) \<leftarrow> dec_id s; (g, s) \<leftarrow> dec_gen s; Some (Ref i g, s) }"

definition dec_str :: "string \<Rightarrow> (string \<times> string) option" where
  "dec_str s = dec_text kMaxStringBytes s"

definition dec_path :: "string \<Rightarrow> (string \<times> string) option" where
  "dec_path s = dec_text kMaxPathBytes s"

definition dec_digest :: "string \<Rightarrow> (digest \<times> string) option" where
  "dec_digest s = do {
     (hex, s) \<leftarrow> dec_text 64 s;
     if length hex \<noteq> 64 then None
     else case digest_from_hex hex of None \<Rightarrow> None | Some d \<Rightarrow> Some (d, s) }"

definition dec_collection :: "nat \<Rightarrow> string \<Rightarrow> (nat \<times> string) option" where
  "dec_collection bound s = do { (count, s) \<leftarrow> dec_u64 s; if unat count > bound then None else Some (unat count, s) }"

fun dec_times :: "nat \<Rightarrow> (string \<Rightarrow> ('a \<times> string) option) \<Rightarrow> string \<Rightarrow> ('a list \<times> string) option" where
  "dec_times 0 dec s = Some ([], s)"
| "dec_times (Suc n) dec s = do { (x, s) \<leftarrow> dec s; (xs, s) \<leftarrow> dec_times n dec s; Some (x # xs, s) }"

text \<open>A counted sequence, written and read.\<close>

definition enc_seq :: "('a \<Rightarrow> string) \<Rightarrow> 'a list \<Rightarrow> string" where
  "enc_seq enc xs = enc_u64 (of_nat (length xs)) @ concat (map enc xs)"

definition dec_seq :: "nat \<Rightarrow> (string \<Rightarrow> ('a \<times> string) option) \<Rightarrow> string \<Rightarrow> ('a list \<times> string) option" where
  "dec_seq bound dec s = do { (count, s) \<leftarrow> dec_collection bound s; dec_times count dec s }"

section \<open>Enumerations\<close>

text \<open>
  The enumerations are numbered from 0 in the order of their enumerators, so the list of the
  enumerators gives the numbers. \<open>enumeration\<close> refuses a number above the given maximum. A plain
  \<open>static_cast\<close> refuses none; what the object then holds is no enumerator, and the parameter \<open>stray\<close>
  stands for it.
\<close>

definition enc_enum :: "'e list \<Rightarrow> 'e \<Rightarrow> string" where
  "enc_enum es e = enc_u8 (of_nat (length (takeWhile (\<lambda>x. x \<noteq> e) es)))"

definition dec_enum :: "'e list \<Rightarrow> u8 \<Rightarrow> string \<Rightarrow> ('e \<times> string) option" where
  "dec_enum es maximum s = do { (raw, s) \<leftarrow> dec_u8 s; if raw > maximum then None else Some (es ! unat raw, s) }"

definition dec_cast :: "'e list \<Rightarrow> (u8 \<Rightarrow> 'e) \<Rightarrow> string \<Rightarrow> ('e \<times> string) option" where
  "dec_cast es stray s =
     do { (raw, s) \<leftarrow> dec_u8 s; Some (if unat raw < length es then es ! unat raw else stray raw, s) }"

definition enc_status :: "status_code \<Rightarrow> string" where
  "enc_status c = enc_u16 (status_value c)"

definition dec_status :: "string \<Rightarrow> (status_code \<times> string) option" where
  "dec_status s = do { (raw, s) \<leftarrow> dec_u16 s; if raw > 200 then None else Some (StatusCode raw, s) }"

definition phase_kind_order :: "phase_kind list" where
  "phase_kind_order = [PK_unknown, PK_input_validate, PK_preprocess, PK_frontend, PK_parse, PK_semantic_analysis,
     PK_ir_generate, PK_ir_optimize, PK_codegen, PK_assemble, PK_device_compile, PK_device_link, PK_link,
     PK_postprocess, PK_validate, PK_finalize, PK_custom]"

definition phase_state_order :: "phase_state list" where
  "phase_state_order = [PS_pending, PS_ready, PS_preparing, PS_running, PS_produced, PS_validating, PS_commit_ready,
     PS_committed, PS_failed, PS_cancelled, PS_fenced, PS_recovery_required, PS_retired]"

definition failure_class_order :: "failure_class list" where
  "failure_class_order = [FC_none, FC_process_crash, FC_process_interrupted, FC_transient_workspace_failure,
     FC_transient_storage_failure, FC_retry_safe_tool_invocation_failure, FC_external_cancellation, FC_invalid_source,
     FC_deterministic_compiler_error, FC_unsupported_target, FC_unsupported_option, FC_invalid_toolchain,
     FC_policy_refusal, FC_output_invalid, FC_authority_invalidated, FC_unknown_outcome]"

definition severity_order :: "diagnostic_severity list" where
  "severity_order = [DS_info, DS_warning, DS_error, DS_fatal, DS_internal, DS_unknown]"

definition object_format_order :: "object_format list" where
  "object_format_order = [OF_unknown, OF_coff_object, OF_coff_image, OF_ptx, OF_cubin, OF_fatbin, OF_elf, OF_archive,
     OF_preprocessed_source, OF_assembly_source, OF_linker_map, OF_debug_info, OF_metadata]"

definition artifact_state_order :: "artifact_state list" where
  "artifact_state_order = [AS_unknown, AS_valid, AS_stale, AS_incompatible, AS_corrupt, AS_superseded, AS_unsupported]"

definition authority_state_order :: "authority_state list" where
  "authority_state_order = [AU_candidate, AU_authoritative, AU_revoked, AU_none]"

definition session_state_order :: "session_state list" where
  "session_state_order = [SS_created, SS_active, SS_recovering, SS_committed, SS_failed, SS_cancelled, SS_retired]"

definition recovery_state_order :: "recovery_state list" where
  "recovery_state_order = [RS_none, RS_required, RS_planned, RS_in_progress, RS_resolved, RS_manual_required, RS_unsupported]"

definition locale_policy_order :: "locale_policy list" where
  "locale_policy_order = [LP_c_locale, LP_explicit_name, LP_user_default]"

definition reproducibility_order :: "reproducibility_policy list" where
  "reproducibility_order = [RP_required, RP_preferred, RP_not_required]"

definition architecture_order :: "architecture list" where
  "architecture_order = [AR_unknown, AR_x86, AR_x64, AR_arm, AR_arm64]"

definition operating_system_order :: "operating_system list" where
  "operating_system_order = [OS_unknown, OS_windows, OS_linux_kernel, OS_macos, OS_bare_metal]"

definition toolchain_family_order :: "toolchain_family list" where
  "toolchain_family_order = [TF_unknown, TF_msvc, TF_clang_cl, TF_clang, TF_gcc, TF_nvcc, TF_hipcc, TF_intel_icx, TF_synthetic]"

definition component_kind_order :: "component_kind list" where
  "component_kind_order = [CK_unknown, CK_host_c_compiler, CK_host_cxx_compiler, CK_device_compiler, CK_device_assembler,
     CK_assembler, CK_linker, CK_librarian, CK_optimizer, CK_plugin, CK_sdk_header_set, CK_runtime_library,
     CK_standard_library, CK_target_library, CK_other]"

definition evidence_class_order :: "evidence_class list" where
  "evidence_class_order = [EC_unknown, EC_real, EC_synthetic, EC_unsupported]"

definition source_language_order :: "source_language list" where
  "source_language_order = [SL_unknown, SL_c, SL_cxx, SL_cuda, SL_assembly, SL_ptx, SL_other]"

definition verdict_order :: "authority_verdict list" where
  "verdict_order = [AV_valid, AV_stale_session, AV_stale_compilation, AV_stale_attempt, AV_stale_phase, AV_stale_toolchain,
     AV_stale_target, AV_stale_environment, AV_stale_policy, AV_stale_source, AV_stale_ir, AV_stale_lease,
     AV_stale_component, AV_toolchain_retired, AV_target_retired, AV_environment_retired, AV_policy_retired, AV_unknown]"

section \<open>Envelopes\<close>

definition malformed :: "string \<Rightarrow> status" where
  "malformed what = Status SC_persistence_corrupt (''persisted state is malformed: '' @ what)"

text \<open>The schema version a record opens with, with a status of its own or with the same one.\<close>

definition check_schema :: "string \<Rightarrow> string \<Rightarrow> string \<Rightarrow> string result" where
  "check_schema header mismatch bytes =
     (case dec_u16 bytes of
        None \<Rightarrow> Inl (malformed header)
      | Some (schema, s) \<Rightarrow>
          if schema \<noteq> kPersistenceSchemaVersion then Inl (Status SC_persistence_schema_mismatch mismatch) else Inr s)"

definition check_header :: "string \<Rightarrow> string \<Rightarrow> string result" where
  "check_header header bytes =
     (case dec_u16 bytes of
        None \<Rightarrow> Inl (malformed header)
      | Some (schema, s) \<Rightarrow> if schema \<noteq> kPersistenceSchemaVersion then Inl (malformed header) else Inr s)"

text \<open>The checks a decoder ends with: \<open>good()\<close>, then \<open>exhausted()\<close>.\<close>

definition finish_decode :: "string \<Rightarrow> string \<Rightarrow> ('a \<times> string) option \<Rightarrow> 'a result" where
  "finish_decode body trailing x =
     (case x of
        None \<Rightarrow> Inl (malformed body)
      | Some (v, s) \<Rightarrow> if s \<noteq> [] then Inl (malformed trailing) else Inr v)"

section \<open>What is written is read back\<close>

named_theorems codec_simps \<open>reading back one field\<close>

context codec
begin

lemma decode_encode_times: "list_all valid xs \<Longrightarrow> dec_times (length xs) dec (concat (map enc xs) @ rest) = Some (xs, rest)"
  by (induction xs) (simp_all add: decode_encode)

lemma decode_encode_seq:
  assumes "list_all valid xs" "length xs \<le> bound" "bound < 2 ^ 64"
  shows "dec_seq bound dec (enc_seq enc xs @ rest) = Some (xs, rest)"
proof -
  have "unat (of_nat (length xs) :: u64) = length xs" using assms(2,3) by (simp add: unsigned_of_nat take_bit_nat_eq_self)
  then show ?thesis
    using assms decode_encode_times [OF assms(1)]
    by (simp add: dec_seq_def enc_seq_def dec_collection_def c_u64.decode_encode)
qed

end

interpretation c_id: codec enc_id dec_id "\<lambda>_. True"
  by unfold_locales (simp add: enc_id_def dec_id_def c_u64.decode_encode)

interpretation c_gen: codec enc_gen dec_gen "\<lambda>_. True"
  by unfold_locales (simp add: enc_gen_def dec_gen_def c_u64.decode_encode)

interpretation c_ref: codec enc_ref dec_ref "\<lambda>_. True"
  by unfold_locales (simp add: enc_ref_def dec_ref_def c_id.decode_encode c_gen.decode_encode)

definition digest_fits :: "digest \<Rightarrow> bool" where
  "digest_fits d = (length (raw d) = kBytes)"

interpretation c_digest: codec enc_digest dec_digest digest_fits
proof unfold_locales
  fix d :: digest and rest
  assume d: "digest_fits d"
  then have "length (to_hex d) = 64"
    by (simp add: digest_fits_def to_hex_def length_concat comp_def byte_to_hex_def sum_list_triv kBytes_def)
  with d show "dec_digest (enc_digest d @ rest) = Some (d, rest)"
    by (simp add: dec_digest_def enc_digest_def c_text.decode_encode digest_hex_round_trip digest_fits_def)
qed

definition str_fits :: "string \<Rightarrow> bool" where
  "str_fits s = (length s \<le> kMaxStringBytes)"

definition path_fits :: "string \<Rightarrow> bool" where
  "path_fits s = (length s \<le> kMaxPathBytes)"

interpretation c_str: codec enc_text dec_str str_fits
  by unfold_locales (simp add: dec_str_def str_fits_def kMaxStringBytes_def c_text.decode_encode)

interpretation c_path: codec enc_text dec_path path_fits
  by unfold_locales (simp add: dec_path_def path_fits_def kMaxPathBytes_def c_text.decode_encode)

interpretation c_status: codec enc_status dec_status "\<lambda>c. status_value c \<le> 200"
  by unfold_locales (simp add: enc_status_def dec_status_def c_u16.decode_encode not_less)

lemma take_while_index: "e \<in> set es \<Longrightarrow> length (takeWhile (\<lambda>x. x \<noteq> e) es) < length es \<and> es ! length (takeWhile (\<lambda>x. x \<noteq> e) es) = e"
  by (induction es) auto

lemma dec_enum_enc:
  assumes "e \<in> set es" "length es \<le> Suc (unat maximum)"
  shows "dec_enum es maximum (enc_enum es e @ rest) = Some (e, rest)"
proof -
  let ?n = "length (takeWhile (\<lambda>x. x \<noteq> e) es)"
  have n: "?n \<le> unat maximum" "es ! ?n = e" using take_while_index [OF assms(1)] assms(2) by auto
  have "unat maximum < 2 ^ 8" using unsigned_less [of maximum, where ?'a = nat] by simp
  with n have "unat (of_nat ?n :: u8) = ?n" by (simp add: unsigned_of_nat take_bit_nat_eq_self)
  with n show ?thesis
    by (simp add: dec_enum_def enc_enum_def c_u8.decode_encode word_less_nat_alt not_less)
qed

lemma dec_cast_enc:
  assumes "e \<in> set es" "length es \<le> 256"
  shows "dec_cast es stray (enc_enum es e @ rest) = Some (e, rest)"
proof -
  let ?n = "length (takeWhile (\<lambda>x. x \<noteq> e) es)"
  have n: "?n < length es" "es ! ?n = e" using take_while_index [OF assms(1)] by auto
  then have "unat (of_nat ?n :: u8) = ?n" using assms(2) by (simp add: unsigned_of_nat take_bit_nat_eq_self)
  with n show ?thesis by (simp add: dec_cast_def enc_enum_def c_u8.decode_encode)
qed

lemma enumerators_complete:
  "x1 \<in> set phase_kind_order" "x2 \<in> set phase_state_order" "x3 \<in> set failure_class_order" "x4 \<in> set severity_order"
  "x5 \<in> set object_format_order" "x6 \<in> set artifact_state_order" "x7 \<in> set authority_state_order" "x8 \<in> set session_state_order"
  "x9 \<in> set recovery_state_order" "y1 \<in> set locale_policy_order" "y2 \<in> set reproducibility_order" "y3 \<in> set architecture_order"
  "y4 \<in> set operating_system_order" "y5 \<in> set toolchain_family_order" "y6 \<in> set component_kind_order" "y7 \<in> set evidence_class_order"
  "y8 \<in> set source_language_order" "y9 \<in> set verdict_order"
proof -
  show "x1 \<in> set phase_kind_order" by (cases x1) (simp_all add: phase_kind_order_def)
  show "x2 \<in> set phase_state_order" by (cases x2) (simp_all add: phase_state_order_def)
  show "x3 \<in> set failure_class_order" by (cases x3) (simp_all add: failure_class_order_def)
  show "x4 \<in> set severity_order" by (cases x4) (simp_all add: severity_order_def)
  show "x5 \<in> set object_format_order" by (cases x5) (simp_all add: object_format_order_def)
  show "x6 \<in> set artifact_state_order" by (cases x6) (simp_all add: artifact_state_order_def)
  show "x7 \<in> set authority_state_order" by (cases x7) (simp_all add: authority_state_order_def)
  show "x8 \<in> set session_state_order" by (cases x8) (simp_all add: session_state_order_def)
  show "x9 \<in> set recovery_state_order" by (cases x9) (simp_all add: recovery_state_order_def)
  show "y1 \<in> set locale_policy_order" by (cases y1) (simp_all add: locale_policy_order_def)
  show "y2 \<in> set reproducibility_order" by (cases y2) (simp_all add: reproducibility_order_def)
  show "y3 \<in> set architecture_order" by (cases y3) (simp_all add: architecture_order_def)
  show "y4 \<in> set operating_system_order" by (cases y4) (simp_all add: operating_system_order_def)
  show "y5 \<in> set toolchain_family_order" by (cases y5) (simp_all add: toolchain_family_order_def)
  show "y6 \<in> set component_kind_order" by (cases y6) (simp_all add: component_kind_order_def)
  show "y7 \<in> set evidence_class_order" by (cases y7) (simp_all add: evidence_class_order_def)
  show "y8 \<in> set source_language_order" by (cases y8) (simp_all add: source_language_order_def)
  show "y9 \<in> set verdict_order" by (cases y9) (simp_all add: verdict_order_def)
qed

lemma enumerators_length:
  "length phase_kind_order = 17" "length phase_state_order = 13" "length failure_class_order = 16" "length severity_order = 6"
  "length object_format_order = 13" "length artifact_state_order = 7" "length authority_state_order = 4" "length session_state_order = 7"
  "length recovery_state_order = 7" "length locale_policy_order = 3" "length reproducibility_order = 3" "length architecture_order = 5"
  "length operating_system_order = 5" "length toolchain_family_order = 9" "length component_kind_order = 15" "length evidence_class_order = 4"
  "length source_language_order = 7" "length verdict_order = 18"
  by (simp_all add: phase_kind_order_def phase_state_order_def failure_class_order_def severity_order_def object_format_order_def artifact_state_order_def
      authority_state_order_def session_state_order_def recovery_state_order_def locale_policy_order_def reproducibility_order_def
      architecture_order_def operating_system_order_def toolchain_family_order_def component_kind_order_def evidence_class_order_def
      source_language_order_def verdict_order_def)

lemmas field_simps [codec_simps] = c_u8.decode_encode c_u16.decode_encode c_u32.decode_encode c_u64.decode_encode
  c_boolean.decode_encode c_i32.decode_encode c_id.decode_encode c_gen.decode_encode c_ref.decode_encode
  c_digest.decode_encode c_str.decode_encode c_path.decode_encode c_status.decode_encode c_text.decode_encode
  c_id.decode_encode_seq c_ref.decode_encode_seq c_str.decode_encode_seq c_path.decode_encode_seq
  dec_enum_enc dec_cast_enc enumerators_complete enumerators_length list.pred_True

lemma check_schema_enc: "check_schema header mismatch (enc_u16 kPersistenceSchemaVersion @ s) = Inr s"
  by (simp add: check_schema_def c_u16.decode_encode)

lemma check_header_enc: "check_header header (enc_u16 kPersistenceSchemaVersion @ s) = Inr s"
  by (simp add: check_header_def c_u16.decode_encode)

end
