(* ===== verification/Session_Codec.thy ===== *)
theory Session_Codec
  imports Codec
begin

text \<open>
  \<open>src/core/persistence.cpp\<close>: the encodings of phases, artifacts, diagnostic sets, final candidates,
  plans and sessions, and their decoders. What was written within the bounds of the decoder is read
  back as it was.
\<close>

section \<open>Phases\<close>

definition encode_attempt :: "phase_attempt \<Rightarrow> string" where
  "encode_attempt a =
     enc_id (pa_id a) @ enc_gen (pa_generation a) @ enc_ref (pa_invocation a) @ enc_gen (pa_process_generation a) @
     enc_u32 (pa_os_process_id a) @ enc_enum phase_state_order (pa_terminal_state a) @
     enc_enum failure_class_order (pa_failure a) @ enc_status (pa_status a) @ enc_i32 (pa_exit_code a) @
     enc_u64 (pa_started_at_nanos a) @ enc_u64 (pa_finished_at_nanos a) @
     enc_digest (pa_observed_output_digest a) @ enc_text (pa_detail a)"

definition decode_attempt :: "string \<Rightarrow> (phase_attempt \<times> string) option" where
  "decode_attempt s = do {
     (i, s) \<leftarrow> dec_id s;
     (generation, s) \<leftarrow> dec_gen s;
     (invocation, s) \<leftarrow> dec_ref s;
     (process_generation, s) \<leftarrow> dec_gen s;
     (os_process_id, s) \<leftarrow> dec_u32 s;
     (terminal_state, s) \<leftarrow> dec_enum phase_state_order 12 s;
     (failure, s) \<leftarrow> dec_enum failure_class_order 15 s;
     (status, s) \<leftarrow> dec_status s;
     (exit_code, s) \<leftarrow> dec_i32 s;
     (started_at_nanos, s) \<leftarrow> dec_u64 s;
     (finished_at_nanos, s) \<leftarrow> dec_u64 s;
     (observed_output_digest, s) \<leftarrow> dec_digest s;
     (detail, s) \<leftarrow> dec_str s;
     Some (\<lparr>pa_id = i, pa_generation = generation, pa_invocation = invocation,
       pa_process_generation = process_generation, pa_os_process_id = os_process_id,
       pa_terminal_state = terminal_state, pa_failure = failure, pa_status = status, pa_exit_code = exit_code,
       pa_started_at_nanos = started_at_nanos, pa_finished_at_nanos = finished_at_nanos,
       pa_observed_output_digest = observed_output_digest, pa_detail = detail\<rparr>, s) }"

definition encode_transition :: "phase_transition \<Rightarrow> string" where
  "encode_transition t =
     enc_enum phase_state_order (pt_from t) @ enc_enum phase_state_order (pt_to t) @ enc_u64 (pt_at_nanos t) @
     enc_text (pt_reason t)"

definition decode_transition :: "string \<Rightarrow> (phase_transition \<times> string) option" where
  "decode_transition s = do {
     (from_state, s) \<leftarrow> dec_enum phase_state_order 12 s;
     (to_state, s) \<leftarrow> dec_enum phase_state_order 12 s;
     (at_nanos, s) \<leftarrow> dec_u64 s;
     (reason, s) \<leftarrow> dec_str s;
     Some (\<lparr>pt_from = from_state, pt_to = to_state, pt_at_nanos = at_nanos, pt_reason = reason\<rparr>, s) }"

definition encode_phase :: "phase_record \<Rightarrow> string" where
  "encode_phase p =
     enc_u16 kPersistenceSchemaVersion @ enc_id (pr_id p) @ enc_gen (pr_generation p) @
     enc_enum phase_kind_order (pr_kind p) @ enc_text (pr_adapter_phase p) @
     enc_enum phase_state_order (pr_state p) @ enc_boolean (pr_mandatory p) @ enc_gen (pr_session_generation p) @
     enc_gen (pr_compilation_generation p) @ enc_gen (pr_attempt_generation p) @ enc_ref (pr_toolchain p) @
     enc_ref (pr_target p) @ enc_ref (pr_environment p) @ enc_ref (pr_policy p) @ enc_ref (pr_source p) @
     enc_gen (pr_ir_generation p) @ enc_ref (pr_lease p) @ enc_ref (pr_active_invocation p) @
     enc_id (pr_active_process p) @ enc_gen (pr_active_process_generation p) @ enc_ref (pr_diagnostics p) @
     enc_id (pr_commit p) @ enc_digest (pr_committed_output_digest p) @ enc_u64 (pr_committed_at_nanos p) @
     enc_enum failure_class_order (pr_failure p) @ enc_status (pr_last_status p) @ enc_text (pr_last_detail p) @
     enc_id (pr_recovery p) @ enc_gen (pr_recovery_generation p) @ enc_seq enc_id (pr_depends_on p) @
     enc_seq enc_ref (pr_inputs p) @ enc_seq enc_ref (pr_outputs p) @ enc_seq encode_attempt (pr_attempts p) @
     enc_seq encode_transition (pr_history p)"

text \<open>The fields up to the first check, with empty collections, and then the collections.\<close>

definition decode_phase_body :: "string \<Rightarrow> (phase_record \<times> string) option" where
  "decode_phase_body s = do {
     (i, s) \<leftarrow> dec_id s;
     (generation, s) \<leftarrow> dec_gen s;
     (kind, s) \<leftarrow> dec_enum phase_kind_order 16 s;
     (adapter_phase, s) \<leftarrow> dec_str s;
     (st, s) \<leftarrow> dec_enum phase_state_order 12 s;
     (mandatory, s) \<leftarrow> dec_boolean s;
     (session_generation, s) \<leftarrow> dec_gen s;
     (compilation_generation, s) \<leftarrow> dec_gen s;
     (attempt_generation, s) \<leftarrow> dec_gen s;
     (toolchain, s) \<leftarrow> dec_ref s;
     (target, s) \<leftarrow> dec_ref s;
     (environment, s) \<leftarrow> dec_ref s;
     (policy, s) \<leftarrow> dec_ref s;
     (source, s) \<leftarrow> dec_ref s;
     (ir_generation, s) \<leftarrow> dec_gen s;
     (lease, s) \<leftarrow> dec_ref s;
     (active_invocation, s) \<leftarrow> dec_ref s;
     (active_process, s) \<leftarrow> dec_id s;
     (active_process_generation, s) \<leftarrow> dec_gen s;
     (diagnostics, s) \<leftarrow> dec_ref s;
     (commit_id, s) \<leftarrow> dec_id s;
     (committed_output_digest, s) \<leftarrow> dec_digest s;
     (committed_at_nanos, s) \<leftarrow> dec_u64 s;
     (failure, s) \<leftarrow> dec_enum failure_class_order 15 s;
     (last_status, s) \<leftarrow> dec_status s;
     (last_detail, s) \<leftarrow> dec_str s;
     (recovery, s) \<leftarrow> dec_id s;
     (recovery_generation, s) \<leftarrow> dec_gen s;
     Some (phase_record_default\<lparr>pr_id := i, pr_generation := generation, pr_kind := kind, pr_adapter_phase := adapter_phase, pr_state := st,
       pr_mandatory := mandatory, pr_session_generation := session_generation,
       pr_compilation_generation := compilation_generation, pr_attempt_generation := attempt_generation,
       pr_toolchain := toolchain, pr_target := target, pr_environment := environment, pr_policy := policy,
       pr_source := source, pr_ir_generation := ir_generation, pr_lease := lease,
       pr_active_invocation := active_invocation, pr_active_process := active_process,
       pr_active_process_generation := active_process_generation, pr_diagnostics := diagnostics,
       pr_commit := commit_id, pr_committed_output_digest := committed_output_digest,
       pr_committed_at_nanos := committed_at_nanos, pr_failure := failure, pr_last_status := last_status,
       pr_last_detail := last_detail, pr_recovery := recovery, pr_recovery_generation := recovery_generation\<rparr>, s) }"

definition decode_phase_collections :: "phase_record \<Rightarrow> string \<Rightarrow> (phase_record \<times> string) option" where
  "decode_phase_collections p s = do {
     (depends_on, s) \<leftarrow> dec_seq kMaxCollection dec_id s;
     (inputs, s) \<leftarrow> dec_seq kMaxCollection dec_ref s;
     (outputs, s) \<leftarrow> dec_seq kMaxCollection dec_ref s;
     (attempts, s) \<leftarrow> dec_seq kMaxPhaseAttempts decode_attempt s;
     (history, s) \<leftarrow> dec_seq kMaxPhaseTransitions decode_transition s;
     Some (p\<lparr>pr_depends_on := depends_on, pr_inputs := inputs, pr_outputs := outputs, pr_attempts := attempts,
       pr_history := history\<rparr>, s) }"

definition decode_phase :: "string \<Rightarrow> phase_record result" where
  "decode_phase bytes =
     crf_try (check_schema ''phase header'' ''phase schema version mismatch'' bytes) (\<lambda>s.
       case decode_phase_body s of
         None \<Rightarrow> Inl (malformed ''phase body'')
       | Some (p, s) \<Rightarrow> finish_decode ''phase collections'' ''phase has trailing bytes'' (decode_phase_collections p s))"

section \<open>Artifacts, diagnostics and candidates\<close>

definition encode_artifact :: "intermediate_artifact \<Rightarrow> string" where
  "encode_artifact a =
     enc_u16 kPersistenceSchemaVersion @ enc_id (ia_id a) @ enc_gen (ia_generation a) @
     enc_enum object_format_order (ia_format a) @ enc_text (ia_path a) @ enc_digest (ia_content a) @
     enc_u64 (ia_size_bytes a) @ enc_ref (ia_producer_phase a) @ enc_ref (ia_producer_invocation a) @
     enc_ref (ia_toolchain a) @ enc_ref (ia_target a) @ enc_ref (ia_source a) @ enc_gen (ia_ir_generation a) @
     enc_ref (ia_environment a) @ enc_ref (ia_policy a) @ enc_id (ia_provenance a) @
     enc_enum artifact_state_order (ia_state a) @ enc_enum authority_state_order (ia_authority a) @
     enc_boolean (ia_current a) @ enc_digest (ia_declared_digest a) @ enc_text (ia_validation_detail a) @
     enc_seq enc_ref (ia_lineage_inputs a)"

definition decode_artifact_body :: "string \<Rightarrow> (intermediate_artifact \<times> string) option" where
  "decode_artifact_body s = do {
     (i, s) \<leftarrow> dec_id s;
     (generation, s) \<leftarrow> dec_gen s;
     (fmt, s) \<leftarrow> dec_enum object_format_order 12 s;
     (path, s) \<leftarrow> dec_path s;
     (content, s) \<leftarrow> dec_digest s;
     (size_bytes, s) \<leftarrow> dec_u64 s;
     (producer_phase, s) \<leftarrow> dec_ref s;
     (producer_invocation, s) \<leftarrow> dec_ref s;
     (toolchain, s) \<leftarrow> dec_ref s;
     (target, s) \<leftarrow> dec_ref s;
     (source, s) \<leftarrow> dec_ref s;
     (ir_generation, s) \<leftarrow> dec_gen s;
     (environment, s) \<leftarrow> dec_ref s;
     (policy, s) \<leftarrow> dec_ref s;
     (provenance, s) \<leftarrow> dec_id s;
     (st, s) \<leftarrow> dec_enum artifact_state_order 6 s;
     (authority, s) \<leftarrow> dec_enum authority_state_order 3 s;
     (current, s) \<leftarrow> dec_boolean s;
     (declared_digest, s) \<leftarrow> dec_digest s;
     (validation_detail, s) \<leftarrow> dec_str s;
     (lineage_inputs, s) \<leftarrow> dec_seq kMaxCollection dec_ref s;
     Some (\<lparr>ia_id = i, ia_generation = generation, ia_format = fmt, ia_path = path, ia_content = content,
       ia_size_bytes = size_bytes, ia_producer_phase = producer_phase,
       ia_producer_invocation = producer_invocation, ia_toolchain = toolchain, ia_target = target,
       ia_source = source, ia_ir_generation = ir_generation, ia_environment = environment, ia_policy = policy,
       ia_lineage_inputs = lineage_inputs, ia_state = st, ia_authority = authority, ia_provenance = provenance,
       ia_validation_detail = validation_detail, ia_declared_digest = declared_digest, ia_current = current\<rparr>, s) }"

definition decode_artifact :: "string \<Rightarrow> intermediate_artifact result" where
  "decode_artifact bytes =
     crf_try (check_schema ''artifact header'' ''artifact schema version mismatch'' bytes) (\<lambda>s.
       finish_decode ''artifact body'' ''artifact has trailing bytes'' (decode_artifact_body s))"

definition encode_diagnostic :: "diagnostic \<Rightarrow> string" where
  "encode_diagnostic d =
     enc_enum severity_order (dg_severity d) @ enc_text (dg_code d) @ enc_text (dg_message d) @
     enc_text (dg_file d) @ enc_u32 (dg_line d) @ enc_u32 (dg_column d) @ enc_text (dg_origin d) @
     enc_text (dg_raw d)"

definition decode_diagnostic :: "string \<Rightarrow> (diagnostic \<times> string) option" where
  "decode_diagnostic s = do {
     (severity, s) \<leftarrow> dec_enum severity_order 5 s;
     (code, s) \<leftarrow> dec_str s;
     (message, s) \<leftarrow> dec_str s;
     (file_name, s) \<leftarrow> dec_str s;
     (line, s) \<leftarrow> dec_u32 s;
     (column, s) \<leftarrow> dec_u32 s;
     (origin, s) \<leftarrow> dec_str s;
     (raw, s) \<leftarrow> dec_text kMaxBlobBytes s;
     Some (\<lparr>dg_severity = severity, dg_code = code, dg_message = message, dg_file = file_name, dg_line = line,
       dg_column = column, dg_origin = origin, dg_raw = raw\<rparr>, s) }"

definition encode_diagnostic_set :: "diagnostic_set \<Rightarrow> string" where
  "encode_diagnostic_set x =
     enc_u16 kPersistenceSchemaVersion @ enc_id (dx_id x) @ enc_gen (dx_generation x) @ enc_ref (dx_invocation x) @
     enc_ref (dx_phase x) @ enc_ref (dx_toolchain x) @ enc_ref (dx_target x) @ enc_boolean (dx_normalized x) @
     enc_boolean (dx_truncated x) @ enc_u64 (dx_raw_stdout_bytes x) @ enc_u64 (dx_raw_stderr_bytes x) @
     enc_u64 (dx_dropped_stdout_bytes x) @ enc_u64 (dx_dropped_stderr_bytes x) @ enc_i32 (dx_exit_code x) @
     enc_boolean (dx_process_crashed x) @ enc_u32 (dx_error_count x) @ enc_u32 (dx_warning_count x) @
     enc_text (dx_raw_stdout_tail x) @ enc_text (dx_raw_stderr_tail x) @ enc_seq encode_diagnostic (dx_entries x)"

definition decode_diagnostic_set_body :: "string \<Rightarrow> (diagnostic_set \<times> string) option" where
  "decode_diagnostic_set_body s = do {
     (i, s) \<leftarrow> dec_id s;
     (generation, s) \<leftarrow> dec_gen s;
     (invocation, s) \<leftarrow> dec_ref s;
     (phase, s) \<leftarrow> dec_ref s;
     (toolchain, s) \<leftarrow> dec_ref s;
     (target, s) \<leftarrow> dec_ref s;
     (normalized, s) \<leftarrow> dec_boolean s;
     (truncated, s) \<leftarrow> dec_boolean s;
     (raw_stdout_bytes, s) \<leftarrow> dec_u64 s;
     (raw_stderr_bytes, s) \<leftarrow> dec_u64 s;
     (dropped_stdout_bytes, s) \<leftarrow> dec_u64 s;
     (dropped_stderr_bytes, s) \<leftarrow> dec_u64 s;
     (exit_code, s) \<leftarrow> dec_i32 s;
     (process_crashed, s) \<leftarrow> dec_boolean s;
     (error_count, s) \<leftarrow> dec_u32 s;
     (warning_count, s) \<leftarrow> dec_u32 s;
     (raw_stdout_tail, s) \<leftarrow> dec_text kMaxRawTailBytes s;
     (raw_stderr_tail, s) \<leftarrow> dec_text kMaxRawTailBytes s;
     (entries, s) \<leftarrow> dec_seq kMaxEntries decode_diagnostic s;
     Some (\<lparr>dx_id = i, dx_generation = generation, dx_invocation = invocation, dx_phase = phase,
       dx_toolchain = toolchain, dx_target = target, dx_entries = entries, dx_normalized = normalized,
       dx_truncated = truncated, dx_raw_stdout_bytes = raw_stdout_bytes, dx_raw_stderr_bytes = raw_stderr_bytes,
       dx_dropped_stdout_bytes = dropped_stdout_bytes, dx_dropped_stderr_bytes = dropped_stderr_bytes,
       dx_raw_stdout_tail = raw_stdout_tail, dx_raw_stderr_tail = raw_stderr_tail, dx_exit_code = exit_code,
       dx_process_crashed = process_crashed, dx_error_count = error_count, dx_warning_count = warning_count\<rparr>, s) }"

definition decode_diagnostic_set :: "string \<Rightarrow> diagnostic_set result" where
  "decode_diagnostic_set bytes =
     crf_try (check_schema ''diagnostic set header'' ''diagnostic schema version mismatch'' bytes) (\<lambda>s.
       finish_decode ''diagnostic set body'' ''diagnostic set has trailing bytes'' (decode_diagnostic_set_body s))"

definition encode_candidate :: "final_candidate \<Rightarrow> string" where
  "encode_candidate c =
     enc_u16 kPersistenceSchemaVersion @ enc_id (fc_id c) @ enc_gen (fc_generation c) @ enc_id (fc_compilation c) @
     enc_gen (fc_compilation_generation c) @ enc_gen (fc_attempt_generation c) @ enc_ref (fc_session c) @
     enc_ref (fc_toolchain c) @ enc_ref (fc_target c) @ enc_ref (fc_environment c) @ enc_ref (fc_policy c) @
     enc_ref (fc_source c) @ enc_gen (fc_ir_generation c) @ enc_enum object_format_order (fc_format c) @
     enc_text (fc_path c) @ enc_digest (fc_content c) @ enc_u64 (fc_size_bytes c) @ enc_id (fc_provenance c) @
     enc_digest (fc_lineage_digest c) @ enc_boolean (fc_complete_lineage c) @ enc_boolean (fc_handed_off c) @
     enc_u64 (fc_registered_at_nanos c) @ enc_seq enc_ref (fc_lineage c) @
     enc_seq enc_id (fc_validation_evidence c)"

definition decode_candidate_body :: "string \<Rightarrow> (final_candidate \<times> string) option" where
  "decode_candidate_body s = do {
     (i, s) \<leftarrow> dec_id s;
     (generation, s) \<leftarrow> dec_gen s;
     (compilation, s) \<leftarrow> dec_id s;
     (compilation_generation, s) \<leftarrow> dec_gen s;
     (attempt_generation, s) \<leftarrow> dec_gen s;
     (session, s) \<leftarrow> dec_ref s;
     (toolchain, s) \<leftarrow> dec_ref s;
     (target, s) \<leftarrow> dec_ref s;
     (environment, s) \<leftarrow> dec_ref s;
     (policy, s) \<leftarrow> dec_ref s;
     (source, s) \<leftarrow> dec_ref s;
     (ir_generation, s) \<leftarrow> dec_gen s;
     (fmt, s) \<leftarrow> dec_enum object_format_order 12 s;
     (path, s) \<leftarrow> dec_path s;
     (content, s) \<leftarrow> dec_digest s;
     (size_bytes, s) \<leftarrow> dec_u64 s;
     (provenance, s) \<leftarrow> dec_id s;
     (lineage_digest, s) \<leftarrow> dec_digest s;
     (complete_lineage, s) \<leftarrow> dec_boolean s;
     (handed_off, s) \<leftarrow> dec_boolean s;
     (registered_at_nanos, s) \<leftarrow> dec_u64 s;
     (lineage, s) \<leftarrow> dec_seq kMaxCollection dec_ref s;
     (validation_evidence, s) \<leftarrow> dec_seq kMaxCollection dec_id s;
     Some (\<lparr>fc_id = i, fc_generation = generation, fc_compilation = compilation,
       fc_compilation_generation = compilation_generation, fc_attempt_generation = attempt_generation,
       fc_session = session, fc_toolchain = toolchain, fc_target = target, fc_environment = environment,
       fc_policy = policy, fc_source = source, fc_ir_generation = ir_generation, fc_format = fmt, fc_path = path,
       fc_content = content, fc_size_bytes = size_bytes, fc_lineage = lineage,
       fc_validation_evidence = validation_evidence, fc_provenance = provenance,
       fc_lineage_digest = lineage_digest, fc_complete_lineage = complete_lineage,
       fc_registered_at_nanos = registered_at_nanos, fc_handed_off = handed_off\<rparr>, s) }"

definition decode_candidate :: "string \<Rightarrow> final_candidate result" where
  "decode_candidate bytes =
     crf_try (check_schema ''candidate header'' ''candidate schema version mismatch'' bytes) (\<lambda>s.
       finish_decode ''candidate body'' ''candidate has trailing bytes'' (decode_candidate_body s))"

section \<open>Plans\<close>

text \<open>A size that is read like a count.\<close>

definition dec_size :: "nat \<Rightarrow> string \<Rightarrow> (u64 \<times> string) option" where
  "dec_size bound s = do { (n, s) \<leftarrow> dec_collection bound s; Some (of_nat n, s) }"

definition encode_node :: "phase_node \<Rightarrow> string" where
  "encode_node n =
     enc_id (pn_id n) @ enc_enum phase_kind_order (pn_kind n) @ enc_text (pn_adapter_phase n) @
     enc_boolean (pn_mandatory n) @ enc_boolean (pn_fan_in n) @ enc_u64 (pn_required_inputs n) @
     enc_seq enc_id (pn_depends_on n) @ enc_seq (enc_enum object_format_order) (pn_expected_outputs n)"

definition decode_node :: "string \<Rightarrow> (phase_node \<times> string) option" where
  "decode_node s = do {
     (i, s) \<leftarrow> dec_id s;
     (kind, s) \<leftarrow> dec_enum phase_kind_order 16 s;
     (adapter_phase, s) \<leftarrow> dec_str s;
     (mandatory, s) \<leftarrow> dec_boolean s;
     (fan_in, s) \<leftarrow> dec_boolean s;
     (required_inputs, s) \<leftarrow> dec_size kMaxCollection s;
     (depends_on, s) \<leftarrow> dec_seq kMaxCollection dec_id s;
     (expected_outputs, s) \<leftarrow> dec_seq kMaxCollection (dec_enum object_format_order 12) s;
     Some (\<lparr>pn_id = i, pn_kind = kind, pn_adapter_phase = adapter_phase, pn_depends_on = depends_on,
       pn_mandatory = mandatory, pn_expected_outputs = expected_outputs, pn_fan_in = fan_in,
       pn_required_inputs = required_inputs\<rparr>, s) }"

definition encode_plan :: "phase_plan \<Rightarrow> string" where
  "encode_plan p = enc_u16 kPersistenceSchemaVersion @ enc_seq encode_node (pp_nodes p)"

definition decode_plan :: "string \<Rightarrow> phase_plan result" where
  "decode_plan bytes =
     crf_try (check_schema ''plan header'' ''plan schema version mismatch'' bytes) (\<lambda>s.
       crf_try (finish_decode ''plan body'' ''plan has trailing bytes'' (dec_seq kMaxPhases decode_node s)) plan_build)"

section \<open>Sessions\<close>

definition encode_option :: "environment_variable \<Rightarrow> string" where
  "encode_option v =
     enc_text (ev_name v) @ enc_text (ev_value v)"

definition decode_option :: "string \<Rightarrow> (environment_variable \<times> string) option" where
  "decode_option s = do {
     (name, s) \<leftarrow> dec_str s;
     (value, s) \<leftarrow> dec_str s;
     Some (\<lparr>ev_name = name, ev_value = value\<rparr>, s) }"

text \<open>The phases are written in the order of their identities, whatever the order of the table.\<close>

definition ordered_phases :: "compiler_session \<Rightarrow> phase_record list" where
  "ordered_phases c = sort_key pr_id (map snd (cs_phases c))"

definition encode_session_head :: "compiler_session \<Rightarrow> string" where
  "encode_session_head c =
     enc_id (cs_id c) @ enc_gen (cs_generation c) @ enc_enum session_state_order (cs_state c) @
     enc_enum recovery_state_order (cs_recovery_state c) @ enc_id (cs_request c) @ enc_id (cs_compilation c) @
     enc_gen (cs_compilation_generation c) @ enc_id (cs_attempt c) @ enc_gen (cs_attempt_generation c) @
     enc_ref (cs_toolchain c) @ enc_ref (cs_target c) @ enc_ref (cs_environment c) @ enc_ref (cs_policy c) @
     enc_ref (cs_source c) @ enc_gen (cs_ir_generation c) @ enc_text (cs_adapter_name c) @
     enc_text (cs_final_artifact_name c) @ enc_seq encode_option (cs_adapter_options c) @
     enc_seq enc_ref (cs_cooperating_toolchains c) @ enc_seq enc_ref (cs_sources c)"

definition encode_session_tail :: "compiler_session \<Rightarrow> string" where
  "encode_session_tail c =
     enc_id (cs_recovery c) @ enc_gen (cs_recovery_generation c) @ enc_gen (cs_evidence_generation c) @
     enc_id (cs_epoch c) @ enc_text (cs_failure_detail c) @ enc_u64 (cs_created_at_nanos c) @
     enc_u64 (cs_updated_at_nanos c) @ enc_u32 (cs_session_retries_used c) @ enc_digest (cs_request_digest c)"

definition encode_session :: "compiler_session \<Rightarrow> string" where
  "encode_session c =
     enc_u16 kPersistenceSchemaVersion @ encode_session_head c @ enc_text (encode_plan (cs_plan c)) @
     enc_seq (\<lambda>p. enc_text (encode_phase p)) (ordered_phases c) @
     enc_id (cs_current_phase c) @ enc_seq enc_ref (cs_intermediates c) @ enc_boolean (cs_candidate_present c) @
     enc_text (encode_candidate (cs_candidate c)) @ encode_session_tail c"

text \<open>The fields before the plan, written into a default session.\<close>

definition decode_session_head :: "string \<Rightarrow> (compiler_session \<times> string) option" where
  "decode_session_head s = do {
     (i, s) \<leftarrow> dec_id s;
     (generation, s) \<leftarrow> dec_gen s;
     (st, s) \<leftarrow> dec_enum session_state_order 6 s;
     (recovery_state, s) \<leftarrow> dec_enum recovery_state_order 6 s;
     (request, s) \<leftarrow> dec_id s;
     (compilation, s) \<leftarrow> dec_id s;
     (compilation_generation, s) \<leftarrow> dec_gen s;
     (attempt, s) \<leftarrow> dec_id s;
     (attempt_generation, s) \<leftarrow> dec_gen s;
     (toolchain, s) \<leftarrow> dec_ref s;
     (target, s) \<leftarrow> dec_ref s;
     (environment, s) \<leftarrow> dec_ref s;
     (policy, s) \<leftarrow> dec_ref s;
     (source, s) \<leftarrow> dec_ref s;
     (ir_generation, s) \<leftarrow> dec_gen s;
     (adapter_name, s) \<leftarrow> dec_str s;
     (final_artifact_name, s) \<leftarrow> dec_str s;
     (adapter_options, s) \<leftarrow> dec_seq 1024 decode_option s;
     (cooperating_toolchains, s) \<leftarrow> dec_seq kMaxCollection dec_ref s;
     (sources, s) \<leftarrow> dec_seq kMaxSources dec_ref s;
     Some (session_default\<lparr>cs_id := i, cs_generation := generation, cs_state := st, cs_recovery_state := recovery_state,
       cs_request := request, cs_compilation := compilation, cs_compilation_generation := compilation_generation,
       cs_attempt := attempt, cs_attempt_generation := attempt_generation, cs_toolchain := toolchain,
       cs_target := target, cs_environment := environment, cs_policy := policy, cs_source := source,
       cs_ir_generation := ir_generation, cs_adapter_name := adapter_name,
       cs_final_artifact_name := final_artifact_name, cs_adapter_options := adapter_options,
       cs_cooperating_toolchains := cooperating_toolchains, cs_sources := sources\<rparr>, s) }"

text \<open>The loop over the phases: a blob that cannot be read ends it, a blob that is no phase ends the decoding.\<close>

fun decode_session_phases ::
  "nat \<Rightarrow> (u64, phase_record) umap \<Rightarrow> string \<Rightarrow> ((u64, phase_record) umap \<times> string) option result" where
  "decode_session_phases 0 m s = Inr (Some (m, s))"
| "decode_session_phases (Suc n) m s =
     (case dec_text kMaxBlobBytes s of
        None \<Rightarrow> Inr None
      | Some (bytes, s) \<Rightarrow>
          crf_try (decode_phase bytes) (\<lambda>p. decode_session_phases n (um_emplace (id_value (pr_id p)) p m) s))"

definition decode_session_middle :: "compiler_session \<Rightarrow> string \<Rightarrow> ((compiler_session \<times> string) \<times> string) option" where
  "decode_session_middle c s = do {
     (current_phase, s) \<leftarrow> dec_id s;
     (intermediates, s) \<leftarrow> dec_seq kMaxArtifacts dec_ref s;
     (candidate_present, s) \<leftarrow> dec_boolean s;
     (candidate_bytes, s) \<leftarrow> dec_text kMaxBlobBytes s;
     Some ((c\<lparr>cs_current_phase := current_phase, cs_intermediates := intermediates,
       cs_candidate_present := candidate_present\<rparr>, candidate_bytes), s) }"

definition decode_session_tail :: "compiler_session \<Rightarrow> string \<Rightarrow> (compiler_session \<times> string) option" where
  "decode_session_tail c s = do {
     (recovery, s) \<leftarrow> dec_id s;
     (recovery_generation, s) \<leftarrow> dec_gen s;
     (evidence_generation, s) \<leftarrow> dec_gen s;
     (epoch_v, s) \<leftarrow> dec_id s;
     (failure_detail, s) \<leftarrow> dec_str s;
     (created_at_nanos, s) \<leftarrow> dec_u64 s;
     (updated_at_nanos, s) \<leftarrow> dec_u64 s;
     (session_retries_used, s) \<leftarrow> dec_u32 s;
     (request_digest, s) \<leftarrow> dec_digest s;
     Some (c\<lparr>cs_recovery := recovery, cs_recovery_generation := recovery_generation,
       cs_evidence_generation := evidence_generation, cs_epoch := epoch_v, cs_failure_detail := failure_detail,
       cs_created_at_nanos := created_at_nanos, cs_updated_at_nanos := updated_at_nanos,
       cs_session_retries_used := session_retries_used, cs_request_digest := request_digest\<rparr>, s) }"

definition decode_session :: "string \<Rightarrow> compiler_session result" where
  "decode_session bytes =
     crf_try (check_schema ''session header'' ''session schema version mismatch'' bytes) (\<lambda>s.
       case do { (c, s) \<leftarrow> decode_session_head s; (plan_bytes, s) \<leftarrow> dec_text kMaxBlobBytes s; Some (c, plan_bytes, s) } of
         None \<Rightarrow> Inl (malformed ''session body'')
       | Some (c, plan_bytes, s) \<Rightarrow>
           crf_try (decode_plan plan_bytes) (\<lambda>plan.
           crf_try (case dec_collection kMaxPhases s of
               None \<Rightarrow> Inr None | Some (n, s) \<Rightarrow> decode_session_phases n [] s) (\<lambda>read.
           case do { (phases, s) \<leftarrow> read; decode_session_middle (c\<lparr>cs_plan := plan, cs_phases := phases\<rparr>) s } of
             None \<Rightarrow> Inl (malformed ''session candidate'')
           | Some ((c, candidate_bytes), s) \<Rightarrow>
               crf_try (decode_candidate candidate_bytes) (\<lambda>candidate.
               finish_decode ''session tail'' ''session has trailing bytes''
                 (decode_session_tail (c\<lparr>cs_candidate := candidate\<rparr>) s)))))"

section \<open>What fits the bounds is read back\<close>

definition i32_fits :: "int \<Rightarrow> bool" where
  "i32_fits v = (- (2 ^ 31) \<le> v \<and> v < 2 ^ 31)"

definition status_fits :: "status_code \<Rightarrow> bool" where
  "status_fits c = (status_value c \<le> 200)"

definition attempt_fits :: "phase_attempt \<Rightarrow> bool" where
  "attempt_fits a =
     (status_fits (pa_status a) \<and> i32_fits (pa_exit_code a) \<and>
      digest_fits (pa_observed_output_digest a) \<and> str_fits (pa_detail a))"

definition transition_fits :: "phase_transition \<Rightarrow> bool" where
  "transition_fits t =
     (str_fits (pt_reason t))"

definition phase_fits :: "phase_record \<Rightarrow> bool" where
  "phase_fits p =
     (str_fits (pr_adapter_phase p) \<and> digest_fits (pr_committed_output_digest p) \<and>
      status_fits (pr_last_status p) \<and> str_fits (pr_last_detail p) \<and>
      length (pr_depends_on p) \<le> kMaxCollection \<and> length (pr_inputs p) \<le> kMaxCollection \<and>
      length (pr_outputs p) \<le> kMaxCollection \<and> length (pr_attempts p) \<le> kMaxPhaseAttempts \<and>
      list_all attempt_fits (pr_attempts p) \<and> length (pr_history p) \<le> kMaxPhaseTransitions \<and>
      list_all transition_fits (pr_history p))"

definition artifact_fits :: "intermediate_artifact \<Rightarrow> bool" where
  "artifact_fits a =
     (path_fits (ia_path a) \<and> digest_fits (ia_content a) \<and> digest_fits (ia_declared_digest a) \<and>
      str_fits (ia_validation_detail a) \<and> length (ia_lineage_inputs a) \<le> kMaxCollection)"

definition diagnostic_fits :: "diagnostic \<Rightarrow> bool" where
  "diagnostic_fits d =
     (str_fits (dg_code d) \<and> str_fits (dg_message d) \<and> str_fits (dg_file d) \<and>
      str_fits (dg_origin d) \<and> length (dg_raw d) \<le> kMaxBlobBytes)"

definition diagnostic_set_fits :: "diagnostic_set \<Rightarrow> bool" where
  "diagnostic_set_fits x =
     (i32_fits (dx_exit_code x) \<and> length (dx_raw_stdout_tail x) \<le> kMaxRawTailBytes \<and>
      length (dx_raw_stderr_tail x) \<le> kMaxRawTailBytes \<and> length (dx_entries x) \<le> kMaxEntries \<and>
      list_all diagnostic_fits (dx_entries x))"

definition candidate_fits :: "final_candidate \<Rightarrow> bool" where
  "candidate_fits c =
     (path_fits (fc_path c) \<and> digest_fits (fc_content c) \<and> digest_fits (fc_lineage_digest c) \<and>
      length (fc_lineage c) \<le> kMaxCollection \<and> length (fc_validation_evidence c) \<le> kMaxCollection)"

definition node_fits :: "phase_node \<Rightarrow> bool" where
  "node_fits n =
     (str_fits (pn_adapter_phase n) \<and> (\<lambda>n. unat n \<le> kMaxCollection) (pn_required_inputs n) \<and>
      length (pn_depends_on n) \<le> kMaxCollection \<and> length (pn_expected_outputs n) \<le> kMaxCollection)"

definition option_fits :: "environment_variable \<Rightarrow> bool" where
  "option_fits v =
     (str_fits (ev_name v) \<and> str_fits (ev_value v))"

definition session_fits :: "compiler_session \<Rightarrow> bool" where
  "session_fits c =
     (str_fits (cs_adapter_name c) \<and> str_fits (cs_final_artifact_name c) \<and>
      length (cs_adapter_options c) \<le> 1024 \<and> list_all option_fits (cs_adapter_options c) \<and>
      length (cs_cooperating_toolchains c) \<le> kMaxCollection \<and>
      length (cs_sources c) \<le> kMaxSources \<and> length (cs_intermediates c) \<le> kMaxArtifacts \<and>
      str_fits (cs_failure_detail c) \<and> digest_fits (cs_request_digest c) \<and>
      plan_build (pp_nodes (cs_plan c)) = Inr (cs_plan c) \<and> list_all node_fits (pp_nodes (cs_plan c)) \<and>
      length (encode_plan (cs_plan c)) \<le> kMaxBlobBytes \<and> length (cs_phases c) \<le> kMaxPhases \<and>
      list_all (\<lambda>p. phase_fits p \<and> length (encode_phase p) \<le> kMaxBlobBytes) (map snd (cs_phases c)) \<and>
      candidate_fits (cs_candidate c) \<and> length (encode_candidate (cs_candidate c)) \<le> kMaxBlobBytes)"

lemmas bound_simps = kMaxStringBytes_def kMaxPathBytes_def kMaxBlobBytes_def kMaxCollection_def kMaxPhaseAttempts_def
  kMaxPhaseTransitions_def kMaxRawTailBytes_def kMaxEntries_def kMaxPhases_def kMaxSources_def kMaxArtifacts_def
  i32_fits_def status_fits_def

interpretation c_attempt: codec encode_attempt decode_attempt attempt_fits
  by unfold_locales (simp add: encode_attempt_def decode_attempt_def attempt_fits_def bound_simps codec_simps)

interpretation c_transition: codec encode_transition decode_transition transition_fits
  by unfold_locales (simp add: encode_transition_def decode_transition_def transition_fits_def bound_simps codec_simps)

interpretation c_diagnostic: codec encode_diagnostic decode_diagnostic diagnostic_fits
  by unfold_locales (simp add: encode_diagnostic_def decode_diagnostic_def diagnostic_fits_def bound_simps codec_simps)

interpretation c_option: codec encode_option decode_option option_fits
  by unfold_locales (simp add: encode_option_def decode_option_def option_fits_def bound_simps codec_simps)

lemma dec_size_enc: "unat n \<le> bound \<Longrightarrow> dec_size bound (enc_u64 n @ rest) = Some (n, rest)"
  by (simp add: dec_size_def dec_collection_def c_u64.decode_encode)

interpretation c_object_format: codec "enc_enum object_format_order" "dec_enum object_format_order 12" "\<lambda>_. True"
  by unfold_locales (simp add: codec_simps)

interpretation c_node: codec encode_node decode_node node_fits
  by unfold_locales (simp add: encode_node_def decode_node_def node_fits_def bound_simps codec_simps dec_size_enc
      c_object_format.decode_encode_seq)

lemmas record_simps [codec_simps] = c_attempt.decode_encode_seq c_transition.decode_encode_seq c_diagnostic.decode_encode_seq
  c_option.decode_encode_seq c_node.decode_encode_seq check_schema_enc

text \<open>The same equations for a record at the end of the bytes.\<close>

lemmas codec_last [codec_simps] = c_ref.decode_encode_seq [where rest = "[]", simplified] c_id.decode_encode_seq [where rest = "[]", simplified]
  c_transition.decode_encode_seq [where rest = "[]", simplified] c_diagnostic.decode_encode_seq [where rest = "[]", simplified]
  c_node.decode_encode_seq [where rest = "[]", simplified] c_digest.decode_encode [where rest = "[]", simplified]

lemma decode_encode_phase: "phase_fits p \<Longrightarrow> decode_phase (encode_phase p) = Inr p"
  by (simp add: decode_phase_def encode_phase_def decode_phase_body_def decode_phase_collections_def phase_fits_def
      finish_decode_def bound_simps codec_simps)

lemma decode_encode_artifact: "artifact_fits a \<Longrightarrow> decode_artifact (encode_artifact a) = Inr a"
  by (simp add: decode_artifact_def encode_artifact_def decode_artifact_body_def artifact_fits_def finish_decode_def
      bound_simps codec_simps)

lemma decode_encode_diagnostic_set: "diagnostic_set_fits x \<Longrightarrow> decode_diagnostic_set (encode_diagnostic_set x) = Inr x"
  by (simp add: decode_diagnostic_set_def encode_diagnostic_set_def decode_diagnostic_set_body_def diagnostic_set_fits_def
      finish_decode_def bound_simps codec_simps)

lemma decode_encode_candidate: "candidate_fits c \<Longrightarrow> decode_candidate (encode_candidate c) = Inr c"
  by (simp add: decode_candidate_def encode_candidate_def decode_candidate_body_def candidate_fits_def finish_decode_def
      bound_simps codec_simps)

lemma decode_encode_plan:
  assumes "plan_build (pp_nodes p) = Inr p" "list_all node_fits (pp_nodes p)"
  shows "decode_plan (encode_plan p) = Inr p"
  using assms plan_build_parts(3) [OF assms(1)]
  by (simp add: decode_plan_def encode_plan_def finish_decode_def codec_simps bound_simps)

text \<open>The phases of a session come back in the order of their identities.\<close>

definition stored_session :: "compiler_session \<Rightarrow> compiler_session" where
  "stored_session c = c\<lparr>cs_phases := map (\<lambda>p. (id_value (pr_id p), p)) (ordered_phases c)\<rparr>"

definition phases_keyed :: "compiler_session \<Rightarrow> bool" where
  "phases_keyed c = (um_ok (cs_phases c) \<and> um_all (\<lambda>k p. id_value (pr_id p) = k) (cs_phases c))"

lemma decode_phases_enc:
  assumes "list_all (\<lambda>p. phase_fits p \<and> length (encode_phase p) \<le> kMaxBlobBytes) ps"
  shows "decode_session_phases (length ps) m (concat (map (\<lambda>p. enc_text (encode_phase p)) ps) @ rest) =
    Inr (Some (foldl (\<lambda>m p. um_emplace (id_value (pr_id p)) p m) m ps, rest))"
  using assms
  by (induction ps arbitrary: m) (auto simp: c_text.decode_encode decode_encode_phase kMaxBlobBytes_def)

lemma foldl_emplace_distinct:
  assumes "distinct (map (\<lambda>p. id_value (pr_id p)) ps)" "\<forall>p \<in> set ps. um_find m (id_value (pr_id p)) = None"
  shows "foldl (\<lambda>m p. um_emplace (id_value (pr_id p)) p m) m ps = m @ map (\<lambda>p. (id_value (pr_id p), p)) ps"
  using assms
proof (induction ps arbitrary: m)
  case (Cons p ps)
  have "um_emplace (id_value (pr_id p)) p m = m @ [(id_value (pr_id p), p)]"
    using Cons.prems(2) by (simp add: um_emplace_def um_find_def)
  moreover have "\<forall>q \<in> set ps. um_find (m @ [(id_value (pr_id p), p)]) (id_value (pr_id q)) = None"
    using Cons.prems by (auto simp: um_find_def map_add_def image_iff split: option.splits)
  ultimately show ?case using Cons by simp
qed simp

lemma phases_keyed_ids:
  assumes "phases_keyed c"
  shows "map (\<lambda>p. (id_value (pr_id p), p)) (map snd (cs_phases c)) = cs_phases c" "distinct (map (\<lambda>p. id_value (pr_id p)) (ordered_phases c))"
proof -
  have same: "map (\<lambda>p. (id_value (pr_id p), p)) (map snd (cs_phases c)) = cs_phases c"
    using assms by (auto simp: phases_keyed_def um_all_def intro!: map_idI)
  then show "map (\<lambda>p. (id_value (pr_id p), p)) (map snd (cs_phases c)) = cs_phases c" .
  have "map (\<lambda>p. id_value (pr_id p)) (map snd (cs_phases c)) = map fst (cs_phases c)"
    using arg_cong [OF same, of "map fst"] by (simp add: comp_def)
  then have "distinct (map (\<lambda>p. id_value (pr_id p)) (map snd (cs_phases c)))"
    using assms unfolding phases_keyed_def um_ok_def by metis
  moreover have "mset (ordered_phases c) = mset (map snd (cs_phases c))" by (simp add: ordered_phases_def)
  ultimately show "distinct (map (\<lambda>p. id_value (pr_id p)) (ordered_phases c))"
    by (metis (no_types, lifting) mset_eq_imp_distinct_iff mset_map)
qed

lemma find_phase_stored:
  assumes "phases_keyed c"
  shows "find_phase i (stored_session c) = find_phase i c"
proof -
  let ?stored = "map (\<lambda>p. (id_value (pr_id p), p)) (ordered_phases c)"
  have "mset ?stored = mset (cs_phases c)"
    using arg_cong [OF phases_keyed_ids(1) [OF assms], of mset] by (simp add: ordered_phases_def multiset.map_comp)
  moreover have "distinct (map fst ?stored)" using phases_keyed_ids(2) [OF assms] by (simp add: comp_def)
  moreover have "distinct (map fst (cs_phases c))" using assms by (simp add: phases_keyed_def um_ok_def)
  ultimately have "map_of ?stored = map_of (cs_phases c)" by (intro map_of_inject_set [THEN iffD2] mset_eq_setD)
  then show ?thesis by (simp add: find_phase_def stored_session_def um_find_def)
qed

lemma decode_head_enc:
  assumes "session_fits c"
  shows "decode_session_head (encode_session_head c @ rest) = Some (c\<lparr>cs_plan := cs_plan session_default,
    cs_phases := cs_phases session_default, cs_current_phase := cs_current_phase session_default,
    cs_intermediates := cs_intermediates session_default, cs_candidate := cs_candidate session_default,
    cs_candidate_present := cs_candidate_present session_default, cs_recovery := cs_recovery session_default,
    cs_recovery_generation := cs_recovery_generation session_default,
    cs_evidence_generation := cs_evidence_generation session_default, cs_epoch := cs_epoch session_default,
    cs_failure_detail := cs_failure_detail session_default, cs_created_at_nanos := cs_created_at_nanos session_default,
    cs_updated_at_nanos := cs_updated_at_nanos session_default,
    cs_session_retries_used := cs_session_retries_used session_default,
    cs_request_digest := cs_request_digest session_default\<rparr>, rest)"
  using assms unfolding session_fits_def
  by (simp add: decode_session_head_def encode_session_head_def bound_simps codec_simps)

lemma decode_tail_enc:
  assumes "session_fits c"
  shows "decode_session_tail d (encode_session_tail c) = Some (d\<lparr>cs_recovery := cs_recovery c,
    cs_recovery_generation := cs_recovery_generation c, cs_evidence_generation := cs_evidence_generation c,
    cs_epoch := cs_epoch c, cs_failure_detail := cs_failure_detail c, cs_created_at_nanos := cs_created_at_nanos c,
    cs_updated_at_nanos := cs_updated_at_nanos c, cs_session_retries_used := cs_session_retries_used c,
    cs_request_digest := cs_request_digest c\<rparr>, [])"
  using assms unfolding session_fits_def
  by (simp add: decode_session_tail_def encode_session_tail_def bound_simps codec_simps)

lemma decode_encode_session:
  assumes "session_fits c" "phases_keyed c"
  shows "decode_session (encode_session c) = Inr (stored_session c)"
proof -
  have fits: "length (encode_plan (cs_plan c)) \<le> kMaxBlobBytes" "decode_plan (encode_plan (cs_plan c)) = Inr (cs_plan c)"
    "length (encode_candidate (cs_candidate c)) \<le> kMaxBlobBytes" "decode_candidate (encode_candidate (cs_candidate c)) = Inr (cs_candidate c)"
    "length (cs_phases c) \<le> kMaxPhases" "length (cs_intermediates c) \<le> kMaxArtifacts"
    using assms(1) by (auto simp: session_fits_def decode_encode_plan decode_encode_candidate)
  have len: "length (ordered_phases c) = length (cs_phases c)" by (simp add: ordered_phases_def)
  have "set (ordered_phases c) = set (map snd (cs_phases c))" by (simp add: ordered_phases_def)
  then have "list_all (\<lambda>p. phase_fits p \<and> length (encode_phase p) \<le> kMaxBlobBytes) (ordered_phases c)"
    using assms(1) by (simp add: session_fits_def list_all_iff)
  then have phases: "decode_session_phases (length (cs_phases c)) []
      (concat (map (\<lambda>p. enc_text (encode_phase p)) (ordered_phases c)) @ rest) =
      Inr (Some (map (\<lambda>p. (id_value (pr_id p), p)) (ordered_phases c), rest))" for rest
    using decode_phases_enc [of "ordered_phases c" "[]" rest] foldl_emplace_distinct [OF phases_keyed_ids(2) [OF assms(2)], of "[]"]
    by (simp add: um_find_def len)
  have counts: "dec_collection kMaxPhases (enc_u64 (of_nat (length (cs_phases c))) @ rest) = Some (length (cs_phases c), rest)" for rest
    using fits(5) by (simp add: dec_collection_def c_u64.decode_encode kMaxPhases_def unsigned_of_nat take_bit_nat_eq_self)
  show ?thesis
    using fits
    by (simp add: decode_session_def encode_session_def check_schema_enc decode_head_enc [OF assms(1)] c_text.decode_encode
        enc_seq_def len counts phases decode_session_middle_def c_id.decode_encode
        c_ref.decode_encode_seq [unfolded enc_seq_def append_assoc] c_boolean.decode_encode decode_tail_enc [OF assms(1)] finish_decode_def
        stored_session_def kMaxBlobBytes_def kMaxArtifacts_def list.pred_True)
qed

end
