(* ===== verification/Authority_Codec.thy ===== *)
theory Authority_Codec
  imports Session_Codec
begin

text \<open>
  \<open>src/core/persistence.cpp\<close>: the encodings of toolchains, targets, environments, policies, sources
  and provenance records, which travel with a session so that a restarted runtime can revalidate the
  authority its phases were bound to, and the snapshot envelope.
\<close>

section \<open>Casts\<close>

text \<open>What an enumeration holds after a cast from a number that names none of its enumerators.\<close>

record stray_casts =
  st_locale_policy :: "u8 \<Rightarrow> locale_policy"
  st_reproducibility :: "u8 \<Rightarrow> reproducibility_policy"
  st_failure_class :: "u8 \<Rightarrow> failure_class"
  st_architecture :: "u8 \<Rightarrow> architecture"
  st_operating_system :: "u8 \<Rightarrow> operating_system"
  st_toolchain_family :: "u8 \<Rightarrow> toolchain_family"
  st_component_kind :: "u8 \<Rightarrow> component_kind"
  st_evidence_class :: "u8 \<Rightarrow> evidence_class"
  st_source_language :: "u8 \<Rightarrow> source_language"
  st_verdict :: "u8 \<Rightarrow> authority_verdict"

section \<open>Toolchains\<close>

definition encode_file_identity :: "file_identity \<Rightarrow> string" where
  "encode_file_identity f =
     enc_text (fi_canonical_path f) @ enc_text (fi_volume_serial_hex f) @ enc_text (fi_file_index_hex f) @
     enc_u64 (fi_size_bytes f) @ enc_u64 (fi_last_write_nanos f) @ enc_digest (fi_content f) @
     enc_boolean (fi_content_hashed f)"

definition decode_file_identity :: "string \<Rightarrow> (file_identity \<times> string) option" where
  "decode_file_identity s = do {
     (canonical_path, s) \<leftarrow> dec_path s;
     (volume_serial_hex, s) \<leftarrow> dec_text 64 s;
     (file_index_hex, s) \<leftarrow> dec_text 64 s;
     (size_bytes, s) \<leftarrow> dec_u64 s;
     (last_write_nanos, s) \<leftarrow> dec_u64 s;
     (content, s) \<leftarrow> dec_digest s;
     (content_hashed, s) \<leftarrow> dec_boolean s;
     Some (\<lparr>fi_canonical_path = canonical_path, fi_volume_serial_hex = volume_serial_hex,
       fi_file_index_hex = file_index_hex, fi_size_bytes = size_bytes, fi_last_write_nanos = last_write_nanos,
       fi_content = content, fi_content_hashed = content_hashed\<rparr>, s) }"

definition encode_variable :: "environment_variable \<Rightarrow> string" where
  "encode_variable v =
     enc_text (ev_name v) @ enc_text (ev_value v)"

definition decode_variable :: "string \<Rightarrow> (environment_variable \<times> string) option" where
  "decode_variable s = do {
     (name, s) \<leftarrow> dec_text 4096 s;
     (value, s) \<leftarrow> dec_text 1048576 s;
     Some (\<lparr>ev_name = name, ev_value = value\<rparr>, s) }"

definition encode_environment_variables :: "environment_variable list \<Rightarrow> string" where
  "encode_environment_variables vs = enc_seq encode_variable vs"

definition decode_environment_variables :: "string \<Rightarrow> (environment_variable list \<times> string) option" where
  "decode_environment_variables s = dec_seq 4096 decode_variable s"

definition encode_component :: "component_identity \<Rightarrow> string" where
  "encode_component c =
     enc_id (ci_id c) @ enc_gen (ci_generation c) @ enc_enum component_kind_order (ci_kind c) @
     enc_text (ci_name c) @ enc_text (ci_version c) @ encode_file_identity (ci_file c) @
     enc_seq enc_text (ci_command_capabilities c) @ enc_seq (enc_enum architecture_order) (ci_target_support c) @
     enc_seq (enc_enum object_format_order) (ci_object_formats c) @
     encode_environment_variables (ci_environment_requirements c) @
     enc_enum evidence_class_order (ci_evidence_class c)"

definition decode_component :: "stray_casts \<Rightarrow> string \<Rightarrow> (component_identity \<times> string) option" where
  "decode_component strays s = do {
     (i, s) \<leftarrow> dec_id s;
     (generation, s) \<leftarrow> dec_gen s;
     (kind, s) \<leftarrow> dec_cast component_kind_order (st_component_kind strays) s;
     (name, s) \<leftarrow> dec_str s;
     (version, s) \<leftarrow> dec_str s;
     (file_id, s) \<leftarrow> decode_file_identity s;
     (command_capabilities, s) \<leftarrow> dec_seq 256 (dec_text 4096) s;
     (target_support, s) \<leftarrow> dec_seq 32 (dec_enum architecture_order 4) s;
     (object_formats, s) \<leftarrow> dec_seq 32 (dec_enum object_format_order 12) s;
     (environment_requirements, s) \<leftarrow> decode_environment_variables s;
     (evidence_class, s) \<leftarrow> dec_cast evidence_class_order (st_evidence_class strays) s;
     Some (\<lparr>ci_id = i, ci_generation = generation, ci_kind = kind, ci_name = name, ci_version = version,
       ci_file = file_id, ci_command_capabilities = command_capabilities, ci_target_support = target_support,
       ci_object_formats = object_formats, ci_environment_requirements = environment_requirements,
       ci_evidence_class = evidence_class\<rparr>, s) }"

definition encode_toolchain :: "toolchain_identity \<Rightarrow> string" where
  "encode_toolchain t =
     enc_u16 kPersistenceSchemaVersion @ enc_id (ti_id t) @ enc_gen (ti_generation t) @
     enc_enum toolchain_family_order (ti_family t) @ enc_text (ti_display_name t) @ enc_text (ti_version t) @
     enc_seq encode_component (ti_components t) @ enc_seq (enc_enum architecture_order) (ti_target_support t) @
     enc_seq (enc_enum object_format_order) (ti_object_formats t) @
     encode_environment_variables (ti_environment_contract t) @ enc_text (ti_toolkit_root t) @
     enc_text (ti_sdk_root t) @ encode_environment_variables (ti_attributes t) @
     enc_text (ti_standard_library_identity t) @ enc_enum evidence_class_order (ti_evidence_class t) @
     enc_digest (ti_evidence_digest t)"

definition decode_toolchain_body :: "stray_casts \<Rightarrow> string \<Rightarrow> (toolchain_identity \<times> string) option" where
  "decode_toolchain_body strays s = do {
     (i, s) \<leftarrow> dec_id s;
     (generation, s) \<leftarrow> dec_gen s;
     (family, s) \<leftarrow> dec_cast toolchain_family_order (st_toolchain_family strays) s;
     (display_name, s) \<leftarrow> dec_str s;
     (version, s) \<leftarrow> dec_str s;
     (components, s) \<leftarrow> dec_seq 256 (decode_component strays) s;
     (target_support, s) \<leftarrow> dec_seq 32 (dec_enum architecture_order 4) s;
     (object_formats, s) \<leftarrow> dec_seq 32 (dec_enum object_format_order 12) s;
     (environment_contract, s) \<leftarrow> decode_environment_variables s;
     (toolkit_root, s) \<leftarrow> dec_path s;
     (sdk_root, s) \<leftarrow> dec_path s;
     (attributes, s) \<leftarrow> decode_environment_variables s;
     (standard_library_identity, s) \<leftarrow> dec_str s;
     (evidence_class, s) \<leftarrow> dec_cast evidence_class_order (st_evidence_class strays) s;
     (evidence_digest, s) \<leftarrow> dec_digest s;
     Some (\<lparr>ti_id = i, ti_generation = generation, ti_family = family, ti_display_name = display_name,
       ti_version = version, ti_components = components, ti_target_support = target_support,
       ti_object_formats = object_formats, ti_environment_contract = environment_contract,
       ti_toolkit_root = toolkit_root, ti_sdk_root = sdk_root, ti_attributes = attributes,
       ti_standard_library_identity = standard_library_identity, ti_evidence_class = evidence_class,
       ti_evidence_digest = evidence_digest\<rparr>, s) }"

definition decode_toolchain :: "stray_casts \<Rightarrow> string \<Rightarrow> toolchain_identity result" where
  "decode_toolchain strays bytes =
     crf_try (check_schema ''toolchain header'' ''toolchain schema version mismatch'' bytes) (\<lambda>s.
       finish_decode ''toolchain body'' ''toolchain has trailing bytes'' (decode_toolchain_body strays s))"

section \<open>Specifications\<close>

definition encode_environment_spec :: "environment_spec \<Rightarrow> string" where
  "encode_environment_spec e =
     enc_text (es_working_directory e) @ enc_text (es_temp_directory e) @
     encode_environment_variables (es_variables e) @ enc_seq enc_text (es_include_paths e) @
     enc_seq enc_text (es_library_paths e) @ enc_seq enc_text (es_sdk_roots e) @
     enc_seq enc_text (es_toolkit_roots e) @ enc_seq enc_text (es_inherited_variables e) @
     enc_enum locale_policy_order (es_locale_policy e) @ enc_text (es_locale_name e) @
     enc_boolean (es_deterministic_controls e)"

definition decode_environment_spec :: "stray_casts \<Rightarrow> string \<Rightarrow> (environment_spec \<times> string) option" where
  "decode_environment_spec strays s = do {
     (working_directory, s) \<leftarrow> dec_path s;
     (temp_directory, s) \<leftarrow> dec_path s;
     (variables, s) \<leftarrow> decode_environment_variables s;
     (include_paths, s) \<leftarrow> dec_seq 4096 dec_path s;
     (library_paths, s) \<leftarrow> dec_seq 4096 dec_path s;
     (sdk_roots, s) \<leftarrow> dec_seq 4096 dec_path s;
     (toolkit_roots, s) \<leftarrow> dec_seq 4096 dec_path s;
     (inherited_variables, s) \<leftarrow> dec_seq 4096 (dec_text 1024) s;
     (locale_policy, s) \<leftarrow> dec_cast locale_policy_order (st_locale_policy strays) s;
     (locale_name, s) \<leftarrow> dec_text 256 s;
     (deterministic_controls, s) \<leftarrow> dec_boolean s;
     Some (\<lparr>es_working_directory = working_directory, es_temp_directory = temp_directory, es_variables = variables,
       es_include_paths = include_paths, es_library_paths = library_paths, es_sdk_roots = sdk_roots,
       es_toolkit_roots = toolkit_roots, es_inherited_variables = inherited_variables,
       es_locale_policy = locale_policy, es_locale_name = locale_name,
       es_deterministic_controls = deterministic_controls\<rparr>, s) }"

definition encode_policy_spec :: "policy_spec \<Rightarrow> string" where
  "encode_policy_spec p =
     enc_enum reproducibility_order (po_reproducibility p) @ enc_u32 (po_max_retries_per_phase p) @
     enc_u32 (po_max_retries_per_session p) @ enc_seq (enc_enum failure_class_order) (po_retryable_classes p) @
     enc_seq enc_text (po_forbidden_options p) @ enc_boolean (po_allow_parallel_phases p) @
     enc_u64 (po_max_parallel_phases p) @ enc_u32 (po_phase_timeout_millis p) @
     enc_u32 (po_validation_timeout_millis p) @ enc_boolean (po_run_smoke_test p) @
     enc_boolean (po_require_content_digest p) @ enc_u64 (po_max_diagnostic_entries p) @
     enc_u64 (po_max_diagnostic_bytes_per_stream p) @ enc_boolean (po_allow_local_cache p)"

definition decode_policy_spec :: "stray_casts \<Rightarrow> string \<Rightarrow> (policy_spec \<times> string) option" where
  "decode_policy_spec strays s = do {
     (reproducibility, s) \<leftarrow> dec_cast reproducibility_order (st_reproducibility strays) s;
     (max_retries_per_phase, s) \<leftarrow> dec_u32 s;
     (max_retries_per_session, s) \<leftarrow> dec_u32 s;
     (retryable_classes, s) \<leftarrow> dec_seq 64 (dec_cast failure_class_order (st_failure_class strays)) s;
     (forbidden_options, s) \<leftarrow> dec_seq kMaxForbiddenOptions (dec_text 4096) s;
     (allow_parallel_phases, s) \<leftarrow> dec_boolean s;
     (max_parallel_phases, s) \<leftarrow> dec_size 4096 s;
     (phase_timeout_millis, s) \<leftarrow> dec_u32 s;
     (validation_timeout_millis, s) \<leftarrow> dec_u32 s;
     (run_smoke_test, s) \<leftarrow> dec_boolean s;
     (require_content_digest, s) \<leftarrow> dec_boolean s;
     (max_diagnostic_entries, s) \<leftarrow> dec_size 1048576 s;
     (max_diagnostic_bytes_per_stream, s) \<leftarrow> dec_size 1073741824 s;
     (allow_local_cache, s) \<leftarrow> dec_boolean s;
     Some (\<lparr>po_reproducibility = reproducibility, po_max_retries_per_phase = max_retries_per_phase,
       po_max_retries_per_session = max_retries_per_session, po_retryable_classes = retryable_classes,
       po_forbidden_options = forbidden_options, po_allow_parallel_phases = allow_parallel_phases,
       po_max_parallel_phases = max_parallel_phases, po_phase_timeout_millis = phase_timeout_millis,
       po_validation_timeout_millis = validation_timeout_millis, po_run_smoke_test = run_smoke_test,
       po_require_content_digest = require_content_digest, po_max_diagnostic_entries = max_diagnostic_entries,
       po_max_diagnostic_bytes_per_stream = max_diagnostic_bytes_per_stream,
       po_allow_local_cache = allow_local_cache\<rparr>, s) }"

definition encode_target_spec :: "target_spec \<Rightarrow> string" where
  "encode_target_spec t =
     enc_enum architecture_order (ts_architecture t) @ enc_enum operating_system_order (ts_os t) @
     enc_text (ts_triple t) @ enc_text (ts_cpu t) @ enc_text (ts_device_arch t) @
     enc_text (ts_device_virtual_arch t) @ enc_text (ts_abi t) @ enc_u32 (ts_pointer_width_bits t)"

definition decode_target_spec :: "stray_casts \<Rightarrow> string \<Rightarrow> (target_spec \<times> string) option" where
  "decode_target_spec strays s = do {
     (architecture, s) \<leftarrow> dec_cast architecture_order (st_architecture strays) s;
     (os_v, s) \<leftarrow> dec_cast operating_system_order (st_operating_system strays) s;
     (triple, s) \<leftarrow> dec_text 256 s;
     (cpu, s) \<leftarrow> dec_text 256 s;
     (device_arch, s) \<leftarrow> dec_text 256 s;
     (device_virtual_arch, s) \<leftarrow> dec_text 256 s;
     (abi, s) \<leftarrow> dec_text 256 s;
     (pointer_width_bits, s) \<leftarrow> dec_u32 s;
     Some (\<lparr>ts_architecture = architecture, ts_os = os_v, ts_triple = triple, ts_cpu = cpu,
       ts_device_arch = device_arch, ts_device_virtual_arch = device_virtual_arch, ts_abi = abi,
       ts_pointer_width_bits = pointer_width_bits\<rparr>, s) }"

section \<open>Identities\<close>

definition encode_target_identity :: "target_identity \<Rightarrow> string" where
  "encode_target_identity x =
     enc_u16 kPersistenceSchemaVersion @ enc_id (ri_id x) @ enc_gen (ri_generation x) @ enc_digest (ri_digest x) @
     encode_target_spec (ri_spec x)"

definition decode_target_identity_body :: "stray_casts \<Rightarrow> string \<Rightarrow> (target_identity \<times> string) option" where
  "decode_target_identity_body strays s = do {
     (i, s) \<leftarrow> dec_id s;
     (generation, s) \<leftarrow> dec_gen s;
     (dig, s) \<leftarrow> dec_digest s;
     (spc, s) \<leftarrow> decode_target_spec strays s;
     Some (\<lparr>ri_id = i, ri_generation = generation, ri_digest = dig, ri_spec = spc\<rparr>, s) }"

definition decode_target_identity :: "stray_casts \<Rightarrow> string \<Rightarrow> target_identity result" where
  "decode_target_identity strays bytes =
     crf_try (check_header ''target identity header'' bytes) (\<lambda>s.
       finish_decode ''target identity body'' ''target identity has trailing bytes'' (decode_target_identity_body strays s))"

definition encode_environment_identity :: "environment_identity \<Rightarrow> string" where
  "encode_environment_identity x =
     enc_u16 kPersistenceSchemaVersion @ enc_id (ri_id x) @ enc_gen (ri_generation x) @ enc_digest (ri_digest x) @
     encode_environment_spec (ri_spec x)"

definition decode_environment_identity_body :: "stray_casts \<Rightarrow> string \<Rightarrow> (environment_identity \<times> string) option" where
  "decode_environment_identity_body strays s = do {
     (i, s) \<leftarrow> dec_id s;
     (generation, s) \<leftarrow> dec_gen s;
     (dig, s) \<leftarrow> dec_digest s;
     (spc, s) \<leftarrow> decode_environment_spec strays s;
     Some (\<lparr>ri_id = i, ri_generation = generation, ri_digest = dig, ri_spec = spc\<rparr>, s) }"

definition decode_environment_identity :: "stray_casts \<Rightarrow> string \<Rightarrow> environment_identity result" where
  "decode_environment_identity strays bytes =
     crf_try (check_header ''environment identity header'' bytes) (\<lambda>s.
       finish_decode ''environment identity body'' ''environment identity has trailing bytes'' (decode_environment_identity_body strays s))"

definition encode_policy_identity :: "policy_identity \<Rightarrow> string" where
  "encode_policy_identity x =
     enc_u16 kPersistenceSchemaVersion @ enc_id (ri_id x) @ enc_gen (ri_generation x) @ enc_digest (ri_digest x) @
     encode_policy_spec (ri_spec x)"

definition decode_policy_identity_body :: "stray_casts \<Rightarrow> string \<Rightarrow> (policy_identity \<times> string) option" where
  "decode_policy_identity_body strays s = do {
     (i, s) \<leftarrow> dec_id s;
     (generation, s) \<leftarrow> dec_gen s;
     (dig, s) \<leftarrow> dec_digest s;
     (spc, s) \<leftarrow> decode_policy_spec strays s;
     Some (\<lparr>ri_id = i, ri_generation = generation, ri_digest = dig, ri_spec = spc\<rparr>, s) }"

definition decode_policy_identity :: "stray_casts \<Rightarrow> string \<Rightarrow> policy_identity result" where
  "decode_policy_identity strays bytes =
     crf_try (check_header ''policy identity header'' bytes) (\<lambda>s.
       finish_decode ''policy identity body'' ''policy identity has trailing bytes'' (decode_policy_identity_body strays s))"

definition encode_source_unit :: "source_unit \<Rightarrow> string" where
  "encode_source_unit u =
     enc_u16 kPersistenceSchemaVersion @ enc_id (su_id u) @ enc_gen (su_generation u) @ enc_text (su_path u) @
     enc_enum source_language_order (su_language u) @ enc_text (su_dialect u) @ enc_digest (su_content u) @
     enc_u64 (su_size_bytes u) @ enc_boolean (su_redact_diagnostics u)"

definition decode_source_unit_body :: "stray_casts \<Rightarrow> string \<Rightarrow> (source_unit \<times> string) option" where
  "decode_source_unit_body strays s = do {
     (i, s) \<leftarrow> dec_id s;
     (generation, s) \<leftarrow> dec_gen s;
     (path, s) \<leftarrow> dec_path s;
     (language, s) \<leftarrow> dec_cast source_language_order (st_source_language strays) s;
     (dialect, s) \<leftarrow> dec_text 256 s;
     (content, s) \<leftarrow> dec_digest s;
     (size_bytes, s) \<leftarrow> dec_u64 s;
     (redact_diagnostics, s) \<leftarrow> dec_boolean s;
     Some (\<lparr>su_id = i, su_generation = generation, su_path = path, su_language = language, su_dialect = dialect,
       su_content = content, su_size_bytes = size_bytes, su_redact_diagnostics = redact_diagnostics\<rparr>, s) }"

definition decode_source_unit :: "stray_casts \<Rightarrow> string \<Rightarrow> source_unit result" where
  "decode_source_unit strays bytes =
     crf_try (check_header ''source unit header'' bytes) (\<lambda>s.
       finish_decode ''source unit body'' ''source unit has trailing bytes'' (decode_source_unit_body strays s))"

definition encode_provenance :: "provenance_record \<Rightarrow> string" where
  "encode_provenance v =
     enc_u16 kPersistenceSchemaVersion @ enc_id (pv_id v) @ enc_gen (pv_generation v) @ enc_text (pv_kind v) @
     enc_ref (pv_session v) @ enc_ref (pv_compilation v) @ enc_ref (pv_phase v) @ enc_ref (pv_invocation v) @
     enc_ref (pv_toolchain v) @ enc_ref (pv_target v) @ enc_ref (pv_environment v) @ enc_ref (pv_policy v) @
     enc_ref (pv_source v) @ enc_seq enc_ref (pv_inputs v) @ enc_seq enc_ref (pv_outputs v) @
     enc_text (pv_adapter v) @ enc_enum verdict_order (pv_verdict v) @ enc_text (pv_detail v) @
     enc_u64 (pv_at_nanos v)"

definition decode_provenance_body :: "stray_casts \<Rightarrow> string \<Rightarrow> (provenance_record \<times> string) option" where
  "decode_provenance_body strays s = do {
     (i, s) \<leftarrow> dec_id s;
     (generation, s) \<leftarrow> dec_gen s;
     (kind, s) \<leftarrow> dec_text 256 s;
     (session, s) \<leftarrow> dec_ref s;
     (compilation, s) \<leftarrow> dec_ref s;
     (phase, s) \<leftarrow> dec_ref s;
     (invocation, s) \<leftarrow> dec_ref s;
     (toolchain, s) \<leftarrow> dec_ref s;
     (target, s) \<leftarrow> dec_ref s;
     (environment, s) \<leftarrow> dec_ref s;
     (policy, s) \<leftarrow> dec_ref s;
     (source, s) \<leftarrow> dec_ref s;
     (inputs, s) \<leftarrow> dec_seq 4096 dec_ref s;
     (outputs, s) \<leftarrow> dec_seq 4096 dec_ref s;
     (adapter, s) \<leftarrow> dec_text 256 s;
     (verdict, s) \<leftarrow> dec_cast verdict_order (st_verdict strays) s;
     (detail, s) \<leftarrow> dec_text 2048 s;
     (at_nanos, s) \<leftarrow> dec_u64 s;
     Some (\<lparr>pv_id = i, pv_generation = generation, pv_kind = kind, pv_session = session, pv_compilation = compilation,
       pv_phase = phase, pv_invocation = invocation, pv_toolchain = toolchain, pv_target = target,
       pv_environment = environment, pv_policy = policy, pv_source = source, pv_inputs = inputs,
       pv_outputs = outputs, pv_adapter = adapter, pv_verdict = verdict, pv_detail = detail, pv_at_nanos = at_nanos\<rparr>, s) }"

definition decode_provenance :: "stray_casts \<Rightarrow> string \<Rightarrow> provenance_record result" where
  "decode_provenance strays bytes =
     crf_try (check_header ''provenance header'' bytes) (\<lambda>s.
       finish_decode ''provenance body'' ''provenance has trailing bytes'' (decode_provenance_body strays s))"

section \<open>Snapshots\<close>

record state_snapshot =
  sn_schema_version :: u16
  sn_runtime_epoch :: u64
  sn_last_sequence :: u64
  sn_encoded_sessions :: "string list"
  sn_encoded_artifacts :: "string list"
  sn_encoded_diagnostics :: "string list"

definition snapshot_encode :: "state_snapshot \<Rightarrow> string" where
  "snapshot_encode n =
     enc_u16 (sn_schema_version n) @ enc_u64 (sn_runtime_epoch n) @ enc_u64 (sn_last_sequence n) @
     enc_seq enc_text (sn_encoded_sessions n) @ enc_seq enc_text (sn_encoded_artifacts n) @
     enc_seq enc_text (sn_encoded_diagnostics n)"

definition snapshot_decode_body :: "u16 \<Rightarrow> string \<Rightarrow> (state_snapshot \<times> string) option" where
  "snapshot_decode_body schema_version s = do {
     (runtime_epoch, s) \<leftarrow> dec_u64 s;
     (last_sequence, s) \<leftarrow> dec_u64 s;
     (encoded_sessions, s) \<leftarrow> dec_seq kMaxCollection (dec_text kMaxBlobBytes) s;
     (encoded_artifacts, s) \<leftarrow> dec_seq kMaxArtifacts (dec_text kMaxBlobBytes) s;
     (encoded_diagnostics, s) \<leftarrow> dec_seq kMaxSets (dec_text kMaxBlobBytes) s;
     Some (\<lparr>sn_schema_version = schema_version, sn_runtime_epoch = runtime_epoch, sn_last_sequence = last_sequence, sn_encoded_sessions = encoded_sessions,
       sn_encoded_artifacts = encoded_artifacts, sn_encoded_diagnostics = encoded_diagnostics\<rparr>, s) }"

definition snapshot_decode :: "string \<Rightarrow> state_snapshot result" where
  "snapshot_decode bytes =
     (case dec_u16 bytes of
        None \<Rightarrow> Inl (malformed ''snapshot header'')
      | Some (schema_version, s) \<Rightarrow>
          if schema_version \<noteq> kPersistenceSchemaVersion
          then Inl (Status SC_persistence_schema_mismatch ''snapshot schema version mismatch'')
          else finish_decode ''snapshot body'' ''snapshot has trailing bytes'' (snapshot_decode_body schema_version s))"

section \<open>What fits the bounds is read back\<close>

definition file_identity_fits :: "file_identity \<Rightarrow> bool" where
  "file_identity_fits f =
     (path_fits (fi_canonical_path f) \<and> length (fi_volume_serial_hex f) \<le> 64 \<and>
      length (fi_file_index_hex f) \<le> 64 \<and> digest_fits (fi_content f))"

definition variable_fits :: "environment_variable \<Rightarrow> bool" where
  "variable_fits v =
     (length (ev_name v) \<le> 4096 \<and> length (ev_value v) \<le> 1048576)"

definition variables_fit :: "environment_variable list \<Rightarrow> bool" where
  "variables_fit vs = (length vs \<le> 4096 \<and> list_all variable_fits vs)"

definition component_fits :: "component_identity \<Rightarrow> bool" where
  "component_fits c =
     (str_fits (ci_name c) \<and> str_fits (ci_version c) \<and> file_identity_fits (ci_file c) \<and>
      length (ci_command_capabilities c) \<le> 256 \<and>
      list_all (\<lambda>t. length t \<le> 4096) (ci_command_capabilities c) \<and>
      length (ci_target_support c) \<le> 32 \<and> length (ci_object_formats c) \<le> 32 \<and>
      variables_fit (ci_environment_requirements c))"

definition toolchain_fits :: "toolchain_identity \<Rightarrow> bool" where
  "toolchain_fits t =
     (str_fits (ti_display_name t) \<and> str_fits (ti_version t) \<and> length (ti_components t) \<le> 256 \<and>
      list_all component_fits (ti_components t) \<and> length (ti_target_support t) \<le> 32 \<and>
      length (ti_object_formats t) \<le> 32 \<and> variables_fit (ti_environment_contract t) \<and>
      path_fits (ti_toolkit_root t) \<and> path_fits (ti_sdk_root t) \<and> variables_fit (ti_attributes t) \<and>
      str_fits (ti_standard_library_identity t) \<and> digest_fits (ti_evidence_digest t))"

definition environment_spec_fits :: "environment_spec \<Rightarrow> bool" where
  "environment_spec_fits e =
     (path_fits (es_working_directory e) \<and> path_fits (es_temp_directory e) \<and>
      variables_fit (es_variables e) \<and> length (es_include_paths e) \<le> 4096 \<and>
      list_all path_fits (es_include_paths e) \<and> length (es_library_paths e) \<le> 4096 \<and>
      list_all path_fits (es_library_paths e) \<and> length (es_sdk_roots e) \<le> 4096 \<and>
      list_all path_fits (es_sdk_roots e) \<and> length (es_toolkit_roots e) \<le> 4096 \<and>
      list_all path_fits (es_toolkit_roots e) \<and> length (es_inherited_variables e) \<le> 4096 \<and>
      list_all (\<lambda>t. length t \<le> 1024) (es_inherited_variables e) \<and>
      length (es_locale_name e) \<le> 256)"

definition policy_spec_fits :: "policy_spec \<Rightarrow> bool" where
  "policy_spec_fits p =
     (length (po_retryable_classes p) \<le> 64 \<and>
      length (po_forbidden_options p) \<le> kMaxForbiddenOptions \<and>
      list_all (\<lambda>t. length t \<le> 4096) (po_forbidden_options p) \<and>
      (\<lambda>n. unat n \<le> 4096) (po_max_parallel_phases p) \<and>
      (\<lambda>n. unat n \<le> 1048576) (po_max_diagnostic_entries p) \<and>
      (\<lambda>n. unat n \<le> 1073741824) (po_max_diagnostic_bytes_per_stream p))"

definition target_spec_fits :: "target_spec \<Rightarrow> bool" where
  "target_spec_fits t =
     (length (ts_triple t) \<le> 256 \<and> length (ts_cpu t) \<le> 256 \<and>
      length (ts_device_arch t) \<le> 256 \<and> length (ts_device_virtual_arch t) \<le> 256 \<and>
      length (ts_abi t) \<le> 256)"

definition target_identity_fits :: "target_identity \<Rightarrow> bool" where
  "target_identity_fits x =
     (digest_fits (ri_digest x) \<and> target_spec_fits (ri_spec x))"

definition environment_identity_fits :: "environment_identity \<Rightarrow> bool" where
  "environment_identity_fits x =
     (digest_fits (ri_digest x) \<and> environment_spec_fits (ri_spec x))"

definition policy_identity_fits :: "policy_identity \<Rightarrow> bool" where
  "policy_identity_fits x =
     (digest_fits (ri_digest x) \<and> policy_spec_fits (ri_spec x))"

definition source_unit_fits :: "source_unit \<Rightarrow> bool" where
  "source_unit_fits u =
     (path_fits (su_path u) \<and> length (su_dialect u) \<le> 256 \<and> digest_fits (su_content u))"

definition provenance_fits :: "provenance_record \<Rightarrow> bool" where
  "provenance_fits v =
     (length (pv_kind v) \<le> 256 \<and> length (pv_inputs v) \<le> 4096 \<and>
      length (pv_outputs v) \<le> 4096 \<and> length (pv_adapter v) \<le> 256 \<and>
      length (pv_detail v) \<le> 2048)"

definition snapshot_fits :: "state_snapshot \<Rightarrow> bool" where
  "snapshot_fits n =
     (length (sn_encoded_sessions n) \<le> kMaxCollection \<and>
      list_all (\<lambda>t. length t \<le> kMaxBlobBytes) (sn_encoded_sessions n) \<and>
      length (sn_encoded_artifacts n) \<le> kMaxArtifacts \<and>
      list_all (\<lambda>t. length t \<le> kMaxBlobBytes) (sn_encoded_artifacts n) \<and>
      length (sn_encoded_diagnostics n) \<le> kMaxSets \<and>
      list_all (\<lambda>t. length t \<le> kMaxBlobBytes) (sn_encoded_diagnostics n))"

lemma c_blob_seq:
  assumes "list_all (\<lambda>t. length t \<le> n) xs" "length xs \<le> bound" "bound < 2 ^ 64" "n < 2 ^ 32"
  shows "dec_seq bound (dec_text n) (enc_seq enc_text xs @ rest) = Some (xs, rest)"
  using assms by (intro c_text.decode_encode_seq) (auto simp: list_all_iff)

interpretation c_architecture: codec "enc_enum architecture_order" "dec_enum architecture_order 4" "\<lambda>_. True"
  by unfold_locales (simp add: codec_simps)

interpretation c_failure_cast: codec "enc_enum failure_class_order" "dec_cast failure_class_order stray" "\<lambda>_. True" for stray
  by unfold_locales (simp add: codec_simps)

interpretation c_file_identity: codec encode_file_identity decode_file_identity file_identity_fits
  by unfold_locales (simp add: encode_file_identity_def decode_file_identity_def file_identity_fits_def bound_simps codec_simps)

interpretation c_variable: codec encode_variable decode_variable variable_fits
  by unfold_locales (simp add: encode_variable_def decode_variable_def variable_fits_def codec_simps)

interpretation c_variables: codec encode_environment_variables decode_environment_variables variables_fit
  by unfold_locales (simp add: encode_environment_variables_def decode_environment_variables_def variables_fit_def
      c_variable.decode_encode_seq)

lemmas authority_simps = bound_simps codec_simps c_blob_seq c_architecture.decode_encode_seq c_object_format.decode_encode_seq
  c_failure_cast.decode_encode_seq c_file_identity.decode_encode c_variables.decode_encode dec_size_enc check_header_enc
  finish_decode_def kMaxForbiddenOptions_def kMaxSets_def

interpretation c_component: codec encode_component "decode_component strays" component_fits for strays
  by unfold_locales (simp add: encode_component_def decode_component_def component_fits_def authority_simps)

interpretation c_environment_spec: codec encode_environment_spec "decode_environment_spec strays" environment_spec_fits for strays
  by unfold_locales (simp add: encode_environment_spec_def decode_environment_spec_def environment_spec_fits_def authority_simps)

interpretation c_policy_spec: codec encode_policy_spec "decode_policy_spec strays" policy_spec_fits for strays
  by unfold_locales (simp add: encode_policy_spec_def decode_policy_spec_def policy_spec_fits_def authority_simps)

interpretation c_target_spec: codec encode_target_spec "decode_target_spec strays" target_spec_fits for strays
  by unfold_locales (simp add: encode_target_spec_def decode_target_spec_def target_spec_fits_def authority_simps)

lemmas spec_simps = authority_simps c_component.decode_encode_seq c_environment_spec.decode_encode [where rest = "[]", simplified]
  c_policy_spec.decode_encode [where rest = "[]", simplified] c_target_spec.decode_encode [where rest = "[]", simplified]
  c_boolean.decode_encode [where rest = "[]", simplified] c_u64.decode_encode [where rest = "[]", simplified]
  c_blob_seq [where rest = "[]", simplified]

lemma decode_encode_toolchain: "toolchain_fits t \<Longrightarrow> decode_toolchain strays (encode_toolchain t) = Inr t"
  by (simp add: decode_toolchain_def encode_toolchain_def decode_toolchain_body_def toolchain_fits_def spec_simps)

lemma decode_encode_target_identity: "target_identity_fits x \<Longrightarrow> decode_target_identity strays (encode_target_identity x) = Inr x"
  by (simp add: decode_target_identity_def encode_target_identity_def decode_target_identity_body_def target_identity_fits_def spec_simps)

lemma decode_encode_environment_identity: "environment_identity_fits x \<Longrightarrow> decode_environment_identity strays (encode_environment_identity x) = Inr x"
  by (simp add: decode_environment_identity_def encode_environment_identity_def decode_environment_identity_body_def environment_identity_fits_def spec_simps)

lemma decode_encode_policy_identity: "policy_identity_fits x \<Longrightarrow> decode_policy_identity strays (encode_policy_identity x) = Inr x"
  by (simp add: decode_policy_identity_def encode_policy_identity_def decode_policy_identity_body_def policy_identity_fits_def spec_simps)

lemma decode_encode_source_unit: "source_unit_fits u \<Longrightarrow> decode_source_unit strays (encode_source_unit u) = Inr u"
  by (simp add: decode_source_unit_def encode_source_unit_def decode_source_unit_body_def source_unit_fits_def spec_simps)

lemma decode_encode_provenance: "provenance_fits v \<Longrightarrow> decode_provenance strays (encode_provenance v) = Inr v"
  by (simp add: decode_provenance_def encode_provenance_def decode_provenance_body_def provenance_fits_def spec_simps)

lemma snapshot_round_trip:
  assumes "snapshot_fits n" "sn_schema_version n = kPersistenceSchemaVersion"
  shows "snapshot_decode (snapshot_encode n) = Inr n"
  using assms
  by (simp add: snapshot_decode_def snapshot_encode_def snapshot_decode_body_def snapshot_fits_def spec_simps)

end
