(* ===== verification/Journal.thy ===== *)
theory Journal
  imports Authority_Codec Workspace
begin

text \<open>
  \<open>src/core/persistence.cpp\<close>, the append-only journal and the snapshot file: the layout of the
  header and of a record, the scan of a journal, and the store with its files. The disk is a
  parameter: how much of a write it takes and whether a flush succeeds.
\<close>

section \<open>Records\<close>

datatype record_kind =
    RK_unknown | RK_epoch_advanced | RK_toolchain_registered | RK_target_registered | RK_environment_registered
  | RK_policy_registered | RK_source_registered | RK_session_created | RK_session_state_changed | RK_phase_reserved
  | RK_phase_state_changed | RK_phase_committed | RK_phase_refused | RK_artifact_registered
  | RK_artifact_authority_changed | RK_diagnostics_recorded | RK_candidate_registered | RK_recovery_decided
  | RK_provenance_appended | RK_session_retired | RK_lease_granted | RK_lease_revoked

fun to_string_record_kind :: "record_kind \<Rightarrow> string" where
  "to_string_record_kind RK_unknown = ''unknown''"
| "to_string_record_kind RK_epoch_advanced = ''epoch-advanced''"
| "to_string_record_kind RK_toolchain_registered = ''toolchain-registered''"
| "to_string_record_kind RK_target_registered = ''target-registered''"
| "to_string_record_kind RK_environment_registered = ''environment-registered''"
| "to_string_record_kind RK_policy_registered = ''policy-registered''"
| "to_string_record_kind RK_source_registered = ''source-registered''"
| "to_string_record_kind RK_session_created = ''session-created''"
| "to_string_record_kind RK_session_state_changed = ''session-state-changed''"
| "to_string_record_kind RK_phase_reserved = ''phase-reserved''"
| "to_string_record_kind RK_phase_state_changed = ''phase-state-changed''"
| "to_string_record_kind RK_phase_committed = ''phase-committed''"
| "to_string_record_kind RK_phase_refused = ''phase-refused''"
| "to_string_record_kind RK_artifact_registered = ''artifact-registered''"
| "to_string_record_kind RK_artifact_authority_changed = ''artifact-authority-changed''"
| "to_string_record_kind RK_diagnostics_recorded = ''diagnostics-recorded''"
| "to_string_record_kind RK_candidate_registered = ''candidate-registered''"
| "to_string_record_kind RK_recovery_decided = ''recovery-decided''"
| "to_string_record_kind RK_provenance_appended = ''provenance-appended''"
| "to_string_record_kind RK_session_retired = ''session-retired''"
| "to_string_record_kind RK_lease_granted = ''lease-granted''"
| "to_string_record_kind RK_lease_revoked = ''lease-revoked''"

definition record_kind_order :: "record_kind list" where
  "record_kind_order = [RK_unknown, RK_epoch_advanced, RK_toolchain_registered, RK_target_registered,
     RK_environment_registered, RK_policy_registered, RK_source_registered, RK_session_created,
     RK_session_state_changed, RK_phase_reserved, RK_phase_state_changed, RK_phase_committed, RK_phase_refused,
     RK_artifact_registered, RK_artifact_authority_changed, RK_diagnostics_recorded, RK_candidate_registered,
     RK_recovery_decided, RK_provenance_appended, RK_session_retired, RK_lease_granted, RK_lease_revoked]"

definition record_kind_value :: "record_kind \<Rightarrow> u16" where
  "record_kind_value kind = of_nat (length (takeWhile (\<lambda>k. k \<noteq> kind) record_kind_order))"

definition parse_record_kind :: "u16 \<Rightarrow> record_kind option" where
  "parse_record_kind n = (if n > record_kind_value RK_lease_revoked then None else Some (record_kind_order ! unat n))"

record journal_record =
  jr_kind :: record_kind
  jr_sequence :: u64
  jr_at_nanos :: u64
  jr_payload :: string
  jr_stored_crc :: u32

definition payload_digest :: "journal_record \<Rightarrow> digest" where
  "payload_digest r = digest_of (jr_payload r)"

datatype load_outcome =
    LO_ok | LO_empty | LO_torn_tail_repaired | LO_corrupt | LO_schema_mismatch | LO_io_error | LO_bounds_exceeded

fun to_string_load_outcome :: "load_outcome \<Rightarrow> string" where
  "to_string_load_outcome LO_ok = ''ok''"
| "to_string_load_outcome LO_empty = ''empty''"
| "to_string_load_outcome LO_torn_tail_repaired = ''torn-tail-repaired''"
| "to_string_load_outcome LO_corrupt = ''corrupt''"
| "to_string_load_outcome LO_schema_mismatch = ''schema-mismatch''"
| "to_string_load_outcome LO_io_error = ''io-error''"
| "to_string_load_outcome LO_bounds_exceeded = ''bounds-exceeded''"

record durable_state =
  ds_outcome :: load_outcome
  ds_runtime_epoch :: u64
  ds_last_sequence :: u64
  ds_created_at_nanos :: u64
  ds_records :: "journal_record list"
  ds_repaired_bytes :: u64
  ds_bytes_read :: u64
  ds_detail :: string

definition durable_state_default :: durable_state where
  "durable_state_default = \<lparr>ds_outcome = LO_empty, ds_runtime_epoch = 0, ds_last_sequence = 0, ds_created_at_nanos = 0,
     ds_records = [], ds_repaired_bytes = 0, ds_bytes_read = 0, ds_detail = []\<rparr>"

definition trustworthy :: "durable_state \<Rightarrow> bool" where
  "trustworthy d = (ds_outcome d = LO_ok \<or> ds_outcome d = LO_empty \<or> ds_outcome d = LO_torn_tail_repaired)"

record persistence_options =
  ps_directory :: string
  ps_name :: string
  ps_durable_appends :: bool
  ps_max_record_bytes :: nat
  ps_max_records_per_load :: nat
  ps_max_journal_bytes :: nat

definition persistence_options_default :: persistence_options where
  "persistence_options_default = \<lparr>ps_directory = [], ps_name = [], ps_durable_appends = True,
     ps_max_record_bytes = 4194304, ps_max_records_per_load = 1048576, ps_max_journal_bytes = 1073741824\<rparr>"

section \<open>Layout\<close>

definition kJournalMagic :: string where "kJournalMagic = ''CRFJRNL1''"
definition kJournalHeaderBytes :: nat where "kJournalHeaderBytes = 48"
definition kRecordMagic :: u32 where "kRecordMagic = 0x43524652"
definition kRecordHeaderBytes :: nat where "kRecordHeaderBytes = 40"
definition kSnapshotMagic :: string where "kSnapshotMagic = ''CRFSNP01''"
definition kSnapshotHeaderBytes :: nat where "kSnapshotHeaderBytes = 32"

definition get_u16 :: "nat \<Rightarrow> string \<Rightarrow> u16" where "get_u16 i s = le_word (take 2 (drop i s))"
definition get_u32 :: "nat \<Rightarrow> string \<Rightarrow> u32" where "get_u32 i s = le_word (take 4 (drop i s))"
definition get_u64 :: "nat \<Rightarrow> string \<Rightarrow> u64" where "get_u64 i s = le_word (take 8 (drop i s))"

definition journal_header_bytes :: "u64 \<Rightarrow> u64 \<Rightarrow> string" where
  "journal_header_bytes epoch created =
     (let front = kJournalMagic @ enc_u16 kPersistenceSchemaVersion @ enc_u16 0 @ enc_u32 0 @ enc_u64 epoch @ enc_u64 created
      in front @ enc_u32 (crc32c front) @ enc_u32 0 @ enc_u32 0 @ enc_u32 0)"

text \<open>The epoch and the time of creation of a valid header.\<close>

definition valid_journal_header :: "string \<Rightarrow> (u64 \<times> u64) option" where
  "valid_journal_header header =
     (if length header < kJournalHeaderBytes then None
      else if take 8 header \<noteq> kJournalMagic then None
      else if get_u16 8 header \<noteq> kPersistenceSchemaVersion then None
      else if get_u32 32 header \<noteq> crc32c (take 32 header) then None
      else Some (get_u64 16 header, get_u64 24 header))"

definition record_front :: "record_kind \<Rightarrow> u64 \<Rightarrow> u64 \<Rightarrow> string \<Rightarrow> string" where
  "record_front kind sequence at payload =
     enc_u32 kRecordMagic @ enc_u16 kPersistenceSchemaVersion @ enc_u16 (record_kind_value kind) @ enc_u64 sequence @
     enc_u64 at @ enc_u32 (of_nat (length payload)) @ enc_u32 (crc32c payload)"

definition record_bytes :: "record_kind \<Rightarrow> u64 \<Rightarrow> u64 \<Rightarrow> string \<Rightarrow> string" where
  "record_bytes kind sequence at payload =
     (let front = record_front kind sequence at payload in front @ enc_u32 (crc32c front) @ enc_u32 0 @ payload)"

section \<open>Scan\<close>

record journal_scan =
  js_outcome :: load_outcome
  js_last_sequence :: u64
  js_valid_bytes :: u64
  js_repaired_bytes :: u64
  js_bytes_read :: u64
  js_records :: "journal_record list"
  js_detail :: string

definition journal_scan_default :: journal_scan where
  "journal_scan_default = \<lparr>js_outcome = LO_empty, js_last_sequence = 0, js_valid_bytes = 0, js_repaired_bytes = 0,
     js_bytes_read = 0, js_records = [], js_detail = []\<rparr>"

text \<open>
  One turn of the loop at a cursor before the end: the record and the next cursor, or the outcome the
  scan stops with, how many bytes it gives up and why.
\<close>

definition scan_record ::
  "persistence_options \<Rightarrow> string \<Rightarrow> nat \<Rightarrow> u64 \<Rightarrow> (load_outcome \<times> u64 \<times> string) + (journal_record \<times> nat)" where
  "scan_record options bytes cursor expected =
     (let remaining = length bytes - cursor;
          header = drop cursor bytes;
          payload_length = unat (get_u32 24 header);
          payload_at = cursor + kRecordHeaderBytes;
          payload = take payload_length (drop payload_at bytes)
      in if remaining < kRecordHeaderBytes
           then Inl (LO_torn_tail_repaired, of_nat remaining, ''journal ends with a partial record header'')
         else if get_u32 0 header \<noteq> kRecordMagic
           then Inl (LO_corrupt, 0, ''journal record magic is invalid at offset '' @ dec_string cursor)
         else if get_u16 4 header \<noteq> kPersistenceSchemaVersion
           then Inl (LO_schema_mismatch, 0, ''journal record schema version mismatch'')
         else if get_u32 32 header \<noteq> crc32c (take 32 header)
           then Inl (LO_corrupt, 0, ''journal record header checksum failed at offset '' @ dec_string cursor)
         else if payload_length > ps_max_record_bytes options
           then Inl (LO_bounds_exceeded, 0, ''journal record declares a payload beyond the configured ceiling'')
         else if payload_length > length bytes - payload_at
           then Inl (LO_torn_tail_repaired, of_nat (length bytes - cursor), ''journal ends with a partially written record'')
         else if get_u32 28 header \<noteq> crc32c payload
           then Inl (LO_corrupt, 0, ''journal record payload checksum failed at offset '' @ dec_string cursor)
         else case parse_record_kind (get_u16 6 header) of
           None \<Rightarrow> Inl (LO_corrupt, 0, ''journal record kind is unknown'')
         | Some kind \<Rightarrow>
             if get_u64 8 header < expected
               then Inl (LO_corrupt, 0, ''journal sequence is not monotonic at offset '' @ dec_string cursor)
             else Inr (\<lparr>jr_kind = kind, jr_sequence = get_u64 8 header, jr_at_nanos = get_u64 16 header,
                 jr_payload = payload, jr_stored_crc = get_u32 28 header\<rparr>, payload_at + payload_length))"

function scan_loop :: "persistence_options \<Rightarrow> string \<Rightarrow> nat \<Rightarrow> u64 \<Rightarrow> journal_scan \<Rightarrow> journal_scan" where
  "scan_loop options bytes cursor expected scan =
     (if cursor \<ge> length bytes
      then scan\<lparr>js_valid_bytes := of_nat cursor, js_outcome := (if js_records scan = [] then LO_empty else LO_ok)\<rparr>
      else case scan_record options bytes cursor expected of
        Inl (outcome, repaired, detail) \<Rightarrow>
          scan\<lparr>js_outcome := outcome, js_repaired_bytes := repaired, js_valid_bytes := of_nat cursor, js_detail := detail\<rparr>
      | Inr (r, next) \<Rightarrow>
          let scan = scan\<lparr>js_last_sequence := jr_sequence r, js_records := js_records scan @ [r]\<rparr>
          in if length (js_records scan) > ps_max_records_per_load options
             then scan\<lparr>js_outcome := LO_bounds_exceeded,
               js_detail := ''journal holds more records than the configured ceiling''\<rparr>
             else scan_loop options bytes next (jr_sequence r + 1) scan)"
  by pat_completeness auto

lemma scan_record_advances: "scan_record options bytes cursor expected = Inr (r, next) \<Longrightarrow> cursor + kRecordHeaderBytes \<le> next"
  by (auto simp: scan_record_def Let_def split: if_splits option.splits)

termination scan_loop
  by (relation "measure (\<lambda>(options, bytes, cursor, expected, scan). length bytes - cursor)")
    (auto dest: scan_record_advances simp: kRecordHeaderBytes_def)

declare scan_loop.simps [simp del]

definition scan_journal :: "string \<Rightarrow> persistence_options \<Rightarrow> journal_scan" where
  "scan_journal bytes options =
     (let scan = journal_scan_default\<lparr>js_bytes_read := of_nat (length bytes)\<rparr>
      in if length bytes < kJournalHeaderBytes then scan\<lparr>js_outcome := LO_empty, js_detail := ''journal header is absent''\<rparr>
         else case valid_journal_header (take kJournalHeaderBytes bytes) of
           None \<Rightarrow> scan\<lparr>js_outcome := LO_corrupt, js_detail := ''journal header failed integrity validation''\<rparr>
         | Some _ \<Rightarrow> scan_loop options bytes kJournalHeaderBytes 1 scan)"

section \<open>Store\<close>

text \<open>
  \<open>PersistenceStore::Impl\<close> with the files it owns. The journal is open exclusively, so no other
  process changes it.
\<close>

record persistence_store =
  sto_options :: persistence_options
  sto_journal_path :: string
  sto_snapshot_path :: string
  sto_snapshot_temp :: string
  sto_open :: bool
  sto_last_sequence :: u64
  sto_bytes :: u64
  sto_created_nanos :: u64
  sto_epoch :: u64
  sto_appends :: nat
  sto_journal :: "string option"
  sto_snapshot :: "string option"

text \<open>
  What the disk answers during one operation: the time, whether a seek succeeds, how many bytes of a
  write it takes, whether a flush and a truncation succeed, and the steps of a replacement.
\<close>

record disk_host =
  dh_now :: u64
  dh_seek :: bool
  dh_taken :: nat
  dh_flush :: bool
  dh_truncate :: bool
  dh_create :: bool
  dh_replace :: bool

text \<open>A write at an offset; a gap before it reads as zero bytes.\<close>

definition overlay :: "nat \<Rightarrow> string \<Rightarrow> string \<Rightarrow> string" where
  "overlay offset written file =
     take offset file @ replicate (offset - length file) CHR 0x00 @ written @ drop (offset + length written) file"

definition write_at :: "disk_host \<Rightarrow> u64 \<Rightarrow> string \<Rightarrow> persistence_store \<Rightarrow> persistence_store \<times> unit result" where
  "write_at disk offset bytes st =
     (if \<not> dh_seek disk then (st, Inl (Status SC_persistence_io ''journal seek failed''))
      else
        let st1 = st\<lparr>sto_journal := map_option (overlay (unat offset) (take (dh_taken disk) bytes)) (sto_journal st)\<rparr>
        in if dh_taken disk < length bytes then (st1, Inl (Status SC_persistence_io ''journal write failed''))
           else (st1, Inr ()))"

definition flush_journal :: "disk_host \<Rightarrow> unit result" where
  "flush_journal disk = (if dh_flush disk then Inr () else Inl (Status SC_persistence_io ''journal flush failed''))"

definition update_header_epoch :: "disk_host \<Rightarrow> u64 \<Rightarrow> persistence_store \<Rightarrow> persistence_store \<times> unit result" where
  "update_header_epoch disk new_epoch st =
     (case write_at disk 0 (journal_header_bytes new_epoch (sto_created_nanos st)) st of
        (st1, Inl e) \<Rightarrow> (st1, Inl e)
      | (st1, Inr _) \<Rightarrow> (st1, flush_journal disk))"

definition truncate_to :: "disk_host \<Rightarrow> u64 \<Rightarrow> persistence_store \<Rightarrow> persistence_store \<times> unit result" where
  "truncate_to disk offset st =
     (if \<not> dh_seek disk then (st, Inl (Status SC_persistence_io ''journal seek failed during truncation''))
      else if \<not> dh_truncate disk then (st, Inl (Status SC_persistence_io ''journal truncation failed''))
      else (st\<lparr>sto_journal := map_option (take (unat offset)) (sto_journal st)\<rparr>, Inr ()))"

definition store_append ::
  "disk_host \<Rightarrow> record_kind \<Rightarrow> string \<Rightarrow> persistence_store \<Rightarrow> persistence_store \<times> u64 result" where
  "store_append disk kind payload st =
     (if length payload > ps_max_record_bytes (sto_options st)
        then (st, Inl (Status SC_persistence_bounds_exceeded ''record payload exceeds the configured ceiling''))
      else if \<not> sto_open st then (st, Inl (Status SC_persistence_io ''journal is not open''))
      else if unat (sto_bytes st + of_nat (length payload) + of_nat kRecordHeaderBytes) > ps_max_journal_bytes (sto_options st)
        then (st, Inl (Status SC_persistence_bounds_exceeded
          ''journal size ceiling reached; rotate the snapshot before appending''))
      else
        let sequence = sto_last_sequence st + 1; bytes = record_bytes kind sequence (dh_now disk) payload in
        case write_at disk (sto_bytes st) bytes st of
          (st1, Inl e) \<Rightarrow> (st1, Inl e)
        | (st1, Inr _) \<Rightarrow>
            (case (if ps_durable_appends (sto_options st) then flush_journal disk else Inr ()) of
               Inl e \<Rightarrow> (st1, Inl e)
             | Inr _ \<Rightarrow> (st1\<lparr>sto_bytes := sto_bytes st + of_nat (length bytes), sto_last_sequence := sequence,
                 sto_appends := sto_appends st + 1\<rparr>, Inr sequence)))"

definition record_epoch :: "disk_host \<Rightarrow> disk_host \<Rightarrow> u64 \<Rightarrow> persistence_store \<Rightarrow> persistence_store \<times> u64 result" where
  "record_epoch disk disk2 epoch st =
     (case store_append disk RK_epoch_advanced (enc_u64 epoch) st of
        (st1, Inl e) \<Rightarrow> (st1, Inl e)
      | (st1, Inr sequence) \<Rightarrow>
          (case update_header_epoch disk2 epoch st1 of
             (st2, Inl e) \<Rightarrow> (st2, Inl e)
           | (st2, Inr _) \<Rightarrow> (st2\<lparr>sto_epoch := epoch\<rparr>, Inr sequence)))"

datatype file_read = FileMissing | FileTooLarge | FileBytes string

definition read_whole_file :: "nat \<Rightarrow> string option \<Rightarrow> file_read" where
  "read_whole_file bound file =
     (case file of None \<Rightarrow> FileMissing | Some bytes \<Rightarrow> if length bytes > bound then FileTooLarge else FileBytes bytes)"

definition store_load :: "persistence_store \<Rightarrow> durable_state" where
  "store_load st =
     (case read_whole_file (ps_max_journal_bytes (sto_options st)) (sto_journal st) of
        FileMissing \<Rightarrow> durable_state_default\<lparr>ds_detail := ''journal does not exist''\<rparr>
      | FileTooLarge \<Rightarrow> durable_state_default\<lparr>ds_outcome := LO_bounds_exceeded,
          ds_detail := ''journal exceeds the configured byte ceiling''\<rparr>
      | FileBytes bytes \<Rightarrow>
          let scan = scan_journal bytes (sto_options st);
              d = durable_state_default\<lparr>ds_outcome := js_outcome scan, ds_last_sequence := js_last_sequence scan,
                ds_repaired_bytes := js_repaired_bytes scan, ds_bytes_read := js_bytes_read scan,
                ds_records := js_records scan, ds_detail := js_detail scan\<rparr>
          in case valid_journal_header (take kJournalHeaderBytes bytes) of
               None \<Rightarrow> d
             | Some (epoch, created) \<Rightarrow> d\<lparr>ds_runtime_epoch := epoch, ds_created_at_nanos := created\<rparr>)"

text \<open>Opening: the paths, the handle, and the recovery of what is on disk.\<close>

definition store_new :: "(string \<Rightarrow> string) \<Rightarrow> (string \<Rightarrow> string \<Rightarrow> string) \<Rightarrow> string option \<Rightarrow> string option \<Rightarrow> persistence_options \<Rightarrow> persistence_store" where
  "store_new ln join journal snapshot options =
     (let directory = normalize_path_string ln (ps_directory options); name = normalize_path_string ln (ps_name options)
      in \<lparr>sto_options = options\<lparr>ps_directory := directory, ps_name := name\<rparr>,
          sto_journal_path = normalize_path_string ln (join directory (name @ ''.crfjournal'')),
          sto_snapshot_path = normalize_path_string ln (join directory (name @ ''.crfsnapshot'')),
          sto_snapshot_temp = normalize_path_string ln (join directory (name @ ''.crfsnapshot.tmp'')),
          sto_open = True, sto_last_sequence = 0, sto_bytes = 0, sto_created_nanos = 0, sto_epoch = 0, sto_appends = 0,
          sto_journal = Some (case journal of None \<Rightarrow> [] | Some bytes \<Rightarrow> bytes), sto_snapshot = snapshot\<rparr>)"

definition store_fresh :: "disk_host \<Rightarrow> persistence_store \<Rightarrow> persistence_store \<times> unit result" where
  "store_fresh disk st =
     (case write_at disk 0 (journal_header_bytes 0 (dh_now disk)) st of
        (st1, Inl e) \<Rightarrow> (st1, Inl e)
      | (st1, Inr _) \<Rightarrow>
          (case flush_journal disk of
             Inl e \<Rightarrow> (st1, Inl e)
           | Inr _ \<Rightarrow> (st1\<lparr>sto_last_sequence := 0, sto_bytes := of_nat kJournalHeaderBytes\<rparr>, Inr ())))"

definition store_existing :: "disk_host \<Rightarrow> persistence_store \<Rightarrow> persistence_store \<times> unit result" where
  "store_existing disk st =
     (let existing = store_load st;
          valid = of_nat kJournalHeaderBytes +
            (ds_bytes_read existing - ds_repaired_bytes existing - of_nat kJournalHeaderBytes);
          adopted = (\<lambda>st. st\<lparr>sto_last_sequence := ds_last_sequence existing, sto_epoch := ds_runtime_epoch existing,
            sto_created_nanos := ds_created_at_nanos existing, sto_bytes := valid\<rparr>)
      in if \<not> trustworthy existing
         then (st, Inl (Status SC_persistence_corrupt (''existing journal is not trustworthy: '' @ ds_detail existing)))
         else if ds_outcome existing = LO_torn_tail_repaired
         then (case truncate_to disk valid st of
                 (st1, Inl e) \<Rightarrow> (st1, Inl e)
               | (st1, Inr _) \<Rightarrow>
                   (case flush_journal disk of Inl e \<Rightarrow> (st1, Inl e) | Inr _ \<Rightarrow> (adopted st1, Inr ())))
         else (adopted st, Inr ()))"

definition store_open ::
  "disk_host \<Rightarrow> (string \<Rightarrow> string) \<Rightarrow> (string \<Rightarrow> string \<Rightarrow> string) \<Rightarrow> (string \<Rightarrow> string option) \<Rightarrow> (string \<Rightarrow> u32 option) \<Rightarrow>
   string option \<Rightarrow> string option \<Rightarrow> persistence_options \<Rightarrow> persistence_store result" where
  "store_open disk ln join create_directories open_failure journal snapshot options =
     (if ps_directory options = [] then Inl (Status SC_invalid_argument ''persistence directory is not configured'')
      else if ps_name options = [] then Inl (Status SC_invalid_argument ''persistence name is not configured'')
      else if list_ex (\<lambda>c. c \<in> set [CHR 0x5C, CHR ''/'', CHR '':'', CHR ''*'', CHR ''?'', CHR 0x22, CHR ''<'', CHR ''>'', CHR ''|''])
          (ps_name options)
        then Inl (Status SC_invalid_argument ''persistence name contains a character that is not valid in a file name'')
      else if ps_max_record_bytes options = 0 \<or> ps_max_record_bytes options > kMaxBlobBytes
        then Inl (Status SC_invalid_argument ''maximum record size is out of range'')
      else case create_directories (ps_directory options) of
        Some message \<Rightarrow> Inl (Status SC_persistence_io (''persistence directory could not be created: '' @ message))
      | None \<Rightarrow>
          let st = store_new ln join journal snapshot options in
          (case open_failure (sto_journal_path st) of
             Some code \<Rightarrow> Inl (Status SC_persistence_io (''journal could not be opened: '' @ sto_journal_path st @
               '' (Win32 error '' @ dec_string (unat code) @ '')''))
           | None \<Rightarrow>
               (case (if sto_journal st = Some [] then store_fresh disk st else store_existing disk st) of
                  (st1, Inl e) \<Rightarrow> Inl e
                | (st1, Inr _) \<Rightarrow> Inr st1)))"

definition store_reset :: "disk_host \<Rightarrow> persistence_store \<Rightarrow> persistence_store \<times> unit result" where
  "store_reset disk st =
     (let st1 = st\<lparr>sto_open := False, sto_journal := None, sto_snapshot := None\<rparr>
      in if \<not> dh_create disk then (st1, Inl (Status SC_persistence_io ''journal could not be recreated''))
         else (case store_fresh disk (st1\<lparr>sto_open := True, sto_journal := Some []\<rparr>) of
           (st2, Inl e) \<Rightarrow> (st2, Inl e)
         | (st2, Inr _) \<Rightarrow> (st2\<lparr>sto_appends := 0\<rparr>, Inr ())))"

section \<open>Snapshot file\<close>

definition snapshot_front :: "string \<Rightarrow> u64 \<Rightarrow> string" where
  "snapshot_front payload sequence =
     kSnapshotMagic @ enc_u16 kPersistenceSchemaVersion @ enc_u16 0 @ enc_u32 (of_nat (length payload)) @
     enc_u64 sequence @ enc_u32 (crc32c payload)"

definition snapshot_file :: "string \<Rightarrow> u64 \<Rightarrow> string" where
  "snapshot_file payload sequence =
     (let front = snapshot_front payload sequence in front @ enc_u32 (crc32c front) @ payload)"

text \<open>A replacement that fails leaves the previous snapshot.\<close>

definition write_snapshot :: "disk_host \<Rightarrow> string \<Rightarrow> u64 \<Rightarrow> persistence_store \<Rightarrow> persistence_store \<times> unit result" where
  "write_snapshot disk payload sequence st =
     (if length payload > ps_max_record_bytes (sto_options st)
        then (st, Inl (Status SC_persistence_bounds_exceeded ''snapshot exceeds the configured ceiling''))
      else if \<not> dh_create disk
        then (st, Inl (Status SC_persistence_io ''snapshot temporary file could not be created''))
      else if dh_taken disk < length (snapshot_file payload sequence)
        then (st, Inl (Status SC_persistence_io ''snapshot write failed''))
      else if \<not> dh_replace disk then (st, Inl (Status SC_persistence_io ''snapshot replacement failed''))
      else (st\<lparr>sto_snapshot := Some (snapshot_file payload sequence)\<rparr>, Inr ()))"

definition read_snapshot :: "persistence_store \<Rightarrow> string option result" where
  "read_snapshot st =
     (case read_whole_file (ps_max_record_bytes (sto_options st) + kSnapshotHeaderBytes) (sto_snapshot st) of
        FileMissing \<Rightarrow> Inr None
      | FileTooLarge \<Rightarrow> Inl (Status SC_persistence_bounds_exceeded ''snapshot exceeds the configured ceiling'')
      | FileBytes view \<Rightarrow>
          let payload_length = unat (get_u32 12 view); payload = take payload_length (drop kSnapshotHeaderBytes view) in
          if length view < kSnapshotHeaderBytes then Inl (Status SC_persistence_truncated ''snapshot header is incomplete'')
          else if take 8 view \<noteq> kSnapshotMagic then Inl (Status SC_persistence_corrupt ''snapshot magic is invalid'')
          else if get_u16 8 view \<noteq> kPersistenceSchemaVersion
            then Inl (Status SC_persistence_schema_mismatch ''snapshot schema version mismatch'')
          else if get_u32 28 view \<noteq> crc32c (take 28 view)
            then Inl (Status SC_persistence_corrupt ''snapshot header checksum failed'')
          else if payload_length > ps_max_record_bytes (sto_options st)
            then Inl (Status SC_persistence_bounds_exceeded ''snapshot payload is too large'')
          else if length view - kSnapshotHeaderBytes < payload_length
            then Inl (Status SC_persistence_truncated ''snapshot payload is incomplete'')
          else if get_u32 24 view \<noteq> crc32c payload
            then Inl (Status SC_persistence_corrupt ''snapshot payload checksum failed'')
          else Inr (Some payload))"

end
