(* ===== verification/Journal_Recovery.thy ===== *)
theory Journal_Recovery
  imports Journal "HOL-Library.Sublist"
begin

text \<open>
  What the journal promises: a scan returns exactly the records that were written, a torn tail costs
  only the record that was being written, a changed byte is found, and the store refines an
  append-only list of records.
\<close>

section \<open>Fields at fixed offsets\<close>

lemma length_enc [simp]: "length (enc_u16 v) = 2" "length (enc_u32 w) = 4" "length (enc_u64 x) = 8"
  by (simp_all add: enc_u16_def enc_u32_def enc_u64_def)

lemma le_word_enc [simp]: "le_word (enc_u16 v) = v" "le_word (enc_u32 w) = w" "le_word (enc_u64 x) = x"
  by (simp_all add: enc_u16_bytes enc_u32_def enc_u64_def le_word_bytes)

lemma length_magic [simp]: "length kJournalMagic = 8" "length kSnapshotMagic = 8"
  by (simp_all add: kJournalMagic_def kSnapshotMagic_def)

lemmas get_defs = get_u16_def get_u32_def get_u64_def

lemma le_word_inject:
  assumes "length xs = n" "length ys = n" "8 * n \<le> LENGTH('w)" "(le_word xs :: 'w::len word) = le_word ys"
  shows "xs = ys"
proof (rule nth_equalityI)
  show "length xs = length ys" using assms by simp
  fix i assume i: "i < length xs"
  have "bit (of_char (xs ! i) :: nat) k = bit (of_char (ys ! i) :: nat) k" for k
  proof (cases "k < 8")
    case True
    with i assms have "8 * i + k < LENGTH('w)" by linarith
    with True i assms show ?thesis
      using bit_le_word [of xs "8 * i + k", where 'w = 'w] bit_le_word [of ys "8 * i + k", where 'w = 'w] by simp
  qed (auto dest: bit_of_char)
  then have "(of_char (xs ! i) :: nat) = of_char (ys ! i)" by (rule bit_eqI)
  then show "xs ! i = ys ! i" by simp
qed

lemma byte_value_inject [simp]: "(byte_value c :: u8) = byte_value d \<longleftrightarrow> c = d"
proof
  assume "(byte_value c :: u8) = byte_value d"
  then have "bit (of_char c :: nat) k = bit (of_char d :: nat) k" for k
    using bit_byte_value [where 'w = 8, of c k] bit_byte_value [where 'w = 8, of d k] by (auto dest: bit_of_char)
  then have "(of_char c :: nat) = of_char d" by (rule bit_eqI)
  then show "c = d" by simp
qed simp

lemma crc32c_update: "i < length s \<Longrightarrow> s ! i \<noteq> c \<Longrightarrow> crc32c (s[i := c]) \<noteq> crc32c s"
  using crc32c_bytes_single_byte [of "byte_value c" "byte_value (s ! i)" "bytes_of (take i s)" "bytes_of (drop (Suc i) s)"]
  by (simp add: crc32c_def bytes_of_def upd_conv_take_nth_drop id_take_nth_drop [symmetric] flip: map_append list.map(2))

section \<open>Headers\<close>

lemma length_journal_header [simp]: "length (journal_header_bytes epoch created) = kJournalHeaderBytes"
  by (simp add: journal_header_bytes_def kJournalHeaderBytes_def Let_def)

lemma journal_header_round_trip [simp]: "valid_journal_header (journal_header_bytes epoch created) = Some (epoch, created)"
  by (simp add: valid_journal_header_def journal_header_bytes_def kJournalHeaderBytes_def Let_def get_defs)

definition bytes_of_record :: "journal_record \<Rightarrow> string" where
  "bytes_of_record r = record_bytes (jr_kind r) (jr_sequence r) (jr_at_nanos r) (jr_payload r)"

lemma length_record_front [simp]: "length (record_front kind sequence at payload) = 32"
  by (simp add: record_front_def)

lemma length_bytes_of_record [simp]: "length (bytes_of_record r) = kRecordHeaderBytes + length (jr_payload r)"
  by (simp add: bytes_of_record_def record_bytes_def kRecordHeaderBytes_def Let_def)

lemma record_kind_value_lt: "unat (record_kind_value kind) < length record_kind_order"
  by (cases kind) (simp_all add: record_kind_value_def record_kind_order_def)

lemma parse_record_kind_value [simp]: "parse_record_kind (record_kind_value kind) = Some kind"
  by (cases kind) (simp_all add: parse_record_kind_def record_kind_value_def record_kind_order_def)

lemma record_fields:
  fixes r rest
  defines "header \<equiv> bytes_of_record r @ rest"
  shows "get_u32 0 header = kRecordMagic" "get_u16 4 header = kPersistenceSchemaVersion" "get_u16 6 header = record_kind_value (jr_kind r)"
    "get_u64 8 header = jr_sequence r" "get_u64 16 header = jr_at_nanos r" "get_u32 24 header = of_nat (length (jr_payload r))"
    "get_u32 28 header = crc32c (jr_payload r)" "get_u32 32 header = crc32c (take 32 header)"
    "take (length (jr_payload r)) (drop kRecordHeaderBytes header) = jr_payload r"
  by (simp_all add: header_def bytes_of_record_def record_bytes_def record_front_def Let_def get_defs kRecordHeaderBytes_def)

section \<open>Scanning whole records\<close>

text \<open>A record the store can have written: it fits, and it carries the checksum of its payload.\<close>

definition record_fits :: "persistence_options \<Rightarrow> journal_record \<Rightarrow> bool" where
  "record_fits options r = (length (jr_payload r) \<le> ps_max_record_bytes options \<and> length (jr_payload r) < 2 ^ 32 \<and>
     jr_stored_crc r = crc32c (jr_payload r) \<and> unat (jr_sequence r) < 2 ^ 64 - 1)"

fun ascending :: "nat \<Rightarrow> journal_record list \<Rightarrow> bool" where
  "ascending expected [] = True"
| "ascending expected (r # rs) = (expected \<le> unat (jr_sequence r) \<and> ascending (Suc (unat (jr_sequence r))) rs)"

definition written :: "journal_record list \<Rightarrow> string" where
  "written rs = concat (map bytes_of_record rs)"

definition last_sequence_of :: "u64 \<Rightarrow> journal_record list \<Rightarrow> u64" where
  "last_sequence_of s rs = foldl (\<lambda>_. jr_sequence) s rs"

lemma written_simps [simp]: "written [] = []" "written (r # rs) = bytes_of_record r @ written rs"
  "written (rs @ ss) = written rs @ written ss"
  by (simp_all add: written_def)

lemma last_sequence_of_simps [simp]: "last_sequence_of s [] = s" "last_sequence_of s (r # rs) = last_sequence_of (jr_sequence r) rs"
  "last_sequence_of s (rs @ [r]) = jr_sequence r"
  by (simp_all add: last_sequence_of_def)

lemma scan_record_whole:
  assumes "record_fits options r" "unat expected \<le> unat (jr_sequence r)" "bytes = pre @ bytes_of_record r @ rest"
  shows "scan_record options bytes (length pre) expected = Inr (r, length pre + length (bytes_of_record r))"
proof -
  let ?header = "bytes_of_record r @ rest"
  have length: "unat (get_u32 24 ?header) = length (jr_payload r)"
    using assms(1) by (simp add: record_fields record_fits_def unat_of_nat)
  have payload: "take (length (jr_payload r)) (drop (length pre + kRecordHeaderBytes) bytes) = jr_payload r"
    using record_fields(9) [of r rest] by (simp add: assms(3))
  have header: "drop (length pre) bytes = ?header" by (simp add: assms(3))
  have ahead: "length bytes - length pre = kRecordHeaderBytes + length (jr_payload r) + length rest"
    by (simp add: assms(3))
  have fits: "length (jr_payload r) \<le> ps_max_record_bytes options" "jr_stored_crc r = crc32c (jr_payload r)"
    "\<not> jr_sequence r < expected"
    using assms(1,2) by (simp_all add: record_fits_def word_less_nat_alt)
  show ?thesis
    unfolding scan_record_def Let_def header length payload
    unfolding ahead record_fields parse_record_kind_value using fits by (simp add: assms(3))
qed

lemma scan_loop_records:
  assumes "list_all (record_fits options) rs" "ascending (unat expected) rs"
    and "length (js_records scan) + length rs \<le> ps_max_records_per_load options" "bytes = pre @ written rs @ rest"
  shows "scan_loop options bytes (length pre) expected scan =
    scan_loop options bytes (length pre + length (written rs)) (if rs = [] then expected else last_sequence_of 0 rs + 1)
      (scan\<lparr>js_last_sequence := last_sequence_of (js_last_sequence scan) rs, js_records := js_records scan @ rs\<rparr>)"
  using assms
proof (induction rs arbitrary: pre expected scan)
  case (Cons r rs)
  let ?scan = "scan\<lparr>js_last_sequence := jr_sequence r, js_records := js_records scan @ [r]\<rparr>"
  have one: "scan_record options bytes (length pre) expected = Inr (r, length pre + length (bytes_of_record r))"
    using Cons.prems by (intro scan_record_whole [of _ _ _ _ _ "written rs @ rest"]) auto
  have below: "length pre < length bytes" by (simp add: Cons.prems(4) kRecordHeaderBytes_def)
  have next_expected: "unat (jr_sequence r + 1) = Suc (unat (jr_sequence r))"
    using Cons.prems(1) by (simp add: record_fits_def unat_word_ariths(1))
  have "scan_loop options bytes (length pre) expected scan =
      scan_loop options bytes (length (pre @ bytes_of_record r)) (jr_sequence r + 1) ?scan"
    using Cons.prems(3) below by (subst scan_loop.simps) (simp add: one Let_def)
  also have "\<dots> = scan_loop options bytes (length (pre @ bytes_of_record r) + length (written rs))
      (if rs = [] then jr_sequence r + 1 else last_sequence_of 0 rs + 1)
      (?scan\<lparr>js_last_sequence := last_sequence_of (js_last_sequence ?scan) rs, js_records := js_records ?scan @ rs\<rparr>)"
    using Cons.prems next_expected by (intro Cons.IH) auto
  finally show ?case by (cases rs) (simp_all add: add.assoc)
qed simp

section \<open>Torn and damaged records\<close>

lemma get_cong:
  assumes "take n s = take n t"
  shows "i + 2 \<le> n \<Longrightarrow> get_u16 i s = get_u16 i t" "i + 4 \<le> n \<Longrightarrow> get_u32 i s = get_u32 i t"
    "i + 8 \<le> n \<Longrightarrow> get_u64 i s = get_u64 i t"
proof -
  have part: "take m (drop i s) = take m (drop i t)" if "i + m \<le> n" for m
  proof -
    have "take m (drop i u) = take m (drop i (take n u))" for u :: string
      using that by (simp add: drop_take min_def)
    then show ?thesis using assms by metis
  qed
  show "i + 2 \<le> n \<Longrightarrow> get_u16 i s = get_u16 i t" "i + 4 \<le> n \<Longrightarrow> get_u32 i s = get_u32 i t"
    "i + 8 \<le> n \<Longrightarrow> get_u64 i s = get_u64 i t"
    by (simp_all add: get_defs part)
qed

lemma scan_record_torn:
  assumes fits: "record_fits options r" and k: "k < length (bytes_of_record r)"
    and bytes: "bytes = pre @ take k (bytes_of_record r)"
  shows "\<exists>detail. scan_record options bytes (length pre) expected = Inl (LO_torn_tail_repaired, of_nat k, detail)"
proof (cases "k < kRecordHeaderBytes")
  case True
  with k show ?thesis by (simp add: scan_record_def Let_def bytes)
next
  case False
  let ?torn = "take k (bytes_of_record r)"
  from False have same: "take 40 ?torn = take 40 (bytes_of_record r)" by (simp add: kRecordHeaderBytes_def min_def)
  from False have same32: "take 32 ?torn = take 32 (bytes_of_record r)" by (simp add: kRecordHeaderBytes_def min_def)
  have length: "unat (get_u32 24 ?torn) = length (jr_payload r)"
    using fits record_fields(6) [of r "[]"] get_cong(2) [OF same, of 24] by (simp add: record_fits_def unat_of_nat)
  have fields: "get_u32 0 ?torn = kRecordMagic" "get_u16 4 ?torn = kPersistenceSchemaVersion"
    "get_u32 32 ?torn = crc32c (take 32 ?torn)"
    using record_fields(1,2,8) [of r "[]"] get_cong(2) [OF same, of 0] get_cong(1) [OF same, of 4]
      get_cong(2) [OF same, of 32] same32 by simp_all
  have header: "drop (length pre) bytes = ?torn" and ahead: "length bytes - length pre = k"
      "length bytes - (length pre + kRecordHeaderBytes) = k - kRecordHeaderBytes"
    using k by (simp_all add: bytes)
  from k False have short: "k - kRecordHeaderBytes < length (jr_payload r)" by simp
  show ?thesis
    unfolding scan_record_def Let_def header length unfolding ahead fields
    using fits short False by (simp add: record_fits_def)
qed

text \<open>A header whose checksum fails ends the scan as damaged.\<close>

lemma scan_record_bad_header:
  assumes "cursor + kRecordHeaderBytes \<le> length bytes" "get_u32 32 (drop cursor bytes) \<noteq> crc32c (take 32 (drop cursor bytes))"
  shows "\<exists>outcome detail. scan_record options bytes cursor expected = Inl (outcome, 0, detail) \<and>
    outcome \<in> {LO_corrupt, LO_schema_mismatch}"
proof -
  from assms(1) have "\<not> length bytes - cursor < kRecordHeaderBytes" by simp
  then show ?thesis using assms(2) by (simp add: scan_record_def Let_def)
qed

lemma scan_record_bad_payload:
  assumes fits: "record_fits options r" and same: "take 40 header = take 40 (bytes_of_record r)"
    and long: "length header \<ge> length (bytes_of_record r)" and bytes: "bytes = pre @ header"
    and damaged: "crc32c (take (length (jr_payload r)) (drop 40 header)) \<noteq> crc32c (jr_payload r)"
  shows "\<exists>detail. scan_record options bytes (length pre) expected = Inl (LO_corrupt, 0, detail)"
proof -
  have "take 32 (take 40 header) = take 32 (take 40 (bytes_of_record r))" by (simp only: same)
  then have same32: "take 32 header = take 32 (bytes_of_record r)" by simp
  have fields: "get_u32 0 header = kRecordMagic" "get_u16 4 header = kPersistenceSchemaVersion"
    "get_u32 32 header = crc32c (take 32 header)" "get_u32 28 header = crc32c (jr_payload r)"
    using record_fields(1,2,7,8) [of r "[]"] get_cong(2) [OF same, of 0] get_cong(1) [OF same, of 4]
      get_cong(2) [OF same, of 32] get_cong(2) [OF same, of 28] same32 by simp_all
  have length: "unat (get_u32 24 header) = length (jr_payload r)"
    using fits record_fields(6) [of r "[]"] get_cong(2) [OF same, of 24] by (simp add: record_fits_def unat_of_nat)
  have header: "drop (length pre) bytes = header" and ahead: "length bytes - length pre = length header"
      "length bytes - (length pre + kRecordHeaderBytes) = length header - 40"
      "drop (length pre + kRecordHeaderBytes) bytes = drop 40 header"
    by (simp_all add: bytes kRecordHeaderBytes_def)
  show ?thesis
    unfolding scan_record_def Let_def header length unfolding ahead fields
    using fits long damaged by (simp add: record_fits_def kRecordHeaderBytes_def)
qed

text \<open>Every byte of a record is covered by a checksum, the four reserved bytes apart.\<close>

lemma scan_record_changed_byte:
  assumes fits: "record_fits options r" and i: "i < length (bytes_of_record r)" "i \<notin> {36..39}"
    and c: "c \<noteq> bytes_of_record r ! i" and bytes: "bytes = pre @ (bytes_of_record r)[i := c] @ rest"
  shows "\<exists>outcome detail. scan_record options bytes (length pre) expected = Inl (outcome, 0, detail) \<and>
    outcome \<in> {LO_corrupt, LO_schema_mismatch}"
proof (cases "i < 40")
  case True
  define header where "header = (bytes_of_record r)[i := c] @ rest"
  have cursor: "length pre + kRecordHeaderBytes \<le> length bytes" "drop (length pre) bytes = header"
    by (simp_all add: bytes header_def)
  have stored: "get_u32 32 (bytes_of_record r) = crc32c (take 32 (bytes_of_record r))"
    using record_fields(8) [of r "[]"] by simp
  have long: "40 \<le> length (bytes_of_record r)" by (simp add: kRecordHeaderBytes_def)
  from True i(2) consider "i < 32" | "32 \<le> i" "i < 36" by fastforce
  then have "get_u32 32 header \<noteq> crc32c (take 32 header)"
  proof cases
    case 1
    with long have "take 32 header = (take 32 (bytes_of_record r))[i := c]" "get_u32 32 header = get_u32 32 (bytes_of_record r)"
      by (simp_all add: header_def get_defs take_update_swap)
    with crc32c_update [of i "take 32 (bytes_of_record r)" c] 1 c stored long show ?thesis by auto
  next
    case 2
    with long have "take 32 header = take 32 (bytes_of_record r)" by (simp add: header_def)
    moreover from 2 long have field: "take 4 (drop 32 header) = (take 4 (drop 32 (bytes_of_record r)))[i - 32 := c]"
      by (simp add: header_def drop_update_swap take_update_swap)
    have "get_u32 32 header \<noteq> get_u32 32 (bytes_of_record r)"
    proof
      assume "get_u32 32 header = get_u32 32 (bytes_of_record r)"
      then have "take 4 (drop 32 header) = take 4 (drop 32 (bytes_of_record r))"
        using long by (intro le_word_inject [where n = 4 and 'w = 32]) (simp_all add: get_defs field)
      then have "(take 4 (drop 32 header)) ! (i - 32) = bytes_of_record r ! i" using 2 long by simp
      moreover have "(take 4 (drop 32 header)) ! (i - 32) = c" unfolding field using 2 long by simp
      ultimately show False using c by simp
    qed
    ultimately show ?thesis using stored by simp
  qed
  with cursor show ?thesis using scan_record_bad_header [of "length pre" bytes] by simp
next
  case False
  let ?j = "i - 40"
  have len: "?j < length (jr_payload r)" using i(1) False by (simp add: kRecordHeaderBytes_def)
  have body: "drop 40 (bytes_of_record r) = jr_payload r"
    using record_fields(9) [of r "[]"] by (simp add: kRecordHeaderBytes_def)
  have "take (length (jr_payload r)) (drop 40 ((bytes_of_record r)[i := c] @ rest)) = (jr_payload r)[?j := c]"
    using False by (simp add: drop_update_swap body kRecordHeaderBytes_def)
  moreover have "drop 40 (bytes_of_record r) ! ?j = bytes_of_record r ! i"
    using False by (subst nth_drop) (simp_all add: kRecordHeaderBytes_def)
  then have "jr_payload r ! ?j \<noteq> c" unfolding body using c by simp
  ultimately have "crc32c (take (length (jr_payload r)) (drop 40 ((bytes_of_record r)[i := c] @ rest))) \<noteq> crc32c (jr_payload r)"
    using crc32c_update [OF len, of c] by simp
  moreover have "take 40 ((bytes_of_record r)[i := c] @ rest) = take 40 (bytes_of_record r)"
    using False by (simp add: kRecordHeaderBytes_def)
  ultimately show ?thesis
    using scan_record_bad_payload [OF fits, of "(bytes_of_record r)[i := c] @ rest" bytes pre expected] bytes by auto
qed

section \<open>The journal file\<close>

definition journal_file :: "u64 \<Rightarrow> u64 \<Rightarrow> journal_record list \<Rightarrow> string" where
  "journal_file epoch created rs = journal_header_bytes epoch created @ written rs"

lemma length_journal_file: "length (journal_file epoch created rs) = kJournalHeaderBytes + length (written rs)"
  by (simp add: journal_file_def)

lemma journal_file_snoc: "journal_file epoch created (rs @ [r]) = journal_file epoch created rs @ bytes_of_record r"
  by (simp add: journal_file_def)

text \<open>Records are numbered from one without gaps.\<close>

fun numbered :: "nat \<Rightarrow> journal_record list \<Rightarrow> bool" where
  "numbered n [] = True"
| "numbered n (r # rs) = (jr_sequence r = of_nat n \<and> numbered (Suc n) rs)"

lemma numbered_append [simp]: "numbered n (rs @ ss) = (numbered n rs \<and> numbered (n + length rs) ss)"
  by (induction rs arbitrary: n) auto

definition payload_fits :: "persistence_options \<Rightarrow> journal_record \<Rightarrow> bool" where
  "payload_fits options r = (length (jr_payload r) \<le> ps_max_record_bytes options \<and> jr_stored_crc r = crc32c (jr_payload r))"

definition journal_ok :: "persistence_options \<Rightarrow> journal_record list \<Rightarrow> bool" where
  "journal_ok options rs = (list_all (payload_fits options) rs \<and> numbered 1 rs \<and>
     ps_max_record_bytes options \<le> kMaxBlobBytes \<and> ps_max_journal_bytes options < 2 ^ 63 \<and>
     kJournalHeaderBytes + length (written rs) \<le> ps_max_journal_bytes options)"

lemma written_length: "kRecordHeaderBytes * length rs \<le> length (written rs)"
  by (induction rs) simp_all

lemma journal_ok_count: "journal_ok options rs \<Longrightarrow> length rs < 2 ^ 63"
  using written_length [of rs] by (simp add: journal_ok_def kRecordHeaderBytes_def)

lemma numbered_ascending:
  "numbered n rs \<Longrightarrow> n + length rs < 2 ^ 64 \<Longrightarrow> ascending n rs \<and> list_all (\<lambda>r. unat (jr_sequence r) < n + length rs) rs"
proof (induction rs arbitrary: n)
  case (Cons r rs)
  then have "unat (of_nat n :: u64) = n" by (simp add: unat_of_nat)
  with Cons.IH [of "Suc n"] Cons.prems show ?case by simp
qed simp

lemma numbered_last: "numbered n rs \<Longrightarrow> rs \<noteq> [] \<Longrightarrow> last_sequence_of s rs = of_nat (n + length rs - 1)"
  by (induction rs rule: rev_induct) simp_all

lemma journal_ok_last: "journal_ok options rs \<Longrightarrow> last_sequence_of 0 rs = of_nat (length rs)"
  using numbered_last [of 1 rs 0] by (cases "rs = []") (simp_all add: journal_ok_def)

lemma journal_ok_scan:
  assumes "journal_ok options rs"
  shows "list_all (record_fits options) rs" "ascending 1 rs"
proof -
  have small: "list_all (\<lambda>r. unat (jr_sequence r) < 1 + length rs) rs \<and> ascending 1 rs"
    using numbered_ascending [of 1 rs] journal_ok_count [OF assms] assms by (simp add: journal_ok_def)
  then show "ascending 1 rs" by simp
  from small show "list_all (record_fits options) rs"
    using assms journal_ok_count [OF assms]
    by (auto simp: list_all_iff record_fits_def payload_fits_def journal_ok_def kMaxBlobBytes_def)
qed

lemma journal_ok_appendI: "journal_ok options (rs @ ss) \<Longrightarrow> journal_ok options rs"
  by (simp add: journal_ok_def)

text \<open>The scan when it has read the records: what is left is the loop at the end of them.\<close>

definition scanned :: "journal_record list \<Rightarrow> nat \<Rightarrow> journal_scan" where
  "scanned rs n = journal_scan_default\<lparr>js_bytes_read := of_nat n, js_last_sequence := of_nat (length rs), js_records := rs\<rparr>"

lemma scan_journal_records:
  assumes ok: "journal_ok options rs" "length rs \<le> ps_max_records_per_load options"
    and bytes: "bytes = journal_file epoch created rs @ rest"
  shows "scan_journal bytes options =
    scan_loop options bytes (length (journal_file epoch created rs)) (of_nat (length rs) + 1) (scanned rs (length bytes))"
proof -
  let ?scan = "journal_scan_default\<lparr>js_bytes_read := of_nat (length bytes)\<rparr>"
  have front: "take kJournalHeaderBytes bytes = journal_header_bytes epoch created" "kJournalHeaderBytes \<le> length bytes"
    and split: "bytes = journal_header_bytes epoch created @ written rs @ rest"
    by (simp_all add: bytes journal_file_def)
  have "scan_journal bytes options = scan_loop options bytes (length (journal_header_bytes epoch created)) 1 ?scan"
    using front by (simp add: scan_journal_def Let_def)
  also have "\<dots> = scan_loop options bytes (length (journal_header_bytes epoch created) + length (written rs))
      (if rs = [] then 1 else last_sequence_of 0 rs + 1)
      (?scan\<lparr>js_last_sequence := last_sequence_of (js_last_sequence ?scan) rs, js_records := js_records ?scan @ rs\<rparr>)"
    using journal_ok_scan [OF ok(1)] ok(2) split
    by (intro scan_loop_records) (simp_all add: journal_scan_default_def)
  also have "?scan\<lparr>js_last_sequence := last_sequence_of (js_last_sequence ?scan) rs, js_records := js_records ?scan @ rs\<rparr> =
      scanned rs (length bytes)"
    using journal_ok_last [OF ok(1)] by (simp add: scanned_def journal_scan_default_def)
  also have "(if rs = [] then 1 else last_sequence_of 0 rs + 1) = of_nat (length rs) + 1"
    using journal_ok_last [OF ok(1)] by simp
  finally show ?thesis by (simp add: length_journal_file)
qed

lemma scan_whole_file:
  assumes "journal_ok options rs" "length rs \<le> ps_max_records_per_load options" "bytes = journal_file epoch created rs"
  shows "scan_journal bytes options =
    (scanned rs (length bytes))\<lparr>js_valid_bytes := of_nat (length bytes), js_outcome := (if rs = [] then LO_empty else LO_ok)\<rparr>"
proof -
  have "scan_journal bytes options = scan_loop options bytes (length bytes) (of_nat (length rs) + 1) (scanned rs (length bytes))"
    using scan_journal_records [OF assms(1,2), of bytes epoch created "[]"] assms(3) by auto
  then show ?thesis by (simp add: scan_loop.simps) (simp add: scanned_def)
qed

text \<open>A stop of the scan after the records: they are kept, and the outcome is that of the stop.\<close>

lemma scan_stops:
  assumes "journal_ok options rs" "length rs \<le> ps_max_records_per_load options"
    and "bytes = journal_file epoch created rs @ rest" "rest \<noteq> []"
    and "scan_record options bytes (length (journal_file epoch created rs)) (of_nat (length rs) + 1) = Inl (outcome, repaired, detail)"
  shows "scan_journal bytes options = (scanned rs (length bytes))\<lparr>js_outcome := outcome, js_repaired_bytes := repaired,
    js_valid_bytes := of_nat (length (journal_file epoch created rs)), js_detail := detail\<rparr>"
  unfolding scan_journal_records [OF assms(1-3)] using assms(3-5) by (subst scan_loop.simps) auto

lemma numbered_nth: "numbered n rs \<Longrightarrow> i < length rs \<Longrightarrow> jr_sequence (rs ! i) = of_nat (n + i)"
proof (induction rs arbitrary: n i)
  case (Cons r rs)
  then show ?case by (cases i) auto
qed simp

text \<open>Beyond the configured number of records a load gives up.\<close>

lemma scan_too_many:
  assumes ok: "journal_ok options rs" and many: "ps_max_records_per_load options < length rs"
    and bytes: "bytes = journal_file epoch created rs @ rest"
  shows "js_outcome (scan_journal bytes options) = LO_bounds_exceeded"
proof -
  let ?n = "ps_max_records_per_load options"
  have split: "rs = take ?n rs @ rs ! ?n # drop (Suc ?n) rs" using many by (rule id_take_nth_drop)
  let ?r = "rs ! ?n" and ?before = "take ?n rs"
  let ?cursor = "length (journal_file epoch created ?before)"
  have before: "journal_ok options ?before" using ok split by (metis journal_ok_appendI)
  have whole: "bytes = journal_file epoch created ?before @ bytes_of_record ?r @ written (drop (Suc ?n) rs) @ rest"
    unfolding bytes journal_file_def by (subst split) simp
  have "scan_journal bytes options = scan_loop options bytes ?cursor (of_nat ?n + 1) (scanned ?before (length bytes))"
    using scan_journal_records [OF before _ whole] many by simp
  moreover have "scan_record options bytes ?cursor (of_nat ?n + 1) = Inr (?r, ?cursor + length (bytes_of_record ?r))"
    using journal_ok_scan(1) [OF ok] many whole numbered_nth [of 1 rs ?n] ok
    by (intro scan_record_whole) (auto simp: list_all_length journal_ok_def add.commute)
  moreover have "?cursor < length bytes" by (simp add: whole kRecordHeaderBytes_def)
  ultimately show ?thesis using many by (subst (asm) scan_loop.simps) (simp add: scanned_def Let_def journal_scan_default_def)
qed

section \<open>The store holds a list of records\<close>

definition store_holds :: "u64 \<Rightarrow> u64 \<Rightarrow> journal_record list \<Rightarrow> persistence_store \<Rightarrow> bool" where
  "store_holds epoch created rs st = (sto_open st \<and> sto_journal st = Some (journal_file epoch created rs) \<and>
     sto_bytes st = of_nat (length (journal_file epoch created rs)) \<and> sto_last_sequence st = of_nat (length rs) \<and>
     journal_ok (sto_options st) rs)"

text \<open>The record an append writes.\<close>

fun appended :: "disk_host \<Rightarrow> record_kind \<times> string \<Rightarrow> persistence_store \<Rightarrow> journal_record" where
  "appended disk (kind, payload) st = \<lparr>jr_kind = kind, jr_sequence = sto_last_sequence st + 1, jr_at_nanos = dh_now disk,
     jr_payload = payload, jr_stored_crc = crc32c payload\<rparr>"

lemma journal_ok_length: "journal_ok options rs \<Longrightarrow> length (journal_file epoch created rs) < 2 ^ 63"
  by (simp add: journal_ok_def length_journal_file)

lemma journal_ok_small: "journal_ok options rs \<Longrightarrow> unat (of_nat (length (journal_file epoch created rs)) :: u64) = length (journal_file epoch created rs)"
  using journal_ok_length [of options rs epoch created] by (simp add: unat_of_nat)

lemma load_scan:
  assumes "sto_journal st = Some bytes" "length bytes \<le> ps_max_journal_bytes (sto_options st)"
    and "take kJournalHeaderBytes bytes = journal_header_bytes epoch created"
  shows "store_load st = (let scan = scan_journal bytes (sto_options st) in
    \<lparr>ds_outcome = js_outcome scan, ds_runtime_epoch = epoch, ds_last_sequence = js_last_sequence scan,
     ds_created_at_nanos = created, ds_records = js_records scan, ds_repaired_bytes = js_repaired_bytes scan,
     ds_bytes_read = js_bytes_read scan, ds_detail = js_detail scan\<rparr>)"
  using assms by (simp add: store_load_def read_whole_file_def Let_def durable_state_default_def)

lemma load_whole:
  assumes "sto_journal st = Some (journal_file epoch created rs)" "journal_ok (sto_options st) rs"
    and "length rs \<le> ps_max_records_per_load (sto_options st)"
  shows "store_load st = \<lparr>ds_outcome = (if rs = [] then LO_empty else LO_ok), ds_runtime_epoch = epoch,
    ds_last_sequence = of_nat (length rs), ds_created_at_nanos = created, ds_records = rs, ds_repaired_bytes = 0,
    ds_bytes_read = of_nat (length (journal_file epoch created rs)), ds_detail = []\<rparr>"
  using load_scan [OF assms(1), of epoch created] scan_whole_file [OF assms(2,3), of _ epoch created] assms(2)
  by (simp add: Let_def journal_ok_def length_journal_file scanned_def journal_scan_default_def)
    (simp add: journal_file_def)

lemma load_too_many:
  assumes "sto_journal st = Some (journal_file epoch created rs @ rest)" "journal_ok (sto_options st) rs"
    and "length (journal_file epoch created rs @ rest) \<le> ps_max_journal_bytes (sto_options st)"
    and "ps_max_records_per_load (sto_options st) < length rs"
  shows "ds_outcome (store_load st) = LO_bounds_exceeded"
  using load_scan [OF assms(1,3), of epoch created] scan_too_many [OF assms(2,4) refl, of epoch created rest]
  by (simp add: Let_def) (simp add: journal_file_def)

lemma reopen_too_many:
  assumes "sto_journal st = Some (journal_file epoch created rs @ rest)" "journal_ok (sto_options st) rs"
    and "length (journal_file epoch created rs @ rest) \<le> ps_max_journal_bytes (sto_options st)"
    and "ps_max_records_per_load (sto_options st) < length rs"
  shows "\<exists>e. store_existing disk st = (st, Inl e)"
  using load_too_many [OF assms] by (simp add: store_existing_def Let_def trustworthy_def)

lemma load_torn:
  assumes journal: "sto_journal st = Some (journal_file epoch created rs @ take k (bytes_of_record r))"
    and ok: "journal_ok (sto_options st) (rs @ [r])" "length rs \<le> ps_max_records_per_load (sto_options st)"
    and k: "0 < k" "k < length (bytes_of_record r)"
  shows "\<exists>detail. store_load st = \<lparr>ds_outcome = LO_torn_tail_repaired, ds_runtime_epoch = epoch,
    ds_last_sequence = of_nat (length rs), ds_created_at_nanos = created, ds_records = rs, ds_repaired_bytes = of_nat k,
    ds_bytes_read = of_nat (length (journal_file epoch created rs) + k), ds_detail = detail\<rparr>"
proof -
  let ?bytes = "journal_file epoch created rs @ take k (bytes_of_record r)"
  have fits: "record_fits (sto_options st) r" using journal_ok_scan(1) [OF ok(1)] by simp
  obtain detail where torn: "scan_record (sto_options st) ?bytes (length (journal_file epoch created rs)) (of_nat (length rs) + 1) =
      Inl (LO_torn_tail_repaired, of_nat k, detail)"
    using scan_record_torn [OF fits k(2)] by blast
  have size: "length ?bytes = length (journal_file epoch created rs) + k" using k by simp
  have "length ?bytes \<le> ps_max_journal_bytes (sto_options st)"
    using ok(1) k by (simp add: journal_ok_def length_journal_file)
  moreover have "take kJournalHeaderBytes ?bytes = journal_header_bytes epoch created" by (simp add: journal_file_def)
  ultimately have load: "store_load st = (let scan = scan_journal ?bytes (sto_options st) in
    \<lparr>ds_outcome = js_outcome scan, ds_runtime_epoch = epoch, ds_last_sequence = js_last_sequence scan,
     ds_created_at_nanos = created, ds_records = js_records scan, ds_repaired_bytes = js_repaired_bytes scan,
     ds_bytes_read = js_bytes_read scan, ds_detail = js_detail scan\<rparr>)"
    using load_scan [OF journal] by blast
  have "take k (bytes_of_record r) \<noteq> []" using k by (metis length_0_conv length_take less_not_refl min.absorb4)
  from scan_stops [OF journal_ok_appendI [OF ok(1)] ok(2) refl this torn]
  show ?thesis unfolding load Let_def size by (simp add: scanned_def journal_scan_default_def)
qed

section \<open>Append\<close>

lemma overlay_end: "overlay (length text) bytes text = text @ bytes"
  by (simp add: overlay_def)

lemma append_outcome:
  fixes kind payload disk st
  defines "r \<equiv> appended disk (kind, payload) st"
  assumes holds: "store_holds epoch created rs st" and append: "store_append disk kind payload st = (st', res)"
  shows "(\<exists>e. res = Inl e \<and> st' = st) \<or>
    (\<exists>e k. res = Inl e \<and> journal_ok (sto_options st) (rs @ [r]) \<and>
       st' = st\<lparr>sto_journal := Some (journal_file epoch created rs @ take k (bytes_of_record r))\<rparr>) \<or>
    (res = Inr (jr_sequence r) \<and> store_holds epoch created (rs @ [r]) st' \<and> sto_options st' = sto_options st)"
proof (cases "length payload > ps_max_record_bytes (sto_options st) \<or>
    unat (sto_bytes st + of_nat (length payload) + of_nat kRecordHeaderBytes) > ps_max_journal_bytes (sto_options st)")
  case True
  with append holds have "st' = st \<and> (\<exists>e. res = Inl e)"
    by (simp add: store_append_def store_holds_def split: if_splits) blast+
  then show ?thesis by blast
next
  case False
  let ?len = "length (journal_file epoch created rs)"
  note ok = holds [unfolded store_holds_def]
  have small: "?len < 2 ^ 63" "length payload < 2 ^ 32"
    using ok False by (auto simp: journal_ok_def length_journal_file kMaxBlobBytes_def)
  then have "unat (sto_bytes st + of_nat (length payload) + of_nat kRecordHeaderBytes :: u64) = ?len + length payload + 40"
    using ok by (simp add: kRecordHeaderBytes_def unat_word_ariths unat_of_nat)
  with False have room: "?len + length payload + 40 \<le> ps_max_journal_bytes (sto_options st)" by simp
  have fits: "journal_ok (sto_options st) (rs @ [r])"
    using ok room False by (simp add: journal_ok_def r_def payload_fits_def length_journal_file kRecordHeaderBytes_def)
  have bytes: "record_bytes kind (sto_last_sequence st + 1) (dh_now disk) payload = bytes_of_record r"
    by (simp add: r_def bytes_of_record_def)
  have at: "overlay (unat (of_nat ?len :: u64)) b (journal_file epoch created rs) = journal_file epoch created rs @ b" for b
    using small by (simp add: overlay_end unat_of_nat)
  define st1 where "st1 = st\<lparr>sto_journal := Some (journal_file epoch created rs @ take (dh_taken disk) (bytes_of_record r))\<rparr>"
  have wrote: "write_at disk (sto_bytes st) (bytes_of_record r) st =
      (if \<not> dh_seek disk then (st, Inl (Status SC_persistence_io ''journal seek failed''))
       else if dh_taken disk < length (bytes_of_record r) then (st1, Inl (Status SC_persistence_io ''journal write failed''))
       else (st1, Inr ()))"
    using ok by (simp add: write_at_def Let_def at st1_def)
  have cases: "(st', res) = (if \<not> dh_seek disk then (st, Inl (Status SC_persistence_io ''journal seek failed''))
      else if dh_taken disk < length (bytes_of_record r) then (st1, Inl (Status SC_persistence_io ''journal write failed''))
      else if ps_durable_appends (sto_options st) \<and> \<not> dh_flush disk then (st1, Inl (Status SC_persistence_io ''journal flush failed''))
      else (st1\<lparr>sto_bytes := sto_bytes st + of_nat (length (bytes_of_record r)), sto_last_sequence := sto_last_sequence st + 1,
        sto_appends := sto_appends st + 1\<rparr>, Inr (sto_last_sequence st + 1)))"
    unfolding append [symmetric] store_append_def Let_def bytes wrote using False ok by (simp add: flush_journal_def)
  have complete: "store_holds epoch created (rs @ [r]) (st1\<lparr>sto_bytes := sto_bytes st + of_nat (length (bytes_of_record r)),
      sto_last_sequence := sto_last_sequence st + 1, sto_appends := n\<rparr>)" if "length (bytes_of_record r) \<le> dh_taken disk" for n
    using that ok fits by (simp add: store_holds_def st1_def journal_file_snoc)
  consider e where "res = Inl e" "st' = st" | e where "res = Inl e" "st' = st1"
    | "length (bytes_of_record r) \<le> dh_taken disk" "res = Inr (sto_last_sequence st + 1)"
      "st' = st1\<lparr>sto_bytes := sto_bytes st + of_nat (length (bytes_of_record r)),
        sto_last_sequence := sto_last_sequence st + 1, sto_appends := sto_appends st + 1\<rparr>"
    using cases by (simp only: prod.inject not_less split: if_splits)
  then show ?thesis
  proof cases
    case 2
    then show ?thesis using fits unfolding st1_def by blast
  next
    case 3
    then show ?thesis using complete by (simp add: r_def st1_def)
  qed blast
qed

section \<open>Reopening\<close>

lemma reopen_whole:
  assumes opened: "sto_open st" and journal: "sto_journal st = Some (journal_file epoch created rs)"
    and ok: "journal_ok (sto_options st) rs"
  shows "length rs \<le> ps_max_records_per_load (sto_options st) \<Longrightarrow>
      \<exists>st'. store_existing disk st = (st', Inr ()) \<and> store_holds epoch created rs st'"
    "ps_max_records_per_load (sto_options st) < length rs \<Longrightarrow> \<exists>e. store_existing disk st = (st, Inl e)"
proof -
  assume "length rs \<le> ps_max_records_per_load (sto_options st)"
  from load_whole [OF journal ok this] show "\<exists>st'. store_existing disk st = (st', Inr ()) \<and> store_holds epoch created rs st'"
    using assms by (simp add: store_existing_def Let_def trustworthy_def store_holds_def)
next
  assume "ps_max_records_per_load (sto_options st) < length rs"
  with reopen_too_many [of st epoch created rs "[]"] journal ok show "\<exists>e. store_existing disk st = (st, Inl e)"
    by (simp add: journal_ok_def length_journal_file)
qed

lemma reopen_torn:
  assumes opened: "sto_open st" and journal: "sto_journal st = Some (journal_file epoch created rs @ take k (bytes_of_record r))"
    and ok: "journal_ok (sto_options st) (rs @ [r])" "length rs \<le> ps_max_records_per_load (sto_options st)"
    and k: "0 < k" "k < length (bytes_of_record r)"
  shows "dh_seek disk \<Longrightarrow> dh_truncate disk \<Longrightarrow> dh_flush disk \<Longrightarrow>
      \<exists>st'. store_existing disk st = (st', Inr ()) \<and> store_holds epoch created rs st'"
    "store_existing disk st = (st', Inr ()) \<Longrightarrow> store_holds epoch created rs st'"
proof -
  let ?len = "length (journal_file epoch created rs)"
  note ok' = journal_ok_appendI [OF ok(1)]
  obtain detail where load: "store_load st = \<lparr>ds_outcome = LO_torn_tail_repaired, ds_runtime_epoch = epoch,
      ds_last_sequence = of_nat (length rs), ds_created_at_nanos = created, ds_records = rs, ds_repaired_bytes = of_nat k,
      ds_bytes_read = of_nat (?len + k), ds_detail = detail\<rparr>"
    using load_torn [OF journal ok k] by blast
  define st1 where "st1 = st\<lparr>sto_journal := Some (journal_file epoch created rs)\<rparr>"
  have truncated: "truncate_to disk (of_nat ?len) st = (if \<not> dh_seek disk then (st, Inl (Status SC_persistence_io ''journal seek failed during truncation''))
      else if \<not> dh_truncate disk then (st, Inl (Status SC_persistence_io ''journal truncation failed'')) else (st1, Inr ()))"
    using journal journal_ok_small [OF ok'] by (simp add: truncate_to_def st1_def)
  have valid: "of_nat kJournalHeaderBytes + (of_nat (?len + k) - of_nat k - of_nat kJournalHeaderBytes) = (of_nat ?len :: u64)"
    by simp
  have whole: "store_holds epoch created rs (st1\<lparr>sto_last_sequence := of_nat (length rs), sto_epoch := epoch,
      sto_created_nanos := created, sto_bytes := of_nat ?len\<rparr>)"
    using opened ok' by (simp add: store_holds_def st1_def)
  show "dh_seek disk \<Longrightarrow> dh_truncate disk \<Longrightarrow> dh_flush disk \<Longrightarrow>
      \<exists>st'. store_existing disk st = (st', Inr ()) \<and> store_holds epoch created rs st'"
    and "store_existing disk st = (st', Inr ()) \<Longrightarrow> store_holds epoch created rs st'"
    using whole unfolding store_existing_def load Let_def durable_state.simps valid truncated
    by (auto simp: trustworthy_def flush_journal_def split: if_splits)
qed

text \<open>What a failed append leaves: the old records, the new one as well, or a part of it.\<close>

lemma failed_append_journal:
  assumes holds: "store_holds epoch created rs st" and append: "store_append disk kind payload st = (st1, Inl e)"
  obtains (whole) ss where "ss = rs \<or> ss = rs @ [appended disk (kind, payload) st]" "sto_open st1"
      "sto_journal st1 = Some (journal_file epoch created ss)" "journal_ok (sto_options st1) ss" "sto_options st1 = sto_options st"
    | (torn) k where "sto_open st1" "0 < k" "k < length (bytes_of_record (appended disk (kind, payload) st))"
      "sto_journal st1 = Some (journal_file epoch created rs @ take k (bytes_of_record (appended disk (kind, payload) st)))"
      "journal_ok (sto_options st1) (rs @ [appended disk (kind, payload) st])" "sto_options st1 = sto_options st"
proof -
  let ?r = "appended disk (kind, payload) st"
  note st = holds [unfolded store_holds_def]
  from append_outcome [OF holds append] consider "st1 = st"
    | k where "journal_ok (sto_options st) (rs @ [?r])"
      "st1 = st\<lparr>sto_journal := Some (journal_file epoch created rs @ take k (bytes_of_record ?r))\<rparr>"
    by blast
  then show thesis
  proof cases
    case 1
    with st whole [of rs] show thesis by simp
  next
    case (2 k)
    consider "k = 0" | "length (bytes_of_record ?r) \<le> k" | "0 < k" "k < length (bytes_of_record ?r)" by linarith
    then show thesis
    proof cases
      case 1
      with 2 st whole [of rs] show thesis by simp
    next
      case two: 2
      with 2 st whole [of "rs @ [?r]"] show thesis by (simp add: journal_file_snoc)
    next
      case 3
      with 2 st torn [of k] show thesis by simp
    qed
  qed
qed

lemma reopen_after_append:
  assumes holds: "store_holds epoch created rs st" and append: "store_append disk kind payload st = (st1, Inl e)"
    and reopen: "store_existing disk2 st1 = (st2, Inr ())"
  shows "store_holds epoch created rs st2 \<or> store_holds epoch created (rs @ [appended disk (kind, payload) st]) st2"
  using holds append
proof (cases rule: failed_append_journal)
  case (whole ss)
  have "store_holds epoch created ss st2"
    using reopen_whole [OF whole(2-4), of disk2] reopen by (cases "length ss \<le> ps_max_records_per_load (sto_options st1)") auto
  with whole(1) show ?thesis by blast
next
  case (torn k)
  have room: "length (journal_file epoch created rs @ take k (bytes_of_record (appended disk (kind, payload) st)))
      \<le> ps_max_journal_bytes (sto_options st1)"
    using torn by (simp add: journal_ok_def length_journal_file)
  have "length rs \<le> ps_max_records_per_load (sto_options st1)"
    using reopen_too_many [OF torn(4) journal_ok_appendI [OF torn(5)] room, of disk2] reopen by fastforce
  then show ?thesis using reopen_torn(2) [OF torn(1,4,5) _ torn(2,3) reopen] by blast
qed

text \<open>With a disk that works again, and room for the record, the opening succeeds.\<close>

definition disk_works :: "disk_host \<Rightarrow> bool" where
  "disk_works disk = (dh_seek disk \<and> dh_truncate disk \<and> dh_flush disk)"

lemma reopen_succeeds:
  assumes holds: "store_holds epoch created rs st" and append: "store_append disk kind payload st = (st1, Inl e)"
    and room: "length rs < ps_max_records_per_load (sto_options st)" and works: "disk_works disk2"
  shows "\<exists>st2. store_existing disk2 st1 = (st2, Inr ())"
  using holds append
proof (cases rule: failed_append_journal)
  case (whole ss)
  then have "length ss \<le> ps_max_records_per_load (sto_options st1)" using room by auto
  from reopen_whole(1) [OF whole(2-4) this] show ?thesis by blast
next
  case (torn k)
  then show ?thesis using reopen_torn(1) [OF torn(1,4,5) _ torn(2,3)] room works by (force simp: disk_works_def)
qed

section \<open>A log that survives crashes\<close>

text \<open>
  The contract of an append-only log: an acknowledged append adds its entry, a failed one followed by
  a reopening adds it or leaves the log as it was.
\<close>

locale durable_log =
  fixes holds :: "'r list \<Rightarrow> 's \<Rightarrow> bool" and put :: "'d \<Rightarrow> 'e \<Rightarrow> 's \<Rightarrow> 's \<times> 'a result"
    and reopen :: "'d \<Rightarrow> 's \<Rightarrow> 's \<times> unit result" and entry :: "'d \<Rightarrow> 'e \<Rightarrow> 's \<Rightarrow> 'r" and content :: "'r \<Rightarrow> 'e"
  assumes content_entry: "content (entry d e s) = e"
    and append_done: "holds rs s \<Longrightarrow> put d e s = (s', Inr a) \<Longrightarrow> holds (rs @ [entry d e s]) s'"
    and append_failed: "holds rs s \<Longrightarrow> put d e s = (s1, Inl f) \<Longrightarrow> reopen d2 s1 = (s2, Inr ()) \<Longrightarrow>
      holds rs s2 \<or> holds (rs @ [entry d e s]) s2"

text \<open>
  A run of appends in which a failed one is followed by a reopening: the entries that were
  acknowledged and the store at the end, or nothing when a reopening fails.
\<close>

fun run_log :: "('d \<Rightarrow> 'e \<Rightarrow> 's \<Rightarrow> 's \<times> 'a result) \<Rightarrow> ('d \<Rightarrow> 's \<Rightarrow> 's \<times> unit result) \<Rightarrow> ('d \<times> 'e \<times> 'd) list \<Rightarrow> 's \<Rightarrow>
  ('e list \<times> 's) option" where
  "run_log put reopen [] s = Some ([], s)"
| "run_log put reopen ((d, e, d2) # ops) s =
     (case put d e s of
        (s1, Inr _) \<Rightarrow> map_option (apfst ((#) e)) (run_log put reopen ops s1)
      | (s1, Inl _) \<Rightarrow> (case reopen d2 s1 of (s2, Inl _) \<Rightarrow> None | (s2, Inr _) \<Rightarrow> run_log put reopen ops s2))"

context durable_log
begin

lemma run_log_keeps:
  assumes "holds rs s" "run_log put reopen ops s = Some (acks, s')"
  shows "\<exists>ss. holds (rs @ ss) s' \<and> subseq acks (map content ss) \<and> subseq (map content ss) (map (\<lambda>(d, e, d2). e) ops)"
  using assms
proof (induction ops arbitrary: rs s acks)
  case Nil
  then show ?case by (intro exI [of _ "[]"]) simp
next
  case (Cons op ops)
  obtain d e d2 where op: "op = (d, e, d2)" by (cases op)
  obtain s1 res where put: "put d e s = (s1, res)" by force
  show ?case
  proof (cases res)
    case (Inr a)
    with Cons.prems(2) op put obtain acks' where acks: "acks = e # acks'" "run_log put reopen ops s1 = Some (acks', s')"
      by auto
    from Cons.IH [OF append_done [OF Cons.prems(1)] acks(2)] put Inr obtain ss where
      "holds ((rs @ [entry d e s]) @ ss) s'" "subseq acks' (map content ss)" "subseq (map content ss) (map (\<lambda>(d, e, d2). e) ops)"
      by blast
    then show ?thesis using acks(1) op content_entry by (intro exI [of _ "entry d e s # ss"]) simp
  next
    case (Inl f)
    obtain s2 u where reopen: "reopen d2 s1 = (s2, u)" by force
    with Cons.prems(2) op put Inl have u: "u = Inr ()" "run_log put reopen ops s2 = Some (acks, s')"
      by (auto split: sum.splits)
    from append_failed [OF Cons.prems(1)] put Inl reopen u(1)
    consider "holds rs s2" | "holds (rs @ [entry d e s]) s2" by blast
    then show ?thesis
    proof cases
      case 1
      from Cons.IH [OF this u(2)] op show ?thesis by auto
    next
      case 2
      from Cons.IH [OF this u(2)] obtain ss where "holds ((rs @ [entry d e s]) @ ss) s'" "subseq acks (map content ss)"
        "subseq (map content ss) (map (\<lambda>(d, e, d2). e) ops)" by blast
      then show ?thesis using op content_entry by (intro exI [of _ "entry d e s # ss"]) auto
    qed
  qed
qed

end

definition append_entry :: "disk_host \<Rightarrow> record_kind \<times> string \<Rightarrow> persistence_store \<Rightarrow> persistence_store \<times> u64 result" where
  "append_entry disk e st = store_append disk (fst e) (snd e) st"

definition record_entry :: "journal_record \<Rightarrow> record_kind \<times> string" where
  "record_entry r = (jr_kind r, jr_payload r)"

interpretation journal_log: durable_log "store_holds epoch created" append_entry store_existing appended record_entry
proof
  show "record_entry (appended d e s) = e" for d e s by (cases e) (simp add: record_entry_def)
  show "store_holds epoch created (rs @ [appended d e s]) s'"
    if "store_holds epoch created rs s" "append_entry d e s = (s', Inr a)" for rs s d e s' a
    using append_outcome [OF that(1), of d "fst e" "snd e" s' "Inr a"] that(2) by (simp add: append_entry_def)
  show "store_holds epoch created rs s2 \<or> store_holds epoch created (rs @ [appended d e s]) s2"
    if "store_holds epoch created rs s" "append_entry d e s = (s1, Inl f)" "store_existing d2 s1 = (s2, Inr ())"
    for rs s d e s1 f d2 s2
    using reopen_after_append [OF that(1), of d "fst e" "snd e" s1 f d2 s2] that(2,3) by (simp add: append_entry_def)
qed

section \<open>A new journal and a new epoch\<close>

definition options_ok :: "persistence_options \<Rightarrow> bool" where
  "options_ok options = (ps_max_record_bytes options \<le> kMaxBlobBytes \<and> ps_max_journal_bytes options < 2 ^ 63 \<and>
     kJournalHeaderBytes \<le> ps_max_journal_bytes options)"

lemma fresh_holds:
  assumes "store_fresh disk st = (st', Inr ())" "sto_journal st = Some []" "sto_open st" "options_ok (sto_options st)"
  shows "store_holds 0 (dh_now disk) [] st' \<and> sto_created_nanos st' = sto_created_nanos st \<and> sto_options st' = sto_options st"
  using assms by (auto simp: store_fresh_def write_at_def Let_def flush_journal_def store_holds_def overlay_def
      journal_file_def journal_ok_def options_ok_def split: if_splits)

lemma open_fresh_holds:
  assumes "store_open disk ln join create_directories open_failure journal snapshot options = Inr st"
    and "journal = None \<or> journal = Some []" "ps_max_journal_bytes options < 2 ^ 63"
    "kJournalHeaderBytes \<le> ps_max_journal_bytes options"
  shows "store_holds 0 (dh_now disk) [] st \<and> sto_created_nanos st = 0"
proof -
  let ?st = "store_new ln join journal snapshot options"
  have new: "sto_journal ?st = Some []" "sto_open ?st" "sto_created_nanos ?st = 0" "sto_options ?st =
      options\<lparr>ps_directory := normalize_path_string ln (ps_directory options), ps_name := normalize_path_string ln (ps_name options)\<rparr>"
    using assms(2) by (auto simp: store_new_def Let_def)
  have fresh: "store_fresh disk ?st = (st, Inr ())"
    using assms(1) by (simp add: store_open_def Let_def new(1) split: if_splits option.splits prod.splits sum.splits)
  have "ps_max_record_bytes options \<le> kMaxBlobBytes"
    using assms(1) by (simp add: store_open_def Let_def split: if_splits)
  then show ?thesis using fresh_holds [OF fresh new(1,2)] assms(3,4) new(3,4) by (simp add: options_ok_def)
qed

lemma overlay_header: "overlay 0 (journal_header_bytes epoch' created') (journal_file epoch created rs) = journal_file epoch' created' rs"
  by (simp add: overlay_def journal_file_def)

lemma epoch_holds:
  assumes holds: "store_holds epoch created rs st" and recorded: "record_epoch disk disk2 epoch' st = (st', Inr sequence)"
  shows "store_holds epoch' (sto_created_nanos st) (rs @ [appended disk (RK_epoch_advanced, enc_u64 epoch') st]) st'"
proof -
  let ?rs = "rs @ [appended disk (RK_epoch_advanced, enc_u64 epoch') st]"
  obtain st1 res where append: "store_append disk RK_epoch_advanced (enc_u64 epoch') st = (st1, res)" by force
  with recorded obtain s where res: "res = Inr s" by (cases res) (simp_all add: record_epoch_def)
  with append_outcome [OF holds append] have st1: "store_holds epoch created ?rs st1" by simp
  have created: "sto_created_nanos st1 = sto_created_nanos st"
    using append res by (simp add: store_append_def write_at_def Let_def split: if_splits prod.splits sum.splits) auto
  from recorded append res obtain st2 where st2: "update_header_epoch disk2 epoch' st1 = (st2, Inr ())" "st' = st2\<lparr>sto_epoch := epoch'\<rparr>"
    by (auto simp: record_epoch_def split: prod.splits sum.splits)
  then have "st2 = st1\<lparr>sto_journal := Some (journal_file epoch' (sto_created_nanos st) ?rs)\<rparr>"
    using st1 created by (auto simp: update_header_epoch_def write_at_def Let_def flush_journal_def store_holds_def overlay_header
        split: if_splits)
  with st1 st2(2) show ?thesis by (simp add: store_holds_def length_journal_file)
qed

section \<open>Damage\<close>

lemma load_stops:
  assumes journal: "sto_journal st = Some bytes" "bytes = journal_file epoch created rs @ rest" "rest \<noteq> []"
    and size: "length bytes \<le> ps_max_journal_bytes (sto_options st)"
    and ok: "journal_ok (sto_options st) rs" "length rs \<le> ps_max_records_per_load (sto_options st)"
    and stop: "scan_record (sto_options st) bytes (length (journal_file epoch created rs)) (of_nat (length rs) + 1) =
      Inl (outcome, repaired, detail)"
  shows "ds_outcome (store_load st) = outcome \<and> ds_records (store_load st) = rs \<and> ds_repaired_bytes (store_load st) = repaired"
proof -
  have "take kJournalHeaderBytes bytes = journal_header_bytes epoch created" by (simp add: journal(2) journal_file_def)
  from load_scan [OF journal(1) size this] scan_stops [OF ok journal(2,3) stop]
  show ?thesis by (simp add: Let_def scanned_def journal_scan_default_def)
qed

lemma load_changed_byte:
  assumes ok: "journal_ok (sto_options st) (rs @ r # ss)" "length rs \<le> ps_max_records_per_load (sto_options st)"
    and i: "i < length (bytes_of_record r)" "i \<notin> {36..39}" and c: "c \<noteq> bytes_of_record r ! i"
    and journal: "sto_journal st = Some ((journal_file epoch created (rs @ r # ss))[length (journal_file epoch created rs) + i := c])"
  shows "ds_outcome (store_load st) \<in> {LO_corrupt, LO_schema_mismatch} \<and> ds_records (store_load st) = rs"
proof -
  let ?bytes = "journal_file epoch created rs @ (bytes_of_record r)[i := c] @ written ss"
  have "(journal_file epoch created (rs @ r # ss))[length (journal_file epoch created rs) + i := c] = ?bytes"
    using i(1) by (simp add: journal_file_def list_update_append)
  with journal have bytes: "sto_journal st = Some ?bytes" by (simp only:)
  have fits: "record_fits (sto_options st) r" using journal_ok_scan(1) [OF ok(1)] by simp
  obtain outcome detail where "scan_record (sto_options st) ?bytes (length (journal_file epoch created rs)) (of_nat (length rs) + 1) =
      Inl (outcome, 0, detail)" "outcome \<in> {LO_corrupt, LO_schema_mismatch}"
    using scan_record_changed_byte [OF fits i c refl] by blast
  moreover have "(bytes_of_record r)[i := c] @ written ss \<noteq> []"
    using i(1) by (metis append_is_Nil_conv length_list_update list.size(3) not_less_zero)
  moreover have "length ?bytes \<le> ps_max_journal_bytes (sto_options st)"
    using ok(1) by (simp add: journal_ok_def length_journal_file)
  ultimately show ?thesis
    using load_stops [OF bytes refl _ _ journal_ok_appendI [OF ok(1)] ok(2)] by simp
qed

lemma load_bad_magic:
  assumes "sto_journal st = Some (journal_file epoch created rs @ rest)" "kRecordHeaderBytes \<le> length rest"
    and "get_u32 0 rest \<noteq> kRecordMagic" "length (journal_file epoch created rs @ rest) \<le> ps_max_journal_bytes (sto_options st)"
    and "journal_ok (sto_options st) rs" "length rs \<le> ps_max_records_per_load (sto_options st)"
  shows "ds_outcome (store_load st) = LO_corrupt"
proof -
  have "\<exists>detail. scan_record (sto_options st) (journal_file epoch created rs @ rest) (length (journal_file epoch created rs))
      (of_nat (length rs) + 1) = Inl (LO_corrupt, 0, detail)"
    using assms(2,3) by (simp add: scan_record_def Let_def)
  moreover have "rest \<noteq> []" using assms(2) by (auto simp: kRecordHeaderBytes_def)
  ultimately show ?thesis using load_stops [OF assms(1) refl _ assms(4-6)] by blast
qed

section \<open>Snapshot file\<close>

lemma snapshot_round_trip_file:
  assumes "length payload \<le> ps_max_record_bytes (sto_options st)" "ps_max_record_bytes (sto_options st) \<le> kMaxBlobBytes"
    and "sto_snapshot st = Some (snapshot_file payload sequence)"
  shows "read_snapshot st = Inr (Some payload)"
proof -
  have "unat (of_nat (length payload) :: u32) = length payload"
    using assms(1,2) by (simp add: unat_of_nat kMaxBlobBytes_def)
  then show ?thesis
    using assms by (simp add: read_snapshot_def read_whole_file_def snapshot_file_def snapshot_front_def Let_def get_defs
        kSnapshotHeaderBytes_def)
qed

section \<open>What a partial write can leave behind\<close>

definition disk_takes :: "disk_host \<Rightarrow> string \<Rightarrow> bool" where
  "disk_takes disk bytes = (dh_seek disk \<and> dh_flush disk \<and> length bytes \<le> dh_taken disk)"

lemma write_all: "disk_takes disk bytes \<Longrightarrow> sto_journal st = Some text \<Longrightarrow>
    write_at disk offset bytes st = (st\<lparr>sto_journal := Some (overlay (unat offset) bytes text)\<rparr>, Inr ())"
  by (simp add: write_at_def disk_takes_def Let_def)

text \<open>An append that the disk takes whole, wherever the store believes the journal to end.\<close>

lemma append_at:
  fixes disk kind payload st
  defines "r \<equiv> appended disk (kind, payload) st"
  assumes "sto_open st" "sto_journal st = Some text" "disk_takes disk (bytes_of_record r)"
    and "length payload \<le> ps_max_record_bytes (sto_options st)" "unat (sto_bytes st) + length payload + 40 \<le> ps_max_journal_bytes (sto_options st)"
    and "ps_max_journal_bytes (sto_options st) < 2 ^ 63"
  shows "store_append disk kind payload st = (st\<lparr>sto_journal := Some (overlay (unat (sto_bytes st)) (bytes_of_record r) text),
      sto_bytes := sto_bytes st + of_nat (length (bytes_of_record r)), sto_last_sequence := sto_last_sequence st + 1,
      sto_appends := sto_appends st + 1\<rparr>, Inr (sto_last_sequence st + 1))"
proof -
  have bytes: "record_bytes kind (sto_last_sequence st + 1) (dh_now disk) payload = bytes_of_record r"
    by (simp add: r_def bytes_of_record_def)
  have "unat (sto_bytes st + of_nat (length payload) + of_nat kRecordHeaderBytes :: u64) = unat (sto_bytes st) + length payload + 40"
    using assms(6,7) by (simp add: kRecordHeaderBytes_def unat_word_ariths unat_of_nat)
  then show ?thesis
    unfolding store_append_def Let_def bytes using assms(2,3,5,6) write_all [OF assms(4,3)] assms(4)
    by (simp add: flush_journal_def disk_takes_def)
qed

lemma append_succeeds:
  fixes disk kind payload st
  defines "r \<equiv> appended disk (kind, payload) st"
  assumes holds: "store_holds epoch created rs st" and "disk_takes disk (bytes_of_record r)"
    and "length payload \<le> ps_max_record_bytes (sto_options st)"
    and "length (journal_file epoch created rs) + length payload + 40 \<le> ps_max_journal_bytes (sto_options st)"
  shows "\<exists>st'. store_append disk kind payload st = (st', Inr (jr_sequence r)) \<and> store_holds epoch created (rs @ [r]) st' \<and>
    sto_options st' = sto_options st"
proof -
  note st = holds [unfolded store_holds_def]
  have "unat (sto_bytes st) = length (journal_file epoch created rs)"
    using st journal_ok_small [of "sto_options st" rs] by simp
  then obtain st' res where "store_append disk kind payload st = (st', res)" "res = Inr (jr_sequence r)"
    using append_at [of st "journal_file epoch created rs" disk kind payload] st assms(3-5)
    by (auto simp: journal_ok_def r_def)
  with append_outcome [OF holds] show ?thesis unfolding r_def by blast
qed

lemma epoch_succeeds:
  assumes holds: "store_holds epoch created rs st" and works: "dh_seek disk" "dh_flush disk" "48 \<le> dh_taken disk"
    and room: "8 \<le> ps_max_record_bytes (sto_options st)" "length (journal_file epoch created rs) + 48 \<le> ps_max_journal_bytes (sto_options st)"
  shows "\<exists>st' q. record_epoch disk disk epoch' st = (st', Inr q) \<and> sto_options st' = sto_options st"
proof -
  let ?r = "appended disk (RK_epoch_advanced, enc_u64 epoch') st"
  have "disk_takes disk (bytes_of_record ?r)" using works by (simp add: disk_takes_def kRecordHeaderBytes_def)
  from append_succeeds [OF holds this] room obtain st1 where st1:
    "store_append disk RK_epoch_advanced (enc_u64 epoch') st = (st1, Inr (jr_sequence ?r))"
    "store_holds epoch created (rs @ [?r]) st1" "sto_options st1 = sto_options st" by auto
  have "disk_takes disk (journal_header_bytes epoch' (sto_created_nanos st1))"
    using works by (simp add: disk_takes_def kJournalHeaderBytes_def)
  with st1(2) works have "\<exists>st2. update_header_epoch disk epoch' st1 = (st2, Inr ()) \<and> sto_options st2 = sto_options st1"
    using write_all by (simp add: update_header_epoch_def flush_journal_def store_holds_def)
  with st1 show ?thesis by (auto simp: record_epoch_def)
qed

lemma stale_tail:
  assumes holds: "store_holds epoch created rs st" and room: "length (journal_file epoch created rs) + 240 \<le> ps_max_journal_bytes (sto_options st)"
      "200 \<le> ps_max_record_bytes (sto_options st)" "length rs < ps_max_records_per_load (sto_options st)"
    and partial: "dh_seek disk" "dh_taken disk = 200" and works: "disk_takes disk2 (bytes_of_record (appended disk2 (kind, []) st))"
  shows "\<exists>st1 e st2 sequence. store_append disk kind (replicate 200 CHR 0x00) st = (st1, Inl e) \<and>
    store_append disk2 kind [] st1 = (st2, Inr sequence) \<and> ds_outcome (store_load st2) = LO_corrupt"
proof -
  let ?r1 = "appended disk (kind, replicate 200 CHR 0x00) st" and ?r2 = "appended disk2 (kind, []) st"
  let ?text = "journal_file epoch created rs"
  note st = holds [unfolded store_holds_def]
  have at: "unat (sto_bytes st) = length ?text" using st journal_ok_small [of "sto_options st" rs] by simp
  define st1 where "st1 = st\<lparr>sto_journal := Some (?text @ take 200 (bytes_of_record ?r1))\<rparr>"
  have "unat (sto_bytes st + of_nat 200 + of_nat kRecordHeaderBytes :: u64) = length ?text + 240"
    using at room(1) st by (simp add: kRecordHeaderBytes_def unat_word_ariths journal_ok_def)
  then have first: "\<exists>e. store_append disk kind (replicate 200 CHR 0x00) st = (st1, Inl e)"
    unfolding store_append_def Let_def using st room partial at
    by (simp add: write_at_def Let_def st1_def overlay_end bytes_of_record_def record_bytes_def)
  have left: "drop 40 (take 200 (bytes_of_record ?r1)) = replicate 160 CHR 0x00"
    by (simp add: bytes_of_record_def record_bytes_def Let_def drop_take)
  define st2 where "st2 = st1\<lparr>sto_journal := Some (journal_file epoch created (rs @ [?r2]) @ replicate 160 CHR 0x00),
      sto_bytes := sto_bytes st + of_nat (length (bytes_of_record ?r2)), sto_last_sequence := sto_last_sequence st + 1,
      sto_appends := sto_appends st + 1\<rparr>"
  have same: "appended disk2 (kind, []) st1 = ?r2" by (simp add: st1_def)
  have "overlay (length ?text) (bytes_of_record ?r2) (?text @ take 200 (bytes_of_record ?r1)) =
      journal_file epoch created (rs @ [?r2]) @ replicate 160 CHR 0x00"
    using left by (simp add: overlay_def journal_file_snoc kRecordHeaderBytes_def)
  then have second: "store_append disk2 kind [] st1 = (st2, Inr (sto_last_sequence st + 1))"
    using append_at [of st1 "?text @ take 200 (bytes_of_record ?r1)" disk2 kind "[]"] works st room at unfolding same
    by (simp add: st1_def st2_def journal_ok_def)
  have "journal_ok (sto_options st2) (rs @ [?r2])"
    using st room(1) by (simp add: st1_def st2_def journal_ok_def payload_fits_def length_journal_file kRecordHeaderBytes_def)
  moreover have "get_u32 0 (replicate 160 CHR 0x00) \<noteq> kRecordMagic" by code_simp
  ultimately have "ds_outcome (store_load st2) = LO_corrupt"
    using room by (intro load_bad_magic [of _ epoch created "rs @ [?r2]" "replicate 160 CHR 0x00"])
      (simp_all add: st1_def st2_def kRecordHeaderBytes_def length_journal_file)
  with first second show ?thesis by blast
qed

text \<open>A journal that ends inside its own header is taken for an empty one, and appends go inside the header.\<close>

lemma short_journal_opens:
  assumes "sto_journal st = Some bytes" "length bytes < kJournalHeaderBytes" "length bytes \<le> ps_max_journal_bytes (sto_options st)"
  shows "store_existing disk st = (st\<lparr>sto_last_sequence := 0, sto_epoch := 0, sto_created_nanos := 0,
    sto_bytes := of_nat (length bytes)\<rparr>, Inr ())"
  using assms by (simp add: store_existing_def store_load_def read_whole_file_def scan_journal_def valid_journal_header_def Let_def
      durable_state_default_def journal_scan_default_def trustworthy_def)

lemma short_journal_lost:
  assumes st: "sto_open st" "sto_journal st = Some bytes" "length bytes = 8"
    and room: "8 \<le> ps_max_record_bytes (sto_options st)" "length payload \<le> ps_max_record_bytes (sto_options st)"
      "96 + length payload \<le> ps_max_journal_bytes (sto_options st)" "ps_max_journal_bytes (sto_options st) < 2 ^ 63"
      "ps_max_record_bytes (sto_options st) \<le> kMaxBlobBytes"
    and works: "dh_seek disk" "dh_flush disk" "48 + length payload \<le> dh_taken disk"
  shows "\<exists>st1 st2 st3. store_existing disk st = (st1, Inr ()) \<and> record_epoch disk disk 1 st1 = (st2, Inr 1) \<and>
    store_append disk kind payload st2 = (st3, Inr 2) \<and> ds_outcome (store_load st3) = LO_corrupt"
proof -
  define st1 where "st1 = st\<lparr>sto_last_sequence := 0, sto_epoch := 0, sto_created_nanos := 0, sto_bytes := 8\<rparr>"
  let ?e = "appended disk (RK_epoch_advanced, enc_u64 1) st1"
  have opened: "store_existing disk st = (st1, Inr ())"
    using short_journal_opens [OF st(2)] st(3) room by (simp add: st1_def kJournalHeaderBytes_def)
  have size: "length (bytes_of_record ?e) = 48" by (simp add: kRecordHeaderBytes_def)
  define st1a where "st1a = st1\<lparr>sto_journal := Some (bytes @ bytes_of_record ?e), sto_bytes := 56, sto_last_sequence := 1,
    sto_appends := sto_appends st1 + 1\<rparr>"
  have st1: "sto_open st1" "sto_journal st1 = Some bytes" "sto_bytes st1 = 8" "sto_last_sequence st1 = 0"
      "sto_options st1 = sto_options st" "sto_created_nanos st1 = 0"
    by (simp_all add: st1_def st)
  have at: "overlay (unat (8 :: u64)) b bytes = bytes @ b" for b using overlay_end [of bytes] st(3) by simp
  have "disk_takes disk (bytes_of_record ?e)" unfolding disk_takes_def size using works by simp
  then have "store_append disk RK_epoch_advanced (enc_u64 1) st1 = (st1\<lparr>sto_journal := Some (overlay (unat (sto_bytes st1)) (bytes_of_record ?e) bytes),
      sto_bytes := sto_bytes st1 + of_nat (length (bytes_of_record ?e)), sto_last_sequence := sto_last_sequence st1 + 1,
      sto_appends := sto_appends st1 + 1\<rparr>, Inr (sto_last_sequence st1 + 1))"
    using room by (intro append_at st1(1,2)) (simp_all add: st1)
  then have epoch_appended: "store_append disk RK_epoch_advanced (enc_u64 1) st1 = (st1a, Inr 1)"
    unfolding size st1(3,4) at st1a_def by simp
  have tail: "drop 40 (bytes_of_record ?e) = enc_u64 1"
    using record_fields(9) [of ?e "[]"] by (simp add: kRecordHeaderBytes_def)
  then have "overlay 0 (journal_header_bytes 1 0) (bytes @ bytes_of_record ?e) = journal_file 1 0 [] @ enc_u64 1"
    using st(3) by (simp add: overlay_def kJournalHeaderBytes_def journal_file_def)
  moreover have "disk_takes disk (journal_header_bytes 1 0)"
    using works by (simp add: disk_takes_def kJournalHeaderBytes_def)
  ultimately have header: "update_header_epoch disk 1 st1a = (st1a\<lparr>sto_journal := Some (journal_file 1 0 [] @ enc_u64 1)\<rparr>, Inr ())"
    using works write_all [of disk "journal_header_bytes 1 0" st1a]
    by (simp add: update_header_epoch_def flush_journal_def st1a_def st1)
  define st2 where "st2 = st1a\<lparr>sto_journal := Some (journal_file 1 0 [] @ enc_u64 1), sto_epoch := 1\<rparr>"
  have recorded: "record_epoch disk disk 1 st1 = (st2, Inr 1)"
    by (simp add: record_epoch_def epoch_appended header st2_def)
  let ?r = "appended disk (kind, payload) st2"
  define st3 where "st3 = st2\<lparr>sto_journal := Some (journal_file 1 0 [] @ enc_u64 1 @ bytes_of_record ?r),
    sto_bytes := 56 + of_nat (length (bytes_of_record ?r)), sto_last_sequence := 2, sto_appends := sto_appends st2 + 1\<rparr>"
  have st2: "sto_open st2" "sto_journal st2 = Some (journal_file 1 0 [] @ enc_u64 1)" "sto_bytes st2 = 56" "sto_last_sequence st2 = 1"
      "sto_options st2 = sto_options st"
    by (simp_all add: st1 st1a_def st2_def)
  have at56: "overlay (unat (56 :: u64)) b (journal_file 1 0 [] @ enc_u64 1) = journal_file 1 0 [] @ enc_u64 1 @ b" for b
    using overlay_end [of "journal_file 1 0 [] @ enc_u64 1"] by (simp add: length_journal_file kJournalHeaderBytes_def)
  have "disk_takes disk (bytes_of_record ?r)" using works by (simp add: disk_takes_def kRecordHeaderBytes_def)
  then have "store_append disk kind payload st2 = (st2\<lparr>sto_journal := Some (overlay (unat (sto_bytes st2)) (bytes_of_record ?r) (journal_file 1 0 [] @ enc_u64 1)),
      sto_bytes := sto_bytes st2 + of_nat (length (bytes_of_record ?r)), sto_last_sequence := sto_last_sequence st2 + 1,
      sto_appends := sto_appends st2 + 1\<rparr>, Inr (sto_last_sequence st2 + 1))"
    using room by (intro append_at st2(1,2)) (simp_all add: st2)
  then have second: "store_append disk kind payload st2 = (st3, Inr 2)"
    unfolding st2(3,4) at56 st3_def by simp
  have "get_u32 0 (enc_u64 1 @ bytes_of_record ?r) = get_u32 0 (enc_u64 1)" by (simp add: get_defs)
  moreover have "get_u32 0 (enc_u64 1) \<noteq> kRecordMagic" by code_simp
  ultimately have "ds_outcome (store_load st3) = LO_corrupt"
    using room by (intro load_bad_magic [of _ 1 0 "[]" "enc_u64 1 @ bytes_of_record ?r"])
      (simp_all add: st2 st3_def kRecordHeaderBytes_def length_journal_file kJournalHeaderBytes_def journal_ok_def)
  with opened recorded second show ?thesis by blast
qed

text \<open>The header is rewritten in place: a part of the new one with the rest of the old one is no header.\<close>

lemma torn_epoch:
  "valid_journal_header (take 17 (journal_header_bytes 1 created') @ drop 17 (journal_header_bytes 0 created)) = None"
proof -
  let ?front = "kJournalMagic @ enc_u16 kPersistenceSchemaVersion @ enc_u16 0 @ enc_u32 0 @ enc_u64 0 @ enc_u64 created"
  have bytes: "take (Suc 0) (enc_u64 1) = [CHR 0x01]" "(enc_u64 0)[0 := CHR 0x01] = CHR 0x01 # drop (Suc 0) (enc_u64 0)"
    "enc_u64 0 ! 0 \<noteq> CHR 0x01" by code_simp+
  have split: "take 17 (journal_header_bytes 1 created') @ drop 17 (journal_header_bytes 0 created) =
      ?front[16 := CHR 0x01] @ enc_u32 (crc32c ?front) @ enc_u32 0 @ enc_u32 0 @ enc_u32 0"
    by (simp add: journal_header_bytes_def Let_def list_update_append bytes)
  have "crc32c (?front[16 := CHR 0x01]) \<noteq> crc32c ?front"
    using bytes(3) by (intro crc32c_update) (simp_all add: nth_append)
  then show ?thesis
    unfolding split by (simp add: valid_journal_header_def get_defs)
qed

lemma torn_epoch_lost:
  assumes holds: "store_holds 0 created rs st" and room: "length (journal_file 0 created rs) + 48 \<le> ps_max_journal_bytes (sto_options st)"
      "8 \<le> ps_max_record_bytes (sto_options st)"
    and works: "dh_seek disk" "dh_flush disk" "48 \<le> dh_taken disk" and torn: "dh_seek disk2" "dh_taken disk2 = 17"
  shows "\<exists>st' e. record_epoch disk disk2 1 st = (st', Inl e) \<and> ds_outcome (store_load st') = LO_corrupt"
proof -
  note st = holds [unfolded store_holds_def]
  let ?r = "appended disk (RK_epoch_advanced, enc_u64 1) st" and ?text = "journal_file 0 created rs"
  have at: "unat (sto_bytes st) = length ?text" using st journal_ok_small [of "sto_options st" rs] by simp
  define st1 where "st1 = st\<lparr>sto_journal := Some (?text @ bytes_of_record ?r), sto_bytes := sto_bytes st + of_nat (length (bytes_of_record ?r)),
    sto_last_sequence := sto_last_sequence st + 1, sto_appends := sto_appends st + 1\<rparr>"
  have first: "store_append disk RK_epoch_advanced (enc_u64 1) st = (st1, Inr (sto_last_sequence st + 1))"
    using append_at [of st ?text disk RK_epoch_advanced "enc_u64 1"] st room works at
    by (simp add: disk_takes_def kRecordHeaderBytes_def journal_ok_def st1_def overlay_end)
  define header where "header = take 17 (journal_header_bytes 1 (sto_created_nanos st)) @ drop 17 (journal_header_bytes 0 created)"
  define st2 where "st2 = st1\<lparr>sto_journal := Some (header @ written rs @ bytes_of_record ?r)\<rparr>"
  have "overlay 0 (take 17 (journal_header_bytes 1 (sto_created_nanos st))) (?text @ bytes_of_record ?r) =
      header @ written rs @ bytes_of_record ?r"
    by (simp add: overlay_def journal_file_def header_def kJournalHeaderBytes_def min_def)
  then have second: "\<exists>e. update_header_epoch disk2 1 st1 = (st2, Inl e)"
    using torn by (simp add: update_header_epoch_def write_at_def Let_def st1_def st2_def kJournalHeaderBytes_def)
  have front: "take kJournalHeaderBytes (header @ written rs @ bytes_of_record ?r) = header"
    by (simp add: header_def kJournalHeaderBytes_def)
  have "ds_outcome (store_load st2) = LO_corrupt"
    using room front torn_epoch [of "sto_created_nanos st" created, folded header_def]
    by (simp add: store_load_def read_whole_file_def scan_journal_def Let_def st2_def st1_def durable_state_default_def
        length_journal_file header_def kJournalHeaderBytes_def kRecordHeaderBytes_def min_def)
  with first second show ?thesis by (auto simp: record_epoch_def)
qed

section \<open>Claims\<close>

definition sample_store :: persistence_store where
  "sample_store = \<lparr>sto_options = persistence_options_default, sto_journal_path = [], sto_snapshot_path = [], sto_snapshot_temp = [],
     sto_open = True, sto_last_sequence = 0, sto_bytes = 48, sto_created_nanos = 0, sto_epoch = 0, sto_appends = 0,
     sto_journal = Some (journal_file 0 5 []), sto_snapshot = None\<rparr>"

definition sample_disk :: "nat \<Rightarrow> disk_host" where
  "sample_disk n = \<lparr>dh_now = 7, dh_seek = True, dh_taken = n, dh_flush = True, dh_truncate = True, dh_create = True, dh_replace = True\<rparr>"

lemma sample_store_holds: "store_holds 0 5 [] sample_store"
  by (simp add: store_holds_def sample_store_def length_journal_file kJournalHeaderBytes_def journal_ok_def
      persistence_options_default_def kMaxBlobBytes_def)

lemma sample_store_fields: "sto_options sample_store = persistence_options_default" "sto_open sample_store"
  "length (journal_file 0 5 []) = 48"
  by (simp_all add: sample_store_def length_journal_file kJournalHeaderBytes_def)

lemma sample_append_torn: "\<exists>st1 e. store_append (sample_disk 10) RK_session_created ''x'' sample_store = (st1, Inl e)"
proof -
  have "\<exists>e. snd (store_append (sample_disk 10) RK_session_created ''x'' sample_store) = Inl e"
    by (simp add: store_append_def sample_store_def sample_disk_def write_at_def Let_def persistence_options_default_def
        kRecordHeaderBytes_def record_bytes_def)
  then show ?thesis by (metis prod.collapse)
qed

lemma torn_run:
  "\<exists>acks st'. run_log append_entry store_existing
     [(sample_disk 10, (RK_session_created, ''x''), sample_disk 100), (sample_disk 100, (RK_phase_committed, ''y''), sample_disk 100)]
     sample_store = Some (acks, st')"
proof -
  obtain st1 e where first: "store_append (sample_disk 10) RK_session_created ''x'' sample_store = (st1, Inl e)"
    using sample_append_torn by blast
  have works: "disk_works (sample_disk 100)" by (simp add: disk_works_def sample_disk_def)
  obtain st2 where st2: "store_existing (sample_disk 100) st1 = (st2, Inr ())"
    using reopen_succeeds [OF sample_store_holds first _ works] by (auto simp: sample_store_fields persistence_options_default_def)
  from reopen_after_append [OF sample_store_holds first st2] obtain rs where rs: "store_holds 0 5 rs st2" "length rs \<le> 1" by force
  obtain st3 res where third: "store_append (sample_disk 100) RK_phase_committed ''y'' st2 = (st3, res)" by force
  show ?thesis
  proof (cases res)
    case (Inr q)
    then show ?thesis using first st2 third by (simp add: append_entry_def)
  next
    case (Inl f)
    from first have "sto_options st1 = persistence_options_default"
      by (auto elim!: failed_append_journal [OF sample_store_holds] simp: sample_store_fields)
    then have "sto_options st2 = persistence_options_default"
      using st2 by (auto simp: store_existing_def Let_def truncate_to_def split: if_splits sum.splits prod.splits)
    with rs(2) obtain st4 where "store_existing (sample_disk 100) st3 = (st4, Inr ())"
      using reopen_succeeds [OF rs(1) _ _ works, of "sample_disk 100" RK_phase_committed "''y''" st3 f] third Inl
      by (auto simp: persistence_options_default_def)
    then show ?thesis using first st2 third Inl by (simp add: append_entry_def)
  qed
qed

text \<open>C14: Over any run of appends in which a failed append, however much of it reached the disk, is
  followed by a reopening, the journal refines an append-only log: every acknowledged record is there
  in order, nothing is there that was not appended, and a load returns exactly these records.\<close>

theorem journal_survives_crashes:
  assumes "store_holds epoch created rs st" "run_log append_entry store_existing ops st = Some (acks, st')"
  shows "\<exists>ss. store_holds epoch created (rs @ ss) st' \<and> subseq acks (map record_entry ss) \<and>
    subseq (map record_entry ss) (map (\<lambda>(disk, entry, disk2). entry) ops) \<and>
    (length (rs @ ss) \<le> ps_max_records_per_load (sto_options st') \<longrightarrow>
      trustworthy (store_load st') \<and> ds_records (store_load st') = rs @ ss)"
proof -
  obtain ss where ss: "store_holds epoch created (rs @ ss) st'" "subseq acks (map record_entry ss)"
    "subseq (map record_entry ss) (map (\<lambda>(disk, entry, disk2). entry) ops)"
    using journal_log.run_log_keeps [OF assms] by blast
  then have "length (rs @ ss) \<le> ps_max_records_per_load (sto_options st') \<longrightarrow>
      trustworthy (store_load st') \<and> ds_records (store_load st') = rs @ ss"
    using load_whole [of st' epoch created "rs @ ss"] by (auto simp: store_holds_def trustworthy_def)
  with ss show ?thesis by blast
qed

theorem journal_survives_crashes_witness:
  "\<exists>acks st' ss. run_log append_entry store_existing
     [(sample_disk 10, (RK_session_created, ''x''), sample_disk 100), (sample_disk 100, (RK_phase_committed, ''y''), sample_disk 100)]
     sample_store = Some (acks, st') \<and> store_holds 0 5 ss st' \<and> subseq acks (map record_entry ss) \<and>
     subseq (map record_entry ss) [(RK_session_created, ''x''), (RK_phase_committed, ''y'')]"
  using torn_run journal_survives_crashes [OF sample_store_holds] by fastforce

text \<open>After a failed append, whatever part of the record the disk took, a disk that works again lets
  the store open, with the records it had or with the new one as well.\<close>

lemma failed_append_is_recoverable:
  assumes "store_holds epoch created rs st" "store_append disk kind payload st = (st1, Inl e)"
    and "length rs < ps_max_records_per_load (sto_options st)" "disk_works disk2"
  shows "\<exists>st2. store_existing disk2 st1 = (st2, Inr ()) \<and>
    (store_holds epoch created rs st2 \<or> store_holds epoch created (rs @ [appended disk (kind, payload) st]) st2)"
  using reopen_succeeds [OF assms] reopen_after_append [OF assms(1,2)] by blast

text \<open>C16: A journal in which one byte of a record differs from what was written, the four reserved
  bytes of the record header apart, is never trusted: a load stops before the record and the store
  does not open.\<close>

theorem damaged_record_is_refused:
  assumes "journal_ok (sto_options st) (rs @ r # ss)" "length rs \<le> ps_max_records_per_load (sto_options st)"
    and "i < length (bytes_of_record r)" "i \<notin> {36..39}" "c \<noteq> bytes_of_record r ! i"
    and "sto_journal st = Some ((journal_file epoch created (rs @ r # ss))[length (journal_file epoch created rs) + i := c])"
  shows "\<not> trustworthy (store_load st) \<and> ds_records (store_load st) = rs \<and> (\<exists>e. store_existing disk st = (st, Inl e))"
  using load_changed_byte [OF assms] by (auto simp: trustworthy_def store_existing_def Let_def)

definition sample_record :: journal_record where
  "sample_record = \<lparr>jr_kind = RK_session_created, jr_sequence = 1, jr_at_nanos = 7, jr_payload = ''x'', jr_stored_crc = crc32c ''x''\<rparr>"

definition damaged_store :: persistence_store where
  "damaged_store = sample_store\<lparr>sto_journal := Some ((journal_file 0 5 [sample_record])[88 := CHR ''y''])\<rparr>"

theorem damaged_record_is_refused_witness:
  "\<not> trustworthy (store_load damaged_store) \<and> ds_records (store_load damaged_store) = [] \<and>
   (\<exists>e. store_existing (sample_disk 100) damaged_store = (damaged_store, Inl e))"
proof (rule damaged_record_is_refused [of _ "[]" sample_record "[]" 40 "CHR ''y''" 0 5, unfolded append_Nil])
  show "journal_ok (sto_options damaged_store) [sample_record]"
    by (simp add: journal_ok_def payload_fits_def damaged_store_def sample_store_def sample_record_def persistence_options_default_def
        kMaxBlobBytes_def kJournalHeaderBytes_def kRecordHeaderBytes_def)
  show "CHR ''y'' \<noteq> bytes_of_record sample_record ! 40"
    by (simp add: bytes_of_record_def record_bytes_def sample_record_def Let_def nth_append)
qed (simp_all add: damaged_store_def sample_store_def sample_record_def persistence_options_default_def kRecordHeaderBytes_def
    length_journal_file kJournalHeaderBytes_def)



end
