(* ===== verification/Runtime_Store.thy ===== *)
theory Runtime_Store
  imports Runtime_Session Journal_Recovery
begin

text \<open>
  \<open>src/core/runtime.cpp\<close>, the durable side of the runtime: the bundle a session is stored as, the
  append behind \<open>Impl::persist\<close>, \<open>Runtime::create\<close> with the replay of the journal, and the snapshot.

  A file system answer, the disk of each write and the built-in adapters are parameters. A creation
  that fails yields no runtime; what the destructor of the half-built one writes is not modelled.
\<close>

section \<open>Session bundles\<close>

record authority_bundle =
  ab_toolchains :: toolchain_registry
  ab_targets :: target_registry
  ab_environments :: environment_registry
  ab_policies :: policy_registry
  ab_sources :: source_registry
  ab_provenance :: provenance_log

definition kMaxEntityBytes :: nat where "kMaxEntityBytes = 8388608"

text \<open>An entity that is not registered is written as the empty text.\<close>

definition enc_found :: "('a \<Rightarrow> string) \<Rightarrow> 'a option \<Rightarrow> string" where
  "enc_found enc found = enc_text (case found of None \<Rightarrow> [] | Some x \<Rightarrow> enc x)"

definition owned_artifacts :: "compiler_session \<Rightarrow> artifact_registry \<Rightarrow> intermediate_artifact list" where
  "owned_artifacts s artifacts =
     sort_key ia_id (List.map_filter (\<lambda>reference. artifact_find (ref_id reference) artifacts) (cs_intermediates s))"

definition session_diagnostics :: "compiler_session \<Rightarrow> diagnostic_store \<Rightarrow> diagnostic_set list" where
  "session_diagnostics s diagnostics =
     List.map_filter (\<lambda>i. case find_phase i s of
         None \<Rightarrow> None
       | Some p \<Rightarrow> if id_present (ref_id (pr_diagnostics p)) then diagnostics_find (ref_id (pr_diagnostics p)) diagnostics
                   else None)
       (pp_order (cs_plan s))"

text \<open>\<open>std::unique\<close> on identities.\<close>

fun unique_provenance :: "provenance_record list \<Rightarrow> provenance_record list" where
  "unique_provenance (a # b # vs) =
     (if pv_id a = pv_id b then unique_provenance (a # vs) else a # unique_provenance (b # vs))"
| "unique_provenance vs = vs"

definition cited_provenance :: "intermediate_artifact list \<Rightarrow> provenance_log \<Rightarrow> provenance_record list" where
  "cited_provenance owned log =
     unique_provenance (sort_key pv_id (List.map_filter (\<lambda>a.
       if id_present (ia_provenance a) then provenance_find (ia_provenance a) log else None) owned))"

definition encode_session_bundle ::
  "compiler_session \<Rightarrow> artifact_registry \<Rightarrow> diagnostic_store \<Rightarrow> authority_bundle \<Rightarrow> string" where
  "encode_session_bundle s artifacts diagnostics ab =
     (let owned = owned_artifacts s artifacts in
      enc_text (encode_session s) @
      enc_found encode_toolchain (toolchain_find (ref_id (cs_toolchain s)) (ab_toolchains ab)) @
      enc_found encode_target_identity (target_find (ref_id (cs_target s)) (ab_targets ab)) @
      enc_found encode_environment_identity (environment_find (ref_id (cs_environment s)) (ab_environments ab)) @
      enc_found encode_policy_identity (policy_find (ref_id (cs_policy s)) (ab_policies ab)) @
      enc_seq (\<lambda>reference. enc_found encode_source_unit (source_find (ref_id reference) (ab_sources ab))) (cs_sources s) @
      enc_seq (\<lambda>a. enc_text (encode_artifact a)) owned @
      enc_seq (\<lambda>d. enc_text (encode_diagnostic_set d)) (sort_key dx_id (session_diagnostics s diagnostics)) @
      enc_seq (\<lambda>v. enc_text (encode_provenance v)) (cited_provenance owned (ab_provenance ab)))"

record session_bundle =
  bd_session :: compiler_session
  bd_artifacts :: "intermediate_artifact list"
  bd_diagnostics :: "diagnostic_set list"
  bd_toolchain :: string
  bd_target :: string
  bd_environment :: string
  bd_policy :: string
  bd_sources :: "string list"
  bd_provenance :: "string list"

text \<open>A read that fails ends the decoding with the given message.\<close>

definition or_corrupt :: "string \<Rightarrow> 'a option \<Rightarrow> 'a result" where
  "or_corrupt message found =
     (case found of None \<Rightarrow> Inl (Status SC_persistence_corrupt message) | Some x \<Rightarrow> Inr x)"

fun read_entities :: "string \<Rightarrow> (string \<Rightarrow> 'a result) \<Rightarrow> nat \<Rightarrow> string \<Rightarrow> ('a list \<times> string) result" where
  "read_entities message decode 0 bytes = Inr ([], bytes)"
| "read_entities message decode (Suc n) bytes =
     crf_try (or_corrupt message (dec_text kMaxEntityBytes bytes)) (\<lambda>(entity, bytes).
     crf_try (decode entity) (\<lambda>x.
     crf_try (read_entities message decode n bytes) (\<lambda>(xs, bytes). Inr (x # xs, bytes))))"

definition read_section ::
  "string \<Rightarrow> string \<Rightarrow> nat \<Rightarrow> (string \<Rightarrow> 'a result) \<Rightarrow> string \<Rightarrow> ('a list \<times> string) result" where
  "read_section invalid truncated bound decode bytes =
     crf_try (or_corrupt invalid (dec_collection bound bytes)) (\<lambda>(n, bytes). read_entities truncated decode n bytes)"

definition decode_bundle_authority :: "string \<Rightarrow> ((string \<times> string \<times> string \<times> string) \<times> string) result" where
  "decode_bundle_authority bytes =
     or_corrupt ''session bundle authority section is truncated''
       (do { (toolchain, bytes) \<leftarrow> dec_text kMaxEntityBytes bytes; (target, bytes) \<leftarrow> dec_text kMaxEntityBytes bytes;
             (environment, bytes) \<leftarrow> dec_text kMaxEntityBytes bytes; (policy, bytes) \<leftarrow> dec_text kMaxEntityBytes bytes;
             Some ((toolchain, target, environment, policy), bytes) })"

definition decode_session_bundle :: "string \<Rightarrow> session_bundle result" where
  "decode_session_bundle bytes =
     crf_try (or_corrupt ''session bundle is truncated'' (dec_text kMaxEntityBytes bytes)) (\<lambda>(session_bytes, bytes).
     crf_try (decode_session session_bytes) (\<lambda>session.
     crf_try (decode_bundle_authority bytes) (\<lambda>((toolchain, target, environment, policy), bytes).
     crf_try (read_section ''session bundle source count is invalid'' ''session bundle source is truncated''
       kMaxSources Inr bytes) (\<lambda>(sources, bytes).
     crf_try (read_section ''session bundle artifact count is invalid'' ''session bundle artifact is truncated''
       kMaxArtifacts decode_artifact bytes) (\<lambda>(artifacts, bytes).
     crf_try (read_section ''session bundle diagnostic count is invalid'' ''session bundle diagnostic set is truncated''
       kMaxSets decode_diagnostic_set bytes) (\<lambda>(diagnostics, bytes).
     crf_try (read_section ''session bundle provenance count is invalid'' ''session bundle provenance is truncated''
       kMaxProvenanceRecords Inr bytes) (\<lambda>(provenance, bytes).
     if bytes \<noteq> [] then Inl (Status SC_persistence_corrupt ''session bundle has trailing bytes'')
     else Inr \<lparr>bd_session = session, bd_artifacts = artifacts, bd_diagnostics = diagnostics, bd_toolchain = toolchain,
       bd_target = target, bd_environment = environment, bd_policy = policy, bd_sources = sources,
       bd_provenance = provenance\<rparr>)))))))"

section \<open>Persisting a session\<close>

definition authority_of :: "runtime \<Rightarrow> authority_bundle" where
  "authority_of r = \<lparr>ab_toolchains = rt_toolchains r, ab_targets = rt_targets r, ab_environments = rt_environments r,
     ab_policies = rt_policies r, ab_sources = rt_sources r, ab_provenance = rt_provenance r\<rparr>"

definition session_payload :: "compiler_session \<Rightarrow> runtime \<Rightarrow> string" where
  "session_payload s r = encode_session_bundle s (rt_artifacts r) (rt_diagnostics r) (authority_of r)"

text \<open>\<open>Impl::persist\<close> on the store itself; the runtime's \<open>persist\<close> with the store's answer.\<close>

definition store_persist ::
  "disk_host \<Rightarrow> compiler_session \<Rightarrow> runtime \<Rightarrow> persistence_store \<Rightarrow> persistence_store \<times> unit result" where
  "store_persist disk s r st =
     (case store_append disk RK_session_state_changed (session_payload s r) st of
        (st', Inl e) \<Rightarrow> (st', Inl e) | (st', Inr _) \<Rightarrow> (st', Inr ()))"

definition answering :: "'a result \<Rightarrow> runtime_host \<Rightarrow> runtime_host" where
  "answering answer host = host\<lparr>rh_append := \<lambda>_. (case answer of Inl e \<Rightarrow> Some e | Inr _ \<Rightarrow> None)\<rparr>"

definition persist_in ::
  "runtime_host \<Rightarrow> disk_host \<Rightarrow> compiler_session \<Rightarrow> runtime \<times> persistence_store \<Rightarrow>
   (runtime \<times> persistence_store) \<times> unit result" where
  "persist_in host disk s rs =
     (case rs of (r, st) \<Rightarrow>
       case store_persist disk s r st of (st1, answer) \<Rightarrow>
       case persist (answering answer host) s r of (r1, answer1) \<Rightarrow> ((r1, st1), answer1))"

section \<open>Replay\<close>

definition carries_session :: "journal_record \<Rightarrow> bool" where
  "carries_session r = (jr_kind r = RK_session_state_changed \<or> jr_kind r = RK_session_created \<or>
     jr_kind r = RK_phase_committed \<or> jr_kind r = RK_session_retired)"

text \<open>The last bundle of each session, and how many records could not be decoded.\<close>

definition replay_record ::
  "(u64, session_bundle) umap \<times> nat \<Rightarrow> journal_record \<Rightarrow> (u64, session_bundle) umap \<times> nat" where
  "replay_record acc r =
     (case acc of (latest, defects) \<Rightarrow>
       if \<not> carries_session r then (latest, defects)
       else case decode_session_bundle (jr_payload r) of
         Inl _ \<Rightarrow> (latest, defects + 1)
       | Inr bundle \<Rightarrow> (um_set (id_value (cs_id (bd_session bundle))) bundle latest, defects))"

definition replay_records :: "journal_record list \<Rightarrow> (u64, session_bundle) umap \<times> nat" where
  "replay_records rs = foldl replay_record ([], 0) rs"

definition only_status :: "runtime \<times> 'a result \<Rightarrow> runtime \<times> unit result" where
  "only_status m = rt_try m (\<lambda>r _. (r, Inr ()))"

definition restore_text ::
  "(string \<Rightarrow> 'a result) \<Rightarrow> ('a \<Rightarrow> runtime \<Rightarrow> runtime \<times> unit result) \<Rightarrow> string \<Rightarrow> runtime \<Rightarrow> runtime \<times> unit result" where
  "restore_text decode register text r =
     (if text = [] then (r, Inr ())
      else case decode text of Inl e \<Rightarrow> (r, Inl e) | Inr x \<Rightarrow> register x r)"

fun restore_each :: "('a \<Rightarrow> runtime \<Rightarrow> runtime \<times> unit result) \<Rightarrow> 'a list \<Rightarrow> runtime \<Rightarrow> runtime \<times> unit result" where
  "restore_each restore [] r = (r, Inr ())"
| "restore_each restore (x # xs) r = rt_try (restore x r) (\<lambda>r _. restore_each restore xs r)"

definition restore_toolchain :: "toolchain_identity \<Rightarrow> runtime \<Rightarrow> runtime \<times> unit result" where
  "restore_toolchain t r =
     (case register_toolchain_as (ti_id t) t (rt_toolchains r) of (reg, res) \<Rightarrow> only_status (r\<lparr>rt_toolchains := reg\<rparr>, res))"

definition restore_target :: "target_identity \<Rightarrow> runtime \<Rightarrow> runtime \<times> unit result" where
  "restore_target x r =
     (case target_intern_as (ri_id x) (ri_spec x) (rt_targets r) of (reg, res) \<Rightarrow> only_status (r\<lparr>rt_targets := reg\<rparr>, res))"

definition restore_environment :: "(string \<Rightarrow> string) \<Rightarrow> environment_identity \<Rightarrow> runtime \<Rightarrow> runtime \<times> unit result" where
  "restore_environment ln x r =
     (case environment_intern_as ln (ri_id x) (ri_spec x) (rt_environments r) of
        (reg, res) \<Rightarrow> only_status (r\<lparr>rt_environments := reg\<rparr>, res))"

definition restore_policy :: "policy_identity \<Rightarrow> runtime \<Rightarrow> runtime \<times> unit result" where
  "restore_policy x r =
     (case policy_intern_as (ri_id x) (ri_spec x) (rt_policies r) of (reg, res) \<Rightarrow> only_status (r\<lparr>rt_policies := reg\<rparr>, res))"

definition restore_source :: "source_unit \<Rightarrow> runtime \<Rightarrow> runtime \<times> unit result" where
  "restore_source u r =
     (case source_add_as (su_id u) u (rt_sources r) of (reg, res) \<Rightarrow> only_status (r\<lparr>rt_sources := reg\<rparr>, res))"

definition restore_artifact :: "intermediate_artifact \<Rightarrow> runtime \<Rightarrow> runtime \<times> unit result" where
  "restore_artifact a r =
     (case register_artifact_as (ia_id a) a (rt_artifacts r) of (reg, res) \<Rightarrow> only_status (r\<lparr>rt_artifacts := reg\<rparr>, res))"

definition restore_provenance :: "provenance_record \<Rightarrow> runtime \<Rightarrow> runtime \<times> unit result" where
  "restore_provenance v r = (r\<lparr>rt_provenance := provenance_append_as v (rt_provenance r)\<rparr>, Inr ())"

definition restore_diagnostics :: "diagnostic_set \<Rightarrow> runtime \<Rightarrow> runtime \<times> unit result" where
  "restore_diagnostics d r =
     (case diagnostics_add_as (dx_id d) d (rt_diagnostics r) of (reg, res) \<Rightarrow> only_status (r\<lparr>rt_diagnostics := reg\<rparr>, res))"

text \<open>The authority a session was bound to and the entities it owns.\<close>

definition restore_bundle :: "stray_casts \<Rightarrow> (string \<Rightarrow> string) \<Rightarrow> session_bundle \<Rightarrow> runtime \<Rightarrow> runtime \<times> unit result" where
  "restore_bundle strays ln b r =
     rt_try (restore_text (decode_toolchain strays) restore_toolchain (bd_toolchain b) r) (\<lambda>r _.
     rt_try (restore_text (decode_target_identity strays) restore_target (bd_target b) r) (\<lambda>r _.
     rt_try (restore_text (decode_environment_identity strays) (restore_environment ln) (bd_environment b) r) (\<lambda>r _.
     rt_try (restore_text (decode_policy_identity strays) restore_policy (bd_policy b) r) (\<lambda>r _.
     rt_try (restore_each (restore_text (decode_source_unit strays) restore_source) (bd_sources b) r) (\<lambda>r _.
     rt_try (restore_each restore_artifact (bd_artifacts b) r) (\<lambda>r _.
     rt_try (restore_each (restore_text (decode_provenance strays) restore_provenance) (bd_provenance b) r) (\<lambda>r _.
     restore_each restore_diagnostics (bd_diagnostics b) r)))))))"

definition restarted_session :: "u64 \<Rightarrow> u64 \<Rightarrow> compiler_session \<Rightarrow> compiler_session" where
  "restarted_session now epoch s =
     (let s1 = s\<lparr>cs_epoch := StrongId epoch\<rparr>;
          s2 = (if cs_state s1 \<noteq> SS_committed \<and> cs_state s1 \<noteq> SS_retired
            then s1\<lparr>cs_state := SS_recovering, cs_recovery_state := RS_required\<rparr> else s1)
      in s2\<lparr>cs_generation := gen_next (cs_generation s2), cs_updated_at_nanos := now\<rparr>)"

definition replay_session ::
  "stray_casts \<Rightarrow> runtime_host \<Rightarrow> disk_host \<Rightarrow> session_bundle \<Rightarrow> runtime \<times> persistence_store \<Rightarrow>
   (runtime \<times> persistence_store) \<times> unit result" where
  "replay_session strays host disk b rs =
     (case rs of (r, st) \<Rightarrow>
       case restore_bundle strays (rh_normal host) b r of
         (r1, Inl e) \<Rightarrow> ((r1, st), Inl e)
       | (r1, Inr _) \<Rightarrow>
           case fence_all_in_flight host ''runtime restart fenced in-flight phase authority'' (bd_session b)
             (r1\<lparr>rt_session_ids := alloc_observe (cs_id (bd_session b)) (rt_session_ids r1)\<rparr>) of (r2, s2) \<Rightarrow>
           let s3 = restarted_session (rh_now host) (rt_epoch r2) s2; r3 = fst (cancel_flag (cs_id s3) r2) in
           case persist_in host disk s3 (r3, st) of
             ((r4, st4), Inl e) \<Rightarrow> ((r4, st4), Inl e)
           | ((r4, st4), Inr _) \<Rightarrow>
               ((r4\<lparr>rt_sessions := um_emplace (id_value (cs_id s3)) s3 (rt_sessions r4)\<rparr>, st4), Inr ()))"

fun replay_sessions ::
  "stray_casts \<Rightarrow> runtime_host \<Rightarrow> (nat \<Rightarrow> disk_host) \<Rightarrow> nat \<Rightarrow> session_bundle list \<Rightarrow> runtime \<times> persistence_store \<Rightarrow>
   (runtime \<times> persistence_store) \<times> unit result" where
  "replay_sessions strays host disks n [] rs = (rs, Inr ())"
| "replay_sessions strays host disks n (b # bs) rs =
     (case replay_session strays host (disks n) b rs of
        (rs, Inl e) \<Rightarrow> (rs, Inl e) | (rs, Inr _) \<Rightarrow> replay_sessions strays host disks (Suc n) bs rs)"

definition recover_on_load ::
  "stray_casts \<Rightarrow> runtime_host \<Rightarrow> (nat \<Rightarrow> disk_host) \<Rightarrow> journal_record list \<Rightarrow> runtime \<times> persistence_store \<Rightarrow>
   ((runtime \<times> persistence_store) \<times> unit result) \<times> nat" where
  "recover_on_load strays host disks records rs =
     (case replay_records records of (latest, defects) \<Rightarrow>
       let bundles = map snd (sort_key fst latest) in
       (case replay_sessions strays host disks 0 bundles rs of
          (rs, Inl e) \<Rightarrow> (rs, Inl e)
        | ((r, st), Inr _) \<Rightarrow>
            ((if bundles = [] then r
              else note_evidence host ''durable-state-recovered''
                (dec_string (length bundles) @ '' session(s) recovered at epoch '' @ dec_string (unat (rt_epoch r)))
                digest_default r, st), Inr ()), defects))"

section \<open>Creation\<close>

record runtime_options =
  ro_state_directory :: string
  ro_workspace_root :: string
  ro_runtime_name :: string
  ro_enable_persistence :: bool
  ro_ephemeral_state :: bool
  ro_recover_on_load :: bool
  ro_max_sessions :: nat
  ro_workspace_base :: string
  ro_persistence :: persistence_options
  ro_register_builtin_adapters :: bool

text \<open>Defaults for the directories, and every directory in canonical form.\<close>

definition resolve_options :: "host_paths \<Rightarrow> runtime_options \<Rightarrow> runtime_options" where
  "resolve_options hp ro =
     (let normal = (\<lambda>p. if p = [] then [] else normalize_path_string (hp_lexically_normal hp) p);
          root = (if ro_workspace_root ro = [] then hp_join hp (ro_state_directory ro) ''workspaces'' else ro_workspace_root ro);
          base = (if ro_workspace_base ro = [] then root else ro_workspace_base ro)
      in ro\<lparr>ro_state_directory := normalize_path_string (hp_lexically_normal hp) (ro_state_directory ro),
           ro_workspace_root := normalize_path_string (hp_lexically_normal hp) root, ro_workspace_base := normal base,
           ro_persistence := (ro_persistence ro)\<lparr>ps_directory := normal (ps_directory (ro_persistence ro))\<rparr>\<rparr>)"

text \<open>A new \<open>Impl\<close>: empty registries, and a process supervisor with its default options.\<close>

definition runtime_impl :: "runtime_options \<Rightarrow> runtime" where
  "runtime_impl ro = \<lparr>rt_runtime_name = ro_runtime_name ro, rt_max_sessions = ro_max_sessions ro,
     rt_ephemeral_state = ro_ephemeral_state ro, rt_epoch = 0, rt_persistent = False, rt_journal = [],
     rt_toolchains = toolchain_registry_init, rt_targets = registry_init, rt_environments = registry_init,
     rt_policies = registry_init, rt_sources = source_registry_init, rt_artifacts = artifact_registry_init,
     rt_diagnostics = diagnostic_store_init, rt_provenance = provenance_log_init, rt_leases = lease_table_init,
     rt_evidence = evidence_log_init, rt_adapters = [], rt_processes = supervisor_init supervisor_options_default,
     rt_workspaces = \<lparr>wm_base_directory = ro_workspace_base ro, wm_live = []\<rparr>, rt_sessions = [], rt_cancel_flags = [],
     rt_last_outcomes = [], rt_last_validation = [], rt_executor = None, rt_session_ids = allocator_init,
     rt_invocation_ids = allocator_init, rt_commit_ids = allocator_init, rt_phase_ids = allocator_init,
     rt_recovery_ids = allocator_init, rt_final_ids = allocator_init, rt_attempt_ids = allocator_init,
     rt_shutting_down = False, rt_commit_total = 0, rt_stale_commit_total = 0\<rparr>"

text \<open>The disk during a creation: the files found, the opening, the epoch and one append per session.\<close>

record creation_host =
  ch_runtime :: runtime_host
  ch_strays :: stray_casts
  ch_create_directories :: "string \<Rightarrow> string option"
  ch_open_failure :: "string \<Rightarrow> u32 option"
  ch_journal :: "string option"
  ch_snapshot :: "string option"
  ch_open_disk :: disk_host
  ch_epoch_disk :: disk_host
  ch_header_disk :: disk_host
  ch_session_disks :: "nat \<Rightarrow> disk_host"

definition store_options :: "runtime_options \<Rightarrow> persistence_options" where
  "store_options ro =
     (let po = ro_persistence ro in
      po\<lparr>ps_directory := (if ps_directory po = [] then ro_state_directory ro else ps_directory po),
         ps_name := (if ps_name po = [] then ro_runtime_name ro else ps_name po)\<rparr>)"

definition load_runtime ::
  "creation_host \<Rightarrow> runtime_options \<Rightarrow> runtime \<Rightarrow> (runtime \<times> persistence_store \<times> nat) result" where
  "load_runtime ch ro r =
     (let host = ch_runtime ch; hp = rh_paths host in
      crf_try (store_open (ch_open_disk ch) (hp_lexically_normal hp) (hp_join hp) (ch_create_directories ch)
        (ch_open_failure ch) (ch_journal ch) (ch_snapshot ch) (store_options ro)) (\<lambda>st.
      let previous = store_load st in
      if \<not> trustworthy previous
        then Inl (Status SC_persistence_corrupt (''existing durable state is not trustworthy: '' @ ds_detail previous))
      else
        let r1 = r\<lparr>rt_persistent := True, rt_epoch := ds_runtime_epoch previous + 1\<rparr> in
        (case record_epoch (ch_epoch_disk ch) (ch_header_disk ch) (rt_epoch r1) st of
           (st1, Inl e) \<Rightarrow> Inl e
         | (st1, Inr _) \<Rightarrow>
             if \<not> ro_recover_on_load ro then Inr (r1, st1, 0)
             else (case recover_on_load (ch_strays ch) host (ch_session_disks ch) (ds_records previous) (r1, st1) of
                     ((_, Inl e), _) \<Rightarrow> Inl e
                   | (((r2, st2), Inr _), defects) \<Rightarrow> Inr (r2, st2, defects)))))"

text \<open>The store is absent when persistence is disabled.\<close>

definition runtime_create ::
  "creation_host \<Rightarrow> compiler_adapter option list \<Rightarrow> phase_executor \<Rightarrow> runtime_options \<Rightarrow>
   (runtime \<times> persistence_store option \<times> nat) result" where
  "runtime_create ch builtin executor options =
     (if ro_state_directory options = [] then Inl (Status SC_invalid_argument ''state directory is not configured'')
      else
        let ro = resolve_options (rh_paths (ch_runtime ch)) options in
        case ch_create_directories ch (ro_state_directory ro) of
          Some message \<Rightarrow> Inl (Status SC_permission_denied (''state directory could not be created: '' @ message))
        | None \<Rightarrow>
            (case ch_create_directories ch (ro_workspace_base ro) of
               Some message \<Rightarrow> Inl (Status SC_permission_denied (''workspace root could not be created: '' @ message))
             | None \<Rightarrow>
                 crf_try (if ro_enable_persistence ro
                     then crf_try (load_runtime ch ro (runtime_impl ro)) (\<lambda>(r, st, defects). Inr (r, Some st, defects))
                     else Inr ((runtime_impl ro)\<lparr>rt_epoch := 1\<rparr>, None, 0)) (\<lambda>(r, st, defects).
                   Inr (r\<lparr>rt_adapters := (if ro_register_builtin_adapters ro
                       then foldl (\<lambda>reg a. adapter_add a reg) (rt_adapters r) builtin else rt_adapters r),
                     rt_executor := Some executor\<rparr>, st, defects))))"

section \<open>Snapshot\<close>

definition runtime_state_snapshot :: "runtime \<Rightarrow> persistence_store \<Rightarrow> state_snapshot" where
  "runtime_state_snapshot r st =
     (let sessions = map snd (sort_key fst (rt_sessions r)) in
      \<lparr>sn_schema_version = kPersistenceSchemaVersion, sn_runtime_epoch = rt_epoch r, sn_last_sequence = sto_last_sequence st,
       sn_encoded_sessions = map encode_session sessions,
       sn_encoded_artifacts = concat (map (\<lambda>s. List.map_filter (\<lambda>reference.
         map_option encode_artifact (artifact_find (ref_id reference) (rt_artifacts r))) (cs_intermediates s)) sessions),
       sn_encoded_diagnostics = concat (map (\<lambda>s. map encode_diagnostic_set (session_diagnostics s (rt_diagnostics r))) sessions)\<rparr>)"

definition runtime_snapshot ::
  "runtime_host \<Rightarrow> disk_host \<Rightarrow> runtime \<times> persistence_store option \<Rightarrow> (runtime \<times> persistence_store option) \<times> unit result" where
  "runtime_snapshot host disk rs =
     (case rs of
        (r, None) \<Rightarrow> ((r, None), Inl (Status SC_unsupported ''persistence is disabled for this runtime''))
      | (r, Some st) \<Rightarrow>
          let state = runtime_state_snapshot r st in
          (case write_snapshot disk (snapshot_encode state) (sn_last_sequence state) st of
             (st1, Inl e) \<Rightarrow> ((r, Some st1), Inl e)
           | (st1, Inr _) \<Rightarrow>
               ((note_evidence host ''snapshot-written'' (dec_string (length (sn_encoded_sessions state)) @ '' session(s)'')
                   digest_default r, Some st1), Inr ())))"

definition runtime_durable_state :: "persistence_store option \<Rightarrow> durable_state" where
  "runtime_durable_state st =
     (case st of
        None \<Rightarrow> durable_state_default\<lparr>ds_detail := ''persistence is disabled for this runtime''\<rparr>
      | Some st \<Rightarrow> store_load st)"

section \<open>A bundle is read back\<close>

definition entity_fits :: "string \<Rightarrow> bool" where
  "entity_fits text = (length text \<le> kMaxEntityBytes)"

lemma kMaxEntityBytes_lt: "kMaxEntityBytes < 2 ^ 32"
  by (simp add: kMaxEntityBytes_def)

lemma dec_entity [simp]: "entity_fits text \<Longrightarrow> dec_text kMaxEntityBytes (enc_text text @ rest) = Some (text, rest)"
  using kMaxEntityBytes_lt
  by (simp add: entity_fits_def enc_text_def dec_text_def c_u32.decode_encode reader_take_append unat_of_nat)

lemma or_corrupt_Some [simp]: "or_corrupt message (Some x) = Inr x"
  by (simp add: or_corrupt_def)

lemma read_entities_enc:
  assumes "list_all (\<lambda>x. entity_fits (text x) \<and> decode (text x) = Inr (back x)) xs"
  shows "read_entities message decode (length xs) (concat (map (\<lambda>x. enc_text (text x)) xs) @ rest) = Inr (map back xs, rest)"
  using assms by (induction xs) simp_all

lemma read_section_enc:
  assumes "list_all (\<lambda>x. entity_fits (text x) \<and> decode (text x) = Inr (back x)) xs" "length xs \<le> bound" "bound < 2 ^ 64"
  shows "read_section invalid truncated bound decode (enc_seq (\<lambda>x. enc_text (text x)) xs @ rest) = Inr (map back xs, rest)"
  using assms read_entities_enc [OF assms(1)]
  by (simp add: read_section_def enc_seq_def dec_collection_def c_u64.decode_encode unat_of_nat)

text \<open>The texts of a bundle, and when the decoder accepts them.\<close>

definition text_of :: "('a \<Rightarrow> string) \<Rightarrow> 'a option \<Rightarrow> string" where
  "text_of enc found = (case found of None \<Rightarrow> [] | Some x \<Rightarrow> enc x)"

definition stored_bundle :: "compiler_session \<Rightarrow> runtime \<Rightarrow> session_bundle" where
  "stored_bundle s r = \<lparr>bd_session = stored_session s, bd_artifacts = owned_artifacts s (rt_artifacts r),
     bd_diagnostics = sort_key dx_id (session_diagnostics s (rt_diagnostics r)),
     bd_toolchain = text_of encode_toolchain (toolchain_find (ref_id (cs_toolchain s)) (rt_toolchains r)),
     bd_target = text_of encode_target_identity (target_find (ref_id (cs_target s)) (rt_targets r)),
     bd_environment = text_of encode_environment_identity (environment_find (ref_id (cs_environment s)) (rt_environments r)),
     bd_policy = text_of encode_policy_identity (policy_find (ref_id (cs_policy s)) (rt_policies r)),
     bd_sources = map (\<lambda>reference. text_of encode_source_unit (source_find (ref_id reference) (rt_sources r))) (cs_sources s),
     bd_provenance = map encode_provenance (cited_provenance (owned_artifacts s (rt_artifacts r)) (rt_provenance r))\<rparr>"

definition bundle_fits :: "compiler_session \<Rightarrow> runtime \<Rightarrow> bool" where
  "bundle_fits s r = (let b = stored_bundle s r in
     session_fits s \<and> phases_keyed s \<and> entity_fits (encode_session s) \<and>
     list_all entity_fits ([bd_toolchain b, bd_target b, bd_environment b, bd_policy b] @ bd_sources b @ bd_provenance b) \<and>
     list_all (\<lambda>a. artifact_fits a \<and> entity_fits (encode_artifact a)) (bd_artifacts b) \<and>
     list_all (\<lambda>d. diagnostic_set_fits d \<and> entity_fits (encode_diagnostic_set d)) (bd_diagnostics b) \<and>
     length (bd_artifacts b) \<le> kMaxArtifacts \<and> length (bd_diagnostics b) \<le> kMaxSets \<and>
     length (bd_provenance b) \<le> kMaxProvenanceRecords)"

lemma bundle_round_trip:
  assumes "bundle_fits s r"
  shows "decode_session_bundle (session_payload s r) = Inr (stored_bundle s r)"
proof -
  let ?b = "stored_bundle s r"
  note fits = assms [unfolded bundle_fits_def Let_def]
  have payload: "session_payload s r = enc_text (encode_session s) @ enc_text (bd_toolchain ?b) @ enc_text (bd_target ?b) @
      enc_text (bd_environment ?b) @ enc_text (bd_policy ?b) @ enc_seq (\<lambda>x. enc_text x) (bd_sources ?b) @
      enc_seq (\<lambda>x. enc_text (encode_artifact x)) (bd_artifacts ?b) @
      enc_seq (\<lambda>x. enc_text (encode_diagnostic_set x)) (bd_diagnostics ?b) @ enc_seq (\<lambda>x. enc_text x) (bd_provenance ?b) @ []"
    by (simp add: session_payload_def encode_session_bundle_def Let_def authority_of_def stored_bundle_def enc_found_def
        text_of_def enc_seq_def comp_def)
  have session: "decode_session (encode_session s) = Inr (bd_session ?b)"
    using fits decode_encode_session by (simp add: stored_bundle_def)
  have sources: "length (bd_sources ?b) \<le> kMaxSources"
    using fits by (simp add: stored_bundle_def session_fits_def)
  have sections: "read_section m n kMaxSources Inr (enc_seq (\<lambda>x. enc_text x) (bd_sources ?b) @ rest) = Inr (bd_sources ?b, rest)"
    "read_section m n kMaxArtifacts decode_artifact (enc_seq (\<lambda>x. enc_text (encode_artifact x)) (bd_artifacts ?b) @ rest) = Inr (bd_artifacts ?b, rest)"
    "read_section m n kMaxSets decode_diagnostic_set (enc_seq (\<lambda>x. enc_text (encode_diagnostic_set x)) (bd_diagnostics ?b) @ rest) = Inr (bd_diagnostics ?b, rest)"
    "read_section m n kMaxProvenanceRecords Inr (enc_seq (\<lambda>x. enc_text x) (bd_provenance ?b) @ rest) = Inr (bd_provenance ?b, rest)"
    for m n rest
    using fits sources read_section_enc [of "\<lambda>x. x" Inr "\<lambda>x. x" "bd_sources ?b" kMaxSources m n rest]
      read_section_enc [of encode_artifact decode_artifact "\<lambda>x. x" "bd_artifacts ?b" kMaxArtifacts m n rest]
      read_section_enc [of encode_diagnostic_set decode_diagnostic_set "\<lambda>x. x" "bd_diagnostics ?b" kMaxSets m n rest]
      read_section_enc [of "\<lambda>x. x" Inr "\<lambda>x. x" "bd_provenance ?b" kMaxProvenanceRecords m n rest]
    by (simp_all add: list_all_iff kMaxSources_def kMaxArtifacts_def kMaxSets_def kMaxProvenanceRecords_def
          decode_encode_artifact decode_encode_diagnostic_set)
  show ?thesis
    unfolding payload decode_session_bundle_def
    using fits sections(4) [where rest = "[]"] by (simp add: session sections(1-3) decode_bundle_authority_def)
qed

section \<open>What a restart keeps and what it fences\<close>

definition in_flight :: "phase_state \<Rightarrow> bool" where
  "in_flight state = (phase_state_retains_commit_authority state \<and> state \<noteq> PS_pending \<and> state \<noteq> PS_ready)"

lemma fenced_phase_state: "in_flight (pr_state p) \<Longrightarrow> pr_state (fenced_phase now reason p) = PS_fenced"
  by (cases "pr_state p") (simp_all add: in_flight_def phase_state_retains_commit_authority_def fenced_phase_def
      on_last_attempt_def record_transition_def is_legal_phase_transition_def append_transition_def)

lemma fence_phase_eq:
  "fence_phase host reason (r, s) pid = (case find_phase pid s of None \<Rightarrow> (r, s)
     | Some p \<Rightarrow> if \<not> in_flight (pr_state p) then (r, s)
       else (r\<lparr>rt_artifacts := fst (revoke_phase_outputs (pr_id p) (pr_generation p) reason (rt_artifacts r)),
               rt_leases := fst (lease_revoke (ref_id (pr_lease p)) reason (rt_leases r))\<rparr>,
             put_phase pid (fenced_phase (rh_now host) reason p) s))"
  by (auto simp: fence_phase_def in_flight_def split: option.split)

definition idle :: "phase_id \<Rightarrow> compiler_session \<Rightarrow> bool" where
  "idle pid s = (case find_phase pid s of None \<Rightarrow> True | Some p \<Rightarrow> \<not> in_flight (pr_state p))"

lemma fence_phase_idle:
  "idle pid (snd (fence_phase host reason st pid))" "idle i (snd st) \<Longrightarrow> idle i (snd (fence_phase host reason st pid))"
proof -
  obtain r s where st: "st = (r, s)" by (cases st)
  have "\<not> in_flight PS_fenced" by (simp add: in_flight_def phase_state_retains_commit_authority_def)
  then show "idle pid (snd (fence_phase host reason st pid))" "idle i (snd st) \<Longrightarrow> idle i (snd (fence_phase host reason st pid))"
    by (auto simp: st fence_phase_eq idle_def fenced_phase_state split: option.splits if_splits)
qed

lemma fence_phases_idle:
  "i \<in> set pids \<or> idle i (snd st) \<Longrightarrow> idle i (snd (foldl (fence_phase host reason) st pids))"
proof (induction pids arbitrary: st)
  case (Cons pid pids)
  have "i \<in> set pids \<or> idle i (snd (fence_phase host reason st pid))"
    using Cons.prems fence_phase_idle(1) [of i host reason st] fence_phase_idle(2) [of i st host reason pid]
    by (cases "i = pid") auto
  then show ?case using Cons.IH by simp
qed simp

definition same_core :: "runtime \<Rightarrow> runtime \<Rightarrow> bool" where
  "same_core r r' = (rt_sessions r' = rt_sessions r \<and> rt_epoch r' = rt_epoch r \<and> rt_persistent r' = rt_persistent r \<and>
     rt_phase_ids r' = rt_phase_ids r \<and> rt_attempt_ids r' = rt_attempt_ids r \<and> rt_commit_ids r' = rt_commit_ids r \<and>
     rt_invocation_ids r' = rt_invocation_ids r \<and> (lt_entries (rt_leases r) = [] \<longrightarrow> lt_entries (rt_leases r') = []))"

lemma same_core_refl [simp]: "same_core r r"
  by (simp add: same_core_def)

lemma same_core_trans: "same_core r r1 \<Longrightarrow> same_core r1 r2 \<Longrightarrow> same_core r r2"
  by (auto simp: same_core_def)

lemma fence_phase_core: "same_core (fst st) (fst (fence_phase host reason st pid)) \<and>
    pp_order (cs_plan (snd (fence_phase host reason st pid))) = pp_order (cs_plan (snd st)) \<and>
    cs_id (snd (fence_phase host reason st pid)) = cs_id (snd st) \<and> cs_state (snd (fence_phase host reason st pid)) = cs_state (snd st)"
  by (cases st) (auto simp: fence_phase_eq same_core_def lease_revoke_def put_phase_def split: option.split)

lemma fence_phases_core: "same_core (fst st) (fst (foldl (fence_phase host reason) st pids)) \<and>
    pp_order (cs_plan (snd (foldl (fence_phase host reason) st pids))) = pp_order (cs_plan (snd st)) \<and>
    cs_id (snd (foldl (fence_phase host reason) st pids)) = cs_id (snd st) \<and>
    cs_state (snd (foldl (fence_phase host reason) st pids)) = cs_state (snd st)"
proof (induction pids arbitrary: st)
  case (Cons pid pids)
  from fence_phase_core [of st host reason pid] Cons.IH [of "fence_phase host reason st pid"] show ?case
    by (simp add: same_core_trans [of "fst st" "fst (fence_phase host reason st pid)"])
qed simp

lemma only_status_fst [simp]: "fst (only_status m) = fst m"
  by (auto simp: only_status_def rt_try_def split: prod.split sum.split)

lemma rt_try_core:
  assumes "same_core r (fst m)" "\<And>r1 v. same_core r r1 \<Longrightarrow> same_core r (fst (k r1 v))"
  shows "same_core r (fst (rt_try m k))"
  using assms by (cases m) (auto simp: rt_try_def split: sum.split)

lemma restore_each_core:
  assumes "\<And>x r. same_core r (fst (restore x r))"
  shows "same_core r (fst (restore_each restore xs r))"
proof (induction xs arbitrary: r)
  case (Cons x xs)
  show ?case
    by (simp, rule rt_try_core [OF assms]) (blast intro: same_core_trans Cons.IH)
qed simp

lemma restore_text_core:
  assumes "\<And>x r. same_core r (fst (register x r))"
  shows "same_core r (fst (restore_text decode register text r))"
  using assms by (simp add: restore_text_def split: sum.split)

lemma restore_core [simp]:
  "same_core r (fst (restore_toolchain t r))" "same_core r (fst (restore_target x r))" "same_core r (fst (restore_environment ln e r))"
  "same_core r (fst (restore_policy p r))" "same_core r (fst (restore_source u r))" "same_core r (fst (restore_artifact a r))"
  "same_core r (fst (restore_provenance v r))" "same_core r (fst (restore_diagnostics d r))"
  by (simp_all add: restore_toolchain_def restore_target_def restore_environment_def restore_policy_def restore_source_def
      restore_artifact_def restore_provenance_def restore_diagnostics_def same_core_def split: prod.split)

lemma restore_bundle_core: "same_core r (fst (restore_bundle strays ln b r))"
  unfolding restore_bundle_def
  by (intro rt_try_core; (erule same_core_trans)?; intro restore_text_core restore_each_core restore_core)

lemma persist_in_core:
  assumes "persist_in host disk s (r, st) = ((r', st'), res)"
  shows "same_core r r'" "\<And>u. res = Inr u \<Longrightarrow> rt_persistent r \<Longrightarrow> snd (store_persist disk s r st) = Inr ()"
  using assms by (auto simp: persist_in_def persist_def answering_def same_core_def split: prod.splits if_splits option.splits sum.splits)

lemma cancel_flag_core: "same_core r (fst (cancel_flag i r))"
  by (simp add: cancel_flag_def same_core_def split: option.split)

text \<open>What holds of a session when a runtime has just recovered it.\<close>

definition restarted_ok :: "u64 \<Rightarrow> compiler_session \<Rightarrow> bool" where
  "restarted_ok epoch s = (cs_epoch s = StrongId epoch \<and> cs_state s \<in> {SS_recovering, SS_committed, SS_retired} \<and>
     list_all (\<lambda>i. idle i s) (pp_order (cs_plan s)))"

lemma idle_cong: "cs_phases s = cs_phases t \<Longrightarrow> idle i s = idle i t"
  by (simp add: idle_def find_phase_def)

lemma restarted_session_ok:
  assumes "list_all (\<lambda>i. idle i s) (pp_order (cs_plan s))"
  shows "restarted_ok epoch (restarted_session now epoch s)" "cs_id (restarted_session now epoch s) = cs_id s"
proof -
  have same: "cs_phases (restarted_session now epoch s) = cs_phases s" "cs_plan (restarted_session now epoch s) = cs_plan s"
    and id: "cs_id (restarted_session now epoch s) = cs_id s"
    by (simp_all add: restarted_session_def Let_def)
  show "cs_id (restarted_session now epoch s) = cs_id s" by (rule id)
  have "cs_state (restarted_session now epoch s) \<in> {SS_recovering, SS_committed, SS_retired}"
      "cs_epoch (restarted_session now epoch s) = StrongId epoch"
    by (auto simp: restarted_session_def Let_def)
  then show "restarted_ok epoch (restarted_session now epoch s)"
    using assms by (simp add: restarted_ok_def same idle_cong [OF same(1)])
qed

text \<open>One session: the tables it leaves alone, and the session it adds.\<close>

lemma replay_session_spec:
  assumes "replay_session strays host disk b (r, st) = ((r', st'), res)"
  obtains (failed) e where "res = Inl e" "same_core r r'"
    | (added) r4 s where "res = Inr ()" "same_core r r4" "cs_id s = cs_id (bd_session b)" "restarted_ok (rt_epoch r) s"
        "r' = r4\<lparr>rt_sessions := um_emplace (id_value (cs_id (bd_session b))) s (rt_sessions r4)\<rparr>"
proof -
  obtain r1 res1 where restored: "restore_bundle strays (rh_normal host) b r = (r1, res1)" by force
  then have core1: "same_core r r1" using restore_bundle_core [of r strays "rh_normal host" b] by simp
  show thesis
  proof (cases res1)
    case (Inl e)
    with assms restored core1 failed show thesis by (auto simp: replay_session_def)
  next
    case (Inr u)
    let ?ids = "r1\<lparr>rt_session_ids := alloc_observe (cs_id (bd_session b)) (rt_session_ids r1)\<rparr>"
    obtain r2 s2 where fenced: "fence_all_in_flight host ''runtime restart fenced in-flight phase authority'' (bd_session b) ?ids = (r2, s2)"
      by force
    note fence = fence_phases_core [of "(?ids, bd_session b)" host "''runtime restart fenced in-flight phase authority''"
        "pp_order (cs_plan (bd_session b))", folded fence_all_in_flight_def, unfolded fenced, simplified]
    have "idle i s2" if "i \<in> set (pp_order (cs_plan (bd_session b)))" for i
      using fence_phases_idle [of i "pp_order (cs_plan (bd_session b))" "(?ids, bd_session b)" host
          "''runtime restart fenced in-flight phase authority''", folded fence_all_in_flight_def] that
      unfolding fenced by simp
    with fence have "list_all (\<lambda>i. idle i s2) (pp_order (cs_plan s2))" by (simp add: list_all_iff)
    note ok = restarted_session_ok [OF this]
    have "same_core r1 ?ids" by (simp add: same_core_def)
    with core1 fence have core2: "same_core r r2" by (blast intro: same_core_trans)
    let ?s = "restarted_session (rh_now host) (rt_epoch r2) s2"
    obtain r4 st4 res4 where persisted: "persist_in host disk ?s (fst (cancel_flag (cs_id ?s) r2), st) = ((r4, st4), res4)"
      by (metis prod.exhaust)
    with core2 have core4: "same_core r r4"
      by (meson same_core_trans cancel_flag_core persist_in_core(1))
    have id: "cs_id ?s = cs_id (bd_session b)" using ok(2) fence by simp
    have epoch: "rt_epoch r2 = rt_epoch r" using core2 by (simp add: same_core_def)
    note run = assms [unfolded replay_session_def prod.case restored Inr sum.case fenced Let_def persisted]
    show thesis
    proof (cases res4)
      case (Inl e)
      with run have "res = Inl e" "r' = r4" by simp_all
      then show thesis using failed core4 by simp
    next
      case (Inr u)
      with run have "res = Inr ()" "r' = r4\<lparr>rt_sessions := um_emplace (id_value (cs_id ?s)) ?s (rt_sessions r4)\<rparr>" by simp_all
      with added [of r4 ?s] core4 id ok(1) [of "rt_epoch r2" "rh_now host"] epoch show thesis by simp
    qed
  qed
qed

text \<open>All of them.\<close>

definition same_allocators :: "runtime \<Rightarrow> runtime \<Rightarrow> bool" where
  "same_allocators r r' = (rt_phase_ids r' = rt_phase_ids r \<and> rt_attempt_ids r' = rt_attempt_ids r \<and>
     rt_commit_ids r' = rt_commit_ids r \<and> rt_invocation_ids r' = rt_invocation_ids r)"

definition restart_inv :: "runtime \<Rightarrow> bool" where
  "restart_inv r = (um_all (\<lambda>k s. id_value (cs_id s) = k \<and> restarted_ok (rt_epoch r) s) (rt_sessions r) \<and> lt_entries (rt_leases r) = [])"

lemma emplace_dom: "(um_find (um_emplace k v m) j \<noteq> None) = (j = k \<or> um_find m j \<noteq> None)"
  by (auto simp: um.find_emplace split: option.split)

lemma replay_session_inv:
  assumes "replay_session strays host disk b (r, st) = ((r', st'), res)" "restart_inv r"
  shows "restart_inv r' \<and> same_allocators r r' \<and> rt_epoch r' = rt_epoch r \<and> (res = Inr () \<longrightarrow>
    (\<forall>k. (um_find (rt_sessions r') k \<noteq> None) = (k = id_value (cs_id (bd_session b)) \<or> um_find (rt_sessions r) k \<noteq> None)))"
  using assms(1)
proof (cases rule: replay_session_spec)
  case (failed e)
  then show ?thesis using assms(2) by (simp add: restart_inv_def same_core_def same_allocators_def)
next
  case (added r4 s)
  have "um_all (\<lambda>k s. id_value (cs_id s) = k \<and> restarted_ok (rt_epoch r) s) (rt_sessions r4)" "rt_epoch r4 = rt_epoch r"
    using added(2) assms(2) by (simp_all add: restart_inv_def same_core_def)
  then have "restart_inv r'" "same_allocators r r'" "rt_epoch r' = rt_epoch r"
    using added assms(2) by (auto simp: restart_inv_def same_core_def same_allocators_def intro: um_all_emplace)
  moreover have "(um_find (rt_sessions r') k \<noteq> None) = (k = id_value (cs_id (bd_session b)) \<or> um_find (rt_sessions r) k \<noteq> None)" for k
    using added emplace_dom [of "id_value (cs_id (bd_session b))" s "rt_sessions r" k] by (simp add: same_core_def)
  ultimately show ?thesis by blast
qed

lemma replay_sessions_inv:
  assumes "replay_sessions strays host disks n bs (r, st) = ((r', st'), res)" "restart_inv r"
  shows "restart_inv r' \<and> same_allocators r r' \<and> rt_epoch r' = rt_epoch r \<and> (res = Inr () \<longrightarrow>
    (\<forall>k. (um_find (rt_sessions r') k \<noteq> None) = (k \<in> set (map (\<lambda>b. id_value (cs_id (bd_session b))) bs) \<or> um_find (rt_sessions r) k \<noteq> None)))"
  using assms
proof (induction bs arbitrary: n r st)
  case (Cons b bs)
  obtain r1 st1 res1 where one: "replay_session strays host (disks n) b (r, st) = ((r1, st1), res1)" by (metis prod.exhaust)
  note inv = replay_session_inv [OF one Cons.prems(2)]
  show ?case
  proof (cases res1)
    case (Inl e)
    with Cons.prems(1) one inv show ?thesis by auto
  next
    case (Inr u)
    with Cons.prems(1) one have "replay_sessions strays host disks (Suc n) bs (r1, st1) = ((r', st'), res)" by simp
    from Cons.IH [OF this] inv Inr show ?thesis by (auto simp: same_allocators_def)
  qed
qed (simp add: same_allocators_def)

text \<open>The key of a bundle in the replay is the identity of its session.\<close>

lemma replay_records_snoc: "replay_records (rs @ [r]) = replay_record (replay_records rs) r"
  by (simp add: replay_records_def)

lemma replay_records_keyed: "um_all (\<lambda>k b. id_value (cs_id (bd_session b)) = k) (fst (replay_records rs))"
proof (induction rs rule: rev_induct)
  case (snoc r rs)
  then show ?case
    by (cases "replay_records rs")
      (auto simp: replay_records_snoc replay_record_def intro: um_all_set split: sum.split)
qed (simp add: replay_records_def)

lemma replay_bundle_keys:
  "(k \<in> set (map (\<lambda>b. id_value (cs_id (bd_session b))) (map snd (sort_key fst (fst (replay_records rs)))))) =
    (um_find (fst (replay_records rs)) k \<noteq> None)"
proof -
  have keyed: "id_value (cs_id (bd_session b)) = k" if "(k, b) \<in> set (fst (replay_records rs))" for k b
    using replay_records_keyed [of rs] that by (auto simp: um_all_def)
  then show ?thesis by (force simp: um_find_def map_of_eq_None_iff image_iff)
qed

lemma recover_on_load_inv:
  assumes "recover_on_load strays host disks records (r, st) = (((r', st'), Inr ()), defects)" "restart_inv r" "rt_sessions r = []"
  shows "restart_inv r' \<and> same_allocators r r' \<and> rt_epoch r' = rt_epoch r \<and>
    (\<forall>k. (um_find (rt_sessions r') k \<noteq> None) = (um_find (fst (replay_records records)) k \<noteq> None))"
proof -
  obtain latest n where replayed: "replay_records records = (latest, n)" by force
  let ?bundles = "map snd (sort_key fst latest)"
  obtain r1 st1 res where run: "replay_sessions strays host disks 0 ?bundles (r, st) = ((r1, st1), res)" by (metis prod.exhaust)
  with assms(1) replayed obtain u where res: "res = Inr u" and r': "r' = (if ?bundles = [] then r1 else note_evidence host ''durable-state-recovered''
      (dec_string (length ?bundles) @ '' session(s) recovered at epoch '' @ dec_string (unat (rt_epoch r1))) digest_default r1)"
    by (cases res) (auto simp: recover_on_load_def Let_def)
  have same: "rt_sessions r' = rt_sessions r1" "restart_inv r' = restart_inv r1" "same_allocators r r' = same_allocators r r1"
      "rt_epoch r' = rt_epoch r1"
    by (simp_all add: r' note_evidence_def restart_inv_def same_allocators_def)
  from replay_sessions_inv [OF run assms(2)] res replay_bundle_keys [of _ records] replayed assms(3) show ?thesis
    unfolding same by simp
qed

section \<open>A created runtime\<close>

lemma load_runtime_spec:
  assumes "load_runtime ch ro r = Inr (r', st', defects)" "restart_inv r" "rt_sessions r = []"
  obtains st0 where "store_open (ch_open_disk ch) (rh_normal (ch_runtime ch)) (hp_join (rh_paths (ch_runtime ch))) (ch_create_directories ch)
      (ch_open_failure ch) (ch_journal ch) (ch_snapshot ch) (store_options ro) = Inr st0" "trustworthy (store_load st0)"
    "rt_epoch r' = ds_runtime_epoch (store_load st0) + 1" "restart_inv r'" "same_allocators r r'"
    "\<And>k. ro_recover_on_load ro \<Longrightarrow>
      (um_find (rt_sessions r') k \<noteq> None) = (um_find (fst (replay_records (ds_records (store_load st0)))) k \<noteq> None)"
proof -
  obtain st0 where st0: "store_open (ch_open_disk ch) (rh_normal (ch_runtime ch)) (hp_join (rh_paths (ch_runtime ch))) (ch_create_directories ch)
      (ch_open_failure ch) (ch_journal ch) (ch_snapshot ch) (store_options ro) = Inr st0"
    using assms(1) by (auto simp: load_runtime_def Let_def crf_try_def split: sum.splits)
  let ?r = "r\<lparr>rt_persistent := True, rt_epoch := ds_runtime_epoch (store_load st0) + 1\<rparr>"
  note run = assms(1) [unfolded load_runtime_def Let_def st0 crf_try_simps]
  then have trust: "trustworthy (store_load st0)" by (simp split: if_splits)
  obtain st1 res1 where recorded: "record_epoch (ch_epoch_disk ch) (ch_header_disk ch) (rt_epoch ?r) st0 = (st1, res1)" by force
  with run trust obtain q where res1: "res1 = Inr q" by (cases res1) simp_all
  have inv: "restart_inv ?r" "rt_sessions ?r = []" "same_allocators r ?r"
    using assms(2,3) by (simp_all add: restart_inv_def same_allocators_def)
  show thesis
  proof (cases "ro_recover_on_load ro")
    case True
    with run trust recorded res1 have "recover_on_load (ch_strays ch) (ch_runtime ch) (ch_session_disks ch) (ds_records (store_load st0)) (?r, st1) =
        (((r', st'), Inr ()), defects)"
      by (simp split: prod.splits sum.splits)
    from recover_on_load_inv [OF this inv(1,2)] inv(3) show thesis
      by (intro that [OF st0 trust]) (auto simp: same_allocators_def)
  next
    case False
    with run trust recorded res1 have "r' = ?r" by simp
    with inv False show thesis by (intro that [OF st0 trust]) auto
  qed
qed

lemma runtime_impl_inv: "restart_inv (runtime_impl ro)" "rt_sessions (runtime_impl ro) = []"
  by (simp_all add: restart_inv_def runtime_impl_def lease_table_init_def)

lemma create_spec:
  fixes options ch
  defines "ro \<equiv> resolve_options (rh_paths (ch_runtime ch)) options"
  assumes "runtime_create ch builtin executor options = Inr (r, st, defects)"
  shows "restart_inv r \<and> same_allocators (runtime_impl ro) r"
    and "ro_enable_persistence options \<Longrightarrow> \<exists>st0. store_open (ch_open_disk ch) (rh_normal (ch_runtime ch)) (hp_join (rh_paths (ch_runtime ch)))
      (ch_create_directories ch) (ch_open_failure ch) (ch_journal ch) (ch_snapshot ch) (store_options ro) = Inr st0 \<and>
      rt_epoch r = ds_runtime_epoch (store_load st0) + 1 \<and> (ro_recover_on_load options \<longrightarrow> (\<forall>k. (um_find (rt_sessions r) k \<noteq> None) =
        (um_find (fst (replay_records (ds_records (store_load st0)))) k \<noteq> None)))"
proof -
  have same: "ro_enable_persistence ro = ro_enable_persistence options" "ro_recover_on_load ro = ro_recover_on_load options"
    by (simp_all add: ro_def resolve_options_def Let_def)
  obtain r1 where r: "r = r1\<lparr>rt_adapters := rt_adapters r, rt_executor := rt_executor r\<rparr>"
    and run: "if ro_enable_persistence ro then \<exists>st1. load_runtime ch ro (runtime_impl ro) = Inr (r1, st1, defects) \<and> st = Some st1
      else r1 = (runtime_impl ro)\<lparr>rt_epoch := 1\<rparr>"
    using assms(2) unfolding runtime_create_def Let_def ro_def [symmetric]
    by (auto simp: crf_try_def split: if_splits option.splits sum.splits)
  have core: "restart_inv r = restart_inv r1" "same_allocators x r = same_allocators x r1" "rt_epoch r = rt_epoch r1"
      "rt_sessions r = rt_sessions r1" for x
    by (subst r, simp add: restart_inv_def same_allocators_def)+
  have "restart_inv r1 \<and> same_allocators (runtime_impl ro) r1"
  proof (cases "ro_enable_persistence ro")
    case True
    with run load_runtime_spec [OF _ runtime_impl_inv] show ?thesis by (metis (no_types, lifting))
  next
    case False
    with run show ?thesis by (simp add: restart_inv_def runtime_impl_def lease_table_init_def same_allocators_def)
  qed
  then show "restart_inv r \<and> same_allocators (runtime_impl ro) r" unfolding core .
  assume "ro_enable_persistence options"
  with run same obtain st1 where "load_runtime ch ro (runtime_impl ro) = Inr (r1, st1, defects)" by auto
  from load_runtime_spec [OF this runtime_impl_inv] same(2)
  show "\<exists>st0. store_open (ch_open_disk ch) (rh_normal (ch_runtime ch)) (hp_join (rh_paths (ch_runtime ch)))
      (ch_create_directories ch) (ch_open_failure ch) (ch_journal ch) (ch_snapshot ch) (store_options ro) = Inr st0 \<and>
      rt_epoch r = ds_runtime_epoch (store_load st0) + 1 \<and> (ro_recover_on_load options \<longrightarrow> (\<forall>k. (um_find (rt_sessions r) k \<noteq> None) =
        (um_find (fst (replay_records (ds_records (store_load st0)))) k \<noteq> None)))"
    unfolding core by metis
qed

section \<open>A persisted session is replayed\<close>

lemma persisted_is_replayed:
  assumes holds: "store_holds epoch created rs st" and persisted: "store_persist disk s r st = (st', Inr ())"
    and fits: "bundle_fits s r" and room: "length rs < ps_max_records_per_load (sto_options st)"
  shows "trustworthy (store_load st') \<and>
    um_find (fst (replay_records (ds_records (store_load st')))) (id_value (cs_id s)) = Some (stored_bundle s r)"
proof -
  let ?r = "appended disk (RK_session_state_changed, session_payload s r) st"
  obtain q where "store_append disk RK_session_state_changed (session_payload s r) st = (st', Inr q)"
    using persisted by (auto simp: store_persist_def split: prod.splits sum.splits)
  from append_outcome [OF holds this] have st': "store_holds epoch created (rs @ [?r]) st'" "sto_options st' = sto_options st"
    by simp_all
  then have load: "store_load st' = \<lparr>ds_outcome = LO_ok, ds_runtime_epoch = epoch,
      ds_last_sequence = of_nat (length (rs @ [?r])), ds_created_at_nanos = created, ds_records = rs @ [?r], ds_repaired_bytes = 0,
      ds_bytes_read = of_nat (length (journal_file epoch created (rs @ [?r]))), ds_detail = []\<rparr>"
    using load_whole [of st' epoch created "rs @ [?r]"] room by (simp add: store_holds_def)
  have "replay_records (rs @ [?r]) = (um_set (id_value (cs_id s)) (stored_bundle s r) (fst (replay_records rs)), snd (replay_records rs))"
    using bundle_round_trip [OF fits]
    by (cases "replay_records rs") (simp add: replay_records_snoc replay_record_def carries_session_def stored_bundle_def stored_session_def)
  then show ?thesis unfolding load by (simp add: trustworthy_def um.find_set)
qed

section \<open>The authority a restart restores\<close>

lemma restored_policy:
  assumes "policy_identity_fits x" "id_present (ri_id x)" "policy_validate (ri_spec x) = Inr ()"
  shows "\<exists>r'. restore_text (decode_policy_identity strays) restore_policy (encode_policy_identity x) r = (r', Inr ()) \<and>
    registry_ref (rt_policies r') (Ref (ri_id x) g) = Ref (ri_id x) gen_initial \<and> policy_find (ri_id x) (rt_policies r') \<noteq> None"
proof -
  have "encode_policy_identity x \<noteq> []"
    by (auto simp: encode_policy_identity_def enc_u16_def)
  then show ?thesis
    using assms by (simp add: restore_text_def decode_encode_policy_identity restore_policy_def policy_intern_as_def
        reg_intern_as_def Let_def only_status_def rt_try_def registry_ref_def policy_find_def reg_find_def um.find_set)
qed

end
