(* ===== verification/Restart_Claims.thy ===== *)
theory Restart_Claims
  imports Runtime_Store
begin

text \<open>
  The claims on the durable side of the runtime, with a journal that holds one session whose only
  phase was about to commit when the runtime stopped.
\<close>

section \<open>A stored session\<close>

definition stopped_phase :: phase_record where
  "stopped_phase = phase_record_default\<lparr>pr_id := StrongId 1, pr_generation := Generation 2, pr_state := PS_commit_ready\<rparr>"

definition stopped_node :: phase_node where
  "stopped_node = \<lparr>pn_id = StrongId 1, pn_kind = PK_link, pn_adapter_phase = [], pn_depends_on = [], pn_mandatory = True,
     pn_expected_outputs = [], pn_fan_in = False, pn_required_inputs = 0\<rparr>"

definition stopped_plan :: phase_plan where
  "stopped_plan = \<lparr>pp_nodes = [stopped_node], pp_index = [(1, 0)], pp_dependents = [[]], pp_order = [StrongId 1]\<rparr>"

definition stopped_session :: compiler_session where
  "stopped_session = session_default\<lparr>cs_id := StrongId 1, cs_state := SS_active, cs_plan := stopped_plan,
     cs_phases := [(1, stopped_phase)]\<rparr>"

lemma stopped_plan_built: "plan_build (pp_nodes stopped_plan) = Inr stopped_plan"
  by code_simp

lemmas field_lengths = enc_text_def enc_u8_def enc_boolean_def enc_i32_def enc_id_def enc_gen_def enc_ref_def
  enc_enum_def enc_status_def enc_seq_def

lemma length_enc_digest [simp]: "length (enc_digest digest_default) = 68"
  by (simp add: enc_digest_def enc_text_def) code_simp

lemmas stopped_defs = stopped_session_def stopped_phase_def stopped_plan_def stopped_node_def session_default_def
  phase_record_default_def candidate_default_def

lemma stopped_lengths:
  "length (encode_plan stopped_plan) \<le> 200" "length (encode_phase stopped_phase) \<le> 600"
  "length (encode_candidate (cs_candidate stopped_session)) \<le> 600"
  by (simp_all add: encode_plan_def encode_node_def encode_phase_def encode_candidate_def stopped_defs field_lengths)

lemma stopped_fields:
  "cs_plan stopped_session = stopped_plan" "cs_phases stopped_session = [(1, stopped_phase)]" "pp_nodes stopped_plan = [stopped_node]"
  "pp_order stopped_plan = [StrongId 1]" "cs_id stopped_session = StrongId 1" "pr_id stopped_phase = StrongId 1"
  by (simp_all add: stopped_session_def stopped_plan_def stopped_phase_def)

lemma stopped_parts_fit: "phase_fits stopped_phase" "node_fits stopped_node" "candidate_fits (cs_candidate stopped_session)"
  by (simp_all add: phase_fits_def node_fits_def candidate_fits_def stopped_defs str_fits_def path_fits_def digest_fits_def
      digest_default_def status_fits_def bound_simps)

lemma stopped_fits: "session_fits stopped_session" "phases_keyed stopped_session"
proof -
  have texts: "str_fits (cs_adapter_name stopped_session)" "str_fits (cs_final_artifact_name stopped_session)"
    "cs_adapter_options stopped_session = []" "cs_cooperating_toolchains stopped_session = []" "cs_sources stopped_session = []"
    "cs_intermediates stopped_session = []" "str_fits (cs_failure_detail stopped_session)" "digest_fits (cs_request_digest stopped_session)"
    by (simp_all add: stopped_session_def session_default_def str_fits_def digest_fits_def digest_default_def)
  show "session_fits stopped_session"
    using stopped_plan_built stopped_lengths stopped_parts_fit
    by (simp add: session_fits_def texts stopped_fields kMaxBlobBytes_def kMaxPhases_def)
  show "phases_keyed stopped_session"
    by (simp add: phases_keyed_def stopped_fields um_ok_def um_all_def)
qed

section \<open>Its journal\<close>

definition restart_options :: runtime_options where
  "restart_options = \<lparr>ro_state_directory = ''c:/s'', ro_workspace_root = [], ro_runtime_name = ''crf'', ro_enable_persistence = True,
     ro_ephemeral_state = False, ro_recover_on_load = True, ro_max_sessions = 8, ro_workspace_base = [],
     ro_persistence = persistence_options_default, ro_register_builtin_adapters = False\<rparr>"

definition restart_disk :: disk_host where
  "restart_disk = \<lparr>dh_now = 9, dh_seek = True, dh_taken = 100000, dh_flush = True, dh_truncate = True, dh_create = True, dh_replace = True\<rparr>"

definition empty_runtime :: runtime where
  "empty_runtime = runtime_impl (resolve_options sample_host restart_options)"

definition stopped_record :: journal_record where
  "stopped_record = \<lparr>jr_kind = RK_session_state_changed, jr_sequence = 1, jr_at_nanos = 5,
     jr_payload = session_payload stopped_session empty_runtime,
     jr_stored_crc = crc32c (session_payload stopped_session empty_runtime)\<rparr>"

definition restart_host :: creation_host where
  "restart_host = \<lparr>ch_runtime = \<lparr>rh_paths = sample_host, rh_fs = sample_fs [], rh_queries = sample_queries, rh_now = 7,
       rh_system_temp = None, rh_ambient = (\<lambda>_. []), rh_append = (\<lambda>_. None)\<rparr>,
     ch_strays = \<lparr>st_locale_policy = (\<lambda>_. locale_policy_order ! 0), st_reproducibility = (\<lambda>_. reproducibility_order ! 0),
       st_failure_class = (\<lambda>_. FC_none), st_architecture = (\<lambda>_. AR_unknown), st_operating_system = (\<lambda>_. operating_system_order ! 0),
       st_toolchain_family = (\<lambda>_. TF_unknown), st_component_kind = (\<lambda>_. component_kind_order ! 0),
       st_evidence_class = (\<lambda>_. EC_unknown), st_source_language = (\<lambda>_. SL_unknown), st_verdict = (\<lambda>_. AV_valid)\<rparr>,
     ch_create_directories = (\<lambda>_. None), ch_open_failure = (\<lambda>_. None),
     ch_journal = Some (journal_file 3 2 [stopped_record]), ch_snapshot = None, ch_open_disk = restart_disk,
     ch_epoch_disk = restart_disk, ch_header_disk = restart_disk, ch_session_disks = (\<lambda>_. restart_disk)\<rparr>"

lemma empty_runtime_tables:
  "rt_artifacts empty_runtime = artifact_registry_init" "rt_diagnostics empty_runtime = diagnostic_store_init"
  "authority_of empty_runtime = \<lparr>ab_toolchains = toolchain_registry_init, ab_targets = registry_init, ab_environments = registry_init,
     ab_policies = registry_init, ab_sources = source_registry_init, ab_provenance = provenance_log_init\<rparr>"
  by (simp_all add: empty_runtime_def runtime_impl_def authority_of_def)

lemma nothing_registered:
  "toolchain_find i toolchain_registry_init = None" "target_find j registry_init = None" "environment_find k registry_init = None"
  "policy_find l registry_init = None" "source_find m source_registry_init = None"
  by (simp_all add: toolchain_find_def target_find_def environment_find_def policy_find_def source_find_def reg_find_def
      toolchain_registry_init_def registry_init_def source_registry_init_def)

text \<open>A session without sources, artifacts and diagnostics.\<close>

lemma concat_four: "concat (replicate 4 x) = x @ x @ x @ x"
  by (simp add: numeral_eq_Suc)

lemma bare_payload:
  assumes "cs_sources s = []" "cs_intermediates s = []" "session_diagnostics s diagnostic_store_init = []"
    and r: "authority_of r = authority_of empty_runtime" "rt_diagnostics r = diagnostic_store_init"
  shows "session_payload s r = enc_text (encode_session s) @ concat (replicate 4 (enc_text [])) @ concat (replicate 4 (enc_u64 0))"
    "stored_bundle s r = \<lparr>bd_session = stored_session s, bd_artifacts = [], bd_diagnostics = [], bd_toolchain = [],
      bd_target = [], bd_environment = [], bd_policy = [], bd_sources = [], bd_provenance = []\<rparr>"
proof -
  have "rt_toolchains r = toolchain_registry_init" "rt_targets r = registry_init" "rt_environments r = registry_init"
    "rt_policies r = registry_init" "rt_sources r = source_registry_init" "rt_provenance r = provenance_log_init"
    using r(1) unfolding empty_runtime_tables by (simp_all add: authority_of_def)
  then show "session_payload s r = enc_text (encode_session s) @ concat (replicate 4 (enc_text [])) @ concat (replicate 4 (enc_u64 0))"
    "stored_bundle s r = \<lparr>bd_session = stored_session s, bd_artifacts = [], bd_diagnostics = [], bd_toolchain = [],
      bd_target = [], bd_environment = [], bd_policy = [], bd_sources = [], bd_provenance = []\<rparr>"
    using assms(1-3) r(2) by (simp_all add: session_payload_def stored_bundle_def encode_session_bundle_def authority_of_def nothing_registered
        owned_artifacts_def cited_provenance_def enc_found_def text_of_def enc_seq_def map_filter_simps concat_four)
qed

definition fencing_reason :: string where
  "fencing_reason = ''runtime restart fenced in-flight phase authority''"

text \<open>The session as the restart writes it back.\<close>

definition fenced_session :: compiler_session where
  "fenced_session = restarted_session 7 4 (put_phase (StrongId 1) (fenced_phase 7 fencing_reason stopped_phase) stopped_session)"

lemma fenced_stopped_phase:
  "fenced_phase 7 fencing_reason stopped_phase = stopped_phase\<lparr>pr_state := PS_fenced, pr_failure := FC_authority_invalidated,
     pr_last_status := SC_stale_epoch, pr_last_detail := fencing_reason,
     pr_history := [\<lparr>pt_from = PS_commit_ready, pt_to = PS_fenced, pt_at_nanos = 7, pt_reason = fencing_reason\<rparr>]\<rparr>"
  by (simp add: fenced_phase_def stopped_phase_def phase_record_default_def on_last_attempt_def record_transition_def
      is_legal_phase_transition_def append_transition_def kMaxPhaseTransitions_def update_back_def)

lemma fenced_session_eq:
  "fenced_session = stopped_session\<lparr>cs_phases := [(1, fenced_phase 7 fencing_reason stopped_phase)], cs_epoch := StrongId 4,
     cs_state := SS_recovering, cs_recovery_state := RS_required, cs_generation := gen_next (cs_generation stopped_session),
     cs_updated_at_nanos := 7\<rparr>"
  by (simp add: fenced_session_def restarted_session_def Let_def put_phase_def um_modify_def stopped_session_def)

lemma fenced_session_fields:
  "cs_plan fenced_session = stopped_plan" "cs_phases fenced_session = [(1, fenced_phase 7 fencing_reason stopped_phase)]"
  "cs_sources fenced_session = []" "cs_intermediates fenced_session = []" "cs_id fenced_session = StrongId 1"
  "cs_sources stopped_session = []" "cs_intermediates stopped_session = []"
  by (simp_all add: fenced_session_eq stopped_session_def session_default_def)

lemma head_length: "length (encode_session_head stopped_session) \<le> 1000" "length (encode_session_tail stopped_session) \<le> 1000"
  "length (encode_session_head fenced_session) \<le> 1000" "length (encode_session_tail fenced_session) \<le> 1000"
  by (simp_all add: encode_session_head_def encode_session_tail_def fenced_session_eq stopped_session_def session_default_def field_lengths)

lemma fenced_phase_length: "length (encode_phase (fenced_phase 7 fencing_reason stopped_phase)) \<le> 1000"
  unfolding fenced_stopped_phase
  by (simp add: encode_phase_def encode_transition_def stopped_phase_def phase_record_default_def field_lengths fencing_reason_def)

lemma session_lengths: "length (encode_session stopped_session) \<le> 9000" "length (encode_session fenced_session) \<le> 9000"
  using head_length stopped_lengths fenced_phase_length
  by (simp_all add: encode_session_def ordered_phases_def stopped_fields fenced_session_fields enc_seq_def enc_text_def enc_id_def enc_ref_def
      enc_boolean_def enc_u8_def fenced_session_eq)

lemma no_diagnostics: "session_diagnostics s diagnostic_store_init = []"
  by (auto simp: session_diagnostics_def map_filter_def diagnostics_find_def diagnostic_store_init_def filter_empty_conv split: option.split)

lemmas stopped_bundle = bare_payload [OF fenced_session_fields(6,7) no_diagnostics refl empty_runtime_tables(2)]

lemma stopped_bundle_fits: "bundle_fits stopped_session empty_runtime"
  using session_lengths stopped_fits by (simp add: bundle_fits_def stopped_bundle Let_def entity_fits_def kMaxEntityBytes_def)

lemma payload_lengths:
  assumes "authority_of r = authority_of empty_runtime" "rt_diagnostics r = diagnostic_store_init"
  shows "length (session_payload stopped_session r) \<le> 9999" "length (session_payload fenced_session r) \<le> 9999"
  using session_lengths bare_payload(1) [OF fenced_session_fields(6,7) no_diagnostics assms]
    bare_payload(1) [OF fenced_session_fields(3,4) no_diagnostics assms]
  by (simp_all add: enc_text_def concat_four)

section \<open>It is recovered\<close>

lemma restart_path: "normalize_path_string (hp_lexically_normal sample_host) ''c:/s'' = ''c:/s''"
  by code_simp

lemma restart_store_options: "store_options (resolve_options sample_host restart_options) =
    persistence_options_default\<lparr>ps_directory := ''c:/s'', ps_name := ''crf''\<rparr>"
  by (simp add: store_options_def resolve_options_def restart_options_def persistence_options_default_def Let_def restart_path)

lemma stopped_journal:
  assumes "ps_max_record_bytes options = 4194304" "ps_max_journal_bytes options = 1073741824"
  shows "journal_ok options [stopped_record]" "length (journal_file e c [stopped_record]) \<le> 20000"
  using assms payload_lengths(1) [OF refl empty_runtime_tables(2)]
  by (simp_all add: journal_ok_def payload_fits_def stopped_record_def kMaxBlobBytes_def kJournalHeaderBytes_def kRecordHeaderBytes_def
      length_journal_file)

lemma restart_store:
  "\<exists>st. store_open restart_disk (rh_normal (ch_runtime restart_host)) (hp_join (rh_paths (ch_runtime restart_host)))
      (ch_create_directories restart_host) (ch_open_failure restart_host) (ch_journal restart_host) (ch_snapshot restart_host)
      (store_options (resolve_options sample_host restart_options)) = Inr st \<and> store_holds 3 2 [stopped_record] st \<and>
    ps_max_record_bytes (sto_options st) = 4194304 \<and> ps_max_journal_bytes (sto_options st) = 1073741824 \<and>
    ps_max_records_per_load (sto_options st) = 1048576"
proof -
  let ?st = "store_new (rh_normal (ch_runtime restart_host)) (hp_join (rh_paths (ch_runtime restart_host)))
    (ch_journal restart_host) (ch_snapshot restart_host) (persistence_options_default\<lparr>ps_directory := ''c:/s'', ps_name := ''crf''\<rparr>)"
  have fields: "sto_open ?st" "sto_journal ?st = Some (journal_file 3 2 [stopped_record])"
    "ps_max_record_bytes (sto_options ?st) = 4194304" "ps_max_journal_bytes (sto_options ?st) = 1073741824"
    "ps_max_records_per_load (sto_options ?st) = 1048576"
    by (simp_all add: store_new_def Let_def restart_host_def persistence_options_default_def)
  have "journal_file 3 2 [stopped_record] \<noteq> []" by (auto simp: journal_file_def dest: arg_cong [where f = length] simp: kJournalHeaderBytes_def)
  obtain st where st: "store_existing restart_disk ?st = (st, Inr ())" "store_holds 3 2 [stopped_record] st"
    using reopen_whole(1) [OF fields(1,2) stopped_journal(1) [OF fields(3,4)], of restart_disk] fields(5) by auto
  have "sto_options st = sto_options ?st"
    using st(1) by (simp add: store_existing_def Let_def truncate_to_def split: if_splits sum.splits prod.splits) auto
  then show ?thesis
    using st fields \<open>journal_file 3 2 [stopped_record] \<noteq> []\<close>
    by (simp add: store_open_def Let_def restart_store_options restart_host_def persistence_options_default_def kMaxBlobBytes_def)
qed

lemma stopped_stored: "stored_session stopped_session = stopped_session"
  by (simp add: stored_session_def ordered_phases_def stopped_session_def stopped_phase_def)

lemma stopped_replay:
  "replay_records [stopped_record] = ([(1, stored_bundle stopped_session empty_runtime)], 0)"
  using bundle_round_trip [OF stopped_bundle_fits] stopped_stored
  by (simp add: replay_records_def replay_record_def carries_session_def stopped_record_def um_set_def stopped_bundle stopped_fields)

text \<open>The replay of the stored session with a store that works.\<close>

lemma stopped_replay_session:
  fixes r st
  defines "host \<equiv> ch_runtime restart_host"
  assumes holds: "store_holds epoch created rs st" and small: "length (journal_file epoch created rs) \<le> 30000"
      "ps_max_record_bytes (sto_options st) = 4194304" "ps_max_journal_bytes (sto_options st) = 1073741824"
    and r: "authority_of r = authority_of empty_runtime" "rt_diagnostics r = diagnostic_store_init" "rt_epoch r = 4" "rt_sessions r = []"
  shows "\<exists>r' st'. replay_session strays host restart_disk (stored_bundle stopped_session empty_runtime) (r, st) = ((r', st'), Inr ()) \<and>
    rt_find (StrongId 1) r' = Some fenced_session"
proof -
  let ?b = "stored_bundle stopped_session empty_runtime"
  have b: "bd_session ?b = stopped_session" "restore_bundle strays ln ?b q = (q, Inr ())" for ln q
    by (simp_all add: stopped_bundle stopped_stored restore_bundle_def restore_text_def rt_try_def)
  let ?r1 = "r\<lparr>rt_session_ids := alloc_observe (StrongId 1) (rt_session_ids r)\<rparr>"
  have phase: "find_phase (StrongId 1) stopped_session = Some stopped_phase" "in_flight (pr_state stopped_phase)"
    by (simp_all add: find_phase_def stopped_fields um_find_def stopped_phase_def in_flight_def phase_state_retains_commit_authority_def)
  have now: "rh_now host = 7" by (simp add: host_def restart_host_def)
  obtain r2 where fence: "fence_all_in_flight host fencing_reason stopped_session ?r1 =
      (r2, put_phase (StrongId 1) (fenced_phase 7 fencing_reason stopped_phase) stopped_session)"
    and r2: "authority_of r2 = authority_of r" "rt_diagnostics r2 = rt_diagnostics r" "rt_epoch r2 = rt_epoch r" "rt_sessions r2 = rt_sessions r"
    using phase now by (simp add: fence_all_in_flight_def stopped_fields fence_phase_eq authority_of_def)
  have session: "restarted_session (rh_now host) (rt_epoch r2) (put_phase (StrongId 1) (fenced_phase 7 fencing_reason stopped_phase) stopped_session) = fenced_session"
    by (simp add: fenced_session_def now r2 r)
  let ?r3 = "fst (cancel_flag (StrongId 1) r2)"
  have r3: "authority_of ?r3 = authority_of empty_runtime" "rt_diagnostics ?r3 = diagnostic_store_init" "rt_sessions ?r3 = []"
    using r r2 by (simp_all add: cancel_flag_def authority_of_def split: option.split)
  note payload = payload_lengths(2) [OF r3(1,2)]
  have "disk_takes restart_disk (bytes_of_record (appended restart_disk (RK_session_state_changed, session_payload fenced_session ?r3) st))"
    using payload by (simp add: disk_takes_def restart_disk_def kRecordHeaderBytes_def)
  from append_succeeds [OF holds this] payload small obtain st' q where
    "store_append restart_disk RK_session_state_changed (session_payload fenced_session ?r3) st = (st', Inr q)" by auto
  then have persisted: "store_persist restart_disk fenced_session ?r3 st = (st', Inr ())" by (simp add: store_persist_def)
  obtain r4 where "persist_in host restart_disk fenced_session (?r3, st) = ((r4, st'), Inr ())" "rt_sessions r4 = []"
    using persisted r3(3) by (cases "rt_persistent ?r3") (auto simp: persist_in_def persist_def answering_def)
  then show ?thesis
    using b fence session by (simp add: replay_session_def fencing_reason_def [symmetric] stopped_fields fenced_session_fields Let_def rt_find_def um.find_emplace)
qed

definition restart_executor :: phase_executor where
  "restart_executor = \<lparr>pe_execute = (\<lambda>_ _ _ _. Inl (Status SC_unsupported [])), pe_cancel = (\<lambda>_ _. Inr ()), pe_describe = [], pe_remote = False\<rparr>"

lemma restart_created:
  "\<exists>r st. runtime_create restart_host [] restart_executor restart_options = Inr (r, st, 0) \<and> rt_find (StrongId 1) r = Some fenced_session"
proof -
  let ?ro = "resolve_options sample_host restart_options"
  obtain st0 where st0: "store_open restart_disk (rh_normal (ch_runtime restart_host)) (hp_join (rh_paths (ch_runtime restart_host)))
      (ch_create_directories restart_host) (ch_open_failure restart_host) (ch_journal restart_host) (ch_snapshot restart_host)
      (store_options ?ro) = Inr st0" "store_holds 3 2 [stopped_record] st0"
    and sizes: "ps_max_record_bytes (sto_options st0) = 4194304" "ps_max_journal_bytes (sto_options st0) = 1073741824"
      "ps_max_records_per_load (sto_options st0) = 1048576"
    using restart_store by blast
  note holds = st0(2) [unfolded store_holds_def]
  have load: "trustworthy (store_load st0)" "ds_runtime_epoch (store_load st0) = 3" "ds_records (store_load st0) = [stopped_record]"
    using load_whole [of st0 3 2 "[stopped_record]"] holds sizes by (simp_all add: trustworthy_def)
  have short: "length (journal_file 3 2 [stopped_record]) \<le> 20000" using stopped_journal(2) sizes by blast
  have disk: "dh_seek restart_disk" "dh_flush restart_disk" "48 \<le> dh_taken restart_disk" by (simp_all add: restart_disk_def)
  obtain st1 q where epoch: "record_epoch restart_disk restart_disk 4 st0 = (st1, Inr q)" "sto_options st1 = sto_options st0"
    using epoch_succeeds [OF st0(2) disk, of 4] sizes short by auto
  from epoch_holds [OF st0(2) epoch(1)] obtain created rec where st1: "store_holds 4 created [stopped_record, rec] st1"
    and rec: "length (jr_payload rec) = 8" by simp
  have "length (journal_file 4 created [stopped_record, rec]) \<le> 30000"
    using short rec by (simp add: length_journal_file kRecordHeaderBytes_def)
  moreover let ?r = "(runtime_impl ?ro)\<lparr>rt_persistent := True, rt_epoch := 4\<rparr>"
  have "authority_of ?r = authority_of empty_runtime" "rt_diagnostics ?r = diagnostic_store_init" "rt_epoch ?r = 4" "rt_sessions ?r = []"
    by (simp_all add: empty_runtime_def authority_of_def runtime_impl_def)
  ultimately obtain r2 st2 where replayed: "replay_session (ch_strays restart_host) (ch_runtime restart_host) restart_disk
      (stored_bundle stopped_session empty_runtime) (?r, st1) = ((r2, st2), Inr ())" "rt_find (StrongId 1) r2 = Some fenced_session"
    using stopped_replay_session [OF st1, of ?r "ch_strays restart_host"] epoch(2) sizes by auto
  have hosts: "rh_paths (ch_runtime restart_host) = sample_host" "ch_open_disk restart_host = restart_disk"
    "ch_epoch_disk restart_host = restart_disk" "ch_header_disk restart_host = restart_disk" "ch_session_disks restart_host 0 = restart_disk"
    "ch_create_directories restart_host = (\<lambda>_. None)"
    by (simp_all add: restart_host_def)
  have flags: "ro_recover_on_load ?ro" "ro_enable_persistence ?ro" "\<not> ro_register_builtin_adapters ?ro" "ro_state_directory restart_options \<noteq> []"
    by (simp_all add: resolve_options_def restart_options_def Let_def)
  have "\<exists>r3 st3. load_runtime restart_host ?ro (runtime_impl ?ro) = Inr (r3, st3, 0) \<and> rt_find (StrongId 1) r3 = Some fenced_session"
    unfolding load_runtime_def Let_def hosts(1-4) using st0(1) load epoch(1) replayed flags(1) hosts(5)
    by (simp add: hosts(1) recover_on_load_def stopped_replay note_evidence_def rt_find_def)
  then show ?thesis
    unfolding runtime_create_def Let_def hosts using flags by (auto simp: rt_find_def)
qed

section \<open>Claims\<close>

text \<open>C13: A runtime that has just been created holds no lease, and in every session it recovered no
  phase is between preparation and commit: what was in flight when the previous runtime stopped is
  fenced. The session carries the new epoch and, unless it was finished, has to be recovered.\<close>

theorem restart_fences_authority:
  assumes "runtime_create ch builtin executor options = Inr (r, st, defects)"
  shows "\<not> lease_is_held now lease (rt_leases r) \<and> (\<forall>sid s. rt_find sid r = Some s \<longrightarrow>
    cs_id s = sid \<and> cs_epoch s = StrongId (rt_epoch r) \<and> cs_state s \<in> {SS_recovering, SS_committed, SS_retired} \<and>
    (\<forall>pid \<in> set (pp_order (cs_plan s)). \<forall>p. find_phase pid s = Some p \<longrightarrow>
      pr_state p \<notin> {PS_preparing, PS_running, PS_produced, PS_validating, PS_commit_ready}))"
proof -
  note inv = create_spec(1) [OF assms, THEN conjunct1, unfolded restart_inv_def]
  have "\<not> lease_is_held now lease (rt_leases r)"
    using inv by (simp add: lease_is_held_def lease_find_def)
  moreover have "cs_id s = sid \<and> cs_epoch s = StrongId (rt_epoch r) \<and> cs_state s \<in> {SS_recovering, SS_committed, SS_retired} \<and>
    (\<forall>pid \<in> set (pp_order (cs_plan s)). \<forall>p. find_phase pid s = Some p \<longrightarrow>
      pr_state p \<notin> {PS_preparing, PS_running, PS_produced, PS_validating, PS_commit_ready})"
    if "rt_find sid r = Some s" for sid s
  proof -
    have "id_value (cs_id s) = id_value sid \<and> restarted_ok (rt_epoch r) s"
      using inv that by (auto simp: rt_find_def dest: um_all_find)
    then show ?thesis
      by (cases sid; cases "cs_id s")
        (auto simp: restarted_ok_def list_all_iff idle_def in_flight_def phase_state_retains_commit_authority_def split: option.splits)
  qed
  ultimately show ?thesis by blast
qed

theorem restart_fences_authority_witness:
  "\<exists>r st s p. runtime_create restart_host [] restart_executor restart_options = Inr (r, st, 0) \<and> rt_find (StrongId 1) r = Some s \<and>
    find_phase (StrongId 1) s = Some p \<and> pr_state stopped_phase = PS_commit_ready \<and> pr_state p \<noteq> PS_commit_ready \<and>
    cs_state s \<in> {SS_recovering, SS_committed, SS_retired}"
proof -
  obtain r st where created: "runtime_create restart_host [] restart_executor restart_options = Inr (r, st, 0)"
    and s: "rt_find (StrongId 1) r = Some fenced_session" using restart_created by blast
  obtain p where p: "find_phase (StrongId 1) fenced_session = Some p"
    by (simp add: find_phase_def fenced_session_fields um_find_def)
  have "StrongId 1 \<in> set (pp_order (cs_plan fenced_session))" by (simp add: fenced_session_fields stopped_fields)
  with restart_fences_authority [OF created] s p have "pr_state p \<noteq> PS_commit_ready" "cs_state fenced_session \<in> {SS_recovering, SS_committed, SS_retired}"
    by auto
  with created s p show ?thesis by (auto simp: stopped_phase_def)
qed



text \<open>A restart restores the identities of sessions but not those of their phases: the first phase
  identity a created runtime issues is 1 whatever phases it recovered, although a phase identity is
  meant to be unique over all sessions of the runtime.\<close>

lemma restart_reissues_phase_identities:
  assumes "runtime_create ch builtin executor options = Inr (r, st, defects)"
  shows "fst (alloc_next (rt_phase_ids r)) = StrongId 1"
  using create_spec(1) [OF assms] by (simp add: same_allocators_def runtime_impl_def alloc_next_def allocator_init_def)

text \<open>C17: The registered policy comes back with its first generation, whatever generation it had when it
  was stored. A session that was bound to the first generation of a policy since revised, and so was
  stale, is bound to the current policy again after a restart.\<close>

theorem restart_resets_policy_generation:
  assumes "policy_identity_fits x" "id_present (ri_id x)" "policy_validate (ri_spec x) = Inr ()"
    and "cs_policy s = Ref (ri_id x) gen_initial"
  shows "\<exists>r'. restore_text (decode_policy_identity strays) restore_policy (encode_policy_identity x) r = (r', Inr ()) \<and>
    ob_policy (observe r' s) = cs_policy s \<and> ob_policy_current (observe r' s)"
proof -
  obtain r' where r': "restore_text (decode_policy_identity strays) restore_policy (encode_policy_identity x) r = (r', Inr ())"
    "registry_ref (rt_policies r') (Ref (ri_id x) gen_initial) = Ref (ri_id x) gen_initial" "policy_find (ri_id x) (rt_policies r') \<noteq> None"
    using restored_policy [OF assms(1-3), of strays r gen_initial] by blast
  then show ?thesis using assms(4) by (auto simp: observe_def observation_default_def)
qed

definition revised_policy :: policy_identity where
  "revised_policy = \<lparr>ri_id = StrongId 1, ri_generation = Generation 2, ri_digest = digest_default, ri_spec = policy_spec_default\<rparr>"

theorem restart_resets_policy_generation_witness:
  "ri_generation revised_policy = Generation 2 \<and>
   (\<exists>r'. restore_text (decode_policy_identity (ch_strays restart_host)) restore_policy (encode_policy_identity revised_policy) empty_runtime =
     (r', Inr ()) \<and> ob_policy (observe r' (stopped_session\<lparr>cs_policy := Ref (StrongId 1) gen_initial\<rparr>)) = Ref (StrongId 1) gen_initial)"
proof -
  have "policy_identity_fits revised_policy" "id_present (ri_id revised_policy)" "policy_validate (ri_spec revised_policy) = Inr ()"
    by (simp_all add: policy_identity_fits_def revised_policy_def digest_fits_def digest_default_def policy_spec_fits_def
        policy_spec_default_def policy_validate_def kMaxRetriesCeiling_def id_present_def bound_simps)
  from restart_resets_policy_generation [OF this, of "stopped_session\<lparr>cs_policy := Ref (StrongId 1) gen_initial\<rparr>" "ch_strays restart_host" empty_runtime]
  show ?thesis by (auto simp: revised_policy_def)
qed

end
