(* ===== verification/Auditor.thy ===== *)
theory Auditor
  imports Runtime_Claims "HOL-Library.Product_Lexorder"
begin

text \<open>
  \<open>src/core/audit.cpp\<close>: the auditor that checks a runtime's tables against the invariants it names,
  its report, and \<open>Runtime::audit\<close>. A check contributes a list of violations, empty when it passes;
  the violations of one phase, one session and one audit are the concatenation in the order the code
  appends them.

  A clean audit has the consequences stated at the end, and some violations are excluded in every
  reachable runtime; a session that is retired after its phases committed is always reported.
\<close>

section \<open>Violations\<close>

datatype violation_code =
    VC_none | VC_duplicate_session_id | VC_non_monotonic_generation | VC_multiple_current_phase_states
  | VC_committed_phase_without_invocation | VC_committed_phase_stale_authority
  | VC_stale_invocation_retains_authority | VC_phase_consumes_uncommitted_input
  | VC_orphan_intermediate_authoritative | VC_final_candidate_incomplete_lineage
  | VC_duplicate_logical_phase_commit | VC_retired_phase_executable | VC_cancelled_phase_committed
  | VC_stale_process_result_current | VC_invalid_fan_in | VC_corrupt_persisted_state_accepted
  | VC_artifact_without_provenance | VC_plan_defect | VC_session_generation_regression
  | VC_authority_binding_mismatch | VC_diagnostic_set_orphan | VC_intermediate_consumable_without_valid_state
  | VC_candidate_without_validation_evidence | VC_illegal_phase_transition_recorded | VC_fenced_phase_committed
  | VC_lease_outstanding_after_retire | VC_live_process_for_retired_phase | VC_attempt_history_unbounded
  | VC_session_state_inconsistent | VC_recovery_state_inconsistent

fun violation_code_value :: "violation_code \<Rightarrow> nat" where
  "violation_code_value VC_none = 0"
| "violation_code_value VC_duplicate_session_id = 1"
| "violation_code_value VC_non_monotonic_generation = 2"
| "violation_code_value VC_multiple_current_phase_states = 3"
| "violation_code_value VC_committed_phase_without_invocation = 4"
| "violation_code_value VC_committed_phase_stale_authority = 5"
| "violation_code_value VC_stale_invocation_retains_authority = 6"
| "violation_code_value VC_phase_consumes_uncommitted_input = 7"
| "violation_code_value VC_orphan_intermediate_authoritative = 8"
| "violation_code_value VC_final_candidate_incomplete_lineage = 9"
| "violation_code_value VC_duplicate_logical_phase_commit = 10"
| "violation_code_value VC_retired_phase_executable = 11"
| "violation_code_value VC_cancelled_phase_committed = 12"
| "violation_code_value VC_stale_process_result_current = 13"
| "violation_code_value VC_invalid_fan_in = 14"
| "violation_code_value VC_corrupt_persisted_state_accepted = 15"
| "violation_code_value VC_artifact_without_provenance = 16"
| "violation_code_value VC_plan_defect = 17"
| "violation_code_value VC_session_generation_regression = 18"
| "violation_code_value VC_authority_binding_mismatch = 19"
| "violation_code_value VC_diagnostic_set_orphan = 20"
| "violation_code_value VC_intermediate_consumable_without_valid_state = 21"
| "violation_code_value VC_candidate_without_validation_evidence = 22"
| "violation_code_value VC_illegal_phase_transition_recorded = 23"
| "violation_code_value VC_fenced_phase_committed = 24"
| "violation_code_value VC_lease_outstanding_after_retire = 25"
| "violation_code_value VC_live_process_for_retired_phase = 26"
| "violation_code_value VC_attempt_history_unbounded = 27"
| "violation_code_value VC_session_state_inconsistent = 28"
| "violation_code_value VC_recovery_state_inconsistent = 29"

fun to_string_violation_code :: "violation_code \<Rightarrow> string" where
  "to_string_violation_code VC_none = ''none''"
| "to_string_violation_code VC_duplicate_session_id = ''duplicate-session-id''"
| "to_string_violation_code VC_non_monotonic_generation = ''non-monotonic-generation''"
| "to_string_violation_code VC_multiple_current_phase_states = ''multiple-current-phase-states''"
| "to_string_violation_code VC_committed_phase_without_invocation = ''committed-phase-without-invocation''"
| "to_string_violation_code VC_committed_phase_stale_authority = ''committed-phase-stale-authority''"
| "to_string_violation_code VC_stale_invocation_retains_authority = ''stale-invocation-retains-authority''"
| "to_string_violation_code VC_phase_consumes_uncommitted_input = ''phase-consumes-uncommitted-input''"
| "to_string_violation_code VC_orphan_intermediate_authoritative = ''orphan-intermediate-authoritative''"
| "to_string_violation_code VC_final_candidate_incomplete_lineage = ''final-candidate-incomplete-lineage''"
| "to_string_violation_code VC_duplicate_logical_phase_commit = ''duplicate-logical-phase-commit''"
| "to_string_violation_code VC_retired_phase_executable = ''retired-phase-executable''"
| "to_string_violation_code VC_cancelled_phase_committed = ''cancelled-phase-committed''"
| "to_string_violation_code VC_stale_process_result_current = ''stale-process-result-current''"
| "to_string_violation_code VC_invalid_fan_in = ''invalid-fan-in''"
| "to_string_violation_code VC_corrupt_persisted_state_accepted = ''corrupt-persisted-state-accepted''"
| "to_string_violation_code VC_artifact_without_provenance = ''artifact-without-provenance''"
| "to_string_violation_code VC_plan_defect = ''plan-defect''"
| "to_string_violation_code VC_session_generation_regression = ''session-generation-regression''"
| "to_string_violation_code VC_authority_binding_mismatch = ''authority-binding-mismatch''"
| "to_string_violation_code VC_diagnostic_set_orphan = ''diagnostic-set-orphan''"
| "to_string_violation_code VC_intermediate_consumable_without_valid_state =
     ''intermediate-consumable-without-valid-state''"
| "to_string_violation_code VC_candidate_without_validation_evidence = ''candidate-without-validation-evidence''"
| "to_string_violation_code VC_illegal_phase_transition_recorded = ''illegal-phase-transition-recorded''"
| "to_string_violation_code VC_fenced_phase_committed = ''fenced-phase-committed''"
| "to_string_violation_code VC_lease_outstanding_after_retire = ''lease-outstanding-after-retire''"
| "to_string_violation_code VC_live_process_for_retired_phase = ''live-process-for-retired-phase''"
| "to_string_violation_code VC_attempt_history_unbounded = ''attempt-history-unbounded''"
| "to_string_violation_code VC_session_state_inconsistent = ''session-state-inconsistent''"
| "to_string_violation_code VC_recovery_state_inconsistent = ''recovery-state-inconsistent''"

record audit_violation =
  av_code :: violation_code
  av_subject :: string
  av_detail :: string

text \<open>The pointers of the subject, null as \<open>None\<close>.\<close>

record audit_subject =
  as_sessions :: "compiler_session list option"
  as_artifacts :: "artifact_registry option"
  as_diagnostics :: "diagnostic_store option"
  as_provenance :: "provenance_log option"
  as_toolchains :: "toolchain_registry option"
  as_targets :: "target_registry option"
  as_environments :: "environment_registry option"
  as_policies :: "policy_registry option"
  as_sources :: "source_registry option"
  as_leases :: "lease_table option"
  as_processes :: "process_supervisor option"
  as_persisted_records_checked :: nat
  as_persisted_defects :: nat
  as_runtime_epoch :: u64

record audit_report =
  rp_violations :: "audit_violation list"
  rp_checks_run :: nat
  rp_sessions_audited :: nat
  rp_phases_audited :: nat
  rp_artifacts_audited :: nat
  rp_runtime_epoch :: u64
  rp_completed_at_nanos :: u64

definition zero_violations :: "audit_report \<Rightarrow> bool" where
  "zero_violations report = (rp_violations report = [])"

text \<open>\<open>if (condition) report.violations.push_back(...)\<close>\<close>

definition report_if :: "bool \<Rightarrow> violation_code \<Rightarrow> string \<Rightarrow> string \<Rightarrow> audit_violation list" where
  "report_if condition code subject detail =
     (if condition then [\<lparr>av_code = code, av_subject = subject, av_detail = detail\<rparr>] else [])"

section \<open>One phase\<close>

definition audit_transition :: "string \<Rightarrow> phase_transition list \<Rightarrow> nat \<Rightarrow> audit_violation list" where
  "audit_transition name history i =
     (let t = history ! i in
      report_if (\<not> is_legal_phase_transition (pt_from t) (pt_to t)) VC_illegal_phase_transition_recorded name
        (''recorded transition '' @ to_string_phase_state (pt_from t) @ '' -> '' @
         to_string_phase_state (pt_to t) @ '' is not legal'') @
      report_if (i \<noteq> 0 \<and> pt_to (history ! (i - 1)) \<noteq> pt_from t) VC_illegal_phase_transition_recorded name
        ''phase transition history is not contiguous'')"

definition audit_history :: "string \<Rightarrow> phase_record \<Rightarrow> audit_violation list" where
  "audit_history name p =
     concat (map (audit_transition name (pr_history p)) [0..<length (pr_history p)]) @
     report_if (pr_history p \<noteq> [] \<and> pt_to (last (pr_history p)) \<noteq> pr_state p) VC_illegal_phase_transition_recorded name
       ''phase state disagrees with its transition history''"

text \<open>\<open>pointer != nullptr && pointer->find(...) == nullptr\<close>\<close>

definition lacks :: "'r option \<Rightarrow> ('r \<Rightarrow> 'v option) \<Rightarrow> bool" where
  "lacks registry look = (case registry of None \<Rightarrow> False | Some m \<Rightarrow> look m = None)"

definition authority_mismatch :: "compiler_session \<Rightarrow> phase_record \<Rightarrow> bool" where
  "authority_mismatch s p =
     (pr_toolchain p \<noteq> cs_toolchain s \<or> pr_target p \<noteq> cs_target s \<or> pr_environment p \<noteq> cs_environment s \<or>
      pr_policy p \<noteq> cs_policy s \<or> pr_compilation_generation p \<noteq> cs_compilation_generation s)"

text \<open>The checks of a committed phase; the commit identities seen before it are the first argument.\<close>

definition audit_commit ::
  "commit_id list \<Rightarrow> audit_subject \<Rightarrow> compiler_session \<Rightarrow> string \<Rightarrow> phase_record \<Rightarrow> audit_violation list" where
  "audit_commit seen subject s name p =
     (if pr_state p \<noteq> PS_committed then []
      else report_if (\<not> id_present (pr_commit p) \<or> \<not> id_present (ref_id (pr_active_invocation p)) \<or> pr_attempts p = [])
             VC_committed_phase_without_invocation name
             ''committed phase has no commit identity, invocation, or attempt record'' @
           report_if (id_present (pr_commit p) \<and> pr_commit p \<in> set seen) VC_duplicate_logical_phase_commit name
             ''two phases share one commit identity'' @
           report_if (authority_mismatch s p) VC_committed_phase_stale_authority name
             ''committed phase is bound to authority generations the session no longer holds'' @
           report_if (id_present (ref_id (pr_toolchain p)) \<and>
               lacks (as_toolchains subject) (toolchain_find (ref_id (pr_toolchain p))))
             VC_authority_binding_mismatch name
             ''committed phase references a toolchain that is not registered'')"

definition audit_lifecycle :: "audit_subject \<Rightarrow> compiler_session \<Rightarrow> string \<Rightarrow> phase_record \<Rightarrow> audit_violation list" where
  "audit_lifecycle subject s name p =
     report_if (pr_state p = PS_cancelled \<and> id_present (pr_commit p)) VC_cancelled_phase_committed name
       ''cancelled phase carries a commit identity'' @
     report_if (pr_state p = PS_fenced \<and> id_present (pr_commit p)) VC_fenced_phase_committed name
       ''fenced phase carries a commit identity'' @
     report_if (pr_state p = PS_retired \<and> pr_mandatory p \<and> \<not> has_committed (pr_id p) s) VC_retired_phase_executable name
       ''mandatory phase was retired without committing'' @
     report_if (produced_pending_commit p \<and> \<not> id_present (ref_id (pr_active_invocation p)))
       VC_stale_invocation_retains_authority name ''phase holds pending output without an invocation identity'' @
     report_if (id_present (pr_active_process p) \<and> \<not> gen_present (pr_active_process_generation p))
       VC_stale_process_result_current name ''phase records a process without a generation'' @
     report_if (pr_state p = PS_running \<and> id_present (ref_id (pr_active_invocation p)) \<and> pr_attempts p = [])
       VC_stale_invocation_retains_authority name ''running phase has an invocation but no attempt record'' @
     report_if (id_present (ref_id (pr_diagnostics p)) \<and>
         lacks (as_diagnostics subject) (diagnostics_find (ref_id (pr_diagnostics p))))
       VC_diagnostic_set_orphan name ''phase references an unknown diagnostic set'' @
     report_if (id_present (ref_id (pr_toolchain p)) \<and>
         lacks (as_toolchains subject) (toolchain_find (ref_id (pr_toolchain p))))
       VC_authority_binding_mismatch name ''phase references an unregistered toolchain''"

definition audit_input :: "artifact_registry \<Rightarrow> compiler_session \<Rightarrow> string \<Rightarrow> intermediate_tag referenced \<Rightarrow> audit_violation list" where
  "audit_input artifacts s name input =
     (case artifact_find (ref_id input) artifacts of
        None \<Rightarrow> report_if True VC_phase_consumes_uncommitted_input name ''phase consumes an unregistered artifact''
      | Some a \<Rightarrow>
          report_if (case find_phase (ref_id (ia_producer_phase a)) s of
               None \<Rightarrow> True
             | Some producer \<Rightarrow> pr_state producer \<noteq> PS_committed \<or> pr_generation producer \<noteq> ref_gen (ia_producer_phase a))
            VC_phase_consumes_uncommitted_input name
            ''phase consumes output from a producer phase that is not committed'' @
          report_if (ia_authority a \<noteq> AU_authoritative) VC_phase_consumes_uncommitted_input name
            (''phase consumes artifact '' @ id_to_string ''intermediate'' (ia_id a) @ '' which carries authority '' @
             to_string_authority_state (ia_authority a) @ '' and state '' @ to_string_artifact_state (ia_state a) @
             '' (producer '' @ ref_to_string ''phase'' (ia_producer_phase a) @ '')''))"

definition audit_fan_in :: "compiler_session \<Rightarrow> string \<Rightarrow> phase_record \<Rightarrow> audit_violation list" where
  "audit_fan_in s name p =
     (if pr_state p \<noteq> PS_committed then []
      else case plan_find (pr_id p) (cs_plan s) of
        None \<Rightarrow> []
      | Some nd \<Rightarrow>
          report_if (pn_fan_in nd \<and> length (pr_inputs p) < unat (pn_required_inputs nd)) VC_invalid_fan_in name
            ''fan-in phase committed with fewer authoritative inputs than it declared'')"

definition audit_output :: "artifact_registry \<Rightarrow> string \<Rightarrow> phase_record \<Rightarrow> intermediate_tag referenced \<Rightarrow> audit_violation list" where
  "audit_output artifacts name p output =
     (case artifact_find (ref_id output) artifacts of
        None \<Rightarrow> report_if True VC_orphan_intermediate_authoritative name ''phase references an unregistered output''
      | Some a \<Rightarrow>
          report_if (ia_authority a = AU_authoritative \<and> pr_state p \<noteq> PS_committed) VC_orphan_intermediate_authoritative
            name ''phase that never committed produced an authoritative artifact'')"

definition audit_flow :: "audit_subject \<Rightarrow> compiler_session \<Rightarrow> string \<Rightarrow> phase_record \<Rightarrow> audit_violation list" where
  "audit_flow subject s name p =
     (case as_artifacts subject of None \<Rightarrow> [] | Some artifacts \<Rightarrow> concat (map (audit_input artifacts s name) (pr_inputs p))) @
     audit_fan_in s name p @
     (case as_artifacts subject of None \<Rightarrow> [] | Some artifacts \<Rightarrow> concat (map (audit_output artifacts name p) (pr_outputs p)))"

text \<open>The state of the loop over the phases of a session.\<close>

record audit_walk =
  aw_commit_ids :: "commit_id list"
  aw_in_flight :: nat
  aw_live_process_phases :: nat
  aw_report :: audit_report

definition add_violations :: "audit_violation list \<Rightarrow> audit_report \<Rightarrow> audit_report" where
  "add_violations vs report = report\<lparr>rp_violations := rp_violations report @ vs\<rparr>"

definition phase_name :: "compiler_session \<Rightarrow> phase_id \<Rightarrow> string" where
  "phase_name s i = id_to_string ''session'' (cs_id s) @ ''/'' @ id_to_string ''phase'' i"

definition phase_violations ::
  "commit_id list \<Rightarrow> audit_subject \<Rightarrow> compiler_session \<Rightarrow> phase_id \<Rightarrow> audit_violation list" where
  "phase_violations seen subject s i =
     (case find_phase i s of
        None \<Rightarrow> report_if True VC_plan_defect (phase_name s i) ''plan declares a phase with no phase record''
      | Some p \<Rightarrow>
          let name = phase_name s (pr_id p) in
          report_if (length (pr_attempts p) > kMaxPhaseAttempts) VC_attempt_history_unbounded name
            ''phase retained more attempts than the ceiling'' @
          audit_history name p @ audit_commit seen subject s name p @ audit_lifecycle subject s name p @
          audit_flow subject s name p)"

definition counts_in_flight :: "phase_record \<Rightarrow> bool" where
  "counts_in_flight p =
     (phase_state_retains_commit_authority (pr_state p) \<and> pr_state p \<noteq> PS_pending \<and> pr_state p \<noteq> PS_ready)"

definition audit_phase :: "audit_subject \<Rightarrow> compiler_session \<Rightarrow> audit_walk \<Rightarrow> phase_id \<Rightarrow> audit_walk" where
  "audit_phase subject s w i =
     (let report = add_violations (phase_violations (aw_commit_ids w) subject s i) (aw_report w);
          report' = report\<lparr>rp_checks_run := rp_checks_run report + 12, rp_phases_audited := rp_phases_audited report + 1\<rparr>
      in case find_phase i s of
        None \<Rightarrow> w\<lparr>aw_report := report'\<rparr>
      | Some p \<Rightarrow>
          \<lparr>aw_commit_ids = (if pr_state p = PS_committed \<and> id_present (pr_commit p) then pr_commit p # aw_commit_ids w
               else aw_commit_ids w),
           aw_in_flight = aw_in_flight w + of_bool (counts_in_flight p),
           aw_live_process_phases = aw_live_process_phases w + of_bool (phase_state_may_hold_process (pr_state p)),
           aw_report = report'\<rparr>)"

section \<open>One session\<close>

definition audit_leases :: "audit_subject \<Rightarrow> compiler_session \<Rightarrow> audit_violation list" where
  "audit_leases subject s =
     (if cs_state s \<noteq> SS_retired \<and> cs_state s \<noteq> SS_committed then []
      else case as_leases subject of
        None \<Rightarrow> []
      | Some leases \<Rightarrow>
          concat (map (\<lambda>l. report_if (ref_id (le_session l) = cs_id s \<and> le_held l) VC_lease_outstanding_after_retire
            (id_to_string ''session'' (cs_id s))
            (''session finished with a lease still held: '' @ id_to_string ''lease'' (le_id l))) (lease_list leases)))"

definition session_violations :: "audit_subject \<Rightarrow> compiler_session \<Rightarrow> audit_walk \<Rightarrow> audit_violation list" where
  "session_violations subject s w =
     (let name = id_to_string ''session'' (cs_id s) in
      report_if (cs_state s = SS_committed \<and> (\<not> all_mandatory_committed s \<or> \<not> cs_candidate_present s))
        VC_session_state_inconsistent name
        ''session is COMMITTED without every mandatory phase committed and a candidate present'' @
      report_if (cs_candidate_present s \<and> \<not> fc_complete_lineage (cs_candidate s)) VC_final_candidate_incomplete_lineage
        name ''final candidate has incomplete lineage'' @
      report_if (cs_candidate_present s \<and> fc_validation_evidence (cs_candidate s) = [])
        VC_candidate_without_validation_evidence name ''final candidate carries no validation evidence'' @
      report_if (cs_recovery_state s = RS_resolved \<and> \<not> id_present (cs_recovery s)) VC_recovery_state_inconsistent name
        ''recovery is marked resolved without a recovery id'' @
      report_if (cs_state s = SS_active \<and> aw_in_flight w > 0 \<and> aw_live_process_phases w = 0)
        VC_stale_process_result_current name
        ''session has in-flight phases but none is in a state that may hold a compiler process'' @
      audit_leases subject s @
      report_if ((case as_processes subject of None \<Rightarrow> False | Some v \<Rightarrow> live_count v > 0) \<and> cs_state s = SS_retired)
        VC_live_process_for_retired_phase name ''retired session still has live compiler processes'')"

definition audit_walk_phases :: "audit_subject \<Rightarrow> compiler_session \<Rightarrow> audit_report \<Rightarrow> audit_walk" where
  "audit_walk_phases subject s report =
     foldl (audit_phase subject s)
       \<lparr>aw_commit_ids = [], aw_in_flight = 0, aw_live_process_phases = 0, aw_report = report\<rparr> (pp_order (cs_plan s))"

definition audit_session :: "audit_subject \<Rightarrow> compiler_session \<Rightarrow> audit_report \<Rightarrow> audit_report" where
  "audit_session subject s report =
     (let w = audit_walk_phases subject s report;
          report' = add_violations (session_violations subject s w) (aw_report w)
      in report'\<lparr>rp_checks_run := rp_checks_run report' + (if cs_candidate_present s then 2 else 0) + 1\<rparr>)"

section \<open>The audit\<close>

definition audit_entry ::
  "audit_subject \<Rightarrow> session_id list \<times> audit_report \<Rightarrow> compiler_session \<Rightarrow> session_id list \<times> audit_report" where
  "audit_entry subject st s =
     (case st of (seen, report) \<Rightarrow>
       let name = id_to_string ''session'' (cs_id s);
           report1 = report\<lparr>rp_checks_run := rp_checks_run report + 5,
             rp_sessions_audited := rp_sessions_audited report + 1\<rparr>;
           report2 = add_violations
             (report_if (cs_id s \<in> set seen) VC_duplicate_session_id name ''two sessions share one identity'' @
              report_if (\<not> id_present (cs_id s) \<or> gen_value (cs_generation s) = 0) VC_session_generation_regression name
                ''session identity or generation is not established'' @
              report_if (length (pp_nodes (cs_plan s)) = 0) VC_plan_defect name ''session has an empty phase plan'') report1
       in (cs_id s # seen,
           if length (pp_nodes (cs_plan s)) = 0 then report2 else audit_session subject s report2))"

definition audit_artifact :: "audit_subject \<Rightarrow> intermediate_artifact \<Rightarrow> audit_violation list" where
  "audit_artifact subject a =
     (let name = id_to_string ''intermediate'' (ia_id a) in
      report_if (\<not> ia_current a \<and> ia_authority a = AU_authoritative) VC_intermediate_consumable_without_valid_state name
        ''artifact is authoritative but not marked current'' @
      report_if (ia_current a \<and> (ia_authority a \<noteq> AU_authoritative \<or> \<not> artifact_state_is_consumable (ia_state a)))
        VC_intermediate_consumable_without_valid_state name
        (''artifact is current while its state is '' @ to_string_artifact_state (ia_state a)) @
      (if ia_authority a \<noteq> AU_authoritative then []
       else if \<not> id_present (ia_provenance a)
       then report_if True VC_artifact_without_provenance name ''authoritative artifact has no provenance''
       else report_if (lacks (as_provenance subject) (provenance_find (ia_provenance a))) VC_artifact_without_provenance
         name ''authoritative artifact references an unknown provenance record''))"

definition audit_artifacts :: "audit_subject \<Rightarrow> audit_report \<Rightarrow> audit_report" where
  "audit_artifacts subject report =
     (case as_artifacts subject of
        None \<Rightarrow> report
      | Some artifacts \<Rightarrow>
          foldl (\<lambda>rp a. (add_violations (audit_artifact subject a) rp)
              \<lparr>rp_checks_run := rp_checks_run rp + 3, rp_artifacts_audited := rp_artifacts_audited rp + 1\<rparr>)
            report (artifact_list artifacts))"

definition audit :: "u64 \<Rightarrow> audit_subject \<Rightarrow> audit_report" where
  "audit now subject =
     (let report = \<lparr>rp_violations = report_if (as_persisted_defects subject \<noteq> 0) VC_corrupt_persisted_state_accepted
             ''runtime'' (''persisted state reported '' @ dec_string (as_persisted_defects subject) @ '' defects''),
           rp_checks_run = 1, rp_sessions_audited = 0, rp_phases_audited = 0, rp_artifacts_audited = 0,
           rp_runtime_epoch = as_runtime_epoch subject, rp_completed_at_nanos = now\<rparr>
      in case as_sessions subject of
        None \<Rightarrow> report
      | Some sessions \<Rightarrow>
          let report' = audit_artifacts subject (snd (foldl (audit_entry subject) ([], report) sessions))
          in (case as_processes subject of None \<Rightarrow> report' | Some _ \<Rightarrow> report'\<lparr>rp_checks_run := rp_checks_run report' + 1\<rparr>))"

definition render_violation :: "audit_violation \<Rightarrow> string" where
  "render_violation v =
     ''VIOLATION '' @ to_string_violation_code (av_code v) @ '' subject='' @ av_subject v @ '' detail='' @ av_detail v @
     [CHR 0x0A]"

definition report_render :: "audit_report \<Rightarrow> string" where
  "report_render report =
     (let sorted_violations =
        sort_key (\<lambda>v. (violation_code_value (av_code v), av_subject v, av_detail v)) (rp_violations report)
      in ''audit: sessions='' @ dec_string (rp_sessions_audited report) @ '' phases='' @
         dec_string (rp_phases_audited report) @ '' artifacts='' @ dec_string (rp_artifacts_audited report) @
         '' checks='' @ dec_string (rp_checks_run report) @ '' violations='' @ dec_string (length sorted_violations) @
         [CHR 0x0A] @ concat (map render_violation sorted_violations) @
         (if sorted_violations = [] then ''VIOLATIONS none'' @ [CHR 0x0A] else []))"

text \<open>
  \<open>Runtime::audit\<close>: the number of appended and of undecodable records are counters of the store and
  of the replay.
\<close>

definition runtime_audit :: "u64 \<Rightarrow> nat \<Rightarrow> nat \<Rightarrow> runtime \<Rightarrow> audit_report" where
  "runtime_audit now records defects r =
     audit now \<lparr>as_sessions = Some (list_sessions r), as_artifacts = Some (rt_artifacts r),
       as_diagnostics = Some (rt_diagnostics r), as_provenance = Some (rt_provenance r),
       as_toolchains = Some (rt_toolchains r), as_targets = Some (rt_targets r),
       as_environments = Some (rt_environments r), as_policies = Some (rt_policies r),
       as_sources = Some (rt_sources r), as_leases = Some (rt_leases r), as_processes = Some (rt_processes r),
       as_persisted_records_checked = (if rt_persistent r then records else 0), as_persisted_defects = defects,
       as_runtime_epoch = rt_epoch r\<rparr>"

section \<open>The violations of an audit\<close>

lemma in_report_if [simp]: "v \<in> set (report_if c code subject detail) \<longleftrightarrow>
    c \<and> v = \<lparr>av_code = code, av_subject = subject, av_detail = detail\<rparr>"
  by (auto simp: report_if_def)

lemma report_if_Nil [simp]: "report_if c code subject detail = [] \<longleftrightarrow> \<not> c"
  by (simp add: report_if_def)

lemma report_if_code: "v \<in> set (report_if c code subject detail) \<Longrightarrow> av_code v = code"
  by simp

lemma add_violations_fields [simp]: "rp_violations (add_violations vs report) = rp_violations report @ vs"
  by (simp add: add_violations_def)

text \<open>The commit identities met in a part of the plan, and the walk over it.\<close>

definition seen_commits :: "compiler_session \<Rightarrow> phase_id list \<Rightarrow> commit_id list" where
  "seen_commits s xs = rev (map pr_commit (filter (\<lambda>p. pr_state p = PS_committed \<and> id_present (pr_commit p))
     (List.map_filter (\<lambda>i. find_phase i s) xs)))"

definition walk_violations :: "audit_subject \<Rightarrow> compiler_session \<Rightarrow> phase_id list \<Rightarrow> audit_violation list" where
  "walk_violations subject s xs =
     concat (map (\<lambda>n. phase_violations (seen_commits s (take n xs)) subject s (xs ! n)) [0..<length xs])"

lemma walk_violations_snoc:
  "walk_violations subject s (xs @ [x]) = walk_violations subject s xs @ phase_violations (seen_commits s xs) subject s x"
proof -
  have "map (\<lambda>n. phase_violations (seen_commits s (take n (xs @ [x]))) subject s ((xs @ [x]) ! n)) [0..<length xs] =
    map (\<lambda>n. phase_violations (seen_commits s (take n xs)) subject s (xs ! n)) [0..<length xs]"
    by (rule map_cong) (auto simp: nth_append)
  moreover have "take (length xs) (xs @ [x]) = xs" by simp
  ultimately show ?thesis by (simp add: walk_violations_def del: take_append map_eq_conv)
qed

lemma walk_spec:
  assumes "w = foldl (audit_phase subject s)
    \<lparr>aw_commit_ids = [], aw_in_flight = 0, aw_live_process_phases = 0, aw_report = report\<rparr> xs"
  shows "aw_commit_ids w = seen_commits s xs"
    "rp_violations (aw_report w) = rp_violations report @ walk_violations subject s xs"
    "aw_in_flight w = length (filter counts_in_flight (List.map_filter (\<lambda>i. find_phase i s) xs))"
    "aw_live_process_phases w =
       length (filter (\<lambda>p. phase_state_may_hold_process (pr_state p)) (List.map_filter (\<lambda>i. find_phase i s) xs))"
  unfolding assms
proof (induction xs rule: rev_induct)
  case Nil
  case 1 show ?case by (simp add: seen_commits_def walk_violations_def map_filter_def)
  case 2 show ?case by (simp add: seen_commits_def walk_violations_def map_filter_def)
  case 3 show ?case by (simp add: seen_commits_def walk_violations_def map_filter_def)
  case 4 show ?case by (simp add: seen_commits_def walk_violations_def map_filter_def)
next
  case (snoc x xs)
  case 1 show ?case using snoc
    by (simp add: audit_phase_def Let_def seen_commits_def map_filter_def split: option.split)
  case 2 show ?case using snoc
    by (simp add: audit_phase_def Let_def walk_violations_snoc split: option.split)
  case 3 show ?case using snoc
    by (simp add: audit_phase_def Let_def map_filter_def split: option.split)
  case 4 show ?case using snoc
    by (simp add: audit_phase_def Let_def map_filter_def split: option.split)
qed

definition entry_violations :: "session_id list \<Rightarrow> audit_subject \<Rightarrow> compiler_session \<Rightarrow> audit_violation list" where
  "entry_violations seen subject s = rp_violations (snd (audit_entry subject (seen, \<lparr>rp_violations = [], rp_checks_run = 0,
     rp_sessions_audited = 0, rp_phases_audited = 0, rp_artifacts_audited = 0, rp_runtime_epoch = 0,
     rp_completed_at_nanos = 0\<rparr>) s))"

lemma session_violations_walk:
  "session_violations subject s (audit_walk_phases subject s report) =
   session_violations subject s (audit_walk_phases subject s report')"
  by (simp add: session_violations_def audit_walk_phases_def walk_spec [OF refl])

lemma audit_session_violations:
  "rp_violations (audit_session subject s report) = rp_violations report @ walk_violations subject s (pp_order (cs_plan s)) @
     session_violations subject s (audit_walk_phases subject s report')"
  unfolding audit_session_def Let_def
  by (simp add: audit_walk_phases_def walk_spec [OF refl] session_violations_walk [unfolded audit_walk_phases_def, of _ _ report report'])

lemma audit_entry_violations:
  "fst (audit_entry subject (seen, report) s) = cs_id s # seen"
  "rp_violations (snd (audit_entry subject (seen, report) s)) = rp_violations report @ entry_violations seen subject s"
  by (simp_all add: audit_entry_def entry_violations_def Let_def audit_session_violations [where report' = undefined])

lemma audit_entries_violations:
  "fst (foldl (audit_entry subject) (seen, report) ss) = rev (map cs_id ss) @ seen"
  "set (rp_violations (snd (foldl (audit_entry subject) (seen, report) ss))) = set (rp_violations report) \<union>
     (\<Union>n<length ss. set (entry_violations (rev (map cs_id (take n ss)) @ seen) subject (ss ! n)))"
proof (induction ss rule: rev_induct)
  case Nil
  case 1 show ?case by simp
  case 2 show ?case by simp
next
  case (snoc s ss)
  obtain seen' report' where st: "foldl (audit_entry subject) (seen, report) ss = (seen', report')" by fastforce
  case 1 show ?case using snoc by (simp add: st audit_entry_violations)
  case 2
  have "(\<Union>n<length ss. set (entry_violations (rev (map cs_id (take n (ss @ [s]))) @ seen) subject ((ss @ [s]) ! n))) =
    (\<Union>n<length ss. set (entry_violations (rev (map cs_id (take n ss)) @ seen) subject (ss ! n)))"
    by (rule SUP_cong) (auto simp: nth_append)
  then show ?case using snoc by (simp add: st audit_entry_violations lessThan_Suc Un_ac)
qed

lemma audit_artifacts_violations:
  "set (rp_violations (audit_artifacts subject report)) = set (rp_violations report) \<union>
     (case as_artifacts subject of None \<Rightarrow> {} | Some m \<Rightarrow> \<Union>a\<in>set (artifact_list m). set (audit_artifact subject a))"
proof -
  have "set (rp_violations (foldl (\<lambda>rp a. (add_violations (audit_artifact subject a) rp)
      \<lparr>rp_checks_run := rp_checks_run rp + 3, rp_artifacts_audited := rp_artifacts_audited rp + 1\<rparr>) report xs)) =
    set (rp_violations report) \<union> (\<Union>a\<in>set xs. set (audit_artifact subject a))" for xs
    by (induction xs arbitrary: report) auto
  then show ?thesis by (simp add: audit_artifacts_def split: option.split)
qed

abbreviation runtime_subject :: "nat \<Rightarrow> nat \<Rightarrow> runtime \<Rightarrow> audit_subject" where
  "runtime_subject records defects r \<equiv> \<lparr>as_sessions = Some (list_sessions r), as_artifacts = Some (rt_artifacts r),
       as_diagnostics = Some (rt_diagnostics r), as_provenance = Some (rt_provenance r),
       as_toolchains = Some (rt_toolchains r), as_targets = Some (rt_targets r),
       as_environments = Some (rt_environments r), as_policies = Some (rt_policies r),
       as_sources = Some (rt_sources r), as_leases = Some (rt_leases r), as_processes = Some (rt_processes r),
       as_persisted_records_checked = (if rt_persistent r then records else 0), as_persisted_defects = defects,
       as_runtime_epoch = rt_epoch r\<rparr>"

text \<open>The violations of a runtime's audit.\<close>

lemma runtime_audit_violations:
  "set (rp_violations (runtime_audit now records defects r)) =
     set (report_if (defects \<noteq> 0) VC_corrupt_persisted_state_accepted ''runtime''
       (''persisted state reported '' @ dec_string defects @ '' defects'')) \<union>
     (\<Union>n<length (list_sessions r). set (entry_violations (rev (map cs_id (take n (list_sessions r))))
       (runtime_subject records defects r) (list_sessions r ! n))) \<union>
     (\<Union>a\<in>set (artifact_list (rt_artifacts r)). set (audit_artifact (runtime_subject records defects r) a))"
  by (simp add: runtime_audit_def audit_def Let_def audit_artifacts_violations audit_entries_violations)

lemma entry_violations_split:
  "entry_violations seen subject s =
     report_if (cs_id s \<in> set seen) VC_duplicate_session_id (id_to_string ''session'' (cs_id s)) ''two sessions share one identity'' @
     report_if (\<not> id_present (cs_id s) \<or> gen_value (cs_generation s) = 0) VC_session_generation_regression
       (id_to_string ''session'' (cs_id s)) ''session identity or generation is not established'' @
     report_if (pp_nodes (cs_plan s) = []) VC_plan_defect (id_to_string ''session'' (cs_id s)) ''session has an empty phase plan'' @
     (if pp_nodes (cs_plan s) = [] then []
      else walk_violations subject s (pp_order (cs_plan s)) @
        session_violations subject s (audit_walk_phases subject s undefined))"
  by (simp add: entry_violations_def audit_entry_def Let_def audit_session_violations [where report' = undefined])

lemma in_walk_violations: "v \<in> set (walk_violations subject s xs) \<longleftrightarrow>
    (\<exists>ys i zs. xs = ys @ i # zs \<and> v \<in> set (phase_violations (seen_commits s ys) subject s i))"
proof
  assume "v \<in> set (walk_violations subject s xs)"
  then obtain n where "n < length xs" "v \<in> set (phase_violations (seen_commits s (take n xs)) subject s (xs ! n))"
    by (auto simp: walk_violations_def)
  then show "\<exists>ys i zs. xs = ys @ i # zs \<and> v \<in> set (phase_violations (seen_commits s ys) subject s i)"
    using id_take_nth_drop by blast
next
  assume "\<exists>ys i zs. xs = ys @ i # zs \<and> v \<in> set (phase_violations (seen_commits s ys) subject s i)"
  then obtain ys i zs where "xs = ys @ i # zs" "v \<in> set (phase_violations (seen_commits s ys) subject s i)" by blast
  then show "v \<in> set (walk_violations subject s xs)"
    by (auto simp: walk_violations_def intro!: bexI [of _ "length ys"])
qed

lemma in_seen_commits: "c \<in> set (seen_commits s xs) \<longleftrightarrow>
    (\<exists>i p. i \<in> set xs \<and> find_phase i s = Some p \<and> pr_state p = PS_committed \<and> id_present c \<and> pr_commit p = c)"
  by (force simp: seen_commits_def map_filter_def)

section \<open>What a clean audit shows\<close>

lemma clean_parts:
  assumes "zero_violations (runtime_audit now records defects r)" "s \<in> set (list_sessions r)"
  shows "defects = 0" "pp_nodes (cs_plan s) \<noteq> []"
    "walk_violations (runtime_subject records defects r) s (pp_order (cs_plan s)) = []"
    "session_violations (runtime_subject records defects r) s
       (audit_walk_phases (runtime_subject records defects r) s undefined) = []"
    "\<And>a. a \<in> set (artifact_list (rt_artifacts r)) \<Longrightarrow> audit_artifact (runtime_subject records defects r) a = []"
proof -
  have none: "set (rp_violations (runtime_audit now records defects r)) = {}"
    using assms(1) by (simp add: zero_violations_def)
  from assms(2) obtain n where "n < length (list_sessions r)" "list_sessions r ! n = s" by (auto simp: in_set_conv_nth)
  with none have "entry_violations (rev (map cs_id (take n (list_sessions r)))) (runtime_subject records defects r) s = []"
    unfolding runtime_audit_violations by (force simp del: set_empty simp: set_empty [symmetric])
  then show "pp_nodes (cs_plan s) \<noteq> []"
    "walk_violations (runtime_subject records defects r) s (pp_order (cs_plan s)) = []"
    "session_violations (runtime_subject records defects r) s
       (audit_walk_phases (runtime_subject records defects r) s undefined) = []"
    by (simp_all add: entry_violations_split split: if_splits)
  show "defects = 0" using none unfolding runtime_audit_violations by (simp split: if_splits)
  show "audit_artifact (runtime_subject records defects r) a = []" if "a \<in> set (artifact_list (rt_artifacts r))" for a
    using none that unfolding runtime_audit_violations by auto
qed

lemma clean_phase:
  assumes "walk_violations subject s xs = []" "xs = ys @ i # zs" "find_phase i s = Some p"
  shows "audit_commit (seen_commits s ys) subject s (phase_name s (pr_id p)) p = []"
    "audit_lifecycle subject s (phase_name s (pr_id p)) p = []" "audit_flow subject s (phase_name s (pr_id p)) p = []"
proof -
  have "phase_violations (seen_commits s ys) subject s i = []"
    using in_walk_violations [of _ subject s xs] assms(1,2) by (metis empty_iff last_in_set list.set(1))
  then show "audit_commit (seen_commits s ys) subject s (phase_name s (pr_id p)) p = []"
    "audit_lifecycle subject s (phase_name s (pr_id p)) p = []" "audit_flow subject s (phase_name s (pr_id p)) p = []"
    using assms(3) by (simp_all add: phase_violations_def Let_def)
qed

lemma in_artifact_list: "artifact_find i m = Some a \<Longrightarrow> a \<in> set (artifact_list m)"
  by (force simp: artifact_find_def artifact_list_def dest: um_find_mem)

text \<open>An artifact that is authoritative in a clean runtime can be consumed and has its provenance.\<close>

lemma clean_artifact:
  assumes "zero_violations (runtime_audit now records defects r)" "s \<in> set (list_sessions r)"
    "artifact_find i (rt_artifacts r) = Some a" "ia_authority a = AU_authoritative"
  shows "consumable a \<and> ia_current a \<and> provenance_find (ia_provenance a) (rt_provenance r) \<noteq> None"
  using clean_parts(5) [OF assms(1,2) in_artifact_list [OF assms(3)]] assms(4)
  by (auto simp: audit_artifact_def Let_def consumable_def lacks_def split: if_splits)

lemma clean_input:
  assumes "audit_input m s name input = []"
  obtains a producer where "artifact_find (ref_id input) m = Some a" "ia_authority a = AU_authoritative"
    "find_phase (ref_id (ia_producer_phase a)) s = Some producer" "pr_state producer = PS_committed"
    "pr_generation producer = ref_gen (ia_producer_phase a)"
  using assms by (auto simp: audit_input_def split: option.splits)

text \<open>Commit identities of a clean session are pairwise different.\<close>

lemma clean_commits_distinct:
  assumes "walk_violations subject s xs = []" "i \<in> set xs" "j \<in> set xs" "i \<noteq> j" "find_phase i s = Some p" "find_phase j s = Some q"
    "pr_state p = PS_committed" "pr_state q = PS_committed"
  shows "pr_commit p \<noteq> pr_commit q"
proof -
  have later: "pr_commit p \<noteq> pr_commit q"
    if "xs = ys @ j # zs" "i \<in> set ys" "find_phase i s = Some p" "find_phase j s = Some q" "pr_state p = PS_committed"
      "pr_state q = PS_committed" for ys zs i j p q
  proof -
    have "audit_commit (seen_commits s ys) subject s (phase_name s (pr_id q)) q = []"
      by (rule clean_phase(1) [OF assms(1) that(1,4)])
    then have "id_present (pr_commit q)" "pr_commit q \<notin> set (seen_commits s ys)"
      using that(6) by (auto simp: audit_commit_def)
    then show ?thesis using that(2,3,5) by (auto simp: in_seen_commits)
  qed
  from assms(3) obtain ys zs where split: "xs = ys @ j # zs" by (meson split_list)
  show ?thesis
  proof (cases "i \<in> set ys")
    case True
    then show ?thesis using later [OF split] assms by blast
  next
    case False
    with assms(2,4) split have "i \<in> set zs" by auto
    then obtain us vs where "zs = us @ i # vs" by (meson split_list)
    with split have "xs = (ys @ j # us) @ i # vs" by simp
    then have "pr_commit q \<noteq> pr_commit p" using later [of "ys @ j # us" i vs j q p] assms by auto
    then show ?thesis by simp
  qed
qed

section \<open>What no audit of a reachable runtime reports\<close>

text \<open>The violations each group of checks can report.\<close>

lemma audit_flow_codes:
  "v \<in> set (audit_input m s name input) \<Longrightarrow> av_code v = VC_phase_consumes_uncommitted_input"
  "v \<in> set (audit_fan_in s name p) \<Longrightarrow> av_code v = VC_invalid_fan_in"
  "v \<in> set (audit_output m name p output) \<Longrightarrow> av_code v = VC_orphan_intermediate_authoritative"
  by (auto simp: audit_input_def audit_fan_in_def audit_output_def split: option.split_asm if_splits)

lemma audit_codes:
  "v \<in> set (audit_history name p) \<Longrightarrow> av_code v = VC_illegal_phase_transition_recorded"
  "v \<in> set (audit_commit seen subject s name p) \<Longrightarrow> av_code v \<in> {VC_committed_phase_without_invocation,
     VC_duplicate_logical_phase_commit, VC_committed_phase_stale_authority, VC_authority_binding_mismatch}"
  "v \<in> set (audit_lifecycle subject s name p) \<Longrightarrow> av_code v \<in> {VC_cancelled_phase_committed, VC_fenced_phase_committed,
     VC_retired_phase_executable, VC_stale_invocation_retains_authority, VC_stale_process_result_current,
     VC_diagnostic_set_orphan, VC_authority_binding_mismatch}"
  "v \<in> set (audit_flow subject s name p) \<Longrightarrow> av_code v \<in> {VC_phase_consumes_uncommitted_input, VC_invalid_fan_in,
     VC_orphan_intermediate_authoritative}"
  "v \<in> set (session_violations subject s w) \<Longrightarrow> av_code v \<in> {VC_session_state_inconsistent,
     VC_final_candidate_incomplete_lineage, VC_candidate_without_validation_evidence, VC_recovery_state_inconsistent,
     VC_stale_process_result_current, VC_lease_outstanding_after_retire, VC_live_process_for_retired_phase}"
  "v \<in> set (audit_artifact subject a) \<Longrightarrow> av_code v \<in> {VC_intermediate_consumable_without_valid_state,
     VC_artifact_without_provenance}"
       apply (auto simp: audit_history_def audit_transition_def Let_def)[1]
      apply (auto simp: audit_commit_def split: if_splits)[1]
     apply (auto simp: audit_lifecycle_def)[1]
    apply (auto simp: audit_flow_def dest: audit_flow_codes split: option.split_asm)[1]
   apply (auto simp: session_violations_def audit_leases_def Let_def split: option.split_asm if_splits)[1]
  apply (auto simp: audit_artifact_def Let_def split: if_splits)[1]
  done

lemma history_clean:
  assumes "history_ok p"
  shows "audit_history name p = []"
proof -
  have "audit_transition name (pr_history p) i = []" if "i < length (pr_history p)" for i
  proof -
    have "pt_to (pr_history p ! (i - 1)) = pt_from (pr_history p ! i)" if "i \<noteq> 0"
      using assms that \<open>i < length (pr_history p)\<close> successively_nth [of "\<lambda>a b. pt_to a = pt_from b" "pr_history p" "i - 1"]
      by (simp add: history_ok_def)
    then show ?thesis using assms that by (auto simp: audit_transition_def Let_def history_ok_def list_all_length)
  qed
  then show ?thesis using assms by (auto simp: audit_history_def history_ok_def)
qed

lemma phase_violation_codes:
  assumes "v \<in> set (phase_violations seen subject s i)" "session_ok s"
  shows "av_code v \<notin> {VC_none, VC_duplicate_session_id, VC_non_monotonic_generation, VC_multiple_current_phase_states,
    VC_attempt_history_unbounded, VC_illegal_phase_transition_recorded}"
proof (cases "find_phase i s")
  case None
  then show ?thesis using assms(1) by (simp add: phase_violations_def)
next
  case (Some p)
  then have ok: "phase_ok p" using assms(2) by (auto simp: session_ok_def find_phase_def dest: um_all_find)
  let ?name = "phase_name s (pr_id p)"
  from assms(1) Some ok history_clean [of p] have "v \<in> set (audit_commit seen subject s ?name p) \<or>
      v \<in> set (audit_lifecycle subject s ?name p) \<or> v \<in> set (audit_flow subject s ?name p)"
    by (auto simp: phase_violations_def Let_def phase_ok_def)
  then show ?thesis by (elim disjE) (auto dest: audit_codes)
qed

lemma list_sessions_ok:
  assumes "sessions_ok (rt_sessions r) a"
  shows "distinct (map cs_id (list_sessions r))" "s \<in> set (list_sessions r) \<Longrightarrow> session_ok s"
proof -
  have "map id_value (map cs_id (map snd (rt_sessions r))) = map fst (rt_sessions r)"
    using assms by (auto simp: sessions_ok_def um_all_def)
  moreover have "distinct (map fst (rt_sessions r))"
    using assms by (simp add: sessions_ok_def id_table_ok_def um_ok_def)
  ultimately have "distinct (map cs_id (map snd (rt_sessions r)))" by (metis distinct_map)
  moreover have "mset (map cs_id (list_sessions r)) = mset (map cs_id (map snd (rt_sessions r)))"
    by (simp only: list_sessions_def mset_map mset_sort)
  ultimately show "distinct (map cs_id (list_sessions r))" using mset_eq_imp_distinct_iff by blast
  show "session_ok s" if "s \<in> set (list_sessions r)"
    using that assms by (auto simp: list_sessions_def sessions_ok_def um_all_def)
qed

lemma distinct_earlier: "distinct xs \<Longrightarrow> k < length xs \<Longrightarrow> xs ! k \<notin> set (take k xs)"
  by (auto simp: in_set_conv_nth nth_eq_iff_index_eq)

section \<open>Retirement\<close>

lemma retire_phase_step:
  assumes "find_phase i s = Some p"
  shows "find_phase i (snd (retire_phase host reason (r, s) x)) =
    Some (if x = i then record_transition (rh_now host) PS_retired reason p else p)"
proof (cases "find_phase x s")
  case None
  then show ?thesis using assms by (auto simp: retire_phase_def)
next
  case (Some q)
  then show ?thesis using assms by (auto simp: retire_phase_def record_transition_def)
qed

lemma retired_mandatory: "pr_mandatory (record_transition now next reason p) = pr_mandatory p"
  by (cases now "next" reason p rule: record_transition_cases) (simp_all add: append_transition_def)

lemma retire_phase_reaches:
  assumes "find_phase i s = Some p" "pr_mandatory p" "pr_id p = i"
  shows "\<exists>p'. find_phase i (snd (foldl (retire_phase host reason) (r, s) xs)) = Some p' \<and> pr_mandatory p' \<and> pr_id p' = i \<and>
    (i \<in> set xs \<or> pr_state p = PS_retired \<longrightarrow> pr_state p' = PS_retired)"
  using assms
proof (induction xs arbitrary: r s p)
  case (Cons x xs)
  let ?p = "if x = i then record_transition (rh_now host) PS_retired reason p else p"
  obtain r1 s1 where st: "retire_phase host reason (r, s) x = (r1, s1)" by fastforce
  then have "find_phase i s1 = Some ?p" using retire_phase_step [OF Cons.prems(1), of host reason r x] by simp
  moreover have "pr_mandatory ?p" "pr_id ?p = i" using Cons.prems by (simp_all add: retired_mandatory)
  ultimately obtain p' where "find_phase i (snd (foldl (retire_phase host reason) (r1, s1) xs)) = Some p'"
    "pr_mandatory p'" "pr_id p' = i" "i \<in> set xs \<or> pr_state ?p = PS_retired \<longrightarrow> pr_state p' = PS_retired"
    using Cons.IH by blast
  then show ?case using record_transition_state [of "rh_now host" PS_retired reason p] retire_target
    by (auto simp: st split: if_splits)
qed simp

text \<open>A retired mandatory phase is reported, whatever it was before.\<close>

lemma retired_reported:
  assumes "s \<in> set (list_sessions r)" "pp_nodes (cs_plan s) \<noteq> []" "i \<in> set (pp_order (cs_plan s))" "find_phase i s = Some p"
    "pr_id p = i" "pr_mandatory p" "pr_state p = PS_retired"
  shows "\<lparr>av_code = VC_retired_phase_executable, av_subject = phase_name s i,
      av_detail = ''mandatory phase was retired without committing''\<rparr> \<in> set (rp_violations (runtime_audit now records defects r))"
    (is "?v \<in> _")
proof -
  let ?subject = "runtime_subject records defects r"
  obtain n where n: "n < length (list_sessions r)" "list_sessions r ! n = s" using assms(1) by (auto simp: in_set_conv_nth)
  obtain ys zs where split: "pp_order (cs_plan s) = ys @ i # zs" using assms(3) by (meson split_list)
  have "?v \<in> set (audit_lifecycle ?subject s (phase_name s i) p)"
    using assms(4-7) by (simp add: audit_lifecycle_def has_committed_def)
  then have "?v \<in> set (phase_violations (seen_commits s ys) ?subject s i)"
    using assms(4,5) by (simp add: phase_violations_def Let_def)
  then have "?v \<in> set (walk_violations ?subject s (pp_order (cs_plan s)))" using split in_walk_violations by blast
  then have "?v \<in> set (entry_violations seen ?subject s)" for seen using assms(2) by (simp add: entry_violations_split)
  then show ?thesis unfolding runtime_audit_violations using n by blast
qed

lemma rt_find_workspaces: "rt_find sid (r\<lparr>rt_workspaces := m\<rparr>) = rt_find sid r"
  "rt_find sid (r\<lparr>rt_journal := j\<rparr>) = rt_find sid r"
  by (simp_all add: rt_find_def)

lemma retire_session_finds:
  assumes "rt_find sid r = Some s"
  obtains s' where "rt_find sid (fst (retire_session host sid reason r)) = Some s'" "cs_id s' = cs_id s"
    "cs_plan s' = cs_plan s" "\<And>i. find_phase i s' =
      find_phase i (snd (foldl (retire_phase host reason) (raise_cancel_flag sid r, s) (pp_order (cs_plan s))))"
proof -
  obtain r1 s1 where loop: "foldl (retire_phase host reason) (raise_cancel_flag sid r, s) (pp_order (cs_plan s)) = (r1, s1)"
    by fastforce
  have "loop_keeps (raise_cancel_flag sid r, s) (r1, s1)"
    unfolding loop [symmetric] by (rule loop_evolution.evolves_foldl [OF retire_phase_keeps])
  moreover have "rt_sessions (raise_cancel_flag sid r) = rt_sessions r"
    by (simp add: raise_cancel_flag_def cancel_flag_def Let_def split: option.split)
  ultimately have s1: "rt_find sid r1 = Some s" "cs_id s1 = cs_id s" "cs_plan s1 = cs_plan s"
    using assms by (auto simp: loop_keeps_def session_keeps_def rt_find_def)
  let ?s2 = "s1\<lparr>cs_state := SS_retired, cs_failure_detail := reason, cs_generation := gen_next (cs_generation s1),
    cs_updated_at_nanos := rh_now host\<rparr>"
  have "rt_find sid (fst (retire_session host sid reason r)) = Some ?s2"
  proof (cases host ?s2 "put_session sid ?s2 r1" rule: persist_cases)
    case off
    then show ?thesis using assms s1(1) by (simp add: retire_session_def loop Let_def rt_find_workspaces)
  next
    case (refused e)
    then show ?thesis using assms s1(1) by (simp add: retire_session_def loop Let_def)
  next
    case stored
    then show ?thesis using assms s1(1) by (simp add: retire_session_def loop Let_def rt_find_workspaces)
  qed
  moreover have "find_phase i ?s2 = find_phase i s1" for i by (simp add: find_phase_def)
  ultimately show thesis using that [of ?s2] s1 by (simp add: loop)
qed

text \<open>
  A phase on its way from the end of its process to its commit is in flight and may hold no process:
  while it is the only one the active session is reported.
\<close>

lemma settling_phase_reported:
  assumes "s \<in> set (list_sessions r)" "pp_nodes (cs_plan s) \<noteq> []" "cs_state s = SS_active" "i \<in> set (pp_order (cs_plan s))"
    "find_phase i s = Some p" "pr_state p \<in> {PS_produced, PS_validating, PS_commit_ready}"
    "\<And>j q. j \<in> set (pp_order (cs_plan s)) \<Longrightarrow> find_phase j s = Some q \<Longrightarrow> \<not> phase_state_may_hold_process (pr_state q)"
  shows "\<not> zero_violations (runtime_audit now records defects r)"
proof
  assume clean: "zero_violations (runtime_audit now records defects r)"
  let ?w = "audit_walk_phases (runtime_subject records defects r) s undefined"
  have "counts_in_flight p" using assms(6) by (auto simp: counts_in_flight_def phase_state_retains_commit_authority_def)
  then have "p \<in> set (filter counts_in_flight (List.map_filter (\<lambda>i. find_phase i s) (pp_order (cs_plan s))))"
    using assms(4,5) by (force simp: map_filter_def)
  then have "aw_in_flight ?w > 0"
    unfolding audit_walk_phases_def walk_spec(3) [OF refl] by (metis length_pos_if_in_set)
  moreover have "aw_live_process_phases ?w = 0"
    unfolding audit_walk_phases_def walk_spec(4) [OF refl]
    using assms(7) by (auto simp: map_filter_def filter_empty_conv)
  ultimately show False using clean_parts(4) [OF clean assms(1)] assms(3) by (simp add: session_violations_def Let_def)
qed

section \<open>Claims\<close>

text \<open>A session with one committed phase that passes the audit.\<close>

definition clean_phase_record :: phase_record where
  "clean_phase_record = sample_phase\<lparr>pr_state := PS_committed, pr_commit := StrongId 1,
     pr_toolchain := Ref (StrongId 1) gen_initial, pr_target := Ref (StrongId 1) gen_initial,
     pr_environment := Ref (StrongId 1) gen_initial, pr_policy := Ref (StrongId 1) gen_initial,
     pr_attempts := [phase_attempt_default]\<rparr>"

definition clean_runtime :: runtime where
  "clean_runtime = (sample_runtime True)\<lparr>rt_sessions := [(1, sample_session\<lparr>cs_phases := [(1, clean_phase_record)]\<rparr>)]\<rparr>"

lemma clean_runtime_sessions: "list_sessions clean_runtime = [sample_session\<lparr>cs_phases := [(1, clean_phase_record)]\<rparr>]"
  by (simp add: list_sessions_def clean_runtime_def)

lemma clean_runtime_passes: "zero_violations (runtime_audit 9 0 0 clean_runtime)"
proof -
  let ?s = "sample_session\<lparr>cs_phases := [(1, clean_phase_record)]\<rparr>"
  let ?subject = "runtime_subject 0 0 clean_runtime"
  have find: "find_phase (StrongId 1) ?s = Some clean_phase_record" by (simp add: find_phase_def um_find_def)
  have artifacts: "artifact_list (rt_artifacts clean_runtime) = map snd (ar_entries (rt_artifacts clean_runtime))"
    by (simp add: artifact_list_def clean_runtime_def sample_runtime_def)
  have toolchain: "toolchain_find (StrongId 1) (rt_toolchains clean_runtime) \<noteq> None"
    by (simp add: toolchain_find_def clean_runtime_def sample_runtime_def um_find_def)
  have phase: "phase_violations [] ?subject ?s (StrongId 1) = []"
    using toolchain unfolding phase_violations_def find option.case
    by (simp add: Let_def audit_history_def audit_commit_def audit_lifecycle_def audit_flow_def
        audit_fan_in_def audit_output_def authority_mismatch_def lacks_def clean_phase_record_def sample_phase_def
        phase_record_default_def sample_session_def session_default_def kMaxPhaseAttempts_def id_present_def gen_present_def
        produced_pending_commit_def plan_find_def sample_plan_def sample_node_def um_find_def artifact_find_def
        clean_runtime_def sample_runtime_def artifact_default_def id_absent_def ref_absent_def gen_absent_def)
  have "\<not> counts_in_flight clean_phase_record" "pp_order (cs_plan ?s) = [StrongId 1]"
    by (simp_all add: counts_in_flight_def clean_phase_record_def phase_state_retains_commit_authority_def sample_session_def
        sample_plan_def)
  then have "aw_in_flight (audit_walk_phases ?subject ?s undefined) = 0"
    unfolding audit_walk_phases_def walk_spec(3) [OF refl] by (simp add: map_filter_def find)
  then have session: "session_violations ?subject ?s (audit_walk_phases ?subject ?s undefined) = []"
    by (simp add: session_violations_def Let_def audit_leases_def sample_session_def session_default_def candidate_default_def)
  have "walk_violations ?subject ?s (pp_order (cs_plan ?s)) = []"
    using phase by (simp add: walk_violations_def sample_session_def sample_plan_def seen_commits_def map_filter_def)
  with session have "entry_violations [] ?subject ?s = []"
    by (simp add: entry_violations_split sample_session_def sample_plan_def session_default_def id_present_def gen_initial_def
        id_absent_def)
  moreover have "audit_artifact ?subject a = []" if "a \<in> set (artifact_list (rt_artifacts clean_runtime))" for a
    using that unfolding artifacts
    by (simp add: clean_runtime_def sample_runtime_def audit_artifact_def Let_def artifact_default_def)
  ultimately have "set (rp_violations (runtime_audit 9 0 0 clean_runtime)) = {}"
    unfolding runtime_audit_violations by (simp add: clean_runtime_sessions lessThan_Suc)
  then show ?thesis by (simp add: zero_violations_def)
qed

text \<open>
  C19: a runtime whose audit is clean has, for every planned phase of every session: a committed phase
  carries a commit identity no other planned phase has and is bound to the authority of its session;
  every input is a registered, current and valid artifact with a provenance record whose producer is
  committed in that session under the generation the artifact names; an output is registered and
  authoritative only if the phase is committed. A committed session has all its mandatory phases
  committed and a candidate with complete lineage and validation evidence, and holds no lease.
\<close>

theorem clean_audit_is_sound:
  assumes "zero_violations (runtime_audit now records defects r)" "s \<in> set (list_sessions r)"
    "i \<in> set (pp_order (cs_plan s))" "find_phase i s = Some p"
  shows "(pr_state p = PS_committed \<longrightarrow> id_present (pr_commit p) \<and> \<not> authority_mismatch s p \<and>
      (\<forall>j q. j \<in> set (pp_order (cs_plan s)) \<and> j \<noteq> i \<and> find_phase j s = Some q \<and> pr_state q = PS_committed \<longrightarrow>
        pr_commit q \<noteq> pr_commit p)) \<and>
    (\<forall>input \<in> set (pr_inputs p). \<exists>a producer. artifact_find (ref_id input) (rt_artifacts r) = Some a \<and> consumable a \<and>
      ia_current a \<and> provenance_find (ia_provenance a) (rt_provenance r) \<noteq> None \<and>
      find_phase (ref_id (ia_producer_phase a)) s = Some producer \<and> pr_state producer = PS_committed \<and>
      pr_generation producer = ref_gen (ia_producer_phase a)) \<and>
    (\<forall>out \<in> set (pr_outputs p). \<exists>a. artifact_find (ref_id out) (rt_artifacts r) = Some a \<and>
      (ia_authority a = AU_authoritative \<longrightarrow> pr_state p = PS_committed)) \<and>
    (cs_state s = SS_committed \<longrightarrow> all_mandatory_committed s \<and> cs_candidate_present s \<and>
      fc_complete_lineage (cs_candidate s) \<and> fc_validation_evidence (cs_candidate s) \<noteq> [] \<and>
      (\<forall>l \<in> set (lease_list (rt_leases r)). ref_id (le_session l) = cs_id s \<longrightarrow> \<not> le_held l))"
proof -
  note clean = clean_parts [OF assms(1,2)]
  from assms(3) obtain ys zs where split: "pp_order (cs_plan s) = ys @ i # zs" by (meson split_list)
  note phase = clean_phase [OF clean(3) split assms(4)]
  have "pr_commit q \<noteq> pr_commit p" if "pr_state p = PS_committed" "j \<in> set (pp_order (cs_plan s))" "j \<noteq> i"
      "find_phase j s = Some q" "pr_state q = PS_committed" for j q
    using clean_commits_distinct [OF clean(3) that(2) assms(3) that(3,4) assms(4) that(5,1)] .
  moreover have "id_present (pr_commit p) \<and> \<not> authority_mismatch s p" if "pr_state p = PS_committed"
    using phase(1) that by (simp add: audit_commit_def)
  moreover have "\<exists>a producer. artifact_find (ref_id input) (rt_artifacts r) = Some a \<and> consumable a \<and>
      ia_current a \<and> provenance_find (ia_provenance a) (rt_provenance r) \<noteq> None \<and>
      find_phase (ref_id (ia_producer_phase a)) s = Some producer \<and> pr_state producer = PS_committed \<and>
      pr_generation producer = ref_gen (ia_producer_phase a)" if "input \<in> set (pr_inputs p)" for input
  proof -
    have "audit_input (rt_artifacts r) s (phase_name s (pr_id p)) input = []" using phase(3) that by (simp add: audit_flow_def)
    then show ?thesis by (rule clean_input) (use clean_artifact [OF assms(1,2)] in blast)
  qed
  moreover have "\<exists>a. artifact_find (ref_id out) (rt_artifacts r) = Some a \<and>
      (ia_authority a = AU_authoritative \<longrightarrow> pr_state p = PS_committed)" if "out \<in> set (pr_outputs p)" for out
    using phase(3) that by (force simp: audit_flow_def audit_output_def split: option.splits)
  moreover have "all_mandatory_committed s \<and> cs_candidate_present s \<and> fc_complete_lineage (cs_candidate s) \<and>
      fc_validation_evidence (cs_candidate s) \<noteq> [] \<and>
      (\<forall>l \<in> set (lease_list (rt_leases r)). ref_id (le_session l) = cs_id s \<longrightarrow> \<not> le_held l)" if "cs_state s = SS_committed"
    using clean(4) that by (auto simp: session_violations_def audit_leases_def Let_def)
  ultimately show ?thesis by blast
qed

theorem clean_audit_is_sound_witness:
  "id_present (pr_commit clean_phase_record) \<and> list_sessions clean_runtime \<noteq> []"
proof -
  let ?s = "sample_session\<lparr>cs_phases := [(1, clean_phase_record)]\<rparr>"
  have "find_phase (StrongId 1) ?s = Some clean_phase_record" "StrongId 1 \<in> set (pp_order (cs_plan ?s))"
    "pr_state clean_phase_record = PS_committed"
    by (simp_all add: find_phase_def um_find_def sample_session_def sample_plan_def clean_phase_record_def)
  then show ?thesis
    using clean_audit_is_sound [OF clean_runtime_passes, of ?s "StrongId 1" clean_phase_record]
    by (simp add: clean_runtime_sessions)
qed



text \<open>
  C21: retiring a session makes the audit report each of its mandatory phases as retired without a
  commit, also a phase that is committed: the auditor asks for the current state of the phase.
\<close>

theorem retirement_fails_audit:
  assumes "rt_find sid r = Some s" "find_phase i s = Some p" "pr_state p = PS_committed" "pr_id p = i" "pr_mandatory p"
    "i \<in> set (pp_order (cs_plan s))" "pp_nodes (cs_plan s) \<noteq> []"
  shows "\<lparr>av_code = VC_retired_phase_executable, av_subject = phase_name s i,
      av_detail = ''mandatory phase was retired without committing''\<rparr>
    \<in> set (rp_violations (runtime_audit now records defects (fst (retire_session host sid reason r))))"
proof -
  obtain s' where s': "rt_find sid (fst (retire_session host sid reason r)) = Some s'" "cs_id s' = cs_id s"
    "cs_plan s' = cs_plan s" and same: "\<And>i. find_phase i s' =
      find_phase i (snd (foldl (retire_phase host reason) (raise_cancel_flag sid r, s) (pp_order (cs_plan s))))"
    using retire_session_finds [OF assms(1), of host reason] by blast
  obtain p' where "find_phase i s' = Some p'" "pr_mandatory p'" "pr_id p' = i" "pr_state p' = PS_retired"
    using retire_phase_reaches [OF assms(2,5,4), of host reason "raise_cancel_flag sid r" "pp_order (cs_plan s)"] assms(6) same
    by auto
  moreover have "s' \<in> set (list_sessions (fst (retire_session host sid reason r)))"
    using s'(1) by (force simp: rt_find_def list_sessions_def dest: um_find_mem)
  ultimately show ?thesis
    using retired_reported [of s' "fst (retire_session host sid reason r)" i p'] assms(6,7) s'
    by (simp add: phase_name_def)
qed

theorem retirement_fails_audit_witness:
  "\<not> zero_violations (runtime_audit 9 0 0 (fst (retire_session (sample_runtime_host None) (StrongId 1) ''done'' clean_runtime)))"
proof -
  let ?s = "sample_session\<lparr>cs_phases := [(1, clean_phase_record)]\<rparr>"
  have "rt_find (StrongId 1) clean_runtime = Some ?s" "find_phase (StrongId 1) ?s = Some clean_phase_record"
    "StrongId 1 \<in> set (pp_order (cs_plan ?s))" "pp_nodes (cs_plan ?s) \<noteq> []"
    by (simp_all add: rt_find_def clean_runtime_def find_phase_def um_find_def sample_session_def sample_plan_def)
  moreover have "pr_state clean_phase_record = PS_committed" "pr_id clean_phase_record = StrongId 1" "pr_mandatory clean_phase_record"
    by (simp_all add: clean_phase_record_def sample_phase_def phase_record_default_def)
  ultimately have "\<lparr>av_code = VC_retired_phase_executable, av_subject = phase_name ?s (StrongId 1),
      av_detail = ''mandatory phase was retired without committing''\<rparr> \<in> set (rp_violations (runtime_audit 9 0 0
        (fst (retire_session (sample_runtime_host None) (StrongId 1) ''done'' clean_runtime))))"
    by (intro retirement_fails_audit)
  then show ?thesis by (auto simp: zero_violations_def)
qed

end
