(* ===== verification/Protocol.thy ===== *)
theory Protocol
  imports Journal_Recovery
begin

text \<open>
  \<open>src/ipc/protocol.cpp\<close>: message types, the fields of a payload, frames with their checksums, the
  replay window of a connection and the exchange of a request for its reply. The socket is a
  parameter: the bytes it takes of a write, and the bytes that arrive. Sockets, name resolution and
  the listener are left out.
\<close>

section \<open>Message types\<close>

datatype message_type =
    MT_invalid | MT_hello | MT_hello_ack | MT_ping | MT_pong | MT_error | MT_create_session
    | MT_session_created | MT_query_session | MT_session_report | MT_list_sessions | MT_session_list
    | MT_prepare_workspace | MT_workspace_ready | MT_start_phase | MT_phase_started | MT_cancel_phase
    | MT_phase_cancelled | MT_report_process | MT_process_reported | MT_report_output | MT_output_reported
    | MT_commit_phase | MT_phase_committed | MT_fail_phase | MT_phase_failed | MT_retry_phase
    | MT_query_authority | MT_authority_report | MT_validate_artifact | MT_artifact_report
    | MT_query_diagnostics | MT_diagnostics_report | MT_recover_session | MT_recovery_report | MT_snapshot
    | MT_snapshot_report | MT_audit | MT_audit_report | MT_shutdown | MT_shutdown_ack | MT_refresh_toolchain
    | MT_toolchain_report | MT_invalidate_toolchain | MT_run_session | MT_session_ran

fun message_type_value :: "message_type \<Rightarrow> u16" where
  "message_type_value MT_invalid = 0"
| "message_type_value MT_hello = 1"
| "message_type_value MT_hello_ack = 2"
| "message_type_value MT_ping = 3"
| "message_type_value MT_pong = 4"
| "message_type_value MT_error = 5"
| "message_type_value MT_create_session = 10"
| "message_type_value MT_session_created = 11"
| "message_type_value MT_query_session = 12"
| "message_type_value MT_session_report = 13"
| "message_type_value MT_list_sessions = 14"
| "message_type_value MT_session_list = 15"
| "message_type_value MT_prepare_workspace = 20"
| "message_type_value MT_workspace_ready = 21"
| "message_type_value MT_start_phase = 22"
| "message_type_value MT_phase_started = 23"
| "message_type_value MT_cancel_phase = 24"
| "message_type_value MT_phase_cancelled = 25"
| "message_type_value MT_report_process = 26"
| "message_type_value MT_process_reported = 27"
| "message_type_value MT_report_output = 28"
| "message_type_value MT_output_reported = 29"
| "message_type_value MT_commit_phase = 30"
| "message_type_value MT_phase_committed = 31"
| "message_type_value MT_fail_phase = 32"
| "message_type_value MT_phase_failed = 33"
| "message_type_value MT_retry_phase = 34"
| "message_type_value MT_query_authority = 35"
| "message_type_value MT_authority_report = 36"
| "message_type_value MT_validate_artifact = 40"
| "message_type_value MT_artifact_report = 41"
| "message_type_value MT_query_diagnostics = 42"
| "message_type_value MT_diagnostics_report = 43"
| "message_type_value MT_recover_session = 44"
| "message_type_value MT_recovery_report = 45"
| "message_type_value MT_snapshot = 46"
| "message_type_value MT_snapshot_report = 47"
| "message_type_value MT_audit = 48"
| "message_type_value MT_audit_report = 49"
| "message_type_value MT_shutdown = 50"
| "message_type_value MT_shutdown_ack = 51"
| "message_type_value MT_refresh_toolchain = 52"
| "message_type_value MT_toolchain_report = 53"
| "message_type_value MT_invalidate_toolchain = 54"
| "message_type_value MT_run_session = 55"
| "message_type_value MT_session_ran = 56"

fun to_string_message_type :: "message_type \<Rightarrow> string" where
  "to_string_message_type MT_invalid = ''INVALID''"
| "to_string_message_type MT_hello = ''HELLO''"
| "to_string_message_type MT_hello_ack = ''HELLO_ACK''"
| "to_string_message_type MT_ping = ''PING''"
| "to_string_message_type MT_pong = ''PONG''"
| "to_string_message_type MT_error = ''ERROR''"
| "to_string_message_type MT_create_session = ''CREATE_SESSION''"
| "to_string_message_type MT_session_created = ''SESSION_CREATED''"
| "to_string_message_type MT_query_session = ''QUERY_SESSION''"
| "to_string_message_type MT_session_report = ''SESSION_REPORT''"
| "to_string_message_type MT_list_sessions = ''LIST_SESSIONS''"
| "to_string_message_type MT_session_list = ''SESSION_LIST''"
| "to_string_message_type MT_prepare_workspace = ''PREPARE_WORKSPACE''"
| "to_string_message_type MT_workspace_ready = ''WORKSPACE_READY''"
| "to_string_message_type MT_start_phase = ''START_PHASE''"
| "to_string_message_type MT_phase_started = ''PHASE_STARTED''"
| "to_string_message_type MT_cancel_phase = ''CANCEL_PHASE''"
| "to_string_message_type MT_phase_cancelled = ''PHASE_CANCELLED''"
| "to_string_message_type MT_report_process = ''REPORT_PROCESS''"
| "to_string_message_type MT_process_reported = ''PROCESS_REPORTED''"
| "to_string_message_type MT_report_output = ''REPORT_OUTPUT''"
| "to_string_message_type MT_output_reported = ''OUTPUT_REPORTED''"
| "to_string_message_type MT_commit_phase = ''COMMIT_PHASE''"
| "to_string_message_type MT_phase_committed = ''PHASE_COMMITTED''"
| "to_string_message_type MT_fail_phase = ''FAIL_PHASE''"
| "to_string_message_type MT_phase_failed = ''PHASE_FAILED''"
| "to_string_message_type MT_retry_phase = ''RETRY_PHASE''"
| "to_string_message_type MT_query_authority = ''QUERY_AUTHORITY''"
| "to_string_message_type MT_authority_report = ''AUTHORITY_REPORT''"
| "to_string_message_type MT_validate_artifact = ''VALIDATE_ARTIFACT''"
| "to_string_message_type MT_artifact_report = ''ARTIFACT_REPORT''"
| "to_string_message_type MT_query_diagnostics = ''QUERY_DIAGNOSTICS''"
| "to_string_message_type MT_diagnostics_report = ''DIAGNOSTICS_REPORT''"
| "to_string_message_type MT_recover_session = ''RECOVER_SESSION''"
| "to_string_message_type MT_recovery_report = ''RECOVERY_REPORT''"
| "to_string_message_type MT_snapshot = ''SNAPSHOT''"
| "to_string_message_type MT_snapshot_report = ''SNAPSHOT_REPORT''"
| "to_string_message_type MT_audit = ''AUDIT''"
| "to_string_message_type MT_audit_report = ''AUDIT_REPORT''"
| "to_string_message_type MT_shutdown = ''SHUTDOWN''"
| "to_string_message_type MT_shutdown_ack = ''SHUTDOWN_ACK''"
| "to_string_message_type MT_refresh_toolchain = ''REFRESH_TOOLCHAIN''"
| "to_string_message_type MT_toolchain_report = ''TOOLCHAIN_REPORT''"
| "to_string_message_type MT_invalidate_toolchain = ''INVALIDATE_TOOLCHAIN''"
| "to_string_message_type MT_run_session = ''RUN_SESSION''"
| "to_string_message_type MT_session_ran = ''SESSION_RAN''"

definition parse_message_type :: "u16 \<Rightarrow> message_type option" where
  "parse_message_type raw_type = map_of [
     (1, MT_hello), (2, MT_hello_ack), (3, MT_ping), (4, MT_pong), (5, MT_error), (10, MT_create_session),
     (11, MT_session_created), (12, MT_query_session), (13, MT_session_report), (14, MT_list_sessions),
     (15, MT_session_list), (20, MT_prepare_workspace), (21, MT_workspace_ready), (22, MT_start_phase),
     (23, MT_phase_started), (24, MT_cancel_phase), (25, MT_phase_cancelled), (26, MT_report_process),
     (27, MT_process_reported), (28, MT_report_output), (29, MT_output_reported), (30, MT_commit_phase),
     (31, MT_phase_committed), (32, MT_fail_phase), (33, MT_phase_failed), (34, MT_retry_phase),
     (35, MT_query_authority), (36, MT_authority_report), (40, MT_validate_artifact), (41, MT_artifact_report),
     (42, MT_query_diagnostics), (43, MT_diagnostics_report), (44, MT_recover_session),
     (45, MT_recovery_report), (46, MT_snapshot), (47, MT_snapshot_report), (48, MT_audit),
     (49, MT_audit_report), (50, MT_shutdown), (51, MT_shutdown_ack), (52, MT_refresh_toolchain),
     (53, MT_toolchain_report), (54, MT_invalidate_toolchain), (55, MT_run_session), (56, MT_session_ran)] raw_type"

section \<open>Messages\<close>

definition kFrameMagic :: u32 where "kFrameMagic = 0x31465243"
definition kFrameHeaderBytes :: nat where "kFrameHeaderBytes = 32"
definition kDefaultMaxFramePayload :: u32 where "kDefaultMaxFramePayload = 4194304"
definition kMaxFieldBytes :: nat where "kMaxFieldBytes = 1048576"

definition protocol_version_major :: u32 where "protocol_version_major = 1"
definition protocol_version_minor :: u32 where "protocol_version_minor = 0"

record message =
  mg_type :: message_type
  mg_flags :: u16
  mg_request_id :: u64
  mg_payload :: string

definition message_default :: message where
  "message_default = \<lparr>mg_type = MT_invalid, mg_flags = 0, mg_request_id = 0, mg_payload = []\<rparr>"

definition message_valid :: "message \<Rightarrow> bool" where
  "message_valid m = (mg_type m \<noteq> MT_invalid)"

definition protocol_malformed :: "string \<Rightarrow> status" where
  "protocol_malformed detail = Status SC_protocol_malformed detail"

section \<open>Fields\<close>

record field_writer =
  fw_buffer :: string
  fw_last_id :: u16
  fw_has_last :: bool

definition field_writer_init :: field_writer where
  "field_writer_init = \<lparr>fw_buffer = [], fw_last_id = 0, fw_has_last = False\<rparr>"

definition writer_emit :: "u16 \<Rightarrow> string \<Rightarrow> field_writer \<Rightarrow> field_writer" where
  "writer_emit i bytes w =
     (if fw_has_last w \<and> i \<le> fw_last_id w then w
      else \<lparr>fw_buffer = fw_buffer w @ enc_u16 i @ enc_u32 (of_nat (length bytes)) @ bytes, fw_last_id = i, fw_has_last = True\<rparr>)"

definition writer_u8 :: "u16 \<Rightarrow> u8 \<Rightarrow> field_writer \<Rightarrow> field_writer" where
  "writer_u8 i v = writer_emit i (enc_u8 v)"

definition writer_u16 :: "u16 \<Rightarrow> u16 \<Rightarrow> field_writer \<Rightarrow> field_writer" where
  "writer_u16 i v = writer_emit i (enc_u16 v)"

definition writer_u32 :: "u16 \<Rightarrow> u32 \<Rightarrow> field_writer \<Rightarrow> field_writer" where
  "writer_u32 i v = writer_emit i (enc_u32 v)"

definition writer_u64 :: "u16 \<Rightarrow> u64 \<Rightarrow> field_writer \<Rightarrow> field_writer" where
  "writer_u64 i v = writer_emit i (enc_u64 v)"

definition writer_boolean :: "u16 \<Rightarrow> bool \<Rightarrow> field_writer \<Rightarrow> field_writer" where
  "writer_boolean i v = writer_u8 i (if v then 1 else 0)"

definition writer_text :: "u16 \<Rightarrow> string \<Rightarrow> field_writer \<Rightarrow> field_writer" where
  "writer_text i v w = (if length v > kMaxFieldBytes then w else writer_emit i v w)"

definition writer_blob :: "u16 \<Rightarrow> string \<Rightarrow> field_writer \<Rightarrow> field_writer" where
  "writer_blob i v w = (if length v > kMaxFieldBytes then w else writer_emit i v w)"

text \<open>A reader: the unread part of the payload, the current field and the last identity.\<close>

record field_reader =
  fr_rest :: string
  fr_current_id :: u16
  fr_current_value :: string
  fr_last_id :: u16
  fr_has_last :: bool

definition field_reader_init :: "string \<Rightarrow> field_reader" where
  "field_reader_init payload = \<lparr>fr_rest = payload, fr_current_id = 0, fr_current_value = [], fr_last_id = 0, fr_has_last = False\<rparr>"

definition reader_next :: "field_reader \<Rightarrow> field_reader \<times> bool result" where
  "reader_next r =
     (let s = fr_rest r; i = get_u16 0 s; len = unat (get_u32 2 s) in
      if s = [] then (r, Inr False)
      else if length s < 6 then (r, Inl (protocol_malformed ''field header is truncated''))
      else if len > kMaxFieldBytes then (r, Inl (protocol_malformed ''field length exceeds the protocol ceiling''))
      else if fr_has_last r \<and> i \<le> fr_last_id r
        then (r, Inl (protocol_malformed ''field ids must be strictly ascending; duplicate or reordered field record''))
      else if len > length s - 6 then (r, Inl (protocol_malformed ''field value is truncated''))
      else (\<lparr>fr_rest = drop (6 + len) s, fr_current_id = i, fr_current_value = take len (drop 6 s), fr_last_id = i,
              fr_has_last = True\<rparr>, Inr True))"

definition as_u8 :: "field_reader \<Rightarrow> u8 result" where
  "as_u8 r = (if length (fr_current_value r) \<noteq> 1 then Inl (protocol_malformed ''field is not a u8'')
     else Inr (le_word (fr_current_value r)))"

definition as_u16 :: "field_reader \<Rightarrow> u16 result" where
  "as_u16 r = (if length (fr_current_value r) \<noteq> 2 then Inl (protocol_malformed ''field is not a u16'')
     else Inr (le_word (fr_current_value r)))"

definition as_u32 :: "field_reader \<Rightarrow> u32 result" where
  "as_u32 r = (if length (fr_current_value r) \<noteq> 4 then Inl (protocol_malformed ''field is not a u32'')
     else Inr (le_word (fr_current_value r)))"

definition as_u64 :: "field_reader \<Rightarrow> u64 result" where
  "as_u64 r = (if length (fr_current_value r) \<noteq> 8 then Inl (protocol_malformed ''field is not a u64'')
     else Inr (le_word (fr_current_value r)))"

definition as_bool :: "field_reader \<Rightarrow> bool result" where
  "as_bool r = (case as_u8 r of Inl e \<Rightarrow> Inl e | Inr v \<Rightarrow> Inr (v \<noteq> 0))"

definition as_text :: "field_reader \<Rightarrow> string result" where
  "as_text r = Inr (fr_current_value r)"

definition as_blob :: "field_reader \<Rightarrow> string result" where
  "as_blob r = Inr (fr_current_value r)"

definition reader_skip :: "field_reader \<Rightarrow> field_reader" where
  "reader_skip r = r\<lparr>fr_current_value := []\<rparr>"

definition reader_finish :: "field_reader \<Rightarrow> unit result" where
  "reader_finish r = (if fr_rest r \<noteq> [] then Inl (protocol_malformed ''message payload has trailing bytes'') else Inr ())"

text \<open>
  The loop every decoder of fields has: \<open>next()\<close>, stop at the end, otherwise look at the field, where
  a refusal ends the loop.
\<close>

lemma reader_next_shorter:
  assumes "reader_next r = (r', Inr True)"
  shows "length (fr_rest r') < length (fr_rest r)"
proof -
  have "fr_rest r' = drop (6 + unat (get_u32 2 (fr_rest r))) (fr_rest r)" "fr_rest r \<noteq> []"
    using assms by (auto simp: reader_next_def Let_def simp del: drop_drop split: if_split_asm)
  then show ?thesis by simp
qed

function (sequential) fields_loop :: "(field_reader \<Rightarrow> 'a \<Rightarrow> 'a result) \<Rightarrow> 'a \<Rightarrow> field_reader \<Rightarrow> ('a \<times> field_reader) result" where
  "fields_loop on_field acc r =
     (case reader_next r of
        (_, Inl e) \<Rightarrow> Inl e
      | (r', Inr available) \<Rightarrow>
          if \<not> available then Inr (acc, r')
          else case on_field r' acc of Inl e \<Rightarrow> Inl e | Inr acc' \<Rightarrow> fields_loop on_field acc' r')"
  by pat_completeness auto
termination by (relation "measure (\<lambda>(_, _, r). length (fr_rest r))") (auto dest: reader_next_shorter [OF sym])

declare fields_loop.simps [simp del]

text \<open>The loop followed by \<open>finish()\<close>.\<close>

definition read_fields :: "(field_reader \<Rightarrow> 'a \<Rightarrow> 'a result) \<Rightarrow> 'a \<Rightarrow> string \<Rightarrow> 'a result" where
  "read_fields on_field acc payload =
     (case fields_loop on_field acc (field_reader_init payload) of
        Inl e \<Rightarrow> Inl e
      | Inr (acc', r) \<Rightarrow> (case reader_finish r of Inl e \<Rightarrow> Inl e | Inr _ \<Rightarrow> Inr acc'))"

section \<open>Connections\<close>

record connection_options =
  no_max_frame_payload :: u32
  no_io_timeout_millis :: u32
  no_replay_window :: nat
  no_tcp_no_delay :: bool

definition connection_options_default :: connection_options where
  "connection_options_default = \<lparr>no_max_frame_payload = kDefaultMaxFramePayload, no_io_timeout_millis = 30000,
     no_replay_window = 4096, no_tcp_no_delay = True\<rparr>"

record connection =
  cn_open :: bool
  cn_peer :: string
  cn_options :: connection_options
  cn_rejected :: u64
  cn_recent_requests :: "u64 list"
  cn_recent_set :: "u64 set"

definition connection_adopt :: "string \<Rightarrow> connection_options \<Rightarrow> connection" where
  "connection_adopt peer options = \<lparr>cn_open = True, cn_peer = peer, cn_options = options, cn_rejected = 0,
     cn_recent_requests = [], cn_recent_set = {}\<rparr>"

definition connection_close :: "connection \<Rightarrow> connection" where
  "connection_close c = c\<lparr>cn_open := False\<rparr>"

definition is_replay :: "u64 \<Rightarrow> connection \<Rightarrow> bool" where
  "is_replay i c = (i \<in> cn_recent_set c)"

fun trim_window :: "nat \<Rightarrow> u64 list \<Rightarrow> u64 set \<Rightarrow> u64 list \<times> u64 set" where
  "trim_window window [] seen = ([], seen)"
| "trim_window window (oldest # rest) seen =
     (if length (oldest # rest) > window then trim_window window rest (seen - {oldest}) else (oldest # rest, seen))"

definition note_request :: "u64 \<Rightarrow> connection \<Rightarrow> connection \<times> bool" where
  "note_request i c =
     (if i = 0 then (c, True)
      else if i \<in> cn_recent_set c then (c, False)
      else case trim_window (no_replay_window (cn_options c)) (cn_recent_requests c @ [i]) (insert i (cn_recent_set c)) of
        (recent, seen) \<Rightarrow> (c\<lparr>cn_recent_requests := recent, cn_recent_set := seen\<rparr>, True))"

section \<open>Frames\<close>

definition frame_front :: "message \<Rightarrow> string" where
  "frame_front m =
     enc_u32 kFrameMagic @ enc_u32 (protocol_version_major OR push_bit 16 protocol_version_minor) @
     enc_u32 (ucast (message_type_value (mg_type m)) OR push_bit 16 (ucast (mg_flags m))) @
     enc_u32 (ucast (mg_request_id m AND 0xFFFFFFFF)) @ enc_u32 (ucast (drop_bit 32 (mg_request_id m))) @
     enc_u32 (of_nat (length (mg_payload m))) @ enc_u32 (crc32c (mg_payload m))"

definition frame_header :: "message \<Rightarrow> string" where
  "frame_header m = frame_front m @ enc_u32 (crc32c (frame_front m))"

definition frame_bytes :: "message \<Rightarrow> string" where
  "frame_bytes m = frame_header m @ mg_payload m"

text \<open>
  \<open>send\<close>: the bytes that reach the wire and the result; the socket takes the first \<open>taken\<close> bytes it is
  given before a call of it fails.
\<close>

definition connection_send :: "nat \<Rightarrow> message \<Rightarrow> connection \<Rightarrow> string \<times> unit result" where
  "connection_send taken m c =
     (if \<not> cn_open c then ([], Inl (Status SC_protocol_peer_closed ''connection is closed''))
      else if length (mg_payload m) > unat (no_max_frame_payload (cn_options c))
        then ([], Inl (Status SC_protocol_frame_too_large ''outbound payload exceeds the configured frame ceiling''))
      else if taken < length (frame_bytes m) then (take taken (frame_bytes m), Inl (Status SC_protocol_io ''frame send failed''))
      else (frame_bytes m, Inr ()))"

text \<open>
  \<open>receive\<close>: \<open>wire\<close> is what arrives before a call of the socket fails or the peer closes; the result
  has what is left of it. A read that cannot be satisfied consumes what there is.
\<close>

definition reject_frame :: "connection \<Rightarrow> connection" where
  "reject_frame c = c\<lparr>cn_rejected := cn_rejected c + 1\<rparr>"

definition connection_receive :: "connection \<Rightarrow> string \<Rightarrow> connection \<times> string \<times> message result" where
  "connection_receive c wire =
     (if \<not> cn_open c then (c, wire, Inl (Status SC_protocol_peer_closed ''connection is closed''))
      else if length wire < kFrameHeaderBytes
        then (reject_frame c, [], Inl (Status SC_protocol_frame_truncated ''frame header was not received in full''))
      else
        let header = take kFrameHeaderBytes wire; body = drop kFrameHeaderBytes wire;
            payload_length = unat (get_u32 20 header) in
        if get_u32 0 header \<noteq> kFrameMagic then (reject_frame c, body, Inl (protocol_malformed ''frame magic is invalid''))
        else if get_u32 28 header \<noteq> crc32c (take 28 header)
          then (reject_frame c, body, Inl (protocol_malformed ''frame header checksum failed''))
        else if get_u32 4 header AND 0xFFFF \<noteq> protocol_version_major
          then (reject_frame c, body, Inl (Status SC_protocol_version_mismatch ''frame protocol major version mismatch''))
        else if payload_length > unat (no_max_frame_payload (cn_options c))
          then (reject_frame c, body, Inl (Status SC_protocol_frame_too_large ''inbound payload exceeds the configured frame ceiling''))
        else case parse_message_type (ucast (get_u32 8 header AND 0xFFFF)) of
            None \<Rightarrow> (reject_frame c, body, Inl (protocol_malformed ''frame carries an unknown message type''))
          | Some type \<Rightarrow>
              if payload_length \<noteq> 0 \<and> length body < payload_length
                then (reject_frame c, [], Inl (Status SC_protocol_frame_truncated ''frame payload was not received in full''))
              else let payload = take payload_length body; rest = drop payload_length body in
                if crc32c payload \<noteq> get_u32 24 header
                  then (reject_frame c, rest, Inl (protocol_malformed ''frame payload checksum failed''))
                else (c, rest, Inr \<lparr>mg_type = type, mg_flags = ucast (drop_bit 16 (get_u32 8 header) AND 0xFFFF),
                  mg_request_id = ucast (get_u32 12 header) OR push_bit 32 (ucast (get_u32 16 header)),
                  mg_payload = payload\<rparr>))"

text \<open>\<open>transact\<close>: a request, then frames until one carries its identity.\<close>

lemma receive_consumes: "connection_receive c wire = (c', wire', Inr m) \<Longrightarrow> length wire' < length wire"
  by (auto simp: connection_receive_def Let_def kFrameHeaderBytes_def split: if_splits option.splits)

function await_reply :: "u64 \<Rightarrow> connection \<Rightarrow> string \<Rightarrow> connection \<times> string \<times> message result" where
  "await_reply i c wire =
     (case connection_receive c wire of
        (c', wire', Inl e) \<Rightarrow> (c', wire', Inl e)
      | (c', wire', Inr m) \<Rightarrow> if mg_request_id m = i then (c', wire', Inr m) else await_reply i c' wire')"
  by pat_completeness auto
termination by (relation "measure (\<lambda>(_, _, wire). length wire)") (auto dest: receive_consumes [OF sym])

declare await_reply.simps [simp del]

definition transact :: "nat \<Rightarrow> message \<Rightarrow> connection \<Rightarrow> string \<Rightarrow> string \<times> connection \<times> string \<times> message result" where
  "transact taken request c wire =
     (case connection_send taken request c of
        (sent, Inl e) \<Rightarrow> (sent, c, wire, Inl e)
      | (sent, Inr _) \<Rightarrow> (sent, await_reply (mg_request_id request) c wire))"

section \<open>A frame is read back\<close>

lemma parse_message_type_value: "t \<noteq> MT_invalid \<Longrightarrow> parse_message_type (message_type_value t) = Some t"
  by (cases t) (simp_all add: parse_message_type_def)

lemma and_low [simp]: "(w :: u32) AND 0xFFFF = take_bit 16 w" "(v :: u64) AND 0xFFFFFFFF = take_bit 32 v"
  by (simp_all add: take_bit_eq_mask mask_eq_exp_minus_1)

lemma halves:
  "take_bit 16 (ucast (a :: u16) :: u32) OR take_bit 16 (push_bit 16 (ucast (b :: u16))) = ucast a"
  "take_bit 16 (drop_bit 16 (ucast (a :: u16) :: u32)) OR take_bit 16 (drop_bit 16 (push_bit 16 (ucast (b :: u16)))) = ucast b"
  by (rule bit_word_eqI, auto simp: bit_simps dest: bit_imp_le_length)+

lemma ucast_u16_u32 [simp]: "ucast (ucast (a :: u16) :: u32) = a"
  by (rule bit_word_eqI) (auto simp: bit_simps dest: bit_imp_le_length)

lemma split_u64: "(ucast (ucast (take_bit 32 v) :: u32) OR push_bit 32 (ucast (ucast (drop_bit 32 v) :: u32)) :: u64) = v"
  by (rule bit_word_eqI) (auto simp: bit_simps dest: bit_imp_le_length)

lemma length_frame_front [simp]: "length (frame_front m) = 28"
  by (simp add: frame_front_def)

lemma length_frame_header [simp]: "length (frame_header m) = kFrameHeaderBytes"
  by (simp add: frame_header_def kFrameHeaderBytes_def)

lemma length_frame_bytes [simp]: "length (frame_bytes m) = kFrameHeaderBytes + length (mg_payload m)"
  by (simp add: frame_bytes_def)

lemma frame_fields:
  "get_u32 0 (frame_header m) = kFrameMagic" "take_bit 16 (get_u32 4 (frame_header m)) = protocol_version_major"
  "take_bit 16 (get_u32 8 (frame_header m)) = ucast (message_type_value (mg_type m))"
  "take_bit 16 (drop_bit 16 (get_u32 8 (frame_header m))) = ucast (mg_flags m)"
  "ucast (get_u32 12 (frame_header m)) OR push_bit 32 (ucast (get_u32 16 (frame_header m))) = mg_request_id m"
  "get_u32 20 (frame_header m) = of_nat (length (mg_payload m))" "get_u32 24 (frame_header m) = crc32c (mg_payload m)"
  "get_u32 28 (frame_header m) = crc32c (take 28 (frame_header m))"
  by (simp_all add: frame_header_def frame_front_def get_defs halves split_u64 protocol_version_major_def protocol_version_minor_def)

definition message_fits :: "connection_options \<Rightarrow> message \<Rightarrow> bool" where
  "message_fits options m = (message_valid m \<and> length (mg_payload m) \<le> unat (no_max_frame_payload options))"

lemma payload_length:
  assumes "message_fits options m"
  shows "unat (of_nat (length (mg_payload m)) :: u32) = length (mg_payload m)"
proof -
  have "length (mg_payload m) < 2 ^ 32"
    using assms unsigned_less [of "no_max_frame_payload options", where ?'a = nat] by (simp add: message_fits_def)
  then show ?thesis by (simp add: unsigned_of_nat take_bit_nat_eq_self)
qed

lemma receive_header:
  assumes "cn_open c" "message_fits (cn_options c) m" "length payload = length (mg_payload m)"
  shows "connection_receive c (frame_header m @ payload @ rest) =
    (if crc32c payload \<noteq> crc32c (mg_payload m)
     then (reject_frame c, rest, Inl (protocol_malformed ''frame payload checksum failed''))
     else (c, rest, Inr (m\<lparr>mg_payload := payload\<rparr>)))"
proof -
  have "take kFrameHeaderBytes (frame_header m @ payload @ rest) = frame_header m"
    "drop kFrameHeaderBytes (frame_header m @ payload @ rest) = payload @ rest" by simp_all
  moreover have "parse_message_type (message_type_value (mg_type m)) = Some (mg_type m)"
    using assms(2) by (simp add: parse_message_type_value message_fits_def message_valid_def)
  ultimately show ?thesis
    using assms unfolding connection_receive_def Let_def
    by (simp add: frame_fields payload_length [OF assms(2)] message_fits_def)
qed

lemma receive_frame:
  assumes "cn_open c" "message_fits (cn_options c) m"
  shows "connection_receive c (frame_bytes m @ rest) = (c, rest, Inr m)"
  using receive_header [OF assms refl] by (simp add: frame_bytes_def)

text \<open>A frame on an open connection is a codec of messages.\<close>

definition decode_frame :: "connection \<Rightarrow> string \<Rightarrow> (message \<times> string) option" where
  "decode_frame c wire = (case connection_receive c wire of (_, rest, Inr m) \<Rightarrow> Some (m, rest) | _ \<Rightarrow> None)"

interpretation frame_codec: codec frame_bytes "decode_frame c" "\<lambda>m. cn_open c \<and> message_fits (cn_options c) m" for c
  by unfold_locales (simp add: decode_frame_def receive_frame)

text \<open>A request gets its reply, whatever other frames arrive before it.\<close>

lemma await_reply_skips:
  assumes "cn_open c" "list_all (\<lambda>m. message_fits (cn_options c) m \<and> mg_request_id m \<noteq> i) ms"
    "message_fits (cn_options c) reply" "mg_request_id reply = i"
  shows "await_reply i c (concat (map frame_bytes ms) @ frame_bytes reply @ rest) = (c, rest, Inr reply)"
  using assms(2)
proof (induction ms)
  case Nil
  then show ?case using assms by (simp add: await_reply.simps receive_frame)
next
  case (Cons m ms)
  then show ?case
    using assms(1) by (simp add: await_reply.simps [of i c "frame_bytes m @ _"] receive_frame)
qed

section \<open>A damaged frame is refused\<close>

lemma refused_header:
  assumes "cn_open c" "kFrameHeaderBytes \<le> length wire" "get_u32 28 wire \<noteq> crc32c (take 28 wire)"
  shows "\<exists>rest e. connection_receive c wire = (reject_frame c, rest, Inl e)"
proof -
  have "get_u32 28 (take kFrameHeaderBytes wire) = get_u32 28 wire" "take 28 (take kFrameHeaderBytes wire) = take 28 wire"
    by (simp_all add: get_u32_def kFrameHeaderBytes_def drop_take)
  with assms show ?thesis by (auto simp: connection_receive_def Let_def)
qed

lemma damaged_front:
  assumes "i < 28" "frame_bytes m ! i \<noteq> x"
  shows "get_u32 28 ((frame_bytes m)[i := x] @ rest) \<noteq> crc32c (take 28 ((frame_bytes m)[i := x] @ rest))"
proof -
  have front: "take 28 (frame_bytes m) = frame_front m" by (simp add: frame_bytes_def frame_header_def)
  have "(take 28 (frame_bytes m)) ! i \<noteq> x" using assms by simp
  with assms(1) have "crc32c ((frame_front m)[i := x]) \<noteq> crc32c (frame_front m)"
    unfolding front by (intro crc32c_update) simp_all
  moreover have "get_u32 28 ((frame_bytes m)[i := x] @ rest) = crc32c (frame_front m)"
    using assms(1) by (simp add: get_u32_def frame_bytes_def frame_header_def list_update_append)
  moreover have "take 28 ((frame_bytes m)[i := x] @ rest) = (frame_front m)[i := x]"
    using assms(1) by (simp add: frame_bytes_def frame_header_def list_update_append)
  ultimately show ?thesis by simp
qed

lemma damaged_checksum:
  assumes "28 \<le> i" "i < kFrameHeaderBytes" "frame_bytes m ! i \<noteq> x"
  shows "get_u32 28 ((frame_bytes m)[i := x] @ rest) \<noteq> crc32c (take 28 ((frame_bytes m)[i := x] @ rest))"
proof -
  let ?crc = "enc_u32 (crc32c (frame_front m))"
  have i: "i - 28 < 4" using assms(1,2) by (simp add: kFrameHeaderBytes_def)
  have "?crc ! (i - 28) \<noteq> x" using assms i by (simp add: frame_bytes_def frame_header_def nth_append)
  then have "?crc[i - 28 := x] ! (i - 28) \<noteq> ?crc ! (i - 28)" using i by simp
  then have "?crc[i - 28 := x] \<noteq> ?crc" by auto
  moreover have "take 4 (drop 28 ((frame_bytes m)[i := x] @ rest)) = ?crc[i - 28 := x]"
    using assms(1) i by (simp add: frame_bytes_def frame_header_def list_update_append)
  ultimately have "get_u32 28 ((frame_bytes m)[i := x] @ rest) \<noteq> le_word ?crc"
    using le_word_inject [of "?crc[i - 28 := x]" 4 ?crc, where 'w = 32] by (auto simp: get_u32_def)
  moreover have "take 28 ((frame_bytes m)[i := x] @ rest) = frame_front m" using assms(1) by (simp add: frame_bytes_def frame_header_def list_update_append)
  ultimately show ?thesis by simp
qed

lemma damaged_payload:
  assumes "cn_open c" "message_fits (cn_options c) m" "kFrameHeaderBytes \<le> i" "i < length (frame_bytes m)" "frame_bytes m ! i \<noteq> x"
  shows "\<exists>rest' e. connection_receive c ((frame_bytes m)[i := x] @ rest) = (reject_frame c, rest', Inl e)"
proof -
  let ?p = "(mg_payload m)[i - kFrameHeaderBytes := x]"
  have "(frame_bytes m)[i := x] @ rest = frame_header m @ ?p @ rest"
    using assms(3) by (simp add: frame_bytes_def list_update_append)
  moreover have "mg_payload m ! (i - kFrameHeaderBytes) \<noteq> x"
    using assms(3,5) by (simp add: frame_bytes_def nth_append)
  then have "crc32c ?p \<noteq> crc32c (mg_payload m)" using assms(3,4) by (intro crc32c_update) auto
  ultimately show ?thesis using receive_header [OF assms(1,2), of ?p rest] by simp
qed

section \<open>The replay window\<close>

text \<open>What a connection accepts of a sequence of request identities.\<close>

fun accepted_requests :: "u64 list \<Rightarrow> connection \<Rightarrow> u64 list \<times> connection" where
  "accepted_requests [] c = ([], c)"
| "accepted_requests (i # ids) c =
     (case note_request i c of (c', new) \<Rightarrow>
       (case accepted_requests ids c' of (accepted, c'') \<Rightarrow> (if new \<and> i \<noteq> 0 then i # accepted else accepted, c'')))"

definition latest :: "nat \<Rightarrow> 'a list \<Rightarrow> 'a list" where
  "latest n xs = drop (length xs - n) xs"

definition window_ok :: "connection \<Rightarrow> bool" where
  "window_ok c = (distinct (cn_recent_requests c) \<and> cn_recent_set c = set (cn_recent_requests c))"

lemma trim_window_spec: "distinct xs \<Longrightarrow> trim_window n xs (set xs) = (latest n xs, set (latest n xs))"
proof (induction xs)
  case (Cons x xs)
  then have "set (x # xs) - {x} = set xs" by auto
  with Cons show ?case by (auto simp: latest_def Suc_diff_le not_less_eq_eq)
qed (simp add: latest_def)

lemma latest_snoc: "latest n (latest n xs @ [x]) = latest n (xs @ [x])"
  by (cases "length xs \<le> n") (auto simp: latest_def Suc_diff_le drop_Suc)

lemma note_request_window:
  assumes "window_ok c" "note_request i c = (c', new)"
  shows "window_ok c' \<and> cn_options c' = cn_options c \<and> (new \<longleftrightarrow> i = 0 \<or> i \<notin> set (cn_recent_requests c)) \<and>
    cn_recent_requests c' = (if new \<and> i \<noteq> 0 then latest (no_replay_window (cn_options c)) (cn_recent_requests c @ [i])
      else cn_recent_requests c)"
proof (cases "i = 0 \<or> i \<in> cn_recent_set c")
  case True
  then show ?thesis using assms by (auto simp: note_request_def window_ok_def split: if_splits)
next
  case False
  let ?xs = "cn_recent_requests c @ [i]"
  have "insert i (cn_recent_set c) = set ?xs" "distinct ?xs" using assms(1) False by (auto simp: window_ok_def)
  then show ?thesis
    using assms False trim_window_spec [of ?xs] by (auto simp: note_request_def window_ok_def latest_def simp del: drop_append)
qed

lemma accepted_window:
  assumes "accepted_requests ids c = (accepted, c')" "window_ok c"
    "cn_recent_requests c = latest (no_replay_window (cn_options c)) earlier"
  shows "window_ok c' \<and> cn_options c' = cn_options c \<and>
    cn_recent_requests c' = latest (no_replay_window (cn_options c)) (earlier @ accepted)"
  using assms
proof (induction ids arbitrary: c accepted earlier)
  case (Cons i ids)
  obtain c1 new where noted: "note_request i c = (c1, new)" by fastforce
  obtain acc c2 where rest: "accepted_requests ids c1 = (acc, c2)" by fastforce
  let ?earlier = "if new \<and> i \<noteq> 0 then earlier @ [i] else earlier"
  have c1: "window_ok c1" "cn_options c1 = cn_options c"
    "cn_recent_requests c1 = latest (no_replay_window (cn_options c)) ?earlier"
    using note_request_window [OF Cons.prems(2) noted] Cons.prems(3) by (auto simp: latest_snoc)
  have "c' = c2" "?earlier @ acc = earlier @ accepted" using Cons.prems(1) by (auto simp: noted rest split: if_splits)
  then show ?case using Cons.IH [of c1 acc ?earlier] rest c1 by simp
qed simp

section \<open>Fields are read back, and only ascending ones\<close>

definition field_bytes :: "u16 \<Rightarrow> string \<Rightarrow> string" where
  "field_bytes i v = enc_u16 i @ enc_u32 (of_nat (length v)) @ v"

abbreviation precedes :: "bool \<Rightarrow> u16 \<Rightarrow> u16 \<Rightarrow> bool" where
  "precedes has_last last_id i \<equiv> has_last \<longrightarrow> last_id < i"

lemma writer_emit_field: "precedes (fw_has_last w) (fw_last_id w) i \<Longrightarrow>
    writer_emit i v w = \<lparr>fw_buffer = fw_buffer w @ field_bytes i v, fw_last_id = i, fw_has_last = True\<rparr>"
  by (auto simp: writer_emit_def field_bytes_def)

lemma reader_next_field:
  assumes "length v \<le> kMaxFieldBytes" "precedes (fr_has_last r) (fr_last_id r) i" "fr_rest r = field_bytes i v @ rest"
  shows "reader_next r = (\<lparr>fr_rest = rest, fr_current_id = i, fr_current_value = v, fr_last_id = i, fr_has_last = True\<rparr>, Inr True)"
proof -
  have "unat (of_nat (length v) :: u32) = length v"
    using assms(1) by (simp add: kMaxFieldBytes_def unsigned_of_nat take_bit_nat_eq_self)
  then have "get_u16 0 (fr_rest r) = i" "unat (get_u32 2 (fr_rest r)) = length v"
    by (simp_all add: assms(3) field_bytes_def get_defs)
  moreover have body: "drop 6 (fr_rest r) = v @ rest" "length (fr_rest r) = 6 + length v + length rest"
    by (simp_all add: assms(3) field_bytes_def)
  moreover have "drop (6 + length v) (fr_rest r) = rest" using body(1) by (simp add: add.commute flip: drop_drop)
  moreover have "fr_rest r \<noteq> []" using body(2) by auto
  moreover have "\<not> (fr_has_last r \<and> i \<le> fr_last_id r)" using assms(2) by auto
  ultimately show ?thesis using assms(1) by (simp add: reader_next_def Let_def del: drop_drop)
qed

lemma reader_next_end [simp]: "fr_rest r = [] \<Longrightarrow> reader_next r = (r, Inr False)"
  by (simp add: reader_next_def Let_def)

text \<open>The reader as a function from a payload to its fields.\<close>

definition collect_field :: "field_reader \<Rightarrow> (u16 \<times> string) list \<Rightarrow> (u16 \<times> string) list result" where
  "collect_field r fs = Inr (fs @ [(fr_current_id r, fr_current_value r)])"

definition fields_of :: "string \<Rightarrow> (u16 \<times> string) list result" where
  "fields_of payload = read_fields collect_field [] payload"

definition write_fields :: "(u16 \<times> string) list \<Rightarrow> string" where
  "write_fields fs = fw_buffer (foldl (\<lambda>w f. writer_blob (fst f) (snd f) w) field_writer_init fs)"

abbreviation fields_fit :: "(u16 \<times> string) list \<Rightarrow> bool" where
  "fields_fit fs \<equiv> sorted_wrt (<) (map fst fs) \<and> (\<forall>f \<in> set fs. length (snd f) \<le> kMaxFieldBytes)"

abbreviation fields_bytes :: "(u16 \<times> string) list \<Rightarrow> string" where
  "fields_bytes fs \<equiv> concat (map (\<lambda>f. field_bytes (fst f) (snd f)) fs)"

lemma write_fields_loop:
  assumes "fields_fit fs" "fw_has_last w \<longrightarrow> (\<forall>f \<in> set fs. fw_last_id w < fst f)"
  shows "fw_buffer (foldl (\<lambda>w f. writer_blob (fst f) (snd f) w) w fs) = fw_buffer w @ fields_bytes fs"
  using assms
proof (induction fs arbitrary: w)
  case (Cons f fs)
  have "writer_blob (fst f) (snd f) w =
      \<lparr>fw_buffer = fw_buffer w @ field_bytes (fst f) (snd f), fw_last_id = fst f, fw_has_last = True\<rparr>"
    using Cons.prems by (simp add: writer_blob_def writer_emit_field)
  then show ?case using Cons by auto
qed simp

lemma fields_loop_writes:
  assumes "fields_fit fs" "fr_has_last r \<longrightarrow> (\<forall>f \<in> set fs. fr_last_id r < fst f)" "fr_rest r = fields_bytes fs"
  shows "\<exists>r'. fields_loop collect_field acc r = Inr (acc @ fs, r') \<and> fr_rest r' = []"
  using assms
proof (induction fs arbitrary: r acc)
  case Nil
  then show ?case by (simp add: fields_loop.simps)
next
  case (Cons f fs)
  let ?r = "\<lparr>fr_rest = fields_bytes fs, fr_current_id = fst f, fr_current_value = snd f, fr_last_id = fst f, fr_has_last = True\<rparr>"
  have "reader_next r = (?r, Inr True)" using Cons.prems by (intro reader_next_field) auto
  moreover have "collect_field ?r acc = Inr (acc @ [f])" by (simp add: collect_field_def)
  moreover have "\<exists>r'. fields_loop collect_field (acc @ [f]) ?r = Inr ((acc @ [f]) @ fs, r') \<and> fr_rest r' = []"
    using Cons.prems by (intro Cons.IH) auto
  ultimately show ?case by (simp add: fields_loop.simps [of _ acc r])
qed

lemma fields_of_write:
  assumes "fields_fit fs"
  shows "fields_of (write_fields fs) = Inr fs"
  using assms write_fields_loop [of fs field_writer_init] fields_loop_writes [of fs "field_reader_init (write_fields fs)" "[]"]
  by (auto simp: write_fields_def field_writer_init_def field_reader_init_def fields_of_def read_fields_def reader_finish_def)

lemma enc_get: "length xs = 2 \<Longrightarrow> enc_u16 (le_word xs) = xs" "length ys = 4 \<Longrightarrow> enc_u32 (le_word ys) = ys"
proof -
  show "enc_u16 (le_word xs) = xs" if "length xs = 2"
    using that le_word_inject [of "enc_u16 (le_word xs)" 2 xs, where 'w = 16] by simp
  show "enc_u32 (le_word ys) = ys" if "length ys = 4"
    using that le_word_inject [of "enc_u32 (le_word ys)" 4 ys, where 'w = 32] by simp
qed

lemma reader_next_inverts:
  assumes "reader_next r = (r', Inr True)"
  shows "fr_rest r = field_bytes (fr_current_id r') (fr_current_value r') @ fr_rest r'" "fr_last_id r' = fr_current_id r'"
    "fr_has_last r'" "precedes (fr_has_last r) (fr_last_id r) (fr_current_id r')" "length (fr_current_value r') \<le> kMaxFieldBytes"
proof -
  let ?s = "fr_rest r" let ?len = "unat (get_u32 2 (fr_rest r))"
  have r': "r' = \<lparr>fr_rest = drop (6 + ?len) ?s, fr_current_id = get_u16 0 ?s, fr_current_value = take ?len (drop 6 ?s),
      fr_last_id = get_u16 0 ?s, fr_has_last = True\<rparr>"
    and len: "6 \<le> length ?s" "?len \<le> length ?s - 6" "?len \<le> kMaxFieldBytes" "precedes (fr_has_last r) (fr_last_id r) (get_u16 0 ?s)"
    using assms by (auto simp: reader_next_def Let_def simp del: drop_drop split: if_split_asm)
  have "enc_u16 (get_u16 0 ?s) = take 2 ?s" "enc_u32 (get_u32 2 ?s) = take 4 (drop 2 ?s)"
    using len(1) by (simp_all add: get_defs enc_get)
  moreover have "take 2 ?s @ take 4 (drop 2 ?s) @ take ?len (drop 6 ?s) @ drop (6 + ?len) ?s = ?s"
  proof -
    have "take ?len (drop 6 ?s) @ drop (6 + ?len) ?s = drop 6 ?s" by (metis add.commute append_take_drop_id drop_drop)
    moreover have "take 4 (drop 2 ?s) @ drop 6 ?s = drop 2 ?s" using append_take_drop_id [of 4 "drop 2 ?s"] by simp
    ultimately show ?thesis by simp
  qed
  moreover have "length (take ?len (drop 6 ?s)) = ?len" using len(2) by simp
  ultimately show "fr_rest r = field_bytes (fr_current_id r') (fr_current_value r') @ fr_rest r'"
    unfolding r' field_bytes_def by (simp del: length_take take_append drop_drop)
  show "fr_last_id r' = fr_current_id r'" "fr_has_last r'" "precedes (fr_has_last r) (fr_last_id r) (fr_current_id r')"
    "length (fr_current_value r') \<le> kMaxFieldBytes" using len by (simp_all add: r')
qed

lemma fields_loop_inverts:
  assumes "fields_loop collect_field acc r = Inr (result, r')"
  shows "\<exists>fs. result = acc @ fs \<and> fr_rest r = fields_bytes fs @ fr_rest r' \<and> fields_fit fs \<and>
    (fr_has_last r \<longrightarrow> (\<forall>f \<in> set fs. fr_last_id r < fst f))"
  using assms
proof (induction "length (fr_rest r)" arbitrary: acc r rule: less_induct)
  case less
  obtain r1 res where step: "reader_next r = (r1, res)" by fastforce
  consider e where "res = Inl e" | "res = Inr False" | "res = Inr True" by (cases res) auto
  then show ?case
  proof cases
    case 1
    then show ?thesis using less.prems step by (simp add: fields_loop.simps [of _ acc r])
  next
    case 2
    then have "result = acc" "r' = r1" using less.prems step by (simp_all add: fields_loop.simps [of _ acc r])
    moreover have "fr_rest r1 = []" "fr_rest r = []" using step 2 by (auto simp: reader_next_def Let_def split: if_splits)
    ultimately show ?thesis by (intro exI [of _ "[]"]) simp
  next
    case 3
    let ?f = "(fr_current_id r1, fr_current_value r1)"
    note inverts = reader_next_inverts [OF step [unfolded 3]]
    have "collect_field r1 acc = Inr (acc @ [?f])" by (simp add: collect_field_def)
    then have "fields_loop collect_field (acc @ [?f]) r1 = Inr (result, r')"
      using less.prems step 3 by (simp add: fields_loop.simps [of _ acc r])
    from less.hyps [OF reader_next_shorter [OF step [unfolded 3]] this] inverts(3)
    obtain fs where "result = acc @ ?f # fs" "fr_rest r1 = fields_bytes fs @ fr_rest r'" "fields_fit fs"
      "\<forall>f \<in> set fs. fr_last_id r1 < fst f" by auto
    with inverts show ?thesis by (intro exI [of _ "?f # fs"]) auto
  qed
qed

text \<open>The reader accepts a payload exactly when it is the canonical text of its fields.\<close>

lemma fields_of_canonical: "fields_of payload = Inr fs \<longleftrightarrow> fields_fit fs \<and> payload = fields_bytes fs"
proof
  assume "fields_of payload = Inr fs"
  then obtain r' where "fields_loop collect_field [] (field_reader_init payload) = Inr (fs, r')" "fr_rest r' = []"
    by (auto simp: fields_of_def read_fields_def reader_finish_def split: sum.splits prod.splits if_splits)
  then show "fields_fit fs \<and> payload = fields_bytes fs"
    using fields_loop_inverts [of "[]" "field_reader_init payload" fs r'] by (auto simp: field_reader_init_def)
next
  assume "fields_fit fs \<and> payload = fields_bytes fs"
  then show "fields_of payload = Inr fs"
    using fields_loop_writes [of fs "field_reader_init payload" "[]"]
    by (auto simp: fields_of_def read_fields_def reader_finish_def field_reader_init_def)
qed

section \<open>Claims\<close>

text \<open>
  C22: a request reaches the peer and its reply comes back. What \<open>send\<close> writes is read by the peer as
  the same message, and \<open>transact\<close> returns the reply with the identity of the request whatever well-formed
  frames arrive before it, leaves the stream right behind it and does not change the connection.
\<close>

theorem request_gets_its_reply:
  assumes "cn_open c" "cn_open peer" "message_fits (cn_options c) request" "message_fits (cn_options peer) request"
    "length (frame_bytes request) \<le> taken" "message_fits (cn_options c) reply" "mg_request_id reply = mg_request_id request"
    "list_all (\<lambda>m. message_fits (cn_options c) m \<and> mg_request_id m \<noteq> mg_request_id request) others"
  shows "transact taken request c (concat (map frame_bytes others) @ frame_bytes reply @ later) =
      (frame_bytes request, c, later, Inr reply) \<and>
    connection_receive peer (frame_bytes request @ beyond) = (peer, beyond, Inr request)"
  using assms await_reply_skips [OF assms(1,8,6,7), of later] receive_frame [OF assms(2,4), of beyond]
  by (auto simp: transact_def connection_send_def message_fits_def)

text \<open>
  C23: a frame with one changed byte, be it in the header, in a checksum or in the payload, is never
  delivered: \<open>receive\<close> refuses it and counts the rejection, whatever follows on the stream.
\<close>

theorem corrupt_frame_is_refused:
  assumes "cn_open c" "message_fits (cn_options c) m" "i < length (frame_bytes m)" "frame_bytes m ! i \<noteq> x"
  shows "\<exists>later e. connection_receive c ((frame_bytes m)[i := x] @ rest) = (reject_frame c, later, Inl e)"
proof -
  have long: "kFrameHeaderBytes \<le> length ((frame_bytes m)[i := x] @ rest)" by simp
  consider "i < 28" | "28 \<le> i" "i < kFrameHeaderBytes" | "kFrameHeaderBytes \<le> i" by linarith
  then show ?thesis
    by cases (rule refused_header [OF assms(1) long damaged_front [OF _ assms(4)]]
        refused_header [OF assms(1) long damaged_checksum [OF _ _ assms(4)]]
        damaged_payload [OF assms(1,2) _ assms(3,4)], assumption+)+
qed

text \<open>
  C27: the replay window is exact. After any sequence of request identities, \<open>note_request\<close> refuses an
  identity just when it is one of the last \<open>replay_window\<close> identities the connection accepted, and
  \<open>is_replay\<close> tells the same; the identity 0 is never refused.
\<close>

theorem replay_window_exact:
  assumes "accepted_requests ids (connection_adopt peer options) = (accepted, c)"
  shows "(\<not> snd (note_request i c)) = (i \<noteq> 0 \<and> i \<in> set (latest (no_replay_window options) accepted)) \<and>
    is_replay i c = (i \<in> set (latest (no_replay_window options) accepted))"
proof -
  have "window_ok c \<and> cn_recent_requests c = latest (no_replay_window options) accepted"
    using accepted_window [OF assms, of "[]"] by (auto simp: connection_adopt_def window_ok_def latest_def)
  moreover obtain c' new where "note_request i c = (c', new)" by fastforce
  ultimately show ?thesis
    using note_request_window [of c i c' new] by (auto simp: is_replay_def window_ok_def)
qed

text \<open>
  C28: the field reader accepts exactly the canonical payloads. It returns the fields \<open>fs\<close> just when
  their identifiers are strictly ascending, no value is longer than the field ceiling and the payload is
  the concatenation of the fields, so that no payload can be read in two ways and no two payloads as the
  same fields.
\<close>

theorem payload_canonical:
  "read_fields collect_field [] payload = Inr fs \<longleftrightarrow>
    sorted_wrt (<) (map fst fs) \<and> list_all (\<lambda>f. length (snd f) \<le> kMaxFieldBytes) fs \<and>
    payload = concat (map (\<lambda>f. field_bytes (fst f) (snd f)) fs)"
  using fields_of_canonical [of payload fs] by (auto simp: fields_of_def list_all_iff)

text \<open>Two connections and three small messages.\<close>

definition sample_connection :: connection where
  "sample_connection = connection_adopt ''127.0.0.1:7000'' connection_options_default"

definition sample_message :: "message_type \<Rightarrow> u64 \<Rightarrow> message" where
  "sample_message type i = \<lparr>mg_type = type, mg_flags = 0, mg_request_id = i, mg_payload = ''ab''\<rparr>"

lemma sample_message_fits [simp]: "type \<noteq> MT_invalid \<Longrightarrow> message_fits (cn_options sample_connection) (sample_message type i)"
  "cn_open sample_connection" "mg_request_id (sample_message type i) = i" "mg_payload (sample_message type i) = ''ab''"
  by (simp_all add: message_fits_def message_valid_def sample_message_def sample_connection_def connection_adopt_def
      connection_options_default_def kDefaultMaxFramePayload_def)

theorem request_gets_its_reply_witness:
  "transact 100 (sample_message MT_ping 2) sample_connection
     (frame_bytes (sample_message MT_pong 1) @ frame_bytes (sample_message MT_pong 2) @ ''z'') =
   (frame_bytes (sample_message MT_ping 2), sample_connection, ''z'', Inr (sample_message MT_pong 2))"
  using request_gets_its_reply [of sample_connection sample_connection "sample_message MT_ping 2" 100
      "sample_message MT_pong 2" "[sample_message MT_pong 1]" "''z''" "[]"]
  by (simp add: kFrameHeaderBytes_def)

theorem corrupt_frame_is_refused_witness:
  "\<exists>later e. connection_receive sample_connection ((frame_bytes (sample_message MT_ping 2))[33 := CHR ''x''] @ []) =
     (reject_frame sample_connection, later, Inl e)"
  by (rule corrupt_frame_is_refused) (simp_all add: kFrameHeaderBytes_def frame_bytes_def nth_append)

theorem replay_window_exact_witness:
  "\<exists>c. accepted_requests [5, 6, 5, 7] (connection_adopt [] (connection_options_default\<lparr>no_replay_window := 2\<rparr>)) = ([5, 6, 7], c) \<and>
     \<not> snd (note_request 6 c) \<and> snd (note_request 5 c)"
proof -
  let ?options = "connection_options_default\<lparr>no_replay_window := 2\<rparr>"
  have ids: "fst (accepted_requests [5, 6, 5, 7] (connection_adopt [] ?options)) = [5, 6, 7]"
    by (simp add: note_request_def connection_adopt_def connection_options_default_def)
  then obtain c where "accepted_requests [5, 6, 5, 7] (connection_adopt [] ?options) = ([5, 6, 7], c)"
    by (metis prod.collapse)
  with replay_window_exact [OF this, of 6] replay_window_exact [OF this, of 5] show ?thesis
    by (auto simp: latest_def)
qed

end
