(* ===== verification/Messages.thy ===== *)
theory Messages
  imports Protocol Auditor "HOL-Library.State_Monad"
begin

text \<open>
  \<open>src/ipc/messages.cpp\<close>: the payloads of the protocol's messages. A packer is concatenation. An
  unpacker keeps the unread bytes and a flag that \<open>fail()\<close> clears; it goes on reading after a failure,
  so its state is threaded in full. A decoder that returns early with a status of its own records the
  status, which is then its result.
\<close>

section \<open>Unpacking\<close>

definition kMaxMessageCollection :: nat where "kMaxMessageCollection = 4096"

record unpacker =
  up_rest :: string
  up_ok :: bool
  up_refused :: "status option"

type_synonym 'a unpack = "(unpacker, 'a) state"

abbreviation reading :: "string \<Rightarrow> unpacker" where
  "reading s \<equiv> \<lparr>up_rest = s, up_ok = True, up_refused = None\<rparr>"

definition up_fail :: "unit unpack" where
  "up_fail = State (\<lambda>u. ((), u\<lparr>up_ok := False\<rparr>))"

text \<open>\<open>T v = 0; if (!reader.f(v)) fail(); return v;\<close> a read that fails leaves the cursor where it is.\<close>

definition up_field :: "'a \<Rightarrow> (string \<Rightarrow> ('a \<times> string) option) \<Rightarrow> 'a unpack" where
  "up_field zero read = State (\<lambda>u. case read (up_rest u) of
     None \<Rightarrow> (zero, u\<lparr>up_ok := False\<rparr>)
   | Some (v, s) \<Rightarrow> (v, u\<lparr>up_rest := s\<rparr>))"

definition up_u8 :: "u8 unpack" where "up_u8 = up_field 0 dec_u8"
definition up_u16 :: "u16 unpack" where "up_u16 = up_field 0 dec_u16"
definition up_u32 :: "u32 unpack" where "up_u32 = up_field 0 dec_u32"
definition up_u64 :: "u64 unpack" where "up_u64 = up_field 0 dec_u64"
definition up_b :: "bool unpack" where "up_b = up_field False dec_boolean"

text \<open>A text that is refused for its length, or whose bytes are missing, has its length consumed.\<close>

definition up_str :: "nat \<Rightarrow> string unpack" where
  "up_str bound = State (\<lambda>u. case dec_u32 (up_rest u) of
     None \<Rightarrow> ([], u\<lparr>up_ok := False\<rparr>)
   | Some (len, s) \<Rightarrow>
       if unat len > bound then ([], u\<lparr>up_rest := s, up_ok := False\<rparr>)
       else case reader_take (unat len) s of
         None \<Rightarrow> ([], u\<lparr>up_rest := s, up_ok := False\<rparr>)
       | Some (v, s') \<Rightarrow> (v, u\<lparr>up_rest := s'\<rparr>))"

definition up_path :: "string unpack" where
  "up_path = up_str 32768"

definition up_digest :: "digest unpack" where
  "up_digest = do {
     hex \<leftarrow> up_str 64;
     if length hex \<noteq> 64 then do { up_fail; State_Monad.return digest_default }
     else case digest_from_hex hex of
       None \<Rightarrow> do { up_fail; State_Monad.return digest_default }
     | Some d \<Rightarrow> State_Monad.return d }"

definition up_cast :: "'e list \<Rightarrow> (u8 \<Rightarrow> 'e) \<Rightarrow> 'e unpack" where
  "up_cast es stray = do { v \<leftarrow> up_u8; State_Monad.return (if unat v < length es then es ! unat v else stray v) }"

definition up_id :: "'tag strong_id unpack" where
  "up_id = do { v \<leftarrow> up_u64; State_Monad.return (StrongId v) }"

definition up_gen :: "'tag generation unpack" where
  "up_gen = do { v \<leftarrow> up_u64; State_Monad.return (Generation v) }"

definition up_ref :: "'tag referenced unpack" where
  "up_ref = do { i \<leftarrow> up_id; g \<leftarrow> up_gen; State_Monad.return (Ref i g) }"

text \<open>\<open>for (i = 0; i < count && unpacker.good(); ++i)\<close>\<close>

primrec up_times :: "nat \<Rightarrow> 'a unpack \<Rightarrow> 'a list unpack" where
  "up_times 0 m = State_Monad.return []"
| "up_times (Suc n) m = do {
     u \<leftarrow> State_Monad.get;
     if \<not> up_ok u \<or> up_refused u \<noteq> None then State_Monad.return []
     else do { x \<leftarrow> m; xs \<leftarrow> up_times n m; State_Monad.return (x # xs) } }"

text \<open>\<open>if (count > bound) return Status(capacity_exceeded, ...)\<close>, then the loop.\<close>

definition up_refuse :: "status \<Rightarrow> unit unpack" where
  "up_refuse e = State (\<lambda>u. ((), u\<lparr>up_refused := (case up_refused u of None \<Rightarrow> Some e | Some e' \<Rightarrow> Some e')\<rparr>))"

definition up_bounded :: "nat \<Rightarrow> string \<Rightarrow> 'a unpack \<Rightarrow> 'a list unpack" where
  "up_bounded bound what m = do {
     count \<leftarrow> up_u64;
     if unat count > bound then do { up_refuse (Status SC_capacity_exceeded what); State_Monad.return [] }
     else up_times (unat count) m }"

text \<open>The end of a decoder: an early return, \<open>good()\<close>, \<open>exhausted()\<close>.\<close>

definition unpacked :: "string \<Rightarrow> 'a \<times> unpacker \<Rightarrow> 'a result" where
  "unpacked what x =
     (case x of (v, u) \<Rightarrow>
       case up_refused u of
         Some e \<Rightarrow> Inl e
       | None \<Rightarrow>
           if \<not> up_ok u then Inl (protocol_malformed (what @ '' is malformed''))
           else if up_rest u \<noteq> [] then Inl (protocol_malformed (what @ '' has trailing bytes''))
           else Inr v)"

section \<open>Enumerations\<close>

definition style_order :: "argument_style list" where "style_order = [Style_msvc, Style_posix]"

definition termination_order :: "process_termination list" where
  "termination_order = [PT_exited, PT_crashed, PT_killed, PT_timed_out, PT_launch_failed, PT_unknown]"

definition violation_order :: "violation_code list" where
  "violation_order = [VC_none, VC_duplicate_session_id, VC_non_monotonic_generation, VC_multiple_current_phase_states,
     VC_committed_phase_without_invocation, VC_committed_phase_stale_authority, VC_stale_invocation_retains_authority,
     VC_phase_consumes_uncommitted_input, VC_orphan_intermediate_authoritative, VC_final_candidate_incomplete_lineage,
     VC_duplicate_logical_phase_commit, VC_retired_phase_executable, VC_cancelled_phase_committed,
     VC_stale_process_result_current, VC_invalid_fan_in, VC_corrupt_persisted_state_accepted, VC_artifact_without_provenance,
     VC_plan_defect, VC_session_generation_regression, VC_authority_binding_mismatch, VC_diagnostic_set_orphan,
     VC_intermediate_consumable_without_valid_state, VC_candidate_without_validation_evidence,
     VC_illegal_phase_transition_recorded, VC_fenced_phase_committed, VC_lease_outstanding_after_retire,
     VC_live_process_for_retired_phase, VC_attempt_history_unbounded, VC_session_state_inconsistent,
     VC_recovery_state_inconsistent]"

record wire_casts = stray_casts +
  st_argument_style :: "u8 \<Rightarrow> argument_style"
  st_object_format :: "u8 \<Rightarrow> object_format"
  st_termination :: "u8 \<Rightarrow> process_termination"
  st_severity :: "u8 \<Rightarrow> diagnostic_severity"
  st_phase_state :: "u8 \<Rightarrow> phase_state"
  st_violation :: "u8 \<Rightarrow> violation_code"

section \<open>Parts of a request\<close>

definition pack_variable :: "environment_variable \<Rightarrow> string" where
  "pack_variable v = enc_text (ev_name v) @ enc_text (ev_value v)"

definition up_variable :: "nat \<Rightarrow> environment_variable unpack" where
  "up_variable bound = do { name \<leftarrow> up_str 4096; v \<leftarrow> up_str bound; State_Monad.return \<lparr>ev_name = name, ev_value = v\<rparr> }"

definition pack_environment :: "environment_spec \<Rightarrow> string" where
  "pack_environment e =
     enc_text (es_working_directory e) @ enc_text (es_temp_directory e) @ enc_seq pack_variable (es_variables e) @
     enc_seq enc_text (es_include_paths e) @ enc_seq enc_text (es_library_paths e) @ enc_seq enc_text (es_sdk_roots e) @
     enc_seq enc_text (es_toolkit_roots e) @ enc_seq enc_text (es_inherited_variables e) @
     enc_enum locale_policy_order (es_locale_policy e) @ enc_text (es_locale_name e) @
     enc_boolean (es_deterministic_controls e)"

definition unpack_paths :: "string list unpack" where
  "unpack_paths = do {
     count \<leftarrow> up_u64;
     if unat count > kMaxMessageCollection then do { up_fail; State_Monad.return [] }
     else up_times (unat count) up_path }"

definition unpack_environment :: "wire_casts \<Rightarrow> environment_spec unpack" where
  "unpack_environment strays = do {
     working_directory \<leftarrow> up_path;
     temp_directory \<leftarrow> up_path;
     let spec = environment_spec_init\<lparr>es_working_directory := working_directory, es_temp_directory := temp_directory\<rparr>;
     variable_count \<leftarrow> up_u64;
     if unat variable_count > kMaxMessageCollection then do { up_fail; State_Monad.return spec }
     else do {
       variables \<leftarrow> up_times (unat variable_count) (up_variable 1048576);
       include_paths \<leftarrow> unpack_paths;
       library_paths \<leftarrow> unpack_paths;
       sdk_roots \<leftarrow> unpack_paths;
       toolkit_roots \<leftarrow> unpack_paths;
       let spec = spec\<lparr>es_variables := variables, es_include_paths := include_paths, es_library_paths := library_paths,
         es_sdk_roots := sdk_roots, es_toolkit_roots := toolkit_roots\<rparr>;
       inherited_count \<leftarrow> up_u64;
       if unat inherited_count > kMaxMessageCollection then do { up_fail; State_Monad.return spec }
       else do {
         inherited \<leftarrow> up_times (unat inherited_count) (up_str 1024);
         locale_policy \<leftarrow> up_cast locale_policy_order (st_locale_policy strays);
         locale_name \<leftarrow> up_str 256;
         deterministic_controls \<leftarrow> up_b;
         State_Monad.return (spec\<lparr>es_inherited_variables := inherited, es_locale_policy := locale_policy,
           es_locale_name := locale_name, es_deterministic_controls := deterministic_controls\<rparr>) } } }"

definition pack_policy :: "policy_spec \<Rightarrow> string" where
  "pack_policy p =
     enc_enum reproducibility_order (po_reproducibility p) @ enc_u32 (po_max_retries_per_phase p) @
     enc_u32 (po_max_retries_per_session p) @ enc_seq (enc_enum failure_class_order) (po_retryable_classes p) @
     enc_seq enc_text (po_forbidden_options p) @ enc_boolean (po_allow_parallel_phases p) @
     enc_u64 (po_max_parallel_phases p) @ enc_u32 (po_phase_timeout_millis p) @ enc_u32 (po_validation_timeout_millis p) @
     enc_boolean (po_run_smoke_test p) @ enc_boolean (po_require_content_digest p) @ enc_u64 (po_max_diagnostic_entries p) @
     enc_u64 (po_max_diagnostic_bytes_per_stream p) @ enc_boolean (po_allow_local_cache p)"

definition unpack_policy :: "wire_casts \<Rightarrow> policy_spec unpack" where
  "unpack_policy strays = do {
     reproducibility \<leftarrow> up_cast reproducibility_order (st_reproducibility strays);
     max_retries_per_phase \<leftarrow> up_u32;
     max_retries_per_session \<leftarrow> up_u32;
     let spec = policy_spec_default\<lparr>po_reproducibility := reproducibility, po_max_retries_per_phase := max_retries_per_phase,
       po_max_retries_per_session := max_retries_per_session\<rparr>;
     class_count \<leftarrow> up_u64;
     if unat class_count > 64 then do { up_fail; State_Monad.return spec }
     else do {
       retryable_classes \<leftarrow> up_times (unat class_count) (up_cast failure_class_order (st_failure_class strays));
       let spec = spec\<lparr>po_retryable_classes := retryable_classes\<rparr>;
       option_count \<leftarrow> up_u64;
       if unat option_count > kMaxForbiddenOptions then do { up_fail; State_Monad.return spec }
       else do {
         forbidden_options \<leftarrow> up_times (unat option_count) (up_str 4096);
         allow_parallel_phases \<leftarrow> up_b;
         max_parallel_phases \<leftarrow> up_u64;
         phase_timeout_millis \<leftarrow> up_u32;
         validation_timeout_millis \<leftarrow> up_u32;
         run_smoke_test \<leftarrow> up_b;
         require_content_digest \<leftarrow> up_b;
         max_diagnostic_entries \<leftarrow> up_u64;
         max_diagnostic_bytes_per_stream \<leftarrow> up_u64;
         allow_local_cache \<leftarrow> up_b;
         State_Monad.return (spec\<lparr>po_forbidden_options := forbidden_options, po_allow_parallel_phases := allow_parallel_phases,
           po_max_parallel_phases := max_parallel_phases, po_phase_timeout_millis := phase_timeout_millis,
           po_validation_timeout_millis := validation_timeout_millis, po_run_smoke_test := run_smoke_test,
           po_require_content_digest := require_content_digest, po_max_diagnostic_entries := max_diagnostic_entries,
           po_max_diagnostic_bytes_per_stream := max_diagnostic_bytes_per_stream,
           po_allow_local_cache := allow_local_cache\<rparr>) } } }"

definition pack_target :: "target_spec \<Rightarrow> string" where
  "pack_target t =
     enc_enum architecture_order (ts_architecture t) @ enc_enum operating_system_order (ts_os t) @ enc_text (ts_triple t) @
     enc_text (ts_cpu t) @ enc_text (ts_device_arch t) @ enc_text (ts_device_virtual_arch t) @ enc_text (ts_abi t) @
     enc_u32 (ts_pointer_width_bits t)"

definition unpack_target :: "wire_casts \<Rightarrow> target_spec unpack" where
  "unpack_target strays = do {
     arch \<leftarrow> up_cast architecture_order (st_architecture strays);
     os \<leftarrow> up_cast operating_system_order (st_operating_system strays);
     triple \<leftarrow> up_str 256;
     cpu \<leftarrow> up_str 256;
     device_arch \<leftarrow> up_str 256;
     device_virtual_arch \<leftarrow> up_str 256;
     abi \<leftarrow> up_str 256;
     pointer_width_bits \<leftarrow> up_u32;
     State_Monad.return \<lparr>ts_architecture = arch, ts_os = os, ts_triple = triple, ts_cpu = cpu, ts_device_arch = device_arch,
       ts_device_virtual_arch = device_virtual_arch, ts_abi = abi, ts_pointer_width_bits = pointer_width_bits\<rparr> }"

section \<open>Envelopes\<close>

definition field_blob :: "string \<Rightarrow> u16 \<Rightarrow> string result" where
  "field_blob payload expected =
     (case reader_next (field_reader_init payload) of
        (_, Inl e) \<Rightarrow> Inl e
      | (r, Inr found) \<Rightarrow>
          if \<not> found then Inl (protocol_malformed ''message payload is empty'')
          else if fr_current_id r \<noteq> expected then Inl (protocol_malformed ''message payload has an unexpected field id'')
          else crf_try (as_blob r) (\<lambda>blob. crf_try (reader_finish r) (\<lambda>_. Inr blob)))"

text \<open>\<open>FieldWriter writer; writer.blob(1, packer.take()); return writer.take();\<close> and its counterpart.\<close>

definition blob_payload :: "string \<Rightarrow> string" where
  "blob_payload packed = fw_buffer (writer_blob 1 packed field_writer_init)"

definition decode_blob :: "string \<Rightarrow> 'a unpack \<Rightarrow> string \<Rightarrow> 'a result" where
  "decode_blob what m payload = crf_try (field_blob payload 1) (\<lambda>blob. unpacked what (run_state m (reading blob)))"

definition encode_hello :: "string \<Rightarrow> string \<Rightarrow> u64 \<Rightarrow> string \<Rightarrow> string" where
  "encode_hello runtime_name role epoch detail =
     fw_buffer (writer_u32 5 (protocol_version_major OR push_bit 16 protocol_version_minor) (writer_text 4 detail
       (writer_u64 3 epoch (writer_text 2 role (writer_text 1 runtime_name field_writer_init)))))"

record hello_fields =
  hf_runtime_name :: string
  hf_role :: string
  hf_epoch :: u64
  hf_detail :: string

definition on_hello_field :: "field_reader \<Rightarrow> hello_fields \<Rightarrow> hello_fields result" where
  "on_hello_field r f =
     (if fr_current_id r = 1 then crf_try (as_text r) (\<lambda>v. Inr (f\<lparr>hf_runtime_name := v\<rparr>))
      else if fr_current_id r = 2 then crf_try (as_text r) (\<lambda>v. Inr (f\<lparr>hf_role := v\<rparr>))
      else if fr_current_id r = 3 then crf_try (as_u64 r) (\<lambda>v. Inr (f\<lparr>hf_epoch := v\<rparr>))
      else if fr_current_id r = 4 then crf_try (as_text r) (\<lambda>v. Inr (f\<lparr>hf_detail := v\<rparr>))
      else Inr f)"

definition decode_hello_detail :: "string \<Rightarrow> string result" where
  "decode_hello_detail payload =
     crf_try (read_fields on_hello_field \<lparr>hf_runtime_name = [], hf_role = [], hf_epoch = 0, hf_detail = []\<rparr> payload) (\<lambda>f.
       Inr (hf_role f @ ''|'' @ hf_runtime_name f @ ''|'' @ dec_string (unat (hf_epoch f)) @ ''|'' @ hf_detail f))"

definition encode_error :: "status_code \<Rightarrow> string \<Rightarrow> string \<Rightarrow> string" where
  "encode_error code detail subject =
     fw_buffer (writer_text 3 subject (writer_text 2 detail (writer_u16 1 (status_value code) field_writer_init)))"

definition on_error_field :: "field_reader \<Rightarrow> status_code \<times> string \<Rightarrow> (status_code \<times> string) result" where
  "on_error_field r f =
     (if fr_current_id r = 1 then crf_try (as_u16 r) (\<lambda>v. Inr (StatusCode v, snd f))
      else if fr_current_id r = 2 then crf_try (as_text r) (\<lambda>v. Inr (fst f, v))
      else Inr f)"

definition decode_error :: "string \<Rightarrow> (status_code \<times> string) result" where
  "decode_error payload = read_fields on_error_field (SC_internal_error, []) payload"

section \<open>Compile requests and sessions\<close>

definition pack_compile_request :: "compile_request \<Rightarrow> string" where
  "pack_compile_request q =
     enc_id (cq_request q) @ enc_id (cq_compilation q) @ enc_gen (cq_compilation_generation q) @ enc_id (cq_attempt q) @
     enc_gen (cq_attempt_generation q) @ enc_enum toolchain_family_order (cq_toolchain_family q) @ enc_id (cq_toolchain q) @
     pack_target (cq_target q) @ enc_seq enc_text (cq_sources q) @
     enc_seq (\<lambda>(name, contents). enc_text name @ enc_text contents) (cq_inline_sources q) @
     enc_text (cq_output_directory q) @ enc_text (cq_final_artifact_name q) @ pack_policy (cq_policy q) @
     pack_environment (cq_environment q) @ enc_boolean (cq_stage_inputs q) @ enc_boolean (cq_run_smoke_test q) @
     enc_seq pack_variable (cq_adapter_options q)"

definition encode_compile_request :: "compile_request \<Rightarrow> string" where
  "encode_compile_request q = blob_payload (pack_compile_request q)"

definition up_inline_source :: "(string \<times> string) unpack" where
  "up_inline_source = do { name \<leftarrow> up_str 4096; contents \<leftarrow> up_str 4194304; State_Monad.return (name, contents) }"

definition unpack_compile_request :: "wire_casts \<Rightarrow> compile_request unpack" where
  "unpack_compile_request strays = do {
     request \<leftarrow> up_id;
     compilation \<leftarrow> up_id;
     compilation_generation \<leftarrow> up_gen;
     attempt \<leftarrow> up_id;
     attempt_generation \<leftarrow> up_gen;
     toolchain_family \<leftarrow> up_cast toolchain_family_order (st_toolchain_family strays);
     toolchain \<leftarrow> up_id;
     target \<leftarrow> unpack_target strays;
     sources \<leftarrow> up_bounded kMaxMessageCollection ''compile request declares too many sources'' up_path;
     inline_sources \<leftarrow> up_bounded kMaxMessageCollection ''compile request declares too many inline sources'' up_inline_source;
     output_directory \<leftarrow> up_path;
     final_artifact_name \<leftarrow> up_str 4096;
     policy \<leftarrow> unpack_policy strays;
     environment \<leftarrow> unpack_environment strays;
     stage_inputs \<leftarrow> up_b;
     run_smoke_test \<leftarrow> up_b;
     adapter_options \<leftarrow> up_bounded kMaxMessageCollection ''compile request declares too many options'' (up_variable 65536);
     State_Monad.return \<lparr>cq_request = request, cq_compilation = compilation, cq_compilation_generation = compilation_generation,
       cq_attempt = attempt, cq_attempt_generation = attempt_generation, cq_toolchain_family = toolchain_family,
       cq_toolchain = toolchain, cq_target = target, cq_sources = sources, cq_inline_sources = inline_sources,
       cq_output_directory = output_directory, cq_final_artifact_name = final_artifact_name, cq_policy = policy,
       cq_environment = environment, cq_stage_inputs = stage_inputs, cq_run_smoke_test = run_smoke_test,
       cq_adapter_options = adapter_options\<rparr> }"

definition decode_compile_request :: "wire_casts \<Rightarrow> string \<Rightarrow> compile_request result" where
  "decode_compile_request strays = decode_blob ''compile request'' (unpack_compile_request strays)"

definition encode_session_summary :: "compiler_session \<Rightarrow> string" where
  "encode_session_summary s = blob_payload (encode_session s)"

definition decode_session_summary :: "string \<Rightarrow> compiler_session result" where
  "decode_session_summary payload = crf_try (field_blob payload 1) decode_session"

section \<open>References\<close>

definition encode_workspace_request ::
  "session_id \<Rightarrow> session_tag generation \<Rightarrow> phase_id \<Rightarrow> phase_tag generation \<Rightarrow> string" where
  "encode_workspace_request sid sg pid pg =
     fw_buffer (writer_u64 4 (gen_value pg) (writer_u64 3 (id_value pid) (writer_u64 2 (gen_value sg)
       (writer_u64 1 (id_value sid) field_writer_init))))"

text \<open>The numbered fields \<open>1 .. n\<close> as numbers; other fields are not looked at.\<close>

definition on_numbered_field :: "nat \<Rightarrow> field_reader \<Rightarrow> u64 list \<Rightarrow> u64 list result" where
  "on_numbered_field n r vs =
     (if unat (fr_current_id r) < 1 \<or> unat (fr_current_id r) > n then Inr vs
      else crf_try (as_u64 r) (\<lambda>v. Inr (vs[unat (fr_current_id r) - 1 := v])))"

definition decode_workspace_request ::
  "string \<Rightarrow> (session_id \<times> session_tag generation \<times> phase_id \<times> phase_tag generation) result" where
  "decode_workspace_request payload =
     crf_try (read_fields (on_numbered_field 4) [0, 0, 0, 0] payload) (\<lambda>vs.
       Inr (StrongId (vs ! 0), Generation (vs ! 1), StrongId (vs ! 2), Generation (vs ! 3)))"

definition encode_phase_reference ::
  "session_id \<Rightarrow> phase_id \<Rightarrow> phase_tag generation \<Rightarrow> invocation_tag referenced \<Rightarrow> string" where
  "encode_phase_reference sid pid pg invocation =
     fw_buffer (writer_u64 5 (gen_value (ref_gen invocation)) (writer_u64 4 (id_value (ref_id invocation))
       (writer_u64 3 (gen_value pg) (writer_u64 2 (id_value pid) (writer_u64 1 (id_value sid) field_writer_init)))))"

definition decode_phase_reference ::
  "string \<Rightarrow> (session_id \<times> phase_id \<times> phase_tag generation \<times> invocation_tag referenced) result" where
  "decode_phase_reference payload =
     crf_try (read_fields (on_numbered_field 5) [0, 0, 0, 0, 0] payload) (\<lambda>vs.
       Inr (StrongId (vs ! 0), StrongId (vs ! 1), Generation (vs ! 2), Ref (StrongId (vs ! 3)) (Generation (vs ! 4))))"

section \<open>Invocation orders\<close>

definition pack_output_binding :: "output_binding \<Rightarrow> string" where
  "pack_output_binding b =
     enc_text (out_logical_name b) @ enc_text (out_path b) @ enc_enum object_format_order (out_expected_format b) @
     enc_boolean (out_required b) @ enc_boolean (out_allow_empty b)"

definition up_output_binding :: "wire_casts \<Rightarrow> output_binding unpack" where
  "up_output_binding strays = do {
     logical_name \<leftarrow> up_str 256;
     path \<leftarrow> up_path;
     expected_format \<leftarrow> up_cast object_format_order (st_object_format strays);
     required \<leftarrow> up_b;
     allow_empty \<leftarrow> up_b;
     State_Monad.return \<lparr>out_logical_name = logical_name, out_path = path, out_expected_format = expected_format,
       out_required = required, out_allow_empty = allow_empty\<rparr> }"

definition pack_invocation_order :: "invocation_spec \<Rightarrow> process_spec \<Rightarrow> string \<Rightarrow> string \<Rightarrow> string" where
  "pack_invocation_order v p workspace_root phase_label =
     enc_id (is_id v) @ enc_gen (is_generation v) @ enc_ref (is_session v) @ enc_ref (is_phase v) @
     enc_gen (is_attempt_generation v) @ enc_id (is_component v) @ enc_gen (is_component_generation v) @
     enc_ref (is_toolchain v) @ enc_ref (is_target v) @ enc_ref (is_environment v) @ enc_ref (is_policy v) @
     enc_text (is_executable v) @ enc_digest (fi_content (is_executable_identity v)) @
     enc_u64 (fi_size_bytes (is_executable_identity v)) @ enc_seq enc_text (is_arguments v) @
     enc_seq pack_variable (sp_environment p) @ enc_text (sp_working_directory p) @ enc_text (is_working_directory v) @
     enc_enum style_order (is_style v) @ enc_text (is_adapter_name v) @ enc_boolean (is_produced_executable v) @
     enc_seq pack_output_binding (is_expected_outputs v) @ enc_u32 (sp_timeout_millis p) @
     enc_u64 (of_nat (sp_max_capture_bytes p)) @ enc_text workspace_root @ enc_text phase_label"

definition encode_invocation_order :: "invocation_spec \<Rightarrow> process_spec \<Rightarrow> string \<Rightarrow> string \<Rightarrow> string" where
  "encode_invocation_order v p workspace_root phase_label = blob_payload (pack_invocation_order v p workspace_root phase_label)"

text \<open>
  The specification of the process is an argument that is filled in: variables are appended to those
  it has. What it holds after a refusal is not looked at.
\<close>

definition unpack_invocation_order ::
  "wire_casts \<Rightarrow> process_spec \<Rightarrow> (invocation_spec \<times> process_spec \<times> string \<times> string) unpack" where
  "unpack_invocation_order strays p = do {
     i \<leftarrow> up_id;
     generation \<leftarrow> up_gen;
     session \<leftarrow> up_ref;
     phase \<leftarrow> up_ref;
     attempt_generation \<leftarrow> up_gen;
     component \<leftarrow> up_id;
     component_generation \<leftarrow> up_gen;
     toolchain \<leftarrow> up_ref;
     target \<leftarrow> up_ref;
     environment \<leftarrow> up_ref;
     policy \<leftarrow> up_ref;
     executable \<leftarrow> up_path;
     executable_digest \<leftarrow> up_digest;
     executable_size \<leftarrow> up_u64;
     arguments \<leftarrow> up_bounded kMaxArguments ''invocation declares too many arguments'' (up_str kMaxArgumentBytes);
     variables \<leftarrow> up_bounded kMaxMessageCollection ''invocation declares too many variables'' (up_variable 65536);
     process_directory \<leftarrow> up_path;
     working_directory \<leftarrow> up_path;
     style \<leftarrow> up_cast style_order (st_argument_style strays);
     adapter_name \<leftarrow> up_str 256;
     produced_executable \<leftarrow> up_b;
     expected_outputs \<leftarrow> up_bounded 256 ''invocation declares too many outputs'' (up_output_binding strays);
     timeout_millis \<leftarrow> up_u32;
     max_capture_bytes \<leftarrow> up_u64;
     workspace_root \<leftarrow> up_str 32768;
     phase_label \<leftarrow> up_str 256;
     State_Monad.return
       (invocation_spec_default\<lparr>is_id := i, is_generation := generation, is_session := session, is_phase := phase,
          is_attempt_generation := attempt_generation, is_component := component,
          is_component_generation := component_generation, is_toolchain := toolchain, is_target := target,
          is_environment := environment, is_policy := policy, is_executable := executable,
          is_executable_identity := file_identity_init\<lparr>fi_canonical_path := executable, fi_content := executable_digest,
            fi_size_bytes := executable_size, fi_content_hashed := \<not> digest_zero executable_digest\<rparr>,
          is_arguments := arguments, is_working_directory := working_directory, is_expected_outputs := expected_outputs,
          is_style := style, is_adapter_name := adapter_name, is_produced_executable := produced_executable\<rparr>,
        p\<lparr>sp_executable := executable, sp_arguments := arguments, sp_environment := sp_environment p @ variables,
          sp_working_directory := process_directory, sp_timeout_millis := timeout_millis,
          sp_max_capture_bytes := unat max_capture_bytes\<rparr>,
        workspace_root, phase_label) }"

definition decode_invocation_order ::
  "wire_casts \<Rightarrow> process_spec \<Rightarrow> string \<Rightarrow> (invocation_spec \<times> process_spec \<times> string \<times> string) result" where
  "decode_invocation_order strays p = decode_blob ''invocation order'' (unpack_invocation_order strays p)"

section \<open>Reports\<close>

definition pack_output_descriptor :: "output_descriptor \<Rightarrow> string" where
  "pack_output_descriptor d =
     enc_text (od_logical_name d) @ enc_text (od_path d) @ enc_enum object_format_order (od_format d) @
     enc_digest (od_content d) @ enc_u64 (od_size_bytes d) @ enc_boolean (od_exists d)"

definition up_output_descriptor :: "wire_casts \<Rightarrow> output_descriptor unpack" where
  "up_output_descriptor strays = do {
     logical_name \<leftarrow> up_str 256;
     path \<leftarrow> up_path;
     format \<leftarrow> up_cast object_format_order (st_object_format strays);
     content \<leftarrow> up_digest;
     size_bytes \<leftarrow> up_u64;
     exists \<leftarrow> up_b;
     State_Monad.return \<lparr>od_logical_name = logical_name, od_path = path, od_format = format, od_content = content,
       od_size_bytes = size_bytes, od_exists = exists\<rparr> }"

definition pack_diagnostic :: "diagnostic \<Rightarrow> string" where
  "pack_diagnostic d =
     enc_enum severity_order (dg_severity d) @ enc_text (dg_code d) @ enc_text (dg_message d) @ enc_text (dg_file d) @
     enc_u32 (dg_line d) @ enc_u32 (dg_column d) @ enc_text (dg_origin d) @ enc_text (dg_raw d)"

definition up_diagnostic :: "wire_casts \<Rightarrow> diagnostic unpack" where
  "up_diagnostic strays = do {
     severity \<leftarrow> up_cast severity_order (st_severity strays);
     code \<leftarrow> up_str 256;
     message \<leftarrow> up_str kMaxMessageBytes;
     file_name \<leftarrow> up_str 4096;
     line \<leftarrow> up_u32;
     column \<leftarrow> up_u32;
     origin \<leftarrow> up_str 256;
     raw_text \<leftarrow> up_str kMaxMessageBytes;
     State_Monad.return \<lparr>dg_severity = severity, dg_code = code, dg_message = message, dg_file = file_name, dg_line = line,
       dg_column = column, dg_origin = origin, dg_raw = raw_text\<rparr> }"

definition pack_execution_report :: "execution_report \<Rightarrow> string" where
  "pack_execution_report e =
     (let p = er_process e; c = oc_capture p in
      enc_boolean (er_executed e) @ enc_id (oc_id p) @ enc_gen (oc_generation p) @ enc_ref (oc_invocation p) @
      enc_u32 (oc_os_process_id p) @ enc_enum termination_order (oc_termination p) @ enc_u32 (oc_exit_code p) @
      enc_text (pc_standard_output c) @ enc_text (pc_standard_error c) @ enc_u64 (pc_standard_output_bytes c) @
      enc_u64 (pc_standard_error_bytes c) @ enc_u64 (pc_dropped_standard_output_bytes c) @
      enc_u64 (pc_dropped_standard_error_bytes c) @ enc_boolean (pc_truncated c) @ enc_u64 (oc_started_at_nanos p) @
      enc_u64 (oc_finished_at_nanos p) @ enc_u16 (status_value (er_status e)) @ enc_text (er_detail e) @
      enc_text (er_workspace_root e) @ enc_digest (er_workspace_marker e) @ enc_seq pack_output_descriptor (er_outputs e) @
      enc_seq pack_diagnostic (er_diagnostics e))"

definition encode_execution_report :: "execution_report \<Rightarrow> string" where
  "encode_execution_report e = blob_payload (pack_execution_report e)"

definition unpack_execution_report :: "wire_casts \<Rightarrow> execution_report unpack" where
  "unpack_execution_report strays = do {
     executed \<leftarrow> up_b;
     i \<leftarrow> up_id;
     generation \<leftarrow> up_gen;
     invocation \<leftarrow> up_ref;
     os_process_id \<leftarrow> up_u32;
     ended \<leftarrow> up_cast termination_order (st_termination strays);
     exit_code \<leftarrow> up_u32;
     standard_output \<leftarrow> up_str 4194304;
     standard_error \<leftarrow> up_str 4194304;
     standard_output_bytes \<leftarrow> up_u64;
     standard_error_bytes \<leftarrow> up_u64;
     dropped_standard_output_bytes \<leftarrow> up_u64;
     dropped_standard_error_bytes \<leftarrow> up_u64;
     truncated \<leftarrow> up_b;
     started_at_nanos \<leftarrow> up_u64;
     finished_at_nanos \<leftarrow> up_u64;
     status_number \<leftarrow> up_u16;
     detail \<leftarrow> up_str 65536;
     workspace_root \<leftarrow> up_path;
     workspace_marker \<leftarrow> up_digest;
     outputs \<leftarrow> up_bounded 256 ''execution report declares too many outputs'' (up_output_descriptor strays);
     diagnostics \<leftarrow> up_bounded kMaxEntries ''execution report declares too many diagnostics'' (up_diagnostic strays);
     State_Monad.return \<lparr>er_executed = executed,
       er_process = process_outcome_default\<lparr>oc_id := i, oc_generation := generation, oc_invocation := invocation,
         oc_os_process_id := os_process_id, oc_termination := ended, oc_exit_code := exit_code,
         oc_capture := \<lparr>pc_standard_output = standard_output, pc_standard_error = standard_error,
           pc_standard_output_bytes = standard_output_bytes, pc_standard_error_bytes = standard_error_bytes,
           pc_dropped_standard_output_bytes = dropped_standard_output_bytes,
           pc_dropped_standard_error_bytes = dropped_standard_error_bytes, pc_truncated = truncated\<rparr>,
         oc_started_at_nanos := started_at_nanos, oc_finished_at_nanos := finished_at_nanos\<rparr>,
       er_outputs = outputs, er_diagnostics = diagnostics, er_workspace_root = workspace_root,
       er_workspace_marker = workspace_marker, er_status = StatusCode status_number, er_detail = detail\<rparr> }"

definition decode_execution_report :: "wire_casts \<Rightarrow> string \<Rightarrow> execution_report result" where
  "decode_execution_report strays = decode_blob ''execution report'' (unpack_execution_report strays)"

definition pack_phase_report :: "phase_run_report \<Rightarrow> string" where
  "pack_phase_report p =
     enc_ref (rr_phase p) @ enc_enum phase_state_order (rr_state p) @ enc_u16 (status_value (rr_status p)) @
     enc_enum failure_class_order (rr_failure p) @ enc_ref (rr_diagnostics p) @ enc_ref (rr_invocation p) @
     enc_id (rr_process p) @ enc_u64 (rr_compiler_nanos p) @ enc_u64 (rr_governance_nanos p) @
     enc_enum verdict_order (rr_authority p) @ enc_text (rr_detail p) @ enc_seq enc_ref (rr_outputs p)"

definition encode_phase_report :: "phase_run_report \<Rightarrow> string" where
  "encode_phase_report p = blob_payload (pack_phase_report p)"

definition unpack_phase_report :: "wire_casts \<Rightarrow> phase_run_report unpack" where
  "unpack_phase_report strays = do {
     phase \<leftarrow> up_ref;
     state_now \<leftarrow> up_cast phase_state_order (st_phase_state strays);
     status_number \<leftarrow> up_u16;
     failure \<leftarrow> up_cast failure_class_order (st_failure_class strays);
     diagnostics \<leftarrow> up_ref;
     invocation \<leftarrow> up_ref;
     process \<leftarrow> up_id;
     compiler_nanos \<leftarrow> up_u64;
     governance_nanos \<leftarrow> up_u64;
     authority \<leftarrow> up_cast verdict_order (st_verdict strays);
     detail \<leftarrow> up_str 65536;
     outputs \<leftarrow> up_bounded 256 ''phase report declares too many outputs'' up_ref;
     State_Monad.return (phase_run_report_default\<lparr>rr_phase := phase, rr_state := state_now, rr_status := StatusCode status_number,
       rr_failure := failure, rr_diagnostics := diagnostics, rr_invocation := invocation, rr_process := process,
       rr_outputs := outputs, rr_compiler_nanos := compiler_nanos, rr_governance_nanos := governance_nanos,
       rr_authority := authority, rr_detail := detail\<rparr>) }"

definition decode_phase_report :: "wire_casts \<Rightarrow> string \<Rightarrow> phase_run_report result" where
  "decode_phase_report strays = decode_blob ''phase report'' (unpack_phase_report strays)"

definition pack_violation :: "audit_violation \<Rightarrow> string" where
  "pack_violation v = enc_enum violation_order (av_code v) @ enc_text (av_subject v) @ enc_text (av_detail v)"

definition up_violation :: "wire_casts \<Rightarrow> audit_violation unpack" where
  "up_violation strays = do {
     code \<leftarrow> up_cast violation_order (st_violation strays);
     subject \<leftarrow> up_str 4096;
     detail \<leftarrow> up_str 65536;
     State_Monad.return \<lparr>av_code = code, av_subject = subject, av_detail = detail\<rparr> }"

definition pack_audit_report :: "audit_report \<Rightarrow> string" where
  "pack_audit_report a =
     enc_u64 (of_nat (rp_checks_run a)) @ enc_u64 (of_nat (rp_sessions_audited a)) @ enc_u64 (of_nat (rp_phases_audited a)) @
     enc_u64 (of_nat (rp_artifacts_audited a)) @ enc_u64 (rp_runtime_epoch a) @ enc_seq pack_violation (rp_violations a)"

definition encode_audit_report :: "audit_report \<Rightarrow> string" where
  "encode_audit_report a = blob_payload (pack_audit_report a)"

definition unpack_audit_report :: "wire_casts \<Rightarrow> audit_report unpack" where
  "unpack_audit_report strays = do {
     checks_run \<leftarrow> up_u64;
     sessions_audited \<leftarrow> up_u64;
     phases_audited \<leftarrow> up_u64;
     artifacts_audited \<leftarrow> up_u64;
     runtime_epoch \<leftarrow> up_u64;
     violations \<leftarrow> up_bounded kMaxMessageCollection ''audit report declares too many violations'' (up_violation strays);
     State_Monad.return \<lparr>rp_violations = violations, rp_checks_run = unat checks_run,
       rp_sessions_audited = unat sessions_audited, rp_phases_audited = unat phases_audited,
       rp_artifacts_audited = unat artifacts_audited, rp_runtime_epoch = runtime_epoch, rp_completed_at_nanos = 0\<rparr> }"

definition decode_audit_report :: "wire_casts \<Rightarrow> string \<Rightarrow> audit_report result" where
  "decode_audit_report strays = decode_blob ''audit report'' (unpack_audit_report strays)"

section \<open>What is packed is unpacked\<close>

named_theorems unpack_simps \<open>unpacking one part of a payload\<close>

text \<open>A packer with the unpacker that reads what it wrote.\<close>

locale wire_codec =
  fixes pack :: "'a \<Rightarrow> string" and unpack :: "'a unpack" and fits :: "'a \<Rightarrow> bool"
  assumes unpack_pack: "fits x \<Longrightarrow> run_state unpack (reading (pack x @ s)) = (x, reading s)"
begin

lemma unpack_times: "list_all fits xs \<Longrightarrow>
    run_state (up_times (length xs) unpack) (reading (concat (map pack xs) @ s)) = (xs, reading s)"
  by (induction xs) (simp_all add: unpack_pack)

lemma decode_whole: "fits x \<Longrightarrow> unpacked what (run_state unpack (reading (pack x))) = Inr x"
  using unpack_pack [of x "[]"] by (simp add: unpacked_def)

end

context codec
begin

lemma unpack_field: "valid x \<Longrightarrow> run_state (up_field zero dec) (reading (enc x @ s)) = (x, reading s)"
  by (simp add: up_field_def decode_encode)

end

interpretation w_u8: wire_codec enc_u8 up_u8 "\<lambda>_. True"
  by unfold_locales (simp add: up_u8_def c_u8.unpack_field)

interpretation w_u16: wire_codec enc_u16 up_u16 "\<lambda>_. True"
  by unfold_locales (simp add: up_u16_def c_u16.unpack_field)

interpretation w_u32: wire_codec enc_u32 up_u32 "\<lambda>_. True"
  by unfold_locales (simp add: up_u32_def c_u32.unpack_field)

interpretation w_u64: wire_codec enc_u64 up_u64 "\<lambda>_. True"
  by unfold_locales (simp add: up_u64_def c_u64.unpack_field)

interpretation w_b: wire_codec enc_boolean up_b "\<lambda>_. True"
  by unfold_locales (simp add: up_b_def c_boolean.unpack_field)

interpretation w_str: wire_codec enc_text "up_str bound" "\<lambda>t. length t \<le> bound \<and> length t < 2 ^ 32" for bound
proof unfold_locales
  fix t s :: string
  assume t: "length t \<le> bound \<and> length t < 2 ^ 32"
  then have "unat (of_nat (length t) :: u32) = length t" by (simp add: unsigned_of_nat take_bit_nat_eq_self)
  then show "run_state (up_str bound) (reading (enc_text t @ s)) = (t, reading s)"
    using t by (simp add: up_str_def enc_text_def c_u32.decode_encode reader_take_def)
qed

interpretation w_path: wire_codec enc_text up_path "\<lambda>t. length t \<le> 32768"
  by unfold_locales (simp add: up_path_def w_str.unpack_pack)

interpretation w_digest: wire_codec enc_digest up_digest digest_fits
proof unfold_locales
  fix d s
  assume d: "digest_fits d"
  then have "length (to_hex d) = 64"
    by (simp add: digest_fits_def to_hex_def length_concat comp_def byte_to_hex_def sum_list_triv kBytes_def)
  with d show "run_state up_digest (reading (enc_digest d @ s)) = (d, reading s)"
    by (simp add: up_digest_def enc_digest_def w_str.unpack_pack digest_hex_round_trip digest_fits_def)
qed

interpretation w_id: wire_codec enc_id up_id "\<lambda>_. True"
  by unfold_locales (simp add: up_id_def enc_id_def w_u64.unpack_pack)

interpretation w_gen: wire_codec enc_gen up_gen "\<lambda>_. True"
  by unfold_locales (simp add: up_gen_def enc_gen_def w_u64.unpack_pack)

interpretation w_ref: wire_codec enc_ref up_ref "\<lambda>_. True"
  by unfold_locales (simp add: up_ref_def enc_ref_def w_id.unpack_pack w_gen.unpack_pack)

lemma up_cast_enum:
  assumes "e \<in> set es" "length es \<le> 256"
  shows "run_state (up_cast es stray) (reading (enc_enum es e @ s)) = (e, reading s)"
proof -
  let ?n = "length (takeWhile (\<lambda>x. x \<noteq> e) es)"
  have n: "?n < length es" "es ! ?n = e" using take_while_index [OF assms(1)] by auto
  then have "unat (of_nat ?n :: u8) = ?n" using assms(2) by (simp add: unsigned_of_nat take_bit_nat_eq_self)
  with n show ?thesis by (simp add: up_cast_def enc_enum_def w_u8.unpack_pack)
qed

lemma wire_enumerators:
  "a \<in> set style_order" "b \<in> set termination_order" "c \<in> set violation_order"
  "length style_order = 2" "length termination_order = 6" "length violation_order = 30"
proof -
  show "a \<in> set style_order" by (cases a) (simp_all add: style_order_def)
  show "b \<in> set termination_order" by (cases b) (simp_all add: termination_order_def)
  show "c \<in> set violation_order" by (cases c) (simp_all add: violation_order_def)
qed (simp_all add: style_order_def termination_order_def violation_order_def)

lemmas wire_fields [unpack_simps] = w_u8.unpack_pack w_u16.unpack_pack w_u32.unpack_pack w_u64.unpack_pack w_b.unpack_pack
  w_str.unpack_pack w_path.unpack_pack w_digest.unpack_pack w_id.unpack_pack w_gen.unpack_pack w_ref.unpack_pack
  up_cast_enum enumerators_complete enumerators_length wire_enumerators

text \<open>Counted sequences: refused with \<open>fail()\<close> or with a status when the count is too large.\<close>

lemma count_fits [unpack_simps]: "length xs < 2 ^ 64 \<Longrightarrow> unat (of_nat (length xs) :: u64) = length xs"
  by (simp add: unsigned_of_nat take_bit_nat_eq_self)

lemma up_count [unpack_simps]:
  "run_state up_u64 (reading (enc_seq pack xs @ s)) = (of_nat (length xs), reading (concat (map pack xs) @ s))"
  by (simp add: enc_seq_def w_u64.unpack_pack)

context wire_codec
begin

lemma unpack_bounded:
  assumes "list_all fits xs" "length xs \<le> bound" "bound < 2 ^ 64"
  shows "run_state (up_bounded bound what unpack) (reading (enc_seq pack xs @ s)) = (xs, reading s)"
  using assms unpack_times [OF assms(1)] by (simp add: up_bounded_def up_count count_fits)

end

lemma unpack_paths_pack [unpack_simps]:
  assumes "list_all (\<lambda>t. length t \<le> 32768) xs" "length xs \<le> kMaxMessageCollection"
  shows "run_state unpack_paths (reading (enc_seq enc_text xs @ s)) = (xs, reading s)"
  using assms w_path.unpack_times [OF assms(1)]
  by (simp add: unpack_paths_def unpack_simps kMaxMessageCollection_def)

definition wire_variable_fits :: "nat \<Rightarrow> environment_variable \<Rightarrow> bool" where
  "wire_variable_fits bound v = (length (ev_name v) \<le> 4096 \<and> length (ev_value v) \<le> bound \<and> length (ev_value v) < 2 ^ 32)"

interpretation w_variable: wire_codec pack_variable "up_variable bound" "wire_variable_fits bound" for bound
  by unfold_locales (simp add: pack_variable_def up_variable_def wire_variable_fits_def unpack_simps)

definition wire_environment_fits :: "environment_spec \<Rightarrow> bool" where
  "wire_environment_fits e =
     (length (es_working_directory e) \<le> 32768 \<and> length (es_temp_directory e) \<le> 32768 \<and>
      list_all (wire_variable_fits 1048576) (es_variables e) \<and> length (es_variables e) \<le> kMaxMessageCollection \<and>
      list_all (\<lambda>ps. list_all (\<lambda>t. length t \<le> 32768) ps \<and> length ps \<le> kMaxMessageCollection)
        [es_include_paths e, es_library_paths e, es_sdk_roots e, es_toolkit_roots e] \<and>
      list_all (\<lambda>t. length t \<le> 1024 \<and> length t < 2 ^ 32) (es_inherited_variables e) \<and>
      length (es_inherited_variables e) \<le> kMaxMessageCollection \<and> length (es_locale_name e) \<le> 256)"

interpretation w_environment: wire_codec pack_environment "unpack_environment strays" wire_environment_fits for strays
  by unfold_locales
    (simp add: pack_environment_def unpack_environment_def wire_environment_fits_def unpack_simps kMaxMessageCollection_def
      w_variable.unpack_times w_str.unpack_times environment_spec_init_def Let_def)

definition wire_policy_fits :: "policy_spec \<Rightarrow> bool" where
  "wire_policy_fits p = (length (po_retryable_classes p) \<le> 64 \<and> length (po_forbidden_options p) \<le> kMaxForbiddenOptions \<and>
     list_all (\<lambda>t. length t \<le> 4096 \<and> length t < 2 ^ 32) (po_forbidden_options p))"

interpretation w_failure: wire_codec "enc_enum failure_class_order" "up_cast failure_class_order stray" "\<lambda>_. True" for stray
  by unfold_locales (simp add: unpack_simps)

interpretation w_policy: wire_codec pack_policy "unpack_policy strays" wire_policy_fits for strays
  by unfold_locales
    (simp add: pack_policy_def unpack_policy_def wire_policy_fits_def unpack_simps kMaxForbiddenOptions_def
      w_failure.unpack_times w_str.unpack_times policy_spec_default_def Let_def list.pred_True)

definition wire_target_fits :: "target_spec \<Rightarrow> bool" where
  "wire_target_fits t = list_all (\<lambda>x. length x \<le> 256) [ts_triple t, ts_cpu t, ts_device_arch t, ts_device_virtual_arch t, ts_abi t]"

interpretation w_target: wire_codec pack_target "unpack_target strays" wire_target_fits for strays
  by unfold_locales (simp add: pack_target_def unpack_target_def wire_target_fits_def unpack_simps)

lemma field_blob_payload [simp]: "length packed \<le> kMaxFieldBytes \<Longrightarrow> field_blob (blob_payload packed) 1 = Inr packed"
  using reader_next_field [of packed "field_reader_init (blob_payload packed)" 1 "[]"]
  by (simp add: field_blob_def blob_payload_def writer_blob_def writer_emit_field field_writer_init_def field_reader_init_def
      as_blob_def reader_finish_def crf_try_def)

text \<open>A payload of more than a megabyte is not written at all.\<close>

lemma field_blob_oversized: "length packed > kMaxFieldBytes \<Longrightarrow> blob_payload packed = []"
  "field_blob [] i = Inl (protocol_malformed ''message payload is empty'')"
  by (simp_all add: blob_payload_def writer_blob_def field_writer_init_def field_blob_def field_reader_init_def)

context wire_codec
begin

lemma decode_payload: "fits x \<Longrightarrow> length (pack x) \<le> kMaxFieldBytes \<Longrightarrow> decode_blob what unpack (blob_payload (pack x)) = Inr x"
  by (simp add: decode_blob_def crf_try_def decode_whole)

end

lemma decode_oversized: "length packed > kMaxFieldBytes \<Longrightarrow>
    decode_blob what m (blob_payload packed) = Inl (protocol_malformed ''message payload is empty'')"
  by (simp add: decode_blob_def field_blob_oversized crf_try_def)

section \<open>Round trips of the messages\<close>

abbreviation wire_text :: "nat \<Rightarrow> string \<Rightarrow> bool" where
  "wire_text bound t \<equiv> length t \<le> bound \<and> length t < 2 ^ 32"

interpretation w_inline: wire_codec "\<lambda>(name, contents). enc_text name @ enc_text contents" up_inline_source
  "\<lambda>x. wire_text 4096 (fst x) \<and> wire_text 4194304 (snd x)"
  by unfold_locales (auto simp: up_inline_source_def unpack_simps)

definition wire_request_fits :: "compile_request \<Rightarrow> bool" where
  "wire_request_fits q =
     (wire_target_fits (cq_target q) \<and> wire_policy_fits (cq_policy q) \<and> wire_environment_fits (cq_environment q) \<and>
      list_all (\<lambda>t. length t \<le> 32768) (cq_sources q) \<and> length (cq_sources q) \<le> kMaxMessageCollection \<and>
      list_all (\<lambda>x. wire_text 4096 (fst x) \<and> wire_text 4194304 (snd x)) (cq_inline_sources q) \<and>
      length (cq_inline_sources q) \<le> kMaxMessageCollection \<and> length (cq_output_directory q) \<le> 32768 \<and>
      wire_text 4096 (cq_final_artifact_name q) \<and> list_all (wire_variable_fits 65536) (cq_adapter_options q) \<and>
      length (cq_adapter_options q) \<le> kMaxMessageCollection)"

interpretation w_request: wire_codec pack_compile_request "unpack_compile_request strays" wire_request_fits for strays
  by unfold_locales
    (simp add: pack_compile_request_def unpack_compile_request_def wire_request_fits_def unpack_simps kMaxMessageCollection_def
      w_target.unpack_pack w_policy.unpack_pack w_environment.unpack_pack w_path.unpack_bounded w_inline.unpack_bounded
      w_variable.unpack_bounded)

interpretation w_binding: wire_codec pack_output_binding "up_output_binding strays"
  "\<lambda>b. wire_text 256 (out_logical_name b) \<and> length (out_path b) \<le> 32768" for strays
  by unfold_locales (simp add: pack_output_binding_def up_output_binding_def unpack_simps)

definition wire_order_fits :: "invocation_spec \<Rightarrow> process_spec \<Rightarrow> string \<Rightarrow> string \<Rightarrow> bool" where
  "wire_order_fits v p root label =
     (length (is_executable v) \<le> 32768 \<and> digest_fits (fi_content (is_executable_identity v)) \<and>
      list_all (wire_text kMaxArgumentBytes) (is_arguments v) \<and> length (is_arguments v) \<le> kMaxArguments \<and>
      list_all (wire_variable_fits 65536) (sp_environment p) \<and> length (sp_environment p) \<le> kMaxMessageCollection \<and>
      length (sp_working_directory p) \<le> 32768 \<and> length (is_working_directory v) \<le> 32768 \<and> wire_text 256 (is_adapter_name v) \<and>
      list_all (\<lambda>b. wire_text 256 (out_logical_name b) \<and> length (out_path b) \<le> 32768) (is_expected_outputs v) \<and>
      length (is_expected_outputs v) \<le> 256 \<and> sp_max_capture_bytes p < 2 ^ 64 \<and> wire_text 32768 root \<and> wire_text 256 label)"

text \<open>
  What a worker gets to see: no inputs and no variables of the invocation itself, the executable by its
  path, size and content, and a process that starts from the one the decoder is given.
\<close>

definition ordered_invocation :: "invocation_spec \<Rightarrow> invocation_spec" where
  "ordered_invocation v = v\<lparr>is_environment_variables := [], is_inputs := [],
     is_executable_identity := file_identity_init\<lparr>fi_canonical_path := is_executable v,
       fi_content := fi_content (is_executable_identity v), fi_size_bytes := fi_size_bytes (is_executable_identity v),
       fi_content_hashed := \<not> digest_zero (fi_content (is_executable_identity v))\<rparr>\<rparr>"

definition ordered_process :: "process_spec \<Rightarrow> invocation_spec \<Rightarrow> process_spec \<Rightarrow> process_spec" where
  "ordered_process p0 v p = p0\<lparr>sp_executable := is_executable v, sp_arguments := is_arguments v,
     sp_environment := sp_environment p0 @ sp_environment p, sp_working_directory := sp_working_directory p,
     sp_timeout_millis := sp_timeout_millis p, sp_max_capture_bytes := sp_max_capture_bytes p\<rparr>"

lemma capture_fits [unpack_simps]: "n < 2 ^ 64 \<Longrightarrow> unat (of_nat n :: u64) = n"
  by (simp add: unsigned_of_nat take_bit_nat_eq_self)

lemma unpack_order:
  assumes "wire_order_fits v p root label"
  shows "run_state (unpack_invocation_order strays p0) (reading (pack_invocation_order v p root label)) =
    ((ordered_invocation v, ordered_process p0 v p, root, label), reading [])"
proof -
  have "run_state (unpack_invocation_order strays p0) (reading (pack_invocation_order v p root label @ [])) =
    ((ordered_invocation v, ordered_process p0 v p, root, label), reading [])"
    using assms
    by (simp add: pack_invocation_order_def unpack_invocation_order_def wire_order_fits_def unpack_simps kMaxMessageCollection_def
        kMaxArguments_def w_str.unpack_bounded w_variable.unpack_bounded w_binding.unpack_bounded ordered_invocation_def
        ordered_process_def invocation_spec_default_def append_Nil2 del: append_Nil2)
  then show ?thesis by simp
qed

interpretation w_descriptor: wire_codec pack_output_descriptor "up_output_descriptor strays"
  "\<lambda>d. wire_text 256 (od_logical_name d) \<and> length (od_path d) \<le> 32768 \<and> digest_fits (od_content d)" for strays
  by unfold_locales (simp add: pack_output_descriptor_def up_output_descriptor_def unpack_simps)

interpretation w_diagnostic: wire_codec pack_diagnostic "up_diagnostic strays"
  "\<lambda>d. wire_text 256 (dg_code d) \<and> wire_text kMaxMessageBytes (dg_message d) \<and> wire_text 4096 (dg_file d) \<and>
    wire_text 256 (dg_origin d) \<and> wire_text kMaxMessageBytes (dg_raw d)" for strays
  by unfold_locales (simp add: pack_diagnostic_def up_diagnostic_def unpack_simps)

definition wire_report_fits :: "execution_report \<Rightarrow> bool" where
  "wire_report_fits e =
     (wire_text 4194304 (pc_standard_output (oc_capture (er_process e))) \<and>
      wire_text 4194304 (pc_standard_error (oc_capture (er_process e))) \<and> wire_text 65536 (er_detail e) \<and>
      length (er_workspace_root e) \<le> 32768 \<and> digest_fits (er_workspace_marker e) \<and>
      list_all (\<lambda>d. wire_text 256 (od_logical_name d) \<and> length (od_path d) \<le> 32768 \<and> digest_fits (od_content d)) (er_outputs e) \<and>
      length (er_outputs e) \<le> 256 \<and>
      list_all (\<lambda>d. wire_text 256 (dg_code d) \<and> wire_text kMaxMessageBytes (dg_message d) \<and> wire_text 4096 (dg_file d) \<and>
        wire_text 256 (dg_origin d) \<and> wire_text kMaxMessageBytes (dg_raw d)) (er_diagnostics e) \<and>
      length (er_diagnostics e) \<le> kMaxEntries \<and> oc_status (er_process e) = status_success)"

interpretation w_report: wire_codec pack_execution_report "unpack_execution_report strays" wire_report_fits for strays
  by unfold_locales
    (simp add: pack_execution_report_def unpack_execution_report_def wire_report_fits_def unpack_simps kMaxEntries_def Let_def
      w_descriptor.unpack_bounded w_diagnostic.unpack_bounded process_outcome_default_def)

interpretation w_phase_report: wire_codec pack_phase_report "unpack_phase_report strays"
  "\<lambda>p. wire_text 65536 (rr_detail p) \<and> length (rr_outputs p) \<le> 256 \<and> rr_retry p = retry_decision_default" for strays
  by unfold_locales
    (simp add: pack_phase_report_def unpack_phase_report_def unpack_simps w_ref.unpack_bounded phase_run_report_default_def
      list.pred_True)

interpretation w_violation: wire_codec pack_violation "up_violation strays"
  "\<lambda>v. wire_text 4096 (av_subject v) \<and> wire_text 65536 (av_detail v)" for strays
  by unfold_locales (simp add: pack_violation_def up_violation_def unpack_simps)

interpretation w_audit: wire_codec pack_audit_report "unpack_audit_report strays"
  "\<lambda>a. list_all (\<lambda>v. wire_text 4096 (av_subject v) \<and> wire_text 65536 (av_detail v)) (rp_violations a) \<and>
    length (rp_violations a) \<le> kMaxMessageCollection \<and> rp_checks_run a < 2 ^ 64 \<and> rp_sessions_audited a < 2 ^ 64 \<and>
    rp_phases_audited a < 2 ^ 64 \<and> rp_artifacts_audited a < 2 ^ 64 \<and> rp_completed_at_nanos a = 0" for strays
  by unfold_locales
    (simp add: pack_audit_report_def unpack_audit_report_def unpack_simps w_violation.unpack_bounded kMaxMessageCollection_def)

section \<open>Claims\<close>

text \<open>
  A report reaches the coordinator as the worker made it: an execution report whose texts and
  lists are within the bounds of the decoder, whose packed form fits a field and whose process has no
  status of its own is decoded to itself.
\<close>

lemma report_round_trip:
  assumes "wire_report_fits e" "length (pack_execution_report e) \<le> kMaxFieldBytes"
  shows "decode_execution_report strays (encode_execution_report e) = Inr e"
  using w_report.decode_payload [OF assms] by (simp add: decode_execution_report_def encode_execution_report_def)

text \<open>The same of a compile request.\<close>

lemma compile_request_round_trip:
  assumes "wire_request_fits q" "length (pack_compile_request q) \<le> kMaxFieldBytes"
  shows "decode_compile_request strays (encode_compile_request q) = Inr q"
  using w_request.decode_payload [OF assms] by (simp add: decode_compile_request_def encode_compile_request_def)

lemma packed_output_long:
  "length (pack_execution_report e) > length (pc_standard_output (oc_capture (er_process e)))"
  by (simp add: pack_execution_report_def Let_def enc_text_def)

text \<open>
  C29: an execution report that captured a megabyte of standard output, which is what a supervisor
  keeps by default, is lost: its encoding is the empty payload, and the coordinator sees a malformed
  message instead of the outcome.
\<close>

theorem oversized_report_is_lost:
  assumes "kMaxFieldBytes \<le> length (pc_standard_output (oc_capture (er_process e)))"
  shows "encode_execution_report e = [] \<and>
    decode_execution_report strays (encode_execution_report e) = Inl (protocol_malformed ''message payload is empty'')"
proof -
  have "length (pack_execution_report e) > kMaxFieldBytes"
    using assms packed_output_long [of e] by linarith
  then show ?thesis
    by (simp add: encode_execution_report_def decode_execution_report_def decode_oversized)
      (simp add: field_blob_oversized)
qed

text \<open>A report of a child that wrote \<open>n\<close> bytes.\<close>

definition sample_report :: "nat \<Rightarrow> execution_report" where
  "sample_report n = \<lparr>er_executed = True,
     er_process = process_outcome_default\<lparr>oc_capture := \<lparr>pc_standard_output = replicate n CHR ''.'', pc_standard_error = [],
       pc_standard_output_bytes = of_nat n, pc_standard_error_bytes = 0, pc_dropped_standard_output_bytes = 0,
       pc_dropped_standard_error_bytes = 0, pc_truncated = False\<rparr>\<rparr>,
     er_outputs = [], er_diagnostics = [], er_workspace_root = ''C:/w'', er_workspace_marker = digest_default,
     er_status = SC_ok, er_detail = []\<rparr>"

definition sample_casts :: wire_casts where
  "sample_casts = \<lparr>st_locale_policy = (\<lambda>_. locale_policy_order ! 0), st_reproducibility = (\<lambda>_. reproducibility_order ! 0),
     st_failure_class = (\<lambda>_. FC_none), st_architecture = (\<lambda>_. AR_unknown), st_operating_system = (\<lambda>_. operating_system_order ! 0),
     st_toolchain_family = (\<lambda>_. TF_unknown), st_component_kind = (\<lambda>_. component_kind_order ! 0),
     st_evidence_class = (\<lambda>_. EC_unknown), st_source_language = (\<lambda>_. SL_unknown), st_verdict = (\<lambda>_. AV_valid),
     st_argument_style = (\<lambda>_. Style_msvc), st_object_format = (\<lambda>_. object_format_order ! 0), st_termination = (\<lambda>_. PT_unknown),
     st_severity = (\<lambda>_. severity_order ! 0), st_phase_state = (\<lambda>_. phase_state_order ! 0), st_violation = (\<lambda>_. VC_none)\<rparr>"

theorem oversized_report_is_lost_witness:
  "decode_execution_report sample_casts (encode_execution_report (sample_report kDefaultCaptureBytes)) =
     Inl (protocol_malformed ''message payload is empty'')"
  by (rule oversized_report_is_lost [THEN conjunct2]) (simp add: sample_report_def kDefaultCaptureBytes_def kMaxFieldBytes_def)

end
