(* ===== verification/Executor.thy ===== *)
theory Executor
  imports Messages
begin

text \<open>
  Where a phase is executed. \<open>LocalPhaseExecutor\<close> (\<open>src/core/runtime.cpp\<close>) runs it with the runtime's
  own supervisor: three critical sections, between which a cancellation may come. What is on disk
  afterwards is turned into evidence the same way by the worker of \<open>src/ipc/service.cpp\<close>.
\<close>

section \<open>Evidence\<close>

text \<open>What the file system answers for an output: whether it is a regular file, and its size and content.\<close>

record output_host =
  oh_is_regular_file :: "string \<Rightarrow> bool"
  oh_queries :: file_queries

definition describe_output :: "output_host \<Rightarrow> output_binding \<Rightarrow> output_descriptor" where
  "describe_output oh b =
     (let d = \<lparr>od_logical_name = out_logical_name b, od_path = out_path b, od_format = out_expected_format b,
            od_content = digest_default, od_size_bytes = 0, od_exists = False\<rparr>
      in if \<not> oh_is_regular_file oh (out_path b) then d
         else d\<lparr>od_exists := True,
           od_size_bytes := (case fq_file_size (oh_queries oh) (out_path b) of None \<Rightarrow> - 1 | Some n \<Rightarrow> n),
           od_content := (case digest_of_file (fq_view (oh_queries oh) (out_path b)) kDefaultFileBound of
             None \<Rightarrow> digest_default | Some content \<Rightarrow> content)\<rparr>)"

definition executed_report :: "output_host \<Rightarrow> invocation_spec \<Rightarrow> process_outcome \<Rightarrow> execution_report \<Rightarrow> execution_report" where
  "executed_report oh v outcome report =
     report\<lparr>er_executed := True, er_process := outcome, er_status := status_code (oc_status outcome),
       er_detail := status_message (oc_status outcome), er_outputs := map (describe_output oh) (is_expected_outputs v)\<rparr>"

definition workspace_report :: "workspace \<Rightarrow> execution_report" where
  "workspace_report w = execution_report_default\<lparr>er_workspace_root := wk_root w, er_workspace_marker := wk_marker_digest w\<rparr>"

definition refused_execution :: "status \<Rightarrow> execution_report \<Rightarrow> execution_report" where
  "refused_execution e report = report\<lparr>er_status := status_code e, er_detail := status_message e\<rparr>"

section \<open>The local executor\<close>

record active_entry =
  ae_invocation :: "invocation_tag referenced"
  ae_handle :: "process_id option"
  ae_cancelled :: bool

record local_executor =
  le_active :: "(u64, active_entry) umap"
  le_processes :: process_supervisor

definition invocation_ref :: "invocation_spec \<Rightarrow> invocation_tag referenced" where
  "invocation_ref v = Ref (is_id v) (is_generation v)"

definition local_forget :: "invocation_tag referenced \<Rightarrow> local_executor \<Rightarrow> local_executor" where
  "local_forget i le = le\<lparr>le_active := um_erase (id_value (ref_id i)) (le_active le)\<rparr>"

definition local_effective :: "invocation_spec \<Rightarrow> workspace \<Rightarrow> process_spec \<Rightarrow> process_spec" where
  "local_effective v w p =
     (let p1 = (if sp_working_directory p = [] then p\<lparr>sp_working_directory := wk_root w\<rparr> else p)
      in if sp_environment p1 = [] then p1\<lparr>sp_environment := is_environment_variables v\<rparr> else p1)"

text \<open>The specification is checked and the invocation becomes active, without a process as yet.\<close>

definition local_enter ::
  "process_host \<Rightarrow> invocation_spec \<Rightarrow> process_spec \<Rightarrow> workspace \<Rightarrow> local_executor \<Rightarrow> local_executor \<times> process_spec result" where
  "local_enter host v p w le =
     (let effective = local_effective v w p in
      case process_validate (px_paths host) (px_is_directory host) effective of
        Inl e \<Rightarrow> (le, Inl e)
      | Inr _ \<Rightarrow> (le\<lparr>le_active := um_set (id_value (is_id v))
            \<lparr>ae_invocation = invocation_ref v, ae_handle = None, ae_cancelled = False\<rparr> (le_active le)\<rparr>, Inr effective))"

text \<open>
  The process is created; \<open>active_[id].handle = ...\<close> makes an entry of its own when the invocation has
  been forgotten in the meantime.
\<close>

definition local_spawn ::
  "process_host \<Rightarrow> invocation_spec \<Rightarrow> process_spec \<Rightarrow> local_executor \<Rightarrow> local_executor \<times> process_handle result" where
  "local_spawn host v effective le =
     (case supervisor_spawn host effective (invocation_ref v) (le_processes le) of
        (sv, Inl e) \<Rightarrow> (local_forget (invocation_ref v) (le\<lparr>le_processes := sv\<rparr>), Inl e)
      | (sv, Inr handle) \<Rightarrow>
          let entry = (case um_find (le_active le) (id_value (is_id v)) of
                Some entry \<Rightarrow> entry | None \<Rightarrow> \<lparr>ae_invocation = ref_absent, ae_handle = None, ae_cancelled = False\<rparr>)
          in (le\<lparr>le_processes := sv,
                le_active := um_set (id_value (is_id v)) (entry\<lparr>ae_handle := Some (ph_id handle)\<rparr>) (le_active le)\<rparr>, Inr handle))"

text \<open>
  The wait. The handle is shared with the supervisor, so that it shows a request to terminate that
  came since; \<open>seen\<close> says whether the loop found one of the two flags raised while the child ran.
\<close>

definition shared_handle :: "process_handle \<Rightarrow> process_supervisor \<Rightarrow> process_handle" where
  "shared_handle handle sv =
     (case um_find (sv_live sv) (id_value (ph_id handle)) of Some current \<Rightarrow> current | None \<Rightarrow> handle)"

definition local_finish ::
  "output_host \<Rightarrow> bool \<Rightarrow> exit_report \<Rightarrow> invocation_spec \<Rightarrow> workspace \<Rightarrow> process_handle \<Rightarrow> local_executor \<Rightarrow>
   local_executor \<times> execution_report" where
  "local_finish oh seen x v w handle le =
     (let current = shared_handle handle (le_processes le);
          told = (if seen then handle_terminate ''cancellation requested while the compiler was running'' current else current);
          outcome = snd (handle_wait x told);
          le1 = local_forget (invocation_ref v) le
      in (le1\<lparr>le_processes := fst (supervisor_reap (ph_id handle) (ph_generation handle) (le_processes le1))\<rparr>,
          executed_report oh v outcome (workspace_report w)))"

definition local_execute ::
  "process_host \<Rightarrow> output_host \<Rightarrow> bool \<Rightarrow> exit_report \<Rightarrow> invocation_spec \<Rightarrow> process_spec \<Rightarrow> workspace \<Rightarrow> local_executor \<Rightarrow>
   local_executor \<times> execution_report result" where
  "local_execute host oh seen x v p w le =
     (case local_enter host v p w le of
        (le1, Inl e) \<Rightarrow> (le1, Inr (refused_execution e (workspace_report w)))
      | (le1, Inr effective) \<Rightarrow>
          (case local_spawn host v effective le1 of
             (le2, Inl e) \<Rightarrow> (le2, Inr (refused_execution e (workspace_report w)))
           | (le2, Inr handle) \<Rightarrow> (case local_finish oh seen x v w handle le2 of (le3, report) \<Rightarrow> (le3, Inr report))))"

definition local_cancel ::
  "invocation_tag referenced \<Rightarrow> string \<Rightarrow> local_executor \<Rightarrow> local_executor \<times> unit result" where
  "local_cancel i reason le =
     (case um_find (le_active le) (id_value (ref_id i)) of
        None \<Rightarrow> (le, Inl (Status SC_not_found ''no local process matches the invocation''))
      | Some found \<Rightarrow>
          if ae_invocation found \<noteq> i
          then (le, Inl (Status SC_stale_invocation ''the active process belongs to a different invocation generation''))
          else
            let le1 = le\<lparr>le_active := um_set (id_value (ref_id i)) (found\<lparr>ae_cancelled := True\<rparr>) (le_active le)\<rparr> in
            (case ae_handle found of
               None \<Rightarrow> (le1, Inr ())
             | Some p \<Rightarrow>
                 (le1\<lparr>le_processes := (le_processes le1)\<lparr>sv_live :=
                     um_modify (id_value p) (handle_terminate reason) (sv_live (le_processes le1))\<rparr>\<rparr>, Inr ())))"

definition local_describe :: string where
  "local_describe = ''local in-process executor''"

section \<open>A run leaves nothing behind\<close>

lemma um_erase_key [simp]: "um_find (um_erase k m) j = (if j = k then None else um_find m j)"
  by (simp add: um_erase_def um_find_def delete_conv)

lemma um_erase_set [simp]: "um_erase k (um_set k v m) = um_erase k m"
  by (simp add: um_erase_def um_set_def delete_update_same)

lemma local_execute_forgets: "um_find (le_active (fst (local_execute host oh seen x v p w le))) (id_value (is_id v)) =
    (case process_validate (px_paths host) (px_is_directory host) (local_effective v w p) of
       Inl _ \<Rightarrow> um_find (le_active le) (id_value (is_id v)) | Inr _ \<Rightarrow> None)"
  by (auto simp: local_execute_def local_enter_def local_spawn_def local_finish_def local_forget_def invocation_ref_def Let_def
      split: sum.split prod.split)

section \<open>A cancelled run does not succeed\<close>

lemma shared_after_cancel:
  assumes "supervisor_ok (le_processes le)" "counter (sv_allocator (le_processes le)) \<noteq> kMax"
    "local_enter host v p w le = (le1, Inr effective)" "local_spawn host v effective le1 = (le2, Inr handle)"
  shows "\<exists>le3. local_cancel (invocation_ref v) reason le2 = (le3, Inr ()) \<and>
    shared_handle handle (le_processes le3) = handle_terminate reason handle"
proof -
  let ?key = "id_value (is_id v)"
  have le1: "le_processes le1 = le_processes le" "um_find (le_active le1) ?key =
      Some \<lparr>ae_invocation = invocation_ref v, ae_handle = None, ae_cancelled = False\<rparr>"
    using assms(3) by (auto simp: local_enter_def Let_def um.find_set split: sum.splits)
  obtain sv where spawned: "supervisor_spawn host effective (invocation_ref v) (le_processes le) = (sv, Inr handle)"
    and le2: "le_processes le2 = sv" "um_find (le_active le2) ?key =
      Some \<lparr>ae_invocation = invocation_ref v, ae_handle = Some (ph_id handle), ae_cancelled = False\<rparr>"
    using assms(4) le1 by (auto simp: local_spawn_def Let_def um.find_set split: sum.splits prod.splits)
  have "um_find (sv_live (le_processes le)) (id_value (fst (alloc_next (sv_allocator (le_processes le))))) = None"
    using id_table_fresh assms(1,2) by (auto simp: supervisor_ok_def)
  then have "um_find (sv_live sv) (id_value (ph_id handle)) = Some handle"
    using spawn_live [OF spawned] by (simp add: um.find_emplace)
  then show ?thesis
    using le2 by (auto simp: local_cancel_def invocation_ref_def shared_handle_def um.find_modify Let_def)
qed

lemma terminated_outcome:
  assumes "ph_terminate_requested handle" "\<not> ph_finished handle"
  shows "status_code (oc_status (snd (handle_wait x handle))) \<in> {SC_process_cancelled, SC_unknown_outcome}"
  using assms by (auto simp: handle_wait_def classify_exit_def Let_def split: option.split)

section \<open>Claims\<close>

text \<open>
  C26: a cancelled run does not count as a success. Once a phase has been started by the local executor,
  a cancellation that names its invocation and generation is accepted, and whatever exit code the child
  then has, the report says that the process was cancelled or that its outcome is unknown; a
  cancellation that names another generation is refused and changes nothing.
\<close>

theorem cancelled_run_does_not_succeed:
  assumes "supervisor_ok (le_processes le)" "counter (sv_allocator (le_processes le)) \<noteq> kMax"
    "local_enter host v p w le = (le1, Inr effective)" "local_spawn host v effective le1 = (le2, Inr handle)" "g \<noteq> is_generation v"
  shows "snd (local_cancel (invocation_ref v) reason le2) = Inr () \<and>
    er_status (snd (local_finish oh seen x v w handle (fst (local_cancel (invocation_ref v) reason le2)))) \<in>
      {SC_process_cancelled, SC_unknown_outcome} \<and>
    local_cancel (Ref (is_id v) g) reason le2 =
      (le2, Inl (Status SC_stale_invocation ''the active process belongs to a different invocation generation''))"
proof -
  obtain le3 where le3: "local_cancel (invocation_ref v) reason le2 = (le3, Inr ())"
    "shared_handle handle (le_processes le3) = handle_terminate reason handle"
    using shared_after_cancel [OF assms(1-4)] by blast
  have "\<not> ph_finished handle" "\<not> ph_terminate_requested handle"
    using assms(4) by (auto simp: local_spawn_def Let_def split: prod.splits sum.splits dest: spawn_live(4,5))
  then have "ph_terminate_requested (handle_terminate reason handle)" "\<not> ph_finished (handle_terminate reason handle)"
    "handle_terminate again (handle_terminate reason handle) = handle_terminate reason handle" for again
    by (simp_all add: handle_terminate_def)
  then have "er_status (snd (local_finish oh seen x v w handle le3)) \<in> {SC_process_cancelled, SC_unknown_outcome}"
    using terminated_outcome [of "handle_terminate reason handle" x] le3(2)
    by (cases seen) (simp_all add: local_finish_def executed_report_def Let_def)
  moreover have "\<exists>entry. um_find (le_active le2) (id_value (is_id v)) = Some entry \<and> ae_invocation entry = invocation_ref v"
    using le3(1) by (auto simp: local_cancel_def invocation_ref_def split: option.splits if_splits)
  then have "local_cancel (Ref (is_id v) g) reason le2 =
      (le2, Inl (Status SC_stale_invocation ''the active process belongs to a different invocation generation''))"
    using assms(5) by (auto simp: local_cancel_def invocation_ref_def)
  ultimately show ?thesis using le3(1) by simp
qed

text \<open>An idle executor and a small program.\<close>

definition idle_executor :: local_executor where
  "idle_executor = \<lparr>le_active = [], le_processes = supervisor_init supervisor_options_default\<rparr>"

lemma sample_enter:
  "\<exists>le1. local_enter sample_process_host sample_invocation sample_process_spec sample_workspace idle_executor =
     (le1, Inr (sample_process_spec\<lparr>sp_working_directory := ''c:/ws''\<rparr>)) \<and>
     le_processes le1 = supervisor_init supervisor_options_default"
proof -
  have "\<not> bad_variable_name \<lparr>ev_name = ''A'', ev_value = ''1''\<rparr>" by code_simp
  then have "process_validate (px_paths sample_process_host) (px_is_directory sample_process_host)
      (sample_process_spec\<lparr>sp_working_directory := ''c:/ws''\<rparr>) = Inr ()"
    by (simp add: sample_process_spec_def process_spec_default_def process_validate_def Let_def crf_try_def
        sample_process_host_def kMaxArguments_def kMaxCommandLineBytes_def kMaxEnvironmentBytes_def kMaxCaptureBytes_def
        environment_bytes_def)
      (simp add: sample_host_def sample_normal)
  moreover have "local_effective sample_invocation sample_workspace sample_process_spec =
      sample_process_spec\<lparr>sp_working_directory := ''c:/ws''\<rparr>"
    by (simp add: local_effective_def sample_process_spec_def process_spec_default_def sample_workspace_def Let_def)
  ultimately show ?thesis by (simp add: local_enter_def idle_executor_def Let_def)
qed

lemma sample_spawn:
  assumes "le_processes le1 = supervisor_init supervisor_options_default"
  shows "\<exists>le2 handle. local_spawn sample_process_host sample_invocation (sample_process_spec\<lparr>sp_working_directory := ''c:/ws''\<rparr>) le1 =
    (le2, Inr handle)"
proof -
  let ?spec = "sample_process_spec\<lparr>sp_working_directory := ''c:/ws''\<rparr>"
  have "\<not> bad_variable_name \<lparr>ev_name = ''A'', ev_value = ''1''\<rparr>" by code_simp
  then have "process_validate (px_paths sample_process_host) (px_is_directory sample_process_host)
      (effective_spec (px_ambient sample_process_host) (px_ambient_value sample_process_host)
        (sv_options (supervisor_init supervisor_options_default)) ?spec) = Inr ()"
    by (simp add: effective_spec_def sample_process_spec_def process_spec_default_def process_validate_def Let_def crf_try_def
        sample_process_host_def kMaxArguments_def kMaxCommandLineBytes_def kMaxEnvironmentBytes_def kMaxCaptureBytes_def
        environment_bytes_def)
      (simp add: sample_host_def sample_normal)
  moreover have "\<not> sv_closed (supervisor_init supervisor_options_default)" "px_launch sample_process_host spec = Inr (42, 5)" for spec
    by (simp_all add: supervisor_init_def sample_process_host_def)
  ultimately show ?thesis
    using assms by (simp add: local_spawn_def supervisor_spawn_def Let_def case_prod_beta)
qed

theorem cancelled_run_does_not_succeed_witness:
  "\<exists>le1 le2 handle.
    local_enter sample_process_host sample_invocation sample_process_spec sample_workspace idle_executor =
      (le1, Inr (sample_process_spec\<lparr>sp_working_directory := ''c:/ws''\<rparr>)) \<and>
    local_spawn sample_process_host sample_invocation (sample_process_spec\<lparr>sp_working_directory := ''c:/ws''\<rparr>) le1 = (le2, Inr handle) \<and>
    er_status (snd (local_finish \<lparr>oh_is_regular_file = (\<lambda>_. False), oh_queries = sample_queries\<rparr> False
      \<lparr>xr_stdout = [], xr_stderr = [], xr_exit_code = Some 0, xr_now = 9\<rparr> sample_invocation sample_workspace handle
      (fst (local_cancel (invocation_ref sample_invocation) ''stop'' le2)))) \<in> {SC_process_cancelled, SC_unknown_outcome}"
proof -
  have idle: "supervisor_ok (le_processes idle_executor)" "counter (sv_allocator (le_processes idle_executor)) \<noteq> kMax"
    by (simp_all add: idle_executor_def supervisor_init_ok)
      (simp add: supervisor_init_def allocator_init_def kMax_def)
  obtain le1 where le1: "local_enter sample_process_host sample_invocation sample_process_spec sample_workspace idle_executor =
      (le1, Inr (sample_process_spec\<lparr>sp_working_directory := ''c:/ws''\<rparr>))" "le_processes le1 = supervisor_init supervisor_options_default"
    using sample_enter by blast
  obtain le2 handle where le2: "local_spawn sample_process_host sample_invocation
      (sample_process_spec\<lparr>sp_working_directory := ''c:/ws''\<rparr>) le1 = (le2, Inr handle)"
    using sample_spawn [OF le1(2)] by blast
  have "Generation 7 \<noteq> is_generation sample_invocation" by (simp add: sample_invocation_def gen_initial_def)
  from cancelled_run_does_not_succeed [OF idle le1(1) le2 this, of "''stop''"] le1(1) le2 show ?thesis by blast
qed

end
