(* ===== verification/Worker.thy ===== *)
theory Worker
  imports Executor "HOL-Library.Multiset"
begin

text \<open>
  The compiler worker and how the coordinator reaches it (\<open>src/ipc/service.cpp\<close>, \<open>service.hpp\<close>): the
  handler of the worker and its loop, the channel that routes the frames of one connection, and the
  executor that sends a phase to a worker. The sockets are the bytes that arrive and the number of
  bytes a send takes.
\<close>

section \<open>Replies\<close>

definition error_message :: "u64 \<Rightarrow> status \<Rightarrow> message" where
  "error_message i e = message_default\<lparr>mg_type := MT_error, mg_request_id := i,
     mg_payload := encode_error (status_code e) (status_message e) []\<rparr>"

definition reply_message :: "message_type \<Rightarrow> string \<Rightarrow> message" where
  "reply_message type payload = message_default\<lparr>mg_type := type, mg_payload := payload\<rparr>"

definition answer_or_failure :: "message \<Rightarrow> message result \<Rightarrow> message" where
  "answer_or_failure request x = (case x of Inl e \<Rightarrow> error_message (mg_request_id request) e | Inr reply \<Rightarrow> reply)"

definition duplicate_request :: status where
  "duplicate_request = Status SC_protocol_duplicate_request ''this request id was already served on this connection''"

section \<open>The worker\<close>

record worker_options =
  wo_coordinator_host :: string
  wo_coordinator_port :: u16
  wo_name :: string
  wo_workspace_root :: string
  wo_connection :: connection_options
  wo_max_requests :: nat

definition worker_options_default :: worker_options where
  "worker_options_default = \<lparr>wo_coordinator_host = ''127.0.0.1'', wo_coordinator_port = 0, wo_name = ''crf-worker'',
     wo_workspace_root = [], wo_connection = connection_options_default, wo_max_requests = 0\<rparr>"

record worker =
  ws_options :: worker_options
  ws_processes :: process_supervisor
  ws_executed :: u64
  ws_shutdown_requested :: bool

text \<open>What the host answers while one request is served, and how much of the reply the socket takes.\<close>

record worker_host =
  wh_paths :: host_paths
  wh_fs :: host_fs
  wh_queries :: file_queries
  wh_is_regular_file :: "string \<Rightarrow> bool"
  wh_process :: process_host
  wh_exit :: exit_report
  wh_casts :: wire_casts
  wh_taken :: nat

abbreviation wh_outputs :: "worker_host \<Rightarrow> output_host" where
  "wh_outputs host \<equiv> \<lparr>oh_is_regular_file = wh_is_regular_file host, oh_queries = wh_queries host\<rparr>"

definition on_root_field :: "field_reader \<Rightarrow> string \<Rightarrow> string result" where
  "on_root_field r root = (if fr_current_id r \<noteq> 5 then Inr root else as_text r)"

definition worker_prepare :: "worker_host \<Rightarrow> message \<Rightarrow> worker \<Rightarrow> message result" where
  "worker_prepare host request w =
     crf_try (decode_workspace_request (mg_payload request)) (\<lambda>(session, session_generation, phase, phase_generation).
     crf_try (fields_loop on_root_field [] (field_reader_init (mg_payload request))) (\<lambda>(root, _).
       if root = [] then Inl (Status SC_invalid_argument ''workspace root was not supplied'')
       else
         let workspace_root = hp_normalize (wh_paths host) root in
         if wo_workspace_root (ws_options w) \<noteq> [] \<and>
             \<not> hp_within (wh_paths host) workspace_root (wo_workspace_root (ws_options w))
           then Inl (Status SC_workspace_escape ''ordered workspace is outside the worker's permitted root'')
         else crf_try (workspace_open (wh_paths host) (wh_fs host) workspace_root session session_generation phase phase_generation)
           (\<lambda>ws. Inr (reply_message MT_workspace_ready (fw_buffer
             (writer_blob 2 (to_hex (wk_marker_digest ws)) (writer_boolean 1 True field_writer_init)))))))"

definition worker_context :: validation_context where
  "worker_context = \<lparr>vc_workspace = None, vc_family = TF_unknown, vc_target_architecture = AR_x64, vc_forbidden_options = [],
     vc_limits = invocation_limits_default, vc_require_component_identity = False, vc_allowed_executable_roots = []\<rparr>"

definition check_ordered_executable :: "file_queries \<Rightarrow> invocation_spec \<Rightarrow> unit result" where
  "check_ordered_executable fq v =
     (if digest_zero (fi_content (is_executable_identity v)) then Inr ()
      else crf_try (probe_file_identity fq (is_executable v) True) (\<lambda>observed.
        if fi_content observed \<noteq> fi_content (is_executable_identity v)
        then Inl (Status SC_component_mutated ''the ordered executable no longer matches the digest it was ordered with'')
        else Inr ()))"

definition worker_process :: "process_spec \<Rightarrow> process_spec \<Rightarrow> process_spec" where
  "worker_process ordered effective =
     effective\<lparr>sp_environment := sp_environment ordered, sp_timeout_millis := sp_timeout_millis ordered,
       sp_max_capture_bytes := (if sp_max_capture_bytes ordered = 0 then kDefaultCaptureBytes else sp_max_capture_bytes ordered),
       sp_working_directory := sp_working_directory ordered\<rparr>"

text \<open>From the order to the process it asks for; the ordered root of the workspace and the label are not looked at.\<close>

definition worker_admit :: "worker_host \<Rightarrow> string \<Rightarrow> (invocation_spec \<times> process_spec) result" where
  "worker_admit host payload =
     crf_try (decode_invocation_order (wh_casts host) process_spec_default payload) (\<lambda>(spec, ordered, workspace_root, phase_label).
     crf_try (validate_invocation (wh_paths host) (wh_fs host) (wh_queries host) spec worker_context) (\<lambda>checked.
     crf_try (check_ordered_executable (wh_queries host) checked) (\<lambda>_.
     crf_try (to_process_spec (wh_paths host) (hf_is_directory (wh_fs host)) checked) (\<lambda>effective.
       Inr (checked, worker_process ordered effective)))))"

definition worker_start :: "worker_host \<Rightarrow> message \<Rightarrow> worker \<Rightarrow> worker \<times> message result" where
  "worker_start host request w =
     (case worker_admit host (mg_payload request) of
        Inl e \<Rightarrow> (w, Inl e)
      | Inr (checked, effective) \<Rightarrow>
          (case supervisor_run (wh_process host) effective (invocation_ref checked) False (wh_exit host) (ws_processes w) of
             (sv, Inl e) \<Rightarrow> (w\<lparr>ws_processes := sv\<rparr>, Inl e)
           | (sv, Inr outcome) \<Rightarrow>
               (w\<lparr>ws_processes := sv, ws_executed := ws_executed w + 1\<rparr>,
                Inr (reply_message MT_phase_started (encode_execution_report
                  (executed_report (wh_outputs host) checked outcome execution_report_default))))))"

definition on_cancel_field :: "field_reader \<Rightarrow> u64 list \<times> string \<Rightarrow> (u64 list \<times> string) result" where
  "on_cancel_field r f =
     (if fr_current_id r = 1 \<or> fr_current_id r = 2
      then crf_try (as_u64 r) (\<lambda>v. Inr ((fst f)[unat (fr_current_id r) - 1 := v], snd f))
      else if fr_current_id r = 3 then crf_try (as_text r) (\<lambda>v. Inr (fst f, v))
      else Inr f)"

definition cancel_fields :: "string \<Rightarrow> (u64 list \<times> string) result" where
  "cancel_fields payload = crf_try (fields_loop on_cancel_field ([0, 0], []) (field_reader_init payload)) (\<lambda>(f, _). Inr f)"

text \<open>The invocation of a cancellation is read and then not used.\<close>

definition worker_cancel :: "message \<Rightarrow> message result" where
  "worker_cancel request = crf_try (cancel_fields (mg_payload request)) (\<lambda>_. Inr (reply_message MT_phase_cancelled []))"

definition worker_handle :: "worker_host \<Rightarrow> message \<Rightarrow> worker \<Rightarrow> worker \<times> message result" where
  "worker_handle host request w =
     (case mg_type request of
        MT_hello \<Rightarrow> (w, Inr (reply_message MT_hello_ack (encode_hello (wo_name (ws_options w)) ''worker'' 0 ''worker ready'')))
      | MT_ping \<Rightarrow> (w, Inr (reply_message MT_pong []))
      | MT_prepare_workspace \<Rightarrow> (w, Inr (answer_or_failure request (worker_prepare host request w)))
      | MT_start_phase \<Rightarrow> (case worker_start host request w of (w', x) \<Rightarrow> (w', Inr (answer_or_failure request x)))
      | MT_cancel_phase \<Rightarrow> (w, Inr (answer_or_failure request (worker_cancel request)))
      | MT_shutdown \<Rightarrow> (w\<lparr>ws_shutdown_requested := True\<rparr>, Inr (reply_message MT_shutdown_ack []))
      | type \<Rightarrow> (w, Inr (error_message (mg_request_id request)
          (Status SC_protocol_unknown_operation (''unsupported worker operation '' @ to_string_message_type type)))))"

text \<open>
  One round of \<open>serve\<close> after a frame has been received: what is written, whether the request was served
  and, when the loop ends with it, its result.
\<close>

definition worker_inbound ::
  "worker_host \<Rightarrow> message \<Rightarrow> worker \<times> connection \<Rightarrow> (worker \<times> connection) \<times> string \<times> bool \<times> unit result option" where
  "worker_inbound host request wc =
     (case wc of (w, c) \<Rightarrow>
       case note_request (mg_request_id request) c of
         (c1, False) \<Rightarrow>
           ((w, c1), fst (connection_send (wh_taken host) (error_message (mg_request_id request) duplicate_request) c1), False, None)
       | (c1, True) \<Rightarrow>
           (case worker_handle host request w of (w1, x) \<Rightarrow>
             (case connection_send (wh_taken host)
                 ((answer_or_failure request x)\<lparr>mg_request_id := mg_request_id request\<rparr>) c1 of
                (sent, Inl e) \<Rightarrow> ((w1, c1), sent, True, Some (Inl e))
              | (sent, Inr _) \<Rightarrow> ((w1, c1), sent, True, if ws_shutdown_requested w1 then Some (Inr ()) else None))))"

definition connection_ended :: "status \<Rightarrow> bool" where
  "connection_ended e = (status_code e = SC_protocol_peer_closed \<or> status_code e = SC_protocol_frame_truncated)"

text \<open>\<open>serve\<close>: \<open>n\<close> counts the frames received and picks the answers of the host, \<open>served\<close> the requests served.\<close>

function worker_serve ::
  "(nat \<Rightarrow> worker_host) \<Rightarrow> nat \<Rightarrow> nat \<Rightarrow> worker \<times> connection \<Rightarrow> string \<Rightarrow> (worker \<times> connection) \<times> string list \<times> unit result" where
  "worker_serve hosts n served wc wire =
     (if ws_shutdown_requested (fst wc) then (wc, [], Inr ())
      else case connection_receive (snd wc) wire of
        (c1, _, Inl e) \<Rightarrow> ((fst wc, c1), [], if connection_ended e then Inr () else Inl e)
      | (c1, wire1, Inr request) \<Rightarrow>
          (case worker_inbound (hosts n) request (fst wc, c1) of
             (wc1, sent, _, Some x) \<Rightarrow> (wc1, [sent], x)
           | (wc1, sent, counted, None) \<Rightarrow>
               let served1 = (if counted then Suc served else served); limit = wo_max_requests (ws_options (fst wc1)) in
               if counted \<and> limit \<noteq> 0 \<and> served1 \<ge> limit then (wc1, [sent], Inr ())
               else case worker_serve hosts (Suc n) served1 wc1 wire1 of (wc2, more_sent, x) \<Rightarrow> (wc2, sent # more_sent, x)))"
  by pat_completeness auto
termination
  by (relation "measure (\<lambda>(_, _, _, _, wire). length wire)") (auto dest: receive_consumes [OF sym])

declare worker_serve.simps [simp del]

text \<open>
  \<open>connect\<close>: the directory of the workspaces, the connection and the handshake. \<open>created\<close> and
  \<open>connected\<close> are what the file system and the socket answer.
\<close>

definition worker_connect ::
  "host_paths \<Rightarrow> string option \<Rightarrow> connection result \<Rightarrow> nat \<Rightarrow> string \<Rightarrow> worker_options \<Rightarrow>
   (worker \<times> connection \<times> string) result" where
  "worker_connect hp created connected taken wire options =
     (let options1 = options\<lparr>wo_workspace_root := hp_normalize hp (wo_workspace_root options)\<rparr> in
      case created of
        Some e \<Rightarrow> Inl (Status SC_permission_denied (''worker workspace root could not be created: '' @ e))
      | None \<Rightarrow>
        crf_try connected (\<lambda>c.
          case transact taken (reply_message MT_hello (encode_hello (wo_name options1) ''worker'' 0 ''worker ready'')) c wire of
            (_, _, _, Inl e) \<Rightarrow> Inl e
          | (_, c1, wire1, Inr acknowledged) \<Rightarrow>
              if mg_type acknowledged \<noteq> MT_hello_ack
                then Inl (Status SC_protocol_malformed ''coordinator did not acknowledge the handshake'')
              else crf_try (decode_hello_detail (mg_payload acknowledged)) (\<lambda>detail.
                if take 12 detail \<noteq> ''coordinator|'' then Inl (Status SC_protocol_malformed ''peer is not a coordinator'')
                else Inr (\<lparr>ws_options = options1, ws_processes = supervisor_init supervisor_options_default, ws_executed = 0,
                       ws_shutdown_requested = False\<rparr>, c1, wire1))))"

section \<open>The channel\<close>

text \<open>
  \<open>PeerChannel\<close>: \<open>pl_pending\<close> are the requests whose promise is not yet fulfilled, \<open>pl_answers\<close> the
  promises that are, in the order in which they were.
\<close>

record peer_channel =
  pl_connection :: connection
  pl_pending :: "u64 list"
  pl_answers :: "(u64 \<times> message result) list"
  pl_request_counter :: u64
  pl_sent :: u64
  pl_received :: u64

definition channel_init :: "connection \<Rightarrow> peer_channel" where
  "channel_init c = \<lparr>pl_connection = c, pl_pending = [], pl_answers = [], pl_request_counter = 0, pl_sent = 0, pl_received = 0\<rparr>"

definition channel_open :: "peer_channel \<Rightarrow> bool" where
  "channel_open ch = cn_open (pl_connection ch)"

definition next_request_id :: "peer_channel \<Rightarrow> u64 \<times> peer_channel" where
  "next_request_id ch = (pl_request_counter ch + 1, ch\<lparr>pl_request_counter := pl_request_counter ch + 1\<rparr>)"

text \<open>\<open>request\<close> up to the wait: the bytes written and the identity the caller waits for.\<close>

definition channel_request :: "nat \<Rightarrow> message \<Rightarrow> peer_channel \<Rightarrow> peer_channel \<times> string \<times> u64 result" where
  "channel_request taken m ch =
     (if \<not> channel_open ch then (ch, [], Inl (Status SC_protocol_peer_closed ''channel is not open''))
      else case (if mg_request_id m = 0 then next_request_id ch else (mg_request_id m, ch)) of (i, ch1) \<Rightarrow>
        let ch2 = ch1\<lparr>pl_pending := List.insert i (pl_pending ch1)\<rparr> in
        (case connection_send taken (m\<lparr>mg_request_id := i\<rparr>) (pl_connection ch2) of
           (sent, Inl e) \<Rightarrow> (ch2\<lparr>pl_pending := remove1 i (pl_pending ch2)\<rparr>, sent, Inl e)
         | (sent, Inr _) \<Rightarrow> (ch2\<lparr>pl_sent := pl_sent ch2 + 1\<rparr>, sent, Inr i)))"

text \<open>One round of \<open>pump\<close> after a frame has been received; \<open>serve\<close> is the handler, if there is one.\<close>

definition channel_inbound ::
  "(message \<Rightarrow> 's \<Rightarrow> 's \<times> message result) option \<Rightarrow> nat \<Rightarrow> message \<Rightarrow> peer_channel \<times> 's \<Rightarrow> (peer_channel \<times> 's) \<times> string" where
  "channel_inbound handler taken m cs =
     (case cs of (ch, s) \<Rightarrow>
       let ch1 = ch\<lparr>pl_received := pl_received ch + 1\<rparr>; i = mg_request_id m in
       case (if mg_type m \<noteq> MT_hello then note_request i (pl_connection ch1) else (pl_connection ch1, True)) of
         (c, False) \<Rightarrow> ((ch1\<lparr>pl_connection := c\<rparr>, s), fst (connection_send taken (error_message i duplicate_request) c))
       | (c, True) \<Rightarrow>
           let ch2 = ch1\<lparr>pl_connection := c\<rparr> in
           if i \<in> set (pl_pending ch2)
           then ((ch2\<lparr>pl_pending := remove1 i (pl_pending ch2), pl_answers := pl_answers ch2 @ [(i, Inr m)]\<rparr>, s), [])
           else case handler of
             None \<Rightarrow> ((ch2, s), [])
           | Some handle \<Rightarrow>
               (case handle m s of (s1, x) \<Rightarrow>
                 ((ch2, s1), fst (connection_send taken
                   (case x of Inl e \<Rightarrow> error_message i e | Inr reply \<Rightarrow> reply\<lparr>mg_request_id := i\<rparr>) c))))"

definition channel_end :: "peer_channel \<Rightarrow> peer_channel" where
  "channel_end ch = ch\<lparr>pl_connection := connection_close (pl_connection ch), pl_pending := [],
     pl_answers := pl_answers ch @
       map (\<lambda>i. (i, Inl (Status SC_protocol_peer_closed ''peer channel closed before the reply arrived''))) (pl_pending ch)\<rparr>"

function channel_pump ::
  "(message \<Rightarrow> 's \<Rightarrow> 's \<times> message result) option \<Rightarrow> (nat \<Rightarrow> nat) \<Rightarrow> nat \<Rightarrow> peer_channel \<times> 's \<Rightarrow> string \<Rightarrow>
   (peer_channel \<times> 's) \<times> string list" where
  "channel_pump handler takes n cs wire =
     (case connection_receive (pl_connection (fst cs)) wire of
        (c, _, Inl e) \<Rightarrow> ((channel_end ((fst cs)\<lparr>pl_connection := c\<rparr>), snd cs), [])
      | (c, wire1, Inr m) \<Rightarrow>
          (case channel_inbound handler (takes n) m ((fst cs)\<lparr>pl_connection := c\<rparr>, snd cs) of
             (cs1, sent) \<Rightarrow>
               (case channel_pump handler takes (Suc n) cs1 wire1 of (cs2, more_sent) \<Rightarrow> (cs2, sent # more_sent))))"
  by pat_completeness auto
termination
  by (relation "measure (\<lambda>(_, _, _, _, wire). length wire)") (auto dest: receive_consumes [OF sym])

declare channel_pump.simps [simp del]

section \<open>The executor on a worker\<close>

text \<open>
  \<open>request\<close> is what the channel to the worker does with a request, with the state \<open>'s\<close> of whatever is
  behind it; there is none when no worker is connected or its channel is closed.
\<close>

definition remote_prepare :: "invocation_spec \<Rightarrow> workspace \<Rightarrow> message" where
  "remote_prepare v w = reply_message MT_prepare_workspace (fw_buffer
     (writer_blob 5 (wk_root w) (writer_u64 4 (gen_value (ref_gen (is_phase v))) (writer_u64 3 (id_value (ref_id (is_phase v)))
       (writer_u64 2 (gen_value (ref_gen (is_session v))) (writer_u64 1 (id_value (ref_id (is_session v))) field_writer_init))))))"

definition remote_order :: "invocation_spec \<Rightarrow> process_spec \<Rightarrow> workspace \<Rightarrow> string \<Rightarrow> message" where
  "remote_order v p w label = reply_message MT_start_phase (encode_invocation_order v p (wk_root w) label)"

text \<open>The refusal in an error reply.\<close>

definition error_reply :: "message \<Rightarrow> status" where
  "error_reply m = (case decode_error (mg_payload m) of
     Inl _ \<Rightarrow> Status SC_protocol_malformed ''malformed error reply'' | Inr (code, detail) \<Rightarrow> Status code detail)"

definition remote_ask ::
  "(message \<Rightarrow> 's \<Rightarrow> 's \<times> message result) \<Rightarrow> message \<Rightarrow> 's \<Rightarrow> 's \<times> message result" where
  "remote_ask request m s =
     (case request m s of
        (s1, Inl e) \<Rightarrow> (s1, Inl e)
      | (s1, Inr reply) \<Rightarrow> (s1, if mg_type reply = MT_error then Inl (error_reply reply) else Inr reply))"

definition remote_execute ::
  "wire_casts \<Rightarrow> bool \<Rightarrow> (message \<Rightarrow> 's \<Rightarrow> 's \<times> message result) option \<Rightarrow> invocation_spec \<Rightarrow> process_spec \<Rightarrow> workspace \<Rightarrow>
   string \<Rightarrow> 's \<Rightarrow> 's \<times> execution_report result" where
  "remote_execute strays offline channel v p w label s =
     (let failed = (\<lambda>e. Inr (refused_execution e (workspace_report w))) in
      if offline
        then (s, failed (Status SC_protocol_peer_closed ''the worker is offline; no physical execution is possible''))
      else case channel of
        None \<Rightarrow> (s, failed (Status SC_protocol_peer_closed ''no compiler worker is connected''))
      | Some request \<Rightarrow>
          (case remote_ask request (remote_prepare v w) s of
             (s1, Inl e) \<Rightarrow> (s1, failed e)
           | (s1, Inr _) \<Rightarrow>
               (case remote_ask request (remote_order v p w label) s1 of
                  (s2, Inl e) \<Rightarrow> (s2, failed e)
                | (s2, Inr executed) \<Rightarrow>
                    (case decode_execution_report strays (mg_payload executed) of
                       Inl e \<Rightarrow> (s2, failed e)
                     | Inr remote \<Rightarrow>
                         (s2, Inr (remote\<lparr>er_workspace_root := wk_root w, er_workspace_marker := wk_marker_digest w\<rparr>))))))"

definition remote_cancel ::
  "(message \<Rightarrow> 's \<Rightarrow> 's \<times> message result) option \<Rightarrow> invocation_tag referenced \<Rightarrow> string \<Rightarrow> 's \<Rightarrow> 's \<times> unit result" where
  "remote_cancel channel i reason s =
     (case channel of
        None \<Rightarrow> (s, Inl (Status SC_protocol_peer_closed ''no compiler worker is connected''))
      | Some request \<Rightarrow>
          (case request (reply_message MT_cancel_phase (fw_buffer (writer_text 3 reason
              (writer_u64 2 (gen_value (ref_gen i)) (writer_u64 1 (id_value (ref_id i)) field_writer_init))))) s of
             (s1, Inl e) \<Rightarrow> (s1, Inl e)
           | (s1, Inr _) \<Rightarrow> (s1, Inr ())))"

definition remote_describe :: "bool \<Rightarrow> string" where
  "remote_describe offline = (if offline then ''remote worker executor (offline)'' else ''remote worker executor'')"

text \<open>\<open>AdaptiveExecutor\<close>: the worker when its channel is open, the local executor otherwise.\<close>

definition adaptive_execute ::
  "wire_casts \<Rightarrow> bool \<Rightarrow> (message \<Rightarrow> 's \<Rightarrow> 's \<times> message result) option \<Rightarrow>
   (invocation_spec \<Rightarrow> process_spec \<Rightarrow> workspace \<Rightarrow> 's \<Rightarrow> 's \<times> execution_report result) \<Rightarrow>
   invocation_spec \<Rightarrow> process_spec \<Rightarrow> workspace \<Rightarrow> string \<Rightarrow> 's \<Rightarrow> 's \<times> execution_report result" where
  "adaptive_execute strays offline channel at_home v p w label s =
     (case channel of
        Some _ \<Rightarrow> remote_execute strays offline channel v p w label s
      | None \<Rightarrow> at_home v p w s)"

definition adaptive_cancel ::
  "(message \<Rightarrow> 's \<Rightarrow> 's \<times> message result) option \<Rightarrow>
   (invocation_tag referenced \<Rightarrow> string \<Rightarrow> 's \<Rightarrow> 's \<times> unit result) \<Rightarrow> invocation_tag referenced \<Rightarrow> string \<Rightarrow> 's \<Rightarrow> 's \<times> unit result" where
  "adaptive_cancel channel at_home i reason s =
     (case channel of Some _ \<Rightarrow> remote_cancel channel i reason s | None \<Rightarrow> at_home i reason s)"

definition adaptive_describe :: "bool \<Rightarrow> string" where
  "adaptive_describe connected =
     (if connected then ''worker-preferred executor (worker connected)'' else ''worker-preferred executor (local fallback)'')"

section \<open>Every request is answered\<close>

definition answer_fits :: "u64 \<times> message result \<Rightarrow> bool" where
  "answer_fits a = (case snd a of Inl e \<Rightarrow> status_code e = SC_protocol_peer_closed | Inr m \<Rightarrow> mg_request_id m = fst a)"

lemma inbound_answers:
  assumes "channel_inbound handler taken m (ch, s) = ((ch', s'), sent)"
  shows "\<exists>new. pl_answers ch' = pl_answers ch @ new \<and> mset (map fst new) + mset (pl_pending ch') = mset (pl_pending ch) \<and>
    list_all answer_fits new"
proof (cases "mg_request_id m \<in> set (pl_pending ch) \<and> pl_answers ch' \<noteq> pl_answers ch")
  case True
  then have "pl_answers ch' = pl_answers ch @ [(mg_request_id m, Inr m)]" "pl_pending ch' = remove1 (mg_request_id m) (pl_pending ch)"
    using assms by (auto simp: channel_inbound_def Let_def split: prod.splits bool.splits if_splits option.splits)
  with True show ?thesis by (intro exI [of _ "[(mg_request_id m, Inr m)]"]) (simp add: answer_fits_def)
next
  case False
  then have "pl_answers ch' = pl_answers ch" "pl_pending ch' = pl_pending ch"
    using assms by (auto simp: channel_inbound_def Let_def split: prod.splits bool.splits if_splits option.splits)
  then show ?thesis by simp
qed

lemma pump_answers:
  "\<exists>new. pl_answers (fst (fst (channel_pump handler takes n cs wire))) = pl_answers (fst cs) @ new \<and>
    mset (map fst new) = mset (pl_pending (fst cs)) \<and> list_all answer_fits new \<and>
    pl_pending (fst (fst (channel_pump handler takes n cs wire))) = [] \<and>
    \<not> channel_open (fst (fst (channel_pump handler takes n cs wire)))"
proof (induction handler takes n cs wire rule: channel_pump.induct)
  case (1 handler takes n cs wire)
  obtain c wire1 x where received: "connection_receive (pl_connection (fst cs)) wire = (c, wire1, x)" by (metis prod_cases3)
  show ?case
  proof (cases x)
    case (Inl e)
    then show ?thesis
      using received by (simp add: channel_pump.simps [of handler takes n cs] channel_end_def connection_close_def channel_open_def
          answer_fits_def list_all_iff comp_def multiset.map_comp)
  next
    case (Inr m)
    obtain ch1 s1 sent where inbound: "channel_inbound handler (takes n) m ((fst cs)\<lparr>pl_connection := c\<rparr>, snd cs) = ((ch1, s1), sent)"
      by (metis prod.collapse)
    obtain new where new: "pl_answers ch1 = pl_answers (fst cs) @ new" "mset (map fst new) + mset (pl_pending ch1) = mset (pl_pending (fst cs))"
      "list_all answer_fits new" using inbound_answers [OF inbound] by auto
    obtain later where "pl_answers (fst (fst (channel_pump handler takes (Suc n) (ch1, s1) wire1))) = pl_answers ch1 @ later"
      "mset (map fst later) = mset (pl_pending ch1)" "list_all answer_fits later"
      "pl_pending (fst (fst (channel_pump handler takes (Suc n) (ch1, s1) wire1))) = []"
      "\<not> channel_open (fst (fst (channel_pump handler takes (Suc n) (ch1, s1) wire1)))"
      using 1 [OF received [symmetric] refl Inr inbound [symmetric]] by auto
    with new show ?thesis
      by (intro exI [of _ "new @ later"])
        (simp add: channel_pump.simps [of handler takes n cs] received Inr inbound case_prod_beta)
  qed
qed

section \<open>A duplicate is answered by a duplicate\<close>

text \<open>
  One exchange: the coordinator's channel reads what is in flight, the worker reads what it answered,
  and what the worker answers is in flight.
\<close>

definition exchange ::
  "(message \<Rightarrow> 's \<Rightarrow> 's \<times> message result) option \<Rightarrow> nat \<Rightarrow> worker_host \<Rightarrow> (peer_channel \<times> 's) \<times> (worker \<times> connection) \<times> string \<Rightarrow>
   (peer_channel \<times> 's) \<times> (worker \<times> connection) \<times> string" where
  "exchange handler taken host x =
     (case x of (cs, wc, flight) \<Rightarrow>
       case connection_receive (pl_connection (fst cs)) flight of
         (c, _, Inl _) \<Rightarrow> (((fst cs)\<lparr>pl_connection := c\<rparr>, snd cs), wc, [])
       | (c, _, Inr m) \<Rightarrow>
           (case channel_inbound handler taken m ((fst cs)\<lparr>pl_connection := c\<rparr>, snd cs) of
              (cs1, answer) \<Rightarrow>
                (case connection_receive (snd wc) answer of
                   (d, _, Inl _) \<Rightarrow> (cs1, (fst wc, d), [])
                 | (d, _, Inr m1) \<Rightarrow> (case worker_inbound host m1 (fst wc, d) of (wc1, sent, _, _) \<Rightarrow> (cs1, wc1, sent)))))"

definition knows_request :: "u64 \<Rightarrow> connection \<Rightarrow> bool" where
  "knows_request i c = (cn_open c \<and> i \<noteq> 0 \<and> i \<in> cn_recent_set c \<and> unat (no_max_frame_payload (cn_options c)) \<ge> 1024)"

lemma knows_request_refuses: "knows_request i c \<Longrightarrow> note_request i c = (c, False)"
  by (simp add: knows_request_def note_request_def)

lemma duplicate_payload: "length (mg_payload (error_message i duplicate_request)) \<le> 1024"
  by (simp add: error_message_def duplicate_request_def encode_error_def writer_text_def writer_u16_def writer_emit_def
      field_writer_init_def kMaxFieldBytes_def)

lemma duplicate_fits: "knows_request i c \<Longrightarrow> message_fits (cn_options c) (error_message j duplicate_request)"
  using duplicate_payload [of j] by (auto simp: message_fits_def message_valid_def knows_request_def error_message_def)

lemma duplicate_sent:
  assumes "knows_request i c" "2048 \<le> taken"
  shows "fst (connection_send taken (error_message j duplicate_request) c) = frame_bytes (error_message j duplicate_request)"
  using assms duplicate_payload [of j] by (auto simp: connection_send_def knows_request_def kFrameHeaderBytes_def)

lemma channel_duplicate:
  assumes "knows_request (mg_request_id m) (pl_connection ch)" "mg_type m \<noteq> MT_hello" "2048 \<le> taken"
  shows "channel_inbound handler taken m (ch, s) =
    ((ch\<lparr>pl_received := pl_received ch + 1\<rparr>, s), frame_bytes (error_message (mg_request_id m) duplicate_request))"
  using assms duplicate_sent [OF assms(1,3)] by (simp add: channel_inbound_def knows_request_refuses Let_def)

lemma worker_duplicate:
  assumes "knows_request (mg_request_id m) c" "2048 \<le> wh_taken host"
  shows "worker_inbound host m (w, c) = ((w, c), frame_bytes (error_message (mg_request_id m) duplicate_request), False, None)"
  using assms duplicate_sent [OF assms] by (simp add: worker_inbound_def knows_request_refuses)

lemma exchange_duplicate:
  assumes "knows_request i (pl_connection ch)" "knows_request i c" "2048 \<le> taken" "2048 \<le> wh_taken host"
    "message_fits (cn_options (pl_connection ch)) m" "mg_request_id m = i" "mg_type m \<noteq> MT_hello"
  shows "exchange handler taken host ((ch, s), (w, c), frame_bytes m) =
    ((ch\<lparr>pl_received := pl_received ch + 1\<rparr>, s), (w, c), frame_bytes (error_message i duplicate_request))"
proof -
  have "connection_receive (pl_connection ch) (frame_bytes m @ []) = (pl_connection ch, [], Inr m)"
    using assms(1,5) by (intro receive_frame) (simp_all add: knows_request_def)
  moreover have "connection_receive c (frame_bytes (error_message i duplicate_request) @ []) = (c, [], Inr (error_message i duplicate_request))"
    using assms(2) by (intro receive_frame duplicate_fits [OF assms(2)]) (simp add: knows_request_def)
  moreover have "mg_request_id (error_message i duplicate_request) = i" by (simp add: error_message_def)
  ultimately show ?thesis
    using assms channel_duplicate [of m ch taken handler s] worker_duplicate [of "error_message i duplicate_request" c host w]
    by (simp add: exchange_def)
qed

lemma volley:
  assumes "knows_request i (pl_connection ch)" "knows_request i c" "2048 \<le> taken" "2048 \<le> wh_taken host"
    "message_fits (cn_options (pl_connection ch)) m" "mg_request_id m = i" "mg_type m \<noteq> MT_hello"
  shows "\<exists>ch'. pl_connection ch' = pl_connection ch \<and>
    (exchange handler taken host ^^ Suc n) ((ch, s), (w, c), frame_bytes m) = ((ch', s), (w, c), frame_bytes (error_message i duplicate_request))"
proof (induction n)
  case 0
  then show ?case using exchange_duplicate [OF assms, of handler s w] by (intro exI conjI) auto
next
  case (Suc n)
  then obtain ch' where ch': "pl_connection ch' = pl_connection ch"
    "(exchange handler taken host ^^ Suc n) ((ch, s), (w, c), frame_bytes m) = ((ch', s), (w, c), frame_bytes (error_message i duplicate_request))"
    by blast
  have "mg_request_id (error_message i duplicate_request) = i" "mg_type (error_message i duplicate_request) \<noteq> MT_hello"
    by (simp_all add: error_message_def)
  then have "exchange handler taken host ((ch', s), (w, c), frame_bytes (error_message i duplicate_request)) =
      ((ch'\<lparr>pl_received := pl_received ch' + 1\<rparr>, s), (w, c), frame_bytes (error_message i duplicate_request))"
    using assms(1-4) ch'(1) duplicate_fits [OF assms(1), of i] by (intro exchange_duplicate) simp_all
  then show ?case using ch' by (intro exI [of _ "ch'\<lparr>pl_received := pl_received ch' + 1\<rparr>"]) simp
qed

section \<open>What a worker reports is what it ran\<close>

lemma decoded_small: "decode_blob what m (blob_payload packed) = Inr x \<Longrightarrow> length packed \<le> kMaxFieldBytes"
  by (metis Inl_Inr_False decode_oversized not_le)

lemma length_dec_string: "n < 10 ^ k \<Longrightarrow> 0 < k \<Longrightarrow> length (dec_string n) \<le> k"
proof (induction k arbitrary: n)
  case (Suc k)
  then show ?case
    by (cases "k = 0") (auto simp: dec_string.simps [of n] less_mult_imp_div_less mult.commute)
qed simp

lemma digest_of_file_fits: "digest_of_file f bound = Some d \<Longrightarrow> digest_fits d"
  by (auto simp: digest_of_file_def digest_fits_def sha256_finish_def Let_def length_concat comp_def kBytes_def
      interv_sum_list_conv_sum_set_nat split: option.splits prod.splits if_splits)

lemma digest_default_fits [simp]: "digest_fits digest_default"
  by (simp add: digest_fits_def digest_default_def kBytes_def)

lemma describe_output_fits [simp]:
  "od_logical_name (describe_output oh b) = out_logical_name b" "od_path (describe_output oh b) = out_path b"
  "digest_fits (od_content (describe_output oh b))"
  by (auto simp: describe_output_def Let_def digest_fits_def digest_default_def kBytes_def
      dest: digest_of_file_fits [unfolded digest_fits_def kBytes_def] split: option.split)

lemma run_outcome_short:
  assumes "supervisor_run host spec i False x sv = (sv', Inr outcome)"
  shows "length (status_message (oc_status outcome)) \<le> 64"
proof -
  obtain sv1 handle where "supervisor_spawn host spec i sv = (sv1, Inr handle)" and outcome: "outcome = snd (handle_wait x handle)"
    using assms by (auto simp: supervisor_run_def split: prod.splits sum.splits)
  then have "\<not> ph_finished handle" "\<not> ph_terminate_requested handle" by (auto dest: spawn_live(4,5))
  moreover have "length (dec_string (unat code)) \<le> 30" for code :: u32
    using unsigned_less [of code, where ?'a = nat] by (intro order_trans [OF length_dec_string [of _ 10]]) simp_all
  ultimately show ?thesis
    unfolding outcome by (auto simp: handle_wait_def classify_exit_def Let_def status_success_def split: option.split)
qed

text \<open>The report that arrives has everything but the status of the process, which is in the report itself.\<close>

definition reported :: "execution_report \<Rightarrow> execution_report" where
  "reported e = e\<lparr>er_process := (er_process e)\<lparr>oc_status := status_success\<rparr>\<rparr>"

lemma pack_reported: "pack_execution_report (reported e) = pack_execution_report e"
  by (simp add: pack_execution_report_def reported_def Let_def)

lemma packed_captures:
  "length (pc_standard_output (oc_capture (er_process e))) \<le> length (pack_execution_report e)"
  "length (pc_standard_error (oc_capture (er_process e))) \<le> length (pack_execution_report e)"
  by (simp_all add: pack_execution_report_def Let_def enc_text_def)

lemma decoded_report:
  assumes "decode_execution_report strays (encode_execution_report e) = Inr e'"
    "list_all (\<lambda>b. wire_text 256 (out_logical_name b) \<and> length (out_path b) \<le> 32768) bindings" "length bindings \<le> 256"
    "er_outputs e = map (describe_output oh) bindings" "length (er_detail e) \<le> 64" "er_diagnostics e = []"
    "er_workspace_root e = []" "er_workspace_marker e = digest_default"
  shows "e' = reported e"
proof -
  have small: "length (pack_execution_report e) \<le> kMaxFieldBytes"
    using assms(1) unfolding decode_execution_report_def encode_execution_report_def by (rule decoded_small)
  have "wire_report_fits (reported e)"
    using assms small packed_captures [of e]
    by (simp add: wire_report_fits_def reported_def kMaxFieldBytes_def list_all_iff)
  then have "decode_execution_report strays (encode_execution_report (reported e)) = Inr (reported e)"
    using small by (intro report_round_trip) (simp_all add: pack_reported)
  then show ?thesis using assms(1) by (simp add: encode_execution_report_def pack_reported)
qed

lemma validated_for_worker: "validate_invocation hp fs fq s worker_context = Inr s' \<Longrightarrow> s' = s"
  unfolding validate_invocation_def check_working_directory_def worker_context_def Let_def crf_try_def
  by (auto split: if_split_asm sum.split_asm option.split_asm)

lemma process_spec_of:
  "to_process_spec hp is_dir s = Inr p \<Longrightarrow> sp_executable p = is_executable s \<and> sp_arguments p = is_arguments s"
  by (auto simp: to_process_spec_def crf_try_def Let_def split: sum.splits)

text \<open>An admitted order is the one that was given.\<close>

lemma worker_admits:
  assumes "wire_order_fits v p root label" "worker_admit host (encode_invocation_order v p root label) = Inr (checked, effective)"
  shows "checked = ordered_invocation v \<and> sp_executable effective = is_executable v \<and> sp_arguments effective = is_arguments v \<and>
    sp_environment effective = sp_environment p \<and> sp_working_directory effective = sp_working_directory p \<and>
    check_ordered_executable (wh_queries host) (ordered_invocation v) = Inr ()"
proof -
  obtain x where "decode_invocation_order (wh_casts host) process_spec_default (encode_invocation_order v p root label) = Inr x"
    using assms(2) by (auto simp: worker_admit_def crf_try_def split: sum.splits)
  then have small: "length (pack_invocation_order v p root label) \<le> kMaxFieldBytes"
    unfolding decode_invocation_order_def encode_invocation_order_def by (rule decoded_small)
  have "decode_invocation_order (wh_casts host) process_spec_default (encode_invocation_order v p root label) =
      Inr (ordered_invocation v, ordered_process process_spec_default v p, root, label)"
    using small unpack_order [OF assms(1), of "wh_casts host" process_spec_default]
    by (simp add: decode_invocation_order_def encode_invocation_order_def decode_blob_def unpacked_def crf_try_def)
  then obtain spec where valid: "validate_invocation (wh_paths host) (wh_fs host) (wh_queries host) (ordered_invocation v) worker_context = Inr checked"
    and same: "check_ordered_executable (wh_queries host) checked = Inr ()"
    and spec: "to_process_spec (wh_paths host) (hf_is_directory (wh_fs host)) checked = Inr spec"
      "effective = worker_process (ordered_process process_spec_default v p) spec"
    using assms(2) by (auto simp: worker_admit_def crf_try_def split: sum.splits)
  have "checked = ordered_invocation v" using validated_for_worker [OF valid] .
  moreover have "is_executable (ordered_invocation v) = is_executable v" "is_arguments (ordered_invocation v) = is_arguments v"
    by (simp_all add: ordered_invocation_def)
  ultimately show ?thesis
    using process_spec_of [OF spec(1)] spec(2) same
    by (simp add: worker_process_def ordered_process_def process_spec_default_def)
qed

lemma asked_worker:
  assumes "remote_ask (worker_handle host) m w = (w', Inr reply)"
  shows "mg_type m = MT_prepare_workspace \<Longrightarrow> w' = w \<and> worker_prepare host m w = Inr reply"
    and "mg_type m = MT_start_phase \<Longrightarrow> worker_start host m w = (w', Inr reply)"
  using assms by (auto simp: remote_ask_def worker_handle_def answer_or_failure_def error_message_def
      split: prod.splits sum.splits if_splits)

lemma started_worker:
  assumes "worker_start host m w = (w', Inr reply)"
  obtains checked effective outcome where "worker_admit host (mg_payload m) = Inr (checked, effective)"
    "supervisor_run (wh_process host) effective (invocation_ref checked) False (wh_exit host) (ws_processes w) = (ws_processes w', Inr outcome)"
    "ws_executed w' = ws_executed w + 1"
    "mg_payload reply = encode_execution_report (executed_report (wh_outputs host) checked outcome execution_report_default)"
  using assms by (auto simp: worker_start_def reply_message_def split: sum.splits prod.splits)

lemma not_executed: "\<not> er_executed (refused_execution e (workspace_report w))"
  by (simp add: refused_execution_def workspace_report_def execution_report_default_def)

section \<open>The worker opens the workspace it was asked for\<close>

lemma fields_loop_field:
  assumes "fr_rest r = field_bytes i v @ rest" "length v \<le> kMaxFieldBytes" "precedes (fr_has_last r) (fr_last_id r) i"
  shows "fields_loop f acc r =
    (case f \<lparr>fr_rest = rest, fr_current_id = i, fr_current_value = v, fr_last_id = i, fr_has_last = True\<rparr> acc of
       Inl e \<Rightarrow> Inl e
     | Inr acc' \<Rightarrow> fields_loop f acc' \<lparr>fr_rest = rest, fr_current_id = i, fr_current_value = v, fr_last_id = i, fr_has_last = True\<rparr>)"
  using reader_next_field [OF assms(2,3,1)] by (simp add: fields_loop.simps [of f acc r])

lemmas fields_loop_last = fields_loop_field [where rest = "[]", simplified]

lemma fields_loop_end: "fr_rest r = [] \<Longrightarrow> fields_loop f acc r = Inr (acc, r)"
  by (simp add: fields_loop.simps)

lemma as_u64_enc: "fr_current_value r = enc_u64 v \<Longrightarrow> as_u64 r = Inr v"
  by (simp add: as_u64_def)

lemma prepare_payload:
  assumes "length (wk_root w) \<le> kMaxFieldBytes"
  shows "mg_payload (remote_prepare v w) =
    field_bytes 1 (enc_u64 (id_value (ref_id (is_session v)))) @ field_bytes 2 (enc_u64 (gen_value (ref_gen (is_session v)))) @
    field_bytes 3 (enc_u64 (id_value (ref_id (is_phase v)))) @ field_bytes 4 (enc_u64 (gen_value (ref_gen (is_phase v)))) @
    field_bytes 5 (wk_root w) @ []"
  using assms by (simp add: remote_prepare_def reply_message_def writer_blob_def writer_u64_def writer_emit_field field_writer_init_def)

lemma prepare_fields:
  assumes "length (wk_root w) \<le> kMaxFieldBytes"
  shows "decode_workspace_request (mg_payload (remote_prepare v w)) =
      Inr (ref_id (is_session v), ref_gen (is_session v), ref_id (is_phase v), ref_gen (is_phase v))"
    "\<exists>r. fields_loop on_root_field [] (field_reader_init (mg_payload (remote_prepare v w))) = Inr (wk_root w, r)"
proof -
  have "(8 :: nat) \<le> kMaxFieldBytes" by (simp add: kMaxFieldBytes_def)
  then show "decode_workspace_request (mg_payload (remote_prepare v w)) =
      Inr (ref_id (is_session v), ref_gen (is_session v), ref_id (is_phase v), ref_gen (is_phase v))"
    "\<exists>r. fields_loop on_root_field [] (field_reader_init (mg_payload (remote_prepare v w))) = Inr (wk_root w, r)"
    using assms unfolding prepare_payload [OF assms]
    by (simp_all add: decode_workspace_request_def read_fields_def field_reader_init_def fields_loop_field fields_loop_last fields_loop_end
        on_numbered_field_def on_root_field_def as_u64_enc as_text_def reader_finish_def crf_try_def)
qed

lemma worker_prepared:
  assumes "length (wk_root w) \<le> kMaxFieldBytes"
  shows "worker_prepare host (remote_prepare v w) s = Inr ready \<longleftrightarrow>
    wk_root w \<noteq> [] \<and>
    (wo_workspace_root (ws_options s) = [] \<or>
      hp_within (wh_paths host) (hp_normalize (wh_paths host) (wk_root w)) (wo_workspace_root (ws_options s))) \<and>
    (\<exists>ws. workspace_open (wh_paths host) (wh_fs host) (hp_normalize (wh_paths host) (wk_root w)) (ref_id (is_session v))
        (ref_gen (is_session v)) (ref_id (is_phase v)) (ref_gen (is_phase v)) = Inr ws \<and>
      ready = reply_message MT_workspace_ready (fw_buffer
        (writer_blob 2 (to_hex (wk_marker_digest ws)) (writer_boolean 1 True field_writer_init))))"
proof -
  obtain r where "fields_loop on_root_field [] (field_reader_init (mg_payload (remote_prepare v w))) = Inr (wk_root w, r)"
    using prepare_fields(2) [OF assms] by blast
  then show ?thesis
    using prepare_fields(1) [OF assms, of v]
    by (auto simp: worker_prepare_def crf_try_def Let_def split: sum.splits if_splits)
qed

text \<open>An order that is carried out.\<close>

lemma remote_runs:
  assumes "worker_prepare host (remote_prepare v w) s = Inr ready"
    "worker_admit host (encode_invocation_order v p (wk_root w) label) = Inr (checked, effective)"
    "supervisor_run (wh_process host) effective (invocation_ref checked) False (wh_exit host) (ws_processes s) = (sv, Inr outcome)"
    "decode_execution_report strays (encode_execution_report (executed_report (wh_outputs host) checked outcome execution_report_default)) =
      Inr remote"
  shows "remote_execute strays False (Some (worker_handle host)) v p w label s =
    (s\<lparr>ws_processes := sv, ws_executed := ws_executed s + 1\<rparr>,
     Inr (remote\<lparr>er_workspace_root := wk_root w, er_workspace_marker := wk_marker_digest w\<rparr>))"
proof -
  have "worker_handle host (remote_prepare v w) s = (s, Inr ready)" "mg_type ready \<noteq> MT_error"
    using assms(1) by (auto simp: worker_handle_def remote_prepare_def reply_message_def answer_or_failure_def worker_prepare_def
        crf_try_def Let_def split: sum.splits prod.splits if_splits)
  moreover have "worker_handle host (remote_order v p w label) s =
      (s\<lparr>ws_processes := sv, ws_executed := ws_executed s + 1\<rparr>, Inr (reply_message MT_phase_started
        (encode_execution_report (executed_report (wh_outputs host) checked outcome execution_report_default))))"
    using assms(2,3) by (simp add: worker_handle_def remote_order_def reply_message_def worker_start_def answer_or_failure_def)
  ultimately show ?thesis
    using assms(4) by (simp add: remote_execute_def remote_ask_def Let_def reply_message_def)
qed

section \<open>Claims\<close>

text \<open>
  C6: a report from a worker is honest. When the executor on a worker reports that a phase was
  executed, the worker had opened the workspace for the generations of the session and the phase and
  found it under its root; it ran one process, with the executable, the arguments, the environment and
  the directory that were ordered, after it had found the content of the executable to be the ordered
  one (unless none was given); and the report is the outcome of that process with the outputs as they
  were on the worker's disk.
\<close>

theorem remote_report_is_honest:
  assumes "wire_order_fits v p (wk_root w) label"
    "remote_execute strays False (Some (worker_handle host)) v p w label s = (s', Inr report)" "er_executed report"
  shows "\<exists>ws effective outcome.
    workspace_open (wh_paths host) (wh_fs host) (hp_normalize (wh_paths host) (wk_root w)) (ref_id (is_session v))
      (ref_gen (is_session v)) (ref_id (is_phase v)) (ref_gen (is_phase v)) = Inr ws \<and>
    (wo_workspace_root (ws_options s) = [] \<or>
      hp_within (wh_paths host) (hp_normalize (wh_paths host) (wk_root w)) (wo_workspace_root (ws_options s))) \<and>
    supervisor_run (wh_process host) effective (invocation_ref v) False (wh_exit host) (ws_processes s) = (ws_processes s', Inr outcome) \<and>
    sp_executable effective = is_executable v \<and> sp_arguments effective = is_arguments v \<and>
    sp_environment effective = sp_environment p \<and> sp_working_directory effective = sp_working_directory p \<and>
    (digest_zero (fi_content (is_executable_identity v)) \<or>
      (\<exists>f. probe_file_identity (wh_queries host) (is_executable v) True = Inr f \<and> fi_content f = fi_content (is_executable_identity v))) \<and>
    ws_executed s' = ws_executed s + 1 \<and>
    report = reported (executed_report (wh_outputs host) v outcome (workspace_report w))"
proof -
  obtain s1 ready reply remote where asked: "remote_ask (worker_handle host) (remote_prepare v w) s = (s1, Inr ready)"
    "remote_ask (worker_handle host) (remote_order v p w label) s1 = (s', Inr reply)"
    and decoded: "decode_execution_report strays (mg_payload reply) = Inr remote"
      "report = remote\<lparr>er_workspace_root := wk_root w, er_workspace_marker := wk_marker_digest w\<rparr>"
    using assms(2,3) not_executed by (auto simp: remote_execute_def Let_def split: prod.splits sum.splits)
  have s1: "s1 = s" "worker_prepare host (remote_prepare v w) s = Inr ready"
    using asked_worker(1) [OF asked(1)] by (simp_all add: remote_prepare_def reply_message_def)
  have "length (wk_root w) \<le> kMaxFieldBytes" using assms(1) by (simp add: wire_order_fits_def kMaxFieldBytes_def)
  then obtain ws where ws: "workspace_open (wh_paths host) (wh_fs host) (hp_normalize (wh_paths host) (wk_root w)) (ref_id (is_session v))
      (ref_gen (is_session v)) (ref_id (is_phase v)) (ref_gen (is_phase v)) = Inr ws"
    "wo_workspace_root (ws_options s) = [] \<or>
      hp_within (wh_paths host) (hp_normalize (wh_paths host) (wk_root w)) (wo_workspace_root (ws_options s))"
    using worker_prepared s1(2) by blast
  have "worker_start host (remote_order v p w label) s = (s', Inr reply)"
    using asked_worker(2) [OF asked(2)] s1(1) by (simp add: remote_order_def reply_message_def)
  then obtain checked effective outcome where
    admitted: "worker_admit host (encode_invocation_order v p (wk_root w) label) = Inr (checked, effective)"
    and ran: "supervisor_run (wh_process host) effective (invocation_ref checked) False (wh_exit host) (ws_processes s) = (ws_processes s', Inr outcome)"
    and counted: "ws_executed s' = ws_executed s + 1"
    and payload: "mg_payload reply = encode_execution_report (executed_report (wh_outputs host) checked outcome execution_report_default)"
    by (rule started_worker) (simp add: remote_order_def reply_message_def)
  note spec = worker_admits [OF assms(1) admitted]
  let ?e = "executed_report (wh_outputs host) checked outcome execution_report_default"
  have "remote = reported ?e"
    using decoded(1) payload assms(1) run_outcome_short [OF ran] spec
    by (intro decoded_report [of strays ?e remote "is_expected_outputs v" "wh_outputs host"])
      (simp_all add: executed_report_def execution_report_default_def wire_order_fits_def ordered_invocation_def)
  moreover have "is_expected_outputs (ordered_invocation v) = is_expected_outputs v" "invocation_ref (ordered_invocation v) = invocation_ref v"
    by (simp_all add: ordered_invocation_def invocation_ref_def)
  moreover have "digest_zero (fi_content (is_executable_identity v)) \<or>
      (\<exists>f. probe_file_identity (wh_queries host) (is_executable v) True = Inr f \<and> fi_content f = fi_content (is_executable_identity v))"
    using spec by (auto simp: check_ordered_executable_def ordered_invocation_def crf_try_def split: if_splits sum.splits)
  ultimately show ?thesis
    using ws ran spec counted decoded(2)
    by (intro exI [of _ ws] exI [of _ effective] exI [of _ outcome])
      (simp add: reported_def executed_report_def workspace_report_def execution_report_default_def)
qed

text \<open>
  C24: no request waits for ever. When the pump of a channel has ended, as it does once the stream of
  its connection has, every request that was pending has got exactly one answer, a message with its
  identity or the refusal that the peer has closed; no other promise was fulfilled, none is left and
  the connection is closed.
\<close>

theorem every_request_is_answered:
  "\<exists>new. pl_answers (fst (fst (channel_pump handler takes n cs wire))) = pl_answers (fst cs) @ new \<and>
    mset (map fst new) = mset (pl_pending (fst cs)) \<and>
    list_all (\<lambda>(i, x). case x of Inl e \<Rightarrow> status_code e = SC_protocol_peer_closed | Inr m \<Rightarrow> mg_request_id m = i) new \<and>
    pl_pending (fst (fst (channel_pump handler takes n cs wire))) = [] \<and>
    \<not> channel_open (fst (fst (channel_pump handler takes n cs wire)))"
  using pump_answers [of handler takes n cs wire] by (simp add: answer_fits_def [abs_def] case_prod_unfold)

text \<open>
  C25: two peers that both know a request identity answer each other for ever. A frame with such an
  identity is refused as a duplicate with an error frame that has the identity itself, so the other
  side refuses it the same way: after any number of exchanges an error frame is still in flight.
\<close>

theorem duplicate_errors_never_end:
  assumes "knows_request i (pl_connection ch)" "knows_request i c" "2048 \<le> taken" "2048 \<le> wh_taken host"
    "message_fits (cn_options (pl_connection ch)) m" "mg_request_id m = i" "mg_type m \<noteq> MT_hello"
  shows "snd (snd ((exchange handler taken host ^^ Suc n) ((ch, s), (w, c), frame_bytes m))) =
    frame_bytes (error_message i duplicate_request)"
  using volley [OF assms, where n = n and handler = handler and s = s and w = w] by auto

text \<open>
  A cancellation sent to a worker is acknowledged and has no effect: the worker reads the
  invocation, changes nothing and answers that the phase is cancelled, and the executor reports success,
  whether such an invocation exists or not.
\<close>

lemma remote_cancellation_has_no_effect:
  "remote_cancel (Some (worker_handle host)) i reason w = (w, Inr ())"
  by (simp add: remote_cancel_def worker_handle_def reply_message_def)

text \<open>A worker with the root \<open>c:/ws\<close> on a host that has one workspace there, and an order for it.\<close>

definition sample_worker_host :: worker_host where
  "sample_worker_host = \<lparr>wh_paths = sample_host,
     wh_fs = sample_fs (marker_contents (marker_body (StrongId 1) (Generation 3) (StrongId 2) gen_initial 5)),
     wh_queries = sample_queries, wh_is_regular_file = (\<lambda>_. False), wh_process = sample_process_host,
     wh_exit = \<lparr>xr_stdout = [], xr_stderr = [], xr_exit_code = Some 0, xr_now = 9\<rparr>, wh_casts = sample_casts, wh_taken = 4096\<rparr>"

definition sample_worker :: worker where
  "sample_worker = \<lparr>ws_options = worker_options_default\<lparr>wo_workspace_root := ''c:/ws''\<rparr>,
     ws_processes = supervisor_init supervisor_options_default, ws_executed = 0, ws_shutdown_requested = False\<rparr>"

definition sample_placed :: workspace where
  "sample_placed = workspace_default\<lparr>wk_root := sample_root, wk_session := StrongId 1, wk_session_generation := Generation 3,
     wk_phase := StrongId 2, wk_phase_generation := gen_initial,
     wk_marker_digest := digest_of (marker_body (StrongId 1) (Generation 3) (StrongId 2) gen_initial 5), wk_valid := True\<rparr>"

definition sample_order :: invocation_spec where
  "sample_order = sample_invocation\<lparr>is_session := Ref (StrongId 1) (Generation 3), is_phase := Ref (StrongId 2) gen_initial,
     is_executable_identity := file_identity_init, is_working_directory := ''c:/ws''\<rparr>"

lemma sample_prepared: "\<exists>ready. worker_prepare sample_worker_host (remote_prepare sample_order sample_placed) sample_worker = Inr ready"
proof -
  let ?fs = "sample_fs (marker_contents (marker_body (StrongId 1) (Generation 3) (StrongId 2) gen_initial 5))"
  have placed: "wk_root sample_placed = sample_root" by (simp add: sample_placed_def)
  then have small: "length (wk_root sample_placed) \<le> kMaxFieldBytes" by (simp add: sample_root_def kMaxFieldBytes_def)
  have "workspace_open sample_host ?fs sample_root (StrongId 1) (Generation 3) (StrongId 2) gen_initial = Inr sample_placed"
    using create_then_open(1) [OF sample_create, of ?fs] sample_root_path(3)
    by (simp add: sample_placed_def) (simp add: sample_fs_def)
  moreover have "sample_root \<noteq> []" "is_session sample_order = Ref (StrongId 1) (Generation 3)" "is_phase sample_order = Ref (StrongId 2) gen_initial"
    by (simp_all add: sample_root_def sample_order_def)
  ultimately show ?thesis
    using sample_root_path(2,3) worker_prepared [OF small, of sample_worker_host sample_order sample_worker] placed
    by (simp add: sample_worker_host_def sample_worker_def)
qed

lemma sample_order_fits:
  "wire_order_fits sample_order sample_process_spec sample_root ''compile''"
  "length (pack_invocation_order sample_order sample_process_spec sample_root ''compile'') \<le> kMaxFieldBytes"
proof -
  show "wire_order_fits sample_order sample_process_spec sample_root ''compile''"
    by (simp add: wire_order_fits_def sample_order_def sample_invocation_def sample_process_spec_def process_spec_default_def
        sample_root_def file_identity_init_def kMaxArgumentBytes_def kMaxArguments_def wire_variable_fits_def kMaxMessageCollection_def)
  have "length (enc_digest digest_default) = 68"
    by (simp add: enc_digest_def enc_text_def to_hex_def length_concat comp_def byte_to_hex_def digest_default_def kBytes_def
        sum_list_replicate map_replicate_const)
  then show "length (pack_invocation_order sample_order sample_process_spec sample_root ''compile'') \<le> kMaxFieldBytes"
    by (simp add: sample_order_def sample_invocation_def sample_process_spec_def process_spec_default_def sample_root_def
        file_identity_init_def pack_invocation_order_def kMaxFieldBytes_def pack_variable_def enc_id_def enc_gen_def enc_ref_def
        enc_text_def enc_seq_def enc_enum_def enc_boolean_def enc_u8_def)
qed

lemma sample_admitted:
  "\<exists>effective. worker_admit sample_worker_host (encode_invocation_order sample_order sample_process_spec sample_root ''compile'') =
    Inr (ordered_invocation sample_order, effective) \<and>
    effective = sample_process_spec\<lparr>sp_arguments := [''/c'', ''a b'']\<rparr>"
proof -
  let ?v = "ordered_invocation sample_order"
  have f: "is_executable ?v = ''c:/cl''" "is_arguments ?v = [''/c'', ''a b'']" "is_environment_variables ?v = []"
      "is_inputs ?v = []" "is_expected_outputs ?v = []" "is_working_directory ?v = ''c:/ws''"
      "invocation_render ?v = render_command_line [''c:/cl'', ''/c'', ''a b''] Style_msvc"
      "is_produced_executable ?v = False" "digest_zero (fi_content (is_executable_identity ?v))"
    by (simp_all add: ordered_invocation_def sample_order_def sample_invocation_def invocation_render_def file_identity_init_def
        digest_zero_def digest_default_def list_all_iff)
  have c: "vc_limits worker_context = invocation_limits_default" "vc_allowed_executable_roots worker_context = []"
      "vc_forbidden_options worker_context = []" "vc_target_architecture worker_context = AR_x64" "vc_workspace worker_context = None"
      "\<not> vc_require_component_identity worker_context"
    by (simp_all add: worker_context_def)
  have h: "hp_is_absolute sample_host ''c:/cl''" "hp_is_absolute sample_host ''c:/ws''" "fq_exists sample_queries ''c:/cl''"
    by (simp_all add: sample_host_def sample_queries_def)
  define spec where "spec = process_spec_default\<lparr>sp_executable := ''c:/cl'', sp_arguments := [''/c'', ''a b''],
    sp_environment := [], sp_working_directory := ''c:/ws''\<rparr>"
  have p: "to_process_spec sample_host (hf_is_directory (sample_fs contents)) ?v = Inr spec" for contents
    unfolding to_process_spec_def f
    by (simp add: process_validate_def Let_def crf_try_def process_spec_default_def spec_def
        sample_fs_def kMaxArguments_def kMaxArgumentBytes_def kMaxCommandLineBytes_def
        kMaxEnvironmentBytes_def kMaxCaptureBytes_def kDefaultCaptureBytes_def environment_bytes_def)
      (simp add: sample_host_def sample_normal)
  have "validate_invocation sample_host (sample_fs contents) sample_queries ?v worker_context = Inr ?v" for contents
    unfolding validate_invocation_def Let_def f c
    by (simp add: crf_try_def invocation_limits_default_def sample_arguments_checked not_less environment_bytes_def
        check_executable_identity_def check_working_directory_def c f h p forbidden_argument_def)
  moreover have "check_ordered_executable sample_queries ?v = Inr ()" by (simp add: check_ordered_executable_def f)
  moreover have "decode_invocation_order sample_casts process_spec_default
      (encode_invocation_order sample_order sample_process_spec sample_root ''compile'') =
      Inr (?v, ordered_process process_spec_default sample_order sample_process_spec, sample_root, ''compile'')"
    using sample_order_fits(2) unpack_order [OF sample_order_fits(1)]
    by (simp add: decode_invocation_order_def encode_invocation_order_def decode_blob_def unpacked_def crf_try_def)
  ultimately show ?thesis
    using p by (simp add: worker_admit_def sample_worker_host_def crf_try_def worker_process_def ordered_process_def spec_def
        sample_process_spec_def process_spec_default_def)
qed

lemma sample_run:
  "\<exists>sv outcome. supervisor_run sample_process_host (sample_process_spec\<lparr>sp_arguments := [''/c'', ''a b'']\<rparr>) i False
      (wh_exit sample_worker_host) (supervisor_init supervisor_options_default) = (sv, Inr outcome) \<and>
    oc_status outcome = status_success \<and> pc_standard_output (oc_capture outcome) = [] \<and> pc_standard_error (oc_capture outcome) = []"
proof -
  have "\<not> bad_variable_name \<lparr>ev_name = ''A'', ev_value = ''1''\<rparr>" by code_simp
  then have "process_validate (px_paths sample_process_host) (px_is_directory sample_process_host)
      (effective_spec (px_ambient sample_process_host) (px_ambient_value sample_process_host)
        (sv_options (supervisor_init supervisor_options_default)) (sample_process_spec\<lparr>sp_arguments := [''/c'', ''a b'']\<rparr>)) = Inr ()"
    by (simp add: effective_spec_def sample_process_spec_def process_spec_default_def process_validate_def Let_def crf_try_def
        sample_process_host_def kMaxArguments_def kMaxArgumentBytes_def kMaxCommandLineBytes_def kMaxEnvironmentBytes_def
        kMaxCaptureBytes_def environment_bytes_def)
      (simp add: sample_host_def sample_normal)
  moreover have "\<not> sv_closed (supervisor_init supervisor_options_default)" "px_launch sample_process_host spec = Inr (42, 5)" for spec
    by (simp_all add: supervisor_init_def sample_process_host_def)
  moreover have "\<not> exit_code_is_exception 0" "(0 :: u32) \<noteq> kStillActive" by code_simp+
  ultimately show ?thesis
    by (simp add: supervisor_run_def supervisor_spawn_def Let_def case_prod_beta sample_worker_host_def handle_wait_def
        classify_exit_def read_stream_def process_outcome_default_def process_capture_default_def)
qed

theorem remote_report_is_honest_witness:
  "\<exists>w' report ws. remote_execute sample_casts False (Some (worker_handle sample_worker_host)) sample_order sample_process_spec
      sample_placed ''compile'' sample_worker = (w', Inr report) \<and> er_executed report \<and>
    workspace_open sample_host (wh_fs sample_worker_host) (hp_normalize sample_host sample_root) (StrongId 1) (Generation 3)
      (StrongId 2) gen_initial = Inr ws"
proof -
  obtain ready where prepared: "worker_prepare sample_worker_host (remote_prepare sample_order sample_placed) sample_worker = Inr ready"
    using sample_prepared by blast
  have root: "wk_root sample_placed = sample_root" by (simp add: sample_placed_def)
  obtain effective where admitted: "worker_admit sample_worker_host (encode_invocation_order sample_order sample_process_spec
      (wk_root sample_placed) ''compile'') = Inr (ordered_invocation sample_order, effective)"
    "effective = sample_process_spec\<lparr>sp_arguments := [''/c'', ''a b'']\<rparr>"
    using sample_admitted root by auto
  obtain sv outcome where ran: "supervisor_run (wh_process sample_worker_host) effective (invocation_ref (ordered_invocation sample_order))
      False (wh_exit sample_worker_host) (ws_processes sample_worker) = (sv, Inr outcome)" "oc_status outcome = status_success"
      "pc_standard_output (oc_capture outcome) = []" "pc_standard_error (oc_capture outcome) = []"
    using sample_run [of "invocation_ref (ordered_invocation sample_order)"] admitted(2) by (auto simp: sample_worker_def sample_worker_host_def)
  let ?e = "executed_report (wh_outputs sample_worker_host) (ordered_invocation sample_order) outcome execution_report_default"
  have outputs: "is_expected_outputs (ordered_invocation sample_order) = []"
    by (simp add: ordered_invocation_def sample_order_def sample_invocation_def)
  have hex: "length (enc_digest digest_default) = 68"
    by (simp add: enc_digest_def enc_text_def to_hex_def length_concat comp_def byte_to_hex_def digest_default_def kBytes_def
        sum_list_replicate map_replicate_const)
  have "wire_report_fits ?e" "length (pack_execution_report ?e) \<le> kMaxFieldBytes"
    using ran(2-4) hex outputs
    by (simp_all add: wire_report_fits_def executed_report_def execution_report_default_def status_success_def pack_execution_report_def
        Let_def kMaxFieldBytes_def enc_id_def enc_gen_def enc_ref_def enc_text_def enc_seq_def enc_enum_def enc_boolean_def enc_u8_def)
  then have decoded: "decode_execution_report sample_casts (encode_execution_report ?e) = Inr ?e" by (rule report_round_trip)
  note executed = remote_runs [OF prepared admitted(1) ran(1) decoded]
  moreover have "er_executed (?e\<lparr>er_workspace_root := a, er_workspace_marker := b\<rparr>)" for a b by (simp add: executed_report_def)
  ultimately show ?thesis
    using remote_report_is_honest [OF _ executed] sample_order_fits(1) root
    by (auto simp: sample_order_def sample_worker_host_def)
qed

text \<open>Two open connections that have seen the request 5.\<close>

definition noted_connection :: connection where
  "noted_connection = sample_connection\<lparr>cn_recent_requests := [5], cn_recent_set := {5}\<rparr>"

theorem duplicate_errors_never_end_witness:
  "snd (snd ((exchange None 4096 sample_worker_host ^^ Suc 6)
     ((channel_init noted_connection, ()), (sample_worker, noted_connection), frame_bytes (sample_message MT_pong 5)))) =
   frame_bytes (error_message 5 duplicate_request)"
  by (rule duplicate_errors_never_end)
    (simp_all add: knows_request_def channel_init_def noted_connection_def sample_worker_host_def message_fits_def message_valid_def
      sample_message_def sample_connection_def connection_adopt_def connection_options_default_def kDefaultMaxFramePayload_def)

end
