(* ===== verification/Coordinator.thy ===== *)
theory Coordinator
  imports Worker Restart_Claims
begin

text \<open>
  The coordinator's service (\<open>CoordinatorService\<close> in \<open>src/ipc/service.cpp\<close>): the handler of its
  messages over the runtime it owns. Each message is decoded, one operation of the runtime is called
  and its result encoded; a refusal on the way is answered with an error message. The connections are
  numbered, the worker is one of them.
\<close>

section \<open>State\<close>

record coordinator =
  cd_runtime :: runtime
  cd_store :: "persistence_store option"
  cd_worker :: "nat option"
  cd_shutdown_requested :: bool

text \<open>
  What surrounds the runtime while one message is handled: its hosts, the threads of a session's run,
  the disk and the two counters of the store the audit reads.
\<close>

record coordinator_host =
  ct_host :: runtime_host
  ct_staging :: staging_host
  ct_runs :: "nat \<Rightarrow> run_hosts"
  ct_workers :: "session_id \<Rightarrow> nat \<Rightarrow> phase_id list \<Rightarrow> runtime \<Rightarrow> runtime \<times> phase_run_report result list"
  ct_disk :: disk_host
  ct_casts :: wire_casts
  ct_records :: nat
  ct_defects :: nat

section \<open>Reading a request\<close>

definition first_u64 :: "string \<Rightarrow> u64 result" where
  "first_u64 payload = (case reader_next (field_reader_init payload) of (_, Inl e) \<Rightarrow> Inl e | (r, Inr _) \<Rightarrow> as_u64 r)"

definition two_u64 :: "string \<Rightarrow> (u64 \<times> u64) result" where
  "two_u64 payload =
     (case reader_next (field_reader_init payload) of
        (_, Inl e) \<Rightarrow> Inl e
      | (r, Inr _) \<Rightarrow>
          crf_try (as_u64 r) (\<lambda>a. case reader_next r of (_, Inl e) \<Rightarrow> Inl e | (r1, Inr _) \<Rightarrow> crf_try (as_u64 r1) (\<lambda>b. Inr (a, b))))"

definition pair_fields :: "string \<Rightarrow> (session_id \<times> phase_id) result" where
  "pair_fields payload =
     crf_try (fields_loop (on_numbered_field 2) [0, 0] (field_reader_init payload)) (\<lambda>(vs, _).
       Inr (StrongId (vs ! 0), StrongId (vs ! 1)))"

definition on_toolchain_field :: "field_reader \<Rightarrow> u64 \<times> string \<Rightarrow> (u64 \<times> string) result" where
  "on_toolchain_field r f =
     (if fr_current_id r = 1 then crf_try (as_u64 r) (\<lambda>v. Inr (v, snd f))
      else if fr_current_id r = 2 then crf_try (as_text r) (\<lambda>v. Inr (fst f, v))
      else Inr f)"

definition toolchain_fields :: "string \<Rightarrow> (toolchain_id \<times> string) result" where
  "toolchain_fields payload =
     crf_try (fields_loop on_toolchain_field (0, []) (field_reader_init payload)) (\<lambda>((i, reason), _). Inr (StrongId i, reason))"

section \<open>Handlers\<close>

definition recovery_outcome_order :: "recovery_outcome list" where
  "recovery_outcome_order = [RO_none, RO_restart_phase, RO_resume_from_committed_phase, RO_revalidate_intermediate,
     RO_rebuild_intermediate, RO_restart_session, RO_cancel, RO_terminal_failure, RO_manual_resolution_required, RO_unsupported]"

definition enum_number :: "'e list \<Rightarrow> 'e \<Rightarrow> u8" where
  "enum_number es e = of_nat (length (takeWhile (\<lambda>x. x \<noteq> e) es))"

text \<open>A request that is read by \<open>parse\<close>, one operation of the runtime, and the reply to its result.\<close>

definition served ::
  "'a result \<Rightarrow> ('a \<Rightarrow> runtime \<Rightarrow> runtime \<times> 'b result) \<Rightarrow> ('b \<Rightarrow> message) \<Rightarrow> coordinator \<Rightarrow> coordinator \<times> message result" where
  "served parse operation reply cd =
     (case parse of
        Inl e \<Rightarrow> (cd, Inl e)
      | Inr a \<Rightarrow>
          (case operation a (cd_runtime cd) of (r, x) \<Rightarrow> (cd\<lparr>cd_runtime := r\<rparr>, crf_try x (\<lambda>b. Inr (reply b)))))"

definition handle_hello :: "nat option \<Rightarrow> message \<Rightarrow> coordinator \<Rightarrow> coordinator \<times> message result" where
  "handle_hello origin request cd =
     (case decode_hello_detail (mg_payload request) of
        Inl e \<Rightarrow> (cd, Inl e)
      | Inr detail \<Rightarrow>
          let is_worker = (take 7 detail = ''worker|'');
              cd1 = (if is_worker \<and> origin \<noteq> None then cd\<lparr>cd_worker := origin\<rparr> else cd)
          in (cd1, Inr (reply_message MT_hello_ack (encode_hello (rt_runtime_name (cd_runtime cd)) ''coordinator''
               (rt_epoch (cd_runtime cd)) (if is_worker then ''worker registered'' else ''client'')))))"

definition toolchain_reply :: "toolchain_mutation \<Rightarrow> message" where
  "toolchain_reply t = reply_message MT_toolchain_report (fw_buffer (writer_text 3 (tm_detail t)
     (writer_u64 2 (gen_value (tm_current_generation t)) (writer_boolean 1 (tm_mutated t) field_writer_init))))"

definition handle_toolchain :: "coordinator_host \<Rightarrow> message \<Rightarrow> coordinator \<Rightarrow> coordinator \<times> message result" where
  "handle_toolchain host request =
     served (toolchain_fields (mg_payload request))
       (\<lambda>(i, reason). if mg_type request = MT_refresh_toolchain then refresh_toolchain (ct_host host) i
          else invalidate_toolchain (ct_host host) i reason) toolchain_reply"

definition handle_recover :: "coordinator_host \<Rightarrow> message \<Rightarrow> coordinator \<Rightarrow> coordinator \<times> message result" where
  "handle_recover host request =
     served (first_u64 (mg_payload request)) (\<lambda>i. apply_recovery (ct_host host) (StrongId i))
       (\<lambda>p. reply_message MT_recovery_report (fw_buffer (writer_text 4 (rp_rationale p) (writer_boolean 3 (rp_requires_operator p)
          (writer_boolean 2 (rp_legal p) (writer_u8 1 (enum_number recovery_outcome_order (rp_headline p)) field_writer_init))))))"

definition summary_reply :: "message_type \<Rightarrow> compiler_session \<Rightarrow> message" where
  "summary_reply type s = reply_message type (encode_session_summary s)"

definition create_requested :: "coordinator_host \<Rightarrow> compile_request \<Rightarrow> runtime \<Rightarrow> runtime \<times> compiler_session result" where
  "create_requested host q r =
     rt_try
       (if toolchain_find_latest (cq_toolchain_family q) (rt_toolchains r) = None
        then rt_try (discover_toolchain (ct_host host) (cq_toolchain_family q)
            \<lparr>pb_family = TF_unknown, pb_explicit_root = [], pb_target = target_spec_default, pb_hash_components = True,
             pb_toolkit_preference = []\<rparr> r) (\<lambda>r1 _. (r1, Inr ()))
        else (r, Inr ()))
       (\<lambda>r1 _. rt_try (create_session (ct_host host) (ct_staging host) q r1)
          (\<lambda>r2 created. (r2, require_session (ref_id created) r2)))"

definition handle_create :: "coordinator_host \<Rightarrow> message \<Rightarrow> coordinator \<Rightarrow> coordinator \<times> message result" where
  "handle_create host request =
     served (decode_compile_request (ct_casts host) (mg_payload request)) (create_requested host) (summary_reply MT_session_created)"

definition handle_run :: "coordinator_host \<Rightarrow> message \<Rightarrow> coordinator \<Rightarrow> coordinator \<times> message result" where
  "handle_run host request =
     served (first_u64 (mg_payload request))
       (\<lambda>i r. rt_try (run_session (ct_runs host) (ct_workers host (StrongId i)) (StrongId i) r)
          (\<lambda>r1 _. (r1, require_session (StrongId i) r1))) (summary_reply MT_session_ran)"

definition handle_query :: "message \<Rightarrow> coordinator \<Rightarrow> coordinator \<times> message result" where
  "handle_query request =
     served (first_u64 (mg_payload request)) (\<lambda>i r. (r, require_session (StrongId i) r)) (summary_reply MT_session_report)"

definition handle_list :: "coordinator \<Rightarrow> coordinator \<times> message result" where
  "handle_list cd =
     (cd, Inr (reply_message MT_session_list (blob_payload
        (enc_seq (\<lambda>s. enc_text (encode_session s)) (list_sessions (cd_runtime cd))))))"

definition handle_start :: "coordinator_host \<Rightarrow> message \<Rightarrow> coordinator \<Rightarrow> coordinator \<times> message result" where
  "handle_start host request =
     served (two_u64 (mg_payload request)) (\<lambda>(sid, pid). run_phase (ct_runs host 0) (StrongId sid) (StrongId pid) False)
       (\<lambda>report. reply_message MT_phase_started (encode_phase_report report))"

definition handle_retry :: "coordinator_host \<Rightarrow> message \<Rightarrow> coordinator \<Rightarrow> coordinator \<times> message result" where
  "handle_retry host request =
     served (pair_fields (mg_payload request)) (\<lambda>(sid, pid). retry_phase (ct_runs host 0) sid pid)
       (\<lambda>report. reply_message MT_phase_started (encode_phase_report report))"

definition handle_commit :: "coordinator_host \<Rightarrow> message_type \<Rightarrow> message \<Rightarrow> coordinator \<Rightarrow> coordinator \<times> message result" where
  "handle_commit host answer request =
     served (decode_phase_reference (mg_payload request))
       (\<lambda>(sid, pid, generation, invocation). commit_phase (ct_host host) sid pid generation invocation)
       (\<lambda>report. reply_message answer (encode_phase_report report))"

definition handle_cancel :: "coordinator_host \<Rightarrow> message \<Rightarrow> coordinator \<Rightarrow> coordinator \<times> message result" where
  "handle_cancel host request =
     served (cancel_fields (mg_payload request))
       (\<lambda>(vs, reason). cancel_phase (ct_host host) (StrongId (vs ! 0)) (StrongId (vs ! 1)) reason)
       (\<lambda>_. reply_message MT_phase_cancelled [])"

definition handle_authority :: "coordinator_host \<Rightarrow> message \<Rightarrow> coordinator \<Rightarrow> coordinator \<times> message result" where
  "handle_authority host request =
     served (pair_fields (mg_payload request)) (\<lambda>(sid, pid) r. (r, check_authority (ct_host host) sid pid r))
       (\<lambda>verdict. reply_message MT_authority_report (fw_buffer (writer_u8 1 (enum_number verdict_order verdict) field_writer_init)))"

definition handle_diagnostics :: "message \<Rightarrow> coordinator \<Rightarrow> coordinator \<times> message result" where
  "handle_diagnostics request =
     served (first_u64 (mg_payload request))
       (\<lambda>i r. (r, case diagnostics_find (StrongId i) (rt_diagnostics r) of
          None \<Rightarrow> Inl (Status SC_not_found ''diagnostic set is not registered'') | Some x \<Rightarrow> Inr x))
       (\<lambda>x. reply_message MT_diagnostics_report (blob_payload (encode_diagnostic_set x)))"

definition handle_snapshot :: "coordinator_host \<Rightarrow> coordinator \<Rightarrow> coordinator \<times> message result" where
  "handle_snapshot host cd =
     (case runtime_snapshot (ct_host host) (ct_disk host) (cd_runtime cd, cd_store cd) of
        ((r, st), x) \<Rightarrow>
          (cd\<lparr>cd_runtime := r, cd_store := st\<rparr>,
           crf_try x (\<lambda>_. Inr (reply_message MT_snapshot_report (fw_buffer (writer_boolean 1 True field_writer_init))))))"

definition handle_audit :: "coordinator_host \<Rightarrow> coordinator \<Rightarrow> coordinator \<times> message result" where
  "handle_audit host cd =
     (cd, Inr (reply_message MT_audit_report (encode_audit_report
        (runtime_audit (rh_now (ct_host host)) (ct_records host) (ct_defects host) (cd_runtime cd)))))"

definition coordinator_dispatch ::
  "coordinator_host \<Rightarrow> nat option \<Rightarrow> message \<Rightarrow> coordinator \<Rightarrow> coordinator \<times> message result" where
  "coordinator_dispatch host origin request cd =
     (case mg_type request of
        MT_hello \<Rightarrow> handle_hello origin request cd
      | MT_ping \<Rightarrow> (cd, Inr (reply_message MT_pong []))
      | MT_refresh_toolchain \<Rightarrow> handle_toolchain host request cd
      | MT_invalidate_toolchain \<Rightarrow> handle_toolchain host request cd
      | MT_recover_session \<Rightarrow> handle_recover host request cd
      | MT_create_session \<Rightarrow> handle_create host request cd
      | MT_run_session \<Rightarrow> handle_run host request cd
      | MT_query_session \<Rightarrow> handle_query request cd
      | MT_session_list \<Rightarrow> handle_list cd
      | MT_start_phase \<Rightarrow> handle_start host request cd
      | MT_retry_phase \<Rightarrow> handle_retry host request cd
      | MT_commit_phase \<Rightarrow> handle_commit host MT_phase_committed request cd
      | MT_report_output \<Rightarrow> handle_commit host MT_output_reported request cd
      | MT_cancel_phase \<Rightarrow> handle_cancel host request cd
      | MT_query_authority \<Rightarrow> handle_authority host request cd
      | MT_query_diagnostics \<Rightarrow> handle_diagnostics request cd
      | MT_snapshot \<Rightarrow> handle_snapshot host cd
      | MT_audit \<Rightarrow> handle_audit host cd
      | MT_shutdown \<Rightarrow> (cd\<lparr>cd_shutdown_requested := True\<rparr>, Inr (reply_message MT_shutdown_ack []))
      | type \<Rightarrow> (cd, Inl (Status SC_protocol_unknown_operation (''unsupported operation '' @ to_string_message_type type))))"

text \<open>Every refusal is turned into an error message, so that the handler of the channel never fails itself.\<close>

definition coordinator_handle ::
  "coordinator_host \<Rightarrow> nat option \<Rightarrow> message \<Rightarrow> coordinator \<Rightarrow> coordinator \<times> message result" where
  "coordinator_handle host origin request cd =
     (case coordinator_dispatch host origin request cd of (cd1, x) \<Rightarrow> (cd1, Inr (answer_or_failure request x)))"

section \<open>What a message does to the runtime\<close>

text \<open>The operations of the runtime run on hosts of \<open>H\<close>, the threads of a session's run included.\<close>

definition coordinator_host_ok :: "runtime_host set \<Rightarrow> coordinator_host \<Rightarrow> bool" where
  "coordinator_host_ok H host =
     (ct_host host \<in> H \<and> (\<forall>i. hosts_in H (ct_runs host i)) \<and>
      (\<forall>sid i batch r. runtime_steps H r (fst (ct_workers host sid i batch r))))"

abbreviation runs_on :: "runtime_host set \<Rightarrow> coordinator \<Rightarrow> coordinator \<Rightarrow> bool" where
  "runs_on H cd cd' \<equiv> runtime_steps H (cd_runtime cd) (cd_runtime cd')"

lemma served_steps:
  assumes "\<And>a r. runtime_steps H r (fst (operation a r))"
  shows "runs_on H cd (fst (served parse operation reply cd))"
  using assms by (auto simp: served_def case_prod_beta split: sum.split)

lemma refresh_steps:
  assumes "host \<in> H"
  shows "runtime_steps H r (fst (refresh_toolchain host i r))"
  using assms by (auto simp: refresh_toolchain_def split: option.split sum.split intro: step_intros)

lemma create_requested_steps:
  assumes "ct_host host \<in> H"
  shows "runtime_steps H r (fst (create_requested host q r))"
  unfolding create_requested_def
  using assms by (intro rt_try_steps) (auto intro!: rt_try_steps intro: step_intros)

lemma served_handlers:
  assumes "coordinator_host_ok H host"
  shows "runs_on H cd (fst (handle_toolchain host m cd))" "runs_on H cd (fst (handle_recover host m cd))"
    "runs_on H cd (fst (handle_create host m cd))" "runs_on H cd (fst (handle_run host m cd))"
    "runs_on H cd (fst (handle_query m cd))" "runs_on H cd (fst (handle_start host m cd))"
    "runs_on H cd (fst (handle_retry host m cd))" "runs_on H cd (fst (handle_commit host answer m cd))"
    "runs_on H cd (fst (handle_cancel host m cd))" "runs_on H cd (fst (handle_authority host m cd))"
    "runs_on H cd (fst (handle_diagnostics m cd))"
proof -
  have host: "ct_host host \<in> H" "\<And>i. hosts_in H (ct_runs host i)"
    "\<And>sid i batch r. runtime_steps H r (fst (ct_workers host sid i batch r))"
    using assms by (auto simp: coordinator_host_ok_def)
  show "runs_on H cd (fst (handle_toolchain host m cd))"
    unfolding handle_toolchain_def by (rule served_steps) (auto intro: refresh_steps [OF host(1)] step_intros(25) [OF host(1)])
  show "runs_on H cd (fst (handle_recover host m cd))"
    unfolding handle_recover_def by (intro served_steps apply_recovery_steps host)
  show "runs_on H cd (fst (handle_create host m cd))"
    unfolding handle_create_def by (intro served_steps create_requested_steps host)
  show "runs_on H cd (fst (handle_run host m cd))"
    unfolding handle_run_def by (intro served_steps rt_try_steps run_session_steps host) simp
  show "runs_on H cd (fst (handle_query m cd))" "runs_on H cd (fst (handle_diagnostics m cd))"
    "runs_on H cd (fst (handle_authority host m cd))"
    unfolding handle_query_def handle_diagnostics_def handle_authority_def by (rule served_steps; auto)+
  show "runs_on H cd (fst (handle_start host m cd))" "runs_on H cd (fst (handle_retry host m cd))"
    unfolding handle_start_def handle_retry_def by (rule served_steps; auto intro: run_phase_steps retry_phase_steps host)+
  show "runs_on H cd (fst (handle_commit host answer m cd))" "runs_on H cd (fst (handle_cancel host m cd))"
    unfolding handle_commit_def handle_cancel_def by (rule served_steps; auto intro: commit_phase_steps [OF host(1)] step_intros(14) [OF host(1)])+
qed

lemma snapshot_quiet: "quiet (cd_runtime cd) (cd_runtime (fst (handle_snapshot host cd)))"
  by (auto simp: handle_snapshot_def runtime_snapshot_def Let_def runtime_evolution.evolves_refl note_evidence_quiet
      split: option.split prod.split sum.split)

lemma hello_runtime: "cd_runtime (fst (handle_hello origin m cd)) = cd_runtime cd"
  by (auto simp: handle_hello_def Let_def split: sum.split)

text \<open>A handled message is a sequence of critical sections, or a snapshot, which leaves everything but the evidence alone.\<close>

lemma coordinator_handle_steps:
  assumes "coordinator_host_ok H host"
  shows "runs_on H cd (fst (coordinator_handle host origin m cd)) \<or>
    quiet (cd_runtime cd) (cd_runtime (fst (coordinator_handle host origin m cd)))"
  using served_handlers [OF assms, where cd = cd and m = m] snapshot_quiet [of cd host] hello_runtime [of origin m cd]
  by (cases "mg_type m")
    (simp_all add: coordinator_handle_def coordinator_dispatch_def case_prod_beta handle_list_def handle_audit_def)

fun serve_messages :: "(coordinator_host \<times> nat option \<times> message) list \<Rightarrow> coordinator \<Rightarrow> coordinator" where
  "serve_messages [] cd = cd"
| "serve_messages ((host, origin, m) # requests) cd = serve_messages requests (fst (coordinator_handle host origin m cd))"

lemma served_messages:
  assumes "list_all (\<lambda>(host, _). coordinator_host_ok H host) requests" "\<And>host s. host \<in> H \<Longrightarrow> rh_append host s = None"
  shows "runtime_keeps True (cd_runtime cd) (cd_runtime (serve_messages requests cd)) \<and>
    (grounded (cd_runtime cd) \<longrightarrow> grounded (cd_runtime (serve_messages requests cd)))"
  using assms(1)
proof (induction requests arbitrary: cd)
  case Nil
  then show ?case by (simp add: runtime_evolution.evolves_refl)
next
  case (Cons request requests)
  obtain host origin m where request: "request = (host, origin, m)" by (metis prod_cases3)
  let ?cd = "fst (coordinator_handle host origin m cd)"
  have ok: "coordinator_host_ok H host" using Cons.prems request by simp
  have "runtime_keeps True (cd_runtime cd) (cd_runtime ?cd)"
    using coordinator_handle_steps [OF ok, of cd origin m] runtime_steps_keeps keeps_weaken(4) by blast
  moreover have "grounded (cd_runtime cd) \<longrightarrow> grounded (cd_runtime ?cd)"
    using coordinator_handle_steps [OF ok, of cd origin m] grounded_steps [OF _ assms(2)] grounded_quiet by blast
  ultimately show ?case
    using Cons.IH [of ?cd] Cons.prems request by (auto intro: runtime_evolution.evolves_trans)
qed

text \<open>A message that only asks changes nothing.\<close>

lemma queries_change_nothing:
  assumes "mg_type m \<in> {MT_ping, MT_query_session, MT_session_list, MT_query_authority, MT_query_diagnostics, MT_audit}"
  shows "fst (coordinator_handle host origin m cd) = cd"
  using assms
  by (auto simp: coordinator_handle_def coordinator_dispatch_def case_prod_beta handle_query_def handle_list_def handle_authority_def
      handle_diagnostics_def handle_audit_def served_def split: sum.split)

text \<open>The request type \<open>LIST_SESSIONS\<close> of the protocol is not served; its answer type is.\<close>

lemma list_sessions_unsupported:
  "mg_type m = MT_list_sessions \<Longrightarrow> coordinator_handle host origin m cd =
    (cd, Inr (error_message (mg_request_id m) (Status SC_protocol_unknown_operation ''unsupported operation LIST_SESSIONS'')))"
  by (simp add: coordinator_handle_def coordinator_dispatch_def answer_or_failure_def)

section \<open>Claims\<close>


text \<open>A coordinator whose only phase has committed, and a client that asks to cancel it and to run it again.\<close>

definition sample_coordinator_host :: coordinator_host where
  "sample_coordinator_host = \<lparr>ct_host = sample_runtime_host None,
     ct_staging = \<lparr>sh_files = \<lparr>px_lexically_normal = id, px_extension = id, px_view = fq_view sample_queries,
         px_file_size = fq_file_size sample_queries\<rparr>,
       sh_staged = (\<lambda>_. \<lparr>px_lexically_normal = id, px_extension = id, px_view = fq_view sample_queries,
         px_file_size = fq_file_size sample_queries\<rparr>), sh_open = (\<lambda>_. True), sh_write = (\<lambda>_ _. True)\<rparr>,
     ct_runs = sample_hosts, ct_workers = (\<lambda>sid i. sequential_workers (sample_hosts i) sid), ct_disk = restart_disk,
     ct_casts = sample_casts, ct_records = 1, ct_defects = 0\<rparr>"

lemma sample_coordinator_host_ok: "coordinator_host_ok {sample_runtime_host None} sample_coordinator_host"
  by (auto simp: coordinator_host_ok_def sample_coordinator_host_def hosts_in_def sample_hosts_def
      intro!: sequential_workers_steps)

definition sample_requests :: "(coordinator_host \<times> nat option \<times> message) list" where
  "sample_requests =
     [(sample_coordinator_host, Some 1, reply_message MT_cancel_phase (fw_buffer (writer_text 3 ''stop''
         (writer_u64 2 1 (writer_u64 1 1 field_writer_init))))),
      (sample_coordinator_host, Some 2, reply_message MT_retry_phase (fw_buffer (writer_u64 2 1 (writer_u64 1 1 field_writer_init)))),
      (sample_coordinator_host, None, reply_message MT_audit [])]"


end
