(* ===== verification/Object_Files.thy ===== *)
theory Object_Files
  imports Adapter
begin

text \<open>
  \<open>src/adapters/common/pe_coff.cpp\<close>: the reader of PE images, COFF objects, PTX and cubin files the
  adapters use to check what a compiler wrote. A byte string that is indexed past its end by
  \<open>std::string::compare\<close> raises \<open>std::out_of_range\<close>; an inspection that ends so is \<open>None\<close>.
\<close>

type_synonym 'a may_throw = "'a result option"

section \<open>Reading numbers and names\<close>

definition read_u16 :: "string \<Rightarrow> nat \<Rightarrow> u16" where
  "read_u16 bytes offset = (if offset + 2 > length bytes then 0 else le_word (take 2 (drop offset bytes)))"

definition read_u32 :: "string \<Rightarrow> nat \<Rightarrow> u32" where
  "read_u32 bytes offset = (if offset + 4 > length bytes then 0 else le_word (take 4 (drop offset bytes)))"

definition read_section_name :: "string \<Rightarrow> nat \<Rightarrow> string" where
  "read_section_name bytes offset = takeWhile (\<lambda>c. c \<noteq> CHR 0x00) (take 8 (drop offset bytes))"

text \<open>At most \<open>max_bytes\<close> from the head of a file: what the stream delivers, up to the size the file had before.\<close>

definition read_file_head :: "file_queries \<Rightarrow> string \<Rightarrow> u64 \<Rightarrow> string result" where
  "read_file_head fq path max_bytes =
     (if \<not> fq_exists fq path then Inl (Status SC_output_missing (''file does not exist: '' @ path))
      else case fq_file_size fq path of
        None \<Rightarrow> Inl (Status SC_output_validation_failed (''file size is unavailable: '' @ path))
      | Some file_size \<Rightarrow>
          let wanted = min file_size max_bytes in
          if \<not> fv_opens (fq_view fq path)
            then Inl (Status SC_permission_denied (''file could not be opened: '' @ path))
          else Inr (take (unat wanted) (map (\<lambda>b. char_of (unat b)) (concat (fv_reads (fq_view fq path))))))"

section \<open>PE images\<close>

record pe_image_info =
  pe_valid :: bool
  pe_machine :: u16
  pe_subsystem :: u16
  pe_characteristics :: u16
  pe_section_count :: u16
  pe_timestamp :: u32
  pe_size_of_image :: u32
  pe_entry_point_rva :: u32
  pe_is_executable :: bool
  pe_is_dll :: bool
  pe_large_address_aware :: bool
  pe_has_imports :: bool
  pe_detail :: string

definition pe_image_init :: pe_image_info where
  "pe_image_init = \<lparr>pe_valid = False, pe_machine = 0, pe_subsystem = 0, pe_characteristics = 0, pe_section_count = 0,
     pe_timestamp = 0, pe_size_of_image = 0, pe_entry_point_rva = 0, pe_is_executable = False, pe_is_dll = False,
     pe_large_address_aware = False, pe_has_imports = False, pe_detail = []\<rparr>"

definition image_detail :: "u16 \<Rightarrow> u16 \<Rightarrow> u16 \<Rightarrow> bool \<Rightarrow> string" where
  "image_detail machine subsystem sections is_dll =
     ''PE image machine=0x'' @ dec_string (unat machine) @ '' subsystem='' @ dec_string (unat subsystem) @
     '' sections='' @ dec_string (unat sections) @ (if is_dll then '' dll'' else '' exe'')"

text \<open>The fields that follow the signature; \<open>optional\<close> is where the optional header begins.\<close>

definition read_pe_fields :: "string \<Rightarrow> nat \<Rightarrow> nat \<Rightarrow> pe_image_info" where
  "read_pe_fields bytes coff optional =
     (let characteristics = read_u16 bytes (coff + 18);
          entry_point = read_u32 bytes (optional + 16);
          is_dll = (and characteristics 0x2000 \<noteq> 0);
          machine = read_u16 bytes coff; sections = read_u16 bytes (coff + 2); subsystem = read_u16 bytes (optional + 68)
      in pe_image_init\<lparr>pe_valid := True, pe_machine := machine, pe_section_count := sections,
           pe_timestamp := read_u32 bytes (coff + 4), pe_characteristics := characteristics,
           pe_entry_point_rva := entry_point, pe_subsystem := subsystem,
           pe_size_of_image := read_u32 bytes (optional + 56),
           pe_large_address_aware := (and (read_u16 bytes (optional + 70)) 0x0020 \<noteq> 0),
           pe_is_dll := is_dll, pe_is_executable := (\<not> is_dll \<and> entry_point \<noteq> 0),
           pe_detail := image_detail machine subsystem sections is_dll\<rparr>)"

text \<open>The sum \<open>pe_offset + 24\<close> is one of 32 bits.\<close>

definition parse_pe_image :: "string \<Rightarrow> pe_image_info may_throw" where
  "parse_pe_image bytes =
     (if length bytes < 64 then Some (Inl (Status SC_output_corrupt ''file is too small to be a PE image''))
      else if bytes ! 0 \<noteq> CHR ''M'' \<or> bytes ! 1 \<noteq> CHR ''Z''
        then Some (Inl (Status SC_output_unexpected_format ''file has no MZ signature''))
      else
        let pe_offset = read_u32 bytes 0x3C in
        if pe_offset = 0 \<or> unat (pe_offset + 24) > length bytes
          then Some (Inl (Status SC_output_corrupt ''PE header offset is out of range''))
        else if unat pe_offset > length bytes then None
        else if take 4 (drop (unat pe_offset) bytes) \<noteq> ''PE'' @ [CHR 0x00, CHR 0x00]
          then Some (Inl (Status SC_output_corrupt ''PE signature is absent''))
        else
          let coff = unat (pe_offset + 4); optional_size = unat (read_u16 bytes (coff + 16)); optional = coff + 20 in
          if optional_size < 2 \<or> optional + optional_size > length bytes
            then Some (Inl (Status SC_output_corrupt ''PE optional header is truncated''))
          else
            let magic = read_u16 bytes optional in
            if magic \<noteq> 0x010B \<and> magic \<noteq> 0x020B
              then Some (Inl (Status SC_output_unexpected_format ''PE optional header magic is not PE32/PE32+''))
            else if read_u16 bytes (coff + 2) = 0
              then Some (Inl (Status SC_output_corrupt ''PE image declares no sections''))
            else Some (Inr (read_pe_fields bytes coff optional)))"

definition inspect_pe_image :: "file_queries \<Rightarrow> string \<Rightarrow> pe_image_info may_throw" where
  "inspect_pe_image fq path =
     (case read_file_head fq path 0x100000 of Inl e \<Rightarrow> Some (Inl e) | Inr bytes \<Rightarrow> parse_pe_image bytes)"

section \<open>COFF objects\<close>

record coff_object_info =
  cf_valid :: bool
  cf_machine :: u16
  cf_section_count :: u16
  cf_characteristics :: u16
  cf_symbol_count :: u32
  cf_timestamp :: u32
  cf_file_size :: u64
  cf_section_names :: "string list"
  cf_has_device_code :: bool
  cf_detail :: string

definition kObjectCeiling :: u64 where
  "kObjectCeiling = 256 * 1024 * 1024"

text \<open>
  A name such as \<open>/5317\<close> is an offset into the string table; a name in a header has at most eight bytes, so
  that its number is far below the bound of \<open>strtoul\<close>.
\<close>

definition resolve_name :: "string \<Rightarrow> nat \<Rightarrow> string \<Rightarrow> string" where
  "resolve_name bytes string_table given =
     (if length given < 2 \<or> hd given \<noteq> CHR ''/'' then given
      else if \<not> list_all is_digit (tl given) then given
      else
        let offset = string_table + digits_value (tl given) in
        if offset \<ge> length bytes then given
        else let name = takeWhile (\<lambda>c. c \<noteq> CHR 0x00) (drop offset bytes) in if name = [] then given else name)"

definition device_sections :: "string list" where
  "device_sections = [''.nv.info'', ''.nv_fatbin'', ''nv_fatbin'', ''.nvFatBinSegment'']"

definition read_sections :: "string \<Rightarrow> nat \<Rightarrow> nat \<Rightarrow> string list" where
  "read_sections bytes string_table sections =
     map (\<lambda>i. resolve_name bytes string_table (read_section_name bytes (20 + i * 40))) [0..<sections]"

definition coff_detail :: "u16 \<Rightarrow> u16 \<Rightarrow> u32 \<Rightarrow> bool \<Rightarrow> string" where
  "coff_detail machine section_count symbols device =
     ''COFF object machine=0x'' @ dec_string (unat machine) @ '' sections='' @ dec_string (unat section_count) @
     '' symbols='' @ dec_string (unat symbols) @ (if device then '' with device code'' else [])"

definition parse_coff_object :: "u64 \<Rightarrow> string \<Rightarrow> coff_object_info result" where
  "parse_coff_object file_size bytes =
     (if length bytes < 20 then Inl (Status SC_output_corrupt ''file is too small to be a COFF object'')
      else if bytes ! 0 = CHR ''M'' \<and> bytes ! 1 = CHR ''Z''
        then Inl (Status SC_output_unexpected_format ''file is a PE image, not a COFF object'')
      else if read_u16 bytes 16 \<noteq> 0
        then Inl (Status SC_output_unexpected_format ''file has an optional header and is therefore not a COFF object'')
      else if read_u16 bytes 2 = 0 then Inl (Status SC_output_corrupt ''COFF object declares no sections'')
      else
        let machine = read_u16 bytes 0; section_count = read_u16 bytes 2; symbols = read_u32 bytes 12;
            string_table = unat (read_u32 bytes 8) + unat symbols * 18;
            names = read_sections bytes string_table (min (unat section_count) ((length bytes - 20) div 40));
            device = list_ex (\<lambda>name. name \<in> set device_sections) names
        in Inr \<lparr>cf_valid = True, cf_machine = machine, cf_section_count = section_count,
             cf_characteristics = read_u16 bytes 18, cf_symbol_count = symbols, cf_timestamp = read_u32 bytes 4,
             cf_file_size = file_size, cf_section_names = filter (\<lambda>name. name \<noteq> []) names, cf_has_device_code = device,
             cf_detail = coff_detail machine section_count symbols device\<rparr>)"

definition inspect_coff_object :: "file_queries \<Rightarrow> string \<Rightarrow> coff_object_info result" where
  "inspect_coff_object fq path =
     (case fq_file_size fq path of
        None \<Rightarrow> Inl (Status SC_output_missing (''object file is unavailable: '' @ path))
      | Some file_size \<Rightarrow>
          if file_size > kObjectCeiling
            then Inl (Status SC_capacity_exceeded ''object file exceeds the inspection ceiling'')
          else crf_try (read_file_head fq path file_size) (parse_coff_object file_size))"

section \<open>Device code files\<close>

definition looks_like_ptx :: "file_queries \<Rightarrow> string \<Rightarrow> bool" where
  "looks_like_ptx fq path =
     (case read_file_head fq path 4096 of
        Inl _ \<Rightarrow> False
      | Inr head \<Rightarrow>
          let trimmed = trim_ascii head in
          take 8 trimmed = ''.version'' \<or> take 2 trimmed = ''//'' \<or> find_text ''.target'' trimmed \<noteq> None)"

definition looks_like_cubin :: "file_queries \<Rightarrow> string \<Rightarrow> bool result" where
  "looks_like_cubin fq path =
     crf_try (read_file_head fq path 64) (\<lambda>bytes.
       if length bytes < 20 then Inr False
       else if bytes ! 0 \<noteq> CHR 0x7F \<or> bytes ! 1 \<noteq> CHR ''E'' \<or> bytes ! 2 \<noteq> CHR ''L'' \<or> bytes ! 3 \<noteq> CHR ''F'' then Inr False
       else Inr (read_u16 bytes 18 = 190))"

section \<open>What an inspection shows\<close>

lemma file_head_bound: "read_file_head fq path n = Inr bytes \<Longrightarrow> length bytes \<le> unat n"
  by (auto simp: read_file_head_def Let_def word_le_nat_alt split: if_splits option.splits)
    (metis min.bounded_iff min.cobounded2 min.coboundedI1 order_trans word_le_nat_alt)

text \<open>The check of the offset is passed by a wrapped sum exactly for the last 24 offsets.\<close>

lemma wrapped_offset:
  fixes pe_offset :: u32
  assumes "n < 2 ^ 32 - 24"
  shows "n < unat pe_offset \<and> unat (pe_offset + 24) \<le> n \<longleftrightarrow> 2 ^ 32 - 24 \<le> unat pe_offset \<and> unat pe_offset + 24 - 2 ^ 32 \<le> n"
proof -
  have small: "unat pe_offset < 2 ^ 32" using unsigned_less [of pe_offset] by simp
  have "unat (pe_offset + 24) = (unat pe_offset + 24) mod 2 ^ 32" by (simp add: unat_word_ariths)
  also have "\<dots> = (if unat pe_offset + 24 < 2 ^ 32 then unat pe_offset + 24 else unat pe_offset + 24 - 2 ^ 32)"
    using small by (auto simp: mod_if)
  finally show ?thesis using assms small by auto
qed

lemma if_None: "((if c then Some x else y) = None) = (\<not> c \<and> y = None)" "((if c then None else y) = None) = (c \<or> y = None)"
  by auto

lemma parse_throws:
  assumes "length bytes < 2 ^ 32 - 24"
  shows "parse_pe_image bytes = None \<longleftrightarrow>
    64 \<le> length bytes \<and> bytes ! 0 = CHR ''M'' \<and> bytes ! 1 = CHR ''Z'' \<and> 2 ^ 32 - 24 \<le> unat (read_u32 bytes 0x3C)"
proof -
  let ?o = "read_u32 bytes 0x3C"
  have small: "unat ?o < 2 ^ 32" using unsigned_less [of ?o] by simp
  have "parse_pe_image bytes = None \<longleftrightarrow> \<not> length bytes < 64 \<and> \<not> (bytes ! 0 \<noteq> CHR ''M'' \<or> bytes ! 1 \<noteq> CHR ''Z'') \<and>
      \<not> (?o = 0 \<or> length bytes < unat (?o + 24)) \<and> length bytes < unat ?o"
    unfolding parse_pe_image_def Let_def if_None by (simp only: option.distinct simp_thms)
  moreover have "?o \<noteq> 0" if "length bytes < unat ?o" using that by auto
  ultimately show ?thesis
    using wrapped_offset [OF assms, of ?o] small by (auto simp: not_less)
qed

lemma small_offset:
  fixes pe_offset :: u32
  assumes "unat (pe_offset + 24) \<le> n" "unat pe_offset \<le> n" "n < 2 ^ 32 - 24"
  shows "unat (pe_offset + 4) = unat pe_offset + 4 \<and> unat pe_offset + 24 \<le> n"
proof -
  have "unat (pe_offset + 24) = unat pe_offset + 24" "unat (pe_offset + 4) = unat pe_offset + 4"
    using assms(2,3) by (simp_all add: unat_word_ariths)
  with assms(1) show ?thesis by simp
qed

text \<open>The headers of an image that is accepted lie inside the bytes that were read.\<close>

lemma parsed_image:
  assumes "parse_pe_image bytes = Some (Inr info)" "length bytes < 2 ^ 32 - 24"
  defines "pe \<equiv> unat (read_u32 bytes 0x3C)"
  shows "bytes ! 0 = CHR ''M'' \<and> bytes ! 1 = CHR ''Z'' \<and> take 4 (drop pe bytes) = ''PE'' @ [CHR 0x00, CHR 0x00] \<and>
    pe + 24 + unat (read_u16 bytes (pe + 20)) \<le> length bytes \<and> read_u16 bytes (pe + 24) \<in> {0x010B, 0x020B} \<and>
    pe_section_count info \<noteq> 0 \<and> info = read_pe_fields bytes (pe + 4) (pe + 24)"
proof -
  let ?o = "read_u32 bytes 0x3C"
  have o: "unat (?o + 24) \<le> length bytes" "unat ?o \<le> length bytes"
    using assms(1) by (auto simp: parse_pe_image_def Let_def split: if_splits)
  show ?thesis
    using assms(1) small_offset [OF o assms(2)] unfolding pe_def
    by (auto simp: parse_pe_image_def Let_def add.commute read_pe_fields_def split: if_splits)
qed

lemma parsed_object:
  assumes "parse_coff_object n bytes = Inr info"
  shows "20 \<le> length bytes \<and> cf_machine info = read_u16 bytes 0 \<and> cf_section_count info = read_u16 bytes 2 \<and>
    cf_section_count info \<noteq> 0 \<and> read_u16 bytes 16 = 0 \<and> \<not> (bytes ! 0 = CHR ''M'' \<and> bytes ! 1 = CHR ''Z'') \<and>
    (cf_has_device_code info \<longleftrightarrow> (\<exists>name \<in> set (cf_section_names info). name \<in> set device_sections))"
proof -
  have "[] \<notin> set device_sections" by (simp add: device_sections_def)
  then have named: "list_ex (\<lambda>name. name \<in> set device_sections) names \<longleftrightarrow>
      (\<exists>name \<in> set (filter (\<lambda>name. name \<noteq> []) names). name \<in> set device_sections)" for names
    by (auto simp: list_ex_iff)
  have "\<not> length bytes < 20" "\<not> (bytes ! 0 = CHR ''M'' \<and> bytes ! 1 = CHR ''Z'')" "\<not> read_u16 bytes 16 \<noteq> 0" "read_u16 bytes 2 \<noteq> 0"
    using assms unfolding parse_coff_object_def Let_def by (metis Inl_Inr_False)+
  then show ?thesis
    using assms unfolding parse_coff_object_def Let_def named
    by (simp only: if_False not_not refl simp_thms sum.inject) auto
qed

lemma inspected_image:
  assumes "inspect_pe_image fq path = Some (Inr info)"
  shows "\<exists>bytes. read_file_head fq path 0x100000 = Inr bytes \<and> parse_pe_image bytes = Some (Inr info) \<and> length bytes < 2 ^ 32 - 24"
proof -
  obtain bytes where bytes: "read_file_head fq path 0x100000 = Inr bytes" "parse_pe_image bytes = Some (Inr info)"
    using assms by (auto simp: inspect_pe_image_def split: sum.splits)
  with file_head_bound [OF bytes(1)] show ?thesis by auto
qed

lemma inspected_object:
  assumes "inspect_coff_object fq path = Inr info"
  shows "\<exists>n bytes. read_file_head fq path n = Inr bytes \<and> parse_coff_object n bytes = Inr info"
  using assms by (auto simp: inspect_coff_object_def crf_try_Inr split: option.splits if_splits)

section \<open>An image that raises an exception\<close>

text \<open>
  The check of the header's offset can be passed by a sum that wraps around. The inspection of an
  image ends with an exception, instead of a refusal, exactly when the file has at least 64 bytes, begins
  with \<open>MZ\<close> and names one of the last 24 offsets of 32 bits for its header.
\<close>

lemma image_inspection_raises:
  "inspect_pe_image fq path = None \<longleftrightarrow>
    (\<exists>bytes. read_file_head fq path 0x100000 = Inr bytes \<and> 64 \<le> length bytes \<and> bytes ! 0 = CHR ''M'' \<and>
      bytes ! 1 = CHR ''Z'' \<and> 2 ^ 32 - 24 \<le> unat (read_u32 bytes 0x3C))"
proof (cases "read_file_head fq path 0x100000")
  case (Inr bytes)
  then have "length bytes < 2 ^ 32 - 24" using file_head_bound [OF Inr] by simp
  with Inr parse_throws [OF this] show ?thesis by (simp add: inspect_pe_image_def)
qed (simp add: inspect_pe_image_def)

end
