(* ===== verification/Msvc_Toolset.thy ===== *)
theory Msvc_Toolset
  imports Object_Files
begin

text \<open>
  \<open>src/adapters/common/msvc_env.cpp\<close>: where an installed Visual C++ toolset and Windows SDK are found
  and how the version of a tool is read from its banner. The directories, the files and the runs of the
  tools are what the host answers.
\<close>

section \<open>The host\<close>

text \<open>
  \<open>th_subdirectories\<close> are the names of the directories in a directory in the order in which the
  iterator gives them; \<open>th_exits\<close> is what a run of a tool with its arguments writes and how it ends.
\<close>

record toolset_host =
  th_paths :: host_paths
  th_is_directory :: "string \<Rightarrow> bool"
  th_is_regular_file :: "string \<Rightarrow> bool"
  th_subdirectories :: "string \<Rightarrow> string list"
  th_queries :: file_queries
  th_process :: process_host
  th_exits :: "string \<Rightarrow> string list \<Rightarrow> exit_report"

abbreviation th_normalize :: "toolset_host \<Rightarrow> string \<Rightarrow> string" where
  "th_normalize host \<equiv> hp_normalize (th_paths host)"

text \<open>\<open>root / a / b\<close>\<close>

definition path_under :: "toolset_host \<Rightarrow> string \<Rightarrow> string list \<Rightarrow> string" where
  "path_under host root parts = foldl (hp_join (th_paths host)) root parts"

definition candidate_vs_roots :: "toolset_host \<Rightarrow> string list" where
  "candidate_vs_roots host =
     filter (th_is_directory host) (map (th_normalize host)
       [''C:/Program Files (x86)/Microsoft Visual Studio/2022/BuildTools'',
        ''C:/Program Files (x86)/Microsoft Visual Studio/2022/Community'',
        ''C:/Program Files (x86)/Microsoft Visual Studio/2022/Professional'',
        ''C:/Program Files (x86)/Microsoft Visual Studio/2022/Enterprise'',
        ''C:/Program Files/Microsoft Visual Studio/2022/BuildTools'',
        ''C:/Program Files/Microsoft Visual Studio/2022/Community'',
        ''C:/Program Files/Microsoft Visual Studio/2022/Professional'',
        ''C:/Program Files/Microsoft Visual Studio/2022/Enterprise''])"

definition list_versions :: "toolset_host \<Rightarrow> string \<Rightarrow> string list" where
  "list_versions host parent = (if \<not> th_is_directory host parent then [] else sort (th_subdirectories host parent))"

section \<open>A toolset\<close>

record msvc_toolset =
  mt_vs_root :: string
  mt_vc_tools_root :: string
  mt_host_bin_dir :: string
  mt_cl :: string
  mt_link :: string
  mt_lib :: string
  mt_toolset_version :: string
  mt_compiler_version :: string
  mt_linker_version :: string
  mt_sdk_root :: string
  mt_sdk_version :: string
  mt_include_dirs :: "string list"
  mt_lib_dirs :: "string list"
  mt_path_dirs :: "string list"
  mt_standard_library :: string

text \<open>The three values that join their directories with a semicolon; an empty first part adds none.\<close>

definition joined_dirs :: "string list \<Rightarrow> string" where
  "joined_dirs dirs = foldl (\<lambda>out path. (if out \<noteq> [] then out @ '';'' else out) @ path) [] dirs"

definition include_value :: "msvc_toolset \<Rightarrow> string" where
  "include_value t = joined_dirs (mt_include_dirs t)"

definition lib_value :: "msvc_toolset \<Rightarrow> string" where
  "lib_value t = joined_dirs (mt_lib_dirs t)"

definition path_value :: "msvc_toolset \<Rightarrow> string" where
  "path_value t = joined_dirs (mt_path_dirs t)"

section \<open>Banners\<close>

definition banner_spec :: "toolset_host \<Rightarrow> string \<Rightarrow> string list \<Rightarrow> process_spec" where
  "banner_spec host executable arguments =
     process_spec_default\<lparr>sp_executable := executable, sp_arguments := arguments, sp_max_capture_bytes := 64 * 1024,
       sp_environment := build_process_environment (px_ambient_value (th_process host)) environment_spec_init True,
       sp_inherit_ambient_environment := True\<rparr>"

definition probe_run :: "toolset_host \<Rightarrow> process_spec \<Rightarrow> process_outcome result" where
  "probe_run host spec =
     snd (supervisor_run (th_process host) spec (Ref (StrongId 1) gen_initial) False
       (th_exits host (sp_executable spec) (sp_arguments spec)) (supervisor_init supervisor_options_default))"

definition probe_component_banner :: "toolset_host \<Rightarrow> string \<Rightarrow> string list \<Rightarrow> string result" where
  "probe_component_banner host executable arguments =
     crf_try (probe_run host (banner_spec host executable arguments)) (\<lambda>outcome.
       let banner = pc_standard_output (oc_capture outcome) @ pc_standard_error (oc_capture outcome) in
       if banner = [] \<and> \<not> exited_zero outcome
         then Inl (Status SC_probe_failed (''component produced no banner output: '' @ executable))
       else Inr banner)"

definition is_version_char :: "char \<Rightarrow> bool" where
  "is_version_char c = (is_digit c \<or> c = CHR ''.'')"

definition version_here :: "string \<Rightarrow> string" where
  "version_here text =
     rev (dropWhile (\<lambda>c. c = CHR ''.'') (rev (takeWhile is_version_char (dropWhile (\<lambda>c. c = CHR '' '' \<or> c = CHR '':'') text))))"

text \<open>
  The search goes on behind the keyword when no version follows it. The keywords are never empty; with
  an empty one the loop of the code would not advance.
\<close>

function extract_version :: "string \<Rightarrow> string \<Rightarrow> string" where
  "extract_version text keyword =
     (if text = [] \<or> keyword = [] then []
      else case find_text keyword text of
        None \<Rightarrow> []
      | Some position \<Rightarrow>
          let rest = drop (position + length keyword) text in
          if version_here rest \<noteq> [] then version_here rest else extract_version rest keyword)"
  by pat_completeness auto
termination
  by (relation "measure (\<lambda>(text, _). length text)") auto

declare extract_version.simps [simp del]

section \<open>Discovery\<close>

fun first_some :: "('a \<Rightarrow> 'b option) \<Rightarrow> 'a list \<Rightarrow> 'b option" where
  "first_some f [] = None"
| "first_some f (x # xs) = (case f x of Some y \<Rightarrow> Some y | None \<Rightarrow> first_some f xs)"

text \<open>The newest toolset under a root that has both tools: its directory, the directory of its tools and its version.\<close>

definition toolset_under :: "toolset_host \<Rightarrow> string \<Rightarrow> (string \<times> string \<times> string \<times> string) option" where
  "toolset_under host root =
     first_some (\<lambda>v.
       let tools = path_under host root [''VC'', ''Tools'', ''MSVC'', v]; bin = path_under host tools [''bin'', ''Hostx64'', ''x64''] in
       if th_is_regular_file host (path_under host bin [''cl.exe'']) \<and> th_is_regular_file host (path_under host bin [''link.exe''])
       then Some (root, tools, bin, v) else None)
     (rev (list_versions host (path_under host root [''VC'', ''Tools'', ''MSVC''])))"

definition sdk_under :: "toolset_host \<Rightarrow> string \<Rightarrow> (string \<times> string) option" where
  "sdk_under host sdk =
     first_some (\<lambda>v.
       if th_is_directory host (path_under host sdk [''Include'', v, ''um'']) \<and>
         th_is_directory host (path_under host sdk [''Lib'', v, ''um'', ''x64''])
       then Some (sdk, v) else None)
     (rev (list_versions host (path_under host sdk [''Include''])))"

definition with_sdk :: "toolset_host \<Rightarrow> string \<times> string \<Rightarrow> msvc_toolset \<Rightarrow> msvc_toolset" where
  "with_sdk host found t =
     (case found of (sdk, v) \<Rightarrow>
       t\<lparr>mt_sdk_root := th_normalize host sdk, mt_sdk_version := v,
         mt_include_dirs := filter (th_is_directory host)
           (map (\<lambda>name. path_under host sdk [''Include'', v, name]) [''ucrt'', ''shared'', ''um'', ''winrt'', ''cppwinrt'']),
         mt_lib_dirs := filter (th_is_directory host)
           (map (\<lambda>name. path_under host sdk [''Lib'', v, name, ''x64'']) [''ucrt'', ''um'']),
         mt_path_dirs := mt_path_dirs t @ filter (th_is_directory host) [path_under host sdk [''bin'', v, ''x64'']]\<rparr>)"

definition installed_toolset :: "toolset_host \<Rightarrow> string \<times> string \<times> string \<times> string \<Rightarrow> msvc_toolset" where
  "installed_toolset host found =
     (case found of (root, tools, bin, v) \<Rightarrow>
       let vc = th_normalize host tools; dir = th_normalize host bin;
           bare = \<lparr>mt_vs_root = th_normalize host root, mt_vc_tools_root = vc, mt_host_bin_dir = dir,
             mt_cl = th_normalize host (path_under host dir [''cl.exe'']), mt_link = th_normalize host (path_under host dir [''link.exe'']),
             mt_lib = th_normalize host (path_under host dir [''lib.exe'']), mt_toolset_version = v, mt_compiler_version = [],
             mt_linker_version = [], mt_sdk_root = [], mt_sdk_version = [], mt_include_dirs = [], mt_lib_dirs = [],
             mt_path_dirs = [dir], mt_standard_library = path_under host vc [''lib'', ''x64'', ''msvcprt.lib'']\<rparr>;
           t = (case first_some (sdk_under host)
                 [''C:/Program Files (x86)/Windows Kits/10'', ''C:/Program Files/Windows Kits/10''] of
                None \<Rightarrow> bare | Some sdk \<Rightarrow> with_sdk host sdk bare)
       in t\<lparr>mt_include_dirs := path_under host vc [''include''] # mt_include_dirs t,
            mt_lib_dirs := path_under host vc [''lib'', ''x64''] # mt_lib_dirs t\<rparr>)"

definition discover_msvc_toolset :: "toolset_host \<Rightarrow> msvc_toolset result" where
  "discover_msvc_toolset host =
     (case first_some (toolset_under host) (candidate_vs_roots host) of
        None \<Rightarrow> Inl (Status SC_toolchain_not_found
          ''no MSVC toolset with cl.exe and link.exe was found in the standard roots'')
      | Some found \<Rightarrow>
          let t = installed_toolset host found in
          case probe_component_banner host (mt_cl t) [] of
            Inl e \<Rightarrow> Inl (Status SC_probe_failed (''cl.exe banner probe failed: '' @ status_to_string e))
          | Inr banner \<Rightarrow>
              let t1 = t\<lparr>mt_compiler_version := extract_version banner ''Version'',
                    mt_linker_version := (case probe_component_banner host (mt_link t) [] of
                      Inl _ \<Rightarrow> [] | Inr link_banner \<Rightarrow> extract_version link_banner ''Linker'')\<rparr> in
              if mt_compiler_version t1 = []
                then Inl (Status SC_probe_failed (''cl.exe did not report a compiler version; banner bytes='' @
                  dec_string (length banner) @ '' banner='' @ [CHR 0x22] @ take 160 banner @ [CHR 0x22]))
              else if mt_sdk_version t1 = []
                then Inl (Status SC_probe_failed ''no Windows SDK include and library set was found'')
              else Inr t1)"

section \<open>What is discovered\<close>

lemma first_some_Some: "first_some f xs = Some y \<Longrightarrow> \<exists>x \<in> set xs. f x = Some y"
  by (induction xs) (auto split: option.splits)

lemma extracted_version_shape: "list_all is_version_char (extract_version banner keyword)"
proof (induction banner keyword rule: extract_version.induct)
  case (1 banner keyword)
  have "list_all is_version_char (version_here t)" for t
    by (auto simp: version_here_def list_all_iff dest!: set_dropWhileD set_takeWhileD)
  with 1 show ?case by (subst extract_version.simps) (simp add: Let_def split: option.split)
qed

text \<open>
  A discovered toolset has both tools under one of the standard roots, with the directory and the newest
  version that has them, and it names a compiler version and an SDK.
\<close>

lemma discovered_toolset:
  assumes "discover_msvc_toolset host = Inr t"
  shows "\<exists>root \<in> set (candidate_vs_roots host). \<exists>v \<in> set (th_subdirectories host (path_under host root [''VC'', ''Tools'', ''MSVC''])).
    \<exists>bin. bin = path_under host root [''VC'', ''Tools'', ''MSVC'', v, ''bin'', ''Hostx64'', ''x64''] \<and>
      th_is_regular_file host (path_under host bin [''cl.exe'']) \<and> th_is_regular_file host (path_under host bin [''link.exe'']) \<and>
      mt_toolset_version t = v \<and> mt_host_bin_dir t = th_normalize host bin \<and> mt_vs_root t = th_normalize host root"
    "mt_compiler_version t \<noteq> []" "mt_sdk_version t \<noteq> []"
proof -
  obtain found banner where found: "first_some (toolset_under host) (candidate_vs_roots host) = Some found"
    and t: "t = (installed_toolset host found)\<lparr>mt_compiler_version := extract_version banner ''Version'',
      mt_linker_version := (case probe_component_banner host (mt_link (installed_toolset host found)) [] of
        Inl _ \<Rightarrow> [] | Inr link_banner \<Rightarrow> extract_version link_banner ''Linker'')\<rparr>"
    and "mt_compiler_version t \<noteq> []" "mt_sdk_version t \<noteq> []"
    using assms unfolding discover_msvc_toolset_def Let_def
    by (auto split: option.splits sum.splits if_splits)
  then show "mt_compiler_version t \<noteq> []" "mt_sdk_version t \<noteq> []" by simp_all
  obtain root v tools bin where parts: "found = (root, tools, bin, v)" by (metis prod_cases4)
  obtain root' where "root' \<in> set (candidate_vs_roots host)" "toolset_under host root' = Some found"
    using first_some_Some [OF found] by blast
  moreover from this(2) obtain v' where "v' \<in> set (list_versions host (path_under host root' [''VC'', ''Tools'', ''MSVC'']))"
    "found = (root', path_under host root' [''VC'', ''Tools'', ''MSVC'', v'],
      path_under host (path_under host root' [''VC'', ''Tools'', ''MSVC'', v']) [''bin'', ''Hostx64'', ''x64''], v')"
    "th_is_regular_file host (path_under host (path_under host (path_under host root' [''VC'', ''Tools'', ''MSVC'', v'])
      [''bin'', ''Hostx64'', ''x64'']) [''cl.exe''])"
    "th_is_regular_file host (path_under host (path_under host (path_under host root' [''VC'', ''Tools'', ''MSVC'', v'])
      [''bin'', ''Hostx64'', ''x64'']) [''link.exe''])"
    unfolding toolset_under_def Let_def by (auto dest!: first_some_Some split: if_splits)
  ultimately show "\<exists>root \<in> set (candidate_vs_roots host). \<exists>v \<in> set (th_subdirectories host (path_under host root [''VC'', ''Tools'', ''MSVC''])).
    \<exists>bin. bin = path_under host root [''VC'', ''Tools'', ''MSVC'', v, ''bin'', ''Hostx64'', ''x64''] \<and>
      th_is_regular_file host (path_under host bin [''cl.exe'']) \<and> th_is_regular_file host (path_under host bin [''link.exe'']) \<and>
      mt_toolset_version t = v \<and> mt_host_bin_dir t = th_normalize host bin \<and> mt_vs_root t = th_normalize host root"
    unfolding t
    by (intro bexI [of _ root'] bexI [of _ v'])
      (auto simp: installed_toolset_def Let_def with_sdk_def list_versions_def path_under_def split: if_splits option.split)
qed

end
