(* ===== verification/Msvc_Adapter.thy ===== *)
theory Msvc_Adapter
  imports Msvc_Toolset Runtime_State
begin

text \<open>
  \<open>src/adapters/msvc/msvc_adapter.cpp\<close>: the adapter for \<open>cl.exe\<close> and \<open>link.exe\<close>. Its plan has one phase
  per translation unit, its command lines and its checks of the outputs follow the kind of the phase.
  The pointers of a request that the runtime always sets are not options here.
\<close>

section \<open>Names\<close>

definition version_string :: string where
  "version_string = ''1.0.0''"

definition hex16 :: "u16 \<Rightarrow> string" where
  "hex16 v = ''0x'' @ map (\<lambda>i. ''0123456789abcdef'' ! unat (and (drop_bit (i * 4) v) 0xF)) [3, 2, 1, 0]"

definition rfind_char :: "char \<Rightarrow> string \<Rightarrow> nat option" where
  "rfind_char c text =
     (if c \<in> set text then Some (length text - 1 - length (takeWhile (\<lambda>d. d \<noteq> c) (rev text))) else None)"

definition source_stem :: "host_paths \<Rightarrow> source_unit \<Rightarrow> string" where
  "source_stem hp u =
     (let name = hp_filename hp (su_path u);
          stem = (case rfind_char CHR ''.'' name of Some dot \<Rightarrow> if dot \<noteq> 0 then take dot name else name | None \<Rightarrow> name)
      in if stem = [] then ''translation-unit'' else stem)"

definition default_final_name :: "host_paths \<Rightarrow> execution_request \<Rightarrow> string" where
  "default_final_name hp q =
     (if xq_final_artifact_name q \<noteq> [] then xq_final_artifact_name q
      else if xq_sources q \<noteq> [] then source_stem hp (hd (xq_sources q)) @ ''.exe''
      else ''candidate.exe'')"

text \<open>The index is read by \<open>strtoull\<close> into a \<open>size_t\<close>.\<close>

definition parse_phase_index :: "string \<Rightarrow> nat option" where
  "parse_phase_index name =
     (case rfind_char CHR ''#'' name of
        None \<Rightarrow> None
      | Some hash \<Rightarrow>
          let digits = drop (hash + 1) name in
          if digits = [] \<or> \<not> list_all is_digit digits then None else Some (unat (strtoull digits)))"

section \<open>Identity of the toolchain\<close>

definition msvc_describe :: adapter_descriptor where
  "msvc_describe = \<lparr>dsc_name = ''msvc'', dsc_display_name = ''Microsoft Visual C++ (cl.exe and link.exe)'',
     dsc_version = version_string, dsc_family = TF_msvc,
     dsc_capabilities = foldl (\<lambda>flags c. or flags (capability_value c)) 0
       [AC_compile, AC_link, AC_static_library, AC_structured_diagnostics, AC_object_validation, AC_executable_validation,
        AC_smoke_test, AC_reproducible, AC_parallel_translation_units],
     dsc_implemented_phases = [PK_input_validate, PK_codegen, PK_link, PK_finalize],
     dsc_produced_formats = [OF_coff_object, OF_coff_image, OF_linker_map], dsc_evidence_class = EC_real\<rparr>"

definition digest_builder :: "string list \<Rightarrow> digest" where
  "digest_builder texts = hasher_finish (foldl (\<lambda>st text. hasher_update_length_prefixed text st) sha256_init texts)"

text \<open>A component to probe: its kind, name, path and version.\<close>

type_synonym component_to_probe = "component_kind \<times> string \<times> string \<times> string"

definition msvc_components :: "msvc_toolset \<Rightarrow> component_to_probe list" where
  "msvc_components t =
     [(CK_host_cxx_compiler, ''cl'', mt_cl t, mt_compiler_version t), (CK_linker, ''link'', mt_link t, mt_linker_version t),
      (CK_librarian, ''lib'', mt_lib t, [])]"

definition msvc_command_capabilities :: "component_kind \<Rightarrow> string list" where
  "msvc_command_capabilities kind =
     (if kind = CK_host_cxx_compiler
        then [''/std:c++20'', ''/std:c++17'', ''/Zs'', ''/E'', ''/c'', ''/Brepro'', ''/Fo'']
      else if kind = CK_linker then [''/Brepro'', ''/INCREMENTAL:NO'', ''/OUT:'', ''/MAP:''] else [''/OUT:''])"

definition msvc_object_formats :: "component_kind \<Rightarrow> object_format list" where
  "msvc_object_formats kind =
     (if kind = CK_host_cxx_compiler then [OF_coff_object]
      else if kind = CK_linker then [OF_coff_image, OF_linker_map] else [OF_archive])"

text \<open>The loop over the components, shared with the CUDA adapter, which leaves out what is not there.\<close>

fun probe_components ::
  "file_queries \<Rightarrow> (string \<Rightarrow> bool) \<Rightarrow> (component_kind \<Rightarrow> string list) \<Rightarrow> (component_kind \<Rightarrow> object_format list) \<Rightarrow>
   component_tag id_allocator \<Rightarrow> component_to_probe list \<Rightarrow> component_identity list result" where
  "probe_components fq skipped capabilities formats ids [] = Inr []"
| "probe_components fq skipped capabilities formats ids ((kind, name, path, v) # specs) =
     (if skipped path then probe_components fq skipped capabilities formats ids specs
      else case probe_file_identity fq path True of
        Inl _ \<Rightarrow> Inl (Status SC_probe_failed (''component could not be probed: '' @ path))
      | Inr file \<Rightarrow>
          (case alloc_next ids of (i, ids1) \<Rightarrow>
            crf_try (probe_components fq skipped capabilities formats ids1 specs) (\<lambda>rest.
              Inr (\<lparr>ci_id = i, ci_generation = gen_initial, ci_kind = kind, ci_name = name, ci_version = v, ci_file = file,
                ci_command_capabilities = capabilities kind, ci_target_support = [AR_x64], ci_object_formats = formats kind,
                ci_environment_requirements = [], ci_evidence_class = EC_real\<rparr> # rest))))"

definition component_texts :: "component_identity list \<Rightarrow> string list" where
  "component_texts cs = concat (map (\<lambda>c. [ci_name c, to_hex (fi_content (ci_file c)), ci_version c]) cs)"

definition msvc_library_identity :: "file_queries \<Rightarrow> msvc_toolset \<Rightarrow> string" where
  "msvc_library_identity fq t =
     ''msvc-'' @ mt_toolset_version t @ ''/sdk-'' @ mt_sdk_version t @ ''/'' @
     to_short_hex (digest_builder ([mt_toolset_version t, mt_sdk_version t] @
       (if mt_standard_library t = [] then []
        else case digest_of_file (fq_view fq (mt_standard_library t)) kDefaultFileBound of
          None \<Rightarrow> [] | Some d \<Rightarrow> [to_hex d])))"

definition msvc_identity :: "toolset_host \<Rightarrow> msvc_toolset \<Rightarrow> toolchain_identity result" where
  "msvc_identity host t =
     crf_try (probe_components (th_queries host) (\<lambda>path. path = []) msvc_command_capabilities msvc_object_formats allocator_init
       (msvc_components t)) (\<lambda>components.
       if length components < 2
         then Inl (Status SC_probe_failed ''the MSVC toolchain is missing cl.exe or link.exe'')
       else
         let library = msvc_library_identity (th_queries host) t in
         Inr \<lparr>ti_id = id_absent, ti_generation = gen_absent, ti_family = TF_msvc,
           ti_display_name = ''Microsoft Visual C++ '' @ mt_toolset_version t, ti_version = mt_compiler_version t,
           ti_components = components, ti_target_support = [AR_x64],
           ti_object_formats = [OF_coff_object, OF_coff_image, OF_linker_map],
           ti_environment_contract = [\<lparr>ev_name = ''INCLUDE'', ev_value = include_value t\<rparr>,
             \<lparr>ev_name = ''LIB'', ev_value = lib_value t\<rparr>, \<lparr>ev_name = ''PATH'', ev_value = path_value t\<rparr>,
             \<lparr>ev_name = ''VSCMD_ARG_TGT_ARCH'', ev_value = ''x64''\<rparr>],
           ti_toolkit_root = mt_vc_tools_root t, ti_sdk_root = mt_sdk_root t, ti_attributes = [],
           ti_standard_library_identity = library, ti_evidence_class = EC_real,
           ti_evidence_digest = digest_builder (component_texts components @ [mt_toolset_version t, mt_sdk_version t, library])\<rparr>)"

definition msvc_probe_toolchain :: "toolset_host \<Rightarrow> probe_request \<Rightarrow> toolchain_identity result" where
  "msvc_probe_toolchain host request = crf_try (discover_msvc_toolset host) (msvc_identity host)"

definition msvc_reprobe_toolchain :: "toolset_host \<Rightarrow> toolchain_identity \<Rightarrow> probe_request \<Rightarrow> toolchain_identity result" where
  "msvc_reprobe_toolchain host previous request =
     crf_try (msvc_probe_toolchain host request) (\<lambda>identity.
       Inr (identity\<lparr>ti_id := ti_id previous, ti_generation := ti_generation previous\<rparr>))"

definition msvc_resolve_target :: "toolchain_identity \<Rightarrow> target_spec \<Rightarrow> target_spec result" where
  "msvc_resolve_target toolchain requested =
     (let target = (if ts_architecture requested = AR_unknown then requested\<lparr>ts_architecture := AR_x64\<rparr> else requested) in
      if ts_architecture target \<noteq> AR_x64
        then Inl (Status SC_target_unsupported ''the detected MSVC toolset is a Hostx64/x64 toolset and targets x64 only'')
      else default_resolve_target toolchain target)"

section \<open>Plan\<close>

definition phase_node_init :: phase_node where
  "phase_node_init = \<lparr>pn_id = id_absent, pn_kind = PK_unknown, pn_adapter_phase = [], pn_depends_on = [], pn_mandatory = True,
     pn_expected_outputs = [], pn_fan_in = False, pn_required_inputs = 0\<rparr>"

definition compile_node :: "phase_id \<Rightarrow> nat \<Rightarrow> phase_id \<Rightarrow> phase_node" where
  "compile_node validate i self = phase_node_init\<lparr>pn_id := self, pn_kind := PK_codegen,
     pn_adapter_phase := ''compile#'' @ dec_string i, pn_depends_on := [validate], pn_expected_outputs := [OF_coff_object]\<rparr>"

definition link_node :: "phase_id list \<Rightarrow> phase_id \<Rightarrow> phase_node" where
  "link_node compile_ids self = phase_node_init\<lparr>pn_id := self, pn_kind := PK_link, pn_adapter_phase := ''link'',
     pn_depends_on := compile_ids, pn_fan_in := True, pn_required_inputs := of_nat (length compile_ids),
     pn_expected_outputs := [OF_coff_image, OF_linker_map]\<rparr>"

definition finalize_node :: "phase_id \<Rightarrow> phase_id \<Rightarrow> phase_node" where
  "finalize_node link self = phase_node_init\<lparr>pn_id := self, pn_kind := PK_finalize,
     pn_adapter_phase := ''execute-candidate'', pn_depends_on := [link]\<rparr>"

definition msvc_plan_nodes :: "nat \<Rightarrow> bool \<Rightarrow> phase_node list" where
  "msvc_plan_nodes units want_smoke_test =
     (case alloc_next allocator_init of (validate, ids1) \<Rightarrow>
      case alloc_many units ids1 of (compile_ids, ids2) \<Rightarrow>
      case alloc_next ids2 of (link, ids3) \<Rightarrow>
        [phase_node_init\<lparr>pn_id := validate, pn_kind := PK_input_validate, pn_adapter_phase := ''validate-inputs''\<rparr>] @
        map2 (compile_node validate) [0..<units] compile_ids @
        [link_node compile_ids link] @
        (if want_smoke_test then [finalize_node link (fst (alloc_next ids3))] else []))"

definition msvc_build_plan :: "plan_request \<Rightarrow> phase_plan result" where
  "msvc_build_plan q =
     (let units = max 1 (pq_translation_unit_count q) in
      if units > 64
        then Inl (Status SC_capacity_exceeded ''the MSVC adapter supports at most 64 translation units per session'')
      else plan_build (msvc_plan_nodes units (pq_want_smoke_test q)))"

section \<open>Invocations\<close>

definition source_binding :: "source_unit \<Rightarrow> input_binding" where
  "source_binding u = \<lparr>ib_source = su_id u, ib_generation = su_generation u, ib_path = su_path u, ib_content = su_content u,
     ib_staged = False, ib_read_only = True\<rparr>"

definition artifact_binding :: "intermediate_artifact \<Rightarrow> input_binding" where
  "artifact_binding a = \<lparr>ib_source = ref_id (ia_source a), ib_generation = ref_gen (ia_source a), ib_path = ia_path a,
     ib_content = ia_content a, ib_staged = False, ib_read_only = True\<rparr>"

definition output_of :: "string \<Rightarrow> string \<Rightarrow> object_format \<Rightarrow> output_binding" where
  "output_of name path format = \<lparr>out_logical_name = name, out_path = path, out_expected_format = format, out_required = True,
     out_allow_empty = False\<rparr>"

text \<open>The first of some references that is registered with a format.\<close>

definition find_format :: "object_format \<Rightarrow> artifact_registry \<Rightarrow> intermediate_tag referenced list \<Rightarrow> intermediate_artifact option" where
  "find_format format r refs =
     first_some (\<lambda>i. case artifact_find (ref_id i) r of
       None \<Rightarrow> None | Some a \<Rightarrow> if ia_format a = format then Some a else None) refs"

definition msvc_spec :: "workspace \<Rightarrow> invocation_spec" where
  "msvc_spec w = invocation_spec_default\<lparr>is_adapter_name := ''msvc'', is_style := Style_msvc, is_working_directory := wk_root w\<rparr>"

definition validate_invocation_spec :: "string \<Rightarrow> execution_request \<Rightarrow> workspace \<Rightarrow> invocation_spec result" where
  "validate_invocation_spec cl q w =
     (if xq_sources q = [] then Inl (Status SC_invalid_argument ''input validation requires at least one source'')
      else Inr ((msvc_spec w)\<lparr>is_executable := cl,
        is_arguments := [''/nologo'', ''/Zs'', ''/std:c++20'', ''/EHsc'', ''/Brepro''] @ map su_path (xq_sources q),
        is_inputs := map source_binding (xq_sources q)\<rparr>))"

definition compile_invocation :: "host_paths \<Rightarrow> host_fs \<Rightarrow> string \<Rightarrow> execution_request \<Rightarrow> workspace \<Rightarrow> invocation_spec result" where
  "compile_invocation hp fs cl q w =
     (case parse_phase_index (xq_adapter_phase q) of
        None \<Rightarrow> Inl (Status SC_invalid_argument ''compile phase is missing its translation-unit ordinal'')
      | Some index \<Rightarrow>
          if index \<ge> length (xq_sources q)
            then Inl (Status SC_invalid_argument ''compile phase names a translation unit that is not part of the session'')
          else
            let u = xq_sources q ! index in
            crf_try (workspace_resolve hp fs w (''outputs/'' @ source_stem hp u @ ''-'' @ dec_string index @ ''.obj'')) (\<lambda>object.
              Inr ((msvc_spec w)\<lparr>is_executable := cl,
                is_arguments := [''/nologo'', ''/c'', ''/std:'' @ option_or q ''msvc.standard'' ''c++20'', ''/EHsc'', ''/Brepro'',
                  ''/Fo'' @ object, su_path u],
                is_inputs := [source_binding u], is_expected_outputs := [output_of ''object'' object OF_coff_object]\<rparr>)))"

text \<open>The objects of a link, each with its binding; what is registered with another format is passed over.\<close>

fun link_inputs :: "artifact_registry \<Rightarrow> intermediate_tag referenced list \<Rightarrow> intermediate_artifact list result" where
  "link_inputs r [] = Inr []"
| "link_inputs r (i # is) =
     (case artifact_find (ref_id i) r of
        None \<Rightarrow> Inl (Status SC_not_found ''link input artifact is not registered'')
      | Some a \<Rightarrow> crf_try (link_inputs r is) (\<lambda>as. Inr (if ia_format a \<noteq> OF_coff_object then as else a # as)))"

definition link_invocation :: "host_paths \<Rightarrow> host_fs \<Rightarrow> string \<Rightarrow> execution_request \<Rightarrow> workspace \<Rightarrow> invocation_spec result" where
  "link_invocation hp fs linker q w =
     (if xq_resolved_inputs q = [] then Inl (Status SC_fan_in_incomplete ''link phase received no object inputs'')
      else
        let final_name = default_final_name hp q;
            stem = (case rfind_char CHR ''.'' final_name of Some dot \<Rightarrow> take dot final_name | None \<Rightarrow> final_name)
        in
        crf_try (workspace_resolve hp fs w (''outputs/'' @ final_name)) (\<lambda>linked.
        crf_try (workspace_resolve hp fs w (''outputs/'' @ stem @ ''.map'')) (\<lambda>linker_map.
        crf_try (link_inputs (xq_artifacts q) (xq_resolved_inputs q)) (\<lambda>objects.
          Inr ((msvc_spec w)\<lparr>is_executable := linker,
            is_arguments := [''/nologo'', ''/Brepro'', ''/INCREMENTAL:NO'', ''/OUT:'' @ linked, ''/MAP:'' @ linker_map] @ map ia_path objects,
            is_inputs := map artifact_binding objects,
            is_expected_outputs := [output_of ''image'' linked OF_coff_image,
              (output_of ''map'' linker_map OF_linker_map)\<lparr>out_required := False, out_allow_empty := True\<rparr>]\<rparr>)))))"

definition finalize_invocation :: "execution_request \<Rightarrow> workspace \<Rightarrow> invocation_spec result" where
  "finalize_invocation q w =
     (case find_format OF_coff_image (xq_artifacts q) (xq_resolved_inputs q) of
        None \<Rightarrow> Inl (Status SC_fan_in_incomplete ''finalize phase found no linked image among its inputs'')
      | Some linked \<Rightarrow> Inr ((msvc_spec w)\<lparr>is_executable := ia_path linked, is_produced_executable := True\<rparr>))"

text \<open>The switch over the kind of the phase, with the paths of the two tools.\<close>

definition msvc_invocation ::
  "host_paths \<Rightarrow> host_fs \<Rightarrow> string \<Rightarrow> string \<Rightarrow> execution_request \<Rightarrow> workspace \<Rightarrow> invocation_spec result" where
  "msvc_invocation hp fs cl linker q w =
     (case xq_kind q of
        PK_input_validate \<Rightarrow> validate_invocation_spec cl q w
      | PK_codegen \<Rightarrow> compile_invocation hp fs cl q w
      | PK_link \<Rightarrow> link_invocation hp fs linker q w
      | PK_finalize \<Rightarrow> finalize_invocation q w
      | kind \<Rightarrow> Inl (Status SC_unsupported (''the MSVC adapter does not implement phase '' @ to_string_phase_kind kind)))"

definition msvc_build_invocation :: "host_paths \<Rightarrow> host_fs \<Rightarrow> execution_request \<Rightarrow> invocation_spec result" where
  "msvc_build_invocation hp fs q =
     (case (xq_workspace q, xq_toolchain q, xq_target q, xq_environment q) of
        (Some w, Some toolchain, Some _, Some _) \<Rightarrow>
          (case (find_component_kind toolchain CK_host_cxx_compiler, find_component_kind toolchain CK_linker) of
             (Some compiler, Some linker) \<Rightarrow>
               msvc_invocation hp fs (fi_canonical_path (ci_file compiler)) (fi_canonical_path (ci_file linker)) q w
           | _ \<Rightarrow> Inl (Status SC_component_not_found ''the MSVC toolchain lacks cl.exe or link.exe''))
      | _ \<Rightarrow> Inl (Status SC_integrity_unproven ''phase execution context is incomplete''))"

definition truncation_marker :: diagnostic where
  "truncation_marker = diagnostic_default\<lparr>dg_severity := DS_warning, dg_origin := ''runtime'',
     dg_message := ''compiler output was truncated at the configured capture ceiling'',
     dg_raw := ''compiler output was truncated at the configured capture ceiling''\<rparr>"

definition msvc_parse_diagnostics :: "process_outcome \<Rightarrow> execution_request \<Rightarrow> diagnostic list result" where
  "msvc_parse_diagnostics outcome q =
     (let ds = normalize_msvc_output (pc_standard_output (oc_capture outcome)) ''cl'' @
            normalize_msvc_output (pc_standard_error (oc_capture outcome)) ''cl''
      in Inr (if ds = [] \<and> pc_truncated (oc_capture outcome) then [truncation_marker] else ds))"

definition msvc_is_deterministic_phase :: "phase_kind \<Rightarrow> bool" where
  "msvc_is_deterministic_phase kind = (kind \<in> {PK_input_validate, PK_codegen, PK_link})"

section \<open>Checks of the outputs\<close>

definition evidence_init :: validation_evidence where
  "evidence_init = \<lparr>ve_accepted = False, ve_state = AS_unknown, ve_format = OF_unknown, ve_refusal = SC_ok, ve_checks = [],
     ve_detail = []\<rparr>"

definition refuse_output :: "status_code \<Rightarrow> artifact_state \<Rightarrow> string \<Rightarrow> validation_evidence \<Rightarrow> validation_evidence" where
  "refuse_output code state detail e = e\<lparr>ve_refusal := code, ve_state := state, ve_detail := detail\<rparr>"

definition accept_output :: "string \<Rightarrow> validation_evidence \<Rightarrow> validation_evidence" where
  "accept_output detail e = e\<lparr>ve_accepted := True, ve_state := AS_valid, ve_detail := detail\<rparr>"

definition checked :: "string list \<Rightarrow> validation_evidence \<Rightarrow> validation_evidence" where
  "checked cs e = e\<lparr>ve_checks := ve_checks e @ cs\<rparr>"

text \<open>The loop over the objects of a compile phase; it ends early, on the left, with a refusal.\<close>

fun check_objects ::
  "host_paths \<Rightarrow> file_queries \<Rightarrow> artifact_registry \<Rightarrow> u16 \<Rightarrow> intermediate_tag referenced list \<Rightarrow> validation_evidence \<Rightarrow>
   validation_evidence + validation_evidence" where
  "check_objects hp fq r machine [] e = Inr e"
| "check_objects hp fq r machine (i # is) e =
     (case artifact_find (ref_id i) r of
        None \<Rightarrow> Inl (refuse_output SC_output_missing AS_stale ''candidate object is not registered'' e)
      | Some a \<Rightarrow>
          let e1 = checked [''object exists: '' @ hp_filename hp (ia_path a)] e in
          if \<not> fq_exists fq (ia_path a)
            then Inl (refuse_output SC_output_missing AS_stale (''object file is missing: '' @ ia_path a) e1)
          else if ia_size_bytes a = 0
            then Inl (refuse_output SC_output_empty AS_corrupt (''object file is empty: '' @ ia_path a) e1)
          else case inspect_coff_object fq (ia_path a) of
            Inl s \<Rightarrow> Inl (refuse_output (status_code s) AS_corrupt (status_message s) e1)
          | Inr object \<Rightarrow>
              if cf_machine object \<noteq> machine
                then Inl (refuse_output SC_output_wrong_target AS_incompatible
                  (''object machine 0x'' @ dec_string (unat (cf_machine object)) @ '' does not match the requested target'') e1)
              else check_objects hp fq r machine is
                ((checked [''coff machine '' @ hex16 (cf_machine object), ''coff sections '' @ dec_string (unat (cf_section_count object))]
                   e1)\<lparr>ve_format := OF_coff_object\<rparr>))"

definition validate_objects :: "host_paths \<Rightarrow> file_queries \<Rightarrow> u16 \<Rightarrow> output_validation_request \<Rightarrow> validation_evidence" where
  "validate_objects hp fq machine v =
     (if ov_candidate_outputs v = []
        then refuse_output SC_output_missing AS_stale ''the compile phase produced no object file'' evidence_init
      else case check_objects hp fq (ov_artifacts v) machine (ov_candidate_outputs v) evidence_init of
        Inl e \<Rightarrow> e | Inr e \<Rightarrow> accept_output ''object file validated'' e)"

definition validate_image :: "host_paths \<Rightarrow> file_queries \<Rightarrow> u16 \<Rightarrow> output_validation_request \<Rightarrow> validation_evidence option" where
  "validate_image hp fq machine v =
     (case find_format OF_coff_image (ov_artifacts v) (ov_candidate_outputs v) of
        None \<Rightarrow> Some (refuse_output SC_output_missing AS_stale ''the link phase produced no image'' evidence_init)
      | Some linked \<Rightarrow>
          let e = checked [''image exists: '' @ hp_filename hp (ia_path linked)] evidence_init in
          map_option (\<lambda>answer. case answer of
             Inl s \<Rightarrow> refuse_output (status_code s) AS_corrupt (status_message s) e
           | Inr parsed \<Rightarrow>
               if pe_machine parsed \<noteq> machine
                 then refuse_output SC_output_wrong_target AS_incompatible ''image machine does not match the requested target'' e
               else if \<not> pe_is_executable parsed
                 then refuse_output SC_output_unexpected_format AS_incompatible ''linked image is not an executable'' e
               else (accept_output (pe_detail parsed)
                 (checked [''pe machine '' @ hex16 (pe_machine parsed), ''pe subsystem '' @ dec_string (unat (pe_subsystem parsed)),
                    ''pe sections '' @ dec_string (unat (pe_section_count parsed))] e))\<lparr>ve_format := OF_coff_image\<rparr>)
            (inspect_pe_image fq (ia_path linked)))"

definition validate_execution :: "output_validation_request \<Rightarrow> validation_evidence" where
  "validate_execution v =
     (let e = checked [''candidate executed''] evidence_init; expected = option_or (ov_context v) ''msvc.expected_stdout'' [] in
      case ov_process v of
        None \<Rightarrow> e\<lparr>ve_refusal := SC_integrity_unproven, ve_detail := ''no process evidence is available for the smoke test''\<rparr>
      | Some process \<Rightarrow>
          if \<not> exited_zero process
            then refuse_output SC_smoke_test_failed AS_corrupt ''the produced executable did not exit with code 0'' e
          else
            let e1 = checked [''candidate exit code 0''] e in
            if expected \<noteq> [] \<and> find_text expected (pc_standard_output (oc_capture process)) = None
              then refuse_output SC_smoke_test_failed AS_corrupt ''the produced executable did not print the expected marker'' e1
            else
              let e2 = (if expected \<noteq> [] then checked [''expected stdout marker observed''] e1 else e1) in
              (accept_output ''candidate execution smoke test passed'' e2)\<lparr>ve_format := OF_metadata\<rparr>)"

definition expected_machine :: "execution_request \<Rightarrow> u16" where
  "expected_machine q = coff_machine_for (case xq_target q of Some t \<Rightarrow> ts_architecture (ri_spec t) | None \<Rightarrow> AR_unknown)"

definition msvc_validate_outputs :: "host_paths \<Rightarrow> file_queries \<Rightarrow> output_validation_request \<Rightarrow> validation_evidence may_throw" where
  "msvc_validate_outputs hp fq v =
     map_option Inr (case xq_kind (ov_context v) of
        PK_input_validate \<Rightarrow> Some (accept_output ''input validation succeeded''
          (checked [''compiler accepted the translation unit with /Zs''] evidence_init))
      | PK_codegen \<Rightarrow> Some (validate_objects hp fq (expected_machine (ov_context v)) v)
      | PK_link \<Rightarrow> validate_image hp fq (expected_machine (ov_context v)) v
      | PK_finalize \<Rightarrow> Some (validate_execution v)
      | _ \<Rightarrow> Some (accept_output ''no output validation is defined for this phase'' evidence_init))"

section \<open>The plan is accepted\<close>

lemma alloc_next_from:
  assumes "0 < k" "k < 2 ^ 64 - 1"
  shows "alloc_next (IdAllocator (of_nat k)) = (StrongId (of_nat k), IdAllocator (of_nat (Suc k)))"
proof -
  have "unat (of_nat k :: u64) = k" using assms by (simp add: unat_of_nat take_bit_nat_eq_self)
  then have "(of_nat k :: u64) \<noteq> 0" "(of_nat k :: u64) \<noteq> kMax" using assms unat_kMax by auto
  then show ?thesis by (simp add: alloc_next_def Let_def add.commute)
qed

lemma alloc_many_from:
  assumes "0 < k" "k + n < 2 ^ 64 - 1"
  shows "alloc_many n (IdAllocator (of_nat k)) = (map (\<lambda>i. StrongId (of_nat (k + i))) [0..<n], IdAllocator (of_nat (k + n)))"
  using assms
proof (induction n arbitrary: k)
  case (Suc n)
  from Suc.prems show ?case
    by (simp add: alloc_next_from Suc.IH upt_conv_Cons map_Suc_upt [symmetric] comp_def del: upt_Suc of_nat_Suc of_nat_add)
qed simp

lemma node_fields [simp]:
  "pn_id (compile_node v i self) = self" "pn_depends_on (compile_node v i self) = [v]" "pn_mandatory (compile_node v i self)"
  "\<not> pn_fan_in (compile_node v i self)" "pn_kind (compile_node v i self) = PK_codegen"
  "pn_adapter_phase (compile_node v i self) = ''compile#'' @ dec_string i"
  "pn_id (link_node ids self) = self" "pn_depends_on (link_node ids self) = ids" "pn_mandatory (link_node ids self)"
  "pn_required_inputs (link_node ids self) = of_nat (length ids)" "pn_kind (link_node ids self) = PK_link"
  "pn_id (finalize_node l self) = self" "pn_depends_on (finalize_node l self) = [l]" "pn_mandatory (finalize_node l self)"
  "\<not> pn_fan_in (finalize_node l self)" "pn_kind (finalize_node l self) = PK_finalize"
  by (simp_all add: compile_node_def link_node_def finalize_node_def phase_node_init_def)

definition msvc_nodes :: "nat \<Rightarrow> bool \<Rightarrow> phase_node list" where
  "msvc_nodes units smoke =
     [phase_node_init\<lparr>pn_id := StrongId 1, pn_kind := PK_input_validate, pn_adapter_phase := ''validate-inputs''\<rparr>] @
     map (\<lambda>i. compile_node (StrongId 1) i (StrongId (of_nat (2 + i)))) [0..<units] @
     [link_node (map (\<lambda>i. StrongId (of_nat (2 + i))) [0..<units]) (StrongId (of_nat (2 + units)))] @
     (if smoke then [finalize_node (StrongId (of_nat (2 + units))) (StrongId (of_nat (3 + units)))] else [])"

lemma map2_same: "map2 f xs (map g xs) = map (\<lambda>x. f x (g x)) xs"
  by (induction xs) simp_all

lemma msvc_plan_nodes_eq:
  assumes "units \<le> 64"
  shows "msvc_plan_nodes units smoke = msvc_nodes units smoke"
proof -
  have one: "alloc_next allocator_init = (StrongId 1 :: phase_id, IdAllocator (of_nat 2))"
    by (simp add: alloc_next_def allocator_init_def kMax_def Let_def)
  have many: "alloc_many units (IdAllocator (of_nat 2)) =
      (map (\<lambda>i. StrongId (of_nat (2 + i)) :: phase_id) [0..<units], IdAllocator (of_nat (2 + units)))"
    using assms by (intro alloc_many_from) simp_all
  have link: "alloc_next (IdAllocator (of_nat (2 + units))) = (StrongId (of_nat (2 + units)) :: phase_id, IdAllocator (of_nat (3 + units)))"
    and last: "fst (alloc_next (IdAllocator (of_nat (3 + units)))) = (StrongId (of_nat (3 + units)) :: phase_id)"
    using alloc_next_from [of "2 + units", where 'a = phase_tag] alloc_next_from [of "3 + units", where 'a = phase_tag] assms
    by (simp_all add: numeral_3_eq_3 del: of_nat_Suc of_nat_add)
  show ?thesis
    unfolding msvc_plan_nodes_def one prod.case many link last
    by (simp add: msvc_nodes_def map2_same del: of_nat_Suc of_nat_add)
qed

lemma small_id: "i < 100 \<Longrightarrow> unat (of_nat i :: u64) = i"
  by (simp add: unat_of_nat take_bit_nat_eq_self)

lemma small_id_eq: "i < 100 \<Longrightarrow> j < 100 \<Longrightarrow> (of_nat i :: u64) = of_nat j \<longleftrightarrow> i = j"
  by (metis small_id)

lemma msvc_node_ids:
  "map pn_id (msvc_nodes units smoke) = map (\<lambda>i. StrongId (of_nat i)) [1..<(if smoke then 4 else 3) + units]"
proof -
  have "[1..<(if smoke then 4 else 3) + units] = 1 # map (\<lambda>i. 2 + i) [0..<units] @ (2 + units) # (if smoke then [3 + units] else [])"
    by (rule nth_equalityI) (auto simp: nth_append nth_Cons' simp del: upt_Suc)
  then show ?thesis
    by (simp add: msvc_nodes_def compile_node_def finalize_node_def comp_def del: upt_Suc of_nat_add)
qed

lemma dep_edgeI: "nd \<in> set nodes \<Longrightarrow> a \<in> set (pn_depends_on nd) \<Longrightarrow> pn_id nd = b \<Longrightarrow> dep_edge nodes a b"
  by (auto simp: dep_edge_def)

lemma msvc_edges:
  assumes "units \<le> 64"
  shows "dep_edge (msvc_nodes units smoke) a b \<Longrightarrow> unat (id_value a) < unat (id_value b)"
    "i < units \<Longrightarrow> dep_edge (msvc_nodes units smoke) (StrongId 1) (StrongId (of_nat (2 + i)))"
    "i < units \<Longrightarrow> dep_edge (msvc_nodes units smoke) (StrongId (of_nat (2 + i))) (StrongId (of_nat (2 + units)))"
    "smoke \<Longrightarrow> dep_edge (msvc_nodes units smoke) (StrongId (of_nat (2 + units))) (StrongId (of_nat (3 + units)))"
proof -
  show "unat (id_value a) < unat (id_value b)" if "dep_edge (msvc_nodes units smoke) a b"
    using that assms small_id [of 1]
    by (auto simp: dep_edge_def msvc_nodes_def phase_node_init_def small_id simp del: of_nat_add of_nat_Suc split: if_splits)
  show "dep_edge (msvc_nodes units smoke) (StrongId 1) (StrongId (of_nat (2 + i)))" if "i < units"
    by (rule dep_edgeI [of "compile_node (StrongId 1) i (StrongId (of_nat (2 + i)))"]) (simp_all add: msvc_nodes_def that)
  show "dep_edge (msvc_nodes units smoke) (StrongId (of_nat (2 + i))) (StrongId (of_nat (2 + units)))" if "i < units"
    by (rule dep_edgeI [of "link_node (map (\<lambda>i. StrongId (of_nat (2 + i))) [0..<units]) (StrongId (of_nat (2 + units)))"])
      (simp_all add: msvc_nodes_def that del: of_nat_add of_nat_Suc)
  show "dep_edge (msvc_nodes units smoke) (StrongId (of_nat (2 + units))) (StrongId (of_nat (3 + units)))" if smoke
    by (rule dep_edgeI [of "finalize_node (StrongId (of_nat (2 + units))) (StrongId (of_nat (3 + units)))"])
      (simp_all add: msvc_nodes_def that)
qed

lemma msvc_nodes_planned:
  assumes "0 < units" "units \<le> 64"
  shows "well_planned (msvc_nodes units smoke)"
proof -
  let ?nodes = "msvc_nodes units smoke" and ?n = "(if smoke then 4 else 3) + units"
  have ids: "pn_id ` set ?nodes = (\<lambda>i. StrongId (of_nat i)) ` {1..<?n}"
    using arg_cong [OF msvc_node_ids, of set units smoke] by simp
  have len: "length ?nodes = ?n - 1" using arg_cong [OF msvc_node_ids, of length units smoke] by simp
  have "{(a, b). dep_edge ?nodes a b} \<subseteq> measure (\<lambda>a. unat (id_value a))" using msvc_edges(1) [OF assms(2)] by auto
  then have acyclic: "acyclicP (dep_edge ?nodes)" by (rule wf_acyclic [OF wf_subset [OF wf_measure]])
  have present: "id_present (pn_id nd)" if "nd \<in> set ?nodes" for nd
  proof -
    have "pn_id nd \<in> (\<lambda>i. StrongId (of_nat i)) ` {1..<?n}" using that ids by blast
    then obtain i where i: "pn_id nd = StrongId (of_nat i)" "i \<in> {1..<?n}" by blast
    then have "1 \<le> i" "i < 100" using assms(2) by (simp_all split: if_splits)
    with i(1) show ?thesis using small_id [of i] by (auto simp: id_present_def)
  qed
  have distinct: "distinct (map pn_id ?nodes)"
    unfolding msvc_node_ids using assms(2) by (auto simp: distinct_map inj_on_def small_id_eq simp del: upt_Suc split: if_splits)
  have one: "StrongId 1 \<in> (\<lambda>i. StrongId (of_nat i) :: phase_id) ` {Suc 0..<k + units}" if "3 \<le> k" for k
    using that by (intro image_eqI [of _ _ 1]) auto
  have deps: "set (pn_depends_on nd) \<subseteq> pn_id ` set ?nodes" if "nd \<in> set ?nodes" for nd
    using that one [of 3] one [of 4] unfolding ids by (auto simp: msvc_nodes_def phase_node_init_def simp del: of_nat_add of_nat_Suc split: if_splits)
  have fan_in: "pn_required_inputs nd \<noteq> 0 \<and> unat (pn_required_inputs nd) \<le> length (pn_depends_on nd)"
    if "nd \<in> set ?nodes" "pn_fan_in nd" for nd
    using that assms small_id [of units] by (auto simp: msvc_nodes_def phase_node_init_def split: if_splits)
  define sink where "sink = (if smoke then finalize_node (StrongId (of_nat (2 + units))) (StrongId (of_nat (3 + units)))
    else link_node (map (\<lambda>i. StrongId (of_nat (2 + i))) [0..<units]) (StrongId (of_nat (2 + units))))"
  have sink: "sink \<in> set ?nodes" "pn_mandatory sink" by (simp_all add: sink_def msvc_nodes_def)
  let ?link = "StrongId (of_nat (2 + units)) :: phase_id"
  note edges = msvc_edges(2-4) [OF assms(2)]
  have link: "(dep_edge ?nodes)\<^sup>*\<^sup>* ?link (pn_id sink)"
    using edges(3) by (auto simp: sink_def simp del: of_nat_add of_nat_Suc intro: r_into_rtranclp)
  have compile: "(dep_edge ?nodes)\<^sup>*\<^sup>* (StrongId (of_nat (2 + i))) (pn_id sink)" if "i < units" for i
    using edges(2) [OF that] link by (rule converse_rtranclp_into_rtranclp)
  have first: "(dep_edge ?nodes)\<^sup>*\<^sup>* (StrongId 1) (pn_id sink)"
    using edges(1) [OF assms(1)] compile [OF assms(1)] by (rule converse_rtranclp_into_rtranclp)
  have "(dep_edge ?nodes)\<^sup>*\<^sup>* (pn_id nd) (pn_id sink)" if "nd \<in> set ?nodes" for nd
    using that first compile link
    by (auto simp: msvc_nodes_def sink_def simp del: of_nat_add of_nat_Suc split: if_splits)
  then show ?thesis
    using acyclic present distinct deps fan_in sink len assms(2) unfolding well_planned_def kMaxPhases_def by auto
qed

section \<open>From a phase to its translation unit\<close>

lemma phase_index_named:
  assumes "i < 100"
  shows "parse_phase_index (''compile#'' @ dec_string i) = Some i"
proof -
  let ?d = "dec_string i"
  have hash: "CHR ''#'' \<notin> set ?d" using digits_dec_string [of i] by (auto simp: list_all_iff is_digit_def)
  then have "takeWhile (\<lambda>c. c \<noteq> CHR ''#'') (rev ?d @ ''#elipmoc'') = rev ?d" by (auto simp: takeWhile_append)
  then have "rfind_char CHR ''#'' (''compile#'' @ ?d) = Some 7" by (simp add: rfind_char_def)
  moreover have "unat (strtoull ?d) = i"
    using strtoull_gen [of "of_nat i"] assms small_id [of i] by simp
  ultimately show ?thesis using digits_dec_string [of i] by (simp add: parse_phase_index_def)
qed

text \<open>Where a built invocation runs and what it may write.\<close>

lemma built_invocation:
  assumes "msvc_build_invocation hp fs q = Inr spec"
  obtains w where "xq_workspace q = Some w" "is_working_directory spec = wk_root w"
    "\<forall>b \<in> set (is_expected_outputs spec). hp_within hp (out_path b) (wk_root w)"
proof -
  obtain w cl linker where w: "xq_workspace q = Some w" and built: "msvc_invocation hp fs cl linker q w = Inr spec"
    using assms by (auto simp: msvc_build_invocation_def split: option.splits)
  have "xq_kind q \<in> {PK_input_validate, PK_codegen, PK_link, PK_finalize}"
    using built by (auto simp: msvc_invocation_def split: phase_kind.splits)
  then have "is_working_directory spec = wk_root w \<and>
      (\<forall>b \<in> set (is_expected_outputs spec). hp_within hp (out_path b) (wk_root w))"
    using built
    by (elim insertE)
      (auto simp: msvc_invocation_def validate_invocation_spec_def compile_invocation_def link_invocation_def finalize_invocation_def
        msvc_spec_def invocation_spec_default_def crf_try_Inr Let_def output_of_def split: if_splits option.splits dest!: resolve_within(2))
  with w that show thesis by blast
qed

lemma find_format_Some:
  "find_format format r refs = Some a \<Longrightarrow> ia_format a = format \<and> (\<exists>i \<in> set refs. artifact_find (ref_id i) r = Some a)"
  by (auto simp: find_format_def dest!: first_some_Some split: option.splits if_splits)

lemma checked_objects:
  assumes "check_objects hp fq r machine is e = Inr e'"
  shows "\<forall>i \<in> set is. \<exists>a object. artifact_find (ref_id i) r = Some a \<and> fq_exists fq (ia_path a) \<and> ia_size_bytes a \<noteq> 0 \<and>
    inspect_coff_object fq (ia_path a) = Inr object \<and> cf_machine object = machine"
  using assms
  by (induction "is" arbitrary: e) (auto simp: Let_def split: option.splits if_splits sum.splits)

lemma refused_objects: "check_objects hp fq r machine is e = Inl e' \<Longrightarrow> ve_accepted e' = ve_accepted e"
  by (induction "is" arbitrary: e)
    (auto simp: Let_def refuse_output_def checked_def split: option.splits if_splits sum.splits)

lemma accepted_objects:
  assumes "ve_accepted (validate_objects hp fq machine v)"
  shows "ov_candidate_outputs v \<noteq> [] \<and> (\<exists>e. check_objects hp fq (ov_artifacts v) machine (ov_candidate_outputs v) evidence_init = Inr e)"
  using assms refused_objects [of hp fq "ov_artifacts v" machine "ov_candidate_outputs v" evidence_init]
  by (auto simp: validate_objects_def refuse_output_def evidence_init_def split: if_splits sum.splits)

lemma accepted_image:
  assumes "validate_image hp fq machine v = Some e" "ve_accepted e"
  obtains a parsed where "find_format OF_coff_image (ov_artifacts v) (ov_candidate_outputs v) = Some a"
    "inspect_pe_image fq (ia_path a) = Some (Inr parsed)" "pe_machine parsed = machine" "pe_is_executable parsed"
proof -
  note refused = refuse_output_def evidence_init_def checked_def
  obtain a where a: "find_format OF_coff_image (ov_artifacts v) (ov_candidate_outputs v) = Some a"
    using assms by (cases "find_format OF_coff_image (ov_artifacts v) (ov_candidate_outputs v)")
      (auto simp: validate_image_def refused)
  then obtain answer where answer: "inspect_pe_image fq (ia_path a) = Some answer"
    using assms(1) by (auto simp: validate_image_def Let_def)
  obtain parsed where parsed: "answer = Inr parsed"
    using assms a answer by (cases answer) (auto simp: validate_image_def Let_def refused)
  have "pe_machine parsed = machine"
    using assms a answer parsed by (cases "pe_machine parsed = machine") (auto simp: validate_image_def Let_def refused)
  moreover have "pe_is_executable parsed"
    using assms a answer parsed calculation
    by (cases "pe_is_executable parsed") (auto simp: validate_image_def Let_def refused)
  ultimately show thesis using that a answer parsed by blast
qed

lemma accepted_execution:
  assumes "ve_accepted (validate_execution v)"
  shows "\<exists>p. ov_process v = Some p \<and> exited_zero p \<and>
    find_text (option_or (ov_context v) ''msvc.expected_stdout'' []) (pc_standard_output (oc_capture p)) \<noteq> None"
proof -
  have "find_text [] t \<noteq> None" for t by (cases t) auto
  with assms show ?thesis
    by (auto simp: validate_execution_def refuse_output_def evidence_init_def checked_def Let_def
        split: option.splits if_splits)
qed

section \<open>Claims\<close>

text \<open>
  C31: the plan of the MSVC adapter fits its invocations. For 1 to 64 translation units the plan is
  accepted and has one compile phase per unit; the invocation built for the \<open>i\<close>-th of these phases
  reads the \<open>i\<close>-th source and no other, and writes only inside the workspace of the phase.
\<close>

theorem msvc_plan_compiles_every_unit:
  assumes "0 < n" "n \<le> 64" "pq_translation_unit_count q = n" "length (xq_sources x) = n"
  shows "\<exists>p. msvc_build_plan q = Inr p \<and> length (filter (\<lambda>nd. pn_kind nd = PK_codegen) (pp_nodes p)) = n \<and>
    (\<forall>i < n. \<exists>nd \<in> set (pp_nodes p). pn_kind nd = PK_codegen \<and>
      (\<forall>hp fs spec. msvc_build_invocation hp fs (x\<lparr>xq_kind := PK_codegen, xq_adapter_phase := pn_adapter_phase nd\<rparr>) = Inr spec \<longrightarrow>
        is_inputs spec = [source_binding (xq_sources x ! i)] \<and> su_path (xq_sources x ! i) \<in> set (is_arguments spec) \<and>
        (\<exists>w. xq_workspace x = Some w \<and> (\<forall>b \<in> set (is_expected_outputs spec). hp_within hp (out_path b) (wk_root w)))))"
proof -
  let ?nodes = "msvc_nodes n (pq_want_smoke_test q)"
  have "max 1 (pq_translation_unit_count q) = n" using assms(1,3) by simp
  then have plan: "msvc_build_plan q = plan_build ?nodes"
    using assms(2) msvc_plan_nodes_eq [OF assms(2), of "pq_want_smoke_test q"] by (simp add: msvc_build_plan_def)
  obtain p where p: "plan_build ?nodes = Inr p" using well_planned_accepted [OF msvc_nodes_planned [OF assms(1,2)]] by blast
  have count: "length (filter (\<lambda>nd. pn_kind nd = PK_codegen) ?nodes) = n"
    by (simp add: msvc_nodes_def filter_map comp_def)
  have named: "\<exists>nd \<in> set ?nodes. pn_kind nd = PK_codegen \<and> pn_adapter_phase nd = ''compile#'' @ dec_string i" if "i < n" for i
    using that by (intro bexI [of _ "compile_node (StrongId 1) i (StrongId (of_nat (2 + i)))"]) (simp_all add: msvc_nodes_def)
  have unit: "is_inputs spec = [source_binding (xq_sources x ! i)] \<and> su_path (xq_sources x ! i) \<in> set (is_arguments spec) \<and>
      (\<exists>w. xq_workspace x = Some w \<and> (\<forall>b \<in> set (is_expected_outputs spec). hp_within hp (out_path b) (wk_root w)))"
    if i: "i < n" and built: "msvc_build_invocation hp fs
      (x\<lparr>xq_kind := PK_codegen, xq_adapter_phase := ''compile#'' @ dec_string i\<rparr>) = Inr spec" for i hp fs spec
  proof -
    have "\<exists>cl w. compile_invocation hp fs cl (x\<lparr>xq_kind := PK_codegen, xq_adapter_phase := ''compile#'' @ dec_string i\<rparr>) w = Inr spec"
      using built by (auto simp: msvc_build_invocation_def msvc_invocation_def split: option.splits)
    moreover have "parse_phase_index (''compile#'' @ dec_string i) = Some i" using i assms(2) by (intro phase_index_named) simp
    ultimately have "is_inputs spec = [source_binding (xq_sources x ! i)]" "su_path (xq_sources x ! i) \<in> set (is_arguments spec)"
      by (auto simp: compile_invocation_def Let_def crf_try_Inr split: if_splits)
    moreover obtain w where "xq_workspace x = Some w" "\<forall>b \<in> set (is_expected_outputs spec). hp_within hp (out_path b) (wk_root w)"
      using built_invocation [OF built] by auto
    ultimately show ?thesis by blast
  qed
  have "\<exists>nd \<in> set (pp_nodes p). pn_kind nd = PK_codegen \<and>
      (\<forall>hp fs spec. msvc_build_invocation hp fs (x\<lparr>xq_kind := PK_codegen, xq_adapter_phase := pn_adapter_phase nd\<rparr>) = Inr spec \<longrightarrow>
        is_inputs spec = [source_binding (xq_sources x ! i)] \<and> su_path (xq_sources x ! i) \<in> set (is_arguments spec) \<and>
        (\<exists>w. xq_workspace x = Some w \<and> (\<forall>b \<in> set (is_expected_outputs spec). hp_within hp (out_path b) (wk_root w))))" if i: "i < n" for i
  proof -
    obtain nd where nd: "nd \<in> set (pp_nodes p)" "pn_kind nd = PK_codegen" "pn_adapter_phase nd = ''compile#'' @ dec_string i"
      using named [OF i] plan_build_parts(1) [OF p] by auto
    show ?thesis
      using nd(1,2) unit [OF i] unfolding nd(3) [symmetric] by blast
  qed
  with plan p count plan_build_parts(1) [OF p] show ?thesis by simp
qed

text \<open>
  C30: an accepted output is what it claims to be. The evidence for a compile phase is accepted only when
  there are objects and each one is registered and begins with the header of a COFF object for the
  target; that of a link phase only when the image begins with the headers of a PE executable for the
  target, not a library, with an entry point; that of a run of the candidate only when it exited with
  code 0 and printed the expected marker.
\<close>

theorem accepted_output_matches_target:
  assumes "msvc_validate_outputs hp fq v = Some (Inr e)" "ve_accepted e"
  shows "(xq_kind (ov_context v) = PK_codegen \<longrightarrow> ov_candidate_outputs v \<noteq> [] \<and>
      (\<forall>i \<in> set (ov_candidate_outputs v). \<exists>a n bytes. artifact_find (ref_id i) (ov_artifacts v) = Some a \<and>
        read_file_head fq (ia_path a) n = Inr bytes \<and> 20 \<le> length bytes \<and> read_u16 bytes 0 = expected_machine (ov_context v) \<and>
        read_u16 bytes 2 \<noteq> 0 \<and> read_u16 bytes 16 = 0)) \<and>
    (xq_kind (ov_context v) = PK_link \<longrightarrow>
      (\<exists>i \<in> set (ov_candidate_outputs v). \<exists>a bytes pe. artifact_find (ref_id i) (ov_artifacts v) = Some a \<and>
        read_file_head fq (ia_path a) 0x100000 = Inr bytes \<and> bytes ! 0 = CHR ''M'' \<and> bytes ! 1 = CHR ''Z'' \<and>
        pe = unat (read_u32 bytes 0x3C) \<and> take 4 (drop pe bytes) = ''PE'' @ [CHR 0x00, CHR 0x00] \<and>
        read_u16 bytes (pe + 4) = expected_machine (ov_context v) \<and> and (read_u16 bytes (pe + 22)) 0x2000 = 0 \<and>
        read_u32 bytes (pe + 40) \<noteq> 0)) \<and>
    (xq_kind (ov_context v) = PK_finalize \<longrightarrow> (\<exists>p. ov_process v = Some p \<and> exited_zero p \<and>
      find_text (option_or (ov_context v) ''msvc.expected_stdout'' []) (pc_standard_output (oc_capture p)) \<noteq> None))"
proof (intro conjI impI)
  assume kind: "xq_kind (ov_context v) = PK_codegen"
  then obtain e' where "ov_candidate_outputs v \<noteq> []"
    and objects: "check_objects hp fq (ov_artifacts v) (expected_machine (ov_context v)) (ov_candidate_outputs v) evidence_init = Inr e'"
    using assms accepted_objects [of hp fq "expected_machine (ov_context v)" v] by (auto simp: msvc_validate_outputs_def)
  then show "ov_candidate_outputs v \<noteq> []" by simp
  show "\<forall>i \<in> set (ov_candidate_outputs v). \<exists>a n bytes. artifact_find (ref_id i) (ov_artifacts v) = Some a \<and>
      read_file_head fq (ia_path a) n = Inr bytes \<and> 20 \<le> length bytes \<and> read_u16 bytes 0 = expected_machine (ov_context v) \<and>
      read_u16 bytes 2 \<noteq> 0 \<and> read_u16 bytes 16 = 0"
  proof
    fix i assume "i \<in> set (ov_candidate_outputs v)"
    then obtain a object where a: "artifact_find (ref_id i) (ov_artifacts v) = Some a" "inspect_coff_object fq (ia_path a) = Inr object"
      "cf_machine object = expected_machine (ov_context v)" using checked_objects [OF objects] by blast
    obtain n bytes where bytes: "read_file_head fq (ia_path a) n = Inr bytes" "parse_coff_object n bytes = Inr object"
      using inspected_object [OF a(2)] by blast
    from parsed_object [OF bytes(2)] a bytes(1)
    show "\<exists>a n bytes. artifact_find (ref_id i) (ov_artifacts v) = Some a \<and> read_file_head fq (ia_path a) n = Inr bytes \<and>
        20 \<le> length bytes \<and> read_u16 bytes 0 = expected_machine (ov_context v) \<and> read_u16 bytes 2 \<noteq> 0 \<and> read_u16 bytes 16 = 0"
      by (intro exI [of _ a] exI [of _ n] exI [of _ bytes]) auto
  qed
next
  assume kind: "xq_kind (ov_context v) = PK_link"
  then obtain a parsed where a: "find_format OF_coff_image (ov_artifacts v) (ov_candidate_outputs v) = Some a"
    and parsed: "inspect_pe_image fq (ia_path a) = Some (Inr parsed)" "pe_machine parsed = expected_machine (ov_context v)"
      "pe_is_executable parsed"
    using assms accepted_image [of hp fq "expected_machine (ov_context v)" v e] by (auto simp: msvc_validate_outputs_def)
  obtain i where i: "i \<in> set (ov_candidate_outputs v)" "artifact_find (ref_id i) (ov_artifacts v) = Some a"
    using find_format_Some [OF a] by blast
  obtain bytes where bytes: "read_file_head fq (ia_path a) 0x100000 = Inr bytes" "parse_pe_image bytes = Some (Inr parsed)"
    "length bytes < 2 ^ 32 - 24" using inspected_image [OF parsed(1)] by blast
  have "pe_machine parsed = read_u16 bytes (pe + 4)" "pe_is_executable parsed \<longleftrightarrow>
      and (read_u16 bytes (pe + 22)) 0x2000 = 0 \<and> read_u32 bytes (pe + 40) \<noteq> 0"
    if "parsed = read_pe_fields bytes (pe + 4) (pe + 24)" for pe
    using that by (simp_all add: read_pe_fields_def Let_def add.commute)
  with parsed_image [OF bytes(2,3)] parsed(2,3) i bytes(1)
  show "\<exists>i \<in> set (ov_candidate_outputs v). \<exists>a bytes pe. artifact_find (ref_id i) (ov_artifacts v) = Some a \<and>
      read_file_head fq (ia_path a) 0x100000 = Inr bytes \<and> bytes ! 0 = CHR ''M'' \<and> bytes ! 1 = CHR ''Z'' \<and>
      pe = unat (read_u32 bytes 0x3C) \<and> take 4 (drop pe bytes) = ''PE'' @ [CHR 0x00, CHR 0x00] \<and>
      read_u16 bytes (pe + 4) = expected_machine (ov_context v) \<and> and (read_u16 bytes (pe + 22)) 0x2000 = 0 \<and>
      read_u32 bytes (pe + 40) \<noteq> 0"
    by (intro bexI [of _ i] exI [of _ a] exI [of _ bytes] exI [of _ "unat (read_u32 bytes 0x3C)"]) auto
next
  assume "xq_kind (ov_context v) = PK_finalize"
  then show "\<exists>p. ov_process v = Some p \<and> exited_zero p \<and>
      find_text (option_or (ov_context v) ''msvc.expected_stdout'' []) (pc_standard_output (oc_capture p)) \<noteq> None"
    using assms accepted_execution [of v] by (simp add: msvc_validate_outputs_def)
qed

text \<open>A session of two sources, and the object that the first one was compiled to.\<close>

definition sample_x64 :: target_spec where
  "sample_x64 = \<lparr>ts_architecture = AR_x64, ts_os = OS_windows, ts_triple = ''x86_64-pc-windows-msvc'', ts_cpu = [], ts_device_arch = [],
     ts_device_virtual_arch = [], ts_abi = ''msvc'', ts_pointer_width_bits = 64\<rparr>"

definition sample_plan_request :: plan_request where
  "sample_plan_request = \<lparr>pq_family = TF_msvc, pq_toolchain = sample_toolchain, pq_target = sample_x64, pq_language = SL_cxx,
     pq_translation_unit_count = 2, pq_want_link = True, pq_want_smoke_test = True, pq_want_parallel_translation_units = True,
     pq_policy = policy_spec_default\<rparr>"

definition sample_unit :: "string \<Rightarrow> source_unit" where
  "sample_unit path = \<lparr>su_id = StrongId 1, su_generation = gen_initial, su_path = path, su_language = SL_cxx, su_dialect = [],
     su_content = digest_default, su_size_bytes = 1, su_redact_diagnostics = False\<rparr>"

definition sample_execution :: execution_request where
  "sample_execution = \<lparr>xq_session = ref_absent, xq_compilation_generation = gen_initial, xq_attempt_generation = gen_initial,
     xq_phase = ref_absent, xq_kind = PK_codegen, xq_adapter_phase = ''compile#0'', xq_toolchain = Some sample_toolchain,
     xq_target = Some \<lparr>ri_id = StrongId 1, ri_generation = gen_initial, ri_digest = digest_default, ri_spec = sample_x64\<rparr>,
     xq_environment = Some environment_spec_init, xq_policy = Some policy_spec_default,
     xq_sources = [sample_unit ''a.cpp'', sample_unit ''b.cpp''], xq_resolved_inputs = [], xq_artifacts = artifact_registry_init,
     xq_workspace = Some sample_workspace, xq_output_directory = [], xq_final_artifact_name = [],
     xq_reproducibility_second_run = False, xq_adapter_options = []\<rparr>"

theorem msvc_plan_compiles_every_unit_witness:
  "\<exists>p. msvc_build_plan sample_plan_request = Inr p \<and> length (filter (\<lambda>nd. pn_kind nd = PK_codegen) (pp_nodes p)) = 2"
  using msvc_plan_compiles_every_unit [of 2 sample_plan_request sample_execution]
  by (auto simp: sample_plan_request_def sample_execution_def)

definition sample_object_files :: file_queries where
  "sample_object_files = sample_queries\<lparr>fq_file_size := (\<lambda>_. Some 20), fq_view := (\<lambda>_. \<lparr>fv_size = Some 20, fv_opens = True,
     fv_reads = [[0x64, 0x86, 1, 0], replicate 16 0], fv_bad = False\<rparr>)\<rparr>"

definition sample_validation :: output_validation_request where
  "sample_validation = \<lparr>ov_context = sample_execution, ov_process = None,
     ov_artifacts = \<lparr>ar_entries = [(1, sample_artifact\<lparr>ia_path := ''a-0.obj'', ia_size_bytes := 20\<rparr>)], ar_by_phase = [],
       ar_allocator = allocator_init\<rparr>,
     ov_candidate_outputs = [Ref (StrongId 1) gen_initial], ov_declared_outputs = []\<rparr>"

lemma sample_object: "\<exists>object. inspect_coff_object sample_object_files path = Inr object \<and> cf_machine object = 0x8664"
proof -
  let ?b = "[CHR 0x64, CHR 0x86, CHR 0x01, CHR 0x00] @ replicate 16 CHR 0x00"
  have "map (\<lambda>b :: u8. char_of (unat b)) (concat [[0x64, 0x86, 1, 0], replicate 16 0]) = ?b" by code_simp
  then have "read_file_head sample_object_files path 20 = Inr ?b"
    by (simp add: read_file_head_def sample_object_files_def sample_queries_def)
  moreover have "read_u16 ?b 0 = 0x8664" "read_u16 ?b 2 = 1" "read_u16 ?b 16 = 0" by code_simp+
  then have "\<exists>object. parse_coff_object 20 ?b = Inr object \<and> cf_machine object = 0x8664"
    by (simp add: parse_coff_object_def Let_def)
  ultimately show ?thesis
    by (simp add: inspect_coff_object_def sample_object_files_def kObjectCeiling_def)
qed

theorem accepted_output_matches_target_witness:
  "\<exists>e a n bytes. msvc_validate_outputs sample_host sample_object_files sample_validation = Some (Inr e) \<and> ve_accepted e \<and>
    artifact_find (StrongId 1) (ov_artifacts sample_validation) = Some a \<and>
    read_file_head sample_object_files (ia_path a) n = Inr bytes \<and> read_u16 bytes 0 = 0x8664"
proof -
  have facts: "xq_kind (ov_context sample_validation) = PK_codegen" "set (ov_candidate_outputs sample_validation) = {Ref (StrongId 1) gen_initial}"
    "expected_machine (ov_context sample_validation) = 0x8664"
    by (simp_all add: sample_validation_def sample_execution_def expected_machine_def sample_x64_def)
  obtain object where "inspect_coff_object sample_object_files ''a-0.obj'' = Inr object" "cf_machine object = 0x8664"
    using sample_object by blast
  then have "\<exists>e. msvc_validate_outputs sample_host sample_object_files sample_validation = Some (Inr e) \<and> ve_accepted e"
    using facts
    by (simp add: msvc_validate_outputs_def validate_objects_def sample_validation_def artifact_find_def um_find_def Let_def accept_output_def)
      (simp add: sample_object_files_def sample_queries_def)
  then obtain e where e: "msvc_validate_outputs sample_host sample_object_files sample_validation = Some (Inr e)" "ve_accepted e" by blast
  from facts accepted_output_matches_target [OF e] e show ?thesis by auto
qed

end
