(* ===== verification/Cuda_Adapter.thy ===== *)
theory Cuda_Adapter
  imports Msvc_Adapter
begin

text \<open>
  \<open>src/adapters/cuda/cuda_adapter.cpp\<close>: the adapter for \<open>nvcc\<close>, which drives an MSVC host toolchain. It
  selects an installed toolkit by version, asks the driver for the architecture of the device, and
  checks that the object it compiles carries device code.
\<close>

section \<open>Installations\<close>

record cuda_installation =
  cu_root :: string
  cu_version :: string
  cu_nvcc :: string
  cu_ptxas :: string
  cu_nvlink :: string
  cu_cudart :: string

definition cuda_base :: string where
  "cuda_base = ''C:/Program Files/NVIDIA GPU Computing Toolkit/CUDA''"

definition cuda_roots :: "toolset_host \<Rightarrow> string list" where
  "cuda_roots host =
     (if th_is_directory host cuda_base
      then sort (map (\<lambda>name. path_under host cuda_base [name]) (th_subdirectories host cuda_base)) else [])"

text \<open>\<open>strtoul\<close>; \<open>unsigned long\<close> has 32 bits in the Windows builds.\<close>

definition version_number :: "string \<Rightarrow> u32" where
  "version_number t =
     (let body = dropWhile ascii_is_space t;
          neg = (body \<noteq> [] \<and> hd body = CHR ''-'');
          ds = takeWhile is_digit (if body \<noteq> [] \<and> (hd body = CHR ''-'' \<or> hd body = CHR ''+'') then tl body else body);
          n = digits_value ds
      in if n > 2 ^ 32 - 1 then - 1 else if neg then - of_nat n else of_nat n)"

text \<open>The loop over the parts of two versions, a missing part counting as 0.\<close>

fun parts_less :: "u32 list \<Rightarrow> u32 list \<Rightarrow> bool" where
  "parts_less [] [] = False"
| "parts_less (l # ls) [] = (if l \<noteq> 0 then False else parts_less ls [])"
| "parts_less [] (r # rs) = (if r \<noteq> 0 then True else parts_less [] rs)"
| "parts_less (l # ls) (r # rs) = (if l \<noteq> r then l < r else parts_less ls rs)"

definition version_parts :: "string \<Rightarrow> u32 list" where
  "version_parts v = map version_number (split_ascii v CHR ''.'')"

definition version_less :: "string \<Rightarrow> string \<Rightarrow> bool" where
  "version_less a b = parts_less (version_parts a) (version_parts b)"

definition describe_installation :: "toolset_host \<Rightarrow> string \<Rightarrow> cuda_installation result" where
  "describe_installation host root =
     (let name = hp_filename (th_paths host) root;
          nvcc = path_under host root [''bin'', ''nvcc.exe'']; ptxas = path_under host root [''bin'', ''ptxas.exe''];
          candidate = path_under host root [''nvvm'', ''bin'', ''ptxas.exe'']
      in if \<not> th_is_regular_file host nvcc
           then Inl (Status SC_toolchain_not_found (''nvcc.exe is missing from the CUDA installation at '' @ root))
         else Inr \<lparr>cu_root = root, cu_version = (if name \<noteq> [] \<and> hd name = CHR ''v'' then tl name else name), cu_nvcc = nvcc,
           cu_ptxas = (if \<not> th_is_regular_file host ptxas \<and> th_is_regular_file host candidate then candidate else ptxas),
           cu_nvlink = path_under host root [''bin'', ''nvlink.exe''], cu_cudart = path_under host root [''lib'', ''x64'', ''cudart.lib'']\<rparr>)"

text \<open>
  \<open>std::sort\<close> with the order of versions. Two versions that differ only in trailing zeros are equivalent
  and may come out in either order; the model keeps the order they have.
\<close>

definition significant :: "u32 list \<Rightarrow> u32 list" where
  "significant ns = rev (dropWhile (\<lambda>n. n = 0) (rev ns))"

definition version_key :: "string \<Rightarrow> u32 list" where
  "version_key v = significant (version_parts v)"

definition cuda_installations :: "toolset_host \<Rightarrow> cuda_installation list" where
  "cuda_installations host =
     sort_key (\<lambda>i. version_key (cu_version i))
       (List.map_filter (\<lambda>root. case describe_installation host root of Inl _ \<Rightarrow> None | Inr i \<Rightarrow> Some i) (cuda_roots host))"

definition select_installation :: "toolset_host \<Rightarrow> probe_request \<Rightarrow> cuda_installation list \<Rightarrow> cuda_installation result" where
  "select_installation host request installations =
     (if pb_explicit_root request \<noteq> []
      then (case List.find (\<lambda>i.
                canonical_path_key (hp_lexically_normal (th_paths host)) (cu_root i) =
                  canonical_path_key (hp_lexically_normal (th_paths host)) (pb_explicit_root request) \<or>
                cu_version i = pb_explicit_root request) installations of
              None \<Rightarrow> Inl (Status SC_toolchain_not_found (''the requested CUDA installation was not found: '' @ pb_explicit_root request))
            | Some i \<Rightarrow> Inr i)
      else if pb_toolkit_preference request \<noteq> []
      then (case List.find (\<lambda>i. cu_version i = pb_toolkit_preference request) installations of
              None \<Rightarrow> Inl (Status SC_toolchain_not_found
                (''the requested CUDA toolkit version is not installed: '' @ pb_toolkit_preference request))
            | Some i \<Rightarrow> Inr i)
      else Inr (last installations))"

section \<open>The device\<close>

definition device_query_tool :: "toolset_host \<Rightarrow> string option" where
  "device_query_tool host =
     List.find (th_is_regular_file host) (map (th_normalize host)
       [''C:/Windows/System32/nvidia-smi.exe'', ''C:/Program Files/NVIDIA Corporation/NVSMI/nvidia-smi.exe''])"

text \<open>The digits of a compute capability: points are passed over, and what precedes the first digit.\<close>

fun capability_digits :: "string \<Rightarrow> string \<Rightarrow> string" where
  "capability_digits digits [] = digits"
| "capability_digits digits (c # cs) =
     (if is_digit c then capability_digits (digits @ [c]) cs
      else if c = CHR ''.'' then capability_digits digits cs
      else if digits \<noteq> [] then digits else capability_digits digits cs)"

definition detect_device_arch :: "toolset_host \<Rightarrow> string result" where
  "detect_device_arch host =
     (case device_query_tool host of
        None \<Rightarrow> Inl (Status SC_not_found ''nvidia-smi was not found in any known location'')
      | Some tool \<Rightarrow>
          crf_try (probe_run host (process_spec_default\<lparr>sp_executable := tool,
              sp_arguments := [''--query-gpu=compute_cap'', ''--format=csv,noheader''], sp_max_capture_bytes := 4096,
              sp_inherit_ambient_environment := True\<rparr>)) (\<lambda>outcome.
            if \<not> exited_zero outcome
            then
              let err = pc_standard_error (oc_capture outcome);
                  detail = (if err = [] then pc_standard_output (oc_capture outcome) else err)
              in Inl (Status SC_probe_failed (''nvidia-smi exited with code '' @ dec_string (unat (oc_exit_code outcome)) @
                   '' termination='' @ to_string_process_termination (oc_termination outcome) @ '' output='' @ [CHR 0x22] @
                   take 200 detail @ [CHR 0x22]))
            else
              let line = takeWhile (\<lambda>c. c \<noteq> CHR 0x0D \<and> c \<noteq> CHR 0x0A) (trim_ascii (pc_standard_output (oc_capture outcome)));
                  digits = capability_digits [] line
              in if line = [] then Inl (Status SC_probe_failed ''nvidia-smi produced no output'')
                 else if digits = []
                   then Inl (Status SC_probe_failed (''nvidia-smi reported an unparsable compute capability: '' @ line))
                 else Inr (''sm_'' @ digits)))"

section \<open>Identity of the toolchain\<close>

definition cuda_describe :: adapter_descriptor where
  "cuda_describe = \<lparr>dsc_name = ''nvcc'', dsc_display_name = ''NVIDIA CUDA Compiler (nvcc)'',
     dsc_version = version_string, dsc_family = TF_nvcc,
     dsc_capabilities = foldl (\<lambda>flags c. or flags (capability_value c)) 0
       [AC_compile, AC_device_compile, AC_device_link, AC_link, AC_structured_diagnostics, AC_object_validation,
        AC_executable_validation, AC_smoke_test, AC_reproducible],
     dsc_implemented_phases = [PK_input_validate, PK_device_compile, PK_link, PK_finalize],
     dsc_produced_formats = [OF_preprocessed_source, OF_coff_object, OF_coff_image], dsc_evidence_class = EC_real\<rparr>"

definition cuda_components :: "cuda_installation \<Rightarrow> string \<Rightarrow> msvc_toolset \<Rightarrow> component_to_probe list" where
  "cuda_components c v t =
     [(CK_device_compiler, ''nvcc'', cu_nvcc c, v), (CK_device_assembler, ''ptxas'', cu_ptxas c, []),
      (CK_device_assembler, ''nvlink'', cu_nvlink c, []), (CK_host_cxx_compiler, ''cl'', mt_cl t, mt_compiler_version t),
      (CK_linker, ''link'', mt_link t, mt_linker_version t)]"

definition cuda_command_capabilities :: "component_kind \<Rightarrow> string list" where
  "cuda_command_capabilities kind =
     (if kind = CK_device_compiler then [''-arch'', ''-c'', ''-E'', ''-o'', ''-std=c++20''] else [])"

definition cuda_object_formats :: "component_kind \<Rightarrow> object_format list" where
  "cuda_object_formats kind = (if kind = CK_device_compiler then [OF_coff_object, OF_cubin] else [])"

text \<open>The architecture of the device, where it comes from and how that went.\<close>

definition device_arch_of :: "toolset_host \<Rightarrow> probe_request \<Rightarrow> string \<times> string \<times> string" where
  "device_arch_of host request =
     (if ts_device_arch (pb_target request) \<noteq> [] then (ts_device_arch (pb_target request), ''request'', ''supplied by the caller'')
      else case detect_device_arch host of
        Inr detected \<Rightarrow> (detected, ''nvidia-smi'', ''probed from the driver'')
      | Inl e \<Rightarrow> ([], ''unavailable'', status_message e))"

definition variable :: "string \<Rightarrow> string \<Rightarrow> environment_variable" where
  "variable name v = \<lparr>ev_name = name, ev_value = v\<rparr>"

definition cuda_attributes :: "string \<Rightarrow> string \<times> string \<times> string \<Rightarrow> cuda_installation \<Rightarrow> environment_variable list" where
  "cuda_attributes v device c =
     (case device of (device_arch, origin, detail) \<Rightarrow>
       [variable ''cuda.toolkit-version'' v,
        variable ''cuda.detected_device_arch'' (if device_arch = [] then ''sm_unknown'' else device_arch),
        variable ''cuda.device-arch-source'' origin, variable ''cuda.device-arch-probe'' detail,
        variable ''cuda.toolkit-root'' (cu_root c)])"

definition cuda_contract :: "toolset_host \<Rightarrow> cuda_installation \<Rightarrow> msvc_toolset \<Rightarrow> environment_variable list" where
  "cuda_contract host c t =
     [variable ''VCINSTALLDIR'' (path_under host (mt_vs_root t) [''VC''] @ [CHR 0x5C]),
      variable ''VCToolsInstallDir'' (mt_vc_tools_root t @ [CHR 0x5C]), variable ''VSINSTALLDIR'' (mt_vs_root t @ [CHR 0x5C]),
      variable ''VCToolsVersion'' (mt_toolset_version t)] @
     (if mt_sdk_root t = [] then []
      else [variable ''WindowsSdkDir'' (mt_sdk_root t @ [CHR 0x5C]), variable ''WindowsSDKVersion'' (mt_sdk_version t @ [CHR 0x5C]),
        variable ''UCRTVersion'' (mt_sdk_version t)]) @
     [variable ''CUDA_PATH'' (cu_root c), variable ''CUDA_HOME'' (cu_root c),
      variable ''PATH'' (path_under host (cu_root c) [''bin''] @ '';'' @ path_value t),
      variable ''INCLUDE'' (path_under host (cu_root c) [''include''] @ '';'' @ include_value t),
      variable ''LIB'' (path_under host (cu_root c) [''lib'', ''x64''] @ '';'' @ lib_value t)]"

definition cuda_version :: "toolset_host \<Rightarrow> cuda_installation \<Rightarrow> string" where
  "cuda_version host c =
     (let reported = (case probe_component_banner host (cu_nvcc c) [''--version''] of
            Inl _ \<Rightarrow> [] | Inr banner \<Rightarrow> extract_version banner ''release'')
      in if reported \<noteq> [] then reported else cu_version c)"

definition cuda_identity :: "toolset_host \<Rightarrow> cuda_installation \<Rightarrow> msvc_toolset \<Rightarrow> probe_request \<Rightarrow> toolchain_identity result" where
  "cuda_identity host c t request =
     (let v = cuda_version host c in
      crf_try (probe_components (th_queries host) (\<lambda>path. path = [] \<or> \<not> th_is_regular_file host path) cuda_command_capabilities
        cuda_object_formats allocator_init (cuda_components c v t)) (\<lambda>components.
        if List.find (\<lambda>x. ci_kind x = CK_device_compiler) components = None
          then Inl (Status SC_probe_failed ''nvcc.exe could not be probed'')
        else
          let device = device_arch_of host request;
              library = ''cuda-'' @ v @ ''/host-msvc-'' @ mt_toolset_version t;
              cudart = (if \<not> th_is_regular_file host (cu_cudart c) then []
                else case digest_of_file (fq_view (th_queries host) (cu_cudart c)) kDefaultFileBound of
                  None \<Rightarrow> [] | Some d \<Rightarrow> [to_hex d])
          in Inr \<lparr>ti_id = id_absent, ti_generation = gen_absent, ti_family = TF_nvcc,
               ti_display_name = ''NVIDIA CUDA Toolkit '' @ cu_version c, ti_version = v, ti_components = components,
               ti_target_support = [AR_x64], ti_object_formats = [OF_coff_object, OF_coff_image, OF_preprocessed_source],
               ti_environment_contract = cuda_contract host c t, ti_toolkit_root = cu_root c, ti_sdk_root = mt_sdk_root t,
               ti_attributes = cuda_attributes v device c, ti_standard_library_identity = library, ti_evidence_class = EC_real,
               ti_evidence_digest = digest_builder (component_texts components @ cudart @ [library, fst device])\<rparr>))"

definition cuda_probe_toolchain :: "toolset_host \<Rightarrow> probe_request \<Rightarrow> toolchain_identity result" where
  "cuda_probe_toolchain host request =
     (if cuda_roots host = [] then Inl (Status SC_toolchain_not_found ''no CUDA installation was found'')
      else if cuda_installations host = []
        then Inl (Status SC_toolchain_not_found ''no usable CUDA installation was found'')
      else crf_try (select_installation host request (cuda_installations host)) (\<lambda>c.
        case discover_msvc_toolset host of
          Inl e \<Rightarrow> Inl (Status SC_probe_failed (''nvcc requires an MSVC host toolchain: '' @ status_message e))
        | Inr t \<Rightarrow> cuda_identity host c t request))"

text \<open>A probe is repeated with the recorded root and, when none is given, the recorded architecture.\<close>

definition recorded_arch :: "toolchain_identity \<Rightarrow> string" where
  "recorded_arch previous =
     (case List.find (\<lambda>a. equals_ascii_ci (ev_name a) ''cuda.detected_device_arch'' \<and> ev_value a \<noteq> ''sm_unknown'')
        (ti_attributes previous) of None \<Rightarrow> [] | Some a \<Rightarrow> ev_value a)"

definition pinned_request :: "toolchain_identity \<Rightarrow> probe_request \<Rightarrow> probe_request" where
  "pinned_request previous request =
     (let r1 = (if pb_explicit_root request = [] \<and> ti_toolkit_root previous \<noteq> []
            then request\<lparr>pb_explicit_root := ti_toolkit_root previous\<rparr> else request)
      in if ts_device_arch (pb_target r1) = [] \<and> recorded_arch previous \<noteq> []
         then r1\<lparr>pb_target := (pb_target r1)\<lparr>ts_device_arch := recorded_arch previous\<rparr>\<rparr> else r1)"

definition cuda_reprobe_toolchain :: "toolset_host \<Rightarrow> toolchain_identity \<Rightarrow> probe_request \<Rightarrow> toolchain_identity result" where
  "cuda_reprobe_toolchain host previous request =
     crf_try (cuda_probe_toolchain host (pinned_request previous request)) (\<lambda>identity.
       Inr (identity\<lparr>ti_id := ti_id previous, ti_generation := ti_generation previous\<rparr>))"

definition virtual_arch :: "string \<Rightarrow> string" where
  "virtual_arch arch = (if take 3 arch = ''sm_'' then ''compute_'' @ drop 3 arch else arch)"

definition cuda_resolve_target :: "toolchain_identity \<Rightarrow> target_spec \<Rightarrow> target_spec result" where
  "cuda_resolve_target toolchain requested =
     (let t1 = (if ts_architecture requested = AR_unknown then requested\<lparr>ts_architecture := AR_x64\<rparr> else requested) in
      if ts_architecture t1 \<noteq> AR_x64
        then Inl (Status SC_target_unsupported ''the CUDA adapter targets x64 hosts for this release'')
      else
        let detected = List.find (\<lambda>a. equals_ascii_ci (ev_name a) ''cuda.detected_device_arch'') (ti_attributes toolchain);
            t2 = (if ts_device_arch t1 = []
              then (case detected of Some a \<Rightarrow> if ev_value a \<noteq> ''sm_unknown'' then t1\<lparr>ts_device_arch := ev_value a\<rparr> else t1 | None \<Rightarrow> t1)
              else t1)
        in if ts_device_arch t2 = []
           then
             let reason = foldl (\<lambda>r a. if equals_ascii_ci (ev_name a) ''cuda.device-arch-probe'' then ev_value a else r) []
                   (ti_attributes toolchain)
             in Inl (Status SC_target_unsupported (''no CUDA device architecture could be determined ('' @ reason @
                  ''); supply target.device_arch explicitly''))
           else default_resolve_target toolchain (if ts_device_virtual_arch t2 = []
             then t2\<lparr>ts_device_virtual_arch := virtual_arch (ts_device_arch t2)\<rparr> else t2))"

section \<open>Plan and invocations\<close>

definition cuda_plan_nodes :: "bool \<Rightarrow> phase_node list" where
  "cuda_plan_nodes want_smoke_test =
     (case alloc_next allocator_init of (validate, ids1) \<Rightarrow>
      case alloc_next ids1 of (compile, ids2) \<Rightarrow>
      case alloc_next ids2 of (link, ids3) \<Rightarrow>
        [phase_node_init\<lparr>pn_id := validate, pn_kind := PK_input_validate, pn_adapter_phase := ''preprocess-device-source'',
           pn_expected_outputs := [OF_preprocessed_source]\<rparr>,
         phase_node_init\<lparr>pn_id := compile, pn_kind := PK_device_compile, pn_adapter_phase := ''device-compile'',
           pn_depends_on := [validate], pn_expected_outputs := [OF_coff_object]\<rparr>,
         phase_node_init\<lparr>pn_id := link, pn_kind := PK_link, pn_adapter_phase := ''device-link'', pn_depends_on := [compile],
           pn_fan_in := True, pn_required_inputs := 1, pn_expected_outputs := [OF_coff_image]\<rparr>] @
        (if want_smoke_test then [finalize_node link (fst (alloc_next ids3))] else []))"

definition cuda_build_plan :: "plan_request \<Rightarrow> phase_plan result" where
  "cuda_build_plan q =
     (if pq_translation_unit_count q \<noteq> 1
        then Inl (Status SC_unsupported ''the CUDA adapter compiles exactly one device translation unit per session'')
      else plan_build (cuda_plan_nodes (pq_want_smoke_test q)))"

definition cuda_spec :: "string \<Rightarrow> workspace \<Rightarrow> invocation_spec" where
  "cuda_spec nvcc w = invocation_spec_default\<lparr>is_adapter_name := ''nvcc'', is_style := Style_msvc, is_working_directory := wk_root w,
     is_executable := nvcc\<rparr>"

text \<open>The preprocessing and the compilation: one source, one output of a fixed name.\<close>

definition device_invocation ::
  "host_paths \<Rightarrow> host_fs \<Rightarrow> string \<Rightarrow> string \<Rightarrow> source_unit \<Rightarrow> workspace \<Rightarrow> string \<Rightarrow> string \<Rightarrow> string \<Rightarrow> object_format \<Rightarrow>
   invocation_spec result" where
  "device_invocation hp fs nvcc arch u w action relative name format =
     crf_try (workspace_resolve hp fs w relative) (\<lambda>path.
       Inr ((cuda_spec nvcc w)\<lparr>is_arguments := [''-std=c++20'', ''-arch='' @ arch, action, su_path u, ''-o'', path],
         is_inputs := [source_binding u], is_expected_outputs := [output_of name path format]\<rparr>))"

definition device_link_invocation ::
  "host_paths \<Rightarrow> host_fs \<Rightarrow> string \<Rightarrow> string \<Rightarrow> execution_request \<Rightarrow> workspace \<Rightarrow> invocation_spec result" where
  "device_link_invocation hp fs nvcc arch q w =
     (case find_format OF_coff_object (xq_artifacts q) (xq_resolved_inputs q) of
        None \<Rightarrow> Inl (Status SC_fan_in_incomplete ''the device link phase received no device object'')
      | Some object \<Rightarrow>
          let name = (if xq_final_artifact_name q = [] then ''cuda-candidate.exe'' else xq_final_artifact_name q) in
          crf_try (workspace_resolve hp fs w (''outputs/'' @ name)) (\<lambda>linked.
            Inr ((cuda_spec nvcc w)\<lparr>is_arguments := [''-std=c++20'', ''-arch='' @ arch, ia_path object, ''-o'', linked],
              is_inputs := [artifact_binding object], is_expected_outputs := [output_of ''image'' linked OF_coff_image]\<rparr>)))"

definition cuda_invocation ::
  "host_paths \<Rightarrow> host_fs \<Rightarrow> string \<Rightarrow> string \<Rightarrow> source_unit \<Rightarrow> execution_request \<Rightarrow> workspace \<Rightarrow> invocation_spec result" where
  "cuda_invocation hp fs nvcc arch u q w =
     (case xq_kind q of
        PK_input_validate \<Rightarrow>
          device_invocation hp fs nvcc arch u w ''-E'' ''outputs/preprocessed-device.cpp'' ''preprocessed'' OF_preprocessed_source
      | PK_device_compile \<Rightarrow> device_invocation hp fs nvcc arch u w ''-c'' ''outputs/device.obj'' ''device-object'' OF_coff_object
      | PK_link \<Rightarrow> device_link_invocation hp fs nvcc arch q w
      | PK_finalize \<Rightarrow>
          (case find_format OF_coff_image (xq_artifacts q) (xq_resolved_inputs q) of
             None \<Rightarrow> Inl (Status SC_fan_in_incomplete ''the finalize phase found no linked CUDA image among its inputs'')
           | Some linked \<Rightarrow> Inr ((cuda_spec nvcc w)\<lparr>is_executable := ia_path linked, is_produced_executable := True\<rparr>))
      | kind \<Rightarrow> Inl (Status SC_unsupported (''the CUDA adapter does not implement phase '' @ to_string_phase_kind kind)))"

definition cuda_build_invocation :: "host_paths \<Rightarrow> host_fs \<Rightarrow> execution_request \<Rightarrow> invocation_spec result" where
  "cuda_build_invocation hp fs q =
     (case (xq_workspace q, xq_toolchain q, xq_target q) of
        (Some w, Some toolchain, Some target) \<Rightarrow>
          let arch = ts_device_arch (ri_spec target) in
          if arch = [] \<or> arch = ''sm_unknown''
            then Inl (Status SC_target_unsupported ''the resolved target has no usable device architecture'')
          else (case find_component_kind toolchain CK_device_compiler of
              None \<Rightarrow> Inl (Status SC_component_not_found ''the CUDA toolchain lacks nvcc.exe'')
            | Some nvcc \<Rightarrow>
                (case xq_sources q of
                   [u] \<Rightarrow> cuda_invocation hp fs (fi_canonical_path (ci_file nvcc)) arch u q w
                 | _ \<Rightarrow> Inl (Status SC_invalid_argument ''the CUDA adapter requires exactly one device translation unit'')))
      | _ \<Rightarrow> Inl (Status SC_integrity_unproven ''phase execution context is incomplete''))"

definition cuda_parse_diagnostics :: "process_outcome \<Rightarrow> execution_request \<Rightarrow> diagnostic list result" where
  "cuda_parse_diagnostics outcome q =
     Inr (normalize_nvcc_output (pc_standard_output (oc_capture outcome)) ''nvcc'' @
          normalize_nvcc_output (pc_standard_error (oc_capture outcome)) ''nvcc'')"

definition cuda_is_deterministic_phase :: "phase_kind \<Rightarrow> bool" where
  "cuda_is_deterministic_phase kind = (kind \<in> {PK_input_validate, PK_device_compile})"

section \<open>Checks of the outputs\<close>

fun check_preprocessed ::
  "file_queries \<Rightarrow> artifact_registry \<Rightarrow> intermediate_tag referenced list \<Rightarrow> validation_evidence \<Rightarrow> validation_evidence" where
  "check_preprocessed fq r [] e =
     (accept_output ''device source preprocessed by nvcc'' e)\<lparr>ve_format := OF_preprocessed_source\<rparr>"
| "check_preprocessed fq r (i # is) e =
     (case artifact_find (ref_id i) r of
        None \<Rightarrow> check_preprocessed fq r is e
      | Some a \<Rightarrow>
          if \<not> fq_exists fq (ia_path a) \<or> ia_size_bytes a = 0
            then refuse_output SC_output_missing AS_stale ''the preprocessed device source is missing or empty'' e
          else check_preprocessed fq r is (checked [''preprocessed device source present''] e))"

definition validate_device_object :: "file_queries \<Rightarrow> output_validation_request \<Rightarrow> validation_evidence" where
  "validate_device_object fq v =
     (case find_format OF_coff_object (ov_artifacts v) (ov_candidate_outputs v) of
        None \<Rightarrow> refuse_output SC_output_missing AS_stale ''the device compile phase produced no object'' evidence_init
      | Some object \<Rightarrow>
          (case inspect_coff_object fq (ia_path object) of
             Inl s \<Rightarrow> refuse_output (status_code s) AS_corrupt (status_message s) evidence_init
           | Inr parsed \<Rightarrow>
               if cf_machine parsed \<noteq> coff_machine_for AR_x64
                 then refuse_output SC_output_wrong_target AS_incompatible ''device object machine does not match the x64 host target''
                   evidence_init
               else
                 let e = checked [''device object is a COFF object''] evidence_init in
                 if \<not> cf_has_device_code parsed
                   then refuse_output SC_output_unexpected_format AS_incompatible
                     ''the object embeds no device code section, so no device artifact was produced'' e
                 else (accept_output (cf_detail parsed) (checked [''device code section present (nv_fatbin)''] e))
                   \<lparr>ve_format := OF_coff_object\<rparr>))"

definition validate_device_image :: "file_queries \<Rightarrow> output_validation_request \<Rightarrow> validation_evidence option" where
  "validate_device_image fq v =
     (case find_format OF_coff_image (ov_artifacts v) (ov_candidate_outputs v) of
        None \<Rightarrow> Some (refuse_output SC_output_missing AS_stale ''the device link phase produced no image'' evidence_init)
      | Some linked \<Rightarrow>
          map_option (\<lambda>answer. case answer of
             Inl s \<Rightarrow> refuse_output (status_code s) AS_corrupt (status_message s) evidence_init
           | Inr parsed \<Rightarrow>
               if \<not> pe_is_executable parsed
                 then refuse_output SC_output_unexpected_format AS_incompatible ''the CUDA candidate is not an executable image'' evidence_init
               else (accept_output (pe_detail parsed) (checked [''cuda image is a PE executable''] evidence_init))
                 \<lparr>ve_format := OF_coff_image\<rparr>)
            (inspect_pe_image fq (ia_path linked)))"

definition validate_device_execution :: "output_validation_request \<Rightarrow> validation_evidence" where
  "validate_device_execution v =
     (case ov_process v of
        None \<Rightarrow> evidence_init\<lparr>ve_refusal := SC_integrity_unproven,
          ve_detail := ''no process evidence is available for the CUDA smoke test''\<rparr>
      | Some process \<Rightarrow>
          let e = checked [''cuda candidate executed''] evidence_init; expected = option_or (ov_context v) ''cuda.expected_stdout'' [] in
          if \<not> exited_zero process
            then refuse_output SC_smoke_test_failed AS_corrupt ''the CUDA candidate did not exit with code 0'' e
          else if expected \<noteq> [] \<and> find_text expected (pc_standard_output (oc_capture process)) = None
            then refuse_output SC_smoke_test_failed AS_corrupt ''the CUDA candidate did not report the expected result marker'' e
          else (accept_output ''CUDA candidate executed and reported the expected result'' e)\<lparr>ve_format := OF_metadata\<rparr>)"

definition cuda_validate_outputs :: "file_queries \<Rightarrow> output_validation_request \<Rightarrow> validation_evidence may_throw" where
  "cuda_validate_outputs fq v =
     map_option Inr (case xq_kind (ov_context v) of
        PK_input_validate \<Rightarrow> Some (check_preprocessed fq (ov_artifacts v) (ov_candidate_outputs v) evidence_init)
      | PK_device_compile \<Rightarrow> Some (validate_device_object fq v)
      | PK_link \<Rightarrow> validate_device_image fq v
      | PK_finalize \<Rightarrow> Some (validate_device_execution v)
      | _ \<Rightarrow> Some (accept_output ''no output validation is defined for this phase'' evidence_init))"

text \<open>\<open>make_cuda_adapter\<close> gives an adapter when the directory of the toolkits is there.\<close>

definition cuda_adapter_present :: "toolset_host \<Rightarrow> bool" where
  "cuda_adapter_present host = th_is_directory host cuda_base"

section \<open>The order of versions\<close>

lemma parts_less_zeros: "parts_less ls [] = False" "parts_less [] rs = (\<exists>r \<in> set rs. r \<noteq> 0)"
  by (induction ls, simp_all) (induction rs, auto)

lemma significant_Nil [simp]: "significant [] = []"
  by (simp add: significant_def)

lemma significant_Cons: "significant (n # ns) = (if significant ns = [] \<and> n = 0 then [] else n # significant ns)"
  by (auto simp: significant_def dropWhile_append)

lemma significant_empty: "significant ns = [] \<longleftrightarrow> (\<forall>n \<in> set ns. n = 0)"
  by (auto simp: significant_def dropWhile_eq_Nil_conv)

text \<open>The comparison of two versions is the lexicographic one of their significant parts.\<close>

lemma parts_less_significant: "parts_less ls rs \<longleftrightarrow> significant ls < significant rs"
proof (induction ls rs rule: parts_less.induct)
  case (3 r rs)
  then show ?case by (simp add: significant_Cons Nil_less_iff)
next
  case (4 l ls r rs)
  then show ?case
    by (cases "significant ls = []"; cases "significant rs = []")
      (simp_all add: significant_Cons Nil_less_iff word_neq_0_conv)
qed (simp_all add: parts_less_zeros)

lemma version_less_key: "version_less a b \<longleftrightarrow> version_key a < version_key b"
  by (simp add: version_less_def version_key_def parts_less_significant)

lemma sorted_last: "sorted xs \<Longrightarrow> x \<in> set xs \<Longrightarrow> x \<le> last xs"
proof (induction xs rule: rev_induct)
  case (snoc y ys)
  then show ?case by (auto simp: sorted_append)
qed simp

text \<open>Without a wish the newest of the usable installations is selected.\<close>

lemma newest_selected:
  assumes "pb_explicit_root request = []" "pb_toolkit_preference request = []" "cuda_installations host \<noteq> []"
  shows "\<exists>c. select_installation host request (cuda_installations host) = Inr c \<and> c \<in> set (cuda_installations host) \<and>
    (\<forall>d \<in> set (cuda_installations host). \<not> version_less (cu_version c) (cu_version d))"
proof -
  let ?l = "cuda_installations host" and ?k = "\<lambda>i. version_key (cu_version i)"
  have sorted: "sorted (map ?k ?l)" by (simp add: cuda_installations_def)
  have "?k d \<le> ?k (last ?l)" if "d \<in> set ?l" for d
    using sorted_last [OF sorted, of "?k d"] that assms(3) by (simp add: last_map)
  then show ?thesis using assms by (auto simp: select_installation_def version_less_key not_less)
qed

text \<open>A plan is built for one translation unit and for no other number.\<close>

lemma cuda_plan_accepted: "(\<exists>p. cuda_build_plan q = Inr p) \<longleftrightarrow> pq_translation_unit_count q = 1"
proof -
  have "isl (plan_build (cuda_plan_nodes smoke)) = False" for smoke by (cases smoke; simp only:; code_simp)
  then have "\<exists>p. plan_build (cuda_plan_nodes smoke) = Inr p" for smoke by (metis sum.collapse(2))
  then show ?thesis by (simp add: cuda_build_plan_def)
qed

section \<open>A repeated probe\<close>

lemma capability_digits_shape: "list_all is_digit ds \<Longrightarrow> list_all is_digit (capability_digits ds t)"
  by (induction ds t rule: capability_digits.induct) auto

lemma detected_arch:
  assumes "detect_device_arch host = Inr arch"
  shows "arch \<noteq> []" "arch \<noteq> ''sm_unknown''"
proof -
  obtain ds where "arch = ''sm_'' @ ds" "list_all is_digit ds"
    using assms capability_digits_shape [of "[]"]
    by (auto simp: detect_device_arch_def crf_try_Inr Let_def split: option.splits if_splits)
  moreover have "\<not> list_all is_digit ''unknown''" by code_simp
  ultimately show "arch \<noteq> []" "arch \<noteq> ''sm_unknown''" by auto
qed

lemma identity_attributes:
  assumes "cuda_identity host c t request = Inr identity"
  shows "ti_attributes identity = cuda_attributes (cuda_version host c) (device_arch_of host request) c"
  using assms by (auto simp: cuda_identity_def Let_def crf_try_Inr simp del: append.simps split: if_splits)

lemma probed_attributes:
  assumes "cuda_probe_toolchain host request = Inr identity"
  shows "\<exists>v c. ti_attributes identity = cuda_attributes v (device_arch_of host request) c"
proof -
  obtain c t where "cuda_identity host c t request = Inr identity"
    using assms
    by (cases "discover_msvc_toolset host") (auto simp: cuda_probe_toolchain_def crf_try_Inr split: if_splits)
  then show ?thesis using identity_attributes by blast
qed

lemma recorded_arch_of:
  assumes "ti_attributes previous = cuda_attributes v (arch, source, detail) c" "arch \<noteq> []" "arch \<noteq> ''sm_unknown''"
  shows "recorded_arch previous = arch"
proof -
  have "\<not> equals_ascii_ci ''cuda.toolkit-version'' ''cuda.detected_device_arch''"
    "equals_ascii_ci ''cuda.detected_device_arch'' ''cuda.detected_device_arch''" by code_simp+
  then show ?thesis using assms by (simp add: recorded_arch_def cuda_attributes_def variable_def)
qed

lemma pinned_arch: "recorded_arch previous \<noteq> [] \<Longrightarrow> ts_device_arch (pb_target (pinned_request previous request)) \<noteq> []"
  by (simp add: pinned_request_def Let_def)

lemma changed_source:
  "origin \<noteq> origin' \<Longrightarrow> cuda_attributes v (arch, origin, detail) c \<noteq> cuda_attributes v' (arch', origin', detail') c'"
  by (simp add: cuda_attributes_def variable_def)

lemma reprobed_attributes:
  assumes "cuda_reprobe_toolchain host previous request = Inr observed"
  shows "ti_id observed = ti_id previous" "\<exists>v c. ti_attributes observed = cuda_attributes v (device_arch_of host (pinned_request previous request)) c"
  using assms probed_attributes [of host "pinned_request previous request"]
  by (auto simp: cuda_reprobe_toolchain_def crf_try_Inr)

section \<open>A machine with a device\<close>

definition device_paths :: host_paths where
  "device_paths = sample_host\<lparr>hp_is_absolute := (\<lambda>_. True), hp_filename := (\<lambda>p. last (split_ascii p CHR ''/''))\<rparr>"

definition device_queries :: file_queries where
  "device_queries = \<lparr>fq_lexically_normal = id, fq_exists = (\<lambda>_. True), fq_is_directory = (\<lambda>_. False), fq_file_size = (\<lambda>_. Some 0),
     fq_handle = (\<lambda>_. Information \<lparr>hi_volume_serial = 1, hi_index_high = 0, hi_index_low = 7, hi_size_high = 0, hi_size_low = 0,
       hi_write_high = 0, hi_write_low = 0\<rparr>),
     fq_view = (\<lambda>_. \<lparr>fv_size = Some 0, fv_opens = True, fv_reads = [], fv_bad = False\<rparr>)\<rparr>"

definition tool_output :: "string list \<Rightarrow> exit_report" where
  "tool_output arguments = \<lparr>xr_stdout = [if arguments = [] then ''Version 19'' else ''8.9''], xr_stderr = [], xr_exit_code = Some 0, xr_now = 9\<rparr>"

definition device_host :: toolset_host where
  "device_host = \<lparr>th_paths = device_paths, th_is_directory = (\<lambda>_. True), th_is_regular_file = (\<lambda>_. True),
     th_subdirectories = (\<lambda>_. [''v13'']), th_queries = device_queries,
     th_process = sample_process_host\<lparr>px_paths := device_paths\<rparr>, th_exits = (\<lambda>_. tool_output)\<rparr>"

definition device_request :: probe_request where
  "device_request = \<lparr>pb_family = TF_nvcc, pb_explicit_root = [],
     pb_target = \<lparr>ts_architecture = AR_x64, ts_os = OS_windows, ts_triple = [], ts_cpu = [], ts_device_arch = [],
       ts_device_virtual_arch = [], ts_abi = [], ts_pointer_width_bits = 64\<rparr>, pb_hash_components = True, pb_toolkit_preference = []\<rparr>"

lemma device_host_simps [simp]:
  "th_paths device_host = device_paths" "th_is_directory device_host = (\<lambda>_. True)" "th_is_regular_file device_host = (\<lambda>_. True)"
  "th_subdirectories device_host = (\<lambda>_. [''v13''])" "th_queries device_host = device_queries"
  "th_process device_host = sample_process_host\<lparr>px_paths := device_paths\<rparr>" "th_exits device_host = (\<lambda>_. tool_output)"
  by (simp_all add: device_host_def)

lemma device_environment: "build_process_environment (\<lambda>_. []) environment_spec_init True = []" "merge_ambient [] [] = []"
  by code_simp+

text \<open>A tool that is asked there answers what it prints.\<close>

lemma device_run:
  assumes "sp_executable spec = path" "path \<noteq> []" "CHR 0x00 \<notin> set path" "normalize_path_string id path = path" "length path < 1000"
    and "check_arguments (sp_arguments spec) = Inr ()" "length (sp_arguments spec) < 100"
      "sum_list (map length (sp_arguments spec)) < 1000" "sp_working_directory spec = []" "sp_environment spec = []"
      "5 \<le> sp_max_capture_bytes spec" "sp_max_capture_bytes spec \<le> 65536"
    and "text_out = concat (xr_stdout (tool_output (sp_arguments spec)))" "length text_out \<le> sp_max_capture_bytes spec"
  shows "\<exists>p. probe_run device_host spec = Inr p \<and> pc_standard_output (oc_capture p) = text_out \<and>
    pc_standard_error (oc_capture p) = [] \<and> exited_zero p"
proof -
  have shape: "xr_stderr (tool_output as) = []" "xr_exit_code (tool_output as) = Some 0" "takeWhile (\<lambda>c. c \<noteq> []) (xr_stdout (tool_output as)) =
      xr_stdout (tool_output as)" for as by (simp_all add: tool_output_def)
  let ?e = "effective_spec [] (\<lambda>_. []) supervisor_options_default spec"
  have e: "sp_executable ?e = path" "sp_arguments ?e = sp_arguments spec" "sp_environment ?e = []" "sp_working_directory ?e = []"
    "sp_max_capture_bytes ?e = sp_max_capture_bytes spec"
    using assms by (simp_all add: effective_spec_def Let_def device_environment)
  have "process_validate device_paths (\<lambda>_. True) ?e = Inr ()"
    using assms(2-12)
    by (simp add: process_validate_def e device_paths_def sample_host_def kMaxArguments_def kMaxCommandLineBytes_def crf_try_def
        kMaxEnvironmentBytes_def kMaxCaptureBytes_def environment_bytes_def)
  moreover have init: "sv_options (supervisor_init supervisor_options_default) = supervisor_options_default"
    "\<not> sv_closed (supervisor_init supervisor_options_default)"
    by (simp_all add: supervisor_init_def supervisor_options_default_def kDefaultCaptureBytes_def)
  ultimately obtain s1 handle where spawned:
    "supervisor_spawn (th_process device_host) spec (Ref (StrongId 1) gen_initial) (supervisor_init supervisor_options_default) = (s1, Inr handle)"
    "\<not> ph_finished handle" "\<not> ph_terminate_requested handle" "oc_capture (ph_outcome handle) = process_capture_default"
    "ph_max_capture_bytes handle = sp_max_capture_bytes spec"
    by (auto simp: supervisor_spawn_def sample_process_host_def Let_def case_prod_beta e process_outcome_default_def)
  let ?p = "snd (handle_wait (tool_output (sp_arguments spec)) handle)"
  have "probe_run device_host spec = Inr ?p" using spawned(1) by (simp add: probe_run_def supervisor_run_def)
  moreover have "exited_zero ?p" using spawned by (simp add: exited_zero_wait shape)
  moreover have "oc_capture ?p = \<lparr>pc_standard_output = text_out, pc_standard_error = [], pc_standard_output_bytes = of_nat (length text_out),
      pc_standard_error_bytes = 0, pc_dropped_standard_output_bytes = 0, pc_dropped_standard_error_bytes = 0, pc_truncated = False\<rparr>"
    using spawned(2-5) assms(13,14)
    by (simp add: handle_wait_def Let_def case_prod_beta process_capture_default_def read_stream_prefix shape)
  ultimately show ?thesis by simp
qed

lemma device_banner: "\<exists>banner. probe_component_banner device_host path [] = Inr banner \<and> extract_version banner ''Version'' = ''19''"
  if "path \<noteq> []" "CHR 0x00 \<notin> set path" "normalize_path_string id path = path" "length path < 1000"
proof -
  have "\<exists>p. probe_run device_host (banner_spec device_host path []) = Inr p \<and> pc_standard_output (oc_capture p) = ''Version 19'' \<and>
      pc_standard_error (oc_capture p) = [] \<and> exited_zero p"
    using that by (intro device_run [where path = path])
      (simp_all add: banner_spec_def process_spec_default_def sample_process_host_def device_environment tool_output_def)
  moreover have "extract_version ''Version 19'' ''Version'' = ''19''" by code_simp
  ultimately show ?thesis by (auto simp: probe_component_banner_def crf_try_def)
qed

lemma device_detected: "detect_device_arch device_host = Inr ''sm_89''"
proof -
  let ?tool = "normalize_path_string id ''C:/Windows/System32/nvidia-smi.exe''"
  have tool: "?tool = ''C:/Windows/System32/nvidia-smi.exe''" by code_simp
  then have found: "device_query_tool device_host = Some ''C:/Windows/System32/nvidia-smi.exe''"
    by (simp add: device_query_tool_def device_paths_def sample_host_def)
  let ?spec = "process_spec_default\<lparr>sp_executable := ''C:/Windows/System32/nvidia-smi.exe'',
      sp_arguments := [''--query-gpu=compute_cap'', ''--format=csv,noheader''], sp_max_capture_bytes := 4096,
      sp_inherit_ambient_environment := True\<rparr>"
  have "check_arguments [''--query-gpu=compute_cap'', ''--format=csv,noheader''] = Inr ()" by (simp add: kMaxArgumentBytes_def)
  then have "\<exists>p. probe_run device_host ?spec = Inr p \<and> pc_standard_output (oc_capture p) = ''8.9'' \<and>
      pc_standard_error (oc_capture p) = [] \<and> exited_zero p"
    by (intro device_run [where path = "''C:/Windows/System32/nvidia-smi.exe''"])
      (simp_all add: process_spec_default_def tool_output_def tool)
  then obtain p where p: "probe_run device_host ?spec = Inr p" "pc_standard_output (oc_capture p) = ''8.9''" "exited_zero p" by blast
  have "takeWhile (\<lambda>c. c \<noteq> CHR 0x0D \<and> c \<noteq> CHR 0x0A) (trim_ascii ''8.9'') = ''8.9''" "capability_digits [] ''8.9'' = ''89''"
    by code_simp+
  then show ?thesis by (simp add: detect_device_arch_def found crf_try_def p Let_def)
qed

lemma device_file: "\<exists>found. probe_file_identity device_queries path True = Inr found"
  by (simp add: probe_file_identity_def device_queries_def Let_def digest_of_file_def kDefaultFileBound_def)

lemma device_components:
  "\<exists>cs. probe_components device_queries skipped capabilities formats ids specs = Inr cs \<and>
     map ci_kind cs = map fst (filter (\<lambda>(_, _, path, _). \<not> skipped path) specs)"
proof (induction specs arbitrary: ids)
  case (Cons spec specs)
  obtain kind name path v where spec: "spec = (kind, name, path, v)" by (metis prod_cases4)
  obtain found where "probe_file_identity device_queries path True = Inr found" using device_file by blast
  with spec show ?case using Cons [of ids] Cons [of "snd (alloc_next ids)"] by (auto simp: crf_try_def split: prod.split)
qed simp

lemma device_identity:
  assumes "cu_nvcc c \<noteq> []"
  shows "\<exists>identity. cuda_identity device_host c t request = Inr identity \<and> ti_toolkit_root identity = cu_root c"
proof -
  obtain cs where cs: "probe_components device_queries (\<lambda>path. path = [] \<or> \<not> th_is_regular_file device_host path)
      cuda_command_capabilities cuda_object_formats allocator_init (cuda_components c (cuda_version device_host c) t) = Inr cs"
    "CK_device_compiler \<in> set (map ci_kind cs)"
    using device_components [of "\<lambda>path. path = [] \<or> \<not> th_is_regular_file device_host path" cuda_command_capabilities
        cuda_object_formats allocator_init "cuda_components c (cuda_version device_host c) t"] assms
    by (auto simp: cuda_components_def)
  have "List.find (\<lambda>x. ci_kind x = CK_device_compiler) cs \<noteq> None" using cs(2) by (auto simp: find_None_iff)
  with cs(1) show ?thesis by (simp add: cuda_identity_def Let_def crf_try_def)
qed

definition device_vs_root :: string where
  "device_vs_root = ''C:/Program Files (x86)/Microsoft Visual Studio/2022/BuildTools''"

lemma device_vs_root_simps: "normalize_path_string id device_vs_root = device_vs_root"
    "normalize_path_string id (device_vs_root @ ''/VC/Tools/MSVC/v13/bin/Hostx64/x64'') = device_vs_root @ ''/VC/Tools/MSVC/v13/bin/Hostx64/x64''"
    "normalize_path_string id (device_vs_root @ ''/VC/Tools/MSVC/v13/bin/Hostx64/x64/cl.exe'') =
       device_vs_root @ ''/VC/Tools/MSVC/v13/bin/Hostx64/x64/cl.exe''"
    "CHR 0x00 \<notin> set device_vs_root" "length device_vs_root < 900"
  by code_simp+

lemma device_discovered: "\<exists>t. discover_msvc_toolset device_host = Inr t"
proof -
  have root: "th_normalize device_host device_vs_root = device_vs_root"
    by (simp add: device_paths_def sample_host_def device_vs_root_simps)
  let ?found = "(device_vs_root, device_vs_root @ ''/VC/Tools/MSVC/v13'', device_vs_root @ ''/VC/Tools/MSVC/v13/bin/Hostx64/x64'', ''v13'')"
  let ?t = "installed_toolset device_host ?found"
  have "first_some (toolset_under device_host) (candidate_vs_roots device_host) = Some ?found"
    unfolding candidate_vs_roots_def device_vs_root_def [symmetric] list.map(2) root
    by (simp add: toolset_under_def list_versions_def path_under_def device_paths_def sample_host_def Let_def)
  moreover have cl: "mt_cl ?t = device_vs_root @ ''/VC/Tools/MSVC/v13/bin/Hostx64/x64/cl.exe''" and sdk: "mt_sdk_version ?t = ''v13''"
    by (simp_all add: installed_toolset_def with_sdk_def sdk_under_def list_versions_def path_under_def device_paths_def
        sample_host_def Let_def device_vs_root_simps)
  moreover obtain banner where "probe_component_banner device_host (mt_cl ?t) [] = Inr banner" "extract_version banner ''Version'' = ''19''"
    using device_banner [of "mt_cl ?t"] device_vs_root_simps by (auto simp: cl)
  ultimately show ?thesis by (simp add: discover_msvc_toolset_def Let_def)
qed

lemma device_probed:
  obtains root where "root \<noteq> []" "\<And>request. pb_explicit_root request = [] \<or> pb_explicit_root request = root \<Longrightarrow>
    pb_toolkit_preference request = [] \<Longrightarrow>
    \<exists>identity. cuda_probe_toolchain device_host request = Inr identity \<and> ti_toolkit_root identity = root"
proof -
  obtain c where roots: "cuda_roots device_host \<noteq> []" and c: "cuda_installations device_host = [c]" "cu_nvcc c \<noteq> []" "cu_root c \<noteq> []"
    by (simp add: cuda_installations_def cuda_roots_def describe_installation_def path_under_def device_paths_def sample_host_def
        Let_def List.map_filter_def)
  obtain t where t: "discover_msvc_toolset device_host = Inr t" using device_discovered by blast
  have "\<exists>identity. cuda_probe_toolchain device_host request = Inr identity \<and> ti_toolkit_root identity = cu_root c"
    if "pb_explicit_root request = [] \<or> pb_explicit_root request = cu_root c" "pb_toolkit_preference request = []" for request
    using that roots c t device_identity [OF c(2), of t request]
    by (auto simp: cuda_probe_toolchain_def select_installation_def crf_try_def)
  with that c(3) show thesis by blast
qed

section \<open>Claims\<close>

text \<open>
  C32: a repeated probe of a detected device changes the identity it is to verify. When the architecture
  was asked of the driver, the repeated probe hands the recorded one in as if the caller had given it, so
  the attribute that tells where it comes from differs on an unchanged machine, and the toolchain is
  reported as mutated unless the digests of two different identities collide.
\<close>

theorem cuda_reprobe_changes_identity:
  assumes "cuda_probe_toolchain host request = Inr identity" "ts_device_arch (pb_target request) = []"
    "detect_device_arch host = Inr arch" "previous = identity\<lparr>ti_id := i, ti_generation := g\<rparr>"
    "cuda_reprobe_toolchain host' previous request' = Inr observed"
  shows "ti_attributes observed \<noteq> ti_attributes previous \<and>
    (tm_mutated (diff_toolchains ln previous observed) \<or>
     toolchain_canonical_digest ln previous = toolchain_canonical_digest ln observed)"
proof -
  obtain v c where first: "ti_attributes previous = cuda_attributes v (arch, ''nvidia-smi'', ''probed from the driver'') c"
    using probed_attributes [OF assms(1)] assms(2-4) by (auto simp: device_arch_of_def)
  then have "recorded_arch previous \<noteq> []" using recorded_arch_of detected_arch [OF assms(3)] by simp
  then have "fst (snd (device_arch_of host' (pinned_request previous request'))) = ''request''"
    using pinned_arch by (simp add: device_arch_of_def)
  then obtain v' c' arch' detail where "ti_attributes observed = cuda_attributes v' (arch', ''request'', detail) c'"
    using reprobed_attributes(2) [OF assms(5)] by (metis prod.collapse)
  then have "ti_attributes observed \<noteq> ti_attributes previous" using first changed_source by simp
  then show ?thesis
    using reprobed_attributes(1) [OF assms(5)] by (auto simp: diff_toolchains_def metadata_changed_def Let_def)
qed

theorem cuda_reprobe_changes_identity_witness:
  "\<exists>identity observed. cuda_probe_toolchain device_host device_request = Inr identity \<and>
    cuda_reprobe_toolchain device_host (identity\<lparr>ti_id := StrongId 1, ti_generation := gen_initial\<rparr>) device_request = Inr observed \<and>
    ti_attributes observed \<noteq> ti_attributes identity"
proof -
  obtain root where root: "root \<noteq> []" "\<And>request. pb_explicit_root request = [] \<or> pb_explicit_root request = root \<Longrightarrow>
      pb_toolkit_preference request = [] \<Longrightarrow>
      \<exists>identity. cuda_probe_toolchain device_host request = Inr identity \<and> ti_toolkit_root identity = root"
    using device_probed by blast
  obtain identity where first: "cuda_probe_toolchain device_host device_request = Inr identity" "ti_toolkit_root identity = root"
    using root(2) [of device_request] by (auto simp: device_request_def)
  let ?previous = "identity\<lparr>ti_id := StrongId 1, ti_generation := gen_initial\<rparr>"
  have "pb_explicit_root (pinned_request ?previous device_request) = root" "pb_toolkit_preference (pinned_request ?previous device_request) = []"
    using root(1) first(2) by (simp_all add: pinned_request_def device_request_def Let_def)
  then obtain observed where again: "cuda_reprobe_toolchain device_host ?previous device_request = Inr observed"
    using root(2) [of "pinned_request ?previous device_request"] by (auto simp: cuda_reprobe_toolchain_def crf_try_def)
  have "ts_device_arch (pb_target device_request) = []" by (simp add: device_request_def)
  from cuda_reprobe_changes_identity [OF first(1) this device_detected refl again] first(1) again show ?thesis by auto
qed

end
