(* ===== verification/Synthetic_Adapter.thy ===== *)
theory Synthetic_Adapter
  imports Cuda_Adapter
begin

text \<open>
  \<open>src/adapters/synthetic/synthetic_adapter.cpp\<close>: the adapter for families whose tools are not installed.
  It probes and resolves, marks everything as synthetic, and refuses whatever would need a tool.
\<close>

section \<open>The adapter\<close>

definition synthetic_describe :: "toolchain_family \<Rightarrow> string \<Rightarrow> adapter_descriptor" where
  "synthetic_describe family display_name = \<lparr>dsc_name = to_string_toolchain_family family @ ''-synthetic'',
     dsc_display_name = display_name, dsc_version = version_string, dsc_family = family,
     dsc_capabilities = or (capability_value AC_compile) (capability_value AC_link),
     dsc_implemented_phases = [], dsc_produced_formats = [], dsc_evidence_class = EC_synthetic\<rparr>"

definition synthetic_probe_toolchain :: "toolchain_family \<Rightarrow> string \<Rightarrow> probe_request \<Rightarrow> toolchain_identity result" where
  "synthetic_probe_toolchain family display_name request =
     Inr \<lparr>ti_id = id_absent, ti_generation = gen_absent, ti_family = family, ti_display_name = display_name,
       ti_version = ''modelled'', ti_components = [], ti_target_support = [AR_unknown, AR_x64, AR_arm64],
       ti_object_formats = [OF_elf, OF_metadata], ti_environment_contract = [], ti_toolkit_root = [], ti_sdk_root = [],
       ti_attributes = [variable ''toolchain.evidence'' ''modelled'', variable ''toolchain.real-tooling-present'' ''false''],
       ti_standard_library_identity = ''synthetic/'' @ to_string_toolchain_family family, ti_evidence_class = EC_synthetic,
       ti_evidence_digest = digest_builder [to_string_toolchain_family family, display_name, ts_triple (pb_target request)]\<rparr>"

definition synthetic_resolve_target :: "toolchain_identity \<Rightarrow> target_spec \<Rightarrow> target_spec result" where
  "synthetic_resolve_target toolchain requested =
     (let t1 = (if ts_architecture requested = AR_unknown then requested\<lparr>ts_architecture := AR_x64\<rparr> else requested);
          t2 = (if ts_os t1 = OS_unknown then t1\<lparr>ts_os := OS_linux_kernel\<rparr> else t1);
          t3 = (if ts_abi t2 = [] then t2\<lparr>ts_abi := ''modelled''\<rparr> else t2);
          t4 = (if ts_triple t3 = []
            then t3\<lparr>ts_triple := (if ts_architecture t3 = AR_arm64 then ''aarch64-unknown-linux-gnu'' else ''x86_64-unknown-linux-gnu'')\<rparr>
            else t3);
          t5 = (if ts_pointer_width_bits t4 = 0 then t4\<lparr>ts_pointer_width_bits := pointer_bits (ts_architecture t4)\<rparr> else t4)
      in crf_try (target_validate t5) (\<lambda>_. Inr t5))"

definition synthetic_build_plan :: "toolchain_family \<Rightarrow> plan_request \<Rightarrow> phase_plan result" where
  "synthetic_build_plan family request =
     Inl (Status SC_unsupported (''the synthetic adapter builds no executable phase plan; no real tooling for '' @
       to_string_toolchain_family family @ '' is installed''))"

definition synthetic_build_invocation :: "toolchain_family \<Rightarrow> execution_request \<Rightarrow> invocation_spec result" where
  "synthetic_build_invocation family request =
     Inl (Status SC_unsupported (''the synthetic adapter does not execute compiler processes; '' @
       to_string_toolchain_family family @ '' tooling is not installed on this machine''))"

definition synthetic_validate_outputs :: "output_validation_request \<Rightarrow> validation_evidence result" where
  "synthetic_validate_outputs request =
     Inl (Status SC_unsupported ''the synthetic adapter validates no outputs because it produces none'')"

text \<open>The operations it does not override are those of the base class.\<close>

definition make_synthetic_adapter :: "(string \<Rightarrow> string) \<Rightarrow> toolchain_family \<Rightarrow> string \<Rightarrow> compiler_adapter" where
  "make_synthetic_adapter lexically_normal family display_name =
     \<lparr>ad_describe = synthetic_describe family display_name, ad_probe_toolchain = synthetic_probe_toolchain family display_name,
      ad_reprobe_toolchain = default_reprobe_toolchain (synthetic_probe_toolchain family display_name),
      ad_resolve_target = synthetic_resolve_target, ad_build_plan = synthetic_build_plan family,
      ad_build_invocation = synthetic_build_invocation family, ad_parse_diagnostics = default_parse_diagnostics,
      ad_validate_outputs = synthetic_validate_outputs, ad_run_smoke_test = default_run_smoke_test,
      ad_is_deterministic_phase = (\<lambda>_. False), ad_compose_environment = default_compose_environment lexically_normal\<rparr>"

section \<open>What it answers\<close>

text \<open>
  A resolved target is complete: it names an architecture, an operating system, an interface, a triple and a
  width, and it keeps what the caller asked for.
\<close>

lemma synthetic_target_complete:
  assumes "synthetic_resolve_target toolchain requested = Inr t"
  shows "ts_architecture t \<noteq> AR_unknown" "ts_os t \<noteq> OS_unknown" "ts_abi t \<noteq> []" "ts_triple t \<noteq> []" "ts_pointer_width_bits t \<noteq> 0"
    and "ts_architecture requested \<noteq> AR_unknown \<Longrightarrow> ts_architecture t = ts_architecture requested"
    and "ts_triple requested \<noteq> [] \<Longrightarrow> ts_triple t = ts_triple requested"
proof -
  have pointer: "a \<noteq> AR_unknown \<Longrightarrow> pointer_bits a \<noteq> 0" for a by (cases a) simp_all
  note parts = assms [unfolded synthetic_resolve_target_def Let_def crf_try_Inr]
  show "ts_architecture t \<noteq> AR_unknown" "ts_os t \<noteq> OS_unknown" "ts_abi t \<noteq> []" "ts_triple t \<noteq> []"
    using parts by (auto split: if_splits)
  show "ts_pointer_width_bits t \<noteq> 0" using parts pointer by (auto split: if_splits)
  show "ts_architecture requested \<noteq> AR_unknown \<Longrightarrow> ts_architecture t = ts_architecture requested"
    "ts_triple requested \<noteq> [] \<Longrightarrow> ts_triple t = ts_triple requested"
    using parts by (auto split: if_splits)
qed

text \<open>A probe of a synthetic toolchain that is repeated for the same triple gives the same evidence.\<close>

lemma synthetic_reprobe_unchanged:
  assumes "synthetic_probe_toolchain family name request = Inr identity" "ts_triple (pb_target request') = ts_triple (pb_target request)"
    "id_present i" "previous = identity\<lparr>ti_id := i, ti_generation := g\<rparr>"
  shows "\<exists>observed. ad_reprobe_toolchain (make_synthetic_adapter ln family name) previous request' = Inr observed \<and>
    \<not> tm_mutated (diff_toolchains ln previous observed)"
proof -
  have "ad_reprobe_toolchain (make_synthetic_adapter ln family name) previous request' = Inr previous"
    using assms(1,2,4)
    by (auto simp: make_synthetic_adapter_def default_reprobe_toolchain_def synthetic_probe_toolchain_def crf_try_def)
  moreover have "\<not> tm_mutated (diff_toolchains ln previous previous)"
    using assms(3,4) by (simp add: diff_toolchains_def)
  ultimately show ?thesis by blast
qed

end
