(* ===== verification/Spec2Isabelle.thy ===== *)
theory Spec2Isabelle
  imports Strong_Id Status_Codes Canonical Digests Phase Authority Registry Policy Target Phase_Plan Artifact
    Provenance Environment Toolchain Session Recovery Diagnostics Workspace Invocation Process Adapter
    Runtime_State Runtime_Evolution Runtime_Execute Runtime_Commit Runtime_Control Runtime_Session Runtime_Safety
    Runtime_Progress Runtime_Claims Codec Session_Codec Authority_Codec Journal Journal_Recovery Runtime_Store
    Restart_Claims Auditor Protocol Messages Executor Worker Coordinator
    Object_Files Msvc_Toolset Msvc_Adapter Cuda_Adapter Synthetic_Adapter
begin

text \<open>
  A verification library for the Compiler Runtime Fabric: a runtime that governs compiler
  invocations so that an artifact counts as built only when a phase committed it under authority
  that still holds. Sources are under \<open>src/src/core\<close> with headers under \<open>src/include/crf\<close>.

  \<^bold>\<open>Parts and theories\<close>, in dependency order:
  \<^item> \<open>CRF_Prelude\<close>: collections of rewrite rules, hash maps as association lists behind the
    interface \<open>keyed_store\<close>, decimal text.
  \<^item> \<open>Strong_Id\<close>, \<open>Status_Codes\<close>, \<open>Canonical\<close>, \<open>Digests\<close>: identities, generations and allocators
    (\<open>strong_id.hpp\<close>), status codes and results (\<open>status.cpp\<close>), text, paths and canonical encodings
    behind the interface \<open>codec\<close> (\<open>canonical.cpp\<close>), SHA-256 and CRC-32C (\<open>digest.cpp\<close>).
  \<^item> \<open>Phase\<close>, \<open>Authority\<close>, \<open>Registry\<close>, \<open>Policy\<close>, \<open>Target\<close>, \<open>Phase_Plan\<close>: the lifecycle of a phase
    (\<open>phase.cpp\<close>), bound authority and leases (\<open>authority.cpp\<close>), the interning registries behind the
    interface \<open>monotone_generations\<close> (\<open>policy.cpp\<close>, \<open>target.cpp\<close>, \<open>environment.cpp\<close>), retry decisions
    (\<open>retry.cpp\<close>), sources (\<open>source.cpp\<close>), plans as directed acyclic graphs (\<open>phase_plan.cpp\<close>).
  \<^item> \<open>Artifact\<close>, \<open>Provenance\<close>, \<open>Environment\<close>, \<open>Toolchain\<close>, \<open>Session\<close>, \<open>Recovery\<close>, \<open>Diagnostics\<close>,
    \<open>Workspace\<close>, \<open>Invocation\<close>: the registries and services the runtime calls, each after the source
    file of its name (\<open>Provenance\<close> also holds \<open>evidence.cpp\<close>, \<open>Toolchain\<close> also \<open>component.cpp\<close>,
    \<open>Invocation\<close> also the process specification of \<open>process.hpp\<close>).
  \<^item> \<open>Process\<close>, \<open>Adapter\<close>: the supervisor of child processes (\<open>process.cpp\<close>) and the interface of
    compiler adapters with its registry (\<open>adapter.cpp\<close>).
  \<^item> \<open>Runtime_State\<close>, \<open>Runtime_Execute\<close>, \<open>Runtime_Commit\<close>, \<open>Runtime_Control\<close>, \<open>Runtime_Session\<close>: the
    runtime (\<open>runtime.cpp\<close>), its state and one function per critical section: reservation,
    preparation and launch, record of an execution, validation, commit; cancellation, retirement,
    fencing, adoption, recovery, toolchain registration, shutdown; creation of sessions, the run and
    the retry of a phase and the driver loop of a session.
  \<^item> \<open>Runtime_Evolution\<close>, \<open>Runtime_Safety\<close>, \<open>Runtime_Progress\<close>, \<open>Runtime_Claims\<close>: the preorder every
    critical section respects (interface \<open>evolution\<close>), the step relation \<open>runtime_step\<close> over all
    interleavings, the invariants of reachable runtimes, the progress of the driver, the claims.
  \<^item> \<open>Codec\<close>, \<open>Session_Codec\<close>, \<open>Authority_Codec\<close>, \<open>Journal\<close>: persistence (\<open>persistence.cpp\<close>), the bounded
    encoder and decoder, the codec of every stored entity with its round trip, the journal, the store
    and the snapshot file over a disk that may take only a part of a write.
  \<^item> \<open>Journal_Recovery\<close>, \<open>Runtime_Store\<close>, \<open>Restart_Claims\<close>: the store refines an append-only log that
    survives crashes (interface \<open>durable_log\<close>); the session bundle, the append of a session, the
    creation of a runtime with the replay of its journal and the snapshot (\<open>runtime.cpp\<close>); the claims
    on a restart.
  \<^item> \<open>Auditor\<close>: the auditor (\<open>audit.cpp\<close>), what its clean report implies for a runtime and which
    violations no reachable runtime has.
  \<^item> \<open>Protocol\<close>, \<open>Messages\<close>: the inter-process protocol (\<open>src/src/ipc\<close>), frames, fields, the replay
    window and the exchange of a request (\<open>protocol.cpp\<close>) over the bytes that arrive; the payload of
    every message (\<open>messages.cpp\<close>) behind the interface \<open>wire_codec\<close>, with its round trip.
  \<^item> \<open>Executor\<close>, \<open>Worker\<close>, \<open>Coordinator\<close>: who runs a phase. The executor of a runtime in its own process
    (\<open>LocalPhaseExecutor\<close> in \<open>runtime.cpp\<close>); the worker with its loop, the channel between two peers
    and the executor on a worker; the handler of the coordinator for every message (\<open>service.cpp\<close>).
    A request is a function of the message and the state, so the executor on a worker is stated over any
    peer and used with the handler of the worker itself.
  \<^item> \<open>Object_Files\<close>, \<open>Msvc_Toolset\<close>, \<open>Msvc_Adapter\<close>, \<open>Cuda_Adapter\<close>, \<open>Synthetic_Adapter\<close>: the compiler
    adapters (\<open>src/src/adapters\<close>), the reader of PE and COFF headers with the exception it can raise
    (\<open>pe_coff.cpp\<close>), the discovery of an installed toolset (\<open>msvc_env.cpp\<close>), and identity, target, plan,
    invocations and output checks of each adapter. What directories hold and tools print are answers of
    a \<open>toolset_host\<close>. The plans are shown acceptable by the exact condition of \<open>Phase_Plan\<close>.

  \<^bold>\<open>Correspondence.\<close> A class with state is a record, a method that changes it a function to the new
  state and its result; \<open>Result<T>\<close> is \<open>status + 'a\<close> with the refusal on the left. Machine integers
  are words of their width. \<open>std::unordered_map\<close> is an association list; where the code sorts the
  result of an iteration the order of the list is not observable. The clock is an argument. The path
  grammar of \<open>std::filesystem\<close>, the file system's answers and the ambient environment are parameters
  (\<open>host_paths\<close>, \<open>host_fs\<close>, \<open>file_queries\<close>, \<open>path_ops\<close>); the Windows build is the one modelled.

  \<^bold>\<open>Loops.\<close> Structural recursion wherever the code iterates over a container. The worklists of
  \<open>transitive_dependencies\<close> and \<open>trace_lineage\<close> and the topological sort carry fuel, and theorems
  show that the fuel given is always enough. The scan of a journal terminates because every record
  moves the cursor.

  \<^bold>\<open>Persistence.\<close> The runtime's own theories know the store by its answers (\<open>rh_append\<close>) and by the
  list of sessions it accepted; \<open>Runtime_Store\<close> gives the append its bytes (\<open>store_persist\<close>) and reads
  them back. An enumerator that the code casts from a stored number without a check is a parameter
  (\<open>stray_casts\<close>, and \<open>wire_casts\<close> for the messages).

  \<^bold>\<open>Not modelled.\<close> The sockets, the listener and the accept loop of the inter-process protocol, the
  explanations and \<open>describe\<close> of a runtime (text for a person), the command-line tools, and what the
  destructor of a runtime writes whose creation failed.

  \<^bold>\<open>Claims.\<close> Each theory ends with its claims, numbered C1, C2 and so on, with a witness at a
  concrete input for each claim that has hypotheses.
\<close>

end
